(* ===== verification/Prelude.thy ===== *)
theory Prelude
  imports Main
begin

text \<open>
  What every component theory of the payment gateway shares: Go's fixed-width
  conversions, decimal printing (\<open>strconv.Itoa\<close>, the \<open>%d\<close> verb), calls that
  return \<open>(value, err)\<close> as state transformers, the faults a remote call can suffer,
  and the weakest-precondition calculus the service proofs run on. The last section
  holds the lemmas on tables (lists of rows updated by an SQL \<open>UPDATE ... WHERE\<close>).
\<close>

named_theorems table_simps \<open>rewrite rules for tables kept as lists of rows\<close>
named_theorems wp_simps \<open>weakest preconditions of the combinators\<close>

section \<open>Fixed-width integers\<close>

text \<open>
  A Go \<open>int\<close>, \<open>int64\<close> or an SQL \<open>BIGINT\<close> is an \<open>int\<close> in the signed 64-bit
  range; an \<open>int32\<close> is one in the signed 32-bit range. A Go conversion truncates
  (two's complement), an SQL expression out of range is an error instead.
\<close>

definition go_int32 :: "int \<Rightarrow> int" where
  "go_int32 x = signed_take_bit 31 x"

definition go_int64 :: "int \<Rightarrow> int" where
  "go_int64 x = signed_take_bit 63 x"

definition fits_int32 :: "int \<Rightarrow> bool" where
  "fits_int32 x \<longleftrightarrow> - 2147483648 \<le> x \<and> x < 2147483648"

definition fits_int64 :: "int \<Rightarrow> bool" where
  "fits_int64 x \<longleftrightarrow> - 9223372036854775808 \<le> x \<and> x < 9223372036854775808"

lemma go_int32_fits [simp]: "fits_int32 x \<Longrightarrow> go_int32 x = x"
  by (simp add: go_int32_def fits_int32_def signed_take_bit_int_eq_self)

lemma go_int64_fits [simp]: "fits_int64 x \<Longrightarrow> go_int64 x = x"
  by (simp add: go_int64_def fits_int64_def signed_take_bit_int_eq_self)

lemma go_int64_range: "fits_int64 (go_int64 x)"
  using signed_take_bit_int_greater_eq_minus_exp [of 63 x] signed_take_bit_int_less_exp [of 63 x]
  by (simp add: go_int64_def fits_int64_def)

lemma go_int32_range: "fits_int32 (go_int32 x)"
  using signed_take_bit_int_greater_eq_minus_exp [of 31 x] signed_take_bit_int_less_exp [of 31 x]
  by (simp add: go_int32_def fits_int32_def)

text \<open>\<open>time.Duration\<close> and instants are nanoseconds.\<close>

definition second :: int where
  "second = 1000000000"

definition minute :: int where
  "minute = 60 * second"

definition hour :: int where
  "hour = 60 * minute"

lemmas time_defs = second_def minute_def hour_def

section \<open>Decimal printing\<close>

definition digit_char :: "nat \<Rightarrow> char" where
  "digit_char d = char_of (48 + d)"

fun nat_digits :: "nat \<Rightarrow> string" where
  "nat_digits n = (if n < 10 then [digit_char n] else nat_digits (n div 10) @ [digit_char (n mod 10)])"

declare nat_digits.simps [simp del]

definition itoa :: "int \<Rightarrow> string" where
  "itoa i = (if i < 0 then CHR ''-'' # nat_digits (nat (- i)) else nat_digits (nat i))"

text \<open>
  The same digits by integer division, which is what evaluation uses: arithmetic on \<open>nat\<close>
  is unary there.
\<close>

function int_digits :: "int \<Rightarrow> string" where
  "int_digits i =
     (if i < 10 then [digit_char (nat i)] else int_digits (i div 10) @ [digit_char (nat (i mod 10))])"
  by auto
termination by (relation "measure nat") auto

declare int_digits.simps [simp del]

lemma int_digits_nat: "0 \<le> i \<Longrightarrow> int_digits i = nat_digits (nat i)"
proof (induction i rule: int_digits.induct)
  case (1 i)
  show ?case
  proof (cases "i < 10")
    case True
    with "1.prems" have "nat i < 10" by simp
    with True show ?thesis by (simp add: int_digits.simps [of i] nat_digits.simps [of "nat i"])
  next
    case False
    then have "\<not> nat i < 10" "int_digits (i div 10) = nat_digits (nat i div 10)"
      using "1.IH" by (simp_all add: nat_div_distrib)
    with False show ?thesis
      by (simp add: int_digits.simps [of i] nat_digits.simps [of "nat i"] nat_mod_distrib)
  qed
qed

lemma itoa_code [code]: "itoa i = (if i < 0 then CHR ''-'' # int_digits (- i) else int_digits i)"
  by (simp add: itoa_def int_digits_nat)

lemma digit_char_inj: "a < 10 \<Longrightarrow> b < 10 \<Longrightarrow> digit_char a = digit_char b \<Longrightarrow> a = b"
proof -
  assume ab: "a < 10" "b < 10" and "digit_char a = digit_char b"
  then have "(of_char (char_of (48 + a) :: char) :: nat) = of_char (char_of (48 + b) :: char)"
    by (simp add: digit_char_def)
  with ab show "a = b" by simp
qed

lemma digit_char_range: "d < 10 \<Longrightarrow> of_char (digit_char d) = 48 + d"
  by (simp add: digit_char_def)

lemma nat_digits_nonempty [simp]: "nat_digits n \<noteq> []"
  by (subst nat_digits.simps) simp

lemma nat_digits_chars: "c \<in> set (nat_digits n) \<Longrightarrow> \<exists>d<10. c = digit_char d"
proof (induction n rule: nat_digits.induct)
  case (1 n)
  show ?case
  proof (cases "n < 10")
    case True
    with "1.prems" show ?thesis by (subst (asm) nat_digits.simps) auto
  next
    case False
    with "1.prems" have "c \<in> set (nat_digits (n div 10)) \<or> c = digit_char (n mod 10)"
      by (subst (asm) nat_digits.simps) auto
    then show ?thesis
    proof
      assume "c \<in> set (nat_digits (n div 10))"
      with False show ?thesis by (rule "1.IH")
    next
      assume "c = digit_char (n mod 10)"
      moreover have "n mod 10 < 10" by simp
      ultimately show ?thesis by blast
    qed
  qed
qed

lemma nat_digits_length: "length (nat_digits n) = 1 \<longleftrightarrow> n < 10"
  by (subst nat_digits.simps) simp

lemma nat_digits_inj: "nat_digits a = nat_digits b \<Longrightarrow> a = b"
proof (induction a arbitrary: b rule: nat_digits.induct)
  case (1 a)
  have len: "a < 10 \<longleftrightarrow> b < 10"
    using "1.prems" nat_digits_length [of a] nat_digits_length [of b] by simp
  show ?case
  proof (cases "a < 10")
    case True
    with len "1.prems" have "digit_char a = digit_char b"
      by (simp add: nat_digits.simps [of a] nat_digits.simps [of b])
    with True len show ?thesis by (auto intro: digit_char_inj)
  next
    case False
    with len "1.prems" have eq: "nat_digits (a div 10) = nat_digits (b div 10)"
        "digit_char (a mod 10) = digit_char (b mod 10)"
      by (simp_all add: nat_digits.simps [of a] nat_digits.simps [of b])
    from False eq(1) have "a div 10 = b div 10" by (rule "1.IH")
    moreover from eq(2) have "a mod 10 = b mod 10"
      by (auto intro: digit_char_inj)
    ultimately show ?thesis by (metis div_mult_mod_eq)
  qed
qed

lemma digit_char_not_minus: "d < 10 \<Longrightarrow> digit_char d \<noteq> CHR ''-''"
proof
  assume d: "d < 10" and "digit_char d = CHR ''-''"
  then have "(of_char (digit_char d) :: nat) = of_char (CHR ''-'')" by simp
  with d show False by (simp add: digit_char_range)
qed

lemma digit_char_not_colon: "d < 10 \<Longrightarrow> digit_char d \<noteq> CHR '':''"
proof
  assume d: "d < 10" and "digit_char d = CHR '':''"
  then have "(of_char (digit_char d) :: nat) = of_char (CHR '':'')" by simp
  with d show False by (simp add: digit_char_range)
qed

lemma nat_digits_hd: "hd (nat_digits n) \<noteq> CHR ''-''"
proof -
  obtain d where "d < 10" "hd (nat_digits n) = digit_char d"
    using nat_digits_chars [of "hd (nat_digits n)" n] by auto
  then show ?thesis by (simp add: digit_char_not_minus)
qed

lemma itoa_inj: "itoa a = itoa b \<Longrightarrow> a = b"
proof -
  assume eq: "itoa a = itoa b"
  have neg: "i < 0 \<longleftrightarrow> hd (itoa i) = CHR ''-''" for i
    by (simp add: itoa_def nat_digits_hd)
  with eq have sgn: "a < 0 \<longleftrightarrow> b < 0" by metis
  show "a = b"
  proof (cases "a < 0")
    case True
    with eq sgn have "nat (- a) = nat (- b)" by (auto simp: itoa_def dest: nat_digits_inj)
    with True sgn show ?thesis by simp
  next
    case False
    with eq sgn have "nat a = nat b" by (auto simp: itoa_def dest: nat_digits_inj)
    with False sgn show ?thesis by simp
  qed
qed

lemma itoa_eq [simp]: "itoa a = itoa b \<longleftrightarrow> a = b"
  by (auto dest: itoa_inj)

lemma itoa_no_colon: "CHR '':'' \<notin> set (itoa i)"
proof
  assume "CHR '':'' \<in> set (itoa i)"
  then obtain n where "CHR '':'' \<in> set (nat_digits n)"
    by (auto simp: itoa_def split: if_splits)
  then obtain d where "d < 10" "CHR '':'' = digit_char d"
    by (blast dest: nat_digits_chars)
  then show False using digit_char_not_colon by metis
qed

text \<open>
  Operation identities have the shape \<open>itoa id @ '':'' @ suffix\<close>; both halves can be
  read back because a printed number holds no colon.
\<close>

lemma itoa_colon_inject [simp]:
  "itoa a @ CHR '':'' # s = itoa b @ CHR '':'' # t \<longleftrightarrow> a = b \<and> s = t"
proof
  assume eq: "itoa a @ CHR '':'' # s = itoa b @ CHR '':'' # t"
  have tw: "takeWhile (\<lambda>c. c \<noteq> CHR '':'') (itoa i @ CHR '':'' # r) = itoa i" for i r
    using itoa_no_colon [of i] by (subst takeWhile_append2) auto
  from arg_cong [OF eq, where f = "takeWhile (\<lambda>c. c \<noteq> CHR '':'')"] have "itoa a = itoa b"
    by (simp only: tw)
  with eq show "a = b \<and> s = t" by simp
qed simp

lemma nat_digits_bound: "n < 10 ^ Suc k \<Longrightarrow> length (nat_digits n) \<le> Suc k"
proof (induction k arbitrary: n)
  case 0
  then show ?case by (simp add: nat_digits.simps [of n])
next
  case (Suc k)
  then have "n div 10 < 10 ^ Suc k" by (simp add: less_mult_imp_div_less)
  then have "length (nat_digits (n div 10)) \<le> Suc k" by (rule Suc.IH)
  then show ?case by (simp add: nat_digits.simps [of n])
qed

lemma itoa_length_int32: "fits_int32 i \<Longrightarrow> length (itoa i) \<le> 11"
proof -
  assume "fits_int32 i"
  then have "nat i < 10 ^ Suc 9" "nat (- i) < 10 ^ Suc 9" by (auto simp: fits_int32_def)
  from this [THEN nat_digits_bound] show "length (itoa i) \<le> 11" by (simp add: itoa_def)
qed

section \<open>Calls and faults\<close>

text \<open>
  A Go function that returns \<open>(value, err)\<close> and works on a store \<open>'s\<close> is a function
  from the store to a result and a new store; \<open>Inl e\<close> is a non-nil error. The
  combinators follow the code's control flow: \<open>try_or m h k\<close> is
  \<^verbatim>\<open>x, err := m(); if err != nil { h } ; k\<close>, and \<open>and_then m k\<close> runs \<open>k\<close> on whatever
  \<open>m\<close> returned, as \<^verbatim>\<open>_, _ = m()\<close> and the calls that inspect the pair do.
\<close>

type_synonym ('e, 'a, 's) op = "'s \<Rightarrow> ('e + 'a) \<times> 's"

definition ret :: "'r \<Rightarrow> 's \<Rightarrow> 'r \<times> 's" where
  "ret r s = (r, s)"

definition and_then :: "('s \<Rightarrow> 'a \<times> 's) \<Rightarrow> ('a \<Rightarrow> 's \<Rightarrow> 'r \<times> 's) \<Rightarrow> 's \<Rightarrow> 'r \<times> 's" where
  "and_then m k s = (case m s of (r, s') \<Rightarrow> k r s')"

definition try_or ::
  "('e, 'a, 's) op \<Rightarrow> ('e \<Rightarrow> 's \<Rightarrow> 'r \<times> 's) \<Rightarrow> ('a \<Rightarrow> 's \<Rightarrow> 'r \<times> 's) \<Rightarrow> 's \<Rightarrow> 'r \<times> 's" where
  "try_or m h k s = (case m s of (Inl e, s') \<Rightarrow> h e s' | (Inr x, s') \<Rightarrow> k x s')"

text \<open>An operation of one component of a larger store, through its selector and update.\<close>

definition zoom :: "('w \<Rightarrow> 's) \<Rightarrow> ('s \<Rightarrow> 'w \<Rightarrow> 'w) \<Rightarrow> ('s \<Rightarrow> 'r \<times> 's) \<Rightarrow> 'w \<Rightarrow> 'r \<times> 'w" where
  "zoom get put m w = (case m (get w) of (r, s') \<Rightarrow> (r, put s' w))"

text \<open>
  What can happen to a remote call: it is delivered; it is refused before it has any
  effect (the circuit is open, the bulkhead is full, the connection is refused); or it
  takes effect at the callee and the reply is lost, so the caller sees an error
  although the work is done (a deadline that expires after the commit).
\<close>

datatype 'e fault = Deliver | Refuse 'e | Lose 'e

definition with_fault :: "'e fault \<Rightarrow> ('e, 'a, 's) op \<Rightarrow> ('e, 'a, 's) op" where
  "with_fault f m s =
     (case f of
        Deliver \<Rightarrow> m s
      | Refuse e \<Rightarrow> (Inl e, s)
      | Lose e \<Rightarrow> (Inl e, snd (m s)))"

section \<open>Weakest preconditions\<close>

definition wp :: "('s \<Rightarrow> 'r \<times> 's) \<Rightarrow> ('r \<Rightarrow> 's \<Rightarrow> bool) \<Rightarrow> 's \<Rightarrow> bool" where
  "wp m Q s \<longleftrightarrow> (case m s of (r, s') \<Rightarrow> Q r s')"

lemma wp_ret [wp_simps]: "wp (ret r) Q s \<longleftrightarrow> Q r s"
  by (simp add: wp_def ret_def)

lemma wp_and_then [wp_simps]: "wp (and_then m k) Q s \<longleftrightarrow> wp m (\<lambda>r. wp (k r) Q) s"
  by (simp add: wp_def and_then_def split: prod.splits)

lemma wp_try_or [wp_simps]:
  "wp (try_or m h k) Q s \<longleftrightarrow> wp m (\<lambda>r. case r of Inl e \<Rightarrow> wp (h e) Q | Inr x \<Rightarrow> wp (k x) Q) s"
  by (simp add: wp_def try_or_def split: prod.splits sum.splits)

lemma wp_zoom [wp_simps]: "wp (zoom get put m) Q w \<longleftrightarrow> wp m (\<lambda>r s'. Q r (put s' w)) (get w)"
  by (simp add: wp_def zoom_def split: prod.splits)

lemma wp_with_fault [wp_simps]:
  "wp (with_fault f m) Q s \<longleftrightarrow>
     (case f of
        Deliver \<Rightarrow> wp m Q s
      | Refuse e \<Rightarrow> Q (Inl e) s
      | Lose e \<Rightarrow> wp m (\<lambda>_. Q (Inl e)) s)"
  by (simp add: wp_def with_fault_def split: fault.splits prod.splits)

lemma wp_if [wp_simps]: "wp (if b then m else m') Q s \<longleftrightarrow> (if b then wp m Q s else wp m' Q s)"
  by simp

lemma wp_eval: "m s = (r, s') \<Longrightarrow> wp m Q s \<longleftrightarrow> Q r s'"
  by (simp add: wp_def)

lemma wp_run: "wp m Q s \<longleftrightarrow> Q (fst (m s)) (snd (m s))"
  by (simp add: wp_def split: prod.splits)

lemma wpD: "wp m Q s \<Longrightarrow> m s = (r, s') \<Longrightarrow> Q r s'"
  by (simp add: wp_def)

lemma wp_weaken: "wp m Q s \<Longrightarrow> (\<And>r s'. m s = (r, s') \<Longrightarrow> Q r s' \<Longrightarrow> Q' r s') \<Longrightarrow> wp m Q' s"
  by (simp add: wp_def split: prod.splits)

lemma wp_conj: "wp m (\<lambda>r s. P r s \<and> Q r s) s \<longleftrightarrow> wp m P s \<and> wp m Q s"
  by (auto simp: wp_def split: prod.splits)

section \<open>Tables as lists of rows\<close>

definition update_where :: "('a \<Rightarrow> bool) \<Rightarrow> ('a \<Rightarrow> 'a) \<Rightarrow> 'a list \<Rightarrow> 'a list" where
  "update_where p f xs = map (\<lambda>x. if p x then f x else x) xs"

lemma update_where_simps [table_simps]:
  "update_where p f [] = []"
  "update_where p f (x # xs) = (if p x then f x else x) # update_where p f xs"
  by (simp_all add: update_where_def)

lemma update_where_none [table_simps]: "\<forall>x \<in> set xs. \<not> p x \<Longrightarrow> update_where p f xs = xs"
  by (auto simp: update_where_def intro: map_idI)

lemma length_update_where [simp]: "length (update_where p f xs) = length xs"
  by (simp add: update_where_def)

lemma map_update_where: "(\<And>x. g (f x) = g x) \<Longrightarrow> map g (update_where p f xs) = map g xs"
  by (simp add: update_where_def)

lemma set_update_where:
  "set (update_where p f xs) = f ` {x \<in> set xs. p x} \<union> {x \<in> set xs. \<not> p x}"
  by (auto simp: update_where_def)

lemma update_where_mem: "x \<in> set xs \<Longrightarrow> (if p x then f x else x) \<in> set (update_where p f xs)"
  by (auto simp: update_where_def)

lemma find_Some_mem: "find p xs = Some x \<Longrightarrow> x \<in> set xs \<and> p x"
  by (induction xs) (auto split: if_splits)

lemma find_update_where_same:
  "(\<And>x. p x \<Longrightarrow> q (f x) = q x) \<Longrightarrow>
   find q (update_where p f xs) = map_option (\<lambda>x. if p x then f x else x) (find q xs)"
  by (induction xs) (auto simp: update_where_simps)

lemma find_append: "find p (xs @ ys) = (case find p xs of None \<Rightarrow> find p ys | Some x \<Rightarrow> Some x)"
  by (induction xs) auto

lemma find_None_append: "find p xs = None \<Longrightarrow> find p (xs @ ys) = find p ys"
  by (simp add: find_append)

lemma distinct_map_filter_Cons:
  "distinct (map g (filter p (x # xs))) \<Longrightarrow> distinct (map g (filter p xs))"
  by (auto split: if_splits)

lemma in_update_where: "y \<in> set (update_where p f xs) \<Longrightarrow> \<exists>x \<in> set xs. y = (if p x then f x else x)"
  by (auto simp: update_where_def)

text \<open>The row with the key \<open>i\<close> gets the value \<open>v\<close>, which no other row has.\<close>

lemma distinct_update_key:
  assumes "distinct (map k xs)" "distinct (map g xs)" "\<And>x. x \<in> set xs \<Longrightarrow> k x \<noteq> i \<Longrightarrow> g x \<noteq> v"
    "\<And>x. g (f x) = v" "\<And>x. p x \<Longrightarrow> k x = i"
  shows "distinct (map g (update_where p f xs))"
  using assms(1-3)
proof (induction xs)
  case (Cons x xs)
  have tail: "distinct (map g (update_where p f xs))" using Cons by simp
  have "g y \<noteq> (if p x then v else g x)" if y: "y \<in> set (update_where p f xs)" for y
  proof -
    obtain z where z: "z \<in> set xs" "y = (if p z then f z else z)" using in_update_where [OF y] by blast
    have "k z \<noteq> k x" "g z \<noteq> g x" using z(1) Cons.prems(1,2) by (auto simp: rev_image_eqI)
    then show ?thesis using z assms(4,5) Cons.prems(3) [of x] Cons.prems(3) [of z] by auto
  qed
  then have "(if p x then v else g x) \<notin> g ` set (update_where p f xs)" by (metis (no_types, lifting) imageE)
  then show ?case using tail assms(4) by (simp add: update_where_simps split: if_splits)
qed (simp add: update_where_simps)

section \<open>Invariants of operations\<close>

definition keeps :: "('s \<Rightarrow> bool) \<Rightarrow> ('s \<Rightarrow> 'r \<times> 's) \<Rightarrow> bool" where
  "keeps P m \<longleftrightarrow> (\<forall>s. P s \<longrightarrow> P (snd (m s)))"

lemma keepsI [intro]: "(\<And>s. P s \<Longrightarrow> P (snd (m s))) \<Longrightarrow> keeps P m"
  by (simp add: keeps_def)

lemma keepsD: "keeps P m \<Longrightarrow> P s \<Longrightarrow> P (snd (m s))"
  by (simp add: keeps_def)

lemma keeps_ret [simp]: "keeps P (ret r)"
  by (simp add: keeps_def ret_def)

lemma keeps_with_fault: "keeps P m \<Longrightarrow> keeps P (with_fault fl m)"
  by (auto simp: keeps_def with_fault_def split: fault.splits)

lemma keeps_try_or: "keeps P m \<Longrightarrow> (\<And>e. keeps P (h e)) \<Longrightarrow> (\<And>x. keeps P (k x)) \<Longrightarrow> keeps P (try_or m h k)"
  by (fastforce simp: keeps_def try_or_def split: prod.splits sum.splits)

end
