(* ===== verification/Errors.thy ===== *)
theory Errors
  imports Prelude
begin

text \<open>
  The error values of the services (\<open>shared/errors\<close>): the application error with its
  sentinels and constructors, the chain a Go \<open>error\<close> can form, the two HTTP/gRPC code
  tables and the translation of an error at a service's edge (\<open>ToGrpcError\<close>) and back
  in its caller (\<open>ParseGrpcError\<close>, \<open>HandleApiError\<close>).
\<close>

section \<open>Error values\<close>

text \<open>The status codes of the gRPC library that the code names.\<close>

datatype grpc_code =
    CodesOK | CodesCanceled | CodesUnknown | CodesInvalidArgument | CodesDeadlineExceeded
  | CodesNotFound | CodesAlreadyExists | CodesPermissionDenied | CodesResourceExhausted
  | CodesFailedPrecondition | CodesAborted | CodesOutOfRange | CodesUnimplemented
  | CodesInternal | CodesUnavailable | CodesDataLoss | CodesUnauthenticated

type_synonym error_type = string

definition ErrorTypeInternal :: error_type where "ErrorTypeInternal = ''INTERNAL''"

definition ErrorTypeNotFound :: error_type where "ErrorTypeNotFound = ''NOT_FOUND''"

definition ErrorTypeBadRequest :: error_type where "ErrorTypeBadRequest = ''BAD_REQUEST''"

definition ErrorTypeConflict :: error_type where "ErrorTypeConflict = ''CONFLICT''"

definition ErrorTypeUnauthorized :: error_type where "ErrorTypeUnauthorized = ''UNAUTHORIZED''"

definition ErrorTypeForbidden :: error_type where "ErrorTypeForbidden = ''FORBIDDEN''"

definition ErrorTypeTimeout :: error_type where "ErrorTypeTimeout = ''TIMEOUT''"

definition ErrorTypeUnavailable :: error_type where "ErrorTypeUnavailable = ''UNAVAILABLE''"

lemmas error_type_defs =
  ErrorTypeInternal_def ErrorTypeNotFound_def ErrorTypeBadRequest_def ErrorTypeConflict_def
  ErrorTypeUnauthorized_def ErrorTypeForbidden_def ErrorTypeTimeout_def ErrorTypeUnavailable_def

text \<open>
  A Go \<open>error\<close>: an \<open>AppError\<close> (type, HTTP code, message, retryable flag,
  validation list and wrapped internal error); the driver's \<open>pgx.ErrNoRows\<close> (which
  wraps \<open>sql.ErrNoRows\<close>); any other driver error; \<open>errors.New\<close>; \<open>fmt.Errorf\<close>
  with \<open>%w\<close>; a gRPC status with its optional \<open>ErrorResponse\<close> detail (status, message,
  code); and a run-time panic on its way to the recovery interceptor.
\<close>

datatype go_error =
    AppError error_type int string bool "(string \<times> string) list" "go_error option"
  | ErrNoRows
  | DbError string
  | ErrorString string
  | Wrapped string go_error
  | StatusError grpc_code string "(string \<times> string \<times> int) option"
  | Panicked string

text \<open>\<open>errors.As(err, &appErr)\<close>: the first application error along the chain.\<close>

fun as_app_error :: "go_error \<Rightarrow> go_error option" where
  "as_app_error (AppError t c m r v i) = Some (AppError t c m r v i)"
| "as_app_error (Wrapped _ e) = as_app_error e"
| "as_app_error _ = None"

text \<open>\<open>errors.Is(err, ErrNoRows)\<close>: the chain is followed through \<open>Unwrap\<close>.\<close>

fun is_no_rows :: "go_error \<Rightarrow> bool" where
  "is_no_rows ErrNoRows = True"
| "is_no_rows (Wrapped _ e) = is_no_rows e"
| "is_no_rows (AppError t c m r v (Some i)) = is_no_rows i"
| "is_no_rows _ = False"

text \<open>A driver error by its SQLSTATE; \<open>23505\<close> is a violated UNIQUE constraint.\<close>

definition is_unique_violation :: "go_error \<Rightarrow> bool" where
  "is_unique_violation e \<longleftrightarrow> e = DbError ''23505''"

text \<open>\<open>(*AppError).Is\<close>: two application errors are the same when type and message agree.\<close>

fun app_error_is :: "go_error \<Rightarrow> go_error \<Rightarrow> bool" where
  "app_error_is (AppError t c m r v i) (AppError t' c' m' r' v' i') \<longleftrightarrow> t = t' \<and> m = m'"
| "app_error_is _ _ \<longleftrightarrow> False"

text \<open>\<open>errors.Is(err, target)\<close> for an application error as target: the chain is followed.\<close>

fun errors_is :: "go_error \<Rightarrow> go_error \<Rightarrow> bool" where
  "errors_is (AppError t c m r v (Some i)) target \<longleftrightarrow>
     app_error_is (AppError t c m r v (Some i)) target \<or> errors_is i target"
| "errors_is (AppError t c m r v None) target \<longleftrightarrow> app_error_is (AppError t c m r v None) target"
| "errors_is (Wrapped _ e) target \<longleftrightarrow> errors_is e target"
| "errors_is _ target \<longleftrightarrow> False"

fun with_internal :: "go_error \<Rightarrow> go_error \<Rightarrow> go_error" where
  "with_internal (AppError t c m r v _) err = AppError t c m r v (Some err)"
| "with_internal e _ = e"

fun with_message :: "go_error \<Rightarrow> string \<Rightarrow> go_error" where
  "with_message (AppError t c _ r v i) message = AppError t c message r v i"
| "with_message e _ = e"

fun as_retryable :: "go_error \<Rightarrow> go_error" where
  "as_retryable (AppError t c m _ v i) = AppError t c m True v i"
| "as_retryable e = e"

fun app_type :: "go_error \<Rightarrow> error_type" where
  "app_type (AppError t _ _ _ _ _) = t"
| "app_type _ = []"

fun app_code :: "go_error \<Rightarrow> int" where
  "app_code (AppError _ c _ _ _ _) = c"
| "app_code _ = 0"

text \<open>\<open>err.Error()\<close>, with the names \<open>codes.Code.String\<close> gives.\<close>

fun grpc_code_name :: "grpc_code \<Rightarrow> string" where
  "grpc_code_name CodesOK = ''OK''"
| "grpc_code_name CodesCanceled = ''Canceled''"
| "grpc_code_name CodesUnknown = ''Unknown''"
| "grpc_code_name CodesInvalidArgument = ''InvalidArgument''"
| "grpc_code_name CodesDeadlineExceeded = ''DeadlineExceeded''"
| "grpc_code_name CodesNotFound = ''NotFound''"
| "grpc_code_name CodesAlreadyExists = ''AlreadyExists''"
| "grpc_code_name CodesPermissionDenied = ''PermissionDenied''"
| "grpc_code_name CodesResourceExhausted = ''ResourceExhausted''"
| "grpc_code_name CodesFailedPrecondition = ''FailedPrecondition''"
| "grpc_code_name CodesAborted = ''Aborted''"
| "grpc_code_name CodesOutOfRange = ''OutOfRange''"
| "grpc_code_name CodesUnimplemented = ''Unimplemented''"
| "grpc_code_name CodesInternal = ''Internal''"
| "grpc_code_name CodesUnavailable = ''Unavailable''"
| "grpc_code_name CodesDataLoss = ''DataLoss''"
| "grpc_code_name CodesUnauthenticated = ''Unauthenticated''"

fun error_text :: "go_error \<Rightarrow> string" where
  "error_text (AppError t c m r v (Some i)) = ''['' @ t @ ''] '' @ m @ '': '' @ error_text i"
| "error_text (AppError t c m r v None) = ''['' @ t @ ''] '' @ m"
| "error_text ErrNoRows = ''no rows in result set''"
| "error_text (DbError m) = m"
| "error_text (ErrorString m) = m"
| "error_text (Wrapped m e) = error_text e @ '': '' @ m"
| "error_text (StatusError c m d) = ''rpc error: code = '' @ grpc_code_name c @ '' desc = '' @ m"
| "error_text (Panicked m) = m"

section \<open>Sentinels and constructors\<close>

definition ErrBadRequest :: go_error where
  "ErrBadRequest = AppError ErrorTypeBadRequest 400 ''Bad request'' False [] None"

definition ErrValidationFailed :: go_error where
  "ErrValidationFailed = AppError ErrorTypeBadRequest 400 ''Validation failed'' False [] None"

definition ErrUnauthorized :: go_error where
  "ErrUnauthorized = AppError ErrorTypeUnauthorized 401 ''Unauthorized'' False [] None"

definition ErrForbidden :: go_error where
  "ErrForbidden = AppError ErrorTypeForbidden 403 ''Forbidden'' False [] None"

definition ErrNotFound :: go_error where
  "ErrNotFound = AppError ErrorTypeNotFound 404 ''Resource not found'' False [] None"

definition ErrConflict :: go_error where
  "ErrConflict = AppError ErrorTypeConflict 409 ''Resource conflict'' False [] None"

definition ErrTooManyRequests :: go_error where
  "ErrTooManyRequests = AppError ErrorTypeBadRequest 429 ''Too many requests'' True [] None"

definition ErrInternal :: go_error where
  "ErrInternal = AppError ErrorTypeInternal 500 ''Internal server error'' False [] None"

definition ErrServiceUnavailable :: go_error where
  "ErrServiceUnavailable = AppError ErrorTypeUnavailable 503 ''Service unavailable'' True [] None"

definition ErrTimeout :: go_error where
  "ErrTimeout = AppError ErrorTypeTimeout 504 ''Request timeout'' True [] None"

definition ErrUserNotFound :: go_error where
  "ErrUserNotFound = with_message ErrNotFound ''user not found''"

definition ErrRoleNotFound :: go_error where
  "ErrRoleNotFound = with_message ErrNotFound ''role not found''"

definition ErrUserEmailAlready :: go_error where
  "ErrUserEmailAlready = with_message ErrBadRequest ''User email already exists''"

definition ErrUserPassword :: go_error where
  "ErrUserPassword = with_message ErrUnauthorized ''Invalid password''"

lemmas sentinel_defs =
  ErrBadRequest_def ErrValidationFailed_def ErrUnauthorized_def ErrForbidden_def ErrNotFound_def
  ErrConflict_def ErrTooManyRequests_def ErrInternal_def ErrServiceUnavailable_def ErrTimeout_def

definition err_failed :: "string \<Rightarrow> go_error" where
  "err_failed operation = with_message ErrInternal (''Failed to '' @ operation)"

definition err_not_found_response :: "string \<Rightarrow> go_error" where
  "err_not_found_response entity = with_message ErrNotFound (entity @ '' not found'')"

definition err_no_rows_or_failed :: "go_error \<Rightarrow> string \<Rightarrow> string \<Rightarrow> go_error" where
  "err_no_rows_or_failed err entity operation =
     (if is_no_rows err then with_internal (err_not_found_response entity) err
      else with_internal (err_failed operation) err)"

definition new_bad_request_error :: "string \<Rightarrow> go_error" where
  "new_bad_request_error message = with_message ErrBadRequest message"

definition new_conflict_error :: "string \<Rightarrow> go_error" where
  "new_conflict_error message = with_message ErrConflict message"

definition new_forbidden_error :: "string \<Rightarrow> go_error" where
  "new_forbidden_error message = with_message ErrForbidden message"

text \<open>
  \<open>HandleError\<close> logs, records the error on the span with \<open>err.Error()\<close> and returns
  the error itself. Called with a nil error the method call panics.
\<close>

definition handle_error :: "go_error option \<Rightarrow> go_error" where
  "handle_error err =
     (case err of
        None \<Rightarrow> Panicked ''invalid memory address or nil pointer dereference''
      | Some e \<Rightarrow> e)"

section \<open>Code tables\<close>

definition http_to_grpc_code :: "int \<Rightarrow> grpc_code" where
  "http_to_grpc_code code =
     (if code = 400 then CodesInvalidArgument
      else if code = 401 then CodesUnauthenticated
      else if code = 403 then CodesPermissionDenied
      else if code = 404 then CodesNotFound
      else if code = 409 then CodesAlreadyExists
      else if code = 429 then CodesResourceExhausted
      else if code = 504 then CodesDeadlineExceeded
      else if code = 503 then CodesUnavailable
      else CodesInternal)"

definition grpc_to_http_code :: "grpc_code \<Rightarrow> int" where
  "grpc_to_http_code code =
     (case code of
        CodesInvalidArgument \<Rightarrow> 400
      | CodesUnauthenticated \<Rightarrow> 401
      | CodesPermissionDenied \<Rightarrow> 403
      | CodesNotFound \<Rightarrow> 404
      | CodesAlreadyExists \<Rightarrow> 409
      | CodesResourceExhausted \<Rightarrow> 429
      | CodesDeadlineExceeded \<Rightarrow> 504
      | CodesUnavailable \<Rightarrow> 503
      | _ \<Rightarrow> 500)"

definition grpc_to_error_type :: "grpc_code \<Rightarrow> error_type" where
  "grpc_to_error_type code =
     (case code of
        CodesNotFound \<Rightarrow> ErrorTypeNotFound
      | CodesInvalidArgument \<Rightarrow> ErrorTypeBadRequest
      | CodesAlreadyExists \<Rightarrow> ErrorTypeConflict
      | CodesPermissionDenied \<Rightarrow> ErrorTypeForbidden
      | CodesUnauthenticated \<Rightarrow> ErrorTypeUnauthorized
      | CodesDeadlineExceeded \<Rightarrow> ErrorTypeTimeout
      | CodesUnavailable \<Rightarrow> ErrorTypeUnavailable
      | _ \<Rightarrow> ErrorTypeInternal)"

definition is_valid_http_code :: "int \<Rightarrow> bool" where
  "is_valid_http_code code \<longleftrightarrow> code \<ge> 100 \<and> code \<le> 599"

section \<open>Across a gRPC hop\<close>

definition to_grpc_error :: "go_error \<Rightarrow> go_error" where
  "to_grpc_error err =
     (case as_app_error err of
        Some (AppError t c m _ _ _) \<Rightarrow> StatusError (http_to_grpc_code c) m (Some (t, m, go_int32 c))
      | _ \<Rightarrow> StatusError CodesInternal ''Internal server error'' None)"

text \<open>
  \<open>NewGrpcError(message, httpCode)\<close> and the \<open>http.StatusText\<close> of the codes it can be
  given: the HTTP codes of the tables, and the gRPC numbers below 17 that most callers
  pass (no HTTP status has such a number, so its text is empty).
\<close>

definition http_status_text :: "int \<Rightarrow> string" where
  "http_status_text code =
     (if code = 400 then ''Bad Request''
      else if code = 401 then ''Unauthorized''
      else if code = 403 then ''Forbidden''
      else if code = 404 then ''Not Found''
      else if code = 409 then ''Conflict''
      else if code = 429 then ''Too Many Requests''
      else if code = 500 then ''Internal Server Error''
      else if code = 503 then ''Service Unavailable''
      else if code = 504 then ''Gateway Timeout''
      else [])"

definition new_grpc_error :: "string \<Rightarrow> int \<Rightarrow> go_error" where
  "new_grpc_error message http_code =
     StatusError (http_to_grpc_code http_code) message
       (Some (http_status_text http_code, message, go_int32 http_code))"

text \<open>The numbers of the gRPC codes (\<open>int(codes.InvalidArgument)\<close>).\<close>

definition codes_InvalidArgument :: int where "codes_InvalidArgument = 3"

definition codes_NotFound :: int where "codes_NotFound = 5"

definition codes_Internal :: int where "codes_Internal = 13"

definition parse_grpc_error :: "go_error \<Rightarrow> go_error" where
  "parse_grpc_error err =
     (case err of
        StatusError c m (Some (status, message, code)) \<Rightarrow>
          AppError status (if is_valid_http_code code then code else grpc_to_http_code c)
            message False [] None
      | StatusError c m None \<Rightarrow>
          AppError (grpc_to_error_type c) (grpc_to_http_code c) m False [] None
      | _ \<Rightarrow> with_internal ErrInternal err)"

text \<open>The status and the visible fields of the JSON body \<open>HandleApiError\<close> answers with.\<close>

definition handle_api_error ::
  "go_error \<Rightarrow> int \<times> error_type \<times> string \<times> bool \<times> (string \<times> string) list" where
  "handle_api_error err =
     (case as_app_error err of
        Some (AppError t c m r v _) \<Rightarrow> (c, t, m, r, v)
      | _ \<Rightarrow> (500, ErrorTypeInternal, ''An internal server error occurred'', False, []))"

text \<open>The panic interceptor: a panic in a handler becomes a status of code Internal.\<close>

definition recovery_middleware :: "go_error \<Rightarrow> go_error" where
  "recovery_middleware err =
     (case err of
        Panicked r \<Rightarrow> StatusError CodesInternal (''Internal server error: '' @ r) None
      | _ \<Rightarrow> err)"

section \<open>Lemmas\<close>

lemma as_app_error_cases:
  "as_app_error e = None \<or> (\<exists>t c m r v i. as_app_error e = Some (AppError t c m r v i))"
  by (induction e rule: as_app_error.induct) auto

text \<open>The codes the tables know come back unchanged; every other code is answered as 500.\<close>

definition table_codes :: "int list" where
  "table_codes = [400, 401, 403, 404, 409, 429, 503, 504]"

lemma http_code_roundtrip:
  "grpc_to_http_code (http_to_grpc_code c) = (if c \<in> set table_codes then c else 500)"
  by (simp add: http_to_grpc_code_def grpc_to_http_code_def table_codes_def)

lemma parse_to_grpc_app:
  "is_valid_http_code c \<Longrightarrow>
   parse_grpc_error (to_grpc_error (AppError t c m r v i)) = AppError t c m False [] None"
  by (simp add: parse_grpc_error_def to_grpc_error_def is_valid_http_code_def fits_int32_def)

lemma to_grpc_error_status: "\<exists>c m d. to_grpc_error e = StatusError c m d"
  using as_app_error_cases [of e] by (auto simp: to_grpc_error_def)

section \<open>Properties\<close>

text \<open>
  C20: an application error keeps its type, code and message over one gRPC hop and is
  answered with its own code (its retry flag and validations are lost)
\<close>

theorem domain_error_crosses_one_hop:
  assumes "as_app_error err = Some (AppError t c m r v i)" "is_valid_http_code c"
  shows "parse_grpc_error (to_grpc_error err) = AppError t c m False [] None
    \<and> handle_api_error (parse_grpc_error (to_grpc_error err)) = (c, t, m, False, [])"
  using assms
  by (simp add: to_grpc_error_def parse_grpc_error_def handle_api_error_def is_valid_http_code_def fits_int32_def)

theorem domain_error_crosses_one_hop_witness:
  "handle_api_error (parse_grpc_error (to_grpc_error (with_message ErrConflict ''insufficient balance''))) =
     (409, ErrorTypeConflict, ''insufficient balance'', False, [])"
proof -
  have "as_app_error (with_message ErrConflict ''insufficient balance'') =
      Some (AppError ErrorTypeConflict 409 ''insufficient balance'' False [] None)"
    and "is_valid_http_code 409"
    by (simp_all add: ErrConflict_def is_valid_http_code_def)
  then show ?thesis by (rule domain_error_crosses_one_hop [THEN conjunct2])
qed

text \<open>
  A status that a service relays is no application error any more: the second hop answers
  it as an internal error, whatever the first one said.
\<close>

theorem relayed_error_becomes_internal:
  "handle_api_error (parse_grpc_error (to_grpc_error (to_grpc_error err))) =
     (500, ErrorTypeInternal, ''Internal server error'', False, [])"
proof -
  obtain c m d where s: "to_grpc_error err = StatusError c m d" using to_grpc_error_status by blast
  show ?thesis unfolding s
    by (simp add: to_grpc_error_def parse_grpc_error_def handle_api_error_def grpc_to_error_type_def grpc_to_http_code_def)
qed

text \<open>
  \<open>NewGrpcError\<close> takes an HTTP code; most callers pass the number of a gRPC code, 3 for an
  invalid argument. The gateway answers such a validation failure as 500 with no type.
\<close>

theorem invalid_argument_answered_as_500:
  "handle_api_error (parse_grpc_error (new_grpc_error msg codes_InvalidArgument)) = (500, [], msg, False, [])"
  by (simp add: new_grpc_error_def codes_InvalidArgument_def http_status_text_def http_to_grpc_code_def
      parse_grpc_error_def is_valid_http_code_def handle_api_error_def grpc_to_http_code_def fits_int32_def)

end
