(* ===== verification/Validation.thy ===== *)
theory Validation
  imports Errors
begin

text \<open>
  The shared guards every money-moving command runs before it touches a balance
  (\<open>shared/domain/validation/financial.go\<close>), the idempotency key check
  (\<open>shared/idempotency/idempotency.go\<close>), the payment methods the request validators
  accept (\<open>pkg/method_topup\<close>) and the masks that keep card numbers, API keys and
  e-mail addresses out of logs and errors (\<open>shared/security/mask.go\<close>). Strings are byte
  strings, as Go's \<open>len\<close> and slicing see them; white space is the ASCII white space.
\<close>

section \<open>Amounts and parties\<close>

definition max_amount :: int where
  "max_amount = 1000000000000"

definition ErrInvalidAmount :: go_error where
  "ErrInvalidAmount = with_message ErrBadRequest ''amount must be greater than 0''"

definition ErrAmountTooLarge :: go_error where
  "ErrAmountTooLarge = with_message ErrBadRequest ''amount exceeds the maximum allowed value''"

definition ErrSameCardTransfer :: go_error where
  "ErrSameCardTransfer = with_message ErrBadRequest ''sender and receiver card must be different''"

definition validate_amount :: "int \<Rightarrow> go_error option" where
  "validate_amount amount =
     (if amount \<le> 0 then Some ErrInvalidAmount
      else if amount > max_amount then Some ErrAmountTooLarge
      else None)"

definition validate_transfer_parties :: "string \<Rightarrow> string \<Rightarrow> go_error option" where
  "validate_transfer_parties sender_card receiver_card =
     (if sender_card \<noteq> [] \<and> sender_card = receiver_card then Some ErrSameCardTransfer else None)"

definition is_validation_error :: "go_error \<Rightarrow> bool" where
  "is_validation_error err \<longleftrightarrow>
     (case as_app_error err of
        Some e \<Rightarrow> app_error_is e ErrInvalidAmount \<or> app_error_is e ErrAmountTooLarge
                   \<or> app_error_is e ErrSameCardTransfer
      | None \<Rightarrow> False)"

lemma validate_amount_None [simp]: "validate_amount a = None \<longleftrightarrow> 0 < a \<and> a \<le> max_amount"
  by (simp add: validate_amount_def)

lemma validated_amount_fits: "validate_amount a = None \<Longrightarrow> fits_int64 a"
  by (simp add: max_amount_def fits_int64_def)

section \<open>Idempotency keys\<close>

definition is_space :: "char \<Rightarrow> bool" where
  "is_space c \<longleftrightarrow> c = CHR '' '' \<or> (of_char c :: nat) \<in> {9, 10, 11, 12, 13}"

definition trim_space :: "string \<Rightarrow> string" where
  "trim_space s = rev (dropWhile is_space (rev (dropWhile is_space s)))"

definition max_key_length :: nat where
  "max_key_length = 255"

definition validate_key :: "string \<Rightarrow> go_error option" where
  "validate_key raw =
     (let key = trim_space raw in
      if key = [] then Some (new_bad_request_error ''Idempotency-Key header is required'')
      else if length key > max_key_length
        then Some (new_bad_request_error ''Idempotency-Key must be at most 255 characters'')
      else None)"

lemma length_trim_space: "length (trim_space s) \<le> length s"
  unfolding trim_space_def
  by (metis length_dropWhile_le length_rev order_trans)

section \<open>Payment methods\<close>

definition payment_rules :: "string list" where
  "payment_rules =
     [''alfamart'', ''indomart'', ''lawson'', ''dana'', ''ovo'', ''gopay'', ''linkaja'',
      ''jenius'', ''fastpay'', ''kudo'', ''bri'', ''mandiri'', ''bca'', ''bni'', ''bukopin'',
      ''e-banking'', ''visa'', ''mastercard'', ''discover'', ''american express'', ''paypal'']"

definition lower_char :: "char \<Rightarrow> char" where
  "lower_char c =
     (if 65 \<le> (of_char c :: nat) \<and> (of_char c :: nat) \<le> 90
      then char_of ((of_char c :: nat) + 32) else c)"

definition payment_method_validator :: "string \<Rightarrow> bool" where
  "payment_method_validator payment_method \<longleftrightarrow>
     map lower_char payment_method \<in> set payment_rules"

section \<open>Masks\<close>

definition stars :: "nat \<Rightarrow> string" where
  "stars n = replicate n (CHR ''*'')"

definition last_n :: "nat \<Rightarrow> 'a list \<Rightarrow> 'a list" where
  "last_n n xs = drop (length xs - n) xs"

definition mask_card_number :: "string \<Rightarrow> string" where
  "mask_card_number card_number =
     (if card_number = [] then []
      else let trimmed = trim_space card_number in
        if length trimmed \<le> 6 + 4 then stars (length trimmed)
        else take 6 trimmed @ stars (length trimmed - 6 - 4) @ last_n 4 trimmed)"

definition mask_api_key :: "string \<Rightarrow> string" where
  "mask_api_key api_key =
     (if api_key = [] then []
      else let trimmed = trim_space api_key in
        if length trimmed \<le> 4 then stars (length trimmed)
        else stars (length trimmed - 4) @ last_n 4 trimmed)"

text \<open>\<open>strings.LastIndex(email, "@")\<close>, -1 when there is none.\<close>

definition last_index :: "char \<Rightarrow> string \<Rightarrow> int" where
  "last_index c s =
     (if c \<in> set s then int (length s) - 1 - int (length (takeWhile (\<lambda>x. x \<noteq> c) (rev s))) else -1)"

definition mask_email :: "string \<Rightarrow> string" where
  "mask_email email =
     (let at = last_index CHR ''@'' email in
      if at \<le> 1 then stars (length email)
      else let local = take (nat at) email; domain = drop (nat at) email in
        if length local = 1 then CHR ''*'' # domain
        else take 1 local @ stars (length local - 2) @ last_n 1 local @ domain)"

lemma length_stars [simp]: "length (stars n) = n"
  by (simp add: stars_def)

lemma length_last_n [simp]: "n \<le> length xs \<Longrightarrow> length (last_n n xs) = n"
  by (simp add: last_n_def)

lemma length_mask_card_number: "length (mask_card_number s) = length (trim_space s)"
  by (auto simp: mask_card_number_def Let_def trim_space_def)

lemma length_mask_api_key: "length (mask_api_key s) = length (trim_space s)"
  by (auto simp: mask_api_key_def Let_def trim_space_def)

text \<open>
  What a mask depends on: the length and the digits it shows, nothing else. Two secrets
  that agree there have the same mask, so no other character reaches a log.
\<close>

lemma mask_card_number_hides:
  assumes "length (trim_space s) = length (trim_space t)"
    and "take 6 (trim_space s) = take 6 (trim_space t)"
    and "last_n 4 (trim_space s) = last_n 4 (trim_space t)"
    and "s \<noteq> []" "t \<noteq> []"
  shows "mask_card_number s = mask_card_number t"
  using assms by (simp add: mask_card_number_def Let_def)

lemma mask_card_number_middle:
  assumes "10 < length (trim_space s)" "6 \<le> i" "i < length (trim_space s) - 4"
  shows "mask_card_number s ! i = CHR ''*''"
proof -
  have "s \<noteq> []" using assms(1) by (auto simp: trim_space_def)
  moreover have "i - 6 < length (trim_space s) - 10" using assms by linarith
  ultimately show ?thesis using assms
    by (simp add: mask_card_number_def Let_def nth_append stars_def)
qed

lemma mask_card_number_short:
  "length (trim_space s) \<le> 10 \<Longrightarrow> mask_card_number s = stars (length (trim_space s))"
  by (auto simp: mask_card_number_def Let_def trim_space_def stars_def)

lemma mask_api_key_prefix:
  assumes "i < length (trim_space s) - 4"
  shows "mask_api_key s ! i = CHR ''*''"
proof -
  have "s \<noteq> []" using assms by (auto simp: trim_space_def)
  with assms show ?thesis
    by (simp add: mask_api_key_def Let_def nth_append stars_def)
qed

section \<open>Properties\<close>

text \<open>
  A masked card number shows a star for every character between the first six and the
  last four and keeps the length
\<close>

theorem card_mask_hides_the_middle:
  assumes "10 < length (trim_space s)" "6 \<le> i" "i < length (trim_space s) - 4"
  shows "mask_card_number s ! i = CHR ''*'' \<and> length (mask_card_number s) = length (trim_space s)"
  using mask_card_number_middle [OF assms] length_mask_card_number [of s] by simp

theorem card_mask_hides_the_middle_witness:
  "mask_card_number '' 4111111111111234 '' ! 9 = CHR ''*''"
proof -
  have "length (trim_space '' 4111111111111234 '') = 16" by code_simp
  with card_mask_hides_the_middle [of "'' 4111111111111234 ''" 9] show ?thesis by simp
qed

end
