(* ===== verification/Calendar.thy ===== *)
theory Calendar
  imports Prelude
begin

text \<open>
  The proleptic Gregorian calendar of Go's \<open>time\<close> package, in UTC: the day number of a date
  (days since 1 January 1970), the date of a day number, \<open>time.Date\<close> with its normalisation
  of months and days, and \<open>AddDate\<close>. A date is year, month and day of the month.
\<close>

type_synonym date = "int \<times> int \<times> int"

definition leap_year :: "int \<Rightarrow> bool" where
  "leap_year y \<longleftrightarrow> y mod 4 = 0 \<and> (y mod 100 \<noteq> 0 \<or> y mod 400 = 0)"

text \<open>Days of the year before each month.\<close>

definition month_starts :: "bool \<Rightarrow> int list" where
  "month_starts leap =
     (if leap then [0, 31, 60, 91, 121, 152, 182, 213, 244, 274, 305, 335]
      else [0, 31, 59, 90, 120, 151, 181, 212, 243, 273, 304, 334])"

definition days_before_month :: "bool \<Rightarrow> int \<Rightarrow> int" where
  "days_before_month leap m = month_starts leap ! nat (m - 1)"

definition year_length :: "int \<Rightarrow> int" where
  "year_length y = (if leap_year y then 366 else 365)"

definition month_length :: "int \<Rightarrow> int \<Rightarrow> int" where
  "month_length y m =
     (if m = 12 then 31 else days_before_month (leap_year y) (m + 1) - days_before_month (leap_year y) m)"

text \<open>Days from 1 January of the year 1 to 1 January of a year; 1970 is 719162 days later.\<close>

definition days_before_year :: "int \<Rightarrow> int" where
  "days_before_year y = (let p = y - 1 in 365 * p + p div 4 - p div 100 + p div 400)"

definition day_number :: "date \<Rightarrow> int" where
  "day_number dt =
     (case dt of (y, m, d) \<Rightarrow> days_before_year y + days_before_month (leap_year y) m + (d - 1) - 719162)"

definition valid_date :: "date \<Rightarrow> bool" where
  "valid_date dt \<longleftrightarrow>
     (case dt of (y, m, d) \<Rightarrow> 1 \<le> m \<and> m \<le> 12 \<and> 1 \<le> d \<and> d \<le> month_length y m)"

text \<open>The year and the day of the year by cycles of 400, 100, 4 and 1 years.\<close>

definition year_and_day :: "int \<Rightarrow> int \<times> int" where
  "year_and_day n =
     (let r400 = n mod 146097;
          c = min 3 (r400 div 36524);
          r100 = r400 - 36524 * c;
          q = r100 div 1461;
          r4 = r100 - 1461 * q;
          e = min 3 (r4 div 365)
      in (400 * (n div 146097) + 100 * c + 4 * q + e + 1, r4 - 365 * e))"

definition civil_date :: "int \<Rightarrow> date" where
  "civil_date n =
     (case year_and_day (n + 719162) of (y, yd) \<Rightarrow>
        let starts = month_starts (leap_year y);
            m = length (filter (\<lambda>s. s \<le> yd) starts)
        in (y, int m, yd - starts ! (m - 1) + 1))"

text \<open>\<open>time.Date\<close>: a month outside the year moves the year, a day outside the month the month.\<close>

definition go_date :: "int \<Rightarrow> int \<Rightarrow> int \<Rightarrow> int" where
  "go_date y m d = day_number (y + (m - 1) div 12, (m - 1) mod 12 + 1, 1) + (d - 1)"

lemma days_before_year_parts:
  assumes "0 \<le> c" "c \<le> 3" "0 \<le> q" "q \<le> 24" "0 \<le> e" "e \<le> 3"
  shows "days_before_year (400 * a + 100 * c + 4 * q + e + 1) = 146097 * a + 36524 * c + 1461 * q + 365 * e"
proof -
  let ?p = "400 * a + 100 * c + 4 * q + e"
  have "?p div 4 = 100 * a + 25 * c + q"
    by (rule int_div_pos_eq [where r = e]) (use assms in auto)
  moreover have "?p div 100 = 4 * a + c"
    by (rule int_div_pos_eq [where r = "4 * q + e"]) (use assms in auto)
  moreover have "?p div 400 = a"
    by (rule int_div_pos_eq [where r = "100 * c + 4 * q + e"]) (use assms in auto)
  ultimately show ?thesis by (simp add: days_before_year_def)
qed

lemma year_and_day_correct:
  assumes "year_and_day n = (y, yd)"
  shows "days_before_year y + yd = n \<and> 0 \<le> yd \<and> yd < year_length y"
proof -
  define r where "r = n mod 146097"
  define c where "c = min 3 (r div 36524)"
  define s where "s = r - 36524 * c"
  define q where "q = s div 1461"
  define t where "t = s - 1461 * q"
  define e where "e = min 3 (t div 365)"
  have r: "0 \<le> r" "r < 146097" by (simp_all add: r_def)
  have c: "0 \<le> c" "c \<le> 3" "0 \<le> s" "s \<le> 36524" "c < 3 \<Longrightarrow> s < 36524"
    using r unfolding c_def s_def by (auto simp: min_def)
  have q: "0 \<le> q" "q \<le> 24" "0 \<le> t" "t \<le> 1460" "q = 24 \<Longrightarrow> c < 3 \<Longrightarrow> t < 1460"
    using c unfolding q_def t_def by auto
  have e: "0 \<le> e" "e \<le> 3" "0 \<le> t - 365 * e" "e < 3 \<Longrightarrow> t - 365 * e < 365"
    "t - 365 * e \<le> 365" "t < 1460 \<Longrightarrow> t - 365 * e < 365"
    using q unfolding e_def by (auto simp: min_def)
  have y: "y = 400 * (n div 146097) + 100 * c + 4 * q + e + 1" "yd = t - 365 * e"
    using assms by (auto simp: year_and_day_def Let_def r_def c_def s_def q_def t_def e_def)
  have start: "days_before_year y = 146097 * (n div 146097) + 36524 * c + 1461 * q + 365 * e"
    unfolding y(1) by (rule days_before_year_parts) (use c q e in auto)
  have "n = 146097 * (n div 146097) + r" by (simp add: r_def)
  then have total: "days_before_year y + yd = n"
    unfolding start y(2) by (simp add: t_def s_def)
  have "yd < year_length y"
  proof (cases "yd < 365")
    case False
    then have "\<not> e < 3" "\<not> t < 1460" using e(4,6) y(2) by auto
    then have full: "e = 3" "\<not> t < 1460" using e(2) by auto
    have "q = 24 \<Longrightarrow> c = 3" using q(5) c(2) full(2) by force
    then have "q < 24 \<or> c = 3" using q(2) by force
    define K where "K = 4 * (n div 146097) + c"
    have y4: "y = 4 * (25 * K + q + 1)" "y = 100 * K + (4 * q + 4)"
      using y(1) full(1) by (auto simp: K_def)
    have "y mod 4 = 0" unfolding y4(1) by simp
    have "y mod 100 = 4 * q + 4" if "q < 24"
      unfolding y4(2) using that q(1) by simp
    then have short: "leap_year y" if "q < 24"
      using that q(1) \<open>y mod 4 = 0\<close> by (simp add: leap_year_def)
    have "leap_year y" if "c = 3" "\<not> q < 24"
    proof -
      have "y = 400 * (n div 146097 + 1)" using y(1) full(1) q(2) that by auto
      then have "y mod 400 = 0" by simp
      then show ?thesis using \<open>y mod 4 = 0\<close> by (simp add: leap_year_def)
    qed
    then have "leap_year y" using short \<open>q < 24 \<or> c = 3\<close> by blast
    then show ?thesis using e(5) y(2) by (simp add: year_length_def)
  qed (simp add: year_length_def)
  then show ?thesis using total e y(2) by simp
qed

lemma month_pick:
  assumes "0 \<le> yd" "yd < (if leap then 366 else 365)"
    "m = length (filter (\<lambda>s. s \<le> yd) (month_starts leap))"
  shows "1 \<le> m \<and> m \<le> 12 \<and> month_starts leap ! (m - 1) \<le> yd
    \<and> yd < (if m = 12 then month_starts leap ! 11 + 31 else month_starts leap ! m)"
proof (cases leap)
  case True
  then have "yd < 366" using assms(2) by simp
  then show ?thesis using True assms(1,3) by (auto simp: month_starts_def split: if_splits)
next
  case False
  then have "yd < 365" using assms(2) by simp
  then show ?thesis using False assms(1,3) by (auto simp: month_starts_def split: if_splits)
qed

lemma civil_date_correct: "valid_date (civil_date n) \<and> day_number (civil_date n) = n"
proof -
  obtain y yd where yd: "year_and_day (n + 719162) = (y, yd)" by fastforce
  define m where "m = length (filter (\<lambda>s. s \<le> yd) (month_starts (leap_year y)))"
  note yc = year_and_day_correct [OF yd]
  have pick: "1 \<le> m \<and> m \<le> 12 \<and> month_starts (leap_year y) ! (m - 1) \<le> yd
    \<and> yd < (if m = 12 then month_starts (leap_year y) ! 11 + 31 else month_starts (leap_year y) ! m)"
    by (rule month_pick [OF _ _ m_def]) (use yc in \<open>auto simp: year_length_def\<close>)
  have c: "civil_date n = (y, int m, yd - month_starts (leap_year y) ! (m - 1) + 1)"
    by (simp add: civil_date_def yd m_def Let_def)
  have i: "nat (int m - 1) = m - 1" "nat (int m) = m" by auto
  have "valid_date (civil_date n)"
    using pick unfolding c valid_date_def month_length_def days_before_month_def
    by (auto simp: i)
  then show ?thesis using yc pick
    unfolding c day_number_def by (simp add: days_before_month_def i)
qed

lemma month_starts_step:
  "1 \<le> m \<Longrightarrow> m < 12 \<Longrightarrow> days_before_month leap m + 28 \<le> days_before_month leap (m + 1)"
proof -
  assume "1 \<le> m" "m < 12"
  then have "m = 1 \<or> m = 2 \<or> m = 3 \<or> m = 4 \<or> m = 5 \<or> m = 6 \<or> m = 7 \<or> m = 8 \<or> m = 9 \<or> m = 10 \<or> m = 11"
    by presburger
  then show ?thesis by (auto simp: days_before_month_def month_starts_def)
qed

lemma month_starts_mono:
  assumes "1 \<le> m" "m \<le> m'" "m' \<le> 12"
  shows "days_before_month leap m \<le> days_before_month leap m'"
  using assms(2,3)
proof (induction m' rule: int_ge_induct)
  case (step i)
  then show ?case using month_starts_step [of i leap] assms(1) by simp
qed simp

lemma month_length_bounds: "1 \<le> m \<Longrightarrow> m \<le> 12 \<Longrightarrow> 28 \<le> month_length y m"
  using month_starts_step [of m "leap_year y"] by (auto simp: month_length_def)

lemma div_pred:
  fixes y k :: int
  assumes "0 < k"
  shows "(y - 1) div k = y div k - (if y mod k = 0 then 1 else 0)"
proof (cases "y mod k = 0")
  case True
  then have "y - 1 = k * (y div k - 1) + (k - 1)"
    by (simp add: algebra_simps minus_mod_eq_mult_div [symmetric])
  then show ?thesis using True assms int_div_pos_eq [of "y - 1" k "y div k - 1" "k - 1"] by simp
next
  case False
  have "0 \<le> y mod k" "y mod k < k" using assms by auto
  moreover have "y - 1 = k * (y div k) + (y mod k - 1)" by simp
  ultimately show ?thesis using False int_div_pos_eq [of "y - 1" k "y div k" "y mod k - 1"] by simp
qed

lemma year_step: "days_before_year (y + 1) = days_before_year y + year_length y"
proof -
  have m: "y mod 400 = 0 \<Longrightarrow> y mod 100 = 0" "y mod 100 = 0 \<Longrightarrow> y mod 4 = 0"
    by (auto simp: mod_eq_0_iff_dvd dest: dvd_trans [of 100 400] dvd_trans [of 4 100])
  have sum: "365 * y + A - B + C = 365 * (y - 1) + a - b + c + (if P \<and> (\<not> Q \<or> R) then 366 else 365)"
    if "a = A - (if P then 1 else 0)" "b = B - (if Q then 1 else 0)" "c = C - (if R then 1 else 0)"
      "R \<longrightarrow> Q" "Q \<longrightarrow> P" for A B C a b c :: int and P Q R
    using that by auto
  have "365 * y + y div 4 - y div 100 + y div 400
      = 365 * (y - 1) + (y - 1) div 4 - (y - 1) div 100 + (y - 1) div 400
        + (if y mod 4 = 0 \<and> (y mod 100 \<noteq> 0 \<or> y mod 400 = 0) then 366 else 365)"
    by (rule sum) (use m in \<open>simp_all only: div_pred, simp_all\<close>)
  then show ?thesis by (simp only: days_before_year_def year_length_def leap_year_def Let_def add_diff_cancel_right')
qed

lemma days_before_year_mono: "y \<le> y' \<Longrightarrow> days_before_year y \<le> days_before_year y'"
proof (induction y' rule: int_ge_induct)
  case (step i)
  then show ?case using year_step [of i] by (simp add: year_length_def split: if_splits)
qed simp

lemma day_in_year:
  assumes "valid_date (y, m, d)"
  shows "0 \<le> days_before_month (leap_year y) m + (d - 1)
    \<and> days_before_month (leap_year y) m + (d - 1) < year_length y"
proof -
  have "days_before_month (leap_year y) 1 \<le> days_before_month (leap_year y) m"
    "m < 12 \<Longrightarrow> days_before_month (leap_year y) (m + 1) \<le> days_before_month (leap_year y) 12"
    using assms by (auto intro!: month_starts_mono simp: valid_date_def)
  moreover have "days_before_month (leap_year y) 1 = 0" "days_before_month (leap_year y) 12 + 31 = year_length y"
    by (simp_all add: days_before_month_def month_starts_def year_length_def)
  ultimately show ?thesis using assms
    by (auto simp: valid_date_def month_length_def split: if_splits)
qed

text \<open>The day number orders valid dates as the calendar does.\<close>

lemma day_number_less:
  assumes "valid_date (y, m, d)" "valid_date (y', m', d')"
    "y < y' \<or> y = y' \<and> (m < m' \<or> m = m' \<and> d < d')"
  shows "day_number (y, m, d) < day_number (y', m', d')"
proof (cases "y < y'")
  case True
  then have "days_before_year (y + 1) \<le> days_before_year y'" by (intro days_before_year_mono) simp
  then show ?thesis using day_in_year [OF assms(1)] day_in_year [OF assms(2)] year_step [of y]
    by (simp add: day_number_def)
next
  case False
  then have y: "y' = y" using assms(3) by auto
  show ?thesis
  proof (cases "m < m'")
    case True
    then have "m < 12" using assms(2) by (simp add: valid_date_def)
    then have "days_before_month (leap_year y) (m + 1) \<le> days_before_month (leap_year y) m'"
      using True assms by (intro month_starts_mono) (auto simp: valid_date_def)
    then show ?thesis using \<open>m < 12\<close> assms(1,2) unfolding y
      by (simp add: day_number_def valid_date_def month_length_def)
  qed (use False assms(3) y in \<open>auto simp: day_number_def\<close>)
qed

lemma day_number_inject:
  assumes "valid_date a" "valid_date b" "day_number a = day_number b"
  shows "a = b"
proof (cases a; cases b)
  fix y m d y' m' d' assume ab: "a = (y, m, d)" "b = (y', m', d')"
  then show ?thesis using day_number_less [of y m d y' m' d'] day_number_less [of y' m' d' y m d] assms
    by (metis less_irrefl linorder_less_linear)
qed

lemma civil_day_number: "valid_date dt \<Longrightarrow> civil_date (day_number dt) = dt"
  using civil_date_correct [of "day_number dt"] day_number_inject by blast

end
