(* ===== verification/Timestamps.thy ===== *)
theory Timestamps
  imports Calendar
begin

text \<open>
  Instants as the code prints them into operation identities: Go's \<open>time.Time\<close> in UTC, kept
  as nanoseconds since the Unix epoch, its calendar date, \<open>AddDate\<close>, and the two layouts
  the repository formats with. \<open>day_start\<close> is SQL's \<open>date_trunc('day', now())\<close> in a UTC
  session.
\<close>

definition day :: int where "day = 24 * hour"

definition day_start :: "int \<Rightarrow> int" where
  "day_start t = (t div day) * day"

text \<open>Go's zero \<open>time.Time\<close> is 1 January of the year 1.\<close>

definition zero_time :: int where "zero_time = - 62135596800 * second"

text \<open>\<open>now.Sub(t)\<close> saturates at the bounds of a \<open>Duration\<close>.\<close>

definition time_sub :: "int \<Rightarrow> int \<Rightarrow> int" where
  "time_sub now t = max (- 9223372036854775808) (min 9223372036854775807 (now - t))"

text \<open>\<open>t.AddDate(years, months, days)\<close> keeps the time of the day.\<close>

definition add_date :: "int \<Rightarrow> int \<Rightarrow> int \<Rightarrow> int \<Rightarrow> int" where
  "add_date t years months days =
     (case civil_date (t div day) of (y, m, d) \<Rightarrow>
        go_date (y + years) (m + months) (d + days) * day + t mod day)"

definition padded :: "nat \<Rightarrow> int \<Rightarrow> string" where
  "padded k i =
     (let s = itoa \<bar>i\<bar>
      in (if i < 0 then ''-'' else []) @ replicate (k - length s) CHR ''0'' @ s)"

text \<open>The nanoseconds of the second without trailing zeros, nothing when they are zero.\<close>

definition fraction :: "int \<Rightarrow> string" where
  "fraction ns =
     (if ns = 0 then []
      else CHR ''.'' # rev (dropWhile (\<lambda>c. c = CHR ''0'') (rev (padded 9 ns))))"

text \<open>\<open>time.RFC3339Nano\<close> in UTC.\<close>

definition rfc3339_nano :: "int \<Rightarrow> string" where
  "rfc3339_nano t =
     (let (y, m, d) = civil_date (t div day); s = (t mod day) div second
      in padded 4 y @ ''-'' @ padded 2 m @ ''-'' @ padded 2 d @ ''T''
         @ padded 2 (s div 3600) @ '':'' @ padded 2 (s mod 3600 div 60) @ '':'' @ padded 2 (s mod 60)
         @ fraction (t mod second) @ ''Z'')"

text \<open>The layout \<open>20060102150405.000000000\<close> in UTC.\<close>

definition compact_stamp :: "int \<Rightarrow> string" where
  "compact_stamp t =
     (let (y, m, d) = civil_date (t div day); s = (t mod day) div second
      in padded 4 y @ padded 2 m @ padded 2 d
         @ padded 2 (s div 3600) @ padded 2 (s mod 3600 div 60) @ padded 2 (s mod 60)
         @ ''.'' @ padded 9 (t mod second))"

lemma timestamp_examples:
  "rfc3339_nano 0 = ''1970-01-01T00:00:00Z''"
  "rfc3339_nano zero_time = ''0001-01-01T00:00:00Z''"
  "rfc3339_nano (1709210096 * second + 20) = ''2024-02-29T12:34:56.00000002Z''"
  "compact_stamp (1709210096 * second + 5) = ''20240229123456.000000005''"
  by code_simp+

lemma day_start_le: "day_start t \<le> t"
  by (simp add: day_start_def day_def time_defs minus_mod_eq_div_mult [symmetric])

end
