(* ===== verification/Resilience.thy ===== *)
theory Resilience
  imports Errors Timestamps "HOL-Library.Word"
begin

text \<open>
  The protections around remote calls (\<open>pkg/resilience\<close> and \<open>pkg/middleware/resilience.go\<close>):
  circuit breaker, request limiter (bulkhead), dependency guard, the client interceptor
  with one guard per method, the load monitor and the server interceptor. Every operation
  is taken as one atomic step. The weighted semaphore of \<open>golang.org/x/sync\<close> is a
  parameter with its documented behaviour as a locale.
\<close>

section \<open>Circuit breaker\<close>

record circuit_breaker =
  cb_failures :: "64 word"
  cb_successes :: "64 word"
  cb_open :: bool
  cb_last_failure :: int
  cb_threshold :: "64 word"
  cb_timeout :: int
  cb_half_open_max :: "64 word"

definition new_circuit_breaker :: "64 word \<Rightarrow> 64 word \<Rightarrow> circuit_breaker" where
  "new_circuit_breaker threshold timeout_secs =
     \<lparr>cb_failures = 0, cb_successes = 0, cb_open = False, cb_last_failure = zero_time,
      cb_threshold = threshold, cb_timeout = go_int64 (sint timeout_secs * second), cb_half_open_max = 5\<rparr>"

definition open_circuit :: "int \<Rightarrow> circuit_breaker \<Rightarrow> circuit_breaker" where
  "open_circuit now cb = cb\<lparr>cb_open := True, cb_successes := 0, cb_last_failure := now\<rparr>"

definition close_circuit :: "circuit_breaker \<Rightarrow> circuit_breaker" where
  "close_circuit cb = cb\<lparr>cb_open := False, cb_failures := 0, cb_successes := 0\<rparr>"

definition should_allow_request :: "int \<Rightarrow> circuit_breaker \<Rightarrow> bool \<times> circuit_breaker" where
  "should_allow_request now cb =
     (if \<not> cb_open cb then (True, cb)
      else if time_sub now (cb_last_failure cb) > cb_timeout cb
      then if cb_successes cb < cb_half_open_max cb then (True, cb) else (True, close_circuit cb)
      else (False, cb))"

definition record_success :: "circuit_breaker \<Rightarrow> circuit_breaker" where
  "record_success cb =
     (let cb1 = cb\<lparr>cb_successes := cb_successes cb + 1\<rparr>;
          cb2 = (if cb_open cb1 \<and> cb_successes cb1 \<ge> cb_half_open_max cb1 then close_circuit cb1 else cb1)
      in cb2\<lparr>cb_failures := 0\<rparr>)"

definition record_failure :: "int \<Rightarrow> circuit_breaker \<Rightarrow> circuit_breaker" where
  "record_failure now cb =
     (let cb1 = cb\<lparr>cb_failures := cb_failures cb + 1\<rparr>
      in if cb_failures cb1 \<ge> cb_threshold cb1 \<and> \<not> cb_open cb1 then open_circuit now cb1 else cb1)"

section \<open>Request limiter\<close>

text \<open>A weighted semaphore, acquired and released one unit at a time; \<open>None\<close> is its panic.\<close>

record 's semaphore =
  sem_new :: "int \<Rightarrow> 's"
  sem_try_acquire :: "'s \<Rightarrow> bool \<times> 's"
  sem_release :: "'s \<Rightarrow> 's option"

record 's request_limiter =
  rl_semaphore :: 's
  rl_max :: int
  rl_in_flight :: int

definition new_request_limiter :: "'s semaphore \<Rightarrow> int \<Rightarrow> 's request_limiter" where
  "new_request_limiter S max_concurrent =
     (let m = (if max_concurrent \<le> 0 then 100 else max_concurrent)
      in \<lparr>rl_semaphore = sem_new S m, rl_max = m, rl_in_flight = 0\<rparr>)"

definition try_acquire :: "'s semaphore \<Rightarrow> 's request_limiter \<Rightarrow> bool \<times> 's request_limiter" where
  "try_acquire S rl =
     (case sem_try_acquire S (rl_semaphore rl) of
        (True, s) \<Rightarrow> (True, rl\<lparr>rl_semaphore := s, rl_in_flight := go_int64 (rl_in_flight rl + 1)\<rparr>)
      | (False, s) \<Rightarrow> (False, rl\<lparr>rl_semaphore := s\<rparr>))"

definition release :: "'s semaphore \<Rightarrow> 's request_limiter \<Rightarrow> 's request_limiter option" where
  "release S rl =
     (case sem_release S (rl_semaphore rl) of
        None \<Rightarrow> None
      | Some s \<Rightarrow>
          (let n = go_int64 (rl_in_flight rl - 1)
           in Some (rl\<lparr>rl_semaphore := s, rl_in_flight := (if n < 0 then 0 else n)\<rparr>)))"

definition available_permits :: "'s request_limiter \<Rightarrow> int" where
  "available_permits rl = go_int64 (rl_max rl - rl_in_flight rl)"

section \<open>Dependency guard\<close>

record 's dependency_guard =
  dg_name :: string
  dg_breaker :: circuit_breaker
  dg_limiter :: "'s request_limiter"
  dg_call_timeout :: int

definition new_dependency_guard ::
  "'s semaphore \<Rightarrow> string \<Rightarrow> 64 word \<Rightarrow> 64 word \<Rightarrow> int \<Rightarrow> int \<Rightarrow> 's dependency_guard" where
  "new_dependency_guard S name threshold timeout_secs max_concurrent call_timeout =
     \<lparr>dg_name = name, dg_breaker = new_circuit_breaker threshold timeout_secs,
      dg_limiter = new_request_limiter S max_concurrent,
      dg_call_timeout = (if call_timeout \<le> 0 then 3 * second else call_timeout)\<rparr>"

text \<open>\<open>status.Code(err)\<close> of a non-nil error: the first status along the chain.\<close>

fun status_code :: "go_error \<Rightarrow> grpc_code" where
  "status_code (StatusError c m d) = c"
| "status_code (Wrapped _ e) = status_code e"
| "status_code (AppError t c m r v (Some i)) = status_code i"
| "status_code _ = CodesUnknown"

definition is_transport_failure :: "go_error option \<Rightarrow> bool" where
  "is_transport_failure err \<longleftrightarrow>
     (case err of
        None \<Rightarrow> False
      | Some e \<Rightarrow> status_code e = CodesUnavailable \<or> status_code e = CodesDeadlineExceeded
          \<or> status_code e = CodesAborted \<or> status_code e = CodesResourceExhausted)"

text \<open>
  A call in two steps, so that calls can overlap: its admission (\<open>None\<close> admits it), and its
  return with the error of the wrapped function, which the deferred release follows. The
  outer option of a step is the panic of the semaphore.
\<close>

definition guard_enter ::
  "'s semaphore \<Rightarrow> int \<Rightarrow> 's dependency_guard \<Rightarrow> (go_error option \<times> 's dependency_guard) option" where
  "guard_enter S now g =
     (case try_acquire S (dg_limiter g) of
        (False, rl) \<Rightarrow>
          Some (Some (StatusError CodesResourceExhausted
                  (dg_name g @ '' dependency bulkhead full (max '' @ itoa (rl_max (dg_limiter g)) @ '' concurrent)'') None),
                g\<lparr>dg_limiter := rl\<rparr>)
      | (True, rl) \<Rightarrow>
          (case should_allow_request now (dg_breaker g) of
             (True, cb) \<Rightarrow> Some (None, g\<lparr>dg_limiter := rl, dg_breaker := cb\<rparr>)
           | (False, cb) \<Rightarrow>
               map_option (\<lambda>rl'. (Some (StatusError CodesUnavailable
                   (dg_name g @ '' dependency circuit open; failing fast'') None),
                 g\<lparr>dg_limiter := rl', dg_breaker := cb\<rparr>)) (release S rl)))"

definition guard_exit ::
  "'s semaphore \<Rightarrow> int \<Rightarrow> go_error option \<Rightarrow> 's dependency_guard \<Rightarrow> 's dependency_guard option" where
  "guard_exit S now err g =
     (let cb = (if is_transport_failure err then record_failure now (dg_breaker g)
                else record_success (dg_breaker g))
      in map_option (\<lambda>rl. g\<lparr>dg_limiter := rl, dg_breaker := cb\<rparr>) (release S (dg_limiter g)))"

text \<open>
  A whole call of a function \<open>fn\<close> on some state \<open>w\<close>, admitted at \<open>now\<close> and returning at
  \<open>now'\<close>.
\<close>

definition guard_call ::
  "'s semaphore \<Rightarrow> int \<Rightarrow> int \<Rightarrow> ('w \<Rightarrow> go_error option \<times> 'w) \<Rightarrow> 's dependency_guard \<Rightarrow> 'w \<Rightarrow>
   (go_error option \<times> 's dependency_guard \<times> 'w) option" where
  "guard_call S now now' fn g w =
     (case guard_enter S now g of
        None \<Rightarrow> None
      | Some (Some err, g1) \<Rightarrow> Some (Some err, g1, w)
      | Some (None, g1) \<Rightarrow>
          (case fn w of (err, w') \<Rightarrow> map_option (\<lambda>g2. (err, g2, w')) (guard_exit S now' err g1)))"

section \<open>Client interceptor\<close>

type_synonym 's guard_table = "string \<Rightarrow> 's dependency_guard option"

definition guard_for :: "'s semaphore \<Rightarrow> string \<Rightarrow> 's guard_table \<Rightarrow> 's dependency_guard \<times> 's guard_table" where
  "guard_for S full_method guards =
     (case guards full_method of
        Some g \<Rightarrow> (g, guards)
      | None \<Rightarrow>
          (let g = new_dependency_guard S full_method 5 30 100 (3 * second)
           in (g, guards(full_method \<mapsto> g))))"

definition intercept_client_call ::
  "'s semaphore \<Rightarrow> int \<Rightarrow> int \<Rightarrow> string \<Rightarrow> ('w \<Rightarrow> go_error option \<times> 'w) \<Rightarrow> 's guard_table \<Rightarrow> 'w \<Rightarrow>
   (go_error option \<times> 's guard_table \<times> 'w) option" where
  "intercept_client_call S now now' full_method invoker guards w =
     (case guard_for S full_method guards of
        (g, guards1) \<Rightarrow>
          map_option (\<lambda>(err, g', w'). (err, guards1(full_method \<mapsto> g'), w'))
            (guard_call S now now' invoker g w))"

section \<open>Load monitor\<close>

text \<open>
  The floating-point rate of a count over a duration is the parameter \<open>rate\<close>; an average
  is left as the pair of total and count whose quotient the code returns.
\<close>

record load_snapshot =
  ls_timestamp :: int
  ls_rps :: "64 word"
  ls_count :: "64 word"

record load_monitor =
  lm_request_count :: "64 word"
  lm_last_reset :: int
  lm_history :: "load_snapshot list"

definition new_load_monitor :: "int \<Rightarrow> load_monitor" where
  "new_load_monitor now = \<lparr>lm_request_count = 0, lm_last_reset = now, lm_history = []\<rparr>"

definition record_request :: "load_monitor \<Rightarrow> load_monitor" where
  "record_request lm = lm\<lparr>lm_request_count := lm_request_count lm + 1\<rparr>"

definition get_current_rps ::
  "(64 word \<Rightarrow> int \<Rightarrow> 64 word) \<Rightarrow> int \<Rightarrow> load_monitor \<Rightarrow> 64 word \<times> load_monitor" where
  "get_current_rps rate now lm =
     (let count = lm_request_count lm;
          elapsed = time_sub now (lm_last_reset lm);
          rps = (if elapsed > 0 then rate count elapsed else 0);
          h = lm_history lm @ [\<lparr>ls_timestamp = now, ls_rps = rps, ls_count = count\<rparr>]
      in (rps, \<lparr>lm_request_count = 0, lm_last_reset = now,
                lm_history = (if length h > 60 then tl h else h)\<rparr>))"

definition recent_snapshots :: "int \<Rightarrow> int \<Rightarrow> load_monitor \<Rightarrow> load_snapshot list" where
  "recent_snapshots now duration lm =
     takeWhile (\<lambda>s. \<not> ls_timestamp s < now - duration) (rev (lm_history lm))"

definition get_average_rps :: "int \<Rightarrow> int \<Rightarrow> load_monitor \<Rightarrow> (64 word \<times> nat) option" where
  "get_average_rps now duration lm =
     (let recent = recent_snapshots now duration lm
      in if recent = [] then None else Some (sum_list (map ls_rps recent), length recent))"

definition get_peak_rps :: "int \<Rightarrow> int \<Rightarrow> load_monitor \<Rightarrow> 64 word" where
  "get_peak_rps now duration lm =
     foldl (\<lambda>peak s. if ls_rps s > peak then ls_rps s else peak) 0 (recent_snapshots now duration lm)"

definition reset_load_monitor :: "int \<Rightarrow> load_monitor \<Rightarrow> load_monitor" where
  "reset_load_monitor now lm = \<lparr>lm_request_count = 0, lm_last_reset = now, lm_history = []\<rparr>"

section \<open>Server interceptor\<close>

record 's resilience_interceptor =
  ri_monitor :: load_monitor
  ri_breaker :: circuit_breaker
  ri_limiter :: "'s request_limiter"

text \<open>The values \<open>pkg/server\<close> configures for every gRPC server.\<close>

definition new_resilience_interceptor :: "'s semaphore \<Rightarrow> int \<Rightarrow> 's resilience_interceptor" where
  "new_resilience_interceptor S now =
     \<lparr>ri_monitor = new_load_monitor now, ri_breaker = new_circuit_breaker 100 10,
      ri_limiter = new_request_limiter S 800\<rparr>"

definition intercept_server_call ::
  "'s semaphore \<Rightarrow> ('w \<Rightarrow> (go_error + 'r) \<times> 'w) \<Rightarrow> 's resilience_interceptor \<Rightarrow> 'w \<Rightarrow>
   ((go_error + 'r) \<times> 's resilience_interceptor \<times> 'w) option" where
  "intercept_server_call S handler im w =
     (let im1 = im\<lparr>ri_monitor := record_request (ri_monitor im)\<rparr>
      in if cb_open (ri_breaker im1)
         then Some (Inl (StatusError CodesUnavailable
                ''Service temporarily unavailable due to high error rate. Please try again later.'' None), im1, w)
         else case try_acquire S (ri_limiter im1) of
           (False, rl) \<Rightarrow> Some (Inl (StatusError CodesResourceExhausted
                ''Too many concurrent requests. Please try again later.'' None), im1\<lparr>ri_limiter := rl\<rparr>, w)
         | (True, rl) \<Rightarrow>
             (case handler w of (res, w') \<Rightarrow>
                map_option (\<lambda>rl'. (res, im1\<lparr>ri_limiter := rl'\<rparr>, w')) (release S rl)))"

section \<open>The breaker as a two-phase machine\<close>

text \<open>
  What a breaker promises: closed with the number of consecutive failures, or tripped since
  a time with the number of successes so far. Requests pass while it is closed, and again
  once the timeout has gone by since it tripped; five successes close it.
\<close>

datatype breaker_phase = Closed nat | Tripped nat int

datatype breaker_event = Ask int | Succeeded | Failed int

fun phase_step :: "nat \<Rightarrow> int \<Rightarrow> breaker_event \<Rightarrow> breaker_phase \<Rightarrow> bool \<times> breaker_phase" where
  "phase_step threshold timeout (Ask now) (Closed n) = (True, Closed n)"
| "phase_step threshold timeout (Ask now) (Tripped k since) =
     (timeout < time_sub now since, Tripped k since)"
| "phase_step threshold timeout Succeeded (Closed n) = (True, Closed 0)"
| "phase_step threshold timeout Succeeded (Tripped k since) =
     (True, if 5 \<le> Suc k then Closed 0 else Tripped (Suc k) since)"
| "phase_step threshold timeout (Failed now) (Closed n) =
     (True, if threshold \<le> Suc n then Tripped 0 now else Closed (Suc n))"
| "phase_step threshold timeout (Failed now) (Tripped k since) = (True, Tripped k since)"

fun breaker_step :: "breaker_event \<Rightarrow> circuit_breaker \<Rightarrow> bool \<times> circuit_breaker" where
  "breaker_step (Ask now) cb = should_allow_request now cb"
| "breaker_step Succeeded cb = (True, record_success cb)"
| "breaker_step (Failed now) cb = (True, record_failure now cb)"

fun event_run :: "('e \<Rightarrow> 's \<Rightarrow> bool \<times> 's) \<Rightarrow> 'e list \<Rightarrow> 's \<Rightarrow> bool list \<times> 's" where
  "event_run step [] s = ([], s)"
| "event_run step (e # es) s =
     (case step e s of (b, s1) \<Rightarrow> (case event_run step es s1 of (bs, s2) \<Rightarrow> (b # bs, s2)))"

definition phase_of :: "circuit_breaker \<Rightarrow> breaker_phase" where
  "phase_of cb =
     (if cb_open cb then Tripped (unat (cb_successes cb)) (cb_last_failure cb) else Closed (unat (cb_failures cb)))"

definition breaker_ok :: "64 word \<Rightarrow> int \<Rightarrow> circuit_breaker \<Rightarrow> bool" where
  "breaker_ok threshold timeout cb \<longleftrightarrow>
     cb_threshold cb = threshold \<and> cb_timeout cb = timeout \<and> cb_half_open_max cb = 5
     \<and> (if cb_open cb then cb_successes cb < 5 else cb_failures cb = 0 \<or> cb_failures cb < threshold)"

lemmas breaker_defs = should_allow_request_def record_success_def record_failure_def open_circuit_def
  close_circuit_def breaker_ok_def phase_of_def

lemma unat_inc_below: "unat (x + 1) = Suc (unat x)" if "x < y" for x y :: "64 word"
proof -
  have "x \<noteq> - 1" using that by auto
  then have "1 + x \<noteq> 0" by (simp add: add_eq_0_iff add.commute)
  then show ?thesis using unatSuc [of x] by (simp add: add.commute)
qed

lemma unat_failures_inc:
  "unat (x + 1) = Suc (unat x)" if "x = 0 \<or> x < y" for x y :: "64 word"
  using that unat_inc_below by auto

lemma ask_simulates:
  "breaker_ok threshold timeout cb \<Longrightarrow> should_allow_request now cb = (b, cb') \<Longrightarrow>
   phase_step (unat threshold) timeout (Ask now) (phase_of cb) = (b, phase_of cb')
   \<and> breaker_ok threshold timeout cb'"
  by (auto simp: breaker_defs split: if_splits)

lemma success_simulates:
  assumes "breaker_ok threshold timeout cb"
  shows "phase_step (unat threshold) timeout Succeeded (phase_of cb) = (True, phase_of (record_success cb))
    \<and> breaker_ok threshold timeout (record_success cb)"
proof (cases "cb_open cb")
  case True
  then have "cb_successes cb < 5" using assms by (simp add: breaker_ok_def)
  then have inc: "unat (cb_successes cb + 1) = Suc (unat (cb_successes cb))" by (rule unat_inc_below)
  then show ?thesis using True assms
    by (auto simp: breaker_defs word_le_nat_alt word_less_nat_alt)
qed (use assms in \<open>auto simp: breaker_defs\<close>)

lemma failure_simulates:
  assumes "breaker_ok threshold timeout cb"
  shows "phase_step (unat threshold) timeout (Failed now) (phase_of cb) = (True, phase_of (record_failure now cb))
    \<and> breaker_ok threshold timeout (record_failure now cb)"
proof (cases "cb_open cb")
  case False
  then have "cb_failures cb = 0 \<or> cb_failures cb < threshold" using assms by (simp add: breaker_ok_def)
  then have inc: "unat (cb_failures cb + 1) = Suc (unat (cb_failures cb))" by (rule unat_failures_inc)
  then show ?thesis using False assms
    by (auto simp: breaker_defs word_le_nat_alt word_less_nat_alt)
qed (use assms in \<open>auto simp: breaker_defs\<close>)

lemma breaker_step_simulates:
  assumes "breaker_ok threshold timeout cb" "breaker_step e cb = (b, cb')"
  shows "phase_step (unat threshold) timeout e (phase_of cb) = (b, phase_of cb') \<and> breaker_ok threshold timeout cb'"
proof (cases e)
  case (Ask now)
  then show ?thesis using assms ask_simulates [of threshold timeout cb now b cb'] by simp
next
  case Succeeded
  then show ?thesis using assms success_simulates [of threshold timeout cb] by auto
next
  case (Failed now)
  then show ?thesis using assms failure_simulates [of threshold timeout cb now] by auto
qed

lemma breaker_run_simulates:
  "breaker_ok threshold timeout cb \<Longrightarrow> event_run breaker_step es cb = (bs, cb') \<Longrightarrow>
   event_run (phase_step (unat threshold) timeout) es (phase_of cb) = (bs, phase_of cb')
   \<and> breaker_ok threshold timeout cb'"
proof (induction es arbitrary: cb bs)
  case (Cons e es)
  obtain b cb1 bs' where step: "breaker_step e cb = (b, cb1)"
    and run: "event_run breaker_step es cb1 = (bs', cb')" "bs = b # bs'"
    using Cons.prems(2) by (auto split: prod.splits)
  note sim = breaker_step_simulates [OF Cons.prems(1) step]
  show ?case using sim run Cons.IH [of cb1 bs'] by simp
qed simp

lemma new_breaker_ok: "breaker_ok threshold (go_int64 (sint timeout_secs * second)) (new_circuit_breaker threshold timeout_secs)"
  by (simp add: breaker_ok_def new_circuit_breaker_def)

text \<open>
  C21: for every sequence of requests, successes and failures a new circuit breaker
  answers as the two-phase machine does (closed with its consecutive failures, tripped
  since a time with its successes) and its state abstracts to that phase, so none of its
  counters can wrap into a wrong decision
\<close>

theorem breaker_refines_phases:
  "event_run (phase_step (unat threshold) (go_int64 (sint timeout_secs * second))) es (Closed 0)
   = (let (answers, cb) = event_run breaker_step es (new_circuit_breaker threshold timeout_secs)
      in (answers, phase_of cb))"
  using breaker_run_simulates [OF new_breaker_ok]
  by (auto simp: phase_of_def new_circuit_breaker_def split: prod.splits)

section \<open>Permits\<close>

text \<open>
  A pool of permits: the contract that the semaphore documents and that the request limiter
  keeps for its own clients. \<open>valid\<close> is what an implementation needs of its state.
\<close>

locale permit_pool =
  fixes take_permit :: "'p \<Rightarrow> bool \<times> 'p"
    and give_permit :: "'p \<Rightarrow> 'p option"
    and held :: "'p \<Rightarrow> nat"
    and limit :: "'p \<Rightarrow> nat"
    and valid :: "'p \<Rightarrow> bool"
  assumes take_law: "valid p \<Longrightarrow> take_permit p = (b, p') \<Longrightarrow>
      valid p' \<and> limit p' = limit p \<and> (b \<longleftrightarrow> held p < limit p)
      \<and> held p' = (if b then Suc (held p) else held p)"
    and give_law: "valid p \<Longrightarrow> 0 < held p \<Longrightarrow>
      \<exists>p'. give_permit p = Some p' \<and> valid p' \<and> limit p' = limit p \<and> Suc (held p') = held p"
begin

lemma take_refused: "valid p \<Longrightarrow> take_permit p = (False, p') \<Longrightarrow> limit p \<le> held p \<and> held p' = held p"
  using take_law by fastforce

lemma give_after_take:
  assumes "valid p" "take_permit p = (True, p1)"
  shows "\<exists>p2. give_permit p1 = Some p2 \<and> valid p2 \<and> limit p2 = limit p \<and> held p2 = held p"
  using take_law [OF assms] give_law [of p1] by auto

lemma free_permit: "valid p \<Longrightarrow> held p < limit p \<Longrightarrow> \<exists>p1. take_permit p = (True, p1)"
  using take_law [of p] by (metis surj_pair)

end

text \<open>The documented behaviour of \<open>semaphore.Weighted\<close> for weights of one.\<close>

locale weighted_semaphore =
  semaphore: permit_pool "sem_try_acquire S" "sem_release S" held limit "\<lambda>_. True"
  for S :: "'s semaphore" and held :: "'s \<Rightarrow> nat" and limit :: "'s \<Rightarrow> nat" +
  assumes new_law: "0 < n \<Longrightarrow> held (sem_new S n) = 0 \<and> limit (sem_new S n) = nat n"

definition limiter_held :: "'s request_limiter \<Rightarrow> nat" where
  "limiter_held rl = nat (rl_in_flight rl)"

definition limiter_limit :: "'s request_limiter \<Rightarrow> nat" where
  "limiter_limit rl = nat (rl_max rl)"

definition limiter_valid :: "('s \<Rightarrow> nat) \<Rightarrow> ('s \<Rightarrow> nat) \<Rightarrow> 's request_limiter \<Rightarrow> bool" where
  "limiter_valid held limit rl \<longleftrightarrow>
     0 < rl_max rl \<and> fits_int64 (rl_max rl) \<and> 0 \<le> rl_in_flight rl \<and> rl_in_flight rl \<le> rl_max rl
     \<and> int (held (rl_semaphore rl)) = rl_in_flight rl \<and> int (limit (rl_semaphore rl)) = rl_max rl"

lemmas limiter_defs = limiter_held_def limiter_limit_def limiter_valid_def

context weighted_semaphore begin

lemma limiter_take:
  assumes "limiter_valid held limit rl" "try_acquire S rl = (b, rl')"
  shows "limiter_valid held limit rl' \<and> limiter_limit rl' = limiter_limit rl
    \<and> (b \<longleftrightarrow> limiter_held rl < limiter_limit rl)
    \<and> limiter_held rl' = (if b then Suc (limiter_held rl) else limiter_held rl)"
proof -
  obtain s where t: "sem_try_acquire S (rl_semaphore rl) = (b, s)"
    using assms(2) by (auto simp: try_acquire_def split: prod.splits bool.splits)
  note law = semaphore.take_law [OF TrueI t]
  have "rl_in_flight rl < rl_max rl \<Longrightarrow> go_int64 (rl_in_flight rl + 1) = rl_in_flight rl + 1"
    using assms(1) by (intro go_int64_fits) (auto simp: limiter_valid_def fits_int64_def)
  then show ?thesis using assms law t
    by (cases b) (auto simp: try_acquire_def limiter_defs nat_add_distrib)
qed

lemma limiter_give:
  assumes v: "limiter_valid held limit rl" and h: "0 < limiter_held rl"
  shows "\<exists>rl'. release S rl = Some rl' \<and> limiter_valid held limit rl'
    \<and> limiter_limit rl' = limiter_limit rl \<and> Suc (limiter_held rl') = limiter_held rl"
proof -
  have pos: "0 < rl_in_flight rl" using h by (simp add: limiter_held_def)
  then obtain s where s: "sem_release S (rl_semaphore rl) = Some s"
    "limit s = limit (rl_semaphore rl)" "Suc (held s) = held (rl_semaphore rl)"
    using v semaphore.give_law [of "rl_semaphore rl"] by (auto simp: limiter_valid_def)
  have "go_int64 (rl_in_flight rl - 1) = rl_in_flight rl - 1"
    using v pos by (intro go_int64_fits) (auto simp: limiter_valid_def fits_int64_def)
  then show ?thesis using v pos s by (auto simp: release_def limiter_defs)
qed

lemma new_limiter:
  "fits_int64 m \<Longrightarrow> limiter_valid held limit (new_request_limiter S m)
   \<and> limiter_held (new_request_limiter S m) = 0
   \<and> limiter_limit (new_request_limiter S m) = (if m \<le> 0 then 100 else nat m)"
  using new_law [of 100] new_law [of m]
  by (simp add: limiter_defs new_request_limiter_def Let_def fits_int64_def)

end

sublocale weighted_semaphore \<subseteq> limiter:
  permit_pool "try_acquire S" "release S" limiter_held limiter_limit "limiter_valid held limit"
  by unfold_locales (use limiter_take limiter_give in blast)+

text \<open>A counter and its bound behave as documented, so the laws can be met.\<close>

definition counting_semaphore :: "(nat \<times> nat) semaphore" where
  "counting_semaphore =
     \<lparr>sem_new = (\<lambda>n. (0, nat n)),
      sem_try_acquire = (\<lambda>(h, l). if h < l then (True, (Suc h, l)) else (False, (h, l))),
      sem_release = (\<lambda>(h, l). if h = 0 then None else Some (h - 1, l))\<rparr>"

interpretation counting: weighted_semaphore counting_semaphore fst snd
  by unfold_locales (auto simp: counting_semaphore_def split: if_splits prod.splits)

section \<open>Overlapping calls through one guard\<close>

text \<open>
  The calls of one guard as they interleave: an admission that lets the call run, an
  admission that refuses it, and the return of a running call. The number counts the
  running calls.
\<close>

inductive guard_step ::
  "'s semaphore \<Rightarrow> 's dependency_guard \<times> nat \<Rightarrow> 's dependency_guard \<times> nat \<Rightarrow> bool"
  for S :: "'s semaphore" where
  admitted: "guard_enter S now g = Some (None, g') \<Longrightarrow> guard_step S (g, n) (g', Suc n)"
| refused: "guard_enter S now g = Some (Some e, g') \<Longrightarrow> guard_step S (g, n) (g', n)"
| returned: "guard_exit S now err g = Some g' \<Longrightarrow> guard_step S (g, Suc n) (g', n)"

inductive_cases guard_stepE: "guard_step S (g, n) (g', n')"

inductive guard_reachable :: "'s semaphore \<Rightarrow> 's dependency_guard \<Rightarrow> 's dependency_guard \<times> nat \<Rightarrow> bool"
  for S :: "'s semaphore" and g0 :: "'s dependency_guard" where
  start: "guard_reachable S g0 (g0, 0)"
| step: "guard_reachable S g0 c \<Longrightarrow> guard_step S c c' \<Longrightarrow> guard_reachable S g0 c'"

definition guard_valid :: "('s \<Rightarrow> nat) \<Rightarrow> ('s \<Rightarrow> nat) \<Rightarrow> 's dependency_guard \<Rightarrow> bool" where
  "guard_valid held limit g \<longleftrightarrow> limiter_valid held limit (dg_limiter g)"

lemma should_allow_cases:
  obtains (allowed) cb where "should_allow_request now g = (True, cb)"
  | (blocked) "should_allow_request now g = (False, g)"
proof (cases "should_allow_request now g")
  case (Pair b cb)
  then show ?thesis using that by (cases b) (auto simp: should_allow_request_def split: if_splits)
qed

context weighted_semaphore begin

lemma guard_enter_full:
  assumes "limiter_valid held limit (dg_limiter g)" "\<not> limiter_held (dg_limiter g) < limiter_limit (dg_limiter g)"
  shows "\<exists>e rl. guard_enter S now g = Some (Some e, g\<lparr>dg_limiter := rl\<rparr>) \<and> limiter_valid held limit rl
    \<and> limiter_held rl = limiter_held (dg_limiter g) \<and> limiter_limit rl = limiter_limit (dg_limiter g)"
proof -
  obtain b rl where t: "try_acquire S (dg_limiter g) = (b, rl)" by fastforce
  show ?thesis using limiter.take_law [OF assms(1) t] assms(2) t
    by (auto simp: guard_enter_def)
qed

lemma guard_enter_runs:
  assumes "limiter_valid held limit (dg_limiter g)" "limiter_held (dg_limiter g) < limiter_limit (dg_limiter g)"
    "should_allow_request now (dg_breaker g) = (True, cb)"
  shows "\<exists>rl. guard_enter S now g = Some (None, g\<lparr>dg_limiter := rl, dg_breaker := cb\<rparr>) \<and> limiter_valid held limit rl
    \<and> limiter_held rl = Suc (limiter_held (dg_limiter g)) \<and> limiter_limit rl = limiter_limit (dg_limiter g)"
proof -
  obtain rl where t: "try_acquire S (dg_limiter g) = (True, rl)"
    using limiter.free_permit [OF assms(1,2)] by auto
  show ?thesis using limiter.take_law [OF assms(1) t] assms(3) t
    by (auto simp: guard_enter_def)
qed

lemma guard_enter_open:
  assumes "limiter_valid held limit (dg_limiter g)" "limiter_held (dg_limiter g) < limiter_limit (dg_limiter g)"
    "should_allow_request now (dg_breaker g) = (False, cb)"
  shows "\<exists>rl. guard_enter S now g = Some (Some (StatusError CodesUnavailable
        (dg_name g @ '' dependency circuit open; failing fast'') None), g\<lparr>dg_limiter := rl\<rparr>)
    \<and> limiter_valid held limit rl
    \<and> limiter_held rl = limiter_held (dg_limiter g) \<and> limiter_limit rl = limiter_limit (dg_limiter g)"
proof -
  obtain rl where t: "try_acquire S (dg_limiter g) = (True, rl)"
    using limiter.free_permit [OF assms(1,2)] by auto
  have "cb = dg_breaker g" using assms(3) should_allow_cases [of now "dg_breaker g"] by fastforce
  then show ?thesis using limiter.give_after_take [OF assms(1) t] assms(3) t
    by (auto simp: guard_enter_def)
qed

lemma guard_enter_total:
  assumes "guard_valid held limit g"
  obtains (refused) e g' where "guard_enter S now g = Some (Some e, g')" "guard_valid held limit g'"
    "limiter_held (dg_limiter g') = limiter_held (dg_limiter g)"
    "limiter_limit (dg_limiter g') = limiter_limit (dg_limiter g)"
  | (runs) g' where "guard_enter S now g = Some (None, g')" "guard_valid held limit g'"
    "limiter_held (dg_limiter g') = Suc (limiter_held (dg_limiter g))"
    "limiter_limit (dg_limiter g') = limiter_limit (dg_limiter g)"
proof -
  have v: "limiter_valid held limit (dg_limiter g)" using assms by (simp add: guard_valid_def)
  consider (full) "\<not> limiter_held (dg_limiter g) < limiter_limit (dg_limiter g)"
    | (run) cb where "limiter_held (dg_limiter g) < limiter_limit (dg_limiter g)"
        "should_allow_request now (dg_breaker g) = (True, cb)"
    | (opened) cb where "limiter_held (dg_limiter g) < limiter_limit (dg_limiter g)"
        "should_allow_request now (dg_breaker g) = (False, cb)"
    by (metis (full_types) surj_pair)
  then show ?thesis
  proof cases
    case full
    then show ?thesis using guard_enter_full [OF v, of now] refused by (auto simp: guard_valid_def)
  next
    case run
    then show ?thesis using guard_enter_runs [OF v] runs by (fastforce simp: guard_valid_def)
  next
    case opened
    then show ?thesis using guard_enter_open [OF v] refused by (fastforce simp: guard_valid_def)
  qed
qed

lemma guard_exit_total:
  assumes "guard_valid held limit g" "0 < limiter_held (dg_limiter g)"
  obtains g' where "guard_exit S now err g = Some g'" "guard_valid held limit g'"
    "Suc (limiter_held (dg_limiter g')) = limiter_held (dg_limiter g)"
    "limiter_limit (dg_limiter g') = limiter_limit (dg_limiter g)"
  using limiter.give_law [of "dg_limiter g"] assms
  by (fastforce simp: guard_exit_def guard_valid_def Let_def)

lemma guard_step_keeps:
  assumes "guard_valid held limit g" "limiter_held (dg_limiter g) = n" "guard_step S (g, n) (g', n')"
  shows "guard_valid held limit g' \<and> limiter_held (dg_limiter g') = n'
    \<and> limiter_limit (dg_limiter g') = limiter_limit (dg_limiter g)"
  using assms(3)
proof (elim guard_stepE)
  fix now assume "guard_enter S now g = Some (None, g')" "n' = Suc n"
  then show ?thesis using guard_enter_total [OF assms(1), of now] assms(2) by (metis option.inject prod.inject option.distinct(1))
next
  fix now e assume "guard_enter S now g = Some (Some e, g')" "n' = n"
  then show ?thesis using guard_enter_total [OF assms(1), of now] assms(2) by (metis option.inject prod.inject option.distinct(1))
next
  fix now err assume "guard_exit S now err g = Some g'" "n = Suc n'"
  then show ?thesis using guard_exit_total [OF assms(1), of now err] assms(2)
    by (metis Suc_inject option.inject zero_less_Suc)
qed

lemma guard_invariant:
  assumes "guard_reachable S g0 c" "guard_valid held limit g0" "limiter_held (dg_limiter g0) = 0"
  shows "guard_valid held limit (fst c) \<and> limiter_held (dg_limiter (fst c)) = snd c
    \<and> limiter_limit (dg_limiter (fst c)) = limiter_limit (dg_limiter g0)"
  using assms(1)
proof induction
  case (step c c')
  then show ?case using guard_step_keeps [of "fst c" "snd c" "fst c'" "snd c'"] by simp
qed (use assms in simp)

end

lemma guard_limiter [simp]:
  "dg_limiter (new_dependency_guard S name threshold timeout_secs m t) = new_request_limiter S m"
  "dg_breaker (new_dependency_guard S name threshold timeout_secs m t) = new_circuit_breaker threshold timeout_secs"
  "dg_name (new_dependency_guard S name threshold timeout_secs m t) = name"
  by (simp_all add: new_dependency_guard_def)

text \<open>
  C22: however calls through one dependency guard interleave, at most the configured
  number run at once, the in-flight counter is the number of running calls, and neither an
  admission nor a return makes the semaphore panic
\<close>

theorem guard_bulkhead:
  assumes "weighted_semaphore S held limit" "fits_int64 max_concurrent"
    "guard_reachable S (new_dependency_guard S name threshold timeout_secs max_concurrent call_timeout) (g, n)"
  shows "int n \<le> (if max_concurrent \<le> 0 then 100 else max_concurrent)
    \<and> rl_in_flight (dg_limiter g) = int n
    \<and> (\<exists>r g'. guard_enter S now g = Some (r, g')) \<and> (n = 0 \<or> (\<exists>g'. guard_exit S now err g = Some g'))"
proof -
  note sem = assms(1)
  note new = weighted_semaphore.new_limiter [OF sem assms(2)]
  have inv: "guard_valid held limit g \<and> limiter_held (dg_limiter g) = n
      \<and> limiter_limit (dg_limiter g) = (if max_concurrent \<le> 0 then 100 else nat max_concurrent)"
    using weighted_semaphore.guard_invariant [OF sem assms(3)] new by (simp add: guard_valid_def)
  have enter: "\<exists>r g'. guard_enter S now g = Some (r, g')"
    using weighted_semaphore.guard_enter_total [OF sem, of g now] inv by metis
  have leave: "n = 0 \<or> (\<exists>g'. guard_exit S now err g = Some g')"
    using weighted_semaphore.guard_exit_total [OF sem, of g now err] inv by (metis neq0_conv)
  have flight: "rl_in_flight (dg_limiter g) = int n"
    using inv by (auto simp: guard_valid_def limiter_defs)
  have "int n \<le> rl_max (dg_limiter g)" "0 < rl_max (dg_limiter g)"
    using inv flight by (auto simp: guard_valid_def limiter_valid_def)
  moreover have "nat (rl_max (dg_limiter g)) = (if max_concurrent \<le> 0 then 100 else nat max_concurrent)"
    using inv by (simp add: limiter_limit_def)
  ultimately show ?thesis using enter leave flight by (auto split: if_splits)
qed

theorem guard_bulkhead_witness:
  "\<exists>g. guard_reachable counting_semaphore (new_dependency_guard counting_semaphore ''saldo'' 5 30 1 0) (g, 1)
    \<and> rl_in_flight (dg_limiter g) = 1"
proof -
  let ?g = "new_dependency_guard counting_semaphore ''saldo'' 5 30 1 0"
  have "guard_enter counting_semaphore 0 ?g
      = Some (None, ?g\<lparr>dg_limiter := \<lparr>rl_semaphore = (1, 1), rl_max = 1, rl_in_flight = 1\<rparr>\<rparr>)"
    by code_simp
  from guard_reachable.step [OF guard_reachable.start guard_step.admitted [OF this]]
  have r: "guard_reachable counting_semaphore ?g
      (?g\<lparr>dg_limiter := \<lparr>rl_semaphore = (1, 1), rl_max = 1, rl_in_flight = 1\<rparr>\<rparr>, 1)" by simp
  show ?thesis
    using r guard_bulkhead [OF counting.weighted_semaphore_axioms _ r, of 0 None] by (auto simp: fits_int64_def)
qed

section \<open>Outage and recovery of one method\<close>

text \<open>Successive calls of one method through the client interceptor.\<close>

type_synonym 'w client_call = "int \<times> int \<times> ('w \<Rightarrow> go_error option \<times> 'w)"

fun client_run ::
  "'s semaphore \<Rightarrow> string \<Rightarrow> 'w client_call list \<Rightarrow> 's guard_table \<Rightarrow> 'w \<Rightarrow>
   (go_error option list \<times> 's guard_table \<times> 'w) option" where
  "client_run S m [] guards w = Some ([], guards, w)"
| "client_run S m ((now, now', f) # cs) guards w =
     (case intercept_client_call S now now' m f guards w of
        None \<Rightarrow> None
      | Some (err, guards1, w1) \<Rightarrow>
          map_option (\<lambda>(errs, guards2, w2). (err # errs, guards2, w2)) (client_run S m cs guards1 w1))"

text \<open>The calls made directly, without a guard.\<close>

fun direct_run :: "'w client_call list \<Rightarrow> 'w \<Rightarrow> go_error option list \<times> 'w" where
  "direct_run [] w = ([], w)"
| "direct_run ((now, now', f) # cs) w =
     (case f w of (err, w1) \<Rightarrow> (case direct_run cs w1 of (errs, w2) \<Rightarrow> (err # errs, w2)))"

text \<open>The guard of a method is idle, in a phase of its breaker.\<close>

definition method_phase ::
  "('s \<Rightarrow> nat) \<Rightarrow> ('s \<Rightarrow> nat) \<Rightarrow> 's semaphore \<Rightarrow> string \<Rightarrow> 's guard_table \<Rightarrow> breaker_phase \<Rightarrow> bool" where
  "method_phase held limit S m guards ph \<longleftrightarrow>
     (let g = fst (guard_for S m guards)
      in limiter_valid held limit (dg_limiter g) \<and> limiter_held (dg_limiter g) = 0
         \<and> 0 < limiter_limit (dg_limiter g) \<and> dg_name g = m
         \<and> breaker_ok 5 (30 * second) (dg_breaker g) \<and> phase_of (dg_breaker g) = ph)"

definition outcome_event :: "int \<Rightarrow> go_error option \<Rightarrow> breaker_event" where
  "outcome_event now err = (if is_transport_failure err then Failed now else Succeeded)"

definition after_call :: "int \<Rightarrow> go_error option \<Rightarrow> breaker_phase \<Rightarrow> breaker_phase" where
  "after_call now err ph = snd (phase_step 5 (30 * second) (outcome_event now err) ph)"

context weighted_semaphore begin

lemma fresh_method: "guards m = None \<Longrightarrow> method_phase held limit S m guards (Closed 0)"
  using new_limiter [of 100] new_breaker_ok [of 5 30]
  by (simp add: method_phase_def guard_for_def Let_def fits_int64_def phase_of_def new_circuit_breaker_def
        go_int64_def time_defs)

lemma admitted_call:
  assumes "method_phase held limit S m guards ph" "fst (phase_step 5 (30 * second) (Ask now) ph)"
  shows "\<exists>guards1. intercept_client_call S now now' m f guards w = Some (fst (f w), guards1, snd (f w))
    \<and> method_phase held limit S m guards1 (after_call now' (fst (f w)) (snd (phase_step 5 (30 * second) (Ask now) ph)))"
proof -
  obtain g guards0 where g: "guard_for S m guards = (g, guards0)" by fastforce
  note mp = assms(1) [unfolded method_phase_def Let_def g fst_conv]
  obtain b cb where ask: "should_allow_request now (dg_breaker g) = (b, cb)" by fastforce
  have sim: "phase_step 5 (30 * second) (Ask now) ph = (b, phase_of cb) \<and> breaker_ok 5 (30 * second) cb"
    using ask_simulates [of 5 "30 * second" "dg_breaker g", OF _ ask] mp by simp
  then have b: b using assms(2) by simp
  obtain rl where rl: "guard_enter S now g = Some (None, g\<lparr>dg_limiter := rl, dg_breaker := cb\<rparr>)"
      "limiter_valid held limit rl" "limiter_held rl = 1" "limiter_limit rl = limiter_limit (dg_limiter g)"
    using guard_enter_runs [of g now cb] mp ask b by auto
  obtain rl' where rl': "release S rl = Some rl'" "limiter_valid held limit rl'" "limiter_held rl' = 0"
      "limiter_limit rl' = limiter_limit (dg_limiter g)"
    using limiter.give_law [OF rl(2)] rl by auto
  obtain err w1 where f: "f w = (err, w1)" by fastforce
  let ?cb = "if is_transport_failure err then record_failure now' cb else record_success cb"
  have "phase_of ?cb = after_call now' err (phase_of cb) \<and> breaker_ok 5 (30 * second) ?cb"
    using success_simulates [of 5 "30 * second" cb] failure_simulates [of 5 "30 * second" cb now'] sim
    by (simp add: after_call_def outcome_event_def)
  then show ?thesis using g mp rl rl' f sim
    by (auto simp: intercept_client_call_def guard_call_def guard_exit_def method_phase_def guard_for_def Let_def)
qed

lemma refused_call:
  assumes "method_phase held limit S m guards ph" "\<not> fst (phase_step 5 (30 * second) (Ask now) ph)"
  shows "\<exists>guards1. intercept_client_call S now now' m f guards w
      = Some (Some (StatusError CodesUnavailable (m @ '' dependency circuit open; failing fast'') None), guards1, w)
    \<and> method_phase held limit S m guards1 ph"
proof -
  obtain g guards0 where g: "guard_for S m guards = (g, guards0)" by fastforce
  note mp = assms(1) [unfolded method_phase_def Let_def g fst_conv]
  obtain b cb where ask: "should_allow_request now (dg_breaker g) = (b, cb)" by fastforce
  have "\<not> b" using ask_simulates [of 5 "30 * second" "dg_breaker g", OF _ ask] mp assms(2) by simp
  then show ?thesis using guard_enter_open [of g now cb] mp g ask
    by (auto simp: intercept_client_call_def guard_call_def method_phase_def guard_for_def Let_def)
qed

text \<open>
  So whatever calls of a method follow one another, its guard stays idle and in some phase:
  the premise of the two properties below holds after any history that leaves the circuit
  closed.
\<close>

lemma client_run_phase:
  "method_phase held limit S m guards ph \<Longrightarrow>
   \<exists>errs guards1 w1 ph1. client_run S m cs guards w = Some (errs, guards1, w1) \<and> method_phase held limit S m guards1 ph1"
proof (induction cs arbitrary: guards w ph)
  case (Cons c cs)
  obtain now now' f where c: "c = (now, now', f)" by (cases c)
  obtain err guards1 w1 ph1 where one: "intercept_client_call S now now' m f guards w = Some (err, guards1, w1)"
    "method_phase held limit S m guards1 ph1"
    using admitted_call [OF Cons.prems, of now now' f w] refused_call [OF Cons.prems, of now now' f w] by blast
  from Cons.IH [OF one(2), of w1] one(1) c show ?case by auto
qed auto

lemma failing_run:
  "method_phase held limit S m guards (Closed k) \<Longrightarrow> cs \<noteq> [] \<Longrightarrow> k + length cs = 5 \<Longrightarrow>
   \<forall>(now, now', f) \<in> set cs. \<forall>w. is_transport_failure (fst (f w)) \<Longrightarrow>
   \<exists>guards1. client_run S m cs guards w = Some (fst (direct_run cs w), guards1, snd (direct_run cs w))
    \<and> method_phase held limit S m guards1 (Tripped 0 (fst (snd (last cs))))"
proof (induction cs arbitrary: guards k w)
  case (Cons c cs)
  obtain now now' f where c: "c = (now, now', f)" by (cases c)
  have fail: "is_transport_failure (fst (f w))" using Cons.prems c by auto
  obtain guards1 where one: "intercept_client_call S now now' m f guards w = Some (fst (f w), guards1, snd (f w))"
    and mp: "method_phase held limit S m guards1 (after_call now' (fst (f w)) (Closed k))"
    using admitted_call [OF Cons.prems(1), of now now' f w] by auto
  show ?case
  proof (cases "cs = []")
    case True
    then have "after_call now' (fst (f w)) (Closed k) = Tripped 0 now'"
      using fail Cons.prems(3) by (simp add: after_call_def outcome_event_def)
    then show ?thesis using True one mp c by (auto split: prod.splits)
  next
    case False
    then have "0 < length cs" by simp
    then have "k < 4" using Cons.prems(3) by (simp only: length_Cons)
    then have "after_call now' (fst (f w)) (Closed k) = Closed (Suc k)"
      using fail by (simp add: after_call_def outcome_event_def)
    then obtain guards2 where
      "client_run S m cs guards1 (snd (f w)) = Some (fst (direct_run cs (snd (f w))), guards2, snd (direct_run cs (snd (f w))))"
      "method_phase held limit S m guards2 (Tripped 0 (fst (snd (last cs))))"
      using Cons.IH [of guards1 "Suc k" "snd (f w)"] mp False Cons.prems by auto
    then show ?thesis using one c False by (auto split: prod.splits)
  qed
qed simp

lemma recovering_run:
  "method_phase held limit S m guards ph \<Longrightarrow>
   (case ph of Closed n \<Rightarrow> n = 0 | Tripped k t \<Rightarrow> t = since \<and> k < 5) \<Longrightarrow>
   \<forall>(now, now', f) \<in> set cs. 30 * second < time_sub now since \<and> (\<forall>w. \<not> is_transport_failure (fst (f w))) \<Longrightarrow>
   \<exists>guards1. client_run S m cs guards w = Some (fst (direct_run cs w), guards1, snd (direct_run cs w))
    \<and> method_phase held limit S m guards1
        (case ph of Closed n \<Rightarrow> Closed 0
         | Tripped k t \<Rightarrow> if 5 \<le> k + length cs then Closed 0 else Tripped (k + length cs) t)"
proof (induction cs arbitrary: guards ph w)
  case Nil
  then show ?case by (auto split: breaker_phase.splits)
next
  case (Cons c cs)
  obtain now now' f where c: "c = (now, now', f)" by (cases c)
  have late: "30 * second < time_sub now since" and ok: "\<not> is_transport_failure (fst (f w))"
    using Cons.prems(3) c by auto
  have ask: "phase_step 5 (30 * second) (Ask now) ph = (True, ph)"
    using Cons.prems(2) late by (auto split: breaker_phase.splits)
  obtain guards1 where one: "intercept_client_call S now now' m f guards w = Some (fst (f w), guards1, snd (f w))"
    and mp: "method_phase held limit S m guards1 (after_call now' (fst (f w)) ph)"
    using admitted_call [OF Cons.prems(1), of now now' f w] ask by auto
  define ph1 where "ph1 = after_call now' (fst (f w)) ph"
  have ph1: "case ph1 of Closed n \<Rightarrow> n = 0 | Tripped k t \<Rightarrow> t = since \<and> k < 5"
    "(case ph1 of Closed n \<Rightarrow> Closed 0 | Tripped k t \<Rightarrow> if 5 \<le> k + length cs then Closed 0 else Tripped (k + length cs) t)
     = (case ph of Closed n \<Rightarrow> Closed 0 | Tripped k t \<Rightarrow> if 5 \<le> k + length (c # cs) then Closed 0 else Tripped (k + length (c # cs)) t)"
    using Cons.prems(2) ok by (auto simp: ph1_def after_call_def outcome_event_def split: breaker_phase.splits)
  obtain guards2 where
    "client_run S m cs guards1 (snd (f w)) = Some (fst (direct_run cs (snd (f w))), guards2, snd (direct_run cs (snd (f w))))"
    "method_phase held limit S m guards2 (case ph of Closed n \<Rightarrow> Closed 0
       | Tripped k t \<Rightarrow> if 5 \<le> k + length (c # cs) then Closed 0 else Tripped (k + length (c # cs)) t)"
    using Cons.IH [OF mp [folded ph1_def] ph1(1), of "snd (f w)"] Cons.prems(3) unfolding ph1(2) by auto
  then show ?case using one c by (auto split: prod.splits)
qed

end

lemma intercept_defines:
  "intercept_client_call S now now' m f guards w = Some (err, guards1, w1) \<Longrightarrow> guards1 m \<noteq> None"
  by (auto simp: intercept_client_call_def split: prod.splits)

lemma intercept_keeps_defined:
  "intercept_client_call S now now' m f guards w = Some (err, guards1, w1) \<Longrightarrow> m' \<noteq> m \<Longrightarrow> guards1 m' = guards m'"
  by (auto simp: intercept_client_call_def guard_for_def Let_def split: prod.splits option.splits)

lemma client_run_defines:
  "client_run S m cs guards w = Some (errs, guards1, w1) \<Longrightarrow> cs \<noteq> [] \<Longrightarrow> guards1 m \<noteq> None"
proof (induction cs arbitrary: guards w errs)
  case (Cons c cs)
  then show ?case
    by (cases "cs = []"; cases c) (auto split: option.splits prod.splits dest: intercept_defines)
qed simp

text \<open>
  C23: when calls one after the other of an idle method whose circuit is closed bring its
  transport failures in a row to five, a further call of it within 30 seconds of the last
  is answered Unavailable and the call is not made
\<close>

theorem outage_fails_fast:
  assumes sem: "weighted_semaphore S held limit"
    and closed: "method_phase held limit S m guards (Closed k)"
    and outage: "cs \<noteq> []" "k + length cs = 5" "\<forall>(now, now', f) \<in> set cs. \<forall>w. is_transport_failure (fst (f w))"
    and early: "time_sub now (fst (snd (last cs))) \<le> 30 * second"
  shows "\<exists>guards1 guards2.
      client_run S m cs guards w = Some (fst (direct_run cs w), guards1, snd (direct_run cs w))
    \<and> intercept_client_call S now now' m f guards1 w1
      = Some (Some (StatusError CodesUnavailable (m @ '' dependency circuit open; failing fast'') None), guards2, w1)"
proof -
  obtain guards1 where
    "client_run S m cs guards w = Some (fst (direct_run cs w), guards1, snd (direct_run cs w))"
    "method_phase held limit S m guards1 (Tripped 0 (fst (snd (last cs))))"
    using weighted_semaphore.failing_run [OF sem closed outage] by blast
  then show ?thesis
    using weighted_semaphore.refused_call [OF sem, of m guards1 _ now now' f w1] early by fastforce
qed

text \<open>
  C24: after such an outage of a method whose circuit was closed, five calls begun more
  than 30 seconds after the last failure, one after the other, and not failing in
  transport all go through and close the circuit of the method again
\<close>

theorem outage_recovers:
  assumes sem: "weighted_semaphore S held limit"
    and closed: "method_phase held limit S m guards (Closed k)"
    and outage: "cs \<noteq> []" "k + length cs = 5" "\<forall>(now, now', f) \<in> set cs. \<forall>w. is_transport_failure (fst (f w))"
    and late: "\<forall>(now, now', f) \<in> set ds. 30 * second < time_sub now (fst (snd (last cs)))
      \<and> (\<forall>w. \<not> is_transport_failure (fst (f w)))"
    and five: "5 \<le> length ds"
  shows "\<exists>guards1 guards2 w1 g.
      client_run S m cs guards w = Some (fst (direct_run cs w), guards1, w1)
    \<and> client_run S m ds guards1 w1 = Some (fst (direct_run ds w1), guards2, snd (direct_run ds w1))
    \<and> guards2 m = Some g \<and> \<not> cb_open (dg_breaker g) \<and> cb_failures (dg_breaker g) = 0"
proof -
  have ne: "ds \<noteq> []" using five by auto
  obtain guards1 where one:
    "client_run S m cs guards w = Some (fst (direct_run cs w), guards1, snd (direct_run cs w))"
    "method_phase held limit S m guards1 (Tripped 0 (fst (snd (last cs))))"
    using weighted_semaphore.failing_run [OF sem closed outage] by blast
  obtain guards2 where two:
    "client_run S m ds guards1 (snd (direct_run cs w)) = Some (fst (direct_run ds (snd (direct_run cs w))), guards2,
       snd (direct_run ds (snd (direct_run cs w))))"
    "method_phase held limit S m guards2 (Closed 0)"
    using weighted_semaphore.recovering_run [OF sem one(2), of "fst (snd (last cs))" ds "snd (direct_run cs w)"] late five
    by auto
  have "guards2 m \<noteq> None" using client_run_defines [OF two(1) ne] .
  then obtain g where "guards2 m = Some g" by auto
  then show ?thesis using one two
    by (auto simp: method_phase_def guard_for_def phase_of_def Let_def unat_eq_zero split: if_splits)
qed

definition down_call :: "nat client_call" where
  "down_call = (0, 1, \<lambda>n. (Some (StatusError CodesUnavailable ''down'' None), Suc n))"

definition up_call :: "nat client_call" where
  "up_call = (31 * second, 32 * second, \<lambda>n. (None, Suc n))"

lemma sample_calls:
  "\<forall>(now, now', f) \<in> set (replicate 5 down_call). \<forall>w. is_transport_failure (fst (f w))"
  "\<forall>(now, now', f) \<in> set (replicate 5 up_call). 30 * second < time_sub now (fst (snd (last (replicate 5 down_call))))
     \<and> (\<forall>w. \<not> is_transport_failure (fst (f w)))"
  by (simp_all add: down_call_def up_call_def is_transport_failure_def time_sub_def time_defs)

theorem outage_fails_fast_witness:
  "\<exists>guards1 guards2 errs.
      client_run counting_semaphore ''/pb.Saldo'' (replicate 5 down_call) Map.empty 0 = Some (errs, guards1, 5)
    \<and> intercept_client_call counting_semaphore 2 3 ''/pb.Saldo'' (snd (snd down_call)) guards1 5
      = Some (Some (StatusError CodesUnavailable ''/pb.Saldo dependency circuit open; failing fast'' None), guards2, 5)"
proof -
  have "snd (direct_run (replicate 5 down_call) 0) = 5" by code_simp
  moreover have "time_sub 2 (fst (snd (last (replicate 5 down_call)))) \<le> 30 * second"
    by (simp add: down_call_def time_sub_def time_defs)
  ultimately show ?thesis
    using outage_fails_fast [OF counting.weighted_semaphore_axioms counting.fresh_method [of Map.empty "''/pb.Saldo''"],
        of "replicate 5 down_call" 2 0 3 "snd (snd down_call)" 5] sample_calls(1)
    by fastforce
qed

theorem outage_recovers_witness:
  "\<exists>guards1 guards2 w1 errs g.
      client_run counting_semaphore ''/pb.Saldo'' (replicate 5 down_call) Map.empty 0 = Some (errs, guards1, w1)
    \<and> client_run counting_semaphore ''/pb.Saldo'' (replicate 5 up_call) guards1 w1
      = Some (fst (direct_run (replicate 5 up_call) w1), guards2, snd (direct_run (replicate 5 up_call) w1))
    \<and> guards2 ''/pb.Saldo'' = Some g \<and> \<not> cb_open (dg_breaker g)"
  using outage_recovers [OF counting.weighted_semaphore_axioms counting.fresh_method [of Map.empty "''/pb.Saldo''"],
      of "replicate 5 down_call" "replicate 5 up_call" 0] sample_calls by fastforce

section \<open>What the model shows against the comments\<close>

text \<open>
  A failure of a call that is let through while the circuit is half open neither restarts
  the timeout nor takes back the successes counted so far: however many probes fail, five
  successes in all close the circuit, and every request is let through meanwhile.
\<close>

lemma half_open_failures_are_ignored:
  "snd (event_run (phase_step threshold timeout) (map Failed ts) (Tripped k since)) = Tripped k since"
  by (induction ts) (auto split: prod.splits)

lemma half_open_admits_all:
  "\<forall>t \<in> set ts. timeout < time_sub t since \<Longrightarrow>
   fst (event_run (phase_step threshold timeout) (concat (map (\<lambda>t. [Ask t, Failed t]) ts)) (Tripped k since))
   = replicate (2 * length ts) True"
proof (induction ts)
  case (Cons t ts)
  then show ?case by (auto split: prod.splits)
qed simp

text \<open>Aborted and ResourceExhausted, which the guard's comment does not list, count as well.\<close>

lemma four_codes_count:
  "is_transport_failure (Some (StatusError c m d)) \<longleftrightarrow>
   c \<in> {CodesUnavailable, CodesDeadlineExceeded, CodesAborted, CodesResourceExhausted}"
  by (auto simp: is_transport_failure_def)

text \<open>
  The server interceptor reads the breaker but never reports an outcome to it: whatever the
  handlers return, its breaker stays as it was made.
\<close>

fun server_run ::
  "'s semaphore \<Rightarrow> ('w \<Rightarrow> (go_error + 'r) \<times> 'w) list \<Rightarrow> 's resilience_interceptor \<Rightarrow> 'w \<Rightarrow>
   ((go_error + 'r) list \<times> 's resilience_interceptor \<times> 'w) option" where
  "server_run S [] im w = Some ([], im, w)"
| "server_run S (h # hs) im w =
     (case intercept_server_call S h im w of
        None \<Rightarrow> None
      | Some (res, im1, w1) \<Rightarrow> map_option (\<lambda>(rs, im2, w2). (res # rs, im2, w2)) (server_run S hs im1 w1))"

lemma intercept_server_call_breaker:
  "intercept_server_call S h im w = Some (res, im1, w1) \<Longrightarrow> ri_breaker im1 = ri_breaker im"
  by (auto simp: intercept_server_call_def Let_def split: if_splits prod.splits bool.splits)

lemma server_breaker_never_opens:
  "server_run S hs im w = Some (rs, im1, w1) \<Longrightarrow> ri_breaker im1 = ri_breaker im"
  by (induction hs arbitrary: im w rs)
    (auto split: option.splits prod.splits dest: intercept_server_call_breaker)

text \<open>The history of the load monitor holds at most the last sixty samples.\<close>

lemma load_history_bounded:
  "length (lm_history lm) \<le> 60 \<Longrightarrow> length (lm_history (snd (get_current_rps rate now lm))) \<le> 60"
  by (simp add: get_current_rps_def Let_def)

lemma peak_fold: "foldl (\<lambda>peak s. if ls_rps s > peak then ls_rps s else peak) b ss = fold max (map ls_rps ss) b"
  by (induction ss arbitrary: b) (auto simp: max_def not_less intro: arg_cong2 [where f = "fold max"])

lemma peak_is_maximum:
  "get_peak_rps now duration lm = Max (insert 0 (ls_rps ` set (recent_snapshots now duration lm)))"
  using Max.set_eq_fold [of 0 "map ls_rps (recent_snapshots now duration lm)"]
  by (simp add: get_peak_rps_def peak_fold)

end
