(* ===== verification/SaldoLedger.thy ===== *)
theory SaldoLedger
  imports Errors
begin

text \<open>
  The balance table and the append-only ledger of the saldo service
  (\<open>service/saldo/database/schema/ledger.go\<close>): the two tables with their constraints, the
  statement that moves a balance and appends its ledger entry, the debit, credit and
  adjustment built on it with their replay check, and the invariant that every active
  balance is the sum of its ledger deltas. A table is the list of its rows in insertion
  order; the partial unique index \<open>idx_saldos_card_number_active\<close> admits at most one
  active row per card, so \<open>ORDER BY saldo_id DESC LIMIT 1\<close> has nothing to choose from.
\<close>

section \<open>Rows\<close>

record saldo_row =
  saldo_id :: int
  s_card :: string
  s_balance :: int
  s_withdraw_amount :: "int option"
  s_withdraw_time :: "int option"
  s_created_at :: int
  s_updated_at :: int
  s_deleted_at :: "int option"

datatype direction = Opening | Debit | Credit | Reversal

record ledger_entry =
  le_operation_id :: string
  le_card :: string
  le_direction :: direction
  le_amount :: int
  le_delta :: int
  le_balance_before :: int
  le_balance_after :: int
  le_source_type :: string
  le_source_id :: "string option"
  le_note :: "string option"
  le_created_at :: int

record ledger_mutation_params =
  m_card :: string
  m_amount :: int
  m_operation_id :: string
  m_source_type :: string
  m_source_id :: string

record ledger_adjustment_params =
  a_card :: string
  a_delta :: int
  a_operation_id :: string
  a_source_type :: string
  a_source_id :: string
  a_note :: string

datatype queue_status = QPending | QInvestigating | QResolved

record queue_row =
  q_id :: int
  q_saldo_id :: int
  q_card :: string
  q_current_balance :: int
  q_ledger_balance :: int
  q_difference :: int
  q_ledger_entries :: int
  q_status :: queue_status
  q_mismatch_count :: int
  q_first_seen_at :: int
  q_last_seen_at :: int
  q_resolved_at :: "int option"
  q_resolution_operation_id :: "string option"
  q_resolution_note :: "string option"

record saldo_db =
  saldos :: "saldo_row list"
  saldo_seq :: int
  ledger :: "ledger_entry list"
  recon_queue :: "queue_row list"
  recon_seq :: int

type_synonym ledger_key = "string \<times> string \<times> direction"

section \<open>Lookups and constraints\<close>

definition row_active :: "saldo_row \<Rightarrow> bool" where
  "row_active r \<longleftrightarrow> s_deleted_at r = None"

definition active_card :: "string \<Rightarrow> saldo_row \<Rightarrow> bool" where
  "active_card cnum r \<longleftrightarrow> s_card r = cnum \<and> row_active r"

definition get_saldo_by_card_number :: "string \<Rightarrow> saldo_db \<Rightarrow> saldo_row option" where
  "get_saldo_by_card_number cnum db = find (active_card cnum) (saldos db)"

definition get_saldo_by_id :: "int \<Rightarrow> saldo_db \<Rightarrow> saldo_row option" where
  "get_saldo_by_id i db = find (\<lambda>r. saldo_id r = i \<and> row_active r) (saldos db)"

definition entry_key :: "ledger_entry \<Rightarrow> ledger_key" where
  "entry_key e = (le_operation_id e, le_card e, le_direction e)"

definition find_entry :: "ledger_key \<Rightarrow> saldo_db \<Rightarrow> ledger_entry option" where
  "find_entry k db = find (\<lambda>e. entry_key e = k) (ledger db)"

definition nullif_empty :: "string \<Rightarrow> string option" where
  "nullif_empty s = (if s = [] then None else Some s)"

definition deref_string :: "string option \<Rightarrow> string" where
  "deref_string s = (case s of None \<Rightarrow> [] | Some x \<Rightarrow> x)"

text \<open>The CHECK constraints and column widths of \<open>balance_ledger\<close>.\<close>

definition delta_direction_ok :: "direction \<Rightarrow> int \<Rightarrow> bool" where
  "delta_direction_ok d x \<longleftrightarrow>
     (case d of Opening \<Rightarrow> x \<ge> 0 | Debit \<Rightarrow> x < 0 | Credit \<Rightarrow> x > 0 | Reversal \<Rightarrow> x \<noteq> 0)"

definition entry_fits :: "ledger_entry \<Rightarrow> bool" where
  "entry_fits e \<longleftrightarrow>
     length (le_operation_id e) \<le> 128 \<and> length (le_card e) \<le> 16
     \<and> length (le_source_type e) \<le> 64 \<and> length (deref_string (le_source_id e)) \<le> 128
     \<and> 0 \<le> le_amount e \<and> fits_int64 (le_amount e) \<and> fits_int64 (le_delta e)
     \<and> 0 \<le> le_balance_after e \<and> fits_int64 (le_balance_after e)
     \<and> delta_direction_ok (le_direction e) (le_delta e)"

section \<open>The ledger statement\<close>

text \<open>
  Debit, credit and adjustment are one statement with three parts: lock the card's
  active row, append the entry if the guard holds (\<open>ON CONFLICT DO NOTHING\<close> on the
  entry's key), and move the balance of the card whose entry was appended. A value out
  of range or a violated CHECK aborts the statement. \<open>Inr None\<close> is the empty result that
  \<open>Scan\<close> turns into \<open>pgx.ErrNoRows\<close>; a guard whose arithmetic overflows is \<open>None\<close>.
\<close>

definition append_and_move :: "int \<Rightarrow> ledger_entry \<Rightarrow> saldo_db \<Rightarrow> saldo_db" where
  "append_and_move now e db =
     db\<lparr>saldos := update_where (active_card (le_card e))
                   (\<lambda>s. s\<lparr>s_balance := s_balance s + le_delta e, s_updated_at := now\<rparr>) (saldos db),
        ledger := ledger db @ [e]\<rparr>"

definition ledger_statement ::
  "int \<Rightarrow> ledger_entry \<Rightarrow> (int \<Rightarrow> bool option) \<Rightarrow> (go_error, saldo_row option, saldo_db) op" where
  "ledger_statement now entry guard db =
     (case get_saldo_by_card_number (le_card entry) db of
        None \<Rightarrow> (Inr None, db)
      | Some r \<Rightarrow>
          (case guard (s_balance r) of
             None \<Rightarrow> (Inl (DbError ''bigint out of range''), db)
           | Some False \<Rightarrow> (Inr None, db)
           | Some True \<Rightarrow>
               (let e = entry\<lparr>le_balance_before := s_balance r,
                              le_balance_after := s_balance r + le_delta entry,
                              le_created_at := now\<rparr>
                in if \<not> entry_fits e then (Inl (DbError ''constraint violation''), db)
                   else if find_entry (entry_key e) db \<noteq> None then (Inr None, db)
                   else let db' = append_and_move now e db
                        in (Inr (get_saldo_by_card_number (le_card entry) db'), db'))))"

definition ErrLedgerOperationConflict :: go_error where
  "ErrLedgerOperationConflict = ErrorString ''ledger operation identity conflict''"

definition ledger_conflict :: "string \<Rightarrow> go_error" where
  "ledger_conflict op_id = Wrapped (''operation_id='' @ op_id) ErrLedgerOperationConflict"

text \<open>\<open>errors.Is(err, ErrLedgerOperationConflict)\<close>\<close>

fun is_ledger_conflict :: "go_error \<Rightarrow> bool" where
  "is_ledger_conflict (ErrorString m) \<longleftrightarrow> ErrorString m = ErrLedgerOperationConflict"
| "is_ledger_conflict (Wrapped _ e) \<longleftrightarrow> is_ledger_conflict e"
| "is_ledger_conflict (AppError t c m r v (Some i)) \<longleftrightarrow> is_ledger_conflict i"
| "is_ledger_conflict _ \<longleftrightarrow> False"

definition existing_ledger_mutation ::
  "ledger_mutation_params \<Rightarrow> direction \<Rightarrow> saldo_db \<Rightarrow> go_error + bool" where
  "existing_ledger_mutation arg d db =
     (case find_entry (m_operation_id arg, m_card arg, d) db of
        None \<Rightarrow> Inr False
      | Some e \<Rightarrow>
          (if le_amount e \<noteq> m_amount arg \<or> le_source_type e \<noteq> m_source_type arg
              \<or> deref_string (le_source_id e) \<noteq> m_source_id arg
           then Inl (ledger_conflict (m_operation_id arg)) else Inr True))"

definition abs_int64 :: "int \<Rightarrow> int" where
  "abs_int64 value = (if value < 0 then go_int64 (- value) else value)"

definition existing_ledger_adjustment ::
  "ledger_adjustment_params \<Rightarrow> saldo_db \<Rightarrow> go_error + bool" where
  "existing_ledger_adjustment arg db =
     (case find_entry (a_operation_id arg, a_card arg, Reversal) db of
        None \<Rightarrow> Inr False
      | Some e \<Rightarrow>
          (if le_delta e \<noteq> a_delta arg \<or> le_amount e \<noteq> abs_int64 (a_delta arg)
              \<or> le_source_type e \<noteq> a_source_type arg
              \<or> deref_string (le_source_id e) \<noteq> a_source_id arg
              \<or> deref_string (le_note e) \<noteq> a_note arg
           then Inl (ledger_conflict (a_operation_id arg)) else Inr True))"

text \<open>
  After an empty result the operations look for an earlier entry with the same
  identity: the same details make the call a replay, answered with the current row;
  other details are a conflict; no entry leaves \<open>pgx.ErrNoRows\<close>.
\<close>

definition replay_or_no_rows :: "go_error + bool \<Rightarrow> string \<Rightarrow> (go_error, saldo_row, saldo_db) op" where
  "replay_or_no_rows existing cnum db =
     (case existing of
        Inl e \<Rightarrow> (Inl e, db)
      | Inr False \<Rightarrow> (Inl ErrNoRows, db)
      | Inr True \<Rightarrow>
          (case get_saldo_by_card_number cnum db of
             None \<Rightarrow> (Inl ErrNoRows, db)
           | Some r \<Rightarrow> (Inr r, db)))"

definition mutation_entry :: "direction \<Rightarrow> int \<Rightarrow> ledger_mutation_params \<Rightarrow> ledger_entry" where
  "mutation_entry d delta arg =
     \<lparr>le_operation_id = m_operation_id arg, le_card = m_card arg, le_direction = d,
      le_amount = m_amount arg, le_delta = delta, le_balance_before = 0, le_balance_after = 0,
      le_source_type = m_source_type arg, le_source_id = nullif_empty (m_source_id arg),
      le_note = None, le_created_at = 0\<rparr>"

definition debit_saldo_with_ledger ::
  "int \<Rightarrow> ledger_mutation_params \<Rightarrow> (go_error, saldo_row, saldo_db) op" where
  "debit_saldo_with_ledger now arg =
     try_or (ledger_statement now (mutation_entry Debit (- m_amount arg) arg)
              (\<lambda>balance. Some (m_amount arg > 0 \<and> balance \<ge> m_amount arg)))
       (\<lambda>e. ret (Inl e))
       (\<lambda>row. case row of
          Some r \<Rightarrow> ret (Inr r)
        | None \<Rightarrow> \<lambda>db. replay_or_no_rows (existing_ledger_mutation arg Debit db) (m_card arg) db)"

definition credit_saldo_with_ledger ::
  "int \<Rightarrow> ledger_mutation_params \<Rightarrow> (go_error, saldo_row, saldo_db) op" where
  "credit_saldo_with_ledger now arg =
     try_or (ledger_statement now (mutation_entry Credit (m_amount arg) arg)
              (\<lambda>balance. Some (m_amount arg > 0)))
       (\<lambda>e. ret (Inl e))
       (\<lambda>row. case row of
          Some r \<Rightarrow> ret (Inr r)
        | None \<Rightarrow> \<lambda>db. replay_or_no_rows (existing_ledger_mutation arg Credit db) (m_card arg) db)"

definition adjustment_entry :: "ledger_adjustment_params \<Rightarrow> ledger_entry" where
  "adjustment_entry arg =
     \<lparr>le_operation_id = a_operation_id arg, le_card = a_card arg, le_direction = Reversal,
      le_amount = \<bar>a_delta arg\<bar>, le_delta = a_delta arg, le_balance_before = 0,
      le_balance_after = 0, le_source_type = a_source_type arg,
      le_source_id = nullif_empty (a_source_id arg), le_note = nullif_empty (a_note arg),
      le_created_at = 0\<rparr>"

definition apply_ledger_adjustment ::
  "int \<Rightarrow> ledger_adjustment_params \<Rightarrow> (go_error, saldo_row, saldo_db) op" where
  "apply_ledger_adjustment now arg =
     (if a_delta arg = 0
      then ret (Inl (ErrorString ''ledger adjustment delta must not be zero''))
      else try_or (ledger_statement now (adjustment_entry arg)
              (\<lambda>balance. if fits_int64 (balance + a_delta arg)
                         then Some (balance + a_delta arg \<ge> 0) else None))
       (\<lambda>e. ret (Inl e))
       (\<lambda>row. case row of
          Some r \<Rightarrow> ret (Inr r)
        | None \<Rightarrow> \<lambda>db. replay_or_no_rows (existing_ledger_adjustment arg db) (a_card arg) db))"

text \<open>\<open>ListLedgerEntries\<close>: the card's entries by time, then by entry number.\<close>

definition list_ledger_entries :: "string \<Rightarrow> nat \<Rightarrow> saldo_db \<Rightarrow> ledger_entry list" where
  "list_ledger_entries cnum limit db =
     take limit (sort_key le_created_at (filter (\<lambda>e. le_card e = cnum) (ledger db)))"

section \<open>Invariants\<close>

definition ledger_total :: "string \<Rightarrow> saldo_db \<Rightarrow> int" where
  "ledger_total cnum db = sum_list (map le_delta (filter (\<lambda>e. le_card e = cnum) (ledger db)))"

definition ledger_count :: "string \<Rightarrow> saldo_db \<Rightarrow> int" where
  "ledger_count cnum db = int (length (filter (\<lambda>e. le_card e = cnum) (ledger db)))"

definition balance_of :: "string \<Rightarrow> saldo_db \<Rightarrow> int option" where
  "balance_of cnum db = map_option s_balance (get_saldo_by_card_number cnum db)"

text \<open>
  The table constraints: one active row per card, distinct saldo ids below the
  sequence, distinct ledger keys, and the CHECKs on every entry.
\<close>

definition db_wf :: "saldo_db \<Rightarrow> bool" where
  "db_wf db \<longleftrightarrow>
     distinct (map s_card (filter row_active (saldos db)))
     \<and> distinct (map saldo_id (saldos db))
     \<and> (\<forall>r \<in> set (saldos db). saldo_id r < saldo_seq db)
     \<and> distinct (map entry_key (ledger db))
     \<and> (\<forall>e \<in> set (ledger db). entry_fits e)"

text \<open>Every active balance is non-negative and equals the sum of its ledger deltas.\<close>

definition reconciled :: "saldo_db \<Rightarrow> bool" where
  "reconciled db \<longleftrightarrow>
     (\<forall>r \<in> set (saldos db). row_active r \<longrightarrow> ledger_total (s_card r) db = s_balance r \<and> 0 \<le> s_balance r)"

section \<open>Effect of one posting\<close>

definition moved_row :: "int \<Rightarrow> ledger_entry \<Rightarrow> saldo_row \<Rightarrow> saldo_row" where
  "moved_row now e s = s\<lparr>s_balance := s_balance s + le_delta e, s_updated_at := now\<rparr>"

lemma active_card_moved [simp]: "active_card c (moved_row now e s) = active_card c s"
  by (simp add: moved_row_def active_card_def row_active_def)

lemma moved_row_simps [simp]:
  "s_card (moved_row now e s) = s_card s"
  "s_balance (moved_row now e s) = s_balance s + le_delta e"
  "row_active (moved_row now e s) = row_active s"
  "saldo_id (moved_row now e s) = saldo_id s"
  by (simp_all add: moved_row_def row_active_def)

lemma append_and_move_saldos:
  "saldos (append_and_move now e db) = update_where (active_card (le_card e)) (moved_row now e) (saldos db)"
proof -
  have "(\<lambda>s. s\<lparr>s_balance := s_balance s + le_delta e, s_updated_at := now\<rparr>) = moved_row now e"
    by (rule ext) (simp add: moved_row_def)
  then show ?thesis by (simp add: append_and_move_def)
qed

lemma append_and_move_rest [simp]:
  "ledger (append_and_move now e db) = ledger db @ [e]"
  "saldo_seq (append_and_move now e db) = saldo_seq db"
  "recon_queue (append_and_move now e db) = recon_queue db"
  by (simp_all add: append_and_move_def)

lemma lookup_card: "get_saldo_by_card_number c db = Some r \<Longrightarrow> r \<in> set (saldos db) \<and> s_card r = c \<and> row_active r"
  by (auto simp: get_saldo_by_card_number_def active_card_def dest: find_Some_mem)

lemma lookup_append_and_move:
  "get_saldo_by_card_number c (append_and_move now e db) =
     map_option (\<lambda>s. if c = le_card e then moved_row now e s else s) (get_saldo_by_card_number c db)"
proof -
  have "get_saldo_by_card_number c (append_and_move now e db) =
        map_option (\<lambda>s. if active_card (le_card e) s then moved_row now e s else s)
          (get_saldo_by_card_number c db)"
    by (simp add: get_saldo_by_card_number_def append_and_move_saldos find_update_where_same)
  moreover have "get_saldo_by_card_number c db = Some s \<Longrightarrow> active_card (le_card e) s \<longleftrightarrow> c = le_card e" for s
    by (auto simp: active_card_def dest: lookup_card)
  ultimately show ?thesis by (cases "get_saldo_by_card_number c db") auto
qed

lemma balance_append_and_move:
  "balance_of c (append_and_move now e db) =
     map_option (\<lambda>b. if c = le_card e then b + le_delta e else b) (balance_of c db)"
  by (cases "get_saldo_by_card_number c db") (auto simp: balance_of_def lookup_append_and_move)

lemma balance_of_row: "get_saldo_by_card_number c db = Some r \<Longrightarrow> balance_of c db = Some (s_balance r)"
  by (simp add: balance_of_def)

lemma ledger_total_append_and_move:
  "ledger_total c (append_and_move now e db) =
     ledger_total c db + (if c = le_card e then le_delta e else 0)"
  by (simp add: ledger_total_def)

lemma find_entry_append_and_move:
  "find_entry k (append_and_move now e db) =
     (case find_entry k db of None \<Rightarrow> (if entry_key e = k then Some e else None) | Some x \<Rightarrow> Some x)"
  by (simp add: find_entry_def find_append split: option.splits)

lemma find_entry_None: "find_entry k db = None \<longleftrightarrow> k \<notin> entry_key ` set (ledger db)"
  by (auto simp: find_entry_def find_None_iff)

lemma filter_active_update:
  "map s_card (filter row_active (update_where p (moved_row now e) rs)) = map s_card (filter row_active rs)"
  by (induction rs) (auto simp: update_where_simps)

lemma db_wf_append_and_move:
  assumes "db_wf db" "find_entry (entry_key e) db = None" "entry_fits e"
  shows "db_wf (append_and_move now e db)"
  using assms
  by (auto simp: db_wf_def append_and_move_saldos filter_active_update map_update_where
      set_update_where find_entry_None)

lemma reconciled_append_and_move:
  assumes rec: "reconciled db"
    and look: "get_saldo_by_card_number (le_card e) db = Some r"
    and nonneg: "0 \<le> s_balance r + le_delta e"
  shows "reconciled (append_and_move now e db)"
proof -
  have "ledger_total (s_card x) (append_and_move now e db) = s_balance x \<and> 0 \<le> s_balance x"
    if x: "x \<in> set (saldos (append_and_move now e db))" and act: "row_active x" for x
  proof -
    from x consider
        y where "y \<in> set (saldos db)" "active_card (le_card e) y" "x = moved_row now e y"
      | "x \<in> set (saldos db)" "\<not> active_card (le_card e) x"
      by (auto simp: append_and_move_saldos set_update_where)
    then show ?thesis
    proof cases
      case 1
      then have "s_balance y = ledger_total (le_card e) db" "s_card x = le_card e"
        using rec by (auto simp: reconciled_def active_card_def)
      moreover have "s_balance r = ledger_total (le_card e) db"
        using rec lookup_card [OF look] by (auto simp: reconciled_def)
      ultimately show ?thesis
        using nonneg 1 by (simp add: ledger_total_append_and_move)
    next
      case 2
      with rec act show ?thesis
        by (auto simp: reconciled_def ledger_total_append_and_move active_card_def)
    qed
  qed
  then show ?thesis unfolding reconciled_def by blast
qed

section \<open>Outcomes of a ledger operation\<close>

text \<open>
  Every operation ends in one of three ways: an error that leaves the tables as they
  are, a replay of an entry posted before, or one new entry with the balance moved by
  its delta.
\<close>

inductive ledger_outcome ::
  "int \<Rightarrow> ledger_entry \<Rightarrow> saldo_db \<Rightarrow> (go_error + saldo_row) \<Rightarrow> saldo_db \<Rightarrow> bool"
  for now :: int and entry :: ledger_entry and db :: saldo_db where
  failed: "ledger_outcome now entry db (Inl err) db"
| replayed:
    "find_entry (entry_key entry) db = Some e \<Longrightarrow>
     le_source_type e = le_source_type entry \<Longrightarrow>
     get_saldo_by_card_number (le_card entry) db = Some r \<Longrightarrow>
     ledger_outcome now entry db (Inr r) db"
| posted:
    "get_saldo_by_card_number (le_card entry) db = Some r \<Longrightarrow>
     find_entry (entry_key entry) db = None \<Longrightarrow>
     e = entry\<lparr>le_balance_before := s_balance r, le_balance_after := s_balance r + le_delta entry,
               le_created_at := now\<rparr> \<Longrightarrow>
     entry_fits e \<Longrightarrow>
     ledger_outcome now entry db (Inr (moved_row now e r)) (append_and_move now e db)"

inductive_cases ledger_outcome_errorE: "ledger_outcome now entry db (Inl err) db'"
inductive_cases ledger_outcome_okE: "ledger_outcome now entry db (Inr r) db'"

lemma entry_key_update [simp]:
  "entry_key (e\<lparr>le_balance_before := a\<rparr>) = entry_key e"
  "entry_key (e\<lparr>le_balance_after := b\<rparr>) = entry_key e"
  "entry_key (e\<lparr>le_created_at := c\<rparr>) = entry_key e"
  by (simp_all add: entry_key_def)

lemma ledger_statement_outcome:
  "ledger_statement now entry guard db = (Inr (Some r), db') \<Longrightarrow> ledger_outcome now entry db (Inr r) db'"
  "ledger_statement now entry guard db = (Inr None, db') \<Longrightarrow> db' = db"
  "ledger_statement now entry guard db = (Inl err, db') \<Longrightarrow> db' = db"
  by (auto simp: ledger_statement_def Let_def lookup_append_and_move
      intro: ledger_outcome.posted split: option.splits if_splits bool.splits)

lemma statement_then_replay:
  assumes res: "try_or (ledger_statement now entry guard) (\<lambda>e. ret (Inl e))
       (\<lambda>row. case row of None \<Rightarrow> \<lambda>db. replay_or_no_rows (existing db) c db | Some r \<Rightarrow> ret (Inr r))
       db = (res, db')"
    and c: "c = le_card entry"
    and existing: "existing db = Inr True \<Longrightarrow>
       \<exists>e. find_entry (entry_key entry) db = Some e \<and> le_source_type e = le_source_type entry"
  shows "ledger_outcome now entry db res db'"
proof (cases "ledger_statement now entry guard db")
  case (Pair out db1)
  show ?thesis
  proof (cases out)
    case (Inl err)
    with Pair res have "db' = db1" "res = Inl err" by (simp_all add: try_or_def ret_def)
    moreover have "db1 = db" using Pair Inl by (simp add: ledger_statement_outcome(3))
    ultimately show ?thesis by (simp add: ledger_outcome.failed)
  next
    case (Inr row)
    show ?thesis
    proof (cases row)
      case None
      have "db1 = db" using Pair Inr None by (simp add: ledger_statement_outcome(2))
      with Pair Inr None res have "replay_or_no_rows (existing db) (le_card entry) db = (res, db')"
        by (simp add: try_or_def c)
      with existing show ?thesis
        by (auto simp: replay_or_no_rows_def intro: ledger_outcome.failed ledger_outcome.replayed
            split: sum.splits bool.splits option.splits)
    next
      case (Some r)
      with Pair Inr res have "res = Inr r" "db' = db1" by (simp_all add: try_or_def ret_def)
      then show ?thesis using Pair Inr Some by (simp add: ledger_statement_outcome(1))
    qed
  qed
qed

lemma mutation_entry_simps [simp]:
  "le_card (mutation_entry d x arg) = m_card arg"
  "le_amount (mutation_entry d x arg) = m_amount arg"
  "le_delta (mutation_entry d x arg) = x"
  "entry_key (mutation_entry d x arg) = (m_operation_id arg, m_card arg, d)"
  by (simp_all add: mutation_entry_def entry_key_def)

lemma adjustment_entry_simps [simp]:
  "le_card (adjustment_entry arg) = a_card arg"
  "le_amount (adjustment_entry arg) = \<bar>a_delta arg\<bar>"
  "le_delta (adjustment_entry arg) = a_delta arg"
  "entry_key (adjustment_entry arg) = (a_operation_id arg, a_card arg, Reversal)"
  by (simp_all add: adjustment_entry_def entry_key_def)

lemma entry_source_type [simp]:
  "le_source_type (mutation_entry d x arg) = m_source_type arg"
  "le_source_type (adjustment_entry adj) = a_source_type adj"
  by (simp_all add: mutation_entry_def adjustment_entry_def)

lemma existing_True:
  "existing_ledger_mutation arg d db = Inr True \<Longrightarrow>
   \<exists>e. find_entry (m_operation_id arg, m_card arg, d) db = Some e
       \<and> le_source_type e = m_source_type arg \<and> le_amount e = m_amount arg"
  "existing_ledger_adjustment adj db = Inr True \<Longrightarrow>
   \<exists>e. find_entry (a_operation_id adj, a_card adj, Reversal) db = Some e
       \<and> le_source_type e = a_source_type adj"
  by (auto simp: existing_ledger_mutation_def existing_ledger_adjustment_def
      split: option.splits if_splits)

lemma debit_outcome:
  "debit_saldo_with_ledger now arg db = (res, db') \<Longrightarrow>
   ledger_outcome now (mutation_entry Debit (- m_amount arg) arg) db res db'"
  unfolding debit_saldo_with_ledger_def
  by (erule statement_then_replay) (auto dest: existing_True)

lemma credit_outcome:
  "credit_saldo_with_ledger now arg db = (res, db') \<Longrightarrow>
   ledger_outcome now (mutation_entry Credit (m_amount arg) arg) db res db'"
  unfolding credit_saldo_with_ledger_def
  by (erule statement_then_replay) (auto dest: existing_True)

lemma adjustment_outcome:
  assumes "apply_ledger_adjustment now adj db = (res, db')"
  shows "ledger_outcome now (adjustment_entry adj) db res db'"
proof (cases "a_delta adj = 0")
  case True
  with assms show ?thesis
    by (auto simp: apply_ledger_adjustment_def ret_def intro: ledger_outcome.failed)
next
  case False
  with assms show ?thesis
    unfolding apply_ledger_adjustment_def
    by (simp, elim statement_then_replay) (auto dest: existing_True)
qed

lemma outcome_wf: "ledger_outcome now entry db res db' \<Longrightarrow> db_wf db \<Longrightarrow> db_wf db'"
  by (erule ledger_outcome.cases) (auto intro!: db_wf_append_and_move)

lemma outcome_reconciled: "ledger_outcome now entry db res db' \<Longrightarrow> reconciled db \<Longrightarrow> reconciled db'"
  by (erule ledger_outcome.cases) (auto intro!: reconciled_append_and_move simp: entry_fits_def)

lemma outcome_appends: "ledger_outcome now entry db res db' \<Longrightarrow> \<exists>es. ledger db' = ledger db @ es"
  by (erule ledger_outcome.cases) auto

lemma outcome_error: "ledger_outcome now entry db (Inl err) db' \<Longrightarrow> db' = db"
  by (erule ledger_outcome_errorE)

lemma outcome_fresh:
  assumes "ledger_outcome now entry db (Inr r) db'" "find_entry (entry_key entry) db = None"
  shows "(\<forall>c. balance_of c db' =
            map_option (\<lambda>b. if c = le_card entry then b + le_delta entry else b) (balance_of c db))
         \<and> (\<exists>e. find_entry (entry_key entry) db' = Some e \<and> le_amount e = le_amount entry)
         \<and> (\<forall>k. k \<noteq> entry_key entry \<longrightarrow> find_entry k db' = find_entry k db)
         \<and> balance_of (le_card entry) db \<noteq> None"
  using assms
  by (elim ledger_outcome_okE)
    (auto simp: balance_append_and_move find_entry_append_and_move dest: balance_of_row split: option.splits cong: if_cong)

lemma outcome_replay:
  assumes "ledger_outcome now entry db res db'" "find_entry (entry_key entry) db \<noteq> None"
  shows "db' = db"
  using assms by (cases rule: ledger_outcome.cases) auto

section \<open>When a debit or a credit goes through\<close>

definition mutation_fits :: "ledger_mutation_params \<Rightarrow> bool" where
  "mutation_fits arg \<longleftrightarrow>
     length (m_operation_id arg) \<le> 128 \<and> length (m_card arg) \<le> 16
     \<and> length (m_source_type arg) \<le> 64 \<and> length (m_source_id arg) \<le> 128"

lemma deref_nullif [simp]: "deref_string (nullif_empty s) = s"
  by (simp add: deref_string_def nullif_empty_def)

lemma debit_accepted:
  assumes look: "get_saldo_by_card_number (m_card arg) db = Some r"
    and amount: "0 < m_amount arg" "m_amount arg \<le> s_balance r" "fits_int64 (s_balance r)"
    and fresh: "find_entry (m_operation_id arg, m_card arg, Debit) db = None"
    and fits: "mutation_fits arg"
  shows "\<exists>r'. fst (debit_saldo_with_ledger now arg db) = Inr r' \<and> s_balance r' = s_balance r - m_amount arg"
  using assms
  by (simp add: debit_saldo_with_ledger_def try_or_def ledger_statement_def Let_def ret_def
      lookup_append_and_move entry_fits_def mutation_entry_def mutation_fits_def
      delta_direction_ok_def fits_int64_def entry_key_def)

lemma debit_refused:
  assumes look: "get_saldo_by_card_number (m_card arg) db = Some r"
    and short: "s_balance r < m_amount arg"
    and fresh: "find_entry (m_operation_id arg, m_card arg, Debit) db = None"
  shows "debit_saldo_with_ledger now arg db = (Inl ErrNoRows, db)"
  using assms
  by (simp add: debit_saldo_with_ledger_def try_or_def ledger_statement_def mutation_entry_def
      replay_or_no_rows_def existing_ledger_mutation_def)

lemma credit_accepted:
  assumes look: "get_saldo_by_card_number (m_card arg) db = Some r"
    and amount: "0 < m_amount arg" "0 \<le> s_balance r" "fits_int64 (s_balance r + m_amount arg)"
    and fresh: "find_entry (m_operation_id arg, m_card arg, Credit) db = None"
    and fits: "mutation_fits arg"
  shows "\<exists>r'. fst (credit_saldo_with_ledger now arg db) = Inr r' \<and> s_balance r' = s_balance r + m_amount arg"
  using assms
  by (simp add: credit_saldo_with_ledger_def try_or_def ledger_statement_def Let_def ret_def
      lookup_append_and_move entry_fits_def mutation_entry_def mutation_fits_def
      delta_direction_ok_def fits_int64_def entry_key_def)

text \<open>Once an entry is in the ledger its identity cannot be used for other details.\<close>

lemma debit_conflict:
  assumes entry: "find_entry (m_operation_id arg, m_card arg, Debit) db = Some e"
    and differs: "le_amount e \<noteq> m_amount arg \<or> le_source_type e \<noteq> m_source_type arg
       \<or> deref_string (le_source_id e) \<noteq> m_source_id arg"
    and cnum: "get_saldo_by_card_number (m_card arg) db = Some r" "fits_int64 (s_balance r)"
    and fits: "mutation_fits arg"
  shows "debit_saldo_with_ledger now arg db = (Inl (ledger_conflict (m_operation_id arg)), db)"
proof -
  let ?m = "mutation_entry Debit (- m_amount arg) arg"
  have "ledger_statement now ?m
      (\<lambda>balance. Some (0 < m_amount arg \<and> balance \<ge> m_amount arg)) db = (Inr None, db)"
    using assms
    by (auto simp: ledger_statement_def Let_def mutation_entry_def entry_key_def entry_fits_def
        mutation_fits_def fits_int64_def delta_direction_ok_def split: bool.splits)
  moreover have "existing_ledger_mutation arg Debit db = Inl (ledger_conflict (m_operation_id arg))"
    using entry differs by (auto simp: existing_ledger_mutation_def)
  ultimately show ?thesis
    by (simp add: debit_saldo_with_ledger_def try_or_def replay_or_no_rows_def)
qed

end
