(* ===== verification/SaldoRepository.thy ===== *)
theory SaldoRepository
  imports SaldoLedger Validation Timestamps
begin

text \<open>
  The statements on the \<open>saldos\<close> table beside the ledger ones
  (\<open>service/saldo/database/schema/saldo.sql.go\<close>, with the opening-entry trigger and the
  partial unique index of the migrations) and the command repository that turns driver
  errors into application errors (\<open>service/saldo/repository/saldoCommandRepository.go\<close>).
\<close>

section \<open>Statements on the balance table\<close>

definition opening_entry :: "int \<Rightarrow> saldo_row \<Rightarrow> ledger_entry" where
  "opening_entry now r =
     \<lparr>le_operation_id = ''saldo-opening:'' @ itoa (saldo_id r), le_card = s_card r,
      le_direction = Opening, le_amount = s_balance r, le_delta = s_balance r,
      le_balance_before = 0, le_balance_after = s_balance r,
      le_source_type = ''saldo_opening'', le_source_id = Some (itoa (saldo_id r)),
      le_note = None, le_created_at = now\<rparr>"

text \<open>
  An \<open>INSERT\<close> takes the next id, then the AFTER trigger adds the opening entry in the
  same transaction; a failing CHECK or a value too long undoes both (the sequence value
  stays consumed).
\<close>

definition insert_saldo_row :: "int \<Rightarrow> string \<Rightarrow> int \<Rightarrow> (go_error, saldo_row, saldo_db) op" where
  "insert_saldo_row now cnum amt db =
     (if length cnum > 16 \<or> \<not> fits_int64 amt
      then (Inl (DbError ''value too long or out of range''), db)
      else if saldo_seq db > 2147483647
      then (Inl (DbError ''nextval: reached maximum value of sequence''), db)
      else
        let r = \<lparr>saldo_id = saldo_seq db, s_card = cnum, s_balance = amt,
                 s_withdraw_amount = Some 0, s_withdraw_time = Some now, s_created_at = now,
                 s_updated_at = now, s_deleted_at = None\<rparr>;
            e = opening_entry now r;
            db1 = db\<lparr>saldo_seq := saldo_seq db + 1\<rparr>
        in if \<not> entry_fits e then (Inl (DbError ''constraint violation''), db1)
           else (Inr r, db1\<lparr>saldos := saldos db @ [r],
                            ledger := (if find_entry (entry_key e) db = None
                                       then ledger db @ [e] else ledger db)\<rparr>))"

text \<open>
  \<open>CreateSaldo\<close>: an upsert on the card's active row. Over an existing row with balance 0
  a positive opening balance is written in place; any other existing row is returned as
  it is. The AFTER INSERT trigger runs for the insert branch only.
\<close>

definition create_saldo_sql :: "int \<Rightarrow> string \<Rightarrow> int \<Rightarrow> (go_error, saldo_row, saldo_db) op" where
  "create_saldo_sql now cnum amt db =
     (case get_saldo_by_card_number cnum db of
        None \<Rightarrow> insert_saldo_row now cnum amt db
      | Some r \<Rightarrow>
          (let db1 = db\<lparr>saldo_seq := saldo_seq db + 1\<rparr> in
           if s_balance r = 0 \<and> amt > 0
           then let r' = r\<lparr>s_balance := amt, s_updated_at := now\<rparr>
                in (Inr r', db1\<lparr>saldos := update_where (active_card cnum)
                       (\<lambda>s. s\<lparr>s_balance := amt, s_updated_at := now\<rparr>) (saldos db)\<rparr>)
           else (Inr r, db1)))"

definition create_saldo_if_not_exists_sql :: "int \<Rightarrow> string \<Rightarrow> int \<Rightarrow> (go_error, unit, saldo_db) op" where
  "create_saldo_if_not_exists_sql now cnum amt db =
     (case get_saldo_by_card_number cnum db of
        None \<Rightarrow> (case insert_saldo_row now cnum amt db of
                   (Inl e, db') \<Rightarrow> (Inl e, db')
                 | (Inr r, db') \<Rightarrow> (Inr (), db'))
      | Some r \<Rightarrow> (Inr (), db\<lparr>saldo_seq := saldo_seq db + 1\<rparr>))"

text \<open>\<open>UPDATE ... WHERE ... RETURNING\<close> of one row; no row is \<open>pgx.ErrNoRows\<close>.\<close>

definition update_saldo_row ::
  "(saldo_row \<Rightarrow> bool) \<Rightarrow> (saldo_row \<Rightarrow> saldo_row) \<Rightarrow> (go_error, saldo_row, saldo_db) op" where
  "update_saldo_row p f db =
     (case find p (saldos db) of
        None \<Rightarrow> (Inl ErrNoRows, db)
      | Some r \<Rightarrow> (Inr (f r), db\<lparr>saldos := update_where p f (saldos db)\<rparr>))"

definition update_saldo_balance_sql :: "int \<Rightarrow> string \<Rightarrow> int \<Rightarrow> (go_error, saldo_row, saldo_db) op" where
  "update_saldo_balance_sql now cnum amt =
     update_saldo_row (active_card cnum) (\<lambda>s. s\<lparr>s_balance := amt, s_updated_at := now\<rparr>)"

definition update_saldo_withdraw_metadata_sql ::
  "int \<Rightarrow> string \<Rightarrow> int \<Rightarrow> int \<Rightarrow> (go_error, saldo_row, saldo_db) op" where
  "update_saldo_withdraw_metadata_sql now cnum amount time =
     update_saldo_row (active_card cnum)
       (\<lambda>s. s\<lparr>s_withdraw_amount := Some amount, s_withdraw_time := Some time, s_updated_at := now\<rparr>)"

definition trash_saldo_sql :: "int \<Rightarrow> int \<Rightarrow> (go_error, saldo_row, saldo_db) op" where
  "trash_saldo_sql now i =
     update_saldo_row (\<lambda>r. saldo_id r = i \<and> row_active r) (\<lambda>s. s\<lparr>s_deleted_at := Some now\<rparr>)"

text \<open>Restoring a row must not give a card a second active row.\<close>

definition restore_saldo_sql :: "int \<Rightarrow> (go_error, saldo_row, saldo_db) op" where
  "restore_saldo_sql i db =
     (case find (\<lambda>r. saldo_id r = i \<and> \<not> row_active r) (saldos db) of
        None \<Rightarrow> (Inl ErrNoRows, db)
      | Some r \<Rightarrow>
          (if get_saldo_by_card_number (s_card r) db \<noteq> None then (Inl (DbError ''23505''), db)
           else update_saldo_row (\<lambda>r. saldo_id r = i \<and> \<not> row_active r)
                  (\<lambda>s. s\<lparr>s_deleted_at := None\<rparr>) db))"

definition delete_saldo_permanently_sql :: "int \<Rightarrow> (go_error, unit, saldo_db) op" where
  "delete_saldo_permanently_sql i db =
     (Inr (), db\<lparr>saldos := filter (\<lambda>r. \<not> (saldo_id r = i \<and> \<not> row_active r)) (saldos db)\<rparr>)"

definition restore_all_saldos_sql :: "(go_error, unit, saldo_db) op" where
  "restore_all_saldos_sql db =
     (if distinct (map s_card (saldos db))
      then (Inr (), db\<lparr>saldos := update_where (\<lambda>r. \<not> row_active r)
                                   (\<lambda>s. s\<lparr>s_deleted_at := None\<rparr>) (saldos db)\<rparr>)
      else (Inl (DbError ''23505''), db))"

definition delete_all_permanent_saldos_sql :: "(go_error, unit, saldo_db) op" where
  "delete_all_permanent_saldos_sql db = (Inr (), db\<lparr>saldos := filter row_active (saldos db)\<rparr>)"

section \<open>Repository\<close>

record saldo_request =
  sr_card :: string
  sr_amount :: int
  sr_operation_id :: string
  sr_source_type :: string
  sr_source_id :: string

definition amount_to_int64 :: "int \<Rightarrow> int" where
  "amount_to_int64 value = go_int64 value"

definition repo_create_saldo :: "int \<Rightarrow> string \<Rightarrow> int \<Rightarrow> (go_error, saldo_row, saldo_db) op" where
  "repo_create_saldo now cnum amt =
     try_or (create_saldo_sql now cnum (amount_to_int64 amt))
       (\<lambda>err. if is_unique_violation err
              then ret (Inl (with_internal (new_conflict_error ''saldo record already exists'') err))
              else if is_no_rows err
              then (\<lambda>db. case get_saldo_by_card_number cnum db of
                      None \<Rightarrow> (Inl (with_internal (err_failed ''create saldo record'') ErrNoRows), db)
                    | Some existing \<Rightarrow> (Inr existing, db))
              else ret (Inl (with_internal (err_failed ''create saldo record'') err)))
       (\<lambda>res. ret (Inr res))"

definition repo_create_saldo_if_not_exists :: "int \<Rightarrow> string \<Rightarrow> int \<Rightarrow> (go_error, unit, saldo_db) op" where
  "repo_create_saldo_if_not_exists now cnum amt =
     create_saldo_if_not_exists_sql now cnum (amount_to_int64 amt)"

definition saldo_update_adjustment :: "int \<Rightarrow> string \<Rightarrow> int \<Rightarrow> int \<Rightarrow> ledger_adjustment_params" where
  "saldo_update_adjustment i cnum target delta =
     \<lparr>a_card = cnum, a_delta = delta,
      a_operation_id = ''saldo-update:'' @ itoa i @ '':'' @ itoa target,
      a_source_type = ''saldo_update'', a_source_id = itoa i,
      a_note = ''legacy absolute update routed through immutable ledger adjustment''\<rparr>"

definition repo_update_saldo ::
  "int \<Rightarrow> int option \<Rightarrow> string \<Rightarrow> int \<Rightarrow> (go_error, saldo_row, saldo_db) op" where
  "repo_update_saldo now req_id cnum amt db =
     (case req_id of
        None \<Rightarrow> (Inl (new_bad_request_error ''saldo ID is required''), db)
      | Some i \<Rightarrow>
          (case get_saldo_by_id (go_int32 i) db of
             None \<Rightarrow> (Inl (err_no_rows_or_failed ErrNoRows ''saldo record'' ''update saldo record''), db)
           | Some current \<Rightarrow>
               (if s_card current \<noteq> cnum
                then (Inl (with_internal (new_conflict_error ''cannot change card number of an existing saldo'')
                             (ErrorString (''card mismatch: '' @ s_card current @ '' != '' @ cnum))), db)
                else
                  let target = amount_to_int64 amt; delta = go_int64 (target - s_balance current)
                  in if delta = 0 then (Inr current, db)
                     else try_or (apply_ledger_adjustment now (saldo_update_adjustment i cnum target delta))
                       (\<lambda>err. if is_ledger_conflict err
                              then ret (Inl (with_internal (new_conflict_error
                                     ''saldo update operation ID reused with different details'') err))
                              else ret (Inl (with_internal (err_failed ''update saldo record'') err)))
                       (\<lambda>adjusted. ret (Inr (current\<lparr>saldo_id := saldo_id adjusted,
                              s_card := s_card adjusted, s_balance := s_balance adjusted\<rparr>))) db)))"

definition repo_update_saldo_balance :: "int \<Rightarrow> string \<Rightarrow> int \<Rightarrow> (go_error, saldo_row, saldo_db) op" where
  "repo_update_saldo_balance now cnum amt =
     try_or (update_saldo_balance_sql now cnum (amount_to_int64 amt))
       (\<lambda>err. ret (Inl (err_no_rows_or_failed err ''saldo record'' ''update saldo balance'')))
       (\<lambda>res. ret (Inr res))"

definition mutation_of_request :: "string \<Rightarrow> saldo_request \<Rightarrow> ledger_mutation_params" where
  "mutation_of_request uuid req =
     \<lparr>m_card = sr_card req, m_amount = amount_to_int64 (sr_amount req),
      m_operation_id = (if sr_operation_id req = [] then uuid else sr_operation_id req),
      m_source_type = (if sr_source_type req = [] then ''unknown'' else sr_source_type req),
      m_source_id = sr_source_id req\<rparr>"

definition ErrLedgerReuse :: go_error where
  "ErrLedgerReuse =
     new_conflict_error ''ledger operation ID was reused with different mutation details''"

definition debit_error :: "go_error \<Rightarrow> go_error" where
  "debit_error err =
     (if is_ledger_conflict err then with_internal ErrLedgerReuse err
      else if is_no_rows err then with_internal (new_conflict_error ''insufficient balance'') err
      else with_internal (err_failed ''debit saldo'') err)"

definition credit_error :: "go_error \<Rightarrow> go_error" where
  "credit_error err =
     (if is_ledger_conflict err then with_internal ErrLedgerReuse err
      else err_no_rows_or_failed err ''saldo record'' ''credit saldo'')"

definition repo_debit_saldo ::
  "int \<Rightarrow> string \<Rightarrow> saldo_request \<Rightarrow> (go_error, saldo_row, saldo_db) op" where
  "repo_debit_saldo now uuid req =
     try_or (debit_saldo_with_ledger now (mutation_of_request uuid req))
       (\<lambda>err. ret (Inl (debit_error err)))
       (\<lambda>res. ret (Inr res))"

definition repo_credit_saldo ::
  "int \<Rightarrow> string \<Rightarrow> saldo_request \<Rightarrow> (go_error, saldo_row, saldo_db) op" where
  "repo_credit_saldo now uuid req =
     try_or (credit_saldo_with_ledger now (mutation_of_request uuid req))
       (\<lambda>err. ret (Inl (credit_error err)))
       (\<lambda>res. ret (Inr res))"

text \<open>
  \<open>ApplySaldoAdjustmentRequest.Validate\<close>: lengths count the characters of the fields
  (bytes here).
\<close>

definition validate_adjustment :: "ledger_adjustment_params \<Rightarrow> go_error option" where
  "validate_adjustment req =
     (if a_card req = [] \<or> a_delta req = 0 \<or> a_operation_id req = []
         \<or> length (a_operation_id req) > 128 \<or> a_source_type req = []
         \<or> length (a_source_type req) > 64 \<or> length (a_source_id req) > 128
         \<or> a_note req = [] \<or> length (a_note req) > 1000
      then Some (ErrorString ''validation for saldo adjustment failed'') else None)"

definition repo_apply_saldo_adjustment ::
  "int \<Rightarrow> ledger_adjustment_params \<Rightarrow> (go_error, saldo_row, saldo_db) op" where
  "repo_apply_saldo_adjustment now req =
     (case validate_adjustment req of
        Some err \<Rightarrow> ret (Inl err)
      | None \<Rightarrow>
          try_or (apply_ledger_adjustment now req)
            (\<lambda>err. ret (Inl (if is_ledger_conflict err
                 then with_internal (new_conflict_error
                        ''adjustment operation ID was reused with different mutation details'') err
                 else if is_no_rows err
                 then with_internal (new_conflict_error ''saldo adjustment rejected'') err
                 else with_internal (err_failed ''apply saldo adjustment'') err)))
            (\<lambda>res. ret (Inr res)))"

definition or_no_rows :: "string \<Rightarrow> (go_error, 'a, saldo_db) op \<Rightarrow> (go_error, 'a, saldo_db) op" where
  "or_no_rows operation m =
     try_or m (\<lambda>err. ret (Inl (err_no_rows_or_failed err ''saldo record'' operation)))
       (\<lambda>res. ret (Inr res))"

definition or_failed :: "string \<Rightarrow> (go_error, 'a, saldo_db) op \<Rightarrow> (go_error, 'a, saldo_db) op" where
  "or_failed operation m =
     try_or m (\<lambda>err. ret (Inl (with_internal (err_failed operation) err))) (\<lambda>res. ret (Inr res))"

text \<open>
  \<open>UpdateSaldoWithdraw\<close> debits through the ledger and then writes the metadata.
\<close>

definition repo_update_saldo_withdraw ::
  "int \<Rightarrow> string \<Rightarrow> string \<Rightarrow> int option \<Rightarrow> int option \<Rightarrow> (go_error, saldo_row, saldo_db) op" where
  "repo_update_saldo_withdraw now uuid cnum amount time =
     (case (amount, time) of
        (Some a, Some t) \<Rightarrow>
          (let withdraw_amount = amount_to_int64 a;
               req = \<lparr>sr_card = cnum, sr_amount = withdraw_amount,
                      sr_operation_id = ''withdraw:'' @ cnum @ '':'' @ compact_stamp t @ '':'' @ itoa withdraw_amount,
                      sr_source_type = ''withdraw'', sr_source_id = cnum\<rparr>
           in try_or (repo_debit_saldo now uuid req)
                (\<lambda>err. ret (Inl err))
                (\<lambda>debit.
                   try_or (or_no_rows ''update saldo withdrawal metadata''
                             (update_saldo_withdraw_metadata_sql now cnum withdraw_amount t))
                     (\<lambda>err. ret (Inl err))
                     (\<lambda>res. ret (Inr (res\<lparr>saldo_id := saldo_id debit, s_card := s_card debit,
                                          s_balance := s_balance debit\<rparr>)))))
      | _ \<Rightarrow> ret (Inl (new_bad_request_error
                 ''withdraw amount and time are required for ledger-backed withdrawal'')))"

definition repo_trashed_saldo :: "int \<Rightarrow> int \<Rightarrow> (go_error, saldo_row, saldo_db) op" where
  "repo_trashed_saldo now i = or_no_rows ''trash saldo record'' (trash_saldo_sql now (go_int32 i))"

definition repo_restore_saldo :: "int \<Rightarrow> (go_error, saldo_row, saldo_db) op" where
  "repo_restore_saldo i = or_no_rows ''restore saldo record'' (restore_saldo_sql (go_int32 i))"

definition repo_delete_saldo_permanent :: "int \<Rightarrow> (go_error, unit, saldo_db) op" where
  "repo_delete_saldo_permanent i =
     or_no_rows ''delete saldo record permanently'' (delete_saldo_permanently_sql (go_int32 i))"

definition repo_restore_all_saldo :: "(go_error, unit, saldo_db) op" where
  "repo_restore_all_saldo = or_failed ''restore all saldo records'' restore_all_saldos_sql"

definition repo_delete_all_saldo_permanent :: "(go_error, unit, saldo_db) op" where
  "repo_delete_all_saldo_permanent =
     or_failed ''delete all saldo records permanently'' delete_all_permanent_saldos_sql"

section \<open>Outcomes of the repository operations\<close>

lemma mutation_of_request_simps [simp]:
  "m_card (mutation_of_request uuid req) = sr_card req"
  "m_amount (mutation_of_request uuid req) = amount_to_int64 (sr_amount req)"
  "m_source_id (mutation_of_request uuid req) = sr_source_id req"
  by (simp_all add: mutation_of_request_def)

definition debit_entry :: "string \<Rightarrow> saldo_request \<Rightarrow> ledger_entry" where
  "debit_entry uuid req =
     mutation_entry Debit (- amount_to_int64 (sr_amount req)) (mutation_of_request uuid req)"

definition credit_entry :: "string \<Rightarrow> saldo_request \<Rightarrow> ledger_entry" where
  "credit_entry uuid req =
     mutation_entry Credit (amount_to_int64 (sr_amount req)) (mutation_of_request uuid req)"

text \<open>Translating an error leaves the shape of an outcome: the tables are the same.\<close>

lemma outcome_map_error:
  assumes "\<And>res db'. m db = (res, db') \<Longrightarrow> ledger_outcome now entry db res db'"
    and "try_or m (\<lambda>err. ret (Inl (f err))) (\<lambda>res. ret (Inr res)) db = (res, db')"
  shows "ledger_outcome now entry db res db'"
proof (cases "m db")
  case (Pair res0 db0)
  note out = assms(1) [OF Pair]
  show ?thesis
  proof (cases res0)
    case (Inl err)
    with out have "db0 = db" by (auto dest: outcome_error)
    with assms(2) Pair Inl show ?thesis
      by (auto simp: try_or_def ret_def intro: ledger_outcome.failed)
  next
    case (Inr r)
    with out assms(2) Pair show ?thesis by (auto simp: try_or_def ret_def)
  qed
qed

lemma repo_debit_outcome:
  "repo_debit_saldo now uuid req db = (res, db') \<Longrightarrow> ledger_outcome now (debit_entry uuid req) db res db'"
  unfolding repo_debit_saldo_def debit_entry_def
  by (rule outcome_map_error) (auto dest: debit_outcome)

lemma repo_credit_outcome:
  "repo_credit_saldo now uuid req db = (res, db') \<Longrightarrow> ledger_outcome now (credit_entry uuid req) db res db'"
  unfolding repo_credit_saldo_def credit_entry_def
  by (rule outcome_map_error) (auto dest: credit_outcome)

lemma repo_adjustment_outcome:
  assumes "repo_apply_saldo_adjustment now req db = (res, db')"
  shows "ledger_outcome now (adjustment_entry req) db res db'"
proof (cases "validate_adjustment req")
  case None
  with assms show ?thesis
    unfolding repo_apply_saldo_adjustment_def
    by simp (erule outcome_map_error [rotated], auto dest: adjustment_outcome)
next
  case (Some err)
  with assms show ?thesis
    by (auto simp: repo_apply_saldo_adjustment_def ret_def intro: ledger_outcome.failed)
qed

section \<open>Preserved invariants\<close>

lemma filter_update_keep:
  "(\<And>x. f x \<noteq> x \<Longrightarrow> row_active (f x) = row_active x \<and> s_card (f x) = s_card x) \<Longrightarrow>
   map s_card (filter row_active (update_where p f rs)) = map s_card (filter row_active rs)"
  by (induction rs) (auto simp: update_where_simps, metis+)

lemma db_wf_update_row:
  assumes "db_wf db" "update_saldo_row p f db = (res, db')"
    and "\<And>x. saldo_id (f x) = saldo_id x \<and> s_card (f x) = s_card x \<and> row_active (f x) = row_active x"
  shows "db_wf db'"
  using assms
  by (auto simp: db_wf_def update_saldo_row_def map_update_where filter_update_keep set_update_where
      split: option.splits)

lemma filter_active_trash:
  "filter row_active (update_where p (\<lambda>s. s\<lparr>s_deleted_at := Some t\<rparr>) rs) =
   filter (\<lambda>r. \<not> p r) (filter row_active rs)"
  by (induction rs) (auto simp: update_where_simps row_active_def)

lemma db_wf_trash: "db_wf db \<Longrightarrow> trash_saldo_sql now i db = (res, db') \<Longrightarrow> db_wf db'"
  by (auto simp: db_wf_def trash_saldo_sql_def update_saldo_row_def map_update_where
      filter_active_trash distinct_map_filter set_update_where simp del: filter_filter
      split: option.splits)

lemma reconciled_trash: "reconciled db \<Longrightarrow> trash_saldo_sql now i db = (res, db') \<Longrightarrow> reconciled db'"
  by (auto simp: reconciled_def trash_saldo_sql_def update_saldo_row_def set_update_where
      row_active_def ledger_total_def split: option.splits)

lemma db_wf_delete:
  "db_wf db \<Longrightarrow> delete_saldo_permanently_sql i db = (res, db') \<Longrightarrow> db_wf db'"
  by (auto simp: db_wf_def delete_saldo_permanently_sql_def distinct_map inj_on_def)

lemma reconciled_delete:
  "reconciled db \<Longrightarrow> delete_saldo_permanently_sql i db = (res, db') \<Longrightarrow> reconciled db'"
  by (auto simp: reconciled_def delete_saldo_permanently_sql_def ledger_total_def)

lemma get_saldo_None: "get_saldo_by_card_number c db = None \<longleftrightarrow> c \<notin> set (map s_card (filter row_active (saldos db)))"
  by (auto simp: get_saldo_by_card_number_def find_None_iff active_card_def)

lemma db_wf_ids:
  assumes "db_wf db"
  shows "saldo_seq db \<notin> saldo_id ` set (saldos db)"
    and "r \<in> set (saldos db) \<Longrightarrow> saldo_id r < saldo_seq db + 1"
  using assms by (force simp: db_wf_def)+

lemma db_wf_bump: "db_wf db \<Longrightarrow> db_wf (db\<lparr>saldo_seq := saldo_seq db + 1\<rparr>)"
  using db_wf_ids(2) [of db] by (simp add: db_wf_def)

lemma db_wf_add_row:
  assumes wf: "db_wf db" and c: "get_saldo_by_card_number (s_card r) db = None"
    and i: "saldo_id r = saldo_seq db"
  shows "db_wf (db\<lparr>saldo_seq := saldo_seq db + 1, saldos := saldos db @ [r]\<rparr>)"
  using assms db_wf_ids [OF wf] by (auto simp: db_wf_def get_saldo_None)

lemma db_wf_add_entry:
  "db_wf db \<Longrightarrow> find_entry (entry_key e) db = None \<Longrightarrow> entry_fits e \<Longrightarrow> db_wf (db\<lparr>ledger := ledger db @ [e]\<rparr>)"
  by (auto simp: db_wf_def find_entry_None)

lemma db_wf_insert:
  assumes wf: "db_wf db" and c: "get_saldo_by_card_number c db = None"
    and ins: "insert_saldo_row now c amt db = (res, db')"
  shows "db_wf db'"
proof -
  let ?r = "\<lparr>saldo_id = saldo_seq db, s_card = c, s_balance = amt, s_withdraw_amount = Some 0,
    s_withdraw_time = Some now, s_created_at = now, s_updated_at = now, s_deleted_at = None\<rparr>"
  let ?db1 = "db\<lparr>saldo_seq := saldo_seq db + 1, saldos := saldos db @ [?r]\<rparr>"
  let ?e = "opening_entry now ?r"
  have wf1: "db_wf ?db1" by (rule db_wf_add_row) (use wf c in simp_all)
  have fe: "find_entry k ?db1 = find_entry k db" for k by (simp add: find_entry_def)
  have wf2: "db_wf (?db1\<lparr>ledger := ledger db @ [?e]\<rparr>)"
    if "entry_fits ?e" "find_entry (entry_key ?e) db = None"
    using db_wf_add_entry [OF wf1, of ?e] fe that by simp
  from ins have "db' = snd (insert_saldo_row now c amt db)" by simp
  then show ?thesis
    using wf1 wf2 wf db_wf_bump [OF wf] by (simp add: insert_saldo_row_def Let_def)
qed

text \<open>The first saldo of a card starts reconciled: its opening entry is its balance.\<close>

lemma reconciled_insert:
  assumes rec: "reconciled db" and fresh: "\<forall>e \<in> set (ledger db). le_card e \<noteq> c"
    and ins: "insert_saldo_row now c amt db = (Inr r, db')"
    and other: "get_saldo_by_card_number c db = None"
  shows "reconciled db'"
proof -
  from ins obtain e where e: "entry_fits e" "le_card e = c" "le_delta e = amt" "le_balance_after e = amt"
    and db': "saldos db' = saldos db @ [r]" "s_card r = c" "s_balance r = amt" "row_active r"
    and led: "ledger db' = (if find_entry (entry_key e) db = None then ledger db @ [e] else ledger db)"
    by (auto simp: insert_saldo_row_def Let_def opening_entry_def row_active_def split: if_splits)
  have "find_entry (entry_key e) db = None"
    using fresh e(2) by (auto simp: find_entry_None entry_key_def)
  with led have led: "ledger db' = ledger db @ [e]" by simp
  have none: "filter (\<lambda>e. le_card e = c) (ledger db) = []"
    using fresh by (auto simp: filter_empty_conv)
  have "ledger_total c db' = amt" by (simp add: ledger_total_def led none e)
  moreover have "ledger_total x db' = ledger_total x db" if "x \<noteq> c" for x
    using that e by (simp add: ledger_total_def led)
  moreover have "s_card x \<noteq> c" if "x \<in> set (saldos db)" "row_active x" for x
    using other that by (auto simp: get_saldo_None)
  moreover have "0 \<le> amt" using e by (simp add: entry_fits_def)
  ultimately show ?thesis
    using rec db' by (auto simp: reconciled_def)
qed

lemma repo_update_saldo_cases:
  assumes "repo_update_saldo now i c amt db = (res, db')"
  shows "db' = db \<or> (\<exists>adj r. apply_ledger_adjustment now adj db = (r, db'))"
proof (cases "i = None \<or> (\<exists>j. i = Some j \<and> get_saldo_by_id (go_int32 j) db = None)")
  case True
  with assms show ?thesis by (auto simp: repo_update_saldo_def)
next
  case False
  then obtain j current where j: "i = Some j" "get_saldo_by_id (go_int32 j) db = Some current"
    by auto
  let ?delta = "go_int64 (amount_to_int64 amt - s_balance current)"
  let ?adj = "saldo_update_adjustment j c (amount_to_int64 amt) ?delta"
  show ?thesis
  proof (cases "s_card current \<noteq> c \<or> ?delta = 0")
    case True
    with assms j show ?thesis by (auto simp: repo_update_saldo_def Let_def split: if_splits)
  next
    case False
    obtain r db1 where adj: "apply_ledger_adjustment now ?adj db = (r, db1)"
      by (cases "apply_ledger_adjustment now ?adj db")
    with False assms j have "db' = db1"
      by (auto simp: repo_update_saldo_def Let_def try_or_def ret_def split: sum.splits if_splits)
    with adj show ?thesis by blast
  qed
qed

lemma reconciled_update_row:
  assumes "reconciled db" "update_saldo_row p f db = (res, db')"
    and "\<And>x. s_balance (f x) = s_balance x \<and> s_card (f x) = s_card x \<and> row_active (f x) = row_active x"
  shows "reconciled db'"
  using assms
  by (auto simp: reconciled_def update_saldo_row_def set_update_where ledger_total_def
      split: option.splits)

lemma update_saldo_metadata_preserves:
  assumes "update_saldo_withdraw_metadata_sql now c a t db = (res, db')"
  shows "db_wf db \<Longrightarrow> db_wf db'" "reconciled db \<Longrightarrow> reconciled db'"
  using assms unfolding update_saldo_withdraw_metadata_sql_def
  by (auto elim!: db_wf_update_row reconciled_update_row simp: row_active_def)

section \<open>Databases the ledger-backed operations can reach\<close>

text \<open>
  From an empty database: a first saldo for a card, then debits, credits, adjustments,
  absolute updates, withdrawal metadata, and trashing and purging of rows.
\<close>

inductive saldo_reachable :: "saldo_db \<Rightarrow> bool" where
  start:
    "saldo_reachable \<lparr>saldos = [], saldo_seq = 1, ledger = [], recon_queue = [], recon_seq = 1\<rparr>"
| first_saldo:
    "saldo_reachable db \<Longrightarrow> \<forall>e \<in> set (ledger db). le_card e \<noteq> c \<Longrightarrow>
     get_saldo_by_card_number c db = None \<Longrightarrow> insert_saldo_row now c amt db = (res, db') \<Longrightarrow>
     saldo_reachable db'"
| debited: "saldo_reachable db \<Longrightarrow> repo_debit_saldo now uuid req db = (res, db') \<Longrightarrow> saldo_reachable db'"
| credited: "saldo_reachable db \<Longrightarrow> repo_credit_saldo now uuid req db = (res, db') \<Longrightarrow> saldo_reachable db'"
| adjusted:
    "saldo_reachable db \<Longrightarrow> repo_apply_saldo_adjustment now adj db = (res, db') \<Longrightarrow> saldo_reachable db'"
| updated:
    "saldo_reachable db \<Longrightarrow> repo_update_saldo now i c amt db = (res, db') \<Longrightarrow> saldo_reachable db'"
| metadata:
    "saldo_reachable db \<Longrightarrow> update_saldo_withdraw_metadata_sql now c a t db = (res, db') \<Longrightarrow>
     saldo_reachable db'"
| trashed: "saldo_reachable db \<Longrightarrow> trash_saldo_sql now k db = (res, db') \<Longrightarrow> saldo_reachable db'"
| purged:
    "saldo_reachable db \<Longrightarrow> delete_saldo_permanently_sql k db = (ures, db') \<Longrightarrow> saldo_reachable db'"

lemma reconciled_insert_any:
  assumes "reconciled db" "\<forall>e \<in> set (ledger db). le_card e \<noteq> c"
    and "insert_saldo_row now c amt db = (res, db')" "get_saldo_by_card_number c db = None"
  shows "reconciled db'"
proof (cases res)
  case (Inl err)
  with assms(3) have "saldos db' = saldos db \<and> ledger db' = ledger db"
    by (auto simp: insert_saldo_row_def Let_def split: if_splits)
  with assms(1) show ?thesis by (simp add: reconciled_def ledger_total_def)
next
  case (Inr r)
  with assms show ?thesis by (auto intro: reconciled_insert)
qed

lemmas outcome_rules = repo_debit_outcome repo_credit_outcome repo_adjustment_outcome adjustment_outcome

lemma saldo_reachable_invariants: "saldo_reachable db \<Longrightarrow> db_wf db \<and> reconciled db"
proof (induction rule: saldo_reachable.induct)
  case start
  show ?case by (simp add: db_wf_def reconciled_def)
next
  case (first_saldo db c now amt res db')
  then show ?case by (auto intro: db_wf_insert reconciled_insert_any)
next
  case (debited db now uuid req res db')
  then show ?case by (auto dest: outcome_rules intro: outcome_wf outcome_reconciled)
next
  case (credited db now uuid req res db')
  then show ?case by (auto dest: outcome_rules intro: outcome_wf outcome_reconciled)
next
  case (adjusted db now adj res db')
  then show ?case by (auto dest: outcome_rules intro: outcome_wf outcome_reconciled)
next
  case (updated db now i c amt res db')
  then show ?case
    by (auto dest!: repo_update_saldo_cases outcome_rules intro: outcome_wf outcome_reconciled)
next
  case (metadata db now c a t res db')
  then show ?case by (auto dest: update_saldo_metadata_preserves)
next
  case (trashed db now k res db')
  then show ?case by (auto intro: db_wf_trash reconciled_trash)
next
  case (purged db k res db')
  then show ?case by (auto intro: db_wf_delete reconciled_delete)
qed

end
