(* ===== verification/MoneyMover.thy ===== *)
theory MoneyMover
  imports Prelude
begin

text \<open>
  The contract the transaction, transfer, top-up and withdraw services rely on when they
  call the saldo service: named debits and credits that either fail without effect, move
  one balance by exactly the requested amount and record their identity, or recognise an
  identity they have already recorded and change nothing. The lemmas of the locale are
  what those services need: a debit with a matching credit conserves the total, a
  compensating credit restores the balance, and a retry never moves money twice.
\<close>

locale money_mover =
  fixes debit credit :: "'q \<Rightarrow> 's \<Rightarrow> ('e + 'x) \<times> 's"
    and account :: "'q \<Rightarrow> string"
    and amount :: "'q \<Rightarrow> int"
    and opid :: "'q \<Rightarrow> string"
    and bal :: "'s \<Rightarrow> string \<Rightarrow> int option"
    and posted :: "'s \<Rightarrow> bool \<Rightarrow> string \<Rightarrow> string \<Rightarrow> bool"
  assumes debit_error:
      "debit q s = (Inl e, s') \<Longrightarrow> bal s' = bal s \<and> posted s' = posted s"
    and debit_replay:
      "debit q s = (r, s') \<Longrightarrow> posted s True (opid q) (account q) \<Longrightarrow>
       bal s' = bal s \<and> posted s' = posted s"
    and debit_new:
      "debit q s = (Inr x, s') \<Longrightarrow> \<not> posted s True (opid q) (account q) \<Longrightarrow>
       bal s' = (bal s)(account q := map_option (\<lambda>b. b - amount q) (bal s (account q)))
       \<and> (\<forall>d p c. posted s' d p c \<longleftrightarrow> posted s d p c \<or> d \<and> p = opid q \<and> c = account q)
       \<and> (\<exists>b. bal s (account q) = Some b \<and> amount q \<le> b)"
    and credit_error:
      "credit q s = (Inl e, s') \<Longrightarrow> bal s' = bal s \<and> posted s' = posted s"
    and credit_replay:
      "credit q s = (r, s') \<Longrightarrow> posted s False (opid q) (account q) \<Longrightarrow>
       bal s' = bal s \<and> posted s' = posted s"
    and credit_new:
      "credit q s = (Inr x, s') \<Longrightarrow> \<not> posted s False (opid q) (account q) \<Longrightarrow>
       bal s' = (bal s)(account q := map_option (\<lambda>b. b + amount q) (bal s (account q)))
       \<and> (\<forall>d p c. posted s' d p c \<longleftrightarrow> posted s d p c \<or> \<not> d \<and> p = opid q \<and> c = account q)
       \<and> bal s (account q) \<noteq> None"
begin

lemma debit_posts: "debit q s = (Inr x, s') \<Longrightarrow> posted s' True (opid q) (account q)"
  by (cases "posted s True (opid q) (account q)") (auto dest: debit_replay debit_new)

lemma credit_posts: "credit q s = (Inr x, s') \<Longrightarrow> posted s' False (opid q) (account q)"
  by (cases "posted s False (opid q) (account q)") (auto dest: credit_replay credit_new)

text \<open>A retry after a success finds the identity recorded.\<close>

lemma retry_debit:
  assumes "debit q s = (Inr x, s1)" "debit q' s1 = (r, s2)" "opid q' = opid q" "account q' = account q"
  shows "bal s2 = bal s1"
  using debit_replay [OF assms(2)] debit_posts [OF assms(1)] assms(3,4) by simp

lemma retry_credit:
  assumes "credit q s = (Inr x, s1)" "credit q' s1 = (r, s2)" "opid q' = opid q" "account q' = account q"
  shows "bal s2 = bal s1"
  using credit_replay [OF assms(2)] credit_posts [OF assms(1)] assms(3,4) by simp

text \<open>Records are never forgotten.\<close>

lemma debit_keeps: "debit q s = (r, s') \<Longrightarrow> posted s d p c \<Longrightarrow> posted s' d p c"
  using debit_error [of q s _ s'] debit_replay [of q s r s'] debit_new [of q s _ s']
  by (cases r; cases "posted s True (opid q) (account q)") auto

lemma credit_keeps: "credit q s = (r, s') \<Longrightarrow> posted s d p c \<Longrightarrow> posted s' d p c"
  using credit_error [of q s _ s'] credit_replay [of q s r s'] credit_new [of q s _ s']
  by (cases r; cases "posted s False (opid q) (account q)") auto

text \<open>A settlement: a debit, then a credit of the same amount to another account.\<close>

lemma settle:
  assumes deb: "debit q s = (Inr x, s1)" and cre: "credit p s1 = (Inr y, s2)"
    and fresh: "\<not> posted s True (opid q) (account q)" "\<not> posted s False (opid p) (account p)"
    and amounts: "amount p = amount q"
  shows "\<exists>b c. bal s (account q) = Some b \<and> bal s (account p) = Some c \<and> amount q \<le> b
     \<and> bal s2 = (if account p = account q then bal s
                  else (bal s)(account q := Some (b - amount q), account p := Some (c + amount q)))"
proof -
  note d = debit_new [OF deb fresh(1)]
  have "\<not> posted s1 False (opid p) (account p)" using d fresh(2) by auto
  note c = credit_new [OF cre this]
  from d c amounts show ?thesis by (cases "account p = account q") (auto simp: fun_eq_iff)
qed

text \<open>Money is neither made nor lost by it: the sum over any accounts that hold both is the same.\<close>

definition total_of :: "string set \<Rightarrow> 's \<Rightarrow> int" where
  "total_of A s = (\<Sum>a\<in>A. case bal s a of None \<Rightarrow> 0 | Some b \<Rightarrow> b)"

lemma total_of_move:
  assumes "finite A" "a \<in> A" "bal s a = Some b"
    and "bal s' = (bal s)(a := Some (b + d))"
  shows "total_of A s' = total_of A s + d"
proof -
  let ?v = "\<lambda>s a. case bal s a of None \<Rightarrow> 0 | Some b \<Rightarrow> b"
  have "total_of A s' = ?v s' a + sum (?v s') (A - {a})"
    unfolding total_of_def using assms by (simp add: sum.remove)
  also have "sum (?v s') (A - {a}) = sum (?v s) (A - {a})"
    by (rule sum.cong) (auto simp: assms)
  also have "?v s' a + sum (?v s) (A - {a}) = total_of A s + d"
    unfolding total_of_def using assms by (simp add: sum.remove)
  finally show ?thesis .
qed

lemma settle_conserves:
  assumes deb: "debit q s = (Inr x, s1)" and cre: "credit p s1 = (Inr y, s2)"
    and fresh: "\<not> posted s True (opid q) (account q)" "\<not> posted s False (opid p) (account p)"
    and amounts: "amount p = amount q"
    and A: "finite A" "account q \<in> A" "account p \<in> A"
  shows "total_of A s2 = total_of A s"
proof -
  from debit_new [OF deb fresh(1)] obtain b where b: "bal s (account q) = Some b"
      "bal s1 = (bal s)(account q := Some (b + - amount q))"
    by auto
  then have 1: "total_of A s1 = total_of A s + - amount q" using A by (intro total_of_move)
  have "\<not> posted s1 False (opid p) (account p)" using debit_new [OF deb fresh(1)] fresh(2) by auto
  from credit_new [OF cre this] amounts obtain c where "bal s1 (account p) = Some c"
      "bal s2 = (bal s1)(account p := Some (c + amount q))"
    by auto
  then have "total_of A s2 = total_of A s1 + amount q" using A by (intro total_of_move)
  with 1 show ?thesis by simp
qed

text \<open>A compensation: the credit that undoes a debit restores every balance.\<close>

lemma compensate:
  assumes deb: "debit q s = (Inr x, s1)" and cre: "credit p s1 = (Inr y, s2)"
    and fresh: "\<not> posted s True (opid q) (account q)" "\<not> posted s False (opid p) (account p)"
    and same: "account p = account q" "amount p = amount q"
  shows "bal s2 = bal s"
  using settle [OF deb cre fresh same(2)] same(1) by auto

end

end
