(* ===== verification/SaldoService.thy ===== *)
theory SaldoService
  imports SaldoRepository MoneyMover
begin

text \<open>
  The saldo service above its repository: the command service with its cache
  invalidation, outbox event and e-mail (\<open>service/saldo/service/saldoCommandService.go\<close>),
  the gRPC handlers (\<open>service/saldo/handler/command.go\<close>) and the client side that the
  other services call (\<open>pkg/adapter/saldo_grpc.go\<close>).
\<close>

section \<open>State\<close>

text \<open>An enqueued \<open>saldo.changed\<close> event: saldo id, card, balance, time.\<close>

record saldo_event =
  ev_saldo_id :: int
  ev_card :: string
  ev_balance :: int
  ev_created_at :: int

record email_message =
  em_topic :: string
  em_key :: string
  em_address :: string
  em_subject :: string
  em_text :: string

record saldo_service =
  sdb :: saldo_db
  saldo_cache :: "string set"
  saldo_outbox :: "saldo_event list"
  saldo_emails :: "email_message list"

text \<open>
  What an invocation reads from outside: the clock, a fresh UUID, the card service, the
  Kafka client (absent when nil), whether an outbox is configured and whether its insert
  succeeds, and the printer of withdrawal times.
\<close>

record card_info =
  ci_card :: string
  ci_user_id :: int
  ci_email :: string
  ci_type :: string
  ci_provider :: string

record saldo_env =
  e_now :: int
  e_uuid :: string
  e_find_card :: "string \<Rightarrow> go_error + unit"
  e_find_user_card :: "string \<Rightarrow> go_error + card_info"
  e_kafka_send :: "bool option"
  e_outbox_insert :: "bool option"

section \<open>Command service\<close>

definition cache_key_by_id :: "int \<Rightarrow> string" where
  "cache_key_by_id i = ''saldo:id:'' @ itoa i"

definition cache_key_by_card_number :: "string \<Rightarrow> string" where
  "cache_key_by_card_number cnum = ''saldo:card_number:'' @ cnum"

definition enqueue_saldo_changed :: "saldo_env \<Rightarrow> saldo_row \<Rightarrow> saldo_service \<Rightarrow> saldo_service" where
  "enqueue_saldo_changed env row s =
     (let s1 = s\<lparr>saldo_cache := saldo_cache s - {cache_key_by_id (saldo_id row),
                                                 cache_key_by_card_number (s_card row)}\<rparr>
      in if e_outbox_insert env = Some True
         then s1\<lparr>saldo_outbox := saldo_outbox s1 @
                   [\<lparr>ev_saldo_id = saldo_id row, ev_card = s_card row, ev_balance = s_balance row,
                     ev_created_at = e_now env\<rparr>]\<rparr>
         else s1)"

text \<open>
  \<open>publishSaldoCreatedEmail\<close> is best effort: any failure leaves the committed row alone.
\<close>

definition publish_saldo_created_email :: "saldo_env \<Rightarrow> string \<Rightarrow> saldo_service \<Rightarrow> saldo_service" where
  "publish_saldo_created_email env cnum s =
     (case e_kafka_send env of
        None \<Rightarrow> s
      | Some sent \<Rightarrow>
          (case e_find_user_card env cnum of
             Inl _ \<Rightarrow> s
           | Inr ci \<Rightarrow>
               (if ci_email ci = [] \<or> \<not> sent then s
                else s\<lparr>saldo_emails := saldo_emails s @
                       [\<lparr>em_topic = ''email-service-topic-saldo-create'', em_key = cnum,
                         em_address = ci_email ci, em_subject = ''Saldo Account Created - SanEdge'',
                         em_text = ''Your payment account for card '' @ cnum
                                   @ '' has been created successfully.''\<rparr>]\<rparr>)))"

text \<open>A repository call on the database, with \<open>k\<close> run on the row it returns.\<close>

definition on_db ::
  "(go_error, 'a, saldo_db) op \<Rightarrow> ('a \<Rightarrow> saldo_service \<Rightarrow> saldo_service) \<Rightarrow> (go_error, 'a, saldo_service) op" where
  "on_db m k =
     try_or (zoom sdb (\<lambda>db s. s\<lparr>sdb := db\<rparr>) m)
       (\<lambda>err. ret (Inl (handle_error (Some err))))
       (\<lambda>res s. (Inr res, k res s))"

definition keep :: "'a \<Rightarrow> saldo_service \<Rightarrow> saldo_service" where
  "keep _ s = s"

definition svc_create_saldo :: "saldo_env \<Rightarrow> string \<Rightarrow> int \<Rightarrow> (go_error, saldo_row, saldo_service) op" where
  "svc_create_saldo env cnum amt =
     (case e_find_card env cnum of
        Inl err \<Rightarrow> ret (Inl (handle_error (Some err)))
      | Inr _ \<Rightarrow> on_db (repo_create_saldo (e_now env) cnum amt)
                 (\<lambda>res. publish_saldo_created_email env cnum))"

definition svc_create_saldo_if_not_exists ::
  "saldo_env \<Rightarrow> string \<Rightarrow> int \<Rightarrow> (go_error, unit, saldo_service) op" where
  "svc_create_saldo_if_not_exists env cnum amt =
     zoom sdb (\<lambda>db s. s\<lparr>sdb := db\<rparr>) (repo_create_saldo_if_not_exists (e_now env) cnum amt)"

definition svc_update_saldo ::
  "saldo_env \<Rightarrow> int option \<Rightarrow> string \<Rightarrow> int \<Rightarrow> (go_error, saldo_row, saldo_service) op" where
  "svc_update_saldo env i cnum amt =
     (case e_find_card env cnum of
        Inl err \<Rightarrow> ret (Inl (handle_error (Some err)))
      | Inr _ \<Rightarrow> on_db (repo_update_saldo (e_now env) i cnum amt) (enqueue_saldo_changed env))"

text \<open>\<open>Validate\<close> of a debit or credit request: a card number and a positive amount.\<close>

definition validate_saldo_request :: "saldo_request \<Rightarrow> go_error option" where
  "validate_saldo_request req =
     (if sr_card req = [] \<or> \<not> sr_amount req > 0
      then Some (ErrorString ''validation of the saldo request failed'') else None)"

definition svc_debit_saldo :: "saldo_env \<Rightarrow> saldo_request \<Rightarrow> (go_error, saldo_row, saldo_service) op" where
  "svc_debit_saldo env req =
     (case validate_saldo_request req of
        Some err \<Rightarrow> ret (Inl (with_internal (new_bad_request_error ''invalid debit saldo request'') err))
      | None \<Rightarrow> on_db (repo_debit_saldo (e_now env) (e_uuid env) req) (enqueue_saldo_changed env))"

definition svc_credit_saldo :: "saldo_env \<Rightarrow> saldo_request \<Rightarrow> (go_error, saldo_row, saldo_service) op" where
  "svc_credit_saldo env req =
     (case validate_saldo_request req of
        Some err \<Rightarrow> ret (Inl (with_internal (new_bad_request_error ''invalid credit saldo request'') err))
      | None \<Rightarrow> on_db (repo_credit_saldo (e_now env) (e_uuid env) req) (enqueue_saldo_changed env))"

definition svc_apply_saldo_adjustment ::
  "saldo_env \<Rightarrow> ledger_adjustment_params \<Rightarrow> (go_error, saldo_row, saldo_service) op" where
  "svc_apply_saldo_adjustment env req =
     (case validate_adjustment req of
        Some err \<Rightarrow> ret (Inl (with_internal (new_bad_request_error ''invalid saldo adjustment request'') err))
      | None \<Rightarrow> on_db (repo_apply_saldo_adjustment (e_now env) req) (enqueue_saldo_changed env))"

definition svc_update_saldo_withdraw ::
  "saldo_env \<Rightarrow> string \<Rightarrow> int option \<Rightarrow> int option \<Rightarrow> (go_error, saldo_row, saldo_service) op" where
  "svc_update_saldo_withdraw env cnum amount time =
     (case e_find_card env cnum of
        Inl err \<Rightarrow> ret (Inl (handle_error (Some err)))
      | Inr _ \<Rightarrow> on_db (repo_update_saldo_withdraw (e_now env) (e_uuid env) cnum amount time)
                 (enqueue_saldo_changed env))"

definition svc_trash_saldo :: "saldo_env \<Rightarrow> int \<Rightarrow> (go_error, saldo_row, saldo_service) op" where
  "svc_trash_saldo env i = on_db (repo_trashed_saldo (e_now env) i) keep"

definition svc_restore_saldo :: "int \<Rightarrow> (go_error, saldo_row, saldo_service) op" where
  "svc_restore_saldo i = on_db (repo_restore_saldo i) keep"

definition svc_delete_saldo_permanent :: "int \<Rightarrow> (go_error, unit, saldo_service) op" where
  "svc_delete_saldo_permanent i = on_db (repo_delete_saldo_permanent i) keep"

definition svc_restore_all_saldo :: "(go_error, unit, saldo_service) op" where
  "svc_restore_all_saldo =
     try_or (zoom sdb (\<lambda>db s. s\<lparr>sdb := db\<rparr>) repo_restore_all_saldo)
       (\<lambda>err. ret (Inl (err_failed ''restore all saldo''))) (\<lambda>res. ret (Inr res))"

definition svc_delete_all_saldo_permanent :: "(go_error, unit, saldo_service) op" where
  "svc_delete_all_saldo_permanent =
     try_or (zoom sdb (\<lambda>db s. s\<lparr>sdb := db\<rparr>) repo_delete_all_saldo_permanent)
       (\<lambda>err. ret (Inl (err_failed ''delete all saldo permanently''))) (\<lambda>res. ret (Inr res))"

text \<open>The query side reads the table, never the cache.\<close>

definition svc_find_by_card_number :: "string \<Rightarrow> saldo_service \<Rightarrow> go_error + saldo_row" where
  "svc_find_by_card_number cnum s =
     (case get_saldo_by_card_number cnum (sdb s) of
        None \<Rightarrow> Inl (err_not_found_response ''Saldo'')
      | Some r \<Rightarrow> Inr r)"

section \<open>Handlers\<close>

definition ErrGrpcSaldoInvalidID :: go_error where
  "ErrGrpcSaldoInvalidID = new_grpc_error ''Invalid Saldo ID'' codes_InvalidArgument"

definition ErrGrpcSaldoInvalidCardNumber :: go_error where
  "ErrGrpcSaldoInvalidCardNumber = new_grpc_error ''Invalid Saldo Card Number'' codes_InvalidArgument"

definition ErrGrpcValidateCreateSaldo :: go_error where
  "ErrGrpcValidateCreateSaldo = new_grpc_error ''Invalid input for create saldo'' codes_InvalidArgument"

definition ErrGrpcValidateUpdateSaldo :: go_error where
  "ErrGrpcValidateUpdateSaldo = new_grpc_error ''Invalid input for update saldo'' codes_InvalidArgument"

definition ErrGrpcValidateUpdateSaldoWithdraw :: go_error where
  "ErrGrpcValidateUpdateSaldoWithdraw =
     new_grpc_error ''Invalid input for update saldo withdraw'' codes_InvalidArgument"

definition to_wire :: "(go_error, 'a, 's) op \<Rightarrow> (go_error, 'a, 's) op" where
  "to_wire m = try_or m (\<lambda>err. ret (Inl (to_grpc_error err))) (\<lambda>res. ret (Inr res))"

text \<open>The validator's \<open>required\<close> rejects the zero value, an opening balance of 0 too.\<close>

definition handle_create_saldo :: "saldo_env \<Rightarrow> string \<Rightarrow> int \<Rightarrow> (go_error, saldo_row, saldo_service) op" where
  "handle_create_saldo env cnum amt =
     (if cnum = [] \<or> amt = 0 then ret (Inl ErrGrpcValidateCreateSaldo)
      else to_wire (svc_create_saldo env cnum amt))"

definition handle_update_saldo ::
  "saldo_env \<Rightarrow> int \<Rightarrow> string \<Rightarrow> int \<Rightarrow> (go_error, saldo_row, saldo_service) op" where
  "handle_update_saldo env i cnum amt =
     (if i = 0 then ret (Inl ErrGrpcSaldoInvalidID)
      else if cnum = [] \<or> amt = 0 then ret (Inl ErrGrpcValidateUpdateSaldo)
      else to_wire (svc_update_saldo env (Some i) cnum amt))"

definition handle_debit_saldo :: "saldo_env \<Rightarrow> saldo_request \<Rightarrow> (go_error, saldo_row, saldo_service) op" where
  "handle_debit_saldo env req =
     (if validate_saldo_request req \<noteq> None then ret (Inl ErrGrpcValidateUpdateSaldo)
      else to_wire (svc_debit_saldo env req))"

definition handle_credit_saldo :: "saldo_env \<Rightarrow> saldo_request \<Rightarrow> (go_error, saldo_row, saldo_service) op" where
  "handle_credit_saldo env req =
     (if validate_saldo_request req \<noteq> None then ret (Inl ErrGrpcValidateUpdateSaldo)
      else to_wire (svc_credit_saldo env req))"

definition handle_apply_saldo_adjustment ::
  "saldo_env \<Rightarrow> ledger_adjustment_params \<Rightarrow> (go_error, saldo_row, saldo_service) op" where
  "handle_apply_saldo_adjustment env req =
     (if validate_adjustment req \<noteq> None then ret (Inl ErrGrpcValidateUpdateSaldo)
      else to_wire (svc_apply_saldo_adjustment env req))"

text \<open>
  The handler of a withdrawal takes its own clock for the withdrawal time, whatever time
  the caller sent.
\<close>

definition handle_update_saldo_withdraw ::
  "saldo_env \<Rightarrow> string \<Rightarrow> int \<Rightarrow> int \<Rightarrow> (go_error, saldo_row, saldo_service) op" where
  "handle_update_saldo_withdraw env cnum amt withdraw_amount =
     (if cnum = [] \<or> amt < 50000 \<or> withdraw_amount < 0 \<or> withdraw_amount > amt
      then ret (Inl ErrGrpcValidateUpdateSaldoWithdraw)
      else to_wire (svc_update_saldo_withdraw env cnum (Some withdraw_amount) (Some (e_now env))))"

definition handle_by_id ::
  "(int \<Rightarrow> (go_error, 'a, saldo_service) op) \<Rightarrow> int \<Rightarrow> (go_error, 'a, saldo_service) op" where
  "handle_by_id svc i = (if i = 0 then ret (Inl ErrGrpcSaldoInvalidID) else to_wire (svc i))"

definition handle_trashed_saldo :: "saldo_env \<Rightarrow> int \<Rightarrow> (go_error, saldo_row, saldo_service) op" where
  "handle_trashed_saldo env = handle_by_id (svc_trash_saldo env)"

definition handle_restore_saldo :: "int \<Rightarrow> (go_error, saldo_row, saldo_service) op" where
  "handle_restore_saldo = handle_by_id svc_restore_saldo"

definition handle_delete_saldo_permanent :: "int \<Rightarrow> (go_error, unit, saldo_service) op" where
  "handle_delete_saldo_permanent = handle_by_id svc_delete_saldo_permanent"

definition handle_restore_all_saldo :: "(go_error, unit, saldo_service) op" where
  "handle_restore_all_saldo = to_wire svc_restore_all_saldo"

definition handle_delete_all_saldo_permanent :: "(go_error, unit, saldo_service) op" where
  "handle_delete_all_saldo_permanent = to_wire svc_delete_all_saldo_permanent"

definition handle_find_by_card_number :: "string \<Rightarrow> saldo_service \<Rightarrow> go_error + saldo_row" where
  "handle_find_by_card_number cnum s =
     (if cnum = [] then Inl ErrGrpcSaldoInvalidCardNumber
      else case svc_find_by_card_number cnum s of
             Inl err \<Rightarrow> Inl (to_grpc_error err)
           | Inr r \<Rightarrow> Inr r)"

section \<open>Client side\<close>

record saldo_mutation_result =
  r_saldo_id :: int
  r_card :: string
  r_balance :: int

definition map_mutation_response :: "saldo_row \<Rightarrow> saldo_mutation_result" where
  "map_mutation_response r = \<lparr>r_saldo_id = saldo_id r, r_card = s_card r, r_balance = s_balance r\<rparr>"

definition map_result :: "(go_error, saldo_row, 's) op \<Rightarrow> (go_error, saldo_mutation_result, 's) op" where
  "map_result m = try_or m (\<lambda>err. ret (Inl err)) (\<lambda>r. ret (Inr (map_mutation_response r)))"

definition adapter_debit_saldo ::
  "saldo_env \<Rightarrow> saldo_request \<Rightarrow> (go_error, saldo_mutation_result, saldo_service) op" where
  "adapter_debit_saldo env req = map_result (handle_debit_saldo env req)"

definition adapter_credit_saldo ::
  "saldo_env \<Rightarrow> saldo_request \<Rightarrow> (go_error, saldo_mutation_result, saldo_service) op" where
  "adapter_credit_saldo env req = map_result (handle_credit_saldo env req)"

text \<open>The request of \<open>UpdateSaldoBalance\<close> carries no saldo id, which proto3 sends as 0.\<close>

definition adapter_update_saldo_balance ::
  "saldo_env \<Rightarrow> string \<Rightarrow> int \<Rightarrow> (go_error, saldo_mutation_result, saldo_service) op" where
  "adapter_update_saldo_balance env cnum amt = map_result (handle_update_saldo env 0 cnum amt)"

definition adapter_update_saldo_withdraw ::
  "saldo_env \<Rightarrow> string \<Rightarrow> int \<Rightarrow> int \<Rightarrow> (go_error, saldo_mutation_result, saldo_service) op" where
  "adapter_update_saldo_withdraw env cnum amt withdraw_amount =
     map_result (handle_update_saldo_withdraw env cnum amt withdraw_amount)"

text \<open>\<open>mapSaldoResponse\<close>: a withdraw amount of 0 on the wire is read as absent.\<close>

definition map_saldo_response :: "saldo_row \<Rightarrow> saldo_row" where
  "map_saldo_response r =
     (if s_withdraw_amount r = Some 0 then r\<lparr>s_withdraw_amount := None\<rparr> else r)"

definition adapter_find_by_card_number :: "string \<Rightarrow> saldo_service \<Rightarrow> go_error + saldo_row" where
  "adapter_find_by_card_number cnum s =
     (case handle_find_by_card_number cnum s of
        Inl err \<Rightarrow> Inl err
      | Inr r \<Rightarrow> Inr (map_saldo_response r))"

section \<open>Outcomes at the adapter\<close>

lemma sdb_enqueue [simp]: "sdb (enqueue_saldo_changed env row s) = sdb s"
  by (simp add: enqueue_saldo_changed_def Let_def)

lemma sdb_email [simp]: "sdb (publish_saldo_created_email env c s) = sdb s"
  by (simp add: publish_saldo_created_email_def split: option.splits sum.splits)

text \<open>
  A layer of the service keeps an outcome when it runs the layer below on the database
  and changes neither its tables nor whether it failed.
\<close>

definition keeps_outcome :: "(go_error, 'a, saldo_service) op \<Rightarrow> (go_error, saldo_row, saldo_db) op \<Rightarrow> bool" where
  "keeps_outcome m f \<longleftrightarrow>
     (\<forall>s res s'. m s = (res, s') \<longrightarrow>
        sdb s' = sdb s \<and> isl res \<or> (\<exists>r. f (sdb s) = (r, sdb s') \<and> isl r = isl res))"

lemma keeps_on_db: "(\<And>r s. sdb (k r s) = sdb s) \<Longrightarrow> keeps_outcome (on_db f k) f"
  by (auto simp: keeps_outcome_def on_db_def try_or_def zoom_def ret_def
      split: sum.splits prod.splits)

lemma keeps_fail: "keeps_outcome (ret (Inl e)) f"
  by (simp add: keeps_outcome_def ret_def)

lemma keeps_try:
  assumes "keeps_outcome m f"
  shows "keeps_outcome (try_or m (\<lambda>e. ret (Inl (g e))) (\<lambda>r. ret (Inr (h r)))) f"
  unfolding keeps_outcome_def
proof (intro allI impI)
  fix s res s'
  assume run: "try_or m (\<lambda>e. ret (Inl (g e))) (\<lambda>r. ret (Inr (h r))) s = (res, s')"
  obtain res0 s0 where m: "m s = (res0, s0)" by (cases "m s")
  have "s' = s0 \<and> isl res = isl res0"
    using run m by (cases res0) (auto simp: try_or_def ret_def)
  with assms m show "sdb s' = sdb s \<and> isl res \<or> (\<exists>r. f (sdb s) = (r, sdb s') \<and> isl r = isl res)"
    unfolding keeps_outcome_def by auto
qed

lemmas keeps_rules = keeps_on_db keeps_fail keeps_try

lemma adapter_debit_keeps:
  "keeps_outcome (adapter_debit_saldo env req) (repo_debit_saldo (e_now env) (e_uuid env) req)"
  by (auto simp: adapter_debit_saldo_def map_result_def handle_debit_saldo_def to_wire_def
      svc_debit_saldo_def intro!: keeps_rules split: option.splits)

lemma adapter_credit_keeps:
  "keeps_outcome (adapter_credit_saldo env req) (repo_credit_saldo (e_now env) (e_uuid env) req)"
  by (auto simp: adapter_credit_saldo_def map_result_def handle_credit_saldo_def to_wire_def
      svc_credit_saldo_def intro!: keeps_rules split: option.splits)

definition saldo_bal :: "saldo_service \<Rightarrow> string \<Rightarrow> int option" where
  "saldo_bal s cnum = balance_of cnum (sdb s)"

definition saldo_posted :: "saldo_service \<Rightarrow> bool \<Rightarrow> string \<Rightarrow> string \<Rightarrow> bool" where
  "saldo_posted s debit op_id cnum \<longleftrightarrow>
     find_entry (op_id, cnum, if debit then Debit else Credit) (sdb s) \<noteq> None"

text \<open>The identity a request is recorded under, and the amount it moves.\<close>

definition request_opid :: "saldo_env \<times> saldo_request \<Rightarrow> string" where
  "request_opid q = m_operation_id (mutation_of_request (e_uuid (fst q)) (snd q))"

definition request_amount :: "saldo_env \<times> saldo_request \<Rightarrow> int" where
  "request_amount q = amount_to_int64 (sr_amount (snd q))"

lemma debit_entry_simps [simp]:
  "le_card (debit_entry u req) = sr_card req"
  "le_delta (debit_entry u req) = - amount_to_int64 (sr_amount req)"
  "entry_key (debit_entry u req) = (m_operation_id (mutation_of_request u req), sr_card req, Debit)"
  "le_card (credit_entry u req) = sr_card req"
  "le_delta (credit_entry u req) = amount_to_int64 (sr_amount req)"
  "entry_key (credit_entry u req) = (m_operation_id (mutation_of_request u req), sr_card req, Credit)"
  by (simp_all add: debit_entry_def credit_entry_def)

lemma adapter_debit_cases:
  assumes "adapter_debit_saldo env req s = (res, s')"
  shows "\<exists>r. ledger_outcome (e_now env) (debit_entry (e_uuid env) req) (sdb s) r (sdb s') \<and> isl r = isl res"
proof -
  from adapter_debit_keeps [of env req] assms consider
      "sdb s' = sdb s" "isl res"
    | r where "repo_debit_saldo (e_now env) (e_uuid env) req (sdb s) = (r, sdb s')" "isl r = isl res"
    unfolding keeps_outcome_def by blast
  then show ?thesis
  proof cases
    case 1
    then show ?thesis by (auto simp: isl_def intro: ledger_outcome.failed)
  next
    case 2
    then show ?thesis by (auto dest: repo_debit_outcome)
  qed
qed

lemma adapter_credit_cases:
  assumes "adapter_credit_saldo env req s = (res, s')"
  shows "\<exists>r. ledger_outcome (e_now env) (credit_entry (e_uuid env) req) (sdb s) r (sdb s') \<and> isl r = isl res"
proof -
  from adapter_credit_keeps [of env req] assms consider
      "sdb s' = sdb s" "isl res"
    | r where "repo_credit_saldo (e_now env) (e_uuid env) req (sdb s) = (r, sdb s')" "isl r = isl res"
    unfolding keeps_outcome_def by blast
  then show ?thesis
  proof cases
    case 1
    then show ?thesis by (auto simp: isl_def intro: ledger_outcome.failed)
  next
    case 2
    then show ?thesis by (auto dest: repo_credit_outcome)
  qed
qed

lemma adapter_debit_inr:
  assumes "adapter_debit_saldo env req s = (Inr x, s')"
  shows "\<exists>r. ledger_outcome (e_now env) (debit_entry (e_uuid env) req) (sdb s) (Inr r) (sdb s')"
  using adapter_debit_cases [OF assms] by (auto simp: isl_def split: sum.splits) (metis sum.exhaust)

lemma adapter_credit_inr:
  assumes "adapter_credit_saldo env req s = (Inr x, s')"
  shows "\<exists>r. ledger_outcome (e_now env) (credit_entry (e_uuid env) req) (sdb s) (Inr r) (sdb s')"
  using adapter_credit_cases [OF assms] by (auto simp: isl_def split: sum.splits) (metis sum.exhaust)

text \<open>A debit that is posted found at least its amount: the balance after is checked.\<close>

lemma outcome_covers:
  assumes "ledger_outcome now entry db (Inr r) db'" "find_entry (entry_key entry) db = None"
  shows "\<exists>b. balance_of (le_card entry) db = Some b \<and> 0 \<le> b + le_delta entry"
  using assms by (elim ledger_outcome_okE) (auto simp: entry_fits_def dest: balance_of_row)

section \<open>The service keeps the contract of a money mover\<close>

lemma outcome_bal_posted:
  assumes out: "ledger_outcome now entry (sdb s) (Inr r) (sdb s')"
    and new: "find_entry (entry_key entry) (sdb s) = None"
    and key: "entry_key entry = (p, c, if d then Debit else Credit)" "le_card entry = c"
  shows "saldo_bal s' = (saldo_bal s)(c := map_option (\<lambda>b. b + le_delta entry) (saldo_bal s c))"
    and "saldo_posted s' e q a \<longleftrightarrow> saldo_posted s e q a \<or> e = d \<and> q = p \<and> a = c"
    and "\<exists>b. saldo_bal s c = Some b \<and> 0 \<le> b + le_delta entry"
proof -
  note fresh = outcome_fresh [OF out new]
  show "saldo_bal s' = (saldo_bal s)(c := map_option (\<lambda>b. b + le_delta entry) (saldo_bal s c))"
    using fresh key(2) by (simp add: saldo_bal_def fun_eq_iff option.map_ident)
  show "saldo_posted s' e q a \<longleftrightarrow> saldo_posted s e q a \<or> e = d \<and> q = p \<and> a = c"
  proof (cases "(q, a, if e then Debit else Credit) = entry_key entry")
    case True
    then have eq: "q = p" "a = c" "e = d" using key(1) by (auto split: if_splits)
    from fresh obtain x where "find_entry (entry_key entry) (sdb s') = Some x" by blast
    with eq key(1) show ?thesis by (simp add: saldo_posted_def)
  next
    case False
    then have "find_entry (q, a, if e then Debit else Credit) (sdb s') =
        find_entry (q, a, if e then Debit else Credit) (sdb s)"
      using fresh by blast
    moreover have "\<not> (e = d \<and> q = p \<and> a = c)" using False key(1) by (auto split: if_splits)
    ultimately show ?thesis by (auto simp: saldo_posted_def split: if_splits)
  qed
  show "\<exists>b. saldo_bal s c = Some b \<and> 0 \<le> b + le_delta entry"
    using outcome_covers [OF out new] key(2) by (simp add: saldo_bal_def)
qed

lemma same_db: "sdb s' = sdb s \<Longrightarrow> saldo_bal s' = saldo_bal s \<and> saldo_posted s' = saldo_posted s"
  by (auto simp: saldo_bal_def saldo_posted_def fun_eq_iff)

definition debit_q :: "saldo_env \<times> saldo_request \<Rightarrow> (go_error, saldo_mutation_result, saldo_service) op" where
  "debit_q q = adapter_debit_saldo (fst q) (snd q)"

definition credit_q :: "saldo_env \<times> saldo_request \<Rightarrow> (go_error, saldo_mutation_result, saldo_service) op" where
  "credit_q q = adapter_credit_saldo (fst q) (snd q)"

interpretation saldo_mover: money_mover debit_q credit_q "\<lambda>q. sr_card (snd q)" request_amount request_opid
    saldo_bal saldo_posted
proof unfold_locales
  fix q s e s'
  assume "debit_q q s = (Inl e, s')"
  then show "saldo_bal s' = saldo_bal s \<and> saldo_posted s' = saldo_posted s"
    by (auto simp: debit_q_def dest!: adapter_debit_cases outcome_error
        simp: isl_def intro!: same_db [THEN conjunct1] same_db [THEN conjunct2])
next
  fix q s r s'
  assume "debit_q q s = (r, s')" "saldo_posted s True (request_opid q) (sr_card (snd q))"
  then show "saldo_bal s' = saldo_bal s \<and> saldo_posted s' = saldo_posted s"
    by (intro same_db)
      (auto simp: debit_q_def saldo_posted_def request_opid_def
        dest!: adapter_debit_cases intro: outcome_replay)
next
  fix q s x s'
  assume run: "debit_q q s = (Inr x, s')"
    and new: "\<not> saldo_posted s True (request_opid q) (sr_card (snd q))"
  let ?e = "debit_entry (e_uuid (fst q)) (snd q)"
  from run obtain r where out: "ledger_outcome (e_now (fst q)) ?e (sdb s) (Inr r) (sdb s')"
    using adapter_debit_inr unfolding debit_q_def by blast
  have none: "find_entry (entry_key ?e) (sdb s) = None"
    using new by (simp add: saldo_posted_def request_opid_def)
  have key: "entry_key ?e = (request_opid q, sr_card (snd q), if True then Debit else Credit)"
    by (simp add: request_opid_def)
  show "saldo_bal s' = (saldo_bal s)(sr_card (snd q) :=
          map_option (\<lambda>b. b - request_amount q) (saldo_bal s (sr_card (snd q))))
      \<and> (\<forall>d p c. saldo_posted s' d p c \<longleftrightarrow>
            saldo_posted s d p c \<or> d \<and> p = request_opid q \<and> c = sr_card (snd q))
      \<and> (\<exists>b. saldo_bal s (sr_card (snd q)) = Some b \<and> request_amount q \<le> b)"
    using outcome_bal_posted [OF out none key] by (auto simp: request_amount_def)
next
  fix q s e s'
  assume "credit_q q s = (Inl e, s')"
  then show "saldo_bal s' = saldo_bal s \<and> saldo_posted s' = saldo_posted s"
    by (auto simp: credit_q_def dest!: adapter_credit_cases outcome_error
        simp: isl_def intro!: same_db [THEN conjunct1] same_db [THEN conjunct2])
next
  fix q s r s'
  assume "credit_q q s = (r, s')" "saldo_posted s False (request_opid q) (sr_card (snd q))"
  then show "saldo_bal s' = saldo_bal s \<and> saldo_posted s' = saldo_posted s"
    by (intro same_db)
      (auto simp: credit_q_def saldo_posted_def request_opid_def
        dest!: adapter_credit_cases intro: outcome_replay)
next
  fix q s x s'
  assume run: "credit_q q s = (Inr x, s')"
    and new: "\<not> saldo_posted s False (request_opid q) (sr_card (snd q))"
  let ?e = "credit_entry (e_uuid (fst q)) (snd q)"
  from run obtain r where out: "ledger_outcome (e_now (fst q)) ?e (sdb s) (Inr r) (sdb s')"
    using adapter_credit_inr unfolding credit_q_def by blast
  have none: "find_entry (entry_key ?e) (sdb s) = None"
    using new by (simp add: saldo_posted_def request_opid_def)
  have key: "entry_key ?e = (request_opid q, sr_card (snd q), if False then Debit else Credit)"
    by (simp add: request_opid_def)
  show "saldo_bal s' = (saldo_bal s)(sr_card (snd q) :=
          map_option (\<lambda>b. b + request_amount q) (saldo_bal s (sr_card (snd q))))
      \<and> (\<forall>d p c. saldo_posted s' d p c \<longleftrightarrow>
            saldo_posted s d p c \<or> \<not> d \<and> p = request_opid q \<and> c = sr_card (snd q))
      \<and> saldo_bal s (sr_card (snd q)) \<noteq> None"
    using outcome_bal_posted [OF out none key] by (auto simp: request_amount_def)
qed

end
