(* ===== verification/Idempotency.thy ===== *)
theory Idempotency
  imports Errors
begin

text \<open>
  The idempotency keys of the financial commands: the \<open>idempotency_records\<close> table
  (\<open>service/*/database/schema/idempotency.go\<close>), the store on top of it
  (\<open>service/*/repository/idempotencyRepository.go\<close>, \<open>shared/idempotency\<close>) and the guard
  every \<open>Create\<close> command runs before and after its work. The JSON of a response is kept
  as the response itself; a NULL payload is \<open>None\<close>.
\<close>

section \<open>Table and store\<close>

definition idem_processing :: string where "idem_processing = ''processing''"

definition idem_success :: string where "idem_success = ''success''"

record 'r idem_row =
  i_scope :: string
  i_key :: string
  i_hash :: string
  i_status :: string
  i_response :: "'r option"
  i_resource_id :: "int option"
  i_created_at :: int
  i_updated_at :: int
  i_expires_at :: int

type_synonym 'r idem_table = "'r idem_row list"

definition has_key :: "string \<Rightarrow> string \<Rightarrow> 'r idem_row \<Rightarrow> bool" where
  "has_key scope key r \<longleftrightarrow> i_scope r = scope \<and> i_key r = key"

text \<open>
  \<open>ClaimIdempotency\<close>: insert, or take over an expired record; a live record leaves no row.
  The columns hold 64, 255 and 64 characters.
\<close>

definition reclaim :: "int \<Rightarrow> string \<Rightarrow> 'r idem_row \<Rightarrow> 'r idem_row" where
  "reclaim now hash r =
     r\<lparr>i_hash := hash, i_status := idem_processing, i_response := None, i_resource_id := None,
       i_updated_at := now, i_expires_at := now + 24 * hour\<rparr>"

definition claim_idempotency ::
  "int \<Rightarrow> string \<Rightarrow> string \<Rightarrow> string \<Rightarrow> (go_error, 'r idem_row, 'r idem_table) op" where
  "claim_idempotency now scope key hash tb =
     (if length scope > 64 \<or> length key > 255 \<or> length hash > 64
      then (Inl (DbError ''value too long''), tb)
      else case find (has_key scope key) tb of
        None \<Rightarrow>
          (let r = \<lparr>i_scope = scope, i_key = key, i_hash = hash, i_status = idem_processing,
                    i_response = None, i_resource_id = None, i_created_at = now,
                    i_updated_at = now, i_expires_at = now + 24 * hour\<rparr>
           in (Inr r, tb @ [r]))
      | Some r \<Rightarrow>
          (if i_expires_at r \<le> now
           then (Inr (reclaim now hash r), update_where (has_key scope key) (reclaim now hash) tb)
           else (Inl ErrNoRows, tb)))"

definition get_idempotency :: "int \<Rightarrow> string \<Rightarrow> string \<Rightarrow> 'r idem_table \<Rightarrow> go_error + 'r idem_row" where
  "get_idempotency now scope key tb =
     (case find (\<lambda>r. has_key scope key r \<and> i_expires_at r > now) tb of
        None \<Rightarrow> Inl ErrNoRows
      | Some r \<Rightarrow> Inr r)"

definition complete_idempotency ::
  "int \<Rightarrow> string \<Rightarrow> string \<Rightarrow> string \<Rightarrow> 'r \<Rightarrow> int \<Rightarrow> (go_error, unit, 'r idem_table) op" where
  "complete_idempotency now scope key hash response resource_id tb =
     (Inr (), update_where (\<lambda>r. has_key scope key r \<and> i_hash r = hash)
        (\<lambda>r. r\<lparr>i_status := idem_success, i_response := Some response,
               i_resource_id := Some resource_id, i_updated_at := now\<rparr>) tb)"

definition release_idempotency ::
  "string \<Rightarrow> string \<Rightarrow> string \<Rightarrow> (go_error, unit, 'r idem_table) op" where
  "release_idempotency scope key hash tb =
     (Inr (), filter (\<lambda>r. \<not> (has_key scope key r \<and> i_hash r = hash \<and> i_status r = idem_processing)) tb)"

definition ErrKeyInUse :: go_error where
  "ErrKeyInUse = ErrorString ''idempotency: key already claimed by another request''"

definition store_claim ::
  "int \<Rightarrow> string \<Rightarrow> string \<Rightarrow> string \<Rightarrow> (go_error, 'r idem_row, 'r idem_table) op" where
  "store_claim now scope key hash =
     try_or (claim_idempotency now scope key hash)
       (\<lambda>err. ret (Inl (if is_no_rows err then ErrKeyInUse else err)))
       (\<lambda>r. ret (Inr r))"

definition conflict_error :: go_error where
  "conflict_error = new_conflict_error ''Idempotency-Key was already used with a different request payload''"

definition processing_error :: go_error where
  "processing_error =
     new_conflict_error ''a request with this Idempotency-Key is still being processed; retry shortly''"

section \<open>The guard of a command\<close>

text \<open>
  A command that has an idempotency store and was given a key claims it first. Losing the
  claim answers from the stored record: another payload is a conflict, a finished request
  is replayed, an unfinished one asks the client to retry. Having claimed it, the command
  runs; it returns its result, whether its \<open>status\<close> variable was set to \<open>error\<close> (the
  deferred function then releases the key) and, on success, the response to store. The
  three calls can fail, which is what the flags of \<open>idem_faults\<close> say.
\<close>

record idem_faults =
  f_claim :: "go_error fault"
  f_get :: "go_error option"
  f_complete :: "go_error fault"
  f_release :: "go_error fault"

definition idem_answer ::
  "int \<Rightarrow> idem_faults \<Rightarrow> string \<Rightarrow> string \<Rightarrow> string \<Rightarrow> 'r idem_table \<Rightarrow> go_error + 'r" where
  "idem_answer now fl scope key hash tb =
     (case (case f_get fl of Some e \<Rightarrow> Inl e | None \<Rightarrow> get_idempotency now scope key tb) of
        Inl e \<Rightarrow> Inl (handle_error (Some e))
      | Inr existing \<Rightarrow>
          (if i_hash existing \<noteq> hash then Inl (handle_error (Some conflict_error))
           else if i_status existing = idem_success
           then (case i_response existing of
                   None \<Rightarrow> Inl (handle_error (Some (ErrorString ''unexpected end of JSON input'')))
                 | Some r \<Rightarrow> Inr r)
           else Inl (handle_error (Some processing_error))))"

definition idem_run ::
  "('w \<Rightarrow> 'r idem_table) \<Rightarrow> ('r idem_table \<Rightarrow> 'w \<Rightarrow> 'w) \<Rightarrow> bool \<Rightarrow> int \<Rightarrow> idem_faults \<Rightarrow>
   string \<Rightarrow> string \<Rightarrow> string \<Rightarrow> ('r \<Rightarrow> int) \<Rightarrow>
   ('w \<Rightarrow> (bool \<times> (go_error + 'r)) \<times> 'w) \<Rightarrow> (go_error, 'r, 'w) op" where
  "idem_run get_tb put_tb configured now fl scope key hash rid body w =
     (if key = [] \<or> \<not> configured
      then (case body w of ((status_error, res), w') \<Rightarrow> (res, w'))
      else
        case with_fault (f_claim fl) (zoom get_tb put_tb (store_claim now scope key hash)) w of
          (Inl _, w1) \<Rightarrow> (idem_answer now fl scope key hash (get_tb w1), w1)
        | (Inr _, w1) \<Rightarrow>
            (case body w1 of
               ((status_error, Inl e), w2) \<Rightarrow>
                 (if status_error
                  then (Inl e, snd (with_fault (f_release fl)
                          (zoom get_tb put_tb (release_idempotency scope key hash)) w2))
                  else (Inl e, w2))
             | ((_, Inr r), w2) \<Rightarrow>
                 (Inr r, snd (with_fault (f_complete fl)
                    (zoom get_tb put_tb (complete_idempotency now scope key hash r (rid r))) w2))))"

section \<open>Lemmas\<close>

definition keys_distinct :: "'r idem_table \<Rightarrow> bool" where
  "keys_distinct tb \<longleftrightarrow> distinct (map (\<lambda>r. (i_scope r, i_key r)) tb)"

lemma find_has_key: "find (has_key scope key) tb = Some r \<Longrightarrow> r \<in> set tb \<and> i_scope r = scope \<and> i_key r = key"
  by (auto simp: has_key_def dest: find_Some_mem)

lemma find_has_key_None: "find (has_key scope key) tb = None \<longleftrightarrow> (scope, key) \<notin> (\<lambda>r. (i_scope r, i_key r)) ` set tb"
  by (auto simp: has_key_def find_None_iff)

lemma claim_keys_distinct:
  "keys_distinct tb \<Longrightarrow> claim_idempotency now scope key hash tb = (res, tb') \<Longrightarrow> keys_distinct tb'"
  by (auto simp: claim_idempotency_def keys_distinct_def Let_def find_has_key_None reclaim_def
      map_update_where split: if_splits option.splits)

text \<open>The winner's record is live, so a second claim within the day loses.\<close>

lemma claim_then_claim:
  assumes "claim_idempotency now scope key hash tb = (Inr r, tb')"
    and "now' < now + 24 * hour"
  shows "isl (fst (claim_idempotency now' scope key hash' tb'))
    \<and> snd (claim_idempotency now' scope key hash' tb') = tb'"
proof -
  have "\<exists>x. find (has_key scope key) tb' = Some x \<and> i_expires_at x = now + 24 * hour"
  proof (cases "find (has_key scope key) tb")
    case None
    with assms show ?thesis
      by (auto simp: claim_idempotency_def Let_def find_append has_key_def split: if_splits)
  next
    case (Some x)
    have "find (has_key scope key) (update_where (has_key scope key) (reclaim now hash) tb) =
        map_option (\<lambda>x. if has_key scope key x then reclaim now hash x else x) (find (has_key scope key) tb)"
      by (rule find_update_where_same) (simp add: has_key_def reclaim_def)
    with Some assms find_Some_mem [OF Some] show ?thesis
      by (auto simp: claim_idempotency_def reclaim_def split: if_splits)
  qed
  with assms show ?thesis
    by (auto simp: claim_idempotency_def split: if_splits)
qed

text \<open>
  What a finished request leaves behind, for a later request with the same key: the
  record is live, finished, and holds the response under the hash of the payload.
\<close>

definition answered :: "int \<Rightarrow> string \<Rightarrow> string \<Rightarrow> string \<Rightarrow> 'r \<Rightarrow> 'r idem_table \<Rightarrow> bool" where
  "answered expiry scope key hash r tb \<longleftrightarrow>
     (\<exists>x. find (has_key scope key) tb = Some x \<and> i_hash x = hash \<and> i_status x = idem_success
          \<and> i_response x = Some r \<and> i_expires_at x = expiry)"

definition owned :: "int \<Rightarrow> string \<Rightarrow> string \<Rightarrow> string \<Rightarrow> 'r idem_table \<Rightarrow> bool" where
  "owned expiry scope key hash tb \<longleftrightarrow>
     (\<exists>x. find (has_key scope key) tb = Some x \<and> i_hash x = hash \<and> i_status x = idem_processing
          \<and> i_expires_at x = expiry)"

lemma claim_owned:
  assumes "claim_idempotency now scope key hash tb = (Inr r, tb')"
  shows "owned (now + 24 * hour) scope key hash tb'"
proof (cases "find (has_key scope key) tb")
  case None
  with assms show ?thesis
    by (auto simp: claim_idempotency_def Let_def find_append has_key_def owned_def split: if_splits)
next
  case (Some x)
  have "find (has_key scope key) (update_where (has_key scope key) (reclaim now hash) tb) =
      map_option (\<lambda>x. if has_key scope key x then reclaim now hash x else x) (find (has_key scope key) tb)"
    by (rule find_update_where_same) (simp add: has_key_def reclaim_def)
  with Some assms find_Some_mem [OF Some] show ?thesis
    by (auto simp: claim_idempotency_def reclaim_def owned_def split: if_splits)
qed

lemma find_complete:
  "find (has_key scope key) (snd (complete_idempotency now scope key hash r i tb)) =
   map_option (\<lambda>x. if has_key scope key x \<and> i_hash x = hash
      then x\<lparr>i_status := idem_success, i_response := Some r, i_resource_id := Some i, i_updated_at := now\<rparr>
      else x) (find (has_key scope key) tb)"
  unfolding complete_idempotency_def by (simp add: find_update_where_same has_key_def)

lemma complete_answered:
  assumes "owned expiry scope key hash tb"
  shows "answered expiry scope key hash r (snd (complete_idempotency now scope key hash r i tb))"
proof -
  from assms obtain x where x: "find (has_key scope key) tb = Some x" "i_hash x = hash"
      "i_expires_at x = expiry"
    by (auto simp: owned_def)
  with find_Some_mem [OF x(1)] show ?thesis by (simp add: answered_def find_complete)
qed

lemma keys_distinct_eq:
  assumes "keys_distinct tb" "x \<in> set tb" "y \<in> set tb" "has_key scope key x" "has_key scope key y"
  shows "x = y"
  using assms inj_onD [of "\<lambda>r. (i_scope r, i_key r)" "set tb" x y]
  by (simp add: keys_distinct_def distinct_map has_key_def)

lemma release_gone:
  "keys_distinct tb \<Longrightarrow> owned expiry scope key hash tb \<Longrightarrow>
   find (has_key scope key) (snd (release_idempotency scope key hash tb)) = None"
proof -
  assume dist: "keys_distinct tb" and own: "owned expiry scope key hash tb"
  then obtain x where x: "x \<in> set tb" "has_key scope key x" "i_hash x = hash" "i_status x = idem_processing"
    by (auto simp: owned_def dest: find_Some_mem)
  have only: "y = x" if "y \<in> set tb" "has_key scope key y" for y
    using keys_distinct_eq [OF dist that(1) x(1) that(2) x(2)] .
  have "\<not> has_key scope key y" if "y \<in> set (snd (release_idempotency scope key hash tb))" for y
  proof
    assume k: "has_key scope key y"
    from that have "y \<in> set tb" by (simp add: release_idempotency_def)
    with k have "y = x" by (rule only [rotated])
    with that x show False by (simp add: release_idempotency_def)
  qed
  then show ?thesis by (auto simp: find_None_iff)
qed

lemma find_live:
  "find (has_key scope key) tb = Some x \<Longrightarrow> i_expires_at x > now \<Longrightarrow>
   \<exists>y. find (\<lambda>r. has_key scope key r \<and> i_expires_at r > now) tb = Some y"
  using find_Some_mem [of "has_key scope key" tb x]
  by (cases "find (\<lambda>r. has_key scope key r \<and> i_expires_at r > now) tb") (auto simp: find_None_iff)

lemma get_live:
  assumes "keys_distinct tb" "find (has_key scope key) tb = Some x" "i_expires_at x > now"
  shows "get_idempotency now scope key tb = Inr x"
proof -
  from find_live [OF assms(2,3)] obtain y where
    y: "find (\<lambda>r. has_key scope key r \<and> i_expires_at r > now) tb = Some y" by blast
  have "y \<in> set tb" "has_key scope key y" "x \<in> set tb" "has_key scope key x"
    using find_Some_mem [OF y] find_Some_mem [OF assms(2)] by auto
  then have "y = x" using keys_distinct_eq [OF assms(1)] by blast
  with y show ?thesis by (simp add: get_idempotency_def)
qed

lemma store_claim_loses:
  assumes "find (has_key scope key) tb = Some x" "now < i_expires_at x"
  shows "\<exists>e. store_claim now scope key hash tb = (Inl e, tb)"
proof (cases "length scope > 64 \<or> length key > 255 \<or> length hash > 64")
  case True
  then show ?thesis by (simp add: store_claim_def claim_idempotency_def try_or_def ret_def)
next
  case False
  with assms show ?thesis by (simp add: store_claim_def claim_idempotency_def try_or_def ret_def)
qed

section \<open>Commands that leave the idempotency table to the guard\<close>

text \<open>A component of a store that can be read and replaced.\<close>

locale store_lens =
  fixes get :: "'w \<Rightarrow> 's" and put :: "'s \<Rightarrow> 'w \<Rightarrow> 'w"
  assumes get_put: "get (put s w) = s"
    and put_get: "put (get w) w = w"
begin

lemma zoom_result: "fst (zoom get put m w) = fst (m (get w))"
  by (simp add: zoom_def split: prod.splits)

lemma zoom_store: "get (snd (zoom get put m w)) = snd (m (get w))"
  by (simp add: zoom_def get_put split: prod.splits)

lemma zoom_same: "snd (m (get w)) = get w \<Longrightarrow> snd (zoom get put m w) = w"
  by (cases "m (get w)") (simp add: zoom_def put_get)

end

locale idempotent_command = store_lens get put
  for get :: "'w \<Rightarrow> 'r idem_table" and put :: "'r idem_table \<Rightarrow> 'w \<Rightarrow> 'w" +
  fixes body :: "'b \<Rightarrow> 'w \<Rightarrow> (bool \<times> (go_error + 'r)) \<times> 'w"
  assumes body_keeps: "get (snd (body b w)) = get w"
begin

text \<open>A success leaves the response under the key until it expires.\<close>

lemma run_success_answered:
  assumes run: "idem_run get put True now fl scope key hash rid (body b) w = (Inr r, w')"
    and key: "key \<noteq> []" and claim: "f_claim fl = Deliver" and compl: "f_complete fl = Deliver"
    and claimed: "store_claim now scope key hash (get w) = (Inr c, tb1)"
  shows "answered (now + 24 * hour) scope key hash r (get w')"
proof -
  let ?w1 = "put tb1 w"
  have own: "owned (now + 24 * hour) scope key hash tb1"
    using claimed unfolding store_claim_def try_or_def ret_def
    by (auto split: prod.splits sum.splits intro: claim_owned)
  obtain st res w2 where body: "body b ?w1 = ((st, res), w2)" by (metis prod.exhaust)
  have "get w2 = tb1" using body_keeps [of b ?w1] body by (simp add: get_put)
  moreover have "res = Inr r \<and> w' = snd (zoom get put (complete_idempotency now scope key hash r (rid r)) w2)"
    using run key claim compl claimed body
    by (cases res) (simp_all add: idem_run_def zoom_def with_fault_def split: if_splits)
  ultimately show ?thesis using complete_answered [OF own] by (simp add: zoom_store)
qed

text \<open>A retry within the day gets that response, and the command does not run again.\<close>

lemma run_replays:
  assumes ans: "answered expiry scope key hash r (get w)" and dist: "keys_distinct (get w)"
    and key: "key \<noteq> []" and early: "now < expiry" and fl: "f_get fl = None"
  shows "idem_run get put True now fl scope key hash rid (body b) w = (Inr r, w)"
proof -
  from ans obtain x where x: "find (has_key scope key) (get w) = Some x" "i_hash x = hash"
      "i_status x = idem_success" "i_response x = Some r" "i_expires_at x = expiry"
    by (auto simp: answered_def)
  have "\<exists>e. store_claim now scope key hash (get w) = (Inl e, get w)"
    using store_claim_loses [OF x(1)] x early by simp
  then obtain e where e: "store_claim now scope key hash (get w) = (Inl e, get w)" by blast
  have "\<exists>e. with_fault (f_claim fl) (zoom get put (store_claim now scope key hash)) w = (Inl e, w)"
    using e by (cases "f_claim fl") (auto simp: with_fault_def zoom_def put_get)
  moreover have "idem_answer now fl scope key hash (get w) = Inr r"
    using x fl early get_live [OF dist x(1)] by (simp add: idem_answer_def)
  ultimately show ?thesis using key by (auto simp: idem_run_def)
qed

text \<open>Both together: the first success of a new key is what every retry of the day gets.\<close>

lemma run_then_replay:
  assumes run: "idem_run get put True now fl scope key hash rid (body b) w = (Inr r, w')"
    and new: "find (has_key scope key) (get w) = None" and dist: "keys_distinct (get w)"
    and key: "key \<noteq> []" and fl: "f_claim fl = Deliver" "f_complete fl = Deliver"
    and later: "now' < now + 24 * hour" "f_get fl' = None"
  shows "idem_run get put True now' fl' scope key hash rid' (body b') w' = (Inr r, w')"
proof -
  obtain c tb1 where c: "store_claim now scope key hash (get w) = (c, tb1)" by (metis prod.exhaust)
  show ?thesis
  proof (cases c)
    case (Inl e)
    then have "tb1 = get w" using c new
      by (auto simp: store_claim_def try_or_def ret_def claim_idempotency_def Let_def split: if_splits prod.splits)
    with run c Inl key fl new have False
      by (auto simp: idem_run_def with_fault_def zoom_def idem_answer_def get_put get_idempotency_def
          find_None_iff split: option.splits dest!: find_Some_mem)
    then show ?thesis ..
  next
    case (Inr x)
    have ans: "answered (now + 24 * hour) scope key hash r (get w')"
      by (rule run_success_answered [OF run key fl c [unfolded Inr]])
    have "keys_distinct tb1"
      using c dist claim_keys_distinct [of "get w" now scope key hash] Inr
      by (auto simp: store_claim_def try_or_def ret_def split: prod.splits sum.splits)
    moreover have "\<exists>w2. get w2 = tb1 \<and> w' = snd (zoom get put (complete_idempotency now scope key hash r (rid r)) w2)"
    proof -
      obtain st res w2 where body: "body b (put tb1 w) = ((st, res), w2)" by (metis prod.exhaust)
      have "get w2 = tb1" using body_keeps [of b "put tb1 w"] body by (simp add: get_put)
      moreover have "w' = snd (zoom get put (complete_idempotency now scope key hash r (rid r)) w2)"
        using run key fl c Inr body
        by (cases res) (simp_all add: idem_run_def zoom_def with_fault_def split: if_splits)
      ultimately show ?thesis by blast
    qed
    ultimately have "keys_distinct (get w')"
      by (auto simp: zoom_store complete_idempotency_def keys_distinct_def map_update_where)
    from run_replays [OF ans this key] later show ?thesis by simp
  qed
qed

text \<open>The same key with another payload is refused and nothing runs.\<close>

lemma run_conflict:
  assumes x: "find (has_key scope key) (get w) = Some x" "i_hash x \<noteq> hash" "now < i_expires_at x"
    and dist: "keys_distinct (get w)" and key: "key \<noteq> []" and fl: "f_get fl = None"
  shows "idem_run get put True now fl scope key hash rid (body b) w = (Inl conflict_error, w)"
proof -
  obtain e where e: "store_claim now scope key hash (get w) = (Inl e, get w)"
    using store_claim_loses [OF x(1,3)] by blast
  have "\<exists>e. with_fault (f_claim fl) (zoom get put (store_claim now scope key hash)) w = (Inl e, w)"
    using e by (cases "f_claim fl") (auto simp: with_fault_def zoom_def put_get)
  moreover have "idem_answer now fl scope key hash (get w) = Inl conflict_error"
    using x fl get_live [OF dist x(1)] by (simp add: idem_answer_def handle_error_def)
  ultimately show ?thesis using key by (auto simp: idem_run_def)
qed

end

end
