(* ===== verification/Outbox.thy ===== *)
theory Outbox
  imports Errors
begin

text \<open>
  The transactional outbox (\<open>shared/outbox/outbox.go\<close>, and the same statements in
  \<open>service/*/database/schema/outbox.go\<close>), its publisher (\<open>shared/outbox/publisher.go\<close>) and
  the consumers' duplicate filter (\<open>shared/idempotent_consumer/dedup.go\<close>). A payload is an
  uninterpreted value \<open>'p\<close>; Kafka is the function that says whether a message was sent.
\<close>

section \<open>Rows and statements\<close>

definition ob_pending :: string where "ob_pending = ''pending''"

definition ob_processing :: string where "ob_processing = ''processing''"

definition ob_published :: string where "ob_published = ''published''"

definition ob_failed :: string where "ob_failed = ''failed''"

lemmas ob_status_defs = ob_pending_def ob_processing_def ob_published_def ob_failed_def

lemma ob_status_neq [simp]:
  "ob_pending \<noteq> ob_processing" "ob_processing \<noteq> ob_pending"
  "ob_pending \<noteq> ob_published" "ob_published \<noteq> ob_pending"
  "ob_pending \<noteq> ob_failed" "ob_failed \<noteq> ob_pending"
  "ob_processing \<noteq> ob_published" "ob_published \<noteq> ob_processing"
  "ob_processing \<noteq> ob_failed" "ob_failed \<noteq> ob_processing"
  "ob_published \<noteq> ob_failed" "ob_failed \<noteq> ob_published"
  by (simp_all add: ob_status_defs)

record 'p outbox_row =
  ob_id :: int
  ob_aggregate_type :: string
  ob_aggregate_id :: string
  ob_event_id :: string
  ob_event_type :: string
  ob_event_version :: int
  ob_payload :: 'p
  ob_status :: string
  ob_attempts :: int
  ob_last_error :: "string option"
  ob_available_at :: int
  ob_created_at :: int
  ob_published_at :: "int option"

record 'p outbox =
  ob_rows :: "'p outbox_row list"
  ob_seq :: int

text \<open>What a caller fills in; the insert supplies the rest.\<close>

record 'p outbox_record =
  or_aggregate_type :: string
  or_aggregate_id :: string
  or_event_type :: string
  or_payload :: 'p

definition insert_outbox ::
  "int \<Rightarrow> string \<Rightarrow> 'p outbox_record \<Rightarrow> (go_error, unit, 'p outbox) op" where
  "insert_outbox now uuid r ob =
     (if length (or_aggregate_type r) > 64 \<or> length (or_aggregate_id r) > 128
         \<or> length (or_event_type r) > 128
      then (Inl (DbError ''value too long''), ob)
      else if \<exists>x \<in> set (ob_rows ob). ob_event_id x = uuid
      then (Inl (DbError ''23505''), ob\<lparr>ob_seq := ob_seq ob + 1\<rparr>)
      else (Inr (), \<lparr>ob_rows = ob_rows ob @
              [\<lparr>ob_id = ob_seq ob, ob_aggregate_type = or_aggregate_type r,
                ob_aggregate_id = or_aggregate_id r, ob_event_id = uuid,
                ob_event_type = or_event_type r, ob_event_version = 1,
                ob_payload = or_payload r, ob_status = ob_pending, ob_attempts = 0,
                ob_last_error = None, ob_available_at = now, ob_created_at = now,
                ob_published_at = None\<rparr>],
             ob_seq = ob_seq ob + 1\<rparr>))"

definition claimable :: "int \<Rightarrow> int \<Rightarrow> 'p outbox_row \<Rightarrow> bool" where
  "claimable now max_attempts r \<longleftrightarrow>
     (ob_status r = ob_pending \<or> ob_status r = ob_failed
      \<or> ob_status r = ob_processing \<and> ob_available_at r \<le> now - 10 * minute)
     \<and> ob_attempts r < max_attempts \<and> ob_available_at r \<le> now"

definition claim_ids :: "int \<Rightarrow> nat \<Rightarrow> int \<Rightarrow> 'p outbox \<Rightarrow> int list" where
  "claim_ids now max_rows max_attempts ob =
     take max_rows (map ob_id (sort_key ob_available_at (filter (claimable now max_attempts) (ob_rows ob))))"

definition claim_row :: "int \<Rightarrow> 'p outbox_row \<Rightarrow> 'p outbox_row" where
  "claim_row now r =
     r\<lparr>ob_status := ob_processing, ob_attempts := ob_attempts r + 1, ob_available_at := now + 5 * minute\<rparr>"

text \<open>
  The three statements of a poll. Each can also end in an error of the database, before or
  after it has taken effect: that is the \<open>fault\<close> they are called with.
\<close>

definition claim_pending_outbox ::
  "go_error fault \<Rightarrow> int \<Rightarrow> nat \<Rightarrow> int \<Rightarrow> (go_error, 'p outbox_row list, 'p outbox) op" where
  "claim_pending_outbox fl now max_rows max_attempts =
     with_fault fl (\<lambda>ob.
       let ids = set (claim_ids now max_rows max_attempts ob);
           rows = update_where (\<lambda>r. ob_id r \<in> ids) (claim_row now) (ob_rows ob)
       in (Inr (filter (\<lambda>r. ob_id r \<in> ids) rows), ob\<lparr>ob_rows := rows\<rparr>))"

definition complete_outbox :: "go_error fault \<Rightarrow> int \<Rightarrow> string \<Rightarrow> (go_error, unit, 'p outbox) op" where
  "complete_outbox fl now event_id =
     with_fault fl (\<lambda>ob. (Inr (), ob\<lparr>ob_rows := update_where (\<lambda>r. ob_event_id r = event_id)
          (\<lambda>r. r\<lparr>ob_status := ob_published, ob_published_at := Some now\<rparr>) (ob_rows ob)\<rparr>))"

definition fail_outbox :: "go_error fault \<Rightarrow> int \<Rightarrow> string \<Rightarrow> string \<Rightarrow> (go_error, unit, 'p outbox) op" where
  "fail_outbox fl now event_id msg =
     with_fault fl (\<lambda>ob. (Inr (), ob\<lparr>ob_rows := update_where (\<lambda>r. ob_event_id r = event_id)
          (\<lambda>r. r\<lparr>ob_status := ob_failed, ob_last_error := Some msg,
                 ob_available_at := now + 30 * second\<rparr>) (ob_rows ob)\<rparr>))"

definition count_pending_outbox :: "'p outbox \<Rightarrow> nat" where
  "count_pending_outbox ob =
     length (filter (\<lambda>r. ob_status r = ob_pending \<or> ob_status r = ob_failed) (ob_rows ob))"

section \<open>Publisher\<close>

definition topic_table :: "(string \<times> string) list" where
  "topic_table =
     [(''topup.created'', ''email-service-topic-topup-create''),
      (''topup.stats'', ''stats-topic-topup-events''),
      (''topup.saldo'', ''stats-topic-saldo-events''),
      (''transaction.created'', ''email-service-topic-transaction-create''),
      (''transaction.stats'', ''stats-topic-transaction-events''),
      (''transaction.saldo_user'', ''stats-topic-saldo-events''),
      (''transaction.saldo_merchant'', ''stats-topic-saldo-events''),
      (''transfer.created'', ''email-service-topic-transfer-create''),
      (''transfer.stats'', ''stats-topic-transfer-events''),
      (''transfer.saldo_sender'', ''stats-topic-saldo-events''),
      (''transfer.saldo_receiver'', ''stats-topic-saldo-events''),
      (''withdraw.created'', ''email-service-topic-withdraw-create''),
      (''withdraw.stats'', ''stats-topic-withdraw-events''),
      (''withdraw.saldo'', ''stats-topic-saldo-events''),
      (''saldo.changed'', ''stats-topic-saldo-events'')]"

definition resolve_topic :: "string \<Rightarrow> string" where
  "resolve_topic event_type = (case map_of topic_table event_type of None \<Rightarrow> [] | Some t \<Rightarrow> t)"

definition batch_size :: nat where "batch_size = 50"

definition max_attempts :: int where "max_attempts = 10"

text \<open>
  One poll: \<open>send\<close> tells what Kafka answers to a message; \<open>log\<close> collects the messages
  that reached a topic, in order. \<open>fmt.Sprintf("%.256s", ...)\<close> cuts the error text. A
  failing claim ends the poll; an error of the statement that settles an event is logged
  and the poll goes on.
\<close>

type_synonym 'p message = "string \<times> string \<times> 'p"

record outbox_faults =
  of_claim :: "go_error fault"
  of_complete :: "string \<Rightarrow> go_error fault"
  of_fail :: "string \<Rightarrow> go_error fault"

definition publish_one ::
  "int \<Rightarrow> outbox_faults \<Rightarrow> ('p message \<Rightarrow> go_error option) \<Rightarrow> 'p outbox_row \<Rightarrow> 'p message list \<times> 'p outbox
   \<Rightarrow> 'p message list \<times> 'p outbox" where
  "publish_one now fl send r acc =
     (let topic = resolve_topic (ob_event_type r);
          key = (if ob_aggregate_id r = [] then ob_event_id r else ob_aggregate_id r);
          msg = (topic, key, ob_payload r);
          i = ob_event_id r
      in if topic = [] then (fst acc, snd (complete_outbox (of_complete fl i) now i (snd acc)))
         else case send msg of
                Some err \<Rightarrow> (fst acc, snd (fail_outbox (of_fail fl i) now i (take 256 (error_text err)) (snd acc)))
              | None \<Rightarrow> (fst acc @ [msg], snd (complete_outbox (of_complete fl i) now i (snd acc))))"

fun publish_all ::
  "int \<Rightarrow> outbox_faults \<Rightarrow> ('p message \<Rightarrow> go_error option) \<Rightarrow> 'p outbox_row list \<Rightarrow> 'p message list \<times> 'p outbox
   \<Rightarrow> 'p message list \<times> 'p outbox" where
  "publish_all now fl send [] acc = acc"
| "publish_all now fl send (r # rs) acc = publish_all now fl send rs (publish_one now fl send r acc)"

definition poll_and_publish ::
  "int \<Rightarrow> outbox_faults \<Rightarrow> ('p message \<Rightarrow> go_error option) \<Rightarrow> 'p outbox \<Rightarrow> 'p message list \<times> 'p outbox" where
  "poll_and_publish now fl send ob =
     (case claim_pending_outbox (of_claim fl) now batch_size max_attempts ob of
        (Inl err, ob') \<Rightarrow> ([], ob')
      | (Inr rows, ob') \<Rightarrow> publish_all now fl send rows ([], ob'))"

section \<open>Duplicate filter of the consumers\<close>

record dedup =
  d_seen :: "string \<rightharpoonup> int"
  d_ttl :: int

definition new_dedup :: "int \<Rightarrow> dedup" where
  "new_dedup ttl = \<lparr>d_seen = Map.empty, d_ttl = (if ttl \<le> 0 then 24 * hour else ttl)\<rparr>"

definition is_duplicate :: "int \<Rightarrow> string \<Rightarrow> dedup \<Rightarrow> bool \<times> dedup" where
  "is_duplicate now event_id d =
     (if event_id = [] then (False, d)
      else case d_seen d event_id of
             Some ts \<Rightarrow> (if now - ts < d_ttl d then (True, d)
                         else (False, d\<lparr>d_seen := (d_seen d)(event_id \<mapsto> now)\<rparr>))
           | None \<Rightarrow> (False, d\<lparr>d_seen := (d_seen d)(event_id \<mapsto> now)\<rparr>))"

definition mark_seen :: "int \<Rightarrow> string \<Rightarrow> dedup \<Rightarrow> dedup" where
  "mark_seen now event_id d =
     (if event_id = [] then d else d\<lparr>d_seen := (d_seen d)(event_id \<mapsto> now)\<rparr>)"

definition evict_expired :: "int \<Rightarrow> dedup \<Rightarrow> dedup" where
  "evict_expired now d =
     d\<lparr>d_seen := (\<lambda>i. case d_seen d i of
          None \<Rightarrow> None | Some ts \<Rightarrow> if ts < now - d_ttl d then None else Some ts)\<rparr>"

section \<open>Lemmas\<close>

definition ob_wf :: "'p outbox \<Rightarrow> bool" where
  "ob_wf ob \<longleftrightarrow> distinct (map ob_id (ob_rows ob)) \<and> distinct (map ob_event_id (ob_rows ob))
     \<and> (\<forall>r \<in> set (ob_rows ob). ob_id r < ob_seq ob)"

definition attempts_bounded :: "int \<Rightarrow> 'p outbox \<Rightarrow> bool" where
  "attempts_bounded m ob \<longleftrightarrow> (\<forall>r \<in> set (ob_rows ob). 0 \<le> ob_attempts r \<and> ob_attempts r \<le> m)"

lemma claim_ids_claimable:
  "i \<in> set (claim_ids now n m ob) \<Longrightarrow> \<exists>r \<in> set (ob_rows ob). ob_id r = i \<and> claimable now m r"
  by (auto simp: claim_ids_def dest!: in_set_takeD)

lemma length_claim_ids: "length (claim_ids now n m ob) \<le> n"
  by (simp add: claim_ids_def)

lemma claimed_was_claimable:
  assumes "ob_wf ob" "r \<in> set (ob_rows ob)" "ob_id r \<in> set (claim_ids now n m ob)"
  shows "claimable now m r"
proof -
  from claim_ids_claimable [OF assms(3)] obtain x where
    x: "x \<in> set (ob_rows ob)" "ob_id x = ob_id r" "claimable now m x" by blast
  have "x = r"
    using x assms(1,2) inj_onD [of ob_id "set (ob_rows ob)" x r] by (simp add: ob_wf_def distinct_map)
  with x show ?thesis by simp
qed

text \<open>What a claim does to the outbox, answered or not.\<close>

definition claimed :: "int \<Rightarrow> nat \<Rightarrow> int \<Rightarrow> 'p outbox \<Rightarrow> 'p outbox" where
  "claimed now n m ob =
     ob\<lparr>ob_rows := update_where (\<lambda>r. ob_id r \<in> set (claim_ids now n m ob)) (claim_row now) (ob_rows ob)\<rparr>"

lemma claim_run:
  "claim_pending_outbox fl now n m ob =
     (let ob1 = claimed now n m ob; rows = filter (\<lambda>r. ob_id r \<in> set (claim_ids now n m ob)) (ob_rows ob1)
      in case fl of Deliver \<Rightarrow> (Inr rows, ob1) | Refuse e \<Rightarrow> (Inl e, ob) | Lose e \<Rightarrow> (Inl e, ob1))"
  by (simp add: claim_pending_outbox_def with_fault_def claimed_def Let_def split: fault.split)

lemma claim_cases:
  assumes "claim_pending_outbox fl now n m ob = (res, ob')"
  obtains (refused) e where "res = Inl e" "ob' = ob"
  | (lost) e where "res = Inl e" "ob' = claimed now n m ob"
  | (answered) rows where "res = Inr rows" "ob' = claimed now n m ob"
      "rows = filter (\<lambda>r. ob_id r \<in> set (claim_ids now n m ob)) (ob_rows ob')"
proof (cases fl)
  case Deliver
  with assms show ?thesis by (intro answered) (auto simp: claim_run Let_def)
next
  case (Refuse e)
  with assms show ?thesis by (intro refused) (auto simp: claim_run Let_def)
next
  case (Lose e)
  with assms show ?thesis by (intro lost) (auto simp: claim_run Let_def)
qed

lemma claim_attempts_bounded:
  assumes "ob_wf ob" "attempts_bounded m ob"
  shows "attempts_bounded m (claimed now n m ob)"
  using assms claimed_was_claimable [OF assms(1)]
  by (fastforce simp: attempts_bounded_def claimed_def set_update_where claim_row_def claimable_def)

lemma complete_attempts: "attempts_bounded m ob \<Longrightarrow> attempts_bounded m (snd (complete_outbox fl now i ob))"
  by (cases fl) (auto simp: attempts_bounded_def complete_outbox_def with_fault_def set_update_where)

lemma fail_attempts: "attempts_bounded m ob \<Longrightarrow> attempts_bounded m (snd (fail_outbox fl now i msg ob))"
  by (cases fl) (auto simp: attempts_bounded_def fail_outbox_def with_fault_def set_update_where)

lemma publish_one_attempts:
  "attempts_bounded m (snd acc) \<Longrightarrow> attempts_bounded m (snd (publish_one now fl send r acc))"
  by (simp add: publish_one_def Let_def complete_attempts fail_attempts split: option.split)

lemma publish_all_attempts:
  "attempts_bounded m (snd acc) \<Longrightarrow> attempts_bounded m (snd (publish_all now fl send rs acc))"
  by (induction rs arbitrary: acc) (simp_all add: publish_one_attempts)

lemma poll_attempts_bounded:
  assumes "ob_wf ob" "attempts_bounded max_attempts ob"
  shows "attempts_bounded max_attempts (snd (poll_and_publish now fl send ob))"
  using assms claim_attempts_bounded [OF assms]
  by (auto simp: poll_and_publish_def split: prod.splits sum.splits elim!: claim_cases intro!: publish_all_attempts)

text \<open>Publishing rewrites only the status columns of a row.\<close>

definition same_rows :: "'p outbox \<Rightarrow> 'p outbox \<Rightarrow> bool" where
  "same_rows a b \<longleftrightarrow> ob_seq a = ob_seq b
     \<and> map (\<lambda>r. (ob_id r, ob_event_id r, ob_event_type r, ob_payload r)) (ob_rows a) =
         map (\<lambda>r. (ob_id r, ob_event_id r, ob_event_type r, ob_payload r)) (ob_rows b)"

lemma same_rows_publish_one: "same_rows (snd (publish_one now fl send r acc)) (snd acc)"
  by (auto simp: same_rows_def publish_one_def Let_def complete_outbox_def fail_outbox_def with_fault_def
      map_update_where split: option.split fault.split)

lemma same_rows_trans: "same_rows a b \<Longrightarrow> same_rows b c \<Longrightarrow> same_rows a c"
  by (simp add: same_rows_def)

lemma same_rows_publish_all: "same_rows (snd (publish_all now fl send rs acc)) (snd acc)"
proof (induction rs arbitrary: acc)
  case (Cons r rs)
  show ?case
    using same_rows_trans [OF Cons.IH [of "publish_one now fl send r acc"] same_rows_publish_one] by simp
qed (simp add: same_rows_def)

lemma same_rows_claimed: "same_rows (claimed now n m ob) ob"
  by (auto simp: same_rows_def claimed_def map_update_where claim_row_def)

lemma same_rows_poll: "same_rows (snd (poll_and_publish now fl send ob)) ob"
proof -
  obtain res ob1 where c: "claim_pending_outbox (of_claim fl) now batch_size max_attempts ob = (res, ob1)"
    by (metis prod.exhaust)
  have 1: "same_rows ob1 ob"
    using c by (cases rule: claim_cases) (simp_all add: same_rows_claimed same_rows_def [of ob ob])
  moreover have "same_rows (snd (publish_all now fl send rows ([], ob1))) ob" for rows
    using same_rows_trans [OF same_rows_publish_all [of now fl send rows "([], ob1)"]] 1 by simp
  ultimately show ?thesis using c by (cases res) (simp_all add: poll_and_publish_def)
qed

text \<open>Every message sent carries the payload of a row to the topic of its event type.\<close>

definition message_of :: "'p outbox_row \<Rightarrow> 'p message" where
  "message_of r = (resolve_topic (ob_event_type r),
     if ob_aggregate_id r = [] then ob_event_id r else ob_aggregate_id r, ob_payload r)"

lemma publish_all_messages:
  "set (fst (publish_all now fl send rs acc)) \<subseteq>
     set (fst acc) \<union> message_of ` {r \<in> set rs. resolve_topic (ob_event_type r) \<noteq> []}"
proof (induction rs arbitrary: acc)
  case (Cons r rs)
  have "set (fst (publish_one now fl send r acc)) \<subseteq>
      set (fst acc) \<union> message_of ` {x. x = r \<and> resolve_topic (ob_event_type x) \<noteq> []}"
    by (auto simp: publish_one_def Let_def message_of_def split: option.splits if_splits)
  with Cons.IH [of "publish_one now fl send r acc"] show ?case by auto
qed simp

lemma topic_names: "resolve_topic e \<noteq> [] \<longleftrightarrow> e \<in> fst ` set topic_table"
proof (cases "map_of topic_table e")
  case None
  have "resolve_topic e = []" unfolding resolve_topic_def None by simp
  moreover from None have "e \<notin> fst ` set topic_table" by (simp only: map_of_eq_None_iff) simp
  ultimately show ?thesis by simp
next
  case (Some t)
  then have "(e, t) \<in> set topic_table" by (rule map_of_SomeD)
  moreover have "\<forall>x \<in> set topic_table. snd x \<noteq> []" by (simp add: topic_table_def)
  ultimately have "t \<noteq> []" "e \<in> fst ` set topic_table" by force+
  with Some show ?thesis by (simp add: resolve_topic_def)
qed

text \<open>The duplicate filter lets an event through once per window.\<close>

lemma is_duplicate_twice:
  assumes "event_id \<noteq> []" "now \<le> now'" "now' - now < d_ttl d"
    and "is_duplicate now event_id d = (False, d')"
  shows "fst (is_duplicate now' event_id d') = True"
  using assms by (auto simp: is_duplicate_def split: option.splits if_splits)

lemma evict_keeps_live:
  assumes "d_seen d i = Some ts" "now - ts \<le> d_ttl d"
  shows "d_seen (evict_expired now d) i = Some ts"
  using assms by (simp add: evict_expired_def)

text \<open>
  What becomes of the rows of a batch: the outcome of the send decides which statement
  settles the event, and an event stays in its old status when that statement is refused.
\<close>

definition sent_ok :: "('p message \<Rightarrow> go_error option) \<Rightarrow> 'p outbox_row \<Rightarrow> bool" where
  "sent_ok send r \<longleftrightarrow> resolve_topic (ob_event_type r) = [] \<or> send (message_of r) = None"

definition settling_fault :: "outbox_faults \<Rightarrow> ('p message \<Rightarrow> go_error option) \<Rightarrow> 'p outbox_row \<Rightarrow> go_error fault" where
  "settling_fault fl send r = (if sent_ok send r then of_complete fl else of_fail fl) (ob_event_id r)"

definition refused_fault :: "'e fault \<Rightarrow> bool" where
  "refused_fault f \<longleftrightarrow> (\<exists>e. f = Refuse e)"

definition settled_status ::
  "outbox_faults \<Rightarrow> ('p message \<Rightarrow> go_error option) \<Rightarrow> 'p outbox_row \<Rightarrow> string \<Rightarrow> string" where
  "settled_status fl send r st =
     (if refused_fault (settling_fault fl send r) then st
      else if sent_ok send r then ob_published else ob_failed)"

lemma settle_status:
  "map (\<lambda>x. (ob_event_id x, ob_status x)) (ob_rows (snd (complete_outbox f now i ob))) =
     map (\<lambda>x. (ob_event_id x, if ob_event_id x = i then if refused_fault f then ob_status x else ob_published
        else ob_status x)) (ob_rows ob)"
  "map (\<lambda>x. (ob_event_id x, ob_status x)) (ob_rows (snd (fail_outbox f now i msg ob))) =
     map (\<lambda>x. (ob_event_id x, if ob_event_id x = i then if refused_fault f then ob_status x else ob_failed
        else ob_status x)) (ob_rows ob)"
  by (cases f; simp add: complete_outbox_def fail_outbox_def with_fault_def refused_fault_def update_where_def)+

lemma publish_one_status:
  "map (\<lambda>x. (ob_event_id x, ob_status x)) (ob_rows (snd (publish_one now fl send r acc))) =
   map (\<lambda>x. (ob_event_id x, if ob_event_id x = ob_event_id r then settled_status fl send r (ob_status x)
        else ob_status x)) (ob_rows (snd acc))"
proof -
  have msg: "message_of r = (resolve_topic (ob_event_type r),
      if ob_aggregate_id r = [] then ob_event_id r else ob_aggregate_id r, ob_payload r)"
    by (simp add: message_of_def)
  show ?thesis
    unfolding publish_one_def Let_def msg [symmetric]
    by (cases "send (message_of r)"; cases "resolve_topic (ob_event_type r) = []")
      (simp_all add: settle_status settled_status_def sent_ok_def settling_fault_def cong: map_cong)
qed

text \<open>The status a batch leaves on the row of an event.\<close>

definition status_after ::
  "outbox_faults \<Rightarrow> ('p message \<Rightarrow> go_error option) \<Rightarrow> 'p outbox_row list \<Rightarrow> string \<Rightarrow> string \<Rightarrow> string" where
  "status_after fl send rs event st =
     foldl (\<lambda>st r. if ob_event_id r = event then settled_status fl send r st else st) st rs"

lemma publish_all_status:
  "map (\<lambda>x. (ob_event_id x, ob_status x)) (ob_rows (snd (publish_all now fl send rs acc))) =
   map (\<lambda>x. (ob_event_id x, status_after fl send rs (ob_event_id x) (ob_status x))) (ob_rows (snd acc))"
proof (induction rs arbitrary: acc)
  case (Cons r rs)
  have "map (\<lambda>x. (ob_event_id x, status_after fl send rs (ob_event_id x) (ob_status x)))
        (ob_rows (snd (publish_one now fl send r acc)))
      = map (\<lambda>(i, st). (i, status_after fl send rs i st))
          (map (\<lambda>x. (ob_event_id x, ob_status x)) (ob_rows (snd (publish_one now fl send r acc))))"
    by simp
  also have "\<dots> = map (\<lambda>x. (ob_event_id x, status_after fl send (r # rs) (ob_event_id x) (ob_status x))) (ob_rows (snd acc))"
    unfolding publish_one_status by (simp add: status_after_def comp_def)
  finally show ?case using Cons.IH [of "publish_one now fl send r acc"] by simp
qed (simp add: status_after_def)

lemma publish_all_hit:
  assumes "x \<in> set (ob_rows ob)"
  shows "\<exists>y \<in> set (ob_rows (snd (publish_all now fl send rs (l, ob)))). ob_event_id y = ob_event_id x
     \<and> ob_status y = status_after fl send rs (ob_event_id x) (ob_status x)"
proof -
  let ?out = "ob_rows (snd (publish_all now fl send rs (l, ob)))"
  have "(ob_event_id x, status_after fl send rs (ob_event_id x) (ob_status x))
      \<in> (\<lambda>x. (ob_event_id x, status_after fl send rs (ob_event_id x) (ob_status x))) ` set (ob_rows ob)"
    using assms by blast
  also have "\<dots> = (\<lambda>x. (ob_event_id x, ob_status x)) ` set ?out"
    using arg_cong [OF publish_all_status [of now fl send rs "(l, ob)"], of set] by simp
  finally show ?thesis by force
qed

lemma status_after_batch:
  assumes "distinct (map ob_event_id rs)" "r \<in> set rs"
  shows "status_after fl send rs (ob_event_id r) st = settled_status fl send r st"
proof -
  have skip: "foldl (\<lambda>st r. if ob_event_id r = e then settled_status fl send r st else st) st rs = st"
    if "e \<notin> ob_event_id ` set rs" for e st rs
    using that by (induction rs arbitrary: st) auto
  show ?thesis
    using assms unfolding status_after_def
    by (induction rs arbitrary: st) (auto simp: skip)
qed

lemma claimed_processing:
  "r \<in> set (ob_rows (claimed now n m ob)) \<Longrightarrow> ob_id r \<in> set (claim_ids now n m ob) \<Longrightarrow> ob_status r = ob_processing"
  by (auto simp: claimed_def set_update_where claim_row_def)

section \<open>Properties\<close>

text \<open>
  C19: a poll whose claim is refused ends with nothing sent or settled; otherwise every
  claimed event is published when its topic is unknown or Kafka took the message, and
  failed otherwise, unless the database refuses the settling statement, and then it is
  left processing
\<close>

theorem poll_settles_batch:
  assumes "ob_wf ob"
  shows "case claim_pending_outbox (of_claim fl) now batch_size max_attempts ob of
      (Inl e, ob1) \<Rightarrow> poll_and_publish now fl send ob = ([], ob1)
    | (Inr rows, ob1) \<Rightarrow> \<forall>r \<in> set rows. \<exists>x \<in> set (ob_rows (snd (poll_and_publish now fl send ob))).
        ob_event_id x = ob_event_id r
        \<and> ob_status x =
            (if resolve_topic (ob_event_type r) = [] \<or> send (message_of r) = None
             then if refused_fault (of_complete fl (ob_event_id r)) then ob_processing else ob_published
             else if refused_fault (of_fail fl (ob_event_id r)) then ob_processing else ob_failed)"
proof -
  obtain res ob1 where c: "claim_pending_outbox (of_claim fl) now batch_size max_attempts ob = (res, ob1)"
    by (metis prod.exhaust)
  then show ?thesis
  proof (cases rule: claim_cases)
    case (answered rows)
    have "map ob_event_id (ob_rows ob1) = map ob_event_id (ob_rows ob)"
      by (simp add: answered(2) claimed_def map_update_where claim_row_def)
    with assms have "distinct (map ob_event_id (ob_rows ob1))" by (simp add: ob_wf_def)
    then have distinct: "distinct (map ob_event_id rows)" by (simp add: answered(3) distinct_map_filter)
    have "\<exists>x \<in> set (ob_rows (snd (poll_and_publish now fl send ob))). ob_event_id x = ob_event_id r
        \<and> ob_status x = settled_status fl send r ob_processing" if r: "r \<in> set rows" for r
    proof -
      have "r \<in> set (ob_rows ob1)" "ob_status r = ob_processing"
        using r answered(2,3) claimed_processing [of r now batch_size max_attempts ob] by auto
      with publish_all_hit [OF this(1), of now fl send rows "[]"] status_after_batch [OF distinct r, of fl send]
      show ?thesis by (simp add: poll_and_publish_def c answered(1))
    qed
    moreover have "settled_status fl send r ob_processing =
        (if resolve_topic (ob_event_type r) = [] \<or> send (message_of r) = None
         then if refused_fault (of_complete fl (ob_event_id r)) then ob_processing else ob_published
         else if refused_fault (of_fail fl (ob_event_id r)) then ob_processing else ob_failed)" for r
      by (simp add: settled_status_def settling_fault_def sent_ok_def)
    ultimately show ?thesis unfolding c answered(1) prod.case sum.case by (intro ballI) simp
  qed (simp_all add: c poll_and_publish_def)
qed

definition delivered_polls :: outbox_faults where
  "delivered_polls = \<lparr>of_claim = Deliver, of_complete = (\<lambda>_. Deliver), of_fail = (\<lambda>_. Deliver)\<rparr>"

definition sample_outbox :: "string \<Rightarrow> nat outbox" where
  "sample_outbox e = snd (insert_outbox 5 ''u1''
     \<lparr>or_aggregate_type = ''topup'', or_aggregate_id = ''7'', or_event_type = e, or_payload = 3\<rparr>
     \<lparr>ob_rows = [], ob_seq = 1\<rparr>)"

text \<open>In the witness Kafka refuses the message and the database refuses the failure.\<close>

theorem poll_settles_batch_witness:
  "let fl = delivered_polls\<lparr>of_fail := \<lambda>_. Refuse ErrNoRows\<rparr>
   in \<exists>x \<in> set (ob_rows (snd (poll_and_publish 9 fl (\<lambda>_. Some ErrNoRows) (sample_outbox ''topup.created'')))).
     ob_event_id x = ''u1'' \<and> ob_status x = ob_processing"
proof -
  let ?ob = "sample_outbox ''topup.created''"
  let ?fl = "delivered_polls\<lparr>of_fail := \<lambda>_. Refuse ErrNoRows\<rparr>"
  let ?c = "claim_pending_outbox (of_claim ?fl) 9 batch_size max_attempts ?ob"
  have ids: "map_sum (\<lambda>_. ()) (map (\<lambda>r. (ob_event_id r, ob_event_type r))) (fst ?c) = Inr [(''u1'', ''topup.created'')]"
    by code_simp
  then obtain r ob1 where c: "?c = (Inr [r], ob1)" and r: "ob_event_id r = ''u1''" "ob_event_type r = ''topup.created''"
    by (cases ?c; cases "fst ?c") auto
  have "ob_wf ?ob" by (simp add: sample_outbox_def insert_outbox_def ob_wf_def)
  moreover have "resolve_topic ''topup.created'' \<noteq> []" by code_simp
  ultimately show ?thesis
    using poll_settles_batch [where ob = ?ob and fl = ?fl and now = 9 and send = "\<lambda>_. Some ErrNoRows", unfolded c] r
    by (simp add: refused_fault_def Let_def)
qed

text \<open>
  A poll keeps every event within ten attempts and sends messages to named topics
  only
\<close>

theorem publish_attempts_bounded:
  assumes "ob_wf ob" "attempts_bounded max_attempts ob"
  shows "attempts_bounded max_attempts (snd (poll_and_publish now fl send ob))
    \<and> set (fst (poll_and_publish now fl send ob)) \<subseteq> {m. fst m \<noteq> []}"
proof -
  have "set (fst (publish_all now fl send rows ([], ob1))) \<subseteq> message_of ` {r \<in> set rows. resolve_topic (ob_event_type r) \<noteq> []}"
    for rows ob1
    using publish_all_messages [of now fl send rows "([], ob1)"] by simp
  then have "set (fst (poll_and_publish now fl send ob)) \<subseteq> {m. fst m \<noteq> []}"
    by (fastforce simp: poll_and_publish_def message_of_def split: prod.splits sum.splits)
  with poll_attempts_bounded [OF assms] show ?thesis by blast
qed

text \<open>
  A message that Kafka took although its event could not be marked published is sent
  again once the row has been stale for ten minutes.
\<close>

theorem unmarked_event_is_sent_again:
  "let run = poll_and_publish 9 (delivered_polls\<lparr>of_complete := \<lambda>_. Refuse ErrNoRows\<rparr>) (\<lambda>_. None)
         (sample_outbox ''topup.created'');
       run' = poll_and_publish (9 + 15 * minute) delivered_polls (\<lambda>_. None) (snd run)
   in length (fst run) = 1 \<and> map ob_status (ob_rows (snd run)) = [ob_processing] \<and> fst run' = fst run"
  by code_simp

theorem publish_attempts_bounded_witness:
  "attempts_bounded max_attempts (snd (poll_and_publish 9 delivered_polls (\<lambda>_. Some ErrNoRows) (sample_outbox ''topup.created'')))"
proof -
  have "ob_wf (sample_outbox e)" "attempts_bounded max_attempts (sample_outbox e)" for e
    by (simp_all add: sample_outbox_def insert_outbox_def ob_wf_def attempts_bounded_def max_attempts_def)
  from publish_attempts_bounded [OF this] show ?thesis by blast
qed

text \<open>Every event type the services enqueue has a topic\<close>

theorem service_events_have_topics:
  "list_all (\<lambda>e. resolve_topic e \<noteq> [])
     [''topup.created'', ''topup.stats'', ''topup.saldo'', ''transaction.created'', ''transaction.stats'',
     ''transaction.saldo_user'', ''transaction.saldo_merchant'', ''transfer.created'', ''transfer.stats'',
     ''transfer.saldo_sender'', ''transfer.saldo_receiver'', ''withdraw.created'', ''withdraw.stats'',
     ''withdraw.saldo'', ''saldo.changed'']"
  by code_simp

text \<open>An event type outside the table is marked published although no message was sent.\<close>

theorem unknown_event_is_dropped:
  "let run = poll_and_publish 9 delivered_polls (\<lambda>_. None) (sample_outbox ''topup.refunded'')
   in fst run = [] \<and> map ob_status (ob_rows (snd run)) = [ob_published]"
  by code_simp

text \<open>
  An event accepted once is a duplicate exactly for the time to live of the filter
\<close>

theorem duplicate_filter:
  assumes "event_id \<noteq> []" "now \<le> now'" "is_duplicate now event_id d = (False, d')"
  shows "fst (is_duplicate now' event_id d') \<longleftrightarrow> now' - now < d_ttl d"
  using assms by (auto simp: is_duplicate_def split: option.splits if_splits)

theorem duplicate_filter_witness:
  "fst (is_duplicate 8 ''e'' (snd (is_duplicate 5 ''e'' (new_dedup 0))))"
proof -
  have "is_duplicate 5 ''e'' (new_dedup 0) = (False, snd (is_duplicate 5 ''e'' (new_dedup 0)))"
    by (simp add: is_duplicate_def new_dedup_def)
  from duplicate_filter [OF _ _ this, of 8] show ?thesis by (simp add: new_dedup_def time_defs)
qed
end
