(* ===== verification/CommandState.thy ===== *)
theory CommandState
  imports Prelude
begin

text \<open>
  The command state machine of \<open>shared/state/state.go\<close>: statuses are plain strings, the
  legal moves are a table, and rows are classified as terminal, recoverable or valid.
  The step relation \<open>status_step\<close> is the table as an inductive relation; the lemmas give
  its inversion per source status, the absorbing terminal statuses and the reachable ones.
\<close>

section \<open>Statuses\<close>

type_synonym status = string

definition st_pending :: status where "st_pending = ''pending''"

definition st_processing :: status where "st_processing = ''processing''"

definition st_success :: status where "st_success = ''success''"

definition st_failed :: status where "st_failed = ''failed''"

definition st_compensating :: status where "st_compensating = ''compensating''"

definition st_compensated :: status where "st_compensated = ''compensated''"

definition st_unknown :: status where "st_unknown = ''unknown''"

lemmas status_defs =
  st_pending_def st_processing_def st_success_def st_failed_def
  st_compensating_def st_compensated_def st_unknown_def

lemma status_neq [simp]:
  "st_pending \<noteq> st_processing"
  "st_pending \<noteq> st_success"
  "st_pending \<noteq> st_failed"
  "st_pending \<noteq> st_compensating"
  "st_pending \<noteq> st_compensated"
  "st_pending \<noteq> st_unknown"
  "st_processing \<noteq> st_pending"
  "st_processing \<noteq> st_success"
  "st_processing \<noteq> st_failed"
  "st_processing \<noteq> st_compensating"
  "st_processing \<noteq> st_compensated"
  "st_processing \<noteq> st_unknown"
  "st_success \<noteq> st_pending"
  "st_success \<noteq> st_processing"
  "st_success \<noteq> st_failed"
  "st_success \<noteq> st_compensating"
  "st_success \<noteq> st_compensated"
  "st_success \<noteq> st_unknown"
  "st_failed \<noteq> st_pending"
  "st_failed \<noteq> st_processing"
  "st_failed \<noteq> st_success"
  "st_failed \<noteq> st_compensating"
  "st_failed \<noteq> st_compensated"
  "st_failed \<noteq> st_unknown"
  "st_compensating \<noteq> st_pending"
  "st_compensating \<noteq> st_processing"
  "st_compensating \<noteq> st_success"
  "st_compensating \<noteq> st_failed"
  "st_compensating \<noteq> st_compensated"
  "st_compensating \<noteq> st_unknown"
  "st_compensated \<noteq> st_pending"
  "st_compensated \<noteq> st_processing"
  "st_compensated \<noteq> st_success"
  "st_compensated \<noteq> st_failed"
  "st_compensated \<noteq> st_compensating"
  "st_compensated \<noteq> st_unknown"
  "st_unknown \<noteq> st_pending"
  "st_unknown \<noteq> st_processing"
  "st_unknown \<noteq> st_success"
  "st_unknown \<noteq> st_failed"
  "st_unknown \<noteq> st_compensating"
  "st_unknown \<noteq> st_compensated"
  by (simp_all add: status_defs)

section \<open>The transition table\<close>

definition allowed_transitions :: "status \<Rightarrow> status list option" where
  "allowed_transitions from =
     (if from = st_pending then Some [st_processing, st_failed]
      else if from = st_processing then Some [st_success, st_compensating, st_failed, st_unknown]
      else if from = st_compensating then Some [st_compensated, st_unknown]
      else if from = st_unknown then Some [st_compensating, st_compensated]
      else None)"

definition can_transition :: "status \<Rightarrow> status \<Rightarrow> bool" where
  "can_transition from to =
     (case allowed_transitions from of
        None \<Rightarrow> False
      | Some allowed \<Rightarrow> to \<in> set allowed)"

definition is_terminal :: "status \<Rightarrow> bool" where
  "is_terminal status \<longleftrightarrow> status = st_success \<or> status = st_failed \<or> status = st_compensated"

definition is_recoverable :: "status \<Rightarrow> bool" where
  "is_recoverable status \<longleftrightarrow>
     status = st_processing \<or> status = st_compensating \<or> status = st_unknown"

definition is_valid :: "status \<Rightarrow> bool" where
  "is_valid status \<longleftrightarrow>
     allowed_transitions status \<noteq> None \<or> status = st_success \<or> status = st_failed
     \<or> status = st_compensated"

text \<open>\<open>CheckTransition\<close> is \<open>CanTransition\<close> with an error that names the pair.\<close>

definition quoted :: "string \<Rightarrow> string" where
  "quoted s = CHR 0x22 # s @ [CHR 0x22]"

definition check_transition :: "status \<Rightarrow> status \<Rightarrow> string option" where
  "check_transition from to =
     (if can_transition from to then None
      else Some (''illegal status transition: '' @ quoted from @ '' -> '' @ quoted to))"

section \<open>The table as a step relation\<close>

inductive status_step :: "status \<Rightarrow> status \<Rightarrow> bool" where
  pending_processing: "status_step st_pending st_processing"
| pending_failed: "status_step st_pending st_failed"
| processing_success: "status_step st_processing st_success"
| processing_compensating: "status_step st_processing st_compensating"
| processing_failed: "status_step st_processing st_failed"
| processing_unknown: "status_step st_processing st_unknown"
| compensating_compensated: "status_step st_compensating st_compensated"
| compensating_unknown: "status_step st_compensating st_unknown"
| unknown_compensating: "status_step st_unknown st_compensating"
| unknown_compensated: "status_step st_unknown st_compensated"

inductive_cases status_step_from_pending: "status_step st_pending t"
inductive_cases status_step_from_success: "status_step st_success t"
inductive_cases status_step_to_success: "status_step s st_success"

inductive_simps status_step_source: "status_step s t"

lemma can_transition_iff_step: "can_transition s t \<longleftrightarrow> status_step s t"
  by (auto simp: can_transition_def allowed_transitions_def status_step_source)

lemma terminal_no_step: "is_terminal s \<Longrightarrow> \<not> status_step s t"
  by (auto simp: is_terminal_def status_step_source)

lemma step_target_valid: "status_step s t \<Longrightarrow> is_valid s \<and> is_valid t"
  by (erule status_step.cases) (simp_all add: is_valid_def allowed_transitions_def)

lemma check_transition_None [simp]: "check_transition s t = None \<longleftrightarrow> can_transition s t"
  by (simp add: check_transition_def)

lemma valid_cases:
  "is_valid s \<longleftrightarrow> s \<in> {st_pending, st_processing, st_success, st_failed, st_compensating,
     st_compensated, st_unknown}"
  by (auto simp: is_valid_def allowed_transitions_def)

lemma valid_partition:
  "is_valid s \<longleftrightarrow> s = st_pending \<or> is_recoverable s \<or> is_terminal s"
  by (auto simp: valid_cases is_recoverable_def is_terminal_def)

lemma recoverable_not_terminal: "is_recoverable s \<Longrightarrow> \<not> is_terminal s"
  by (auto simp: is_recoverable_def is_terminal_def)

section \<open>Runs of guarded transitions\<close>

text \<open>
  A row's life is a run of the step relation. Success is entered from processing only,
  and a run that has left processing never returns to it: a settlement is attempted
  once.
\<close>

fun status_run :: "status \<Rightarrow> status list \<Rightarrow> bool" where
  "status_run s [] \<longleftrightarrow> True"
| "status_run s (t # ts) \<longleftrightarrow> status_step s t \<and> status_run t ts"

lemma status_run_append:
  "status_run s (ts @ us) \<longleftrightarrow> status_run s ts \<and> status_run (last (s # ts)) us"
  by (induction ts arbitrary: s) auto

lemma no_return_to_pending: "status_step s t \<Longrightarrow> t \<noteq> st_pending"
  by (auto elim: status_step.cases)

lemma processing_from_pending: "status_step s st_processing \<Longrightarrow> s = st_pending"
  by (auto simp: status_step_source)

lemma run_never_pending: "status_run s ts \<Longrightarrow> st_pending \<notin> set ts"
  by (induction ts arbitrary: s) (auto dest: no_return_to_pending)

lemma run_processing_once:
  "status_run s ts \<Longrightarrow> s \<noteq> st_pending \<Longrightarrow> st_processing \<notin> set ts"
proof (induction ts arbitrary: s)
  case Nil
  then show ?case by simp
next
  case (Cons t ts)
  then have "status_step s t" "status_run t ts" by auto
  moreover from \<open>status_step s t\<close> have "t \<noteq> st_pending" by (rule no_return_to_pending)
  ultimately show ?case
    using Cons.IH [of t] Cons.prems(2) by (auto dest: processing_from_pending)
qed

lemma run_terminal_stuck: "is_terminal s \<Longrightarrow> status_run s ts \<Longrightarrow> ts = []"
  by (cases ts) (auto dest: terminal_no_step)

text \<open>Every valid status that is not terminal can still reach a terminal one.\<close>

lemma not_stuck:
  assumes "is_valid s" "\<not> is_terminal s"
  shows "\<exists>ts. status_run s ts \<and> is_terminal (last (s # ts))"
proof -
  from assms consider "s = st_pending" | "s = st_processing" | "s = st_compensating" | "s = st_unknown"
    by (auto simp: valid_cases is_terminal_def)
  then show ?thesis
  proof cases
    case 1
    then have "status_run s [st_failed] \<and> is_terminal (last [s, st_failed])"
      by (simp add: status_step.intros is_terminal_def)
    then show ?thesis by blast
  next
    case 2
    then have "status_run s [st_success] \<and> is_terminal (last [s, st_success])"
      by (simp add: status_step.intros is_terminal_def)
    then show ?thesis by blast
  next
    case 3
    then have "status_run s [st_compensated] \<and> is_terminal (last [s, st_compensated])"
      by (simp add: status_step.intros is_terminal_def)
    then show ?thesis by blast
  next
    case 4
    then have "status_run s [st_compensated] \<and> is_terminal (last [s, st_compensated])"
      by (simp add: status_step.intros is_terminal_def)
    then show ?thesis by blast
  qed
qed

fun_cases status_run_ConsE: "status_run s (t # ts)"

section \<open>Properties\<close>

text \<open>
  A run of the status machine from pending enters processing at most once, never
  returns to pending and ends at a terminal status
\<close>

theorem command_settles_once:
  assumes "status_run st_pending ts"
  shows "count_list ts st_processing \<le> 1 \<and> st_pending \<notin> set ts
    \<and> (\<forall>us t vs. ts = us @ t # vs \<and> is_terminal t \<longrightarrow> vs = [])"
proof -
  have never: "st_pending \<notin> set ts" by (rule run_never_pending [OF assms])
  have "count_list ts st_processing \<le> 1"
  proof (cases ts)
    case (Cons t us)
    with assms have "status_run t us" by (blast elim: status_run_ConsE)
    moreover have "t \<noteq> st_pending" using never Cons by auto
    ultimately have "count_list us st_processing = 0"
      using run_processing_once by (simp add: count_list_0_iff)
    with Cons show ?thesis by simp
  qed simp
  moreover have "vs = []" if "ts = us @ t # vs" "is_terminal t" for us t vs
    using assms that run_terminal_stuck [of t vs] by (simp add: status_run_append)
  ultimately show ?thesis using never by blast
qed

theorem command_settles_once_witness:
  "count_list [st_processing, st_compensating, st_unknown, st_compensated] st_processing \<le> 1"
proof -
  have "status_run st_pending [st_processing, st_compensating, st_unknown, st_compensated]"
    by (simp add: status_step.intros)
  from command_settles_once [OF this] show ?thesis by blast
qed

text \<open>From every valid status that is not terminal a terminal one can be reached\<close>

theorem command_not_stuck:
  assumes "is_valid s" "\<not> is_terminal s"
  shows "\<exists>ts. status_run s ts \<and> is_terminal (last (s # ts))"
  using assms by (rule not_stuck)

theorem command_not_stuck_witness:
  "\<exists>ts. status_run st_unknown ts \<and> is_terminal (last (st_unknown # ts))"
  by (rule command_not_stuck) (simp_all add: is_valid_def is_terminal_def allowed_transitions_def)

text \<open>The transition check accepts exactly the ten moves of the status machine\<close>

theorem transition_table:
  "check_transition s t = None \<longleftrightarrow> (s, t) \<in>
     {(st_pending, st_processing), (st_pending, st_failed), (st_processing, st_success),
      (st_processing, st_compensating), (st_processing, st_failed), (st_processing, st_unknown),
      (st_compensating, st_compensated), (st_compensating, st_unknown),
      (st_unknown, st_compensating), (st_unknown, st_compensated)}"
  by (simp add: can_transition_iff_step status_step_source)

end
