(* ===== verification/CommandRows.thy ===== *)
theory CommandRows
  imports CommandState Errors
begin

text \<open>
  What the tables \<open>transactions\<close>, \<open>transfers\<close>, \<open>topups\<close> and \<open>withdraws\<close> share: the columns
  of a command row, the guarded status transition
  (\<open>service/{transaction,transfer}/database/schema/operation_state.go\<close>), the soft-delete
  statements, the repository calls over them and the recovery pass
  (\<open>service/{transaction,transfer}/service/recovery.go\<close>). The services extend the record
  with their own columns. \<open>fl\<close> is the fault the database call suffers.
\<close>

section \<open>Rows and tables\<close>

record cmd_row =
  row_id :: int
  row_no :: string
  row_status :: status
  row_failure :: "string option"
  row_created_at :: "int option"
  row_updated_at :: int
  row_deleted_at :: "int option"

record 'r cmd_table =
  t_rows :: "'r list"
  t_seq :: int

definition row_live :: "'a cmd_row_scheme \<Rightarrow> bool" where
  "row_live r \<longleftrightarrow> row_deleted_at r = None"

definition find_row :: "int \<Rightarrow> 'a cmd_row_scheme cmd_table \<Rightarrow> 'a cmd_row_scheme option" where
  "find_row i tb = find (\<lambda>r. row_id r = i \<and> row_live r) (t_rows tb)"

text \<open>
  An insert: the row made from the next id, unless the id type is exhausted or a value
  does not fit its column.
\<close>

definition insert_row ::
  "(int \<Rightarrow> 'a cmd_row_scheme) \<Rightarrow> bool \<Rightarrow> (go_error, 'a cmd_row_scheme, 'a cmd_row_scheme cmd_table) op" where
  "insert_row mk fits tb =
     (if \<not> fits then (Inl (DbError ''value too long or out of range''), tb)
      else if t_seq tb > 2147483647
      then (Inl (DbError ''nextval: reached maximum value of sequence''), tb)
      else (Inr (mk (t_seq tb)), \<lparr>t_rows = t_rows tb @ [mk (t_seq tb)], t_seq = t_seq tb + 1\<rparr>))"

text \<open>\<open>UPDATE ... WHERE ... RETURNING\<close> of at most one row.\<close>

definition update_row ::
  "('a cmd_row_scheme \<Rightarrow> bool) \<Rightarrow> ('a cmd_row_scheme \<Rightarrow> 'a cmd_row_scheme) \<Rightarrow>
   (go_error, 'a cmd_row_scheme, 'a cmd_row_scheme cmd_table) op" where
  "update_row p f tb =
     (case find p (t_rows tb) of
        None \<Rightarrow> (Inl ErrNoRows, tb)
      | Some r \<Rightarrow> (Inr (f r), tb\<lparr>t_rows := update_where p f (t_rows tb)\<rparr>))"

definition live_id :: "int \<Rightarrow> 'a cmd_row_scheme \<Rightarrow> bool" where
  "live_id i r \<longleftrightarrow> row_id r = i \<and> row_live r"

definition guard_row :: "int \<Rightarrow> status \<Rightarrow> string \<Rightarrow> 'a cmd_row_scheme \<Rightarrow> 'a cmd_row_scheme" where
  "guard_row now to reason r =
     r\<lparr>row_status := to,
       row_failure := (if reason = [] then row_failure r else Some reason),
       row_updated_at := now\<rparr>"

definition guard_status_sql ::
  "int \<Rightarrow> int \<Rightarrow> status \<Rightarrow> status \<Rightarrow> string \<Rightarrow>
   (go_error, 'a cmd_row_scheme, 'a cmd_row_scheme cmd_table) op" where
  "guard_status_sql now i from to reason =
     update_row (\<lambda>r. row_id r = i \<and> row_status r = from \<and> row_live r) (guard_row now to reason)"

definition set_status :: "int \<Rightarrow> status \<Rightarrow> 'a cmd_row_scheme \<Rightarrow> 'a cmd_row_scheme" where
  "set_status now st r = r\<lparr>row_status := st, row_updated_at := now\<rparr>"

definition update_status_sql ::
  "int \<Rightarrow> int \<Rightarrow> status \<Rightarrow> (go_error, 'a cmd_row_scheme, 'a cmd_row_scheme cmd_table) op" where
  "update_status_sql now i st = update_row (live_id i) (set_status now st)"

definition trash_row_sql :: "int \<Rightarrow> int \<Rightarrow> (go_error, 'a cmd_row_scheme, 'a cmd_row_scheme cmd_table) op" where
  "trash_row_sql now i = update_row (live_id i) (\<lambda>r. r\<lparr>row_deleted_at := Some now\<rparr>)"

definition restore_row_sql :: "int \<Rightarrow> (go_error, 'a cmd_row_scheme, 'a cmd_row_scheme cmd_table) op" where
  "restore_row_sql i =
     update_row (\<lambda>r. row_id r = i \<and> \<not> row_live r) (\<lambda>r. r\<lparr>row_deleted_at := None\<rparr>)"

definition delete_row_sql :: "int \<Rightarrow> (go_error, unit, 'a cmd_row_scheme cmd_table) op" where
  "delete_row_sql i tb =
     (Inr (), tb\<lparr>t_rows := filter (\<lambda>r. \<not> (row_id r = i \<and> \<not> row_live r)) (t_rows tb)\<rparr>)"

definition restore_all_rows_sql :: "(go_error, unit, 'a cmd_row_scheme cmd_table) op" where
  "restore_all_rows_sql tb =
     (Inr (), tb\<lparr>t_rows := update_where (\<lambda>r. \<not> row_live r) (\<lambda>r. r\<lparr>row_deleted_at := None\<rparr>) (t_rows tb)\<rparr>)"

definition delete_all_rows_sql :: "(go_error, unit, 'a cmd_row_scheme cmd_table) op" where
  "delete_all_rows_sql tb = (Inr (), tb\<lparr>t_rows := filter row_live (t_rows tb)\<rparr>)"

text \<open>
  \<open>ListStuck\<close>: recoverable live rows older than a whole number of seconds, oldest first.
  The amount is scanned into an \<open>int32\<close>: a larger one fails the whole listing.
\<close>

definition stuck_row :: "int \<Rightarrow> int \<Rightarrow> 'a cmd_row_scheme \<Rightarrow> bool" where
  "stuck_row now older_than r \<longleftrightarrow>
     (row_status r = st_processing \<or> row_status r = st_compensating \<or> row_status r = st_unknown)
     \<and> row_live r \<and> row_updated_at r < now - (older_than div second) * second"

definition list_stuck_sql ::
  "('a cmd_row_scheme \<Rightarrow> int) \<Rightarrow> int \<Rightarrow> int \<Rightarrow> nat \<Rightarrow> 'a cmd_row_scheme cmd_table \<Rightarrow>
   go_error + 'a cmd_row_scheme list" where
  "list_stuck_sql amount now older_than max_rows tb =
     (let rows = take max_rows (sort_key row_updated_at (filter (stuck_row now older_than) (t_rows tb)))
      in if \<forall>r \<in> set rows. fits_int32 (amount r) then Inr rows
         else Inl (ErrorString ''value is greater than maximum value for int32''))"

section \<open>Repository\<close>

definition repo_guard_status ::
  "go_error fault \<Rightarrow> int \<Rightarrow> int \<Rightarrow> status \<Rightarrow> status \<Rightarrow> string \<Rightarrow>
   (go_error, bool, 'a cmd_row_scheme cmd_table) op" where
  "repo_guard_status fl now i from to reason =
     (case check_transition from to of
        Some msg \<Rightarrow> ret (Inl (ErrorString msg))
      | None \<Rightarrow>
          try_or (with_fault fl (guard_status_sql now (go_int32 i) from to reason))
            (\<lambda>err. ret (if is_no_rows err then Inr False else Inl err))
            (\<lambda>_. ret (Inr True)))"

definition repo_transition_status ::
  "go_error fault \<Rightarrow> int \<Rightarrow> int \<Rightarrow> status \<Rightarrow> status \<Rightarrow> string \<Rightarrow>
   (go_error, 'a cmd_row_scheme, 'a cmd_row_scheme cmd_table) op" where
  "repo_transition_status fl now i from to reason =
     (case check_transition from to of
        Some msg \<Rightarrow> ret (Inl (ErrorString msg))
      | None \<Rightarrow> with_fault fl (guard_status_sql now (go_int32 i) from to reason))"

text \<open>The calls that map \<open>pgx.ErrNoRows\<close> to not-found and anything else to a failure.\<close>

definition row_or_failed ::
  "go_error fault \<Rightarrow> string \<Rightarrow> string \<Rightarrow> (go_error, 'b, 's) op \<Rightarrow> (go_error, 'b, 's) op" where
  "row_or_failed fl entity operation m =
     try_or (with_fault fl m)
       (\<lambda>err. ret (Inl (err_no_rows_or_failed err entity operation)))
       (\<lambda>res. ret (Inr res))"

definition call_or_failed :: "go_error fault \<Rightarrow> string \<Rightarrow> (go_error, 'b, 's) op \<Rightarrow> (go_error, 'b, 's) op" where
  "call_or_failed fl operation m =
     try_or (with_fault fl m)
       (\<lambda>err. ret (Inl (with_internal (err_failed operation) err)))
       (\<lambda>res. ret (Inr res))"

definition repo_update_status ::
  "go_error fault \<Rightarrow> string \<Rightarrow> int \<Rightarrow> int \<Rightarrow> status \<Rightarrow>
   (go_error, 'a cmd_row_scheme, 'a cmd_row_scheme cmd_table) op" where
  "repo_update_status fl entity now i st =
     row_or_failed fl entity (''update '' @ entity @ '' status'') (update_status_sql now (go_int32 i) st)"

definition repo_trash ::
  "go_error fault \<Rightarrow> string \<Rightarrow> int \<Rightarrow> int \<Rightarrow> (go_error, 'a cmd_row_scheme, 'a cmd_row_scheme cmd_table) op" where
  "repo_trash fl entity now i = row_or_failed fl entity (''trash '' @ entity) (trash_row_sql now (go_int32 i))"

definition repo_restore ::
  "go_error fault \<Rightarrow> string \<Rightarrow> int \<Rightarrow> (go_error, 'a cmd_row_scheme, 'a cmd_row_scheme cmd_table) op" where
  "repo_restore fl entity i = row_or_failed fl entity (''restore '' @ entity) (restore_row_sql (go_int32 i))"

definition repo_delete ::
  "go_error fault \<Rightarrow> string \<Rightarrow> int \<Rightarrow> (go_error, unit, 'a cmd_row_scheme cmd_table) op" where
  "repo_delete fl entity i =
     row_or_failed fl entity (''delete '' @ entity @ '' permanently'') (delete_row_sql (go_int32 i))"

definition repo_restore_all ::
  "go_error fault \<Rightarrow> string \<Rightarrow> (go_error, unit, 'a cmd_row_scheme cmd_table) op" where
  "repo_restore_all fl entity = call_or_failed fl (''restore all '' @ entity @ ''s'') restore_all_rows_sql"

definition repo_delete_all ::
  "go_error fault \<Rightarrow> string \<Rightarrow> (go_error, unit, 'a cmd_row_scheme cmd_table) op" where
  "repo_delete_all fl entity =
     call_or_failed fl (''delete all '' @ entity @ ''s permanently'') delete_all_rows_sql"

text \<open>\<open>FindById\<close> of the query repositories.\<close>

definition repo_find_row ::
  "go_error fault \<Rightarrow> string \<Rightarrow> int \<Rightarrow> (go_error, 'a cmd_row_scheme, 'a cmd_row_scheme cmd_table) op" where
  "repo_find_row fl entity i =
     try_or (with_fault fl (\<lambda>tb. (case find_row (go_int32 i) tb of
                                     None \<Rightarrow> Inl ErrNoRows | Some r \<Rightarrow> Inr r, tb)))
       (\<lambda>err. ret (Inl (if is_no_rows err then with_internal (err_not_found_response entity) err
                         else with_internal ErrInternal err)))
       (\<lambda>r. ret (Inr r))"

section \<open>Recovery\<close>

text \<open>
  One pass: every stuck row that is not unknown yet is moved to unknown from the status it
  was listed with; a row another worker moved meanwhile is left alone.
\<close>

definition recovery_reason :: string where
  "recovery_reason = ''recovery could not prove settlement outcome''"

fun recover_rows ::
  "(int \<Rightarrow> go_error fault) \<Rightarrow> int \<Rightarrow> 'a cmd_row_scheme list \<Rightarrow> 'a cmd_row_scheme cmd_table \<Rightarrow>
   'a cmd_row_scheme cmd_table" where
  "recover_rows fl now [] tb = tb"
| "recover_rows fl now (r # rs) tb =
     (if row_status r = st_unknown then recover_rows fl now rs tb
      else recover_rows fl now rs
             (snd (repo_transition_status (fl (row_id r)) now (row_id r) (row_status r) st_unknown
                     recovery_reason tb)))"

definition recover_stuck_operations ::
  "('a cmd_row_scheme \<Rightarrow> int) \<Rightarrow> (int \<Rightarrow> go_error fault) \<Rightarrow> int \<Rightarrow> int \<Rightarrow> nat \<Rightarrow>
   (go_error, unit, 'a cmd_row_scheme cmd_table) op" where
  "recover_stuck_operations amount fl now older_than max_rows tb =
     (case list_stuck_sql amount now older_than max_rows tb of
        Inl err \<Rightarrow> (Inl err, tb)
      | Inr rows \<Rightarrow> (Inr (), recover_rows fl now rows tb))"

section \<open>Lemmas on tables\<close>

text \<open>Ids are unique and below the sequence.\<close>

definition table_wf :: "'a cmd_row_scheme cmd_table \<Rightarrow> bool" where
  "table_wf tb \<longleftrightarrow> 0 < t_seq tb \<and> distinct (map row_id (t_rows tb))
     \<and> (\<forall>r \<in> set (t_rows tb). row_id r < t_seq tb)"

lemma table_wf_fresh: "table_wf tb \<Longrightarrow> r \<in> set (t_rows tb) \<Longrightarrow> row_id r \<noteq> t_seq tb"
  by (auto simp: table_wf_def)

lemma insert_row_wf:
  assumes "table_wf tb" "insert_row mk fits tb = (res, tb')" "\<And>i. row_id (mk i) = i"
  shows "table_wf tb'"
  using assms by (fastforce simp: table_wf_def insert_row_def split: if_splits)

lemma update_row_wf:
  assumes "table_wf tb" "update_row p f tb = (res, tb')" "\<And>r. row_id (f r) = row_id r"
  shows "table_wf tb'"
  using assms
  by (auto simp: table_wf_def update_row_def map_update_where set_update_where split: option.splits)

lemma guard_row_simps [simp]:
  "row_id (guard_row now to reason r) = row_id r"
  "row_status (guard_row now to reason r) = to"
  "row_live (guard_row now to reason r) = row_live r"
  "row_deleted_at (guard_row now to reason r) = row_deleted_at r"
  "cmd_row.more (guard_row now to reason r) = cmd_row.more r"
  by (simp_all add: guard_row_def row_live_def)

lemma set_status_simps [simp]:
  "row_id (set_status now st r) = row_id r"
  "row_status (set_status now st r) = st"
  "row_live (set_status now st r) = row_live r"
  "cmd_row.more (set_status now st r) = cmd_row.more r"
  by (simp_all add: set_status_def row_live_def)

text \<open>
  A guarded transition touches at most the row it names, along a step of the table of
  legal transitions, and leaves every other column of it alone.
\<close>

definition row_step :: "'a cmd_row_scheme \<Rightarrow> 'a cmd_row_scheme \<Rightarrow> bool" where
  "row_step r r' \<longleftrightarrow>
     r' = r \<or> row_id r' = row_id r \<and> row_live r' = row_live r \<and> cmd_row.more r' = cmd_row.more r
        \<and> status_step (row_status r) (row_status r')"

definition table_step :: "'a cmd_row_scheme cmd_table \<Rightarrow> 'a cmd_row_scheme cmd_table \<Rightarrow> bool" where
  "table_step tb tb' \<longleftrightarrow> t_seq tb' = t_seq tb \<and> list_all2 row_step (t_rows tb) (t_rows tb')"

lemma row_steps_refl [simp]: "list_all2 row_step rs rs"
  by (simp add: row_step_def list_all2_refl)

lemma table_step_refl [simp]: "table_step tb tb"
  by (simp add: table_step_def)

lemma update_row_cases:
  assumes "update_row p f tb = (res, tb')"
  shows "res = Inl ErrNoRows \<and> tb' = tb \<and> (\<forall>r \<in> set (t_rows tb). \<not> p r)
    \<or> (\<exists>r \<in> set (t_rows tb). p r \<and> res = Inr (f r) \<and> find p (t_rows tb) = Some r
          \<and> tb' = tb\<lparr>t_rows := update_where p f (t_rows tb)\<rparr>)"
  using assms find_Some_mem [of p "t_rows tb"]
  by (cases "find p (t_rows tb)") (auto simp: update_row_def find_None_iff)

lemma guard_table_step:
  assumes "guard_status_sql now i from to reason tb = (res, tb')" "status_step from to"
  shows "table_step tb tb'"
proof -
  have upd: "list_all2 row_step rs (update_where (\<lambda>r. row_id r = i \<and> row_status r = from \<and> row_live r)
      (guard_row now to reason) rs)" for rs
    using assms(2) by (induction rs) (auto simp: update_where_simps row_step_def)
  from update_row_cases [OF assms(1) [unfolded guard_status_sql_def]] show ?thesis
    using upd by (auto simp: table_step_def)
qed

lemma with_fault_cases:
  assumes "with_fault fl m s = (res, s')"
  shows "(\<exists>e. res = Inl e) \<and> s' = s \<or> m s = (res, s') \<and> fl = Deliver
    \<or> (\<exists>e r. fl = Lose e \<and> res = Inl e \<and> m s = (r, s'))"
  using assms by (cases fl; cases "m s") (auto simp: with_fault_def)

lemma repo_guard_table_step:
  assumes "repo_guard_status fl now i from to reason tb = (res, tb')"
  shows "table_step tb tb'"
proof (cases "can_transition from to")
  case False
  with assms show ?thesis by (auto simp: repo_guard_status_def check_transition_def ret_def)
next
  case True
  then have step: "status_step from to" by (simp add: can_transition_iff_step)
  obtain r tb1 where g: "with_fault fl (guard_status_sql now (go_int32 i) from to reason) tb = (r, tb1)"
    by (cases "with_fault fl (guard_status_sql now (go_int32 i) from to reason) tb")
  then have "tb' = tb1"
    using assms True by (auto simp: repo_guard_status_def check_transition_def try_or_def ret_def split: sum.splits)
  with with_fault_cases [OF g] guard_table_step [OF _ step] show ?thesis by auto
qed

lemma repo_transition_table_step:
  assumes "repo_transition_status fl now i from to reason tb = (res, tb')"
  shows "table_step tb tb'"
proof (cases "can_transition from to")
  case False
  with assms show ?thesis by (auto simp: repo_transition_status_def check_transition_def ret_def)
next
  case True
  then have step: "status_step from to" by (simp add: can_transition_iff_step)
  have g: "with_fault fl (guard_status_sql now (go_int32 i) from to reason) tb = (res, tb')"
    using assms True by (simp add: repo_transition_status_def check_transition_def)
  from with_fault_cases [OF g] guard_table_step [OF _ step] show ?thesis by auto
qed

text \<open>Only one of two callers that guard the same transition gets it.\<close>

lemma guard_exclusive:
  assumes first: "repo_guard_status Deliver now i from to reason tb = (Inr True, tb')"
    and change: "from \<noteq> to"
  shows "repo_guard_status Deliver now' i from to reason' tb' = (Inr False, tb')"
proof -
  let ?p = "\<lambda>r. row_id r = go_int32 i \<and> row_status r = from \<and> row_live r"
  obtain res tb1 where run: "guard_status_sql now (go_int32 i) from to reason tb = (res, tb1)"
    by (cases "guard_status_sql now (go_int32 i) from to reason tb")
  have can: "check_transition from to = None" and "tb' = tb1" and ok: "\<exists>r. res = Inr r"
    using first run
    by (auto simp: repo_guard_status_def with_fault_def try_or_def ret_def split: option.splits sum.splits if_splits)
  with update_row_cases [OF run [unfolded guard_status_sql_def]]
  have rows: "t_rows tb' = update_where ?p (guard_row now to reason) (t_rows tb)" by auto
  have "find ?p (t_rows tb') = None"
    unfolding rows find_None_iff using change by (auto simp: set_update_where)
  then show ?thesis
    using can by (simp add: repo_guard_status_def check_transition_def with_fault_def try_or_def ret_def guard_status_sql_def
        update_row_def)
qed

section \<open>Lemmas on recovery\<close>

definition table_steps :: "'a cmd_row_scheme cmd_table \<Rightarrow> 'a cmd_row_scheme cmd_table \<Rightarrow> bool" where
  "table_steps = table_step\<^sup>*\<^sup>*"

lemma recover_rows_steps: "table_steps tb (recover_rows fl now rs tb)"
proof (induction rs arbitrary: tb)
  case Nil
  then show ?case by (simp add: table_steps_def)
next
  case (Cons r rs)
  obtain res tb1 where run:
    "repo_transition_status (fl (row_id r)) now (row_id r) (row_status r) st_unknown recovery_reason tb = (res, tb1)"
    by (cases "repo_transition_status (fl (row_id r)) now (row_id r) (row_status r) st_unknown recovery_reason tb")
  show ?case
    using Cons.IH [of tb] Cons.IH [of tb1] repo_transition_table_step [OF run] run
    by (auto simp: table_steps_def intro: converse_rtranclp_into_rtranclp)
qed

text \<open>Recovery never guesses: a status it changes becomes unknown.\<close>

definition unknown_step :: "'a cmd_row_scheme \<Rightarrow> 'a cmd_row_scheme \<Rightarrow> bool" where
  "unknown_step r r' \<longleftrightarrow> r' = r \<or> row_id r' = row_id r \<and> row_status r' = st_unknown \<and> row_live r' = row_live r
     \<and> cmd_row.more r' = cmd_row.more r \<and> (row_status r = st_processing \<or> row_status r = st_compensating)"

lemma unknown_step_trans: "unknown_step a b \<Longrightarrow> unknown_step b c \<Longrightarrow> unknown_step a c"
  by (auto simp: unknown_step_def)

lemma transition_unknown:
  assumes "repo_transition_status fl now i from st_unknown reason tb = (res, tb')"
  shows "list_all2 unknown_step (t_rows tb) (t_rows tb')"
proof -
  have refl: "list_all2 unknown_step rs rs" for rs by (simp add: list_all2_refl unknown_step_def)
  show ?thesis
  proof (cases "can_transition from st_unknown")
    case False
    with assms refl show ?thesis by (auto simp: repo_transition_status_def check_transition_def ret_def)
  next
    case True
    then have src: "from = st_processing \<or> from = st_compensating"
      by (auto simp: can_transition_iff_step status_step_source)
    have g: "with_fault fl (guard_status_sql now (go_int32 i) from st_unknown reason) tb = (res, tb')"
      using assms True by (simp add: repo_transition_status_def check_transition_def)
    have upd: "list_all2 unknown_step rs (update_where (\<lambda>r. row_id r = go_int32 i \<and> row_status r = from \<and> row_live r)
        (guard_row now st_unknown reason) rs)" for rs
      using src by (induction rs) (auto simp: update_where_simps unknown_step_def)
    show ?thesis
      using with_fault_cases [OF g] upd refl
      by (auto simp: guard_status_sql_def dest!: update_row_cases)
  qed
qed

lemma recover_rows_unknown: "list_all2 unknown_step (t_rows tb) (t_rows (recover_rows fl now rs tb))"
proof (induction rs arbitrary: tb)
  case Nil
  then show ?case by (simp add: list_all2_refl unknown_step_def)
next
  case (Cons r rs)
  obtain res tb1 where run:
    "repo_transition_status (fl (row_id r)) now (row_id r) (row_status r) st_unknown recovery_reason tb = (res, tb1)"
    by (cases "repo_transition_status (fl (row_id r)) now (row_id r) (row_status r) st_unknown recovery_reason tb")
  have "list_all2 unknown_step (t_rows tb) (t_rows (recover_rows fl now rs tb1))"
    using transition_unknown [OF run] Cons.IH [of tb1] list_all2_trans unknown_step_trans by blast
  with Cons.IH [of tb] run show ?case by simp
qed

section \<open>Properties\<close>

text \<open>
  Of two callers that guard the same transition of a row only the first takes it; the
  second is told so and changes nothing
\<close>

theorem transition_taken_once:
  assumes "repo_guard_status Deliver now i from to reason tb = (Inr True, tb')" "from \<noteq> to"
  shows "repo_guard_status Deliver now' i from to reason' tb' = (Inr False, tb')"
  using assms by (rule guard_exclusive)

definition sample_row :: "int \<Rightarrow> status \<Rightarrow> cmd_row" where
  "sample_row i st =
     \<lparr>row_id = i, row_no = ''n'', row_status = st, row_failure = None, row_created_at = Some 0,
      row_updated_at = 0, row_deleted_at = None\<rparr>"

theorem transition_taken_once_witness:
  "let tb = \<lparr>t_rows = [sample_row 1 st_pending], t_seq = 2\<rparr>;
       tb' = snd (repo_guard_status Deliver 5 1 st_pending st_processing [] tb)
   in map row_status (t_rows tb') = [st_processing]
      \<and> repo_guard_status Deliver 6 1 st_pending st_processing [] tb' = (Inr False, tb')"
proof -
  let ?tb = "\<lparr>t_rows = [sample_row 1 st_pending], t_seq = 2\<rparr>"
  let ?run = "repo_guard_status Deliver 5 1 st_pending st_processing [] ?tb"
  have "fst ?run = Inr True" and st: "map row_status (t_rows (snd ?run)) = [st_processing]" by code_simp+
  then have "?run = (Inr True, snd ?run)" by (metis prod.collapse)
  from transition_taken_once [OF this] st show ?thesis by simp
qed

text \<open>
  A recovery pass changes a row only from processing or compensating to unknown and
  keeps its identity and data
\<close>

theorem recovery_never_guesses:
  "list_all2 (\<lambda>r r'. r' = r \<or> row_id r' = row_id r \<and> row_status r' = st_unknown \<and> row_live r' = row_live r
        \<and> cmd_row.more r' = cmd_row.more r \<and> (row_status r = st_processing \<or> row_status r = st_compensating))
     (t_rows tb) (t_rows (snd (recover_stuck_operations amount fl now older_than max_rows tb)))"
proof -
  have "list_all2 unknown_step (t_rows tb) (t_rows (snd (recover_stuck_operations amount fl now older_than max_rows tb)))"
    using recover_rows_unknown
    by (auto simp: recover_stuck_operations_def list_all2_refl unknown_step_def split: sum.split)
  then show ?thesis unfolding unknown_step_def .
qed

text \<open>
  The recovery listing scans the amounts into 32 bits while the column and the accepted
  amounts are wider: one stuck row above \<open>2^31 - 1\<close> makes the whole pass fail.
\<close>

theorem large_amount_blocks_recovery:
  "let tb = \<lparr>t_rows = [sample_row 1 st_processing, sample_row 2 st_processing], t_seq = 3\<rparr>;
       run = recover_stuck_operations (\<lambda>r. if row_id r = 1 then 3000000000 else 10) (\<lambda>_. Deliver) hour 0 100 tb
   in isl (fst run) \<and> snd run = tb"
  by code_simp

end
