(* ===== verification/CommandWorld.thy ===== *)
theory CommandWorld
  imports SaldoService Idempotency Outbox CommandRows
begin

text \<open>
  The world of one command service: its own database (command rows, idempotency records,
  outbox), the failure markers still running in the background
  (\<open>shared/async\<close>), and the saldo service it calls. An invocation reads the other services,
  the clock and the faults of its calls from an environment. The calls of the four
  financial services are defined here once; the lemmas say what each can do to the world.
\<close>

section \<open>World and environment\<close>

record merchant_info =
  mi_id :: int
  mi_name :: string
  mi_user_id :: int

datatype event_payload =
    EmailPayload string string string
  | StatsPayload string int string "string list" int string int
  | SaldoPayload string int int

record 'r cmd_world =
  w_table :: "'r cmd_table"
  w_idem :: "'r idem_table"
  w_outbox :: "event_payload outbox"
  w_marks :: "int list"
  w_saldo :: saldo_service

text \<open>The calls of one invocation, by what identifies them.\<close>

datatype rpc =
    RFindRow | RCreateRow | RUpdateRow | RUpdateStatus status
  | RGuard status status | RTransition status status
  | RFindSaldo string | RDebit string | RCredit string
  | RUpdateAmount | RUpdateCard | RTodaySum | RListStuck | RTrash | RRestore | RDelete | RRestoreAll | RDeleteAll
  | ROutbox string

record 'q svc_env =
  v_now :: int
  v_saldo :: saldo_env
  v_fault :: "rpc \<Rightarrow> go_error fault"
  v_idem :: idem_faults
  v_idem_configured :: bool
  v_outbox_configured :: bool
  v_hash :: "'q \<Rightarrow> string"
  v_event_uuid :: "string \<Rightarrow> string"
  v_row_no :: string
  v_block :: "string option"
  v_find_merchant_by_api_key :: "string \<Rightarrow> go_error + merchant_info"
  v_find_merchant_by_id :: "int \<Rightarrow> go_error + merchant_info"
  v_find_user_card :: "string \<Rightarrow> go_error + card_info"
  v_find_card :: "string \<Rightarrow> go_error + card_info"
  v_find_card_by_user_id :: "int \<Rightarrow> go_error + card_info"

section \<open>Calls\<close>

definition on_table ::
  "('a cmd_row_scheme cmd_table \<Rightarrow> 'b \<times> 'a cmd_row_scheme cmd_table) \<Rightarrow>
   'a cmd_row_scheme cmd_world \<Rightarrow> 'b \<times> 'a cmd_row_scheme cmd_world" where
  "on_table = zoom w_table (\<lambda>tb w. w\<lparr>w_table := tb\<rparr>)"

definition rpc_debit ::
  "'q svc_env \<Rightarrow> saldo_request \<Rightarrow> (go_error, saldo_mutation_result, 'r cmd_world) op" where
  "rpc_debit env req =
     with_fault (v_fault env (RDebit (sr_operation_id req)))
       (zoom w_saldo (\<lambda>s w. w\<lparr>w_saldo := s\<rparr>) (adapter_debit_saldo (v_saldo env) req))"

definition rpc_credit ::
  "'q svc_env \<Rightarrow> saldo_request \<Rightarrow> (go_error, saldo_mutation_result, 'r cmd_world) op" where
  "rpc_credit env req =
     with_fault (v_fault env (RCredit (sr_operation_id req)))
       (zoom w_saldo (\<lambda>s w. w\<lparr>w_saldo := s\<rparr>) (adapter_credit_saldo (v_saldo env) req))"

definition rpc_find_saldo :: "'q svc_env \<Rightarrow> string \<Rightarrow> (go_error, saldo_row, 'r cmd_world) op" where
  "rpc_find_saldo env cnum =
     with_fault (v_fault env (RFindSaldo cnum))
       (\<lambda>w. (adapter_find_by_card_number cnum (w_saldo w), w))"

definition lift_read :: "go_error + 'a \<Rightarrow> (go_error, 'a, 'w) op" where
  "lift_read r = ret r"

definition guard_status ::
  "'q svc_env \<Rightarrow> int \<Rightarrow> status \<Rightarrow> status \<Rightarrow> string \<Rightarrow> (go_error, bool, 'a cmd_row_scheme cmd_world) op" where
  "guard_status env i from to reason =
     on_table (repo_guard_status (v_fault env (RGuard from to)) (v_now env) i from to reason)"

definition transition_status ::
  "'q svc_env \<Rightarrow> int \<Rightarrow> status \<Rightarrow> status \<Rightarrow> string \<Rightarrow>
   (go_error, 'a cmd_row_scheme, 'a cmd_row_scheme cmd_world) op" where
  "transition_status env i from to reason =
     on_table (repo_transition_status (v_fault env (RTransition from to)) (v_now env) i from to reason)"

text \<open>Outbox inserts are logged when they fail, never propagated.\<close>

definition enqueue_event ::
  "'q svc_env \<Rightarrow> string \<Rightarrow> string \<Rightarrow> string \<Rightarrow> event_payload \<Rightarrow> 'r cmd_world \<Rightarrow> 'r cmd_world" where
  "enqueue_event env aggregate_type aggregate_id event_type payload w =
     snd (with_fault (v_fault env (ROutbox event_type))
       (zoom w_outbox (\<lambda>ob w. w\<lparr>w_outbox := ob\<rparr>)
         (insert_outbox (v_now env) (v_event_uuid env event_type)
            \<lparr>or_aggregate_type = aggregate_type, or_aggregate_id = aggregate_id,
             or_event_type = event_type, or_payload = payload\<rparr>)) w)"

text \<open>
  \<open>async.RunWithTimeout\<close>: the failure marker runs later on its own goroutine, so it is
  queued; \<open>run_mark\<close> is the moment it runs.
\<close>

definition mark_as_failed :: "int \<Rightarrow> 'r cmd_world \<Rightarrow> 'r cmd_world" where
  "mark_as_failed i w = w\<lparr>w_marks := w_marks w @ [i]\<rparr>"

definition run_mark ::
  "'q svc_env \<Rightarrow> string \<Rightarrow> 'a cmd_row_scheme cmd_world \<Rightarrow> 'a cmd_row_scheme cmd_world" where
  "run_mark env entity w =
     (case w_marks w of
        [] \<Rightarrow> w
      | i # is \<Rightarrow>
          snd (on_table (repo_update_status (v_fault env (RUpdateStatus st_failed)) entity (v_now env) i st_failed)
            (w\<lparr>w_marks := is\<rparr>)))"

text \<open>\<open>return HandleError(...)\<close> with the value of the \<open>status\<close> variable at that point.\<close>

definition fail_with :: "bool \<Rightarrow> go_error \<Rightarrow> 'w \<Rightarrow> (bool \<times> (go_error + 'r)) \<times> 'w" where
  "fail_with status_error err = ret (status_error, Inl (handle_error (Some err)))"

definition quiet :: "('w \<Rightarrow> 'a \<times> 'w) \<Rightarrow> 'w \<Rightarrow> unit \<times> 'w" where
  "quiet m = and_then m (\<lambda>_. ret ())"

text \<open>An error return that first starts the failure marker.\<close>

definition marked :: "int \<Rightarrow> go_error option \<Rightarrow> (go_error, 'r, 'w cmd_world) op" where
  "marked i err w = (Inl (handle_error err), mark_as_failed i w)"

section \<open>The row commands every service has\<close>

definition svc_row ::
  "(go_error, 'b, 'a cmd_row_scheme cmd_table) op \<Rightarrow> (go_error, 'b, 'a cmd_row_scheme cmd_world) op" where
  "svc_row m = try_or (on_table m) (\<lambda>err. ret (Inl (handle_error (Some err)))) (\<lambda>res. ret (Inr res))"

definition svc_trashed ::
  "'q svc_env \<Rightarrow> string \<Rightarrow> int \<Rightarrow> (go_error, 'a cmd_row_scheme, 'a cmd_row_scheme cmd_world) op" where
  "svc_trashed env entity i = svc_row (repo_trash (v_fault env RTrash) entity (v_now env) i)"

definition svc_restore ::
  "'q svc_env \<Rightarrow> string \<Rightarrow> int \<Rightarrow> (go_error, 'a cmd_row_scheme, 'a cmd_row_scheme cmd_world) op" where
  "svc_restore env entity i = svc_row (repo_restore (v_fault env RRestore) entity i)"

definition svc_delete_permanent ::
  "'q svc_env \<Rightarrow> string \<Rightarrow> int \<Rightarrow> (go_error, unit, 'a cmd_row_scheme cmd_world) op" where
  "svc_delete_permanent env entity i = svc_row (repo_delete (v_fault env RDelete) entity i)"

definition svc_restore_all ::
  "'q svc_env \<Rightarrow> string \<Rightarrow> (go_error, unit, 'a cmd_row_scheme cmd_world) op" where
  "svc_restore_all env entity =
     try_or (on_table (repo_restore_all (v_fault env RRestoreAll) entity))
       (\<lambda>err. ret (Inl (err_failed (''restore all '' @ entity @ ''s'')))) (\<lambda>res. ret (Inr res))"

definition svc_delete_all_permanent ::
  "'q svc_env \<Rightarrow> string \<Rightarrow> (go_error, unit, 'a cmd_row_scheme cmd_world) op" where
  "svc_delete_all_permanent env entity =
     try_or (on_table (repo_delete_all (v_fault env RDeleteAll) entity))
       (\<lambda>err. ret (Inl (err_failed (''delete all '' @ entity @ ''s permanently'')))) (\<lambda>res. ret (Inr res))"

section \<open>What a call can do to the world\<close>

definition w_bal :: "'r cmd_world \<Rightarrow> string \<Rightarrow> int option" where
  "w_bal w = saldo_bal (w_saldo w)"

definition w_posted :: "'r cmd_world \<Rightarrow> bool \<Rightarrow> string \<Rightarrow> string \<Rightarrow> bool" where
  "w_posted w = saldo_posted (w_saldo w)"

definition money_same :: "'r cmd_world \<Rightarrow> 'r cmd_world \<Rightarrow> bool" where
  "money_same w w' \<longleftrightarrow> w_bal w' = w_bal w \<and> w_posted w' = w_posted w"

definition delivered :: "'q svc_env \<Rightarrow> rpc \<Rightarrow> bool" where
  "delivered env c \<longleftrightarrow> (\<forall>e. v_fault env c \<noteq> Lose e)"

lemma money_same_refl [simp]: "money_same w w"
  by (simp add: money_same_def)

lemma money_same_trans: "money_same a b \<Longrightarrow> money_same b c \<Longrightarrow> money_same a c"
  by (simp add: money_same_def)

lemma money_same_update [simp]:
  "money_same w (w'\<lparr>w_table := tb\<rparr>) = money_same w w'"
  "money_same w (w'\<lparr>w_idem := i\<rparr>) = money_same w w'"
  "money_same w (w'\<lparr>w_outbox := ob\<rparr>) = money_same w w'"
  "money_same w (w'\<lparr>w_marks := m\<rparr>) = money_same w w'"
  by (simp_all add: money_same_def w_bal_def w_posted_def)

lemma try_or_cases:
  assumes "try_or m h k s = (r, s')"
  shows "(\<exists>e s1. m s = (Inl e, s1) \<and> h e s1 = (r, s')) \<or> (\<exists>x s1. m s = (Inr x, s1) \<and> k x s1 = (r, s'))"
  using assms by (auto simp: try_or_def split: prod.splits sum.splits)

lemma try_orE:
  assumes "try_or m h k s = (r, s')"
  obtains e s1 where "m s = (Inl e, s1)" "h e s1 = (r, s')"
    | x s1 where "m s = (Inr x, s1)" "k x s1 = (r, s')"
  using try_or_cases [OF assms] by blast

lemma and_thenE:
  assumes "and_then m k s = (r, s')"
  obtains x s1 where "m s = (x, s1)" "k x s1 = (r, s')"
  using assms by (auto simp: and_then_def split: prod.splits)

lemma on_tableE:
  assumes "on_table m w = (r, w')"
  obtains tb where "m (w_table w) = (r, tb)" "w' = w\<lparr>w_table := tb\<rparr>"
  using assms by (auto simp: on_table_def zoom_def split: prod.splits)

lemma guard_status_cases:
  assumes "guard_status env i from to reason w = (r, w')"
  shows "\<exists>tb. w' = w\<lparr>w_table := tb\<rparr> \<and> table_step (w_table w) tb"
  using assms unfolding guard_status_def by (auto elim!: on_tableE dest: repo_guard_table_step)

lemma transition_status_cases:
  assumes "transition_status env i from to reason w = (r, w')"
  shows "\<exists>tb. w' = w\<lparr>w_table := tb\<rparr> \<and> table_step (w_table w) tb"
  using assms unfolding transition_status_def by (auto elim!: on_tableE dest: repo_transition_table_step)

lemma rpc_debit_world:
  assumes "rpc_debit env req w = (r, w')"
  shows "\<exists>s. w' = w\<lparr>w_saldo := s\<rparr>"
  using assms
  by (cases "v_fault env (RDebit (sr_operation_id req))")
    (auto simp: rpc_debit_def with_fault_def zoom_def split: prod.splits intro: exI [of _ "w_saldo w"])

lemma rpc_credit_world:
  assumes "rpc_credit env req w = (r, w')"
  shows "\<exists>s. w' = w\<lparr>w_saldo := s\<rparr>"
  using assms
  by (cases "v_fault env (RCredit (sr_operation_id req))")
    (auto simp: rpc_credit_def with_fault_def zoom_def split: prod.splits intro: exI [of _ "w_saldo w"])

lemma rpc_debit_ok:
  assumes "rpc_debit env req w = (Inr x, w')"
  shows "debit_q (v_saldo env, req) (w_saldo w) = (Inr x, w_saldo w')"
  using assms
  by (cases "v_fault env (RDebit (sr_operation_id req))")
    (auto simp: rpc_debit_def with_fault_def zoom_def debit_q_def split: prod.splits)

lemma rpc_credit_ok:
  assumes "rpc_credit env req w = (Inr x, w')"
  shows "credit_q (v_saldo env, req) (w_saldo w) = (Inr x, w_saldo w')"
  using assms
  by (cases "v_fault env (RCredit (sr_operation_id req))")
    (auto simp: rpc_credit_def with_fault_def zoom_def credit_q_def split: prod.splits)

text \<open>A failed call moved no money, unless its reply was lost.\<close>

lemma rpc_debit_failed:
  assumes "rpc_debit env req w = (Inl e, w')" "delivered env (RDebit (sr_operation_id req))"
  shows "money_same w w'"
  using assms
  by (cases "v_fault env (RDebit (sr_operation_id req))")
    (auto simp: rpc_debit_def with_fault_def zoom_def delivered_def money_same_def w_bal_def w_posted_def
      debit_q_def split: prod.splits
      dest: saldo_mover.debit_error [of "(v_saldo env, req)", unfolded debit_q_def, simplified])

lemma rpc_credit_failed:
  assumes "rpc_credit env req w = (Inl e, w')" "delivered env (RCredit (sr_operation_id req))"
  shows "money_same w w'"
  using assms
  by (cases "v_fault env (RCredit (sr_operation_id req))")
    (auto simp: rpc_credit_def with_fault_def zoom_def delivered_def money_same_def w_bal_def w_posted_def
      credit_q_def split: prod.splits
      dest: saldo_mover.credit_error [of "(v_saldo env, req)", unfolded credit_q_def, simplified])

lemma request_opid_nonempty: "sr_operation_id req \<noteq> [] \<Longrightarrow> request_opid (e, req) = sr_operation_id req"
  by (simp add: request_opid_def mutation_of_request_def)

lemma request_amount_fits: "fits_int64 (sr_amount req) \<Longrightarrow> request_amount (e, req) = sr_amount req"
  by (simp add: request_amount_def amount_to_int64_def)

lemma rpc_debit_moves:
  assumes "rpc_debit env req w = (Inr x, w')" "sr_operation_id req \<noteq> []" "fits_int64 (sr_amount req)"
    and "\<not> w_posted w True (sr_operation_id req) (sr_card req)"
  shows "w_bal w' = (w_bal w)(sr_card req := map_option (\<lambda>b. b - sr_amount req) (w_bal w (sr_card req)))"
    and "w_posted w' d p c \<longleftrightarrow> w_posted w d p c \<or> d \<and> p = sr_operation_id req \<and> c = sr_card req"
    and "\<exists>b. w_bal w (sr_card req) = Some b \<and> sr_amount req \<le> b"
  using saldo_mover.debit_new [OF rpc_debit_ok [OF assms(1)]] assms(2-4)
  by (auto simp: w_bal_def w_posted_def request_opid_nonempty request_amount_fits)

lemma rpc_credit_moves:
  assumes "rpc_credit env req w = (Inr x, w')" "sr_operation_id req \<noteq> []" "fits_int64 (sr_amount req)"
    and "\<not> w_posted w False (sr_operation_id req) (sr_card req)"
  shows "w_bal w' = (w_bal w)(sr_card req := map_option (\<lambda>b. b + sr_amount req) (w_bal w (sr_card req)))"
    and "w_posted w' d p c \<longleftrightarrow> w_posted w d p c \<or> \<not> d \<and> p = sr_operation_id req \<and> c = sr_card req"
    and "\<exists>b. w_bal w (sr_card req) = Some b"
  using saldo_mover.credit_new [OF rpc_credit_ok [OF assms(1)]] assms(2-4)
  by (auto simp: w_bal_def w_posted_def request_opid_nonempty request_amount_fits)

section \<open>The row of one command\<close>

definition cur :: "int \<Rightarrow> 'a cmd_row_scheme cmd_world \<Rightarrow> 'a cmd_row_scheme list" where
  "cur i w = filter (\<lambda>r. row_id r = i) (t_rows (w_table w))"

lemma cur_update [simp]:
  "cur i (w\<lparr>w_saldo := s\<rparr>) = cur i w"
  "cur i (w\<lparr>w_idem := x\<rparr>) = cur i w"
  "cur i (w\<lparr>w_outbox := ob\<rparr>) = cur i w"
  "cur i (w\<lparr>w_marks := m\<rparr>) = cur i w"
  by (simp_all add: cur_def)

lemma cur_fresh: "table_wf (w_table w) \<Longrightarrow> cur (t_seq (w_table w)) w = []"
  by (auto simp: cur_def filter_empty_conv dest: table_wf_fresh)

lemma money_w_table [simp]:
  "w_bal (w\<lparr>w_table := tb\<rparr>) = w_bal w"
  "w_posted (w\<lparr>w_table := tb\<rparr>) = w_posted w"
  "w_bal (w\<lparr>w_outbox := ob\<rparr>) = w_bal w"
  "w_posted (w\<lparr>w_outbox := ob\<rparr>) = w_posted w"
  "w_bal (w\<lparr>w_idem := x\<rparr>) = w_bal w"
  "w_posted (w\<lparr>w_idem := x\<rparr>) = w_posted w"
  "w_bal (w\<lparr>w_marks := m\<rparr>) = w_bal w"
  "w_posted (w\<lparr>w_marks := m\<rparr>) = w_posted w"
  by (simp_all add: w_bal_def w_posted_def)

lemma filter_update_where:
  "(\<And>x. q (f x) = q x) \<Longrightarrow> filter q (update_where p f xs) = update_where p f (filter q xs)"
  by (induction xs) (auto simp: update_where_simps)

lemma rpc_debit_cur: "rpc_debit env req w = (r, w') \<Longrightarrow> cur i w' = cur i w"
  by (auto dest!: rpc_debit_world)

lemma rpc_credit_cur: "rpc_credit env req w = (r, w') \<Longrightarrow> cur i w' = cur i w"
  by (auto dest!: rpc_credit_world)

lemma guard_sql_cur:
  assumes "guard_status_sql now i from to reason tb = (res, tb')"
    and "filter (\<lambda>r. row_id r = i) (t_rows tb) = [x]" "row_live x"
  shows "row_status x = from \<and> res = Inr (guard_row now to reason x)
        \<and> filter (\<lambda>r. row_id r = i) (t_rows tb') = [guard_row now to reason x]
     \<or> row_status x \<noteq> from \<and> res = Inl ErrNoRows \<and> tb' = tb"
proof -
  let ?p = "\<lambda>r. row_id r = i \<and> row_status r = from \<and> row_live r"
  have x: "r = x" if "r \<in> set (t_rows tb)" "row_id r = i" for r
  proof -
    have "r \<in> set (filter (\<lambda>r. row_id r = i) (t_rows tb))" using that by simp
    then show ?thesis by (simp only: assms(2)) simp
  qed
  have mem: "x \<in> set (t_rows tb)" "row_id x = i"
    using set_filter [of "\<lambda>r. row_id r = i" "t_rows tb"] unfolding assms(2) by auto
  show ?thesis
  proof (cases "row_status x = from")
    case True
    then have "find ?p (t_rows tb) \<noteq> None" using mem assms(3) by (auto simp: find_None_iff)
    then obtain y where y: "find ?p (t_rows tb) = Some y" by blast
    with x find_Some_mem [OF y] have "y = x" by blast
    moreover have "filter (\<lambda>r. row_id r = i) (update_where ?p (guard_row now to reason) (t_rows tb)) =
        [guard_row now to reason x]"
      using True mem assms(2,3) by (simp add: filter_update_where update_where_simps)
    ultimately show ?thesis
      using True assms(1) y by (auto simp: guard_status_sql_def update_row_def)
  next
    case False
    then have "find ?p (t_rows tb) = None" using x by (auto simp: find_None_iff)
    with False assms(1) show ?thesis by (auto simp: guard_status_sql_def update_row_def)
  qed
qed

text \<open>
  What a guarded transition does to the row of its command: it is left alone, or it was in
  the status guarded and is now in the next one; the caller knows which unless the call
  failed.
\<close>

lemma guard_status_cur:
  assumes run: "guard_status env i from to reason w = (res, w')"
    and x: "cur i w = [x]" "row_live x" and i: "fits_int32 i"
  shows "\<exists>tb. w' = w\<lparr>w_table := tb\<rparr>"
    and "cur i w' = [x] \<and> res \<noteq> Inr True
       \<or> row_status x = from \<and> cur i w' = [guard_row (v_now env) to reason x]"
proof -
  obtain tb where tb: "repo_guard_status (v_fault env (RGuard from to)) (v_now env) i from to reason (w_table w) = (res, tb)"
    "w' = w\<lparr>w_table := tb\<rparr>"
    using run unfolding guard_status_def by (rule on_tableE)
  then show "\<exists>tb. w' = w\<lparr>w_table := tb\<rparr>" by blast
  show "cur i w' = [x] \<and> res \<noteq> Inr True
       \<or> row_status x = from \<and> cur i w' = [guard_row (v_now env) to reason x]"
  proof (cases "check_transition from to")
    case (Some msg)
    with tb x show ?thesis by (auto simp: repo_guard_status_def ret_def)
  next
    case None
    let ?g = "guard_status_sql (v_now env) i from to reason"
    obtain r tb1 where g: "with_fault (v_fault env (RGuard from to)) ?g (w_table w) = (r, tb1)"
      by (cases "with_fault (v_fault env (RGuard from to)) ?g (w_table w)")
    have res: "tb1 = tb" "res = (case r of Inl err \<Rightarrow> if is_no_rows err then Inr False else Inl err | Inr _ \<Rightarrow> Inr True)"
      using tb None g i
      by (auto simp: repo_guard_status_def check_transition_def try_or_def ret_def split: sum.splits if_splits)
    from with_fault_cases [OF g] guard_sql_cur [of "v_now env" i "from" to reason "w_table w"] x
    show ?thesis unfolding res(2) tb(2) res(1) [symmetric] cur_def
      by (auto split: sum.splits)
  qed
qed

lemma quietE:
  assumes "quiet m w = (u, w')"
  obtains r where "m w = (r, w')"
  using assms by (auto simp: quiet_def ret_def elim: and_thenE)

lemma quiet_guard:
  assumes "quiet (guard_status env i from to reason) w = (u, w')"
    and "cur i w = [x]" "row_live x" "fits_int32 i"
  shows "w_bal w' = w_bal w \<and> w_posted w' = w_posted w
    \<and> (cur i w' = [x] \<or> row_status x = from \<and> cur i w' = [guard_row (v_now env) to reason x])"
proof -
  from assms(1) obtain r where g: "guard_status env i from to reason w = (r, w')" by (rule quietE)
  show ?thesis using guard_status_cur [OF g assms(2-4)] by auto
qed

lemma transition_status_cur:
  assumes run: "transition_status env i from to reason w = (res, w')"
    and x: "cur i w = [x]" "row_live x" and i: "fits_int32 i"
  shows "\<exists>tb. w' = w\<lparr>w_table := tb\<rparr>"
    and "res = Inr r \<Longrightarrow> row_status x = from \<and> r = guard_row (v_now env) to reason x \<and> cur i w' = [r]"
    and "cur i w' = [x] \<or> row_status x = from \<and> cur i w' = [guard_row (v_now env) to reason x]"
proof -
  obtain tb where tb: "repo_transition_status (v_fault env (RTransition from to)) (v_now env) i from to reason (w_table w) = (res, tb)"
    "w' = w\<lparr>w_table := tb\<rparr>"
    using run unfolding transition_status_def by (rule on_tableE)
  then show "\<exists>tb. w' = w\<lparr>w_table := tb\<rparr>" by blast
  have "(res = Inr r \<longrightarrow> row_status x = from \<and> r = guard_row (v_now env) to reason x \<and> cur i w' = [r])
      \<and> (cur i w' = [x] \<or> row_status x = from \<and> cur i w' = [guard_row (v_now env) to reason x])" for r
  proof (cases "check_transition from to")
    case (Some msg)
    with tb x show ?thesis by (auto simp: repo_transition_status_def ret_def)
  next
    case None
    have g: "with_fault (v_fault env (RTransition from to)) (guard_status_sql (v_now env) i from to reason)
        (w_table w) = (res, tb)"
      using tb None i by (simp add: repo_transition_status_def check_transition_def split: if_splits)
    from with_fault_cases [OF g] guard_sql_cur [of "v_now env" i "from" to reason "w_table w"] x
    show ?thesis unfolding tb(2) cur_def by auto
  qed
  then show "res = Inr r \<Longrightarrow> row_status x = from \<and> r = guard_row (v_now env) to reason x \<and> cur i w' = [r]"
    and "cur i w' = [x] \<or> row_status x = from \<and> cur i w' = [guard_row (v_now env) to reason x]"
    by blast+
qed

text \<open>A new row takes the next id, which no row has yet.\<close>

lemma create_row_cur:
  assumes run: "on_table (call_or_failed fl operation (insert_row mk fits)) w = (res, w')"
    and id: "\<And>i. row_id (mk i) = i"
  shows "\<exists>tb. w' = w\<lparr>w_table := tb\<rparr>"
    and "res = Inr r \<Longrightarrow> table_wf (w_table w) \<Longrightarrow>
         r = mk (t_seq (w_table w)) \<and> cur (t_seq (w_table w)) w' = [r] \<and> t_seq (w_table w) \<le> 2147483647"
proof -
  obtain tb where tb: "call_or_failed fl operation (insert_row mk fits) (w_table w) = (res, tb)"
      "w' = w\<lparr>w_table := tb\<rparr>"
    using run by (rule on_tableE)
  then show "\<exists>tb. w' = w\<lparr>w_table := tb\<rparr>" by blast
  assume r: "res = Inr r" and wf: "table_wf (w_table w)"
  have "with_fault fl (insert_row mk fits) (w_table w) = (Inr r, tb)"
    using tb(1) r unfolding call_or_failed_def by (auto simp: ret_def elim: try_orE)
  then have "insert_row mk fits (w_table w) = (Inr r, tb)"
    using with_fault_cases by fastforce
  then have "r = mk (t_seq (w_table w))" "t_rows tb = t_rows (w_table w) @ [r]" "t_seq (w_table w) \<le> 2147483647"
    by (auto simp: insert_row_def split: if_splits)
  then show "r = mk (t_seq (w_table w)) \<and> cur (t_seq (w_table w)) w' = [r] \<and> t_seq (w_table w) \<le> 2147483647"
    using cur_fresh [OF wf] id tb(2) by (simp add: cur_def)
qed

lemma create_row_failed:
  assumes run: "on_table (call_or_failed fl operation (insert_row mk fits)) w = (res, w')"
    and id: "\<And>i. row_id (mk i) = i" and wf: "table_wf (w_table w)"
    and y: "y \<in> set (cur (t_seq (w_table w)) w')"
  shows "y = mk (t_seq (w_table w))"
proof -
  obtain tb where tb: "call_or_failed fl operation (insert_row mk fits) (w_table w) = (res, tb)"
      "w' = w\<lparr>w_table := tb\<rparr>"
    using run by (rule on_tableE)
  obtain r tb1 where g: "with_fault fl (insert_row mk fits) (w_table w) = (r, tb1)"
    by (cases "with_fault fl (insert_row mk fits) (w_table w)")
  have "tb = tb1"
    using tb(1) g by (auto simp: call_or_failed_def try_or_def ret_def split: sum.splits)
  moreover have "row_id r \<noteq> t_seq (w_table w)" if "r \<in> set (t_rows (w_table w))" for r
    using table_wf_fresh [OF wf that] .
  ultimately show ?thesis
    using with_fault_cases [OF g] y id
    by (auto simp: tb(2) cur_def insert_row_def split: if_splits)
qed

end
