(* ===== verification/Settlement.thy ===== *)
theory Settlement
  imports CommandWorld
begin

text \<open>
  What the settlements of the financial services share: the effect of one accepted leg on
  the balances, the row of a command in compensation, and what the status of a row is
  required to say about the money.
\<close>

section \<open>Money moved\<close>

definition moved :: "(string \<Rightarrow> int option) \<Rightarrow> string \<Rightarrow> int \<Rightarrow> string \<Rightarrow> int option" where
  "moved b c x = b(c := map_option (\<lambda>v. v + x) (b c))"

lemma moved_back [simp]: "moved (moved b c x) c (- x) = b" "moved (moved b c (- x)) c x = b"
  by (auto simp: moved_def fun_eq_iff option.map_comp comp_def option.map_ident)

lemma moved_commute: "moved (moved b c x) d y = moved (moved b d y) c x"
  by (auto simp: moved_def fun_eq_iff option.map_comp comp_def ac_simps)

lemma moved_back2 [simp]: "moved (moved (moved (moved b c (- x)) d x) c x) d (- x) = b"
  by (simp add: moved_commute [of _ d x c x])

lemma debit_moved:
  assumes "rpc_debit env req w = (Inr x, w')" "sr_operation_id req \<noteq> []" "fits_int64 (sr_amount req)"
    and "\<not> w_posted w True (sr_operation_id req) (sr_card req)"
  shows "w_bal w' = moved (w_bal w) (sr_card req) (- sr_amount req)"
    and "w_posted w' d p e \<longleftrightarrow> w_posted w d p e \<or> d \<and> p = sr_operation_id req \<and> e = sr_card req"
    and "\<exists>b. w_bal w (sr_card req) = Some b \<and> sr_amount req \<le> b"
  using rpc_debit_moves [OF assms] by (simp_all add: moved_def)

lemma credit_moved:
  assumes "rpc_credit env req w = (Inr x, w')" "sr_operation_id req \<noteq> []" "fits_int64 (sr_amount req)"
    and "\<not> w_posted w False (sr_operation_id req) (sr_card req)"
  shows "w_bal w' = moved (w_bal w) (sr_card req) (sr_amount req)"
    and "w_posted w' d p e \<longleftrightarrow> w_posted w d p e \<or> \<not> d \<and> p = sr_operation_id req \<and> e = sr_card req"
    and "\<exists>b. w_bal w (sr_card req) = Some b"
  using rpc_credit_moves [OF assms] by (simp_all add: moved_def)

section \<open>The row of a command\<close>

text \<open>A row in compensation stays there or is quarantined as unknown.\<close>

definition held :: "int \<Rightarrow> 'a cmd_row_scheme cmd_world \<Rightarrow> bool" where
  "held i w \<longleftrightarrow> (\<exists>y. cur i w = [y] \<and> row_live y \<and> (row_status y = st_compensating \<or> row_status y = st_unknown))"

definition compensated :: "int \<Rightarrow> 'a cmd_row_scheme cmd_world \<Rightarrow> bool" where
  "compensated i w \<longleftrightarrow> (\<exists>y. cur i w = [y] \<and> row_live y \<and> row_status y = st_compensated)"

definition compensating :: "int \<Rightarrow> 'a cmd_row_scheme cmd_world \<Rightarrow> bool" where
  "compensating i w \<longleftrightarrow> (\<exists>y. cur i w = [y] \<and> row_live y \<and> row_status y = st_compensating)"

lemma compensating_saldo [simp]: "compensating i (w\<lparr>w_saldo := s\<rparr>) = compensating i w"
  by (simp add: compensating_def)

lemma quarantine:
  assumes "quiet (guard_status env i st_compensating st_unknown reason) w = (u, w')"
    and "compensating i w" "fits_int32 i"
  shows "held i w'"
proof -
  from assms(2) obtain x where x: "cur i w = [x]" "row_live x" "row_status x = st_compensating"
    by (auto simp: compensating_def)
  from quiet_guard [OF assms(1) x(1,2) assms(3)] x show ?thesis by (auto simp: held_def)
qed

lemma finalize:
  assumes "quiet (guard_status env i st_compensating st_compensated []) w = (u, w')"
    and "compensating i w" "fits_int32 i"
  shows "w_bal w' = w_bal w" "held i w' \<or> compensated i w'"
proof -
  from assms(2) obtain x where x: "cur i w = [x]" "row_live x" "row_status x = st_compensating"
    by (auto simp: compensating_def)
  from quiet_guard [OF assms(1) x(1,2) assms(3)] x
  show "w_bal w' = w_bal w" "held i w' \<or> compensated i w'" by (auto simp: held_def compensated_def)
qed

text \<open>
  The contract of a settlement: a row that reads pending, failed or compensated says that
  no money moved, and one that reads success says that the whole settlement was posted.
  The quarantined statuses (processing, compensating, unknown) promise nothing.
\<close>

definition truthful ::
  "int \<Rightarrow> ((string \<Rightarrow> int option) \<Rightarrow> bool) \<Rightarrow> (string \<Rightarrow> int option) \<Rightarrow> 'a cmd_row_scheme cmd_world \<Rightarrow> bool" where
  "truthful i settled b w \<longleftrightarrow>
     (\<forall>y \<in> set (cur i w).
        (row_status y \<in> {st_pending, st_failed, st_compensated} \<longrightarrow> w_bal w = b)
        \<and> (row_status y = st_success \<longrightarrow> settled (w_bal w)))"

text \<open>With what the caller is told: a result is the row, and it reads success.\<close>

definition settled_by ::
  "int \<Rightarrow> ((string \<Rightarrow> int option) \<Rightarrow> bool) \<Rightarrow> (string \<Rightarrow> int option) \<Rightarrow>
   (go_error + 'a cmd_row_scheme) \<Rightarrow> 'a cmd_row_scheme cmd_world \<Rightarrow> bool" where
  "settled_by i settled b res w \<longleftrightarrow> truthful i settled b w
     \<and> (\<forall>row. res = Inr row \<longrightarrow> cur i w = [row] \<and> row_status row = st_success)"

lemmas settled_defs = settled_by_def truthful_def

lemma settled_by_idem [simp]: "settled_by i settled b res (w\<lparr>w_idem := tb\<rparr>) = settled_by i settled b res w"
  by (simp add: settled_defs)

interpretation idem_store: store_lens w_idem "\<lambda>tb (w :: 'a cmd_world). w\<lparr>w_idem := tb\<rparr>"
  by unfold_locales simp_all

text \<open>
  A command that is answered from the store: it changed nothing but the idempotency table,
  and the row it returned is the one recorded there for its key and its payload.
\<close>

definition replays ::
  "string \<Rightarrow> string \<Rightarrow> string \<Rightarrow> 'a \<Rightarrow> 'a cmd_world \<Rightarrow> 'a cmd_world \<Rightarrow> bool" where
  "replays scope key hash row w w' \<longleftrightarrow> key \<noteq> [] \<and> w' = w\<lparr>w_idem := w_idem w'\<rparr>
     \<and> (\<exists>x \<in> set (w_idem w'). has_key scope key x \<and> i_hash x = hash \<and> i_status x = idem_success
          \<and> i_response x = Some row)"

lemma idem_answer_stored:
  assumes "idem_answer now fl scope key hash tb = Inr row"
  shows "\<exists>x \<in> set tb. has_key scope key x \<and> i_hash x = hash \<and> i_status x = idem_success \<and> i_response x = Some row"
  using assms
  by (auto simp: idem_answer_def get_idempotency_def dest!: find_Some_mem split: option.splits sum.splits if_splits)

lemma replays_same:
  assumes "replays scope key hash row w w'"
  shows "w_table w' = w_table w" "w_bal w' = w_bal w"
proof -
  from assms have "w' = w\<lparr>w_idem := w_idem w'\<rparr>" by (simp add: replays_def)
  then obtain tb where w': "w' = w\<lparr>w_idem := tb\<rparr>" by blast
  show "w_table w' = w_table w" "w_bal w' = w_bal w" by (simp_all add: w')
qed

lemmas replays_bal = replays_same(2)

lemma answered_replays:
  "w' = w\<lparr>w_idem := tb\<rparr> \<Longrightarrow> key \<noteq> [] \<Longrightarrow> Inr row = idem_answer now fl scope key hash tb \<Longrightarrow>
   replays scope key hash row w w'"
  using idem_answer_stored [of now fl scope key hash tb row] by (simp add: replays_def)

text \<open>A guarded command either does not run, or runs with only the idempotency table changed around it.\<close>

lemma idem_run_cases:
  fixes w :: "'a cmd_world"
  assumes "idem_run w_idem (\<lambda>tb w. w\<lparr>w_idem := tb\<rparr>) configured now fl scope key hash rid body w = (r, w')"
  obtains (answered) tb where "w' = w\<lparr>w_idem := tb\<rparr>" "key \<noteq> []" "configured" "r = idem_answer now fl scope key hash tb"
  | (ran) tb se w2 tb' where "body (w\<lparr>w_idem := tb\<rparr>) = ((se, r), w2)" "w' = w2\<lparr>w_idem := tb'\<rparr>"
proof (cases "key = [] \<or> \<not> configured")
  case True
  obtain se res w2 where "body w = ((se, res), w2)" by (metis prod.exhaust)
  with True assms show ?thesis
    by (intro ran [of "w_idem w" se w2 "w_idem w2"]) (auto simp: idem_run_def)
next
  case False
  have fault: "\<exists>tb. snd (with_fault f (zoom w_idem (\<lambda>tb w. w\<lparr>w_idem := tb\<rparr>) m) v) = v\<lparr>w_idem := tb\<rparr>"
    for f and m :: "(go_error, 'c, 'a idem_table) op" and v :: "'a cmd_world"
    by (cases f) (auto simp: with_fault_def zoom_def split: prod.splits intro: exI [of _ "w_idem v"])
  obtain c w1 where c: "with_fault (f_claim fl) (zoom w_idem (\<lambda>tb w. w\<lparr>w_idem := tb\<rparr>) (store_claim now scope key hash)) w = (c, w1)"
    by (metis prod.exhaust)
  with fault [of "f_claim fl" "store_claim now scope key hash" w] obtain tb where w1: "w1 = w\<lparr>w_idem := tb\<rparr>" by auto
  show ?thesis
  proof (cases c)
    case (Inl e)
    with False assms c w1 show ?thesis by (intro answered [of tb]) (auto simp: idem_run_def)
  next
    case (Inr x)
    obtain se res w2 where b: "body w1 = ((se, res), w2)" by (metis prod.exhaust)
    have "r = res \<and> (w' = w2
        \<or> (\<exists>m :: (go_error, unit, 'a idem_table) op.
            w' = snd (with_fault (f_release fl) (zoom w_idem (\<lambda>tb w. w\<lparr>w_idem := tb\<rparr>) m) w2))
        \<or> (\<exists>m :: (go_error, unit, 'a idem_table) op.
            w' = snd (with_fault (f_complete fl) (zoom w_idem (\<lambda>tb w. w\<lparr>w_idem := tb\<rparr>) m) w2)))"
      using False assms c Inr b by (auto simp: idem_run_def split: sum.splits if_splits)
    then have "r = res \<and> (\<exists>tb'. w' = w2\<lparr>w_idem := tb'\<rparr>)"
      using fault by (auto intro: exI [of _ "w_idem w2"])
    with b w1 show ?thesis by (auto intro: ran)
  qed
qed

lemma rpc_find_saldo_found:
  assumes "rpc_find_saldo env c w = (Inr s, w')"
  shows "w' = w \<and> s_card s = c \<and> c \<noteq> []"
proof -
  have "adapter_find_by_card_number c (w_saldo w) = Inr s \<and> w' = w"
    using assms by (cases "v_fault env (RFindSaldo c)") (auto simp: rpc_find_saldo_def with_fault_def)
  then show ?thesis
    by (auto simp: adapter_find_by_card_number_def handle_find_by_card_number_def svc_find_by_card_number_def
        map_saldo_response_def get_saldo_by_card_number_def active_card_def
        split: sum.splits option.splits if_splits dest!: find_Some_mem)
qed

lemma fail_with_run [simp]: "fail_with se err w = ((se, Inl (handle_error (Some err))), w)"
  by (simp add: fail_with_def ret_def)

lemma enqueue_event_world: "\<exists>ob. enqueue_event env aty aid ety p w = w\<lparr>w_outbox := ob\<rparr>"
  by (cases "v_fault env (ROutbox ety)")
    (auto simp: enqueue_event_def with_fault_def zoom_def split: prod.splits intro: exI [of _ "w_outbox w"])

lemma enqueue_event_same [simp]:
  "cur i (enqueue_event env aty aid ety p w) = cur i w"
  "w_bal (enqueue_event env aty aid ety p w) = w_bal w"
  "w_posted (enqueue_event env aty aid ety p w) = w_posted w"
  "w_table (enqueue_event env aty aid ety p w) = w_table w"
  "w_idem (enqueue_event env aty aid ety p w) = w_idem w"
  "w_marks (enqueue_event env aty aid ety p w) = w_marks w"
  using enqueue_event_world [of env aty aid ety p w] by auto

section \<open>Statuses written without a guard\<close>

lemma update_status_cur:
  assumes run: "on_table (repo_update_status fl entity now i st) w = (res, w')"
    and x: "cur i w = [x]" "row_live x" and i: "fits_int32 i"
  shows "\<exists>tb. w' = w\<lparr>w_table := tb\<rparr>"
    and "res = Inr r \<Longrightarrow> r = set_status now st x \<and> cur i w' = [r]"
    and "cur i w' = [x] \<or> cur i w' = [set_status now st x]"
    and "fl = Deliver \<Longrightarrow> res = Inr (set_status now st x) \<and> cur i w' = [set_status now st x]"
proof -
  obtain tb where tb: "repo_update_status fl entity now i st (w_table w) = (res, tb)" "w' = w\<lparr>w_table := tb\<rparr>"
    using run by (rule on_tableE)
  then show "\<exists>tb. w' = w\<lparr>w_table := tb\<rparr>" by blast
  obtain q tb1 where g: "with_fault fl (update_status_sql now i st) (w_table w) = (q, tb1)" by (metis prod.exhaust)
  have res: "tb1 = tb" "\<And>r. res = Inr r \<longleftrightarrow> q = Inr r"
    using tb g i
    by (auto simp: repo_update_status_def row_or_failed_def try_or_def ret_def split: sum.splits)
  have mem: "x \<in> set (t_rows (w_table w))" "row_id x = i"
    using set_filter [of "\<lambda>r. row_id r = i" "t_rows (w_table w)"] x(1) unfolding cur_def by auto
  have only: "r = x" if "r \<in> set (t_rows (w_table w))" "row_id r = i" for r
  proof -
    have "r \<in> set (cur i w)" using that by (simp add: cur_def)
    then show ?thesis by (simp add: x(1))
  qed
  have "find (live_id i) (t_rows (w_table w)) = Some x"
  proof (cases "find (live_id i) (t_rows (w_table w))")
    case None
    with mem x(2) show ?thesis by (auto simp: find_None_iff live_id_def)
  next
    case (Some y)
    with only find_Some_mem [OF Some] show ?thesis by (auto simp: live_id_def)
  qed
  then have upd: "update_status_sql now i st (w_table w) =
      (Inr (set_status now st x), (w_table w)\<lparr>t_rows := update_where (live_id i) (set_status now st) (t_rows (w_table w))\<rparr>)"
    by (simp add: update_status_sql_def update_row_def)
  have "filter (\<lambda>r. row_id r = i) (update_where (live_id i) (set_status now st) (t_rows (w_table w))) = [set_status now st x]"
    using x mem by (simp add: cur_def filter_update_where update_where_simps live_id_def)
  with with_fault_cases [OF g] upd g x res(1)
  have "q = Inr (set_status now st x) \<and> cur i w' = [set_status now st x]
      \<or> (\<exists>e. q = Inl e) \<and> (cur i w' = [x] \<or> cur i w' = [set_status now st x]) \<and> fl \<noteq> Deliver"
    unfolding tb(2) by (cases fl) (auto simp: cur_def with_fault_def)
  with res(2) show "res = Inr r \<Longrightarrow> r = set_status now st x \<and> cur i w' = [r]"
    and "cur i w' = [x] \<or> cur i w' = [set_status now st x]"
    and "fl = Deliver \<Longrightarrow> res = Inr (set_status now st x) \<and> cur i w' = [set_status now st x]"
    by auto
qed

text \<open>A queued failure marker that reaches the database leaves its live row failed.\<close>

lemma run_mark_failed:
  assumes "w_marks w = [i]" "cur i w = [x]" "row_live x" "fits_int32 i"
    and "v_fault env (RUpdateStatus st_failed) = Deliver"
  shows "map row_status (cur i (run_mark env entity w)) = [st_failed]"
    and "w_bal (run_mark env entity w) = w_bal w"
proof -
  let ?w = "w\<lparr>w_marks := []\<rparr>"
  obtain res w' where run: "on_table (repo_update_status Deliver entity (v_now env) i st_failed) ?w = (res, w')"
    by (metis prod.exhaust)
  have x: "cur i ?w = [x]" using assms(2) by simp
  note u = update_status_cur [OF run x assms(3,4)]
  have "run_mark env entity w = w'" using assms(1,5) run by (simp add: run_mark_def)
  with u(1) u(4) [OF refl] show "map row_status (cur i (run_mark env entity w)) = [st_failed]"
    and "w_bal (run_mark env entity w) = w_bal w" by auto
qed

section \<open>Runs that stay inside a relation\<close>

text \<open>
  A reflexive and transitive relation on worlds that every step of a command respects is
  respected by the whole command: the rules follow the combinators, so a proof about a
  service function is the list of its steps.
\<close>

locale run_relation =
  fixes R :: "'w \<Rightarrow> 'w \<Rightarrow> bool"
  assumes run_refl: "R w w"
    and run_trans: "R u v \<Longrightarrow> R v w \<Longrightarrow> R u w"
begin

definition within :: "('w \<Rightarrow> 'r \<times> 'w) \<Rightarrow> bool" where
  "within m \<longleftrightarrow> (\<forall>w. R w (snd (m w)))"

lemma withinD: "within m \<Longrightarrow> m w = (r, w') \<Longrightarrow> R w w'"
  unfolding within_def by (metis snd_conv)

lemma withinI: "(\<And>w r w'. m w = (r, w') \<Longrightarrow> R w w') \<Longrightarrow> within m"
  unfolding within_def by (metis prod.collapse)

lemma within_ret: "within (ret r)"
  by (simp add: within_def ret_def run_refl)

lemma within_and_then: "within m \<Longrightarrow> (\<And>r. within (k r)) \<Longrightarrow> within (and_then m k)"
  unfolding within_def and_then_def by (auto split: prod.splits) (metis run_trans snd_conv)

lemma within_try_or:
  "within m \<Longrightarrow> (\<And>e. within (h e)) \<Longrightarrow> (\<And>x. within (k x)) \<Longrightarrow> within (try_or m h k)"
  unfolding within_def try_or_def
  by (auto split: prod.splits sum.splits) (metis run_trans snd_conv)+

lemma within_quiet: "within m \<Longrightarrow> within (quiet m)"
  unfolding quiet_def by (intro within_and_then within_ret)

lemma within_fail: "within (fail_with se err)"
  unfolding fail_with_def by (rule within_ret)

lemma within_if: "(b \<Longrightarrow> within m) \<Longrightarrow> (\<not> b \<Longrightarrow> within m') \<Longrightarrow> within (if b then m else m')"
  by simp

lemma within_sum: "(\<And>e. within (h e)) \<Longrightarrow> (\<And>x. within (k x)) \<Longrightarrow> within (case r of Inl e \<Rightarrow> h e | Inr x \<Rightarrow> k x)"
  by (cases r) simp_all

lemma within_option: "within h \<Longrightarrow> (\<And>x. within (k x)) \<Longrightarrow> within (case r of None \<Rightarrow> h | Some x \<Rightarrow> k x)"
  by (cases r) simp_all

lemmas within_intros =
  within_ret within_and_then within_try_or within_quiet within_fail within_if within_sum within_option

end

text \<open>
  What a create command may do to the command rows: a row it did not insert keeps its
  identity, its data and its deletion mark and moves along the state machine; a row it
  inserted started as pending. The idempotency table is not touched.
\<close>

definition row_evolves :: "'a cmd_row_scheme \<Rightarrow> 'a cmd_row_scheme \<Rightarrow> bool" where
  "row_evolves r r' \<longleftrightarrow> row_id r' = row_id r \<and> row_live r' = row_live r
     \<and> cmd_row.more r' = cmd_row.more r \<and> status_step\<^sup>*\<^sup>* (row_status r) (row_status r')"

definition commanded :: "'a cmd_row_scheme cmd_world \<Rightarrow> 'a cmd_row_scheme cmd_world \<Rightarrow> bool" where
  "commanded w w' \<longleftrightarrow>
     (let rows = t_rows (w_table w); rows' = t_rows (w_table w')
      in w_idem w' = w_idem w \<and> (table_wf (w_table w) \<longrightarrow> table_wf (w_table w'))
         \<and> length rows \<le> length rows'
         \<and> (\<forall>k < length rows. row_evolves (rows ! k) (rows' ! k))
         \<and> (\<forall>k. length rows \<le> k \<and> k < length rows' \<longrightarrow> status_step\<^sup>*\<^sup>* st_pending (row_status (rows' ! k))))"

lemma row_evolves_refl [simp]: "row_evolves r r"
  by (simp add: row_evolves_def)

lemma row_evolves_trans: "row_evolves r s \<Longrightarrow> row_evolves s t \<Longrightarrow> row_evolves r t"
  unfolding row_evolves_def by (auto intro: rtranclp_trans)

lemma commanded_refl [simp]: "commanded w w"
  by (auto simp: commanded_def Let_def)

lemma commanded_trans:
  assumes uv: "commanded u v" and vw: "commanded v w"
  shows "commanded u w"
proof -
  have new: "status_step\<^sup>*\<^sup>* st_pending (row_status (t_rows (w_table w) ! k))"
    if "length (t_rows (w_table u)) \<le> k" "k < length (t_rows (w_table w))" for k
  proof (cases "k < length (t_rows (w_table v))")
    case True
    with uv vw that have "status_step\<^sup>*\<^sup>* st_pending (row_status (t_rows (w_table v) ! k))"
      "row_evolves (t_rows (w_table v) ! k) (t_rows (w_table w) ! k)"
      by (auto simp: commanded_def Let_def)
    then show ?thesis by (auto simp: row_evolves_def intro: rtranclp_trans)
  next
    case False
    with vw that show ?thesis by (auto simp: commanded_def Let_def)
  qed
  moreover have "row_evolves (t_rows (w_table u) ! k) (t_rows (w_table w) ! k)"
    if "k < length (t_rows (w_table u))" for k
    using uv vw that by (auto simp: commanded_def Let_def intro: row_evolves_trans)
  ultimately show ?thesis using uv vw by (auto simp: commanded_def Let_def)
qed

interpretation command_run: run_relation commanded
  by unfold_locales (auto intro: commanded_trans)

lemma table_step_commanded: "table_step (w_table w) tb \<Longrightarrow> commanded w (w\<lparr>w_table := tb\<rparr>)"
proof -
  assume step: "table_step (w_table w) tb"
  then have len: "length (t_rows tb) = length (t_rows (w_table w))" and seq: "t_seq tb = t_seq (w_table w)"
    and rows: "\<And>k. k < length (t_rows tb) \<Longrightarrow> row_step (t_rows (w_table w) ! k) (t_rows tb ! k)"
    by (auto simp: table_step_def list_all2_conv_all_nth)
  have "row_id (t_rows tb ! k) = row_id (t_rows (w_table w) ! k)" if "k < length (t_rows tb)" for k
    using rows [OF that] by (auto simp: row_step_def)
  with len have ids: "map row_id (t_rows tb) = map row_id (t_rows (w_table w))"
    by (simp add: list_eq_iff_nth_eq)
  then have "row_id ` set (t_rows tb) = row_id ` set (t_rows (w_table w))"
    by (metis image_set)
  with ids seq have "table_wf (w_table w) \<Longrightarrow> table_wf tb"
    by (auto simp: table_wf_def) (metis image_iff)
  moreover have "row_evolves (t_rows (w_table w) ! k) (t_rows tb ! k)" if "k < length (t_rows tb)" for k
    using rows [OF that] by (auto simp: row_step_def row_evolves_def)
  ultimately show ?thesis using len by (auto simp: commanded_def Let_def)
qed

lemma insert_commanded:
  assumes run: "on_table (call_or_failed fl operation (insert_row mk fits)) w = (res, w')"
    and id: "\<And>i. row_id (mk i) = i" and st: "\<And>i. row_status (mk i) = st_pending"
  shows "commanded w w'"
proof -
  obtain tb where tb: "call_or_failed fl operation (insert_row mk fits) (w_table w) = (res, tb)"
      "w' = w\<lparr>w_table := tb\<rparr>"
    using run by (rule on_tableE)
  obtain r tb1 where g: "with_fault fl (insert_row mk fits) (w_table w) = (r, tb1)" by (metis prod.exhaust)
  have "tb = tb1"
    using tb(1) g by (auto simp: call_or_failed_def try_or_def ret_def split: sum.splits)
  obtain r2 tb2 where ins: "insert_row mk fits (w_table w) = (r2, tb2)" by (metis prod.exhaust)
  have "commanded w (w\<lparr>w_table := tb2\<rparr>)"
    using ins insert_row_wf [OF _ ins id] st
    by (auto simp: commanded_def Let_def insert_row_def nth_append split: if_splits)
  with with_fault_cases [OF g] ins \<open>tb = tb1\<close> show ?thesis by (auto simp: tb(2))
qed

lemma saldo_commanded [simp]: "commanded w (w\<lparr>w_saldo := s\<rparr>)"
  by (auto simp: commanded_def Let_def)

lemma step_within:
  "command_run.within (guard_status env i from to reason)"
  "command_run.within (transition_status env i from to reason)"
  "command_run.within (rpc_debit env req)"
  "command_run.within (rpc_credit env req)"
  "command_run.within (rpc_find_saldo env cnum)"
proof -
  show "command_run.within (rpc_debit env req)"
    by (rule command_run.withinI) (auto dest!: rpc_debit_world)
  show "command_run.within (rpc_credit env req)"
    by (rule command_run.withinI) (auto dest!: rpc_credit_world)
  show "command_run.within (guard_status env i from to reason)"
    by (rule command_run.withinI) (auto dest!: guard_status_cases intro: table_step_commanded)
  show "command_run.within (transition_status env i from to reason)"
    by (rule command_run.withinI) (auto dest!: transition_status_cases intro: table_step_commanded)
  show "command_run.within (rpc_find_saldo env cnum)"
    by (rule command_run.withinI) (auto simp: rpc_find_saldo_def with_fault_def split: fault.splits)
qed

lemma enqueue_commanded: "commanded w w' \<Longrightarrow> commanded w (enqueue_event env aty aid ety p w')"
  by (simp add: commanded_def)

text \<open>
  The commands that write statuses without a guard keep at least the idempotency table to
  the guard around them.
\<close>

definition idem_kept :: "'a cmd_row_scheme cmd_world \<Rightarrow> 'a cmd_row_scheme cmd_world \<Rightarrow> bool" where
  "idem_kept w w' \<longleftrightarrow> w_idem w' = w_idem w"

interpretation keeping_run: run_relation idem_kept
  by unfold_locales (simp_all add: idem_kept_def)

lemma idem_kept_update [simp]:
  "idem_kept w (w'\<lparr>w_table := tb\<rparr>) = idem_kept w w'"
  "idem_kept w (w'\<lparr>w_saldo := s\<rparr>) = idem_kept w w'"
  "idem_kept w (w'\<lparr>w_marks := m\<rparr>) = idem_kept w w'"
  "idem_kept w (enqueue_event env aty aid ety p w') = idem_kept w w'"
  "idem_kept w w"
  by (simp_all add: idem_kept_def)

lemma keeping_steps:
  "keeping_run.within (on_table m)"
  "keeping_run.within (rpc_debit env req)"
  "keeping_run.within (rpc_credit env req)"
  "keeping_run.within (rpc_find_saldo env cnum)"
  "keeping_run.within (with_fault fl (ret r))"
proof -
  show "keeping_run.within (rpc_debit env req)"
    by (rule keeping_run.withinI) (auto dest!: rpc_debit_world)
  show "keeping_run.within (rpc_credit env req)"
    by (rule keeping_run.withinI) (auto dest!: rpc_credit_world)
  show "keeping_run.within (on_table m)"
    by (rule keeping_run.withinI) (auto elim!: on_tableE)
  show "keeping_run.within (rpc_find_saldo env cnum)"
    by (rule keeping_run.withinI) (auto simp: rpc_find_saldo_def with_fault_def split: fault.splits)
  show "keeping_run.within (with_fault fl (ret r))"
    by (rule keeping_run.withinI) (auto simp: with_fault_def ret_def split: fault.splits)
qed

end
