(* ===== verification/Reconciliation.thy ===== *)
theory Reconciliation
  imports SaldoRepository "HOL-Library.Product_Lexorder"
begin

text \<open>
  Reconciliation of balances with the ledger: the mismatch query, the durable queue and
  its resolution (\<open>service/saldo/database/schema/ledger.go\<close>,
  \<open>service/saldo/repository/saldoCommandRepository.go\<close>) and one pass of the worker
  (\<open>shared/ledger/reconciliation.go\<close>).
\<close>

section \<open>Mismatches\<close>

record recon_row =
  rc_saldo_id :: int
  rc_card :: string
  rc_current_balance :: int
  rc_ledger_balance :: int
  rc_difference :: int
  rc_ledger_entries :: int

definition recon_row_of :: "saldo_db \<Rightarrow> saldo_row \<Rightarrow> recon_row" where
  "recon_row_of db r =
     \<lparr>rc_saldo_id = saldo_id r, rc_card = s_card r, rc_current_balance = s_balance r,
      rc_ledger_balance = ledger_total (s_card r) db,
      rc_difference = s_balance r - ledger_total (s_card r) db,
      rc_ledger_entries = ledger_count (s_card r) db\<rparr>"

definition mismatched :: "saldo_db \<Rightarrow> saldo_row \<Rightarrow> bool" where
  "mismatched db r \<longleftrightarrow> row_active r \<and> s_balance r \<noteq> ledger_total (s_card r) db"

text \<open>\<open>ORDER BY ABS(difference) DESC, saldo_id LIMIT $1\<close>\<close>

definition list_reconciliation_mismatches :: "nat \<Rightarrow> saldo_db \<Rightarrow> recon_row list" where
  "list_reconciliation_mismatches limit db =
     take limit (sort_key (\<lambda>x. (- \<bar>rc_difference x\<bar>, rc_saldo_id x))
       (map (recon_row_of db) (filter (mismatched db) (saldos db))))"

section \<open>The queue\<close>

text \<open>Open items come first in a listing: pending, investigating, then resolved ones.\<close>

fun queue_rank :: "queue_status \<Rightarrow> nat" where
  "queue_rank QPending = 0"
| "queue_rank QInvestigating = 1"
| "queue_rank QResolved = 2"

instantiation queue_status :: linorder
begin

definition less_eq_queue_status :: "queue_status \<Rightarrow> queue_status \<Rightarrow> bool" where
  "less_eq_queue_status a b \<longleftrightarrow> queue_rank a \<le> queue_rank b"

definition less_queue_status :: "queue_status \<Rightarrow> queue_status \<Rightarrow> bool" where
  "less_queue_status a b \<longleftrightarrow> queue_rank a < queue_rank b"

instance
proof
  fix a b c :: queue_status
  show "(a < b) = (a \<le> b \<and> \<not> b \<le> a)"
    by (auto simp: less_eq_queue_status_def less_queue_status_def)
  show "a \<le> a" by (simp add: less_eq_queue_status_def)
  show "a \<le> b \<Longrightarrow> b \<le> c \<Longrightarrow> a \<le> c" by (simp add: less_eq_queue_status_def)
  show "a \<le> b \<Longrightarrow> b \<le> a \<Longrightarrow> a = b"
    by (cases a; cases b) (simp_all add: less_eq_queue_status_def)
  show "a \<le> b \<or> b \<le> a" by (auto simp: less_eq_queue_status_def)
qed

end

definition queue_open :: "queue_row \<Rightarrow> bool" where
  "queue_open q \<longleftrightarrow> q_status q < QResolved"

definition refresh :: "int \<Rightarrow> recon_row \<Rightarrow> queue_row \<Rightarrow> queue_row" where
  "refresh now item q =
     q\<lparr>q_current_balance := rc_current_balance item, q_ledger_balance := rc_ledger_balance item,
       q_difference := rc_difference item, q_ledger_entries := rc_ledger_entries item,
       q_mismatch_count := q_mismatch_count q + 1, q_last_seen_at := now\<rparr>"

text \<open>
  The insert is an upsert on the partial unique index over open items of a saldo: an open
  item is refreshed and its count incremented, otherwise a pending one is added. A count
  that leaves \<open>BIGINT\<close> is an error.
\<close>

definition enqueue_reconciliation_mismatch :: "int \<Rightarrow> recon_row \<Rightarrow> (go_error, unit, saldo_db) op" where
  "enqueue_reconciliation_mismatch now item db =
     (case find (\<lambda>q. q_saldo_id q = rc_saldo_id item \<and> queue_open q) (recon_queue db) of
        Some q \<Rightarrow>
          (if \<not> fits_int64 (q_mismatch_count q + 1)
           then (Inl (DbError ''bigint out of range''), db\<lparr>recon_seq := recon_seq db + 1\<rparr>)
           else (Inr (), db\<lparr>recon_seq := recon_seq db + 1,
                   recon_queue := update_where
                     (\<lambda>q. q_saldo_id q = rc_saldo_id item \<and> queue_open q)
                     (refresh now item) (recon_queue db)\<rparr>))
      | None \<Rightarrow>
          (Inr (), db\<lparr>recon_seq := recon_seq db + 1,
             recon_queue := recon_queue db @
               [\<lparr>q_id = recon_seq db, q_saldo_id = rc_saldo_id item, q_card = rc_card item,
                 q_current_balance = rc_current_balance item,
                 q_ledger_balance = rc_ledger_balance item, q_difference = rc_difference item,
                 q_ledger_entries = rc_ledger_entries item, q_status = QPending,
                 q_mismatch_count = 1, q_first_seen_at = now, q_last_seen_at = now,
                 q_resolved_at = None, q_resolution_operation_id = None,
                 q_resolution_note = None\<rparr>]\<rparr>))"

fun queue_status_text :: "queue_status \<Rightarrow> string" where
  "queue_status_text QPending = ''pending''"
| "queue_status_text QInvestigating = ''investigating''"
| "queue_status_text QResolved = ''resolved''"

definition list_reconciliation_queue :: "string \<Rightarrow> nat \<Rightarrow> saldo_db \<Rightarrow> queue_row list" where
  "list_reconciliation_queue status limit db =
     take limit (sort_key (\<lambda>q. (queue_rank (q_status q), - q_last_seen_at q, q_id q))
       (filter (\<lambda>q. status = [] \<or> queue_status_text (q_status q) = status) (recon_queue db)))"

definition resolvable :: "saldo_db \<Rightarrow> int \<Rightarrow> queue_row \<Rightarrow> bool" where
  "resolvable db queue_id q \<longleftrightarrow>
     q_id q = queue_id \<and> queue_open q
     \<and> (\<exists>s \<in> set (saldos db). saldo_id s = q_saldo_id q \<and> row_active s
          \<and> s_balance s = ledger_total (q_card q) db)"

definition resolve_reconciliation_sql ::
  "int \<Rightarrow> int \<Rightarrow> string \<Rightarrow> string \<Rightarrow> (go_error, unit, saldo_db) op" where
  "resolve_reconciliation_sql now queue_id op_id note db =
     (if length op_id > 128 then (Inl (DbError ''value too long''), db)
      else if \<not> (\<exists>q \<in> set (recon_queue db). resolvable db queue_id q) then (Inl ErrNoRows, db)
      else (Inr (), db\<lparr>recon_queue := update_where (resolvable db queue_id)
              (\<lambda>q. q\<lparr>q_status := QResolved, q_resolved_at := Some now,
                     q_resolution_operation_id := Some op_id,
                     q_resolution_note := nullif_empty note\<rparr>) (recon_queue db)\<rparr>))"

definition repo_resolve_reconciliation ::
  "int \<Rightarrow> int \<Rightarrow> string \<Rightarrow> string \<Rightarrow> (go_error, unit, saldo_db) op" where
  "repo_resolve_reconciliation now queue_id op_id note =
     (if queue_id \<le> 0 \<or> op_id = []
      then ret (Inl (new_bad_request_error ''queue ID and operation ID are required''))
      else try_or (resolve_reconciliation_sql now queue_id op_id note)
        (\<lambda>err. ret (Inl (err_no_rows_or_failed err ''reconciliation queue item'' ''resolve reconciliation'')))
        (\<lambda>_. ret (Inr ())))"

section \<open>The worker\<close>

record reconciler =
  rec_interval :: int
  rec_batch_size :: int

definition new_reconciler :: "int \<Rightarrow> int \<Rightarrow> reconciler" where
  "new_reconciler interval batch_size =
     \<lparr>rec_interval = (if interval \<le> 0 then 5 * minute else interval),
      rec_batch_size = (if batch_size \<le> 0 then 100 else batch_size)\<rparr>"

text \<open>\<open>RunOnce\<close>: errors of single items are logged and the pass goes on.\<close>

fun enqueue_all :: "int \<Rightarrow> recon_row list \<Rightarrow> saldo_db \<Rightarrow> saldo_db" where
  "enqueue_all now [] db = db"
| "enqueue_all now (m # ms) db = enqueue_all now ms (snd (enqueue_reconciliation_mismatch now m db))"

definition run_once :: "int \<Rightarrow> reconciler \<Rightarrow> saldo_db \<Rightarrow> saldo_db" where
  "run_once now r db = enqueue_all now (list_reconciliation_mismatches (nat (rec_batch_size r)) db) db"

section \<open>Lemmas\<close>

lemma mismatches_sound:
  "x \<in> set (list_reconciliation_mismatches n db) \<Longrightarrow>
   \<exists>r \<in> set (saldos db). mismatched db r \<and> x = recon_row_of db r"
  by (auto simp: list_reconciliation_mismatches_def dest!: in_set_takeD)

lemma mismatches_complete:
  "length (filter (mismatched db) (saldos db)) \<le> n \<Longrightarrow>
   set (list_reconciliation_mismatches n db) = recon_row_of db ` {r \<in> set (saldos db). mismatched db r}"
  by (simp add: list_reconciliation_mismatches_def)

lemma reconciled_no_mismatch: "reconciled db \<Longrightarrow> list_reconciliation_mismatches n db = []"
proof -
  assume "reconciled db"
  then have "filter (mismatched db) (saldos db) = []"
    by (auto simp: reconciled_def mismatched_def filter_empty_conv)
  then show ?thesis by (simp add: list_reconciliation_mismatches_def)
qed

text \<open>At most one open item per saldo, as the partial unique index demands.\<close>

definition open_unique :: "saldo_db \<Rightarrow> bool" where
  "open_unique db \<longleftrightarrow> distinct (map q_saldo_id (filter queue_open (recon_queue db)))"

lemma enqueue_open_unique:
  assumes "open_unique db" "enqueue_reconciliation_mismatch now item db = (res, db')"
  shows "open_unique db'"
proof (cases "find (\<lambda>q. q_saldo_id q = rc_saldo_id item \<and> queue_open q) (recon_queue db)")
  case None
  then have "rc_saldo_id item \<notin> q_saldo_id ` set (filter queue_open (recon_queue db))"
    by (auto simp: find_None_iff)
  with None assms show ?thesis
    by (auto simp: enqueue_reconciliation_mismatch_def open_unique_def)
next
  case (Some q)
  have keep: "map q_saldo_id (filter queue_open (update_where p (refresh now item) qs)) =
      map q_saldo_id (filter queue_open qs)" for p qs
    by (induction qs) (auto simp: update_where_simps queue_open_def refresh_def)
  from Some assms show ?thesis
    by (auto simp: enqueue_reconciliation_mismatch_def open_unique_def keep split: if_splits)
qed

lemma enqueue_all_open_unique: "open_unique db \<Longrightarrow> open_unique (enqueue_all now ms db)"
  by (induction ms arbitrary: db) (simp_all add: enqueue_open_unique [OF _ surjective_pairing])

lemma enqueue_keeps_money:
  "enqueue_reconciliation_mismatch now item db = (res, db') \<Longrightarrow> saldos db' = saldos db \<and> ledger db' = ledger db"
  by (auto simp: enqueue_reconciliation_mismatch_def split: option.splits if_splits)

lemma enqueue_all_keeps_money:
  "saldos (enqueue_all now ms db) = saldos db \<and> ledger (enqueue_all now ms db) = ledger db"
proof (induction ms arbitrary: db)
  case (Cons m ms)
  obtain res db1 where "enqueue_reconciliation_mismatch now m db = (res, db1)"
    by (cases "enqueue_reconciliation_mismatch now m db")
  with Cons.IH [of db1] show ?case by (simp add: enqueue_keeps_money)
qed simp

lemma enqueue_has_open:
  assumes "enqueue_reconciliation_mismatch now item db = (res, db')"
  shows "\<exists>q \<in> set (recon_queue db'). q_saldo_id q = rc_saldo_id item \<and> queue_open q"
proof (cases "find (\<lambda>q. q_saldo_id q = rc_saldo_id item \<and> queue_open q) (recon_queue db)")
  case None
  with assms show ?thesis
    by (auto simp: enqueue_reconciliation_mismatch_def queue_open_def less_queue_status_def)
next
  case (Some q)
  from find_Some_mem [OF Some] have q: "q \<in> set (recon_queue db)" "q_saldo_id q = rc_saldo_id item" "queue_open q"
    by auto
  have "\<exists>f. (\<forall>x. q_saldo_id (f x) = q_saldo_id x \<and> q_status (f x) = q_status x)
      \<and> recon_queue db' = update_where (\<lambda>_. True) f (recon_queue db)"
  proof (cases "fits_int64 (q_mismatch_count q + 1)")
    case False
    with Some assms show ?thesis
      by (intro exI [of _ id]) (auto simp: enqueue_reconciliation_mismatch_def update_where_def)
  next
    case True
    with Some assms have "recon_queue db' = update_where
        (\<lambda>q. q_saldo_id q = rc_saldo_id item \<and> queue_open q) (refresh now item) (recon_queue db)"
      by (auto simp: enqueue_reconciliation_mismatch_def)
    then show ?thesis
      by (intro exI [of _ "\<lambda>q. if q_saldo_id q = rc_saldo_id item \<and> queue_open q then refresh now item q else q"])
        (simp add: update_where_def refresh_def)
  qed
  then obtain f where "\<forall>x. q_saldo_id (f x) = q_saldo_id x \<and> q_status (f x) = q_status x"
      "recon_queue db' = update_where (\<lambda>_. True) f (recon_queue db)"
    by blast
  with q show ?thesis
    by (intro bexI [of _ "f q"]) (simp_all add: queue_open_def update_where_def)
qed

lemma enqueue_keeps_open:
  assumes "q \<in> set (recon_queue db)" "queue_open q"
    and "enqueue_reconciliation_mismatch now item db = (res, db')"
  shows "\<exists>q' \<in> set (recon_queue db'). q_saldo_id q' = q_saldo_id q \<and> queue_open q'"
proof (cases "q_saldo_id q = rc_saldo_id item")
  case True
  then show ?thesis using enqueue_has_open [OF assms(3)] by simp
next
  case False
  with assms have "q \<in> set (recon_queue db')"
    by (auto simp: enqueue_reconciliation_mismatch_def set_update_where split: option.splits if_splits)
  with assms(2) show ?thesis by blast
qed

lemma enqueue_all_keeps_open:
  "q \<in> set (recon_queue db) \<Longrightarrow> queue_open q \<Longrightarrow>
   \<exists>q' \<in> set (recon_queue (enqueue_all now ms db)). q_saldo_id q' = q_saldo_id q \<and> queue_open q'"
proof (induction ms arbitrary: db q)
  case (Cons m ms)
  obtain res db1 where run: "enqueue_reconciliation_mismatch now m db = (res, db1)"
    by (cases "enqueue_reconciliation_mismatch now m db")
  from enqueue_keeps_open [OF Cons.prems run] obtain q1 where
    "q1 \<in> set (recon_queue db1)" "queue_open q1" "q_saldo_id q1 = q_saldo_id q" by auto
  with Cons.IH [of q1 db1] run show ?case by simp
qed auto

lemma enqueue_all_covers:
  "m \<in> set ms \<Longrightarrow> \<exists>q \<in> set (recon_queue (enqueue_all now ms db)). q_saldo_id q = rc_saldo_id m \<and> queue_open q"
proof (induction ms arbitrary: db)
  case (Cons x ms)
  obtain res db1 where run: "enqueue_reconciliation_mismatch now x db = (res, db1)"
    by (cases "enqueue_reconciliation_mismatch now x db")
  show ?case
  proof (cases "m = x")
    case True
    from enqueue_has_open [OF run] obtain q where
      "q \<in> set (recon_queue db1)" "q_saldo_id q = rc_saldo_id x" "queue_open q" by auto
    with enqueue_all_keeps_open [of q db1 now ms] run True show ?thesis by simp
  next
    case False
    with Cons run show ?thesis by simp
  qed
qed simp

end
