(* ===== verification/SaldoSteps.thy ===== *)
theory SaldoSteps
  imports SaldoService Reconciliation
begin

text \<open>
  The saldo service as a transition system: one step per handler of
  \<open>service/saldo/handler/command.go\<close>, the client calls of \<open>pkg/adapter/saldo_grpc.go\<close>, the
  consumer that creates the saldo of a new card, the balance statement of the repository,
  and the reconciliation worker with the resolution of its items. Every step only appends
  to the ledger, so an identity once recorded stays recorded in every later state.
\<close>

section \<open>Operations that only append\<close>

definition appends :: "('s \<Rightarrow> 'e list) \<Rightarrow> ('x, 'a, 's) op \<Rightarrow> bool" where
  "appends rows m \<longleftrightarrow> (\<forall>s. \<exists>es. rows (snd (m s)) = rows s @ es)"

named_theorems appending

lemma appends_ret [appending]: "appends rows (ret r)"
  by (simp add: appends_def ret_def)

lemma appends_try [appending]:
  assumes "appends rows m" "\<And>e. appends rows (f e)" "\<And>x. appends rows (g x)"
  shows "appends rows (try_or m f g)"
  unfolding appends_def
proof
  fix s
  obtain r s1 where m: "m s = (r, s1)" by (cases "m s")
  from assms(1) m obtain es where 1: "rows s1 = rows s @ es" unfolding appends_def by (metis snd_conv)
  have "\<exists>es. rows (snd (try_or m f g s)) = rows s1 @ es"
  proof (cases r)
    case (Inl e)
    with m assms(2) [of e] show ?thesis by (simp add: try_or_def appends_def)
  next
    case (Inr x)
    with m assms(3) [of x] show ?thesis by (simp add: try_or_def appends_def)
  qed
  with 1 show "\<exists>es. rows (snd (try_or m f g s)) = rows s @ es" by auto
qed

lemma appends_same: "(\<And>s. rows (snd (m s)) = rows s) \<Longrightarrow> appends rows m"
  by (simp add: appends_def)

lemma appends_then_same:
  "appends rows m \<Longrightarrow> (\<And>x s. rows (k x s) = rows s) \<Longrightarrow>
   appends rows (try_or m (\<lambda>e. ret (Inl (f e))) (\<lambda>x s. (Inr (g x), k x s)))"
  by (rule appends_try) (auto intro: appends_ret appends_same)

lemma appends_zoom [appending]:
  "appends ledger m \<Longrightarrow> appends (\<lambda>s. ledger (sdb s)) (zoom sdb (\<lambda>db s. s\<lparr>sdb := db\<rparr>) m)"
  by (auto simp: appends_def zoom_def split: prod.splits) (metis snd_conv)

lemma appends_on_db [appending]:
  assumes "appends ledger m" "\<And>x s. sdb (k x s) = sdb s"
  shows "appends (\<lambda>s. ledger (sdb s)) (on_db m k)"
  unfolding on_db_def
  by (rule appends_try) (use assms in \<open>auto intro: appending appends_same\<close>)

section \<open>Statements and repository\<close>

lemma update_saldo_row_appends [appending]: "appends ledger (update_saldo_row p f)"
  by (rule appends_same) (simp add: update_saldo_row_def split: option.splits)

lemma insert_saldo_row_appends: "appends ledger (insert_saldo_row now c amt)"
  by (auto simp: appends_def insert_saldo_row_def Let_def)

lemma create_saldo_sql_appends [appending]: "appends ledger (create_saldo_sql now c amt)"
  using insert_saldo_row_appends [of now c amt]
  by (auto simp: appends_def create_saldo_sql_def Let_def split: option.splits)

lemma create_saldo_if_not_exists_appends [appending]:
  "appends ledger (create_saldo_if_not_exists_sql now c amt)"
  using insert_saldo_row_appends [of now c amt]
  by (auto simp: appends_def create_saldo_if_not_exists_sql_def split: option.splits prod.splits sum.splits)
    (metis snd_conv)+

lemma restore_saldo_sql_appends [appending]: "appends ledger (restore_saldo_sql i)"
  by (rule appends_same)
    (auto simp: restore_saldo_sql_def update_saldo_row_def split: option.splits)

lemma table_statements_append [appending]:
  "appends ledger (delete_saldo_permanently_sql i)"
  "appends ledger restore_all_saldos_sql"
  "appends ledger delete_all_permanent_saldos_sql"
  by (auto intro!: appends_same
      simp: delete_saldo_permanently_sql_def restore_all_saldos_sql_def delete_all_permanent_saldos_sql_def)

lemma ledger_operations_append [appending]:
  "appends ledger (repo_debit_saldo now u req)"
  "appends ledger (repo_credit_saldo now u req)"
  "appends ledger (repo_apply_saldo_adjustment now adj)"
  "appends ledger (apply_ledger_adjustment now adj)"
  using outcome_appends [OF repo_debit_outcome [OF surjective_pairing]]
    outcome_appends [OF repo_credit_outcome [OF surjective_pairing]]
    outcome_appends [OF repo_adjustment_outcome [OF surjective_pairing]]
    outcome_appends [OF adjustment_outcome [OF surjective_pairing]]
  by (simp_all add: appends_def)

lemma repo_create_saldo_appends [appending]: "appends ledger (repo_create_saldo now c amt)"
  unfolding repo_create_saldo_def
  by (intro appends_try) (auto intro: appending appends_same split: option.splits)

lemma repo_update_saldo_appends [appending]: "appends ledger (repo_update_saldo now i c amt)"
  unfolding appends_def
proof
  fix db
  show "\<exists>es. ledger (snd (repo_update_saldo now i c amt db)) = ledger db @ es"
    using repo_update_saldo_cases [OF surjective_pairing, of now i c amt db]
      outcome_appends [OF adjustment_outcome] by auto
qed

lemma repo_update_saldo_withdraw_appends [appending]:
  "appends ledger (repo_update_saldo_withdraw now u c amt time)"
  unfolding repo_update_saldo_withdraw_def or_no_rows_def update_saldo_withdraw_metadata_sql_def
  by (auto simp: Let_def intro!: appending split: option.splits)

lemma wrapped_statements_append [appending]:
  "appends ledger (repo_update_saldo_balance now c amt)"
  "appends ledger (repo_trashed_saldo now i)"
  "appends ledger (repo_restore_saldo i)"
  "appends ledger (repo_delete_saldo_permanent i)"
  "appends ledger repo_restore_all_saldo"
  "appends ledger repo_delete_all_saldo_permanent"
  "appends ledger (repo_create_saldo_if_not_exists now c amt)"
  by (auto simp: repo_update_saldo_balance_def update_saldo_balance_sql_def repo_trashed_saldo_def
      trash_saldo_sql_def repo_restore_saldo_def repo_delete_saldo_permanent_def repo_restore_all_saldo_def
      repo_delete_all_saldo_permanent_def repo_create_saldo_if_not_exists_def or_no_rows_def or_failed_def
      intro!: appending)

lemma resolve_sql_appends [appending]: "appends ledger (resolve_reconciliation_sql now i op_id note)"
  by (rule appends_same) (simp add: resolve_reconciliation_sql_def)

lemma repo_resolve_appends [appending]: "appends ledger (repo_resolve_reconciliation now i op_id note)"
  unfolding repo_resolve_reconciliation_def by (auto intro!: appending)

lemma run_once_ledger: "ledger (run_once now r db) = ledger db"
  using enqueue_all_keeps_money by (simp add: run_once_def)

section \<open>Steps of the service\<close>

inductive saldo_step :: "saldo_service \<Rightarrow> saldo_service \<Rightarrow> bool" where
  created: "saldo_step s (snd (handle_create_saldo env c amt s))"
| consumed: "saldo_step s (snd (svc_create_saldo_if_not_exists env c amt s))"
| updated: "saldo_step s (snd (handle_update_saldo env i c amt s))"
| debited: "saldo_step s (snd (adapter_debit_saldo env req s))"
| credited: "saldo_step s (snd (adapter_credit_saldo env req s))"
| adjusted: "saldo_step s (snd (handle_apply_saldo_adjustment env adj s))"
| withdrawn: "saldo_step s (snd (handle_update_saldo_withdraw env c amt w s))"
| trashed: "saldo_step s (snd (handle_trashed_saldo env i s))"
| restored: "saldo_step s (snd (handle_restore_saldo i s))"
| deleted: "saldo_step s (snd (handle_delete_saldo_permanent i s))"
| all_restored: "saldo_step s (snd (handle_restore_all_saldo s))"
| all_deleted: "saldo_step s (snd (handle_delete_all_saldo_permanent s))"
| balance_set: "saldo_step s (s\<lparr>sdb := snd (repo_update_saldo_balance now c amt (sdb s))\<rparr>)"
| reconciled: "saldo_step s (s\<lparr>sdb := run_once now r (sdb s)\<rparr>)"
| resolved: "saldo_step s (s\<lparr>sdb := snd (repo_resolve_reconciliation now i op_id note (sdb s))\<rparr>)"

lemmas handler_defs = handle_create_saldo_def handle_update_saldo_def adapter_debit_saldo_def
  adapter_credit_saldo_def handle_debit_saldo_def handle_credit_saldo_def handle_apply_saldo_adjustment_def
  handle_update_saldo_withdraw_def handle_trashed_saldo_def handle_restore_saldo_def
  handle_delete_saldo_permanent_def handle_restore_all_saldo_def handle_delete_all_saldo_permanent_def
  handle_by_id_def to_wire_def map_result_def

lemmas service_defs = svc_create_saldo_def svc_create_saldo_if_not_exists_def svc_update_saldo_def
  svc_debit_saldo_def svc_credit_saldo_def svc_apply_saldo_adjustment_def svc_update_saldo_withdraw_def
  svc_trash_saldo_def svc_restore_saldo_def svc_delete_saldo_permanent_def svc_restore_all_saldo_def
  svc_delete_all_saldo_permanent_def keep_def

lemma services_append [appending]:
  "appends (\<lambda>s. ledger (sdb s)) (svc_create_saldo env c amt)"
  "appends (\<lambda>s. ledger (sdb s)) (svc_create_saldo_if_not_exists env c amt)"
  "appends (\<lambda>s. ledger (sdb s)) (svc_update_saldo env oi c amt)"
  "appends (\<lambda>s. ledger (sdb s)) (svc_debit_saldo env req)"
  "appends (\<lambda>s. ledger (sdb s)) (svc_credit_saldo env req)"
  "appends (\<lambda>s. ledger (sdb s)) (svc_apply_saldo_adjustment env adj)"
  "appends (\<lambda>s. ledger (sdb s)) (svc_update_saldo_withdraw env c wa wt)"
  "appends (\<lambda>s. ledger (sdb s)) (svc_trash_saldo env i)"
  "appends (\<lambda>s. ledger (sdb s)) (svc_restore_saldo i)"
  "appends (\<lambda>s. ledger (sdb s)) (svc_delete_saldo_permanent i)"
  "appends (\<lambda>s. ledger (sdb s)) svc_restore_all_saldo"
  "appends (\<lambda>s. ledger (sdb s)) svc_delete_all_saldo_permanent"
  by (auto simp: service_defs split: sum.splits option.splits intro!: appending)

lemma handlers_append [appending]:
  "appends (\<lambda>s. ledger (sdb s)) (handle_create_saldo env c amt)"
  "appends (\<lambda>s. ledger (sdb s)) (handle_update_saldo env i c amt)"
  "appends (\<lambda>s. ledger (sdb s)) (adapter_debit_saldo env req)"
  "appends (\<lambda>s. ledger (sdb s)) (adapter_credit_saldo env req)"
  "appends (\<lambda>s. ledger (sdb s)) (handle_apply_saldo_adjustment env adj)"
  "appends (\<lambda>s. ledger (sdb s)) (handle_update_saldo_withdraw env c amt w)"
  "appends (\<lambda>s. ledger (sdb s)) (handle_trashed_saldo env i)"
  "appends (\<lambda>s. ledger (sdb s)) (handle_restore_saldo i)"
  "appends (\<lambda>s. ledger (sdb s)) (handle_delete_saldo_permanent i)"
  "appends (\<lambda>s. ledger (sdb s)) handle_restore_all_saldo"
  "appends (\<lambda>s. ledger (sdb s)) handle_delete_all_saldo_permanent"
  by (auto simp: handler_defs intro!: appending)

lemma saldo_step_appends: "saldo_step s s' \<Longrightarrow> \<exists>es. ledger (sdb s') = ledger (sdb s) @ es"
  by (induction rule: saldo_step.induct)
    (use handlers_append services_append repo_resolve_appends wrapped_statements_append
      in \<open>auto simp: appends_def run_once_ledger\<close>)

lemma find_append_keep: "find p xs \<noteq> None \<Longrightarrow> find p (xs @ ys) = find p xs"
  by (induction xs) auto

lemma records_last:
  assumes "saldo_step\<^sup>*\<^sup>* s s'" "saldo_posted s d p c"
  shows "saldo_posted s' d p c"
  using assms
proof (induction rule: rtranclp_induct)
  case (step y z)
  from saldo_step_appends [OF step(2)] obtain es where "ledger (sdb z) = ledger (sdb y) @ es" by blast
  with step show ?case
    using find_append_keep by (fastforce simp: saldo_posted_def find_entry_def)
qed

text \<open>What is recorded stays as it was: the entry found under an identity never changes.\<close>

lemma records_unchanged:
  assumes "saldo_step\<^sup>*\<^sup>* s s'" "find_entry k (sdb s) = Some e"
  shows "find_entry k (sdb s') = Some e"
  using assms
proof (induction rule: rtranclp_induct)
  case (step y z)
  from saldo_step_appends [OF step(2)] obtain es where "ledger (sdb z) = ledger (sdb y) @ es" by blast
  with step show ?case
    using find_append_keep [of "\<lambda>e. entry_key e = k" "ledger (sdb y)" es] by (simp add: find_entry_def)
qed

end
