(* ===== verification/SaldoContract.thy ===== *)
theory SaldoContract
  imports SaldoSteps
begin

text \<open>
  What the saldo service promises its clients and its operators: exact and once-only
  postings, the books, and a reconciliation that finds every deviation. The statements are
  over the operations as the clients call them; the proofs come from the outcome relation
  of the ledger and the money-mover contract.
\<close>

section \<open>A small database\<close>

definition sample_saldo_row :: "int \<Rightarrow> string \<Rightarrow> int \<Rightarrow> saldo_row" where
  "sample_saldo_row i cnum balance =
     \<lparr>saldo_id = i, s_card = cnum, s_balance = balance, s_withdraw_amount = None,
      s_withdraw_time = None, s_created_at = 0, s_updated_at = 0, s_deleted_at = None\<rparr>"

definition sample_opening :: "string \<Rightarrow> int \<Rightarrow> ledger_entry" where
  "sample_opening cnum balance =
     \<lparr>le_operation_id = ''opening:'' @ cnum, le_card = cnum, le_direction = Opening,
      le_amount = balance, le_delta = balance, le_balance_before = 0, le_balance_after = balance,
      le_source_type = ''opening'', le_source_id = None, le_note = None, le_created_at = 0\<rparr>"

definition sample_db :: "int \<Rightarrow> int \<Rightarrow> saldo_db" where
  "sample_db a b =
     \<lparr>saldos = [sample_saldo_row 1 ''4111'' a, sample_saldo_row 2 ''4222'' b], saldo_seq = 3,
      ledger = [sample_opening ''4111'' a, sample_opening ''4222'' b], recon_queue = [], recon_seq = 1\<rparr>"

definition sample_saldo :: "int \<Rightarrow> int \<Rightarrow> saldo_service" where
  "sample_saldo a b = \<lparr>sdb = sample_db a b, saldo_cache = {}, saldo_outbox = [], saldo_emails = []\<rparr>"

definition sample_card :: "string \<Rightarrow> card_info" where
  "sample_card cnum =
     \<lparr>ci_card = cnum, ci_user_id = (if cnum = ''4222'' then 2 else 1), ci_email = ''a@b.c'',
      ci_type = ''debit'', ci_provider = ''visa''\<rparr>"

definition sample_saldo_env :: saldo_env where
  "sample_saldo_env =
     \<lparr>e_now = 10, e_uuid = ''u'', e_find_card = (\<lambda>c. Inr ()), e_find_user_card = (\<lambda>c. Inr (sample_card c)),
      e_kafka_send = None, e_outbox_insert = None\<rparr>"

lemma sample_balance: "saldo_bal (sample_saldo a b) ''4111'' = Some a" "saldo_bal (sample_saldo a b) ''4222'' = Some b"
  by (simp_all add: saldo_bal_def balance_of_def get_saldo_by_card_number_def active_card_def row_active_def
      sample_saldo_def sample_db_def sample_saldo_row_def)

lemma sample_unposted: "\<not> saldo_posted (sample_saldo a b) d (CHR ''p'' # s) c"
  by (simp add: saldo_posted_def find_entry_def sample_saldo_def sample_db_def sample_opening_def entry_key_def)

definition sample_saldo_request :: saldo_request where
  "sample_saldo_request =
     \<lparr>sr_card = ''4111'', sr_amount = 300, sr_operation_id = ''pay:1'', sr_source_type = ''transaction'',
      sr_source_id = ''1''\<rparr>"

section \<open>Calls that are accepted\<close>

text \<open>The columns a request is written to.\<close>

definition request_fits :: "saldo_request \<Rightarrow> bool" where
  "request_fits req \<longleftrightarrow>
     sr_card req \<noteq> [] \<and> length (sr_card req) \<le> 16 \<and> sr_operation_id req \<noteq> []
     \<and> length (sr_operation_id req) \<le> 128 \<and> length (sr_source_type req) \<le> 64
     \<and> length (sr_source_id req) \<le> 128 \<and> 0 < sr_amount req \<and> fits_int64 (sr_amount req)"

lemma request_fits_mutation:
  "request_fits req \<Longrightarrow> mutation_fits (mutation_of_request u req)"
  "request_fits req \<Longrightarrow> m_operation_id (mutation_of_request u req) = sr_operation_id req"
  "request_fits req \<Longrightarrow> amount_to_int64 (sr_amount req) = sr_amount req"
  "request_fits req \<Longrightarrow> validate_saldo_request req = None"
  by (auto simp: request_fits_def mutation_fits_def mutation_of_request_def amount_to_int64_def
      validate_saldo_request_def)

lemma adapter_debit_accepts:
  assumes fits: "request_fits req" and bal: "saldo_bal s (sr_card req) = Some b"
    and funds: "sr_amount req \<le> b" "fits_int64 b"
    and fresh: "\<not> saldo_posted s True (sr_operation_id req) (sr_card req)"
  shows "\<exists>x s'. adapter_debit_saldo env req s = (Inr x, s') \<and> r_balance x = b - sr_amount req"
proof -
  from bal obtain r where r: "get_saldo_by_card_number (sr_card req) (sdb s) = Some r" "s_balance r = b"
    by (auto simp: saldo_bal_def balance_of_def)
  let ?m = "mutation_of_request (e_uuid env) req"
  have "\<exists>r'. fst (debit_saldo_with_ledger (e_now env) ?m (sdb s)) = Inr r' \<and> s_balance r' = s_balance r - m_amount ?m"
    using fits funds fresh r
    by (intro debit_accepted) (simp_all add: request_fits_mutation saldo_posted_def, simp add: request_fits_def)
  then obtain r' db' where "debit_saldo_with_ledger (e_now env) ?m (sdb s) = (Inr r', db')"
      "s_balance r' = b - sr_amount req"
    using request_fits_mutation(3) [OF fits] r by (metis prod.collapse mutation_of_request_simps(2))
  then show ?thesis
    using request_fits_mutation(4) [OF fits]
    by (simp add: adapter_debit_saldo_def map_result_def handle_debit_saldo_def to_wire_def
        svc_debit_saldo_def on_db_def repo_debit_saldo_def try_or_def zoom_def ret_def map_mutation_response_def)
qed

lemma adapter_credit_accepts:
  assumes fits: "request_fits req" and bal: "saldo_bal s (sr_card req) = Some b"
    and room: "0 \<le> b" "fits_int64 (b + sr_amount req)"
    and fresh: "\<not> saldo_posted s False (sr_operation_id req) (sr_card req)"
  shows "\<exists>x s'. adapter_credit_saldo env req s = (Inr x, s') \<and> r_balance x = b + sr_amount req"
proof -
  from bal obtain r where r: "get_saldo_by_card_number (sr_card req) (sdb s) = Some r" "s_balance r = b"
    by (auto simp: saldo_bal_def balance_of_def)
  let ?m = "mutation_of_request (e_uuid env) req"
  have "\<exists>r'. fst (credit_saldo_with_ledger (e_now env) ?m (sdb s)) = Inr r' \<and> s_balance r' = s_balance r + m_amount ?m"
    using fits room fresh r
    by (intro credit_accepted) (simp_all add: request_fits_mutation saldo_posted_def, simp add: request_fits_def)
  then obtain r' db' where "credit_saldo_with_ledger (e_now env) ?m (sdb s) = (Inr r', db')"
      "s_balance r' = b + sr_amount req"
    using request_fits_mutation(3) [OF fits] r by (metis prod.collapse mutation_of_request_simps(2))
  then show ?thesis
    using request_fits_mutation(4) [OF fits]
    by (simp add: adapter_credit_saldo_def map_result_def handle_credit_saldo_def to_wire_def
        svc_credit_saldo_def on_db_def repo_credit_saldo_def try_or_def zoom_def ret_def map_mutation_response_def)
qed

section \<open>Properties of the postings\<close>

text \<open>
  C1: in every database the ledger-backed operations can reach, the table constraints hold
  and each live balance is non-negative and equals the sum of the ledger deltas of its
  card
\<close>

theorem books_balance:
  assumes "saldo_reachable db"
  shows "db_wf db \<and> (\<forall>r \<in> set (saldos db). row_active r \<longrightarrow>
           ledger_total (s_card r) db = s_balance r \<and> 0 \<le> s_balance r)"
  using saldo_reachable_invariants [OF assms] by (simp add: reconciled_def)

theorem books_balance_witness:
  "let empty = \<lparr>saldos = [], saldo_seq = 1, ledger = [], recon_queue = [], recon_seq = 1\<rparr>;
       db = snd (repo_debit_saldo 5 ''u'' sample_saldo_request (snd (insert_saldo_row 1 ''4111'' 1000 empty)))
   in map s_balance (saldos db) = [700] \<and> db_wf db"
proof -
  let ?empty = "\<lparr>saldos = [], saldo_seq = 1, ledger = [], recon_queue = [], recon_seq = 1\<rparr>"
  let ?db1 = "snd (insert_saldo_row 1 ''4111'' 1000 ?empty)"
  have "saldo_reachable ?db1"
    by (rule saldo_reachable.first_saldo [OF saldo_reachable.start _ _ surjective_pairing])
      (simp_all add: get_saldo_by_card_number_def)
  then have "saldo_reachable (snd (repo_debit_saldo 5 ''u'' sample_saldo_request ?db1))"
    by (rule saldo_reachable.debited [OF _ surjective_pairing])
  from books_balance [OF this] have "db_wf (snd (repo_debit_saldo 5 ''u'' sample_saldo_request ?db1))" by blast
  moreover have "map s_balance (saldos (snd (repo_debit_saldo 5 ''u'' sample_saldo_request ?db1))) = [700]"
    by code_simp
  ultimately show ?thesis by (simp add: Let_def)
qed

text \<open>
  C2: a well-formed debit under a new identity takes exactly its amount and answers with
  the new balance when the card holds it, and otherwise fails and changes no balance
\<close>

theorem debit_exact:
  assumes "request_fits req" "saldo_bal s (sr_card req) = Some b" "fits_int64 b"
    and "\<not> saldo_posted s True (sr_operation_id req) (sr_card req)"
  shows "if sr_amount req \<le> b
    then \<exists>x s'. adapter_debit_saldo env req s = (Inr x, s') \<and> r_balance x = b - sr_amount req
           \<and> saldo_bal s' = (saldo_bal s)(sr_card req := Some (b - sr_amount req))
           \<and> saldo_posted s' True (sr_operation_id req) (sr_card req)
    else \<exists>e s'. adapter_debit_saldo env req s = (Inl e, s') \<and> saldo_bal s' = saldo_bal s"
proof -
  have opid: "request_opid (env, req) = sr_operation_id req" "request_amount (env, req) = sr_amount req"
    using assms(1) by (simp_all add: request_opid_def request_amount_def request_fits_mutation)
  obtain r s' where run: "adapter_debit_saldo env req s = (r, s')" by (metis prod.exhaust)
  then have q: "debit_q (env, req) s = (r, s')" by (simp add: debit_q_def)
  show ?thesis
  proof (cases "sr_amount req \<le> b")
    case True
    from adapter_debit_accepts [OF assms(1,2) True assms(3,4), of env] run obtain x where
      x: "r = Inr x" "r_balance x = b - sr_amount req" by auto
    from saldo_mover.debit_new [OF q [unfolded x]] assms(2,4) opid True run x show ?thesis by auto
  next
    case False
    have "\<exists>e. r = Inl e"
    proof (cases r)
      case (Inr x)
      from saldo_mover.debit_new [OF q [unfolded Inr]] assms(2,4) opid False show ?thesis by auto
    qed simp
    with saldo_mover.debit_error [of "(env, req)" s _ s'] q run False show ?thesis by auto
  qed
qed

theorem debit_exact_witness:
  "\<exists>x s'. adapter_debit_saldo sample_saldo_env sample_saldo_request (sample_saldo 1000 50) = (Inr x, s')
     \<and> r_balance x = 700 \<and> saldo_bal s' = (saldo_bal (sample_saldo 1000 50))(''4111'' := Some 700)"
  using debit_exact [of sample_saldo_request "sample_saldo 1000 50" 1000 sample_saldo_env]
  by (auto simp: sample_saldo_request_def request_fits_def fits_int64_def sample_balance sample_unposted)

text \<open>
  C3: a well-formed credit under a new identity to a live card succeeds, adds exactly its
  amount and answers with the new balance
\<close>

theorem credit_exact:
  assumes "request_fits req" "saldo_bal s (sr_card req) = Some b" "0 \<le> b" "fits_int64 (b + sr_amount req)"
    and "\<not> saldo_posted s False (sr_operation_id req) (sr_card req)"
  shows "\<exists>x s'. adapter_credit_saldo env req s = (Inr x, s') \<and> r_balance x = b + sr_amount req
           \<and> saldo_bal s' = (saldo_bal s)(sr_card req := Some (b + sr_amount req))
           \<and> saldo_posted s' False (sr_operation_id req) (sr_card req)"
proof -
  have opid: "request_opid (env, req) = sr_operation_id req" "request_amount (env, req) = sr_amount req"
    using assms(1) by (simp_all add: request_opid_def request_amount_def request_fits_mutation)
  from adapter_credit_accepts [OF assms] obtain x s' where
    x: "adapter_credit_saldo env req s = (Inr x, s')" "r_balance x = b + sr_amount req" by blast
  then have "credit_q (env, req) s = (Inr x, s')" by (simp add: credit_q_def)
  from saldo_mover.credit_new [OF this] assms(2,5) opid x show ?thesis by auto
qed

theorem credit_exact_witness:
  "\<exists>x s'. adapter_credit_saldo sample_saldo_env sample_saldo_request (sample_saldo 1000 50) = (Inr x, s')
     \<and> r_balance x = 1300"
  using credit_exact [of sample_saldo_request "sample_saldo 1000 50" 1000 sample_saldo_env]
  by (auto simp: sample_saldo_request_def request_fits_def fits_int64_def sample_balance sample_unposted)

text \<open>
  C4: after an accepted debit under a non-empty operation identity, any later debit of the
  card under the same identity, in whatever state the operations of the saldo service have
  led to by then, moves no balance, posts nothing and leaves the ledger as it was,
  whatever amount it asks for
\<close>

theorem retried_debit_moves_once:
  assumes "adapter_debit_saldo env req s = (Inr x, s1)" "saldo_step\<^sup>*\<^sup>* s1 t"
    and "adapter_debit_saldo env' req' t = (r, t')"
    and "sr_operation_id req \<noteq> []" "sr_operation_id req' = sr_operation_id req" "sr_card req' = sr_card req"
  shows "saldo_bal t' = saldo_bal t \<and> ledger (sdb t') = ledger (sdb t)
    \<and> (\<forall>d p c. saldo_posted t' d p c = saldo_posted t d p c)"
proof -
  have q: "debit_q (env, req) s = (Inr x, s1)" "debit_q (env', req') t = (r, t')"
    using assms by (simp_all add: debit_q_def)
  have eq: "request_opid (env', req') = request_opid (env, req)" "sr_card (snd (env', req')) = sr_card (snd (env, req))"
    using assms by (simp_all add: request_opid_def mutation_of_request_def)
  from saldo_mover.debit_posts [OF q(1)] have "saldo_posted s1 True (request_opid (env', req')) (sr_card (snd (env', req')))"
    unfolding eq by simp
  with assms(2) have kept: "saldo_posted t True (request_opid (env', req')) (sr_card (snd (env', req')))"
    by (rule records_last)
  from adapter_debit_cases [OF assms(3)] kept have "sdb t' = sdb t"
    by (auto simp: saldo_posted_def request_opid_def intro: outcome_replay)
  with saldo_mover.debit_replay [OF q(2) kept] show ?thesis by simp
qed

text \<open>Between the debit and its retry of the witness the card is credited.\<close>

theorem retried_debit_moves_once_witness:
  "let s1 = snd (adapter_debit_saldo sample_saldo_env sample_saldo_request (sample_saldo 1000 50));
       t = snd (adapter_credit_saldo sample_saldo_env (sample_saldo_request\<lparr>sr_operation_id := ''pay:2''\<rparr>) s1);
       t' = snd (adapter_debit_saldo sample_saldo_env (sample_saldo_request\<lparr>sr_amount := 250\<rparr>) t)
   in saldo_bal t' = saldo_bal t \<and> saldo_bal s1 ''4111'' = Some 700 \<and> saldo_bal t ''4111'' = Some 1000"
proof -
  let ?s0 = "sample_saldo 1000 50" and ?run = "adapter_debit_saldo sample_saldo_env"
  let ?credit = "adapter_credit_saldo sample_saldo_env (sample_saldo_request\<lparr>sr_operation_id := ''pay:2''\<rparr>)"
  have "\<not> isl (fst (?run sample_saldo_request ?s0))" by code_simp
  then obtain x s1 where 1: "?run sample_saldo_request ?s0 = (Inr x, s1)"
    by (cases "?run sample_saldo_request ?s0"; cases "fst (?run sample_saldo_request ?s0)") auto
  have "saldo_step\<^sup>*\<^sup>* s1 (snd (?credit s1))" by (rule r_into_rtranclp) (rule saldo_step.credited)
  from retried_debit_moves_once [OF 1 this surjective_pairing,
      where req' = "sample_saldo_request\<lparr>sr_amount := 250\<rparr>" and env' = sample_saldo_env]
  have "saldo_bal (snd (?run (sample_saldo_request\<lparr>sr_amount := 250\<rparr>) (snd (?credit s1)))) = saldo_bal (snd (?credit s1))"
    by (simp add: sample_saldo_request_def)
  moreover have "saldo_bal (snd (?run sample_saldo_request ?s0)) ''4111'' = Some 700"
    "saldo_bal (snd (?credit (snd (?run sample_saldo_request ?s0)))) ''4111'' = Some 1000" by code_simp+
  ultimately show ?thesis using 1 by simp
qed

text \<open>
  A debit under the identity of an entry with another amount is answered as a reuse
  conflict and changes nothing
\<close>

theorem reused_identity_refused:
  assumes "find_entry (sr_operation_id req, sr_card req, Debit) db = Some e"
    and "le_amount e \<noteq> sr_amount req" "request_fits req"
    and "get_saldo_by_card_number (sr_card req) db = Some r" "fits_int64 (s_balance r)"
  shows "repo_debit_saldo now uuid req db =
    (Inl (with_internal ErrLedgerReuse (ledger_conflict (sr_operation_id req))), db)"
proof -
  let ?m = "mutation_of_request uuid req"
  note fits = request_fits_mutation [OF assms(3)]
  have "debit_saldo_with_ledger now ?m db = (Inl (ledger_conflict (m_operation_id ?m)), db)"
    using assms fits by (intro debit_conflict [of _ _ e]) simp_all
  moreover have "is_ledger_conflict (ledger_conflict op_id)" for op_id
    by (simp add: ledger_conflict_def ErrLedgerOperationConflict_def)
  ultimately show ?thesis
    using fits by (simp add: repo_debit_saldo_def try_or_def ret_def debit_error_def)
qed

theorem reused_identity_refused_witness:
  "let db = snd (repo_debit_saldo 5 ''u'' sample_saldo_request (sample_db 1000 50));
       req = sample_saldo_request\<lparr>sr_amount := 250\<rparr>
   in repo_debit_saldo 6 ''v'' req db =
        (Inl (with_internal ErrLedgerReuse (ledger_conflict ''pay:1'')), db)"
proof -
  obtain db where db: "db = snd (repo_debit_saldo 5 ''u'' sample_saldo_request (sample_db 1000 50))" by simp
  have "map_option le_amount (find_entry (''pay:1'', ''4111'', Debit) db) = Some 300"
    "map_option s_balance (get_saldo_by_card_number ''4111'' db) = Some 700"
    unfolding db by code_simp+
  then obtain e r where "find_entry (''pay:1'', ''4111'', Debit) db = Some e" "le_amount e = 300"
      "get_saldo_by_card_number ''4111'' db = Some r" "s_balance r = 700" by auto
  then have "repo_debit_saldo 6 ''v'' (sample_saldo_request\<lparr>sr_amount := 250\<rparr>) db =
      (Inl (with_internal ErrLedgerReuse (ledger_conflict ''pay:1'')), db)"
    using reused_identity_refused [of "sample_saldo_request\<lparr>sr_amount := 250\<rparr>" db e r 6 "''v''"]
    by (simp add: sample_saldo_request_def request_fits_def fits_int64_def)
  then show ?thesis by (simp add: db)
qed

text \<open>
  C5: a debit and a credit of the same amount under new identities leave the sum of the
  balances of any set of cards that holds both unchanged
\<close>

theorem settlement_conserves_money:
  assumes "adapter_debit_saldo env d s = (Inr x, s1)" "adapter_credit_saldo env' c s1 = (Inr y, s2)"
    and "request_fits d" "request_fits c" "sr_amount c = sr_amount d"
    and "\<not> saldo_posted s True (sr_operation_id d) (sr_card d)"
    and "\<not> saldo_posted s False (sr_operation_id c) (sr_card c)"
    and "finite cards" "sr_card d \<in> cards" "sr_card c \<in> cards"
  shows "(\<Sum>a\<in>cards. case saldo_bal s2 a of None \<Rightarrow> 0 | Some b \<Rightarrow> b)
       = (\<Sum>a\<in>cards. case saldo_bal s a of None \<Rightarrow> 0 | Some b \<Rightarrow> b)"
proof -
  have q: "debit_q (env, d) s = (Inr x, s1)" "credit_q (env', c) s1 = (Inr y, s2)"
    using assms by (simp_all add: debit_q_def credit_q_def)
  have "request_opid (env, d) = sr_operation_id d" "request_opid (env', c) = sr_operation_id c"
    "request_amount (env', c) = request_amount (env, d)"
    using assms by (simp_all add: request_opid_def request_amount_def request_fits_mutation)
  with saldo_mover.settle_conserves [OF q, of cards] assms show ?thesis
    by (simp add: saldo_mover.total_of_def)
qed

theorem settlement_conserves_money_witness:
  "let c = sample_saldo_request\<lparr>sr_card := ''4222''\<rparr>;
       s1 = snd (adapter_debit_saldo sample_saldo_env sample_saldo_request (sample_saldo 1000 50));
       s2 = snd (adapter_credit_saldo sample_saldo_env c s1)
   in saldo_bal s2 ''4222'' = Some 350
      \<and> (\<Sum>a\<in>{''4111'', ''4222''}. case saldo_bal s2 a of None \<Rightarrow> 0 | Some b \<Rightarrow> b) = 1050"
proof -
  let ?s0 = "sample_saldo 1000 50" and ?c = "sample_saldo_request\<lparr>sr_card := ''4222''\<rparr>"
  let ?d = "adapter_debit_saldo sample_saldo_env sample_saldo_request ?s0"
  let ?e = "adapter_credit_saldo sample_saldo_env ?c (snd ?d)"
  have "\<not> isl (fst ?d)" "\<not> isl (fst ?e)" by code_simp+
  then obtain x y where run: "?d = (Inr x, snd ?d)" "?e = (Inr y, snd ?e)"
    by (cases "fst ?d"; cases "fst ?e"; metis prod.collapse isl_def)
  have "(\<Sum>a\<in>{''4111'', ''4222''}. case saldo_bal (snd ?e) a of None \<Rightarrow> 0 | Some b \<Rightarrow> b)
      = (\<Sum>a\<in>{''4111'', ''4222''}. case saldo_bal ?s0 a of None \<Rightarrow> 0 | Some b \<Rightarrow> b)"
    by (rule settlement_conserves_money [OF run])
      (simp_all add: sample_saldo_request_def request_fits_def fits_int64_def sample_unposted)
  moreover have "saldo_bal (snd ?e) ''4222'' = Some 350" by code_simp
  ultimately show ?thesis by (simp add: sample_balance)
qed

section \<open>Properties of the reconciliation\<close>

text \<open>
  With a limit that covers the saldos, the reconciliation lists exactly the live rows
  whose balance differs from their ledger total
\<close>

theorem mismatches_exact:
  assumes "length (filter (mismatched db) (saldos db)) \<le> limit"
  shows "set (list_reconciliation_mismatches limit db) =
     {recon_row_of db r |r. r \<in> set (saldos db) \<and> row_active r \<and> s_balance r \<noteq> ledger_total (s_card r) db}"
  using mismatches_complete [OF assms] by (auto simp: mismatched_def)

theorem mismatches_exact_witness:
  "set (list_reconciliation_mismatches 10 (snd (update_saldo_balance_sql 3 ''4111'' 900 (sample_db 1000 50))))
     = {recon_row_of (snd (update_saldo_balance_sql 3 ''4111'' 900 (sample_db 1000 50))) r |r.
          r \<in> set (saldos (snd (update_saldo_balance_sql 3 ''4111'' 900 (sample_db 1000 50)))) \<and> row_active r
          \<and> s_balance r \<noteq> ledger_total (s_card r) (snd (update_saldo_balance_sql 3 ''4111'' 900 (sample_db 1000 50)))}"
  by (rule mismatches_exact) code_simp

text \<open>
  C18: with the database delivered and at most one batch of mismatches (100 by default), a
  pass of the worker leaves balances and ledger alone, keeps at most one open queue item
  per saldo and leaves an open item for every live mismatch
\<close>

theorem reconciliation_pass:
  assumes "open_unique db" "int (length (filter (mismatched db) (saldos db))) \<le> rec_batch_size r"
  shows "saldos (run_once now r db) = saldos db \<and> ledger (run_once now r db) = ledger db
    \<and> open_unique (run_once now r db)
    \<and> (\<forall>x \<in> set (saldos db). row_active x \<and> s_balance x \<noteq> ledger_total (s_card x) db \<longrightarrow>
         (\<exists>q \<in> set (recon_queue (run_once now r db)). q_saldo_id q = saldo_id x \<and> queue_open q))"
proof -
  have "\<exists>q \<in> set (recon_queue (run_once now r db)). q_saldo_id q = saldo_id x \<and> queue_open q"
    if x: "x \<in> set (saldos db)" "row_active x" "s_balance x \<noteq> ledger_total (s_card x) db" for x
  proof -
    have "recon_row_of db x \<in> set (list_reconciliation_mismatches (nat (rec_batch_size r)) db)"
      using x assms(2) by (subst mismatches_complete) (auto simp: mismatched_def)
    from enqueue_all_covers [OF this] show ?thesis by (simp add: run_once_def recon_row_of_def)
  qed
  then show ?thesis
    using enqueue_all_keeps_money enqueue_all_open_unique [OF assms(1)] by (simp add: run_once_def)
qed

theorem reconciliation_pass_witness:
  "let db = snd (update_saldo_balance_sql 3 ''4111'' 900 (sample_db 1000 50))
   in map q_difference (recon_queue (run_once 9 (new_reconciler 0 0) db)) = [-100]
      \<and> open_unique (run_once 9 (new_reconciler 0 0) db)"
proof -
  let ?db = "snd (update_saldo_balance_sql 3 ''4111'' 900 (sample_db 1000 50))"
  have "open_unique ?db" "int (length (filter (mismatched ?db) (saldos ?db))) \<le> rec_batch_size (new_reconciler 0 0)" by code_simp+
  from reconciliation_pass [OF this] have "open_unique (run_once 9 (new_reconciler 0 0) ?db)" by blast
  moreover have "map q_difference (recon_queue (run_once 9 (new_reconciler 0 0) ?db)) = [-100]" by code_simp
  ultimately show ?thesis by simp
qed

text \<open>
  A queue item is resolved only when it is open and the live balance of its saldo
  equals the ledger total, and resolving moves no money and touches no other item
\<close>

theorem resolved_only_when_balanced:
  assumes "repo_resolve_reconciliation now queue_id op_id note db = (Inr (), db')"
  shows "saldos db' = saldos db \<and> ledger db' = ledger db
    \<and> (\<exists>q \<in> set (recon_queue db). q_id q = queue_id \<and> queue_open q
         \<and> (\<exists>s \<in> set (saldos db). saldo_id s = q_saldo_id q \<and> row_active s \<and> s_balance s = ledger_total (q_card q) db))
    \<and> (\<forall>q \<in> set (recon_queue db'). q_id q \<noteq> queue_id \<longrightarrow> q \<in> set (recon_queue db))"
  using assms
  by (auto simp: repo_resolve_reconciliation_def resolve_reconciliation_sql_def try_or_def ret_def
      resolvable_def set_update_where split: if_splits prod.splits sum.splits)

theorem resolved_only_when_balanced_witness:
  "let db = run_once 9 (new_reconciler 0 0) (snd (update_saldo_balance_sql 3 ''4111'' 900 (sample_db 1000 50)));
       db2 = snd (update_saldo_balance_sql 11 ''4111'' 1000 db);
       fixed = repo_resolve_reconciliation 12 1 ''op'' [] db2
   in isl (fst (repo_resolve_reconciliation 12 1 ''op'' [] db)) \<and> fst fixed = Inr ()
      \<and> saldos (snd fixed) = saldos db2"
proof -
  let ?db = "run_once 9 (new_reconciler 0 0) (snd (update_saldo_balance_sql 3 ''4111'' 900 (sample_db 1000 50)))"
  let ?db2 = "snd (update_saldo_balance_sql 11 ''4111'' 1000 ?db)"
  let ?fixed = "repo_resolve_reconciliation 12 1 ''op'' [] ?db2"
  have refused: "isl (fst (repo_resolve_reconciliation 12 1 ''op'' [] ?db))" and ok: "fst ?fixed = Inr ()"
    by code_simp+
  have "?fixed = (Inr (), snd ?fixed)" using ok by (metis prod.collapse)
  from resolved_only_when_balanced [OF this] refused ok show ?thesis by simp
qed

section \<open>Operations outside the books\<close>

text \<open>
  \<open>CreateSaldo\<close> upserts: over a live row with balance 0 it sets the balance and writes no
  ledger entry, so the row is a mismatch from then on.
\<close>

theorem upsert_over_zero_balance_breaks_the_books:
  "let db = snd (create_saldo_sql 5 ''4111'' 900 (sample_db 0 50))
   in reconciled (sample_db 0 50) \<and> balance_of ''4111'' db = Some 900 \<and> ledger_total ''4111'' db = 0"
  by code_simp

text \<open>A card trashed and created again keeps its old entries: the opening entry counts twice.\<close>

theorem recreated_saldo_breaks_the_books:
  "let db = snd (create_saldo_sql 6 ''4111'' 900 (snd (trash_saldo_sql 5 1 (sample_db 1000 50))))
   in balance_of ''4111'' db = Some 900 \<and> ledger_total ''4111'' db = 1900"
  by code_simp

text \<open>The client's \<open>UpdateSaldoBalance\<close> sends no saldo id, and the handler refuses id 0.\<close>

theorem adapter_update_balance_always_refused:
  "\<exists>e. adapter_update_saldo_balance env cnum amt s = (Inl e, s)"
  by (simp add: adapter_update_saldo_balance_def map_result_def handle_update_saldo_def try_or_def ret_def)

end
