(* ===== verification/Samples.thy ===== *)
theory Samples
  imports Settlement SaldoContract
begin

text \<open>
  A small concrete deployment for the witnesses: two funded cards, a merchant whose owner
  holds the second one, empty command tables, and an environment in which the faults of
  the remote calls are an argument.
\<close>

definition sample_world :: "int \<Rightarrow> int \<Rightarrow> 'r cmd_world" where
  "sample_world a b =
     \<lparr>w_table = \<lparr>t_rows = [], t_seq = 1\<rparr>, w_idem = [], w_outbox = \<lparr>ob_rows = [], ob_seq = 1\<rparr>,
      w_marks = [], w_saldo = sample_saldo a b\<rparr>"

definition sample_merchant :: merchant_info where
  "sample_merchant = \<lparr>mi_id = 7, mi_name = ''shop'', mi_user_id = 2\<rparr>"

definition sample_env :: "(rpc \<Rightarrow> go_error fault) \<Rightarrow> int \<Rightarrow> 'q svc_env" where
  "sample_env fl now =
     \<lparr>v_now = now, v_saldo = sample_saldo_env, v_fault = fl,
      v_idem = \<lparr>f_claim = Deliver, f_get = None, f_complete = Deliver, f_release = Deliver\<rparr>,
      v_idem_configured = True, v_outbox_configured = True, v_hash = (\<lambda>_. ''h''),
      v_event_uuid = (\<lambda>ety. ety), v_row_no = ''n'', v_block = None,
      v_find_merchant_by_api_key = (\<lambda>_. Inr sample_merchant),
      v_find_merchant_by_id = (\<lambda>_. Inr sample_merchant),
      v_find_user_card = (\<lambda>c. Inr (sample_card c)), v_find_card = (\<lambda>c. Inr (sample_card c)),
      v_find_card_by_user_id = (\<lambda>u. Inr (sample_card (if u = 2 then ''4222'' else ''4111'')))\<rparr>"

text \<open>The faults in which one named call is refused or loses its reply.\<close>

definition refusing :: "rpc \<Rightarrow> rpc \<Rightarrow> go_error fault" where
  "refusing c = (\<lambda>d. if d = c then Refuse (ErrorString ''unavailable'') else Deliver)"

definition losing :: "rpc \<Rightarrow> rpc \<Rightarrow> go_error fault" where
  "losing c = (\<lambda>d. if d = c then Lose (ErrorString ''deadline exceeded'') else Deliver)"

lemma sample_table_wf: "table_wf (w_table (sample_world a b))" "t_seq (w_table (sample_world a b)) = 1"
  by (simp_all add: table_wf_def sample_world_def)

lemma sample_lookups [simp]:
  "v_find_merchant_by_api_key (sample_env fl now) key = Inr sample_merchant"
  "v_find_merchant_by_id (sample_env fl now) i = Inr sample_merchant"
  "v_fault (sample_env fl now) = fl"
  by (simp_all add: sample_env_def)

lemma sample_posted: "w_posted (sample_world a b) d p c \<Longrightarrow> \<exists>n. p = ''opening:'' @ n"
  by (auto simp: w_posted_def saldo_posted_def find_entry_def sample_world_def sample_saldo_def
      sample_db_def sample_opening_def entry_key_def split: if_splits)

end
