(* ===== verification/TransactionService.thy ===== *)
theory TransactionService
  imports Samples Validation
begin

text \<open>
  Merchant payments (\<open>service/transaction/service/transactionCommandService.go\<close>, with its
  repository and the statements of \<open>service/transaction/database/schema\<close>): the settlement
  of \<open>Create\<close> with its state machine and compensation, \<open>Update\<close>, and the row commands.
\<close>

section \<open>Rows and requests\<close>

record txn_row = cmd_row +
  t_card :: string
  t_amount :: int
  t_method :: string
  t_merchant_id :: int
  t_time :: int

type_synonym txn_world = "txn_row cmd_world"

record create_txn_request =
  ct_card :: string
  ct_amount :: int
  ct_method :: string
  ct_time :: int
  ct_key :: string

record update_txn_request =
  ut_id :: int
  ut_amount :: int
  ut_method :: string

definition txn_entity :: string where "txn_entity = ''transaction''"

text \<open>
  The statements and the repository calls over them. The column defaults of an insert are
  the next id, a fresh number and the status pending.
\<close>

definition create_transaction_sql ::
  "create_txn_request svc_env \<Rightarrow> string \<Rightarrow> int \<Rightarrow> string \<Rightarrow> int \<Rightarrow> int \<Rightarrow>
   (go_error, txn_row, txn_row cmd_table) op" where
  "create_transaction_sql env cnum amount payment merchant_id time =
     insert_row (\<lambda>i. \<lparr>row_id = i, row_no = v_row_no env, row_status = st_pending, row_failure = None,
                       row_created_at = Some (v_now env), row_updated_at = v_now env, row_deleted_at = None,
                       t_card = cnum, t_amount = amount, t_method = payment, t_merchant_id = merchant_id,
                       t_time = time\<rparr>)
       (length cnum \<le> 16 \<and> length payment \<le> 50)"

definition repo_create_transaction ::
  "create_txn_request svc_env \<Rightarrow> create_txn_request \<Rightarrow> int \<Rightarrow> (go_error, txn_row, txn_row cmd_table) op" where
  "repo_create_transaction env req merchant_id =
     call_or_failed (v_fault env RCreateRow) ''create transaction''
       (create_transaction_sql env (ct_card req) (go_int64 (ct_amount req)) (ct_method req)
          (go_int32 merchant_id) (ct_time req))"

definition update_transaction_sql ::
  "int \<Rightarrow> int \<Rightarrow> string \<Rightarrow> int \<Rightarrow> string \<Rightarrow> int \<Rightarrow> int \<Rightarrow> (go_error, txn_row, txn_row cmd_table) op" where
  "update_transaction_sql now i cnum amount payment merchant_id time =
     (if length cnum > 16 \<or> length payment > 50 then ret (Inl (DbError ''value too long''))
      else update_row (live_id i)
        (\<lambda>r. r\<lparr>row_updated_at := now, t_card := cnum, t_amount := amount,
               t_method := payment, t_merchant_id := merchant_id, t_time := time\<rparr>))"

definition repo_update_transaction ::
  "go_error fault \<Rightarrow> int \<Rightarrow> int \<Rightarrow> string \<Rightarrow> int \<Rightarrow> string \<Rightarrow> int \<Rightarrow> int \<Rightarrow>
   (go_error, txn_row, txn_row cmd_table) op" where
  "repo_update_transaction fl now i cnum amount payment merchant_id time =
     row_or_failed fl txn_entity ''update transaction''
       (update_transaction_sql now (go_int32 i) cnum (go_int64 amount) payment (go_int32 merchant_id) time)"

section \<open>Settlement\<close>

definition txn_op :: "int \<Rightarrow> string \<Rightarrow> string" where
  "txn_op i leg = ''transaction:'' @ itoa i @ '':'' @ leg"

definition txn_request :: "string \<Rightarrow> int \<Rightarrow> string \<Rightarrow> int \<Rightarrow> string \<Rightarrow> saldo_request" where
  "txn_request source i leg amount cnum =
     \<lparr>sr_card = cnum, sr_amount = amount, sr_operation_id = txn_op i leg,
      sr_source_type = source, sr_source_id = itoa i\<rparr>"

definition compensate_merchant ::
  "'q svc_env \<Rightarrow> int \<Rightarrow> int \<Rightarrow> int \<Rightarrow> txn_world \<Rightarrow> unit \<times> txn_world" where
  "compensate_merchant env txid amount merchant_id =
     (case v_find_merchant_by_id env merchant_id of
        Inl err \<Rightarrow> quiet (guard_status env txid st_compensating st_unknown
                      (''merchant lookup for compensation failed: '' @ error_text err))
      | Inr merchant \<Rightarrow>
          (case v_find_card_by_user_id env (mi_user_id merchant) of
             Inl err \<Rightarrow> quiet (guard_status env txid st_compensating st_unknown
                      (''merchant card lookup for compensation failed: '' @ error_text err))
           | Inr merchant_card \<Rightarrow>
               try_or (rpc_debit env (txn_request ''transaction_compensation'' txid
                         ''merchant-compensation'' amount (ci_card merchant_card)))
                 (\<lambda>err. quiet (guard_status env txid st_compensating st_unknown
                          (''merchant credit compensation failed: '' @ error_text err)))
                 (\<lambda>_. quiet (guard_status env txid st_compensating st_compensated []))))"

definition compensate_claimed ::
  "'q svc_env \<Rightarrow> int \<Rightarrow> int \<Rightarrow> string \<Rightarrow> int \<Rightarrow> bool \<Rightarrow> txn_world \<Rightarrow> unit \<times> txn_world" where
  "compensate_claimed env txid amount user_card merchant_id merchant_credited =
     try_or (rpc_credit env (txn_request ''transaction_compensation'' txid ''user-compensation'' amount user_card))
       (\<lambda>err. quiet (guard_status env txid st_compensating st_unknown
                       (''user debit compensation failed: '' @ error_text err)))
       (\<lambda>_. if \<not> merchant_credited
            then quiet (guard_status env txid st_compensating st_compensated [])
            else compensate_merchant env txid amount merchant_id)"

definition compensate_transaction ::
  "'q svc_env \<Rightarrow> int \<Rightarrow> int \<Rightarrow> string \<Rightarrow> int \<Rightarrow> bool \<Rightarrow> txn_world \<Rightarrow> unit \<times> txn_world" where
  "compensate_transaction env txid amount user_card merchant_id merchant_credited =
     and_then (guard_status env txid st_processing st_compensating
                 ''partial settlement; compensation started'')
       (\<lambda>claimed. if claimed \<noteq> Inr True then ret ()
          else compensate_claimed env txid amount user_card merchant_id merchant_credited)"

text \<open>The four events of a settled payment.\<close>

definition enqueue_transaction_events ::
  "create_txn_request svc_env \<Rightarrow> txn_row \<Rightarrow> txn_row \<Rightarrow> card_info \<Rightarrow> merchant_info \<Rightarrow> card_info \<Rightarrow>
   create_txn_request \<Rightarrow> int \<Rightarrow> int \<Rightarrow> txn_world \<Rightarrow> txn_world" where
  "enqueue_transaction_events env tx updated ci merchant merchant_card req user_balance merchant_balance w =
     (if \<not> v_outbox_configured env then w
      else
        let txid = itoa (row_id tx);
            w1 = enqueue_event env ''transaction'' txid ''transaction.created''
                   (EmailPayload (ci_email ci) ''Transaction Successful - SanEdge''
                      (''Your transaction of '' @ itoa (ct_amount req) @ '' has been processed successfully.'')) w;
            w2 = enqueue_event env ''transaction'' txid ''transaction.stats''
                   (StatsPayload ''transaction'' (row_id updated) (row_no updated)
                      [ci_card ci, ci_type ci, ci_provider ci, ct_method req, itoa (mi_id merchant), mi_name merchant]
                      (ct_amount req) ''success'' (v_now env)) w1;
            w3 = enqueue_event env ''transaction'' (ci_card ci) ''transaction.saldo_user''
                   (SaldoPayload (ci_card ci) user_balance (v_now env)) w2
        in enqueue_event env ''transaction'' (ci_card merchant_card) ''transaction.saldo_merchant''
             (SaldoPayload (ci_card merchant_card) merchant_balance (v_now env)) w3)"

text \<open>The success marker, once both sides have moved.\<close>

definition finish_transaction ::
  "create_txn_request svc_env \<Rightarrow> merchant_info \<Rightarrow> card_info \<Rightarrow> create_txn_request \<Rightarrow> txn_row \<Rightarrow> card_info \<Rightarrow>
   int \<Rightarrow> int \<Rightarrow> txn_world \<Rightarrow> (bool \<times> (go_error + txn_row)) \<times> txn_world" where
  "finish_transaction env merchant ci req tx merchant_card user_balance merchant_balance =
     try_or (transition_status env (row_id tx) st_processing st_success [])
       (\<lambda>err. and_then (compensate_transaction env (row_id tx) (ct_amount req) (ci_card ci) (mi_id merchant) True)
                (\<lambda>_. fail_with False err))
       (\<lambda>updated w. ((False, Inr updated),
          enqueue_transaction_events env tx updated ci merchant merchant_card req
            user_balance merchant_balance w))"

text \<open>The merchant's side, after the user was debited.\<close>

definition pay_merchant ::
  "create_txn_request svc_env \<Rightarrow> merchant_info \<Rightarrow> card_info \<Rightarrow> create_txn_request \<Rightarrow> txn_row \<Rightarrow> int \<Rightarrow>
   txn_world \<Rightarrow> (bool \<times> (go_error + txn_row)) \<times> txn_world" where
  "pay_merchant env merchant ci req tx user_balance =
     (case v_find_card_by_user_id env (mi_user_id merchant) of
        Inl err \<Rightarrow>
          and_then (compensate_transaction env (row_id tx) (ct_amount req) (ci_card ci) (mi_id merchant) False)
            (\<lambda>_. fail_with True err)
      | Inr merchant_card \<Rightarrow>
          try_or (rpc_credit env (txn_request ''transaction'' (row_id tx) ''merchant-credit'' (ct_amount req)
                                    (ci_card merchant_card)))
            (\<lambda>err. and_then (guard_status env (row_id tx) st_processing st_unknown
                        (''merchant credit outcome ambiguous: '' @ error_text err))
                     (\<lambda>_. fail_with True err))
            (\<lambda>credited. finish_transaction env merchant ci req tx merchant_card user_balance (r_balance credited)))"

text \<open>The user's side, on a row in processing.\<close>

definition charge_user ::
  "create_txn_request svc_env \<Rightarrow> merchant_info \<Rightarrow> card_info \<Rightarrow> create_txn_request \<Rightarrow> txn_row \<Rightarrow>
   txn_world \<Rightarrow> (bool \<times> (go_error + txn_row)) \<times> txn_world" where
  "charge_user env merchant ci req tx =
     try_or (rpc_debit env (txn_request ''transaction'' (row_id tx) ''user-debit'' (ct_amount req) (ci_card ci)))
       (\<lambda>err. and_then (guard_status env (row_id tx) st_processing st_failed (''debit failed: '' @ error_text err))
                (\<lambda>_. fail_with True err))
       (\<lambda>debited. pay_merchant env merchant ci req tx (r_balance debited))"

definition settle_transaction ::
  "create_txn_request svc_env \<Rightarrow> merchant_info \<Rightarrow> card_info \<Rightarrow> create_txn_request \<Rightarrow>
   txn_world \<Rightarrow> (bool \<times> (go_error + txn_row)) \<times> txn_world" where
  "settle_transaction env merchant ci req =
     try_or (on_table (repo_create_transaction env req (mi_id merchant))) (fail_with True)
       (\<lambda>tx. try_or (guard_status env (row_id tx) st_pending st_processing []) (fail_with True)
           (\<lambda>ok. if \<not> ok then fail_with True (ErrorString ''transaction already being processed'')
             else charge_user env merchant ci req tx))"

text \<open>The body of \<open>Create\<close>: the checks that touch nothing, then the settlement.\<close>

definition create_transaction_body ::
  "create_txn_request svc_env \<Rightarrow> string \<Rightarrow> create_txn_request \<Rightarrow>
   txn_world \<Rightarrow> (bool \<times> (go_error + txn_row)) \<times> txn_world" where
  "create_transaction_body env api_key req =
     (case validate_amount (ct_amount req) of
        Some err \<Rightarrow> fail_with True err
      | None \<Rightarrow>
          (case v_find_merchant_by_api_key env api_key of
             Inl err \<Rightarrow> fail_with True err
           | Inr merchant \<Rightarrow>
               (case v_find_user_card env (ct_card req) of
                  Inl err \<Rightarrow> fail_with True err
                | Inr ci \<Rightarrow>
                    try_or (rpc_find_saldo env (ci_card ci)) (fail_with True)
                      (\<lambda>saldo.
                         if s_balance saldo < ct_amount req
                         then fail_with True (with_message ErrConflict ''insufficient balance'')
                         else case v_block env of
                           Some reason \<Rightarrow> ret (True, Inl (ErrorString (''security block: '' @ reason)))
                         | None \<Rightarrow> settle_transaction env merchant ci req))))"

definition create_transaction ::
  "create_txn_request svc_env \<Rightarrow> string \<Rightarrow> create_txn_request \<Rightarrow> (go_error, txn_row, txn_world) op" where
  "create_transaction env api_key req =
     idem_run w_idem (\<lambda>tb w. w\<lparr>w_idem := tb\<rparr>) (v_idem_configured env) (v_now env) (v_idem env)
       ''transaction'' (ct_key req) (v_hash env req) row_id (create_transaction_body env api_key req)"

section \<open>Update\<close>

definition txn_update_op :: "int \<Rightarrow> int \<Rightarrow> string \<Rightarrow> string" where
  "txn_update_op i amount leg = ''transaction:update:'' @ itoa i @ '':'' @ itoa amount @ '':'' @ leg"

definition txn_update_request ::
  "string \<Rightarrow> int \<Rightarrow> int \<Rightarrow> string \<Rightarrow> int \<Rightarrow> string \<Rightarrow> saldo_request" where
  "txn_update_request source i new_amount leg amount cnum =
     \<lparr>sr_card = cnum, sr_amount = amount, sr_operation_id = txn_update_op i new_amount leg,
      sr_source_type = source, sr_source_id = itoa i\<rparr>"

text \<open>The two compensating calls after the row could not be written.\<close>

definition undo_update ::
  "'q svc_env \<Rightarrow> txn_row \<Rightarrow> int \<Rightarrow> string \<Rightarrow> txn_world \<Rightarrow> unit \<times> txn_world" where
  "undo_update env tx amount cnum =
     and_then (quiet (rpc_credit env (txn_update_request ''transaction_update_compensation'' (row_id tx) amount
                        ''undo-new-debit'' amount cnum)))
       (\<lambda>_. quiet (rpc_debit env (txn_update_request ''transaction_update_compensation'' (row_id tx) amount
                     ''restore-old-debit'' (t_amount tx) cnum)))"

definition update_transaction ::
  "'q svc_env \<Rightarrow> string \<Rightarrow> update_txn_request \<Rightarrow> (go_error, txn_row, txn_world) op" where
  "update_transaction env api_key req =
     try_or (on_table (repo_find_row (v_fault env RFindRow) txn_entity (ut_id req)))
       (\<lambda>err. marked (ut_id req) (Some err))
       (\<lambda>tx. case v_find_merchant_by_api_key env api_key of
          Inl err \<Rightarrow> marked (ut_id req) (Some err)
        | Inr merchant \<Rightarrow>
          (if t_merchant_id tx \<noteq> mi_id merchant then marked (ut_id req) None
           else case v_find_card env (t_card tx) of
             Inl err \<Rightarrow> marked (ut_id req) (Some err)
           | Inr ci \<Rightarrow>
             try_or (rpc_credit env (txn_update_request ''transaction_update'' (row_id tx) (ut_amount req)
                       ''reverse-old'' (t_amount tx) (ci_card ci)))
               (\<lambda>err. marked (ut_id req) (Some err))
               (\<lambda>_. try_or (rpc_debit env (txn_update_request ''transaction_update'' (row_id tx) (ut_amount req)
                            ''apply-new'' (ut_amount req) (ci_card ci)))
                 (\<lambda>err. and_then (quiet (rpc_debit env (txn_update_request
                            ''transaction_update_compensation'' (row_id tx) (ut_amount req)
                            ''restore-old-debit'' (t_amount tx) (ci_card ci))))
                          (\<lambda>_. marked (ut_id req) (Some err)))
                 (\<lambda>_. try_or (on_table (repo_update_transaction (v_fault env RUpdateRow) (v_now env) (row_id tx)
                              (t_card tx) (ut_amount req) (ut_method req) (t_merchant_id tx) (t_time tx)))
                    (\<lambda>err. and_then (undo_update env tx (ut_amount req) (ci_card ci))
                             (\<lambda>_. marked (ut_id req) (Some err)))
                    (\<lambda>res. try_or (on_table (repo_update_status (v_fault env (RUpdateStatus st_success)) txn_entity
                                 (v_now env) (row_id tx) st_success))
                       (\<lambda>err. and_then (undo_update env tx (ut_amount req) (ci_card ci))
                                (\<lambda>_. ret (Inl (handle_error (Some err)))))
                       (\<lambda>_. ret (Inr res)))))))"

section \<open>Row commands, recovery and the failure marker\<close>

definition trashed_transaction :: "'q svc_env \<Rightarrow> int \<Rightarrow> (go_error, txn_row, txn_world) op" where
  "trashed_transaction env = svc_trashed env txn_entity"

definition restore_transaction :: "'q svc_env \<Rightarrow> int \<Rightarrow> (go_error, txn_row, txn_world) op" where
  "restore_transaction env = svc_restore env txn_entity"

definition delete_transaction_permanent :: "'q svc_env \<Rightarrow> int \<Rightarrow> (go_error, unit, txn_world) op" where
  "delete_transaction_permanent env = svc_delete_permanent env txn_entity"

definition restore_all_transaction :: "'q svc_env \<Rightarrow> (go_error, unit, txn_world) op" where
  "restore_all_transaction env = svc_restore_all env txn_entity"

definition delete_all_transaction_permanent :: "'q svc_env \<Rightarrow> (go_error, unit, txn_world) op" where
  "delete_all_transaction_permanent env = svc_delete_all_permanent env txn_entity"

definition recover_transactions ::
  "'q svc_env \<Rightarrow> (int \<Rightarrow> go_error fault) \<Rightarrow> int \<Rightarrow> nat \<Rightarrow> (go_error, unit, txn_world) op" where
  "recover_transactions env fl older_than max_rows =
     on_table (recover_stuck_operations t_amount fl (v_now env) older_than max_rows)"

section \<open>Identities\<close>

lemma txn_op_eq [simp]: "txn_op i leg = txn_op j leg' \<longleftrightarrow> i = j \<and> leg = leg'"
  by (simp add: txn_op_def)

lemma txn_op_nonempty [simp]: "txn_op i leg \<noteq> []"
  by (simp add: txn_op_def)

lemma txn_request_simps [simp]:
  "sr_card (txn_request src i leg a c) = c"
  "sr_amount (txn_request src i leg a c) = a"
  "sr_operation_id (txn_request src i leg a c) = txn_op i leg"
  by (simp_all add: txn_request_def)

text \<open>No leg of command \<open>i\<close> has been posted.\<close>

definition txn_fresh :: "int \<Rightarrow> txn_world \<Rightarrow> bool" where
  "txn_fresh i w \<longleftrightarrow> (\<forall>d leg c. \<not> w_posted w d (txn_op i leg) c)"

lemma txn_debit:
  assumes "rpc_debit env (txn_request src i leg a c) w = (Inr x, w')" "fits_int64 a"
    and "\<not> w_posted w True (txn_op i leg) c"
  shows "w_bal w' = moved (w_bal w) c (- a)"
    and "w_posted w' d p e \<longleftrightarrow> w_posted w d p e \<or> d \<and> p = txn_op i leg \<and> e = c"
    and "\<exists>b. w_bal w c = Some b \<and> a \<le> b"
  using debit_moved [OF assms(1)] assms(2,3) by simp_all

lemma txn_credit:
  assumes "rpc_credit env (txn_request src i leg a c) w = (Inr x, w')" "fits_int64 a"
    and "\<not> w_posted w False (txn_op i leg) c"
  shows "w_bal w' = moved (w_bal w) c a"
    and "w_posted w' d p e \<longleftrightarrow> w_posted w d p e \<or> \<not> d \<and> p = txn_op i leg \<and> e = c"
    and "\<exists>b. w_bal w c = Some b"
  using credit_moved [OF assms(1)] assms(2,3) by simp_all

section \<open>Compensation\<close>

text \<open>
  A compensation ends with the row untouched (another actor owns it), quarantined as
  compensating or unknown, or compensated with the user's debit given back and, when the
  merchant had been credited, that credit taken back.
\<close>

definition undone :: "'q svc_env \<Rightarrow> int \<Rightarrow> string \<Rightarrow> int \<Rightarrow> bool \<Rightarrow> (string \<Rightarrow> int option) \<Rightarrow>
    (string \<Rightarrow> int option) \<Rightarrow> bool" where
  "undone env a user_card merchant_id merchant_credited b b' \<longleftrightarrow>
     (if merchant_credited
      then \<exists>m mc. v_find_merchant_by_id env merchant_id = Inr m
             \<and> v_find_card_by_user_id env (mi_user_id m) = Inr mc
             \<and> b' = moved (moved b user_card a) (ci_card mc) (- a)
      else b' = moved b user_card a)"

lemma compensate_merchant_outcome:
  assumes run: "compensate_merchant env i a mid w = (u, w')"
    and c: "compensating i w" and i: "fits_int32 i" and a: "fits_int64 a"
    and fresh: "\<And>c. \<not> w_posted w True (txn_op i ''merchant-compensation'') c"
  shows "held i w' \<or> compensated i w' \<and>
     (\<exists>m mc. v_find_merchant_by_id env mid = Inr m \<and> v_find_card_by_user_id env (mi_user_id m) = Inr mc
        \<and> w_bal w' = moved (w_bal w) (ci_card mc) (- a))"
proof (cases "\<exists>m mc. v_find_merchant_by_id env mid = Inr m \<and> v_find_card_by_user_id env (mi_user_id m) = Inr mc")
  case False
  with run c i show ?thesis
    unfolding compensate_merchant_def by (auto split: sum.splits intro: quarantine)
next
  case True
  then obtain m mc where m: "v_find_merchant_by_id env mid = Inr m"
      "v_find_card_by_user_id env (mi_user_id m) = Inr mc"
    by blast
  from run m have "try_or (rpc_debit env (txn_request ''transaction_compensation'' i ''merchant-compensation'' a (ci_card mc)))
      (\<lambda>err. quiet (guard_status env i st_compensating st_unknown
          (''merchant credit compensation failed: '' @ error_text err)))
      (\<lambda>_. quiet (guard_status env i st_compensating st_compensated [])) w = (u, w')"
    unfolding compensate_merchant_def by simp
  then show ?thesis
  proof (cases rule: try_orE)
    case (1 e w1)
    with c i show ?thesis by (auto dest!: rpc_debit_world intro: quarantine)
  next
    case (2 x w1)
    then have "compensating i w1" using c by (auto dest!: rpc_debit_world)
    from finalize [OF 2(2) this i] txn_debit(1) [OF 2(1) a fresh] m show ?thesis by auto
  qed
qed

lemma compensate_claimed_outcome:
  assumes run: "compensate_claimed env i a uc mid credited w = (u, w')"
    and c: "compensating i w" and i: "fits_int32 i" and a: "fits_int64 a"
    and fresh: "\<And>c. \<not> w_posted w False (txn_op i ''user-compensation'') c"
      "\<And>c. \<not> w_posted w True (txn_op i ''merchant-compensation'') c"
  shows "held i w' \<or> compensated i w' \<and> undone env a uc mid credited (w_bal w) (w_bal w')"
  using run unfolding compensate_claimed_def
proof (elim try_orE)
  fix e w1
  assume "rpc_credit env (txn_request ''transaction_compensation'' i ''user-compensation'' a uc) w = (Inl e, w1)"
    "quiet (guard_status env i st_compensating st_unknown
       (''user debit compensation failed: '' @ error_text e)) w1 = (u, w')"
  with c i show ?thesis by (auto dest!: rpc_credit_world intro: quarantine)
next
  fix x w1
  assume cr: "rpc_credit env (txn_request ''transaction_compensation'' i ''user-compensation'' a uc) w = (Inr x, w1)"
    and rest: "(if \<not> credited then quiet (guard_status env i st_compensating st_compensated [])
      else compensate_merchant env i a mid) w1 = (u, w')"
  have c1: "compensating i w1" using c cr by (auto dest!: rpc_credit_world)
  note cm = txn_credit [OF cr a fresh(1)]
  show ?thesis
  proof (cases credited)
    case False
    with rest finalize [OF _ c1 i] cm(1) show ?thesis by (auto simp: undone_def)
  next
    case True
    have "\<And>c. \<not> w_posted w1 True (txn_op i ''merchant-compensation'') c" using cm(2) fresh(2) by simp
    from compensate_merchant_outcome [OF _ c1 i a this, of env mid u w'] rest True
    have "held i w' \<or> compensated i w' \<and>
       (\<exists>m mc. v_find_merchant_by_id env mid = Inr m \<and> v_find_card_by_user_id env (mi_user_id m) = Inr mc
          \<and> w_bal w' = moved (w_bal w1) (ci_card mc) (- a))"
      by simp
    then show ?thesis unfolding undone_def using True cm(1) by auto
  qed
qed

lemma compensate_outcome:
  assumes run: "compensate_transaction env i a uc mid credited w = (u, w')"
    and x: "cur i w = [x]" "row_live x" and i: "fits_int32 i" and a: "fits_int64 a"
    and fresh: "\<And>c. \<not> w_posted w False (txn_op i ''user-compensation'') c"
      "\<And>c. \<not> w_posted w True (txn_op i ''merchant-compensation'') c"
  shows "cur i w' = [x] \<and> w_bal w' = w_bal w
    \<or> row_status x = st_processing
       \<and> (held i w' \<or> compensated i w' \<and> undone env a uc mid credited (w_bal w) (w_bal w'))"
  using run unfolding compensate_transaction_def
proof (elim and_thenE)
  fix g w1
  assume g: "guard_status env i st_processing st_compensating ''partial settlement; compensation started'' w = (g, w1)"
    and rest: "(if g \<noteq> Inr True then ret () else compensate_claimed env i a uc mid credited) w1 = (u, w')"
  note gc = guard_status_cur [OF g x i]
  from gc(1) have same: "w_bal w1 = w_bal w" "w_posted w1 = w_posted w" by auto
  show ?thesis
  proof (cases "g = Inr True")
    case False
    with rest gc(2) same x(2) show ?thesis by (auto simp: ret_def held_def)
  next
    case True
    with gc(2) x(2) have "row_status x = st_processing" "compensating i w1" by (auto simp: compensating_def)
    with True rest i a fresh same compensate_claimed_outcome [of env i a uc mid credited w1 u w']
    show ?thesis by simp
  qed
qed

section \<open>What the status of a payment says\<close>

definition paid ::
  "'q svc_env \<Rightarrow> merchant_info \<Rightarrow> card_info \<Rightarrow> int \<Rightarrow> (string \<Rightarrow> int option) \<Rightarrow> (string \<Rightarrow> int option) \<Rightarrow> bool" where
  "paid env merchant ci a b b' \<longleftrightarrow>
     (\<exists>mc funds. v_find_card_by_user_id env (mi_user_id merchant) = Inr mc
        \<and> b (ci_card ci) = Some funds \<and> a \<le> funds
        \<and> b' = moved (moved b (ci_card ci) (- a)) (ci_card mc) a)"

definition payment_posted ::
  "'q svc_env \<Rightarrow> string \<Rightarrow> create_txn_request \<Rightarrow> (string \<Rightarrow> int option) \<Rightarrow> (string \<Rightarrow> int option) \<Rightarrow> bool" where
  "payment_posted env api_key req b b' \<longleftrightarrow>
     (\<exists>m ci. v_find_merchant_by_api_key env api_key = Inr m \<and> v_find_user_card env (ct_card req) = Inr ci
        \<and> paid env m ci (ct_amount req) b b')"

lemma enqueue_transaction_events_same [simp]:
  "cur i (enqueue_transaction_events env tx up ci m mc req ub mb w) = cur i w"
  "w_bal (enqueue_transaction_events env tx up ci m mc req ub mb w) = w_bal w"
  by (simp_all add: enqueue_transaction_events_def Let_def)

lemma finish_transaction_settles:
  assumes run: "finish_transaction env m ci req tx mc ub mb w = (r, w')"
    and x: "cur i w = [x]" "row_live x" "row_status x = st_processing" and id: "row_id tx = i"
    and i: "fits_int32 i" and a: "fits_int64 (ct_amount req)"
    and fresh: "\<And>c. \<not> w_posted w False (txn_op i ''user-compensation'') c"
      "\<And>c. \<not> w_posted w True (txn_op i ''merchant-compensation'') c"
    and mc: "v_find_card_by_user_id env (mi_user_id m) = Inr mc"
    and consistent: "\<And>m'. v_find_merchant_by_id env (mi_id m) = Inr m' \<Longrightarrow> mi_user_id m' = mi_user_id m"
    and bal: "w_bal w = moved (moved b (ci_card ci) (- ct_amount req)) (ci_card mc) (ct_amount req)"
    and funds: "\<exists>x. b (ci_card ci) = Some x \<and> ct_amount req \<le> x"
  shows "settled_by i (paid env m ci (ct_amount req) b) b (snd r) w'"
  using run unfolding finish_transaction_def
proof (elim try_orE and_thenE)
  fix e w1 u w2
  assume t: "transition_status env (row_id tx) st_processing st_success [] w = (Inl e, w1)"
    and c: "compensate_transaction env (row_id tx) (ct_amount req) (ci_card ci) (mi_id m) True w1 = (u, w2)"
    and f: "fail_with False e w2 = (r, w')"
  note tc = transition_status_cur [OF t [unfolded id] x(1,2) i]
  from tc(1) have same: "w_bal w1 = w_bal w" "w_posted w1 = w_posted w" by auto
  from tc(3) obtain y where y: "cur i w1 = [y]" "row_live y" "row_status y = st_processing \<or> row_status y = st_success"
    using x by auto
  have w2: "w2 = w'" and r: "snd r = Inl (handle_error (Some e))" using f by auto
  have ok: "paid env m ci (ct_amount req) b (w_bal w)" using bal mc funds by (auto simp: paid_def)
  from compensate_outcome [OF c [unfolded id] y(1,2) i a] fresh same
  have "cur i w' = [y] \<and> w_bal w' = w_bal w \<or> held i w'
    \<or> compensated i w' \<and> undone env (ct_amount req) (ci_card ci) (mi_id m) True (w_bal w) (w_bal w')"
    by (auto simp: w2)
  then show ?thesis
  proof (elim disjE conjE)
    assume "cur i w' = [y]" "w_bal w' = w_bal w"
    with y ok r show ?thesis by (auto simp: settled_defs)
  next
    assume "held i w'" with r show ?thesis by (auto simp: settled_defs held_def)
  next
    assume "compensated i w'" and "undone env (ct_amount req) (ci_card ci) (mi_id m) True (w_bal w) (w_bal w')"
    moreover from this(2) have "w_bal w' = b"
      using consistent mc bal by (auto simp: undone_def)
    ultimately show ?thesis using r by (auto simp: settled_defs compensated_def)
  qed
next
  fix up w1
  assume t: "transition_status env (row_id tx) st_processing st_success [] w = (Inr up, w1)"
    and e: "((False, Inr up), enqueue_transaction_events env tx up ci m mc req ub mb w1) = (r, w')"
  note tc = transition_status_cur [OF t [unfolded id] x(1,2) i]
  from tc(1) have "w_bal w1 = w_bal w" by auto
  with tc(2) [OF refl] e bal mc funds show ?thesis by (auto simp: settled_defs paid_def)
qed

lemma pay_merchant_settles:
  assumes run: "pay_merchant env m ci req tx ub w = (r, w')"
    and x: "cur i w = [x]" "row_live x" "row_status x = st_processing" and id: "row_id tx = i"
    and i: "fits_int32 i" and a: "fits_int64 (ct_amount req)"
    and fresh: "\<And>d leg c. leg \<noteq> ''user-debit'' \<Longrightarrow> \<not> w_posted w d (txn_op i leg) c"
    and consistent: "\<And>m'. v_find_merchant_by_id env (mi_id m) = Inr m' \<Longrightarrow> mi_user_id m' = mi_user_id m"
    and bal: "w_bal w = moved b (ci_card ci) (- ct_amount req)"
    and funds: "\<exists>x. b (ci_card ci) = Some x \<and> ct_amount req \<le> x"
  shows "settled_by i (paid env m ci (ct_amount req) b) b (snd r) w'"
proof (cases "v_find_card_by_user_id env (mi_user_id m)")
  case (Inl e)
  with run obtain u where c: "compensate_transaction env i (ct_amount req) (ci_card ci) (mi_id m) False w = (u, w')"
    and r: "snd r = Inl (handle_error (Some e))"
    by (auto simp: pay_merchant_def id elim!: and_thenE)
  have "cur i w' = [x] \<or> held i w' \<or> compensated i w' \<and> w_bal w' = b"
    using compensate_outcome [OF c x(1,2) i a] fresh bal by (auto simp: undone_def)
  with x(3) r show ?thesis by (auto simp: settled_defs held_def compensated_def)
next
  case (Inr mc)
  from run Inr have "try_or (rpc_credit env (txn_request ''transaction'' i ''merchant-credit'' (ct_amount req) (ci_card mc)))
      (\<lambda>err. and_then (guard_status env i st_processing st_unknown
                 (''merchant credit outcome ambiguous: '' @ error_text err)) (\<lambda>_. fail_with True err))
      (\<lambda>credited. finish_transaction env m ci req tx mc ub (r_balance credited)) w = (r, w')"
    by (simp add: pay_merchant_def id)
  then show ?thesis
  proof (elim try_orE and_thenE)
    fix e w1 g w2
    assume cr: "rpc_credit env (txn_request ''transaction'' i ''merchant-credit'' (ct_amount req) (ci_card mc)) w = (Inl e, w1)"
      and g: "guard_status env i st_processing st_unknown
         (''merchant credit outcome ambiguous: '' @ error_text e) w1 = (g, w2)"
      and f: "fail_with True e w2 = (r, w')"
    have "cur i w1 = [x]" using rpc_credit_cur [OF cr] x(1) by simp
    from guard_status_cur(2) [OF g this x(2) i] f x(3)
    show ?thesis by (auto simp: settled_defs)
  next
    fix cred w1
    assume cr: "rpc_credit env (txn_request ''transaction'' i ''merchant-credit'' (ct_amount req) (ci_card mc)) w = (Inr cred, w1)"
      and f: "finish_transaction env m ci req tx mc ub (r_balance cred) w1 = (r, w')"
    have c1: "cur i w1 = [x]" using rpc_credit_cur [OF cr] x(1) by simp
    have n: "\<not> w_posted w False (txn_op i ''merchant-credit'') (ci_card mc)" by (rule fresh) simp
    note cm = txn_credit [OF cr a n]
    show ?thesis
      by (rule finish_transaction_settles [OF f c1 x(2,3) id i a _ _ Inr consistent])
        (simp_all add: cm fresh bal funds)
  qed
qed

lemma charge_user_settles:
  assumes run: "charge_user env m ci req tx w = (r, w')"
    and x: "cur i w = [x]" "row_live x" "row_status x = st_processing" and id: "row_id tx = i"
    and i: "fits_int32 i" and a: "fits_int64 (ct_amount req)"
    and fresh: "txn_fresh i w" and seen: "delivered env (RDebit (txn_op i ''user-debit''))"
    and consistent: "\<And>m'. v_find_merchant_by_id env (mi_id m) = Inr m' \<Longrightarrow> mi_user_id m' = mi_user_id m"
  shows "settled_by i (paid env m ci (ct_amount req) (w_bal w)) (w_bal w) (snd r) w'"
  using run unfolding charge_user_def id
proof (elim try_orE and_thenE)
  fix e w1 g w2
  assume d: "rpc_debit env (txn_request ''transaction'' i ''user-debit'' (ct_amount req) (ci_card ci)) w = (Inl e, w1)"
    and g: "guard_status env i st_processing st_failed (''debit failed: '' @ error_text e) w1 = (g, w2)"
    and f: "fail_with True e w2 = (r, w')"
  have c1: "cur i w1 = [x]" using rpc_debit_cur [OF d] x(1) by simp
  have "w_bal w1 = w_bal w" using rpc_debit_failed [OF d] seen by (simp add: money_same_def)
  with guard_status_cur [OF g c1 x(2) i] f x(3) show ?thesis by (auto simp: settled_defs)
next
  fix deb w1
  assume d: "rpc_debit env (txn_request ''transaction'' i ''user-debit'' (ct_amount req) (ci_card ci)) w = (Inr deb, w1)"
    and p: "pay_merchant env m ci req tx (r_balance deb) w1 = (r, w')"
  have c1: "cur i w1 = [x]" using rpc_debit_cur [OF d] x(1) by simp
  have n: "\<not> w_posted w e (txn_op i leg) c" for e leg c using fresh by (simp add: txn_fresh_def)
  note dm = txn_debit [OF d a n]
  show ?thesis
    by (rule pay_merchant_settles [OF p c1 x(2,3) id i a _ consistent]) (simp_all add: dm n dm(3))
qed

lemma settle_transaction_settles:
  assumes run: "settle_transaction env m ci req w = (r, w')"
    and wf: "table_wf (w_table w)" and i: "i = t_seq (w_table w)"
    and a: "fits_int64 (ct_amount req)"
    and fresh: "txn_fresh i w" and seen: "delivered env (RDebit (txn_op i ''user-debit''))"
    and consistent: "\<And>m'. v_find_merchant_by_id env (mi_id m) = Inr m' \<Longrightarrow> mi_user_id m' = mi_user_id m"
  shows "settled_by i (paid env m ci (ct_amount req) (w_bal w)) (w_bal w) (snd r) w'"
  using run unfolding settle_transaction_def
proof (elim try_orE)
  fix e w1
  assume c: "on_table (repo_create_transaction env req (mi_id m)) w = (Inl e, w1)"
    and f: "fail_with True e w1 = (r, w')"
  have "w_bal w1 = w_bal w"
    using create_row_cur(1) [OF c [unfolded repo_create_transaction_def create_transaction_sql_def]] by auto
  moreover have "row_status y = st_pending" if "y \<in> set (cur i w1)" for y
    using create_row_failed [OF c [unfolded repo_create_transaction_def create_transaction_sql_def] _ wf that [unfolded i]] by simp
  ultimately show ?thesis using f by (auto simp: settled_defs)
next
  fix tx w1
  assume c: "on_table (repo_create_transaction env req (mi_id m)) w = (Inr tx, w1)"
  note cc = create_row_cur [OF c [unfolded repo_create_transaction_def create_transaction_sql_def]]
  from cc(1) have same: "w_bal w1 = w_bal w" "w_posted w1 = w_posted w" by auto
  from cc(2) [OF _ refl wf] have tx: "cur i w1 = [tx]" "row_live tx" "row_id tx = i"
      "row_status tx = st_pending" "i \<le> 2147483647"
    by (simp_all add: i row_live_def)
  have i32: "fits_int32 i" using tx(5) wf i by (simp add: fits_int32_def table_wf_def)
  {
    fix e w2
    assume g: "guard_status env (row_id tx) st_pending st_processing [] w1 = (Inl e, w2)"
      and f: "fail_with True e w2 = (r, w')"
    from guard_status_cur [OF g [unfolded tx] tx(1,2) i32] f same tx show ?thesis
      by (auto simp: settled_defs)
  next
    fix ok w2
    assume g: "guard_status env (row_id tx) st_pending st_processing [] w1 = (Inr ok, w2)"
      and k: "(if \<not> ok then fail_with True (ErrorString ''transaction already being processed'')
         else charge_user env m ci req tx) w2 = (r, w')"
    note gc = guard_status_cur [OF g [unfolded tx] tx(1,2) i32]
    show ?thesis
    proof (cases ok)
      case False
      with k gc same tx show ?thesis by (auto simp: settled_defs)
    next
      case True
      from gc(1) same have same2: "w_bal w2 = w_bal w" "w_posted w2 = w_posted w" by auto
      from True gc(2) tx obtain y where y: "cur i w2 = [y]" "row_live y" "row_status y = st_processing" by auto
      have "txn_fresh i w2" using fresh same2 by (simp add: txn_fresh_def)
      from charge_user_settles [OF _ y tx(3) i32 a this seen consistent] k True same2
      show ?thesis by simp
    qed
  }
qed

lemma create_transaction_body_settles:
  assumes run: "create_transaction_body env api_key req w = (r, w')"
    and wf: "table_wf (w_table w)" and i: "i = t_seq (w_table w)"
    and fresh: "txn_fresh i w" and seen: "delivered env (RDebit (txn_op i ''user-debit''))"
    and consistent: "\<And>m m'. v_find_merchant_by_api_key env api_key = Inr m \<Longrightarrow>
       v_find_merchant_by_id env (mi_id m) = Inr m' \<Longrightarrow> mi_user_id m' = mi_user_id m"
  shows "settled_by i (payment_posted env api_key req (w_bal w)) (w_bal w) (snd r) w'"
proof -
  have idle: "settled_by i P b (Inl e) w" for P b e
    using cur_fresh [OF wf] by (simp add: settled_defs i)
  show ?thesis
  proof (cases "(\<exists>se e. r = (se, Inl e)) \<and> w' = w")
    case True
    then show ?thesis using idle by auto
  next
    case False
    with run obtain m ci where m: "v_find_merchant_by_api_key env api_key = Inr m"
        "v_find_user_card env (ct_card req) = Inr ci" "validate_amount (ct_amount req) = None"
      and s: "settle_transaction env m ci req w = (r, w')"
      unfolding create_transaction_body_def
      by (auto simp: rpc_find_saldo_def with_fault_def try_or_def ret_def
          split: option.splits sum.splits if_splits fault.splits prod.splits)
    from settle_transaction_settles [OF s wf i validated_amount_fits [OF m(3)] fresh seen consistent [OF m(1)]]
    have "settled_by i (paid env m ci (ct_amount req) (w_bal w)) (w_bal w) (snd r) w'" by simp
    moreover have "paid env m ci (ct_amount req) (w_bal w) = payment_posted env api_key req (w_bal w)"
      using m by (auto simp: payment_posted_def fun_eq_iff)
    ultimately show ?thesis by simp
  qed
qed

section \<open>What a payment that returns a row has done\<close>

text \<open>
  A result needs neither a delivered reply nor a merchant that is the same under both
  lookups: it means that every call of the straight path was answered.
\<close>

lemma finish_transaction_ok:
  assumes run: "finish_transaction env m ci req tx mc ub mb w = ((se, Inr row), w')"
    and x: "cur i w = [x]" "row_live x" and id: "row_id tx = i" and i: "fits_int32 i"
  shows "cur i w' = [row]" "row_status row = st_success" "w_bal w' = w_bal w"
proof -
  from run obtain up w1 where t: "transition_status env (row_id tx) st_processing st_success [] w = (Inr up, w1)"
    and e: "row = up" "w' = enqueue_transaction_events env tx up ci m mc req ub mb w1"
    unfolding finish_transaction_def by (auto elim!: try_orE and_thenE)
  note tc = transition_status_cur [OF t [unfolded id] x i]
  from tc(1) tc(2) [OF refl] e
  show "cur i w' = [row]" "row_status row = st_success" "w_bal w' = w_bal w" by auto
qed

lemma charge_user_ok:
  assumes run: "charge_user env m ci req tx w = ((se, Inr row), w')"
    and x: "cur i w = [x]" "row_live x" and id: "row_id tx = i" and i: "fits_int32 i"
    and a: "fits_int64 (ct_amount req)" and fresh: "txn_fresh i w"
  shows "cur i w' = [row]" "row_status row = st_success" "paid env m ci (ct_amount req) (w_bal w) (w_bal w')"
proof -
  from run obtain deb w1 mc cred w2 where
    d: "rpc_debit env (txn_request ''transaction'' i ''user-debit'' (ct_amount req) (ci_card ci)) w = (Inr deb, w1)"
    and mc: "v_find_card_by_user_id env (mi_user_id m) = Inr mc"
    and cr: "rpc_credit env (txn_request ''transaction'' i ''merchant-credit'' (ct_amount req) (ci_card mc)) w1 = (Inr cred, w2)"
    and f: "finish_transaction env m ci req tx mc (r_balance deb) (r_balance cred) w2 = ((se, Inr row), w')"
    unfolding charge_user_def pay_merchant_def id
    by (auto elim!: try_orE and_thenE split: sum.splits)
  have n: "\<not> w_posted w e (txn_op i leg) c" for e leg c using fresh by (simp add: txn_fresh_def)
  note dm = txn_debit [OF d a n]
  have "\<not> w_posted w1 False (txn_op i ''merchant-credit'') (ci_card mc)" by (simp add: dm(2) n)
  note cm = txn_credit [OF cr a this]
  have c2: "cur i w2 = [x]" using rpc_debit_cur [OF d] rpc_credit_cur [OF cr] x(1) by simp
  note fin = finish_transaction_ok [OF f c2 x(2) id i]
  show "cur i w' = [row]" "row_status row = st_success" by (fact fin)+
  show "paid env m ci (ct_amount req) (w_bal w) (w_bal w')"
    using mc dm(3) by (auto simp: paid_def fin(3) cm(1) dm(1))
qed

lemma settle_transaction_ok:
  assumes run: "settle_transaction env m ci req w = ((se, Inr row), w')"
    and wf: "table_wf (w_table w)" and i: "i = t_seq (w_table w)"
    and a: "fits_int64 (ct_amount req)" and fresh: "txn_fresh i w"
  shows "cur i w' = [row]" "row_status row = st_success" "paid env m ci (ct_amount req) (w_bal w) (w_bal w')"
proof -
  from run obtain tx w1 w2 where
    c: "on_table (repo_create_transaction env req (mi_id m)) w = (Inr tx, w1)"
    and g: "guard_status env (row_id tx) st_pending st_processing [] w1 = (Inr True, w2)"
    and k: "charge_user env m ci req tx w2 = ((se, Inr row), w')"
    unfolding settle_transaction_def by (auto elim!: try_orE split: if_splits)
  note cc = create_row_cur [OF c [unfolded repo_create_transaction_def create_transaction_sql_def]]
  from cc(1) have same: "w_bal w1 = w_bal w" "w_posted w1 = w_posted w" by auto
  from cc(2) [OF _ refl wf] have tx: "cur i w1 = [tx]" "row_live tx" "row_id tx = i" "i \<le> 2147483647"
    by (simp_all add: i row_live_def)
  have i32: "fits_int32 i" using tx(4) wf i by (simp add: fits_int32_def table_wf_def)
  note gc = guard_status_cur [OF g [unfolded tx] tx(1,2) i32]
  from gc(1) same have same2: "w_bal w2 = w_bal w" "w_posted w2 = w_posted w" by auto
  from gc(2) tx obtain y where y: "cur i w2 = [y]" "row_live y" by auto
  have "txn_fresh i w2" using fresh same2 by (simp add: txn_fresh_def)
  from charge_user_ok [OF k y tx(3) i32 a this] same2
  show "cur i w' = [row]" "row_status row = st_success" "paid env m ci (ct_amount req) (w_bal w) (w_bal w')"
    by simp_all
qed

lemma create_transaction_body_ok:
  assumes run: "create_transaction_body env api_key req w = ((se, Inr row), w')"
    and wf: "table_wf (w_table w)" and i: "i = t_seq (w_table w)" and fresh: "txn_fresh i w"
  shows "cur i w' = [row]" "row_status row = st_success" "payment_posted env api_key req (w_bal w) (w_bal w')"
proof -
  from run obtain m ci where m: "v_find_merchant_by_api_key env api_key = Inr m"
      "v_find_user_card env (ct_card req) = Inr ci" "validate_amount (ct_amount req) = None"
    and s: "settle_transaction env m ci req w = ((se, Inr row), w')"
    unfolding create_transaction_body_def
    by (auto simp: rpc_find_saldo_def with_fault_def try_or_def ret_def
        split: option.splits sum.splits if_splits fault.splits prod.splits)
  note ok = settle_transaction_ok [OF s wf i validated_amount_fits [OF m(3)] fresh]
  show "cur i w' = [row]" "row_status row = st_success" by (fact ok)+
  show "payment_posted env api_key req (w_bal w) (w_bal w')" using ok(3) m by (auto simp: payment_posted_def)
qed

section \<open>The whole command\<close>

lemma enqueue_transaction_events_commanded:
  "commanded w w' \<Longrightarrow> commanded w (enqueue_transaction_events env tx up ci m mc req ub mb w')"
  by (simp add: enqueue_transaction_events_def Let_def enqueue_commanded)

lemma compensate_within: "command_run.within (compensate_transaction env i a uc mid credited)"
  unfolding compensate_transaction_def compensate_claimed_def compensate_merchant_def
  by (intro command_run.within_intros step_within)

lemma finish_within: "command_run.within (finish_transaction env m ci req tx mc ub mb)"
  unfolding finish_transaction_def
  by (intro command_run.within_intros step_within compensate_within command_run.withinI)
    (auto intro: enqueue_transaction_events_commanded)

lemma charge_within: "command_run.within (charge_user env m ci req tx)"
  unfolding charge_user_def pay_merchant_def
  by (intro command_run.within_intros step_within compensate_within finish_within)

lemma create_body_within: "command_run.within (create_transaction_body env api_key req)"
proof -
  have ins: "command_run.within (on_table (repo_create_transaction env req i))" for i
    unfolding repo_create_transaction_def create_transaction_sql_def by (rule command_run.withinI, erule insert_commanded) simp_all
  show ?thesis
    unfolding create_transaction_body_def settle_transaction_def
    by (intro command_run.within_intros step_within charge_within ins)
qed

interpretation txn_command: idempotent_command w_idem "\<lambda>tb (w :: txn_world). w\<lparr>w_idem := tb\<rparr>"
  "\<lambda>(env, api_key, req). create_transaction_body env api_key req"
proof unfold_locales
  fix b :: "create_txn_request svc_env \<times> string \<times> create_txn_request" and w :: txn_world
  obtain env api_key req where "b = (env, api_key, req)" by (metis prod.exhaust)
  then show "w_idem (snd ((case b of (env, api_key, req) \<Rightarrow> create_transaction_body env api_key req) w)) = w_idem w"
    using create_body_within [of env api_key req] by (simp add: command_run.within_def commanded_def Let_def)
qed

lemma create_transaction_cases:
  assumes "create_transaction env api_key req w = (r, w')"
  obtains (answered) tb where "w' = w\<lparr>w_idem := tb\<rparr>" "ct_key req \<noteq> []"
      "r = idem_answer (v_now env) (v_idem env) ''transaction'' (ct_key req) (v_hash env req) tb"
  | (ran) tb se w2 tb' where "create_transaction_body env api_key req (w\<lparr>w_idem := tb\<rparr>) = ((se, r), w2)"
      "w' = w2\<lparr>w_idem := tb'\<rparr>"
  using assms unfolding create_transaction_def by (rule idem_run_cases)

lemma payment_fresh_idem [simp]: "txn_fresh i (w\<lparr>w_idem := tb\<rparr>) = txn_fresh i w"
  by (simp add: txn_fresh_def)

text \<open>The sample payment of the witnesses.\<close>

definition sample_payment :: create_txn_request where
  "sample_payment = \<lparr>ct_card = ''4111'', ct_amount = 300, ct_method = ''visa'', ct_time = 5, ct_key = ''k''\<rparr>"

lemma sample_txn_fresh: "txn_fresh i (sample_world a b)"
  by (simp add: txn_fresh_def w_posted_def saldo_posted_def find_entry_def sample_world_def sample_saldo_def
      sample_db_def sample_opening_def entry_key_def txn_op_def)

section \<open>Properties\<close>

text \<open>
  C6: however the calls of a merchant payment fail, if the reply of the user debit is not
  lost, and the merchant found by id has the owner of the merchant found by the API key, a
  row left pending, failed or compensated means that no balance changed and a row left
  success means that the user paid and the merchant received the amount (the operation
  identities of the new row are unused)
\<close>

theorem payment_status_truthful:
  assumes "table_wf (w_table w)" "i = t_seq (w_table w)" "txn_fresh i w"
    and "delivered env (RDebit (txn_op i ''user-debit''))"
    and "\<And>m m'. v_find_merchant_by_api_key env api_key = Inr m \<Longrightarrow>
       v_find_merchant_by_id env (mi_id m) = Inr m' \<Longrightarrow> mi_user_id m' = mi_user_id m"
  shows "truthful i (payment_posted env api_key req (w_bal w)) (w_bal w)
           (snd (create_transaction env api_key req w))"
proof -
  obtain r w' where run: "create_transaction env api_key req w = (r, w')" by (metis prod.exhaust)
  then show ?thesis
  proof (cases rule: create_transaction_cases)
    case (answered tb)
    then show ?thesis using run cur_fresh [OF assms(1)] assms(2) by (simp add: truthful_def)
  next
    case (ran tb se w2 tb')
    let ?w = "w\<lparr>w_idem := tb\<rparr>"
    have wf: "table_wf (w_table ?w)" and i: "i = t_seq (w_table ?w)" and fresh: "txn_fresh i ?w"
      using assms(1-3) by simp_all
    have "settled_by i (payment_posted env api_key req (w_bal ?w)) (w_bal ?w) (snd (se, r)) w2"
      by (rule create_transaction_body_settles [OF ran(1) wf i fresh assms(4)]) (rule assms(5))
    then have "settled_by i (payment_posted env api_key req (w_bal w)) (w_bal w) r w2"
      by (simp only: money_w_table snd_conv)
    with ran(2) run show ?thesis by (simp add: settled_defs)
  qed
qed

theorem payment_status_truthful_witness:
  "let env = sample_env (refusing (RTransition st_processing st_success)) 10; w = sample_world 1000 50
   in truthful 1 (payment_posted env ''key'' sample_payment (w_bal w)) (w_bal w)
        (snd (create_transaction env ''key'' sample_payment w))"
  unfolding Let_def
  by (rule payment_status_truthful)
    (simp_all add: sample_table_wf sample_txn_fresh delivered_def refusing_def)

text \<open>
  C7: a payment under fresh operation identities that returns a row either repeats one,
  and then answers the stored row of its key and only the idempotency store can have
  changed, or returns the row of the command with status success, the user had the amount,
  and exactly the user and the merchant card were moved by it
\<close>

theorem payment_success_settled:
  assumes "create_transaction env api_key req w = (Inr row, w')"
    and "table_wf (w_table w)" "i = t_seq (w_table w)" "txn_fresh i w"
  shows "replays ''transaction'' (ct_key req) (v_hash env req) row w w' \<or>
    cur i w' = [row] \<and> row_status row = st_success
    \<and> (\<exists>m ci mc funds. v_find_merchant_by_api_key env api_key = Inr m \<and> v_find_user_card env (ct_card req) = Inr ci
         \<and> v_find_card_by_user_id env (mi_user_id m) = Inr mc
         \<and> w_bal w (ci_card ci) = Some funds \<and> ct_amount req \<le> funds
         \<and> w_bal w' = moved (moved (w_bal w) (ci_card ci) (- ct_amount req)) (ci_card mc) (ct_amount req))"
  using assms(1)
proof (cases rule: create_transaction_cases)
  case (answered tb)
  then show ?thesis by (intro disjI1 answered_replays)
next
  case (ran tb se w2 tb')
  have wf: "table_wf (w_table (w\<lparr>w_idem := tb\<rparr>))" and i: "i = t_seq (w_table (w\<lparr>w_idem := tb\<rparr>))"
    and fresh: "txn_fresh i (w\<lparr>w_idem := tb\<rparr>)"
    using assms(2-4) by simp_all
  from create_transaction_body_ok [OF ran(1) wf i fresh] ran(2) show ?thesis
    by (auto simp: payment_posted_def paid_def)
qed

theorem payment_success_settled_witness:
  "let env = sample_env (\<lambda>_. Deliver) 10; w = sample_world 1000 50
   in case create_transaction env ''key'' sample_payment w of
        (Inr row, w') \<Rightarrow> cur 1 w' = [row] \<and> row_status row = st_success \<and> w_bal w' ''4111'' = Some 700
      | (Inl _, _) \<Rightarrow> False"
proof -
  let ?env = "sample_env (\<lambda>_. Deliver) 10" and ?w = "sample_world 1000 50 :: txn_world"
  let ?run = "create_transaction ?env ''key'' sample_payment ?w"
  have "\<not> isl (fst ?run)" and moved: "w_bal (snd ?run) ''4111'' = Some 700" "w_bal ?w ''4111'' = Some 1000"
    by code_simp+
  then obtain row w' where run: "?run = (Inr row, w')" by (cases ?run; cases "fst ?run") auto
  have "\<not> replays ''transaction'' (ct_key sample_payment) (v_hash ?env sample_payment) row ?w w'"
  proof
    assume "replays ''transaction'' (ct_key sample_payment) (v_hash ?env sample_payment) row ?w w'"
    then have "w_bal w' = w_bal ?w" by (rule replays_bal)
    with moved run show False by simp
  qed
  with payment_success_settled [OF run sample_table_wf(1) sample_table_wf(2) [symmetric] sample_txn_fresh]
  have "cur 1 w' = [row] \<and> row_status row = st_success" by blast
  with run moved show ?thesis by simp
qed

text \<open>
  C16: a retry of a payment that succeeded on the first use of its key, with the claim,
  the completion and the read of the record delivered, returns the stored row and changes
  nothing, on any later state that still holds the record of the key (the table has one
  record per key), under the same payload within a day, whatever would happen to its other
  calls
\<close>

theorem payment_retry_replays:
  assumes "create_transaction env api_key req w = (Inr row, w')"
    and "ct_key req \<noteq> []" "find (has_key ''transaction'' (ct_key req)) (w_idem w) = None" "keys_distinct (w_idem w)"
    and "v_idem_configured env" "f_claim (v_idem env) = Deliver" "f_complete (v_idem env) = Deliver"
    and "find (has_key ''transaction'' (ct_key req)) (w_idem u) = find (has_key ''transaction'' (ct_key req)) (w_idem w')"
    and "keys_distinct (w_idem u)"
    and "v_idem_configured env'" "f_get (v_idem env') = None" "v_now env' < v_now env + 24 * hour"
    and "ct_key req' = ct_key req" "v_hash env' req' = v_hash env req"
  shows "create_transaction env' api_key' req' u = (Inr row, u)"
proof -
  obtain c tb where c: "store_claim (v_now env) ''transaction'' (ct_key req) (v_hash env req) (w_idem w) = (c, tb)"
    by (metis prod.exhaust)
  have "\<exists>x. c = Inr x"
  proof (cases c)
    case (Inl e)
    with c assms(3) have "tb = w_idem w"
      by (auto simp: store_claim_def try_or_def ret_def claim_idempotency_def Let_def split: if_splits prod.splits)
    with assms(1-7) c Inl show ?thesis
      by (auto simp: create_transaction_def idem_run_def with_fault_def zoom_def idem_answer_def get_idempotency_def
          find_None_iff split: option.splits dest!: find_Some_mem)
  qed simp
  then obtain x where x: "c = Inr x" by blast
  have "answered (v_now env + 24 * hour) ''transaction'' (ct_key req) (v_hash env req) row (w_idem w')"
    using txn_command.run_success_answered [of "v_now env" "v_idem env" "''transaction''" "ct_key req"
        "v_hash env req" row_id "(env, api_key, req)" w row w' x tb] assms c x
    by (simp add: create_transaction_def)
  then have "answered (v_now env + 24 * hour) ''transaction'' (ct_key req) (v_hash env req) row (w_idem u)"
    using assms(8) by (simp add: answered_def)
  from txn_command.run_replays [OF this assms(9,2), of "v_now env'" "v_idem env'" row_id "(env', api_key', req')"] assms
  show ?thesis by (simp add: create_transaction_def)
qed

text \<open>Between the payment and its retry of the witness another payment is made.\<close>

theorem payment_retry_replays_witness:
  "let env = sample_env (\<lambda>_. Deliver) 10; env' = sample_env (\<lambda>_. Refuse ErrNoRows) 20;
       run = create_transaction env ''key'' sample_payment (sample_world 1000 50);
       u = snd (create_transaction env ''key'' (sample_payment\<lparr>ct_key := ''l''\<rparr>) (snd run))
   in \<not> isl (fst run) \<and> w_bal u ''4111'' = Some 400 \<and> create_transaction env' ''key'' sample_payment u = (fst run, u)"
proof -
  let ?env = "sample_env (\<lambda>_. Deliver) 10" and ?w = "sample_world 1000 50 :: txn_world"
    and ?env' = "sample_env (\<lambda>_. Refuse ErrNoRows) 20"
  let ?run = "create_transaction ?env ''key'' sample_payment ?w"
  let ?u = "snd (create_transaction ?env ''key'' (sample_payment\<lparr>ct_key := ''l''\<rparr>) (snd ?run))"
  have ok: "\<not> isl (fst ?run)" and bal: "w_bal ?u ''4111'' = Some 400" by code_simp+
  have kept: "find (has_key ''transaction'' ''k'') (w_idem ?u) = find (has_key ''transaction'' ''k'') (w_idem (snd ?run))"
    "keys_distinct (w_idem ?u)" by code_simp+
  from ok obtain row w' where run: "?run = (Inr row, w')" by (cases ?run; cases "fst ?run") auto
  have "create_transaction ?env' ''key'' sample_payment ?u = (Inr row, ?u)"
    by (rule payment_retry_replays [OF run])
      (use kept run in \<open>simp_all add: sample_payment_def sample_world_def keys_distinct_def sample_env_def time_defs\<close>)
  with run bal show ?thesis by simp
qed

text \<open>
  C17: a payment changes the command rows only along the status machine: earlier rows keep
  identity, data and deletion mark, and a new row starts as pending
\<close>

theorem payment_rows_follow_state_machine:
  assumes "table_wf (w_table w)"
  shows "let rows = t_rows (w_table w); rows' = t_rows (w_table (snd (create_transaction env api_key req w)))
    in table_wf (w_table (snd (create_transaction env api_key req w))) \<and> length rows \<le> length rows'
      \<and> (\<forall>k < length rows. row_evolves (rows ! k) (rows' ! k))
      \<and> (\<forall>k. length rows \<le> k \<and> k < length rows' \<longrightarrow> status_step\<^sup>*\<^sup>* st_pending (row_status (rows' ! k)))"
proof -
  obtain r w' where run: "create_transaction env api_key req w = (r, w')" by (metis prod.exhaust)
  then show ?thesis
  proof (cases rule: create_transaction_cases)
    case (answered tb)
    then show ?thesis using run assms by (auto simp: Let_def)
  next
    case (ran tb se w2 tb')
    from command_run.withinD [OF create_body_within ran(1)] assms ran(2) run
    show ?thesis by (simp add: commanded_def Let_def)
  qed
qed

theorem payment_rows_follow_state_machine_witness:
  "let w = sample_world 1000 50; env = sample_env (\<lambda>_. Deliver) 10
   in table_wf (w_table (snd (create_transaction env ''key'' sample_payment w)))"
  using payment_rows_follow_state_machine [OF sample_table_wf(1)] unfolding Let_def by blast

section \<open>Runs the statuses do not describe\<close>

text \<open>
  A debit whose reply is lost was still posted: the row is marked failed although the user
  has paid. This is the case the hypothesis of the truthfulness theorem excludes.
\<close>

theorem lost_debit_reply_marks_failed:
  "let w' = snd (create_transaction (sample_env (losing (RDebit (txn_op 1 ''user-debit''))) 10) ''key''
              sample_payment (sample_world 1000 50))
   in map row_status (cur 1 w') = [st_failed] \<and> w_bal w' ''4111'' = Some 700 \<and> w_bal w' ''4222'' = Some 50"
  by code_simp

text \<open>
  The compensation looks the merchant up by its id, the payment by its API key. When the two
  answers name different owners (an update of the merchant drops only the entry of the id
  from the cache), it takes the credit back from another card: here the payer, who has paid
  and pays again what the merchant keeps, while the row reads compensated.
\<close>

theorem compensation_debits_another_card:
  "let env = (sample_env (refusing (RTransition st_processing st_success)) 10)
         \<lparr>v_find_merchant_by_id := \<lambda>_. Inr (sample_merchant\<lparr>mi_user_id := 1\<rparr>)\<rparr>;
       w' = snd (create_transaction env ''key'' sample_payment (sample_world 1000 50))
   in map row_status (cur 1 w') = [st_compensated] \<and> w_bal w' ''4111'' = Some 700 \<and> w_bal w' ''4222'' = Some 350"
  by code_simp

text \<open>
  The key of a request is released after every error, also when the row was quarantined
  because money may have moved: the retry with the same key opens a second row under new
  operation identities and charges the user again.
\<close>

theorem retry_after_quarantine_charges_twice:
  "let w1 = snd (create_transaction (sample_env (losing (RCredit (txn_op 1 ''merchant-credit''))) 10) ''key''
              sample_payment (sample_world 1000 50));
       run = create_transaction (sample_env (\<lambda>_. Deliver) 20) ''key'' sample_payment w1
   in map row_status (cur 1 w1) = [st_unknown] \<and> w_bal w1 ''4111'' = Some 700 \<and> w_bal w1 ''4222'' = Some 350
      \<and> \<not> isl (fst run) \<and> w_bal (snd run) ''4111'' = Some 400 \<and> w_bal (snd run) ''4222'' = Some 650"
  by code_simp

text \<open>
  After a failed success marker the \<open>status\<close> variable is still the initial one, so the
  deferred release does not run: the payment was compensated, yet the key stays in
  processing and a retry is refused.
\<close>

theorem failed_marker_keeps_key:
  "let w1 = snd (create_transaction (sample_env (refusing (RTransition st_processing st_success)) 10) ''key''
              sample_payment (sample_world 1000 50));
       run = create_transaction (sample_env (\<lambda>_. Deliver) 20) ''key'' sample_payment w1
   in map row_status (cur 1 w1) = [st_compensated] \<and> w_bal w1 ''4111'' = Some 1000
      \<and> fst run = Inl processing_error \<and> w_table (snd run) = w_table w1"
  by code_simp

text \<open>
  The stored response is found by scope and key alone: another merchant that sends the
  same payload under the same key gets the first merchant's payment, and its own account
  is not looked up.
\<close>

theorem replay_ignores_the_merchant:
  "let run = create_transaction (sample_env (\<lambda>_. Deliver) 10) ''key'' sample_payment (sample_world 1000 50);
       run' = create_transaction (sample_env (\<lambda>_. Deliver) 20) ''other'' sample_payment (snd run)
   in \<not> isl (fst run) \<and> run' = run"
  by code_simp

text \<open>
  \<open>Update\<close> returns the old amount and debits the new one whatever the status of the row:
  on a compensated payment, for which nothing is owed, it credits the user and marks the
  row a success. The merchant's balance is never adjusted.
\<close>

definition sample_update :: update_txn_request where
  "sample_update = \<lparr>ut_id = 1, ut_amount = 100, ut_method = ''visa''\<rparr>"

theorem update_of_compensated_payment_creates_money:
  "let w1 = snd (create_transaction (sample_env (refusing (RTransition st_processing st_success)) 10) ''key''
              sample_payment (sample_world 1000 50));
       run = update_transaction (sample_env (\<lambda>_. Deliver) 20) ''key'' sample_update w1
   in map row_status (cur 1 w1) = [st_compensated] \<and> w_bal w1 ''4111'' = Some 1000 \<and> w_bal w1 ''4222'' = Some 50
      \<and> map row_status (cur 1 (snd run)) = [st_success]
      \<and> w_bal (snd run) ''4111'' = Some 1200 \<and> w_bal (snd run) ''4222'' = Some 50"
  by code_simp

end
