(* ===== verification/TransferService.thy ===== *)
theory TransferService
  imports Samples Validation Timestamps
begin

text \<open>
  Transfers between two cards (\<open>service/transfer/service/transferCommandService.go\<close>, its
  repository and the statements of \<open>service/transfer/database/schema\<close>): the settlement of
  \<open>CreateTransaction\<close> with its compensation, \<open>UpdateTransaction\<close> by the difference of the
  amounts, and the row commands.
\<close>

section \<open>Rows and requests\<close>

record transfer_row = cmd_row +
  tf_from :: string
  tf_to :: string
  tf_amount :: int
  tf_time :: int

type_synonym transfer_world = "transfer_row cmd_world"

record create_transfer_request =
  cr_from :: string
  cr_to :: string
  cr_amount :: int
  cr_key :: string

record update_transfer_request =
  up_id :: int
  up_from :: string
  up_to :: string
  up_amount :: int

definition transfer_entity :: string where "transfer_entity = ''transfer''"

definition create_transfer_sql ::
  "create_transfer_request svc_env \<Rightarrow> string \<Rightarrow> string \<Rightarrow> int \<Rightarrow> int \<Rightarrow> status \<Rightarrow>
   (go_error, transfer_row, transfer_row cmd_table) op" where
  "create_transfer_sql env sender receiver amount time st =
     insert_row (\<lambda>i. \<lparr>row_id = i, row_no = v_row_no env, row_status = st, row_failure = None,
                       row_created_at = Some (v_now env), row_updated_at = v_now env, row_deleted_at = None,
                       tf_from = sender, tf_to = receiver, tf_amount = amount, tf_time = time\<rparr>)
       (length sender \<le> 16 \<and> length receiver \<le> 16)"

definition repo_create_transfer ::
  "create_transfer_request svc_env \<Rightarrow> create_transfer_request \<Rightarrow>
   (go_error, transfer_row, transfer_row cmd_table) op" where
  "repo_create_transfer env req =
     call_or_failed (v_fault env RCreateRow) ''create transfer''
       (create_transfer_sql env (cr_from req) (cr_to req) (go_int64 (cr_amount req)) (v_now env) st_pending)"

definition update_transfer_sql ::
  "int \<Rightarrow> int \<Rightarrow> string \<Rightarrow> string \<Rightarrow> int \<Rightarrow> int \<Rightarrow> (go_error, transfer_row, transfer_row cmd_table) op" where
  "update_transfer_sql now i sender receiver amount time =
     (if length sender > 16 \<or> length receiver > 16 then ret (Inl (DbError ''value too long''))
      else update_row (live_id i)
        (\<lambda>r. r\<lparr>row_updated_at := now, tf_from := sender, tf_to := receiver, tf_amount := amount,
               tf_time := time\<rparr>))"

text \<open>
  The repository sets no transfer time in the parameters, so the statement writes Go's
  zero time (the first of January of the year 1) over the row's.
\<close>

definition repo_update_transfer ::
  "go_error fault \<Rightarrow> int \<Rightarrow> update_transfer_request \<Rightarrow> (go_error, transfer_row, transfer_row cmd_table) op" where
  "repo_update_transfer fl now req =
     row_or_failed fl transfer_entity ''update transfer''
       (update_transfer_sql now (go_int32 (up_id req)) (up_from req) (up_to req) (go_int64 (up_amount req)) zero_time)"

definition update_transfer_amount_sql ::
  "int \<Rightarrow> int \<Rightarrow> int \<Rightarrow> (go_error, transfer_row, transfer_row cmd_table) op" where
  "update_transfer_amount_sql now i amount =
     update_row (live_id i) (\<lambda>r. r\<lparr>row_updated_at := now, tf_amount := amount, tf_time := now\<rparr>)"

definition repo_update_transfer_amount ::
  "go_error fault \<Rightarrow> int \<Rightarrow> int \<Rightarrow> int \<Rightarrow> (go_error, transfer_row, transfer_row cmd_table) op" where
  "repo_update_transfer_amount fl now i amount =
     row_or_failed fl transfer_entity ''update transfer amount''
       (update_transfer_amount_sql now (go_int32 i) (go_int64 amount))"

section \<open>Settlement\<close>

definition transfer_op :: "int \<Rightarrow> string \<Rightarrow> string" where
  "transfer_op i leg = ''transfer:'' @ itoa i @ '':'' @ leg"

definition transfer_request :: "string \<Rightarrow> int \<Rightarrow> string \<Rightarrow> int \<Rightarrow> string \<Rightarrow> saldo_request" where
  "transfer_request source i leg amount cnum =
     \<lparr>sr_card = cnum, sr_amount = amount, sr_operation_id = transfer_op i leg,
      sr_source_type = source, sr_source_id = itoa i\<rparr>"

definition compensate_receiver ::
  "'q svc_env \<Rightarrow> int \<Rightarrow> int \<Rightarrow> string \<Rightarrow> string \<Rightarrow> transfer_world \<Rightarrow> unit \<times> transfer_world" where
  "compensate_receiver env i amount sender receiver =
     try_or (rpc_debit env (transfer_request ''transfer_compensation'' i ''receiver-compensation'' amount receiver))
       (\<lambda>err. quiet (guard_status env i st_compensating st_unknown
                       (''receiver compensation failed: '' @ error_text err)))
       (\<lambda>_. try_or (rpc_credit env (transfer_request ''transfer_compensation'' i ''sender-compensation'' amount sender))
          (\<lambda>err. quiet (guard_status env i st_compensating st_unknown
                          (''sender compensation failed: '' @ error_text err)))
          (\<lambda>_. quiet (guard_status env i st_compensating st_compensated [])))"

definition compensate_transfer ::
  "'q svc_env \<Rightarrow> int \<Rightarrow> int \<Rightarrow> string \<Rightarrow> string \<Rightarrow> transfer_world \<Rightarrow> unit \<times> transfer_world" where
  "compensate_transfer env i amount sender receiver =
     and_then (guard_status env i st_processing st_compensating ''partial settlement; compensation started'')
       (\<lambda>claimed. if claimed \<noteq> Inr True then ret ()
          else compensate_receiver env i amount sender receiver)"

definition enqueue_transfer_events ::
  "create_transfer_request svc_env \<Rightarrow> transfer_row \<Rightarrow> transfer_row \<Rightarrow> card_info \<Rightarrow>
   create_transfer_request \<Rightarrow> int \<Rightarrow> int \<Rightarrow> transfer_world \<Rightarrow> transfer_world" where
  "enqueue_transfer_events env transfer updated sender_card req sender_balance receiver_balance w =
     (if \<not> v_outbox_configured env then w
      else
        let tid = itoa (row_id transfer);
            w1 = enqueue_event env ''transfer'' tid ''transfer.created''
                   (EmailPayload (ci_email sender_card) ''Transfer Successful - SanEdge''
                      (''Your Transfer of '' @ itoa (cr_amount req) @ '' has been processed successfully.'')) w;
            w2 = enqueue_event env ''transfer'' tid ''transfer.stats''
                   (StatsPayload ''transfer'' (row_id updated) (row_no updated)
                      [cr_from req, cr_to req] (cr_amount req) ''success'' (v_now env)) w1;
            w3 = enqueue_event env ''transfer'' (cr_from req) ''transfer.saldo_sender''
                   (SaldoPayload (cr_from req) sender_balance (v_now env)) w2
        in enqueue_event env ''transfer'' (cr_to req) ''transfer.saldo_receiver''
             (SaldoPayload (cr_to req) receiver_balance (v_now env)) w3)"

definition finish_transfer ::
  "create_transfer_request svc_env \<Rightarrow> create_transfer_request \<Rightarrow> card_info \<Rightarrow> transfer_row \<Rightarrow>
   string \<Rightarrow> string \<Rightarrow> int \<Rightarrow> int \<Rightarrow> transfer_world \<Rightarrow> (bool \<times> (go_error + transfer_row)) \<times> transfer_world" where
  "finish_transfer env req sender_card tr sender receiver sender_balance receiver_balance =
     try_or (transition_status env (row_id tr) st_processing st_success [])
       (\<lambda>err. and_then (compensate_transfer env (row_id tr) (cr_amount req) sender receiver)
                (\<lambda>_. fail_with True err))
       (\<lambda>updated w. ((False, Inr updated),
          enqueue_transfer_events env tr updated sender_card req sender_balance receiver_balance w))"

definition credit_receiver ::
  "create_transfer_request svc_env \<Rightarrow> create_transfer_request \<Rightarrow> card_info \<Rightarrow> transfer_row \<Rightarrow>
   string \<Rightarrow> string \<Rightarrow> int \<Rightarrow> transfer_world \<Rightarrow> (bool \<times> (go_error + transfer_row)) \<times> transfer_world" where
  "credit_receiver env req sender_card tr sender receiver sender_balance =
     try_or (rpc_credit env (transfer_request ''transfer'' (row_id tr) ''receiver-credit'' (cr_amount req) receiver))
       (\<lambda>err. and_then (guard_status env (row_id tr) st_processing st_unknown
                  (''receiver credit outcome ambiguous: '' @ error_text err))
                (\<lambda>_. fail_with True err))
       (\<lambda>credited. finish_transfer env req sender_card tr sender receiver sender_balance (r_balance credited))"

definition debit_sender ::
  "create_transfer_request svc_env \<Rightarrow> create_transfer_request \<Rightarrow> card_info \<Rightarrow> transfer_row \<Rightarrow>
   string \<Rightarrow> string \<Rightarrow> transfer_world \<Rightarrow> (bool \<times> (go_error + transfer_row)) \<times> transfer_world" where
  "debit_sender env req sender_card tr sender receiver =
     try_or (rpc_debit env (transfer_request ''transfer'' (row_id tr) ''sender-debit'' (cr_amount req) sender))
       (\<lambda>err. and_then (guard_status env (row_id tr) st_processing st_failed (''debit failed: '' @ error_text err))
                (\<lambda>_. fail_with True err))
       (\<lambda>debited. credit_receiver env req sender_card tr sender receiver (r_balance debited))"

definition settle_transfer ::
  "create_transfer_request svc_env \<Rightarrow> create_transfer_request \<Rightarrow> card_info \<Rightarrow> string \<Rightarrow> string \<Rightarrow>
   transfer_world \<Rightarrow> (bool \<times> (go_error + transfer_row)) \<times> transfer_world" where
  "settle_transfer env req sender_card sender receiver =
     try_or (on_table (repo_create_transfer env req)) (fail_with True)
       (\<lambda>tr. try_or (guard_status env (row_id tr) st_pending st_processing []) (fail_with True)
           (\<lambda>ok. if \<not> ok then fail_with True (ErrorString ''transfer already being processed'')
             else debit_sender env req sender_card tr sender receiver))"

text \<open>The checks before the row is written, and the settlement of the two saldo records found.\<close>

definition create_transfer_body ::
  "create_transfer_request svc_env \<Rightarrow> create_transfer_request \<Rightarrow>
   transfer_world \<Rightarrow> (bool \<times> (go_error + transfer_row)) \<times> transfer_world" where
  "create_transfer_body env req =
     (case validate_amount (cr_amount req) of
        Some err \<Rightarrow> fail_with True err
      | None \<Rightarrow>
     (case validate_transfer_parties (cr_from req) (cr_to req) of
        Some err \<Rightarrow> fail_with True err
      | None \<Rightarrow>
     (case v_find_user_card env (cr_from req) of
        Inl err \<Rightarrow> fail_with True err
      | Inr sender_card \<Rightarrow>
     (case v_find_card env (cr_to req) of
        Inl err \<Rightarrow> fail_with True err
      | Inr _ \<Rightarrow>
          try_or (rpc_find_saldo env (cr_from req)) (fail_with True)
            (\<lambda>sender. try_or (rpc_find_saldo env (cr_to req)) (fail_with True)
               (\<lambda>receiver.
                  if s_balance sender < cr_amount req
                  then fail_with True (with_message ErrConflict ''insufficient balance for transfer'')
                  else case v_block env of
                    Some reason \<Rightarrow> ret (True, Inl (ErrorString (''security block: '' @ reason)))
                  | None \<Rightarrow> settle_transfer env req sender_card (s_card sender) (s_card receiver)))))))"

definition create_transfer ::
  "create_transfer_request svc_env \<Rightarrow> create_transfer_request \<Rightarrow> (go_error, transfer_row, transfer_world) op" where
  "create_transfer env req =
     idem_run w_idem (\<lambda>tb w. w\<lparr>w_idem := tb\<rparr>) (v_idem_configured env) (v_now env) (v_idem env)
       ''transfer'' (cr_key req) (v_hash env req) row_id (create_transfer_body env req)"

section \<open>Update\<close>

definition transfer_update_op :: "int \<Rightarrow> int \<Rightarrow> string \<Rightarrow> string" where
  "transfer_update_op i amount leg = ''transfer:update:'' @ itoa i @ '':'' @ itoa amount @ '':'' @ leg"

definition transfer_update_request ::
  "string \<Rightarrow> int \<Rightarrow> int \<Rightarrow> string \<Rightarrow> int \<Rightarrow> string \<Rightarrow> saldo_request" where
  "transfer_update_request source i new_amount leg amount cnum =
     \<lparr>sr_card = cnum, sr_amount = amount, sr_operation_id = transfer_update_op i new_amount leg,
      sr_source_type = source, sr_source_id = itoa i\<rparr>"

definition adjust_debit ::
  "'q svc_env \<Rightarrow> transfer_row \<Rightarrow> int \<Rightarrow> string \<Rightarrow> int \<Rightarrow> string \<Rightarrow> (go_error, saldo_mutation_result, transfer_world) op" where
  "adjust_debit env tr new_amount leg amount cnum =
     rpc_debit env (transfer_update_request ''transfer_update'' (row_id tr) new_amount leg amount cnum)"

definition adjust_credit ::
  "'q svc_env \<Rightarrow> transfer_row \<Rightarrow> int \<Rightarrow> string \<Rightarrow> int \<Rightarrow> string \<Rightarrow> (go_error, saldo_mutation_result, transfer_world) op" where
  "adjust_credit env tr new_amount leg amount cnum =
     rpc_credit env (transfer_update_request ''transfer_update'' (row_id tr) new_amount leg amount cnum)"

definition rollback_debit ::
  "'q svc_env \<Rightarrow> transfer_row \<Rightarrow> int \<Rightarrow> string \<Rightarrow> int \<Rightarrow> string \<Rightarrow> transfer_world \<Rightarrow> unit \<times> transfer_world" where
  "rollback_debit env tr new_amount leg amount cnum =
     quiet (rpc_debit env (transfer_update_request ''transfer_update_compensation'' (row_id tr) new_amount leg amount cnum))"

definition rollback_credit ::
  "'q svc_env \<Rightarrow> transfer_row \<Rightarrow> int \<Rightarrow> string \<Rightarrow> int \<Rightarrow> string \<Rightarrow> transfer_world \<Rightarrow> unit \<times> transfer_world" where
  "rollback_credit env tr new_amount leg amount cnum =
     quiet (rpc_credit env (transfer_update_request ''transfer_update_compensation'' (row_id tr) new_amount leg amount cnum))"

text \<open>Move the difference; an error leaves with the marker started, after the rollback of the first leg.\<close>

definition move_difference ::
  "'q svc_env \<Rightarrow> update_transfer_request \<Rightarrow> transfer_row \<Rightarrow> int \<Rightarrow> string \<Rightarrow> string \<Rightarrow>
   (go_error, unit, transfer_world) op" where
  "move_difference env req tr diff sender receiver =
     (if diff > 0 then
        try_or (adjust_debit env tr (up_amount req) ''sender-debit'' diff sender)
          (\<lambda>err. marked (up_id req) (Some err))
          (\<lambda>_. try_or (adjust_credit env tr (up_amount req) ''receiver-credit'' diff receiver)
             (\<lambda>err. and_then (rollback_credit env tr (up_amount req) ''rollback-sender-credit'' diff sender)
                      (\<lambda>_. marked (up_id req) (Some err)))
             (\<lambda>_. ret (Inr ())))
      else if diff < 0 then
        try_or (adjust_credit env tr (up_amount req) ''sender-credit'' (- diff) sender)
          (\<lambda>err. marked (up_id req) (Some err))
          (\<lambda>_. try_or (adjust_debit env tr (up_amount req) ''receiver-debit'' (- diff) receiver)
             (\<lambda>err. and_then (rollback_debit env tr (up_amount req) ''rollback-sender-debit'' (- diff) sender)
                      (\<lambda>_. marked (up_id req) (Some err)))
             (\<lambda>_. ret (Inr ())))
      else ret (Inr ()))"

definition rollback_difference ::
  "'q svc_env \<Rightarrow> update_transfer_request \<Rightarrow> transfer_row \<Rightarrow> int \<Rightarrow> string \<Rightarrow> string \<Rightarrow>
   transfer_world \<Rightarrow> unit \<times> transfer_world" where
  "rollback_difference env req tr diff sender receiver =
     (if diff > 0 then
        and_then (rollback_debit env tr (up_amount req) ''rollback-receiver-debit'' diff receiver)
          (\<lambda>_. rollback_credit env tr (up_amount req) ''rollback-sender-credit'' diff sender)
      else if diff < 0 then
        and_then (rollback_credit env tr (up_amount req) ''rollback-receiver-credit'' (- diff) receiver)
          (\<lambda>_. rollback_debit env tr (up_amount req) ''rollback-sender-debit'' (- diff) sender)
      else ret ())"

definition write_transfer_update ::
  "'q svc_env \<Rightarrow> update_transfer_request \<Rightarrow> transfer_row \<Rightarrow> int \<Rightarrow> string \<Rightarrow> string \<Rightarrow>
   (go_error, transfer_row, transfer_world) op" where
  "write_transfer_update env req tr diff sender receiver =
     try_or (on_table (repo_update_transfer (v_fault env RUpdateRow) (v_now env) req))
       (\<lambda>err. and_then (rollback_difference env req tr diff sender receiver)
                (\<lambda>_. marked (up_id req) (Some err)))
       (\<lambda>updated. try_or (on_table (repo_update_status (v_fault env (RUpdateStatus st_success)) transfer_entity
                     (v_now env) (up_id req) st_success))
          (\<lambda>err. and_then (rollback_difference env req tr diff sender receiver)
                   (\<lambda>_. ret (Inl (handle_error (Some err)))))
          (\<lambda>_. ret (Inr updated)))"

definition update_transfer ::
  "'q svc_env \<Rightarrow> update_transfer_request \<Rightarrow> (go_error, transfer_row, transfer_world) op" where
  "update_transfer env req =
     try_or (on_table (repo_find_row (v_fault env RFindRow) transfer_entity (up_id req)))
       (\<lambda>err. marked (up_id req) (Some err))
       (\<lambda>tr. try_or (rpc_find_saldo env (tf_from tr))
          (\<lambda>err. marked (up_id req) (Some err))
          (\<lambda>sender. try_or (rpc_find_saldo env (tf_to tr))
             (\<lambda>err. marked (up_id req) (Some err))
             (\<lambda>receiver.
                let diff = up_amount req - tf_amount tr
                in try_or (move_difference env req tr diff (s_card sender) (s_card receiver))
                     (\<lambda>err. ret (Inl err))
                     (\<lambda>_. write_transfer_update env req tr diff (s_card sender) (s_card receiver)))))"

section \<open>Row commands and recovery\<close>

definition trashed_transfer :: "'q svc_env \<Rightarrow> int \<Rightarrow> (go_error, transfer_row, transfer_world) op" where
  "trashed_transfer env = svc_trashed env transfer_entity"

definition restore_transfer :: "'q svc_env \<Rightarrow> int \<Rightarrow> (go_error, transfer_row, transfer_world) op" where
  "restore_transfer env = svc_restore env transfer_entity"

definition delete_transfer_permanent :: "'q svc_env \<Rightarrow> int \<Rightarrow> (go_error, unit, transfer_world) op" where
  "delete_transfer_permanent env = svc_delete_permanent env transfer_entity"

definition restore_all_transfer :: "'q svc_env \<Rightarrow> (go_error, unit, transfer_world) op" where
  "restore_all_transfer env = svc_restore_all env transfer_entity"

definition delete_all_transfer_permanent :: "'q svc_env \<Rightarrow> (go_error, unit, transfer_world) op" where
  "delete_all_transfer_permanent env = svc_delete_all_permanent env transfer_entity"

definition recover_transfers ::
  "'q svc_env \<Rightarrow> (int \<Rightarrow> go_error fault) \<Rightarrow> int \<Rightarrow> nat \<Rightarrow> (go_error, unit, transfer_world) op" where
  "recover_transfers env fl older_than max_rows =
     on_table (recover_stuck_operations tf_amount fl (v_now env) older_than max_rows)"

section \<open>Legs and lookups\<close>

lemma transfer_op_eq [simp]: "transfer_op i leg = transfer_op j leg' \<longleftrightarrow> i = j \<and> leg = leg'"
  by (simp add: transfer_op_def)

lemma transfer_op_nonempty [simp]: "transfer_op i leg \<noteq> []"
  by (simp add: transfer_op_def)

lemma transfer_request_simps [simp]:
  "sr_card (transfer_request src i leg a c) = c"
  "sr_amount (transfer_request src i leg a c) = a"
  "sr_operation_id (transfer_request src i leg a c) = transfer_op i leg"
  by (simp_all add: transfer_request_def)

definition transfer_fresh :: "int \<Rightarrow> transfer_world \<Rightarrow> bool" where
  "transfer_fresh i w \<longleftrightarrow> (\<forall>d leg c. \<not> w_posted w d (transfer_op i leg) c)"

lemma transfer_debit:
  assumes "rpc_debit env (transfer_request src i leg a c) w = (Inr x, w')" "fits_int64 a"
    and "\<not> w_posted w True (transfer_op i leg) c"
  shows "w_bal w' = moved (w_bal w) c (- a)"
    and "w_posted w' d p e \<longleftrightarrow> w_posted w d p e \<or> d \<and> p = transfer_op i leg \<and> e = c"
    and "\<exists>b. w_bal w c = Some b \<and> a \<le> b"
  using debit_moved [OF assms(1)] assms(2,3) by simp_all

lemma transfer_credit:
  assumes "rpc_credit env (transfer_request src i leg a c) w = (Inr x, w')" "fits_int64 a"
    and "\<not> w_posted w False (transfer_op i leg) c"
  shows "w_bal w' = moved (w_bal w) c a"
    and "w_posted w' d p e \<longleftrightarrow> w_posted w d p e \<or> \<not> d \<and> p = transfer_op i leg \<and> e = c"
  using credit_moved [OF assms(1)] assms(2,3) by simp_all

section \<open>Compensation\<close>

lemma compensate_receiver_outcome:
  assumes run: "compensate_receiver env i a sender receiver w = (u, w')"
    and c: "compensating i w" and i: "fits_int32 i" and a: "fits_int64 a"
    and fresh: "\<And>c. \<not> w_posted w True (transfer_op i ''receiver-compensation'') c"
      "\<And>c. \<not> w_posted w False (transfer_op i ''sender-compensation'') c"
  shows "held i w' \<or> compensated i w' \<and> w_bal w' = moved (moved (w_bal w) receiver (- a)) sender a"
  using run unfolding compensate_receiver_def
proof (elim try_orE)
  fix e w1
  assume "rpc_debit env (transfer_request ''transfer_compensation'' i ''receiver-compensation'' a receiver) w = (Inl e, w1)"
    "quiet (guard_status env i st_compensating st_unknown
       (''receiver compensation failed: '' @ error_text e)) w1 = (u, w')"
  with c i show ?thesis by (auto dest!: rpc_debit_world intro: quarantine)
next
  fix x w1 e w2
  assume d: "rpc_debit env (transfer_request ''transfer_compensation'' i ''receiver-compensation'' a receiver) w = (Inr x, w1)"
    and "rpc_credit env (transfer_request ''transfer_compensation'' i ''sender-compensation'' a sender) w1 = (Inl e, w2)"
    "quiet (guard_status env i st_compensating st_unknown
       (''sender compensation failed: '' @ error_text e)) w2 = (u, w')"
  with c i show ?thesis by (auto dest!: rpc_debit_world rpc_credit_world intro: quarantine)
next
  fix x w1 y w2
  assume d: "rpc_debit env (transfer_request ''transfer_compensation'' i ''receiver-compensation'' a receiver) w = (Inr x, w1)"
    and cr: "rpc_credit env (transfer_request ''transfer_compensation'' i ''sender-compensation'' a sender) w1 = (Inr y, w2)"
    and q: "quiet (guard_status env i st_compensating st_compensated []) w2 = (u, w')"
  have c2: "compensating i w2" using c d cr by (auto dest!: rpc_debit_world rpc_credit_world)
  note dm = transfer_debit [OF d a fresh(1)]
  have n: "\<not> w_posted w1 False (transfer_op i ''sender-compensation'') sender"
    using fresh(2) by (simp add: dm(2))
  from finalize [OF q c2 i] transfer_credit(1) [OF cr a n] dm(1) show ?thesis by auto
qed

lemma compensate_transfer_outcome:
  assumes run: "compensate_transfer env i a sender receiver w = (u, w')"
    and x: "cur i w = [x]" "row_live x" and i: "fits_int32 i" and a: "fits_int64 a"
    and fresh: "\<And>c. \<not> w_posted w True (transfer_op i ''receiver-compensation'') c"
      "\<And>c. \<not> w_posted w False (transfer_op i ''sender-compensation'') c"
  shows "cur i w' = [x] \<and> w_bal w' = w_bal w
    \<or> row_status x = st_processing
       \<and> (held i w' \<or> compensated i w' \<and> w_bal w' = moved (moved (w_bal w) receiver (- a)) sender a)"
  using run unfolding compensate_transfer_def
proof (elim and_thenE)
  fix g w1
  assume g: "guard_status env i st_processing st_compensating ''partial settlement; compensation started'' w = (g, w1)"
    and rest: "(if g \<noteq> Inr True then ret () else compensate_receiver env i a sender receiver) w1 = (u, w')"
  note gc = guard_status_cur [OF g x i]
  from gc(1) have same: "w_bal w1 = w_bal w" "w_posted w1 = w_posted w" by auto
  show ?thesis
  proof (cases "g = Inr True")
    case False
    with rest gc(2) same x(2) show ?thesis by (auto simp: ret_def held_def)
  next
    case True
    with gc(2) x(2) have "row_status x = st_processing" "compensating i w1" by (auto simp: compensating_def)
    with True rest i a fresh same compensate_receiver_outcome [of env i a sender receiver w1 u w']
    show ?thesis by simp
  qed
qed

section \<open>What the status of a transfer says\<close>

definition transferred ::
  "create_transfer_request \<Rightarrow> (string \<Rightarrow> int option) \<Rightarrow> (string \<Rightarrow> int option) \<Rightarrow> bool" where
  "transferred req b b' \<longleftrightarrow>
     cr_from req \<noteq> cr_to req \<and> (\<exists>funds. b (cr_from req) = Some funds \<and> cr_amount req \<le> funds)
     \<and> b' = moved (moved b (cr_from req) (- cr_amount req)) (cr_to req) (cr_amount req)"

lemma enqueue_transfer_events_same [simp]:
  "cur i (enqueue_transfer_events env tr up sc req sb rb w) = cur i w"
  "w_bal (enqueue_transfer_events env tr up sc req sb rb w) = w_bal w"
  by (simp_all add: enqueue_transfer_events_def Let_def)

lemma finish_transfer_settles:
  assumes run: "finish_transfer env req sc tr (cr_from req) (cr_to req) sb rb w = (r, w')"
    and x: "cur i w = [x]" "row_live x" "row_status x = st_processing" and id: "row_id tr = i"
    and i: "fits_int32 i" and a: "fits_int64 (cr_amount req)"
    and fresh: "\<And>c. \<not> w_posted w True (transfer_op i ''receiver-compensation'') c"
      "\<And>c. \<not> w_posted w False (transfer_op i ''sender-compensation'') c"
    and posted: "transferred req b (w_bal w)"
  shows "settled_by i (transferred req b) b (snd r) w'"
  using run unfolding finish_transfer_def
proof (elim try_orE and_thenE)
  fix e w1 u w2
  assume t: "transition_status env (row_id tr) st_processing st_success [] w = (Inl e, w1)"
    and c: "compensate_transfer env (row_id tr) (cr_amount req) (cr_from req) (cr_to req) w1 = (u, w2)"
    and f: "fail_with True e w2 = (r, w')"
  note tc = transition_status_cur [OF t [unfolded id] x(1,2) i]
  from tc(1) have same: "w_bal w1 = w_bal w" "w_posted w1 = w_posted w" by auto
  from tc(3) obtain y where y: "cur i w1 = [y]" "row_live y" "row_status y = st_processing \<or> row_status y = st_success"
    using x by auto
  have w2: "w2 = w'" and r: "snd r = Inl (handle_error (Some e))" using f by auto
  have restored: "moved (moved (w_bal w) (cr_to req) (- cr_amount req)) (cr_from req) (cr_amount req) = b"
    using posted by (simp add: transferred_def)
  from compensate_transfer_outcome [OF c [unfolded id] y(1,2) i a] fresh same
  have "cur i w' = [y] \<and> w_bal w' = w_bal w \<or> held i w' \<or> compensated i w' \<and> w_bal w' = b"
    by (auto simp: w2 restored)
  with y posted r show ?thesis by (auto simp: settled_defs held_def compensated_def)
next
  fix up w1
  assume t: "transition_status env (row_id tr) st_processing st_success [] w = (Inr up, w1)"
    and e: "((False, Inr up), enqueue_transfer_events env tr up sc req sb rb w1) = (r, w')"
  note tc = transition_status_cur [OF t [unfolded id] x(1,2) i]
  from tc(1) have "w_bal w1 = w_bal w" by auto
  with tc(2) [OF refl] e posted show ?thesis by (auto simp: settled_defs)
qed

lemma debit_sender_settles:
  assumes run: "debit_sender env req sc tr (cr_from req) (cr_to req) w = (r, w')"
    and x: "cur i w = [x]" "row_live x" "row_status x = st_processing" and id: "row_id tr = i"
    and i: "fits_int32 i" and a: "fits_int64 (cr_amount req)" and parties: "cr_from req \<noteq> cr_to req"
    and fresh: "transfer_fresh i w" and seen: "delivered env (RDebit (transfer_op i ''sender-debit''))"
  shows "settled_by i (transferred req (w_bal w)) (w_bal w) (snd r) w'"
  using run unfolding debit_sender_def id credit_receiver_def
proof (elim try_orE and_thenE)
  fix e w1 g w2
  assume d: "rpc_debit env (transfer_request ''transfer'' i ''sender-debit'' (cr_amount req) (cr_from req)) w = (Inl e, w1)"
    and g: "guard_status env i st_processing st_failed (''debit failed: '' @ error_text e) w1 = (g, w2)"
    and f: "fail_with True e w2 = (r, w')"
  have c1: "cur i w1 = [x]" using rpc_debit_cur [OF d] x(1) by simp
  have "w_bal w1 = w_bal w" using rpc_debit_failed [OF d] seen by (simp add: money_same_def)
  with guard_status_cur [OF g c1 x(2) i] f x(3) show ?thesis by (auto simp: settled_defs)
next
  fix deb w1 e w2 g w3
  assume d: "rpc_debit env (transfer_request ''transfer'' i ''sender-debit'' (cr_amount req) (cr_from req)) w = (Inr deb, w1)"
    and cr: "rpc_credit env (transfer_request ''transfer'' i ''receiver-credit'' (cr_amount req) (cr_to req)) w1 = (Inl e, w2)"
    and g: "guard_status env i st_processing st_unknown
       (''receiver credit outcome ambiguous: '' @ error_text e) w2 = (g, w3)"
    and f: "fail_with True e w3 = (r, w')"
  have "cur i w2 = [x]" using rpc_debit_cur [OF d] rpc_credit_cur [OF cr] x(1) by simp
  from guard_status_cur(2) [OF g this x(2) i] f x(3) show ?thesis by (auto simp: settled_defs)
next
  fix deb w1 cred w2
  assume d: "rpc_debit env (transfer_request ''transfer'' i ''sender-debit'' (cr_amount req) (cr_from req)) w = (Inr deb, w1)"
    and cr: "rpc_credit env (transfer_request ''transfer'' i ''receiver-credit'' (cr_amount req) (cr_to req)) w1 = (Inr cred, w2)"
    and f: "finish_transfer env req sc tr (cr_from req) (cr_to req) (r_balance deb) (r_balance cred) w2 = (r, w')"
  have c2: "cur i w2 = [x]" using rpc_debit_cur [OF d] rpc_credit_cur [OF cr] x(1) by simp
  have n: "\<not> w_posted w e (transfer_op i leg) c" for e leg c using fresh by (simp add: transfer_fresh_def)
  note dm = transfer_debit [OF d a n]
  have n1: "\<not> w_posted w1 False (transfer_op i ''receiver-credit'') (cr_to req)" by (simp add: dm(2) n)
  note cm = transfer_credit [OF cr a n1]
  have "transferred req (w_bal w) (w_bal w2)"
    using parties dm(3) by (simp add: transferred_def cm(1) dm(1))
  then show ?thesis
    by (rule finish_transfer_settles [OF f c2 x(2,3) id i a, rotated 2]) (simp_all add: cm(2) dm(2) n)
qed

lemma settle_transfer_settles:
  assumes run: "settle_transfer env req sc (cr_from req) (cr_to req) w = (r, w')"
    and wf: "table_wf (w_table w)" and i: "i = t_seq (w_table w)"
    and a: "fits_int64 (cr_amount req)" and parties: "cr_from req \<noteq> cr_to req"
    and fresh: "transfer_fresh i w" and seen: "delivered env (RDebit (transfer_op i ''sender-debit''))"
  shows "settled_by i (transferred req (w_bal w)) (w_bal w) (snd r) w'"
  using run unfolding settle_transfer_def
proof (elim try_orE)
  fix e w1
  assume c: "on_table (repo_create_transfer env req) w = (Inl e, w1)"
    and f: "fail_with True e w1 = (r, w')"
  have "w_bal w1 = w_bal w"
    using create_row_cur(1) [OF c [unfolded repo_create_transfer_def create_transfer_sql_def]] by auto
  moreover have "row_status y = st_pending" if "y \<in> set (cur i w1)" for y
    using create_row_failed [OF c [unfolded repo_create_transfer_def create_transfer_sql_def] _ wf that [unfolded i]] by simp
  ultimately show ?thesis using f by (auto simp: settled_defs)
next
  fix tr w1
  assume c: "on_table (repo_create_transfer env req) w = (Inr tr, w1)"
  note cc = create_row_cur [OF c [unfolded repo_create_transfer_def create_transfer_sql_def]]
  from cc(1) have same: "w_bal w1 = w_bal w" "w_posted w1 = w_posted w" by auto
  from cc(2) [OF _ refl wf] have tr: "cur i w1 = [tr]" "row_live tr" "row_id tr = i"
      "row_status tr = st_pending" "i \<le> 2147483647"
    by (simp_all add: i row_live_def)
  have i32: "fits_int32 i" using tr(5) wf i by (simp add: fits_int32_def table_wf_def)
  {
    fix e w2
    assume g: "guard_status env (row_id tr) st_pending st_processing [] w1 = (Inl e, w2)"
      and f: "fail_with True e w2 = (r, w')"
    from guard_status_cur [OF g [unfolded tr] tr(1,2) i32] f same tr show ?thesis
      by (auto simp: settled_defs)
  next
    fix ok w2
    assume g: "guard_status env (row_id tr) st_pending st_processing [] w1 = (Inr ok, w2)"
      and k: "(if \<not> ok then fail_with True (ErrorString ''transfer already being processed'')
         else debit_sender env req sc tr (cr_from req) (cr_to req)) w2 = (r, w')"
    note gc = guard_status_cur [OF g [unfolded tr] tr(1,2) i32]
    show ?thesis
    proof (cases ok)
      case False
      with k gc same tr show ?thesis by (auto simp: settled_defs)
    next
      case True
      from gc(1) same have same2: "w_bal w2 = w_bal w" "w_posted w2 = w_posted w" by auto
      from True gc(2) tr obtain y where y: "cur i w2 = [y]" "row_live y" "row_status y = st_processing" by auto
      have "transfer_fresh i w2" using fresh same2 by (simp add: transfer_fresh_def)
      from debit_sender_settles [OF _ y tr(3) i32 a parties this seen] k True same2
      show ?thesis by simp
    qed
  }
qed

lemma create_transfer_body_settles:
  assumes run: "create_transfer_body env req w = (r, w')"
    and wf: "table_wf (w_table w)" and i: "i = t_seq (w_table w)"
    and fresh: "transfer_fresh i w" and seen: "delivered env (RDebit (transfer_op i ''sender-debit''))"
  shows "settled_by i (transferred req (w_bal w)) (w_bal w) (snd r) w'"
proof -
  have idle: "settled_by i P b (Inl e) w" for P b e
    using cur_fresh [OF wf] by (simp add: settled_defs i)
  show ?thesis
  proof (cases "(\<exists>se e. r = (se, Inl e)) \<and> w' = w")
    case True
    then show ?thesis using idle by auto
  next
    case False
    have find: "snd (rpc_find_saldo env c w) = w" for c
      by (cases "v_fault env (RFindSaldo c)") (auto simp: rpc_find_saldo_def with_fault_def)
    from False run obtain sc sender receiver where checks: "validate_amount (cr_amount req) = None"
        "validate_transfer_parties (cr_from req) (cr_to req) = None"
      and s: "rpc_find_saldo env (cr_from req) w = (Inr sender, w)"
        "rpc_find_saldo env (cr_to req) w = (Inr receiver, w)"
        "settle_transfer env req sc (s_card sender) (s_card receiver) w = (r, w')"
      using find [of "cr_from req"] find [of "cr_to req"]
      unfolding create_transfer_body_def
      by (auto simp: try_or_def ret_def split: option.splits sum.splits if_splits prod.splits)
    from rpc_find_saldo_found [OF s(1)] rpc_find_saldo_found [OF s(2)] checks(2)
    have "s_card sender = cr_from req" "s_card receiver = cr_to req" "cr_from req \<noteq> cr_to req"
      by (auto simp: validate_transfer_parties_def)
    with s(3) settle_transfer_settles [OF _ wf i validated_amount_fits [OF checks(1)] _ fresh seen]
    show ?thesis by simp
  qed
qed

section \<open>What a transfer that returns a row has done\<close>

lemma finish_transfer_ok:
  assumes run: "finish_transfer env req sc tr sender receiver sb rb w = ((se, Inr row), w')"
    and x: "cur i w = [x]" "row_live x" and id: "row_id tr = i" and i: "fits_int32 i"
  shows "cur i w' = [row]" "row_status row = st_success" "w_bal w' = w_bal w"
proof -
  from run obtain up w1 where t: "transition_status env (row_id tr) st_processing st_success [] w = (Inr up, w1)"
    and e: "row = up" "w' = enqueue_transfer_events env tr up sc req sb rb w1"
    unfolding finish_transfer_def by (auto elim!: try_orE and_thenE)
  note tc = transition_status_cur [OF t [unfolded id] x i]
  from tc(1) tc(2) [OF refl] e
  show "cur i w' = [row]" "row_status row = st_success" "w_bal w' = w_bal w" by auto
qed

lemma debit_sender_ok:
  assumes run: "debit_sender env req sc tr (cr_from req) (cr_to req) w = ((se, Inr row), w')"
    and x: "cur i w = [x]" "row_live x" and id: "row_id tr = i" and i: "fits_int32 i"
    and a: "fits_int64 (cr_amount req)" and parties: "cr_from req \<noteq> cr_to req" and fresh: "transfer_fresh i w"
  shows "cur i w' = [row]" "row_status row = st_success" "transferred req (w_bal w) (w_bal w')"
proof -
  from run obtain deb w1 cred w2 where
    d: "rpc_debit env (transfer_request ''transfer'' i ''sender-debit'' (cr_amount req) (cr_from req)) w = (Inr deb, w1)"
    and cr: "rpc_credit env (transfer_request ''transfer'' i ''receiver-credit'' (cr_amount req) (cr_to req)) w1 = (Inr cred, w2)"
    and f: "finish_transfer env req sc tr (cr_from req) (cr_to req) (r_balance deb) (r_balance cred) w2 = ((se, Inr row), w')"
    unfolding debit_sender_def credit_receiver_def id by (auto elim!: try_orE and_thenE)
  have n: "\<not> w_posted w e (transfer_op i leg) c" for e leg c using fresh by (simp add: transfer_fresh_def)
  note dm = transfer_debit [OF d a n]
  have "\<not> w_posted w1 False (transfer_op i ''receiver-credit'') (cr_to req)" by (simp add: dm(2) n)
  note cm = transfer_credit [OF cr a this]
  have c2: "cur i w2 = [x]" using rpc_debit_cur [OF d] rpc_credit_cur [OF cr] x(1) by simp
  note fin = finish_transfer_ok [OF f c2 x(2) id i]
  show "cur i w' = [row]" "row_status row = st_success" by (fact fin)+
  show "transferred req (w_bal w) (w_bal w')"
    using parties dm(3) by (simp add: transferred_def fin(3) cm(1) dm(1))
qed

lemma settle_transfer_ok:
  assumes run: "settle_transfer env req sc (cr_from req) (cr_to req) w = ((se, Inr row), w')"
    and wf: "table_wf (w_table w)" and i: "i = t_seq (w_table w)"
    and a: "fits_int64 (cr_amount req)" and parties: "cr_from req \<noteq> cr_to req" and fresh: "transfer_fresh i w"
  shows "cur i w' = [row]" "row_status row = st_success" "transferred req (w_bal w) (w_bal w')"
proof -
  from run obtain tr w1 w2 where
    c: "on_table (repo_create_transfer env req) w = (Inr tr, w1)"
    and g: "guard_status env (row_id tr) st_pending st_processing [] w1 = (Inr True, w2)"
    and k: "debit_sender env req sc tr (cr_from req) (cr_to req) w2 = ((se, Inr row), w')"
    unfolding settle_transfer_def by (auto elim!: try_orE split: if_splits)
  note cc = create_row_cur [OF c [unfolded repo_create_transfer_def create_transfer_sql_def]]
  from cc(1) have same: "w_bal w1 = w_bal w" "w_posted w1 = w_posted w" by auto
  from cc(2) [OF _ refl wf] have tr: "cur i w1 = [tr]" "row_live tr" "row_id tr = i" "i \<le> 2147483647"
    by (simp_all add: i row_live_def)
  have i32: "fits_int32 i" using tr(4) wf i by (simp add: fits_int32_def table_wf_def)
  note gc = guard_status_cur [OF g [unfolded tr] tr(1,2) i32]
  from gc(1) same have same2: "w_bal w2 = w_bal w" "w_posted w2 = w_posted w" by auto
  from gc(2) tr obtain y where y: "cur i w2 = [y]" "row_live y" by auto
  have "transfer_fresh i w2" using fresh same2 by (simp add: transfer_fresh_def)
  from debit_sender_ok [OF k y tr(3) i32 a parties this] same2
  show "cur i w' = [row]" "row_status row = st_success" "transferred req (w_bal w) (w_bal w')" by simp_all
qed

lemma create_transfer_body_ok:
  assumes run: "create_transfer_body env req w = ((se, Inr row), w')"
    and wf: "table_wf (w_table w)" and i: "i = t_seq (w_table w)" and fresh: "transfer_fresh i w"
  shows "cur i w' = [row]" "row_status row = st_success" "transferred req (w_bal w) (w_bal w')"
proof -
  have find: "snd (rpc_find_saldo env c w) = w" for c
    by (cases "v_fault env (RFindSaldo c)") (auto simp: rpc_find_saldo_def with_fault_def)
  from run obtain sc sender receiver where checks: "validate_amount (cr_amount req) = None"
      "validate_transfer_parties (cr_from req) (cr_to req) = None"
    and s: "rpc_find_saldo env (cr_from req) w = (Inr sender, w)"
      "rpc_find_saldo env (cr_to req) w = (Inr receiver, w)"
      "settle_transfer env req sc (s_card sender) (s_card receiver) w = ((se, Inr row), w')"
    using find [of "cr_from req"] find [of "cr_to req"]
    unfolding create_transfer_body_def
    by (auto simp: try_or_def ret_def split: option.splits sum.splits if_splits prod.splits)
  from rpc_find_saldo_found [OF s(1)] rpc_find_saldo_found [OF s(2)] checks(2)
  have "s_card sender = cr_from req" "s_card receiver = cr_to req" and parties: "cr_from req \<noteq> cr_to req"
    by (auto simp: validate_transfer_parties_def)
  with s(3) settle_transfer_ok [OF _ wf i validated_amount_fits [OF checks(1)] parties fresh]
  show "cur i w' = [row]" "row_status row = st_success" "transferred req (w_bal w) (w_bal w')" by simp_all
qed

section \<open>The whole command\<close>

lemma create_transfer_body_within: "command_run.within (create_transfer_body env req)"
proof -
  have comp: "command_run.within (compensate_transfer env i a sender receiver)" for i a sender receiver
    unfolding compensate_transfer_def compensate_receiver_def
    by (intro command_run.within_intros step_within)
  have events: "commanded w w' \<Longrightarrow> commanded w (enqueue_transfer_events env tr up sc req sb rb w')"
    for w w' tr up sc sb rb
    by (simp add: enqueue_transfer_events_def Let_def enqueue_commanded)
  have fin: "command_run.within (finish_transfer env req sc tr sender receiver sb rb)" for sc tr sender receiver sb rb
    unfolding finish_transfer_def
    by (intro command_run.within_intros step_within comp command_run.withinI) (auto intro: events)
  have ins: "command_run.within (on_table (repo_create_transfer env req))"
    unfolding repo_create_transfer_def create_transfer_sql_def by (rule command_run.withinI, erule insert_commanded) simp_all
  show ?thesis
    unfolding create_transfer_body_def settle_transfer_def debit_sender_def credit_receiver_def
    by (intro command_run.within_intros step_within fin ins)
qed

interpretation transfer_command: idempotent_command w_idem "\<lambda>tb (w :: transfer_world). w\<lparr>w_idem := tb\<rparr>"
  "\<lambda>(env, req). create_transfer_body env req"
proof unfold_locales
  fix b :: "create_transfer_request svc_env \<times> create_transfer_request" and w :: transfer_world
  obtain env req where "b = (env, req)" by (metis prod.exhaust)
  then show "w_idem (snd ((case b of (env, req) \<Rightarrow> create_transfer_body env req) w)) = w_idem w"
    using create_transfer_body_within [of env req] by (simp add: command_run.within_def commanded_def Let_def)
qed

lemma create_transfer_cases:
  assumes "create_transfer env req w = (r, w')"
  obtains (answered) tb where "w' = w\<lparr>w_idem := tb\<rparr>" "cr_key req \<noteq> []"
      "r = idem_answer (v_now env) (v_idem env) ''transfer'' (cr_key req) (v_hash env req) tb"
  | (ran) tb se w2 tb' where "create_transfer_body env req (w\<lparr>w_idem := tb\<rparr>) = ((se, r), w2)"
      "w' = w2\<lparr>w_idem := tb'\<rparr>"
  using assms unfolding create_transfer_def by (rule idem_run_cases)

lemma transfer_fresh_idem [simp]: "transfer_fresh i (w\<lparr>w_idem := tb\<rparr>) = transfer_fresh i w"
  by (simp add: transfer_fresh_def)

definition sample_transfer :: create_transfer_request where
  "sample_transfer = \<lparr>cr_from = ''4111'', cr_to = ''4222'', cr_amount = 300, cr_key = ''k''\<rparr>"

lemma sample_transfer_fresh: "transfer_fresh i (sample_world a b)"
  by (auto simp: transfer_fresh_def transfer_op_def dest: sample_posted)

section \<open>Properties\<close>

text \<open>
  C8: however the calls of a transfer fail, if the reply of the sender debit is not lost,
  a row left pending, failed or compensated means that no balance changed and a row left
  success means that the amount went from the sender to a different receiver
\<close>

theorem transfer_status_truthful:
  assumes "table_wf (w_table w)" "i = t_seq (w_table w)" "transfer_fresh i w"
    and "delivered env (RDebit (transfer_op i ''sender-debit''))"
  shows "truthful i (transferred req (w_bal w)) (w_bal w) (snd (create_transfer env req w))"
proof -
  obtain r w' where run: "create_transfer env req w = (r, w')" by (metis prod.exhaust)
  then show ?thesis
  proof (cases rule: create_transfer_cases)
    case (answered tb)
    then show ?thesis using run cur_fresh [OF assms(1)] assms(2) by (simp add: truthful_def)
  next
    case (ran tb se w2 tb')
    let ?w = "w\<lparr>w_idem := tb\<rparr>"
    have "settled_by i (transferred req (w_bal ?w)) (w_bal ?w) (snd (se, r)) w2"
      by (rule create_transfer_body_settles [OF ran(1) _ _ _ assms(4)]) (use assms(1-3) in simp_all)
    with ran(2) run show ?thesis by (simp add: settled_defs)
  qed
qed

theorem transfer_status_truthful_witness:
  "let env = sample_env (refusing (RTransition st_processing st_success)) 10; w = sample_world 1000 50
   in truthful 1 (transferred sample_transfer (w_bal w)) (w_bal w) (snd (create_transfer env sample_transfer w))"
  unfolding Let_def
  by (rule transfer_status_truthful)
    (simp_all add: sample_table_wf sample_transfer_fresh delivered_def refusing_def)

text \<open>
  C9: a transfer under fresh operation identities that returns a row either repeats one,
  and then answers the stored row of its key and only the idempotency store can have
  changed, or returns the row of the command with status success, the sender held the
  amount, and exactly the two cards were moved by it
\<close>

theorem transfer_success_settled:
  assumes "create_transfer env req w = (Inr row, w')"
    and "table_wf (w_table w)" "i = t_seq (w_table w)" "transfer_fresh i w"
  shows "replays ''transfer'' (cr_key req) (v_hash env req) row w w' \<or>
    cur i w' = [row] \<and> row_status row = st_success
    \<and> cr_from req \<noteq> cr_to req \<and> (\<exists>funds. w_bal w (cr_from req) = Some funds \<and> cr_amount req \<le> funds)
    \<and> w_bal w' = moved (moved (w_bal w) (cr_from req) (- cr_amount req)) (cr_to req) (cr_amount req)"
  using assms(1)
proof (cases rule: create_transfer_cases)
  case (answered tb)
  then show ?thesis by (intro disjI1 answered_replays)
next
  case (ran tb se w2 tb')
  have wf: "table_wf (w_table (w\<lparr>w_idem := tb\<rparr>))" and i: "i = t_seq (w_table (w\<lparr>w_idem := tb\<rparr>))"
    and fresh: "transfer_fresh i (w\<lparr>w_idem := tb\<rparr>)"
    using assms(2-4) by simp_all
  from create_transfer_body_ok [OF ran(1) wf i fresh] ran(2) show ?thesis by (auto simp: transferred_def)
qed

theorem transfer_success_settled_witness:
  "let env = sample_env (\<lambda>_. Deliver) 10; w = sample_world 1000 50
   in case create_transfer env sample_transfer w of
        (Inr row, w') \<Rightarrow> cur 1 w' = [row] \<and> row_status row = st_success \<and> w_bal w' ''4222'' = Some 350
      | (Inl _, _) \<Rightarrow> False"
proof -
  let ?env = "sample_env (\<lambda>_. Deliver) 10" and ?w = "sample_world 1000 50 :: transfer_world"
  let ?run = "create_transfer ?env sample_transfer ?w"
  have "\<not> isl (fst ?run)" and moved: "w_bal (snd ?run) ''4222'' = Some 350" "w_bal ?w ''4222'' = Some 50"
    by code_simp+
  then obtain row w' where run: "?run = (Inr row, w')" by (cases ?run; cases "fst ?run") auto
  have "\<not> replays ''transfer'' (cr_key sample_transfer) (v_hash ?env sample_transfer) row ?w w'"
  proof
    assume "replays ''transfer'' (cr_key sample_transfer) (v_hash ?env sample_transfer) row ?w w'"
    then have "w_bal w' = w_bal ?w" by (rule replays_bal)
    with moved run show False by simp
  qed
  with transfer_success_settled [OF run sample_table_wf(1) sample_table_wf(2) [symmetric] sample_transfer_fresh]
  have "cur 1 w' = [row] \<and> row_status row = st_success" by blast
  with run moved show ?thesis by simp
qed

text \<open>
  A retry of a succeeded transfer under the same key and payload within a day returns
  the stored row and changes nothing, whatever else would happen to its calls
\<close>

theorem transfer_retry_replays:
  assumes "create_transfer env req w = (Inr row, w')"
    and "cr_key req \<noteq> []" "find (has_key ''transfer'' (cr_key req)) (w_idem w) = None" "keys_distinct (w_idem w)"
    and "v_idem_configured env" "f_claim (v_idem env) = Deliver" "f_complete (v_idem env) = Deliver"
    and "v_idem_configured env'" "f_get (v_idem env') = None" "v_now env' < v_now env + 24 * hour"
    and "cr_key req' = cr_key req" "v_hash env' req' = v_hash env req"
  shows "create_transfer env' req' w' = (Inr row, w')"
  using transfer_command.run_then_replay [of "v_now env" "v_idem env" "''transfer''" "cr_key req"
      "v_hash env req" row_id "(env, req)" w row w' "v_now env'" "v_idem env'" row_id "(env', req')"]
    assms
  by (simp add: create_transfer_def)

theorem transfer_retry_replays_witness:
  "let env = sample_env (\<lambda>_. Deliver) 10; env' = sample_env (\<lambda>_. Refuse ErrNoRows) 20;
       run = create_transfer env sample_transfer (sample_world 1000 50)
   in \<not> isl (fst run) \<and> create_transfer env' sample_transfer (snd run) = run"
proof -
  let ?env = "sample_env (\<lambda>_. Deliver) 10" and ?w = "sample_world 1000 50 :: transfer_world"
    and ?env' = "sample_env (\<lambda>_. Refuse ErrNoRows) 20"
  have "\<not> isl (fst (create_transfer ?env sample_transfer ?w))" by code_simp
  then obtain row w' where run: "create_transfer ?env sample_transfer ?w = (Inr row, w')"
    by (cases "create_transfer ?env sample_transfer ?w";
        cases "fst (create_transfer ?env sample_transfer ?w)") auto
  have "create_transfer ?env' sample_transfer w' = (Inr row, w')"
    by (rule transfer_retry_replays [OF run])
      (simp_all add: sample_transfer_def sample_world_def keys_distinct_def sample_env_def time_defs)
  with run show ?thesis by simp
qed

text \<open>
  A transfer whose key is held by a live record of another payload is refused as a
  conflict and changes nothing
\<close>

theorem transfer_key_conflict:
  assumes "find (has_key ''transfer'' (cr_key req)) (w_idem w) = Some x" "i_hash x \<noteq> v_hash env req"
    and "v_now env < i_expires_at x" "keys_distinct (w_idem w)"
    and "cr_key req \<noteq> []" "v_idem_configured env" "f_get (v_idem env) = None"
  shows "create_transfer env req w = (Inl conflict_error, w)"
  using transfer_command.run_conflict [of "''transfer''" "cr_key req" w x "v_hash env req" "v_now env"
      "v_idem env" row_id "(env, req)"] assms
  by (simp add: create_transfer_def)

theorem transfer_key_conflict_witness:
  "let env = sample_env (\<lambda>_. Deliver) 10; env' = (sample_env (\<lambda>_. Deliver) 20)\<lparr>v_hash := \<lambda>_. ''other''\<rparr>;
       w' = snd (create_transfer env sample_transfer (sample_world 1000 50))
   in create_transfer env' sample_transfer w' = (Inl conflict_error, w')"
proof -
  obtain w' where w': "w' = snd (create_transfer (sample_env (\<lambda>_. Deliver) 10) sample_transfer (sample_world 1000 50))"
    by simp
  let ?found = "find (has_key ''transfer'' ''k'') (w_idem w')"
  have dist: "keys_distinct (w_idem w')"
    and "case ?found of None \<Rightarrow> False | Some x \<Rightarrow> i_hash x \<noteq> ''other'' \<and> 20 < i_expires_at x"
    unfolding w' by code_simp+
  then obtain x where "?found = Some x" "i_hash x \<noteq> ''other''" "20 < i_expires_at x"
    by (cases ?found) simp_all
  then have "create_transfer ((sample_env (\<lambda>_. Deliver) 20)\<lparr>v_hash := \<lambda>_. ''other''\<rparr>) sample_transfer w' =
      (Inl conflict_error, w')"
    by (intro transfer_key_conflict [of _ _ x]) (simp_all add: dist sample_transfer_def sample_env_def)
  then show ?thesis by (simp add: w')
qed

text \<open>
  A transfer changes the command rows only along the status machine: earlier rows
  keep identity, data and deletion mark, and a new row starts as pending
\<close>

theorem transfer_rows_follow_state_machine:
  assumes "table_wf (w_table w)"
  shows "let rows = t_rows (w_table w); rows' = t_rows (w_table (snd (create_transfer env req w)))
    in table_wf (w_table (snd (create_transfer env req w))) \<and> length rows \<le> length rows'
      \<and> (\<forall>k < length rows. row_evolves (rows ! k) (rows' ! k))
      \<and> (\<forall>k. length rows \<le> k \<and> k < length rows' \<longrightarrow> status_step\<^sup>*\<^sup>* st_pending (row_status (rows' ! k)))"
proof -
  obtain r w' where run: "create_transfer env req w = (r, w')" by (metis prod.exhaust)
  then show ?thesis
  proof (cases rule: create_transfer_cases)
    case (answered tb)
    then show ?thesis using run assms by (auto simp: Let_def)
  next
    case (ran tb se w2 tb')
    from command_run.withinD [OF create_transfer_body_within ran(1)] assms ran(2) run
    show ?thesis by (simp add: commanded_def Let_def)
  qed
qed

theorem transfer_rows_follow_state_machine_witness:
  "let w = sample_world 1000 50; env = sample_env (\<lambda>_. Deliver) 10
   in table_wf (w_table (snd (create_transfer env sample_transfer w)))"
  using transfer_rows_follow_state_machine [OF sample_table_wf(1)] unfolding Let_def by blast

section \<open>Runs the statuses do not describe\<close>

theorem lost_sender_debit_marks_failed:
  "let w' = snd (create_transfer (sample_env (losing (RDebit (transfer_op 1 ''sender-debit''))) 10)
              sample_transfer (sample_world 1000 50))
   in map row_status (cur 1 w') = [st_failed] \<and> w_bal w' ''4111'' = Some 700 \<and> w_bal w' ''4222'' = Some 50"
  by code_simp

text \<open>
  \<open>UpdateTransaction\<close> on a compensated transfer of 300 to an amount of 400: only the
  difference of 100 moves, and the row becomes a success of 400. The cards of the request
  replace the row's and the transfer time becomes the zero time.
\<close>

definition sample_transfer_update :: update_transfer_request where
  "sample_transfer_update = \<lparr>up_id = 1, up_from = ''4111'', up_to = ''4333'', up_amount = 400\<rparr>"

theorem update_of_compensated_transfer:
  "let w1 = snd (create_transfer (sample_env (refusing (RTransition st_processing st_success)) 10)
              sample_transfer (sample_world 1000 50));
       run = update_transfer (sample_env (\<lambda>_. Deliver) 20) sample_transfer_update w1
   in map row_status (cur 1 w1) = [st_compensated] \<and> w_bal w1 ''4111'' = Some 1000
      \<and> map (\<lambda>r. (row_status r, tf_amount r, tf_to r, tf_time r)) (cur 1 (snd run))
          = [(st_success, 400, ''4333'', zero_time)]
      \<and> w_bal (snd run) ''4111'' = Some 900 \<and> w_bal (snd run) ''4222'' = Some 150"
  by code_simp

text \<open>
  The operation identity of an update names the new amount only. Going from 300 to 400, back
  to 300 and to 400 again, the last update replays the legs of the first one: the row says
  400 while the cards have moved 300.
\<close>

theorem repeated_update_moves_nothing:
  "let env = sample_env (\<lambda>_. Deliver) 20; up = (\<lambda>a. sample_transfer_update\<lparr>up_to := ''4222'', up_amount := a\<rparr>);
       w1 = snd (create_transfer env sample_transfer (sample_world 1000 50));
       w2 = snd (update_transfer env (up 400) w1); w3 = snd (update_transfer env (up 300) w2);
       w4 = snd (update_transfer env (up 400) w3)
   in w_bal w2 ''4111'' = Some 600 \<and> w_bal w3 ''4111'' = Some 700 \<and> w_bal w4 ''4111'' = Some 700
      \<and> map tf_amount (cur 1 w4) = [400]"
  by code_simp

end
