(* ===== verification/TopupService.thy ===== *)
theory TopupService
  imports Samples Validation Timestamps
begin

text \<open>
  Top-ups (\<open>service/topup/service/topupCommandService.go\<close>, with its repository and the
  statements of \<open>service/topup/database/schema/topup.sql.go\<close>): the credit and its rollback
  in \<open>CreateTopup\<close>, the difference posted by \<open>UpdateTopup\<close>, and the row commands. The
  statuses are written without a guard, and the failure marker runs in the background.
  The card service that \<open>UpdateCard\<close> calls keeps its own state; here only the outcome of
  the call matters.
\<close>

section \<open>Rows and requests\<close>

record topup_row = cmd_row +
  u_card :: string
  u_amount :: int
  u_method :: string
  u_time :: int

type_synonym topup_world = "topup_row cmd_world"

record create_topup_request =
  cu_card :: string
  cu_amount :: int
  cu_method :: string
  cu_key :: string
  cu_user :: int

record update_topup_request =
  uu_id :: int
  uu_card :: string
  uu_amount :: int
  uu_method :: string

definition topup_entity :: string where "topup_entity = ''topup''"

text \<open>Neither repository call sets \<open>TopupTime\<close>, so both statements store Go's zero time.\<close>

definition create_topup_sql ::
  "create_topup_request svc_env \<Rightarrow> string \<Rightarrow> int \<Rightarrow> string \<Rightarrow> int \<Rightarrow> (go_error, topup_row, topup_row cmd_table) op" where
  "create_topup_sql env cnum amount payment time =
     insert_row (\<lambda>i. \<lparr>row_id = i, row_no = v_row_no env, row_status = st_pending, row_failure = None,
                       row_created_at = Some (v_now env), row_updated_at = v_now env, row_deleted_at = None,
                       u_card = cnum, u_amount = amount, u_method = payment, u_time = time\<rparr>)
       (length cnum \<le> 16 \<and> length payment \<le> 50)"

definition repo_create_topup ::
  "create_topup_request svc_env \<Rightarrow> create_topup_request \<Rightarrow> (go_error, topup_row, topup_row cmd_table) op" where
  "repo_create_topup env req =
     call_or_failed (v_fault env RCreateRow) ''create topup''
       (create_topup_sql env (cu_card req) (go_int64 (cu_amount req)) (cu_method req) zero_time)"

definition update_topup_sql ::
  "int \<Rightarrow> int \<Rightarrow> string \<Rightarrow> int \<Rightarrow> string \<Rightarrow> int \<Rightarrow> (go_error, topup_row, topup_row cmd_table) op" where
  "update_topup_sql now i cnum amount payment time =
     (if length cnum > 16 \<or> length payment > 50 then ret (Inl (DbError ''value too long''))
      else update_row (live_id i)
        (\<lambda>r. r\<lparr>row_updated_at := now, u_card := cnum, u_amount := amount, u_method := payment, u_time := time\<rparr>))"

definition repo_update_topup ::
  "go_error fault \<Rightarrow> int \<Rightarrow> update_topup_request \<Rightarrow> (go_error, topup_row, topup_row cmd_table) op" where
  "repo_update_topup fl now req =
     row_or_failed fl topup_entity ''update topup''
       (update_topup_sql now (go_int32 (uu_id req)) (uu_card req) (go_int64 (uu_amount req)) (uu_method req) zero_time)"

definition update_topup_amount_sql :: "int \<Rightarrow> int \<Rightarrow> int \<Rightarrow> (go_error, topup_row, topup_row cmd_table) op" where
  "update_topup_amount_sql now i amount =
     update_row (live_id i) (\<lambda>r. r\<lparr>row_updated_at := now, u_amount := amount\<rparr>)"

definition repo_update_topup_amount ::
  "go_error fault \<Rightarrow> int \<Rightarrow> int \<Rightarrow> int \<Rightarrow> (go_error, topup_row, topup_row cmd_table) op" where
  "repo_update_topup_amount fl now i amount =
     row_or_failed fl topup_entity ''update topup amount'' (update_topup_amount_sql now (go_int32 i) (go_int64 amount))"

text \<open>Unlike the other tables, a top-up is deleted whether or not it was trashed first.\<close>

definition delete_topup_sql :: "int \<Rightarrow> (go_error, unit, topup_row cmd_table) op" where
  "delete_topup_sql i tb = (Inr (), tb\<lparr>t_rows := filter (\<lambda>r. row_id r \<noteq> i) (t_rows tb)\<rparr>)"

definition repo_delete_topup :: "go_error fault \<Rightarrow> int \<Rightarrow> (go_error, unit, topup_row cmd_table) op" where
  "repo_delete_topup fl i =
     row_or_failed fl topup_entity ''delete topup permanently'' (delete_topup_sql (go_int32 i))"

section \<open>Settlement\<close>

definition topup_op :: "int \<Rightarrow> string \<Rightarrow> string" where
  "topup_op i leg = ''topup:'' @ itoa i @ '':'' @ leg"

definition topup_request :: "string \<Rightarrow> int \<Rightarrow> string \<Rightarrow> int \<Rightarrow> string \<Rightarrow> saldo_request" where
  "topup_request source i leg amount cnum =
     \<lparr>sr_card = cnum, sr_amount = amount, sr_operation_id = topup_op i leg,
      sr_source_type = source, sr_source_id = itoa i\<rparr>"

definition enqueue_topup_events ::
  "create_topup_request svc_env \<Rightarrow> topup_row \<Rightarrow> topup_row \<Rightarrow> card_info \<Rightarrow> create_topup_request \<Rightarrow> int \<Rightarrow>
   topup_world \<Rightarrow> topup_world" where
  "enqueue_topup_events env topup updated ci req new_balance w =
     (if \<not> v_outbox_configured env then w
      else
        let topup_id = itoa (row_id topup);
            w1 = (if ci_email ci \<noteq> []
                  then enqueue_event env ''topup'' topup_id ''topup.created''
                    (EmailPayload (ci_email ci) ''Topup Successful - SanEdge''
                       (''Your topup of '' @ itoa (cu_amount req) @ '' has been processed successfully.'')) w
                  else w);
            w2 = enqueue_event env ''topup'' topup_id ''topup.stats''
                   (StatsPayload ''topup'' (row_id updated) (row_no updated)
                      [cu_card req, ci_type ci, ci_provider ci, cu_method req] (cu_amount req) ''success'' (v_now env)) w1
        in enqueue_event env ''topup'' (cu_card req) ''topup.saldo''
             (SaldoPayload (cu_card req) new_balance (v_now env)) w2)"

text \<open>
  What follows a failure after the credit: the amount is debited again; only if that
  succeeds is the failure marker started.
\<close>

definition rollback_topup ::
  "'q svc_env \<Rightarrow> create_topup_request \<Rightarrow> topup_row \<Rightarrow> go_error \<Rightarrow>
   topup_world \<Rightarrow> (bool \<times> (go_error + topup_row)) \<times> topup_world" where
  "rollback_topup env req topup err =
     try_or (rpc_debit env (topup_request ''topup_compensation'' (row_id topup) ''rollback'' (cu_amount req) (cu_card req)))
       (fail_with True)
       (\<lambda>_ w. fail_with True err (mark_as_failed (row_id topup) w))"

definition finish_topup ::
  "create_topup_request svc_env \<Rightarrow> card_info \<Rightarrow> create_topup_request \<Rightarrow> topup_row \<Rightarrow> int \<Rightarrow>
   topup_world \<Rightarrow> (bool \<times> (go_error + topup_row)) \<times> topup_world" where
  "finish_topup env ci req topup new_balance =
     try_or (with_fault (v_fault env RUpdateCard) (ret (Inr ())))
       (rollback_topup env req topup)
       (\<lambda>_. try_or (on_table (repo_update_status (v_fault env (RUpdateStatus st_success)) topup_entity (v_now env)
                       (row_id topup) st_success))
          (rollback_topup env req topup)
          (\<lambda>updated w. ((False, Inr updated), enqueue_topup_events env topup updated ci req new_balance w)))"

definition settle_topup ::
  "create_topup_request svc_env \<Rightarrow> card_info \<Rightarrow> create_topup_request \<Rightarrow>
   topup_world \<Rightarrow> (bool \<times> (go_error + topup_row)) \<times> topup_world" where
  "settle_topup env ci req =
     try_or (on_table (repo_create_topup env req)) (fail_with True)
       (\<lambda>topup. try_or (rpc_credit env (topup_request ''topup'' (row_id topup) ''credit'' (cu_amount req) (cu_card req)))
           (\<lambda>err w. fail_with True err (mark_as_failed (row_id topup) w))
           (\<lambda>credited. finish_topup env ci req topup (r_balance credited)))"

definition create_topup_body ::
  "create_topup_request svc_env \<Rightarrow> create_topup_request \<Rightarrow>
   topup_world \<Rightarrow> (bool \<times> (go_error + topup_row)) \<times> topup_world" where
  "create_topup_body env req =
     (case validate_amount (cu_amount req) of
        Some err \<Rightarrow> fail_with True err
      | None \<Rightarrow>
          (case v_find_card env (cu_card req) of
             Inl err \<Rightarrow> fail_with True err
           | Inr ci \<Rightarrow>
               if 0 < cu_user req \<and> ci_user_id ci \<noteq> cu_user req
               then fail_with True (new_forbidden_error ''card does not belong to authenticated user'')
               else settle_topup env ci req))"

definition create_topup ::
  "create_topup_request svc_env \<Rightarrow> create_topup_request \<Rightarrow> (go_error, topup_row, topup_world) op" where
  "create_topup env req =
     idem_run w_idem (\<lambda>tb w. w\<lparr>w_idem := tb\<rparr>) (v_idem_configured env) (v_now env) (v_idem env)
       ''topup'' (cu_key req) (v_hash env req) row_id (create_topup_body env req)"

section \<open>Update\<close>

text \<open>The identity of the difference names the top-up and the direction, not the amount.\<close>

definition topup_update_op :: "int \<Rightarrow> string \<Rightarrow> string" where
  "topup_update_op i leg = ''topup:update:'' @ itoa i @ '':'' @ leg"

definition topup_update_request :: "int \<Rightarrow> string \<Rightarrow> int \<Rightarrow> string \<Rightarrow> saldo_request" where
  "topup_update_request i leg amount cnum =
     \<lparr>sr_card = cnum, sr_amount = amount, sr_operation_id = topup_update_op i leg,
      sr_source_type = ''topup_update'', sr_source_id = itoa i\<rparr>"

definition post_topup_difference ::
  "'q svc_env \<Rightarrow> update_topup_request \<Rightarrow> int \<Rightarrow> (go_error, unit, topup_world) op" where
  "post_topup_difference env req difference =
     (if difference > 0
      then try_or (rpc_credit env (topup_update_request (uu_id req) ''credit'' difference (uu_card req)))
             (\<lambda>err. ret (Inl err)) (\<lambda>_. ret (Inr ()))
      else if difference < 0
      then try_or (rpc_debit env (topup_update_request (uu_id req) ''debit'' (go_int64 (- difference)) (uu_card req)))
             (\<lambda>err. ret (Inl err)) (\<lambda>_. ret (Inr ()))
      else ret (Inr ()))"

definition update_topup :: "'q svc_env \<Rightarrow> update_topup_request \<Rightarrow> (go_error, topup_row, topup_world) op" where
  "update_topup env req =
     (case v_find_card env (uu_card req) of
        Inl err \<Rightarrow> marked (uu_id req) (Some err)
      | Inr _ \<Rightarrow>
          try_or (on_table (repo_find_row (v_fault env RFindRow) topup_entity (uu_id req)))
            (\<lambda>err. marked (uu_id req) (Some err))
            (\<lambda>existing. try_or (on_table (repo_update_topup (v_fault env RUpdateRow) (v_now env) req))
               (\<lambda>err. marked (uu_id req) (Some err))
               (\<lambda>_. try_or (post_topup_difference env req (go_int64 (uu_amount req - u_amount existing)))
                  (\<lambda>err. try_or (on_table (repo_update_topup_amount (v_fault env RUpdateAmount) (v_now env)
                               (uu_id req) (u_amount existing)))
                     (\<lambda>rollback_err. ret (Inl (handle_error (Some rollback_err))))
                     (\<lambda>_. marked (uu_id req) (Some err)))
                  (\<lambda>_. try_or (on_table (repo_update_status (v_fault env (RUpdateStatus st_success)) topup_entity
                              (v_now env) (uu_id req) st_success))
                     (\<lambda>err. ret (Inl (handle_error (Some err))))
                     (\<lambda>updated. ret (Inr updated))))))"

section \<open>Row commands\<close>

definition trashed_topup :: "'q svc_env \<Rightarrow> int \<Rightarrow> (go_error, topup_row, topup_world) op" where
  "trashed_topup env = svc_trashed env topup_entity"

definition restore_topup :: "'q svc_env \<Rightarrow> int \<Rightarrow> (go_error, topup_row, topup_world) op" where
  "restore_topup env = svc_restore env topup_entity"

definition delete_topup_permanent :: "'q svc_env \<Rightarrow> int \<Rightarrow> (go_error, unit, topup_world) op" where
  "delete_topup_permanent env i = svc_row (repo_delete_topup (v_fault env RDelete) i)"

definition restore_all_topup :: "'q svc_env \<Rightarrow> (go_error, unit, topup_world) op" where
  "restore_all_topup env = svc_restore_all env topup_entity"

definition delete_all_topup_permanent :: "'q svc_env \<Rightarrow> (go_error, unit, topup_world) op" where
  "delete_all_topup_permanent env = svc_delete_all_permanent env topup_entity"

section \<open>Identities\<close>

lemma topup_op_eq [simp]: "topup_op i leg = topup_op j leg' \<longleftrightarrow> i = j \<and> leg = leg'"
  by (simp add: topup_op_def)

lemma topup_op_nonempty [simp]: "topup_op i leg \<noteq> []"
  by (simp add: topup_op_def)

lemma topup_request_simps [simp]:
  "sr_card (topup_request src i leg a c) = c"
  "sr_amount (topup_request src i leg a c) = a"
  "sr_operation_id (topup_request src i leg a c) = topup_op i leg"
  by (simp_all add: topup_request_def)

definition topup_fresh :: "int \<Rightarrow> topup_world \<Rightarrow> bool" where
  "topup_fresh i w \<longleftrightarrow> (\<forall>d leg c. \<not> w_posted w d (topup_op i leg) c)"

lemma rollback_request_fits:
  assumes "fits_int32 i" "c \<noteq> []" "length c \<le> 16" "0 < a" "fits_int64 a"
  shows "request_fits (topup_request ''topup_compensation'' i ''rollback'' a c)"
  using assms itoa_length_int32 [of i] by (simp add: request_fits_def topup_request_def topup_op_def)

section \<open>The rollback\<close>

text \<open>
  After the credit the balances are the old ones plus the amount. A rollback gives it back
  and queues the failure marker, or fails and leaves both alone.
\<close>

lemma rollback_topup_outcome:
  assumes run: "rollback_topup env req topup err w = (r, w')" and id: "row_id topup = i"
    and a: "fits_int64 (cu_amount req)"
    and fresh: "\<not> w_posted w True (topup_op i ''rollback'') (cu_card req)"
    and bal: "w_bal w = moved b (cu_card req) (cu_amount req)"
  shows "\<exists>e. r = (True, Inl e)" and "cur i w' = cur i w"
    and "w_bal w' = b \<and> w_marks w' = w_marks w @ [i]
       \<or> w_marks w' = w_marks w \<and> (\<exists>e. fst (rpc_debit env (topup_request ''topup_compensation'' i ''rollback''
            (cu_amount req) (cu_card req)) w) = Inl e)"
proof -
  let ?req = "topup_request ''topup_compensation'' i ''rollback'' (cu_amount req) (cu_card req)"
  obtain d w1 where d: "rpc_debit env ?req w = (d, w1)" by (metis prod.exhaust)
  from rpc_debit_world [OF d] obtain s where w1: "w1 = w\<lparr>w_saldo := s\<rparr>" by blast
  have r: "(\<exists>e. r = (True, Inl e)) \<and> cur i w' = cur i w
    \<and> (w_bal w' = b \<and> w_marks w' = w_marks w @ [i] \<or> w_marks w' = w_marks w \<and> (\<exists>e. d = Inl e))"
  proof (cases d)
    case (Inl e)
    with run d w1 show ?thesis by (auto simp: rollback_topup_def id try_or_def)
  next
    case (Inr x)
    have "w_bal w1 = b" using debit_moved(1) [OF d [unfolded Inr]] a fresh bal by simp
    with Inr run d w1 show ?thesis by (auto simp: rollback_topup_def id try_or_def mark_as_failed_def)
  qed
  with d show "\<exists>e. r = (True, Inl e)" and "cur i w' = cur i w"
    and "w_bal w' = b \<and> w_marks w' = w_marks w @ [i]
       \<or> w_marks w' = w_marks w \<and> (\<exists>e. fst (rpc_debit env ?req w) = Inl e)"
    by auto
qed

text \<open>A delivered rollback is accepted: the card holds at least what was just credited.\<close>

lemma rollback_accepted:
  assumes fits: "fits_int32 i" "c \<noteq> []" "length c \<le> 16" "0 < a" "fits_int64 a"
    and fresh: "\<not> w_posted w True (topup_op i ''rollback'') c"
    and bal: "w_bal w = moved b c a" and room: "b c = Some v" "0 \<le> v" "fits_int64 (v + a)"
    and deliver: "v_fault env (RDebit (topup_op i ''rollback'')) = Deliver"
  shows "\<exists>x. fst (rpc_debit env (topup_request ''topup_compensation'' i ''rollback'' a c) w) = Inr x"
proof -
  let ?req = "topup_request ''topup_compensation'' i ''rollback'' a c"
  have sb: "saldo_bal (w_saldo w) (sr_card ?req) = Some (v + a)"
    using bal room(1) by (simp add: w_bal_def moved_def)
  have "\<exists>x s'. adapter_debit_saldo (v_saldo env) ?req (w_saldo w) = (Inr x, s') \<and> r_balance x = v + a - sr_amount ?req"
    using room fresh by (intro adapter_debit_accepts [OF rollback_request_fits [OF fits] sb]) (simp_all add: w_posted_def)
  then show ?thesis using deliver by (auto simp: rpc_debit_def with_fault_def zoom_def)
qed

section \<open>What a top-up leaves behind\<close>

text \<open>
  The outcomes of the settlement from balances \<open>b\<close> and queued markers \<open>ms\<close>: the row is
  the success returned and the card was credited; or an error with the balances unchanged
  and, once there is a row, the marker queued; or an error whose rollback failed, with the
  money still on the card and no marker.
\<close>

definition topup_outcome ::
  "'q svc_env \<Rightarrow> create_topup_request \<Rightarrow> int \<Rightarrow> (string \<Rightarrow> int option) \<Rightarrow> int list \<Rightarrow>
   (go_error + topup_row) \<Rightarrow> topup_world \<Rightarrow> bool" where
  "topup_outcome env req i b ms res w \<longleftrightarrow>
     (case res of
        Inr row \<Rightarrow> cur i w = [row] \<and> row_status row = st_success \<and> u_card row = cu_card req
          \<and> u_amount row = cu_amount req \<and> w_bal w = moved b (cu_card req) (cu_amount req)
          \<and> b (cu_card req) \<noteq> None \<and> w_marks w = ms
      | Inl e \<Rightarrow>
          (\<forall>y \<in> set (cur i w). row_live y)
          \<and> (w_bal w = b \<and> w_marks w = ms \<and> (\<forall>y \<in> set (cur i w). row_status y = st_pending)
           \<or> w_bal w = b \<and> w_marks w = ms @ [i] \<and> length (cur i w) = 1
           \<or> w_marks w = ms \<and> (\<exists>w0. w_bal w0 = moved b (cu_card req) (cu_amount req) \<and> b (cu_card req) \<noteq> None
                \<and> length (cu_card req) \<le> 16 \<and> fits_int32 i
                \<and> \<not> w_posted w0 True (topup_op i ''rollback'') (cu_card req)
                \<and> (\<exists>e. fst (rpc_debit env (topup_request ''topup_compensation'' i ''rollback''
                        (cu_amount req) (cu_card req)) (w0 :: topup_world)) = Inl e))))"

lemma topup_outcome_idem [simp]:
  "topup_outcome env req i b ms res (w\<lparr>w_idem := tb\<rparr>) = topup_outcome env req i b ms res w"
  by (simp add: topup_outcome_def split: sum.split)

lemma enqueue_topup_events_same [simp]:
  "cur i (enqueue_topup_events env topup up ci req nb w) = cur i w"
  "w_bal (enqueue_topup_events env topup up ci req nb w) = w_bal w"
  "w_marks (enqueue_topup_events env topup up ci req nb w) = w_marks w"
  by (simp_all add: enqueue_topup_events_def Let_def)

lemma rollback_topup_settles:
  assumes run: "rollback_topup env req topup err w = (r, w')" and id: "row_id topup = i"
    and y: "cur i w = [y]" "row_live y" and i: "fits_int32 i" and c: "length (cu_card req) \<le> 16"
    and a: "fits_int64 (cu_amount req)" and b: "b (cu_card req) \<noteq> None"
    and fresh: "\<not> w_posted w True (topup_op i ''rollback'') (cu_card req)"
    and bal: "w_bal w = moved b (cu_card req) (cu_amount req)"
  shows "topup_outcome env req i b (w_marks w) (snd r) w'"
proof -
  note out = rollback_topup_outcome [OF run id a fresh bal]
  from out(1) obtain e where r: "snd r = Inl e" by auto
  from out(3) show ?thesis
  proof
    assume "w_bal w' = b \<and> w_marks w' = w_marks w @ [i]"
    then show ?thesis using out(2) y r by (simp add: topup_outcome_def)
  next
    assume "w_marks w' = w_marks w \<and> (\<exists>e. fst (rpc_debit env (topup_request ''topup_compensation'' i ''rollback''
            (cu_amount req) (cu_card req)) w) = Inl e)"
    then show ?thesis using out(2) y r i c b fresh bal
      by (auto simp: topup_outcome_def)
  qed
qed

lemma finish_topup_settles:
  assumes run: "finish_topup env ci req topup nb w = (r, w')" and id: "row_id topup = i"
    and x: "cur i w = [x]" "row_live x" and i: "fits_int32 i" and c: "length (cu_card req) \<le> 16"
    and row: "u_card x = cu_card req" "u_amount x = cu_amount req"
    and a: "fits_int64 (cu_amount req)" and b: "b (cu_card req) \<noteq> None"
    and fresh: "\<not> w_posted w True (topup_op i ''rollback'') (cu_card req)"
    and bal: "w_bal w = moved b (cu_card req) (cu_amount req)"
  shows "topup_outcome env req i b (w_marks w) (snd r) w'"
  using run unfolding finish_topup_def
proof (elim try_orE)
  fix e w1
  assume "with_fault (v_fault env RUpdateCard) (ret (Inr ())) w = (Inl e, w1)"
    and rb: "rollback_topup env req topup e w1 = (r, w')"
  then have "w1 = w" by (auto simp: with_fault_def ret_def split: fault.splits)
  with rollback_topup_settles [OF _ id x i c a b fresh bal] rb show ?thesis by simp
next
  fix u w1 e w2
  assume u: "with_fault (v_fault env RUpdateCard) (ret (Inr ())) w = (Inr u, w1)"
    and st: "on_table (repo_update_status (v_fault env (RUpdateStatus st_success)) topup_entity (v_now env)
        (row_id topup) st_success) w1 = (Inl e, w2)"
    and rb: "rollback_topup env req topup e w2 = (r, w')"
  from u have w1: "w1 = w" by (auto simp: with_fault_def ret_def split: fault.splits)
  note sc = update_status_cur [OF st [unfolded w1 id] x i]
  from sc(1) have same: "w_bal w2 = w_bal w" "w_posted w2 = w_posted w" "w_marks w2 = w_marks w" by auto
  from sc(3) x obtain y where "cur i w2 = [y]" "row_live y" by auto
  from rollback_topup_settles [where w = w2 and b = b, OF rb id this i c a b] same fresh bal show ?thesis by simp
next
  fix u w1 up w2
  assume u: "with_fault (v_fault env RUpdateCard) (ret (Inr ())) w = (Inr u, w1)"
    and st: "on_table (repo_update_status (v_fault env (RUpdateStatus st_success)) topup_entity (v_now env)
        (row_id topup) st_success) w1 = (Inr up, w2)"
    and e: "((False, Inr up), enqueue_topup_events env topup up ci req nb w2) = (r, w')"
  from u have w1: "w1 = w" by (auto simp: with_fault_def ret_def split: fault.splits)
  note sc = update_status_cur [OF st [unfolded w1 id] x i]
  from sc(1) sc(2) [OF refl] e bal b row show ?thesis by (auto simp: topup_outcome_def set_status_def)
qed

lemma settle_topup_settles:
  assumes run: "settle_topup env ci req w = (r, w')"
    and wf: "table_wf (w_table w)" and i: "i = t_seq (w_table w)"
    and a: "fits_int64 (cu_amount req)" and fresh: "topup_fresh i w"
    and seen: "delivered env (RCredit (topup_op i ''credit''))"
  shows "topup_outcome env req i (w_bal w) (w_marks w) (snd r) w'"
  using run unfolding settle_topup_def
proof (elim try_orE)
  fix e w1
  assume c: "on_table (repo_create_topup env req) w = (Inl e, w1)" and f: "fail_with True e w1 = (r, w')"
  note cc = create_row_cur(1) [OF c [unfolded repo_create_topup_def create_topup_sql_def]]
  have "row_status y = st_pending \<and> row_live y" if "y \<in> set (cur i w1)" for y
    using create_row_failed [OF c [unfolded repo_create_topup_def create_topup_sql_def] _ wf that [unfolded i]]
    by (simp add: row_live_def)
  with cc f show ?thesis by (auto simp: topup_outcome_def)
next
  fix tp w1
  assume c: "on_table (repo_create_topup env req) w = (Inr tp, w1)"
  note cc = create_row_cur [OF c [unfolded repo_create_topup_def create_topup_sql_def]]
  from cc(1) have same: "w_bal w1 = w_bal w" "w_posted w1 = w_posted w" "w_marks w1 = w_marks w" by auto
  from cc(2) [OF _ refl wf] a have tp: "cur i w1 = [tp]" "row_live tp" "row_id tp = i" "row_status tp = st_pending"
      "u_card tp = cu_card req" "u_amount tp = cu_amount req" "i \<le> 2147483647"
    by (simp_all add: i row_live_def)
  have i32: "fits_int32 i" using tp(7) wf i by (simp add: fits_int32_def table_wf_def)
  have len: "length (cu_card req) \<le> 16"
    using c by (auto simp: repo_create_topup_def create_topup_sql_def call_or_failed_def insert_row_def with_fault_def
        ret_def split: if_splits fault.splits elim!: on_tableE try_orE)
  let ?req = "topup_request ''topup'' i ''credit'' (cu_amount req) (cu_card req)"
  {
    fix e w2
    assume d: "rpc_credit env (topup_request ''topup'' (row_id tp) ''credit'' (cu_amount req) (cu_card req)) w1 = (Inl e, w2)"
      and f: "fail_with True e (mark_as_failed (row_id tp) w2) = (r, w')"
    from rpc_credit_failed [OF d [unfolded tp(3)]] seen have "w_bal w2 = w_bal w1" by (simp add: money_same_def)
    with rpc_credit_cur [OF d, of i] rpc_credit_world [OF d] f same tp show ?thesis
      by (auto simp: topup_outcome_def mark_as_failed_def)
  next
    fix x w2
    assume d: "rpc_credit env (topup_request ''topup'' (row_id tp) ''credit'' (cu_amount req) (cu_card req)) w1 = (Inr x, w2)"
      and f: "finish_topup env ci req tp (r_balance x) w2 = (r, w')"
    have new: "\<not> w_posted w1 dd (topup_op i leg) cc" for dd leg cc using fresh same by (simp add: topup_fresh_def)
    note cm = credit_moved [OF d [unfolded tp(3)], simplified, OF a new]
    have c2: "cur i w2 = [tp]" using rpc_credit_cur [OF d] tp(1) by simp
    have m2: "w_marks w2 = w_marks w" using rpc_credit_world [OF d] same by auto
    have "topup_outcome env req i (w_bal w) (w_marks w2) (snd r) w'"
      using cm new same by (intro finish_topup_settles [OF f tp(3) c2 tp(2) i32 len tp(5,6) a]) auto
    with m2 show ?thesis by simp
  }
qed

lemma create_topup_body_settles:
  assumes run: "create_topup_body env req w = (r, w')"
    and wf: "table_wf (w_table w)" and i: "i = t_seq (w_table w)" and fresh: "topup_fresh i w"
    and seen: "delivered env (RCredit (topup_op i ''credit''))"
  shows "topup_outcome env req i (w_bal w) (w_marks w) (snd r) w'"
    and "snd r = Inr row \<Longrightarrow> 0 < cu_amount req
       \<and> (\<exists>ci. v_find_card env (cu_card req) = Inr ci \<and> (0 < cu_user req \<longrightarrow> ci_user_id ci = cu_user req))"
proof -
  have cases: "(\<exists>se e. r = (se, Inl e)) \<and> w' = w
    \<or> validate_amount (cu_amount req) = None \<and> (\<exists>ci. v_find_card env (cu_card req) = Inr ci
        \<and> (0 < cu_user req \<longrightarrow> ci_user_id ci = cu_user req) \<and> settle_topup env ci req w = (r, w'))"
    using run unfolding create_topup_body_def by (auto split: option.splits sum.splits if_splits)
  then show "topup_outcome env req i (w_bal w) (w_marks w) (snd r) w'"
  proof (elim disjE conjE exE)
    fix se e
    assume "r = (se, Inl e)" "w' = w"
    then show ?thesis using cur_fresh [OF wf] by (simp add: topup_outcome_def i)
  next
    fix ci
    assume "validate_amount (cu_amount req) = None" "settle_topup env ci req w = (r, w')"
    then show ?thesis by (intro settle_topup_settles [OF _ wf i _ fresh seen] validated_amount_fits)
  qed
  from cases show "snd r = Inr row \<Longrightarrow> 0 < cu_amount req
       \<and> (\<exists>ci. v_find_card env (cu_card req) = Inr ci \<and> (0 < cu_user req \<longrightarrow> ci_user_id ci = cu_user req))"
    by auto
qed

section \<open>The whole command\<close>

lemma rollback_topup_within: "keeping_run.within (rollback_topup env req topup err)"
  unfolding rollback_topup_def
  by (intro keeping_run.within_try_or keeping_steps keeping_run.within_fail keeping_run.withinI)
    (auto simp: mark_as_failed_def)

lemma finish_topup_within: "keeping_run.within (finish_topup env ci req topup nb)"
  unfolding finish_topup_def
  by (intro keeping_run.within_try_or keeping_steps rollback_topup_within keeping_run.withinI)
    (auto simp: enqueue_topup_events_def Let_def)

lemma create_topup_body_within: "keeping_run.within (create_topup_body env req)"
proof -
  have mark: "keeping_run.within (\<lambda>w. fail_with True err (mark_as_failed i w))" for err i
    by (rule keeping_run.withinI) (auto simp: mark_as_failed_def)
  show ?thesis
    unfolding create_topup_body_def settle_topup_def
    by (intro keeping_run.within_intros keeping_steps finish_topup_within mark)
qed

interpretation topup_command: idempotent_command w_idem "\<lambda>tb (w :: topup_world). w\<lparr>w_idem := tb\<rparr>"
  "\<lambda>(env, req). create_topup_body env req"
proof unfold_locales
  fix b :: "create_topup_request svc_env \<times> create_topup_request" and w :: topup_world
  obtain env req where "b = (env, req)" by (metis prod.exhaust)
  then show "w_idem (snd ((case b of (env, req) \<Rightarrow> create_topup_body env req) w)) = w_idem w"
    using create_topup_body_within [of env req] by (simp add: keeping_run.within_def idem_kept_def)
qed

lemma create_topup_cases:
  assumes "create_topup env req w = (r, w')"
  obtains (answered) tb where "w' = w\<lparr>w_idem := tb\<rparr>" "cu_key req \<noteq> []"
  | (ran) tb se w2 tb' where "create_topup_body env req (w\<lparr>w_idem := tb\<rparr>) = ((se, r), w2)"
      "w' = w2\<lparr>w_idem := tb'\<rparr>"
  using assms unfolding create_topup_def by (rule idem_run_cases)

lemma topup_fresh_idem [simp]: "topup_fresh i (w\<lparr>w_idem := tb\<rparr>) = topup_fresh i w"
  by (simp add: topup_fresh_def)

definition sample_topup :: create_topup_request where
  "sample_topup = \<lparr>cu_card = ''4111'', cu_amount = 300, cu_method = ''bank'', cu_key = [], cu_user = 1\<rparr>"

lemma sample_topup_fresh: "topup_fresh i (sample_world a b)"
  by (auto simp: topup_fresh_def topup_op_def dest: sample_posted)

section \<open>Properties\<close>

lemma topup_success:
  assumes "create_topup env req w = (Inr row, w')"
    and "table_wf (w_table w)" "i = t_seq (w_table w)" "topup_fresh i w"
    and "delivered env (RCredit (topup_op i ''credit''))"
  obtains (replayed) tb where "w' = w\<lparr>w_idem := tb\<rparr>" "cu_key req \<noteq> []"
  | (credited) ci where "cur i w' = [row]" "row_status row = st_success" "u_card row = cu_card req" "u_amount row = cu_amount req"
    "0 < cu_amount req" "w_bal w' = moved (w_bal w) (cu_card req) (cu_amount req)" "w_bal w (cu_card req) \<noteq> None"
    "w_marks w' = w_marks w" "v_find_card env (cu_card req) = Inr ci" "0 < cu_user req \<longrightarrow> ci_user_id ci = cu_user req"
  using assms(1)
proof (cases rule: create_topup_cases)
  case (ran tb se w2 tb')
  let ?w = "w\<lparr>w_idem := tb\<rparr>"
  have wf: "table_wf (w_table ?w)" and i: "i = t_seq (w_table ?w)" and fresh: "topup_fresh i ?w"
    using assms(2-4) by simp_all
  note out = create_topup_body_settles [OF ran(1) wf i fresh assms(5)]
  from out(1) out(2) [of row] ran(2) show ?thesis using credited by (auto simp: topup_outcome_def)
qed (rule replayed)

text \<open>
  A top-up that returns a row returned the row of the command with status success,
  its card and amount, credited exactly that amount to the card, and the card belongs to
  the authenticated user when one is given
\<close>

theorem topup_success_credits:
  assumes "create_topup env req w = (Inr row, w')" "cu_key req = []"
    and "table_wf (w_table w)" "i = t_seq (w_table w)" "topup_fresh i w"
    and "delivered env (RCredit (topup_op i ''credit''))"
  shows "cur i w' = [row] \<and> row_status row = st_success \<and> u_card row = cu_card req \<and> u_amount row = cu_amount req
    \<and> 0 < cu_amount req \<and> w_bal w' = moved (w_bal w) (cu_card req) (cu_amount req) \<and> w_bal w (cu_card req) \<noteq> None
    \<and> w_marks w' = w_marks w
    \<and> (\<exists>ci. v_find_card env (cu_card req) = Inr ci \<and> (0 < cu_user req \<longrightarrow> ci_user_id ci = cu_user req))"
  by (rule topup_success [OF assms(1,3-6)]) (use assms(2) in auto)

theorem topup_success_credits_witness:
  "let run = create_topup (sample_env (\<lambda>_. Deliver) 10) sample_topup (sample_world 1000 50)
   in \<not> isl (fst run) \<and> w_bal (snd run) ''4111'' = Some 1300"
proof -
  let ?env = "sample_env (\<lambda>_. Deliver) 10" and ?w = "sample_world 1000 50 :: topup_world"
  have ok: "\<not> isl (fst (create_topup ?env sample_topup ?w))" and bal: "w_bal ?w ''4111'' = Some 1000" by code_simp+
  from ok obtain row w' where run: "create_topup ?env sample_topup ?w = (Inr row, w')"
    by (cases "create_topup ?env sample_topup ?w"; cases "fst (create_topup ?env sample_topup ?w)") auto
  have "w_bal w' = moved (w_bal ?w) ''4111'' 300"
    using topup_success_credits [OF run _ sample_table_wf(1) sample_table_wf(2) [symmetric] sample_topup_fresh]
    by (simp add: sample_topup_def delivered_def)
  with run bal show ?thesis by (simp add: moved_def)
qed

text \<open>
  C11: when a top-up fails although its credit was answered and its rollback is delivered,
  no balance has changed, and its row is pending or reads failed once the queued marker
  has run
\<close>

theorem topup_failure_undone:
  assumes "create_topup env req w = (Inl e, w')" "w_marks w = []"
    and "table_wf (w_table w)" "i = t_seq (w_table w)" "topup_fresh i w"
    and "delivered env (RCredit (topup_op i ''credit''))" "v_fault env (RDebit (topup_op i ''rollback'')) = Deliver"
    and "cu_card req \<noteq> []" "\<And>b. w_bal w (cu_card req) = Some b \<Longrightarrow> 0 \<le> b \<and> fits_int64 (b + cu_amount req)"
    and "v_fault env' (RUpdateStatus st_failed) = Deliver" "fits_int32 i" "0 < cu_amount req" "fits_int64 (cu_amount req)"
  shows "w_bal w' = w_bal w
    \<and> (if w_marks w' = [] then \<forall>y \<in> set (cur i w'). row_status y = st_pending
       else map row_status (cur i (run_mark env' topup_entity w')) = [st_failed])"
proof -
  have out: "topup_outcome env req i (w_bal w) [] (Inl e) w'"
    using assms(1)
  proof (cases rule: create_topup_cases)
    case (answered tb)
    with cur_fresh [OF assms(3)] assms(2,4) show ?thesis by (simp add: topup_outcome_def)
  next
    case (ran tb se w2 tb')
    let ?w = "w\<lparr>w_idem := tb\<rparr>"
    have wf: "table_wf (w_table ?w)" and i: "i = t_seq (w_table ?w)" and fresh: "topup_fresh i ?w"
      using assms(3-5) by simp_all
    from create_topup_body_settles(1) [OF ran(1) wf i fresh assms(6)] ran(2) assms(2) show ?thesis by simp
  qed
  have no_fail: False
    if "w_bal w0 = moved (w_bal w) (cu_card req) (cu_amount req)" "w_bal w (cu_card req) = Some v"
      "length (cu_card req) \<le> 16" "\<not> w_posted w0 True (topup_op i ''rollback'') (cu_card req)"
      "fst (rpc_debit env (topup_request ''topup_compensation'' i ''rollback'' (cu_amount req) (cu_card req)) w0) = Inl e'"
    for w0 :: topup_world and v e'
  proof -
    from assms(9) [OF that(2)] have "0 \<le> v" "fits_int64 (v + cu_amount req)" by simp_all
    from rollback_accepted [OF assms(11,8) that(3) assms(12,13) that(4,1,2) this assms(7)] that(5) show False by simp
  qed
  have marked: "map row_status (cur i (run_mark env' topup_entity w')) = [st_failed]"
    if "w_marks w' = [i]" "length (cur i w') = 1" "\<forall>y \<in> set (cur i w'). row_live y"
  proof -
    from that(2,3) obtain y where "cur i w' = [y]" "row_live y" by (auto simp: length_Suc_conv)
    with run_mark_failed(1) [OF that(1) _ _ assms(11,10)] show ?thesis by simp
  qed
  from out no_fail marked show ?thesis by (auto simp: topup_outcome_def)
qed

theorem topup_failure_undone_witness:
  "let env = sample_env (refusing RUpdateCard) 10; w' = snd (create_topup env sample_topup (sample_world 1000 50))
   in w_bal w' = w_bal (sample_world 1000 50 :: topup_world) \<and> w_marks w' = [1]
      \<and> map row_status (cur 1 (run_mark (sample_env (\<lambda>_. Deliver) 11 :: unit svc_env) topup_entity w')) = [st_failed]"
proof -
  let ?env = "sample_env (refusing RUpdateCard) 10" and ?w = "sample_world 1000 50 :: topup_world"
    and ?env' = "sample_env (\<lambda>_. Deliver) 11 :: unit svc_env"
  have err: "isl (fst (create_topup ?env sample_topup ?w))" and m: "w_marks (snd (create_topup ?env sample_topup ?w)) = [1]"
    and bal: "w_bal ?w ''4111'' = Some 1000"
    by code_simp+
  from err obtain e w' where run: "create_topup ?env sample_topup ?w = (Inl e, w')"
    by (cases "create_topup ?env sample_topup ?w"; cases "fst (create_topup ?env sample_topup ?w)") auto
  have "w_bal w' = w_bal ?w
    \<and> (if w_marks w' = [] then \<forall>y \<in> set (cur 1 w'). row_status y = st_pending
       else map row_status (cur 1 (run_mark ?env' topup_entity w')) = [st_failed])"
    by (rule topup_failure_undone [OF run _ sample_table_wf(1) sample_table_wf(2) [symmetric] sample_topup_fresh])
      (simp_all add: sample_topup_def delivered_def refusing_def bal fits_int64_def fits_int32_def, simp add: sample_world_def)
  with run m show ?thesis by simp
qed

section \<open>Runs the statuses do not describe\<close>

text \<open>
  A credit whose reply is lost was posted: the caller gets an error, the row is marked
  failed, and the card keeps the money.
\<close>

theorem lost_credit_reply_keeps_money:
  "let run = create_topup (sample_env (losing (RCredit (topup_op 1 ''credit''))) 10) sample_topup (sample_world 1000 50);
       w' = run_mark (sample_env (\<lambda>_. Deliver) 11 :: unit svc_env) topup_entity (snd run)
   in isl (fst run) \<and> map row_status (cur 1 w') = [st_failed] \<and> w_bal w' ''4111'' = Some 1300"
  by code_simp

text \<open>A rollback that is refused leaves the row pending, the money credited and no marker.\<close>

theorem refused_rollback_keeps_money:
  "let run = create_topup (sample_env (\<lambda>c. if c \<in> {RUpdateCard, RDebit (topup_op 1 ''rollback'')}
              then Refuse (ErrorString ''unavailable'') else Deliver) 10) sample_topup (sample_world 1000 50)
   in isl (fst run) \<and> map row_status (cur 1 (snd run)) = [st_pending] \<and> w_marks (snd run) = []
      \<and> w_bal (snd run) ''4111'' = Some 1300"
  by code_simp

text \<open>
  The identity of a posted difference has no amount in it: a second raise by the same
  difference is taken for a retry of the first. The row is updated and reads success, the
  card is not credited.
\<close>

theorem second_raise_is_not_credited:
  "let env = sample_env (\<lambda>_. Deliver) 20;
       w1 = snd (create_topup (sample_env (\<lambda>_. Deliver) 10) sample_topup (sample_world 1000 50));
       w2 = snd (update_topup env \<lparr>uu_id = 1, uu_card = ''4111'', uu_amount = 400, uu_method = ''bank''\<rparr> w1);
       w3 = snd (update_topup env \<lparr>uu_id = 1, uu_card = ''4111'', uu_amount = 500, uu_method = ''bank''\<rparr> w2)
   in w_bal w1 ''4111'' = Some 1300 \<and> w_bal w2 ''4111'' = Some 1400 \<and> w_bal w3 ''4111'' = Some 1400
      \<and> map (\<lambda>r. (u_amount r, row_status r)) (cur 1 w3) = [(500, st_success)]"
  by code_simp

text \<open>A second raise by another difference is refused as a conflict, and the top-up is marked failed.\<close>

theorem second_raise_fails_the_topup:
  "let env = sample_env (\<lambda>_. Deliver) 20;
       w1 = snd (create_topup (sample_env (\<lambda>_. Deliver) 10) sample_topup (sample_world 1000 50));
       w2 = snd (update_topup env \<lparr>uu_id = 1, uu_card = ''4111'', uu_amount = 400, uu_method = ''bank''\<rparr> w1);
       run = update_topup env \<lparr>uu_id = 1, uu_card = ''4111'', uu_amount = 450, uu_method = ''bank''\<rparr> w2;
       w3 = run_mark env topup_entity (snd run)
   in isl (fst run) \<and> w_bal w3 ''4111'' = Some 1400
      \<and> map (\<lambda>r. (u_amount r, row_status r)) (cur 1 w3) = [(400, st_failed)]"
  by code_simp

text \<open>The time of a top-up is never set: every row carries Go's zero time.\<close>

theorem topup_time_is_zero:
  "on_table (repo_create_topup env req) w = (Inr row, w') \<Longrightarrow> u_time row = zero_time"
  by (auto simp: repo_create_topup_def create_topup_sql_def call_or_failed_def insert_row_def with_fault_def ret_def
      split: if_splits fault.splits elim!: on_tableE try_orE)

text \<open>A live top-up can be deleted permanently without being trashed.\<close>

theorem live_topup_is_deleted:
  "let w1 = snd (create_topup (sample_env (\<lambda>_. Deliver) 10) sample_topup (sample_world 1000 50));
       run = delete_topup_permanent (sample_env (\<lambda>_. Deliver) 20 :: unit svc_env) 1 w1
   in length (cur 1 w1) = 1 \<and> fst run = Inr () \<and> cur 1 (snd run) = []"
  by code_simp

end
