(* ===== verification/WithdrawService.thy ===== *)
theory WithdrawService
  imports Samples Validation Timestamps
begin

text \<open>
  Withdrawals (\<open>service/withdraw/service/withdrawCommandService.go\<close>, with its repositories
  and the statements of \<open>service/withdraw/database/schema/withdraw.sql.go\<close>): the balance and
  daily-limit checks, the debit and its rollbacks in \<open>Create\<close>, the difference posted by
  \<open>Update\<close>, and the row commands. \<open>limit\<close> is the configured \<open>WITHDRAW_DAILY_LIMIT\<close>; the
  database session is taken to run in UTC.
\<close>

section \<open>Rows and requests\<close>

record withdraw_row = cmd_row +
  wd_card :: string
  wd_amount :: int
  wd_time :: int

type_synonym withdraw_world = "withdraw_row cmd_world"

record create_withdraw_request =
  cw_card :: string
  cw_amount :: int
  cw_time :: int
  cw_key :: string
  cw_user :: int

record update_withdraw_request =
  uw_id :: int
  uw_card :: string
  uw_amount :: int
  uw_time :: int

definition withdraw_entity :: string where "withdraw_entity = ''withdraw''"

text \<open>
  The insert takes \<open>created_at\<close> from a parameter the repository never sets, which is NULL
  and overrides the column default.
\<close>

definition create_withdraw_sql ::
  "create_withdraw_request svc_env \<Rightarrow> string \<Rightarrow> int \<Rightarrow> int \<Rightarrow> int option \<Rightarrow>
   (go_error, withdraw_row, withdraw_row cmd_table) op" where
  "create_withdraw_sql env cnum amount time created_at =
     insert_row (\<lambda>i. \<lparr>row_id = i, row_no = v_row_no env, row_status = st_pending, row_failure = None,
                       row_created_at = created_at, row_updated_at = v_now env, row_deleted_at = None,
                       wd_card = cnum, wd_amount = amount, wd_time = time\<rparr>)
       (length cnum \<le> 16)"

definition repo_create_withdraw ::
  "create_withdraw_request svc_env \<Rightarrow> create_withdraw_request \<Rightarrow> (go_error, withdraw_row, withdraw_row cmd_table) op" where
  "repo_create_withdraw env req =
     call_or_failed (v_fault env RCreateRow) ''create withdraw''
       (create_withdraw_sql env (cw_card req) (go_int64 (cw_amount req)) (cw_time req) None)"

definition update_withdraw_sql ::
  "int \<Rightarrow> int \<Rightarrow> string \<Rightarrow> int \<Rightarrow> int \<Rightarrow> (go_error, withdraw_row, withdraw_row cmd_table) op" where
  "update_withdraw_sql now i cnum amount time =
     (if length cnum > 16 then ret (Inl (DbError ''value too long''))
      else update_row (live_id i)
        (\<lambda>r. r\<lparr>row_updated_at := now, wd_card := cnum, wd_amount := amount, wd_time := time\<rparr>))"

definition repo_update_withdraw ::
  "go_error fault \<Rightarrow> int \<Rightarrow> update_withdraw_request \<Rightarrow> (go_error, withdraw_row, withdraw_row cmd_table) op" where
  "repo_update_withdraw fl now req =
     row_or_failed fl withdraw_entity ''update withdraw''
       (update_withdraw_sql now (go_int32 (uw_id req)) (uw_card req) (go_int64 (uw_amount req)) (uw_time req))"

text \<open>Today's successful live withdrawals of a card, summed into a \<open>BIGINT\<close>.\<close>

definition counted_today :: "int \<Rightarrow> string \<Rightarrow> withdraw_row \<Rightarrow> bool" where
  "counted_today now cnum r \<longleftrightarrow>
     wd_card r = cnum \<and> row_status r = st_success \<and> row_live r \<and> day_start now \<le> wd_time r"

definition today_total :: "int \<Rightarrow> string \<Rightarrow> withdraw_row list \<Rightarrow> int" where
  "today_total now cnum rs = sum_list (map wd_amount (filter (counted_today now cnum) rs))"

definition today_withdraw_sum_sql ::
  "int \<Rightarrow> string \<Rightarrow> (go_error, int, withdraw_row cmd_table) op" where
  "today_withdraw_sum_sql now cnum tb =
     (let s = today_total now cnum (t_rows tb)
      in if fits_int64 s then (Inr s, tb) else (Inl (DbError ''bigint out of range''), tb))"

definition repo_today_withdraw_sum ::
  "go_error fault \<Rightarrow> int \<Rightarrow> string \<Rightarrow> (go_error, int, withdraw_row cmd_table) op" where
  "repo_today_withdraw_sum fl now cnum =
     call_or_failed fl ''get today withdraw sum'' (today_withdraw_sum_sql now cnum)"

section \<open>Settlement\<close>

text \<open>The identity is the card, the time and the amount, not the row.\<close>

definition withdraw_op :: "create_withdraw_request \<Rightarrow> string \<Rightarrow> string" where
  "withdraw_op req leg =
     ''withdraw:'' @ cw_card req @ '':'' @ rfc3339_nano (cw_time req) @ '':'' @ itoa (cw_amount req) @ leg"

definition withdraw_request :: "string \<Rightarrow> create_withdraw_request \<Rightarrow> string \<Rightarrow> saldo_request" where
  "withdraw_request source req leg =
     \<lparr>sr_card = cw_card req, sr_amount = cw_amount req, sr_operation_id = withdraw_op req leg,
      sr_source_type = source, sr_source_id = cw_card req\<rparr>"

definition enqueue_withdraw_events ::
  "create_withdraw_request svc_env \<Rightarrow> withdraw_row \<Rightarrow> withdraw_row \<Rightarrow> card_info \<Rightarrow> create_withdraw_request \<Rightarrow> int \<Rightarrow>
   withdraw_world \<Rightarrow> withdraw_world" where
  "enqueue_withdraw_events env withdraw updated ci req new_balance w =
     (if \<not> v_outbox_configured env then w
      else
        let wid = itoa (row_id withdraw);
            w1 = (if ci_email ci \<noteq> []
                  then enqueue_event env ''withdraw'' wid ''withdraw.created''
                    (EmailPayload (ci_email ci) ''Withdraw Successful - SanEdge''
                       (''Your withdrawal of '' @ itoa (cw_amount req) @ '' has been processed successfully.'')) w
                  else w);
            w2 = enqueue_event env ''withdraw'' wid ''withdraw.stats''
                   (StatsPayload ''withdraw'' (row_id updated) (row_no updated)
                      [cw_card req, ci_type ci] (cw_amount req) ''success'' (v_now env)) w1
        in enqueue_event env ''withdraw'' (cw_card req) ''withdraw.saldo''
             (SaldoPayload (cw_card req) new_balance (v_now env)) w2)"

text \<open>The daily limit: an amount that would push the day's total past it is refused.\<close>

definition check_daily_limit ::
  "'q svc_env \<Rightarrow> int \<Rightarrow> string \<Rightarrow> int \<Rightarrow> (go_error, unit, withdraw_world) op" where
  "check_daily_limit env limit cnum amount =
     (if limit > 0
      then try_or (on_table (repo_today_withdraw_sum (v_fault env RTodaySum) (v_now env) cnum))
             (\<lambda>err. ret (Inl err))
             (\<lambda>today. ret (if go_int64 (today + go_int64 amount) > limit
                           then Inl (new_bad_request_error ''Daily withdrawal limit exceeded'') else Inr ()))
      else ret (Inr ()))"

definition settle_withdraw ::
  "create_withdraw_request svc_env \<Rightarrow> card_info \<Rightarrow> create_withdraw_request \<Rightarrow>
   withdraw_world \<Rightarrow> (bool \<times> (go_error + withdraw_row)) \<times> withdraw_world" where
  "settle_withdraw env ci req =
     try_or (rpc_debit env (withdraw_request ''withdraw'' req [])) (fail_with True)
       (\<lambda>debited. try_or (on_table (repo_create_withdraw env req))
           (\<lambda>err. try_or (rpc_credit env (withdraw_request ''withdraw_compensation'' req '':rollback-create''))
                    (fail_with True) (\<lambda>_. fail_with True err))
           (\<lambda>wd. try_or (on_table (repo_update_status (v_fault env (RUpdateStatus st_success)) withdraw_entity (v_now env)
                           (row_id wd) st_success))
              (\<lambda>err. and_then (rpc_credit env (withdraw_request ''withdraw_compensation'' req '':rollback-status''))
                       (\<lambda>_. fail_with True err))
              (\<lambda>updated w. ((False, Inr updated),
                 enqueue_withdraw_events env wd updated ci req (r_balance debited) w))))"

definition create_withdraw_body ::
  "create_withdraw_request svc_env \<Rightarrow> int \<Rightarrow> create_withdraw_request \<Rightarrow>
   withdraw_world \<Rightarrow> (bool \<times> (go_error + withdraw_row)) \<times> withdraw_world" where
  "create_withdraw_body env limit req =
     (case validate_amount (cw_amount req) of
        Some err \<Rightarrow> fail_with True err
      | None \<Rightarrow>
          (case v_find_card env (cw_card req) of
             Inl err \<Rightarrow> fail_with True err
           | Inr ci \<Rightarrow>
               if 0 < cw_user req \<and> ci_user_id ci \<noteq> cw_user req
               then fail_with True (new_forbidden_error ''card does not belong to authenticated user'')
               else
                 try_or (rpc_find_saldo env (cw_card req)) (fail_with True)
                   (\<lambda>saldo.
                      if s_balance saldo < cw_amount req
                      then fail_with True (with_message ErrConflict ''insufficient balance'')
                      else try_or (check_daily_limit env limit (cw_card req) (cw_amount req)) (fail_with True)
                        (\<lambda>_. case v_block env of
                              Some reason \<Rightarrow> ret (True, Inl (ErrorString (''security block: '' @ reason)))
                            | None \<Rightarrow> settle_withdraw env ci req))))"

definition create_withdraw ::
  "create_withdraw_request svc_env \<Rightarrow> int \<Rightarrow> create_withdraw_request \<Rightarrow> (go_error, withdraw_row, withdraw_world) op" where
  "create_withdraw env limit req =
     idem_run w_idem (\<lambda>tb w. w\<lparr>w_idem := tb\<rparr>) (v_idem_configured env) (v_now env) (v_idem env)
       ''withdraw'' (cw_key req) (v_hash env req) row_id (create_withdraw_body env limit req)"

section \<open>Update\<close>

definition withdraw_update_request :: "string \<Rightarrow> update_withdraw_request \<Rightarrow> string \<Rightarrow> int \<Rightarrow> saldo_request" where
  "withdraw_update_request source req leg amount =
     \<lparr>sr_card = uw_card req, sr_amount = amount,
      sr_operation_id = ''withdraw:update:'' @ itoa (uw_id req) @ '':'' @ itoa (uw_amount req) @ '':'' @ leg,
      sr_source_type = source, sr_source_id = itoa (uw_id req)\<rparr>"

text \<open>The difference is taken from the card when positive and given back when negative.\<close>

definition post_difference ::
  "'q svc_env \<Rightarrow> update_withdraw_request \<Rightarrow> int \<Rightarrow> (go_error, unit, withdraw_world) op" where
  "post_difference env req difference =
     (if difference > 0
      then try_or (rpc_debit env (withdraw_update_request ''withdraw_update'' req ''debit'' difference))
             (\<lambda>err. ret (Inl err)) (\<lambda>_. ret (Inr ()))
      else if difference < 0
      then try_or (rpc_credit env (withdraw_update_request ''withdraw_update'' req ''credit'' (go_int64 (- difference))))
             (\<lambda>err. ret (Inl err)) (\<lambda>_. ret (Inr ()))
      else ret (Inr ()))"

text \<open>What gives a posted difference back when the row could not be written.\<close>

definition undo_difference ::
  "'q svc_env \<Rightarrow> update_withdraw_request \<Rightarrow> int \<Rightarrow> string \<Rightarrow> string \<Rightarrow> (go_error, unit, withdraw_world) op" where
  "undo_difference env req difference credit_leg debit_leg =
     (if difference > 0
      then try_or (rpc_credit env (withdraw_update_request ''withdraw_update_compensation'' req credit_leg difference))
             (\<lambda>err. ret (Inl err)) (\<lambda>_. ret (Inr ()))
      else if difference < 0
      then try_or (rpc_debit env (withdraw_update_request ''withdraw_update_compensation'' req debit_leg
                     (go_int64 (- difference))))
             (\<lambda>err. ret (Inl err)) (\<lambda>_. ret (Inr ()))
      else ret (Inr ()))"

definition write_withdraw_update ::
  "'q svc_env \<Rightarrow> update_withdraw_request \<Rightarrow> int \<Rightarrow> (go_error, withdraw_row, withdraw_world) op" where
  "write_withdraw_update env req difference =
     try_or (on_table (repo_update_withdraw (v_fault env RUpdateRow) (v_now env) req))
       (\<lambda>err. try_or (undo_difference env req difference ''rollback-credit'' ''rollback-debit'')
                (\<lambda>rollback_err. ret (Inl (handle_error (Some rollback_err))))
                (\<lambda>_. marked (uw_id req) (Some err)))
       (\<lambda>updated. try_or (on_table (repo_update_status (v_fault env (RUpdateStatus st_success)) withdraw_entity
                     (v_now env) (row_id updated) st_success))
          (\<lambda>err. and_then (undo_difference env req difference ''rollback-credit-status'' ''rollback-debit-status'')
                   (\<lambda>_. ret (Inl (handle_error (Some err)))))
          (\<lambda>_. ret (Inr updated)))"

definition update_withdraw ::
  "'q svc_env \<Rightarrow> int \<Rightarrow> update_withdraw_request \<Rightarrow> (go_error, withdraw_row, withdraw_world) op" where
  "update_withdraw env limit req =
     (case validate_amount (uw_amount req) of
        Some err \<Rightarrow> ret (Inl (handle_error (Some err)))
      | None \<Rightarrow>
          try_or (on_table (repo_find_row (v_fault env RFindRow) withdraw_entity (uw_id req)))
            (\<lambda>err. marked (uw_id req) (Some err))
            (\<lambda>old. try_or (rpc_find_saldo env (uw_card req))
               (\<lambda>err. marked (uw_id req) (Some err))
               (\<lambda>saldo.
                  let difference = go_int64 (uw_amount req - wd_amount old)
                  in if difference > s_balance saldo
                     then marked (uw_id req) (Some (with_message ErrConflict ''insufficient balance for update''))
                     else try_or (if difference > 0 then check_daily_limit env limit (uw_card req) difference
                                  else ret (Inr ()))
                       (\<lambda>err. marked (uw_id req) (Some err))
                       (\<lambda>_. try_or (post_difference env req difference)
                          (\<lambda>err. marked (uw_id req) (Some err))
                          (\<lambda>_. write_withdraw_update env req difference)))))"

section \<open>Row commands\<close>

definition trashed_withdraw :: "'q svc_env \<Rightarrow> int \<Rightarrow> (go_error, withdraw_row, withdraw_world) op" where
  "trashed_withdraw env = svc_trashed env withdraw_entity"

definition restore_withdraw :: "'q svc_env \<Rightarrow> int \<Rightarrow> (go_error, withdraw_row, withdraw_world) op" where
  "restore_withdraw env = svc_restore env withdraw_entity"

definition delete_withdraw_permanent :: "'q svc_env \<Rightarrow> int \<Rightarrow> (go_error, unit, withdraw_world) op" where
  "delete_withdraw_permanent env = svc_delete_permanent env withdraw_entity"

definition restore_all_withdraw :: "'q svc_env \<Rightarrow> (go_error, unit, withdraw_world) op" where
  "restore_all_withdraw env = svc_restore_all env withdraw_entity"

definition delete_all_withdraw_permanent :: "'q svc_env \<Rightarrow> (go_error, unit, withdraw_world) op" where
  "delete_all_withdraw_permanent env = svc_delete_all_permanent env withdraw_entity"

section \<open>Identities and rows\<close>

lemma withdraw_op_eq [simp]: "withdraw_op req leg = withdraw_op req leg' \<longleftrightarrow> leg = leg'"
  by (simp add: withdraw_op_def)

lemma withdraw_op_nonempty [simp]: "withdraw_op req leg \<noteq> []"
  by (simp add: withdraw_op_def)

lemma withdraw_request_simps [simp]:
  "sr_card (withdraw_request src req leg) = cw_card req"
  "sr_amount (withdraw_request src req leg) = cw_amount req"
  "sr_operation_id (withdraw_request src req leg) = withdraw_op req leg"
  by (simp_all add: withdraw_request_def)

text \<open>No leg of the request has been posted on its card.\<close>

definition withdraw_fresh :: "create_withdraw_request \<Rightarrow> withdraw_world \<Rightarrow> bool" where
  "withdraw_fresh req w \<longleftrightarrow> (\<forall>d leg. \<not> w_posted w d (withdraw_op req leg) (cw_card req))"

lemma create_withdraw_row:
  assumes "on_table (repo_create_withdraw env req) w = (Inr r, w')" "fits_int64 (cw_amount req)"
  shows "t_rows (w_table w') = t_rows (w_table w) @ [r]" "row_id r = t_seq (w_table w)" "row_live r"
    "row_status r = st_pending" "wd_card r = cw_card req" "wd_amount r = cw_amount req" "wd_time r = cw_time req"
    "t_seq (w_table w) \<le> 2147483647" "\<exists>tb. w' = w\<lparr>w_table := tb\<rparr>"
  using assms
  by (auto simp: repo_create_withdraw_def create_withdraw_sql_def call_or_failed_def insert_row_def with_fault_def
      ret_def row_live_def split: if_splits fault.splits elim!: on_tableE try_orE)

lemma finish_withdraw_row:
  assumes wf: "table_wf (w_table w)" and rows: "t_rows (w_table w1) = t_rows (w_table w) @ [x]"
    and x: "row_id x = t_seq (w_table w)" "row_live x" "t_seq (w_table w) \<le> 2147483647"
    and run: "on_table (repo_update_status fl entity now (row_id x) st) w1 = (Inr r, w')"
  shows "t_rows (w_table w') = t_rows (w_table w) @ [set_status now st x]" "r = set_status now st x"
    "\<exists>tb. w' = w1\<lparr>w_table := tb\<rparr>"
proof -
  have i: "fits_int32 (row_id x)" using x wf by (simp add: fits_int32_def table_wf_def)
  have old: "\<forall>y \<in> set (t_rows (w_table w)). \<not> live_id (row_id x) y"
    using wf x(1) by (auto simp: live_id_def table_wf_def)
  then have none: "find (live_id (row_id x)) (t_rows (w_table w)) = None" by (simp add: find_None_iff)
  have upd: "update_where (live_id (row_id x)) (set_status now st) (t_rows (w_table w) @ [x])
      = t_rows (w_table w) @ [set_status now st x]"
    using update_where_none [OF old, of "set_status now st"] x(2) by (simp add: update_where_def live_id_def)
  have "t_rows (w_table w') = t_rows (w_table w) @ [set_status now st x] \<and> r = set_status now st x
      \<and> (\<exists>tb. w' = w1\<lparr>w_table := tb\<rparr>)"
    using run i none upd x(2)
    by (auto simp: repo_update_status_def row_or_failed_def update_status_sql_def update_row_def rows
        find_append live_id_def with_fault_def ret_def split: fault.splits option.splits elim!: on_tableE try_orE)
  then show "t_rows (w_table w') = t_rows (w_table w) @ [set_status now st x]" "r = set_status now st x"
    "\<exists>tb. w' = w1\<lparr>w_table := tb\<rparr>"
    by blast+
qed

lemma enqueue_withdraw_events_same [simp]:
  "w_table (enqueue_withdraw_events env wd up ci req nb w) = w_table w"
  "w_bal (enqueue_withdraw_events env wd up ci req nb w) = w_bal w"
  "w_marks (enqueue_withdraw_events env wd up ci req nb w) = w_marks w"
  by (simp_all add: enqueue_withdraw_events_def Let_def)

section \<open>What a withdrawal leaves behind\<close>

lemma settle_withdraw_success:
  assumes run: "settle_withdraw env ci req w = ((se, Inr row), w')"
    and wf: "table_wf (w_table w)" and a: "fits_int64 (cw_amount req)"
  shows "t_rows (w_table w') = t_rows (w_table w) @ [row]"
    and "row_id row = t_seq (w_table w)" "row_live row" "row_status row = st_success"
    and "wd_card row = cw_card req" "wd_amount row = cw_amount req" "wd_time row = cw_time req"
    and "w_marks w' = w_marks w"
    and "\<not> w_posted w True (withdraw_op req []) (cw_card req) \<Longrightarrow>
       w_bal w' = moved (w_bal w) (cw_card req) (- cw_amount req)
       \<and> (\<exists>b. w_bal w (cw_card req) = Some b \<and> cw_amount req \<le> b)"
proof -
  from run obtain deb w1 wd w2 up w3 where
    d: "rpc_debit env (withdraw_request ''withdraw'' req []) w = (Inr deb, w1)"
    and c: "on_table (repo_create_withdraw env req) w1 = (Inr wd, w2)"
    and u: "on_table (repo_update_status (v_fault env (RUpdateStatus st_success)) withdraw_entity (v_now env)
        (row_id wd) st_success) w2 = (Inr up, w3)"
    and e: "row = up" "w' = enqueue_withdraw_events env wd up ci req (r_balance deb) w3"
    unfolding settle_withdraw_def by (auto elim!: try_orE and_thenE)
  from rpc_debit_world [OF d] obtain s where w1: "w1 = w\<lparr>w_saldo := s\<rparr>" by blast
  note cr = create_withdraw_row [OF c a]
  have "table_wf (w_table w)" "t_rows (w_table w2) = t_rows (w_table w) @ [wd]" "row_id wd = t_seq (w_table w)"
    "t_seq (w_table w) \<le> 2147483647"
    using cr(1,2,8) wf by (simp_all add: w1)
  note fr = finish_withdraw_row [OF this(1,2,3) cr(3) this(4) u]
  from fr(1,2) cr(2-7) e show "t_rows (w_table w') = t_rows (w_table w) @ [row]"
    "row_id row = t_seq (w_table w)" "row_live row" "row_status row = st_success"
    "wd_card row = cw_card req" "wd_amount row = cw_amount req" "wd_time row = cw_time req"
    by (simp_all add: w1 set_status_def row_live_def)
  from fr(3) cr(9) e w1 show "w_marks w' = w_marks w" by auto
  assume fresh: "\<not> w_posted w True (withdraw_op req []) (cw_card req)"
  note dm = debit_moved [OF d, simplified, OF a fresh]
  from dm fr(3) cr(9) e show "w_bal w' = moved (w_bal w) (cw_card req) (- cw_amount req)
       \<and> (\<exists>b. w_bal w (cw_card req) = Some b \<and> cw_amount req \<le> b)"
    by auto
qed

text \<open>A delivered rollback credit is accepted once the debit was.\<close>

lemma withdraw_rollback:
  assumes run: "rpc_credit env (withdraw_request ''withdraw_compensation'' req leg) w = (r, w')"
    and deliver: "v_fault env (RCredit (withdraw_op req leg)) = Deliver"
    and fresh: "\<not> w_posted w False (withdraw_op req leg) (cw_card req)"
    and bal: "w_bal w = moved b (cw_card req) (- cw_amount req)"
    and b: "b (cw_card req) = Some v" "cw_amount req \<le> v" "fits_int64 v"
    and fits: "cw_card req \<noteq> []" "length (cw_card req) \<le> 16" "0 < cw_amount req" "fits_int64 (cw_amount req)"
      "length (withdraw_op req leg) \<le> 128"
  shows "\<exists>x. r = Inr x" "w_bal w' = b"
proof -
  let ?req = "withdraw_request ''withdraw_compensation'' req leg"
  have f: "request_fits ?req" using fits by (simp add: request_fits_def) (simp add: withdraw_request_def)
  have sb: "saldo_bal (w_saldo w) (sr_card ?req) = Some (v - cw_amount req)"
    using bal b(1) by (simp add: w_bal_def moved_def)
  have "\<exists>x s'. adapter_credit_saldo (v_saldo env) ?req (w_saldo w) = (Inr x, s')
      \<and> r_balance x = v - cw_amount req + sr_amount ?req"
    using b(2,3) fresh by (intro adapter_credit_accepts [OF f sb]) (simp_all add: w_posted_def)
  then show x: "\<exists>x. r = Inr x" using run deliver by (auto simp: rpc_credit_def with_fault_def zoom_def)
  then obtain x where "r = Inr x" by blast
  from credit_moved(1) [OF run [unfolded this]] fits(4) fresh bal show "w_bal w' = b" by simp
qed

lemma settle_withdraw_failed:
  assumes run: "settle_withdraw env ci req w = ((se, Inl e), w')"
    and fresh: "withdraw_fresh req w" and seen: "delivered env (RDebit (withdraw_op req []))"
    and deliver: "\<And>leg. v_fault env (RCredit (withdraw_op req leg)) = Deliver"
    and b: "\<And>v. w_bal w (cw_card req) = Some v \<Longrightarrow> fits_int64 v"
    and fits: "cw_card req \<noteq> []" "length (cw_card req) \<le> 16" "0 < cw_amount req" "fits_int64 (cw_amount req)"
      "length (withdraw_op req '':rollback-create'') \<le> 128"
  shows "w_bal w' = w_bal w" "w_marks w' = w_marks w"
proof -
  have new: "\<not> w_posted w d (withdraw_op req leg) (cw_card req)" for d leg using fresh by (simp add: withdraw_fresh_def)
  have len: "length (withdraw_op req '':rollback-status'') \<le> 128" using fits(5) by (simp add: withdraw_op_def)
  have done_all: "w_bal w' = w_bal w \<and> w_marks w' = w_marks w"
    using run unfolding settle_withdraw_def
  proof (elim try_orE)
    fix e1 w1
    assume d: "rpc_debit env (withdraw_request ''withdraw'' req []) w = (Inl e1, w1)"
      and f: "fail_with True e1 w1 = ((se, Inl e), w')"
    from rpc_debit_failed [OF d] seen rpc_debit_world [OF d] f show ?thesis by (auto simp: money_same_def)
  next
    fix deb w1
    assume d: "rpc_debit env (withdraw_request ''withdraw'' req []) w = (Inr deb, w1)"
    note dm = debit_moved [OF d, simplified, OF fits(4) new]
    from dm(3) obtain v where v: "w_bal w (cw_card req) = Some v" "cw_amount req \<le> v" by blast
    note undo = withdraw_rollback [where b = "w_bal w", OF _ deliver _ _ v b [OF v(1)] fits(1-4)]
    from rpc_debit_world [OF d] have m1: "w_marks w1 = w_marks w" by auto
    {
      fix e1 w2 e2 w3
      assume c: "on_table (repo_create_withdraw env req) w1 = (Inl e1, w2)"
        and r: "rpc_credit env (withdraw_request ''withdraw_compensation'' req '':rollback-create'') w2 = (Inl e2, w3)"
      from c have "w_bal w2 = w_bal w1" "w_posted w2 = w_posted w1" by (auto elim!: on_tableE)
      with undo(1) [OF r] dm new fits(5) show ?thesis by auto
    next
      fix e1 w2 x w3
      assume c: "on_table (repo_create_withdraw env req) w1 = (Inl e1, w2)"
        and r: "rpc_credit env (withdraw_request ''withdraw_compensation'' req '':rollback-create'') w2 = (Inr x, w3)"
        and f: "fail_with True e1 w3 = ((se, Inl e), w')"
      from c have "w_bal w2 = w_bal w1" "w_posted w2 = w_posted w1" "w_marks w2 = w_marks w1" by (auto elim!: on_tableE)
      with undo(2) [OF r] dm new fits(5) f m1 rpc_credit_world [OF r] show ?thesis by auto
    next
      fix wd w2 e1 w3
      assume c: "on_table (repo_create_withdraw env req) w1 = (Inr wd, w2)"
        and u: "on_table (repo_update_status (v_fault env (RUpdateStatus st_success)) withdraw_entity (v_now env)
            (row_id wd) st_success) w2 = (Inl e1, w3)"
        and f: "and_then (rpc_credit env (withdraw_request ''withdraw_compensation'' req '':rollback-status''))
            (\<lambda>_. fail_with True e1) w3 = ((se, Inl e), w')"
      from c u have same: "w_bal w3 = w_bal w1" "w_posted w3 = w_posted w1" "w_marks w3 = w_marks w1"
        by (auto elim!: on_tableE)
      from f obtain r w4 where r: "rpc_credit env (withdraw_request ''withdraw_compensation'' req '':rollback-status'') w3 = (r, w4)"
        and w': "w' = w4" by (auto elim: and_thenE)
      from undo(2) [OF r] same dm new len m1 rpc_credit_world [OF r] w' show ?thesis by auto
    next
      fix wd w2 up w3
      assume "((False, Inr up), enqueue_withdraw_events env wd up ci req (r_balance deb) w3) = ((se, Inl e), w')"
      then show ?thesis by simp
    }
  qed
  then show "w_bal w' = w_bal w" "w_marks w' = w_marks w" by simp_all
qed

lemma check_daily_limit_outcome:
  assumes run: "check_daily_limit env limit c a w = (r, w')"
  shows "w' = w"
    and "r = Inr u \<Longrightarrow> 0 < limit \<Longrightarrow>
      fits_int64 (today_total (v_now env) c (t_rows (w_table w)))
      \<and> go_int64 (today_total (v_now env) c (t_rows (w_table w)) + go_int64 a) \<le> limit"
proof -
  have query: "w1 = w \<and> (\<forall>t. q = Inr t \<longrightarrow> t = today_total (v_now env) c (t_rows (w_table w)) \<and> fits_int64 t)"
    if "on_table (repo_today_withdraw_sum (v_fault env RTodaySum) (v_now env) c) w = (q, w1)" for q w1
    using that
    by (auto simp: repo_today_withdraw_sum_def call_or_failed_def today_withdraw_sum_sql_def Let_def with_fault_def
        ret_def split: fault.splits if_splits elim!: on_tableE try_orE)
  show "w' = w"
    using run query by (auto simp: check_daily_limit_def ret_def split: if_splits elim!: try_orE)
  show "fits_int64 (today_total (v_now env) c (t_rows (w_table w)))
      \<and> go_int64 (today_total (v_now env) c (t_rows (w_table w)) + go_int64 a) \<le> limit"
    if "r = Inr u" "0 < limit"
    using run that query by (auto simp: check_daily_limit_def ret_def split: if_splits elim!: try_orE)
qed

lemma create_withdraw_body_cases:
  assumes run: "create_withdraw_body env limit req w = (r, w')"
  obtains (refused) se e where "r = (se, Inl e)" "w' = w"
  | (settled) ci where "settle_withdraw env ci req w = (r, w')" "validate_amount (cw_amount req) = None"
      "cw_card req \<noteq> []" "v_find_card env (cw_card req) = Inr ci" "0 < cw_user req \<longrightarrow> ci_user_id ci = cw_user req"
      "0 < limit \<longrightarrow> fits_int64 (today_total (v_now env) (cw_card req) (t_rows (w_table w)))
         \<and> go_int64 (today_total (v_now env) (cw_card req) (t_rows (w_table w)) + go_int64 (cw_amount req)) \<le> limit"
proof (cases "(\<exists>se e. r = (se, Inl e)) \<and> w' = w")
  case True
  then show ?thesis using refused by blast
next
  case False
  from run False obtain ci where v: "validate_amount (cw_amount req) = None" "v_find_card env (cw_card req) = Inr ci"
      "0 < cw_user req \<longrightarrow> ci_user_id ci = cw_user req"
    and rest: "try_or (rpc_find_saldo env (cw_card req)) (fail_with True)
        (\<lambda>saldo. if s_balance saldo < cw_amount req
           then fail_with True (with_message ErrConflict ''insufficient balance'')
           else try_or (check_daily_limit env limit (cw_card req) (cw_amount req)) (fail_with True)
             (\<lambda>_. case v_block env of
                   Some reason \<Rightarrow> ret (True, Inl (ErrorString (''security block: '' @ reason)))
                 | None \<Rightarrow> settle_withdraw env ci req)) w = (r, w')"
    unfolding create_withdraw_body_def by (auto split: option.splits sum.splits if_splits)
  from rest show ?thesis
  proof (elim try_orE)
    fix e w1
    assume "rpc_find_saldo env (cw_card req) w = (Inl e, w1)" "fail_with True e w1 = (r, w')"
    with False show ?thesis by (auto simp: rpc_find_saldo_def with_fault_def split: fault.splits)
  next
    fix saldo w1
    assume f: "rpc_find_saldo env (cw_card req) w = (Inr saldo, w1)"
      and k: "(if s_balance saldo < cw_amount req
           then fail_with True (with_message ErrConflict ''insufficient balance'')
           else try_or (check_daily_limit env limit (cw_card req) (cw_amount req)) (fail_with True)
             (\<lambda>_. case v_block env of
                   Some reason \<Rightarrow> ret (True, Inl (ErrorString (''security block: '' @ reason)))
                 | None \<Rightarrow> settle_withdraw env ci req)) w1 = (r, w')"
    from rpc_find_saldo_found [OF f] have w1: "w1 = w" "cw_card req \<noteq> []" by simp_all
    obtain q w2 where q: "check_daily_limit env limit (cw_card req) (cw_amount req) w = (q, w2)" by (metis prod.exhaust)
    note lim = check_daily_limit_outcome [OF q]
    from k False q lim(1) have "(\<exists>u. q = Inr u) \<and> settle_withdraw env ci req w = (r, w')"
      by (auto simp: w1(1) try_or_def ret_def split: if_splits sum.splits option.splits)
    with lim(2) v w1(2) show ?thesis using settled by blast
  qed
qed

section \<open>The whole command\<close>

lemma settle_withdraw_within: "keeping_run.within (settle_withdraw env ci req)"
  unfolding settle_withdraw_def
  by (intro keeping_run.within_try_or keeping_run.within_and_then keeping_steps keeping_run.within_fail keeping_run.withinI)
    (auto simp: enqueue_withdraw_events_def Let_def)

lemma create_withdraw_body_within: "keeping_run.within (create_withdraw_body env limit req)"
proof -
  have lim: "keeping_run.within (check_daily_limit env limit c a)" for c a
    by (rule keeping_run.withinI) (auto dest: check_daily_limit_outcome(1))
  show ?thesis
    unfolding create_withdraw_body_def
    by (intro keeping_run.within_intros keeping_steps settle_withdraw_within lim)
qed

interpretation withdraw_command: idempotent_command w_idem "\<lambda>tb (w :: withdraw_world). w\<lparr>w_idem := tb\<rparr>"
  "\<lambda>(env, limit, req). create_withdraw_body env limit req"
proof unfold_locales
  fix b :: "create_withdraw_request svc_env \<times> int \<times> create_withdraw_request" and w :: withdraw_world
  obtain env limit req where "b = (env, limit, req)" by (metis prod.exhaust)
  then show "w_idem (snd ((case b of (env, limit, req) \<Rightarrow> create_withdraw_body env limit req) w)) = w_idem w"
    using create_withdraw_body_within [of env limit req] by (simp add: keeping_run.within_def idem_kept_def)
qed

lemma create_withdraw_cases:
  assumes "create_withdraw env limit req w = (r, w')"
  obtains (answered) tb where "w' = w\<lparr>w_idem := tb\<rparr>" "cw_key req \<noteq> []"
      "r = idem_answer (v_now env) (v_idem env) ''withdraw'' (cw_key req) (v_hash env req) tb"
  | (ran) tb se w2 tb' where "create_withdraw_body env limit req (w\<lparr>w_idem := tb\<rparr>) = ((se, r), w2)"
      "w' = w2\<lparr>w_idem := tb'\<rparr>"
  using assms unfolding create_withdraw_def by (rule idem_run_cases)

lemma withdraw_fresh_idem [simp]: "withdraw_fresh req (w\<lparr>w_idem := tb\<rparr>) = withdraw_fresh req w"
  by (simp add: withdraw_fresh_def)

text \<open>What a withdrawal that ran to a result did; the properties of a success rest on it.\<close>

lemma create_withdraw_succeeded:
  assumes "create_withdraw env limit req w = (Inr row, w')"
  obtains (answer) "replays ''withdraw'' (cw_key req) (v_hash env req) row w w'"
  | (settled) ci tb w2 tb' where "settle_withdraw env ci req (w\<lparr>w_idem := tb\<rparr>) = ((False, Inr row), w2)"
    "w' = w2\<lparr>w_idem := tb'\<rparr>" "v_find_card env (cw_card req) = Inr ci" "0 < cw_user req \<longrightarrow> ci_user_id ci = cw_user req"
    "0 < cw_amount req" "cw_amount req \<le> max_amount" "fits_int64 (cw_amount req)"
    "0 < limit \<longrightarrow> fits_int64 (today_total (v_now env) (cw_card req) (t_rows (w_table w)))
       \<and> go_int64 (today_total (v_now env) (cw_card req) (t_rows (w_table w)) + go_int64 (cw_amount req)) \<le> limit"
  using assms(1)
proof (cases rule: create_withdraw_cases)
  case (answered tb)
  then show ?thesis by (intro answer answered_replays)
next
  case (ran tb se w2 tb')
  from ran(1) show ?thesis
  proof (cases rule: create_withdraw_body_cases)
    case (refused se' e)
    then show ?thesis by simp
  next
    case body: (settled ci)
    have "se = False"
      using body(1) unfolding settle_withdraw_def by (auto elim!: try_orE and_thenE)
    with body ran(2) settled [of ci tb w2 tb'] validated_amount_fits [OF body(2)] show ?thesis by simp
  qed
qed

definition sample_withdraw :: create_withdraw_request where
  "sample_withdraw = \<lparr>cw_card = ''4111'', cw_amount = 300, cw_time = 5, cw_key = [], cw_user = 1\<rparr>"

lemma sample_withdraw_fresh: "withdraw_fresh req (sample_world a b)"
  by (auto simp: withdraw_fresh_def withdraw_op_def dest: sample_posted)

section \<open>Properties\<close>

text \<open>
  C12: a withdrawal under a new debit identity that returns a row either repeats one, and
  then answers the stored row of its key and only the idempotency store can have changed,
  or appended that row with status success, took exactly its amount from the card, which
  held it, and the card belongs to the authenticated user when one is given
\<close>

theorem withdraw_success_debits:
  assumes "create_withdraw env limit req w = (Inr row, w')"
    and "table_wf (w_table w)" "\<not> w_posted w True (withdraw_op req []) (cw_card req)"
  shows "replays ''withdraw'' (cw_key req) (v_hash env req) row w w' \<or>
    t_rows (w_table w') = t_rows (w_table w) @ [row] \<and> row_status row = st_success
    \<and> wd_card row = cw_card req \<and> wd_amount row = cw_amount req
    \<and> w_bal w' = moved (w_bal w) (cw_card req) (- cw_amount req)
    \<and> (\<exists>b. w_bal w (cw_card req) = Some b \<and> 0 < cw_amount req \<and> cw_amount req \<le> b)
    \<and> (\<exists>ci. v_find_card env (cw_card req) = Inr ci \<and> (0 < cw_user req \<longrightarrow> ci_user_id ci = cw_user req))"
  using assms(1)
proof (cases rule: create_withdraw_succeeded)
  case (settled ci tb w2 tb')
  have wf: "table_wf (w_table (w\<lparr>w_idem := tb\<rparr>))"
    and new: "\<not> w_posted (w\<lparr>w_idem := tb\<rparr>) True (withdraw_op req []) (cw_card req)"
    using assms(2,3) by simp_all
  note ok = settle_withdraw_success [OF settled(1) wf settled(7)]
  from ok(1-7) ok(9) [OF new] settled(2-5) show ?thesis by simp
qed simp

theorem withdraw_success_debits_witness:
  "let run = create_withdraw (sample_env (\<lambda>_. Deliver) 10) 500 (sample_withdraw\<lparr>cw_key := ''k''\<rparr>) (sample_world 1000 50)
   in \<not> isl (fst run) \<and> map row_status (t_rows (w_table (snd run))) = [st_success] \<and> w_bal (snd run) ''4111'' = Some 700"
proof -
  let ?env = "sample_env (\<lambda>_. Deliver) 10" and ?req = "sample_withdraw\<lparr>cw_key := ''k''\<rparr>"
    and ?w = "sample_world 1000 50 :: withdraw_world"
  let ?run = "create_withdraw ?env 500 ?req ?w"
  have ok: "\<not> isl (fst ?run)" and bal: "w_bal ?w ''4111'' = Some 1000" and moved: "w_bal (snd ?run) ''4111'' = Some 700"
    by code_simp+
  from ok obtain row w' where run: "?run = (Inr row, w')" by (cases ?run; cases "fst ?run") auto
  have new: "\<not> w_posted ?w True (withdraw_op ?req []) (cw_card ?req)"
    using sample_withdraw_fresh [of ?req 1000 50] unfolding withdraw_fresh_def by blast
  have "\<not> replays ''withdraw'' (cw_key ?req) (v_hash ?env ?req) row ?w w'"
    using replays_bal [of "''withdraw''" "cw_key ?req" "v_hash ?env ?req" row ?w w'] bal moved run by auto
  with withdraw_success_debits [OF run sample_table_wf(1) new]
  have "t_rows (w_table w') = t_rows (w_table ?w) @ [row] \<and> row_status row = st_success" by blast
  with run moved show ?thesis by (simp add: sample_world_def)
qed

text \<open>
  C13: when a withdrawal whose debit identity (card, time and amount) is new fails
  although its debit was answered and its rollback credit is delivered, no balance has
  changed and no failure marker is queued; the card and the identity fit their columns and
  the balance an int64
\<close>

theorem withdraw_failure_undone:
  assumes "create_withdraw env limit req w = (Inl e, w')" "withdraw_fresh req w"
    and "delivered env (RDebit (withdraw_op req []))" "\<And>leg. v_fault env (RCredit (withdraw_op req leg)) = Deliver"
    and "\<And>v. w_bal w (cw_card req) = Some v \<Longrightarrow> fits_int64 v"
    and "length (cw_card req) \<le> 16" "length (withdraw_op req '':rollback-create'') \<le> 128"
  shows "w_bal w' = w_bal w \<and> w_marks w' = w_marks w"
  using assms(1)
proof (cases rule: create_withdraw_cases)
  case (answered tb)
  then show ?thesis by simp
next
  case (ran tb se w2 tb')
  from ran(1) show ?thesis
  proof (cases rule: create_withdraw_body_cases)
    case (refused se' e)
    with ran(2) show ?thesis by simp
  next
    case (settled ci)
    have fresh: "withdraw_fresh req (w\<lparr>w_idem := tb\<rparr>)"
      and fits: "\<And>v. w_bal (w\<lparr>w_idem := tb\<rparr>) (cw_card req) = Some v \<Longrightarrow> fits_int64 v"
      and pos: "0 < cw_amount req" "fits_int64 (cw_amount req)"
      using assms(2,5) settled(2) validated_amount_fits by simp_all
    from settle_withdraw_failed [OF settled(1) fresh assms(3,4) fits settled(3) assms(6) pos assms(7)] ran(2)
    show ?thesis by simp
  qed
qed

theorem withdraw_failure_undone_witness:
  "let run = create_withdraw (sample_env (refusing RCreateRow) 10) 500 sample_withdraw (sample_world 1000 50)
   in isl (fst run) \<and> w_bal (snd run) = w_bal (sample_world 1000 50 :: withdraw_world)"
proof -
  let ?run = "create_withdraw (sample_env (refusing RCreateRow) 10) 500 sample_withdraw (sample_world 1000 50)"
  have err: "isl (fst ?run)" and bal: "w_bal (sample_world 1000 50 :: withdraw_world) ''4111'' = Some 1000"
    and len: "length (withdraw_op sample_withdraw '':rollback-create'') \<le> 128" by code_simp+
  from err obtain e w' where run: "?run = (Inl e, w')" by (cases ?run; cases "fst ?run") auto
  have "w_bal w' = w_bal (sample_world 1000 50 :: withdraw_world) \<and> w_marks w' = w_marks (sample_world 1000 50 :: withdraw_world)"
    by (rule withdraw_failure_undone [OF run sample_withdraw_fresh _ _ _ _ len])
      (simp_all add: sample_withdraw_def delivered_def refusing_def bal fits_int64_def)
  with run show ?thesis by simp
qed

text \<open>
  C14: a withdrawal that succeeds under a daily limit, with a total of the day within that
  limit before it, leaves the total within it; it either repeats one under its key, and
  then leaves the total as it was, or the total grows by its amount unless it is dated
  before today (the sum of the limit and the largest amount fits an int64)
\<close>

theorem withdraw_within_daily_limit:
  assumes "create_withdraw env limit req w = (Inr row, w')" "0 < limit" "limit + max_amount < 2 ^ 63"
    and "table_wf (w_table w)" "today_total (v_now env) (cw_card req) (t_rows (w_table w)) \<le> limit"
  shows "let total = (\<lambda>w. today_total (v_now env) (cw_card req) (t_rows (w_table w)))
    in total w' \<le> limit
      \<and> (replays ''withdraw'' (cw_key req) (v_hash env req) row w w' \<and> total w' = total w
         \<or> total w' = total w + (if day_start (v_now env) \<le> cw_time req then cw_amount req else 0))"
  using assms(1)
proof (cases rule: create_withdraw_succeeded)
  case answer
  with assms(5) replays_same(1) [OF answer] show ?thesis by (simp add: Let_def)
next
  case (settled ci tb w2 tb')
  let ?t = "today_total (v_now env) (cw_card req)"
  have wf: "table_wf (w_table (w\<lparr>w_idem := tb\<rparr>))" using assms(4) by simp
  note s = settle_withdraw_success [OF settled(1) wf settled(7)]
  have eq: "?t (t_rows (w_table w')) = ?t (t_rows (w_table w))
        + (if day_start (v_now env) \<le> cw_time req then cw_amount req else 0)"
    using s(1,3-7) settled(2) by (simp add: today_total_def counted_today_def)
  have "fits_int64 (?t (t_rows (w_table w)) + cw_amount req)"
    using settled(5-8) assms(2,3,5) by (simp add: fits_int64_def)
  with settled(7,8) assms(2) have "?t (t_rows (w_table w)) + cw_amount req \<le> limit" by simp
  with eq assms(5) show ?thesis by (simp add: Let_def)
qed

theorem withdraw_within_daily_limit_witness:
  "let run = create_withdraw (sample_env (\<lambda>_. Deliver) 10) 500 (sample_withdraw\<lparr>cw_key := ''k''\<rparr>) (sample_world 1000 50)
   in \<not> isl (fst run) \<and> today_total 10 ''4111'' (t_rows (w_table (snd run))) \<le> 500"
proof -
  let ?req = "sample_withdraw\<lparr>cw_key := ''k''\<rparr>"
  let ?run = "create_withdraw (sample_env (\<lambda>_. Deliver) 10) 500 ?req (sample_world 1000 50)"
  have ok: "\<not> isl (fst ?run)"
    and today: "today_total 10 ''4111'' (t_rows (w_table (sample_world 1000 50 :: withdraw_world))) = 0" by code_simp+
  from ok obtain row w' where run: "?run = (Inr row, w')" by (cases ?run; cases "fst ?run") auto
  have now: "v_now (sample_env (\<lambda>_. Deliver) 10 :: create_withdraw_request svc_env) = 10" "cw_card ?req = ''4111''"
    by (simp_all add: sample_env_def sample_withdraw_def)
  from withdraw_within_daily_limit [OF run _ _ sample_table_wf(1)] now today
  have "today_total 10 ''4111'' (t_rows (w_table w')) \<le> 500" by (simp add: max_amount_def Let_def)
  with run show ?thesis by simp
qed

section \<open>Runs the properties do not cover\<close>

text \<open>
  The day's total counts withdrawals by the time the client sent: one dated before today is
  checked against the total but never counted in it, so a card can be emptied past its
  limit.
\<close>

theorem backdated_withdrawals_pass_the_limit:
  "let env = sample_env (\<lambda>_. Deliver) (2 * day);
       w1 = snd (create_withdraw env 500 sample_withdraw (sample_world 1000 50));
       w2 = snd (create_withdraw env 500 (sample_withdraw\<lparr>cw_time := 6\<rparr>) w1);
       w3 = snd (create_withdraw env 500 (sample_withdraw\<lparr>cw_time := 7\<rparr>) w2)
   in w_bal w3 ''4111'' = Some 100 \<and> today_total (2 * day) ''4111'' (t_rows (w_table w3)) = 0"
  by code_simp

text \<open>
  A withdrawal that was rolled back and is sent again reuses the identity of its debit: the
  ledger takes it for a retry, moves nothing, and the withdrawal is recorded as a success.
\<close>

theorem retry_after_rollback_takes_no_money:
  "let w1 = snd (create_withdraw (sample_env (refusing RCreateRow) 10) 500 sample_withdraw (sample_world 1000 50));
       run = create_withdraw (sample_env (\<lambda>_. Deliver) 20) 500 sample_withdraw w1
   in w_bal w1 ''4111'' = Some 1000 \<and> \<not> isl (fst run) \<and> w_bal (snd run) ''4111'' = Some 1000
      \<and> map row_status (t_rows (w_table (snd run))) = [st_success]"
  by code_simp

text \<open>
  The other way round: the debit of a second equal withdrawal is taken for a retry and moves
  nothing; when its row cannot be inserted, the rollback gives back what was never taken.
\<close>

theorem equal_withdrawal_rolled_back_makes_money:
  "let w1 = snd (create_withdraw (sample_env (\<lambda>_. Deliver) 10) 1000 (sample_withdraw\<lparr>cw_key := ''a''\<rparr>) (sample_world 1000 50));
       run = create_withdraw (sample_env (refusing RCreateRow) 20) 1000 (sample_withdraw\<lparr>cw_key := ''b''\<rparr>) w1
   in w_bal w1 ''4111'' = Some 700 \<and> isl (fst run) \<and> w_bal (snd run) ''4111'' = Some 1000
      \<and> map row_status (t_rows (w_table (snd run))) = [st_success]"
  by code_simp

text \<open>Two withdrawals of one amount with one time are two rows and one debit.\<close>

theorem equal_withdrawals_debit_once:
  "let w1 = snd (create_withdraw (sample_env (\<lambda>_. Deliver) 10) 1000 (sample_withdraw\<lparr>cw_key := ''a''\<rparr>) (sample_world 1000 50));
       w2 = snd (create_withdraw (sample_env (\<lambda>_. Deliver) 20) 1000 (sample_withdraw\<lparr>cw_key := ''b''\<rparr>) w1)
   in w_bal w2 ''4111'' = Some 700 \<and> map row_status (t_rows (w_table w2)) = [st_success, st_success]"
  by code_simp

text \<open>
  When the success status cannot be written the money is given back, but the row stays
  pending: no marker is started and pending rows are never recovered.
\<close>

theorem failed_status_leaves_pending:
  "let run = create_withdraw (sample_env (refusing (RUpdateStatus st_success)) 10) 500 sample_withdraw (sample_world 1000 50)
   in isl (fst run) \<and> w_bal (snd run) ''4111'' = Some 1000 \<and> w_marks (snd run) = []
      \<and> map row_status (t_rows (w_table (snd run))) = [st_pending]"
  by code_simp

text \<open>A raise that is refused marks the settled withdrawal failed, though its money is gone.\<close>

theorem refused_update_fails_the_withdrawal:
  "let env = sample_env (\<lambda>_. Deliver) 20;
       w1 = snd (create_withdraw (sample_env (\<lambda>_. Deliver) 10) 500 sample_withdraw (sample_world 1000 50));
       run = update_withdraw env 500 \<lparr>uw_id = 1, uw_card = ''4111'', uw_amount = 5000, uw_time = 5\<rparr> w1;
       w3 = run_mark env withdraw_entity (snd run)
   in isl (fst run) \<and> w_bal w3 ''4111'' = Some 700
      \<and> map (\<lambda>r. (wd_amount r, row_status r)) (cur 1 w3) = [(300, st_failed)]"
  by code_simp

text \<open>The creation time of every withdrawal is NULL.\<close>

theorem withdraw_created_at_is_null:
  "on_table (repo_create_withdraw env req) w = (Inr row, w') \<Longrightarrow> row_created_at row = None"
  by (auto simp: repo_create_withdraw_def create_withdraw_sql_def call_or_failed_def insert_row_def with_fault_def ret_def
      split: if_splits fault.splits elim!: on_tableE try_orE)

end
