(* ===== verification/Listing.thy ===== *)
theory Listing
  imports Validation "HOL-Library.Sublist"
begin

text \<open>
  What the paginated listings of every service share: the \<open>ILIKE '%' || $1 || '%'\<close> search
  over some text columns, \<open>ORDER BY ... LIMIT ... OFFSET ...\<close> with the window count
  \<open>COUNT(*) OVER ()\<close>, the offset the repositories compute and the page data the handlers
  return.
\<close>

section \<open>Search\<close>

text \<open>
  \<open>LIKE\<close> without regard to case: \<open>%\<close> matches any string, \<open>_\<close> any character, and a
  backslash takes the next character literally.
\<close>

function like :: "string \<Rightarrow> string \<Rightarrow> bool" where
  "like [] s \<longleftrightarrow> s = []"
| "like (c # p) [] \<longleftrightarrow> c = CHR ''%'' \<and> like p []"
| "like (c # p) (x # s) \<longleftrightarrow>
     (if c = CHR ''%'' then like p (x # s) \<or> like (c # p) s
      else if c = CHR ''_'' then like p s
      else if c = CHR 0x5C
      then (case p of [] \<Rightarrow> False | q # p' \<Rightarrow> lower_char q = lower_char x \<and> like p' s)
      else lower_char c = lower_char x \<and> like p s)"
  by pat_completeness auto
termination by (relation "measure (\<lambda>(p, s). length p + length s)") auto

definition contains_pattern :: "string \<Rightarrow> string" where
  "contains_pattern term = ''%'' @ term @ ''%''"

definition plain_text :: "string \<Rightarrow> bool" where
  "plain_text term \<longleftrightarrow> (\<forall>c \<in> set term. c \<noteq> CHR ''%'' \<and> c \<noteq> CHR ''_'' \<and> c \<noteq> CHR 0x5C)"

lemma like_percent: "like ''%'' s" for s
  by (induction s) auto

lemma like_prefix_percent:
  "plain_text term \<Longrightarrow> like (term @ ''%'') s \<longleftrightarrow> prefix (map lower_char term) (map lower_char s)"
proof (induction "term" arbitrary: s)
  case Nil
  then show ?case by (simp add: like_percent)
next
  case (Cons c t)
  then show ?case by (cases s) (auto simp: plain_text_def)
qed

lemma like_contains:
  assumes "plain_text term"
  shows "like (contains_pattern term) s \<longleftrightarrow> sublist (map lower_char term) (map lower_char s)"
proof (induction s)
  case Nil
  then show ?case using like_prefix_percent [OF assms, of "[]"]
    by (cases "term") (auto simp: contains_pattern_def plain_text_def)
next
  case (Cons x s)
  have "like (contains_pattern term) (x # s) \<longleftrightarrow> like (term @ ''%'') (x # s) \<or> like (contains_pattern term) s"
    by (simp add: contains_pattern_def)
  then show ?case using Cons like_prefix_percent [OF assms, of "x # s"]
    by (simp add: sublist_Cons_right)
qed

section \<open>Pages\<close>

definition list_sql ::
  "('r \<Rightarrow> bool) \<Rightarrow> ('r \<Rightarrow> string list) \<Rightarrow> ('r \<Rightarrow> int) \<Rightarrow> string \<Rightarrow> int \<Rightarrow> int \<Rightarrow> 'r list \<Rightarrow>
   go_error + ('r \<times> int) list" where
  "list_sql chosen columns key term limit offset rows =
     (if limit < 0 \<or> offset < 0 then Inl (DbError ''LIMIT or OFFSET must not be negative'')
      else let hits = sort_key key (filter (\<lambda>r. chosen r
                 \<and> (\<exists>col \<in> set (columns r). like (contains_pattern term) col)) rows)
           in Inr (map (\<lambda>r. (r, int (length hits))) (take (nat limit) (drop (nat offset) hits))))"

record find_all_request =
  fa_search :: string
  fa_page :: int
  fa_page_size :: int

text \<open>\<open>offset := (req.Page - 1) * req.PageSize\<close>, passed as an \<open>int32\<close> like the page size.\<close>

definition page_offset :: "find_all_request \<Rightarrow> int" where
  "page_offset req = go_int32 (go_int64 (go_int64 (fa_page req - 1) * fa_page_size req))"

definition page_limit :: "find_all_request \<Rightarrow> int" where
  "page_limit req = go_int32 (fa_page_size req)"

text \<open>The services take the count of the first row, so an empty page reports a total of 0.\<close>

definition total_count :: "('r \<times> int) list \<Rightarrow> int" where
  "total_count rows = (case rows of [] \<Rightarrow> 0 | (r, n) # _ \<Rightarrow> n)"

record page_meta =
  pm_current_page :: int
  pm_page_size :: int
  pm_total_pages :: int
  pm_total_records :: int

text \<open>
  \<open>math.Ceil(float64(total) / float64(size))\<close>: with counts and sizes below \<open>2^31\<close> the
  rounding of the quotient never crosses an integer.
\<close>

definition page_meta_of :: "find_all_request \<Rightarrow> int \<Rightarrow> page_meta" where
  "page_meta_of req tot =
     \<lparr>pm_current_page = go_int32 (fa_page req), pm_page_size = go_int32 (fa_page_size req),
      pm_total_pages = go_int32 (- ((- tot) div fa_page_size req)), pm_total_records = go_int32 tot\<rparr>"

definition normalize_page :: "int \<Rightarrow> int \<Rightarrow> int \<times> int" where
  "normalize_page page page_size =
     ((if page \<le> 0 then 1 else page), (if page_size \<le> 0 then 10 else page_size))"

lemma page_offset_exact:
  "1 \<le> fa_page req \<Longrightarrow> 1 \<le> fa_page_size req \<Longrightarrow> (fa_page req - 1) * fa_page_size req < 2147483648 \<Longrightarrow>
   fa_page req < 9223372036854775808 \<Longrightarrow> page_offset req = (fa_page req - 1) * fa_page_size req"
proof -
  assume a: "1 \<le> fa_page req" "1 \<le> fa_page_size req" "(fa_page req - 1) * fa_page_size req < 2147483648"
    "fa_page req < 9223372036854775808"
  have "fits_int64 (fa_page req - 1)" using a by (simp add: fits_int64_def)
  moreover have nonneg: "0 \<le> (fa_page req - 1) * fa_page_size req" using a by simp
  then have "fits_int64 ((fa_page req - 1) * fa_page_size req)" "fits_int32 ((fa_page req - 1) * fa_page_size req)"
    using a(3) by (auto simp: fits_int64_def fits_int32_def)
  ultimately show ?thesis by (simp add: page_offset_def)
qed

lemma take_pages:
  "concat (map (\<lambda>k. take n (drop (k * n) xs)) [0..<m]) = take (m * n) xs"
  by (induction m) (simp_all add: take_add [symmetric] add.commute)

text \<open>Offsets wrap at 32 bits: far pages come back as the first one, or as an error.\<close>

lemma far_page_is_the_first:
  "page_offset \<lparr>fa_search = [], fa_page = 268435457, fa_page_size = 16\<rparr> = 0"
  "page_offset \<lparr>fa_search = [], fa_page = 134217729, fa_page_size = 16\<rparr> < 0"
  by code_simp+

text \<open>The wildcards of \<open>LIKE\<close> in a search text are not escaped.\<close>

lemma search_is_a_pattern: "like (contains_pattern ''_'') ''4000'' \<and> like (contains_pattern ''4%9'') ''4009''"
  by code_simp

end
