(* ===== verification/Cache.thy ===== *)
theory Cache
  imports Timestamps Errors
begin

text \<open>
  The Redis read-through cache all services share (\<open>shared/cache/redis_cache.go\<close>): get, set
  with a jittered lifetime, delete. A store maps a key to its value and the time it
  expires. Redis errors are logged and not returned, so an operation that fails is one
  without effect; the environment says which fail, and what the random source answers.
\<close>

type_synonym 'v redis = "string \<Rightarrow> ('v \<times> int option) option"

record cache_env =
  ce_now :: int
  ce_rand :: "int \<Rightarrow> int"
  ce_get_ok :: bool
  ce_set_ok :: bool
  ce_del_ok :: bool

definition jitter_expiration :: "(int \<Rightarrow> int) \<Rightarrow> int \<Rightarrow> int" where
  "jitter_expiration rand ttl =
     (if ttl \<le> 0 then ttl
      else let m = ttl div 10;
               m1 = (if m < 5 * second then 5 * second else m);
               m2 = (if m1 > minute then minute else m1);
               jittered = ttl + (rand (2 * m2) - m2)
           in if jittered < second then second else jittered)"

definition get_from_cache :: "cache_env \<Rightarrow> string \<Rightarrow> 'v redis \<Rightarrow> 'v option" where
  "get_from_cache env key st =
     (if \<not> ce_get_ok env then None
      else case st key of
        None \<Rightarrow> None
      | Some (v, expiry) \<Rightarrow>
          (case expiry of None \<Rightarrow> Some v | Some t \<Rightarrow> if t \<le> ce_now env then None else Some v))"

definition set_to_cache :: "cache_env \<Rightarrow> string \<Rightarrow> 'v \<Rightarrow> int \<Rightarrow> 'v redis \<Rightarrow> 'v redis" where
  "set_to_cache env key v ttl st =
     (if \<not> ce_set_ok env then st
      else let j = jitter_expiration (ce_rand env) ttl
           in st(key \<mapsto> (v, if j \<le> 0 then None else Some (ce_now env + j))))"

definition delete_from_cache :: "cache_env \<Rightarrow> string \<Rightarrow> 'v redis \<Rightarrow> 'v redis" where
  "delete_from_cache env key st = (if ce_del_ok env then st(key := None) else st)"

text \<open>
  The lookup every query service makes: the cached value if there is one of the wanted
  form, else what the repository answers, which is cached.
\<close>

definition cached_find ::
  "cache_env \<Rightarrow> string \<Rightarrow> ('v \<Rightarrow> 'r option) \<Rightarrow> ('r \<Rightarrow> 'v) \<Rightarrow> int \<Rightarrow> go_error + 'r \<Rightarrow> 'v redis \<Rightarrow>
   (go_error + 'r) \<times> 'v redis" where
  "cached_find env key sel wrap ttl fetched st =
     (case Option.bind (get_from_cache env key st) sel of
        Some r \<Rightarrow> (Inr r, st)
      | None \<Rightarrow>
          (case fetched of
             Inl e \<Rightarrow> (Inl e, st)
           | Inr r \<Rightarrow> (Inr r, set_to_cache env key (wrap r) ttl st)))"

text \<open>Every cached row is the row a lookup would find.\<close>

definition coherent ::
  "('k \<Rightarrow> string) \<Rightarrow> ('v \<Rightarrow> 'r option) \<Rightarrow> ('k \<Rightarrow> 'r option) \<Rightarrow> 'v redis \<Rightarrow> bool" where
  "coherent key sel look st \<longleftrightarrow>
     (\<forall>k v x r. st (key k) = Some (v, x) \<longrightarrow> sel v = Some r \<longrightarrow> look k = Some r)"

lemma coherent_empty [simp]: "coherent key sel look Map.empty"
  by (simp add: coherent_def)

lemma get_from_cache_stored: "get_from_cache env key st = Some v \<Longrightarrow> \<exists>x. st key = Some (v, x)"
  by (auto simp: get_from_cache_def split: if_splits option.splits)

lemma set_to_cache_other [simp]: "q \<noteq> key \<Longrightarrow> set_to_cache env key v ttl st q = st q"
  by (simp add: set_to_cache_def Let_def)

lemma delete_from_cache_other [simp]: "q \<noteq> key \<Longrightarrow> delete_from_cache env key st q = st q"
  by (simp add: delete_from_cache_def)

lemma set_to_cache_stored:
  "set_to_cache env key v ttl st key = Some (v', x) \<Longrightarrow> v' = v \<or> st key = Some (v', x)"
  by (auto simp: set_to_cache_def Let_def split: if_splits)

lemma delete_from_cache_stored: "delete_from_cache env key st q = Some y \<Longrightarrow> st q = Some y"
  by (auto simp: delete_from_cache_def split: if_splits)

text \<open>
  A cached table: the keys of different rows differ, and a stored row is read back. Reads
  through the cache then answer like the table, and a write that touches one row keeps
  the cache coherent if it deletes the key of that row.
\<close>

locale cached_table =
  fixes key :: "'k \<Rightarrow> string" and sel :: "'v \<Rightarrow> 'r option" and wrap :: "'r \<Rightarrow> 'v"
  assumes key_inj: "key a = key b \<Longrightarrow> a = b"
    and sel_wrap: "sel (wrap r) = Some r"
begin

lemma key_eq [simp]: "key a = key b \<longleftrightarrow> a = b"
  using key_inj by auto

lemma hit_is_current:
  "coherent key sel look st \<Longrightarrow> Option.bind (get_from_cache env (key k) st) sel = Some r \<Longrightarrow> look k = Some r"
  by (auto simp: coherent_def Option.bind_eq_Some_conv dest!: get_from_cache_stored)

lemma find_answers:
  assumes "coherent key sel look st" "look k = None \<Longrightarrow> fetched = Inl e" "\<And>r. look k = Some r \<Longrightarrow> fetched = Inr r"
  shows "fst (cached_find env (key k) sel wrap ttl fetched st) = fetched"
proof (cases "Option.bind (get_from_cache env (key k) st) sel")
  case (Some r)
  then show ?thesis using hit_is_current [OF assms(1) Some] assms(3) by (simp add: cached_find_def)
qed (auto simp: cached_find_def split: sum.splits)

lemma find_keeps:
  assumes "coherent key sel look st" "\<And>r. fetched = Inr r \<Longrightarrow> look k = Some r"
  shows "coherent key sel look (snd (cached_find env (key k) sel wrap ttl fetched st))"
proof -
  have "coherent key sel look (set_to_cache env (key k) (wrap r) ttl st)" if "look k = Some r" for r
    unfolding coherent_def
  proof (intro allI impI)
    fix k' v x r' assume "set_to_cache env (key k) (wrap r) ttl st (key k') = Some (v, x)" "sel v = Some r'"
    then show "look k' = Some r'" using that assms(1) sel_wrap
      by (cases "k' = k") (auto simp: coherent_def dest!: set_to_cache_stored)
  qed
  then show ?thesis using assms by (auto simp: cached_find_def split: option.splits sum.splits)
qed

lemma write_keeps:
  assumes "coherent key sel look st" "ce_del_ok env" "\<And>k'. k' \<noteq> k \<Longrightarrow> look' k' = look k'"
  shows "coherent key sel look' (delete_from_cache env (key k) st)"
  using assms by (fastforce simp: coherent_def delete_from_cache_def split: if_splits)

end

lemma coherent_mono:
  "coherent key sel look st \<Longrightarrow> (\<And>k r. look k = Some r \<Longrightarrow> look' k = Some r) \<Longrightarrow> coherent key sel look' st"
  by (auto simp: coherent_def)

lemma coherent_other_key:
  "coherent key sel look st \<Longrightarrow> (\<And>k. st' (key k) = st (key k)) \<Longrightarrow> coherent key sel look st'"
  by (auto simp: coherent_def)

text \<open>
  The jittered lifetime of a cache entry is at least a second, less than a minute
  above the asked one, and within a tenth of it when that is at least 50 seconds
\<close>

theorem cache_lifetime_bounded:
  assumes "0 < ttl" "\<forall>n>0. 0 \<le> rand n \<and> rand n < n"
  shows "second \<le> jitter_expiration rand ttl
    \<and> jitter_expiration rand ttl < ttl + minute
    \<and> (50 * second \<le> ttl \<longrightarrow> ttl - ttl div 10 \<le> jitter_expiration rand ttl \<and> jitter_expiration rand ttl < ttl + ttl div 10)"
proof -
  define m where "m = ttl div 10"
  define m2 where "m2 = min minute (max (5 * second) m)"
  have pos: "0 < m2" by (simp add: m2_def time_defs)
  then have r: "0 \<le> rand (2 * m2)" "rand (2 * m2) < 2 * m2" using assms(2) by auto
  have j: "jitter_expiration rand ttl = max second (ttl + (rand (2 * m2) - m2))"
    using assms(1) by (auto simp: jitter_expiration_def m2_def m_def Let_def max_def min_def time_defs)
  have m2: "m2 \<le> minute" by (simp add: m2_def)
  have long: "50 * second \<le> ttl \<longrightarrow> m2 \<le> m \<and> second \<le> ttl - m"
    by (auto simp: m2_def m_def time_defs)
  show ?thesis using r m2 long assms(1) unfolding j m_def [symmetric]
    by (auto simp: time_defs max_def)
qed

theorem cache_lifetime_bounded_witness:
  "second \<le> jitter_expiration (\<lambda>n. n - 1) (5 * minute) \<and> jitter_expiration (\<lambda>n. n - 1) (5 * minute) < 6 * minute"
  using cache_lifetime_bounded [of "5 * minute" "\<lambda>n. n - 1"] by (auto simp: time_defs)

end
