(* ===== verification/Repository.thy ===== *)
theory Repository
  imports Listing Cache
begin

text \<open>
  What the repositories and query services of all entities share: the errors of PostgreSQL
  by SQLSTATE, \<open>UPDATE ... RETURNING\<close>, the translation of driver errors, the fault of a
  read, and the paginated listings read through the cache.
\<close>

section \<open>Statements\<close>

text \<open>The errors of PostgreSQL by their SQLSTATE, where the code looks at it.\<close>

definition unique_violation :: go_error where
  "unique_violation = DbError ''23505''"

definition foreign_key_violation :: go_error where
  "foreign_key_violation = DbError ''23503''"

definition check_violation :: go_error where
  "check_violation = DbError ''23514''"

definition value_too_long :: go_error where
  "value_too_long = DbError ''22001''"

definition out_of_range :: go_error where
  "out_of_range = DbError ''22003''"

definition sequence_exhausted :: go_error where
  "sequence_exhausted = DbError ''2200H''"

text \<open>\<open>UPDATE ... WHERE ... RETURNING\<close> of at most one row; no row is \<open>pgx.ErrNoRows\<close>.\<close>

definition update_returning ::
  "('r \<Rightarrow> bool) \<Rightarrow> ('r \<Rightarrow> go_error option) \<Rightarrow> ('r \<Rightarrow> 'r) \<Rightarrow> (go_error, 'r, 'r list) op" where
  "update_returning p refuse f rows =
     (case find p rows of
        None \<Rightarrow> (Inl ErrNoRows, rows)
      | Some r \<Rightarrow>
          (case refuse r of
             Some e \<Rightarrow> (Inl e, rows)
           | None \<Rightarrow> (Inr (f r), update_where p f rows)))"

section \<open>Calls of the repositories\<close>

definition read_fault :: "go_error fault \<Rightarrow> go_error + 'a \<Rightarrow> go_error + 'a" where
  "read_fault fl r = (case fl of Deliver \<Rightarrow> r | Refuse e \<Rightarrow> Inl e | Lose e \<Rightarrow> Inl e)"

definition row_or_none :: "'r option \<Rightarrow> go_error + 'r" where
  "row_or_none r = (case r of None \<Rightarrow> Inl ErrNoRows | Some x \<Rightarrow> Inr x)"

text \<open>\<open>if err != nil { return nil, f(err) }\<close>\<close>

definition map_error :: "('e \<Rightarrow> 'e) \<Rightarrow> ('e, 'a, 's) op \<Rightarrow> ('e, 'a, 's) op" where
  "map_error f m s = (case m s of (Inl e, s') \<Rightarrow> (Inl (f e), s') | (Inr x, s') \<Rightarrow> (Inr x, s'))"

definition map_read_error :: "('e \<Rightarrow> 'e) \<Rightarrow> 'e + 'a \<Rightarrow> 'e + 'a" where
  "map_read_error f r = (case r of Inl e \<Rightarrow> Inl (f e) | Inr x \<Rightarrow> Inr x)"

definition failed :: "string \<Rightarrow> go_error \<Rightarrow> go_error" where
  "failed operation err = with_internal (err_failed operation) err"

lemma keeps_map_error: "keeps P m \<Longrightarrow> keeps P (map_error f m)"
  by (auto simp: keeps_def map_error_def split: prod.splits sum.splits)

lemma update_returning_snd:
  "snd (update_returning p refuse f rows) = rows
   \<or> snd (update_returning p refuse f rows) = update_where p f rows
     \<and> (\<exists>r \<in> set rows. p r \<and> refuse r = None)"
  by (auto simp: update_returning_def split: option.splits dest: find_Some_mem)

lemma keeps_zoom_returning:
  assumes "\<And>s. P s \<Longrightarrow> P (put (update_where p f (get s)) s)" "\<And>s. put (get s) s = s"
  shows "keeps P (zoom get put (update_returning p refuse f))"
proof (rule keepsI)
  fix s assume P: "P s"
  have "P (put (snd (update_returning p refuse f (get s))) s)"
    using update_returning_snd [of p refuse f "get s"] assms(1) [OF P] assms(2) [of s] P by (elim disjE conjE) simp_all
  then show "P (snd (zoom get put (update_returning p refuse f) s))" by (simp add: zoom_def case_prod_unfold)
qed

text \<open>A lookup of one row: no row is the given error, any other error is internal.\<close>

definition lookup_error :: "go_error \<Rightarrow> go_error \<Rightarrow> go_error" where
  "lookup_error missing err =
     (if is_no_rows err then with_internal missing err else with_internal ErrInternal err)"

definition repo_lookup :: "go_error fault \<Rightarrow> go_error \<Rightarrow> 'r option \<Rightarrow> go_error + 'r" where
  "repo_lookup fl missing r = map_read_error (lookup_error missing) (read_fault fl (row_or_none r))"

definition repo_page ::
  "go_error fault \<Rightarrow> string \<Rightarrow> (string \<Rightarrow> int \<Rightarrow> int \<Rightarrow> go_error + 'r list) \<Rightarrow> find_all_request \<Rightarrow> go_error + 'r list" where
  "repo_page fl operation sql req =
     map_read_error (failed operation) (read_fault fl (sql (fa_search req) (page_limit req) (page_offset req)))"

text \<open>\<open>if errors.IsUniqueViolation(err)\<close> before the usual translation.\<close>

definition conflict_or :: "string \<Rightarrow> (go_error \<Rightarrow> go_error) \<Rightarrow> go_error \<Rightarrow> go_error" where
  "conflict_or message f err =
     (if is_unique_violation err then with_internal (new_conflict_error message) err else f err)"

definition no_rows_or_failed :: "string \<Rightarrow> string \<Rightarrow> go_error \<Rightarrow> go_error" where
  "no_rows_or_failed entity operation err = err_no_rows_or_failed err entity operation"

section \<open>Queries through the cache\<close>

definition handled :: "go_error + 'a \<Rightarrow> go_error + 'a" where
  "handled = map_read_error (\<lambda>err. handle_error (Some err))"

text \<open>The services keep what they cache for five minutes, give or take the jitter.\<close>

definition ttl_default :: int where "ttl_default = 5 * minute"

definition listing_key :: "string \<Rightarrow> find_all_request \<Rightarrow> string" where
  "listing_key kind req =
     kind @ '':page:'' @ itoa (fa_page req) @ '':pageSize:'' @ itoa (fa_page_size req)
       @ '':search:'' @ fa_search req"

text \<open>
  A listing: the page as requested from the cache, else from the repository, whose error
  the services translate by \<open>f\<close>; the total is that of the first row.
\<close>

definition cached_page ::
  "cache_env \<Rightarrow> string \<Rightarrow> ('v \<Rightarrow> (('r \<times> int) list \<times> int) option) \<Rightarrow> (('r \<times> int) list \<times> int \<Rightarrow> 'v) \<Rightarrow>
   (go_error \<Rightarrow> go_error) \<Rightarrow> go_error + ('r \<times> int) list \<Rightarrow> 'v redis \<Rightarrow>
   (go_error + ('r \<times> int) list \<times> int) \<times> 'v redis" where
  "cached_page env key sel wrap f fetched =
     cached_find env key sel wrap ttl_default
       (case fetched of
          Inl err \<Rightarrow> Inl (handle_error (Some (f err)))
        | Inr rows \<Rightarrow> Inr (rows, total_count rows))"

text \<open>
  The answer of a listing handler: page 1 and size 10 for numbers below 1, then the rows
  with the page data. The copying of the rows into messages is left out here and in the
  other handlers.
\<close>

definition page_answer ::
  "(find_all_request \<Rightarrow> (go_error, ('r \<times> int) list \<times> int, 's) op) \<Rightarrow> string \<Rightarrow> int \<Rightarrow> int \<Rightarrow>
   (go_error, 'r list \<times> page_meta, 's) op" where
  "page_answer svc term page page_size =
     (case normalize_page page page_size of (p, n) \<Rightarrow>
        let req = \<lparr>fa_search = term, fa_page = p, fa_page_size = n\<rparr>
        in try_or (svc req) (\<lambda>err. ret (Inl (to_grpc_error err)))
             (\<lambda>(rows, total). ret (Inr (map fst rows, page_meta_of req total))))"

definition answer :: "(go_error, 'a, 's) op \<Rightarrow> (go_error, 'a, 's) op" where
  "answer m = map_error to_grpc_error m"

section \<open>Adapters\<close>

text \<open>An error of the call and a reply without data look alike.\<close>

definition adapted :: "go_error \<Rightarrow> go_error + 'a option \<Rightarrow> go_error + 'a" where
  "adapted sentinel r =
     (case r of
        Inl err \<Rightarrow> Inl (with_internal sentinel err)
      | Inr None \<Rightarrow> Inl sentinel
      | Inr (Some x) \<Rightarrow> Inr x)"

end
