(* ===== verification/CardStore.thy ===== *)
theory CardStore
  imports Repository
begin

text \<open>
  The tables of the card service (\<open>service/card/database/migration\<close>) and their statements
  (\<open>service/card/database/schema/card.sql.go\<close>): cards, billing cycles, card authorizations,
  card payments and card rewards, each the list of its rows in insertion order, with the
  UNIQUE, FOREIGN KEY and CHECK constraints and the column widths. A date is the number
  of its day, a timestamp its nanoseconds; PostgreSQL keeps microseconds.
\<close>

section \<open>Rows\<close>

record card_row =
  cd_id :: int
  cd_user :: int
  cd_number :: string
  cd_type :: string
  cd_expire :: int
  cd_cvv :: string
  cd_provider :: string
  cd_created :: int
  cd_updated :: int
  cd_deleted :: "int option"
  cd_status :: string
  cd_limit :: int
  cd_outstanding :: int
  cd_points :: int

record billing_cycle =
  bc_id :: int
  bc_card :: string
  bc_start :: int
  bc_end :: int
  bc_amount :: int
  bc_due :: int
  bc_status :: string
  bc_created :: int
  bc_updated :: int

record card_auth =
  au_id :: int
  au_txn :: string
  au_card :: string
  au_merchant :: int
  au_amount :: int
  au_currency :: string
  au_mcc :: string
  au_entry_mode :: string
  au_status :: string
  au_key :: string
  au_risk :: int
  au_created :: int
  au_updated :: int

record card_payment =
  py_id :: int
  py_uuid :: string
  py_card :: string
  py_billing :: "int option"
  py_amount :: int
  py_channel :: string
  py_reference :: string
  py_status :: string
  py_created :: int
  py_updated :: int

record card_reward =
  rw_id :: int
  rw_card :: string
  rw_txn :: string
  rw_amount :: int
  rw_mcc :: string
  rw_points :: int
  rw_expires :: int
  rw_redeemed :: bool
  rw_created :: int

record card_db =
  cards :: "card_row list"
  card_seq :: int
  cycles :: "billing_cycle list"
  cycle_seq :: int
  auths :: "card_auth list"
  auth_seq :: int
  payments :: "card_payment list"
  payment_seq :: int
  rewards :: "card_reward list"
  reward_seq :: int

section \<open>Statements on cards\<close>

definition card_live :: "card_row \<Rightarrow> bool" where
  "card_live c \<longleftrightarrow> cd_deleted c = None"

definition live_card :: "int \<Rightarrow> card_row \<Rightarrow> bool" where
  "live_card i c \<longleftrightarrow> cd_id c = i \<and> card_live c"

definition on_cards :: "(card_row list \<Rightarrow> 'a \<times> card_row list) \<Rightarrow> card_db \<Rightarrow> 'a \<times> card_db" where
  "on_cards = zoom cards (\<lambda>x db. db\<lparr>cards := x\<rparr>)"

definition create_card_sql ::
  "int \<Rightarrow> int \<Rightarrow> string \<Rightarrow> string \<Rightarrow> int \<Rightarrow> string \<Rightarrow> string \<Rightarrow> (go_error, card_row, card_db) op" where
  "create_card_sql now user num typ expire cvv provider db =
     (if length num > 16 \<or> length typ > 50 \<or> length cvv > 3 \<or> length provider > 50
      then (Inl value_too_long, db)
      else if card_seq db > 2147483647 then (Inl sequence_exhausted, db)
      else let db1 = db\<lparr>card_seq := card_seq db + 1\<rparr>
           in if \<exists>c \<in> set (cards db). cd_number c = num then (Inl unique_violation, db1)
              else let c = \<lparr>cd_id = card_seq db, cd_user = user, cd_number = num, cd_type = typ,
                            cd_expire = expire, cd_cvv = cvv, cd_provider = provider,
                            cd_created = now, cd_updated = now, cd_deleted = None,
                            cd_status = ''active'', cd_limit = 0, cd_outstanding = 0, cd_points = 0\<rparr>
                   in (Inr c, db1\<lparr>cards := cards db @ [c]\<rparr>))"

definition update_card_sql ::
  "int \<Rightarrow> int \<Rightarrow> string \<Rightarrow> int \<Rightarrow> string \<Rightarrow> string \<Rightarrow> (go_error, card_row, card_db) op" where
  "update_card_sql now i typ expire cvv provider =
     on_cards (update_returning (live_card i)
       (\<lambda>_. if length typ > 50 \<or> length cvv > 3 \<or> length provider > 50 then Some value_too_long else None)
       (\<lambda>c. c\<lparr>cd_type := typ, cd_expire := expire, cd_cvv := cvv, cd_provider := provider, cd_updated := now\<rparr>))"

definition trash_card_sql :: "int \<Rightarrow> int \<Rightarrow> (go_error, card_row, card_db) op" where
  "trash_card_sql now i =
     on_cards (update_returning (live_card i) (\<lambda>_. None) (\<lambda>c. c\<lparr>cd_deleted := Some now\<rparr>))"

definition restore_card_sql :: "int \<Rightarrow> (go_error, card_row, card_db) op" where
  "restore_card_sql i =
     on_cards (update_returning (\<lambda>c. cd_id c = i \<and> \<not> card_live c) (\<lambda>_. None) (\<lambda>c. c\<lparr>cd_deleted := None\<rparr>))"

definition restore_all_cards_sql :: "(go_error, unit, card_db) op" where
  "restore_all_cards_sql =
     on_cards (\<lambda>cs. (Inr (), update_where (\<lambda>c. \<not> card_live c) (\<lambda>c. c\<lparr>cd_deleted := None\<rparr>) cs))"

text \<open>A card that another table refers to cannot be deleted.\<close>

definition referenced_cards :: "card_db \<Rightarrow> string set" where
  "referenced_cards db =
     set (map bc_card (cycles db)) \<union> set (map au_card (auths db)) \<union> set (map py_card (payments db))
       \<union> set (map rw_card (rewards db))"

definition delete_cards_where :: "(card_row \<Rightarrow> bool) \<Rightarrow> (go_error, unit, card_db) op" where
  "delete_cards_where p db =
     (if \<exists>c \<in> set (cards db). p c \<and> cd_number c \<in> referenced_cards db then (Inl foreign_key_violation, db)
      else (Inr (), db\<lparr>cards := filter (\<lambda>c. \<not> p c) (cards db)\<rparr>))"

definition delete_card_permanently_sql :: "int \<Rightarrow> (go_error, unit, card_db) op" where
  "delete_card_permanently_sql i = delete_cards_where (\<lambda>c. cd_id c = i \<and> \<not> card_live c)"

definition delete_all_permanent_cards_sql :: "(go_error, unit, card_db) op" where
  "delete_all_permanent_cards_sql = delete_cards_where (\<lambda>c. \<not> card_live c)"

definition toggle_card_status_sql :: "int \<Rightarrow> int \<Rightarrow> (go_error, card_row, card_db) op" where
  "toggle_card_status_sql now i =
     on_cards (update_returning (live_card i) (\<lambda>_. None)
       (\<lambda>c. c\<lparr>cd_status := (if cd_status c = ''active'' then ''suspended'' else ''active''), cd_updated := now\<rparr>))"

definition update_card_status_sql :: "int \<Rightarrow> int \<Rightarrow> string \<Rightarrow> (go_error, card_row, card_db) op" where
  "update_card_status_sql now i st =
     on_cards (update_returning (live_card i) (\<lambda>_. if length st > 20 then Some value_too_long else None)
       (\<lambda>c. c\<lparr>cd_status := st, cd_updated := now\<rparr>))"

definition update_credit_limit_sql :: "int \<Rightarrow> int \<Rightarrow> int \<Rightarrow> (go_error, card_row, card_db) op" where
  "update_credit_limit_sql now i lim =
     on_cards (update_returning (live_card i) (\<lambda>_. None) (\<lambda>c. c\<lparr>cd_limit := lim, cd_updated := now\<rparr>))"

definition redeem_reward_points_sql :: "int \<Rightarrow> int \<Rightarrow> int \<Rightarrow> (go_error, card_row, card_db) op" where
  "redeem_reward_points_sql now i points =
     on_cards (update_returning (\<lambda>c. live_card i c \<and> points \<le> cd_points c)
       (\<lambda>c. if fits_int32 (cd_points c - points) then None else Some out_of_range)
       (\<lambda>c. c\<lparr>cd_points := max 0 (cd_points c - points), cd_updated := now\<rparr>))"

text \<open>The columns the lookups and listings select.\<close>

record card_view =
  cv_id :: int
  cv_user :: int
  cv_number :: string
  cv_type :: string
  cv_expire :: int
  cv_cvv :: string
  cv_provider :: string
  cv_created :: int
  cv_updated :: int
  cv_deleted :: "int option"

definition view_of :: "card_row \<Rightarrow> card_view" where
  "view_of c = \<lparr>cv_id = cd_id c, cv_user = cd_user c, cv_number = cd_number c, cv_type = cd_type c,
     cv_expire = cd_expire c, cv_cvv = cd_cvv c, cv_provider = cd_provider c, cv_created = cd_created c,
     cv_updated = cd_updated c, cv_deleted = cd_deleted c\<rparr>"

definition get_card_by_id :: "int \<Rightarrow> card_db \<Rightarrow> card_view option" where
  "get_card_by_id i db = map_option view_of (find (live_card i) (cards db))"

definition get_card_by_number :: "string \<Rightarrow> card_db \<Rightarrow> card_view option" where
  "get_card_by_number num db = map_option view_of (find (\<lambda>c. cd_number c = num \<and> card_live c) (cards db))"

text \<open>\<open>LIMIT 1\<close> without an order: the model takes the oldest.\<close>

definition get_card_by_user_id :: "int \<Rightarrow> card_db \<Rightarrow> card_view option" where
  "get_card_by_user_id user db = map_option view_of (find (\<lambda>c. cd_user c = user \<and> card_live c) (cards db))"

definition card_columns :: "card_row \<Rightarrow> string list" where
  "card_columns c = [cd_number c, cd_type c, cd_provider c]"

definition view_rows :: "go_error + (card_row \<times> int) list \<Rightarrow> go_error + (card_view \<times> int) list" where
  "view_rows r = (case r of Inl e \<Rightarrow> Inl e | Inr rows \<Rightarrow> Inr (map (\<lambda>(c, n). (view_of c, n)) rows))"

definition get_cards_sql :: "string \<Rightarrow> int \<Rightarrow> int \<Rightarrow> card_db \<Rightarrow> go_error + (card_view \<times> int) list" where
  "get_cards_sql term limit offset db =
     view_rows (list_sql card_live card_columns cd_id term limit offset (cards db))"

definition get_active_cards_sql :: "string \<Rightarrow> int \<Rightarrow> int \<Rightarrow> card_db \<Rightarrow> go_error + (card_view \<times> int) list" where
  "get_active_cards_sql term limit offset db =
     view_rows (list_sql card_live card_columns cd_id term limit offset (cards db))"

definition get_trashed_cards_sql :: "string \<Rightarrow> int \<Rightarrow> int \<Rightarrow> card_db \<Rightarrow> go_error + (card_view \<times> int) list" where
  "get_trashed_cards_sql term limit offset db =
     view_rows (list_sql (\<lambda>c. \<not> card_live c) card_columns cd_id term limit offset (cards db))"

section \<open>Statements on billing cycles\<close>

definition cycle_key :: "billing_cycle \<Rightarrow> string \<times> int" where
  "cycle_key b = (bc_card b, bc_start b)"

definition cycle_ok :: "billing_cycle \<Rightarrow> bool" where
  "cycle_ok b \<longleftrightarrow> bc_start b < bc_end b \<and> 0 \<le> bc_amount b \<and> bc_end b \<le> bc_due b"

text \<open>
  One row per live card, each taking an id and checked before \<open>ON CONFLICT\<close> drops those
  whose card has a cycle with that start already.
\<close>

definition new_cycle :: "int \<Rightarrow> int \<Rightarrow> int \<Rightarrow> int \<Rightarrow> int \<Rightarrow> card_row \<Rightarrow> billing_cycle" where
  "new_cycle now start finish due i c =
     \<lparr>bc_id = i, bc_card = cd_number c, bc_start = start, bc_end = finish,
      bc_amount = cd_outstanding c, bc_due = due, bc_status = ''unpaid'', bc_created = now, bc_updated = now\<rparr>"

definition proposed_cycles :: "int \<Rightarrow> int \<Rightarrow> int \<Rightarrow> int \<Rightarrow> card_db \<Rightarrow> billing_cycle list" where
  "proposed_cycles now start finish due db =
     map (\<lambda>(k, c). new_cycle now start finish due (cycle_seq db + int k) c)
       (enumerate 0 (filter card_live (cards db)))"

definition create_billing_cycles_sql ::
  "int \<Rightarrow> int \<Rightarrow> int \<Rightarrow> int \<Rightarrow> (go_error, billing_cycle list, card_db) op" where
  "create_billing_cycles_sql now start finish due db =
     (let proposed = proposed_cycles now start finish due db;
          created = filter (\<lambda>b. cycle_key b \<notin> set (map cycle_key (cycles db))) proposed
      in if \<not> list_all cycle_ok proposed then (Inl check_violation, db)
         else if cycle_seq db + int (length proposed) > 2147483648 then (Inl sequence_exhausted, db)
         else (Inr created, db\<lparr>cycles := cycles db @ created, cycle_seq := cycle_seq db + int (length proposed)\<rparr>))"

definition insert_billing_cycle_sql ::
  "int \<Rightarrow> string \<Rightarrow> int \<Rightarrow> int \<Rightarrow> int \<Rightarrow> int \<Rightarrow> (go_error, billing_cycle, card_db) op" where
  "insert_billing_cycle_sql now num start finish amount due db =
     (if length num > 16 then (Inl value_too_long, db)
      else if cycle_seq db > 2147483647 then (Inl sequence_exhausted, db)
      else let db1 = db\<lparr>cycle_seq := cycle_seq db + 1\<rparr>;
               b = \<lparr>bc_id = cycle_seq db, bc_card = num, bc_start = start, bc_end = finish, bc_amount = amount,
                    bc_due = due, bc_status = ''unpaid'', bc_created = now, bc_updated = now\<rparr>
           in if \<not> cycle_ok b then (Inl check_violation, db1)
              else if cycle_key b \<in> set (map cycle_key (cycles db)) then (Inl unique_violation, db1)
              else if num \<notin> set (map cd_number (cards db)) then (Inl foreign_key_violation, db1)
              else (Inr b, db1\<lparr>cycles := cycles db @ [b]\<rparr>))"

definition get_billing_cycles_sql :: "string \<Rightarrow> card_db \<Rightarrow> billing_cycle list" where
  "get_billing_cycles_sql num db = sort_key (\<lambda>b. - bc_start b) (filter (\<lambda>b. bc_card b = num) (cycles db))"

definition update_billing_cycle_status_sql :: "int \<Rightarrow> int \<Rightarrow> string \<Rightarrow> (go_error, billing_cycle, card_db) op" where
  "update_billing_cycle_status_sql now i st =
     zoom cycles (\<lambda>x db. db\<lparr>cycles := x\<rparr>)
       (update_returning (\<lambda>b. bc_id b = i) (\<lambda>_. if length st > 20 then Some value_too_long else None)
         (\<lambda>b. b\<lparr>bc_status := st, bc_updated := now\<rparr>))"

section \<open>Statements on authorizations\<close>

record auth_params =
  ap_txn :: string
  ap_card :: string
  ap_merchant :: int
  ap_amount :: int
  ap_currency :: string
  ap_mcc :: string
  ap_entry_mode :: string
  ap_key :: string

definition auth_fits :: "auth_params \<Rightarrow> bool" where
  "auth_fits a \<longleftrightarrow> length (ap_txn a) \<le> 36 \<and> length (ap_card a) \<le> 16 \<and> length (ap_currency a) \<le> 3
     \<and> length (ap_mcc a) \<le> 4 \<and> length (ap_entry_mode a) \<le> 3 \<and> length (ap_key a) \<le> 64"

definition insert_auth_transaction_sql :: "int \<Rightarrow> auth_params \<Rightarrow> (go_error, card_auth, card_db) op" where
  "insert_auth_transaction_sql now a db =
     (if \<not> auth_fits a then (Inl value_too_long, db)
      else if auth_seq db > 2147483647 then (Inl sequence_exhausted, db)
      else let db1 = db\<lparr>auth_seq := auth_seq db + 1\<rparr>;
               r = \<lparr>au_id = auth_seq db, au_txn = ap_txn a, au_card = ap_card a, au_merchant = ap_merchant a,
                    au_amount = ap_amount a, au_currency = ap_currency a, au_mcc = ap_mcc a,
                    au_entry_mode = ap_entry_mode a, au_status = ''pending'', au_key = ap_key a, au_risk = 0,
                    au_created = now, au_updated = now\<rparr>
           in if ap_txn a \<in> set (map au_txn (auths db))
                \<or> (ap_key a \<noteq> [] \<and> ap_key a \<in> set (map au_key (auths db))) then (Inl unique_violation, db1)
              else if ap_card a \<notin> set (map cd_number (cards db)) then (Inl foreign_key_violation, db1)
              else (Inr r, db1\<lparr>auths := auths db @ [r]\<rparr>))"

definition move_auth :: "int \<Rightarrow> string \<Rightarrow> string \<Rightarrow> string \<Rightarrow> (go_error, card_auth, card_db) op" where
  "move_auth now txn from st =
     zoom auths (\<lambda>x db. db\<lparr>auths := x\<rparr>)
       (update_returning (\<lambda>a. au_txn a = txn \<and> au_status a = from) (\<lambda>_. None)
         (\<lambda>a. a\<lparr>au_status := st, au_updated := now\<rparr>))"

definition approve_auth_transaction_sql :: "int \<Rightarrow> string \<Rightarrow> (go_error, card_auth, card_db) op" where
  "approve_auth_transaction_sql now txn = move_auth now txn ''pending'' ''approved''"

definition decline_auth_transaction_sql :: "int \<Rightarrow> string \<Rightarrow> (go_error, card_auth, card_db) op" where
  "decline_auth_transaction_sql now txn = move_auth now txn ''pending'' ''declined''"

definition reverse_auth_transaction_sql :: "int \<Rightarrow> string \<Rightarrow> (go_error, card_auth, card_db) op" where
  "reverse_auth_transaction_sql now txn = move_auth now txn ''approved'' ''reversed''"

definition update_auth_risk_score_sql :: "int \<Rightarrow> string \<Rightarrow> int \<Rightarrow> (go_error, unit, card_db) op" where
  "update_auth_risk_score_sql now txn score db =
     (Inr (), db\<lparr>auths := update_where (\<lambda>a. au_txn a = txn) (\<lambda>a. a\<lparr>au_risk := score, au_updated := now\<rparr>) (auths db)\<rparr>)"

definition get_auth_by_key :: "string \<Rightarrow> card_db \<Rightarrow> card_auth option" where
  "get_auth_by_key k db = find (\<lambda>a. au_key a = k) (auths db)"

definition get_auth_by_txn :: "string \<Rightarrow> card_db \<Rightarrow> card_auth option" where
  "get_auth_by_txn txn db = find (\<lambda>a. au_txn a = txn) (auths db)"

definition newest_page :: "('r \<Rightarrow> int) \<Rightarrow> int \<Rightarrow> int \<Rightarrow> 'r list \<Rightarrow> go_error + ('r \<times> int) list" where
  "newest_page created limit offset hits =
     (if limit < 0 \<or> offset < 0 then Inl (DbError ''LIMIT or OFFSET must not be negative'')
      else Inr (map (\<lambda>r. (r, int (length hits)))
             (take (nat limit) (drop (nat offset) (sort_key (\<lambda>r. - created r) hits)))))"

definition get_auths_by_card_sql :: "string \<Rightarrow> int \<Rightarrow> int \<Rightarrow> card_db \<Rightarrow> go_error + (card_auth \<times> int) list" where
  "get_auths_by_card_sql num limit offset db =
     newest_page au_created limit offset (filter (\<lambda>a. au_card a = num) (auths db))"

definition count_recent_auth_sql :: "string \<Rightarrow> int \<Rightarrow> card_db \<Rightarrow> int" where
  "count_recent_auth_sql num since db =
     int (length (filter (\<lambda>a. au_card a = num \<and> since \<le> au_created a) (auths db)))"

section \<open>Statements on payments and rewards\<close>

definition insert_card_payment_sql ::
  "int \<Rightarrow> string \<Rightarrow> string \<Rightarrow> int option \<Rightarrow> int \<Rightarrow> string \<Rightarrow> string \<Rightarrow> (go_error, card_payment, card_db) op" where
  "insert_card_payment_sql now uuid num billing amount channel reference db =
     (if length uuid > 36 \<or> length num > 16 \<or> length channel > 20 \<or> length reference > 64
      then (Inl value_too_long, db)
      else if payment_seq db > 2147483647 then (Inl sequence_exhausted, db)
      else let db1 = db\<lparr>payment_seq := payment_seq db + 1\<rparr>;
               r = \<lparr>py_id = payment_seq db, py_uuid = uuid, py_card = num, py_billing = billing,
                    py_amount = amount, py_channel = channel, py_reference = reference,
                    py_status = ''completed'', py_created = now, py_updated = now\<rparr>
           in if uuid \<in> set (map py_uuid (payments db)) then (Inl unique_violation, db1)
              else if num \<notin> set (map cd_number (cards db))
                \<or> (\<exists>b. billing = Some b \<and> b \<notin> set (map bc_id (cycles db))) then (Inl foreign_key_violation, db1)
              else (Inr r, db1\<lparr>payments := payments db @ [r]\<rparr>))"

definition get_payments_by_card_sql :: "string \<Rightarrow> int \<Rightarrow> int \<Rightarrow> card_db \<Rightarrow> go_error + (card_payment \<times> int) list" where
  "get_payments_by_card_sql num limit offset db =
     newest_page py_created limit offset (filter (\<lambda>p. py_card p = num) (payments db))"

definition count_card_payments_sql :: "string \<Rightarrow> card_db \<Rightarrow> int" where
  "count_card_payments_sql num db = int (length (filter (\<lambda>p. py_card p = num) (payments db)))"

definition insert_card_reward_sql ::
  "int \<Rightarrow> string \<Rightarrow> string \<Rightarrow> int \<Rightarrow> string \<Rightarrow> int \<Rightarrow> int \<Rightarrow> (go_error, card_reward, card_db) op" where
  "insert_card_reward_sql now num txn amount mcc points expires db =
     (if length num > 16 \<or> length txn > 36 \<or> length mcc > 4 then (Inl value_too_long, db)
      else if reward_seq db > 2147483647 then (Inl sequence_exhausted, db)
      else let db1 = db\<lparr>reward_seq := reward_seq db + 1\<rparr>;
               r = \<lparr>rw_id = reward_seq db, rw_card = num, rw_txn = txn, rw_amount = amount, rw_mcc = mcc,
                    rw_points = points, rw_expires = expires, rw_redeemed = False, rw_created = now\<rparr>
           in if num \<notin> set (map cd_number (cards db)) then (Inl foreign_key_violation, db1)
              else (Inr r, db1\<lparr>rewards := rewards db @ [r]\<rparr>))"

definition redeemable :: "int \<Rightarrow> string \<Rightarrow> card_reward \<Rightarrow> bool" where
  "redeemable now num r \<longleftrightarrow> rw_card r = num \<and> \<not> rw_redeemed r \<and> now < rw_expires r"

definition get_reward_balance_sql :: "int \<Rightarrow> string \<Rightarrow> card_db \<Rightarrow> int" where
  "get_reward_balance_sql now num db = sum_list (map rw_points (filter (redeemable now num) (rewards db)))"

definition get_reward_history_sql :: "string \<Rightarrow> card_db \<Rightarrow> card_reward list" where
  "get_reward_history_sql num db = sort_key (\<lambda>r. - rw_created r) (filter (\<lambda>r. rw_card r = num) (rewards db))"

definition get_redeemable_rewards_sql :: "int \<Rightarrow> string \<Rightarrow> card_db \<Rightarrow> (int \<times> int) list" where
  "get_redeemable_rewards_sql now num db =
     map (\<lambda>r. (rw_id r, rw_points r)) (sort_key rw_created (filter (redeemable now num) (rewards db)))"

definition mark_rewards_redeemed_sql :: "int list \<Rightarrow> (go_error, int, card_db) op" where
  "mark_rewards_redeemed_sql ids db =
     (Inr (sum_list (map rw_points (filter (\<lambda>r. rw_id r \<in> set ids) (rewards db)))),
      db\<lparr>rewards := update_where (\<lambda>r. rw_id r \<in> set ids) (\<lambda>r. r\<lparr>rw_redeemed := True\<rparr>) (rewards db)\<rparr>)"

section \<open>Well-formed tables\<close>

text \<open>The shape the schema promises of every database that its statements can produce.\<close>

definition auth_states :: "string set" where
  "auth_states = {''pending'', ''approved'', ''declined'', ''reversed''}"

definition ids_ok :: "('r \<Rightarrow> int) \<Rightarrow> int \<Rightarrow> 'r list \<Rightarrow> bool" where
  "ids_ok key next rows \<longleftrightarrow> distinct (map key rows) \<and> (\<forall>r \<in> set rows. key r < next)"

definition keys_ok :: "card_db \<Rightarrow> bool" where
  "keys_ok db \<longleftrightarrow>
     ids_ok cd_id (card_seq db) (cards db) \<and> ids_ok bc_id (cycle_seq db) (cycles db)
     \<and> ids_ok au_id (auth_seq db) (auths db) \<and> ids_ok py_id (payment_seq db) (payments db)
     \<and> ids_ok rw_id (reward_seq db) (rewards db)
     \<and> distinct (map cd_number (cards db)) \<and> distinct (map cycle_key (cycles db))
     \<and> distinct (map au_txn (auths db)) \<and> distinct (filter (\<lambda>k. k \<noteq> []) (map au_key (auths db)))
     \<and> distinct (map py_uuid (payments db))"

definition references_ok :: "card_db \<Rightarrow> bool" where
  "references_ok db \<longleftrightarrow>
     referenced_cards db \<subseteq> set (map cd_number (cards db))
     \<and> (\<forall>p \<in> set (payments db). \<forall>b. py_billing p = Some b \<longrightarrow> b \<in> set (map bc_id (cycles db)))"

definition values_ok :: "card_db \<Rightarrow> bool" where
  "values_ok db \<longleftrightarrow> list_all cycle_ok (cycles db) \<and> (\<forall>a \<in> set (auths db). au_status a \<in> auth_states)"

definition card_db_ok :: "card_db \<Rightarrow> bool" where
  "card_db_ok db \<longleftrightarrow> keys_ok db \<and> references_ok db \<and> values_ok db"

lemmas card_db_ok_defs = card_db_ok_def keys_ok_def references_ok_def values_ok_def ids_ok_def

definition empty_card_db :: card_db where
  "empty_card_db = \<lparr>cards = [], card_seq = 1, cycles = [], cycle_seq = 1, auths = [], auth_seq = 1,
     payments = [], payment_seq = 1, rewards = [], reward_seq = 1\<rparr>"

text \<open>The statements that change the tables; the handler redeems positive points only.\<close>

inductive card_step :: "card_db \<Rightarrow> card_db \<Rightarrow> bool" where
  "card_step db (snd (create_card_sql now user num typ expire cvv provider db))"
| "card_step db (snd (update_card_sql now i typ expire cvv provider db))"
| "card_step db (snd (trash_card_sql now i db))"
| "card_step db (snd (restore_card_sql i db))"
| "card_step db (snd (restore_all_cards_sql db))"
| "card_step db (snd (delete_card_permanently_sql i db))"
| "card_step db (snd (delete_all_permanent_cards_sql db))"
| "card_step db (snd (toggle_card_status_sql now i db))"
| "card_step db (snd (update_card_status_sql now i st db))"
| "card_step db (snd (update_credit_limit_sql now i lim db))"
| "0 \<le> points \<Longrightarrow> card_step db (snd (redeem_reward_points_sql now i points db))"
| "card_step db (snd (create_billing_cycles_sql now start finish due db))"
| "card_step db (snd (insert_billing_cycle_sql now num start finish amount due db))"
| "card_step db (snd (update_billing_cycle_status_sql now i st db))"
| "card_step db (snd (insert_auth_transaction_sql now a db))"
| "card_step db (snd (approve_auth_transaction_sql now txn db))"
| "card_step db (snd (decline_auth_transaction_sql now txn db))"
| "card_step db (snd (reverse_auth_transaction_sql now txn db))"
| "card_step db (snd (update_auth_risk_score_sql now txn score db))"
| "card_step db (snd (insert_card_payment_sql now uuid num billing amount channel reference db))"
| "card_step db (snd (insert_card_reward_sql now num txn amount mcc points expires db))"
| "card_step db (snd (mark_rewards_redeemed_sql ids db))"

inductive card_reachable :: "card_db \<Rightarrow> bool" where
  initial: "card_reachable empty_card_db"
| step: "card_reachable db \<Longrightarrow> card_step db db' \<Longrightarrow> card_reachable db'"

text \<open>Updates that keep the columns of the constraints.\<close>

lemma update_returning_map:
  "(\<And>r. g (f r) = g r) \<Longrightarrow> map g (snd (update_returning p refuse f rows)) = map g rows"
  by (simp add: update_returning_def map_update_where split: option.splits)

lemma update_returning_mem:
  "r \<in> set (snd (update_returning p refuse f rows)) \<Longrightarrow> r \<in> set rows \<or> (\<exists>r0 \<in> set rows. p r0 \<and> r = f r0)"
  by (auto simp: update_returning_def set_update_where split: option.splits)

lemma ids_ok_keys: "ids_ok key next rows \<longleftrightarrow> distinct (map key rows) \<and> (\<forall>k \<in> set (map key rows). k < next)"
  by (simp add: ids_ok_def)

lemma ids_ok_map: "map key rows' = map key rows \<Longrightarrow> ids_ok key next rows' = ids_ok key next rows"
  by (simp only: ids_ok_keys)

lemma ids_ok_snoc: "ids_ok key next rows \<Longrightarrow> key r = next \<Longrightarrow> ids_ok key (next + 1) (rows @ [r])"
  by (auto simp: ids_ok_def)

lemma ids_ok_weaken: "ids_ok key next rows \<Longrightarrow> next \<le> next' \<Longrightarrow> ids_ok key next' rows"
  by (auto simp: ids_ok_def)

lemma ids_ok_filter: "ids_ok key next rows \<Longrightarrow> ids_ok key next (filter p rows)"
  by (auto simp: ids_ok_def distinct_map_filter)

lemma ids_ok_append:
  "ids_ok key n xs \<Longrightarrow> distinct (map key ys) \<Longrightarrow> set (map key ys) \<subseteq> {n..<m} \<Longrightarrow> n \<le> m \<Longrightarrow>
   ids_ok key m (xs @ ys)"
  unfolding ids_ok_keys by fastforce

lemma card_db_ok_cards:
  assumes "card_db_ok db" "map cd_id cs = map cd_id (cards db)" "map cd_number cs = map cd_number (cards db)"
  shows "card_db_ok (db\<lparr>cards := cs\<rparr>)"
proof -
  have "set (map cd_number cs) = set (map cd_number (cards db))" by (simp only: assms(3))
  then have "cd_number ` set cs = cd_number ` set (cards db)" by (simp only: list.set_map)
  moreover have "ids_ok cd_id (card_seq db) cs"
    using assms(1) ids_ok_map [OF assms(2), of "card_seq db"] by (simp add: card_db_ok_def keys_ok_def)
  ultimately show ?thesis using assms(1,3)
    unfolding card_db_ok_def keys_ok_def references_ok_def referenced_cards_def values_ok_def by simp
qed

lemma snd_zoom: "snd (zoom get put m w) = put (snd (m (get w))) w"
  by (simp add: zoom_def split: prod.splits)

lemma card_update_keeps_ok:
  assumes "card_db_ok db" "\<And>c. cd_id (f c) = cd_id c" "\<And>c. cd_number (f c) = cd_number c"
  shows "card_db_ok (snd (on_cards (update_returning p refuse f) db))"
  unfolding on_cards_def snd_zoom
  by (rule card_db_ok_cards [OF assms(1)]) (simp_all add: update_returning_map assms(2,3))

lemma cycle_update_keeps_ok:
  assumes "card_db_ok db"
  shows "card_db_ok (snd (update_billing_cycle_status_sql now i st db))"
proof -
  let ?m = "update_returning (\<lambda>b. bc_id b = i) (\<lambda>_. if length st > 20 then Some value_too_long else None)
         (\<lambda>b. b\<lparr>bc_status := st, bc_updated := now\<rparr>) (cycles db)"
  have m: "map bc_id (snd ?m) = map bc_id (cycles db)" "map bc_card (snd ?m) = map bc_card (cycles db)"
    "map cycle_key (snd ?m) = map cycle_key (cycles db)"
    by (rule update_returning_map, simp add: cycle_key_def)+
  have "list_all cycle_ok (snd ?m)"
    using assms by (auto simp: card_db_ok_def values_ok_def list_all_iff cycle_ok_def dest!: update_returning_mem)
  then show ?thesis using assms m ids_ok_map [OF m(1), of "cycle_seq db"]
    by (simp add: update_billing_cycle_status_sql_def snd_zoom card_db_ok_def keys_ok_def references_ok_def referenced_cards_def values_ok_def)
qed

lemma auth_rows_keep_ok:
  assumes "card_db_ok db" "map au_id as = map au_id (auths db)" "map au_card as = map au_card (auths db)"
    "map au_txn as = map au_txn (auths db)" "map au_key as = map au_key (auths db)"
    "\<forall>a \<in> set as. au_status a \<in> auth_states"
  shows "card_db_ok (db\<lparr>auths := as\<rparr>)"
  using assms ids_ok_map [OF assms(2), of "auth_seq db"]
  by (simp add: card_db_ok_def keys_ok_def references_ok_def referenced_cards_def values_ok_def)

lemma move_auth_keeps_ok:
  assumes "card_db_ok db" "st \<in> auth_states"
  shows "card_db_ok (snd (move_auth now txn from st db))"
  unfolding move_auth_def snd_zoom
  by (rule auth_rows_keep_ok [OF assms(1)])
    (use assms in \<open>auto simp: update_returning_map card_db_ok_def values_ok_def dest!: update_returning_mem\<close>)

lemma risk_score_keeps_ok:
  assumes "card_db_ok db"
  shows "card_db_ok (snd (update_auth_risk_score_sql now txn score db))"
  unfolding update_auth_risk_score_sql_def snd_conv
  by (rule auth_rows_keep_ok [OF assms])
    (use assms in \<open>auto simp: map_update_where card_db_ok_def values_ok_def set_update_where\<close>)

lemma create_card_keeps_ok:
  "card_db_ok db \<Longrightarrow> card_db_ok (snd (create_card_sql now user num typ expire cvv provider db))"
  by (auto simp: create_card_sql_def Let_def card_db_ok_def keys_ok_def references_ok_def referenced_cards_def values_ok_def
      intro: ids_ok_snoc ids_ok_weaken)

lemma delete_cards_keeps_ok:
  assumes "card_db_ok db"
  shows "card_db_ok (snd (delete_cards_where p db))"
proof (cases "\<exists>c \<in> set (cards db). p c \<and> cd_number c \<in> referenced_cards db")
  case False
  let ?cs = "filter (\<lambda>c. \<not> p c) (cards db)"
  have "referenced_cards db \<subseteq> cd_number ` set ?cs"
    using assms False unfolding card_db_ok_def references_ok_def by (auto 0 3)
  moreover have "ids_ok cd_id (card_seq db) ?cs" "distinct (map cd_number ?cs)"
    using assms by (simp_all add: card_db_ok_def keys_ok_def ids_ok_filter distinct_map_filter)
  ultimately show ?thesis using assms False
    by (simp add: delete_cards_where_def card_db_ok_def keys_ok_def references_ok_def values_ok_def referenced_cards_def)
qed (use assms in \<open>simp add: delete_cards_where_def\<close>)

lemma proposed_cycle_ids: "map bc_id (proposed_cycles now start finish due db) =
   map (\<lambda>k. cycle_seq db + int k) [0..<length (filter card_live (cards db))]"
  by (rule nth_equalityI) (simp_all add: proposed_cycles_def new_cycle_def nth_enumerate_eq)

lemma proposed_cycle_cards:
  "map bc_card (proposed_cycles now start finish due db) = map cd_number (filter card_live (cards db))"
  "map cycle_key (proposed_cycles now start finish due db) = map (\<lambda>c. (cd_number c, start)) (filter card_live (cards db))"
  by (rule nth_equalityI; simp add: proposed_cycles_def new_cycle_def cycle_key_def nth_enumerate_eq)+

lemma create_cycles_keeps_ok:
  assumes "card_db_ok db"
  shows "card_db_ok (snd (create_billing_cycles_sql now start finish due db))"
proof -
  let ?new = "proposed_cycles now start finish due db"
  let ?created = "filter (\<lambda>b. cycle_key b \<notin> set (map cycle_key (cycles db))) ?new"
  have n: "length ?new = length (filter card_live (cards db))"
    by (simp add: proposed_cycles_def)
  have ids: "ids_ok bc_id (cycle_seq db) (cycles db)" using assms by (simp add: card_db_ok_def keys_ok_def)
  have created_ids: "set (map bc_id ?created) \<subseteq> {cycle_seq db..<cycle_seq db + int (length ?new)}"
  proof -
    have "set (map bc_id ?created) \<subseteq> set (map bc_id ?new)" by auto
    also have "\<dots> \<subseteq> {cycle_seq db..<cycle_seq db + int (length ?new)}" unfolding proposed_cycle_ids n by auto
    finally show ?thesis .
  qed
  have dist_ids: "distinct (map bc_id ?created)"
    by (rule distinct_map_filter) (simp add: proposed_cycle_ids distinct_map inj_on_def)
  have ids': "ids_ok bc_id (cycle_seq db + int (length ?new)) (cycles db @ ?created)"
    by (rule ids_ok_append [OF ids dist_ids created_ids]) simp
  have nums: "distinct (map cd_number (filter card_live (cards db)))"
    using assms by (simp add: card_db_ok_def keys_ok_def distinct_map_filter)
  then have "distinct (map cycle_key ?new)"
    unfolding proposed_cycle_cards by (simp add: distinct_map inj_on_def)
  then have keys: "distinct (map cycle_key (cycles db @ ?created))"
    using assms by (auto simp: card_db_ok_def keys_ok_def distinct_map_filter)
  have "set (map bc_card ?created) \<subseteq> set (map bc_card ?new)" by auto
  then have refs: "set (map bc_card ?created) \<subseteq> set (map cd_number (cards db))"
    unfolding proposed_cycle_cards by auto
  show ?thesis
  proof (cases "list_all cycle_ok ?new \<and> cycle_seq db + int (length ?new) \<le> 2147483648")
    case True
    then have "list_all cycle_ok (cycles db @ ?created)"
      using assms by (auto simp: card_db_ok_def values_ok_def list_all_iff)
    then show ?thesis using True assms ids' keys refs
      unfolding create_billing_cycles_sql_def Let_def
      by (auto simp: card_db_ok_def keys_ok_def references_ok_def referenced_cards_def values_ok_def)
  qed (use assms in \<open>auto simp: create_billing_cycles_sql_def Let_def\<close>)
qed

lemma insert_cycle_keeps_ok:
  "card_db_ok db \<Longrightarrow> card_db_ok (snd (insert_billing_cycle_sql now num start finish amount due db))"
  by (auto simp: insert_billing_cycle_sql_def Let_def card_db_ok_def keys_ok_def references_ok_def
      referenced_cards_def values_ok_def intro: ids_ok_snoc ids_ok_weaken)

lemma insert_auth_keeps_ok:
  "card_db_ok db \<Longrightarrow> card_db_ok (snd (insert_auth_transaction_sql now a db))"
  by (auto simp: insert_auth_transaction_sql_def Let_def card_db_ok_def keys_ok_def references_ok_def
      referenced_cards_def values_ok_def auth_states_def intro: ids_ok_snoc ids_ok_weaken)

lemma insert_payment_keeps_ok:
  "card_db_ok db \<Longrightarrow> card_db_ok (snd (insert_card_payment_sql now uuid num billing amount channel reference db))"
  by (auto simp: insert_card_payment_sql_def Let_def card_db_ok_def keys_ok_def references_ok_def
      referenced_cards_def values_ok_def intro: ids_ok_snoc ids_ok_weaken)

lemma insert_reward_keeps_ok:
  "card_db_ok db \<Longrightarrow> card_db_ok (snd (insert_card_reward_sql now num txn amount mcc points expires db))"
  by (auto simp: insert_card_reward_sql_def Let_def card_db_ok_def keys_ok_def references_ok_def
      referenced_cards_def values_ok_def intro: ids_ok_snoc ids_ok_weaken)

lemma mark_rewards_keeps_ok:
  assumes "card_db_ok db"
  shows "card_db_ok (snd (mark_rewards_redeemed_sql ids db))"
proof -
  let ?rs = "update_where (\<lambda>r. rw_id r \<in> set ids) (\<lambda>r. r\<lparr>rw_redeemed := True\<rparr>) (rewards db)"
  have m: "map rw_id ?rs = map rw_id (rewards db)" "map rw_card ?rs = map rw_card (rewards db)"
    by (rule map_update_where, simp)+
  show ?thesis using assms m(2) ids_ok_map [OF m(1), of "reward_seq db"]
    unfolding card_db_ok_def keys_ok_def references_ok_def referenced_cards_def values_ok_def
      mark_rewards_redeemed_sql_def snd_conv by (simp del: list.set_map)
qed

lemmas card_sql_updates = update_card_sql_def trash_card_sql_def restore_card_sql_def toggle_card_status_sql_def
  update_card_status_sql_def update_credit_limit_sql_def redeem_reward_points_sql_def

lemma restore_all_keeps_ok: "card_db_ok db \<Longrightarrow> card_db_ok (snd (restore_all_cards_sql db))"
  unfolding restore_all_cards_sql_def on_cards_def snd_zoom snd_conv
  by (rule card_db_ok_cards) (simp_all add: map_update_where)

lemma card_step_keeps_ok: "card_step db db' \<Longrightarrow> card_db_ok db \<Longrightarrow> card_db_ok db'"
  by (induction rule: card_step.induct)
    (simp_all add: card_sql_updates card_update_keeps_ok create_card_keeps_ok restore_all_keeps_ok
      delete_cards_keeps_ok delete_card_permanently_sql_def delete_all_permanent_cards_sql_def
      create_cycles_keeps_ok insert_cycle_keeps_ok cycle_update_keeps_ok insert_auth_keeps_ok
      approve_auth_transaction_sql_def decline_auth_transaction_sql_def reverse_auth_transaction_sql_def
      move_auth_keeps_ok auth_states_def risk_score_keeps_ok insert_payment_keeps_ok insert_reward_keeps_ok
      mark_rewards_keeps_ok)

lemma card_tables_ok: "card_reachable db \<Longrightarrow> card_db_ok db"
proof (induction rule: card_reachable.induct)
  case initial
  show ?case by (simp add: card_db_ok_def keys_ok_def references_ok_def referenced_cards_def values_ok_def
        ids_ok_def empty_card_db_def)
next
  case (step db db')
  then show ?case using card_step_keeps_ok by blast
qed

text \<open>
  In every database the statements of the card service can produce, keys are unique,
  references point to existing rows, checks hold and every authorization has one of the
  four statuses
\<close>

theorem card_tables_well_formed: "card_reachable db \<Longrightarrow> card_db_ok db"
  by (rule card_tables_ok)

theorem card_tables_well_formed_witness:
  "card_db_ok (snd (create_card_sql 7 1 ''4000000000000001'' ''debit'' 20000 ''123'' ''visa'' empty_card_db))"
  by (rule card_tables_well_formed) (rule card_reachable.step [OF card_reachable.initial card_step.intros(1)])

end
