(* ===== verification/CardRepository.thy ===== *)
theory CardRepository
  imports CardStore Timestamps
begin

text \<open>
  The repositories of the card service (\<open>service/card/repository\<close>): the statements of the
  card tables with the errors of the driver turned into application errors, the earning
  and redeeming of reward points, and the generated card number
  (\<open>pkg/randomvcc/random.go\<close>). \<open>fl\<close> is the fault a database call suffers; for a
  read the error is all that matters.
\<close>

section \<open>Card commands\<close>

record create_card_request =
  cc_user :: int
  cc_type :: string
  cc_expire :: int
  cc_cvv :: string
  cc_provider :: string

record update_card_request = create_card_request +
  uc_card :: int

text \<open>
  \<open>RandomCardNumber\<close>: a 4 and the sixteen decimals of a random fraction, of which the first
  sixteen digits are taken; the decimals are the parameter.
\<close>

definition random_card_number :: "string \<Rightarrow> string" where
  "random_card_number decimals = take 16 (CHR ''4'' # decimals)"

definition create_card_error :: "go_error \<Rightarrow> go_error" where
  "create_card_error err =
     (if is_unique_violation err then with_internal (new_conflict_error ''card number already exists'') err
      else failed ''create card'' err)"

definition repo_create_card ::
  "go_error fault \<Rightarrow> int \<Rightarrow> string \<Rightarrow> 'x create_card_request_scheme \<Rightarrow> (go_error, card_row, card_db) op" where
  "repo_create_card fl now decimals req =
     map_error create_card_error
       (with_fault fl (create_card_sql now (go_int32 (cc_user req)) (random_card_number decimals)
          (cc_type req) (cc_expire req div day) (cc_cvv req) (cc_provider req)))"

definition repo_update_card ::
  "go_error fault \<Rightarrow> int \<Rightarrow> update_card_request \<Rightarrow> (go_error, card_row, card_db) op" where
  "repo_update_card fl now req =
     map_error (\<lambda>err. err_no_rows_or_failed err ''card'' ''update card'')
       (with_fault fl (update_card_sql now (go_int32 (uc_card req)) (cc_type req) (cc_expire req div day)
          (cc_cvv req) (cc_provider req)))"

definition repo_trashed_card :: "go_error fault \<Rightarrow> int \<Rightarrow> int \<Rightarrow> (go_error, card_row, card_db) op" where
  "repo_trashed_card fl now i =
     map_error (\<lambda>err. err_no_rows_or_failed err ''card'' ''trash card'')
       (with_fault fl (trash_card_sql now (go_int32 i)))"

definition repo_restore_card :: "go_error fault \<Rightarrow> int \<Rightarrow> (go_error, card_row, card_db) op" where
  "repo_restore_card fl i =
     map_error (\<lambda>err. err_no_rows_or_failed err ''card'' ''restore card'')
       (with_fault fl (restore_card_sql (go_int32 i)))"

definition repo_delete_card_permanent :: "go_error fault \<Rightarrow> int \<Rightarrow> (go_error, unit, card_db) op" where
  "repo_delete_card_permanent fl i =
     map_error (\<lambda>err. err_no_rows_or_failed err ''card'' ''delete card permanently'')
       (with_fault fl (delete_card_permanently_sql (go_int32 i)))"

definition repo_restore_all_card :: "go_error fault \<Rightarrow> (go_error, unit, card_db) op" where
  "repo_restore_all_card fl = map_error (failed ''restore all cards'') (with_fault fl restore_all_cards_sql)"

definition repo_delete_all_card_permanent :: "go_error fault \<Rightarrow> (go_error, unit, card_db) op" where
  "repo_delete_all_card_permanent fl =
     map_error (failed ''delete all cards permanently'') (with_fault fl delete_all_permanent_cards_sql)"

definition repo_toggle_card_status :: "go_error fault \<Rightarrow> int \<Rightarrow> int \<Rightarrow> (go_error, card_row, card_db) op" where
  "repo_toggle_card_status fl now i =
     map_error (\<lambda>err. err_no_rows_or_failed err ''card'' ''update card status'')
       (with_fault fl (toggle_card_status_sql now (go_int32 i)))"

definition repo_update_credit_limit ::
  "go_error fault \<Rightarrow> int \<Rightarrow> int \<Rightarrow> int \<Rightarrow> (go_error, card_row, card_db) op" where
  "repo_update_credit_limit fl now i lim =
     map_error (\<lambda>err. err_no_rows_or_failed err ''card'' ''update credit limit'')
       (with_fault fl (update_credit_limit_sql now (go_int32 i) (go_int32 lim)))"

text \<open>
  No row updated means no live card or too few points; a second query, with its own fault,
  tells which.
\<close>

definition repo_redeem_points ::
  "go_error fault \<Rightarrow> go_error fault \<Rightarrow> int \<Rightarrow> int \<Rightarrow> int \<Rightarrow> (go_error, card_row, card_db) op" where
  "repo_redeem_points fl fl' now i points =
     try_or (with_fault fl (redeem_reward_points_sql now (go_int32 i) (go_int32 points)))
       (\<lambda>err db.
          if is_no_rows err
          then (case read_fault fl' (row_or_none (get_card_by_id (go_int32 i) db)) of
                  Inl card_err \<Rightarrow>
                    (Inl (if is_no_rows card_err then with_internal (err_not_found_response ''card'') err
                          else failed ''redeem reward points'' card_err), db)
                | Inr _ \<Rightarrow> (Inl (with_internal (new_bad_request_error ''insufficient reward points'') err), db))
          else (Inl (failed ''redeem reward points'' err), db))
       (\<lambda>c. ret (Inr c))"

section \<open>Card queries\<close>

definition find_error :: "go_error \<Rightarrow> go_error" where
  "find_error err =
     (if is_no_rows err then with_internal (err_not_found_response ''card'') err
      else with_internal ErrInternal err)"

definition repo_find_by_id :: "go_error fault \<Rightarrow> int \<Rightarrow> card_db \<Rightarrow> go_error + card_view" where
  "repo_find_by_id fl i db = map_read_error find_error (read_fault fl (row_or_none (get_card_by_id (go_int32 i) db)))"

definition repo_find_card_by_user_id :: "go_error fault \<Rightarrow> int \<Rightarrow> card_db \<Rightarrow> go_error + card_view" where
  "repo_find_card_by_user_id fl user db =
     map_read_error find_error (read_fault fl (row_or_none (get_card_by_user_id (go_int32 user) db)))"

definition repo_find_card_by_card_number :: "go_error fault \<Rightarrow> string \<Rightarrow> card_db \<Rightarrow> go_error + card_view" where
  "repo_find_card_by_card_number fl num db =
     map_read_error find_error (read_fault fl (row_or_none (get_card_by_number num db)))"

text \<open>The row with its empty email column.\<close>

definition repo_find_user_card_by_card_number ::
  "go_error fault \<Rightarrow> string \<Rightarrow> card_db \<Rightarrow> go_error + (card_view \<times> string)" where
  "repo_find_user_card_by_card_number fl num db =
     map_read_error find_error
       (read_fault fl (row_or_none (map_option (\<lambda>c. (c, [])) (get_card_by_number num db))))"

definition repo_find_all_cards :: "go_error fault \<Rightarrow> find_all_request \<Rightarrow> card_db \<Rightarrow> go_error + (card_view \<times> int) list" where
  "repo_find_all_cards fl req db =
     map_read_error (failed ''find all cards'')
       (read_fault fl (get_cards_sql (fa_search req) (page_limit req) (page_offset req) db))"

definition repo_find_by_active :: "go_error fault \<Rightarrow> find_all_request \<Rightarrow> card_db \<Rightarrow> go_error + (card_view \<times> int) list" where
  "repo_find_by_active fl req db =
     map_read_error (failed ''find active cards'')
       (read_fault fl (get_active_cards_sql (fa_search req) (page_limit req) (page_offset req) db))"

definition repo_find_by_trashed :: "go_error fault \<Rightarrow> find_all_request \<Rightarrow> card_db \<Rightarrow> go_error + (card_view \<times> int) list" where
  "repo_find_by_trashed fl req db =
     map_read_error (failed ''find trashed cards'')
       (read_fault fl (get_trashed_cards_sql (fa_search req) (page_limit req) (page_offset req) db))"

section \<open>Billing cycles\<close>

definition repo_get_billing_cycles :: "go_error fault \<Rightarrow> string \<Rightarrow> card_db \<Rightarrow> go_error + billing_cycle list" where
  "repo_get_billing_cycles fl num db =
     map_read_error (failed ''get billing cycles'') (read_fault fl (Inr (get_billing_cycles_sql num db)))"

definition repo_create_billing_cycles ::
  "go_error fault \<Rightarrow> int \<Rightarrow> int \<Rightarrow> int \<Rightarrow> int \<Rightarrow> (go_error, int, card_db) op" where
  "repo_create_billing_cycles fl now start finish due =
     try_or (with_fault fl (create_billing_cycles_sql now start finish due))
       (\<lambda>err. ret (Inl (failed ''create billing cycles'' err)))
       (\<lambda>created. ret (Inr (int (length created))))"

section \<open>Authorizations\<close>

record authorize_card_request =
  ac_card :: string
  ac_merchant :: int
  ac_amount :: int
  ac_currency :: string
  ac_entry_mode :: string
  ac_mcc :: string
  ac_key :: string

definition repo_insert_pending ::
  "go_error fault \<Rightarrow> int \<Rightarrow> authorize_card_request \<Rightarrow> (go_error, card_auth, card_db) op" where
  "repo_insert_pending fl now req =
     map_error (failed ''insert authorization transaction'')
       (with_fault fl (insert_auth_transaction_sql now
          \<lparr>ap_txn = ac_key req @ ''-txn'', ap_card = ac_card req, ap_merchant = go_int32 (ac_merchant req),
           ap_amount = ac_amount req, ap_currency = ac_currency req, ap_mcc = ac_mcc req,
           ap_entry_mode = ac_entry_mode req, ap_key = ac_key req\<rparr>))"

definition repo_approve :: "go_error fault \<Rightarrow> int \<Rightarrow> string \<Rightarrow> (go_error, card_auth, card_db) op" where
  "repo_approve fl now txn =
     map_error (failed ''approve authorization transaction'') (with_fault fl (approve_auth_transaction_sql now txn))"

definition repo_decline :: "go_error fault \<Rightarrow> int \<Rightarrow> string \<Rightarrow> (go_error, card_auth, card_db) op" where
  "repo_decline fl now txn =
     map_error (failed ''decline authorization transaction'') (with_fault fl (decline_auth_transaction_sql now txn))"

definition repo_reverse :: "go_error fault \<Rightarrow> int \<Rightarrow> string \<Rightarrow> (go_error, card_auth, card_db) op" where
  "repo_reverse fl now txn =
     map_error (failed ''reverse authorization transaction'') (with_fault fl (reverse_auth_transaction_sql now txn))"

definition repo_find_by_idempotency_key :: "go_error fault \<Rightarrow> string \<Rightarrow> card_db \<Rightarrow> go_error + card_auth" where
  "repo_find_by_idempotency_key fl k db =
     map_read_error (failed ''get authorization transaction'') (read_fault fl (row_or_none (get_auth_by_key k db)))"

definition repo_find_by_txn_id :: "go_error fault \<Rightarrow> string \<Rightarrow> card_db \<Rightarrow> go_error + card_auth" where
  "repo_find_by_txn_id fl txn db =
     map_read_error (failed ''get authorization transaction'') (read_fault fl (row_or_none (get_auth_by_txn txn db)))"

definition repo_find_auths ::
  "go_error fault \<Rightarrow> string \<Rightarrow> int \<Rightarrow> int \<Rightarrow> card_db \<Rightarrow> go_error + (card_auth \<times> int) list" where
  "repo_find_auths fl num page page_size db =
     (case normalize_page page page_size of (p, n) \<Rightarrow>
        map_read_error (failed ''get authorization transactions'')
          (read_fault fl (get_auths_by_card_sql num (go_int32 n) (go_int32 (go_int64 (go_int64 (p - 1) * n))) db)))"

definition repo_count_recent :: "go_error fault \<Rightarrow> string \<Rightarrow> int \<Rightarrow> card_db \<Rightarrow> go_error + int" where
  "repo_count_recent fl num since db =
     map_read_error (failed ''count recent authorization transactions'')
       (read_fault fl (Inr (count_recent_auth_sql num since db)))"

definition repo_update_risk_score :: "go_error fault \<Rightarrow> int \<Rightarrow> string \<Rightarrow> int \<Rightarrow> (go_error, unit, card_db) op" where
  "repo_update_risk_score fl now txn score =
     map_error (failed ''update authorization risk score'')
       (with_fault fl (update_auth_risk_score_sql now txn (go_int32 score)))"

section \<open>Payments\<close>

record post_payment_request =
  pp_reference :: string
  pp_card :: string
  pp_amount :: int
  pp_channel :: string
  pp_billing :: "int option"

definition repo_post_payment ::
  "go_error fault \<Rightarrow> int \<Rightarrow> string \<Rightarrow> post_payment_request \<Rightarrow> (go_error, card_payment, card_db) op" where
  "repo_post_payment fl now uuid req =
     map_error (failed ''create card payment'')
       (with_fault fl (insert_card_payment_sql now uuid (pp_card req) (map_option go_int32 (pp_billing req))
          (pp_amount req) (pp_channel req) (pp_reference req)))"

text \<open>
  The offset goes through \<open>float64\<close>, which is exact for the products of a page and a page size
  that the handlers can pass (below \<open>2^53\<close>); a product outside \<open>int32\<close> is left to the
  implementation by Go, here it wraps.
\<close>

definition repo_get_payment_history ::
  "go_error fault \<Rightarrow> string \<Rightarrow> int \<Rightarrow> int \<Rightarrow> card_db \<Rightarrow> go_error + (card_payment \<times> int) list" where
  "repo_get_payment_history fl num page page_size db =
     (case normalize_page page page_size of (p, n) \<Rightarrow>
        map_read_error (failed ''get card payments'')
          (read_fault fl (get_payments_by_card_sql num (go_int32 n)
             (go_int32 (max 0 (go_int64 (go_int64 (p - 1) * n)))) db)))"

definition repo_count_payments :: "go_error fault \<Rightarrow> string \<Rightarrow> card_db \<Rightarrow> go_error + int" where
  "repo_count_payments fl num db =
     map_read_error (failed ''count card payments'') (read_fault fl (Inr (count_card_payments_sql num db)))"

section \<open>Rewards\<close>

record earn_rewards_request =
  er_card :: string
  er_txn :: string
  er_amount :: int
  er_mcc :: string

text \<open>Go's division truncates towards zero.\<close>

definition earn_points :: "int \<Rightarrow> string \<Rightarrow> int" where
  "earn_points amount mcc =
     (let points = go_int32 (if amount < 0 then - ((- amount) div 10000) else amount div 10000);
          points' = (if mcc \<in> {''5812'', ''4511'', ''5541''} then go_int32 (points * 2) else points)
      in if points' < 1 then 1 else points')"

definition repo_earn_rewards ::
  "go_error fault \<Rightarrow> int \<Rightarrow> earn_rewards_request \<Rightarrow> (go_error, card_reward, card_db) op" where
  "repo_earn_rewards fl now req =
     map_error (failed ''earn card rewards'')
       (with_fault fl (insert_card_reward_sql now (er_card req) (er_txn req) (er_amount req) (er_mcc req)
          (earn_points (er_amount req) (er_mcc req)) (add_date now 1 0 0)))"

definition repo_get_balance :: "go_error fault \<Rightarrow> int \<Rightarrow> string \<Rightarrow> card_db \<Rightarrow> go_error + int" where
  "repo_get_balance fl now num db =
     map_read_error (failed ''get reward balance'') (read_fault fl (Inr (get_reward_balance_sql now num db)))"

definition repo_get_history :: "go_error fault \<Rightarrow> string \<Rightarrow> card_db \<Rightarrow> go_error + card_reward list" where
  "repo_get_history fl num db =
     map_read_error (failed ''get reward history'') (read_fault fl (Inr (get_reward_history_sql num db)))"

text \<open>The loop over the redeemable rewards: take them until the points are reached.\<close>

fun collect_rewards :: "int \<Rightarrow> (int \<times> int) list \<Rightarrow> int list \<Rightarrow> int \<Rightarrow> int list \<times> int" where
  "collect_rewards points [] ids tot = (ids, tot)"
| "collect_rewards points ((i, earned) # rows) ids tot =
     (if tot \<ge> points then (ids, tot)
      else collect_rewards points rows (ids @ [i]) (go_int64 (tot + earned)))"

definition repo_redeem_rewards ::
  "go_error fault \<Rightarrow> go_error fault \<Rightarrow> int \<Rightarrow> string \<Rightarrow> int \<Rightarrow> (go_error, int, card_db) op" where
  "repo_redeem_rewards fl fl' now num points db =
     (case read_fault fl (Inr (get_redeemable_rewards_sql now num db)) of
        Inl err \<Rightarrow> (Inl (failed ''find redeemable rewards'' err), db)
      | Inr rows \<Rightarrow>
          (case collect_rewards points rows [] 0 of (ids, tot) \<Rightarrow>
             if tot < points then (Inl (with_message ErrBadRequest ''Insufficient reward points''), db)
             else map_error (failed ''redeem rewards'') (with_fault fl' (mark_rewards_redeemed_sql ids)) db))"

end
