(* ===== verification/BillingPeriod.thy ===== *)
theory BillingPeriod
  imports Timestamps
begin

text \<open>
  The statement periods of the billing engine
  (\<open>billingPeriod\<close> and \<open>dateInMonth\<close> of \<open>service/card/service/billingEngineService.go\<close>) with
  their specification: the months are numbered, each has one closing midnight, and the
  period of an instant runs between the two closings around which it falls last.
\<close>

definition date_in_month :: "int \<Rightarrow> int \<Rightarrow> int" where
  "date_in_month month d =
     (case civil_date (month div day) of (y, m, _) \<Rightarrow>
        let month_start = go_date y m 1 * day;
            next_month = add_date month_start 0 1 0
        in case civil_date (add_date next_month 0 0 (- 1) div day) of (_, _, last_day) \<Rightarrow>
             go_date y m (if d > last_day then last_day else d) * day)"

definition billing_period :: "int \<Rightarrow> int \<Rightarrow> int \<times> int" where
  "billing_period now billing_day =
     (case civil_date (now div day) of (y, m, _) \<Rightarrow>
        let month_start = go_date y m 1 * day;
            current_end = date_in_month month_start billing_day;
            current_end' = (if now < current_end then date_in_month (add_date month_start 0 (- 1) 0) billing_day
                            else current_end)
        in case civil_date (current_end' div day) of (ye, me, _) \<Rightarrow>
             (date_in_month (go_date ye (me - 1) 1 * day) billing_day, current_end'))"

section \<open>Numbered months\<close>

definition month_first :: "int \<Rightarrow> int" where
  "month_first k = day_number (k div 12, k mod 12 + 1, 1)"

definition month_days :: "int \<Rightarrow> int" where
  "month_days k = month_length (k div 12) (k mod 12 + 1)"

definition closing :: "int \<Rightarrow> int \<Rightarrow> int" where
  "closing d k = (month_first k + (min d (month_days k) - 1)) * day"

lemma day_pos [simp]: "0 < day" "day \<noteq> 0" "0 \<le> day"
  by (simp_all add: day_def time_defs)

lemma valid_month_date:
  "1 \<le> d \<Longrightarrow> d \<le> month_days k \<Longrightarrow> valid_date (k div 12, k mod 12 + 1, d)"
  by (simp add: valid_date_def month_days_def)

lemma month_days_pos: "28 \<le> month_days k"
  unfolding month_days_def by (rule month_length_bounds) auto

lemma go_date_month: "go_date y m d = month_first (12 * y + m - 1) + (d - 1)"
proof -
  have e: "12 * y + m - 1 = (m - 1) + y * 12" by simp
  have "(12 * y + m - 1) div 12 = y + (m - 1) div 12" "(12 * y + m - 1) mod 12 = (m - 1) mod 12"
    unfolding e by (simp_all only: div_mult_self1 mod_mult_self1 zero_neq_numeral [symmetric] not_False_eq_True)
  then show ?thesis by (simp add: go_date_def month_first_def)
qed

lemma go_date_of_month: "go_date (k div 12) (k mod 12 + 1) d = month_first k + (d - 1)"
  by (simp add: go_date_month)

lemma month_day_number: "day_number (k div 12, k mod 12 + 1, d) = month_first k + (d - 1)"
  by (simp add: month_first_def day_number_def)

lemma civil_month_day:
  "1 \<le> d \<Longrightarrow> d \<le> month_days k \<Longrightarrow> civil_date (month_first k + (d - 1)) = (k div 12, k mod 12 + 1, d)"
  using civil_day_number [OF valid_month_date] by (simp add: month_day_number)

lemma next_month_first: "month_first (k + 1) = month_first k + month_days k"
proof -
  define y m where "y = k div 12" and "m = k mod 12 + 1"
  note parts = y_def [symmetric] m_def [symmetric]
  show ?thesis
  proof (cases "m = 12")
    case True
    then have "(k + 1) div 12 = y + 1" "(k + 1) mod 12 + 1 = 1" unfolding y_def m_def by presburger+
    then have next_first: "month_first (k + 1) = day_number (y + 1, 1, 1)"
      by (simp only: month_first_def)
    have "days_before_month leap 12 = (if leap then 335 else 334)" "days_before_month leap 1 = 0" for leap
      by (simp_all add: days_before_month_def month_starts_def)
    then show ?thesis using year_step [of y] True
      unfolding next_first unfolding month_first_def month_days_def parts
      by (simp add: day_number_def month_length_def year_length_def)
  next
    case False
    then have "(k + 1) div 12 = y" "(k + 1) mod 12 + 1 = m + 1" unfolding y_def m_def by presburger+
    then have next_first: "month_first (k + 1) = day_number (y, m + 1, 1)"
      by (simp only: month_first_def)
    show ?thesis using False
      unfolding next_first unfolding month_first_def month_days_def parts
      by (simp add: day_number_def month_length_def)
  qed
qed

lemma date_month_index: "12 * (k div 12) + (k mod 12 + 1) - 1 = k" for k :: int
  by simp

lemma add_months: "add_date (month_first k * day) 0 n 0 = month_first (k + n) * day"
proof -
  have "civil_date (month_first k) = (k div 12, k mod 12 + 1, 1)"
    using civil_month_day [of 1 k] month_days_pos [of k] by simp
  then show ?thesis by (simp add: add_date_def go_date_month algebra_simps)
qed

lemma last_of_month:
  "civil_date (add_date (month_first (k + 1) * day) 0 0 (- 1) div day) = (k div 12, k mod 12 + 1, month_days k)"
proof -
  have "civil_date (month_first (k + 1)) = ((k + 1) div 12, (k + 1) mod 12 + 1, 1)"
    using civil_month_day [of 1 "k + 1"] month_days_pos [of "k + 1"] by simp
  then have "add_date (month_first (k + 1) * day) 0 0 (- 1) div day = month_first (k + 1) - 1"
    using go_date_of_month [of "k + 1" 0] by (simp add: add_date_def)
  then show ?thesis
    using civil_month_day [of "month_days k" k] month_days_pos [of k]
    by (simp add: next_month_first add_diff_eq [symmetric] del: add_diff_eq)
qed

lemma date_in_month_closing:
  assumes "civil_date (t div day) = (k div 12, k mod 12 + 1, d0)" "1 \<le> d"
  shows "date_in_month t d = closing d k"
proof -
  have "go_date (k div 12) (k mod 12 + 1) 1 = month_first k" by (simp add: go_date_month)
  then show ?thesis
    using assms last_of_month [of k] add_months [of k 1]
    by (simp add: date_in_month_def Let_def closing_def go_date_month min_def)
qed

lemma closing_civil:
  assumes "1 \<le> d"
  shows "civil_date (closing d k div day) = (k div 12, k mod 12 + 1, min d (month_days k))"
  using civil_month_day [of "min d (month_days k)" k] month_days_pos [of k] assms
  by (simp add: closing_def)

lemma closing_step: "1 \<le> d \<Longrightarrow> closing d k < closing d (k + 1)"
  using month_days_pos [of "k + 1"] next_month_first [of k] unfolding closing_def
  by (intro mult_strict_right_mono) (auto simp: min_def)

lemma closing_mono: "j \<le> k \<Longrightarrow> 1 \<le> d \<Longrightarrow> closing d j \<le> closing d k"
proof (induction k rule: int_ge_induct)
  case (step i)
  then show ?case using closing_step [of d i] by simp
qed simp

lemma civil_date_month: "\<exists>k d0. civil_date n = (k div 12, k mod 12 + 1, d0) \<and> month_first k \<le> n \<and> n < month_first (k + 1)"
proof -
  obtain y m d0 where c: "civil_date n = (y, m, d0)" by (metis prod_cases3)
  then have v: "valid_date (y, m, d0)" "day_number (y, m, d0) = n" using civil_date_correct [of n] by simp_all
  define k where "k = 12 * y + (m - 1)"
  have "0 \<le> m - 1" "m - 1 < 12" using v(1) by (auto simp: valid_date_def)
  then have k: "k div 12 = y" "k mod 12 + 1 = m" by (simp_all add: k_def)
  have "n = month_first k + (d0 - 1)" using v(2) month_day_number [of k d0] k by simp
  moreover have "1 \<le> d0" "d0 \<le> month_days k" using v(1) k by (auto simp: valid_date_def month_days_def)
  ultimately show ?thesis using c k next_month_first [of k] by (intro exI [of _ k] exI [of _ d0]) simp
qed

lemma billing_period_closing:
  assumes "1 \<le> d"
  shows "\<exists>k. billing_period now d = (closing d (k - 1), closing d k) \<and> closing d k \<le> now \<and> now < closing d (k + 1)"
proof -
  obtain k d0 where c: "civil_date (now div day) = (k div 12, k mod 12 + 1, d0)"
    and low: "month_first k \<le> now div day" and high: "now div day < month_first (k + 1)"
    using civil_date_month by blast
  have k1: "civil_date (month_first k * day div day) = (k div 12, k mod 12 + 1, 1)"
    using civil_month_day [of 1 k] month_days_pos [of k] by simp
  have k0: "civil_date (month_first (k - 1) * day div day) = ((k - 1) div 12, (k - 1) mod 12 + 1, 1)"
    using civil_month_day [of 1 "k - 1"] month_days_pos [of "k - 1"] by simp
  define j where "j = (if now < closing d k then k - 1 else k)"
  have start: "go_date (k div 12) (k mod 12 + 1) 1 = month_first k" by (simp add: go_date_month)
  have finish: "(if now < date_in_month (month_first k * day) d
      then date_in_month (add_date (month_first k * day) 0 (- 1) 0) d
      else date_in_month (month_first k * day) d) = closing d j"
    using date_in_month_closing [OF k1 assms] date_in_month_closing [OF k0 assms] add_months [of k "- 1"]
    by (simp add: j_def)
  have j: "civil_date (closing d j div day) = (j div 12, j mod 12 + 1, min d (month_days j))"
    by (rule closing_civil [OF assms])
  have prev: "go_date (j div 12) (j mod 12 + 1 - 1) 1 = month_first (j - 1)" by (simp add: go_date_month)
  have j0: "civil_date (month_first (j - 1) * day div day) = ((j - 1) div 12, (j - 1) mod 12 + 1, 1)"
    using civil_month_day [of 1 "j - 1"] month_days_pos [of "j - 1"] by simp
  have period: "billing_period now d = (closing d (j - 1), closing d j)"
    unfolding billing_period_def c prod.case Let_def start finish j prev
    by (simp only: date_in_month_closing [OF j0 assms])
  have "now < (now div day + 1) * day"
    using div_mult_mod_eq [of now day] pos_mod_bound [OF day_pos(1), of now] by (simp only: distrib_right)
  also have "\<dots> \<le> month_first (k + 1) * day" using high by (intro mult_right_mono) auto
  also have "\<dots> \<le> closing d (k + 1)"
    using assms month_days_pos [of "k + 1"] by (auto simp: closing_def intro!: mult_right_mono)
  finally have "now < closing d (k + 1)" .
  moreover have "month_first k * day \<le> now"
    using mult_right_mono [OF low day_pos(3)] div_mult_mod_eq [of now day] pos_mod_sign [OF day_pos(1), of now]
    by linarith
  moreover have "closing d (k - 1) \<le> month_first k * day"
    using next_month_first [of "k - 1"] by (auto simp: closing_def intro!: mult_right_mono)
  ultimately show ?thesis using period by (intro exI [of _ j]) (auto simp: j_def)
qed

lemma billing_period_between:
  assumes d: "1 \<le> d" and k: "closing d k \<le> now" "now < closing d (k + 1)"
  shows "billing_period now d = (closing d (k - 1), closing d k)"
proof -
  obtain j where j: "billing_period now d = (closing d (j - 1), closing d j)" "closing d j \<le> now" "now < closing d (j + 1)"
    using billing_period_closing [OF d] by blast
  have "\<not> j + 1 \<le> k" using j(3) k(1) closing_mono [OF _ d, of "j + 1" k] by auto
  moreover have "\<not> k + 1 \<le> j" using j(2) k(2) closing_mono [OF _ d, of "k + 1" j] by auto
  ultimately have "j = k" by simp
  with j(1) show ?thesis by simp
qed

lemma billing_period_ordered: "1 \<le> d \<Longrightarrow> fst (billing_period now d) < snd (billing_period now d)"
proof -
  assume d: "1 \<le> d"
  obtain k where "billing_period now d = (closing d (k - 1), closing d k)" using billing_period_closing [OF d] by blast
  then show ?thesis using closing_step [OF d, of "k - 1"] by simp
qed

text \<open>
  C28: the billing period is the last closed one: the two consecutive closings of which
  the second is the last that now has reached, in the sequence that has one closing per
  month, on the billing day or the last day of a shorter month
\<close>

theorem billing_period_spec:
  assumes "1 \<le> d"
  shows "\<exists>k. billing_period now d = (closing d (k - 1), closing d k) \<and> closing d k \<le> now \<and> now < closing d (k + 1)"
  by (rule billing_period_closing [OF assms])

theorem billing_period_spec_witness:
  "\<exists>k. billing_period (1709210096 * second) 31 = (closing 31 (k - 1), closing 31 k)
    \<and> closing 31 k \<le> 1709210096 * second \<and> 1709210096 * second < closing 31 (k + 1)"
  using billing_period_spec [of 31 "1709210096 * second"] by simp

end
