(* ===== verification/CardService.thy ===== *)
theory CardService
  imports CardRepository Cache BillingPeriod
begin

text \<open>
  The card service (\<open>service/card/service\<close>, with the cache of \<open>service/card/redis\<close>): commands
  with their cache deletions and Kafka events, read-through queries, and the billing
  engine. The state is the database, the Redis store and the messages handed to Kafka;
  the remote user lookup, the faults of the database and of Kafka, and the clock are the
  environment. The goroutine that publishes a new card runs at once.
\<close>

section \<open>State and environment\<close>

datatype card_value =
    VCard card_view
  | VUserCard "card_view \<times> string"
  | VCards "(card_view \<times> int) list" int

datatype card_message =
    CreateSaldoFor string int
  | CardStats int int string string string string int
  | StatementGenerated int int int int

record card_world =
  cw_db :: card_db
  cw_cache :: "card_value redis"
  cw_sent :: "(string \<times> string \<times> card_message) list"

record card_env =
  ce_cache :: cache_env
  ce_db :: "go_error fault"
  ce_db2 :: "go_error fault"
  ce_user :: "int \<Rightarrow> go_error + string option"
  ce_kafka :: bool
  ce_sent :: "string \<Rightarrow> bool"
  ce_decimals :: string

definition clock :: "card_env \<Rightarrow> int" where
  "clock env = ce_now (ce_cache env)"

definition on_card_db :: "(go_error, 'a, card_db) op \<Rightarrow> (go_error, 'a, card_world) op" where
  "on_card_db = zoom cw_db (\<lambda>d w. w\<lparr>cw_db := d\<rparr>)"

definition send_message :: "card_env \<Rightarrow> string \<Rightarrow> string \<Rightarrow> card_message \<Rightarrow> card_world \<Rightarrow> card_world" where
  "send_message env topic key msg w =
     (if ce_sent env topic then w\<lparr>cw_sent := cw_sent w @ [(topic, key, msg)]\<rparr> else w)"

definition card_fail :: "go_error \<Rightarrow> 's \<Rightarrow> (go_error + 'a) \<times> 's" where
  "card_fail err = ret (Inl (handle_error (Some err)))"

section \<open>Cache\<close>

definition card_by_id_key :: "int \<Rightarrow> string" where
  "card_by_id_key i = ''card:id:'' @ itoa i"

definition card_by_user_id_key :: "int \<Rightarrow> string" where
  "card_by_user_id_key i = ''card:user_id:'' @ itoa i"

definition card_by_number_key :: "string \<Rightarrow> string" where
  "card_by_number_key num = ''card:card_number:'' @ num"

definition user_card_key :: "string \<Rightarrow> string" where
  "user_card_key num = ''card:user_card_number:'' @ num"

definition page_key :: "string \<Rightarrow> find_all_request \<Rightarrow> string" where
  "page_key kind req =
     ''card:'' @ kind @ '':page:'' @ itoa (fa_page req) @ '':pageSize:'' @ itoa (fa_page_size req)
       @ '':search:'' @ fa_search req"

fun value_card :: "card_value \<Rightarrow> card_view option" where
  "value_card (VCard c) = Some c"
| "value_card _ = None"

fun value_user_card :: "card_value \<Rightarrow> (card_view \<times> string) option" where
  "value_user_card (VUserCard c) = Some c"
| "value_user_card _ = None"

fun value_page :: "card_value \<Rightarrow> ((card_view \<times> int) list \<times> int) option" where
  "value_page (VCards rows n) = Some (rows, n)"
| "value_page _ = None"

definition delete_card_command_cache :: "card_env \<Rightarrow> int \<Rightarrow> card_world \<Rightarrow> card_world" where
  "delete_card_command_cache env i w =
     w\<lparr>cw_cache := delete_from_cache (ce_cache env) (card_by_id_key i) (cw_cache w)\<rparr>"

definition with_cache :: "(card_value redis \<Rightarrow> 'a \<times> card_value redis) \<Rightarrow> card_world \<Rightarrow> 'a \<times> card_world" where
  "with_cache = zoom cw_cache (\<lambda>x w. w\<lparr>cw_cache := x\<rparr>)"

section \<open>Commands\<close>

definition publish_new_card :: "card_env \<Rightarrow> int \<Rightarrow> card_row \<Rightarrow> card_world \<Rightarrow> card_world" where
  "publish_new_card env user c w =
     (if \<not> ce_kafka env then w
      else send_message env ''stats-topic-card-events'' (itoa (cd_id c))
             (CardStats (cd_id c) user (cd_number c) (cd_type c) (cd_provider c) ''active'' (clock env))
             (send_message env ''saldo-service-topic-create-saldo'' (itoa (cd_id c))
                (CreateSaldoFor (cd_number c) 0) w))"

definition svc_create_card :: "card_env \<Rightarrow> create_card_request \<Rightarrow> (go_error, card_row, card_world) op" where
  "svc_create_card env req =
     (case ce_user env (cc_user req) of
        Inl err \<Rightarrow> card_fail err
      | Inr _ \<Rightarrow>
          try_or (on_card_db (repo_create_card (ce_db env) (clock env) (ce_decimals env) req)) card_fail
            (\<lambda>c w. (Inr c, publish_new_card env (cc_user req) c w)))"

text \<open>
  A command of one card: the repository call, then the deletion of the cached card. The two
  are atomic only here, for one request on its own; \<open>CardCoherence\<close> has them, and the halves of
  a lookup, as steps of their own.
\<close>

definition card_command ::
  "card_env \<Rightarrow> int \<Rightarrow> (go_error, 'a, card_db) op \<Rightarrow> (go_error, 'a, card_world) op" where
  "card_command env i m =
     try_or (on_card_db m) card_fail (\<lambda>x w. (Inr x, delete_card_command_cache env i w))"

definition svc_update_card :: "card_env \<Rightarrow> update_card_request \<Rightarrow> (go_error, card_row, card_world) op" where
  "svc_update_card env req =
     (case ce_user env (cc_user req) of
        Inl err \<Rightarrow> card_fail err
      | Inr _ \<Rightarrow> card_command env (uc_card req) (repo_update_card (ce_db env) (clock env) req))"

definition svc_trashed_card :: "card_env \<Rightarrow> int \<Rightarrow> (go_error, card_row, card_world) op" where
  "svc_trashed_card env i = card_command env i (repo_trashed_card (ce_db env) (clock env) i)"

definition svc_restore_card :: "card_env \<Rightarrow> int \<Rightarrow> (go_error, card_row, card_world) op" where
  "svc_restore_card env i = card_command env i (repo_restore_card (ce_db env) i)"

definition svc_delete_card_permanent :: "card_env \<Rightarrow> int \<Rightarrow> (go_error, unit, card_world) op" where
  "svc_delete_card_permanent env i = card_command env i (repo_delete_card_permanent (ce_db env) i)"

definition svc_restore_all_card :: "card_env \<Rightarrow> (go_error, unit, card_world) op" where
  "svc_restore_all_card env =
     try_or (on_card_db (repo_restore_all_card (ce_db env)))
       (\<lambda>_. card_fail (err_failed ''restore all cards'')) (\<lambda>x. ret (Inr x))"

definition svc_delete_all_card_permanent :: "card_env \<Rightarrow> (go_error, unit, card_world) op" where
  "svc_delete_all_card_permanent env =
     try_or (on_card_db (repo_delete_all_card_permanent (ce_db env)))
       (\<lambda>_. card_fail (err_failed ''delete all cards permanently'')) (\<lambda>x. ret (Inr x))"

definition svc_toggle_card_status :: "card_env \<Rightarrow> int \<Rightarrow> (go_error, card_row, card_world) op" where
  "svc_toggle_card_status env i = card_command env i (repo_toggle_card_status (ce_db env) (clock env) i)"

definition svc_update_credit_limit :: "card_env \<Rightarrow> int \<Rightarrow> int \<Rightarrow> (go_error, card_row, card_world) op" where
  "svc_update_credit_limit env i lim =
     card_command env i (repo_update_credit_limit (ce_db env) (clock env) i lim)"

definition svc_redeem_points :: "card_env \<Rightarrow> int \<Rightarrow> int \<Rightarrow> (go_error, card_row, card_world) op" where
  "svc_redeem_points env i points =
     card_command env i (repo_redeem_points (ce_db env) (ce_db2 env) (clock env) i points)"

section \<open>Queries\<close>

text \<open>
  A listing: the cache under the page as requested, then the repository; its error is
  replaced by a new one, and the total is that of the first row.
\<close>

definition cached_listing ::
  "card_env \<Rightarrow> string \<Rightarrow> string \<Rightarrow> find_all_request \<Rightarrow> go_error + (card_view \<times> int) list \<Rightarrow>
   card_value redis \<Rightarrow> (go_error + (card_view \<times> int) list \<times> int) \<times> card_value redis" where
  "cached_listing env kind operation req fetched =
     cached_page (ce_cache env) (page_key kind req) value_page (\<lambda>(rows, n). VCards rows n)
       (\<lambda>_. err_failed operation) fetched"

definition svc_find_all ::
  "card_env \<Rightarrow> find_all_request \<Rightarrow> (go_error, (card_view \<times> int) list \<times> int, card_world) op" where
  "svc_find_all env req w =
     with_cache (cached_listing env ''all'' ''find all cards'' req (repo_find_all_cards (ce_db env) req (cw_db w))) w"

definition svc_find_by_active ::
  "card_env \<Rightarrow> find_all_request \<Rightarrow> (go_error, (card_view \<times> int) list \<times> int, card_world) op" where
  "svc_find_by_active env req w =
     with_cache (cached_listing env ''active'' ''find active cards'' req
       (repo_find_by_active (ce_db env) req (cw_db w))) w"

definition svc_find_by_trashed ::
  "card_env \<Rightarrow> find_all_request \<Rightarrow> (go_error, (card_view \<times> int) list \<times> int, card_world) op" where
  "svc_find_by_trashed env req w =
     with_cache (cached_listing env ''trashed'' ''find trashed cards'' req
       (repo_find_by_trashed (ce_db env) req (cw_db w))) w"

definition svc_find_by_id :: "card_env \<Rightarrow> int \<Rightarrow> (go_error, card_view, card_world) op" where
  "svc_find_by_id env i w =
     with_cache (cached_find (ce_cache env) (card_by_id_key i) value_card VCard ttl_default
       (handled (repo_find_by_id (ce_db env) i (cw_db w)))) w"

definition svc_find_card_by_number :: "card_env \<Rightarrow> string \<Rightarrow> (go_error, card_view, card_world) op" where
  "svc_find_card_by_number env num w =
     with_cache (cached_find (ce_cache env) (card_by_number_key num) value_card VCard ttl_default
       (handled (repo_find_card_by_card_number (ce_db env) num (cw_db w)))) w"

definition svc_find_by_user_id :: "card_env \<Rightarrow> int \<Rightarrow> (go_error, card_view, card_world) op" where
  "svc_find_by_user_id env user w =
     with_cache (cached_find (ce_cache env) (card_by_user_id_key user) value_card VCard ttl_default
       (handled (repo_find_card_by_user_id (ce_db env) user (cw_db w)))) w"

definition enrich_user_email :: "card_env \<Rightarrow> card_view \<times> string \<Rightarrow> go_error + (card_view \<times> string)" where
  "enrich_user_email env cd =
     (case ce_user env (cv_user (fst cd)) of
        Inl err \<Rightarrow> Inl err
      | Inr email \<Rightarrow>
          (case email of
             None \<Rightarrow> Inl (with_message (err_not_found_response ''user'') ''user email not found'')
           | Some e \<Rightarrow>
               if e = [] then Inl (with_message (err_not_found_response ''user'') ''user email not found'')
               else Inr (fst cd, e)))"

definition svc_find_user_card_by_card_number ::
  "card_env \<Rightarrow> string \<Rightarrow> (go_error, card_view \<times> string, card_world) op" where
  "svc_find_user_card_by_card_number env num w =
     (let store = (\<lambda>cd. w\<lparr>cw_cache := set_to_cache (ce_cache env) (user_card_key num) (VUserCard cd) ttl_default (cw_cache w)\<rparr>);
          enrich = (\<lambda>cd. case enrich_user_email env cd of Inl err \<Rightarrow> (Inl err, w) | Inr cd' \<Rightarrow> (Inr cd', store cd'))
      in case Option.bind (get_from_cache (ce_cache env) (user_card_key num) (cw_cache w)) value_user_card of
           Some cd \<Rightarrow> (if snd cd \<noteq> [] then (Inr cd, w) else enrich cd)
         | None \<Rightarrow>
             (case repo_find_user_card_by_card_number (ce_db env) num (cw_db w) of
                Inl _ \<Rightarrow> (Inl (handle_error (Some (err_failed ''find card by user ID''))), w)
              | Inr cd \<Rightarrow> enrich cd))"

section \<open>Billing engine\<close>

definition svc_trigger_billing_cycle :: "card_env \<Rightarrow> int \<Rightarrow> (go_error, int, card_world) op" where
  "svc_trigger_billing_cycle env d =
     (if d < 1 \<or> d > 31 then card_fail (new_bad_request_error ''billing cycle day must be between 1 and 31'')
      else case billing_period (clock env) d of (start, finish) \<Rightarrow>
        try_or (on_card_db (repo_create_billing_cycles (ce_db env) (clock env) start finish finish)) card_fail
          (\<lambda>created w. (Inr created,
             if ce_kafka env \<and> created > 0
             then send_message env ''card.statement.generated'' (itoa d) (StatementGenerated d start finish created) w
             else w)))"

definition normalize_card_number :: "string \<Rightarrow> go_error + string" where
  "normalize_card_number num =
     (let trimmed = trim_space num
      in if trimmed = [] then Inl (new_bad_request_error ''card number is required'') else Inr trimmed)"

definition svc_get_billing_cycles :: "card_env \<Rightarrow> string \<Rightarrow> card_world \<Rightarrow> go_error + billing_cycle list" where
  "svc_get_billing_cycles env num w =
     (case normalize_card_number num of
        Inl err \<Rightarrow> Inl (handle_error (Some err))
      | Inr trimmed \<Rightarrow> handled (repo_get_billing_cycles (ce_db env) trimmed (cw_db w)))"

definition svc_get_statement :: "card_env \<Rightarrow> string \<Rightarrow> card_world \<Rightarrow> go_error + billing_cycle" where
  "svc_get_statement env num w =
     (case svc_get_billing_cycles env num w of
        Inl err \<Rightarrow> Inl err
      | Inr [] \<Rightarrow> Inl (handle_error (Some (err_not_found_response ''Billing statement'')))
      | Inr (b # _) \<Rightarrow> Inr b)"

text \<open>
  \<open>cycles[start:endIndex]\<close> with a start that may have overflowed: a negative bound or a
  start beyond the end panics, as the outer \<open>None\<close>.
\<close>

definition slice :: "int \<Rightarrow> int \<Rightarrow> 'a list \<Rightarrow> 'a list option" where
  "slice lo hi xs =
     (if 0 \<le> lo \<and> lo \<le> hi \<and> hi \<le> int (length xs) then Some (take (nat (hi - lo)) (drop (nat lo) xs)) else None)"

definition svc_get_statements_by_card ::
  "card_env \<Rightarrow> string \<Rightarrow> int \<Rightarrow> int \<Rightarrow> card_world \<Rightarrow> (go_error + billing_cycle list) option" where
  "svc_get_statements_by_card env num page page_size w =
     (case normalize_page page page_size of (p, n) \<Rightarrow>
        case svc_get_billing_cycles env num w of
          Inl err \<Rightarrow> Some (Inl err)
        | Inr cs \<Rightarrow>
            (let start = go_int64 (go_int64 (p - 1) * n)
             in if start \<ge> int (length cs) then Some (Inr [])
                else let finish = go_int64 (start + n);
                         finish' = (if finish > int (length cs) then int (length cs) else finish)
                     in map_option Inr (slice start finish' cs)))"

definition svc_process_billing_cycles :: "card_env \<Rightarrow> int \<Rightarrow> (go_error, unit, card_world) op" where
  "svc_process_billing_cycles env configured_day =
     try_or (svc_trigger_billing_cycle env (if configured_day = 0 then 1 else configured_day))
       (\<lambda>err. ret (Inl err)) (\<lambda>_. ret (Inr ()))"

end
