(* ===== verification/CardFacts.thy ===== *)
theory CardFacts
  imports CardService
begin

text \<open>
  What the card tables and their repositories guarantee: the life cycle of an
  authorization, the points a payment earns, and the redemption of rewards.
\<close>

section \<open>Authorizations\<close>

definition auth_moves :: "(string \<times> string) set" where
  "auth_moves = {(''pending'', ''approved''), (''pending'', ''declined''), (''approved'', ''reversed'')}"

definition same_auth :: "card_auth \<Rightarrow> card_auth \<Rightarrow> bool" where
  "same_auth a b \<longleftrightarrow> au_id b = au_id a \<and> au_txn b = au_txn a \<and> au_card b = au_card a
     \<and> au_merchant b = au_merchant a \<and> au_amount b = au_amount a \<and> au_currency b = au_currency a
     \<and> au_key b = au_key a"

definition auth_kept :: "card_auth list \<Rightarrow> card_auth list \<Rightarrow> bool" where
  "auth_kept as bs \<longleftrightarrow>
     length as \<le> length bs
     \<and> (\<forall>i < length as. same_auth (as ! i) (bs ! i)
          \<and> (au_status (bs ! i) = au_status (as ! i) \<or> (au_status (as ! i), au_status (bs ! i)) \<in> auth_moves))
     \<and> (\<forall>i. length as \<le> i \<and> i < length bs \<longrightarrow> au_status (bs ! i) = ''pending'')"

lemma auth_kept_refl [simp]: "auth_kept as as"
  by (auto simp: auth_kept_def same_auth_def)

lemma auth_kept_append: "au_status b = ''pending'' \<Longrightarrow> auth_kept as (as @ [b])"
  by (auto simp: auth_kept_def same_auth_def nth_append)

lemma auth_kept_update:
  assumes "\<And>a. p a \<Longrightarrow> same_auth a (f a)"
    "\<And>a. p a \<Longrightarrow> au_status (f a) = au_status a \<or> (au_status a, au_status (f a)) \<in> auth_moves"
  shows "auth_kept as (update_where p f as)"
  using assms by (auto simp: auth_kept_def update_where_def same_auth_def)

lemma move_auth_kept:
  assumes "(from, st) \<in> auth_moves"
  shows "auth_kept (auths db) (auths (snd (move_auth now txn from st db)))"
proof -
  have "auth_kept as (snd (update_returning (\<lambda>a. au_txn a = txn \<and> au_status a = from) (\<lambda>_. None)
         (\<lambda>a. a\<lparr>au_status := st, au_updated := now\<rparr>) as))" for as
    using assms
    by (auto simp: update_returning_def same_auth_def split: option.splits intro!: auth_kept_update)
  then show ?thesis by (simp add: move_auth_def snd_zoom)
qed

lemma on_cards_auths [simp]: "auths (snd (on_cards m db)) = auths db"
  by (simp add: on_cards_def snd_zoom)

text \<open>
  No statement of the card tables removes an authorization or changes what was
  authorized, and its status moves only from pending to approved or declined and from
  approved to reversed
\<close>

theorem authorization_life_cycle: "card_step db db' \<Longrightarrow> auth_kept (auths db) (auths db')"
proof (induction rule: card_step.induct)
  case (19 txn now score db)
  then show ?case
    by (auto simp: update_auth_risk_score_sql_def same_auth_def intro!: auth_kept_update)
qed (simp_all add: card_sql_updates create_card_sql_def restore_all_cards_sql_def delete_card_permanently_sql_def
    delete_all_permanent_cards_sql_def delete_cards_where_def create_billing_cycles_sql_def
    insert_billing_cycle_sql_def update_billing_cycle_status_sql_def snd_zoom insert_auth_transaction_sql_def
    auth_kept_append approve_auth_transaction_sql_def decline_auth_transaction_sql_def
    reverse_auth_transaction_sql_def move_auth_kept auth_moves_def insert_card_payment_sql_def
    insert_card_reward_sql_def mark_rewards_redeemed_sql_def Let_def)

text \<open>A database with one card and one pending authorization.\<close>

definition one_card_db :: card_db where
  "one_card_db = snd (create_card_sql 7 1 ''4000000000000001'' ''debit'' 20000 ''123'' ''visa'' empty_card_db)"

definition one_auth_db :: card_db where
  "one_auth_db = snd (insert_auth_transaction_sql 8
     \<lparr>ap_txn = ''k-txn'', ap_card = ''4000000000000001'', ap_merchant = 1, ap_amount = 50000,
      ap_currency = ''IDR'', ap_mcc = ''5812'', ap_entry_mode = ''051'', ap_key = ''k''\<rparr> one_card_db)"

theorem authorization_life_cycle_witness:
  "auth_kept (auths one_auth_db) (auths (snd (approve_auth_transaction_sql 9 ''k-txn'' one_auth_db)))
    \<and> map au_status (auths (snd (approve_auth_transaction_sql 9 ''k-txn'' one_auth_db))) = [''approved'']"
proof
  show "auth_kept (auths one_auth_db) (auths (snd (approve_auth_transaction_sql 9 ''k-txn'' one_auth_db)))"
    by (rule authorization_life_cycle) (rule card_step.intros(16))
  show "map au_status (auths (snd (approve_auth_transaction_sql 9 ''k-txn'' one_auth_db))) = [''approved'']"
    by code_simp
qed

text \<open>
  The transaction id is the key with \<open>-txn\<close> in a column of 36 characters, while the key has
  64: a key longer than 32 characters, such as a UUID, is always refused.
\<close>

lemma long_key_is_refused:
  "32 < length (ac_key req) \<Longrightarrow>
   repo_insert_pending Deliver now req db
   = (Inl (failed ''insert authorization transaction'' value_too_long), db)"
  by (simp add: repo_insert_pending_def map_error_def with_fault_def insert_auth_transaction_sql_def auth_fits_def)

section \<open>Rewards\<close>

text \<open>Points\<close>

theorem earn_points_range:
  "1 \<le> earn_points amount mcc \<and> fits_int32 (earn_points amount mcc)
    \<and> (0 \<le> amount \<and> amount < 10000 * 1073741824 \<longrightarrow>
       earn_points amount mcc = max 1 ((if mcc \<in> {''5812'', ''4511'', ''5541''} then 2 else 1) * (amount div 10000)))"
proof -
  have range: "fits_int32 (go_int32 x)" for x by (rule go_int32_range)
  have "fits_int32 (earn_points amount mcc)"
    using range by (auto simp: earn_points_def Let_def fits_int32_def)
  moreover have "earn_points amount mcc = max 1 ((if mcc \<in> {''5812'', ''4511'', ''5541''} then 2 else 1) * (amount div 10000))"
    if "0 \<le> amount" "amount < 10000 * 1073741824"
  proof -
    have "0 \<le> amount div 10000" "amount div 10000 < 1073741824" using that by simp_all
    then have "fits_int32 (amount div 10000)" "fits_int32 (amount div 10000 * 2)" by (auto simp: fits_int32_def)
    then show ?thesis using that by (simp add: earn_points_def Let_def max_def mult.commute)
  qed
  ultimately show ?thesis by (simp add: earn_points_def Let_def)
qed

theorem earn_points_range_witness: "earn_points 125000 ''5812'' = 24 \<and> earn_points 9999 ''0000'' = 1"
  using earn_points_range [of 125000 "''5812''"] earn_points_range [of 9999 "''0000''"] by simp

text \<open>Above the bound the points wrap: 10,737,418,240,000 at a restaurant earns one point.\<close>

lemma large_amounts_earn_one_point: "earn_points (10000 * 1073741824) ''5812'' = 1"
  by code_simp

lemma collect_rewards_prefix:
  assumes "collect_rewards points rows ids tot = (ids', tot')"
    "\<forall>r \<in> set rows. 0 \<le> snd r" "0 \<le> tot" "tot + sum_list (map snd rows) < 9223372036854775808"
  shows "\<exists>k \<le> length rows. ids' = ids @ map fst (take k rows) \<and> tot' = tot + sum_list (map snd (take k rows))
    \<and> (k = length rows \<or> points \<le> tot')"
  using assms
proof (induction rows arbitrary: ids tot)
  case Nil
  then show ?case by simp
next
  case (Cons r rows)
  obtain i earned where r: "r = (i, earned)" by (cases r)
  show ?case
  proof (cases "tot \<ge> points")
    case True
    then show ?thesis using Cons.prems(1) r by (intro exI [of _ 0]) simp
  next
    case False
    have nonneg: "0 \<le> sum_list (map snd rows)" using Cons.prems(2) by (intro sum_list_nonneg) auto
    then have "go_int64 (tot + earned) = tot + earned"
      using Cons.prems r by (intro go_int64_fits) (auto simp: fits_int64_def)
    then have "collect_rewards points rows (ids @ [i]) (tot + earned) = (ids', tot')"
      using Cons.prems(1) False r by simp
    then obtain k where "k \<le> length rows" "ids' = (ids @ [i]) @ map fst (take k rows)"
      "tot' = tot + earned + sum_list (map snd (take k rows))" "k = length rows \<or> points \<le> tot'"
      using Cons.IH [of "ids @ [i]" "tot + earned"] Cons.prems r by auto
    then show ?thesis using r by (intro exI [of _ "Suc k"]) auto
  qed
qed

definition reward_total :: "card_reward set \<Rightarrow> int" where
  "reward_total rs = sum rw_points rs"

lemma balance_as_sum:
  "distinct (map rw_id (rewards db)) \<Longrightarrow>
   get_reward_balance_sql now num db = reward_total {r \<in> set (rewards db). redeemable now num r}"
  by (simp add: get_reward_balance_sql_def reward_total_def sum_list_distinct_conv_sum_set distinct_map)

text \<open>The rows chosen for redemption, as ids, are exactly those rows.\<close>

lemma chosen_rows:
  assumes "distinct (map rw_id rs)" "set chosen \<subseteq> set rs"
  shows "{r \<in> set rs. rw_id r \<in> set (map rw_id chosen)} = set chosen"
  using assms by (auto simp: distinct_map inj_on_def)

lemma balance_after_marking:
  assumes dist: "distinct (map rw_id (rewards db))"
    and sub: "set chosen \<subseteq> {r \<in> set (rewards db). redeemable now num r}"
    and res: "mark_rewards_redeemed_sql (map rw_id chosen) db = (Inr n, db')"
  shows "n = reward_total (set chosen) \<and> get_reward_balance_sql now num db' = get_reward_balance_sql now num db - n"
proof -
  let ?R = "set (rewards db)"
  have pick: "{r \<in> ?R. rw_id r \<in> set (map rw_id chosen)} = set chosen"
    by (rule chosen_rows [OF dist]) (use sub in auto)
  have "n = sum_list (map rw_points (filter (\<lambda>r. rw_id r \<in> set (map rw_id chosen)) (rewards db)))"
    using res by (simp add: mark_rewards_redeemed_sql_def)
  also have "\<dots> = sum rw_points {r \<in> ?R. rw_id r \<in> set (map rw_id chosen)}"
    using dist by (simp add: sum_list_distinct_conv_sum_set distinct_map)
  finally have n: "n = reward_total (set chosen)" unfolding pick reward_total_def .
  have rewards': "rewards db' = update_where (\<lambda>r. rw_id r \<in> set (map rw_id chosen)) (\<lambda>r. r\<lparr>rw_redeemed := True\<rparr>) (rewards db)"
    using res by (auto simp: mark_rewards_redeemed_sql_def)
  have dist': "distinct (map rw_id (rewards db'))"
    unfolding rewards' by (subst map_update_where) (use dist in auto)
  have "{r \<in> set (rewards db'). redeemable now num r}
      = {r \<in> ?R. redeemable now num r} - {r \<in> ?R. rw_id r \<in> set (map rw_id chosen)}"
    unfolding rewards' set_update_where by (auto simp: redeemable_def)
  then have left: "{r \<in> set (rewards db'). redeemable now num r} = {r \<in> ?R. redeemable now num r} - set chosen"
    unfolding pick .
  have "sum rw_points ({r \<in> ?R. redeemable now num r} - set chosen)
      = sum rw_points {r \<in> ?R. redeemable now num r} - sum rw_points (set chosen)"
    by (rule sum_diff) (use sub in auto)
  then show ?thesis using n unfolding balance_as_sum [OF dist] balance_as_sum [OF dist'] left reward_total_def
    by simp
qed

text \<open>
  C25: with both statements delivered, on well-formed tables and with non-negative points
  whose sum fits an int64, a redemption of rewards spends at least the points asked for
  and exactly what the balance of the card drops by, which stays non-negative, or is
  refused because the balance is below the points asked for and changes nothing
\<close>

theorem redeem_takes_enough:
  assumes ok: "card_db_ok db"
    and sane: "\<forall>r \<in> set (rewards db). 0 \<le> rw_points r" "sum_list (map rw_points (rewards db)) < 9223372036854775808"
  shows "case repo_redeem_rewards Deliver Deliver now num points db of
      (Inr n, db') \<Rightarrow> points \<le> n \<and> get_reward_balance_sql now num db' = get_reward_balance_sql now num db - n
        \<and> 0 \<le> get_reward_balance_sql now num db'
    | (Inl e, db') \<Rightarrow> get_reward_balance_sql now num db < points \<and> db' = db"
proof -
  let ?all = "sort_key rw_created (filter (redeemable now num) (rewards db))"
  let ?rows = "get_redeemable_rewards_sql now num db"
  let ?balance = "get_reward_balance_sql now num db"
  have dist: "distinct (map rw_id (rewards db))" using ok by (simp add: card_db_ok_def keys_ok_def ids_ok_def)
  then have rdist: "distinct (rewards db)" by (simp add: distinct_map)
  have rows: "?rows = map (\<lambda>r. (rw_id r, rw_points r)) ?all" by (simp add: get_redeemable_rewards_sql_def)
  have balance: "?balance = sum rw_points (set ?all)"
    using balance_as_sum [OF dist] by (simp add: reward_total_def)
  have points_of: "sum_list (map snd (take k ?rows)) = sum rw_points (set (take k ?all))" for k
    using rdist by (simp add: rows take_map comp_def sum_list_distinct_conv_sum_set)
  have nonneg: "\<forall>r \<in> set ?rows. 0 \<le> snd r" using sane(1) by (auto simp: rows)
  have "?balance \<le> sum rw_points (set (rewards db))"
    unfolding balance by (rule sum_mono2) (use sane(1) in auto)
  also have "\<dots> = sum_list (map rw_points (rewards db))" using rdist by (simp add: sum_list_distinct_conv_sum_set)
  finally have bound: "0 + sum_list (map snd ?rows) < 9223372036854775808"
    using sane(2) points_of [of "length ?rows"] balance by (simp add: rows)
  obtain ids tot where c: "collect_rewards points ?rows [] 0 = (ids, tot)" by fastforce
  obtain k where k: "k \<le> length ?rows" "ids = map fst (take k ?rows)"
    "tot = sum_list (map snd (take k ?rows))" "k = length ?rows \<or> points \<le> tot"
    using collect_rewards_prefix [OF c nonneg _ bound] by auto
  let ?chosen = "take k ?all"
  have ids: "ids = map rw_id ?chosen" by (simp add: k(2) rows take_map comp_def)
  have tot: "tot = reward_total (set ?chosen)" using k(3) points_of by (simp add: reward_total_def)
  show ?thesis
  proof (cases "tot < points")
    case True
    then have "tot = ?balance" using k points_of [of k] balance by (simp add: rows)
    then show ?thesis using True c
      by (simp add: repo_redeem_rewards_def read_fault_def map_error_def)
  next
    case False
    obtain n db' where m: "mark_rewards_redeemed_sql (map rw_id ?chosen) db = (Inr n, db')"
      by (simp add: mark_rewards_redeemed_sql_def)
    have sub: "set ?chosen \<subseteq> {r \<in> set (rewards db). redeemable now num r}"
      using set_take_subset [of k ?all] by auto
    note after = balance_after_marking [OF dist sub m]
    have "sum rw_points (set ?chosen) \<le> ?balance" unfolding balance
      by (rule sum_mono2) (use sane(1) set_take_subset [of k ?all] in auto)
    then show ?thesis using False c m after tot
      by (simp add: repo_redeem_rewards_def read_fault_def map_error_def with_fault_def ids reward_total_def)
  qed
qed

definition two_rewards_db :: card_db where
  "two_rewards_db = snd (insert_card_reward_sql 9 ''4000000000000001'' ''t2'' 300000 ''5812'' 60 1000
     (snd (insert_card_reward_sql 8 ''4000000000000001'' ''t1'' 400000 ''5411'' 40 1000 one_card_db)))"

lemma two_rewards_ok: "card_db_ok two_rewards_db"
proof -
  have "card_step empty_card_db one_card_db" unfolding one_card_db_def by (rule card_step.intros(1))
  then have "card_db_ok one_card_db"
    using card_step_keeps_ok by (simp add: card_db_ok_def keys_ok_def references_ok_def referenced_cards_def
        values_ok_def ids_ok_def empty_card_db_def)
  then show ?thesis unfolding two_rewards_db_def by (intro insert_reward_keeps_ok)
qed

theorem redeem_takes_enough_witness:
  "\<exists>n db'. repo_redeem_rewards Deliver Deliver 10 ''4000000000000001'' 50 two_rewards_db = (Inr n, db')
    \<and> 50 \<le> n \<and> get_reward_balance_sql 10 ''4000000000000001'' db' = 100 - n"
proof -
  have "\<forall>r \<in> set (rewards two_rewards_db). 0 \<le> rw_points r"
    "sum_list (map rw_points (rewards two_rewards_db)) < 9223372036854775808"
    "get_reward_balance_sql 10 ''4000000000000001'' two_rewards_db = 100"
    by code_simp+
  then show ?thesis
    using redeem_takes_enough [OF two_rewards_ok, of 10 "''4000000000000001''" 50]
    by (auto split: prod.splits sum.splits)
qed

text \<open>
  Whole rewards are redeemed: asking for 50 of 40 and 60 points spends 100. And marking
  does not look whether a reward was redeemed already, so two redemptions that read the
  same rewards both answer with their points.
\<close>

lemma redeem_takes_whole_rewards:
  "fst (repo_redeem_rewards Deliver Deliver 10 ''4000000000000001'' 50 two_rewards_db) = Inr 100"
  by code_simp

lemma overlapping_redemptions_both_count:
  "fst (mark_rewards_redeemed_sql ids (snd (mark_rewards_redeemed_sql ids db))) = fst (mark_rewards_redeemed_sql ids db)"
proof -
  have "map rw_points (filter (\<lambda>r. rw_id r \<in> set ids) (update_where (\<lambda>r. rw_id r \<in> set ids) (\<lambda>r. r\<lparr>rw_redeemed := True\<rparr>) rs))
      = map rw_points (filter (\<lambda>r. rw_id r \<in> set ids) rs)" for rs :: "card_reward list"
    by (induction rs) (auto simp: table_simps)
  then show ?thesis by (simp add: mark_rewards_redeemed_sql_def)
qed

section \<open>Deletion of billed cards\<close>

text \<open>
  Every live card gets a billing cycle, and a card with a cycle cannot be deleted: one such
  card in the trash makes the deletion of all trashed cards fail.
\<close>

lemma billed_card_is_never_deleted:
  "c \<in> set (cards db) \<Longrightarrow> \<not> card_live c \<Longrightarrow> cd_number c \<in> set (map bc_card (cycles db)) \<Longrightarrow>
   go_int32 i = cd_id c \<Longrightarrow>
   repo_delete_card_permanent Deliver i db
   = (Inl (failed ''delete card permanently'' foreign_key_violation), db)"
  by (auto simp: repo_delete_card_permanent_def map_error_def with_fault_def delete_card_permanently_sql_def
      delete_cards_where_def referenced_cards_def err_no_rows_or_failed_def failed_def foreign_key_violation_def)

lemma one_billed_card_blocks_the_purge:
  "c \<in> set (cards db) \<Longrightarrow> \<not> card_live c \<Longrightarrow> cd_number c \<in> set (map bc_card (cycles db)) \<Longrightarrow>
   repo_delete_all_card_permanent Deliver db
   = (Inl (failed ''delete all cards permanently'' foreign_key_violation), db)"
  by (auto simp: repo_delete_all_card_permanent_def map_error_def with_fault_def
      delete_all_permanent_cards_sql_def delete_cards_where_def referenced_cards_def)

section \<open>Columns that are never written\<close>

text \<open>
  No statement raises the reward points or the outstanding balance of a card: both stay at
  their default 0. So every redemption of points is refused, and every bill is about 0.
\<close>

definition idle_card :: "card_row \<Rightarrow> bool" where
  "idle_card c \<longleftrightarrow> cd_points c = 0 \<and> cd_outstanding c = 0"

lemma idle_simps:
  "idle_card (c\<lparr>cd_type := a\<rparr>) = idle_card c" "idle_card (c\<lparr>cd_expire := x\<rparr>) = idle_card c"
  "idle_card (c\<lparr>cd_cvv := a\<rparr>) = idle_card c" "idle_card (c\<lparr>cd_provider := a\<rparr>) = idle_card c"
  "idle_card (c\<lparr>cd_updated := x\<rparr>) = idle_card c" "idle_card (c\<lparr>cd_deleted := d\<rparr>) = idle_card c"
  "idle_card (c\<lparr>cd_status := a\<rparr>) = idle_card c" "idle_card (c\<lparr>cd_limit := x\<rparr>) = idle_card c"
  by (simp_all add: idle_card_def)

lemma idle_update:
  "\<forall>c \<in> set cs. idle_card c \<Longrightarrow> (\<And>c. idle_card c \<Longrightarrow> p c \<Longrightarrow> idle_card (f c)) \<Longrightarrow>
   \<forall>c \<in> set (snd (update_returning p refuse f cs)). idle_card c"
  by (auto dest!: update_returning_mem)

lemma idle_on_cards:
  "\<forall>c \<in> set (cards db). idle_card c \<Longrightarrow> (\<And>c. idle_card c \<Longrightarrow> p c \<Longrightarrow> idle_card (f c)) \<Longrightarrow>
   \<forall>c \<in> set (cards (snd (on_cards (update_returning p refuse f) db))). idle_card c"
  using idle_update [of "cards db" p f refuse] by (simp add: on_cards_def snd_zoom)

lemma cards_untouched:
  "cards (snd (create_billing_cycles_sql now start finish due db)) = cards db"
  "cards (snd (insert_billing_cycle_sql now num start finish amount due db)) = cards db"
  "cards (snd (update_billing_cycle_status_sql now i st db)) = cards db"
  "cards (snd (insert_auth_transaction_sql now a db)) = cards db"
  "cards (snd (approve_auth_transaction_sql now txn db)) = cards db"
  "cards (snd (decline_auth_transaction_sql now txn db)) = cards db"
  "cards (snd (reverse_auth_transaction_sql now txn db)) = cards db"
  "cards (snd (update_auth_risk_score_sql now txn score db)) = cards db"
  "cards (snd (insert_card_payment_sql now uuid num billing amount channel reference db)) = cards db"
  "cards (snd (insert_card_reward_sql now num txn amount mcc points expires db)) = cards db"
  "cards (snd (mark_rewards_redeemed_sql ids db)) = cards db"
  by (simp_all add: create_billing_cycles_sql_def insert_billing_cycle_sql_def update_billing_cycle_status_sql_def
      snd_zoom insert_auth_transaction_sql_def approve_auth_transaction_sql_def decline_auth_transaction_sql_def
      reverse_auth_transaction_sql_def move_auth_def update_auth_risk_score_sql_def insert_card_payment_sql_def
      insert_card_reward_sql_def mark_rewards_redeemed_sql_def Let_def)

lemma idle_create:
  "\<forall>c \<in> set (cards db). idle_card c \<Longrightarrow>
   \<forall>c \<in> set (cards (snd (create_card_sql now user num typ expire cvv provider db))). idle_card c"
  by (auto simp: create_card_sql_def Let_def idle_card_def)

lemma idle_delete:
  "\<forall>c \<in> set (cards db). idle_card c \<Longrightarrow> \<forall>c \<in> set (cards (snd (delete_cards_where p db))). idle_card c"
  by (auto simp: delete_cards_where_def)

lemma idle_restore:
  "\<forall>c \<in> set (cards db). idle_card c \<Longrightarrow> \<forall>c \<in> set (cards (snd (restore_all_cards_sql db))). idle_card c"
  by (auto simp: restore_all_cards_sql_def on_cards_def snd_zoom set_update_where idle_simps)

lemma idle_redeem:
  "\<forall>c \<in> set (cards db). idle_card c \<Longrightarrow> 0 \<le> points \<Longrightarrow>
   \<forall>c \<in> set (cards (snd (redeem_reward_points_sql now i points db))). idle_card c"
  unfolding redeem_reward_points_sql_def by (rule idle_on_cards) (auto simp: idle_card_def)

lemma idle_changes:
  "\<forall>c \<in> set (cards db). idle_card c \<Longrightarrow> \<forall>c \<in> set (cards (snd (update_card_sql now i typ expire cvv provider db))). idle_card c"
  "\<forall>c \<in> set (cards db). idle_card c \<Longrightarrow> \<forall>c \<in> set (cards (snd (trash_card_sql now i db))). idle_card c"
  "\<forall>c \<in> set (cards db). idle_card c \<Longrightarrow> \<forall>c \<in> set (cards (snd (restore_card_sql i db))). idle_card c"
  "\<forall>c \<in> set (cards db). idle_card c \<Longrightarrow> \<forall>c \<in> set (cards (snd (toggle_card_status_sql now i db))). idle_card c"
  "\<forall>c \<in> set (cards db). idle_card c \<Longrightarrow> \<forall>c \<in> set (cards (snd (update_card_status_sql now i st db))). idle_card c"
  "\<forall>c \<in> set (cards db). idle_card c \<Longrightarrow> \<forall>c \<in> set (cards (snd (update_credit_limit_sql now i lim db))). idle_card c"
  unfolding update_card_sql_def trash_card_sql_def restore_card_sql_def toggle_card_status_sql_def
    update_card_status_sql_def update_credit_limit_sql_def
  by (rule idle_on_cards; simp add: idle_simps)+

lemmas idle_statements = idle_create idle_changes idle_restore idle_redeem idle_delete

lemma cards_stay_idle: "card_reachable db \<Longrightarrow> \<forall>c \<in> set (cards db). idle_card c"
proof (induction rule: card_reachable.induct)
  case initial
  show ?case by (simp add: empty_card_db_def)
next
  case (step db db')
  from step(2) step(3) show ?case
    by (induction rule: card_step.induct)
      (unfold cards_untouched delete_card_permanently_sql_def delete_all_permanent_cards_sql_def,
        (rule idle_statements | assumption)+)
qed

lemma points_are_never_redeemed:
  assumes "card_reachable db" "1 \<le> points" "fits_int32 points"
  shows "isl (fst (repo_redeem_points fl fl' now i points db))"
proof -
  have "find (\<lambda>c. live_card (go_int32 i) c \<and> points \<le> cd_points c) (cards db) = None"
    using cards_stay_idle [OF assms(1)] assms(2) by (force simp: find_None_iff idle_card_def)
  then show ?thesis using assms(3)
    by (simp add: repo_redeem_points_def redeem_reward_points_sql_def on_cards_def zoom_def update_returning_def
        try_or_def with_fault_def split: fault.splits sum.splits)
qed

lemma bills_are_about_nothing:
  "card_reachable db \<Longrightarrow> b \<in> set (proposed_cycles now start finish due db) \<Longrightarrow> bc_amount b = 0"
  using cards_stay_idle by (fastforce simp: proposed_cycles_def new_cycle_def idle_card_def in_set_enumerate_eq
      dest: nth_mem)

end
