(* ===== verification/CardCoherence.thy ===== *)
theory CardCoherence
  imports CardFacts
begin

text \<open>
  The card service as a whole, its handlers running side by side: the invariant that the
  cache of cards by id agrees with the table wherever no command and no lookup is under way
  in a harmful order, and the race that breaks it.
\<close>

section \<open>The halves of a lookup and of a command\<close>

text \<open>
  \<open>cardQueryService.FindById\<close> asks the cache, reads the table on a miss and stores what it
  read; \<open>cardCommandService\<close> runs its statement and then deletes the key of the card. No
  lock is held in between. The halves are steps of their own, and run one after the other
  they are the service functions.
\<close>

definition read_card :: "card_env \<Rightarrow> int \<Rightarrow> card_world \<Rightarrow> go_error + card_view" where
  "read_card env i w = handled (repo_find_by_id (ce_db env) i (cw_db w))"

definition store_card :: "card_env \<Rightarrow> int \<Rightarrow> card_view \<Rightarrow> card_world \<Rightarrow> card_world" where
  "store_card env i c w =
     w\<lparr>cw_cache := set_to_cache (ce_cache env) (card_by_id_key i) (VCard c) ttl_default (cw_cache w)\<rparr>"

lemma find_by_id_halves:
  "svc_find_by_id env i w =
     (case Option.bind (get_from_cache (ce_cache env) (card_by_id_key i) (cw_cache w)) value_card of
        Some c \<Rightarrow> (Inr c, w)
      | None \<Rightarrow> (case read_card env i w of Inl e \<Rightarrow> (Inl e, w) | Inr c \<Rightarrow> (Inr c, store_card env i c w)))"
  by (simp add: svc_find_by_id_def with_cache_def zoom_def cached_find_def read_card_def store_card_def
      split: option.splits sum.splits)

lemma card_command_halves:
  "card_command env i m w =
     (case m (cw_db w) of
        (Inl e, db) \<Rightarrow> (Inl (handle_error (Some e)), w\<lparr>cw_db := db\<rparr>)
      | (Inr x, db) \<Rightarrow> (Inr x, delete_card_command_cache env i (w\<lparr>cw_db := db\<rparr>)))"
  by (simp add: card_command_def try_or_def on_card_db_def zoom_def card_fail_def ret_def split: prod.splits sum.splits)

text \<open>
  The statement of a command on the card \<open>i\<close>, with whether it was answered. The reply of the
  database must not be lost (a lost reply skips the deletion), ids are 32-bit and points to
  redeem are positive.
\<close>

definition reply_kept :: "card_env \<Rightarrow> int \<Rightarrow> bool" where
  "reply_kept env i \<longleftrightarrow> fits_int32 i \<and> (\<forall>e. ce_db env \<noteq> Lose e)"

inductive card_write :: "card_env \<Rightarrow> int \<Rightarrow> card_db \<Rightarrow> bool \<Rightarrow> card_db \<Rightarrow> bool" where
  updates: "repo_update_card (ce_db env) (clock env) req db = (r, db') \<Longrightarrow> card_write env (uc_card req) db (\<not> isl r) db'"
| trashes: "repo_trashed_card (ce_db env) (clock env) i db = (r, db') \<Longrightarrow> card_write env i db (\<not> isl r) db'"
| restores: "repo_restore_card (ce_db env) i db = (r, db') \<Longrightarrow> card_write env i db (\<not> isl r) db'"
| deletes: "repo_delete_card_permanent (ce_db env) i db = (u, db') \<Longrightarrow> card_write env i db (\<not> isl u) db'"
| toggles: "repo_toggle_card_status (ce_db env) (clock env) i db = (r, db') \<Longrightarrow> card_write env i db (\<not> isl r) db'"
| limits: "repo_update_credit_limit (ce_db env) (clock env) i lim db = (r, db') \<Longrightarrow> card_write env i db (\<not> isl r) db'"
| redeems: "1 \<le> points \<Longrightarrow> fits_int32 points \<Longrightarrow>
    repo_redeem_points (ce_db env) (ce_db2 env) (clock env) i points db = (r, db') \<Longrightarrow> card_write env i db (\<not> isl r) db'"

text \<open>
  The other operations never touch the key of a card by id, so each may be one step: a
  creation, the commands on all cards, the listings and the other lookups, a billing run.
\<close>

inductive other_step :: "card_world \<Rightarrow> card_world \<Rightarrow> bool" where
  "other_step w (snd (svc_create_card env req w))"
| "other_step w (snd (svc_restore_all_card env w))"
| "other_step w (snd (svc_delete_all_card_permanent env w))"
| "other_step w (snd (svc_trigger_billing_cycle env d w))"
| "other_step w (snd (svc_find_all env page w))"
| "other_step w (snd (svc_find_by_active env page w))"
| "other_step w (snd (svc_find_by_trashed env page w))"
| "other_step w (snd (svc_find_card_by_number env num w))"
| "other_step w (snd (svc_find_by_user_id env user w))"
| "other_step w (snd (svc_find_user_card_by_card_number env num w))"

section \<open>Handlers side by side\<close>

text \<open>
  The state of the running handlers: the lookups that have read a card and not stored it
  yet, each with whether a command has changed the card since, the commands whose deletion
  is outstanding, and the cards under whose key a lookup overtaken by a command has stored
  what it read, until a command deletes the key.
\<close>

record card_threads =
  ct_world :: card_world
  ct_reads :: "(int \<times> card_view \<times> bool) list"
  ct_drops :: "int list"
  ct_stale :: "int set"

definition overtake :: "int \<Rightarrow> (int \<times> card_view \<times> bool) list \<Rightarrow> (int \<times> card_view \<times> bool) list" where
  "overtake i = map (\<lambda>(k, c, late). (k, c, late \<or> k = i))"

lemma overtake_mem: "(k, c, False) \<in> set (overtake i reads) \<longleftrightarrow> k \<noteq> i \<and> (k, c, False) \<in> set reads"
  by (force simp: overtake_def)

inductive thread_step :: "card_threads \<Rightarrow> card_threads \<Rightarrow> bool" where
  fetched: "fits_int32 i \<Longrightarrow> read_card env i (ct_world s) = Inr c \<Longrightarrow>
    thread_step s (s\<lparr>ct_reads := (i, c, False) # ct_reads s\<rparr>)"
| stored: "(i, c, late) \<in> set (ct_reads s) \<Longrightarrow>
    thread_step s (s\<lparr>ct_world := store_card env i c (ct_world s), ct_reads := remove1 (i, c, late) (ct_reads s),
      ct_stale := (if late then insert i (ct_stale s) else ct_stale s)\<rparr>)"
| written: "reply_kept env i \<Longrightarrow> card_write env i (cw_db (ct_world s)) answered db' \<Longrightarrow>
    thread_step s (s\<lparr>ct_world := (ct_world s)\<lparr>cw_db := db'\<rparr>, ct_reads := overtake i (ct_reads s),
      ct_drops := (if answered then i # ct_drops s else ct_drops s)\<rparr>)"
| dropped: "i \<in> set (ct_drops s) \<Longrightarrow> ce_del_ok (ce_cache env) \<Longrightarrow>
    thread_step s (s\<lparr>ct_world := delete_card_command_cache env i (ct_world s), ct_drops := remove1 i (ct_drops s),
      ct_stale := ct_stale s - {i}\<rparr>)"
| other: "other_step (ct_world s) w' \<Longrightarrow> thread_step s (s\<lparr>ct_world := w'\<rparr>)"

definition no_threads :: "card_world \<Rightarrow> card_threads" where
  "no_threads w = \<lparr>ct_world = w, ct_reads = [], ct_drops = [], ct_stale = {}\<rparr>"

inductive threads_reachable :: "card_threads \<Rightarrow> bool" where
  initial: "threads_reachable (no_threads \<lparr>cw_db = empty_card_db, cw_cache = Map.empty, cw_sent = []\<rparr>)"
| step: "threads_reachable s \<Longrightarrow> thread_step s s' \<Longrightarrow> threads_reachable s'"

section \<open>The cache of cards by id\<close>

definition card_look :: "card_db \<Rightarrow> int \<Rightarrow> card_view option" where
  "card_look db i = (if fits_int32 i then get_card_by_id i db else None)"

text \<open>The entries under the keys of the cards in \<open>except\<close> may disagree with the table.\<close>

definition cards_coherent :: "int set \<Rightarrow> card_world \<Rightarrow> bool" where
  "cards_coherent except w \<longleftrightarrow>
     (\<forall>i v x c. i \<notin> except \<longrightarrow> cw_cache w (card_by_id_key i) = Some (v, x) \<longrightarrow> value_card v = Some c \<longrightarrow>
        card_look (cw_db w) i = Some c)"

interpretation card_ids: cached_table card_by_id_key value_card VCard
  by unfold_locales (simp_all add: card_by_id_key_def)

interpretation card_numbers: cached_table card_by_number_key value_card VCard
  by unfold_locales (simp_all add: card_by_number_key_def)

interpretation card_users: cached_table card_by_user_id_key value_card VCard
  by unfold_locales (simp_all add: card_by_user_id_key_def)

text \<open>An operation on the table touches only the card \<open>i\<close>, and nothing when it fails.\<close>

definition touches_only :: "int \<Rightarrow> (go_error, 'a, card_db) op \<Rightarrow> bool" where
  "touches_only i m \<longleftrightarrow>
     (\<forall>db r db'. m db = (r, db') \<longrightarrow>
        (\<forall>k. k \<noteq> i \<longrightarrow> get_card_by_id k db' = get_card_by_id k db) \<and> (isl r \<longrightarrow> cards db' = cards db))"

lemma find_update_other:
  assumes "\<And>c. cd_id (f c) = cd_id c" "\<And>c. p c \<Longrightarrow> cd_id c = i" "k \<noteq> i"
  shows "find (live_card k) (update_where p f cs) = find (live_card k) cs"
  using assms by (induction cs) (auto simp: update_where_simps live_card_def)

lemma update_touches_only:
  assumes "\<And>c. cd_id (f c) = cd_id c" "\<And>c. p c \<Longrightarrow> cd_id c = i"
  shows "touches_only i (on_cards (update_returning p refuse f))"
  using find_update_other [of f p i] assms
  by (auto simp: touches_only_def on_cards_def zoom_def update_returning_def get_card_by_id_def
      split: prod.splits option.splits)

lemma map_error_touches: "touches_only i m \<Longrightarrow> touches_only i (map_error f m)"
  by (auto simp: touches_only_def map_error_def split: prod.splits sum.splits)

lemma with_fault_touches: "touches_only i m \<Longrightarrow> (\<forall>e. fl \<noteq> Lose e) \<Longrightarrow> touches_only i (with_fault fl m)"
  by (auto simp: touches_only_def with_fault_def split: fault.splits)

lemma find_filter_keep: "(\<And>c. p c \<Longrightarrow> q c) \<Longrightarrow> find p (filter q cs) = find p cs"
  by (induction cs) auto

lemma delete_touches_only: "touches_only i (delete_card_permanently_sql i)"
proof -
  have "find (live_card k) (filter (\<lambda>c. \<not> (cd_id c = i \<and> \<not> card_live c)) cs) = find (live_card k) cs" for k cs
    by (rule find_filter_keep) (simp add: live_card_def)
  then show ?thesis
    by (auto simp: touches_only_def delete_card_permanently_sql_def delete_cards_where_def get_card_by_id_def
        simp del: de_Morgan_conj split: if_splits)
qed

lemma redeem_touches_only:
  assumes "\<forall>e. fl \<noteq> Lose e" "go_int32 i = i"
  shows "touches_only i (repo_redeem_points fl fl' now i points)"
proof -
  have "touches_only i (with_fault fl (redeem_reward_points_sql now i (go_int32 points)))"
    using assms by (auto simp: redeem_reward_points_sql_def live_card_def intro!: with_fault_touches update_touches_only)
  then show ?thesis using assms(2)
    by (auto simp: touches_only_def repo_redeem_points_def try_or_def ret_def split: prod.splits sum.splits if_splits)
qed

lemma command_touches_only:
  assumes "reply_kept env i"
  shows "uc_card req = i \<Longrightarrow> touches_only i (repo_update_card (ce_db env) now req)"
    "touches_only i (repo_trashed_card (ce_db env) now i)"
    "touches_only i (repo_restore_card (ce_db env) i)"
    "touches_only i (repo_delete_card_permanent (ce_db env) i)"
    "touches_only i (repo_toggle_card_status (ce_db env) now i)"
    "touches_only i (repo_update_credit_limit (ce_db env) now i lim)"
    "touches_only i (repo_redeem_points (ce_db env) fl' now i points)"
proof -
  have i: "go_int32 i = i" and fl: "\<forall>e. ce_db env \<noteq> Lose e" using assms by (simp_all add: reply_kept_def)
  note sql = update_card_sql_def trash_card_sql_def restore_card_sql_def toggle_card_status_sql_def update_credit_limit_sql_def
  note intros = map_error_touches with_fault_touches update_touches_only delete_touches_only
  show "uc_card req = i \<Longrightarrow> touches_only i (repo_update_card (ce_db env) now req)"
    using fl i by (auto simp: repo_update_card_def sql live_card_def intro!: intros)
  show "touches_only i (repo_trashed_card (ce_db env) now i)" "touches_only i (repo_restore_card (ce_db env) i)"
    "touches_only i (repo_toggle_card_status (ce_db env) now i)"
    "touches_only i (repo_update_credit_limit (ce_db env) now i lim)"
    using fl i by (auto simp: repo_trashed_card_def repo_restore_card_def repo_toggle_card_status_def
        repo_update_credit_limit_def sql live_card_def intro!: intros)
  show "touches_only i (repo_delete_card_permanent (ce_db env) i)"
    using fl i by (auto simp: repo_delete_card_permanent_def intro!: intros)
  show "touches_only i (repo_redeem_points (ce_db env) fl' now i points)"
    by (rule redeem_touches_only [OF fl i])
qed

definition finds_more :: "(go_error, 'a, card_db) op \<Rightarrow> bool" where
  "finds_more m \<longleftrightarrow>
     (\<forall>db k c. distinct (map cd_id (cards db)) \<longrightarrow>
        get_card_by_id k db = Some c \<longrightarrow> get_card_by_id k (snd (m db)) = Some c)"

lemma finds_more_look:
  assumes "finds_more m" "distinct (map cd_id (cards db))" "card_look db i = Some c"
  shows "card_look (snd (m db)) i = Some c"
  using assms by (auto simp: finds_more_def card_look_def split: if_splits)

lemma map_error_finds: "finds_more m \<Longrightarrow> finds_more (map_error f m)"
proof -
  have "snd (map_error f m db) = snd (m db)" for db
    by (simp add: map_error_def split: prod.splits sum.splits)
  then show "finds_more m \<Longrightarrow> finds_more (map_error f m)" by (simp add: finds_more_def)
qed

lemma with_fault_finds: "finds_more m \<Longrightarrow> finds_more (with_fault fl m)"
  by (auto simp: finds_more_def with_fault_def split: fault.splits)

lemma create_finds: "finds_more (create_card_sql now user num typ expire cvv provider)"
  by (auto simp: finds_more_def create_card_sql_def get_card_by_id_def Let_def find_append)

lemma find_live_iff:
  "distinct (map cd_id cs) \<Longrightarrow> find (live_card k) cs = Some c \<longleftrightarrow> c \<in> set cs \<and> live_card k c"
  by (induction cs) (auto simp: live_card_def)

lemma restore_all_finds: "finds_more restore_all_cards_sql"
proof -
  have "find (live_card k) (update_where (\<lambda>c. \<not> card_live c) (\<lambda>c. c\<lparr>cd_deleted := None\<rparr>) cs) = Some c"
    if d: "distinct (map cd_id cs)" and f: "find (live_card k) cs = Some c" for k cs c
  proof -
    have c: "c \<in> set cs" "live_card k c" using f find_live_iff [OF d] by simp_all
    then have "c \<in> set (update_where (\<lambda>c. \<not> card_live c) (\<lambda>c. c\<lparr>cd_deleted := None\<rparr>) cs)"
      by (auto simp: set_update_where live_card_def)
    moreover have "distinct (map cd_id (update_where (\<lambda>c. \<not> card_live c) (\<lambda>c. c\<lparr>cd_deleted := None\<rparr>) cs))"
      using d by (subst map_update_where) auto
    ultimately show ?thesis using find_live_iff c(2) by blast
  qed
  then show ?thesis
    by (auto simp: finds_more_def restore_all_cards_sql_def on_cards_def zoom_def get_card_by_id_def)
qed

lemma delete_all_finds: "finds_more delete_all_permanent_cards_sql"
proof -
  have "find (live_card k) (filter (\<lambda>c. \<not> \<not> card_live c) cs) = find (live_card k) cs" for k cs
    by (rule find_filter_keep) (simp add: live_card_def)
  then show ?thesis
    by (auto simp: finds_more_def delete_all_permanent_cards_sql_def delete_cards_where_def get_card_by_id_def)
qed

lemma cycles_find: "finds_more (create_billing_cycles_sql now start finish due)"
  by (auto simp: finds_more_def create_billing_cycles_sql_def get_card_by_id_def Let_def)

section \<open>Every step is one statement on the tables\<close>

definition one_statement :: "(go_error, 'a, card_db) op \<Rightarrow> bool" where
  "one_statement m \<longleftrightarrow> (\<forall>db. snd (m db) = db \<or> card_step db (snd (m db)))"

lemma one_statement_map_error: "one_statement m \<Longrightarrow> one_statement (map_error f m)"
proof -
  have "snd (map_error f m db) = snd (m db)" for db
    by (simp add: map_error_def split: prod.splits sum.splits)
  then show "one_statement m \<Longrightarrow> one_statement (map_error f m)" by (simp add: one_statement_def)
qed

lemma one_statement_with_fault: "one_statement m \<Longrightarrow> one_statement (with_fault fl m)"
  by (auto simp: one_statement_def with_fault_def split: fault.splits)

lemma one_statement_redeem:
  assumes "1 \<le> points" "fits_int32 points"
  shows "one_statement (repo_redeem_points fl fl' now i points)"
proof -
  have "one_statement (with_fault fl (redeem_reward_points_sql now (go_int32 i) (go_int32 points)))"
    by (rule one_statement_with_fault) (use assms in \<open>auto simp: one_statement_def intro: card_step.intros\<close>)
  then show ?thesis
    by (auto simp: one_statement_def repo_redeem_points_def try_or_def ret_def split: prod.splits sum.splits)
      (metis snd_conv)+
qed

lemma one_statement_cycles: "one_statement (repo_create_billing_cycles fl now start finish due)"
proof -
  have "one_statement (with_fault fl (create_billing_cycles_sql now start finish due))"
    by (rule one_statement_with_fault) (auto simp: one_statement_def intro: card_step.intros)
  then show ?thesis
    by (auto simp: one_statement_def repo_create_billing_cycles_def try_or_def ret_def split: prod.splits sum.splits)
      (metis snd_conv)+
qed

lemma one_statement_repo:
  "one_statement (repo_create_card fl now decimals req)" "one_statement (repo_update_card fl now req')"
  "one_statement (repo_trashed_card fl now i)" "one_statement (repo_restore_card fl i)"
  "one_statement (repo_delete_card_permanent fl i)" "one_statement (repo_restore_all_card fl)"
  "one_statement (repo_delete_all_card_permanent fl)" "one_statement (repo_toggle_card_status fl now i)"
  "one_statement (repo_update_credit_limit fl now i lim)"
  unfolding repo_create_card_def repo_update_card_def repo_trashed_card_def repo_restore_card_def
    repo_delete_card_permanent_def repo_restore_all_card_def repo_delete_all_card_permanent_def
    repo_toggle_card_status_def repo_update_credit_limit_def
  by (intro one_statement_map_error one_statement_with_fault; auto simp: one_statement_def intro: card_step.intros)+

lemma db_after:
  "cw_db (snd (try_or (on_card_db m) card_fail k w)) = snd (m (cw_db w))"
  if "\<And>x w'. cw_db (snd (k x w')) = cw_db w'" for k :: "'a \<Rightarrow> card_world \<Rightarrow> (go_error + 'b) \<times> card_world"
  using that by (simp add: try_or_def on_card_db_def zoom_def card_fail_def ret_def split: prod.splits sum.splits)

lemma cw_db_simps [simp]:
  "cw_db (send_message env topic key msg w) = cw_db w" "cw_cache (send_message env topic key msg w) = cw_cache w"
  "cw_db (publish_new_card env user c w) = cw_db w" "cw_cache (publish_new_card env user c w) = cw_cache w"
  "cw_db (delete_card_command_cache env i w) = cw_db w"
  by (simp_all add: send_message_def publish_new_card_def delete_card_command_cache_def)

lemma command_db: "cw_db (snd (card_command env i m w)) = snd (m (cw_db w))"
  unfolding card_command_def by (rule db_after) simp

lemma zoom_cache_db [simp]: "cw_db (snd (with_cache m w)) = cw_db w"
  by (simp add: with_cache_def zoom_def split: prod.splits)

lemma user_card_db [simp]: "cw_db (snd (svc_find_user_card_by_card_number env num w)) = cw_db w"
  by (simp add: svc_find_user_card_by_card_number_def Let_def split: option.splits sum.splits)

lemma create_card_db:
  "snd (svc_create_card env req w) = w
   \<or> cw_db (snd (svc_create_card env req w)) = snd (repo_create_card (ce_db env) (clock env) (ce_decimals env) req (cw_db w))
     \<and> cw_cache (snd (svc_create_card env req w)) = cw_cache w"
  by (auto simp: svc_create_card_def try_or_def on_card_db_def zoom_def card_fail_def ret_def
      split: prod.splits sum.splits)

lemma trigger_db:
  obtains "snd (svc_trigger_billing_cycle env d w) = w"
  | start finish where
      "cw_db (snd (svc_trigger_billing_cycle env d w))
         = snd (repo_create_billing_cycles (ce_db env) (clock env) start finish finish (cw_db w))"
      "cw_cache (snd (svc_trigger_billing_cycle env d w)) = cw_cache w"
proof (cases "d < 1 \<or> d > 31")
  case True
  then show ?thesis using that(1) by (simp add: svc_trigger_billing_cycle_def card_fail_def ret_def)
next
  case False
  show ?thesis
    by (rule that(2) [of "fst (billing_period (clock env) d)" "snd (billing_period (clock env) d)"])
      (use False in \<open>simp_all add: svc_trigger_billing_cycle_def try_or_def on_card_db_def zoom_def card_fail_def
        ret_def split: prod.splits sum.splits\<close>)
qed

lemma restore_all_db:
  "cw_db (snd (svc_restore_all_card env w)) = snd (repo_restore_all_card (ce_db env) (cw_db w))
   \<and> cw_cache (snd (svc_restore_all_card env w)) = cw_cache w"
  by (simp add: svc_restore_all_card_def try_or_def on_card_db_def zoom_def card_fail_def ret_def
      split: prod.splits sum.splits)

lemma delete_all_db:
  "cw_db (snd (svc_delete_all_card_permanent env w)) = snd (repo_delete_all_card_permanent (ce_db env) (cw_db w))
   \<and> cw_cache (snd (svc_delete_all_card_permanent env w)) = cw_cache w"
  by (simp add: svc_delete_all_card_permanent_def try_or_def on_card_db_def zoom_def card_fail_def ret_def
      split: prod.splits sum.splits)

lemma one_statementD: "one_statement m \<Longrightarrow> m db = (r, db') \<Longrightarrow> db' = db \<or> card_step db db'"
  unfolding one_statement_def by (metis snd_conv)

lemma card_write_statement: "card_write env i db answered db' \<Longrightarrow> db' = db \<or> card_step db db'"
proof (induction rule: card_write.induct)
  case (redeems points env i db r db')
  show ?case by (rule one_statementD [OF one_statement_redeem [OF redeems(1,2)] redeems(3)])
qed (erule one_statementD [rotated], rule one_statement_repo)+

lemma touches_onlyD:
  "touches_only i m \<Longrightarrow> m db = (r, db') \<Longrightarrow>
   (\<forall>k. k \<noteq> i \<longrightarrow> get_card_by_id k db' = get_card_by_id k db) \<and> (\<not> \<not> isl r \<longrightarrow> cards db' = cards db)"
  unfolding touches_only_def by simp

lemma card_write_effect:
  "card_write env i db answered db' \<Longrightarrow> reply_kept env i \<Longrightarrow>
   (\<forall>k. k \<noteq> i \<longrightarrow> get_card_by_id k db' = get_card_by_id k db) \<and> (\<not> answered \<longrightarrow> cards db' = cards db)"
proof (induction rule: card_write.induct)
  case (updates env req db r db')
  show ?case by (rule touches_onlyD [OF command_touches_only(1) [OF updates(2) refl] updates(1)])
next
  case (trashes env i db r db')
  show ?case by (rule touches_onlyD [OF command_touches_only(2) [OF trashes(2)] trashes(1)])
next
  case (restores env i db r db')
  show ?case by (rule touches_onlyD [OF command_touches_only(3) [OF restores(2)] restores(1)])
next
  case (deletes env i db u db')
  show ?case by (rule touches_onlyD [OF command_touches_only(4) [OF deletes(2)] deletes(1)])
next
  case (toggles env i db r db')
  show ?case by (rule touches_onlyD [OF command_touches_only(5) [OF toggles(2)] toggles(1)])
next
  case (limits env i lim db r db')
  show ?case by (rule touches_onlyD [OF command_touches_only(6) [OF limits(2)] limits(1)])
next
  case (redeems points env i db r db')
  show ?case by (rule touches_onlyD [OF command_touches_only(7) [OF redeems(4)] redeems(3)])
qed

lemma card_write_touches:
  assumes "card_write env i db answered db'" "reply_kept env i"
  shows "k \<noteq> i \<Longrightarrow> get_card_by_id k db' = get_card_by_id k db" "\<not> answered \<Longrightarrow> cards db' = cards db"
  using card_write_effect [OF assms] by blast+

lemma cached_find_other:
  "q \<noteq> key \<Longrightarrow> snd (cached_find env key sel wrap ttl fetched st) q = st q"
  by (simp add: cached_find_def split: option.splits sum.splits)

lemma keys_differ:
  "card_by_id_key i \<noteq> card_by_number_key num" "card_by_id_key i \<noteq> card_by_user_id_key user"
  "card_by_id_key i \<noteq> user_card_key num" "card_by_id_key i \<noteq> page_key ''all'' page"
  "card_by_id_key i \<noteq> page_key ''active'' page" "card_by_id_key i \<noteq> page_key ''trashed'' page"
  by (simp_all add: card_by_id_key_def card_by_number_key_def card_by_user_id_key_def user_card_key_def page_key_def)

lemma listing_other_key:
  "card_by_id_key i \<noteq> page_key kind page \<Longrightarrow>
   snd (cached_listing env kind operation page fetched st) (card_by_id_key i) = st (card_by_id_key i)"
  by (simp add: cached_listing_def cached_page_def cached_find_other)

lemma repo_find_by_id_found:
  "fits_int32 i \<Longrightarrow> handled (repo_find_by_id fl i db) = Inr c \<Longrightarrow> card_look db i = Some c"
  by (auto simp: handled_def map_read_error_def repo_find_by_id_def read_fault_def row_or_none_def card_look_def
      split: sum.splits fault.splits option.splits)

lemma with_cache_snd: "cw_cache (snd (with_cache m w)) = snd (m (cw_cache w))"
  by (simp add: with_cache_def zoom_def split: prod.splits)

lemma user_card_other_key:
  "cw_cache (snd (svc_find_user_card_by_card_number env num w)) (card_by_id_key i) = cw_cache w (card_by_id_key i)"
  using keys_differ(3) [of i num]
  by (simp add: svc_find_user_card_by_card_number_def Let_def split: option.splits sum.splits)

lemma cycles_repo_finds: "finds_more (repo_create_billing_cycles fl now start finish due)"
proof -
  have "snd (repo_create_billing_cycles fl now start finish due db)
      = snd (with_fault fl (create_billing_cycles_sql now start finish due) db)" for db
    by (simp add: repo_create_billing_cycles_def try_or_def ret_def split: prod.splits sum.splits)
  then show ?thesis using with_fault_finds [OF cycles_find] by (simp add: finds_more_def)
qed

text \<open>What the other operations do: one statement under which every card found is found again, or a query.\<close>

lemma other_step_cases:
  assumes "other_step w w'"
  shows "(cw_db w' = cw_db w \<or> card_step (cw_db w) (cw_db w'))
    \<and> (\<forall>i. cw_cache w' (card_by_id_key i) = cw_cache w (card_by_id_key i))
    \<and> (distinct (map cd_id (cards (cw_db w))) \<longrightarrow>
         (\<forall>i c. card_look (cw_db w) i = Some c \<longrightarrow> card_look (cw_db w') i = Some c))"
  using assms
proof (induction rule: other_step.induct)
  case (1 w env req)
  show ?case
    using create_card_db [of env req w] one_statement_repo(1) finds_more_look
      map_error_finds [OF with_fault_finds [OF create_finds]]
    by (metis one_statement_def repo_create_card_def)
next
  case (2 w env)
  have "finds_more (repo_restore_all_card (ce_db env))"
    by (simp add: repo_restore_all_card_def map_error_finds with_fault_finds restore_all_finds)
  with restore_all_db [of env w] one_statement_repo(6) finds_more_look show ?case by (metis one_statement_def)
next
  case (3 w env)
  have "finds_more (repo_delete_all_card_permanent (ce_db env))"
    by (simp add: repo_delete_all_card_permanent_def map_error_finds with_fault_finds delete_all_finds)
  with delete_all_db [of env w] one_statement_repo(7) finds_more_look show ?case by (metis one_statement_def)
next
  case (4 w env d)
  show ?case
  proof (rule trigger_db [of env d w])
    fix start finish
    assume run: "cw_db (snd (svc_trigger_billing_cycle env d w))
         = snd (repo_create_billing_cycles (ce_db env) (clock env) start finish finish (cw_db w))"
      "cw_cache (snd (svc_trigger_billing_cycle env d w)) = cw_cache w"
    then show ?thesis
      using one_statement_cycles finds_more_look [OF cycles_repo_finds] by (metis one_statement_def)
  qed simp
next
  case (10 w env num)
  show ?case by (simp add: user_card_other_key)
qed (simp_all add: svc_find_all_def svc_find_by_active_def svc_find_by_trashed_def svc_find_card_by_number_def
    svc_find_by_user_id_def with_cache_snd listing_other_key cached_find_other keys_differ)

section \<open>The invariant\<close>

text \<open>
  A lookup that was not overtaken holds the live row; an entry of a card is the live row
  unless its key is to be deleted or was stored by an overtaken lookup.
\<close>

definition reads_current :: "card_threads \<Rightarrow> bool" where
  "reads_current s \<longleftrightarrow> (\<forall>i c. (i, c, False) \<in> set (ct_reads s) \<longrightarrow> card_look (cw_db (ct_world s)) i = Some c)"

definition threads_ok :: "card_threads \<Rightarrow> bool" where
  "threads_ok s \<longleftrightarrow> card_db_ok (cw_db (ct_world s)) \<and> reads_current s
     \<and> cards_coherent (set (ct_drops s) \<union> ct_stale s) (ct_world s)"

lemma thread_step_keeps: "thread_step s s' \<Longrightarrow> threads_ok s \<Longrightarrow> threads_ok s'"
proof (induction rule: thread_step.induct)
  case (fetched i env s c)
  then show ?case
    using repo_find_by_id_found [OF fetched(1), of "ce_db env" "cw_db (ct_world s)" c]
    by (auto simp: threads_ok_def reads_current_def read_card_def)
next
  case (stored i c late s env)
  let ?w = "store_card env i c (ct_world s)"
  have read: "late \<or> card_look (cw_db (ct_world s)) i = Some c"
    using stored by (cases late) (auto simp: threads_ok_def reads_current_def)
  have "cards_coherent (set (ct_drops s) \<union> (if late then insert i (ct_stale s) else ct_stale s)) ?w"
    unfolding cards_coherent_def
  proof (intro allI impI)
    fix k v x c'
    assume k: "k \<notin> set (ct_drops s) \<union> (if late then insert i (ct_stale s) else ct_stale s)"
      and entry: "cw_cache ?w (card_by_id_key k) = Some (v, x)" and v: "value_card v = Some c'"
    show "card_look (cw_db ?w) k = Some c'"
    proof (cases "k = i \<and> v = VCard c")
      case True
      with read k v show ?thesis by (auto simp: store_card_def)
    next
      case False
      with entry have "cw_cache (ct_world s) (card_by_id_key k) = Some (v, x)"
        by (cases "k = i") (auto simp: store_card_def dest!: set_to_cache_stored)
      with stored(2) k v show ?thesis
        by (auto simp: threads_ok_def cards_coherent_def store_card_def split: if_splits)
    qed
  qed
  moreover have "reads_current (s\<lparr>ct_world := ?w, ct_reads := remove1 (i, c, late) (ct_reads s)\<rparr>)"
    using stored(2) notin_set_remove1 by (fastforce simp: threads_ok_def reads_current_def store_card_def)
  ultimately show ?case using stored(2) by (simp add: threads_ok_def reads_current_def store_card_def)
next
  case (written env i s answered db')
  note touches = card_write_touches [OF written(2,1)]
  have ok: "card_db_ok db'"
    using card_write_statement [OF written(2)] written(3) card_step_keeps_ok by (auto simp: threads_ok_def)
  have other: "card_look db' k = card_look (cw_db (ct_world s)) k" if "k \<noteq> i \<or> \<not> answered" for k
    using touches that by (auto simp: card_look_def get_card_by_id_def)
  have "reads_current (s\<lparr>ct_world := (ct_world s)\<lparr>cw_db := db'\<rparr>, ct_reads := overtake i (ct_reads s)\<rparr>)"
    using written(3) other by (auto simp: threads_ok_def reads_current_def overtake_mem)
  moreover have "cards_coherent (set (if answered then i # ct_drops s else ct_drops s) \<union> ct_stale s)
      ((ct_world s)\<lparr>cw_db := db'\<rparr>)"
    using written(3) other by (auto simp: threads_ok_def cards_coherent_def split: if_splits)
  ultimately show ?case using ok by (simp add: threads_ok_def reads_current_def)
next
  case (dropped i s env)
  let ?w = "delete_card_command_cache env i (ct_world s)"
  have "cards_coherent (set (remove1 i (ct_drops s)) \<union> (ct_stale s - {i})) ?w"
    unfolding cards_coherent_def
  proof (intro allI impI)
    fix k v x c
    assume k: "k \<notin> set (remove1 i (ct_drops s)) \<union> (ct_stale s - {i})"
      and entry: "cw_cache ?w (card_by_id_key k) = Some (v, x)" and v: "value_card v = Some c"
    have "k \<noteq> i" using entry dropped(2) by (auto simp: delete_card_command_cache_def delete_from_cache_def)
    with k have "k \<notin> set (ct_drops s) \<union> ct_stale s" by (auto simp: in_set_remove1)
    with entry v dropped(3) show "card_look (cw_db ?w) k = Some c"
      by (auto simp: threads_ok_def cards_coherent_def delete_card_command_cache_def dest!: delete_from_cache_stored)
  qed
  then show ?case using dropped(3) by (simp add: threads_ok_def reads_current_def)
next
  case (other s w')
  have "distinct (map cd_id (cards (cw_db (ct_world s))))"
    using other(2) by (simp add: threads_ok_def card_db_ok_def keys_ok_def ids_ok_def)
  with other_step_cases [OF other(1)] other(2) card_step_keeps_ok show ?case
    by (auto simp: threads_ok_def reads_current_def cards_coherent_def)
qed

lemma threads_reachable_ok: "threads_reachable s \<Longrightarrow> threads_ok s"
proof (induction rule: threads_reachable.induct)
  case initial
  have "card_db_ok empty_card_db"
    by (simp add: card_db_ok_def keys_ok_def references_ok_def referenced_cards_def values_ok_def ids_ok_def empty_card_db_def)
  then show ?case by (simp add: threads_ok_def reads_current_def cards_coherent_def no_threads_def)
next
  case (step s s')
  then show ?case by (auto intro: thread_step_keeps)
qed


text \<open>A service whose database, Redis and Kafka answer, with a user 1.\<close>

definition sample_card_env :: card_env where
  "sample_card_env =
     \<lparr>ce_cache = \<lparr>ce_now = 7, ce_rand = (\<lambda>n. 0), ce_get_ok = True, ce_set_ok = True, ce_del_ok = True\<rparr>,
      ce_db = Deliver, ce_db2 = Deliver, ce_user = (\<lambda>i. if i = 1 then Inr (Some ''a@b'') else Inl ErrNotFound),
      ce_kafka = True, ce_sent = (\<lambda>t. True), ce_decimals = ''000000000000001''\<rparr>"

definition sample_card_world :: card_world where
  "sample_card_world =
     snd (svc_create_card sample_card_env
       \<lparr>cc_user = 1, cc_type = ''debit'', cc_expire = 0, cc_cvv = ''123'', cc_provider = ''visa''\<rparr>
       \<lparr>cw_db = empty_card_db, cw_cache = Map.empty, cw_sent = []\<rparr>)"

text \<open>A lookup of the card reads it before a command trashes it, and stores it afterwards.\<close>

definition sample_view :: card_view where
  "sample_view = the (get_card_by_id 1 (cw_db sample_card_world))"

lemma sample_threads: "threads_reachable (no_threads sample_card_world)"
proof -
  let ?s = "no_threads \<lparr>cw_db = empty_card_db, cw_cache = Map.empty, cw_sent = []\<rparr>"
  have "thread_step ?s (?s\<lparr>ct_world := sample_card_world\<rparr>)"
    unfolding sample_card_world_def by (rule thread_step.other) (simp add: no_threads_def other_step.intros(1))
  from threads_reachable.step [OF threads_reachable.initial this] show ?thesis by (simp add: no_threads_def)
qed

text \<open>In the witness a lookup stores the card, and a command on it has come and gone.\<close>

definition sample_trashed :: card_threads where
  "sample_trashed = no_threads (snd (svc_trashed_card sample_card_env 1 (snd (svc_find_by_id sample_card_env 1 sample_card_world))))"

lemma sample_trashed_reachable: "threads_reachable sample_trashed"
proof -
  let ?s0 = "no_threads sample_card_world" and ?env = sample_card_env
  have read: "read_card ?env 1 sample_card_world = Inr sample_view"
    and miss: "get_from_cache (ce_cache ?env) (card_by_id_key 1) (cw_cache sample_card_world) = None" by code_simp+
  have one: "fits_int32 1" "reply_kept ?env 1" "ce_del_ok (ce_cache ?env)" "ce_db ?env = Deliver"
    by (simp_all add: fits_int32_def reply_kept_def sample_card_env_def)
  let ?w1 = "store_card ?env 1 sample_view sample_card_world"
  have w1: "snd (svc_find_by_id ?env 1 sample_card_world) = ?w1" using read miss by (simp add: find_by_id_halves)
  obtain r db where t: "repo_trashed_card Deliver (clock ?env) 1 (cw_db ?w1) = (r, db)" by fastforce
  have "\<not> isl (fst (repo_trashed_card Deliver (clock ?env) 1 (cw_db ?w1)))" by code_simp
  then have r: "\<not> isl r" by (simp add: t)
  have "threads_reachable (?s0\<lparr>ct_reads := [(1, sample_view, False)]\<rparr>)"
    using threads_reachable.step [OF sample_threads thread_step.fetched [OF one(1), of ?env ?s0 sample_view]] read
    by (simp add: no_threads_def)
  from threads_reachable.step [OF this thread_step.stored [of 1 sample_view False _ ?env]]
  have "threads_reachable (no_threads ?w1)" by (simp add: no_threads_def)
  from threads_reachable.step [OF this thread_step.written [OF one(2), of _ "\<not> isl r" db]]
    card_write.trashes [of ?env 1 "cw_db ?w1" r db] t r one(4)
  have "threads_reachable ((no_threads (?w1\<lparr>cw_db := db\<rparr>))\<lparr>ct_drops := [1]\<rparr>)"
    by (simp add: no_threads_def overtake_def)
  from threads_reachable.step [OF this thread_step.dropped [of 1 _ ?env]] one(3)
  have "threads_reachable (no_threads (delete_card_command_cache ?env 1 (?w1\<lparr>cw_db := db\<rparr>)))"
    by (simp add: no_threads_def)
  moreover have "snd (svc_trashed_card ?env 1 ?w1) = delete_card_command_cache ?env 1 (?w1\<lparr>cw_db := db\<rparr>)"
    using t r one(4) by (cases r) (simp_all add: svc_trashed_card_def card_command_halves)
  ultimately show ?thesis by (simp add: sample_trashed_def w1)
qed


section \<open>What the cache still answers\<close>

text \<open>
  A lookup that misses the cache reads the card before a command trashes it and stores it
  after the command has deleted the key: from then on the trashed card is answered from the
  cache, with no operation under way, for the lifetime of the entry.
\<close>

lemma overtaken_lookup_caches_a_trashed_card:
  "case read_card sample_card_env 1 sample_card_world of
     Inl e \<Rightarrow> False
   | Inr c \<Rightarrow>
       let w1 = snd (svc_trashed_card sample_card_env 1 sample_card_world); w2 = store_card sample_card_env 1 c w1
       in get_card_by_id 1 (cw_db w2) = None \<and> fst (svc_find_by_id sample_card_env 1 w2) = Inr c"
  by code_simp

text \<open>
  A command deletes the entry of the card by id only. The lookup by number goes on
  answering a trashed card, on which payments rely, for the rest of its lifetime.
\<close>

lemma trashed_card_found_by_number:
  "let w1 = snd (svc_find_card_by_number sample_card_env ''4000000000000001'' sample_card_world);
       w2 = snd (svc_trashed_card sample_card_env 1 w1)
   in get_card_by_number ''4000000000000001'' (cw_db w2) = None
      \<and> \<not> isl (fst (svc_find_card_by_number sample_card_env ''4000000000000001'' w2))"
  by code_simp

text \<open>When the reply of a command is lost its error skips the deletion: the old card stays cached.\<close>

lemma lost_reply_leaves_the_cache:
  "let w1 = snd (svc_find_by_id sample_card_env 1 sample_card_world);
       w2 = snd (svc_trashed_card (sample_card_env\<lparr>ce_db := Lose ErrTimeout\<rparr>) 1 w1)
   in get_card_by_id 1 (cw_db w2) = None \<and> \<not> isl (fst (svc_find_by_id sample_card_env 1 w2))"
  by code_simp

text \<open>A suspended card is found like an active one: the lookups do not select the status.\<close>

lemma suspension_is_invisible: "view_of (c\<lparr>cd_status := st\<rparr>) = view_of c"
  by (simp add: view_of_def)

end
