(* ===== verification/CardBilling.thy ===== *)
theory CardBilling
  imports CardCoherence
begin

text \<open>
  What a run of the billing engine (\<open>service/card/service/billingEngineService.go\<close>) leaves
  behind: one cycle per live card and period, whatever was billed before, and nothing more
  when it runs again.
\<close>

definition unbilled :: "int \<Rightarrow> card_db \<Rightarrow> card_row list" where
  "unbilled start db =
     filter (\<lambda>c. (cd_number c, start) \<notin> set (map cycle_key (cycles db))) (filter card_live (cards db))"

lemma created_count:
  "length (filter (\<lambda>b. cycle_key b \<notin> K) (proposed_cycles now start finish due db))
   = length (filter (\<lambda>c. (cd_number c, start) \<notin> K) (filter card_live (cards db)))"
proof -
  have "length (filter (\<lambda>k. k \<notin> K) (map cycle_key (proposed_cycles now start finish due db)))
      = length (filter (\<lambda>k. k \<notin> K) (map (\<lambda>c. (cd_number c, start)) (filter card_live (cards db))))"
    by (simp only: proposed_cycle_cards)
  then show ?thesis by (simp add: filter_map comp_def)
qed

lemma proposed_ok:
  assumes "card_reachable db" "start < finish"
  shows "list_all cycle_ok (proposed_cycles now start finish finish db)"
proof -
  have "bc_start b = start \<and> bc_end b = finish \<and> bc_due b = finish"
    if "b \<in> set (proposed_cycles now start finish finish db)" for b
    using that by (auto simp: proposed_cycles_def new_cycle_def)
  then show ?thesis using assms(2) bills_are_about_nothing [OF assms(1)] by (auto simp: list_all_iff cycle_ok_def)
qed

definition room_for :: "int \<Rightarrow> card_db \<Rightarrow> bool" where
  "room_for n db \<longleftrightarrow> cycle_seq db + n * int (length (cards db)) \<le> 2147483648"

lemma room_for_proposed:
  "room_for 1 db \<Longrightarrow> cycle_seq db + int (length (proposed_cycles now start finish due db)) \<le> 2147483648"
proof -
  have "length (proposed_cycles now start finish due db) \<le> length (cards db)"
    by (simp add: proposed_cycles_def)
  then show "room_for 1 db \<Longrightarrow> ?thesis" by (simp add: room_for_def)
qed

lemma create_cycles_delivered:
  assumes "card_reachable db" "start < finish" "room_for 1 db"
  shows "create_billing_cycles_sql now start finish finish db =
     (let created = filter (\<lambda>b. cycle_key b \<notin> set (map cycle_key (cycles db)))
                      (proposed_cycles now start finish finish db)
      in (Inr created, db\<lparr>cycles := cycles db @ created,
            cycle_seq := cycle_seq db + int (length (proposed_cycles now start finish finish db))\<rparr>))"
  using proposed_ok [OF assms(1,2), of now] room_for_proposed [OF assms(3), of now start finish finish]
  by (simp add: create_billing_cycles_sql_def Let_def)

lemma billed_once:
  assumes "card_reachable db" "start < finish" "room_for 1 db"
    "create_billing_cycles_sql now start finish finish db = (r, db')" "c \<in> set (cards db)" "card_live c"
  shows "\<exists>!b. b \<in> set (cycles db') \<and> cycle_key b = (cd_number c, start)"
proof -
  have "card_step db db'" using card_step.intros(12) [of db now start finish finish] assms(4) by simp
  then have "distinct (map cycle_key (cycles db'))"
    using card_tables_ok [OF card_reachable.step [OF assms(1)]] by (simp add: card_db_ok_def keys_ok_def)
  moreover have "(cd_number c, start) \<in> set (map cycle_key (cycles db'))"
  proof -
    have "(cd_number c, start) \<in> set (map cycle_key (proposed_cycles now start finish finish db))"
      unfolding proposed_cycle_cards using assms(5,6) by auto
    then show ?thesis using assms(4) unfolding create_cycles_delivered [OF assms(1-3)]
      by (cases "(cd_number c, start) \<in> set (map cycle_key (cycles db))") (auto simp: Let_def)
  qed
  ultimately show ?thesis by (auto simp: distinct_map inj_on_def)
qed

lemma trigger_delivered:
  assumes "card_reachable (cw_db w)" "room_for 1 (cw_db w)" "1 \<le> d" "d \<le> 31" "ce_db env = Deliver"
    "billing_period (clock env) d = (start, finish)" "start < finish"
    "create_billing_cycles_sql (clock env) start finish finish (cw_db w) = (r, db')"
  shows "fst (svc_trigger_billing_cycle env d w) = Inr (int (length (unbilled start (cw_db w))))"
    "cw_db (snd (svc_trigger_billing_cycle env d w)) = db'"
  using assms(3-6,8) create_cycles_delivered [OF assms(1,7,2), of "clock env"]
  by (auto simp: svc_trigger_billing_cycle_def repo_create_billing_cycles_def try_or_def on_card_db_def zoom_def
      with_fault_def ret_def Let_def created_count unbilled_def)

lemma nothing_left_to_bill:
  assumes "\<And>c. c \<in> set (cards db) \<Longrightarrow> card_live c \<Longrightarrow> \<exists>!b. b \<in> set (cycles db') \<and> cycle_key b = (cd_number c, start)"
    "cards db' = cards db"
  shows "unbilled start db' = []"
  using assms unfolding unbilled_def by (force simp: filter_empty_conv)

text \<open>
  C27: with the database delivered and room in the id sequence, a billing run answers with
  the number of live cards that had no cycle of the period, afterwards every live card has
  exactly one, earlier cycles stay, and a second run on the tables it left, at any time
  before the next closing, creates none
\<close>

theorem billing_run_complete:
  assumes w: "card_reachable (cw_db w)" "room_for 2 (cw_db w)" and d: "1 \<le> d" "d \<le> 31"
    and env: "ce_db env = Deliver" "closing d k \<le> clock env" "clock env < closing d (k + 1)"
    and env': "ce_db env' = Deliver" "closing d k \<le> clock env'" "clock env' < closing d (k + 1)"
    and u: "cw_db u = cw_db (snd (svc_trigger_billing_cycle env d w))"
  shows "fst (svc_trigger_billing_cycle env d w) = Inr (int (length (unbilled (closing d (k - 1)) (cw_db w))))
    \<and> (\<forall>c \<in> set (cards (cw_db w)). card_live c \<longrightarrow>
         (\<exists>!b. b \<in> set (cycles (cw_db u)) \<and> cycle_key b = (cd_number c, closing d (k - 1))))
    \<and> set (cycles (cw_db w)) \<subseteq> set (cycles (cw_db u))
    \<and> fst (svc_trigger_billing_cycle env' d u) = Inr 0"
proof -
  let ?start = "closing d (k - 1)" and ?finish = "closing d k"
  note period = billing_period_between [OF d(1) env(2,3)] and period' = billing_period_between [OF d(1) env'(2,3)]
  have less: "?start < ?finish" using closing_step [OF d(1), of "k - 1"] by simp
  have room: "room_for 1 (cw_db w)" using w(2) by (simp add: room_for_def)
  obtain r db' where c: "create_billing_cycles_sql (clock env) ?start ?finish ?finish (cw_db w) = (r, db')" by fastforce
  note first = trigger_delivered [OF w(1) room d env(1) period less c]
  note once = billed_once [OF w(1) less room c]
  note db' = c [unfolded create_cycles_delivered [OF w(1) less room] Let_def, simplified]
  have eq: "cw_db u = db'" using u first(2) by simp
  have cards: "cards db' = cards (cw_db w)" and grow: "set (cycles (cw_db w)) \<subseteq> set (cycles db')" using db' by auto
  have "length (proposed_cycles (clock env) ?start ?finish ?finish (cw_db w)) \<le> length (cards (cw_db w))"
    by (simp add: proposed_cycles_def)
  then have room': "room_for 1 (cw_db u)" using w(2) db' by (auto simp: room_for_def eq)
  have reach': "card_reachable (cw_db u)"
    unfolding eq using card_reachable.step [OF w(1) card_step.intros(12)] c by (metis snd_conv)
  obtain r2 db2 where c2: "create_billing_cycles_sql (clock env') ?start ?finish ?finish (cw_db u) = (r2, db2)" by fastforce
  have "fst (svc_trigger_billing_cycle env' d u) = Inr (int (length (unbilled ?start (cw_db u))))"
    by (rule trigger_delivered(1) [OF reach' room' d env'(1) period' less c2])
  moreover have "unbilled ?start (cw_db u) = []"
    using nothing_left_to_bill [OF once cards] by (simp add: eq)
  ultimately show ?thesis using first once grow by (simp add: eq)
qed

text \<open>The second run of the witness is twenty days and three hours after the first.\<close>

theorem billing_run_complete_witness:
  "let env' = sample_card_env\<lparr>ce_cache := (ce_cache sample_card_env)\<lparr>ce_now := 20 * day + 3 * hour\<rparr>\<rparr>
   in fst (svc_trigger_billing_cycle sample_card_env 31 sample_card_world) = Inr 1
    \<and> fst (svc_trigger_billing_cycle env' 31 (snd (svc_trigger_billing_cycle sample_card_env 31 sample_card_world))) = Inr 0"
proof -
  let ?env' = "sample_card_env\<lparr>ce_cache := (ce_cache sample_card_env)\<lparr>ce_now := 20 * day + 3 * hour\<rparr>\<rparr>"
  have reach: "card_reachable (cw_db sample_card_world)"
    using other_step_cases [OF other_step.intros(1)] card_reachable.intros
    unfolding sample_card_world_def by (metis card_world.select_convs(1))
  have db: "cycle_seq (cw_db sample_card_world) = 1" "length (cards (cw_db sample_card_world)) = 1"
    "cycles (cw_db sample_card_world) = []" "filter card_live (cards (cw_db sample_card_world)) = cards (cw_db sample_card_world)"
    by code_simp+
  have times: "closing 31 23639 \<le> clock sample_card_env" "clock sample_card_env < closing 31 (23639 + 1)"
    "closing 31 23639 \<le> clock ?env'" "clock ?env' < closing 31 (23639 + 1)" by code_simp+
  have room: "room_for 2 (cw_db sample_card_world)" "length (unbilled start (cw_db sample_card_world)) = 1" for start
    using db by (simp_all add: room_for_def unbilled_def)
  have env: "ce_db sample_card_env = Deliver" "ce_db ?env' = Deliver" by (simp_all add: sample_card_env_def)
  show ?thesis
    using billing_run_complete [OF reach room(1) _ _ env(1) times(1,2) env(2) times(3,4) refl] room(2)
    by (simp add: Let_def)
qed

text \<open>
  A repeated run creates nothing, but every proposed row takes an id from the sequence, and
  once those 32-bit ids run out no further run succeeds.
\<close>

lemma repeated_run_burns_ids:
  assumes "card_reachable db" "start < finish" "room_for 1 db"
  shows "cycle_seq (snd (create_billing_cycles_sql now start finish finish db))
    = cycle_seq db + int (length (filter card_live (cards db)))"
  unfolding create_cycles_delivered [OF assms] by (simp add: Let_def proposed_cycles_def)

end
