(* ===== verification/CacheScan.thy ===== *)
theory CacheScan
  imports Cache "HOL-Library.Monad_Syntax"
begin

text \<open>
  The maintenance loops of \<open>shared/cache/redis_cache.go\<close>: \<open>ClearExpired\<close> and
  \<open>InvalidateCache\<close> call \<open>SCAN\<close> until it answers the cursor 0. Redis chooses the cursors and
  the batches, so the loops are partial functions; they end, and do their work, when the
  scan has the guarantees Redis documents.
\<close>

section \<open>The loops\<close>

text \<open>
  \<open>SCAN cursor MATCH pattern COUNT 1000\<close> answers keys and the next cursor, or an error.
  \<open>TTL\<close> answers -1 for a key without an expiry, -2 for one that is gone, and otherwise the
  time left rounded to seconds, which is 0 for a key that has less than half a second. The functions
  \<open>ttl_ok\<close> and \<open>del_ok\<close> say which of those commands Redis executes.
\<close>

record 'v scanner =
  sc_scan :: "int \<Rightarrow> string \<Rightarrow> 'v redis \<Rightarrow> go_error + string list \<times> int"
  sc_ttl_ok :: "string \<Rightarrow> bool"
  sc_del_ok :: "string \<Rightarrow> bool"

definition redis_del :: "string list \<Rightarrow> 'v redis \<Rightarrow> int \<times> 'v redis" where
  "redis_del keys st = (int (card {k \<in> set keys. st k \<noteq> None}), st |` (- set keys))"

partial_function (option) invalidate_loop ::
  "'v scanner \<Rightarrow> string \<Rightarrow> int \<Rightarrow> int \<Rightarrow> 'v redis \<Rightarrow> ((go_error + int) \<times> 'v redis) option" where
  "invalidate_loop sc pattern cursor deleted st =
     (case sc_scan sc cursor pattern st of
        Inl err \<Rightarrow> Some (Inl (Wrapped ''scan error: '' err), st)
      | Inr (keys, next_cursor) \<Rightarrow>
          if keys \<noteq> [] \<and> \<not> list_all (sc_del_ok sc) keys
          then Some (Inl (Wrapped ''delete error: '' (ErrorString ''redis'')), st)
          else (let (count, st') = (if keys \<noteq> [] then redis_del keys st else (0, st));
                    deleted' = go_int64 (deleted + count)
                in if next_cursor = 0 then Some (Inr deleted', st')
                   else invalidate_loop sc pattern next_cursor deleted' st'))"

definition invalidate_cache :: "'v scanner \<Rightarrow> string \<Rightarrow> 'v redis \<Rightarrow> ((go_error + int) \<times> 'v redis) option" where
  "invalidate_cache sc pattern st = invalidate_loop sc pattern 0 0 st"

definition redis_ttl :: "int \<Rightarrow> string \<Rightarrow> 'v redis \<Rightarrow> int" where
  "redis_ttl now key st =
     (case st key of
        None \<Rightarrow> - 2
      | Some (_, None) \<Rightarrow> - 1
      | Some (_, Some t) \<Rightarrow>
          if t \<le> now then - 2 else (((t - now) div 1000000 + 500) div 1000) * second)"

definition clear_key :: "'v scanner \<Rightarrow> int \<Rightarrow> string \<Rightarrow> 'v redis \<Rightarrow> 'v redis" where
  "clear_key sc now key st =
     (if \<not> sc_ttl_ok sc key then st
      else let ttl = redis_ttl now key st
           in if ttl = - 1 then st
              else if ttl \<le> 0 \<and> sc_del_ok sc key then st(key := None)
              else st)"

partial_function (option) clear_expired_loop ::
  "'v scanner \<Rightarrow> int \<Rightarrow> int \<Rightarrow> int \<Rightarrow> 'v redis \<Rightarrow> ((go_error + int) \<times> 'v redis) option" where
  "clear_expired_loop sc now cursor scanned st =
     (case sc_scan sc cursor ''*'' st of
        Inl err \<Rightarrow> Some (Inl (Wrapped ''scan error: '' err), st)
      | Inr (keys, next_cursor) \<Rightarrow>
          (let st' = fold (clear_key sc now) keys st; scanned' = go_int64 (scanned + int (length keys))
           in if next_cursor = 0 then Some (Inr scanned', st')
              else clear_expired_loop sc now next_cursor scanned' st'))"

definition clear_expired :: "'v scanner \<Rightarrow> int \<Rightarrow> 'v redis \<Rightarrow> ((go_error + int) \<times> 'v redis) option" where
  "clear_expired sc now st = clear_expired_loop sc now 0 0 st"

declare invalidate_loop.simps [code] clear_expired_loop.simps [code]

section \<open>What a scan guarantees\<close>

text \<open>
  A stretch of one iteration: calls of \<open>SCAN\<close> with the stores they saw and the keys they
  answered, each with the cursor the one before answered. Only the last cursor may be 0,
  and between two calls keys may go but none come.
\<close>

type_synonym 'v scan_trace = "('v redis \<times> string list) list"

fun scan_path :: "'v scanner \<Rightarrow> string \<Rightarrow> int \<Rightarrow> 'v scan_trace \<Rightarrow> int \<Rightarrow> bool" where
  "scan_path sc pattern c [] d \<longleftrightarrow> d = c"
| "scan_path sc pattern c ((st, keys) # tr) d \<longleftrightarrow>
     (\<exists>e. sc_scan sc c pattern st = Inr (keys, e) \<and> (tr \<noteq> [] \<longrightarrow> e \<noteq> 0 \<and> fst (hd tr) \<subseteq>\<^sub>m st)
        \<and> scan_path sc pattern e tr d)"

text \<open>
  What Redis documents of \<open>SCAN\<close>: it answers keys that match the pattern, some perhaps more
  than once; an iteration from the cursor 0 back to 0 has answered every matching key that
  was there at each of its calls; and an iteration ends when the keys stay bounded, here
  after a number of calls that may depend on the store it began with. Which cursors and
  batches it answers may depend on the store of every call.
\<close>

definition scans :: "'v scanner \<Rightarrow> string \<Rightarrow> (string \<Rightarrow> bool) \<Rightarrow> ('v redis \<Rightarrow> nat) \<Rightarrow> bool" where
  "scans sc pattern matches bound \<longleftrightarrow>
     (\<forall>c st. \<exists>keys d. sc_scan sc c pattern st = Inr (keys, d) \<and> (\<forall>k \<in> set keys. matches k))
     \<and> (\<forall>tr. tr \<noteq> [] \<longrightarrow> scan_path sc pattern 0 tr 0 \<longrightarrow>
          (\<forall>k. matches k \<longrightarrow> (\<forall>c \<in> set tr. fst c k \<noteq> None) \<longrightarrow> (\<exists>c \<in> set tr. k \<in> set (snd c))))
     \<and> (\<forall>tr d. tr \<noteq> [] \<longrightarrow> scan_path sc pattern 0 tr d \<longrightarrow> length tr \<le> bound (fst (hd tr)))"

lemma scan_answers:
  assumes "scans sc pattern matches bound"
  obtains keys d where "sc_scan sc c pattern st = Inr (keys, d)" "\<forall>k \<in> set keys. matches k"
proof -
  have "\<forall>c st. \<exists>keys d. sc_scan sc c pattern st = Inr (keys, d) \<and> (\<forall>k \<in> set keys. matches k)"
    using assms unfolding scans_def by (rule conjunct1)
  then show thesis using that by blast
qed

lemma scan_complete:
  assumes "scans sc pattern matches bound" "tr \<noteq> []" "scan_path sc pattern 0 tr 0" "matches k"
    "\<forall>c \<in> set tr. fst c k \<noteq> None"
  shows "\<exists>c \<in> set tr. k \<in> set (snd c)"
proof -
  have "\<forall>tr. tr \<noteq> [] \<longrightarrow> scan_path sc pattern 0 tr 0 \<longrightarrow>
      (\<forall>k. matches k \<longrightarrow> (\<forall>c \<in> set tr. fst c k \<noteq> None) \<longrightarrow> (\<exists>c \<in> set tr. k \<in> set (snd c)))"
    using assms(1) unfolding scans_def by (elim conjE)
  then show ?thesis using assms(2-) by simp
qed

lemma scan_bounded:
  assumes "scans sc pattern matches bound" "tr \<noteq> []" "scan_path sc pattern 0 tr d"
  shows "length tr \<le> bound (fst (hd tr))"
proof -
  have "\<forall>tr d. tr \<noteq> [] \<longrightarrow> scan_path sc pattern 0 tr d \<longrightarrow> length tr \<le> bound (fst (hd tr))"
    using assms(1) unfolding scans_def by (elim conjE)
  then show ?thesis using assms(2-) by blast
qed

lemma scan_path_snoc:
  "scan_path sc pattern c (tr @ [(st, keys)]) d \<longleftrightarrow>
     (\<exists>e. scan_path sc pattern c tr e \<and> (tr \<noteq> [] \<longrightarrow> e \<noteq> 0 \<and> st \<subseteq>\<^sub>m fst (last tr))
        \<and> sc_scan sc e pattern st = Inr (keys, d))"
proof (induction tr arbitrary: c)
  case (Cons x tr)
  obtain s0 k0 where "x = (s0, k0)" by (cases x)
  with Cons show ?case by (cases "tr = []") (auto simp: hd_append)
qed auto

text \<open>
  Where a loop stands: the calls made so far, the cursor it goes on with and the store left.
\<close>

definition scan_point :: "'v scanner \<Rightarrow> string \<Rightarrow> 'v redis \<Rightarrow> 'v scan_trace \<Rightarrow> int \<Rightarrow> 'v redis \<Rightarrow> bool" where
  "scan_point sc pattern st0 tr c st \<longleftrightarrow> scan_path sc pattern 0 tr c
     \<and> (if tr = [] then st = st0 else c \<noteq> 0 \<and> st \<subseteq>\<^sub>m fst (last tr) \<and> fst (hd tr) = st0)"

lemma scan_point_next:
  "scan_point sc pattern st0 tr c st \<Longrightarrow> sc_scan sc c pattern st = Inr (keys, d) \<Longrightarrow>
   scan_path sc pattern 0 (tr @ [(st, keys)]) d \<and> fst (hd (tr @ [(st, keys)])) = st0"
  by (auto simp: scan_point_def scan_path_snoc hd_append split: if_splits)

text \<open>Induction along a scan: a loop that goes on with a smaller store is nearer to the bound.\<close>

lemma scan_rule:
  assumes sc: "scans sc pattern matches bound"
    and step: "\<And>tr c st. scan_point sc pattern st0 tr c st \<Longrightarrow>
      (\<And>keys d st'. sc_scan sc c pattern st = Inr (keys, d) \<Longrightarrow> d \<noteq> 0 \<Longrightarrow> st' \<subseteq>\<^sub>m st \<Longrightarrow> P (tr @ [(st, keys)]) d st') \<Longrightarrow>
      P tr c st"
  shows "P [] 0 st0"
proof -
  have "P tr c st" if "scan_point sc pattern st0 tr c st" for tr c st
    using that
  proof (induction "bound st0 - length tr" arbitrary: tr c st rule: less_induct)
    case less
    show ?case
    proof (rule step [OF less.prems])
      fix keys d st'
      assume scan: "sc_scan sc c pattern st = Inr (keys, d)" and "d \<noteq> 0" "st' \<subseteq>\<^sub>m st"
      note n = scan_point_next [OF less.prems scan]
      have "length (tr @ [(st, keys)]) \<le> bound (fst (hd (tr @ [(st, keys)])))"
        using scan_bounded [OF sc] n by blast
      with n have "bound st0 - length (tr @ [(st, keys)]) < bound st0 - length tr" by simp
      moreover have "scan_point sc pattern st0 (tr @ [(st, keys)]) d st'"
        using n \<open>d \<noteq> 0\<close> \<open>st' \<subseteq>\<^sub>m st\<close> by (simp add: scan_point_def)
      ultimately show "P (tr @ [(st, keys)]) d st'" by (rule less.hyps)
    qed
  qed
  moreover have "scan_point sc pattern st0 [] 0 st0" by (simp add: scan_point_def)
  ultimately show ?thesis by blast
qed

section \<open>Invalidation\<close>

text \<open>The keys a stretch has answered, and what is left when they are deleted.\<close>

definition answered_keys :: "'v scan_trace \<Rightarrow> string set" where
  "answered_keys tr = (\<Union>c \<in> set tr. set (snd c))"

definition swept :: "'v redis \<Rightarrow> 'v scan_trace \<Rightarrow> 'v redis \<Rightarrow> bool" where
  "swept st0 tr st \<longleftrightarrow> st = st0 |` (- answered_keys tr) \<and> (\<forall>c \<in> set tr. st \<subseteq>\<^sub>m fst c)"

lemma redis_del_store: "snd (if keys \<noteq> [] then redis_del keys st else (0, st)) = st |` (- set keys)"
  by (auto simp: redis_del_def restrict_map_def fun_eq_iff)

lemma restrict_UNIV: "st |` UNIV = st"
  by (simp add: restrict_map_def)

lemma restrict_below: "st |` A \<subseteq>\<^sub>m st"
  by (auto simp: map_le_def restrict_map_def)

lemma swept_next:
  assumes "swept st0 tr st"
  shows "swept st0 (tr @ [(st, keys)]) (st |` (- set keys))"
proof -
  have "st |` (- set keys) = st0 |` (- answered_keys (tr @ [(st, keys)]))"
    using assms by (auto simp: swept_def answered_keys_def restrict_map_def fun_eq_iff)
  moreover have "st |` (- set keys) \<subseteq>\<^sub>m fst c" if "c \<in> set (tr @ [(st, keys)])" for c
    using that assms restrict_below [of st "- set keys"] map_le_trans by (fastforce simp: swept_def)
  ultimately show ?thesis by (simp add: swept_def)
qed

text \<open>A finished iteration has answered, and the loop deleted, every matching key.\<close>

lemma swept_all:
  assumes sc: "scans sc pattern matches bound" and path: "scan_path sc pattern 0 tr 0" "tr \<noteq> []"
    and swept: "swept st0 tr st" and match: "\<forall>c \<in> set tr. \<forall>k \<in> set (snd c). matches k"
  shows "st = (\<lambda>k. if matches k then None else st0 k)"
proof
  fix k
  show "st k = (if matches k then None else st0 k)"
  proof (cases "matches k")
    case True
    have "\<exists>c \<in> set tr. fst c k = None" if "k \<notin> answered_keys tr"
    proof (rule ccontr)
      assume "\<not> ?thesis"
      with scan_complete [OF sc path(2) path(1) True] that show False by (auto simp: answered_keys_def)
    qed
    moreover have "st k = None" if "c \<in> set tr" "fst c k = None" for c
    proof -
      have "st \<subseteq>\<^sub>m fst c" using swept that(1) unfolding swept_def by blast
      then show ?thesis using that(2) by (metis domIff map_le_def)
    qed
    moreover have "st k = None" if "k \<in> answered_keys tr" using swept that by (simp add: swept_def)
    ultimately show ?thesis using True by metis
  next
    case False
    then have "k \<notin> answered_keys tr" using match by (auto simp: answered_keys_def)
    with False swept show ?thesis by (simp add: swept_def)
  qed
qed

lemma invalidate_from:
  fixes st0 :: "'v redis"
  assumes sc: "scans sc pattern matches bound" and del: "\<And>k. sc_del_ok sc k"
  shows "\<forall>deleted. swept st0 [] st0 \<longrightarrow> (\<forall>c \<in> set ([] :: 'v scan_trace). \<forall>k \<in> set (snd c). matches k) \<longrightarrow>
    (\<exists>n. invalidate_loop sc pattern 0 deleted st0 = Some (Inr n, \<lambda>k. if matches k then None else st0 k))"
  using sc
proof (rule scan_rule [where P = "\<lambda>tr c st. \<forall>deleted. swept st0 tr st \<longrightarrow> (\<forall>c \<in> set tr. \<forall>k \<in> set (snd c). matches k) \<longrightarrow>
    (\<exists>n. invalidate_loop sc pattern c deleted st = Some (Inr n, \<lambda>k. if matches k then None else st0 k))"], intro allI impI)
  fix tr c deleted and st :: "'v redis"
  assume point: "scan_point sc pattern st0 tr c st" and swept: "swept st0 tr st"
    and match: "\<forall>c \<in> set tr. \<forall>k \<in> set (snd c). matches k"
    and IH: "\<And>keys d st'. sc_scan sc c pattern st = Inr (keys, d) \<Longrightarrow> d \<noteq> 0 \<Longrightarrow> st' \<subseteq>\<^sub>m st \<Longrightarrow>
      \<forall>deleted. swept st0 (tr @ [(st, keys)]) st' \<longrightarrow> (\<forall>c \<in> set (tr @ [(st, keys)]). \<forall>k \<in> set (snd c). matches k) \<longrightarrow>
        (\<exists>n. invalidate_loop sc pattern d deleted st' = Some (Inr n, \<lambda>k. if matches k then None else st0 k))"
  obtain keys d where scan: "sc_scan sc c pattern st = Inr (keys, d)" and keys: "\<forall>k \<in> set keys. matches k"
    by (rule scan_answers [OF sc])
  let ?del = "if keys \<noteq> [] then redis_del keys st else (0, st)"
  note after = swept_next [OF swept, of keys]
  have match': "\<forall>c \<in> set (tr @ [(st, keys)]). \<forall>k \<in> set (snd c). matches k" using match keys by auto
  have loop: "invalidate_loop sc pattern c deleted st =
      (if d = 0 then Some (Inr (go_int64 (deleted + fst ?del)), st |` (- set keys))
       else invalidate_loop sc pattern d (go_int64 (deleted + fst ?del)) (st |` (- set keys)))"
    by (subst invalidate_loop.simps) (cases "keys = []"; simp add: scan Let_def del list_all_iff redis_del_def restrict_UNIV)
  show "\<exists>n. invalidate_loop sc pattern c deleted st = Some (Inr n, \<lambda>k. if matches k then None else st0 k)"
  proof (cases "d = 0")
    case True
    with scan_point_next [OF point scan] have "scan_path sc pattern 0 (tr @ [(st, keys)]) 0" by simp
    from swept_all [OF sc this _ after match'] True loop show ?thesis by simp
  next
    case False
    with IH [OF scan False restrict_below] after match' loop show ?thesis by simp
  qed
qed

text \<open>
  C33: on every scan that keeps the guarantees Redis documents (it answers matching keys,
  a full iteration has answered every key present throughout it, and it ends while the
  keys stay bounded), with every deletion executed and no other client writing meanwhile,
  InvalidateCache ends and leaves no key that matches the pattern while every other key
  stays
\<close>

theorem invalidation_ends:
  assumes "scans sc pattern matches bound" "\<forall>k. sc_del_ok sc k"
  shows "\<exists>n. invalidate_cache sc pattern st = Some (Inr n, \<lambda>k. if matches k then None else st k)"
proof -
  have "swept st [] st" by (auto simp: swept_def answered_keys_def restrict_map_def fun_eq_iff)
  then show ?thesis using invalidate_from [OF assms(1), of st] assms(2) by (simp add: invalidate_cache_def)
qed

text \<open>
  Two cursors while two cards are stored, and one when the first is gone: the chain of
  cursors depends on the store.
\<close>

definition sample_scanner :: "'v scanner" where
  "sample_scanner = \<lparr>sc_scan = (\<lambda>c p st.
       Inr (filter (\<lambda>k. st k \<noteq> None) (if c = 0 \<and> st ''card:id:1'' \<noteq> None then [''card:id:1''] else [''card:id:22'']),
            if c = 0 \<and> st ''card:id:1'' \<noteq> None then 9 else 0)),
     sc_ttl_ok = (\<lambda>k. True), sc_del_ok = (\<lambda>k. True)\<rparr>"

lemma sample_path:
  "scan_path sample_scanner p 0 (x # tr) d \<Longrightarrow>
   tr = [] \<or> fst x ''card:id:1'' \<noteq> None \<and> ''card:id:1'' \<in> set (snd x) \<and>
     (\<exists>y. tr = [y] \<and> d = 0 \<and> snd y = filter (\<lambda>k. fst y k \<noteq> None) [''card:id:22''])"
  by (cases x; cases tr; cases "tl tr")
    (auto simp: sample_scanner_def split: if_splits)

lemma sample_scans: "scans sample_scanner ''card:id:*'' (\<lambda>k. k \<in> {''card:id:1'', ''card:id:22''}) (\<lambda>_. 2)"
  unfolding scans_def
proof (intro conjI allI impI)
  fix c :: int and st :: "'v redis"
  show "\<exists>keys d. sc_scan sample_scanner c ''card:id:*'' st = Inr (keys, d) \<and> (\<forall>k \<in> set keys. k \<in> {''card:id:1'', ''card:id:22''})"
    by (auto simp: sample_scanner_def)
next
  fix tr :: "'v scan_trace" and k
  assume "tr \<noteq> []" "scan_path sample_scanner ''card:id:*'' 0 tr 0" "k \<in> {''card:id:1'', ''card:id:22''}"
    "\<forall>c \<in> set tr. fst c k \<noteq> None"
  then show "\<exists>c \<in> set tr. k \<in> set (snd c)"
    by (cases tr; cases "tl tr") (auto dest!: sample_path simp: sample_scanner_def split: if_splits)
next
  fix tr :: "'v scan_trace" and d
  assume "tr \<noteq> []" "scan_path sample_scanner ''card:id:*'' 0 tr d"
  then show "length tr \<le> 2" by (cases tr) (auto dest!: sample_path)
qed

theorem invalidation_ends_witness:
  "\<exists>n. invalidate_cache sample_scanner ''card:id:*'' [''card:id:1'' \<mapsto> (True, None), ''card:id:22'' \<mapsto> (True, None),
         ''role:1'' \<mapsto> (False, None)] = Some (Inr n, [''role:1'' \<mapsto> (False, None)])"
proof -
  let ?st = "[''card:id:1'' \<mapsto> (True, None), ''card:id:22'' \<mapsto> (True, None), ''role:1'' \<mapsto> (False, None)]"
  have "(\<lambda>k. if k \<in> {''card:id:1'', ''card:id:22''} then None else ?st k) = [''role:1'' \<mapsto> (False, None)]"
    by (auto simp: fun_eq_iff)
  moreover have "\<forall>k. sc_del_ok (sample_scanner :: bool scanner) k" by (simp add: sample_scanner_def)
  ultimately show ?thesis using invalidation_ends [OF sample_scans, of ?st] by metis
qed

text \<open>Without the last guarantee nothing bounds the loop: a scan that never answers the cursor 0 keeps it going.\<close>

definition endless_scanner :: "'v scanner" where
  "endless_scanner = \<lparr>sc_scan = (\<lambda>c p st. Inr ([], 1)), sc_ttl_ok = (\<lambda>k. True), sc_del_ok = (\<lambda>k. True)\<rparr>"

lemma endless_scan: "invalidate_cache endless_scanner pattern st = None"
proof -
  have "sc = endless_scanner \<longrightarrow> False" if "invalidate_loop sc pattern c deleted st = Some r"
    for sc :: "'v scanner" and pattern c deleted st r
  proof (rule invalidate_loop.raw_induct [OF _ that, where P = "\<lambda>sc _ _ _ _ _. sc = endless_scanner \<longrightarrow> False"])
    fix loop and sc :: "'v scanner" and pattern cursor deleted st r
    assume IH: "\<And>sc pattern cursor deleted st y. loop sc pattern cursor deleted st = Some y \<Longrightarrow> sc = endless_scanner \<longrightarrow> False"
      and body: "(case sc_scan sc cursor pattern st of
        Inl err \<Rightarrow> Some (Inl (Wrapped ''scan error: '' err), st)
      | Inr (keys, next_cursor) \<Rightarrow>
          if keys \<noteq> [] \<and> \<not> list_all (sc_del_ok sc) keys
          then Some (Inl (Wrapped ''delete error: '' (ErrorString ''redis'')), st)
          else (let (count, st') = (if keys \<noteq> [] then redis_del keys st else (0, st));
                    deleted' = go_int64 (deleted + count)
                in if next_cursor = 0 then Some (Inr deleted', st')
                   else loop sc pattern next_cursor deleted' st')) = Some r"
    show "sc = endless_scanner \<longrightarrow> False"
    proof
      assume sc: "sc = endless_scanner"
      with body have "loop sc pattern 1 (go_int64 deleted) st = Some r" by (simp add: endless_scanner_def)
      from IH [OF this] sc show False by blast
    qed
  qed
  then show ?thesis unfolding invalidate_cache_def by (metis not_None_eq)
qed

section \<open>Clearing expired keys\<close>

text \<open>The loop ends, and removes no key that has half a second left or no expiry.\<close>

lemma fold_clear_keeps:
  "redis_ttl now k st = - 1 \<or> 0 < redis_ttl now k st \<Longrightarrow> fold (clear_key sc now) keys st k = st k"
proof (induction keys arbitrary: st)
  case (Cons key keys)
  have "clear_key sc now key st k = st k"
    using Cons.prems by (auto simp: clear_key_def Let_def)
  then have "redis_ttl now k (clear_key sc now key st) = redis_ttl now k st" by (simp add: redis_ttl_def)
  then show ?case using Cons \<open>clear_key sc now key st k = st k\<close> by simp
qed simp

definition live_key :: "int \<Rightarrow> string \<Rightarrow> 'v redis \<Rightarrow> bool" where
  "live_key now k st \<longleftrightarrow> redis_ttl now k st = - 1 \<or> 0 < redis_ttl now k st"

lemma fold_clear_below: "fold (clear_key sc now) keys st \<subseteq>\<^sub>m st"
proof (induction keys arbitrary: st)
  case (Cons key keys)
  have "clear_key sc now key st \<subseteq>\<^sub>m st" by (auto simp: clear_key_def Let_def map_le_def)
  with Cons [of "clear_key sc now key st"] show ?case by (auto intro: map_le_trans)
qed simp

lemma fold_clear_live:
  assumes "live_key now k st"
  shows "fold (clear_key sc now) keys st k = st k" "live_key now k (fold (clear_key sc now) keys st)"
proof -
  show "fold (clear_key sc now) keys st k = st k" using assms fold_clear_keeps [of now k st] by (auto simp: live_key_def)
  then show "live_key now k (fold (clear_key sc now) keys st)" using assms by (simp add: live_key_def redis_ttl_def)
qed

lemma clear_expired_from:
  fixes st0 :: "'v redis"
  assumes sc: "scans sc ''*'' matches bound"
  shows "\<forall>scanned. live_key now k st0 \<longrightarrow>
    (\<exists>n st'. clear_expired_loop sc now 0 scanned st0 = Some (Inr n, st') \<and> st' k = st0 k)"
  using sc
proof (rule scan_rule [where P = "\<lambda>tr c st. \<forall>scanned. live_key now k st \<longrightarrow>
    (\<exists>n st'. clear_expired_loop sc now c scanned st = Some (Inr n, st') \<and> st' k = st k)"], intro allI impI)
  fix tr :: "'v scan_trace" and c scanned and st :: "'v redis"
  assume live: "live_key now k st"
    and IH: "\<And>keys d st'. sc_scan sc c ''*'' st = Inr (keys, d) \<Longrightarrow> d \<noteq> 0 \<Longrightarrow> st' \<subseteq>\<^sub>m st \<Longrightarrow>
      \<forall>scanned. live_key now k st' \<longrightarrow>
        (\<exists>n st''. clear_expired_loop sc now d scanned st' = Some (Inr n, st'') \<and> st'' k = st' k)"
  obtain keys d where scan: "sc_scan sc c ''*'' st = Inr (keys, d)"
    by (rule scan_answers [OF sc])
  let ?st = "fold (clear_key sc now) keys st" and ?n = "go_int64 (scanned + int (length keys))"
  have loop: "clear_expired_loop sc now c scanned st =
      (if d = 0 then Some (Inr ?n, ?st) else clear_expired_loop sc now d ?n ?st)"
    by (subst clear_expired_loop.simps) (simp add: scan Let_def)
  show "\<exists>n st'. clear_expired_loop sc now c scanned st = Some (Inr n, st') \<and> st' k = st k"
  proof (cases "d = 0")
    case True
    with loop fold_clear_live(1) [OF live] show ?thesis by auto
  next
    case False
    with IH [OF scan False fold_clear_below [of sc now keys]] fold_clear_live [OF live, of sc keys] loop
    show ?thesis by simp
  qed
qed

lemma clear_expired_ends:
  assumes "scans sc ''*'' matches bound" "redis_ttl now k st = - 1 \<or> 0 < redis_ttl now k st"
  shows "\<exists>n st'. clear_expired sc now st = Some (Inr n, st') \<and> st' k = st k"
  using clear_expired_from [OF assms(1), of now k st] assms(2) by (simp add: clear_expired_def live_key_def)

end
