(* ===== verification/RoleService.thy ===== *)
theory RoleService
  imports Repository
begin

text \<open>
  The role service (\<open>service/role\<close>): roles and the roles users hold, the statements of
  \<open>role.sql.go\<close> and \<open>user_role.sql.go\<close> that have callers, repositories, commands, cached
  queries, handlers and the Kafka consumer that tells the gateway which roles a user has.
\<close>

section \<open>Tables and statements\<close>

record role_row =
  ro_id :: int
  ro_name :: string
  ro_created :: int
  ro_updated :: int
  ro_deleted :: "int option"

record user_role_row =
  ur_id :: int
  ur_user :: int
  ur_role :: int
  ur_created :: int
  ur_updated :: int
  ur_deleted :: "int option"

record role_db =
  role_rows :: "role_row list"
  role_seq :: int
  user_roles :: "user_role_row list"
  user_role_seq :: int

definition role_live :: "role_row \<Rightarrow> bool" where
  "role_live r \<longleftrightarrow> ro_deleted r = None"

definition on_roles :: "(role_row list \<Rightarrow> 'a \<times> role_row list) \<Rightarrow> role_db \<Rightarrow> 'a \<times> role_db" where
  "on_roles = zoom role_rows (\<lambda>x db. db\<lparr>role_rows := x\<rparr>)"

definition create_role_sql :: "int \<Rightarrow> string \<Rightarrow> (go_error, role_row, role_db) op" where
  "create_role_sql now name db =
     (if length name > 50 then (Inl value_too_long, db)
      else if role_seq db > 2147483647 then (Inl sequence_exhausted, db)
      else let db1 = db\<lparr>role_seq := role_seq db + 1\<rparr>;
               r = \<lparr>ro_id = role_seq db, ro_name = name, ro_created = now, ro_updated = now, ro_deleted = None\<rparr>
           in if name \<in> set (map ro_name (role_rows db)) then (Inl unique_violation, db1)
              else (Inr r, db1\<lparr>role_rows := role_rows db @ [r]\<rparr>))"

text \<open>None of these three looks at \<open>deleted_at\<close>.\<close>

definition update_role_sql :: "int \<Rightarrow> int \<Rightarrow> string \<Rightarrow> (go_error, role_row, role_db) op" where
  "update_role_sql now i name =
     on_roles (\<lambda>rows. update_returning (\<lambda>r. ro_id r = i)
       (\<lambda>_. if length name > 50 then Some value_too_long
             else if \<exists>r \<in> set rows. ro_id r \<noteq> i \<and> ro_name r = name then Some unique_violation
             else None)
       (\<lambda>r. r\<lparr>ro_name := name, ro_updated := now\<rparr>) rows)"

definition trash_role_sql :: "int \<Rightarrow> int \<Rightarrow> (go_error, role_row, role_db) op" where
  "trash_role_sql now i =
     on_roles (update_returning (\<lambda>r. ro_id r = i) (\<lambda>_. None) (\<lambda>r. r\<lparr>ro_deleted := Some now\<rparr>))"

definition restore_role_sql :: "int \<Rightarrow> (go_error, role_row, role_db) op" where
  "restore_role_sql i =
     on_roles (update_returning (\<lambda>r. ro_id r = i) (\<lambda>_. None) (\<lambda>r. r\<lparr>ro_deleted := None\<rparr>))"

definition restore_all_roles_sql :: "(go_error, unit, role_db) op" where
  "restore_all_roles_sql =
     on_roles (\<lambda>rows. (Inr (), update_where (\<lambda>r. \<not> role_live r) (\<lambda>r. r\<lparr>ro_deleted := None\<rparr>) rows))"

text \<open>\<open>ON DELETE CASCADE\<close>: the assignments of a deleted role go with it.\<close>

definition delete_roles_where :: "(role_row \<Rightarrow> bool) \<Rightarrow> (go_error, unit, role_db) op" where
  "delete_roles_where p db =
     (let gone = set (map ro_id (filter p (role_rows db)))
      in (Inr (), db\<lparr>role_rows := filter (\<lambda>r. \<not> p r) (role_rows db),
                     user_roles := filter (\<lambda>u. ur_role u \<notin> gone) (user_roles db)\<rparr>))"

definition delete_permanent_role_sql :: "int \<Rightarrow> (go_error, unit, role_db) op" where
  "delete_permanent_role_sql i = delete_roles_where (\<lambda>r. ro_id r = i \<and> \<not> role_live r)"

definition delete_all_permanent_roles_sql :: "(go_error, unit, role_db) op" where
  "delete_all_permanent_roles_sql = delete_roles_where (\<lambda>r. \<not> role_live r)"

definition get_role_sql :: "int \<Rightarrow> role_db \<Rightarrow> role_row option" where
  "get_role_sql i db = find (\<lambda>r. ro_id r = i) (role_rows db)"

definition get_role_by_name_sql :: "string \<Rightarrow> role_db \<Rightarrow> role_row option" where
  "get_role_by_name_sql name db = find (\<lambda>r. ro_name r = name) (role_rows db)"

text \<open>The join has one row per assignment, and tests neither row for deletion.\<close>

definition get_user_roles_sql :: "int \<Rightarrow> role_db \<Rightarrow> role_row list" where
  "get_user_roles_sql user db =
     sort_key ro_created
       (concat (map (\<lambda>r. map (\<lambda>_. r) (filter (\<lambda>u. ur_role u = ro_id r \<and> ur_user u = user) (user_roles db)))
          (role_rows db)))"

definition assign_role_to_user_sql :: "int \<Rightarrow> int \<Rightarrow> int \<Rightarrow> (go_error, user_role_row, role_db) op" where
  "assign_role_to_user_sql now user role db =
     (if user_role_seq db > 2147483647 then (Inl sequence_exhausted, db)
      else let db1 = db\<lparr>user_role_seq := user_role_seq db + 1\<rparr>;
               u = \<lparr>ur_id = user_role_seq db, ur_user = user, ur_role = role, ur_created = now,
                    ur_updated = now, ur_deleted = None\<rparr>
           in if role \<notin> set (map ro_id (role_rows db)) then (Inl foreign_key_violation, db1)
              else (Inr u, db1\<lparr>user_roles := user_roles db @ [u]\<rparr>))"

definition remove_role_from_user_sql :: "int \<Rightarrow> int \<Rightarrow> (go_error, unit, role_db) op" where
  "remove_role_from_user_sql user role db =
     (Inr (), db\<lparr>user_roles := filter (\<lambda>u. \<not> (ur_user u = user \<and> ur_role u = role)) (user_roles db)\<rparr>)"

definition role_columns :: "role_row \<Rightarrow> string list" where
  "role_columns r = [ro_name r]"

definition get_roles_sql :: "role_db \<Rightarrow> string \<Rightarrow> int \<Rightarrow> int \<Rightarrow> go_error + (role_row \<times> int) list" where
  "get_roles_sql db term limit offset =
     list_sql (\<lambda>_. True) role_columns ro_created term limit offset (role_rows db)"

definition get_active_roles_sql :: "role_db \<Rightarrow> string \<Rightarrow> int \<Rightarrow> int \<Rightarrow> go_error + (role_row \<times> int) list" where
  "get_active_roles_sql db term limit offset =
     list_sql role_live role_columns ro_created term limit offset (role_rows db)"

definition get_trashed_roles_sql :: "role_db \<Rightarrow> string \<Rightarrow> int \<Rightarrow> int \<Rightarrow> go_error + (role_row \<times> int) list" where
  "get_trashed_roles_sql db term limit offset =
     list_sql (\<lambda>r. \<not> role_live r) role_columns (\<lambda>r. case ro_deleted r of None \<Rightarrow> 0 | Some t \<Rightarrow> - t)
       term limit offset (role_rows db)"

section \<open>Repositories\<close>

definition repo_create_role :: "go_error fault \<Rightarrow> int \<Rightarrow> string \<Rightarrow> (go_error, role_row, role_db) op" where
  "repo_create_role fl now name =
     map_error (conflict_or ''role name already exists'' (failed ''create role''))
       (with_fault fl (create_role_sql now name))"

definition repo_update_role :: "go_error fault \<Rightarrow> int \<Rightarrow> int \<Rightarrow> string \<Rightarrow> (go_error, role_row, role_db) op" where
  "repo_update_role fl now i name =
     map_error (conflict_or ''role name already exists'' (no_rows_or_failed ''role'' ''update role''))
       (with_fault fl (update_role_sql now (go_int32 i) name))"

definition repo_trashed_role :: "go_error fault \<Rightarrow> int \<Rightarrow> int \<Rightarrow> (go_error, role_row, role_db) op" where
  "repo_trashed_role fl now i =
     map_error (no_rows_or_failed ''role'' ''trash role'') (with_fault fl (trash_role_sql now (go_int32 i)))"

definition repo_restore_role :: "go_error fault \<Rightarrow> int \<Rightarrow> (go_error, role_row, role_db) op" where
  "repo_restore_role fl i =
     map_error (no_rows_or_failed ''role'' ''restore role'') (with_fault fl (restore_role_sql (go_int32 i)))"

definition repo_delete_role_permanent :: "go_error fault \<Rightarrow> int \<Rightarrow> (go_error, unit, role_db) op" where
  "repo_delete_role_permanent fl i =
     map_error (no_rows_or_failed ''role'' ''delete role permanently'')
       (with_fault fl (delete_permanent_role_sql (go_int32 i)))"

definition repo_restore_all_role :: "go_error fault \<Rightarrow> (go_error, unit, role_db) op" where
  "repo_restore_all_role fl = map_error (failed ''restore all roles'') (with_fault fl restore_all_roles_sql)"

definition repo_delete_all_role_permanent :: "go_error fault \<Rightarrow> (go_error, unit, role_db) op" where
  "repo_delete_all_role_permanent fl =
     map_error (failed ''delete all roles'') (with_fault fl delete_all_permanent_roles_sql)"

text \<open>The assignment, then the role it names; two statements, each with its fault.\<close>

definition repo_create_user_role ::
  "go_error fault \<Rightarrow> go_error fault \<Rightarrow> int \<Rightarrow> int \<Rightarrow> int \<Rightarrow> (go_error, role_row, role_db) op" where
  "repo_create_user_role fl fl' now user role =
     try_or (with_fault fl (assign_role_to_user_sql now (go_int32 user) (go_int32 role)))
       (\<lambda>err. ret (Inl (failed ''create user role'' err)))
       (\<lambda>_ db. (map_read_error (failed ''get role for user role'')
                  (read_fault fl' (row_or_none (get_role_sql (go_int32 role) db))), db))"

definition repo_delete_user_role :: "go_error fault \<Rightarrow> int \<Rightarrow> int \<Rightarrow> (go_error, unit, role_db) op" where
  "repo_delete_user_role fl user role =
     map_error (no_rows_or_failed ''user role'' ''delete user role'')
       (with_fault fl (remove_role_from_user_sql (go_int32 user) (go_int32 role)))"

definition repo_find_role_by_id :: "go_error fault \<Rightarrow> int \<Rightarrow> role_db \<Rightarrow> go_error + role_row" where
  "repo_find_role_by_id fl i db = repo_lookup fl ErrRoleNotFound (get_role_sql (go_int32 i) db)"

definition repo_find_role_by_name :: "go_error fault \<Rightarrow> string \<Rightarrow> role_db \<Rightarrow> go_error + role_row" where
  "repo_find_role_by_name fl name db = repo_lookup fl ErrRoleNotFound (get_role_by_name_sql name db)"

definition repo_find_roles_by_user_id :: "go_error fault \<Rightarrow> int \<Rightarrow> role_db \<Rightarrow> go_error + role_row list" where
  "repo_find_roles_by_user_id fl user db =
     map_read_error (lookup_error ErrRoleNotFound) (read_fault fl (Inr (get_user_roles_sql (go_int32 user) db)))"

definition repo_find_all_roles ::
  "go_error fault \<Rightarrow> find_all_request \<Rightarrow> role_db \<Rightarrow> go_error + (role_row \<times> int) list" where
  "repo_find_all_roles fl req db = repo_page fl ''find all roles'' (get_roles_sql db) req"

definition repo_find_active_roles ::
  "go_error fault \<Rightarrow> find_all_request \<Rightarrow> role_db \<Rightarrow> go_error + (role_row \<times> int) list" where
  "repo_find_active_roles fl req db = repo_page fl ''find active roles'' (get_active_roles_sql db) req"

definition repo_find_trashed_roles ::
  "go_error fault \<Rightarrow> find_all_request \<Rightarrow> role_db \<Rightarrow> go_error + (role_row \<times> int) list" where
  "repo_find_trashed_roles fl req db = repo_page fl ''find trashed roles'' (get_trashed_roles_sql db) req"

section \<open>State, environment and cache\<close>

datatype role_value =
    VRole role_row
  | VUserRoles "role_row list"
  | VRolePage "(role_row \<times> int) list" int

text \<open>What the consumer answers: the correlation, whether the user has a role, the names.\<close>

datatype role_message = RoleResponse string bool "string list"

record role_world =
  ow_db :: role_db
  ow_cache :: "role_value redis"
  ow_sent :: "(string \<times> string \<times> role_message) list"

record role_env =
  oe_cache :: cache_env
  oe_fault :: "string \<Rightarrow> go_error fault"
  oe_sent :: "string \<Rightarrow> bool"

definition oe_now :: "role_env \<Rightarrow> int" where
  "oe_now env = ce_now (oe_cache env)"

definition on_role_db :: "(go_error, 'a, role_db) op \<Rightarrow> (go_error, 'a, role_world) op" where
  "on_role_db = zoom ow_db (\<lambda>d w. w\<lparr>ow_db := d\<rparr>)"

definition on_role_cache :: "(role_value redis \<Rightarrow> 'a \<times> role_value redis) \<Rightarrow> role_world \<Rightarrow> 'a \<times> role_world" where
  "on_role_cache = zoom ow_cache (\<lambda>x w. w\<lparr>ow_cache := x\<rparr>)"

definition role_by_id_key :: "int \<Rightarrow> string" where
  "role_by_id_key i = ''role:id:'' @ itoa i"

definition role_by_user_id_key :: "int \<Rightarrow> string" where
  "role_by_user_id_key user = ''role:user_id:'' @ itoa user"

definition role_by_name_key :: "string \<Rightarrow> string" where
  "role_by_name_key name = ''role:name:'' @ name"

fun value_role :: "role_value \<Rightarrow> role_row option" where
  "value_role (VRole r) = Some r"
| "value_role _ = None"

fun value_user_roles :: "role_value \<Rightarrow> role_row list option" where
  "value_user_roles (VUserRoles rs) = Some rs"
| "value_user_roles _ = None"

fun value_role_page :: "role_value \<Rightarrow> ((role_row \<times> int) list \<times> int) option" where
  "value_role_page (VRolePage rows n) = Some (rows, n)"
| "value_role_page _ = None"

section \<open>Commands\<close>

text \<open>
  The command service holds a cache of which \<open>DeleteCachedRole\<close> is never called: a command
  is its repository call with the error passed on, or replaced where the code does so.
\<close>

definition role_command :: "(go_error \<Rightarrow> go_error) \<Rightarrow> (go_error, 'a, role_db) op \<Rightarrow> (go_error, 'a, role_world) op" where
  "role_command f m = map_error (\<lambda>err. handle_error (Some (f err))) (on_role_db m)"

definition svc_create_role :: "role_env \<Rightarrow> string \<Rightarrow> (go_error, role_row, role_world) op" where
  "svc_create_role env name =
     role_command (\<lambda>e. e) (repo_create_role (oe_fault env ''CreateRole'') (oe_now env) name)"

definition svc_update_role :: "role_env \<Rightarrow> int \<Rightarrow> string \<Rightarrow> (go_error, role_row, role_world) op" where
  "svc_update_role env i name =
     role_command (\<lambda>e. e) (repo_update_role (oe_fault env ''UpdateRole'') (oe_now env) i name)"

definition svc_trashed_role :: "role_env \<Rightarrow> int \<Rightarrow> (go_error, role_row, role_world) op" where
  "svc_trashed_role env i =
     role_command (\<lambda>e. e) (repo_trashed_role (oe_fault env ''TrashRole'') (oe_now env) i)"

definition svc_restore_role :: "role_env \<Rightarrow> int \<Rightarrow> (go_error, role_row, role_world) op" where
  "svc_restore_role env i = role_command (\<lambda>e. e) (repo_restore_role (oe_fault env ''RestoreRole'') i)"

definition svc_delete_role_permanent :: "role_env \<Rightarrow> int \<Rightarrow> (go_error, unit, role_world) op" where
  "svc_delete_role_permanent env i =
     role_command (\<lambda>e. e) (repo_delete_role_permanent (oe_fault env ''DeletePermanentRole'') i)"

definition svc_restore_all_role :: "role_env \<Rightarrow> (go_error, unit, role_world) op" where
  "svc_restore_all_role env =
     role_command (\<lambda>_. err_failed ''restore all roles'') (repo_restore_all_role (oe_fault env ''RestoreAllRoles''))"

definition svc_delete_all_role_permanent :: "role_env \<Rightarrow> (go_error, unit, role_world) op" where
  "svc_delete_all_role_permanent env =
     role_command (\<lambda>_. err_failed ''delete role permanently'')
       (repo_delete_all_role_permanent (oe_fault env ''DeleteAllPermanentRoles''))"

definition svc_create_user_role :: "role_env \<Rightarrow> int \<Rightarrow> int \<Rightarrow> (go_error, role_row, role_world) op" where
  "svc_create_user_role env user role =
     role_command (\<lambda>e. e)
       (repo_create_user_role (oe_fault env ''AssignRoleToUser'') (oe_fault env ''GetRole'') (oe_now env) user role)"

definition svc_delete_user_role :: "role_env \<Rightarrow> int \<Rightarrow> int \<Rightarrow> (go_error, unit, role_world) op" where
  "svc_delete_user_role env user role =
     role_command (\<lambda>e. e) (repo_delete_user_role (oe_fault env ''RemoveRoleFromUser'') user role)"

section \<open>Queries\<close>

definition role_not_found :: "go_error + 'a \<Rightarrow> go_error + 'a" where
  "role_not_found = map_read_error (\<lambda>_. handle_error (Some (err_not_found_response ''Role'')))"

definition svc_find_role_by_id :: "role_env \<Rightarrow> int \<Rightarrow> (go_error, role_row, role_world) op" where
  "svc_find_role_by_id env i w =
     on_role_cache (cached_find (oe_cache env) (role_by_id_key i) value_role VRole ttl_default
       (role_not_found (repo_find_role_by_id (oe_fault env ''GetRole'') i (ow_db w)))) w"

definition svc_find_role_by_name :: "role_env \<Rightarrow> string \<Rightarrow> (go_error, role_row, role_world) op" where
  "svc_find_role_by_name env name w =
     on_role_cache (cached_find (oe_cache env) (role_by_name_key name) value_role VRole ttl_default
       (role_not_found (repo_find_role_by_name (oe_fault env ''GetRoleByName'') name (ow_db w)))) w"

text \<open>The driver's slice of no rows is nil, which is not cached.\<close>

definition svc_find_roles_by_user_id :: "role_env \<Rightarrow> int \<Rightarrow> (go_error, role_row list, role_world) op" where
  "svc_find_roles_by_user_id env user w =
     (case Option.bind (get_from_cache (oe_cache env) (role_by_user_id_key user) (ow_cache w)) value_user_roles of
        Some rs \<Rightarrow> (Inr rs, w)
      | None \<Rightarrow>
          (case role_not_found (repo_find_roles_by_user_id (oe_fault env ''GetUserRoles'') user (ow_db w)) of
             Inl err \<Rightarrow> (Inl err, w)
           | Inr rs \<Rightarrow>
               (Inr rs,
                if rs = [] then w
                else w\<lparr>ow_cache := set_to_cache (oe_cache env) (role_by_user_id_key user) (VUserRoles rs)
                                     ttl_default (ow_cache w)\<rparr>)))"

definition role_page ::
  "role_env \<Rightarrow> string \<Rightarrow> string \<Rightarrow> find_all_request \<Rightarrow> go_error + (role_row \<times> int) list \<Rightarrow>
   role_value redis \<Rightarrow> (go_error + (role_row \<times> int) list \<times> int) \<times> role_value redis" where
  "role_page env kind operation req =
     cached_page (oe_cache env) (listing_key (''role:'' @ kind) req) value_role_page (\<lambda>(rows, n). VRolePage rows n)
       (\<lambda>_. err_failed operation)"

definition svc_find_all_roles ::
  "role_env \<Rightarrow> find_all_request \<Rightarrow> (go_error, (role_row \<times> int) list \<times> int, role_world) op" where
  "svc_find_all_roles env req w =
     on_role_cache (role_page env ''all'' ''find all roles'' req
       (repo_find_all_roles (oe_fault env ''GetRoles'') req (ow_db w))) w"

text \<open>The active roles are written to the cache but never read from it.\<close>

definition svc_find_active_roles ::
  "role_env \<Rightarrow> find_all_request \<Rightarrow> (go_error, (role_row \<times> int) list \<times> int, role_world) op" where
  "svc_find_active_roles env req w =
     (case repo_find_active_roles (oe_fault env ''GetActiveRoles'') req (ow_db w) of
        Inl _ \<Rightarrow> (Inl (handle_error (Some (err_failed ''find active roles''))), w)
      | Inr rows \<Rightarrow>
          (Inr (rows, total_count rows),
           w\<lparr>ow_cache := set_to_cache (oe_cache env) (listing_key ''role:active'' req)
                           (VRolePage rows (total_count rows)) ttl_default (ow_cache w)\<rparr>))"

definition svc_find_trashed_roles ::
  "role_env \<Rightarrow> find_all_request \<Rightarrow> (go_error, (role_row \<times> int) list \<times> int, role_world) op" where
  "svc_find_trashed_roles env req w =
     on_role_cache (role_page env ''trashed'' ''find trashed roles'' req
       (repo_find_trashed_roles (oe_fault env ''GetTrashedRoles'') req (ow_db w))) w"

section \<open>Handlers and consumer\<close>

definition ErrGrpcRoleInvalidId :: go_error where
  "ErrGrpcRoleInvalidId = new_grpc_error ''Invalid Role ID'' codes_NotFound"

definition ErrGrpcRoleInvalidName :: go_error where
  "ErrGrpcRoleInvalidName = new_grpc_error ''Invalid Role Name'' codes_InvalidArgument"

definition ErrGrpcValidateCreateRole :: go_error where
  "ErrGrpcValidateCreateRole = new_grpc_error ''validation failed: invalid create Role request'' codes_InvalidArgument"

definition ErrGrpcValidateUpdateRole :: go_error where
  "ErrGrpcValidateUpdateRole = new_grpc_error ''validation failed: invalid update Role request'' codes_InvalidArgument"

definition handle_create_role :: "role_env \<Rightarrow> string \<Rightarrow> (go_error, role_row, role_world) op" where
  "handle_create_role env name =
     (if name = [] then ret (Inl ErrGrpcValidateCreateRole) else answer (svc_create_role env name))"

definition handle_update_role :: "role_env \<Rightarrow> int \<Rightarrow> string \<Rightarrow> (go_error, role_row, role_world) op" where
  "handle_update_role env i name =
     (if i = 0 then ret (Inl ErrGrpcRoleInvalidId)
      else if name = [] then ret (Inl ErrGrpcValidateUpdateRole)
      else answer (svc_update_role env i name))"

text \<open>The handlers of one id refuse the id 0 and pass the call on.\<close>

definition with_role_id :: "int \<Rightarrow> (go_error, 'a, role_world) op \<Rightarrow> (go_error, 'a, role_world) op" where
  "with_role_id i m = (if i = 0 then ret (Inl ErrGrpcRoleInvalidId) else answer m)"

definition handle_trashed_role :: "role_env \<Rightarrow> int \<Rightarrow> (go_error, role_row, role_world) op" where
  "handle_trashed_role env i = with_role_id i (svc_trashed_role env i)"

definition handle_restore_role :: "role_env \<Rightarrow> int \<Rightarrow> (go_error, role_row, role_world) op" where
  "handle_restore_role env i = with_role_id i (svc_restore_role env i)"

definition handle_delete_role_permanent :: "role_env \<Rightarrow> int \<Rightarrow> (go_error, unit, role_world) op" where
  "handle_delete_role_permanent env i = with_role_id i (svc_delete_role_permanent env i)"

definition handle_restore_all_role :: "role_env \<Rightarrow> (go_error, unit, role_world) op" where
  "handle_restore_all_role env = answer (svc_restore_all_role env)"

definition handle_delete_all_role_permanent :: "role_env \<Rightarrow> (go_error, unit, role_world) op" where
  "handle_delete_all_role_permanent env = answer (svc_delete_all_role_permanent env)"

definition handle_find_role_by_id :: "role_env \<Rightarrow> int \<Rightarrow> (go_error, role_row, role_world) op" where
  "handle_find_role_by_id env i = with_role_id i (svc_find_role_by_id env i)"

definition handle_find_role_by_name :: "role_env \<Rightarrow> string \<Rightarrow> (go_error, role_row, role_world) op" where
  "handle_find_role_by_name env name =
     (if name = [] then ret (Inl ErrGrpcRoleInvalidName) else answer (svc_find_role_by_name env name))"

definition handle_find_all_role ::
  "role_env \<Rightarrow> string \<Rightarrow> int \<Rightarrow> int \<Rightarrow> (go_error, role_row list \<times> page_meta, role_world) op" where
  "handle_find_all_role env = page_answer (svc_find_all_roles env)"

definition handle_find_active_role ::
  "role_env \<Rightarrow> string \<Rightarrow> int \<Rightarrow> int \<Rightarrow> (go_error, role_row list \<times> page_meta, role_world) op" where
  "handle_find_active_role env = page_answer (svc_find_active_roles env)"

definition handle_find_trashed_role ::
  "role_env \<Rightarrow> string \<Rightarrow> int \<Rightarrow> int \<Rightarrow> (go_error, role_row list \<times> page_meta, role_world) op" where
  "handle_find_trashed_role env = page_answer (svc_find_trashed_roles env)"

definition handle_find_roles_by_user_id :: "role_env \<Rightarrow> int \<Rightarrow> (go_error, role_row list, role_world) op" where
  "handle_find_roles_by_user_id env user = with_role_id user (svc_find_roles_by_user_id env user)"

definition handle_assign_role_to_user :: "role_env \<Rightarrow> int \<Rightarrow> int \<Rightarrow> (go_error, int \<times> int, role_world) op" where
  "handle_assign_role_to_user env user role =
     (if user = 0 \<or> role = 0 then ret (Inl ErrGrpcRoleInvalidId)
      else try_or (svc_create_user_role env user role) (\<lambda>err. ret (Inl (to_grpc_error err)))
             (\<lambda>_. ret (Inr (go_int32 user, go_int32 role))))"

definition handle_remove_role_from_user :: "role_env \<Rightarrow> int \<Rightarrow> int \<Rightarrow> (go_error, unit, role_world) op" where
  "handle_remove_role_from_user env user role =
     (if user = 0 \<or> role = 0 then ret (Inl ErrGrpcRoleInvalidId) else answer (svc_delete_user_role env user role))"

text \<open>
  One message of the gateway: a user id, a correlation and a reply topic (\<open>None\<close> when it
  cannot be parsed). Every message is marked as consumed, whatever happens to the reply.
\<close>

definition consume_role_request :: "role_env \<Rightarrow> (int \<times> string \<times> string) option \<Rightarrow> role_world \<Rightarrow> role_world" where
  "consume_role_request env msg w =
     (case msg of
        None \<Rightarrow> w
      | Some (user, correlation, reply_topic) \<Rightarrow>
          if correlation = [] \<or> reply_topic = [] then w
          else (case svc_find_roles_by_user_id env user w of (r, w') \<Rightarrow>
                  let names = (case r of Inl _ \<Rightarrow> [] | Inr rs \<Rightarrow> map ro_name rs)
                  in if oe_sent env reply_topic
                     then w'\<lparr>ow_sent := ow_sent w' @ [(reply_topic, correlation, RoleResponse correlation (names \<noteq> []) names)]\<rparr>
                     else w'))"

end
