(* ===== verification/Staleness.thy ===== *)
theory Staleness
  imports Repository
begin

text \<open>
  How long a cache that commands do not invalidate can go on answering what a table no
  longer holds. All entries are written for five minutes with a jitter below 30 seconds,
  so once no more are written with a fact, none is left after five and a half minutes.
  The locale is the argument; the services interpret it on their steps.
\<close>

definition stale_bound :: int where
  "stale_bound = 5 * minute + 30 * second"

text \<open>What \<open>math/rand/v2\<close> documents of \<open>Int64N\<close>.\<close>

definition rand_ok :: "cache_env \<Rightarrow> bool" where
  "rand_ok env \<longleftrightarrow> (\<forall>n > 0. 0 \<le> ce_rand env n \<and> ce_rand env n < n)"

section \<open>Entries and their expiry\<close>

definition short_lived :: "int \<Rightarrow> 'v redis \<Rightarrow> bool" where
  "short_lived now st \<longleftrightarrow> (\<forall>key v x. st key = Some (v, x) \<longrightarrow> (\<exists>e. x = Some e \<and> e < now + stale_bound))"

text \<open>The entry of \<open>key\<close>, if it is one of the bad ones, has expired at \<open>T\<close>.\<close>

definition gone_by :: "int \<Rightarrow> ('v \<Rightarrow> bool) \<Rightarrow> string \<Rightarrow> 'v redis \<Rightarrow> bool" where
  "gone_by T bad key st \<longleftrightarrow> (\<forall>v x. st key = Some (v, x) \<longrightarrow> bad v \<longrightarrow> (\<exists>e. x = Some e \<and> e \<le> T))"

lemma jitter_default:
  assumes "rand_ok env"
  shows "0 < jitter_expiration (ce_rand env) ttl_default" "jitter_expiration (ce_rand env) ttl_default < stale_bound"
proof -
  have "0 \<le> ce_rand env (2 * (30 * second)) \<and> ce_rand env (2 * (30 * second)) < 2 * (30 * second)"
    using assms unfolding rand_ok_def by (simp add: time_defs)
  then show "0 < jitter_expiration (ce_rand env) ttl_default" "jitter_expiration (ce_rand env) ttl_default < stale_bound"
    by (auto simp: jitter_expiration_def ttl_default_def stale_bound_def time_defs Let_def)
qed

lemma set_default:
  "rand_ok env \<Longrightarrow> set_to_cache env key v ttl_default st =
     (if ce_set_ok env then st(key \<mapsto> (v, Some (ce_now env + jitter_expiration (ce_rand env) ttl_default))) else st)"
  using jitter_default(1) [of env] by (simp add: set_to_cache_def Let_def)

lemma short_lived_empty [simp]: "short_lived now Map.empty"
  by (simp add: short_lived_def)

lemma short_lived_later: "short_lived now st \<Longrightarrow> now \<le> now' \<Longrightarrow> short_lived now' st"
  by (fastforce simp: short_lived_def)

lemma short_lived_set [intro]:
  "rand_ok env \<Longrightarrow> short_lived (ce_now env) st \<Longrightarrow> short_lived (ce_now env) (set_to_cache env key v ttl_default st)"
  using jitter_default(2) [of env] by (auto simp: short_lived_def set_default)

lemma short_lived_delete [intro]: "short_lived now st \<Longrightarrow> short_lived now (delete_from_cache env key st)"
  by (auto simp: short_lived_def delete_from_cache_def)

lemma short_lived_find [intro]:
  "rand_ok env \<Longrightarrow> short_lived (ce_now env) st \<Longrightarrow>
   short_lived (ce_now env) (snd (cached_find env key sel wrap ttl_default fetched st))"
  by (auto simp: cached_find_def split: option.splits sum.splits)

lemma short_lived_page [intro]:
  "rand_ok env \<Longrightarrow> short_lived (ce_now env) st \<Longrightarrow>
   short_lived (ce_now env) (snd (cached_page env key sel wrap f fetched st))"
  by (auto simp: cached_page_def)

lemma gone_by_short: "short_lived now st \<Longrightarrow> gone_by (now + stale_bound) bad key st"
  by (fastforce simp: short_lived_def gone_by_def)

lemma gone_by_set: "gone_by T bad key st \<Longrightarrow> (k = key \<Longrightarrow> \<not> bad v) \<Longrightarrow> gone_by T bad key (set_to_cache env k v ttl st)"
  by (cases "k = key") (auto simp: gone_by_def dest!: set_to_cache_stored)

lemma gone_by_delete: "gone_by T bad key st \<Longrightarrow> gone_by T bad key (delete_from_cache env k st)"
  by (auto simp: gone_by_def dest!: delete_from_cache_stored)

lemma gone_by_find:
  "gone_by T bad key st \<Longrightarrow> (\<And>r. k = key \<Longrightarrow> fetched = Inr r \<Longrightarrow> \<not> bad (wrap r)) \<Longrightarrow>
   gone_by T bad key (snd (cached_find env k sel wrap ttl fetched st))"
  by (auto simp: cached_find_def gone_by_set split: option.splits sum.splits)

lemma gone_by_page:
  "gone_by T bad key st \<Longrightarrow> k \<noteq> key \<Longrightarrow> gone_by T bad key (snd (cached_page env k sel wrap f fetched st))"
  by (auto simp: cached_page_def intro: gone_by_find)

lemma gone_by_no_hit:
  "gone_by T bad key st \<Longrightarrow> T \<le> ce_now env \<Longrightarrow> get_from_cache env key st = Some v \<Longrightarrow> \<not> bad v"
  by (auto simp: gone_by_def get_from_cache_def split: if_splits option.splits)

section \<open>Runs in time\<close>

text \<open>Steps at clock readings that do not go back.\<close>

inductive timed_run :: "(int \<Rightarrow> 'w \<Rightarrow> 'w \<Rightarrow> bool) \<Rightarrow> int \<Rightarrow> 'w \<Rightarrow> int \<Rightarrow> 'w \<Rightarrow> bool"
  for step :: "int \<Rightarrow> 'w \<Rightarrow> 'w \<Rightarrow> bool" where
  run_nil: "timed_run step t w t w"
| run_wait: "timed_run step t w t' w' \<Longrightarrow> t' \<le> t'' \<Longrightarrow> timed_run step t w t'' w'"
| run_step: "timed_run step t w t' w' \<Longrightarrow> step t' w' w'' \<Longrightarrow> timed_run step t w t' w''"

lemma timed_run_mono: "timed_run step t w t' w' \<Longrightarrow> t \<le> t'"
  by (induction rule: timed_run.induct) auto

lemma timed_run_weaken:
  "timed_run step t w t' w' \<Longrightarrow> (\<And>t w w'. step t w w' \<Longrightarrow> step' t w w') \<Longrightarrow> timed_run step' t w t' w'"
  by (induction rule: timed_run.induct) (auto intro: timed_run.intros)

text \<open>
  The history of a run: the states it has been in with the clock, the latest first. The
  clock goes on without a step, or a step is made at one reading of it.
\<close>

inductive history :: "(int \<Rightarrow> 'w \<Rightarrow> 'w \<Rightarrow> bool) \<Rightarrow> int \<Rightarrow> 'w \<Rightarrow> (int \<times> 'w) list \<Rightarrow> bool"
  for step :: "int \<Rightarrow> 'w \<Rightarrow> 'w \<Rightarrow> bool" and t0 w0 where
  hist_start: "history step t0 w0 [(t0, w0)]"
| hist_wait: "history step t0 w0 ((t, w) # past) \<Longrightarrow> t \<le> t' \<Longrightarrow> history step t0 w0 ((t', w) # (t, w) # past)"
| hist_step: "history step t0 w0 ((t, w) # past) \<Longrightarrow> step t w w' \<Longrightarrow> history step t0 w0 ((t, w') # (t, w) # past)"

definition passes :: "(int \<times> 'w) list \<Rightarrow> int \<Rightarrow> 'w \<Rightarrow> 'w \<Rightarrow> bool" where
  "passes hist t w w' \<longleftrightarrow> (\<exists>late past. hist = late @ (t, w') # (t, w) # past)"

lemma passes_now [intro, simp]: "passes ((t, w') # (t, w) # past) t w w'"
  unfolding passes_def by (metis append_Nil)

lemma passes_later [intro]: "passes hist t w w' \<Longrightarrow> passes (x # hist) t w w'"
  unfolding passes_def by (metis append_Cons)

lemma passes_states: "passes hist t w w' \<Longrightarrow> (t, w) \<in> set hist \<and> (t, w') \<in> set hist"
  by (auto simp: passes_def)

lemma history_times: "history step t0 w0 hist \<Longrightarrow> (t, w) \<in> set hist \<Longrightarrow> t \<le> fst (hd hist)"
  by (induction rule: history.induct) auto

lemma history_run: "history step t0 w0 hist \<Longrightarrow> (t, w) \<in> set hist \<Longrightarrow> timed_run step t0 w0 t w"
proof (induction arbitrary: t w rule: history.induct)
  case (hist_wait t1 w1 past t2)
  from hist_wait.IH [of t1 w1] have "timed_run step t0 w0 t2 w1" using timed_run.run_wait [OF _ hist_wait.hyps(2)] by simp
  then show ?case using hist_wait by auto
next
  case (hist_step t1 w1 past w2)
  from hist_step.IH [of t1 w1] have "timed_run step t0 w0 t1 w2" using timed_run.run_step [where step = step, OF _ hist_step.hyps(2)] by simp
  then show ?case using hist_step by auto
qed (simp add: timed_run.run_nil)

lemma run_history: "timed_run step t0 w0 t w \<Longrightarrow> \<exists>past. history step t0 w0 ((t, w) # past)"
  by (induction rule: timed_run.induct) (blast intro: history.intros)+

text \<open>
  Every step writes entries for five minutes, and while a fact does not hold no step writes
  it under its key. Then a run in which it does not hold any more forgets it.
\<close>

locale ageing_cache =
  fixes step :: "int \<Rightarrow> 'w \<Rightarrow> 'w \<Rightarrow> bool" and cache :: "'w \<Rightarrow> 'v redis"
  assumes step_short: "step now w w' \<Longrightarrow> short_lived now (cache w) \<Longrightarrow> short_lived now (cache w')"
begin

lemma run_short: "timed_run step t w t' w' \<Longrightarrow> short_lived t (cache w) \<Longrightarrow> short_lived t' (cache w')"
  by (induction rule: timed_run.induct) (auto intro: step_short short_lived_later)

end

locale forgetting_cache = ageing_cache step cache
  for step :: "int \<Rightarrow> 'w \<Rightarrow> 'w \<Rightarrow> bool" and cache :: "'w \<Rightarrow> 'v redis" +
  fixes holds :: "'f \<Rightarrow> 'w \<Rightarrow> bool" and bad :: "'f \<Rightarrow> 'v \<Rightarrow> bool" and key :: "'f \<Rightarrow> string"
  assumes step_gone: "step now w w' \<Longrightarrow> \<not> holds f w \<Longrightarrow> \<not> holds f w' \<Longrightarrow>
    gone_by T (bad f) (key f) (cache w) \<Longrightarrow> gone_by T (bad f) (key f) (cache w')"
begin

lemma run_gone:
  assumes "timed_run (\<lambda>now w w'. step now w w' \<and> \<not> holds f w') t w t' w'" "\<not> holds f w"
    "gone_by T (bad f) (key f) (cache w)"
  shows "\<not> holds f w' \<and> gone_by T (bad f) (key f) (cache w')"
  using assms
proof (induction rule: timed_run.induct)
  case (run_step t w t' w' w'')
  have IH: "\<not> holds f w' \<and> gone_by T (bad f) (key f) (cache w')" by (rule run_step.IH) (fact run_step.prems)+
  show ?case using run_step.hyps step_gone [OF _ conjunct1 [OF IH] _ conjunct2 [OF IH]] by blast
qed (rule conjI, assumption+)

lemma forgotten:
  assumes "timed_run step t0 w0 t w" "short_lived t0 (cache w0)" "\<not> holds f w"
    and "timed_run (\<lambda>now w w'. step now w w' \<and> \<not> holds f w') t w (ce_now env) w'"
    and "t + stale_bound \<le> ce_now env" "get_from_cache env (key f) (cache w') = Some v"
  shows "\<not> bad f v"
proof -
  have "gone_by (t + stale_bound) (bad f) (key f) (cache w)"
    using run_short [OF assms(1,2)] by (rule gone_by_short)
  then have "gone_by (t + stale_bound) (bad f) (key f) (cache w')" using run_gone [OF assms(4,3)] by simp
  then show ?thesis by (rule gone_by_no_hit [OF _ assms(5,6)])
qed

text \<open>What is answered has held in a state of the history.\<close>

lemma never_held:
  "history step t0 w0 hist \<Longrightarrow> cache w0 = Map.empty \<Longrightarrow> \<forall>(t, w) \<in> set hist. \<not> holds f w \<Longrightarrow>
   gone_by T (bad f) (key f) (cache (snd (hd hist)))"
proof (induction rule: history.induct)
  case hist_start
  then show ?case by (simp add: gone_by_def)
next
  case (hist_step t w past w')
  then show ?case using step_gone [OF hist_step.hyps(2), of f T] by simp
qed simp

lemma held_once:
  assumes "history step t0 w0 ((ce_now env, w) # past)" "cache w0 = Map.empty"
    and "get_from_cache env (key f) (cache w) = Some v" "bad f v"
  shows "\<exists>(t, w') \<in> set ((ce_now env, w) # past). holds f w'"
proof (rule ccontr)
  assume "\<not> ?thesis"
  then have "\<forall>(t, w') \<in> set ((ce_now env, w) # past). \<not> holds f w'" by blast
  from never_held [OF assms(1,2) this, of "ce_now env"]
  have "gone_by (ce_now env) (bad f) (key f) (cache w)" by simp
  from gone_by_no_hit [OF this order_refl assms(3)] assms(4) show False by simp
qed

end

end
