(* ===== verification/RoleFacts.thy ===== *)
theory RoleFacts
  imports RoleService Staleness
begin

text \<open>
  What the role service guarantees: its tables stay well formed, and although no command
  touches the cache, a role that was taken from a user is answered for at most five and a
  half minutes more. The last section shows what the code leaves open.
\<close>

section \<open>Steps of the service\<close>

definition role_env_at :: "int \<Rightarrow> role_env \<Rightarrow> bool" where
  "role_env_at now env \<longleftrightarrow> oe_now env = now \<and> rand_ok (oe_cache env)"

inductive role_step :: "int \<Rightarrow> role_world \<Rightarrow> role_world \<Rightarrow> bool" where
  "role_env_at now env \<Longrightarrow> role_step now w (snd (svc_create_role env name w))"
| "role_env_at now env \<Longrightarrow> role_step now w (snd (svc_update_role env i name w))"
| "role_env_at now env \<Longrightarrow> role_step now w (snd (svc_trashed_role env i w))"
| "role_env_at now env \<Longrightarrow> role_step now w (snd (svc_restore_role env i w))"
| "role_env_at now env \<Longrightarrow> role_step now w (snd (svc_delete_role_permanent env i w))"
| "role_env_at now env \<Longrightarrow> role_step now w (snd (svc_restore_all_role env w))"
| "role_env_at now env \<Longrightarrow> role_step now w (snd (svc_delete_all_role_permanent env w))"
| "role_env_at now env \<Longrightarrow> role_step now w (snd (svc_create_user_role env user role w))"
| "role_env_at now env \<Longrightarrow> role_step now w (snd (svc_delete_user_role env user role w))"
| "role_env_at now env \<Longrightarrow> role_step now w (snd (svc_find_role_by_id env i w))"
| "role_env_at now env \<Longrightarrow> role_step now w (snd (svc_find_role_by_name env name w))"
| "role_env_at now env \<Longrightarrow> role_step now w (snd (svc_find_roles_by_user_id env user w))"
| "role_env_at now env \<Longrightarrow> role_step now w (snd (svc_find_all_roles env page w))"
| "role_env_at now env \<Longrightarrow> role_step now w (snd (svc_find_active_roles env page w))"
| "role_env_at now env \<Longrightarrow> role_step now w (snd (svc_find_trashed_roles env page w))"
| "role_env_at now env \<Longrightarrow> role_step now w (consume_role_request env msg w)"

definition empty_role_db :: role_db where
  "empty_role_db = \<lparr>role_rows = [], role_seq = 1, user_roles = [], user_role_seq = 1\<rparr>"

definition empty_role_world :: role_world where
  "empty_role_world = \<lparr>ow_db = empty_role_db, ow_cache = Map.empty, ow_sent = []\<rparr>"

text \<open>A command leaves the cache alone, a query the tables.\<close>

lemma role_command_frame [simp]:
  "ow_cache (snd (role_command f m w)) = ow_cache w" "ow_db (snd (role_command f m w)) = snd (m (ow_db w))"
  by (simp_all add: role_command_def map_error_def on_role_db_def zoom_def split: prod.splits sum.splits)

lemma on_role_cache_frame [simp]:
  "ow_cache (snd (on_role_cache m w)) = snd (m (ow_cache w))" "ow_db (snd (on_role_cache m w)) = ow_db w"
  by (simp_all add: on_role_cache_def zoom_def split: prod.splits)

lemmas role_command_defs =
  svc_create_role_def svc_update_role_def svc_trashed_role_def svc_restore_role_def svc_delete_role_permanent_def
  svc_restore_all_role_def svc_delete_all_role_permanent_def svc_create_user_role_def svc_delete_user_role_def

lemma find_by_user_frame [simp]: "ow_db (snd (svc_find_roles_by_user_id env user w)) = ow_db w"
  by (simp add: svc_find_roles_by_user_id_def split: option.splits sum.splits)

lemma find_active_frame [simp]: "ow_db (snd (svc_find_active_roles env page w)) = ow_db w"
  by (simp add: svc_find_active_roles_def split: sum.splits)

lemma consume_frame:
  "ow_db (consume_role_request env msg w) = ow_db w"
  "ow_cache (consume_role_request env msg w)
     = (case msg of Some (user, c, t) \<Rightarrow> if c = [] \<or> t = [] then ow_cache w else ow_cache (snd (svc_find_roles_by_user_id env user w))
        | None \<Rightarrow> ow_cache w)"
  by (simp_all add: consume_role_request_def Let_def case_prod_unfold split: option.splits)

section \<open>The tables\<close>

definition role_tables_ok :: "role_db \<Rightarrow> bool" where
  "role_tables_ok db \<longleftrightarrow>
     distinct (map ro_id (role_rows db)) \<and> distinct (map ro_name (role_rows db))
     \<and> (\<forall>r \<in> set (role_rows db). ro_id r < role_seq db \<and> length (ro_name r) \<le> 50)
     \<and> distinct (map ur_id (user_roles db)) \<and> (\<forall>u \<in> set (user_roles db). ur_id u < user_role_seq db)
     \<and> ur_role ` set (user_roles db) \<subseteq> ro_id ` set (role_rows db)"


lemma role_fresh: "role_tables_ok db \<Longrightarrow> role_seq db \<notin> ro_id ` set (role_rows db)"
  by (force simp: role_tables_ok_def)

lemma user_role_fresh: "role_tables_ok db \<Longrightarrow> user_role_seq db \<notin> ur_id ` set (user_roles db)"
  by (force simp: role_tables_ok_def)

lemma create_role_keeps: "keeps role_tables_ok (create_role_sql now name)"
proof (rule keepsI)
  fix db assume ok: "role_tables_ok db"
  have "ro_id r < role_seq db + 1" if "r \<in> set (role_rows db)" for r using ok that by (fastforce simp: role_tables_ok_def)
  then show "role_tables_ok (snd (create_role_sql now name db))" using ok role_fresh [OF ok]
    by (simp add: create_role_sql_def Let_def role_tables_ok_def subset_insertI2)
qed

lemma assign_role_keeps: "keeps role_tables_ok (assign_role_to_user_sql now user role)"
proof (rule keepsI)
  fix db assume ok: "role_tables_ok db"
  have "ur_id r < user_role_seq db + 1" if "r \<in> set (user_roles db)" for r using ok that by (fastforce simp: role_tables_ok_def)
  then show "role_tables_ok (snd (assign_role_to_user_sql now user role db))" using ok user_role_fresh [OF ok]
    by (simp add: assign_role_to_user_sql_def Let_def role_tables_ok_def subset_insertI2)
qed

lemma delete_roles_keeps: "keeps role_tables_ok (delete_roles_where p)"
proof (rule keepsI)
  fix db assume ok: "role_tables_ok db"
  then have "ur_role ` {u \<in> set (user_roles db). ur_role u \<notin> ro_id ` {r \<in> set (role_rows db). p r}}
      \<subseteq> ro_id ` {r \<in> set (role_rows db). \<not> p r}"
    unfolding role_tables_ok_def by blast
  then show "role_tables_ok (snd (delete_roles_where p db))" using ok
    by (simp add: delete_roles_where_def role_tables_ok_def Let_def distinct_map_filter)
qed
lemma remove_role_keeps: "keeps role_tables_ok (remove_role_from_user_sql user role)"
proof (rule keepsI)
  fix db assume "role_tables_ok db"
  then show "role_tables_ok (snd (remove_role_from_user_sql user role db))"
    by (auto simp: remove_role_from_user_sql_def role_tables_ok_def distinct_map_filter image_subset_iff)
qed

lemma role_update_ok:
  assumes "role_tables_ok db" "\<And>r. ro_id (f r) = ro_id r"
    "distinct (map ro_name (update_where p f (role_rows db)))"
    "\<And>r. r \<in> set (role_rows db) \<Longrightarrow> p r \<Longrightarrow> length (ro_name (f r)) \<le> 50"
  shows "role_tables_ok (db\<lparr>role_rows := update_where p f (role_rows db)\<rparr>)"
proof -
  have ids: "map ro_id (update_where p f (role_rows db)) = map ro_id (role_rows db)"
    using assms(2) by (rule map_update_where)
  have "ro_id r < role_seq db \<and> length (ro_name r) \<le> 50" if r: "r \<in> set (update_where p f (role_rows db))" for r
    using in_update_where [OF r] assms(1,2,4) by (auto simp: role_tables_ok_def)
  moreover have "ro_id ` set (update_where p f (role_rows db)) = ro_id ` set (role_rows db)"
    using arg_cong [OF ids, of set] by (simp only: set_map)
  ultimately show ?thesis using assms(1,3) ids by (simp add: role_tables_ok_def)
qed

lemma mark_role_keeps: "keeps role_tables_ok (trash_role_sql now i)" "keeps role_tables_ok (restore_role_sql i)"
    "keeps role_tables_ok restore_all_roles_sql"
proof -
  have same: "role_tables_ok (db\<lparr>role_rows := update_where p f (role_rows db)\<rparr>)"
    if "role_tables_ok db" "\<And>r. ro_id (f r) = ro_id r" "\<And>r. ro_name (f r) = ro_name r" for db p f
    using that by (intro role_update_ok) (simp_all add: map_update_where role_tables_ok_def)
  have returning: "keeps role_tables_ok (on_roles (update_returning p (\<lambda>_. None) f))"
    if "\<And>r. ro_id (f r) = ro_id r" "\<And>r. ro_name (f r) = ro_name r" for p f
    using same [OF _ that] by (auto simp: keeps_def on_roles_def zoom_def update_returning_def split: option.splits)
  show "keeps role_tables_ok (trash_role_sql now i)" "keeps role_tables_ok (restore_role_sql i)"
    by (simp_all add: trash_role_sql_def restore_role_sql_def returning)
  show "keeps role_tables_ok restore_all_roles_sql"
    using same by (simp add: keeps_def restore_all_roles_sql_def on_roles_def zoom_def)
qed

lemma update_role_keeps: "keeps role_tables_ok (update_role_sql now i name)"
proof (rule keepsI)
  fix db assume ok: "role_tables_ok db"
  let ?f = "\<lambda>r. r\<lparr>ro_name := name, ro_updated := now\<rparr>" and ?rows = "role_rows db"
  show "role_tables_ok (snd (update_role_sql now i name db))"
  proof (cases "length name \<le> 50 \<and> (\<forall>r \<in> set ?rows. ro_id r \<noteq> i \<longrightarrow> ro_name r \<noteq> name)")
    case True
    then have "distinct (map ro_name (update_where (\<lambda>r. ro_id r = i) ?f ?rows))"
      using ok by (intro distinct_update_key [where k = ro_id and i = i and v = name]) (auto simp: role_tables_ok_def)
    then have "role_tables_ok (db\<lparr>role_rows := update_where (\<lambda>r. ro_id r = i) ?f ?rows\<rparr>)"
      using ok True by (intro role_update_ok) simp_all
    then show ?thesis using ok True
      by (auto simp: update_role_sql_def on_roles_def zoom_def update_returning_def split: option.splits)
  qed (use ok in \<open>auto simp: update_role_sql_def on_roles_def zoom_def update_returning_def split: option.splits\<close>)
qed


lemmas role_sql_keeps =
  create_role_keeps assign_role_keeps delete_roles_keeps remove_role_keeps mark_role_keeps update_role_keeps

lemma create_user_role_keeps: "keeps role_tables_ok (repo_create_user_role fl fl' now user role)"
  unfolding repo_create_user_role_def
  by (intro keeps_try_or keeps_with_fault assign_role_keeps) (simp_all add: keeps_def ret_def)

text \<open>Whatever the service does, its tables stay well formed.\<close>

theorem role_tables_stay_ok:
  "timed_run role_step t empty_role_world t' w \<Longrightarrow> role_tables_ok (ow_db w)"
proof (induction t w0 \<equiv> empty_role_world t' w rule: timed_run.induct)
  case (run_nil t)
  then show ?case by (simp add: empty_role_world_def empty_role_db_def role_tables_ok_def)
next
  case (run_step t t' w' w'')
  then have ok: "role_tables_ok (ow_db w')" by simp
  note keep = keepsD [where P = role_tables_ok, OF _ ok] role_sql_keeps create_user_role_keeps keeps_map_error keeps_with_fault
  show ?case using run_step.hyps(3)
    by cases (simp_all add: role_command_defs consume_frame ok svc_find_role_by_id_def svc_find_role_by_name_def
        svc_find_all_roles_def svc_find_trashed_roles_def repo_create_role_def repo_update_role_def
        repo_trashed_role_def repo_restore_role_def repo_delete_role_permanent_def repo_restore_all_role_def
        repo_delete_all_role_permanent_def repo_delete_user_role_def delete_permanent_role_sql_def
        delete_all_permanent_roles_sql_def keep)
qed simp

section \<open>Roles taken from a user\<close>

definition holds_role :: "int \<times> int \<Rightarrow> role_world \<Rightarrow> bool" where
  "holds_role f w \<longleftrightarrow> (\<exists>u \<in> set (user_roles (ow_db w)). ur_user u = go_int32 (fst f) \<and> ur_role u = snd f)"

fun answers_role :: "int \<times> int \<Rightarrow> role_value \<Rightarrow> bool" where
  "answers_role f (VUserRoles rs) \<longleftrightarrow> snd f \<in> set (map ro_id rs)"
| "answers_role f _ \<longleftrightarrow> False"

lemma user_roles_held: "r \<in> set (get_user_roles_sql user db) \<Longrightarrow> \<exists>u \<in> set (user_roles db). ur_user u = user \<and> ur_role u = ro_id r"
  by (auto simp: get_user_roles_sql_def)

text \<open>The entry of a user is written by the lookup of the user only, with what the tables hold.\<close>

lemma find_by_user_gone:
  assumes "\<not> bad (VUserRoles (get_user_roles_sql (go_int32 user) (ow_db w)))"
    and "gone_by T bad (role_by_user_id_key user) (ow_cache w)"
  shows "gone_by T bad (role_by_user_id_key user) (ow_cache (snd (svc_find_roles_by_user_id env user' w)))"
  using assms by (cases "user' = user")
    (auto simp: svc_find_roles_by_user_id_def role_not_found_def repo_find_roles_by_user_id_def map_read_error_def
      read_fault_def role_by_user_id_key_def intro!: gone_by_set split: option.splits sum.splits fault.splits)

lemma role_step_short: "role_step now w w' \<Longrightarrow> short_lived now (ow_cache w) \<Longrightarrow> short_lived now (ow_cache w')"
proof -
  assume st: "role_step now w w'" and short: "short_lived now (ow_cache w)"
  have find: "role_env_at now env \<Longrightarrow> short_lived now (ow_cache (snd (svc_find_roles_by_user_id env user w)))" for env user
    using short by (auto simp: svc_find_roles_by_user_id_def role_env_at_def oe_now_def split: option.splits sum.splits)
  show "short_lived now (ow_cache w')" using st
    by cases (use short find in \<open>auto simp: role_command_defs consume_frame svc_find_role_by_id_def svc_find_role_by_name_def
        svc_find_all_roles_def svc_find_trashed_roles_def svc_find_active_roles_def role_page_def role_env_at_def oe_now_def
        split: option.splits sum.splits\<close>)
qed

lemma role_step_gone:
  assumes st: "role_step now w w'" and bad: "\<not> bad (VUserRoles (get_user_roles_sql (go_int32 user) (ow_db w)))"
    and gone: "gone_by T bad (role_by_user_id_key user) (ow_cache w)"
  shows "gone_by T bad (role_by_user_id_key user) (ow_cache w')"
  using st
  by cases (use gone find_by_user_gone [OF bad gone] in \<open>auto simp: role_command_defs consume_frame svc_find_role_by_id_def
      svc_find_role_by_name_def svc_find_all_roles_def svc_find_trashed_roles_def svc_find_active_roles_def role_page_def
      role_by_id_key_def role_by_name_key_def role_by_user_id_key_def listing_key_def
      intro!: gone_by_find gone_by_page gone_by_set split: option.splits sum.splits\<close>)

lemma not_answers_role: "\<not> holds_role f w \<Longrightarrow> \<not> answers_role f (VUserRoles (get_user_roles_sql (go_int32 (fst f)) (ow_db w)))"
  using user_roles_held by (fastforce simp: holds_role_def)

interpretation role_cache: forgetting_cache role_step ow_cache holds_role answers_role "\<lambda>f. role_by_user_id_key (fst f)"
proof
  fix now w w' assume "role_step now w w'" "short_lived now (ow_cache w)"
  then show "short_lived now (ow_cache w')" by (rule role_step_short)
next
  fix now w w' f T assume st: "role_step now w w'" and "\<not> holds_role f w"
    "gone_by T (answers_role f) (role_by_user_id_key (fst f)) (ow_cache w)"
  then show "gone_by T (answers_role f) (role_by_user_id_key (fst f)) (ow_cache w')"
    by (intro role_step_gone [OF st] not_answers_role)
qed

text \<open>
  From five and a half minutes after a role was taken from a user, as long as nothing
  gives it back, the roles answered for the user do not contain it, although no command of
  the service touches the cache
\<close>

theorem revoked_role_forgotten:
  assumes "timed_run role_step t0 empty_role_world t w" "oe_now env0 = t" "rand_ok (oe_cache env0)"
    and "fst (svc_delete_user_role env0 user role w) = Inr ()" "fits_int32 role"
    and "timed_run (\<lambda>now w w'. role_step now w w' \<and> \<not> holds_role (user, role) w')
      t (snd (svc_delete_user_role env0 user role w)) (oe_now env) w'"
    and "t + stale_bound \<le> oe_now env" "fst (svc_find_roles_by_user_id env user w') = Inr rs"
  shows "role \<notin> set (map ro_id rs)"
proof -
  let ?w1 = "snd (svc_delete_user_role env0 user role w)"
  have run: "timed_run role_step t0 empty_role_world t ?w1"
    by (rule timed_run.run_step [OF assms(1) role_step.intros(9)]) (simp add: role_env_at_def assms(2,3))
  have gone: "\<not> holds_role (user, role) ?w1" using assms(4,5)
    by (auto simp: svc_delete_user_role_def role_command_def map_error_def on_role_db_def zoom_def
        repo_delete_user_role_def with_fault_def remove_role_from_user_sql_def holds_role_def
        split: prod.splits sum.splits fault.splits)
  have still: "\<not> holds_role (user, role) w'"
    using assms(6) gone by (induction rule: timed_run.induct) auto
  have hit: "role \<notin> set (map ro_id rs')"
    if "get_from_cache (oe_cache env) (role_by_user_id_key user) (ow_cache w') = Some (VUserRoles rs')" for rs'
    using role_cache.forgotten [OF run _ gone assms(6) [unfolded oe_now_def] assms(7) [unfolded oe_now_def], of "VUserRoles rs'"] that
    by (simp add: empty_role_world_def)
  have miss: "role \<notin> set (map ro_id (get_user_roles_sql (go_int32 user) (ow_db w')))"
    using still user_roles_held by (fastforce simp: holds_role_def)
  show ?thesis
  proof (cases "Option.bind (get_from_cache (oe_cache env) (role_by_user_id_key user) (ow_cache w')) value_user_roles")
    case None
    then show ?thesis using assms(8) miss
      by (auto simp: svc_find_roles_by_user_id_def role_not_found_def repo_find_roles_by_user_id_def
          map_read_error_def read_fault_def split: sum.splits fault.splits)
  next
    case (Some rs')
    then obtain v where v: "get_from_cache (oe_cache env) (role_by_user_id_key user) (ow_cache w') = Some v"
      "value_user_roles v = Some rs'" by (auto simp: Option.bind_eq_Some_conv)
    then have "v = VUserRoles rs'" by (cases v) simp_all
    then show ?thesis using hit v(1) Some assms(8) by (simp add: svc_find_roles_by_user_id_def)
  qed
qed

text \<open>
  A user loses the only role; the lookup before has cached it. Five and a half minutes
  later it is not answered any more, while in between it was.
\<close>

definition sample_role_env :: "int \<Rightarrow> role_env" where
  "sample_role_env now = \<lparr>oe_cache = \<lparr>ce_now = now, ce_rand = (\<lambda>n. 0), ce_get_ok = True, ce_set_ok = True, ce_del_ok = True\<rparr>,
     oe_fault = (\<lambda>_. Deliver), oe_sent = (\<lambda>_. True)\<rparr>"

definition one_role_world :: role_world where
  "one_role_world = snd (svc_find_roles_by_user_id (sample_role_env 0) 7
     (snd (svc_create_user_role (sample_role_env 0) 7 1 (snd (svc_create_role (sample_role_env 0) ''ROLE_ADMIN'' empty_role_world)))))"

definition revoked_world :: role_world where
  "revoked_world = snd (svc_delete_user_role (sample_role_env 0) 7 1 one_role_world)"

lemma sample_role_env_at: "role_env_at now (sample_role_env now)" "rand_ok (oe_cache (sample_role_env now))"
  by (simp_all add: role_env_at_def sample_role_env_def oe_now_def rand_ok_def)

lemma one_role_run: "timed_run role_step 0 empty_role_world 0 one_role_world"
  unfolding one_role_world_def
  by (intro timed_run.run_step [OF timed_run.run_step [OF timed_run.run_step [OF timed_run.run_nil]]])
    (rule role_step.intros, rule sample_role_env_at)+

theorem revoked_role_forgotten_witness:
  "fst (svc_find_roles_by_user_id (sample_role_env stale_bound) 7 revoked_world) = Inr []
   \<and> 1 \<notin> set (map ro_id ([] :: role_row list))"
proof
  show "fst (svc_find_roles_by_user_id (sample_role_env stale_bound) 7 revoked_world) = Inr []" by code_simp
  then show "1 \<notin> set (map ro_id ([] :: role_row list))"
  proof (rule revoked_role_forgotten [OF one_role_run, rotated -1])
    show "oe_now (sample_role_env 0) = 0" by code_simp
    show "rand_ok (oe_cache (sample_role_env 0))" by (rule sample_role_env_at)
    show "fst (svc_delete_user_role (sample_role_env 0) 7 1 one_role_world) = Inr ()" by code_simp
    show "fits_int32 1" by (simp add: fits_int32_def)
    show "0 + stale_bound \<le> oe_now (sample_role_env stale_bound)" by (simp add: sample_role_env_def oe_now_def)
    have "timed_run (\<lambda>now w w'. role_step now w w' \<and> \<not> holds_role (7, 1) w') 0 revoked_world stale_bound revoked_world"
      by (rule timed_run.run_wait [OF timed_run.run_nil]) (simp add: stale_bound_def time_defs)
    then show "timed_run (\<lambda>now w w'. role_step now w w' \<and> \<not> holds_role (7, 1) w') 0
        (snd (svc_delete_user_role (sample_role_env 0) 7 1 one_role_world)) (oe_now (sample_role_env stale_bound)) revoked_world"
      by (simp add: revoked_world_def sample_role_env_def oe_now_def)
  qed
qed

section \<open>What the code leaves open\<close>

text \<open>Until then the gateway is told the old role.\<close>

lemma revoked_role_answered:
  "map_sum id (map ro_name) (fst (svc_find_roles_by_user_id (sample_role_env (4 * minute)) 7 revoked_world)) = Inr [''ROLE_ADMIN'']"
  by code_simp

text \<open>A trashed role is still held, found by its name and can be assigned.\<close>

lemma trashed_role_still_held:
  "let w = snd (svc_trashed_role (sample_role_env (9 * minute)) 1 one_role_world); env = sample_role_env (10 * minute)
   in map_sum id (map ro_name) (fst (svc_find_roles_by_user_id env 7 w)) = Inr [''ROLE_ADMIN'']
      \<and> map_sum id ro_id (fst (svc_find_role_by_name env ''ROLE_ADMIN'' w)) = Inr 1
      \<and> map_sum id ro_id (fst (svc_create_user_role env 8 1 w)) = Inr 1"
  by code_simp

text \<open>Roles have no UNIQUE constraint per user: one assigned twice is answered twice.\<close>

lemma role_assigned_twice:
  "let w = snd (svc_create_user_role (sample_role_env (9 * minute)) 7 1 one_role_world)
   in map_sum id (map ro_id) (fst (svc_find_roles_by_user_id (sample_role_env (10 * minute)) 7 w)) = Inr [1, 1]"
  by code_simp

text \<open>Taking a role that the user does not hold, or that does not exist, succeeds.\<close>

lemma absent_role_removed: "fst (svc_delete_user_role (sample_role_env 0) 7 99 one_role_world) = Inr ()"
  by code_simp

text \<open>A renamed role is answered under its old name to the end of its cached life.\<close>

lemma renamed_role_answered:
  "let w = snd (svc_update_role (sample_role_env minute) 1 ''ROLE_USER'' one_role_world)
   in map_sum id (map ro_name) (fst (svc_find_roles_by_user_id (sample_role_env (2 * minute)) 7 w)) = Inr [''ROLE_ADMIN'']"
  by code_simp

end
