(* ===== verification/AuthStore.thy ===== *)
theory AuthStore
  imports Cache
begin

text \<open>
  What the authentication service (\<open>service/auth\<close>) stores: the tables of refresh and
  reset tokens with their statements and repositories, and the keys and values it keeps in
  Redis. With it the parts of its surroundings the code names: the users behind the gRPC
  adapters (\<open>pkg/adapter/user.go\<close>, \<open>role.go\<close>, \<open>user_role.go\<close>), the signed tokens
  (\<open>pkg/auth\<close>) and the random codes.
\<close>

section \<open>Parsing decimals\<close>

definition is_digit :: "char \<Rightarrow> bool" where
  "is_digit c \<longleftrightarrow> 48 \<le> (of_char c :: nat) \<and> (of_char c :: nat) \<le> 57"

definition digits_value :: "string \<Rightarrow> int" where
  "digits_value ds = foldl (\<lambda>a c. 10 * a + (int (of_char c) - 48)) 0 ds"

text \<open>\<open>strconv.Atoi\<close> on a 64-bit platform.\<close>

definition atoi :: "string \<Rightarrow> int option" where
  "atoi s =
     (let neg = (s \<noteq> [] \<and> hd s = CHR ''-'');
          ds = (if s \<noteq> [] \<and> (hd s = CHR ''-'' \<or> hd s = CHR ''+'') then tl s else s);
          v = (if neg then - digits_value ds else digits_value ds)
      in if ds \<noteq> [] \<and> list_all is_digit ds \<and> fits_int64 v then Some v else None)"

lemma digits_value_snoc: "digits_value (ds @ [c]) = 10 * digits_value ds + (int (of_char c) - 48)"
  by (simp add: digits_value_def)

lemma digits_value_nat_digits: "digits_value (nat_digits n) = int n"
proof (induction n rule: nat_digits.induct)
  case (1 n)
  show ?case
  proof (cases "n < 10")
    case True
    then show ?thesis
      by (subst nat_digits.simps) (simp add: digits_value_def digit_char_range)
  next
    case False
    moreover have "10 * int (n div 10) + int (n mod 10) = int n" by presburger
    ultimately show ?thesis using 1
      by (subst nat_digits.simps) (simp add: digits_value_snoc digit_char_range)
  qed
qed

lemma is_digit_digit_char: "d < 10 \<Longrightarrow> is_digit (digit_char d)"
  by (simp add: is_digit_def digit_char_range)

lemma not_digits: "\<not> is_digit CHR ''-''" "\<not> is_digit CHR ''+''" "\<not> is_digit CHR ''.''"
  by (simp_all add: is_digit_def)

lemma nat_digits_digits: "list_all is_digit (nat_digits n)"
  using nat_digits_chars [of _ n] is_digit_digit_char by (auto simp: list_all_iff)

lemma atoi_itoa: "fits_int64 i \<Longrightarrow> atoi (itoa i) = Some i"
proof -
  assume i: "fits_int64 i"
  have "is_digit (hd (nat_digits n))" for n
    using nat_digits_digits [of n] by (simp add: list_all_iff)
  then have "hd (nat_digits n) \<noteq> CHR ''-''" "hd (nat_digits n) \<noteq> CHR ''+''" for n
    using not_digits by metis+
  then show ?thesis using i
    by (simp add: atoi_def itoa_def digits_value_nat_digits nat_digits_digits)
qed

text \<open>A string with a dot, as every signed token is, is not a number.\<close>

lemma atoi_dot: "CHR ''.'' \<in> set s \<Longrightarrow> atoi s = None"
proof -
  assume dot: "CHR ''.'' \<in> set s"
  then have "CHR ''.'' \<in> set (tl s)" if "hd s = CHR ''-'' \<or> hd s = CHR ''+''" using that by (cases s) auto
  then have "\<not> list_all is_digit (if s \<noteq> [] \<and> (hd s = CHR ''-'' \<or> hd s = CHR ''+'') then tl s else s)"
    using dot not_digits(3) by (auto simp: list_all_iff)
  then show ?thesis by (simp add: atoi_def Let_def)
qed

section \<open>Signed tokens\<close>

text \<open>
  The JWT library signs an expiry (Unix seconds), a subject and an audience, and parses a
  token at an instant: an expired one, one it refuses, or the subject.
\<close>

datatype jwt_answer = JwtExpired | JwtRefused string | JwtSubject string

record jwt_lib =
  jwt_sign :: "int \<Rightarrow> string \<Rightarrow> string \<Rightarrow> string"
  jwt_parse :: "int \<Rightarrow> string \<Rightarrow> jwt_answer"

text \<open>
  What the library documents: a token it signed is parsed back until it expires, only
  signed tokens are accepted, and a token has three parts between dots.
\<close>

definition jwt_sound :: "jwt_lib \<Rightarrow> bool" where
  "jwt_sound lib \<longleftrightarrow>
     (\<forall>e sub aud now. jwt_parse lib now (jwt_sign lib e sub aud)
        = (if now < e * second then JwtSubject sub else JwtExpired))
     \<and> (\<forall>now t sub. jwt_parse lib now t = JwtSubject sub \<longrightarrow> (\<exists>e aud. t = jwt_sign lib e sub aud))
     \<and> (\<forall>e sub aud. CHR ''.'' \<in> set (jwt_sign lib e sub aud))"

definition generate_token :: "jwt_lib \<Rightarrow> int \<Rightarrow> int \<Rightarrow> string \<Rightarrow> string" where
  "generate_token lib now user aud = jwt_sign lib ((now + 12 * hour) div second) (itoa user) aud"

definition ErrTokenExpired :: go_error where
  "ErrTokenExpired = ErrorString ''token expired''"

definition validate_token :: "jwt_lib \<Rightarrow> int \<Rightarrow> string \<Rightarrow> go_error + string" where
  "validate_token lib now t =
     (case jwt_parse lib now t of
        JwtExpired \<Rightarrow> Inl ErrTokenExpired
      | JwtRefused m \<Rightarrow> Inl (Wrapped ''failed to parse token: '' (ErrorString m))
      | JwtSubject sub \<Rightarrow> Inr sub)"

section \<open>Tables\<close>

record refresh_row =
  rt_id :: int
  rt_user :: int
  rt_token :: string
  rt_expiration :: int
  rt_created :: int
  rt_updated :: int
  rt_deleted :: "int option"

record reset_row =
  rs_id :: int
  rs_user :: int
  rs_token :: string
  rs_expiry :: int

record auth_db =
  refresh_rows :: "refresh_row list"
  refresh_seq :: int
  reset_rows :: "reset_row list"
  reset_seq :: int

definition create_refresh_token_sql ::
  "int \<Rightarrow> int \<Rightarrow> string \<Rightarrow> int \<Rightarrow> (go_error, refresh_row, auth_db) op" where
  "create_refresh_token_sql now user token expiration db =
     (if length token > 255 then (Inl (DbError ''22001''), db)
      else if refresh_seq db > 2147483647 then (Inl (DbError ''2200H''), db)
      else let db1 = db\<lparr>refresh_seq := refresh_seq db + 1\<rparr>;
               r = \<lparr>rt_id = refresh_seq db, rt_user = user, rt_token = token, rt_expiration = expiration,
                    rt_created = now, rt_updated = now, rt_deleted = None\<rparr>
           in if token \<in> set (map rt_token (refresh_rows db)) then (Inl (DbError ''23505''), db1)
              else (Inr r, db1\<lparr>refresh_rows := refresh_rows db @ [r]\<rparr>))"

definition delete_refresh_token_sql :: "string \<Rightarrow> (go_error, unit, auth_db) op" where
  "delete_refresh_token_sql token db =
     (Inr (), db\<lparr>refresh_rows := filter (\<lambda>r. rt_token r \<noteq> token) (refresh_rows db)\<rparr>)"

definition delete_refresh_token_by_user_id_sql :: "int \<Rightarrow> (go_error, unit, auth_db) op" where
  "delete_refresh_token_by_user_id_sql user db =
     (Inr (), db\<lparr>refresh_rows := filter (\<lambda>r. rt_user r \<noteq> user) (refresh_rows db)\<rparr>)"

definition refresh_live :: "refresh_row \<Rightarrow> bool" where
  "refresh_live r \<longleftrightarrow> rt_deleted r = None"

definition find_refresh_token_by_token_sql :: "string \<Rightarrow> auth_db \<Rightarrow> refresh_row option" where
  "find_refresh_token_by_token_sql token db =
     find (\<lambda>r. rt_token r = token \<and> refresh_live r) (refresh_rows db)"

definition find_refresh_token_by_user_id_sql :: "int \<Rightarrow> auth_db \<Rightarrow> refresh_row option" where
  "find_refresh_token_by_user_id_sql user db =
     (case sort_key (\<lambda>r. - rt_created r) (filter (\<lambda>r. rt_user r = user \<and> refresh_live r) (refresh_rows db)) of
        [] \<Rightarrow> None
      | r # _ \<Rightarrow> Some r)"

text \<open>
  Every live row of the user gets the token: with two rows the UNIQUE constraint refuses,
  with none there is no row to scan.
\<close>

definition update_refresh_token_by_user_id_sql ::
  "int \<Rightarrow> int \<Rightarrow> string \<Rightarrow> int \<Rightarrow> (go_error, refresh_row, auth_db) op" where
  "update_refresh_token_by_user_id_sql now user token expiration db =
     (let hit = (\<lambda>r. rt_user r = user \<and> refresh_live r);
          rows = update_where hit (\<lambda>r. r\<lparr>rt_token := token, rt_expiration := expiration, rt_updated := now\<rparr>)
                   (refresh_rows db)
      in case find hit (refresh_rows db) of
           None \<Rightarrow> (Inl ErrNoRows, db)
         | Some r \<Rightarrow>
             if length token > 255 then (Inl (DbError ''22001''), db)
             else if \<not> distinct (map rt_token rows) then (Inl (DbError ''23505''), db)
             else (Inr (r\<lparr>rt_token := token, rt_expiration := expiration, rt_updated := now\<rparr>),
                   db\<lparr>refresh_rows := rows\<rparr>))"

definition create_reset_token_sql :: "int \<Rightarrow> string \<Rightarrow> int \<Rightarrow> (go_error, reset_row, auth_db) op" where
  "create_reset_token_sql user token expiry db =
     (if reset_seq db > 2147483647 then (Inl (DbError ''2200H''), db)
      else let db1 = db\<lparr>reset_seq := reset_seq db + 1\<rparr>;
               r = \<lparr>rs_id = reset_seq db, rs_user = user, rs_token = token, rs_expiry = expiry\<rparr>
           in if user \<in> set (map rs_user (reset_rows db)) \<or> token \<in> set (map rs_token (reset_rows db))
              then (Inl (DbError ''23505''), db1)
              else (Inr r, db1\<lparr>reset_rows := reset_rows db @ [r]\<rparr>))"

definition delete_reset_token_sql :: "int \<Rightarrow> (go_error, unit, auth_db) op" where
  "delete_reset_token_sql user db =
     (Inr (), db\<lparr>reset_rows := filter (\<lambda>r. rs_user r \<noteq> user) (reset_rows db)\<rparr>)"

definition get_reset_token_sql :: "string \<Rightarrow> auth_db \<Rightarrow> reset_row option" where
  "get_reset_token_sql token db = find (\<lambda>r. rs_token r = token) (reset_rows db)"

section \<open>Repositories\<close>

text \<open>
  An expiry goes through the text \<open>2006-01-02 15:04:05\<close> and is parsed as UTC, which with
  a UTC clock drops the fraction of the second.
\<close>

definition expiry_of :: "int \<Rightarrow> int" where
  "expiry_of t = t div second * second"

definition ErrTokenNotFound :: go_error where
  "ErrTokenNotFound = with_message ErrNotFound ''refresh token not found''"

definition ErrFindByUserID :: go_error where
  "ErrFindByUserID = with_message ErrNotFound ''refresh token not found by user ID''"

definition on_error :: "('e \<Rightarrow> 'e) \<Rightarrow> ('e, 'a, 's) op \<Rightarrow> ('e, 'a, 's) op" where
  "on_error f m = try_or m (\<lambda>e. ret (Inl (f e))) (\<lambda>x. ret (Inr x))"

definition conflict_or_failed :: "string \<Rightarrow> string \<Rightarrow> go_error \<Rightarrow> go_error" where
  "conflict_or_failed conflict operation err =
     (if is_unique_violation err then with_internal (new_conflict_error conflict) err
      else with_internal (err_failed operation) err)"

definition repo_create_refresh_token ::
  "go_error fault \<Rightarrow> int \<Rightarrow> string \<Rightarrow> int \<Rightarrow> int \<Rightarrow> (go_error, refresh_row, auth_db) op" where
  "repo_create_refresh_token fl now token user expires =
     on_error (conflict_or_failed ''refresh token already exists'' ''create refresh token'')
       (with_fault fl (create_refresh_token_sql now (go_int32 user) token (expiry_of expires)))"

definition repo_update_refresh_token ::
  "go_error fault \<Rightarrow> int \<Rightarrow> string \<Rightarrow> int \<Rightarrow> int \<Rightarrow> (go_error, refresh_row, auth_db) op" where
  "repo_update_refresh_token fl now token user expires =
     on_error (conflict_or_failed ''refresh token already exists'' ''update refresh token'')
       (with_fault fl (update_refresh_token_by_user_id_sql now (go_int32 user) token (expiry_of expires)))"

definition repo_delete_refresh_token :: "go_error fault \<Rightarrow> string \<Rightarrow> (go_error, unit, auth_db) op" where
  "repo_delete_refresh_token fl token =
     on_error (with_internal (err_failed ''delete refresh token'')) (with_fault fl (delete_refresh_token_sql token))"

definition repo_delete_refresh_token_by_user_id :: "go_error fault \<Rightarrow> int \<Rightarrow> (go_error, unit, auth_db) op" where
  "repo_delete_refresh_token_by_user_id fl user =
     on_error (with_internal (err_failed ''delete refresh token by user ID''))
       (with_fault fl (delete_refresh_token_by_user_id_sql (go_int32 user)))"

definition found_or :: "go_error fault \<Rightarrow> (go_error \<Rightarrow> go_error) \<Rightarrow> 'r option \<Rightarrow> go_error + 'r" where
  "found_or fl f r =
     (case (fl, r) of
        (Deliver, Some x) \<Rightarrow> Inr x
      | (Deliver, None) \<Rightarrow> Inl (f ErrNoRows)
      | (Refuse e, _) \<Rightarrow> Inl (f e)
      | (Lose e, _) \<Rightarrow> Inl (f e))"

definition repo_find_refresh_by_token :: "go_error fault \<Rightarrow> string \<Rightarrow> auth_db \<Rightarrow> go_error + refresh_row" where
  "repo_find_refresh_by_token fl token db =
     found_or fl (with_internal ErrTokenNotFound) (find_refresh_token_by_token_sql token db)"

definition repo_find_refresh_by_user_id :: "go_error fault \<Rightarrow> int \<Rightarrow> auth_db \<Rightarrow> go_error + refresh_row" where
  "repo_find_refresh_by_user_id fl user db =
     found_or fl (with_internal ErrFindByUserID) (find_refresh_token_by_user_id_sql (go_int32 user) db)"

definition repo_create_reset_token ::
  "go_error fault \<Rightarrow> int \<Rightarrow> string \<Rightarrow> int \<Rightarrow> (go_error, reset_row, auth_db) op" where
  "repo_create_reset_token fl user token expires =
     on_error (conflict_or_failed ''reset token already exists'' ''create reset token'')
       (with_fault fl (create_reset_token_sql (go_int32 user) token (expiry_of expires)))"

definition repo_delete_reset_token :: "go_error fault \<Rightarrow> int \<Rightarrow> (go_error, unit, auth_db) op" where
  "repo_delete_reset_token fl user =
     on_error (with_internal (err_failed ''delete reset token'')) (with_fault fl (delete_reset_token_sql user))"

definition repo_find_reset_token :: "go_error fault \<Rightarrow> string \<Rightarrow> auth_db \<Rightarrow> go_error + reset_row" where
  "repo_find_reset_token fl token db =
     found_or fl (with_internal ErrInternal) (get_reset_token_sql token db)"

end
