(* ===== verification/AuthService.thy ===== *)
theory AuthService
  imports AuthStore Repository
begin

text \<open>
  The authentication service (\<open>service/auth/service\<close>, with the caches of
  \<open>service/auth/redis\<close> and the handlers of \<open>service/auth/handler\<close>): login with its lockout,
  the issue and the refresh of tokens, the reset of passwords, verification and
  registration. The state is the token tables, Redis, the mails handed to Kafka and the
  calls the user and role services executed. The goroutine of a registration runs at once
  and the clock stands still during a request.
\<close>

section \<open>State and environment\<close>

record auth_user =
  us_id :: int
  us_firstname :: string
  us_lastname :: string
  us_email :: string
  us_password :: string

datatype auth_value =
    VToken string
  | VUserId int
  | VUserInfo auth_user
  | VCode string
  | VCount int
  | VLock

datatype auth_mail = WelcomeMail string string | ResetMail string string | VerifiedMail string

record register_request =
  rr_firstname :: string
  rr_lastname :: string
  rr_email :: string
  rr_password :: string
  rr_confirm :: string

datatype user_call =
    CreateUserCall register_request
  | UpdateUserIsVerifiedCall int bool
  | UpdateUserPasswordCall int string
  | AssignRoleCall int int

record auth_world =
  aw_db :: auth_db
  aw_redis :: "auth_value redis"
  aw_sent :: "(string \<times> string \<times> auth_mail) list"
  aw_calls :: "user_call list"

text \<open>
  Faults are given per call: a database statement, a command of the user or role service
  (with the name of its function) or a Kafka topic. A lookup answers nothing for a reply
  without data.
\<close>

record auth_env =
  ae_cache :: cache_env
  ae_redis_ok :: "string \<Rightarrow> bool"
  ae_fault :: "string \<Rightarrow> go_error fault"
  ae_jwt :: jwt_lib
  ae_compare :: "string \<Rightarrow> string \<Rightarrow> bool"
  ae_random :: "go_error + string"
  ae_user_by_id :: "int \<Rightarrow> go_error + auth_user option"
  ae_user_by_email :: "string \<Rightarrow> go_error + auth_user option"
  ae_user_by_code :: "string \<Rightarrow> go_error + auth_user option"
  ae_created :: "register_request \<Rightarrow> auth_user option"
  ae_role_by_name :: "string \<Rightarrow> go_error + int option"
  ae_kafka :: bool

definition au_now :: "auth_env \<Rightarrow> int" where
  "au_now env = ce_now (ae_cache env)"

definition on_auth_db :: "(go_error, 'a, auth_db) op \<Rightarrow> (go_error, 'a, auth_world) op" where
  "on_auth_db = zoom aw_db (\<lambda>d w. w\<lparr>aw_db := d\<rparr>)"

definition on_redis :: "(auth_value redis \<Rightarrow> 'a \<times> auth_value redis) \<Rightarrow> auth_world \<Rightarrow> 'a \<times> auth_world" where
  "on_redis = zoom aw_redis (\<lambda>x w. w\<lparr>aw_redis := x\<rparr>)"

definition auth_fail :: "go_error \<Rightarrow> auth_world \<Rightarrow> (go_error + 'a) \<times> auth_world" where
  "auth_fail err = ret (Inl (handle_error (Some err)))"

definition send_mail :: "auth_env \<Rightarrow> string \<Rightarrow> string \<Rightarrow> auth_mail \<Rightarrow> (go_error, unit, auth_world) op" where
  "send_mail env topic key m =
     (if ae_kafka env
      then with_fault (ae_fault env topic) (\<lambda>w. (Inr (), w\<lparr>aw_sent := aw_sent w @ [(topic, key, m)]\<rparr>))
      else ret (Inr ()))"

section \<open>The user and role adapters\<close>

definition user_find_by_id :: "auth_env \<Rightarrow> int \<Rightarrow> go_error + auth_user" where
  "user_find_by_id env i = adapted ErrUserNotFound (ae_user_by_id env (go_int32 i))"

definition user_find_by_email :: "auth_env \<Rightarrow> string \<Rightarrow> go_error + auth_user" where
  "user_find_by_email env email = adapted ErrUserNotFound (ae_user_by_email env email)"

definition user_find_by_email_and_verify :: "auth_env \<Rightarrow> string \<Rightarrow> go_error + auth_user" where
  "user_find_by_email_and_verify env email = user_find_by_email env email"

definition user_find_by_verification_code :: "auth_env \<Rightarrow> string \<Rightarrow> go_error + auth_user" where
  "user_find_by_verification_code env code = adapted ErrUserNotFound (ae_user_by_code env code)"

definition remote_call :: "auth_env \<Rightarrow> string \<Rightarrow> user_call \<Rightarrow> (go_error, unit, auth_world) op" where
  "remote_call env fname c = with_fault (ae_fault env fname) (\<lambda>w. (Inr (), w\<lparr>aw_calls := aw_calls w @ [c]\<rparr>))"

text \<open>Names, mail and passwords are sent, not the verification code.\<close>

definition user_create_user :: "auth_env \<Rightarrow> register_request \<Rightarrow> (go_error, auth_user, auth_world) op" where
  "user_create_user env req =
     try_or (remote_call env ''CreateUser'' (CreateUserCall req))
       (\<lambda>err. ret (Inl (with_internal ErrInternal err)))
       (\<lambda>_. ret (case ae_created env req of None \<Rightarrow> Inl ErrInternal | Some u \<Rightarrow> Inr u))"

definition user_update_is_verified :: "auth_env \<Rightarrow> int \<Rightarrow> bool \<Rightarrow> (go_error, unit, auth_world) op" where
  "user_update_is_verified env i b =
     on_error (with_internal ErrInternal)
       (remote_call env ''UpdateUserIsVerified'' (UpdateUserIsVerifiedCall (go_int32 i) b))"

definition user_update_password :: "auth_env \<Rightarrow> int \<Rightarrow> string \<Rightarrow> (go_error, unit, auth_world) op" where
  "user_update_password env i password =
     on_error (with_internal ErrInternal)
       (remote_call env ''UpdateUserPassword'' (UpdateUserPasswordCall (go_int32 i) password))"

definition role_find_by_name :: "auth_env \<Rightarrow> string \<Rightarrow> go_error + int" where
  "role_find_by_name env role = adapted ErrRoleNotFound (ae_role_by_name env role)"

definition assign_role_to_user :: "auth_env \<Rightarrow> int \<Rightarrow> int \<Rightarrow> (go_error, unit, auth_world) op" where
  "assign_role_to_user env user role =
     on_error (with_internal (with_message ErrInternal ''Failed to assign role to user''))
       (remote_call env ''AssignRoleToUser'' (AssignRoleCall (go_int32 user) (go_int32 role)))"

section \<open>Redis\<close>

text \<open>
  The keys as \<open>fmt.Sprintf\<close> prints them: where an integer meets the verb \<open>%s\<close> the text is
  \<open>%!s(int=5)\<close>.
\<close>

definition failed_login_key :: "string \<Rightarrow> string" where
  "failed_login_key email = ''auth:login:failed:'' @ email"

definition account_locked_key :: "string \<Rightarrow> string" where
  "account_locked_key email = ''auth:login:locked:'' @ email"

definition refresh_token_key :: "string \<Rightarrow> string" where
  "refresh_token_key token = ''identity:refresh_token:'' @ token"

definition user_info_key :: "string \<Rightarrow> string" where
  "user_info_key user = ''identity:user_info:'' @ user"

definition reset_token_key :: "string \<Rightarrow> string" where
  "reset_token_key token = ''password_reset:token:'' @ token"

definition verify_code_key :: "string \<Rightarrow> string" where
  "verify_code_key email = ''register:verify_code:'' @ email"

definition bad_verb :: "string \<Rightarrow> int \<Rightarrow> string" where
  "bad_verb typ i = ''%!s('' @ typ @ ''='' @ itoa i @ '')''"

fun as_token :: "auth_value \<Rightarrow> string option" where
  "as_token (VToken t) = Some t"
| "as_token _ = None"

fun as_user_id :: "auth_value \<Rightarrow> int option" where
  "as_user_id (VUserId i) = Some i"
| "as_user_id _ = None"

fun as_user_info :: "auth_value \<Rightarrow> auth_user option" where
  "as_user_info (VUserInfo u) = Some u"
| "as_user_info _ = None"

definition set_refresh_token :: "auth_env \<Rightarrow> string \<Rightarrow> int \<Rightarrow> auth_world \<Rightarrow> auth_world" where
  "set_refresh_token env token ttl w =
     w\<lparr>aw_redis := set_to_cache (ae_cache env) (refresh_token_key token) (VToken token) ttl (aw_redis w)\<rparr>"

definition get_refresh_token :: "auth_env \<Rightarrow> string \<Rightarrow> auth_world \<Rightarrow> string option" where
  "get_refresh_token env token w =
     Option.bind (get_from_cache (ae_cache env) (refresh_token_key token) (aw_redis w)) as_token"

definition drop_refresh_token :: "auth_env \<Rightarrow> string \<Rightarrow> auth_world \<Rightarrow> auth_world" where
  "drop_refresh_token env token w =
     w\<lparr>aw_redis := delete_from_cache (ae_cache env) (refresh_token_key token) (aw_redis w)\<rparr>"

definition set_cached_user_info :: "auth_env \<Rightarrow> auth_user \<Rightarrow> int \<Rightarrow> auth_world \<Rightarrow> auth_world" where
  "set_cached_user_info env u ttl w =
     w\<lparr>aw_redis := set_to_cache (ae_cache env) (user_info_key (bad_verb ''int32'' (us_id u))) (VUserInfo u) ttl
        (aw_redis w)\<rparr>"

definition get_cached_user_info :: "auth_env \<Rightarrow> string \<Rightarrow> auth_world \<Rightarrow> auth_user option" where
  "get_cached_user_info env user w =
     Option.bind (get_from_cache (ae_cache env) (user_info_key user) (aw_redis w)) as_user_info"

definition set_reset_token_cache :: "auth_env \<Rightarrow> string \<Rightarrow> int \<Rightarrow> int \<Rightarrow> auth_world \<Rightarrow> auth_world" where
  "set_reset_token_cache env token user ttl w =
     w\<lparr>aw_redis := set_to_cache (ae_cache env) (reset_token_key (bad_verb ''int'' user)) (VUserId user) ttl (aw_redis w)\<rparr>"

definition get_reset_token_cache :: "auth_env \<Rightarrow> string \<Rightarrow> auth_world \<Rightarrow> int option" where
  "get_reset_token_cache env token w =
     Option.bind (get_from_cache (ae_cache env) (reset_token_key token) (aw_redis w)) as_user_id"

definition delete_reset_token_cache :: "auth_env \<Rightarrow> string \<Rightarrow> auth_world \<Rightarrow> auth_world" where
  "delete_reset_token_cache env token w =
     w\<lparr>aw_redis := delete_from_cache (ae_cache env) (reset_token_key token) (aw_redis w)\<rparr>"

definition delete_verification_code_cache :: "auth_env \<Rightarrow> string \<Rightarrow> auth_world \<Rightarrow> auth_world" where
  "delete_verification_code_cache env email w =
     w\<lparr>aw_redis := delete_from_cache (ae_cache env) (verify_code_key email) (aw_redis w)\<rparr>"

definition set_verification_code_cache :: "auth_env \<Rightarrow> string \<Rightarrow> string \<Rightarrow> int \<Rightarrow> auth_world \<Rightarrow> auth_world" where
  "set_verification_code_cache env email code ttl w =
     (if code = [] then w
      else w\<lparr>aw_redis := set_to_cache (ae_cache env) (verify_code_key email) (VCode code) ttl (aw_redis w)\<rparr>)"

text \<open>A key that Redis still answers.\<close>

definition redis_live :: "int \<Rightarrow> string \<Rightarrow> 'v redis \<Rightarrow> ('v \<times> int option) option" where
  "redis_live now key st =
     (case st key of
        None \<Rightarrow> None
      | Some (v, x) \<Rightarrow> (case x of None \<Rightarrow> Some (v, x) | Some t \<Rightarrow> if t \<le> now then None else Some (v, x)))"

definition max_failed_attempts :: int where "max_failed_attempts = 5"

definition lockout_duration :: int where "lockout_duration = 15 * minute"

text \<open>
  \<open>INCR\<close> starts a missing key at 1 without an expiry and keeps the expiry of a live one.
\<close>

definition increment_failed_login ::
  "auth_env \<Rightarrow> string \<Rightarrow> auth_value redis \<Rightarrow> (go_error + int) \<times> auth_value redis" where
  "increment_failed_login env email st =
     (let key = failed_login_key email; now = au_now env;
          before = (case redis_live now key st of
                      None \<Rightarrow> Some (0, None)
                    | Some (VCount n, x) \<Rightarrow> Some (n, x)
                    | Some _ \<Rightarrow> None)
      in if \<not> ae_redis_ok env ''INCR'' \<or> before = None
         then (Inl (Wrapped ''failed to increment failed login counter: '' (ErrorString ''redis'')), st)
         else case the before of (n, x) \<Rightarrow>
           let val = n + 1;
               x' = (if val = 1 \<and> ae_redis_ok env ''EXPIRE'' then Some (now + hour) else x);
               st1 = st(key \<mapsto> (VCount val, x'));
               st2 = (if val \<ge> max_failed_attempts \<and> ae_redis_ok env ''SET''
                      then st1(account_locked_key email \<mapsto> (VLock, Some (now + lockout_duration))) else st1)
           in (Inr val, st2))"

definition reset_failed_login :: "auth_env \<Rightarrow> string \<Rightarrow> auth_value redis \<Rightarrow> auth_value redis" where
  "reset_failed_login env email st =
     (if ae_redis_ok env ''DEL'' then st(failed_login_key email := None, account_locked_key email := None) else st)"

text \<open>An error of Redis is logged and counts as not locked.\<close>

definition is_account_locked :: "auth_env \<Rightarrow> string \<Rightarrow> auth_world \<Rightarrow> bool" where
  "is_account_locked env email w \<longleftrightarrow>
     ae_redis_ok env ''EXISTS'' \<and> redis_live (au_now env) (account_locked_key email) (aw_redis w) \<noteq> None"

section \<open>Tokens\<close>

definition create_access_token :: "auth_env \<Rightarrow> int \<Rightarrow> (go_error, string, auth_world) op" where
  "create_access_token env user = ret (Inr (generate_token (ae_jwt env) (au_now env) user ''access''))"

definition create_refresh_token :: "auth_env \<Rightarrow> int \<Rightarrow> (go_error, string, auth_world) op" where
  "create_refresh_token env user =
     (let token = generate_token (ae_jwt env) (au_now env) user ''refresh''
      in try_or (on_auth_db (repo_delete_refresh_token_by_user_id (ae_fault env ''DeleteRefreshTokenByUserId'') user))
           (\<lambda>err. ret (Inl err))
           (\<lambda>_. try_or (on_auth_db (repo_create_refresh_token (ae_fault env ''CreateRefreshToken'') (au_now env) token
                          user (au_now env + 24 * hour)))
              (\<lambda>err. ret (Inl err)) (\<lambda>_. ret (Inr token))))"

section \<open>Login\<close>

definition ErrAccountLocked :: go_error where
  "ErrAccountLocked = with_message ErrForbidden ''Account temporarily locked due to many failed attempts''"

definition ErrFailedPasswordNoMatch :: go_error where
  "ErrFailedPasswordNoMatch = with_message ErrUnauthorized ''Password does not match''"

definition svc_login :: "auth_env \<Rightarrow> string \<Rightarrow> string \<Rightarrow> (go_error, string \<times> string, auth_world) op" where
  "svc_login env email password w =
     (if is_account_locked env email w then auth_fail ErrAccountLocked w
      else case user_find_by_email_and_verify env email of
        Inl err \<Rightarrow> auth_fail err w
      | Inr u \<Rightarrow>
          if \<not> ae_compare env (us_password u) password
          then auth_fail ErrFailedPasswordNoMatch (snd (on_redis (increment_failed_login env email) w))
          else try_or (create_access_token env (us_id u)) auth_fail
                 (\<lambda>token. try_or (create_refresh_token env (us_id u)) auth_fail
                    (\<lambda>refresh w'. (Inr (token, refresh),
                       w'\<lparr>aw_redis := reset_failed_login env email (aw_redis w')\<rparr>))) w)"

section \<open>Refresh\<close>

definition atoi_error :: "string \<Rightarrow> go_error" where
  "atoi_error s = ErrorString (''strconv.Atoi: parsing '' @ [CHR 0x22] @ s @ [CHR 0x22] @ '': invalid syntax'')"

definition issue_tokens ::
  "auth_env \<Rightarrow> int \<Rightarrow> (string \<Rightarrow> string \<Rightarrow> auth_world \<Rightarrow> (go_error + string \<times> string) \<times> auth_world) \<Rightarrow>
   (go_error, string \<times> string, auth_world) op" where
  "issue_tokens env user k =
     try_or (create_access_token env user) auth_fail
       (\<lambda>access. try_or (create_refresh_token env user) auth_fail (k access))"

definition refresh_expired :: "auth_env \<Rightarrow> string \<Rightarrow> go_error \<Rightarrow> (go_error, string \<times> string, auth_world) op" where
  "refresh_expired env token err w =
     try_or (on_auth_db (repo_delete_refresh_token (ae_fault env ''DeleteRefreshToken'') token)) auth_fail
       (\<lambda>_. auth_fail (Wrapped ''token expired: '' err)) (drop_refresh_token env token w)"

definition refresh_validated :: "auth_env \<Rightarrow> string \<Rightarrow> int \<Rightarrow> (go_error, string \<times> string, auth_world) op" where
  "refresh_validated env token user w =
     try_or (on_auth_db (repo_delete_refresh_token (ae_fault env ''DeleteRefreshToken'') token)) auth_fail
       (\<lambda>_. issue_tokens env user
          (\<lambda>access refresh.
             try_or (on_auth_db (repo_update_refresh_token (ae_fault env ''UpdateRefreshToken'') (au_now env) refresh user
                       (au_now env + 24 * hour)))
               (\<lambda>err w'. auth_fail err (drop_refresh_token env refresh w'))
               (\<lambda>_ w'. (Inr (access, refresh), set_refresh_token env refresh (24 * hour) w'))))
       (drop_refresh_token env token w)"

definition svc_refresh_token :: "auth_env \<Rightarrow> string \<Rightarrow> (go_error, string \<times> string, auth_world) op" where
  "svc_refresh_token env token w =
     (case Option.bind (get_refresh_token env token w) atoi of
        Some user \<Rightarrow>
          issue_tokens env user
            (\<lambda>access refresh w'. (Inr (access, refresh), set_refresh_token env refresh (24 * hour) w'))
            (drop_refresh_token env token w)
      | None \<Rightarrow>
          (case validate_token (ae_jwt env) (au_now env) token of
             Inl err \<Rightarrow> if err = ErrTokenExpired then refresh_expired env token err w else auth_fail err w
           | Inr sub \<Rightarrow>
               (case atoi sub of
                  None \<Rightarrow> auth_fail (atoi_error sub) w
                | Some user \<Rightarrow> refresh_validated env token user w)))"

definition svc_get_me :: "auth_env \<Rightarrow> int \<Rightarrow> (go_error, auth_user, auth_world) op" where
  "svc_get_me env user w =
     (case get_cached_user_info env (itoa user) w of
        Some u \<Rightarrow> (Inr u, w)
      | None \<Rightarrow>
          (case user_find_by_id env user of
             Inl err \<Rightarrow> auth_fail err w
           | Inr u \<Rightarrow> (Inr u, set_cached_user_info env u (5 * minute) w)))"

section \<open>Password reset and verification\<close>

definition svc_forgot_password :: "auth_env \<Rightarrow> string \<Rightarrow> (go_error, bool, auth_world) op" where
  "svc_forgot_password env email =
     (case user_find_by_email env email of
        Inl err \<Rightarrow> auth_fail err
      | Inr u \<Rightarrow>
          (case ae_random env of
             Inl err \<Rightarrow> auth_fail err
           | Inr code \<Rightarrow>
               try_or (on_auth_db (repo_create_reset_token (ae_fault env ''CreateResetToken'') (us_id u) code
                         (au_now env + 24 * hour))) auth_fail
                 (\<lambda>_ w. try_or (send_mail env ''email-service-topic-auth-forgot-password'' (itoa (us_id u))
                                  (ResetMail (us_email u) code)) auth_fail (\<lambda>_. ret (Inr True))
                         (set_reset_token_cache env code (us_id u) (5 * minute) w))))"

definition set_new_password :: "auth_env \<Rightarrow> string \<Rightarrow> string \<Rightarrow> string \<Rightarrow> int \<Rightarrow> (go_error, bool, auth_world) op" where
  "set_new_password env token password confirm user =
     (if password \<noteq> confirm then auth_fail (ErrorString ''password and confirm password do not match'')
      else try_or (user_update_password env user password) auth_fail
             (\<lambda>_. and_then (on_auth_db (repo_delete_reset_token (ae_fault env ''DeleteResetToken'') (go_int32 user)))
                (\<lambda>_ w. (Inr True, delete_reset_token_cache env token w))))"

definition svc_reset_password :: "auth_env \<Rightarrow> string \<Rightarrow> string \<Rightarrow> string \<Rightarrow> (go_error, bool, auth_world) op" where
  "svc_reset_password env token password confirm w =
     (case get_reset_token_cache env token w of
        Some user \<Rightarrow> set_new_password env token password confirm user w
      | None \<Rightarrow>
          (case repo_find_reset_token (ae_fault env ''GetResetToken'') token (aw_db w) of
             Inl err \<Rightarrow> auth_fail err w
           | Inr r \<Rightarrow> set_new_password env token password confirm (rs_user r)
                        (set_reset_token_cache env token (rs_user r) (5 * minute) w)))"

definition svc_verify_code :: "auth_env \<Rightarrow> string \<Rightarrow> (go_error, bool, auth_world) op" where
  "svc_verify_code env code =
     (case user_find_by_verification_code env code of
        Inl err \<Rightarrow> auth_fail err
      | Inr u \<Rightarrow>
          try_or (user_update_is_verified env (us_id u) True) auth_fail
            (\<lambda>_ w. try_or (send_mail env ''email-service-topic-auth-verify-code-success'' (itoa (us_id u))
                             (VerifiedMail (us_email u))) auth_fail (\<lambda>_. ret (Inr True))
                    (delete_verification_code_cache env (us_email u) w)))"

section \<open>Registration\<close>

text \<open>Any error of the first lookup counts as an address that is free.\<close>

definition svc_register :: "auth_env \<Rightarrow> register_request \<Rightarrow> (go_error, auth_user, auth_world) op" where
  "svc_register env req =
     (case user_find_by_email env (rr_email req) of
        Inr _ \<Rightarrow> auth_fail ErrUserEmailAlready
      | Inl _ \<Rightarrow>
          (case role_find_by_name env ''ROLE_ADMIN'' of
             Inl err \<Rightarrow> auth_fail err
           | Inr role \<Rightarrow>
               (case ae_random env of
                  Inl err \<Rightarrow> auth_fail err
                | Inr code \<Rightarrow>
                    try_or (user_create_user env req) auth_fail
                      (\<lambda>u. and_then (send_mail env ''email-service-topic-auth-register'' (itoa (us_id u))
                                       (WelcomeMail (rr_email req) code))
                         (\<lambda>_. try_or (assign_role_to_user env (us_id u) role) auth_fail
                            (\<lambda>_ w. (Inr u, set_verification_code_cache env (rr_email req) code (15 * minute) w)))))))"

section \<open>Handlers\<close>

definition to_grpc :: "(go_error, 'a, 's) op \<Rightarrow> (go_error, 'a, 's) op" where
  "to_grpc m = on_error to_grpc_error m"

definition handle_login_user :: "auth_env \<Rightarrow> string \<Rightarrow> string \<Rightarrow> (go_error, string \<times> string, auth_world) op" where
  "handle_login_user env email password = to_grpc (svc_login env email password)"

text \<open>The answer carries the refresh token of the request, not the new one.\<close>

definition handle_refresh_token :: "auth_env \<Rightarrow> string \<Rightarrow> (go_error, string \<times> string, auth_world) op" where
  "handle_refresh_token env token =
     try_or (svc_refresh_token env token) (\<lambda>err. ret (Inl (to_grpc_error err)))
       (\<lambda>(access, refresh). ret (Inr (access, token)))"

definition handle_verify_code :: "auth_env \<Rightarrow> string \<Rightarrow> (go_error, bool, auth_world) op" where
  "handle_verify_code env code = to_grpc (svc_verify_code env code)"

definition handle_forgot_password :: "auth_env \<Rightarrow> string \<Rightarrow> (go_error, bool, auth_world) op" where
  "handle_forgot_password env email = to_grpc (svc_forgot_password env email)"

definition handle_reset_password :: "auth_env \<Rightarrow> string \<Rightarrow> string \<Rightarrow> string \<Rightarrow> (go_error, bool, auth_world) op" where
  "handle_reset_password env token password confirm = to_grpc (svc_reset_password env token password confirm)"

definition handle_get_me :: "auth_env \<Rightarrow> int \<Rightarrow> (go_error, auth_user, auth_world) op" where
  "handle_get_me env user = to_grpc (svc_get_me env user)"

definition handle_register_user :: "auth_env \<Rightarrow> register_request \<Rightarrow> (go_error, auth_user, auth_world) op" where
  "handle_register_user env req = to_grpc (svc_register env req)"

end
