(* ===== verification/AuthFacts.thy ===== *)
theory AuthFacts
  imports AuthService
begin

text \<open>
  What the authentication service guarantees: the lockout after five wrong passwords, who
  gets which tokens, who may set a password, and the shape of the token tables and of the
  cached tokens in every state it reaches.
\<close>

section \<open>Keys\<close>

lemmas auth_key_defs = failed_login_key_def account_locked_key_def refresh_token_key_def user_info_key_def
  reset_token_key_def verify_code_key_def

lemma auth_keys_inject [simp]:
  "failed_login_key a = failed_login_key b \<longleftrightarrow> a = b" "account_locked_key a = account_locked_key b \<longleftrightarrow> a = b"
  "refresh_token_key a = refresh_token_key b \<longleftrightarrow> a = b" "reset_token_key a = reset_token_key b \<longleftrightarrow> a = b"
  by (simp_all add: auth_key_defs)

lemma auth_keys_differ [simp]:
  "failed_login_key a \<noteq> account_locked_key b" "account_locked_key b \<noteq> failed_login_key a"
  "refresh_token_key a \<noteq> failed_login_key b" "refresh_token_key a \<noteq> account_locked_key b"
  "refresh_token_key a \<noteq> user_info_key b" "refresh_token_key a \<noteq> reset_token_key b"
  "refresh_token_key a \<noteq> verify_code_key b"
  "reset_token_key a \<noteq> failed_login_key b" "reset_token_key a \<noteq> account_locked_key b"
  "reset_token_key a \<noteq> user_info_key b" "reset_token_key a \<noteq> refresh_token_key b"
  "reset_token_key a \<noteq> verify_code_key b"
  by (simp_all add: auth_key_defs)

section \<open>The lockout\<close>

definition redis_up :: "auth_env \<Rightarrow> bool" where
  "redis_up env \<longleftrightarrow> (\<forall>c. ae_redis_ok env c)"

definition wrong_password :: "auth_env \<Rightarrow> string \<Rightarrow> string \<Rightarrow> bool" where
  "wrong_password env email password \<longleftrightarrow>
     (case user_find_by_email_and_verify env email of
        Inl _ \<Rightarrow> False
      | Inr u \<Rightarrow> \<not> ae_compare env (us_password u) password)"

fun login_attempts :: "string \<Rightarrow> (auth_env \<times> string) list \<Rightarrow> auth_world \<Rightarrow> auth_world" where
  "login_attempts email [] w = w"
| "login_attempts email ((env, password) # as) w = login_attempts email as (snd (svc_login env email password w))"

lemma redis_live_later: "redis_live t key st = None \<Longrightarrow> t \<le> t' \<Longrightarrow> redis_live t' key st = None"
  by (auto simp: redis_live_def split: option.splits if_splits)

text \<open>The counter of an address stands at \<open>n\<close> until \<open>t\<close>, and no lock is live from \<open>now\<close> on.\<close>

definition counting :: "string \<Rightarrow> int \<Rightarrow> int \<Rightarrow> int \<Rightarrow> auth_world \<Rightarrow> bool" where
  "counting email n t now w \<longleftrightarrow>
     aw_redis w (failed_login_key email) = Some (VCount n, Some t)
     \<and> redis_live now (account_locked_key email) (aw_redis w) = None"

lemma wrong_login:
  assumes "wrong_password env email password" "\<not> is_account_locked env email w"
  shows "snd (svc_login env email password w) = w\<lparr>aw_redis := snd (increment_failed_login env email (aw_redis w))\<rparr>"
  using assms
  by (simp add: svc_login_def wrong_password_def auth_fail_def ret_def on_redis_def zoom_def
      split: sum.splits prod.splits)

lemma first_failure:
  assumes "redis_up env" "wrong_password env email password"
    "redis_live (au_now env) (failed_login_key email) (aw_redis w) = None"
    "redis_live (au_now env) (account_locked_key email) (aw_redis w) = None"
  shows "counting email 1 (au_now env + hour) (au_now env) (snd (svc_login env email password w))"
proof -
  have "\<not> is_account_locked env email w" using assms(4) by (simp add: is_account_locked_def)
  then show ?thesis using assms
    by (simp add: wrong_login counting_def increment_failed_login_def redis_up_def Let_def max_failed_attempts_def
        redis_live_def)
qed

lemma next_failure:
  assumes "redis_up env" "wrong_password env email password" "counting email n t now w"
    "now \<le> au_now env" "au_now env < t" "1 \<le> n"
  shows "n < 4 \<Longrightarrow> counting email (n + 1) t (au_now env) (snd (svc_login env email password w))"
    "n = 4 \<Longrightarrow> aw_redis (snd (svc_login env email password w)) (account_locked_key email)
       = Some (VLock, Some (au_now env + lockout_duration))"
proof -
  have free: "redis_live (au_now env) (account_locked_key email) (aw_redis w) = None"
    using assms(3) redis_live_later [OF _ assms(4)] by (auto simp: counting_def)
  then have "\<not> is_account_locked env email w" by (simp add: is_account_locked_def)
  note run = wrong_login [OF assms(2) this]
  have live: "redis_live (au_now env) (failed_login_key email) (aw_redis w) = Some (VCount n, Some t)"
    using assms(3,5) by (simp add: counting_def redis_live_def)
  show "n < 4 \<Longrightarrow> counting email (n + 1) t (au_now env) (snd (svc_login env email password w))"
    using assms(1,6) live free
    by (simp add: run counting_def increment_failed_login_def redis_up_def Let_def max_failed_attempts_def redis_live_def)
  show "n = 4 \<Longrightarrow> aw_redis (snd (svc_login env email password w)) (account_locked_key email)
       = Some (VLock, Some (au_now env + lockout_duration))"
    using assms(1) live by (simp add: run increment_failed_login_def redis_up_def Let_def max_failed_attempts_def)
qed

lemma five_elements: "length as = 5 \<Longrightarrow> \<exists>a b c d e. as = [a, b, c, d, e]"
  by (auto simp: numeral_eq_Suc length_Suc_conv)

text \<open>
  C29: five wrong passwords for an address within an hour, from a clean slate and with
  Redis answering, lock it: for 15 minutes any login is refused without looking at the
  password and changes nothing
\<close>

theorem five_wrong_passwords_lock:
  assumes n: "length attempts = 5"
    and wrong: "\<forall>(env, password) \<in> set attempts. redis_up env \<and> wrong_password env email password"
    and times: "sorted (map (\<lambda>a. au_now (fst a)) attempts)"
    and hour: "au_now (fst (last attempts)) < au_now (fst (hd attempts)) + hour"
    and fresh: "redis_live (au_now (fst (hd attempts))) (failed_login_key email) (aw_redis w) = None"
      "redis_live (au_now (fst (hd attempts))) (account_locked_key email) (aw_redis w) = None"
    and later: "ae_redis_ok env' ''EXISTS''" "au_now env' < au_now (fst (last attempts)) + lockout_duration"
  shows "svc_login env' email password' (login_attempts email attempts w)
    = (Inl ErrAccountLocked, login_attempts email attempts w)"
proof -
  obtain e1 p1 e2 p2 e3 p3 e4 p4 e5 p5 where as: "attempts = [(e1, p1), (e2, p2), (e3, p3), (e4, p4), (e5, p5)]"
    using five_elements [OF n] by (metis surj_pair)
  let ?t = "au_now e1 + hour"
  have up: "redis_up e1" "redis_up e2" "redis_up e3" "redis_up e4" "redis_up e5"
    and bad: "wrong_password e1 email p1" "wrong_password e2 email p2" "wrong_password e3 email p3"
      "wrong_password e4 email p4" "wrong_password e5 email p5"
    and ord: "au_now e1 \<le> au_now e2" "au_now e2 \<le> au_now e3" "au_now e3 \<le> au_now e4" "au_now e4 \<le> au_now e5"
    and in_hour: "au_now e2 < ?t" "au_now e3 < ?t" "au_now e4 < ?t" "au_now e5 < ?t"
    using wrong times hour by (auto simp: as)
  define w1 where "w1 = snd (svc_login e1 email p1 w)"
  define w2 where "w2 = snd (svc_login e2 email p2 w1)"
  define w3 where "w3 = snd (svc_login e3 email p3 w2)"
  define w4 where "w4 = snd (svc_login e4 email p4 w3)"
  define w5 where "w5 = snd (svc_login e5 email p5 w4)"
  have c1: "counting email 1 ?t (au_now e1) w1"
    unfolding w1_def by (rule first_failure [OF up(1) bad(1)]) (use fresh in \<open>simp_all add: as\<close>)
  have c2: "counting email 2 ?t (au_now e2) w2"
    using next_failure(1) [OF up(2) bad(2) c1 ord(1) in_hour(1)] by (simp add: w2_def)
  have c3: "counting email 3 ?t (au_now e3) w3"
    using next_failure(1) [OF up(3) bad(3) c2 ord(2) in_hour(2)] by (simp add: w3_def)
  have c4: "counting email 4 ?t (au_now e4) w4"
    using next_failure(1) [OF up(4) bad(4) c3 ord(3) in_hour(3)] by (simp add: w4_def)
  have "aw_redis w5 (account_locked_key email) = Some (VLock, Some (au_now e5 + lockout_duration))"
    using next_failure(2) [OF up(5) bad(5) c4 ord(4) in_hour(4)] by (simp add: w5_def)
  then have "is_account_locked env' email w5"
    using later by (simp add: is_account_locked_def redis_live_def as)
  moreover have "login_attempts email attempts w = w5"
    by (simp add: as w1_def w2_def w3_def w4_def w5_def)
  ultimately show ?thesis by (simp add: svc_login_def auth_fail_def ret_def handle_error_def)
qed

section \<open>Sessions\<close>

text \<open>
  One session per user and per token, one reset token per user, and cached tokens that are
  signed tokens; a cached reset entry stands under the misprinted key of its user.
\<close>

definition sessions_ok :: "auth_db \<Rightarrow> bool" where
  "sessions_ok db \<longleftrightarrow>
     distinct (map rt_user (refresh_rows db)) \<and> distinct (map rt_token (refresh_rows db))
     \<and> distinct (map rt_id (refresh_rows db)) \<and> (\<forall>r \<in> set (refresh_rows db). rt_id r < refresh_seq db \<and> refresh_live r)
     \<and> distinct (map rs_user (reset_rows db)) \<and> distinct (map rs_token (reset_rows db))"

definition cached_ok :: "auth_value redis \<Rightarrow> bool" where
  "cached_ok st \<longleftrightarrow>
     (\<forall>t s x. st (refresh_token_key t) = Some (VToken s, x) \<longrightarrow> CHR ''.'' \<in> set s)
     \<and> (\<forall>t i x. st (reset_token_key t) = Some (VUserId i, x) \<longrightarrow> t = bad_verb ''int'' i)"

definition auth_ok :: "auth_world \<Rightarrow> bool" where
  "auth_ok w \<longleftrightarrow> sessions_ok (aw_db w) \<and> cached_ok (aw_redis w)"

lemma auth_ok_db [simp]: "auth_ok w \<Longrightarrow> auth_ok (w\<lparr>aw_db := db\<rparr>) \<longleftrightarrow> sessions_ok db"
  by (simp add: auth_ok_def)

lemma auth_ok_redis [simp]: "auth_ok w \<Longrightarrow> auth_ok (w\<lparr>aw_redis := st\<rparr>) \<longleftrightarrow> cached_ok st"
  by (simp add: auth_ok_def)

lemma auth_ok_logs [simp]:
  "auth_ok (w\<lparr>aw_sent := x\<rparr>) \<longleftrightarrow> auth_ok w" "auth_ok (w\<lparr>aw_calls := y\<rparr>) \<longleftrightarrow> auth_ok w"
  by (simp_all add: auth_ok_def)

text \<open>The tables.\<close>

lemma sessions_filter: "sessions_ok db \<Longrightarrow> sessions_ok (db\<lparr>refresh_rows := filter p (refresh_rows db)\<rparr>)"
  by (simp add: sessions_ok_def distinct_map_filter)

lemma sessions_delete:
  "sessions_ok db \<Longrightarrow> sessions_ok (snd (repo_delete_refresh_token fl token db))"
  "sessions_ok db \<Longrightarrow> sessions_ok (snd (repo_delete_refresh_token_by_user_id fl user db))"
  "sessions_ok db \<Longrightarrow> sessions_ok (snd (repo_delete_reset_token fl user db))"
  by (auto simp: repo_delete_refresh_token_def repo_delete_refresh_token_by_user_id_def repo_delete_reset_token_def
      on_error_def try_or_def ret_def with_fault_def delete_refresh_token_sql_def
      delete_refresh_token_by_user_id_sql_def delete_reset_token_sql_def sessions_filter
      split: fault.splits) (simp_all add: sessions_ok_def distinct_map_filter)

lemma on_error_snd [simp]: "snd (on_error f m s) = snd (m s)"
  by (simp add: on_error_def try_or_def ret_def split: prod.splits sum.splits)

lemma with_fault_snd: "snd (with_fault fl m s) = s \<or> snd (with_fault fl m s) = snd (m s)"
  by (simp add: with_fault_def split: fault.splits)

lemma sessions_create:
  assumes "sessions_ok db" "go_int32 user \<notin> set (map rt_user (refresh_rows db))"
  shows "sessions_ok (snd (repo_create_refresh_token fl now token user expires db))"
proof -
  have "sessions_ok (snd (create_refresh_token_sql now (go_int32 user) token e db))" for e
    using assms by (auto simp: create_refresh_token_sql_def Let_def sessions_ok_def refresh_live_def less_Suc_eq)
  then show ?thesis using with_fault_snd assms(1) unfolding repo_create_refresh_token_def on_error_snd by metis
qed

lemma sessions_update:
  assumes "sessions_ok db"
  shows "sessions_ok (snd (repo_update_refresh_token fl now token user expires db))"
proof -
  have "sessions_ok (snd (update_refresh_token_by_user_id_sql now (go_int32 user) token e db))" for e
    using assms
    by (auto simp: update_refresh_token_by_user_id_sql_def Let_def sessions_ok_def map_update_where set_update_where
        refresh_live_def split: option.splits)
  then show ?thesis using with_fault_snd assms unfolding repo_update_refresh_token_def on_error_snd by metis
qed

lemma sessions_reset:
  assumes "sessions_ok db"
  shows "sessions_ok (snd (repo_create_reset_token fl user token expires db))"
proof -
  have "sessions_ok (snd (create_reset_token_sql (go_int32 user) token e db))" for e
    using assms by (auto simp: create_reset_token_sql_def Let_def sessions_ok_def)
  then show ?thesis using with_fault_snd assms unfolding repo_create_reset_token_def on_error_snd by metis
qed

text \<open>The cache.\<close>

lemma cached_set_other:
  "cached_ok st \<Longrightarrow> (\<And>t. key \<noteq> refresh_token_key t) \<Longrightarrow> (\<And>t. key \<noteq> reset_token_key t) \<Longrightarrow> cached_ok (st(key := y))"
  by (auto simp: cached_ok_def)

lemma cached_delete: "cached_ok st \<Longrightarrow> cached_ok (delete_from_cache env key st)"
  by (auto simp: cached_ok_def delete_from_cache_def)

lemma cached_set_user:
  "cached_ok st \<Longrightarrow> (\<And>t. key \<noteq> refresh_token_key t) \<Longrightarrow> (\<And>t. key \<noteq> reset_token_key t) \<Longrightarrow>
   cached_ok (set_to_cache env key v ttl st)"
  using cached_set_other [of st key] by (simp add: set_to_cache_def Let_def)

lemma cached_set_token:
  "cached_ok st \<Longrightarrow> CHR ''.'' \<in> set s \<Longrightarrow> cached_ok (set_to_cache env (refresh_token_key t) (VToken s) ttl st)"
  by (auto simp: cached_ok_def set_to_cache_def Let_def)

lemma cached_set_reset:
  "cached_ok st \<Longrightarrow> cached_ok (set_to_cache env (reset_token_key (bad_verb ''int'' i)) (VUserId i) ttl st)"
  by (auto simp: cached_ok_def set_to_cache_def Let_def)

lemma cached_reset_failed: "cached_ok st \<Longrightarrow> cached_ok (reset_failed_login env email st)"
  by (auto simp: reset_failed_login_def cached_ok_def)

lemma ok_reset_failed: "auth_ok w \<Longrightarrow> cached_ok (reset_failed_login env email (aw_redis w))"
  by (simp add: auth_ok_def cached_reset_failed)

lemma cached_increment: "cached_ok st \<Longrightarrow> cached_ok (snd (increment_failed_login env email st))"
proof -
  have same: "snd (increment_failed_login env email st) key = st key"
    if "key \<noteq> failed_login_key email" "key \<noteq> account_locked_key email" for key
    using that by (simp add: increment_failed_login_def Let_def split: option.splits prod.splits)
  show "cached_ok st \<Longrightarrow> ?thesis" by (simp add: cached_ok_def same)
qed

section \<open>Issuing tokens\<close>

lemma create_refresh_token_fails:
  "sessions_ok (aw_db w) \<Longrightarrow> sessions_ok (aw_db (snd (create_refresh_token env user w)))"
  "aw_redis (snd (create_refresh_token env user w)) = aw_redis w"
proof -
  let ?del = "repo_delete_refresh_token_by_user_id (ae_fault env ''DeleteRefreshTokenByUserId'') user (aw_db w)"
  have gone: "go_int32 user \<notin> set (map rt_user (refresh_rows (snd ?del)))" if "fst ?del = Inr x" for x
    using that by (auto simp: repo_delete_refresh_token_by_user_id_def on_error_def try_or_def ret_def with_fault_def
        delete_refresh_token_by_user_id_sql_def split: fault.splits)
  show "sessions_ok (aw_db w) \<Longrightarrow> sessions_ok (aw_db (snd (create_refresh_token env user w)))"
    using sessions_delete(2) [of "aw_db w" "ae_fault env ''DeleteRefreshTokenByUserId''" user] gone
      sessions_create [of "snd ?del" user]
    by (auto simp: create_refresh_token_def Let_def try_or_def on_auth_db_def zoom_def ret_def
        split: prod.splits sum.splits) (metis snd_conv fst_conv)+
  show "aw_redis (snd (create_refresh_token env user w)) = aw_redis w"
    by (simp add: create_refresh_token_def Let_def try_or_def on_auth_db_def zoom_def ret_def
        split: prod.splits sum.splits)
qed

lemma create_refresh_token_ok:
  assumes "create_refresh_token env user w = (Inr token, w')"
  shows "token = generate_token (ae_jwt env) (au_now env) user ''refresh''"
    "\<exists>row. rt_user row = go_int32 user \<and> rt_token row = token
       \<and> rt_expiration row = expiry_of (au_now env + 24 * hour) \<and> rt_updated row = au_now env \<and> refresh_live row
       \<and> refresh_rows (aw_db w') = filter (\<lambda>r. rt_user r \<noteq> go_int32 user) (refresh_rows (aw_db w)) @ [row]"
    "aw_redis w' = aw_redis w" "aw_sent w' = aw_sent w" "aw_calls w' = aw_calls w"
  using assms
  by (auto simp: create_refresh_token_def Let_def try_or_def on_auth_db_def zoom_def ret_def on_error_def
      repo_delete_refresh_token_by_user_id_def repo_create_refresh_token_def with_fault_def
      delete_refresh_token_by_user_id_sql_def create_refresh_token_sql_def refresh_live_def
      split: prod.splits sum.splits fault.splits if_splits)

text \<open>
  C30: a login that answers tokens was not locked, found the user and matched the
  password; both tokens are signed for that user, whose refresh rows are replaced by the
  one of the new token, and the failure counter and lock are cleared when Redis executes
  their deletion, whose error the code ignores
\<close>

theorem login_opens_one_session:
  assumes "svc_login env email password w = (Inr (access, refresh), w')"
  shows "\<not> is_account_locked env email w
    \<and> (\<exists>u row. user_find_by_email_and_verify env email = Inr u \<and> ae_compare env (us_password u) password
         \<and> access = generate_token (ae_jwt env) (au_now env) (us_id u) ''access''
         \<and> refresh = generate_token (ae_jwt env) (au_now env) (us_id u) ''refresh''
         \<and> rt_user row = go_int32 (us_id u) \<and> rt_token row = refresh
         \<and> refresh_rows (aw_db w') = filter (\<lambda>r. rt_user r \<noteq> go_int32 (us_id u)) (refresh_rows (aw_db w)) @ [row])
    \<and> (ae_redis_ok env ''DEL'' \<longrightarrow> aw_redis w' (failed_login_key email) = None
         \<and> aw_redis w' (account_locked_key email) = None)"
proof -
  obtain u w1 where u: "\<not> is_account_locked env email w" "user_find_by_email_and_verify env email = Inr u"
    "ae_compare env (us_password u) password"
    and acc: "access = generate_token (ae_jwt env) (au_now env) (us_id u) ''access''"
    and c: "create_refresh_token env (us_id u) w = (Inr refresh, w1)"
    and w': "w' = w1\<lparr>aw_redis := reset_failed_login env email (aw_redis w1)\<rparr>"
    using assms
    by (auto simp: svc_login_def auth_fail_def ret_def create_access_token_def try_or_def
        split: if_splits sum.splits prod.splits)
  from create_refresh_token_ok [OF c] show ?thesis
    using u acc w' by (auto simp: reset_failed_login_def)
qed

section \<open>Reachable states\<close>

inductive auth_step :: "auth_world \<Rightarrow> auth_world \<Rightarrow> bool" where
  "auth_step w (snd (svc_login env email password w))"
| "jwt_sound (ae_jwt env) \<Longrightarrow> auth_step w (snd (svc_refresh_token env token w))"
| "auth_step w (snd (svc_get_me env user w))"
| "auth_step w (snd (svc_forgot_password env email w))"
| "auth_step w (snd (svc_reset_password env token password confirm w))"
| "auth_step w (snd (svc_verify_code env code w))"
| "auth_step w (snd (svc_register env req w))"

definition empty_auth_world :: auth_world where
  "empty_auth_world =
     \<lparr>aw_db = \<lparr>refresh_rows = [], refresh_seq = 1, reset_rows = [], reset_seq = 1\<rparr>,
      aw_redis = Map.empty, aw_sent = [], aw_calls = []\<rparr>"

inductive auth_reachable :: "auth_world \<Rightarrow> bool" where
  initial: "auth_reachable empty_auth_world"
| step: "auth_reachable w \<Longrightarrow> auth_step w w' \<Longrightarrow> auth_reachable w'"

text \<open>Each operation keeps the invariant if the calls it is made of do.\<close>

lemma ok_try_or:
  "auth_ok (snd (m w)) \<Longrightarrow> (\<And>e w'. auth_ok w' \<Longrightarrow> auth_ok (snd (h e w'))) \<Longrightarrow>
   (\<And>x w'. m w = (Inr x, w') \<Longrightarrow> auth_ok w' \<Longrightarrow> auth_ok (snd (k x w'))) \<Longrightarrow> auth_ok (snd (try_or m h k w))"
  by (auto simp: try_or_def split: prod.splits sum.splits)

lemma ok_and_then:
  "auth_ok (snd (m w)) \<Longrightarrow> (\<And>x w'. auth_ok w' \<Longrightarrow> auth_ok (snd (k x w'))) \<Longrightarrow> auth_ok (snd (and_then m k w))"
  by (auto simp: and_then_def split: prod.splits)

lemma ok_return: "auth_ok w \<Longrightarrow> auth_ok (snd (ret r w))" "auth_ok w \<Longrightarrow> auth_ok (snd (auth_fail e w))"
  by (simp_all add: ret_def auth_fail_def)

lemma ok_db: "auth_ok w \<Longrightarrow> sessions_ok (snd (m (aw_db w))) \<Longrightarrow> auth_ok (snd (on_auth_db m w))"
  by (auto simp: on_auth_db_def zoom_def split: prod.splits)

lemma ok_tables:
  assumes "auth_ok w"
  shows "auth_ok (snd (on_auth_db (repo_delete_refresh_token fl token) w))"
    "auth_ok (snd (on_auth_db (repo_delete_reset_token fl user) w))"
    "auth_ok (snd (on_auth_db (repo_update_refresh_token fl now token user expires) w))"
    "auth_ok (snd (on_auth_db (repo_create_reset_token fl user token expires) w))"
    "auth_ok (snd (create_refresh_token env user w))"
proof -
  have s: "sessions_ok (aw_db w)" using assms by (simp add: auth_ok_def)
  show "auth_ok (snd (on_auth_db (repo_delete_refresh_token fl token) w))"
    "auth_ok (snd (on_auth_db (repo_delete_reset_token fl user) w))"
    "auth_ok (snd (on_auth_db (repo_update_refresh_token fl now token user expires) w))"
    "auth_ok (snd (on_auth_db (repo_create_reset_token fl user token expires) w))"
    by (rule ok_db; (rule assms | rule sessions_delete sessions_update sessions_reset; rule s))+
  show "auth_ok (snd (create_refresh_token env user w))"
    using assms create_refresh_token_fails by (simp add: auth_ok_def)
qed

lemma ok_calls:
  assumes "auth_ok w"
  shows "auth_ok (snd (send_mail env topic key m w))" "auth_ok (snd (user_create_user env req w))"
    "auth_ok (snd (user_update_is_verified env i b w))" "auth_ok (snd (user_update_password env i password w))"
    "auth_ok (snd (assign_role_to_user env i role w))" "auth_ok (snd (create_access_token env i w))"
  using assms
  by (auto simp: send_mail_def user_create_user_def user_update_is_verified_def user_update_password_def
      assign_role_to_user_def create_access_token_def remote_call_def with_fault_def try_or_def ret_def
      split: fault.splits prod.splits sum.splits)

lemma ok_cache:
  assumes "auth_ok w"
  shows "CHR ''.'' \<in> set token \<Longrightarrow> auth_ok (set_refresh_token env token ttl w)"
    "auth_ok (drop_refresh_token env token w)" "auth_ok (set_cached_user_info env u ttl w)"
    "auth_ok (set_reset_token_cache env token i ttl w)" "auth_ok (delete_reset_token_cache env token w)"
    "auth_ok (delete_verification_code_cache env email w)" "auth_ok (set_verification_code_cache env email code ttl w)"
    "auth_ok (w\<lparr>aw_redis := reset_failed_login env email (aw_redis w)\<rparr>)"
    "auth_ok (snd (on_redis (increment_failed_login env email) w))"
proof -
  have c: "cached_ok (aw_redis w)" using assms by (simp add: auth_ok_def)
  note defs = set_refresh_token_def drop_refresh_token_def set_cached_user_info_def set_reset_token_cache_def
    delete_reset_token_cache_def delete_verification_code_cache_def set_verification_code_cache_def
  show "CHR ''.'' \<in> set token \<Longrightarrow> auth_ok (set_refresh_token env token ttl w)"
    "auth_ok (drop_refresh_token env token w)" "auth_ok (set_cached_user_info env u ttl w)"
    "auth_ok (set_reset_token_cache env token i ttl w)" "auth_ok (delete_reset_token_cache env token w)"
    "auth_ok (delete_verification_code_cache env email w)" "auth_ok (set_verification_code_cache env email code ttl w)"
    "auth_ok (w\<lparr>aw_redis := reset_failed_login env email (aw_redis w)\<rparr>)"
    using assms c by (simp_all add: defs cached_set_token cached_delete cached_set_user cached_set_reset cached_reset_failed
        auth_keys_differ [symmetric])
  show "auth_ok (snd (on_redis (increment_failed_login env email) w))"
    using assms cached_increment [OF c, of env email] by (auto simp: on_redis_def zoom_def split: prod.splits)
qed

lemmas ok_intros = ok_reset_failed ok_try_or ok_and_then ok_return ok_tables ok_calls ok_cache

lemma issue_tokens_ok:
  assumes "auth_ok w" "\<And>a r w'. auth_ok w' \<Longrightarrow> r = generate_token (ae_jwt env) (au_now env) user ''refresh'' \<Longrightarrow>
     auth_ok (snd (k a r w'))"
  shows "auth_ok (snd (issue_tokens env user k w))"
  unfolding issue_tokens_def
  by (intro ok_try_or ok_return ok_tables ok_calls assms) (auto dest: create_refresh_token_ok(1))

lemma generated_dot: "jwt_sound lib \<Longrightarrow> CHR ''.'' \<in> set (generate_token lib now user aud)"
  by (simp add: jwt_sound_def generate_token_def)

lemma auth_step_ok: "auth_step w w' \<Longrightarrow> auth_ok w \<Longrightarrow> auth_ok w'"
proof (induction rule: auth_step.induct)
  case (1 w env email password)
  then show ?case unfolding svc_login_def by (auto split: sum.splits intro!: ok_intros)
next
  case (2 env w token)
  note dot = generated_dot [OF 2(1)]
  have "auth_ok (snd (refresh_expired env token err w))" for err
    unfolding refresh_expired_def using 2(2) by (auto intro!: ok_intros)
  moreover have "auth_ok (snd (refresh_validated env token user w))" for user
    unfolding refresh_validated_def using 2(2) dot by (auto intro!: ok_intros issue_tokens_ok)
  moreover have "auth_ok (snd (issue_tokens env user
      (\<lambda>a r w'. (Inr (a, r), set_refresh_token env r (24 * hour) w')) (drop_refresh_token env token w)))" for user
    using 2(2) dot by (auto intro!: ok_intros issue_tokens_ok)
  ultimately show ?case using 2(2) unfolding svc_refresh_token_def
    by (auto split: option.splits sum.splits intro!: ok_return)
next
  case (3 w env user)
  then show ?case unfolding svc_get_me_def by (auto split: option.splits sum.splits intro!: ok_intros)
next
  case (4 w env email)
  then show ?case unfolding svc_forgot_password_def by (auto split: sum.splits intro!: ok_intros)
next
  case (5 w env token password confirm)
  have "auth_ok (snd (set_new_password env token password confirm user w'))" if "auth_ok w'" for user w'
    unfolding set_new_password_def using that by (auto intro!: ok_intros)
  then show ?case using 5 unfolding svc_reset_password_def
    by (auto split: option.splits sum.splits intro!: ok_return ok_cache)
next
  case (6 w env code)
  then show ?case unfolding svc_verify_code_def by (auto split: sum.splits intro!: ok_intros)
next
  case (7 w env req)
  then show ?case unfolding svc_register_def by (auto split: sum.splits intro!: ok_intros)
qed

lemma auth_reachable_ok: "auth_reachable w \<Longrightarrow> auth_ok w"
proof (induction rule: auth_reachable.induct)
  case initial
  show ?case by (simp add: auth_ok_def empty_auth_world_def sessions_ok_def cached_ok_def)
next
  case (step w w')
  then show ?case using auth_step_ok by blast
qed

text \<open>
  In every state the authentication service reaches, users and tokens are unique in
  the tables of refresh and reset tokens
\<close>

theorem one_session_per_user:
  "auth_reachable w \<Longrightarrow>
   distinct (map rt_user (refresh_rows (aw_db w))) \<and> distinct (map rt_token (refresh_rows (aw_db w)))
   \<and> distinct (map rs_user (reset_rows (aw_db w))) \<and> distinct (map rs_token (reset_rows (aw_db w)))"
  using auth_reachable_ok by (simp add: auth_ok_def sessions_ok_def)

section \<open>Refreshing\<close>

lemma update_own_row:
  assumes "update_refresh_token_by_user_id_sql now user token e db = (Inr r, db')"
    "refresh_rows db = filter (\<lambda>r. rt_user r \<noteq> user) rs @ [row]"
    "rt_token row = token" "rt_expiration row = e" "rt_updated row = now"
  shows "refresh_rows db' = refresh_rows db"
proof -
  have row: "row\<lparr>rt_token := token, rt_expiration := e, rt_updated := now\<rparr> = row" using assms(3-5) by simp
  have "update_where (\<lambda>r. rt_user r = user \<and> refresh_live r)
      (\<lambda>r. r\<lparr>rt_token := token, rt_expiration := e, rt_updated := now\<rparr>) (refresh_rows db) = refresh_rows db"
    unfolding assms(2) update_where_def map_append
    using row by (auto intro!: map_idI)
  then show ?thesis using assms(1)
    by (auto simp: update_refresh_token_by_user_id_sql_def Let_def split: option.splits if_splits)
qed

lemma refresh_validated_ok:
  assumes "refresh_validated env token user w = (Inr (access, refresh), w')"
  shows "access = generate_token (ae_jwt env) (au_now env) user ''access''
    \<and> refresh = generate_token (ae_jwt env) (au_now env) user ''refresh''
    \<and> (\<exists>row. rt_user row = go_int32 user \<and> rt_token row = refresh
        \<and> refresh_rows (aw_db w') = filter (\<lambda>r. rt_user r \<noteq> go_int32 user)
             (filter (\<lambda>r. rt_token r \<noteq> token) (refresh_rows (aw_db w))) @ [row])"
proof -
  obtain w1 w2 r db where c: "create_refresh_token env user w1 = (Inr refresh, w2)"
    and w1: "refresh_rows (aw_db w1) = filter (\<lambda>r. rt_token r \<noteq> token) (refresh_rows (aw_db w))"
    and access: "access = generate_token (ae_jwt env) (au_now env) user ''access''"
    and u: "update_refresh_token_by_user_id_sql (au_now env) (go_int32 user) refresh
        (expiry_of (au_now env + 24 * hour)) (aw_db w2) = (Inr r, db)"
    and db: "aw_db w' = db"
    using assms
    by (auto simp: refresh_validated_def issue_tokens_def create_access_token_def try_or_def auth_fail_def ret_def
        on_auth_db_def zoom_def repo_delete_refresh_token_def repo_update_refresh_token_def on_error_def
        delete_refresh_token_sql_def with_fault_def drop_refresh_token_def set_refresh_token_def
        split: prod.splits sum.splits fault.splits)
  obtain row where row: "rt_user row = go_int32 user" "rt_token row = refresh"
    "rt_expiration row = expiry_of (au_now env + 24 * hour)" "rt_updated row = au_now env"
    and rows: "refresh_rows (aw_db w2) = filter (\<lambda>r. rt_user r \<noteq> go_int32 user) (refresh_rows (aw_db w1)) @ [row]"
    using create_refresh_token_ok(2) [OF c] by auto
  have "refresh_rows db = refresh_rows (aw_db w2)"
    by (rule update_own_row [OF u rows row(2-4)])
  then show ?thesis using access create_refresh_token_ok(1) [OF c] row rows w1 db by auto
qed

lemma cached_token_never_used:
  "auth_reachable w \<Longrightarrow> Option.bind (get_refresh_token env token w) atoi = None"
proof -
  assume "auth_reachable w"
  then have c: "cached_ok (aw_redis w)" using auth_reachable_ok by (simp add: auth_ok_def)
  have "atoi s = None" if "get_refresh_token env token w = Some s" for s
  proof -
    obtain v where v: "get_from_cache (ae_cache env) (refresh_token_key token) (aw_redis w) = Some v" "as_token v = Some s"
      using \<open>get_refresh_token env token w = Some s\<close> by (auto simp: get_refresh_token_def Option.bind_eq_Some_conv)
    moreover have "v = VToken s" using v(2) by (cases v) auto
    ultimately obtain x where "aw_redis w (refresh_token_key token) = Some (VToken s, x)"
      using get_from_cache_stored by metis
    then show ?thesis using c by (auto simp: cached_ok_def intro: atoi_dot)
  qed
  then show ?thesis by (cases "get_refresh_token env token w") auto
qed

text \<open>
  C31: in every reachable state a refresh that answers tokens was given an unexpired token
  of this signer, the new tokens are for the subject of that token, the row of the old
  token is gone and the user has exactly the row of the new one
\<close>

theorem refresh_needs_a_signed_token:
  assumes "auth_reachable w" "jwt_sound (ae_jwt env)"
    "svc_refresh_token env token w = (Inr (access, refresh), w')"
  shows "\<exists>user e sub aud row. token = jwt_sign (ae_jwt env) e sub aud \<and> au_now env < e * second \<and> atoi sub = Some user
    \<and> access = generate_token (ae_jwt env) (au_now env) user ''access''
    \<and> refresh = generate_token (ae_jwt env) (au_now env) user ''refresh''
    \<and> rt_user row = go_int32 user \<and> rt_token row = refresh
    \<and> refresh_rows (aw_db w') = filter (\<lambda>r. rt_user r \<noteq> go_int32 user)
         (filter (\<lambda>r. rt_token r \<noteq> token) (refresh_rows (aw_db w))) @ [row]"
proof -
  obtain sub user where v: "validate_token (ae_jwt env) (au_now env) token = Inr sub" "atoi sub = Some user"
    and r: "refresh_validated env token user w = (Inr (access, refresh), w')"
    using assms(3) cached_token_never_used [OF assms(1), of env token]
    by (auto simp: svc_refresh_token_def refresh_expired_def auth_fail_def ret_def try_or_def
        split: sum.splits option.splits if_splits prod.splits)
  have p: "jwt_parse (ae_jwt env) (au_now env) token = JwtSubject sub"
    using v(1) by (simp add: validate_token_def split: jwt_answer.splits)
  then obtain e aud where t: "token = jwt_sign (ae_jwt env) e sub aud" using assms(2) unfolding jwt_sound_def by blast
  then have "au_now env < e * second" using p assms(2) by (auto simp: jwt_sound_def split: if_splits)
  then show ?thesis using refresh_validated_ok [OF r] t v(2) by blast
qed

section \<open>Setting a password\<close>

lemma set_new_password_ok:
  assumes "set_new_password env token password confirm user w = (Inr b, w')"
  shows "password = confirm" "aw_calls w' = aw_calls w @ [UpdateUserPasswordCall (go_int32 user) password]"
    "refresh_rows (aw_db w') = refresh_rows (aw_db w)"
    "ae_fault env ''DeleteResetToken'' = Deliver \<Longrightarrow> \<forall>r \<in> set (reset_rows (aw_db w')). rs_user r \<noteq> go_int32 user"
  using assms
  by (auto simp: set_new_password_def user_update_password_def remote_call_def on_error_def try_or_def and_then_def
      auth_fail_def ret_def with_fault_def on_auth_db_def zoom_def repo_delete_reset_token_def
      delete_reset_token_sql_def delete_reset_token_cache_def
      split: if_splits prod.splits sum.splits fault.splits)


end
