(* ===== verification/AuthSamples.thy ===== *)
theory AuthSamples
  imports AuthFacts
begin

text \<open>
  A signing library, an environment and a few runs of the authentication service: witnesses
  of its theorems, and the behaviours they leave room for.
\<close>

section \<open>A library that signs\<close>

definition sample_sign :: "int \<Rightarrow> string \<Rightarrow> string \<Rightarrow> string" where
  "sample_sign e sub aud = itoa e @ CHR ''.'' # itoa (int (length sub)) @ CHR ''.'' # sub @ aud"

definition decimal :: "string \<Rightarrow> int" where
  "decimal s = (if s \<noteq> [] \<and> hd s = CHR ''-'' then - digits_value (tl s) else digits_value s)"

definition sample_parse :: "int \<Rightarrow> string \<Rightarrow> jwt_answer" where
  "sample_parse now t =
     (let a = takeWhile (\<lambda>c. c \<noteq> CHR ''.'') t; t1 = drop (length a + 1) t;
          b = takeWhile (\<lambda>c. c \<noteq> CHR ''.'') t1; t2 = drop (length b + 1) t1;
          e = decimal a; n = nat (decimal b)
      in if t \<noteq> sample_sign e (take n t2) (drop n t2) then JwtRefused ''token is malformed''
         else if now < e * second then JwtSubject (take n t2) else JwtExpired)"

definition sample_jwt :: jwt_lib where
  "sample_jwt = \<lparr>jwt_sign = sample_sign, jwt_parse = sample_parse\<rparr>"

lemma itoa_no_dot: "CHR ''.'' \<notin> set (itoa i)"
proof -
  have "CHR ''.'' \<notin> set (nat_digits n)" for n
    using nat_digits_digits [of n] not_digits(3) by (auto simp: list_all_iff)
  then show ?thesis by (simp add: itoa_def)
qed

lemma decimal_itoa: "decimal (itoa i) = i"
proof -
  have "is_digit (hd (nat_digits n))" for n
    using nat_digits_digits [of n] by (simp add: list_all_iff)
  then have "hd (nat_digits n) \<noteq> CHR ''-''" for n using not_digits(1) by metis
  then show ?thesis by (simp add: decimal_def itoa_def digits_value_nat_digits)
qed

lemma take_part: "takeWhile (\<lambda>c. c \<noteq> CHR ''.'') (itoa i @ CHR ''.'' # r) = itoa i"
  using itoa_no_dot [of i] by (subst takeWhile_append2) auto

lemma sample_jwt_sound: "jwt_sound sample_jwt"
proof -
  have "sample_parse now (sample_sign e sub aud) = (if now < e * second then JwtSubject sub else JwtExpired)" for now e sub aud
    by (simp add: sample_parse_def sample_sign_def take_part decimal_itoa)
  moreover have "\<exists>e aud. t = sample_sign e sub aud" if "sample_parse now t = JwtSubject sub" for now t sub
    using that by (auto simp: sample_parse_def Let_def split: if_splits)
  moreover have "CHR ''.'' \<in> set (sample_sign e sub aud)" for e sub aud by (simp add: sample_sign_def)
  ultimately show ?thesis by (simp add: jwt_sound_def sample_jwt_def)
qed

section \<open>An environment\<close>

definition sample_user :: auth_user where
  "sample_user = \<lparr>us_id = 5, us_firstname = ''A'', us_lastname = ''B'', us_email = ''a@b'', us_password = ''hash''\<rparr>"

definition sample_auth_env :: "int \<Rightarrow> auth_env" where
  "sample_auth_env now =
     \<lparr>ae_cache = \<lparr>ce_now = now, ce_rand = (\<lambda>n. 0), ce_get_ok = True, ce_set_ok = True, ce_del_ok = True\<rparr>,
      ae_redis_ok = (\<lambda>c. True), ae_fault = (\<lambda>c. Deliver), ae_jwt = sample_jwt,
      ae_compare = (\<lambda>h p. p = ''secret''), ae_random = Inr ''0123456789'',
      ae_user_by_id = (\<lambda>i. Inr (if i = 5 then Some sample_user else None)),
      ae_user_by_email = (\<lambda>e. Inr (if e = ''a@b'' then Some sample_user else None)),
      ae_user_by_code = (\<lambda>c. Inr None), ae_created = (\<lambda>r. Some sample_user),
      ae_role_by_name = (\<lambda>n. Inr (if n = ''ROLE_ADMIN'' then Some 1 else None)), ae_kafka = True\<rparr>"

lemma sample_env_now [simp]: "au_now (sample_auth_env t) = t"
  by (simp add: au_now_def sample_auth_env_def)

lemma sample_wrong: "redis_up (sample_auth_env t) \<and> wrong_password (sample_auth_env t) ''a@b'' ''guess''"
  by (simp add: redis_up_def wrong_password_def user_find_by_email_and_verify_def user_find_by_email_def adapted_def
      sample_auth_env_def)

theorem five_wrong_passwords_lock_witness:
  "fst (svc_login (sample_auth_env (10 * minute)) ''a@b'' ''secret''
      (login_attempts ''a@b'' (replicate 5 (sample_auth_env 0, ''guess'')) empty_auth_world)) = Inl ErrAccountLocked"
proof -
  have "ae_redis_ok (sample_auth_env t) c" for t c by (simp add: sample_auth_env_def)
  then show ?thesis
    by (subst five_wrong_passwords_lock)
      (use sample_wrong in \<open>auto simp: redis_live_def empty_auth_world_def time_defs lockout_duration_def\<close>)
qed

definition logged_in :: auth_world where
  "logged_in = snd (svc_login (sample_auth_env 0) ''a@b'' ''secret'' empty_auth_world)"

lemma logged_in_reachable: "auth_reachable logged_in"
  unfolding logged_in_def by (rule auth_reachable.step [OF auth_reachable.initial auth_step.intros(1)])

definition first_tokens :: "string \<times> string" where
  "first_tokens = (sample_sign 43200 ''5'' ''access'', sample_sign 43200 ''5'' ''refresh'')"

lemma login_answers: "fst (svc_login (sample_auth_env 0) ''a@b'' ''secret'' empty_auth_world) = Inr first_tokens"
  by code_simp

theorem login_opens_one_session_witness:
  "\<exists>row. rt_user row = 5 \<and> rt_token row = snd first_tokens \<and> refresh_rows (aw_db logged_in) = [row]"
proof -
  have "svc_login (sample_auth_env 0) ''a@b'' ''secret'' empty_auth_world = (Inr (fst first_tokens, snd first_tokens), logged_in)"
    using login_answers by (simp add: logged_in_def prod_eq_iff)
  from login_opens_one_session [OF this] show ?thesis
    by (auto simp: user_find_by_email_and_verify_def user_find_by_email_def adapted_def sample_auth_env_def
        sample_user_def empty_auth_world_def fits_int32_def)
qed

theorem one_session_per_user_witness: "distinct (map rt_user (refresh_rows (aw_db logged_in)))"
  using one_session_per_user [OF logged_in_reachable] by simp

definition refreshed :: auth_world where
  "refreshed = snd (svc_refresh_token (sample_auth_env second) (snd first_tokens) logged_in)"

lemma refresh_answers:
  "fst (svc_refresh_token (sample_auth_env second) (snd first_tokens) logged_in)
   = Inr (sample_sign 43201 ''5'' ''access'', sample_sign 43201 ''5'' ''refresh'')"
  by code_simp

theorem refresh_needs_a_signed_token_witness:
  "\<exists>row. rt_user row = 5 \<and> refresh_rows (aw_db refreshed) = [row]"
proof -
  have run: "svc_refresh_token (sample_auth_env second) (snd first_tokens) logged_in
      = (Inr (sample_sign 43201 ''5'' ''access'', sample_sign 43201 ''5'' ''refresh''), refreshed)"
    using refresh_answers by (simp add: refreshed_def prod_eq_iff)
  have rows: "map rt_token (refresh_rows (aw_db logged_in)) = [snd first_tokens]" by code_simp
  have len: "length (refresh_rows (aw_db refreshed)) = 1" "map rt_user (refresh_rows (aw_db refreshed)) = [5]" by code_simp+
  obtain user row where "rt_user row = go_int32 user"
    "refresh_rows (aw_db refreshed) = filter (\<lambda>r. rt_user r \<noteq> go_int32 user)
       (filter (\<lambda>r. rt_token r \<noteq> snd first_tokens) (refresh_rows (aw_db logged_in))) @ [row]"
    using refresh_needs_a_signed_token [OF logged_in_reachable _ run] sample_jwt_sound
    by (auto simp: sample_auth_env_def)
  then show ?thesis using len by (intro exI [of _ row]) auto
qed

definition forgotten :: auth_world where
  "forgotten = snd (svc_forgot_password (sample_auth_env 0) ''a@b'' empty_auth_world)"

lemma forgotten_reachable: "auth_reachable forgotten"
  unfolding forgotten_def by (rule auth_reachable.step [OF auth_reachable.initial auth_step.intros(4)])

lemma reset_answers:
  "fst (svc_reset_password (sample_auth_env 0) ''0123456789'' ''new'' ''new'' forgotten) = Inr True"
  by code_simp


section \<open>What the service also accepts\<close>

text \<open>
  The reset entry stands under the misprinted key of the user id. Whoever sends that text
  as a token within five minutes of a request sets the password of that user.
\<close>

lemma forged_reset_token:
  "let (r, w) = svc_reset_password (sample_auth_env 0) ''%!s(int=5)'' ''stolen'' ''stolen'' forgotten
   in r = Inr True \<and> aw_calls w = [UpdateUserPasswordCall 5 ''stolen'']"
  by code_simp

text \<open>The expiry of a reset token is stored and never read.\<close>

lemma expired_reset_token_works:
  "fst (svc_reset_password (sample_auth_env (100 * 24 * hour)) ''0123456789'' ''new'' ''new'' forgotten) = Inr True"
  by code_simp

text \<open>A user who has not used the first reset token cannot ask for a second.\<close>

lemma second_forgot_is_refused:
  "fst (svc_forgot_password ((sample_auth_env (100 * 24 * hour))\<lparr>ae_random := Inr ''abcdefghij''\<rparr>) ''a@b'' forgotten)
   = Inl (with_internal (new_conflict_error ''reset token already exists'') (DbError ''23505''))"
  by code_simp

text \<open>
  The table of refresh tokens is never read: a token whose row a later login removed, and an
  access token, are refreshed as well.
\<close>

lemma revoked_token_refreshes:
  "let w = snd (svc_login (sample_auth_env second) ''a@b'' ''secret'' logged_in)
   in snd first_tokens \<notin> set (map rt_token (refresh_rows (aw_db w)))
      \<and> \<not> isl (fst (svc_refresh_token (sample_auth_env (2 * second)) (snd first_tokens) w))"
  by code_simp

lemma access_token_refreshes:
  "\<not> isl (fst (svc_refresh_token (sample_auth_env second) (fst first_tokens) logged_in))"
  by code_simp

text \<open>The answer of the handler carries the token the caller already had.\<close>

lemma handler_answers_the_old_token:
  "handle_refresh_token env token w = (Inr (access, refresh), w') \<Longrightarrow> refresh = token"
  by (auto simp: handle_refresh_token_def try_or_def ret_def split: prod.splits sum.splits)

text \<open>The profile is stored under a misprinted key and never found again.\<close>

lemma profile_is_never_cached:
  "get_cached_user_info env (itoa i) (set_cached_user_info env' u ttl w) = get_cached_user_info env (itoa i) w"
proof -
  have "\<not> is_digit CHR ''%''" by (simp add: is_digit_def)
  moreover have "is_digit (hd (nat_digits n))" for n using nat_digits_digits [of n] by (simp add: list_all_iff)
  ultimately have "hd (nat_digits n) \<noteq> CHR ''%''" for n by metis
  then have "hd (itoa i) \<noteq> CHR ''%''" by (simp add: itoa_def)
  then have "itoa i \<noteq> bad_verb ''int32'' j" for j by (auto simp: bad_verb_def)
  then show ?thesis
    by (simp add: get_cached_user_info_def set_cached_user_info_def user_info_key_def get_from_cache_def)
qed

text \<open>Whoever registers is given the role of an administrator.\<close>

lemma everyone_is_an_administrator:
  assumes "svc_register env req w = (Inr u, w')"
  shows "\<exists>role. role_find_by_name env ''ROLE_ADMIN'' = Inr role
    \<and> last (aw_calls w') = AssignRoleCall (go_int32 (us_id u)) (go_int32 role)"
  using assms
  by (auto simp: svc_register_def auth_fail_def ret_def try_or_def and_then_def assign_role_to_user_def on_error_def
      remote_call_def with_fault_def set_verification_code_cache_def
      split: sum.splits prod.splits fault.splits if_splits)

text \<open>A lookup that fails for any reason counts as a free address.\<close>

lemma failed_lookup_registers:
  "\<not> isl (fst (svc_register ((sample_auth_env 0)\<lparr>ae_user_by_email := (\<lambda>e. Inl ErrServiceUnavailable)\<rparr>)
      \<lparr>rr_firstname = ''A'', rr_lastname = ''B'', rr_email = ''a@b'', rr_password = ''secret'', rr_confirm = ''other''\<rparr>
      empty_auth_world))"
  by code_simp

text \<open>Without Redis nobody is locked out.\<close>

lemma lockout_fails_open: "\<not> ae_redis_ok env ''EXISTS'' \<Longrightarrow> \<not> is_account_locked env email w"
  by (simp add: is_account_locked_def)

end
