(* ===== verification/UserService.thy ===== *)
theory UserService
  imports Repository
begin

text \<open>
  The user service (\<open>service/user\<close>): the table of users with the statements of
  \<open>user.sql.go\<close> that have callers, repositories, commands with password hashing, cached
  queries and handlers. Hashing, the generated verification code and the test of a mail
  address are parameters.
\<close>

section \<open>Table and statements\<close>

record user_row =
  uw_id :: int
  uw_firstname :: string
  uw_lastname :: string
  uw_email :: string
  uw_password :: string
  uw_code :: string
  uw_verified :: bool
  uw_created :: int
  uw_updated :: int
  uw_deleted :: "int option"

record user_db =
  user_rows :: "user_row list"
  user_seq :: int

definition user_live :: "user_row \<Rightarrow> bool" where
  "user_live u \<longleftrightarrow> uw_deleted u = None"

definition live_user :: "int \<Rightarrow> user_row \<Rightarrow> bool" where
  "live_user i u \<longleftrightarrow> uw_id u = i \<and> user_live u"

definition on_users :: "(user_row list \<Rightarrow> 'a \<times> user_row list) \<Rightarrow> user_db \<Rightarrow> 'a \<times> user_db" where
  "on_users = zoom user_rows (\<lambda>x db. db\<lparr>user_rows := x\<rparr>)"

text \<open>All five text columns are \<open>VARCHAR(100)\<close>.\<close>

definition fits_user :: "string list \<Rightarrow> bool" where
  "fits_user columns \<longleftrightarrow> list_all (\<lambda>c. length c \<le> 100) columns"

definition create_user_sql ::
  "int \<Rightarrow> string \<Rightarrow> string \<Rightarrow> string \<Rightarrow> string \<Rightarrow> string \<Rightarrow> bool \<Rightarrow> (go_error, user_row, user_db) op" where
  "create_user_sql now firstname lastname email password code verified db =
     (if \<not> fits_user [firstname, lastname, email, password, code] then (Inl value_too_long, db)
      else if user_seq db > 2147483647 then (Inl sequence_exhausted, db)
      else let db1 = db\<lparr>user_seq := user_seq db + 1\<rparr>;
               u = \<lparr>uw_id = user_seq db, uw_firstname = firstname, uw_lastname = lastname, uw_email = email,
                    uw_password = password, uw_code = code, uw_verified = verified, uw_created = now,
                    uw_updated = now, uw_deleted = None\<rparr>
           in if email \<in> set (map uw_email (user_rows db)) then (Inl unique_violation, db1)
              else (Inr u, db1\<lparr>user_rows := user_rows db @ [u]\<rparr>))"

definition update_user_sql ::
  "int \<Rightarrow> int \<Rightarrow> string \<Rightarrow> string \<Rightarrow> string \<Rightarrow> string \<Rightarrow> (go_error, user_row, user_db) op" where
  "update_user_sql now i firstname lastname email password =
     on_users (\<lambda>rows. update_returning (live_user i)
       (\<lambda>_. if \<not> fits_user [firstname, lastname, email, password] then Some value_too_long
             else if \<exists>u \<in> set rows. uw_id u \<noteq> i \<and> uw_email u = email then Some unique_violation
             else None)
       (\<lambda>u. u\<lparr>uw_firstname := firstname, uw_lastname := lastname, uw_email := email, uw_password := password,
             uw_updated := now\<rparr>) rows)"

definition trash_user_sql :: "int \<Rightarrow> int \<Rightarrow> (go_error, user_row, user_db) op" where
  "trash_user_sql now i =
     on_users (update_returning (live_user i) (\<lambda>_. None) (\<lambda>u. u\<lparr>uw_deleted := Some now, uw_updated := now\<rparr>))"

definition restore_user_sql :: "int \<Rightarrow> int \<Rightarrow> (go_error, user_row, user_db) op" where
  "restore_user_sql now i =
     on_users (update_returning (\<lambda>u. uw_id u = i \<and> \<not> user_live u) (\<lambda>_. None)
       (\<lambda>u. u\<lparr>uw_deleted := None, uw_updated := now\<rparr>))"

definition restore_all_users_sql :: "(go_error, unit, user_db) op" where
  "restore_all_users_sql =
     on_users (\<lambda>us. (Inr (), update_where (\<lambda>u. \<not> user_live u) (\<lambda>u. u\<lparr>uw_deleted := None\<rparr>) us))"

definition delete_user_permanently_sql :: "int \<Rightarrow> (go_error, unit, user_db) op" where
  "delete_user_permanently_sql i =
     on_users (\<lambda>us. (Inr (), filter (\<lambda>u. \<not> (uw_id u = i \<and> \<not> user_live u)) us))"

definition delete_all_permanent_users_sql :: "(go_error, unit, user_db) op" where
  "delete_all_permanent_users_sql = on_users (\<lambda>us. (Inr (), filter user_live us))"

definition update_user_is_verified_sql :: "int \<Rightarrow> int \<Rightarrow> bool \<Rightarrow> (go_error, user_row, user_db) op" where
  "update_user_is_verified_sql now i verified =
     on_users (update_returning (live_user i) (\<lambda>_. None) (\<lambda>u. u\<lparr>uw_verified := verified, uw_updated := now\<rparr>))"

definition update_user_password_sql :: "int \<Rightarrow> int \<Rightarrow> string \<Rightarrow> (go_error, user_row, user_db) op" where
  "update_user_password_sql now i password =
     on_users (update_returning (live_user i) (\<lambda>_. if length password > 100 then Some value_too_long else None)
       (\<lambda>u. u\<lparr>uw_password := password, uw_updated := now\<rparr>))"

definition get_user_by_id_sql :: "int \<Rightarrow> user_db \<Rightarrow> user_row option" where
  "get_user_by_id_sql i db = find (live_user i) (user_rows db)"

definition get_user_by_email_sql :: "string \<Rightarrow> user_db \<Rightarrow> user_row option" where
  "get_user_by_email_sql email db = find (\<lambda>u. uw_email u = email \<and> user_live u) (user_rows db)"

text \<open>The code is not unique and deleted users count; the model takes the oldest row.\<close>

definition get_user_by_verification_code_sql :: "string \<Rightarrow> user_db \<Rightarrow> user_row option" where
  "get_user_by_verification_code_sql code db = find (\<lambda>u. uw_code u = code) (user_rows db)"

definition user_columns :: "user_row \<Rightarrow> string list" where
  "user_columns u = [uw_firstname u, uw_lastname u, uw_email u]"

definition get_users_sql :: "user_db \<Rightarrow> string \<Rightarrow> int \<Rightarrow> int \<Rightarrow> go_error + (user_row \<times> int) list" where
  "get_users_sql db term limit offset =
     list_sql user_live user_columns (\<lambda>u. - uw_created u) term limit offset (user_rows db)"

text \<open>The statement of the active users selects the deleted ones.\<close>

definition get_active_users_sql :: "user_db \<Rightarrow> string \<Rightarrow> int \<Rightarrow> int \<Rightarrow> go_error + (user_row \<times> int) list" where
  "get_active_users_sql db term limit offset =
     list_sql (\<lambda>u. \<not> user_live u) user_columns (\<lambda>u. - uw_created u) term limit offset (user_rows db)"

definition get_trashed_users_sql :: "user_db \<Rightarrow> string \<Rightarrow> int \<Rightarrow> int \<Rightarrow> go_error + (user_row \<times> int) list" where
  "get_trashed_users_sql db term limit offset =
     list_sql (\<lambda>u. \<not> user_live u) user_columns (\<lambda>u. - uw_created u) term limit offset (user_rows db)"

section \<open>Repositories\<close>

record create_user_request =
  cu_firstname :: string
  cu_lastname :: string
  cu_email :: string
  cu_password :: string
  cu_confirm :: string

record update_user_request = create_user_request +
  cu_user :: int

definition repo_create_user ::
  "go_error fault \<Rightarrow> int \<Rightarrow> string \<Rightarrow> create_user_request \<Rightarrow> (go_error, user_row, user_db) op" where
  "repo_create_user fl now code req =
     map_error (conflict_or ''email already exists'' (failed ''create user''))
       (with_fault fl (create_user_sql now (cu_firstname req) (cu_lastname req) (cu_email req) (cu_password req) code False))"

definition repo_update_user :: "go_error fault \<Rightarrow> int \<Rightarrow> update_user_request \<Rightarrow> (go_error, user_row, user_db) op" where
  "repo_update_user fl now req =
     map_error (conflict_or ''email already exists'' (no_rows_or_failed ''user'' ''update user''))
       (with_fault fl (update_user_sql now (go_int32 (cu_user req)) (cu_firstname req) (cu_lastname req)
          (cu_email req) (cu_password req)))"

definition repo_trashed_user :: "go_error fault \<Rightarrow> int \<Rightarrow> int \<Rightarrow> (go_error, user_row, user_db) op" where
  "repo_trashed_user fl now i =
     map_error (no_rows_or_failed ''user'' ''trash user'') (with_fault fl (trash_user_sql now (go_int32 i)))"

definition repo_restore_user :: "go_error fault \<Rightarrow> int \<Rightarrow> int \<Rightarrow> (go_error, user_row, user_db) op" where
  "repo_restore_user fl now i =
     map_error (no_rows_or_failed ''user'' ''restore user'') (with_fault fl (restore_user_sql now (go_int32 i)))"

definition repo_delete_user_permanent :: "go_error fault \<Rightarrow> int \<Rightarrow> (go_error, unit, user_db) op" where
  "repo_delete_user_permanent fl i =
     map_error (no_rows_or_failed ''user'' ''delete user permanently'')
       (with_fault fl (delete_user_permanently_sql (go_int32 i)))"

definition repo_restore_all_user :: "go_error fault \<Rightarrow> (go_error, unit, user_db) op" where
  "repo_restore_all_user fl = map_error (failed ''restore all users'') (with_fault fl restore_all_users_sql)"

definition repo_delete_all_user_permanent :: "go_error fault \<Rightarrow> (go_error, unit, user_db) op" where
  "repo_delete_all_user_permanent fl =
     map_error (failed ''delete all users permanently'') (with_fault fl delete_all_permanent_users_sql)"

definition repo_update_is_verified :: "go_error fault \<Rightarrow> int \<Rightarrow> int \<Rightarrow> bool \<Rightarrow> (go_error, user_row, user_db) op" where
  "repo_update_is_verified fl now i verified =
     map_error (no_rows_or_failed ''user'' ''update user'')
       (with_fault fl (update_user_is_verified_sql now (go_int32 i) verified))"

definition repo_update_password :: "go_error fault \<Rightarrow> int \<Rightarrow> int \<Rightarrow> string \<Rightarrow> (go_error, user_row, user_db) op" where
  "repo_update_password fl now i password =
     map_error (no_rows_or_failed ''user'' ''update user'')
       (with_fault fl (update_user_password_sql now (go_int32 i) password))"

definition repo_find_user_by_id :: "go_error fault \<Rightarrow> int \<Rightarrow> user_db \<Rightarrow> go_error + user_row" where
  "repo_find_user_by_id fl i db = repo_lookup fl (with_message ErrNotFound ''user not found'') (get_user_by_id_sql (go_int32 i) db)"

definition repo_find_user_by_email :: "go_error fault \<Rightarrow> string \<Rightarrow> user_db \<Rightarrow> go_error + user_row" where
  "repo_find_user_by_email fl email db =
     repo_lookup fl (with_message ErrNotFound ''user not found'') (get_user_by_email_sql email db)"

definition repo_find_user_by_verification_code :: "go_error fault \<Rightarrow> string \<Rightarrow> user_db \<Rightarrow> go_error + user_row" where
  "repo_find_user_by_verification_code fl code db =
     repo_lookup fl (with_message ErrNotFound ''user not found'') (get_user_by_verification_code_sql code db)"

definition repo_find_all_users ::
  "go_error fault \<Rightarrow> find_all_request \<Rightarrow> user_db \<Rightarrow> go_error + (user_row \<times> int) list" where
  "repo_find_all_users fl req db = repo_page fl ''find all users'' (get_users_sql db) req"

definition repo_find_active_users ::
  "go_error fault \<Rightarrow> find_all_request \<Rightarrow> user_db \<Rightarrow> go_error + (user_row \<times> int) list" where
  "repo_find_active_users fl req db = repo_page fl ''find active users'' (get_active_users_sql db) req"

definition repo_find_trashed_users ::
  "go_error fault \<Rightarrow> find_all_request \<Rightarrow> user_db \<Rightarrow> go_error + (user_row \<times> int) list" where
  "repo_find_trashed_users fl req db = repo_page fl ''find trashed users'' (get_trashed_users_sql db) req"

section \<open>State, environment and cache\<close>

datatype user_value = VUser user_row | VUserPage "(user_row \<times> int) list" int

record user_world =
  uo_db :: user_db
  uo_cache :: "user_value redis"

text \<open>
  An environment is that of one request. \<open>ue_hash\<close> is what its call of bcrypt answers: the salt
  is drawn for the call, so requests have different functions.
\<close>

record user_env =
  ue_cache :: cache_env
  ue_fault :: "string \<Rightarrow> go_error fault"
  ue_hash :: "string \<Rightarrow> go_error + string"
  ue_uuid :: string
  ue_email_ok :: "string \<Rightarrow> bool"

definition ue_now :: "user_env \<Rightarrow> int" where
  "ue_now env = ce_now (ue_cache env)"

definition on_user_db :: "(go_error, 'a, user_db) op \<Rightarrow> (go_error, 'a, user_world) op" where
  "on_user_db = zoom uo_db (\<lambda>d w. w\<lparr>uo_db := d\<rparr>)"

definition on_user_cache :: "(user_value redis \<Rightarrow> 'a \<times> user_value redis) \<Rightarrow> user_world \<Rightarrow> 'a \<times> user_world" where
  "on_user_cache = zoom uo_cache (\<lambda>x w. w\<lparr>uo_cache := x\<rparr>)"

definition user_by_id_key :: "int \<Rightarrow> string" where
  "user_by_id_key i = ''user:id:'' @ itoa i"

fun value_user :: "user_value \<Rightarrow> user_row option" where
  "value_user (VUser u) = Some u"
| "value_user _ = None"

fun value_user_page :: "user_value \<Rightarrow> ((user_row \<times> int) list \<times> int) option" where
  "value_user_page (VUserPage rows n) = Some (rows, n)"
| "value_user_page _ = None"

section \<open>Commands\<close>

text \<open>As in the role service no command deletes from the cache.\<close>

definition user_fail :: "go_error \<Rightarrow> user_world \<Rightarrow> (go_error + 'a) \<times> user_world" where
  "user_fail err = ret (Inl (handle_error (Some err)))"

definition user_command :: "(go_error \<Rightarrow> go_error) \<Rightarrow> (go_error, 'a, user_db) op \<Rightarrow> (go_error, 'a, user_world) op" where
  "user_command f m = map_error (\<lambda>err. handle_error (Some (f err))) (on_user_db m)"

definition svc_create_user :: "user_env \<Rightarrow> create_user_request \<Rightarrow> (go_error, user_row, user_world) op" where
  "svc_create_user env req w =
     (let hashed = (case ue_hash env (cu_password req) of
                      Inl _ \<Rightarrow> user_fail ErrUserPassword w
                    | Inr h \<Rightarrow> user_command (\<lambda>e. e) (repo_create_user (ue_fault env ''CreateUser'') (ue_now env) (ue_uuid env)
                                 (req\<lparr>cu_password := h\<rparr>)) w)
      in case repo_find_user_by_email (ue_fault env ''GetUserByEmail'') (cu_email req) (uo_db w) of
           Inl err \<Rightarrow> if errors_is err ErrUserNotFound then hashed else user_fail err w
         | Inr _ \<Rightarrow> user_fail ErrUserEmailAlready w)"

text \<open>
  The hash is written into the row that was read, which is not used again: the repository
  gets the request with the password as it was sent.
\<close>

definition svc_update_user :: "user_env \<Rightarrow> update_user_request \<Rightarrow> (go_error, user_row, user_world) op" where
  "svc_update_user env req w =
     (case repo_find_user_by_id (ue_fault env ''GetUserByID'') (cu_user req) (uo_db w) of
        Inl _ \<Rightarrow> user_fail (err_not_found_response ''User'') w
      | Inr existing \<Rightarrow>
          if cu_email req \<noteq> [] \<and> cu_email req \<noteq> uw_email existing
             \<and> \<not> isl (repo_find_user_by_email (ue_fault env ''GetUserByEmail'') (cu_email req) (uo_db w))
          then user_fail ErrUserEmailAlready w
          else if cu_password req \<noteq> [] \<and> isl (ue_hash env (cu_password req)) then user_fail ErrUserPassword w
          else user_command (\<lambda>e. e) (repo_update_user (ue_fault env ''UpdateUser'') (ue_now env) req) w)"

definition svc_trashed_user :: "user_env \<Rightarrow> int \<Rightarrow> (go_error, user_row, user_world) op" where
  "svc_trashed_user env i = user_command (\<lambda>e. e) (repo_trashed_user (ue_fault env ''TrashUser'') (ue_now env) i)"

definition svc_restore_user :: "user_env \<Rightarrow> int \<Rightarrow> (go_error, user_row, user_world) op" where
  "svc_restore_user env i = user_command (\<lambda>e. e) (repo_restore_user (ue_fault env ''RestoreUser'') (ue_now env) i)"

definition svc_delete_user_permanent :: "user_env \<Rightarrow> int \<Rightarrow> (go_error, unit, user_world) op" where
  "svc_delete_user_permanent env i =
     user_command (\<lambda>e. e) (repo_delete_user_permanent (ue_fault env ''DeleteUserPermanently'') i)"

definition svc_restore_all_user :: "user_env \<Rightarrow> (go_error, unit, user_world) op" where
  "svc_restore_all_user env =
     user_command (\<lambda>_. err_failed ''restore all users'') (repo_restore_all_user (ue_fault env ''RestoreAllUsers''))"

definition svc_delete_all_user_permanent :: "user_env \<Rightarrow> (go_error, unit, user_world) op" where
  "svc_delete_all_user_permanent env =
     user_command (\<lambda>_. err_failed ''delete all users permanently'')
       (repo_delete_all_user_permanent (ue_fault env ''DeleteAllPermanentUsers''))"

definition svc_update_is_verified :: "user_env \<Rightarrow> int \<Rightarrow> bool \<Rightarrow> (go_error, user_row, user_world) op" where
  "svc_update_is_verified env i verified =
     user_command (\<lambda>e. e) (repo_update_is_verified (ue_fault env ''UpdateUserIsVerified'') (ue_now env) i verified)"

definition svc_update_password :: "user_env \<Rightarrow> int \<Rightarrow> string \<Rightarrow> (go_error, user_row, user_world) op" where
  "svc_update_password env i password w =
     (case ue_hash env password of
        Inl _ \<Rightarrow> user_fail ErrUserPassword w
      | Inr h \<Rightarrow> user_command (\<lambda>e. e) (repo_update_password (ue_fault env ''UpdateUserPassword'') (ue_now env) i h) w)"

section \<open>Queries\<close>

definition user_not_found :: "go_error + 'a \<Rightarrow> go_error + 'a" where
  "user_not_found = map_read_error (\<lambda>_. handle_error (Some (err_not_found_response ''User'')))"

definition svc_find_user_by_id :: "user_env \<Rightarrow> int \<Rightarrow> (go_error, user_row, user_world) op" where
  "svc_find_user_by_id env i w =
     on_user_cache (\<lambda>st.
       case Option.bind (get_from_cache (ue_cache env) (user_by_id_key i) st) value_user of
         Some u \<Rightarrow> (Inr u, st)
       | None \<Rightarrow>
           (case user_not_found (repo_find_user_by_id (ue_fault env ''GetUserByID'') i (uo_db w)) of
              Inl err \<Rightarrow> (Inl err, st)
            | Inr u \<Rightarrow> (Inr u, set_to_cache (ue_cache env) (user_by_id_key (uw_id u)) (VUser u) ttl_default st))) w"

definition svc_find_user_by_email :: "user_env \<Rightarrow> string \<Rightarrow> user_world \<Rightarrow> go_error + user_row" where
  "svc_find_user_by_email env email w =
     user_not_found (repo_find_user_by_email (ue_fault env ''GetUserByEmail'') email (uo_db w))"

definition svc_find_user_by_verification_code :: "user_env \<Rightarrow> string \<Rightarrow> user_world \<Rightarrow> go_error + user_row" where
  "svc_find_user_by_verification_code env code w =
     user_not_found (repo_find_user_by_verification_code (ue_fault env ''GetUserByVerificationCode'') code (uo_db w))"

definition user_page ::
  "user_env \<Rightarrow> string \<Rightarrow> string \<Rightarrow> find_all_request \<Rightarrow> go_error + (user_row \<times> int) list \<Rightarrow>
   user_value redis \<Rightarrow> (go_error + (user_row \<times> int) list \<times> int) \<times> user_value redis" where
  "user_page env kind operation req =
     cached_page (ue_cache env) (listing_key (''user:'' @ kind) req) value_user_page (\<lambda>(rows, n). VUserPage rows n)
       (\<lambda>_. err_failed operation)"

definition svc_find_all_users ::
  "user_env \<Rightarrow> find_all_request \<Rightarrow> (go_error, (user_row \<times> int) list \<times> int, user_world) op" where
  "svc_find_all_users env req w =
     on_user_cache (user_page env ''all'' ''find all users'' req
       (repo_find_all_users (ue_fault env ''GetUsersWithPagination'') req (uo_db w))) w"

definition svc_find_active_users ::
  "user_env \<Rightarrow> find_all_request \<Rightarrow> (go_error, (user_row \<times> int) list \<times> int, user_world) op" where
  "svc_find_active_users env req w =
     on_user_cache (user_page env ''active'' ''find active users'' req
       (repo_find_active_users (ue_fault env ''GetActiveUsersWithPagination'') req (uo_db w))) w"

definition svc_find_trashed_users ::
  "user_env \<Rightarrow> find_all_request \<Rightarrow> (go_error, (user_row \<times> int) list \<times> int, user_world) op" where
  "svc_find_trashed_users env req w =
     on_user_cache (user_page env ''trashed'' ''find trashed users'' req
       (repo_find_trashed_users (ue_fault env ''GetTrashedUsersWithPagination'') req (uo_db w))) w"

section \<open>Handlers\<close>

definition ErrGrpcUserInvalidId :: go_error where
  "ErrGrpcUserInvalidId = new_grpc_error ''Invalid user ID'' 400"

definition ErrGrpcValidateCreateUser :: go_error where
  "ErrGrpcValidateCreateUser = new_grpc_error ''Validation failed: invalid create user request'' 400"

definition is_alpha :: "string \<Rightarrow> bool" where
  "is_alpha s \<longleftrightarrow> s \<noteq> [] \<and> list_all (\<lambda>c. let n = (of_char c :: nat) in 65 \<le> n \<and> n \<le> 90 \<or> 97 \<le> n \<and> n \<le> 122) s"

text \<open>The tags of both requests: alphabetic names, a mail address, six characters, confirmed.\<close>

definition user_request_ok :: "user_env \<Rightarrow> 'x create_user_request_scheme \<Rightarrow> bool" where
  "user_request_ok env req \<longleftrightarrow>
     is_alpha (cu_firstname req) \<and> is_alpha (cu_lastname req) \<and> cu_email req \<noteq> [] \<and> ue_email_ok env (cu_email req)
     \<and> length (cu_password req) \<ge> 6 \<and> cu_confirm req = cu_password req"

definition handle_create_user :: "user_env \<Rightarrow> create_user_request \<Rightarrow> (go_error, user_row, user_world) op" where
  "handle_create_user env req =
     (if \<not> user_request_ok env req then ret (Inl ErrGrpcValidateCreateUser) else answer (svc_create_user env req))"

definition handle_update_user :: "user_env \<Rightarrow> update_user_request \<Rightarrow> (go_error, user_row, user_world) op" where
  "handle_update_user env req =
     (if cu_user req = 0 then ret (Inl ErrGrpcUserInvalidId)
      else if \<not> user_request_ok env req then ret (Inl ErrGrpcValidateCreateUser)
      else answer (svc_update_user env req))"

definition with_user_id :: "int \<Rightarrow> (go_error, 'a, user_world) op \<Rightarrow> (go_error, 'a, user_world) op" where
  "with_user_id i m = (if i = 0 then ret (Inl ErrGrpcUserInvalidId) else answer m)"

definition handle_trashed_user :: "user_env \<Rightarrow> int \<Rightarrow> (go_error, user_row, user_world) op" where
  "handle_trashed_user env i = with_user_id i (svc_trashed_user env i)"

definition handle_restore_user :: "user_env \<Rightarrow> int \<Rightarrow> (go_error, user_row, user_world) op" where
  "handle_restore_user env i = with_user_id i (svc_restore_user env i)"

definition handle_delete_user_permanent :: "user_env \<Rightarrow> int \<Rightarrow> (go_error, unit, user_world) op" where
  "handle_delete_user_permanent env i = with_user_id i (svc_delete_user_permanent env i)"

definition handle_restore_all_user :: "user_env \<Rightarrow> (go_error, unit, user_world) op" where
  "handle_restore_all_user env = answer (svc_restore_all_user env)"

definition handle_delete_all_user_permanent :: "user_env \<Rightarrow> (go_error, unit, user_world) op" where
  "handle_delete_all_user_permanent env = answer (svc_delete_all_user_permanent env)"

definition handle_update_is_verified :: "user_env \<Rightarrow> int \<Rightarrow> bool \<Rightarrow> (go_error, user_row, user_world) op" where
  "handle_update_is_verified env i verified = with_user_id i (svc_update_is_verified env i verified)"

definition handle_update_password :: "user_env \<Rightarrow> int \<Rightarrow> string \<Rightarrow> (go_error, user_row, user_world) op" where
  "handle_update_password env i password =
     (if i = 0 then ret (Inl ErrGrpcUserInvalidId)
      else if password = [] then ret (Inl ErrGrpcValidateCreateUser)
      else answer (svc_update_password env i password))"

definition handle_find_user_by_id :: "user_env \<Rightarrow> int \<Rightarrow> (go_error, user_row, user_world) op" where
  "handle_find_user_by_id env i = with_user_id i (svc_find_user_by_id env i)"

definition handle_find_user_by_email :: "user_env \<Rightarrow> string \<Rightarrow> user_world \<Rightarrow> go_error + user_row" where
  "handle_find_user_by_email env email w =
     (if email = [] then Inl ErrGrpcUserInvalidId else map_read_error to_grpc_error (svc_find_user_by_email env email w))"

definition handle_find_user_by_verification_code :: "user_env \<Rightarrow> string \<Rightarrow> user_world \<Rightarrow> go_error + user_row" where
  "handle_find_user_by_verification_code env code w =
     (if code = [] then Inl ErrGrpcUserInvalidId
      else map_read_error to_grpc_error (svc_find_user_by_verification_code env code w))"

definition handle_find_all_user ::
  "user_env \<Rightarrow> string \<Rightarrow> int \<Rightarrow> int \<Rightarrow> (go_error, user_row list \<times> page_meta, user_world) op" where
  "handle_find_all_user env = page_answer (svc_find_all_users env)"

definition handle_find_active_user ::
  "user_env \<Rightarrow> string \<Rightarrow> int \<Rightarrow> int \<Rightarrow> (go_error, user_row list \<times> page_meta, user_world) op" where
  "handle_find_active_user env = page_answer (svc_find_active_users env)"

definition handle_find_trashed_user ::
  "user_env \<Rightarrow> string \<Rightarrow> int \<Rightarrow> int \<Rightarrow> (go_error, user_row list \<times> page_meta, user_world) op" where
  "handle_find_trashed_user env = page_answer (svc_find_trashed_users env)"

end
