(* ===== verification/UserFacts.thy ===== *)
theory UserFacts
  imports UserService Staleness
begin

text \<open>
  What the user service guarantees: users and addresses are unique, an account stays what
  it was registered as until it is updated itself, stored passwords are hashes as long as
  nobody uses \<open>UpdateUser\<close>, and a trashed user is forgotten by the cache in bounded time.
\<close>

section \<open>Steps of the service\<close>

definition user_env_at :: "int \<Rightarrow> user_env \<Rightarrow> bool" where
  "user_env_at now env \<longleftrightarrow> ue_now env = now \<and> rand_ok (ue_cache env)"

text \<open>
  \<open>H p h\<close>: some call of bcrypt makes the hash \<open>h\<close> of \<open>p\<close>. Every call draws its own salt, so the
  calls are functions of their own and a password has many hashes. \<open>T\<close> is the set of the users that updates,
  password changes and deletions may aim at, \<open>b\<close> whether \<open>UpdateUser\<close> is used at all.
\<close>

definition hashing :: "(string \<Rightarrow> string \<Rightarrow> bool) \<Rightarrow> user_env \<Rightarrow> bool" where
  "hashing H env \<longleftrightarrow> (\<forall>p h. ue_hash env p = Inr h \<longrightarrow> H p h)"

inductive user_step :: "(string \<Rightarrow> string \<Rightarrow> bool) \<Rightarrow> int set \<Rightarrow> bool \<Rightarrow> int \<Rightarrow> user_world \<Rightarrow> user_world \<Rightarrow> bool"
  for H T b where
  "user_env_at now env \<Longrightarrow> hashing H env \<Longrightarrow> user_step H T b now w (snd (svc_create_user env req w))"
| "user_env_at now env \<Longrightarrow> b \<Longrightarrow> go_int32 (cu_user req') \<in> T \<Longrightarrow> user_step H T b now w (snd (svc_update_user env req' w))"
| "user_env_at now env \<Longrightarrow> go_int32 i \<in> T \<Longrightarrow> user_step H T b now w (snd (svc_trashed_user env i w))"
| "user_env_at now env \<Longrightarrow> user_step H T b now w (snd (svc_restore_user env i w))"
| "user_env_at now env \<Longrightarrow> user_step H T b now w (snd (svc_delete_user_permanent env i w))"
| "user_env_at now env \<Longrightarrow> user_step H T b now w (snd (svc_restore_all_user env w))"
| "user_env_at now env \<Longrightarrow> user_step H T b now w (snd (svc_delete_all_user_permanent env w))"
| "user_env_at now env \<Longrightarrow> user_step H T b now w (snd (svc_update_is_verified env i verified w))"
| "user_env_at now env \<Longrightarrow> hashing H env \<Longrightarrow> go_int32 i \<in> T \<Longrightarrow>
     user_step H T b now w (snd (svc_update_password env i password w))"
| "user_env_at now env \<Longrightarrow> user_step H T b now w (snd (svc_find_user_by_id env i w))"
| "user_env_at now env \<Longrightarrow> user_step H T b now w (snd (svc_find_all_users env page w))"
| "user_env_at now env \<Longrightarrow> user_step H T b now w (snd (svc_find_active_users env page w))"
| "user_env_at now env \<Longrightarrow> user_step H T b now w (snd (svc_find_trashed_users env page w))"

definition empty_user_world :: user_world where
  "empty_user_world = \<lparr>uo_db = \<lparr>user_rows = [], user_seq = 1\<rparr>, uo_cache = Map.empty\<rparr>"

lemma user_command_frame [simp]:
  "uo_cache (snd (user_command f m w)) = uo_cache w" "uo_db (snd (user_command f m w)) = snd (m (uo_db w))"
  by (simp_all add: user_command_def map_error_def on_user_db_def zoom_def split: prod.splits sum.splits)

lemma user_fail_frame [simp]: "snd (user_fail e w) = w"
  by (simp add: user_fail_def ret_def)

lemma on_user_cache_frame [simp]:
  "uo_cache (snd (on_user_cache m w)) = snd (m (uo_cache w))" "uo_db (snd (on_user_cache m w)) = uo_db w"
  by (simp_all add: on_user_cache_def zoom_def split: prod.splits)

lemmas user_command_defs =
  svc_trashed_user_def svc_restore_user_def svc_delete_user_permanent_def svc_restore_all_user_def
  svc_delete_all_user_permanent_def svc_update_is_verified_def

lemmas user_repo_defs =
  repo_create_user_def repo_update_user_def repo_trashed_user_def repo_restore_user_def
  repo_delete_user_permanent_def repo_restore_all_user_def repo_delete_all_user_permanent_def
  repo_update_is_verified_def repo_update_password_def

lemmas user_query_defs = svc_find_user_by_id_def svc_find_all_users_def svc_find_active_users_def svc_find_trashed_users_def

text \<open>
  A step keeps what the statements it may execute keep: creation with a hash of \<open>H\<close>, update
  and deletion of a user in \<open>T\<close>, a new password that is a hash, and the others.
\<close>

definition user_sql_keeps ::
  "(string \<Rightarrow> string \<Rightarrow> bool) \<Rightarrow> int set \<Rightarrow> bool \<Rightarrow> (user_db \<Rightarrow> bool) \<Rightarrow> bool" where
  "user_sql_keeps H T b P \<longleftrightarrow>
     (\<forall>now fn ln email p h code. H p h \<longrightarrow> keeps P (create_user_sql now fn ln email h code False))
     \<and> (b \<longrightarrow> (\<forall>now i fn ln email p. i \<in> T \<longrightarrow> keeps P (update_user_sql now i fn ln email p)))
     \<and> (\<forall>now i. i \<in> T \<longrightarrow> keeps P (trash_user_sql now i))
     \<and> (\<forall>now i. keeps P (restore_user_sql now i)) \<and> keeps P restore_all_users_sql
     \<and> (\<forall>i. keeps P (delete_user_permanently_sql i)) \<and> keeps P delete_all_permanent_users_sql
     \<and> (\<forall>now i v. keeps P (update_user_is_verified_sql now i v))
     \<and> (\<forall>now i p h. i \<in> T \<longrightarrow> H p h \<longrightarrow> keeps P (update_user_password_sql now i h))"

lemma user_step_keeps:
  assumes "user_step H T b now w w'" and sql: "user_sql_keeps H T b P" and ok: "P (uo_db w)"
  shows "P (uo_db w')"
proof -
  note keep = keepsD [where P = P, OF _ ok] keeps_map_error keeps_with_fault
  note sql' = sql [unfolded user_sql_keeps_def]
  have made: "ue_hash env p = Inr h \<Longrightarrow> hashing H env \<Longrightarrow> keeps P (create_user_sql now fn ln email h code False)"
    "ue_hash env p = Inr h \<Longrightarrow> hashing H env \<Longrightarrow> i \<in> T \<Longrightarrow> keeps P (update_user_password_sql now i h)"
    for env p h now fn ln email code i
    using sql' by (simp_all add: hashing_def) metis+
  show ?thesis using assms(1)
    by cases (use sql' ok in \<open>auto simp: user_command_defs user_query_defs svc_create_user_def svc_update_user_def
        svc_update_password_def user_repo_defs Let_def intro!: keep intro: made split: sum.splits\<close>)
qed

section \<open>The table\<close>

definition user_table_ok :: "user_db \<Rightarrow> bool" where
  "user_table_ok db \<longleftrightarrow>
     distinct (map uw_id (user_rows db)) \<and> distinct (map uw_email (user_rows db))
     \<and> (\<forall>u \<in> set (user_rows db). uw_id u < user_seq db)"

lemma keeps_returning:
  assumes "\<And>db. P db \<Longrightarrow> \<exists>u \<in> set (user_rows db). p u \<and> refuse (user_rows db) u = None \<Longrightarrow>
    P (db\<lparr>user_rows := update_where p f (user_rows db)\<rparr>)"
  shows "keeps P (on_users (\<lambda>rows. update_returning p (refuse rows) f rows))"
proof (rule keepsI)
  fix db assume P: "P db"
  show "P (snd (on_users (\<lambda>rows. update_returning p (refuse rows) f rows) db))"
  proof -
    let ?rows = "snd (update_returning p (refuse (user_rows db)) f (user_rows db))"
    have "db\<lparr>user_rows := user_rows db\<rparr> = db" by (cases db) simp
    then have "P (db\<lparr>user_rows := ?rows\<rparr>)"
      using update_returning_snd [of p "refuse (user_rows db)" f "user_rows db"] assms [OF P] P
      by (elim disjE conjE) simp_all
    then show ?thesis by (simp add: on_users_def zoom_def case_prod_unfold)
  qed
qed

lemma user_fresh: "user_table_ok db \<Longrightarrow> user_seq db \<notin> uw_id ` set (user_rows db)"
  by (force simp: user_table_ok_def)

lemma user_update_ok:
  assumes "user_table_ok db" "\<And>u. uw_id (f u) = uw_id u" "distinct (map uw_email (update_where p f (user_rows db)))"
  shows "user_table_ok (db\<lparr>user_rows := update_where p f (user_rows db)\<rparr>)"
proof -
  have "map uw_id (update_where p f (user_rows db)) = map uw_id (user_rows db)"
    using assms(2) by (rule map_update_where)
  moreover have "uw_id u < user_seq db" if u: "u \<in> set (update_where p f (user_rows db))" for u
    using in_update_where [OF u] assms(1,2) by (auto simp: user_table_ok_def)
  ultimately show ?thesis using assms(1,3) by (simp add: user_table_ok_def)
qed

lemma user_same_ok:
  assumes "user_table_ok db" "\<And>u. uw_id (f u) = uw_id u" "\<And>u. uw_email (f u) = uw_email u"
  shows "user_table_ok (db\<lparr>user_rows := update_where p f (user_rows db)\<rparr>)"
  using assms by (intro user_update_ok) (simp_all add: map_update_where user_table_ok_def)

lemma create_user_keeps: "keeps user_table_ok (create_user_sql now fn ln email p code v)"
proof (rule keepsI)
  fix db assume ok: "user_table_ok db"
  have "uw_id u < user_seq db + 1" if "u \<in> set (user_rows db)" for u using ok that by (fastforce simp: user_table_ok_def)
  then show "user_table_ok (snd (create_user_sql now fn ln email p code v db))" using ok user_fresh [OF ok]
    by (simp add: create_user_sql_def Let_def user_table_ok_def)
qed

lemma update_user_ok:
  assumes "user_table_ok db" "\<forall>u\<in>set (user_rows db). uw_id u \<noteq> i \<longrightarrow> uw_email u \<noteq> email"
  shows "user_table_ok (db\<lparr>user_rows := update_where (live_user i) (\<lambda>u. u\<lparr>uw_firstname := fn, uw_lastname := ln,
    uw_email := email, uw_password := p, uw_updated := now\<rparr>) (user_rows db)\<rparr>)"
proof (rule user_update_ok)
  show "distinct (map uw_email (update_where (live_user i) (\<lambda>u. u\<lparr>uw_firstname := fn, uw_lastname := ln,
      uw_email := email, uw_password := p, uw_updated := now\<rparr>) (user_rows db)))"
    using assms by (intro distinct_update_key [where k = uw_id and i = i and v = email]) (auto simp: user_table_ok_def live_user_def)
qed (use assms in simp_all)

lemma update_user_keeps:
  assumes "\<And>db. P db \<Longrightarrow> \<forall>u\<in>set (user_rows db). uw_id u \<noteq> i \<longrightarrow> uw_email u \<noteq> email \<Longrightarrow>
    P (db\<lparr>user_rows := update_where (live_user i) (\<lambda>u. u\<lparr>uw_firstname := fn, uw_lastname := ln,
      uw_email := email, uw_password := p, uw_updated := now\<rparr>) (user_rows db)\<rparr>)"
  shows "keeps P (update_user_sql now i fn ln email p)"
  unfolding update_user_sql_def
proof (rule keeps_returning, elim bexE conjE)
  fix db u assume "P db" "(if \<not> fits_user [fn, ln, email, p] then Some value_too_long
      else if \<exists>u\<in>set (user_rows db). uw_id u \<noteq> i \<and> uw_email u = email then Some unique_violation else None) = None"
  then show "P (db\<lparr>user_rows := update_where (live_user i) (\<lambda>u. u\<lparr>uw_firstname := fn, uw_lastname := ln,
      uw_email := email, uw_password := p, uw_updated := now\<rparr>) (user_rows db)\<rparr>)"
    by (intro assms) (auto split: if_splits)
qed

lemma user_table_keeps: "user_sql_keeps H T b user_table_ok"
proof -
  have filter: "user_table_ok (db\<lparr>user_rows := filter p (user_rows db)\<rparr>)" if "user_table_ok db" for db p
    using that by (auto simp: user_table_ok_def distinct_map_filter)
  have "keeps user_table_ok restore_all_users_sql" "keeps user_table_ok delete_all_permanent_users_sql"
    "keeps user_table_ok (delete_user_permanently_sql i)" for i
    using filter user_same_ok
    by (auto simp: keeps_def restore_all_users_sql_def delete_all_permanent_users_sql_def
        delete_user_permanently_sql_def on_users_def zoom_def simp del: de_Morgan_conj)
  moreover have "keeps user_table_ok (trash_user_sql now i)" "keeps user_table_ok (restore_user_sql now i)"
    "keeps user_table_ok (update_user_is_verified_sql now i v)" "keeps user_table_ok (update_user_password_sql now i h)" for now i v h
    unfolding trash_user_sql_def restore_user_sql_def update_user_is_verified_sql_def update_user_password_sql_def
    by (rule keeps_returning, rule user_same_ok, assumption, simp, simp)+
  moreover have "keeps user_table_ok (update_user_sql now i fn ln email p)" for now i fn ln email p
    by (rule update_user_keeps) (rule update_user_ok)
  ultimately show ?thesis using create_user_keeps by (simp add: user_sql_keeps_def)
qed

lemma user_run_keeps:
  assumes "timed_run (user_step H T b) t w t' w'" "user_sql_keeps H T b P" "P (uo_db w)"
  shows "P (uo_db w')"
  using assms by (induction rule: timed_run.induct) (auto intro: user_step_keeps)

text \<open>Users and addresses are unique whatever the service does.\<close>

lemma user_table_stays_ok: "timed_run (user_step H T b) t empty_user_world t' w \<Longrightarrow> user_table_ok (uo_db w)"
  by (erule user_run_keeps [OF _ user_table_keeps]) (simp add: empty_user_world_def user_table_ok_def)

section \<open>Accounts\<close>

definition account :: "int \<Rightarrow> string \<Rightarrow> string \<Rightarrow> user_db \<Rightarrow> bool" where
  "account i email password db \<longleftrightarrow>
     user_table_ok db \<and> (\<exists>u \<in> set (user_rows db). live_user i u \<and> uw_email u = email \<and> uw_password u = password)"

lemma account_update:
  assumes "account i email password db" "user_table_ok (db\<lparr>user_rows := update_where p f (user_rows db)\<rparr>)"
    "\<And>u. live_user i u \<Longrightarrow> p u \<Longrightarrow> live_user i (f u) \<and> uw_email (f u) = uw_email u \<and> uw_password (f u) = uw_password u"
  shows "account i email password (db\<lparr>user_rows := update_where p f (user_rows db)\<rparr>)"
proof -
  obtain u where u: "u \<in> set (user_rows db)" "live_user i u" "uw_email u = email" "uw_password u = password"
    using assms(1) by (auto simp: account_def)
  then show ?thesis using update_where_mem [OF u(1), of p f] assms(2,3) by (auto simp: account_def split: if_splits)
qed

lemma account_same:
  assumes "account i email password db" "\<And>u. uw_id (f u) = uw_id u" "\<And>u. uw_email (f u) = uw_email u"
    "\<And>u. live_user i u \<Longrightarrow> p u \<Longrightarrow> user_live (f u) \<and> uw_password (f u) = uw_password u"
  shows "account i email password (db\<lparr>user_rows := update_where p f (user_rows db)\<rparr>)"
proof (rule account_update [OF assms(1)])
  show "user_table_ok (db\<lparr>user_rows := update_where p f (user_rows db)\<rparr>)"
    using assms(1-3) by (intro user_same_ok) (simp_all add: account_def)
qed (use assms(2-4) in \<open>simp add: live_user_def\<close>)

lemma account_keeps: "user_sql_keeps H (- {i}) b (account i email password)"
proof -
  have filter: "account i email password (db\<lparr>user_rows := filter p (user_rows db)\<rparr>)"
    if "account i email password db" "\<And>u. live_user i u \<Longrightarrow> p u" for db p
    using that by (auto simp: account_def user_table_ok_def distinct_map_filter)
  have all: "keeps (account i email password) restore_all_users_sql" "keeps (account i email password) delete_all_permanent_users_sql"
    "keeps (account i email password) (delete_user_permanently_sql k)" for k
    unfolding keeps_def restore_all_users_sql_def delete_all_permanent_users_sql_def delete_user_permanently_sql_def
      on_users_def zoom_def
    by (auto simp: live_user_def simp del: de_Morgan_conj intro!: filter account_same)
  have create: "keeps (account i email password) (create_user_sql now fn ln e h code v)" for now fn ln e h code v
  proof (rule keepsI)
    fix db assume acc: "account i email password db"
    then have "user_table_ok (snd (create_user_sql now fn ln e h code v db))"
      using keepsD [OF create_user_keeps] by (simp add: account_def)
    then show "account i email password (snd (create_user_sql now fn ln e h code v db))" using acc
      by (auto simp: account_def create_user_sql_def Let_def split: if_splits)
  qed
  have update: "keeps (account i email password) (update_user_sql now k fn ln e h)" if "k \<noteq> i" for now k fn ln e h
  proof (rule update_user_keeps, rule account_update, assumption)
    show "user_table_ok (db\<lparr>user_rows := update_where (live_user k) (\<lambda>u. u\<lparr>uw_firstname := fn, uw_lastname := ln,
        uw_email := e, uw_password := h, uw_updated := now\<rparr>) (user_rows db)\<rparr>)"
      if "account i email password db" "\<forall>u\<in>set (user_rows db). uw_id u \<noteq> k \<longrightarrow> uw_email u \<noteq> e" for db
      using that by (intro update_user_ok) (simp_all add: account_def)
  qed (use that in \<open>simp add: live_user_def\<close>)
  have rest: "keeps (account i email password) (restore_user_sql now k)"
    "keeps (account i email password) (update_user_is_verified_sql now k v)"
    "k \<noteq> i \<Longrightarrow> keeps (account i email password) (trash_user_sql now k)"
    "k \<noteq> i \<Longrightarrow> keeps (account i email password) (update_user_password_sql now k h)" for now k v h
    unfolding trash_user_sql_def restore_user_sql_def update_user_is_verified_sql_def update_user_password_sql_def
    by (rule keeps_returning, rule account_same, assumption, simp, simp, simp add: live_user_def user_live_def)+
  show ?thesis using all create update rest by (simp add: user_sql_keeps_def)
qed

text \<open>The row that is created, and the row a lookup by address finds.\<close>

lemma create_user_row:
  "create_user_sql now fn ln email p code v db = (Inr u, db') \<Longrightarrow>
   user_rows db' = user_rows db @ [u] \<and> uw_email u = email \<and> uw_password u = p \<and> user_live u"
  by (auto simp: create_user_sql_def Let_def user_live_def split: if_splits)

lemma create_user_account:
  assumes "svc_create_user env req w = (Inr u, w1)" "user_table_ok (uo_db w)"
  shows "\<exists>h. ue_hash env (cu_password req) = Inr h \<and> account (uw_id u) (cu_email req) h (uo_db w1)"
proof -
  obtain h where h: "ue_hash env (cu_password req) = Inr h"
    and run: "user_command (\<lambda>e. e) (repo_create_user (ue_fault env ''CreateUser'') (ue_now env) (ue_uuid env)
      (req\<lparr>cu_password := h\<rparr>)) w = (Inr u, w1)"
    using assms(1) by (auto simp: svc_create_user_def Let_def user_fail_def ret_def split: sum.splits if_splits)
  then have "create_user_sql (ue_now env) (cu_firstname req) (cu_lastname req) (cu_email req) h (ue_uuid env) False (uo_db w)
      = (Inr u, uo_db w1)"
    by (auto simp: user_command_def map_error_def on_user_db_def zoom_def repo_create_user_def with_fault_def
        split: prod.splits sum.splits fault.splits)
  then have "account (uw_id u) (cu_email req) h (uo_db w1)"
    using keepsD [OF create_user_keeps assms(2), of "ue_now env" "cu_firstname req" "cu_lastname req" "cu_email req" h "ue_uuid env" False]
    by (auto simp: account_def live_user_def dest!: create_user_row)
  with h show ?thesis by blast
qed

lemma account_found:
  assumes "account i email password db" "get_user_by_email_sql email db = Some u"
  shows "uw_id u = i \<and> uw_password u = password"
proof -
  obtain v where v: "v \<in> set (user_rows db)" "uw_email v = email" "uw_id v = i" "uw_password v = password"
    and dist: "distinct (map uw_email (user_rows db))"
    using assms(1) by (auto simp: account_def live_user_def user_table_ok_def)
  have "u \<in> set (user_rows db)" "uw_email u = email"
    using assms(2) by (auto simp: get_user_by_email_sql_def dest: find_Some_mem)
  then have "u = v" using v dist by (metis distinct_map inj_onD)
  with v show ?thesis by simp
qed

section \<open>Stored passwords\<close>

definition passwords_hashed :: "(string \<Rightarrow> string \<Rightarrow> bool) \<Rightarrow> user_db \<Rightarrow> bool" where
  "passwords_hashed H db \<longleftrightarrow> (\<forall>u \<in> set (user_rows db). \<exists>p. H p (uw_password u))"

lemma passwords_keep: "user_sql_keeps H T False (passwords_hashed H)"
proof -
  have update: "keeps (passwords_hashed H) (on_users (\<lambda>rows. update_returning p (refuse rows) f rows))"
    if "\<And>u. uw_password (f u) = uw_password u" for p refuse f
    using that by (intro keeps_returning) (auto simp: passwords_hashed_def dest!: in_update_where)
  have "keeps (passwords_hashed H) (update_user_password_sql now i h)" if "H p h" for now i p h
    unfolding update_user_password_sql_def
    by (rule keeps_returning) (use that in \<open>auto simp: passwords_hashed_def dest!: in_update_where\<close>)
  moreover have "keeps (passwords_hashed H) (create_user_sql now fn ln e h code v)" if "H p h" for now fn ln e p h code v
    using that by (auto simp: keeps_def passwords_hashed_def create_user_sql_def Let_def)
  moreover have "keeps (passwords_hashed H) restore_all_users_sql" "keeps (passwords_hashed H) delete_all_permanent_users_sql"
    "keeps (passwords_hashed H) (delete_user_permanently_sql i)" for i
    by (auto simp: keeps_def passwords_hashed_def restore_all_users_sql_def delete_all_permanent_users_sql_def
        delete_user_permanently_sql_def on_users_def zoom_def dest!: in_update_where)
  ultimately show ?thesis
    by (simp add: user_sql_keeps_def update trash_user_sql_def restore_user_sql_def update_user_is_verified_sql_def)
qed

theorem stored_passwords_are_hashes:
  "timed_run (user_step H T False) t empty_user_world t' w \<Longrightarrow> passwords_hashed H (uo_db w)"
  by (erule user_run_keeps [OF _ passwords_keep]) (simp add: empty_user_world_def passwords_hashed_def)

section \<open>Users the cache still answers\<close>

interpretation user_cache: forgetting_cache "user_step H T b" uo_cache "\<lambda>i w. get_user_by_id_sql i (uo_db w) \<noteq> None"
    "\<lambda>i v. value_user v \<noteq> None" user_by_id_key for H T b
proof
  fix now w w' assume st: "user_step H T b now w w'" and short: "short_lived now (uo_cache w)"
  show "short_lived now (uo_cache w')" using st
    by cases (use short in \<open>auto simp: user_command_defs svc_create_user_def svc_update_user_def svc_update_password_def
        user_query_defs user_page_def user_env_at_def ue_now_def Let_def split: option.splits sum.splits\<close>)
next
  fix now w w' T' and i :: int assume st: "user_step H T b now w w'" and gone: "\<not> get_user_by_id_sql i (uo_db w) \<noteq> None"
    "gone_by T' (\<lambda>v. value_user v \<noteq> None) (user_by_id_key i) (uo_cache w)"
  have other: "uw_id u \<noteq> i" if "repo_find_user_by_id fl k (uo_db w) = Inr u" for fl k u
    using that gone(1)
    by (auto simp: repo_find_user_by_id_def repo_lookup_def map_read_error_def read_fault_def row_or_none_def
        get_user_by_id_sql_def live_user_def find_None_iff split: sum.splits fault.splits option.splits dest!: find_Some_mem)
  show "gone_by T' (\<lambda>v. value_user v \<noteq> None) (user_by_id_key i) (uo_cache w')" using st
    by cases (use gone(2) other in \<open>auto simp: user_command_defs svc_create_user_def svc_update_user_def svc_update_password_def
        user_query_defs user_page_def Let_def user_by_id_key_def listing_key_def user_not_found_def map_read_error_def
        intro!: gone_by_set gone_by_page split: option.splits sum.splits\<close>)
qed

text \<open>A user that is gone from the table is answered by id for at most five and a half minutes.\<close>

theorem trashed_user_forgotten:
  assumes "timed_run (user_step H T b) t0 empty_user_world t w" "get_user_by_id_sql i (uo_db w) = None"
    and "timed_run (\<lambda>now w w'. user_step H T b now w w' \<and> get_user_by_id_sql i (uo_db w') = None) t w (ue_now env) w'"
    and "t + stale_bound \<le> ue_now env" "fits_int32 i"
  shows "isl (fst (svc_find_user_by_id env i w'))"
proof -
  have none: "get_user_by_id_sql i (uo_db w') = None"
    using assms(3,2) by (induction rule: timed_run.induct) auto
  have "value_user v = None" if "get_from_cache (ue_cache env) (user_by_id_key i) (uo_cache w') = Some v" for v
    using user_cache.forgotten [of H T b t0 empty_user_world t w i "ue_cache env" w' v] assms that
    by (simp add: empty_user_world_def ue_now_def)
  then have miss: "Option.bind (get_from_cache (ue_cache env) (user_by_id_key i) (uo_cache w')) value_user = None"
    by (cases "get_from_cache (ue_cache env) (user_by_id_key i) (uo_cache w')") simp_all
  show ?thesis using none assms(5)
    by (simp add: svc_find_user_by_id_def on_user_cache_def zoom_def miss repo_find_user_by_id_def repo_lookup_def
        map_read_error_def read_fault_def row_or_none_def user_not_found_def split: fault.splits prod.splits)
qed

end
