(* ===== verification/Accounts.thy ===== *)
theory Accounts
  imports AuthSamples UserFacts
begin

text \<open>
  The user service behind the authentication service: what the adapter of
  \<open>pkg/adapter/user.go\<close> gets from the handlers, and the life of an account from its
  registration to a login.
\<close>

definition user_request_of :: "register_request \<Rightarrow> create_user_request" where
  "user_request_of req =
     \<lparr>cu_firstname = rr_firstname req, cu_lastname = rr_lastname req, cu_email = rr_email req,
      cu_password = rr_password req, cu_confirm = rr_confirm req\<rparr>"

definition auth_user_of :: "user_row \<Rightarrow> auth_user" where
  "auth_user_of u =
     \<lparr>us_id = uw_id u, us_firstname = uw_firstname u, us_lastname = uw_lastname u, us_email = uw_email u,
      us_password = uw_password u\<rparr>"

text \<open>The lookup by address as the adapter sees it.\<close>

definition served_by_email :: "user_env \<Rightarrow> user_world \<Rightarrow> string \<Rightarrow> go_error + auth_user option" where
  "served_by_email env w email =
     (case handle_find_user_by_email env email w of Inl err \<Rightarrow> Inl err | Inr u \<Rightarrow> Inr (Some (auth_user_of u)))"

lemma answered: "answer m s = (Inr x, s') \<Longrightarrow> m s = (Inr x, s')"
  by (auto simp: answer_def map_error_def split: prod.splits sum.splits)

lemma account_served:
  assumes "account i email h (uo_db w)" "ue_fault env ''GetUserByEmail'' = Deliver" "email \<noteq> []"
  shows "\<exists>u. served_by_email env w email = Inr (Some (auth_user_of u)) \<and> uw_id u = i \<and> uw_password u = h"
proof -
  have "get_user_by_email_sql email (uo_db w) \<noteq> None"
    using assms(1) by (auto simp: account_def get_user_by_email_sql_def live_user_def find_None_iff)
  then obtain u where u: "get_user_by_email_sql email (uo_db w) = Some u" by blast
  then show ?thesis using account_found [OF assms(1) u] assms(2,3)
    by (auto simp: served_by_email_def handle_find_user_by_email_def svc_find_user_by_email_def user_not_found_def
        map_read_error_def repo_find_user_by_email_def repo_lookup_def read_fault_def row_or_none_def)
qed

text \<open>
  C39: an account created by the user service, whatever other accounts do before and
  after, is found by the authentication service when the lookup is delivered, and, when
  the address is not locked, accepts the password it was registered with, whatever salt
  bcrypt drew, and issues tokens for its id
\<close>

theorem registered_user_logs_in:
  assumes "timed_run (user_step H UNIV True) t0 empty_user_world t w" "user_env_at t env" "hashing H env"
    and "handle_create_user env (user_request_of req) w = (Inr u, w1)"
    and "timed_run (user_step H (- {uw_id u}) True) t w1 t' w'"
    and "ae_user_by_email aenv = served_by_email env' w'" "ue_fault env' ''GetUserByEmail'' = Deliver"
    and "\<forall>p h. H p h \<longrightarrow> ae_compare aenv h p" "\<not> is_account_locked aenv (rr_email req) aw"
  shows "svc_login aenv (rr_email req) (rr_password req) aw
    = issue_tokens aenv (uw_id u) (\<lambda>token refresh aw'. (Inr (token, refresh),
        aw'\<lparr>aw_redis := reset_failed_login aenv (rr_email req) (aw_redis aw')\<rparr>)) aw"
proof -
  have ok: "user_request_ok env (user_request_of req)" and created: "svc_create_user env (user_request_of req) w = (Inr u, w1)"
    using assms(4) by (auto simp: handle_create_user_def ret_def dest: answered split: if_splits)
  obtain h where h: "H (rr_password req) h" and acc: "account (uw_id u) (rr_email req) h (uo_db w1)"
    using create_user_account [OF created user_table_stays_ok [OF assms(1)]] assms(3) by (auto simp: user_request_of_def hashing_def)
  have "account (uw_id u) (rr_email req) h (uo_db w')" by (rule user_run_keeps [OF assms(5) account_keeps acc])
  moreover have "rr_email req \<noteq> []" using ok by (simp add: user_request_ok_def user_request_of_def)
  ultimately obtain v where "served_by_email env' w' (rr_email req) = Inr (Some (auth_user_of v))" "uw_id v = uw_id u" "uw_password v = h"
    using account_served [OF _ assms(7)] by blast
  then have "user_find_by_email_and_verify aenv (rr_email req) = Inr (auth_user_of v)" "us_id (auth_user_of v) = uw_id u"
    "ae_compare aenv (us_password (auth_user_of v)) (rr_password req)"
    using assms(6,8) h by (simp_all add: user_find_by_email_and_verify_def user_find_by_email_def adapted_def auth_user_of_def)
  then show ?thesis using assms(9)
    by (simp add: svc_login_def issue_tokens_def)
qed

section \<open>Runs\<close>

text \<open>A hash with the salt before the mark and the password after it.\<close>

definition salted_hash :: "char \<Rightarrow> string \<Rightarrow> go_error + string" where
  "salted_hash salt p = Inr (salt # CHR ''#'' # p)"

definition salted :: "string \<Rightarrow> string \<Rightarrow> bool" where
  "salted p h \<longleftrightarrow> tl h = CHR ''#'' # p"

definition sample_user_env :: "int \<Rightarrow> user_env" where
  "sample_user_env now =
     \<lparr>ue_cache = \<lparr>ce_now = now, ce_rand = (\<lambda>n. 0), ce_get_ok = True, ce_set_ok = True, ce_del_ok = True\<rparr>,
      ue_fault = (\<lambda>_. Deliver), ue_hash = salted_hash (if now = 0 then CHR ''a'' else CHR ''b''), ue_uuid = ''code'', ue_email_ok = (\<lambda>_. True)\<rparr>"

definition sample_register :: register_request where
  "sample_register = \<lparr>rr_firstname = ''Ann'', rr_lastname = ''Bee'', rr_email = ''a@b'', rr_password = ''secret'',
     rr_confirm = ''secret''\<rparr>"

definition ann_world :: user_world where
  "ann_world = snd (handle_create_user (sample_user_env 0) (user_request_of sample_register) empty_user_world)"

definition ann :: user_row where
  "ann = hd (user_rows (uo_db ann_world))"

definition account_auth_env :: "user_world \<Rightarrow> auth_env" where
  "account_auth_env w = (sample_auth_env minute)\<lparr>ae_user_by_email := served_by_email (sample_user_env minute) w,
     ae_compare := (\<lambda>h p. tl h = CHR ''#'' # p)\<rparr>"

lemma sample_user_env_at: "user_env_at now (sample_user_env now)" "hashing salted (sample_user_env now)"
  "rand_ok (ue_cache (sample_user_env now))" "ue_fault (sample_user_env now) c = Deliver"
  by (simp_all add: user_env_at_def sample_user_env_def ue_now_def rand_ok_def hashing_def salted_hash_def salted_def)

lemma ann_created: "fst (handle_create_user (sample_user_env 0) (user_request_of sample_register) empty_user_world) = Inr ann"
  "uw_id ann = 1"
  by code_simp+

theorem registered_user_logs_in_witness:
  "fst (svc_login (account_auth_env ann_world) ''a@b'' ''secret'' empty_auth_world)
   = Inr (sample_sign 43260 ''1'' ''access'', sample_sign 43260 ''1'' ''refresh'')"
proof -
  have "svc_login (account_auth_env ann_world) (rr_email sample_register) (rr_password sample_register) empty_auth_world
      = issue_tokens (account_auth_env ann_world) (uw_id ann) (\<lambda>token refresh aw'. (Inr (token, refresh),
          aw'\<lparr>aw_redis := reset_failed_login (account_auth_env ann_world) (rr_email sample_register) (aw_redis aw')\<rparr>)) empty_auth_world"
  proof (rule registered_user_logs_in)
    show "timed_run (user_step salted UNIV True) 0 empty_user_world 0 empty_user_world" by (rule run_nil)
    show "handle_create_user (sample_user_env 0) (user_request_of sample_register) empty_user_world = (Inr ann, ann_world)"
      using ann_created(1) by (simp add: ann_world_def prod_eq_iff)
    show "timed_run (user_step salted (- {uw_id ann}) True) 0 ann_world 0 ann_world" by (rule run_nil)
    show "ae_user_by_email (account_auth_env ann_world) = served_by_email (sample_user_env minute) ann_world"
      by (simp add: account_auth_env_def)
    show "\<forall>p h. salted p h \<longrightarrow> ae_compare (account_auth_env ann_world) h p"
      by (simp add: account_auth_env_def salted_def)
    show "\<not> is_account_locked (account_auth_env ann_world) (rr_email sample_register) empty_auth_world" by code_simp
  qed (rule sample_user_env_at)+
  moreover have "fst (issue_tokens (account_auth_env ann_world) 1 (\<lambda>token refresh aw'. (Inr (token, refresh),
      aw'\<lparr>aw_redis := reset_failed_login (account_auth_env ann_world) ''a@b'' (aw_redis aw')\<rparr>)) empty_auth_world)
    = Inr (sample_sign 43260 ''1'' ''access'', sample_sign 43260 ''1'' ''refresh'')"
    by code_simp
  ultimately show ?thesis by (simp add: ann_created(2) sample_register_def)
qed

section \<open>What the code leaves open\<close>

text \<open>After an update the table holds the password itself, and the user cannot log in.\<close>

definition updated_world :: user_world where
  "updated_world = snd (handle_update_user (sample_user_env 0)
     \<lparr>cu_firstname = ''Ann'', cu_lastname = ''Cee'', cu_email = ''a@b'', cu_password = ''secret'', cu_confirm = ''secret'',
      cu_user = 1\<rparr> ann_world)"

lemma updated_password_is_plain:
  "map uw_password (user_rows (uo_db ann_world)) = [''a#secret'']"
  "map uw_password (user_rows (uo_db updated_world)) = [''secret'']"
  by code_simp+

lemma updated_user_locked_out: "isl (fst (svc_login (account_auth_env updated_world) ''a@b'' ''secret'' empty_auth_world))"
  by code_simp

text \<open>
  A trashed user is in the listing of the active ones, keeps the address from being
  registered again, and still owns a verification code that is accepted.
\<close>

definition trashed_ann :: user_world where
  "trashed_ann = snd (handle_trashed_user (sample_user_env 0) 1 ann_world)"

lemma trashed_user_is_active:
  "map_sum id (map uw_id \<circ> fst) (fst (handle_find_active_user (sample_user_env 0) [] 1 10 trashed_ann)) = Inr [1]"
  "map_sum id (map uw_id \<circ> fst) (fst (handle_find_active_user (sample_user_env 0) [] 1 10 ann_world)) = Inr []"
  by code_simp+

lemma trashed_address_refused:
  "map_sum id uw_id (fst (svc_create_user (sample_user_env 0) (user_request_of sample_register) trashed_ann))
   = Inl (handle_error (Some (with_internal (new_conflict_error ''email already exists'') unique_violation)))"
  by code_simp

lemma trashed_code_accepted:
  "map_sum id uw_id (handle_find_user_by_verification_code (sample_user_env 0) ''code'' trashed_ann) = Inr 1"
  by code_simp

text \<open>Any error of the first lookup of an update is answered as an absent user.\<close>

lemma update_hides_errors:
  "let env = (sample_user_env 0)\<lparr>ue_fault := (\<lambda>c. if c = ''GetUserByID'' then Refuse (DbError ''57P01'') else Deliver)\<rparr>
   in fst (svc_update_user env \<lparr>cu_firstname = ''Ann'', cu_lastname = ''Cee'', cu_email = ''a@b'', cu_password = [], cu_confirm = [],
        cu_user = 1\<rparr> ann_world) = Inl (handle_error (Some (err_not_found_response ''User'')))"
  by code_simp

end
