(* ===== verification/MerchantStore.thy ===== *)
theory MerchantStore
  imports Repository
begin

text \<open>
  The tables of the merchant service (\<open>service/merchant\<close>): merchants with their API keys and
  the documents they upload, the statements of \<open>merchant.sql.go\<close> and \<open>merchant_document.sql.go\<close>
  that have callers, and the repositories. The column \<open>merchant_no\<close>, which nothing reads, is
  left out; the API key comes from \<open>crypto/rand\<close> and is a parameter.
\<close>

section \<open>Tables\<close>

record merchant_row =
  mw_id :: int
  mw_name :: string
  mw_key :: string
  mw_user :: int
  mw_status :: string
  mw_created :: int
  mw_updated :: int
  mw_deleted :: "int option"

record document_row =
  dw_id :: int
  dw_merchant :: int
  dw_type :: string
  dw_url :: string
  dw_status :: string
  dw_note :: string
  dw_uploaded :: int
  dw_created :: int
  dw_updated :: int
  dw_deleted :: "int option"

record merchant_db =
  merchant_rows :: "merchant_row list"
  merchant_seq :: int
  document_rows :: "document_row list"
  document_seq :: int

definition merchant_live :: "merchant_row \<Rightarrow> bool" where
  "merchant_live m \<longleftrightarrow> mw_deleted m = None"

definition live_merchant :: "int \<Rightarrow> merchant_row \<Rightarrow> bool" where
  "live_merchant i m \<longleftrightarrow> mw_id m = i \<and> merchant_live m"

definition document_live :: "document_row \<Rightarrow> bool" where
  "document_live d \<longleftrightarrow> dw_deleted d = None"

definition live_document :: "int \<Rightarrow> document_row \<Rightarrow> bool" where
  "live_document i d \<longleftrightarrow> dw_id d = i \<and> document_live d"

definition on_merchants :: "(merchant_row list \<Rightarrow> 'a \<times> merchant_row list) \<Rightarrow> merchant_db \<Rightarrow> 'a \<times> merchant_db" where
  "on_merchants = zoom merchant_rows (\<lambda>x db. db\<lparr>merchant_rows := x\<rparr>)"

definition on_documents :: "(document_row list \<Rightarrow> 'a \<times> document_row list) \<Rightarrow> merchant_db \<Rightarrow> 'a \<times> merchant_db" where
  "on_documents = zoom document_rows (\<lambda>x db. db\<lparr>document_rows := x\<rparr>)"

section \<open>Statements on merchants\<close>

text \<open>\<open>name\<close> and \<open>api_key\<close> are \<open>VARCHAR(255)\<close>, \<open>status\<close> is \<open>VARCHAR(20)\<close>, \<open>api_key\<close> is unique.\<close>

definition create_merchant_sql ::
  "int \<Rightarrow> string \<Rightarrow> string \<Rightarrow> int \<Rightarrow> string \<Rightarrow> (go_error, merchant_row, merchant_db) op" where
  "create_merchant_sql now name api_key user status db =
     (if length name > 255 \<or> length api_key > 255 \<or> length status > 20 then (Inl value_too_long, db)
      else if merchant_seq db > 2147483647 then (Inl sequence_exhausted, db)
      else let db1 = db\<lparr>merchant_seq := merchant_seq db + 1\<rparr>;
               m = \<lparr>mw_id = merchant_seq db, mw_name = name, mw_key = api_key, mw_user = user, mw_status = status,
                    mw_created = now, mw_updated = now, mw_deleted = None\<rparr>
           in if api_key \<in> set (map mw_key (merchant_rows db)) then (Inl unique_violation, db1)
              else (Inr m, db1\<lparr>merchant_rows := merchant_rows db @ [m]\<rparr>))"

definition update_merchant_sql ::
  "int \<Rightarrow> int \<Rightarrow> string \<Rightarrow> int \<Rightarrow> string \<Rightarrow> (go_error, merchant_row, merchant_db) op" where
  "update_merchant_sql now i name user status =
     on_merchants (update_returning (live_merchant i)
       (\<lambda>_. if length name > 255 \<or> length status > 20 then Some value_too_long else None)
       (\<lambda>m. m\<lparr>mw_name := name, mw_user := user, mw_status := status, mw_updated := now\<rparr>))"

definition update_merchant_status_sql :: "int \<Rightarrow> int \<Rightarrow> string \<Rightarrow> (go_error, merchant_row, merchant_db) op" where
  "update_merchant_status_sql now i status =
     on_merchants (update_returning (live_merchant i)
       (\<lambda>_. if length status > 20 then Some value_too_long else None)
       (\<lambda>m. m\<lparr>mw_status := status, mw_updated := now\<rparr>))"

definition trash_merchant_sql :: "int \<Rightarrow> int \<Rightarrow> (go_error, merchant_row, merchant_db) op" where
  "trash_merchant_sql now i =
     on_merchants (update_returning (live_merchant i) (\<lambda>_. None) (\<lambda>m. m\<lparr>mw_deleted := Some now\<rparr>))"

definition restore_merchant_sql :: "int \<Rightarrow> (go_error, merchant_row, merchant_db) op" where
  "restore_merchant_sql i =
     on_merchants (update_returning (\<lambda>m. mw_id m = i \<and> \<not> merchant_live m) (\<lambda>_. None) (\<lambda>m. m\<lparr>mw_deleted := None\<rparr>))"

definition restore_all_merchants_sql :: "(go_error, unit, merchant_db) op" where
  "restore_all_merchants_sql =
     on_merchants (\<lambda>rows. (Inr (), update_where (\<lambda>m. \<not> merchant_live m) (\<lambda>m. m\<lparr>mw_deleted := None\<rparr>) rows))"

text \<open>\<open>ON DELETE CASCADE\<close>: the documents of a deleted merchant go with it, live or not.\<close>

definition delete_merchants_where :: "(merchant_row \<Rightarrow> bool) \<Rightarrow> (go_error, unit, merchant_db) op" where
  "delete_merchants_where p db =
     (let gone = set (map mw_id (filter p (merchant_rows db)))
      in (Inr (), db\<lparr>merchant_rows := filter (\<lambda>m. \<not> p m) (merchant_rows db),
                     document_rows := filter (\<lambda>d. dw_merchant d \<notin> gone) (document_rows db)\<rparr>))"

definition delete_merchant_permanently_sql :: "int \<Rightarrow> (go_error, unit, merchant_db) op" where
  "delete_merchant_permanently_sql i = delete_merchants_where (\<lambda>m. mw_id m = i \<and> \<not> merchant_live m)"

definition delete_all_permanent_merchants_sql :: "(go_error, unit, merchant_db) op" where
  "delete_all_permanent_merchants_sql = delete_merchants_where (\<lambda>m. \<not> merchant_live m)"

definition get_merchant_by_id_sql :: "int \<Rightarrow> merchant_db \<Rightarrow> merchant_row option" where
  "get_merchant_by_id_sql i db = find (live_merchant i) (merchant_rows db)"

definition get_merchant_by_api_key_sql :: "string \<Rightarrow> merchant_db \<Rightarrow> merchant_row option" where
  "get_merchant_by_api_key_sql api_key db = find (\<lambda>m. mw_key m = api_key \<and> merchant_live m) (merchant_rows db)"

definition get_merchants_by_user_id_sql :: "int \<Rightarrow> merchant_db \<Rightarrow> merchant_row list" where
  "get_merchants_by_user_id_sql user db = filter (\<lambda>m. mw_user m = user \<and> merchant_live m) (merchant_rows db)"

definition merchant_columns :: "merchant_row \<Rightarrow> string list" where
  "merchant_columns m = [mw_name m, mw_key m, mw_status m]"

definition get_merchants_sql :: "merchant_db \<Rightarrow> string \<Rightarrow> int \<Rightarrow> int \<Rightarrow> go_error + (merchant_row \<times> int) list" where
  "get_merchants_sql db term limit offset =
     list_sql merchant_live merchant_columns mw_id term limit offset (merchant_rows db)"

text \<open>The active merchants are the same selection.\<close>

definition get_active_merchants_sql ::
  "merchant_db \<Rightarrow> string \<Rightarrow> int \<Rightarrow> int \<Rightarrow> go_error + (merchant_row \<times> int) list" where
  "get_active_merchants_sql db term limit offset =
     list_sql merchant_live merchant_columns mw_id term limit offset (merchant_rows db)"

definition get_trashed_merchants_sql ::
  "merchant_db \<Rightarrow> string \<Rightarrow> int \<Rightarrow> int \<Rightarrow> go_error + (merchant_row \<times> int) list" where
  "get_trashed_merchants_sql db term limit offset =
     list_sql (\<lambda>m. \<not> merchant_live m) merchant_columns mw_id term limit offset (merchant_rows db)"

section \<open>Statements on documents\<close>

text \<open>The note is a nullable column, which every statement sets.\<close>

definition create_document_sql ::
  "int \<Rightarrow> int \<Rightarrow> string \<Rightarrow> string \<Rightarrow> string \<Rightarrow> string \<Rightarrow> (go_error, document_row, merchant_db) op" where
  "create_document_sql now merchant kind url status note db =
     (if length kind > 50 \<or> length status > 20 then (Inl value_too_long, db)
      else if document_seq db > 2147483647 then (Inl sequence_exhausted, db)
      else let db1 = db\<lparr>document_seq := document_seq db + 1\<rparr>;
               d = \<lparr>dw_id = document_seq db, dw_merchant = merchant, dw_type = kind, dw_url = url, dw_status = status,
                    dw_note = note, dw_uploaded = now, dw_created = now, dw_updated = now, dw_deleted = None\<rparr>
           in if merchant \<notin> set (map mw_id (merchant_rows db)) then (Inl foreign_key_violation, db1)
              else (Inr d, db1\<lparr>document_rows := document_rows db @ [d]\<rparr>))"

definition update_document_sql ::
  "int \<Rightarrow> int \<Rightarrow> string \<Rightarrow> string \<Rightarrow> string \<Rightarrow> string \<Rightarrow> (go_error, document_row, merchant_db) op" where
  "update_document_sql now i kind url status note =
     on_documents (update_returning (live_document i)
       (\<lambda>_. if length kind > 50 \<or> length status > 20 then Some value_too_long else None)
       (\<lambda>d. d\<lparr>dw_type := kind, dw_url := url, dw_status := status, dw_note := note, dw_updated := now\<rparr>))"

definition update_document_status_sql ::
  "int \<Rightarrow> int \<Rightarrow> string \<Rightarrow> string \<Rightarrow> (go_error, document_row, merchant_db) op" where
  "update_document_status_sql now i status note =
     on_documents (update_returning (live_document i)
       (\<lambda>_. if length status > 20 then Some value_too_long else None)
       (\<lambda>d. d\<lparr>dw_status := status, dw_note := note, dw_updated := now\<rparr>))"

definition trash_document_sql :: "int \<Rightarrow> int \<Rightarrow> (go_error, document_row, merchant_db) op" where
  "trash_document_sql now i =
     on_documents (update_returning (live_document i) (\<lambda>_. None) (\<lambda>d. d\<lparr>dw_deleted := Some now\<rparr>))"

definition restore_document_sql :: "int \<Rightarrow> (go_error, document_row, merchant_db) op" where
  "restore_document_sql i =
     on_documents (update_returning (\<lambda>d. dw_id d = i \<and> \<not> document_live d) (\<lambda>_. None) (\<lambda>d. d\<lparr>dw_deleted := None\<rparr>))"

definition delete_document_permanently_sql :: "int \<Rightarrow> (go_error, unit, merchant_db) op" where
  "delete_document_permanently_sql i =
     on_documents (\<lambda>rows. (Inr (), filter (\<lambda>d. \<not> (dw_id d = i \<and> \<not> document_live d)) rows))"

definition restore_all_documents_sql :: "(go_error, unit, merchant_db) op" where
  "restore_all_documents_sql =
     on_documents (\<lambda>rows. (Inr (), update_where (\<lambda>d. \<not> document_live d) (\<lambda>d. d\<lparr>dw_deleted := None\<rparr>) rows))"

definition delete_all_permanent_documents_sql :: "(go_error, unit, merchant_db) op" where
  "delete_all_permanent_documents_sql = on_documents (\<lambda>rows. (Inr (), filter document_live rows))"

definition get_document_sql :: "int \<Rightarrow> merchant_db \<Rightarrow> document_row option" where
  "get_document_sql i db = find (live_document i) (document_rows db)"

definition document_columns :: "document_row \<Rightarrow> string list" where
  "document_columns d = [dw_type d, dw_status d, dw_note d]"

definition get_documents_sql :: "merchant_db \<Rightarrow> string \<Rightarrow> int \<Rightarrow> int \<Rightarrow> go_error + (document_row \<times> int) list" where
  "get_documents_sql db term limit offset =
     list_sql document_live document_columns dw_id term limit offset (document_rows db)"

definition get_active_documents_sql ::
  "merchant_db \<Rightarrow> string \<Rightarrow> int \<Rightarrow> int \<Rightarrow> go_error + (document_row \<times> int) list" where
  "get_active_documents_sql db term limit offset =
     list_sql (\<lambda>d. document_live d \<and> dw_status d \<noteq> ''deleted'') document_columns dw_id term limit offset (document_rows db)"

definition get_trashed_documents_sql ::
  "merchant_db \<Rightarrow> string \<Rightarrow> int \<Rightarrow> int \<Rightarrow> go_error + (document_row \<times> int) list" where
  "get_trashed_documents_sql db term limit offset =
     list_sql (\<lambda>d. \<not> document_live d) document_columns dw_id term limit offset (document_rows db)"

section \<open>Repositories of merchants\<close>

record update_merchant_request =
  um_id :: int
  um_name :: string
  um_user :: int
  um_status :: string

text \<open>The key is generated first; \<open>Inl\<close> is the error of the random source.\<close>

definition repo_create_merchant ::
  "go_error fault \<Rightarrow> int \<Rightarrow> go_error + string \<Rightarrow> string \<Rightarrow> int \<Rightarrow> (go_error, merchant_row, merchant_db) op" where
  "repo_create_merchant fl now generated name user =
     (case generated of
        Inl err \<Rightarrow> ret (Inl (with_internal ErrInternal err))
      | Inr api_key \<Rightarrow>
          map_error (conflict_or ''merchant api key already exists'' (failed ''create merchant''))
            (with_fault fl (create_merchant_sql now name api_key (go_int32 user) ''inactive'')))"

definition repo_update_merchant ::
  "go_error fault \<Rightarrow> int \<Rightarrow> update_merchant_request \<Rightarrow> (go_error, merchant_row, merchant_db) op" where
  "repo_update_merchant fl now req =
     map_error (no_rows_or_failed ''merchant'' ''update merchant'')
       (with_fault fl (update_merchant_sql now (go_int32 (um_id req)) (um_name req) (go_int32 (um_user req)) (um_status req)))"

definition repo_update_merchant_status ::
  "go_error fault \<Rightarrow> int \<Rightarrow> int \<Rightarrow> string \<Rightarrow> (go_error, merchant_row, merchant_db) op" where
  "repo_update_merchant_status fl now i status =
     map_error (no_rows_or_failed ''merchant'' ''update merchant status'')
       (with_fault fl (update_merchant_status_sql now (go_int32 i) status))"

definition repo_trashed_merchant :: "go_error fault \<Rightarrow> int \<Rightarrow> int \<Rightarrow> (go_error, merchant_row, merchant_db) op" where
  "repo_trashed_merchant fl now i =
     map_error (no_rows_or_failed ''merchant'' ''trash merchant'') (with_fault fl (trash_merchant_sql now (go_int32 i)))"

definition repo_restore_merchant :: "go_error fault \<Rightarrow> int \<Rightarrow> (go_error, merchant_row, merchant_db) op" where
  "repo_restore_merchant fl i =
     map_error (no_rows_or_failed ''merchant'' ''restore merchant'') (with_fault fl (restore_merchant_sql (go_int32 i)))"

definition repo_delete_merchant_permanent :: "go_error fault \<Rightarrow> int \<Rightarrow> (go_error, unit, merchant_db) op" where
  "repo_delete_merchant_permanent fl i =
     map_error (no_rows_or_failed ''merchant'' ''delete merchant permanently'')
       (with_fault fl (delete_merchant_permanently_sql (go_int32 i)))"

definition repo_restore_all_merchant :: "go_error fault \<Rightarrow> (go_error, unit, merchant_db) op" where
  "repo_restore_all_merchant fl = map_error (failed ''restore all merchants'') (with_fault fl restore_all_merchants_sql)"

definition repo_delete_all_merchant_permanent :: "go_error fault \<Rightarrow> (go_error, unit, merchant_db) op" where
  "repo_delete_all_merchant_permanent fl =
     map_error (failed ''delete all merchants permanently'') (with_fault fl delete_all_permanent_merchants_sql)"

definition repo_find_by_merchant_id :: "go_error fault \<Rightarrow> int \<Rightarrow> merchant_db \<Rightarrow> go_error + merchant_row" where
  "repo_find_by_merchant_id fl i db =
     repo_lookup fl (err_not_found_response ''merchant'') (get_merchant_by_id_sql (go_int32 i) db)"

definition repo_find_by_api_key :: "go_error fault \<Rightarrow> string \<Rightarrow> merchant_db \<Rightarrow> go_error + merchant_row" where
  "repo_find_by_api_key fl api_key db =
     repo_lookup fl (err_not_found_response ''merchant'') (get_merchant_by_api_key_sql api_key db)"

definition repo_find_by_merchant_user_id :: "go_error fault \<Rightarrow> int \<Rightarrow> merchant_db \<Rightarrow> go_error + merchant_row list" where
  "repo_find_by_merchant_user_id fl user db =
     map_read_error (lookup_error (err_not_found_response ''merchant''))
       (read_fault fl (Inr (get_merchants_by_user_id_sql (go_int32 user) db)))"

definition repo_find_all_merchants ::
  "go_error fault \<Rightarrow> find_all_request \<Rightarrow> merchant_db \<Rightarrow> go_error + (merchant_row \<times> int) list" where
  "repo_find_all_merchants fl req db = repo_page fl ''find all merchants'' (get_merchants_sql db) req"

definition repo_find_active_merchants ::
  "go_error fault \<Rightarrow> find_all_request \<Rightarrow> merchant_db \<Rightarrow> go_error + (merchant_row \<times> int) list" where
  "repo_find_active_merchants fl req db = repo_page fl ''find active merchants'' (get_active_merchants_sql db) req"

definition repo_find_trashed_merchants ::
  "go_error fault \<Rightarrow> find_all_request \<Rightarrow> merchant_db \<Rightarrow> go_error + (merchant_row \<times> int) list" where
  "repo_find_trashed_merchants fl req db = repo_page fl ''find trashed merchants'' (get_trashed_merchants_sql db) req"

section \<open>Repositories of documents\<close>

text \<open>All three write commands store the empty note, whatever the request holds.\<close>

record create_document_request =
  cd_merchant :: int
  cd_type :: string
  cd_url :: string

record document_status_request =
  ds_id :: int
  ds_merchant :: int
  ds_status :: string
  ds_note :: string

record update_document_request = document_status_request +
  ds_type :: string
  ds_url :: string

definition document_id_required :: go_error where
  "document_id_required = new_bad_request_error ''merchant document ID is required''"

definition repo_create_document ::
  "go_error fault \<Rightarrow> int \<Rightarrow> create_document_request \<Rightarrow> (go_error, document_row, merchant_db) op" where
  "repo_create_document fl now req =
     map_error (failed ''create merchant document'')
       (with_fault fl (create_document_sql now (go_int32 (cd_merchant req)) (cd_type req) (cd_url req) ''pending'' []))"

definition repo_update_document ::
  "go_error fault \<Rightarrow> int \<Rightarrow> update_document_request \<Rightarrow> (go_error, document_row, merchant_db) op" where
  "repo_update_document fl now req =
     (if ds_id req \<le> 0 then ret (Inl document_id_required)
      else map_error (no_rows_or_failed ''merchant document'' ''update merchant document'')
             (with_fault fl (update_document_sql now (go_int32 (ds_id req)) (ds_type req) (ds_url req) (ds_status req) [])))"

definition repo_update_document_status ::
  "go_error fault \<Rightarrow> int \<Rightarrow> document_status_request \<Rightarrow> (go_error, document_row, merchant_db) op" where
  "repo_update_document_status fl now req =
     (if ds_id req \<le> 0 then ret (Inl document_id_required)
      else map_error (no_rows_or_failed ''merchant document'' ''update merchant document status'')
             (with_fault fl (update_document_status_sql now (go_int32 (ds_id req)) (ds_status req) [])))"

definition repo_trashed_document :: "go_error fault \<Rightarrow> int \<Rightarrow> int \<Rightarrow> (go_error, document_row, merchant_db) op" where
  "repo_trashed_document fl now i =
     map_error (no_rows_or_failed ''merchant document'' ''trash merchant document'')
       (with_fault fl (trash_document_sql now (go_int32 i)))"

definition repo_restore_document :: "go_error fault \<Rightarrow> int \<Rightarrow> (go_error, document_row, merchant_db) op" where
  "repo_restore_document fl i =
     map_error (no_rows_or_failed ''merchant document'' ''restore merchant document'')
       (with_fault fl (restore_document_sql (go_int32 i)))"

definition repo_delete_document_permanent :: "go_error fault \<Rightarrow> int \<Rightarrow> (go_error, unit, merchant_db) op" where
  "repo_delete_document_permanent fl i =
     map_error (no_rows_or_failed ''merchant document'' ''delete merchant document permanently'')
       (with_fault fl (delete_document_permanently_sql (go_int32 i)))"

definition repo_restore_all_document :: "go_error fault \<Rightarrow> (go_error, unit, merchant_db) op" where
  "repo_restore_all_document fl =
     map_error (failed ''restore all merchant documents'') (with_fault fl restore_all_documents_sql)"

definition repo_delete_all_document_permanent :: "go_error fault \<Rightarrow> (go_error, unit, merchant_db) op" where
  "repo_delete_all_document_permanent fl =
     map_error (failed ''delete all merchant documents permanently'') (with_fault fl delete_all_permanent_documents_sql)"

definition repo_find_document :: "go_error fault \<Rightarrow> int \<Rightarrow> merchant_db \<Rightarrow> go_error + document_row" where
  "repo_find_document fl i db =
     repo_lookup fl (err_not_found_response ''merchant document'') (get_document_sql (go_int32 i) db)"

definition repo_find_all_documents ::
  "go_error fault \<Rightarrow> find_all_request \<Rightarrow> merchant_db \<Rightarrow> go_error + (document_row \<times> int) list" where
  "repo_find_all_documents fl req db = repo_page fl ''find all merchant documents'' (get_documents_sql db) req"

definition repo_find_active_documents ::
  "go_error fault \<Rightarrow> find_all_request \<Rightarrow> merchant_db \<Rightarrow> go_error + (document_row \<times> int) list" where
  "repo_find_active_documents fl req db = repo_page fl ''find active merchant documents'' (get_active_documents_sql db) req"

definition repo_find_trashed_documents ::
  "go_error fault \<Rightarrow> find_all_request \<Rightarrow> merchant_db \<Rightarrow> go_error + (document_row \<times> int) list" where
  "repo_find_trashed_documents fl req db = repo_page fl ''find trashed merchant documents'' (get_trashed_documents_sql db) req"

end
