(* ===== verification/MerchantService.thy ===== *)
theory MerchantService
  imports MerchantStore
begin

text \<open>
  The services, handlers and the Kafka consumer of \<open>service/merchant\<close>: merchants, their
  documents, their transactions (read from the transaction service), and the answers to the
  gateway about API keys. The user and transaction services behind their adapters, the random
  source and the delivery of messages are parameters.
\<close>

section \<open>State and environment\<close>

record merchant_txn =
  mt_id :: int
  mt_card :: string
  mt_amount :: int
  mt_method :: string
  mt_merchant :: int
  mt_name :: string
  mt_time :: int

datatype merchant_value =
    VMerchant merchant_row
  | VMerchants "merchant_row list"
  | VMerchantPage "(merchant_row \<times> int) list" int
  | VDocument document_row
  | VDocumentPage "(document_row \<times> int) list" int
  | VMerchantTxns "merchant_txn list" int

text \<open>
  What is sent: a mail (address, subject, title, text, label and link of the button, from
  which the body is rendered), an event for the statistics (id, user, name, mail, status,
  time), and the answer about a key (correlation, valid, merchant id).
\<close>

datatype merchant_message =
    MerchantMail string string string string string string
  | MerchantEvent int int string string string int
  | MerchantReply string bool int

record merchant_world =
  mo_db :: merchant_db
  mo_cache :: "merchant_value redis"
  mo_sent :: "(string \<times> string \<times> merchant_message) list"

record merchant_env =
  me_cache :: cache_env
  me_fault :: "string \<Rightarrow> go_error fault"
  me_api_key :: "go_error + string"
  me_user :: "int \<Rightarrow> go_error + (int \<times> string) option"
  me_sent :: "string \<Rightarrow> bool"
  me_transactions :: "int option \<Rightarrow> int \<Rightarrow> int \<Rightarrow> string \<Rightarrow> go_error + merchant_txn list \<times> int"

definition me_now :: "merchant_env \<Rightarrow> int" where
  "me_now env = ce_now (me_cache env)"

definition on_merchant_db :: "(go_error, 'a, merchant_db) op \<Rightarrow> (go_error, 'a, merchant_world) op" where
  "on_merchant_db = zoom mo_db (\<lambda>d w. w\<lparr>mo_db := d\<rparr>)"

definition on_merchant_cache ::
  "(merchant_value redis \<Rightarrow> 'a \<times> merchant_value redis) \<Rightarrow> merchant_world \<Rightarrow> 'a \<times> merchant_world" where
  "on_merchant_cache = zoom mo_cache (\<lambda>x w. w\<lparr>mo_cache := x\<rparr>)"

definition tell :: "merchant_env \<Rightarrow> (string \<times> string \<times> merchant_message) list \<Rightarrow> merchant_world \<Rightarrow> merchant_world" where
  "tell env ms w = w\<lparr>mo_sent := mo_sent w @ filter (\<lambda>(topic, _). me_sent env topic) ms\<rparr>"

definition merchant_user :: "merchant_env \<Rightarrow> int \<Rightarrow> go_error + int \<times> string" where
  "merchant_user env i = adapted ErrUserNotFound (me_user env (go_int32 i))"

section \<open>Cache\<close>

definition merchant_by_id_key :: "int \<Rightarrow> string" where
  "merchant_by_id_key i = ''merchant:id:'' @ itoa i"

definition merchant_by_api_key_key :: "string \<Rightarrow> string" where
  "merchant_by_api_key_key api_key = ''merchant:api_key:'' @ api_key"

definition merchant_by_user_id_key :: "int \<Rightarrow> string" where
  "merchant_by_user_id_key user = ''merchant:user_id:'' @ itoa user"

definition document_by_id_key :: "int \<Rightarrow> string" where
  "document_by_id_key i = ''merchant_document:id:'' @ itoa i"

definition txn_page_key :: "string \<Rightarrow> find_all_request \<Rightarrow> string" where
  "txn_page_key kind req =
     ''merchant:transaction:'' @ kind @ ''search:'' @ fa_search req @ '':page:'' @ itoa (fa_page req)
       @ '':pageSize:'' @ itoa (fa_page_size req)"

fun value_merchant :: "merchant_value \<Rightarrow> merchant_row option" where
  "value_merchant (VMerchant m) = Some m"
| "value_merchant _ = None"

fun value_merchants :: "merchant_value \<Rightarrow> merchant_row list option" where
  "value_merchants (VMerchants ms) = Some ms"
| "value_merchants _ = None"

fun value_merchant_page :: "merchant_value \<Rightarrow> ((merchant_row \<times> int) list \<times> int) option" where
  "value_merchant_page (VMerchantPage rows n) = Some (rows, n)"
| "value_merchant_page _ = None"

fun value_document :: "merchant_value \<Rightarrow> document_row option" where
  "value_document (VDocument d) = Some d"
| "value_document _ = None"

fun value_document_page :: "merchant_value \<Rightarrow> ((document_row \<times> int) list \<times> int) option" where
  "value_document_page (VDocumentPage rows n) = Some (rows, n)"
| "value_document_page _ = None"

fun value_txns :: "merchant_value \<Rightarrow> (merchant_txn list \<times> int) option" where
  "value_txns (VMerchantTxns txs n) = Some (txs, n)"
| "value_txns _ = None"

definition drop_key :: "merchant_env \<Rightarrow> string \<Rightarrow> merchant_world \<Rightarrow> merchant_world" where
  "drop_key env key w = w\<lparr>mo_cache := delete_from_cache (me_cache env) key (mo_cache w)\<rparr>"

section \<open>Commands on merchants\<close>

definition merchant_fail :: "go_error \<Rightarrow> merchant_world \<Rightarrow> (go_error + 'a) \<times> merchant_world" where
  "merchant_fail err = ret (Inl (handle_error (Some err)))"

definition merchant_command ::
  "(go_error \<Rightarrow> go_error) \<Rightarrow> (go_error, 'a, merchant_db) op \<Rightarrow> (go_error, 'a, merchant_world) op" where
  "merchant_command f m = map_error (\<lambda>err. handle_error (Some (f err))) (on_merchant_db m)"

text \<open>What happens after a command that succeeded.\<close>

definition followed :: "('a \<Rightarrow> merchant_world \<Rightarrow> merchant_world) \<Rightarrow> (go_error, 'a, merchant_world) op \<Rightarrow>
  (go_error, 'a, merchant_world) op" where
  "followed after m w = (case m w of (Inl err, w') \<Rightarrow> (Inl err, w') | (Inr x, w') \<Rightarrow> (Inr x, after x w'))"

definition go_uint64 :: "int \<Rightarrow> int" where
  "go_uint64 x = x mod 18446744073709551616"

definition portal_link :: "int \<Rightarrow> string \<Rightarrow> string" where
  "portal_link i page = ''https://sanedge.example.com/merchant/'' @ itoa i @ ''/'' @ page"

text \<open>
  Mails and events are sent by a goroutine after the command; the model appends what Kafka
  accepts once the command has succeeded.
\<close>

definition svc_create_merchant :: "merchant_env \<Rightarrow> string \<Rightarrow> int \<Rightarrow> (go_error, merchant_row, merchant_world) op" where
  "svc_create_merchant env name user w =
     (case merchant_user env user of
        Inl err \<Rightarrow> merchant_fail err w
      | Inr (user_id, email) \<Rightarrow>
          followed (\<lambda>m. tell env
            [(''email-service-topic-merchant-create'', itoa (mw_id m),
              MerchantMail email ''Initial Verification - SanEdge'' ''Welcome to SanEdge Merchant Portal''
                ''Your merchant account has been created successfully. To continue, please upload the required documents for verification. Once completed, our team will review and activate your account.''
                ''Upload Documents'' (portal_link user_id ''documents'')),
             (''stats-topic-merchant-events'', itoa (mw_id m),
              MerchantEvent (go_uint64 (mw_id m)) (go_uint64 user) name email ''inactive'' (me_now env))])
          (merchant_command (\<lambda>e. e)
            (repo_create_merchant (me_fault env ''CreateMerchant'') (me_now env) (me_api_key env) name user)) w)"

definition svc_update_merchant ::
  "merchant_env \<Rightarrow> update_merchant_request \<Rightarrow> (go_error, merchant_row, merchant_world) op" where
  "svc_update_merchant env req =
     followed (\<lambda>m. drop_key env (merchant_by_id_key (mw_id m)))
       (merchant_command (\<lambda>e. e) (repo_update_merchant (me_fault env ''UpdateMerchant'') (me_now env) req))"

definition merchant_status_mail :: "string \<Rightarrow> (string \<times> string) option" where
  "merchant_status_mail status =
     (if status = ''active'' then
        Some (''Your Merchant Account is Now Active'',
          ''Congratulations! Your merchant account has been verified and is now <b>active</b>. You can now fully access all features in the SanEdge Merchant Portal.'')
      else if status = ''inactive'' then
        Some (''Merchant Account Set to Inactive'',
          ''Your merchant account status has been set to <b>inactive</b>. Please contact support if you believe this is a mistake.'')
      else if status = ''rejected'' then
        Some (''Merchant Account Rejected'',
          ''We're sorry to inform you that your merchant account has been <b>rejected</b>. Please contact support or review your submissions.'')
      else None)"

definition svc_update_merchant_status :: "merchant_env \<Rightarrow> int \<Rightarrow> string \<Rightarrow> (go_error, merchant_row, merchant_world) op" where
  "svc_update_merchant_status env i status w =
     (case repo_find_by_merchant_id (me_fault env ''GetMerchantByID'') i (mo_db w) of
        Inl err \<Rightarrow> merchant_fail err w
      | Inr merchant \<Rightarrow>
          (case merchant_user env (mw_user merchant) of
             Inl err \<Rightarrow> merchant_fail err w
           | Inr (_, email) \<Rightarrow>
               followed (\<lambda>m. drop_key env (merchant_by_id_key (mw_id m)) \<circ>
                 (case merchant_status_mail status of
                    None \<Rightarrow> (\<lambda>w. w)
                  | Some (subject, message) \<Rightarrow> tell env
                      [(''email-service-topic-merchant-update-status'', itoa i,
                        MerchantMail email subject subject message ''Go to Portal'' (portal_link i ''dashboard'')),
                       (''stats-topic-merchant-events'', itoa (mw_id m),
                        MerchantEvent (go_uint64 (mw_id m)) (go_uint64 (mw_user merchant)) (mw_name merchant) email
                          (mw_status m) (me_now env))]))
               (merchant_command (\<lambda>e. e)
                 (repo_update_merchant_status (me_fault env ''UpdateMerchantStatus'') (me_now env) i status)) w))"

text \<open>None of the following deletes from the cache.\<close>

definition svc_trashed_merchant :: "merchant_env \<Rightarrow> int \<Rightarrow> (go_error, merchant_row, merchant_world) op" where
  "svc_trashed_merchant env i =
     merchant_command (\<lambda>e. e) (repo_trashed_merchant (me_fault env ''TrashMerchant'') (me_now env) i)"

definition svc_restore_merchant :: "merchant_env \<Rightarrow> int \<Rightarrow> (go_error, merchant_row, merchant_world) op" where
  "svc_restore_merchant env i = merchant_command (\<lambda>e. e) (repo_restore_merchant (me_fault env ''RestoreMerchant'') i)"

definition svc_delete_merchant_permanent :: "merchant_env \<Rightarrow> int \<Rightarrow> (go_error, unit, merchant_world) op" where
  "svc_delete_merchant_permanent env i =
     merchant_command (\<lambda>e. e) (repo_delete_merchant_permanent (me_fault env ''DeleteMerchantPermanently'') i)"

definition svc_restore_all_merchant :: "merchant_env \<Rightarrow> (go_error, unit, merchant_world) op" where
  "svc_restore_all_merchant env =
     merchant_command (\<lambda>_. err_failed ''restore all merchants'') (repo_restore_all_merchant (me_fault env ''RestoreAllMerchants''))"

definition svc_delete_all_merchant_permanent :: "merchant_env \<Rightarrow> (go_error, unit, merchant_world) op" where
  "svc_delete_all_merchant_permanent env =
     merchant_command (\<lambda>_. err_failed ''delete all merchants permanently'')
       (repo_delete_all_merchant_permanent (me_fault env ''DeleteAllPermanentMerchants''))"

section \<open>Commands on documents\<close>

text \<open>The merchant named by the request and its user, whose address the mail goes to.\<close>

definition merchant_and_user ::
  "merchant_env \<Rightarrow> int \<Rightarrow> merchant_world \<Rightarrow> go_error + merchant_row \<times> int \<times> string" where
  "merchant_and_user env i w =
     (case repo_find_by_merchant_id (me_fault env ''GetMerchantByID'') i (mo_db w) of
        Inl err \<Rightarrow> Inl err
      | Inr m \<Rightarrow> (case merchant_user env (mw_user m) of Inl err \<Rightarrow> Inl err | Inr u \<Rightarrow> Inr (m, u)))"

definition svc_create_document ::
  "merchant_env \<Rightarrow> create_document_request \<Rightarrow> (go_error, document_row, merchant_world) op" where
  "svc_create_document env req w =
     (case merchant_and_user env (cd_merchant req) w of
        Inl err \<Rightarrow> merchant_fail err w
      | Inr (_, user_id, email) \<Rightarrow>
          followed (\<lambda>d. tell env
            [(''email-service-topic-merchant-document-create'', itoa (dw_id d),
              MerchantMail email ''Merchant Verification Pending - Action Required'' ''Welcome to SanEdge Merchant Portal''
                ''Thank you for registering your merchant account. Your account is currently <b>inactive</b> and under initial review. To proceed, please upload all required documents for verification. Once your documents are submitted, our team will review them and activate your account accordingly.''
                ''Upload Documents'' (portal_link user_id ''documents''))])
          (merchant_command (\<lambda>e. e) (repo_create_document (me_fault env ''CreateMerchantDocument'') (me_now env) req)) w)"

definition svc_update_document ::
  "merchant_env \<Rightarrow> update_document_request \<Rightarrow> (go_error, document_row, merchant_world) op" where
  "svc_update_document env req =
     followed (\<lambda>d. drop_key env (document_by_id_key (dw_id d)))
       (merchant_command (\<lambda>e. e) (repo_update_document (me_fault env ''UpdateMerchantDocument'') (me_now env) req))"

text \<open>Subject, text and button of the mail, and the page it links to.\<close>

definition document_status_mail :: "string \<Rightarrow> (string \<times> string \<times> string \<times> string) option" where
  "document_status_mail status =
     (if status = ''pending'' then
        Some (''Merchant Document Status: Pending Review'',
          ''Your merchant documents have been submitted and are currently pending review.'', ''View Documents'', ''documents'')
      else if status = ''approved'' then
        Some (''Merchant Document Status: Approved'',
          ''Congratulations! Your merchant documents have been approved. Your account is now active and fully functional.'',
          ''Go to Dashboard'', ''dashboard'')
      else if status = ''rejected'' then
        Some (''Merchant Document Status: Rejected'',
          ''Unfortunately, your merchant documents were rejected. Please review the feedback below and re-upload the necessary documents.'',
          ''Re-upload Documents'', ''documents'')
      else None)"

definition with_note :: "string \<Rightarrow> string \<Rightarrow> string" where
  "with_note note message =
     (if note = [] then message else message @ ''<br><br><b>Reviewer Note:</b><br><i>'' @ note @ ''</i>'')"

definition svc_update_document_status ::
  "merchant_env \<Rightarrow> document_status_request \<Rightarrow> (go_error, document_row, merchant_world) op" where
  "svc_update_document_status env req w =
     (case merchant_and_user env (ds_merchant req) w of
        Inl err \<Rightarrow> merchant_fail err w
      | Inr (_, _, email) \<Rightarrow>
          followed (\<lambda>d. drop_key env (document_by_id_key (dw_id d)) \<circ>
            (case document_status_mail (ds_status req) of
               None \<Rightarrow> (\<lambda>w. w)
             | Some (subject, message, button, page) \<Rightarrow> tell env
                 [(''email-service-topic-merchant-document-update-status'', itoa (ds_merchant req),
                   MerchantMail email subject subject (with_note (ds_note req) message) button
                     (portal_link (ds_merchant req) page))]))
          (merchant_command (\<lambda>e. e)
            (repo_update_document_status (me_fault env ''UpdateMerchantDocumentStatus'') (me_now env) req)) w)"

definition svc_trashed_document :: "merchant_env \<Rightarrow> int \<Rightarrow> (go_error, document_row, merchant_world) op" where
  "svc_trashed_document env i =
     followed (\<lambda>_. drop_key env (document_by_id_key i))
       (merchant_command (\<lambda>e. e) (repo_trashed_document (me_fault env ''TrashMerchantDocument'') (me_now env) i))"

definition svc_restore_document :: "merchant_env \<Rightarrow> int \<Rightarrow> (go_error, document_row, merchant_world) op" where
  "svc_restore_document env i =
     merchant_command (\<lambda>e. e) (repo_restore_document (me_fault env ''RestoreMerchantDocument'') i)"

definition svc_delete_document_permanent :: "merchant_env \<Rightarrow> int \<Rightarrow> (go_error, unit, merchant_world) op" where
  "svc_delete_document_permanent env i =
     merchant_command (\<lambda>e. e) (repo_delete_document_permanent (me_fault env ''DeleteMerchantDocumentPermanently'') i)"

definition svc_restore_all_document :: "merchant_env \<Rightarrow> (go_error, unit, merchant_world) op" where
  "svc_restore_all_document env =
     merchant_command (\<lambda>e. e) (repo_restore_all_document (me_fault env ''RestoreAllMerchantDocuments''))"

definition svc_delete_all_document_permanent :: "merchant_env \<Rightarrow> (go_error, unit, merchant_world) op" where
  "svc_delete_all_document_permanent env =
     merchant_command (\<lambda>e. e) (repo_delete_all_document_permanent (me_fault env ''DeleteAllPermanentMerchantDocuments''))"

section \<open>Queries\<close>

text \<open>The merchant that was read is stored under its own id, the page and the key as requested.\<close>

definition svc_find_merchant_by_id :: "merchant_env \<Rightarrow> int \<Rightarrow> (go_error, merchant_row, merchant_world) op" where
  "svc_find_merchant_by_id env i w =
     on_merchant_cache (\<lambda>st.
       case Option.bind (get_from_cache (me_cache env) (merchant_by_id_key i) st) value_merchant of
         Some m \<Rightarrow> (Inr m, st)
       | None \<Rightarrow>
           (case handled (repo_find_by_merchant_id (me_fault env ''GetMerchantByID'') i (mo_db w)) of
              Inl err \<Rightarrow> (Inl err, st)
            | Inr m \<Rightarrow> (Inr m, set_to_cache (me_cache env) (merchant_by_id_key (mw_id m)) (VMerchant m) ttl_default st))) w"

definition svc_find_by_api_key :: "merchant_env \<Rightarrow> string \<Rightarrow> (go_error, merchant_row, merchant_world) op" where
  "svc_find_by_api_key env api_key w =
     on_merchant_cache (cached_find (me_cache env) (merchant_by_api_key_key api_key) value_merchant VMerchant ttl_default
       (handled (repo_find_by_api_key (me_fault env ''GetMerchantByApiKey'') api_key (mo_db w)))) w"

text \<open>The driver's slice of no rows is nil, which is not cached.\<close>

definition svc_find_by_merchant_user_id :: "merchant_env \<Rightarrow> int \<Rightarrow> (go_error, merchant_row list, merchant_world) op" where
  "svc_find_by_merchant_user_id env user w =
     on_merchant_cache (\<lambda>st.
       case Option.bind (get_from_cache (me_cache env) (merchant_by_user_id_key user) st) value_merchants of
         Some ms \<Rightarrow> (Inr ms, st)
       | None \<Rightarrow>
           (case handled (repo_find_by_merchant_user_id (me_fault env ''GetMerchantsByUserID'') user (mo_db w)) of
              Inl err \<Rightarrow> (Inl err, st)
            | Inr ms \<Rightarrow> (Inr ms, if ms = [] then st
                                else set_to_cache (me_cache env) (merchant_by_user_id_key user) (VMerchants ms) ttl_default st))) w"

definition merchant_page ::
  "merchant_env \<Rightarrow> string \<Rightarrow> find_all_request \<Rightarrow> go_error + (merchant_row \<times> int) list \<Rightarrow>
   merchant_value redis \<Rightarrow> (go_error + (merchant_row \<times> int) list \<times> int) \<times> merchant_value redis" where
  "merchant_page env kind req =
     cached_page (me_cache env) (listing_key (''merchant:'' @ kind) req) value_merchant_page (\<lambda>(rows, n). VMerchantPage rows n) (\<lambda>e. e)"

definition svc_find_all_merchants ::
  "merchant_env \<Rightarrow> find_all_request \<Rightarrow> (go_error, (merchant_row \<times> int) list \<times> int, merchant_world) op" where
  "svc_find_all_merchants env req w =
     on_merchant_cache (merchant_page env ''all'' req (repo_find_all_merchants (me_fault env ''GetMerchants'') req (mo_db w))) w"

definition svc_find_active_merchants ::
  "merchant_env \<Rightarrow> find_all_request \<Rightarrow> (go_error, (merchant_row \<times> int) list \<times> int, merchant_world) op" where
  "svc_find_active_merchants env req w =
     on_merchant_cache (merchant_page env ''active'' req
       (repo_find_active_merchants (me_fault env ''GetActiveMerchants'') req (mo_db w))) w"

definition svc_find_trashed_merchants ::
  "merchant_env \<Rightarrow> find_all_request \<Rightarrow> (go_error, (merchant_row \<times> int) list \<times> int, merchant_world) op" where
  "svc_find_trashed_merchants env req w =
     on_merchant_cache (merchant_page env ''trashed'' req
       (repo_find_trashed_merchants (me_fault env ''GetTrashedMerchants'') req (mo_db w))) w"

definition svc_find_document_by_id :: "merchant_env \<Rightarrow> int \<Rightarrow> (go_error, document_row, merchant_world) op" where
  "svc_find_document_by_id env i w =
     on_merchant_cache (cached_find (me_cache env) (document_by_id_key i) value_document VDocument ttl_default
       (handled (repo_find_document (me_fault env ''GetMerchantDocument'') i (mo_db w)))) w"

definition document_page ::
  "merchant_env \<Rightarrow> string \<Rightarrow> find_all_request \<Rightarrow> go_error + (document_row \<times> int) list \<Rightarrow>
   merchant_value redis \<Rightarrow> (go_error + (document_row \<times> int) list \<times> int) \<times> merchant_value redis" where
  "document_page env kind req =
     cached_page (me_cache env) (listing_key (''merchant_document:'' @ kind) req) value_document_page
       (\<lambda>(rows, n). VDocumentPage rows n) (\<lambda>e. e)"

definition svc_find_all_documents ::
  "merchant_env \<Rightarrow> find_all_request \<Rightarrow> (go_error, (document_row \<times> int) list \<times> int, merchant_world) op" where
  "svc_find_all_documents env req w =
     on_merchant_cache (document_page env ''all'' req
       (repo_find_all_documents (me_fault env ''GetMerchantDocuments'') req (mo_db w))) w"

definition svc_find_active_documents ::
  "merchant_env \<Rightarrow> find_all_request \<Rightarrow> (go_error, (document_row \<times> int) list \<times> int, merchant_world) op" where
  "svc_find_active_documents env req w =
     on_merchant_cache (document_page env ''active'' req
       (repo_find_active_documents (me_fault env ''GetActiveMerchantDocuments'') req (mo_db w))) w"

definition svc_find_trashed_documents ::
  "merchant_env \<Rightarrow> find_all_request \<Rightarrow> (go_error, (document_row \<times> int) list \<times> int, merchant_world) op" where
  "svc_find_trashed_documents env req w =
     on_merchant_cache (document_page env ''trashed'' req
       (repo_find_trashed_documents (me_fault env ''GetTrashedMerchantDocuments'') req (mo_db w))) w"

section \<open>Transactions of merchants\<close>

text \<open>Names are looked up once per merchant and page; a lookup that fails gives the empty name.\<close>

definition merchant_name :: "merchant_env \<Rightarrow> merchant_world \<Rightarrow> int \<Rightarrow> string" where
  "merchant_name env w i =
     (case repo_find_by_merchant_id (me_fault env ''GetMerchantByID'') i (mo_db w) of Inl _ \<Rightarrow> [] | Inr m \<Rightarrow> mw_name m)"

fun enrich_merchant_names ::
  "(int \<Rightarrow> string) \<Rightarrow> (int \<rightharpoonup> string) \<Rightarrow> merchant_txn list \<Rightarrow> merchant_txn list" where
  "enrich_merchant_names look names [] = []"
| "enrich_merchant_names look names (tx # txs) =
     (if mt_name tx \<noteq> [] then tx # enrich_merchant_names look names txs
      else case names (mt_merchant tx) of
             Some name \<Rightarrow> tx\<lparr>mt_name := name\<rparr> # enrich_merchant_names look names txs
           | None \<Rightarrow> let name = look (mt_merchant tx)
                     in tx\<lparr>mt_name := name\<rparr> # enrich_merchant_names look (names(mt_merchant tx \<mapsto> name)) txs)"

definition txn_page ::
  "merchant_env \<Rightarrow> string \<Rightarrow> find_all_request \<Rightarrow> go_error + merchant_txn list \<times> int \<Rightarrow> merchant_value redis \<Rightarrow>
   (go_error + merchant_txn list \<times> int) \<times> merchant_value redis" where
  "txn_page env kind req fetched =
     cached_find (me_cache env) (txn_page_key kind req) value_txns (\<lambda>(txs, n). VMerchantTxns txs n) ttl_default (handled fetched)"

definition enriched :: "merchant_env \<Rightarrow> merchant_world \<Rightarrow> go_error + merchant_txn list \<times> int \<Rightarrow> go_error + merchant_txn list \<times> int" where
  "enriched env w r =
     (case r of Inl err \<Rightarrow> Inl err | Inr (txs, n) \<Rightarrow> Inr (enrich_merchant_names (merchant_name env w) Map.empty txs, n))"

definition fetch_transactions ::
  "merchant_env \<Rightarrow> int option \<Rightarrow> find_all_request \<Rightarrow> go_error + merchant_txn list \<times> int" where
  "fetch_transactions env merchant req =
     (case normalize_page (fa_page req) (fa_page_size req) of
        (page, page_size) \<Rightarrow> me_transactions env (map_option go_int32 merchant) (go_int32 page) (go_int32 page_size) (fa_search req))"

definition svc_find_all_transactions ::
  "merchant_env \<Rightarrow> find_all_request \<Rightarrow> (go_error, merchant_txn list \<times> int, merchant_world) op" where
  "svc_find_all_transactions env req w =
     on_merchant_cache (txn_page env [] req (enriched env w (fetch_transactions env None req))) w"

definition svc_find_transactions_by_merchant ::
  "merchant_env \<Rightarrow> int \<Rightarrow> find_all_request \<Rightarrow> (go_error, merchant_txn list \<times> int, merchant_world) op" where
  "svc_find_transactions_by_merchant env i req w =
     on_merchant_cache (txn_page env (''merchant:'' @ itoa i @ '':'') req (enriched env w (fetch_transactions env (Some i) req))) w"

text \<open>The key is looked up in the table, and its merchant's name overwrites every other.\<close>

definition svc_find_transactions_by_api_key ::
  "merchant_env \<Rightarrow> string \<Rightarrow> find_all_request \<Rightarrow> (go_error, merchant_txn list \<times> int, merchant_world) op" where
  "svc_find_transactions_by_api_key env api_key req w =
     on_merchant_cache (txn_page env (''apikey:'' @ api_key @ '':'') req
       (case repo_find_by_api_key (me_fault env ''GetMerchantByApiKey'') api_key (mo_db w) of
          Inl err \<Rightarrow> Inl err
        | Inr m \<Rightarrow>
            (case fetch_transactions env (Some (mw_id m)) req of
               Inl err \<Rightarrow> Inl err
             | Inr (txs, n) \<Rightarrow> Inr (map (\<lambda>tx. tx\<lparr>mt_name := mw_name m\<rparr>) txs, n)))) w"

section \<open>Handlers\<close>

definition ErrGrpcMerchantInvalidID :: go_error where
  "ErrGrpcMerchantInvalidID = new_grpc_error ''Invalid Merchant ID'' codes_InvalidArgument"

definition ErrGrpcMerchantInvalidUserID :: go_error where
  "ErrGrpcMerchantInvalidUserID = new_grpc_error ''Invalid Merchant User ID'' codes_InvalidArgument"

definition ErrGrpcMerchantInvalidApiKey :: go_error where
  "ErrGrpcMerchantInvalidApiKey = new_grpc_error ''Invalid Merchant Api Key'' codes_InvalidArgument"

definition ErrGrpcValidateCreateMerchant :: go_error where
  "ErrGrpcValidateCreateMerchant = new_grpc_error ''Invalid input for create merchant'' codes_InvalidArgument"

definition ErrGrpcValidateUpdateMerchant :: go_error where
  "ErrGrpcValidateUpdateMerchant = new_grpc_error ''Invalid input for update merchant'' codes_InvalidArgument"

definition ErrGrpcDocumentInvalidID :: go_error where
  "ErrGrpcDocumentInvalidID = new_grpc_error ''Invalid merchant id'' codes_InvalidArgument"

definition ErrGrpcValidateCreateMerchantDocument :: go_error where
  "ErrGrpcValidateCreateMerchantDocument = new_grpc_error ''Invalid input for create merchant document'' codes_InvalidArgument"

definition ErrGrpcFailedUpdateMerchantDocument :: go_error where
  "ErrGrpcFailedUpdateMerchantDocument = new_grpc_error ''Failed to update merchant document'' codes_Internal"

definition handle_create_merchant :: "merchant_env \<Rightarrow> string \<Rightarrow> int \<Rightarrow> (go_error, merchant_row, merchant_world) op" where
  "handle_create_merchant env name user =
     (if name = [] \<or> user < 1 then ret (Inl ErrGrpcValidateCreateMerchant) else answer (svc_create_merchant env name user))"

definition with_merchant_id :: "int \<Rightarrow> (go_error, 'a, merchant_world) op \<Rightarrow> (go_error, 'a, merchant_world) op" where
  "with_merchant_id i m = (if i = 0 then ret (Inl ErrGrpcMerchantInvalidID) else answer m)"

definition handle_update_merchant ::
  "merchant_env \<Rightarrow> update_merchant_request \<Rightarrow> (go_error, merchant_row, merchant_world) op" where
  "handle_update_merchant env req =
     (if um_id req = 0 then ret (Inl ErrGrpcMerchantInvalidID)
      else if um_name req = [] \<or> um_user req < 1 \<or> um_status req = [] then ret (Inl ErrGrpcValidateUpdateMerchant)
      else answer (svc_update_merchant env req))"

definition handle_trashed_merchant :: "merchant_env \<Rightarrow> int \<Rightarrow> (go_error, merchant_row, merchant_world) op" where
  "handle_trashed_merchant env i = with_merchant_id i (svc_trashed_merchant env i)"

definition handle_restore_merchant :: "merchant_env \<Rightarrow> int \<Rightarrow> (go_error, merchant_row, merchant_world) op" where
  "handle_restore_merchant env i = with_merchant_id i (svc_restore_merchant env i)"

definition handle_delete_merchant_permanent :: "merchant_env \<Rightarrow> int \<Rightarrow> (go_error, unit, merchant_world) op" where
  "handle_delete_merchant_permanent env i = with_merchant_id i (svc_delete_merchant_permanent env i)"

definition handle_restore_all_merchant :: "merchant_env \<Rightarrow> (go_error, unit, merchant_world) op" where
  "handle_restore_all_merchant env = answer (svc_restore_all_merchant env)"

definition handle_delete_all_merchant_permanent :: "merchant_env \<Rightarrow> (go_error, unit, merchant_world) op" where
  "handle_delete_all_merchant_permanent env = answer (svc_delete_all_merchant_permanent env)"

definition handle_find_merchant_by_id :: "merchant_env \<Rightarrow> int \<Rightarrow> (go_error, merchant_row, merchant_world) op" where
  "handle_find_merchant_by_id env i = with_merchant_id i (svc_find_merchant_by_id env i)"

definition handle_find_by_api_key :: "merchant_env \<Rightarrow> string \<Rightarrow> (go_error, merchant_row, merchant_world) op" where
  "handle_find_by_api_key env api_key =
     (if api_key = [] then ret (Inl ErrGrpcMerchantInvalidApiKey) else answer (svc_find_by_api_key env api_key))"

definition handle_find_by_merchant_user_id :: "merchant_env \<Rightarrow> int \<Rightarrow> (go_error, merchant_row list, merchant_world) op" where
  "handle_find_by_merchant_user_id env user =
     (if user \<le> 0 then ret (Inl ErrGrpcMerchantInvalidUserID) else answer (svc_find_by_merchant_user_id env user))"

definition handle_find_all_merchant ::
  "merchant_env \<Rightarrow> string \<Rightarrow> int \<Rightarrow> int \<Rightarrow> (go_error, merchant_row list \<times> page_meta, merchant_world) op" where
  "handle_find_all_merchant env = page_answer (svc_find_all_merchants env)"

definition handle_find_active_merchant ::
  "merchant_env \<Rightarrow> string \<Rightarrow> int \<Rightarrow> int \<Rightarrow> (go_error, merchant_row list \<times> page_meta, merchant_world) op" where
  "handle_find_active_merchant env = page_answer (svc_find_active_merchants env)"

definition handle_find_trashed_merchant ::
  "merchant_env \<Rightarrow> string \<Rightarrow> int \<Rightarrow> int \<Rightarrow> (go_error, merchant_row list \<times> page_meta, merchant_world) op" where
  "handle_find_trashed_merchant env = page_answer (svc_find_trashed_merchants env)"

definition handle_create_document ::
  "merchant_env \<Rightarrow> create_document_request \<Rightarrow> (go_error, document_row, merchant_world) op" where
  "handle_create_document env req =
     (if cd_merchant req < 1 \<or> cd_type req = [] \<or> cd_url req = [] then ret (Inl ErrGrpcValidateCreateMerchantDocument)
      else answer (svc_create_document env req))"

definition handle_update_document ::
  "merchant_env \<Rightarrow> update_document_request \<Rightarrow> (go_error, document_row, merchant_world) op" where
  "handle_update_document env req =
     (if ds_id req = 0 then ret (Inl ErrGrpcDocumentInvalidID)
      else if ds_merchant req < 1 \<or> ds_type req = [] \<or> ds_url req = [] \<or> ds_status req = [] \<or> ds_note req = []
      then ret (Inl ErrGrpcFailedUpdateMerchantDocument)
      else answer (svc_update_document env req))"

definition handle_update_document_status ::
  "merchant_env \<Rightarrow> document_status_request \<Rightarrow> (go_error, document_row, merchant_world) op" where
  "handle_update_document_status env req =
     (if ds_id req = 0 then ret (Inl ErrGrpcDocumentInvalidID)
      else if ds_merchant req < 1 \<or> ds_status req = [] \<or> ds_note req = [] then ret (Inl ErrGrpcFailedUpdateMerchantDocument)
      else answer (svc_update_document_status env req))"

definition with_document_id :: "int \<Rightarrow> (go_error, 'a, merchant_world) op \<Rightarrow> (go_error, 'a, merchant_world) op" where
  "with_document_id i m = (if i = 0 then ret (Inl ErrGrpcDocumentInvalidID) else answer m)"

definition handle_trashed_document :: "merchant_env \<Rightarrow> int \<Rightarrow> (go_error, document_row, merchant_world) op" where
  "handle_trashed_document env i = with_document_id i (svc_trashed_document env i)"

definition handle_restore_document :: "merchant_env \<Rightarrow> int \<Rightarrow> (go_error, document_row, merchant_world) op" where
  "handle_restore_document env i = with_document_id i (svc_restore_document env i)"

definition handle_delete_document_permanent :: "merchant_env \<Rightarrow> int \<Rightarrow> (go_error, unit, merchant_world) op" where
  "handle_delete_document_permanent env i = with_document_id i (svc_delete_document_permanent env i)"

definition handle_restore_all_document :: "merchant_env \<Rightarrow> (go_error, unit, merchant_world) op" where
  "handle_restore_all_document env = answer (svc_restore_all_document env)"

definition handle_delete_all_document_permanent :: "merchant_env \<Rightarrow> (go_error, unit, merchant_world) op" where
  "handle_delete_all_document_permanent env = answer (svc_delete_all_document_permanent env)"

definition handle_find_document_by_id :: "merchant_env \<Rightarrow> int \<Rightarrow> (go_error, document_row, merchant_world) op" where
  "handle_find_document_by_id env i = with_document_id i (svc_find_document_by_id env i)"

definition handle_find_all_document ::
  "merchant_env \<Rightarrow> string \<Rightarrow> int \<Rightarrow> int \<Rightarrow> (go_error, document_row list \<times> page_meta, merchant_world) op" where
  "handle_find_all_document env = page_answer (svc_find_all_documents env)"

definition handle_find_active_document ::
  "merchant_env \<Rightarrow> string \<Rightarrow> int \<Rightarrow> int \<Rightarrow> (go_error, document_row list \<times> page_meta, merchant_world) op" where
  "handle_find_active_document env = page_answer (svc_find_active_documents env)"

definition handle_find_trashed_document ::
  "merchant_env \<Rightarrow> string \<Rightarrow> int \<Rightarrow> int \<Rightarrow> (go_error, document_row list \<times> page_meta, merchant_world) op" where
  "handle_find_trashed_document env = page_answer (svc_find_trashed_documents env)"

definition txn_answer ::
  "(find_all_request \<Rightarrow> (go_error, merchant_txn list \<times> int, merchant_world) op) \<Rightarrow> string \<Rightarrow> int \<Rightarrow> int \<Rightarrow>
   (go_error, merchant_txn list \<times> page_meta, merchant_world) op" where
  "txn_answer svc term page page_size =
     (case normalize_page page page_size of (p, n) \<Rightarrow>
        let req = \<lparr>fa_search = term, fa_page = p, fa_page_size = n\<rparr>
        in try_or (svc req) (\<lambda>err. ret (Inl (to_grpc_error err)))
             (\<lambda>(txs, total). ret (Inr (txs, page_meta_of req total))))"

definition handle_find_all_transaction_merchant ::
  "merchant_env \<Rightarrow> string \<Rightarrow> int \<Rightarrow> int \<Rightarrow> (go_error, merchant_txn list \<times> page_meta, merchant_world) op" where
  "handle_find_all_transaction_merchant env = txn_answer (svc_find_all_transactions env)"

definition handle_find_all_transaction_by_merchant ::
  "merchant_env \<Rightarrow> int \<Rightarrow> string \<Rightarrow> int \<Rightarrow> int \<Rightarrow> (go_error, merchant_txn list \<times> page_meta, merchant_world) op" where
  "handle_find_all_transaction_by_merchant env i = txn_answer (svc_find_transactions_by_merchant env i)"

definition handle_find_all_transaction_by_api_key ::
  "merchant_env \<Rightarrow> string \<Rightarrow> string \<Rightarrow> int \<Rightarrow> int \<Rightarrow> (go_error, merchant_txn list \<times> page_meta, merchant_world) op" where
  "handle_find_all_transaction_by_api_key env api_key = txn_answer (svc_find_transactions_by_api_key env api_key)"

section \<open>The consumer\<close>

text \<open>
  One request of the gateway: a key, a correlation and a reply topic (\<open>None\<close> when it cannot
  be parsed). \<open>False\<close> is the error that ends the claim, so that the message, which has not
  been marked, is delivered again.
\<close>

definition is_not_found :: "go_error \<Rightarrow> bool" where
  "is_not_found err \<longleftrightarrow> (case as_app_error err of None \<Rightarrow> False | Some e \<Rightarrow> app_type e = ErrorTypeNotFound)"

definition reply_about_key ::
  "merchant_env \<Rightarrow> string \<Rightarrow> string \<Rightarrow> bool \<Rightarrow> int \<Rightarrow> merchant_world \<Rightarrow> bool \<times> merchant_world" where
  "reply_about_key env correlation reply_topic valid i w =
     (me_sent env reply_topic, tell env [(reply_topic, correlation, MerchantReply correlation valid i)] w)"

definition consume_api_key_request ::
  "merchant_env \<Rightarrow> (string \<times> string \<times> string) option \<Rightarrow> merchant_world \<Rightarrow> bool \<times> merchant_world" where
  "consume_api_key_request env msg w =
     (case msg of
        None \<Rightarrow> (True, w)
      | Some (api_key, correlation, reply_topic) \<Rightarrow>
          (case svc_find_by_api_key env api_key w of
             (Inl err, w') \<Rightarrow> if is_not_found err then reply_about_key env correlation reply_topic False 0 w' else (False, w')
           | (Inr m, w') \<Rightarrow> reply_about_key env correlation reply_topic True (mw_id m) w'))"

end
