(* ===== verification/MerchantFacts.thy ===== *)
theory MerchantFacts
  imports MerchantService Staleness
begin

text \<open>
  What the merchant service guarantees: its tables stay well formed, a key is only ever
  answered with the merchant it was given to, the gateway gets an answer before its request
  is marked, and a merchant that was trashed is forgotten by the cache in bounded time.
\<close>

section \<open>Steps of the service\<close>

definition merchant_env_at :: "int \<Rightarrow> merchant_env \<Rightarrow> bool" where
  "merchant_env_at now env \<longleftrightarrow> me_now env = now \<and> rand_ok (me_cache env)"

inductive merchant_step :: "int \<Rightarrow> merchant_world \<Rightarrow> merchant_world \<Rightarrow> bool" where
  "merchant_env_at now env \<Longrightarrow> merchant_step now w (snd (svc_create_merchant env name user w))"
| "merchant_env_at now env \<Longrightarrow> merchant_step now w (snd (svc_update_merchant env req w))"
| "merchant_env_at now env \<Longrightarrow> merchant_step now w (snd (svc_update_merchant_status env i status w))"
| "merchant_env_at now env \<Longrightarrow> merchant_step now w (snd (svc_trashed_merchant env i w))"
| "merchant_env_at now env \<Longrightarrow> merchant_step now w (snd (svc_restore_merchant env i w))"
| "merchant_env_at now env \<Longrightarrow> merchant_step now w (snd (svc_delete_merchant_permanent env i w))"
| "merchant_env_at now env \<Longrightarrow> merchant_step now w (snd (svc_restore_all_merchant env w))"
| "merchant_env_at now env \<Longrightarrow> merchant_step now w (snd (svc_delete_all_merchant_permanent env w))"
| "merchant_env_at now env \<Longrightarrow> merchant_step now w (snd (svc_create_document env cd w))"
| "merchant_env_at now env \<Longrightarrow> merchant_step now w (snd (svc_update_document env ud w))"
| "merchant_env_at now env \<Longrightarrow> merchant_step now w (snd (svc_update_document_status env ds w))"
| "merchant_env_at now env \<Longrightarrow> merchant_step now w (snd (svc_trashed_document env i w))"
| "merchant_env_at now env \<Longrightarrow> merchant_step now w (snd (svc_restore_document env i w))"
| "merchant_env_at now env \<Longrightarrow> merchant_step now w (snd (svc_delete_document_permanent env i w))"
| "merchant_env_at now env \<Longrightarrow> merchant_step now w (snd (svc_restore_all_document env w))"
| "merchant_env_at now env \<Longrightarrow> merchant_step now w (snd (svc_delete_all_document_permanent env w))"
| "merchant_env_at now env \<Longrightarrow> merchant_step now w (snd (svc_find_merchant_by_id env i w))"
| "merchant_env_at now env \<Longrightarrow> merchant_step now w (snd (svc_find_by_api_key env key w))"
| "merchant_env_at now env \<Longrightarrow> merchant_step now w (snd (svc_find_by_merchant_user_id env user w))"
| "merchant_env_at now env \<Longrightarrow> merchant_step now w (snd (svc_find_all_merchants env page w))"
| "merchant_env_at now env \<Longrightarrow> merchant_step now w (snd (svc_find_active_merchants env page w))"
| "merchant_env_at now env \<Longrightarrow> merchant_step now w (snd (svc_find_trashed_merchants env page w))"
| "merchant_env_at now env \<Longrightarrow> merchant_step now w (snd (svc_find_document_by_id env i w))"
| "merchant_env_at now env \<Longrightarrow> merchant_step now w (snd (svc_find_all_documents env page w))"
| "merchant_env_at now env \<Longrightarrow> merchant_step now w (snd (svc_find_active_documents env page w))"
| "merchant_env_at now env \<Longrightarrow> merchant_step now w (snd (svc_find_trashed_documents env page w))"
| "merchant_env_at now env \<Longrightarrow> merchant_step now w (snd (svc_find_all_transactions env page w))"
| "merchant_env_at now env \<Longrightarrow> merchant_step now w (snd (svc_find_transactions_by_merchant env i page w))"
| "merchant_env_at now env \<Longrightarrow> merchant_step now w (snd (svc_find_transactions_by_api_key env key page w))"
| "merchant_env_at now env \<Longrightarrow> merchant_step now w (snd (consume_api_key_request env msg w))"

definition empty_merchant_db :: merchant_db where
  "empty_merchant_db = \<lparr>merchant_rows = [], merchant_seq = 1, document_rows = [], document_seq = 1\<rparr>"

definition empty_merchant_world :: merchant_world where
  "empty_merchant_world = \<lparr>mo_db = empty_merchant_db, mo_cache = Map.empty, mo_sent = []\<rparr>"

text \<open>A command changes the tables and may drop keys, a query changes only the cache.\<close>

lemma tell_frame [simp]: "mo_db (tell env ms w) = mo_db w" "mo_cache (tell env ms w) = mo_cache w"
  by (simp_all add: tell_def)

lemma drop_key_frame [simp]:
  "mo_db (drop_key env key w) = mo_db w" "mo_cache (drop_key env key w) = delete_from_cache (me_cache env) key (mo_cache w)"
  by (simp_all add: drop_key_def)

lemma merchant_fail_frame [simp]: "snd (merchant_fail e w) = w"
  by (simp add: merchant_fail_def ret_def)

lemma merchant_command_frame [simp]:
  "mo_cache (snd (merchant_command f m w)) = mo_cache w" "mo_db (snd (merchant_command f m w)) = snd (m (mo_db w))"
  by (simp_all add: merchant_command_def map_error_def on_merchant_db_def zoom_def split: prod.splits sum.splits)

lemma on_merchant_cache_frame [simp]:
  "mo_cache (snd (on_merchant_cache m w)) = snd (m (mo_cache w))" "mo_db (snd (on_merchant_cache m w)) = mo_db w"
  by (simp_all add: on_merchant_cache_def zoom_def split: prod.splits)

lemma followed_frame: "snd (followed after m w) = snd (m w) \<or> (\<exists>x. snd (followed after m w) = after x (snd (m w)))"
  by (auto simp: followed_def split: prod.splits sum.splits)

lemma followed_db: "(\<And>x w. mo_db (after x w) = mo_db w) \<Longrightarrow> mo_db (snd (followed after m w)) = mo_db (snd (m w))"
  using followed_frame [of after m w] by auto

lemmas merchant_command_defs =
  svc_trashed_merchant_def svc_restore_merchant_def svc_delete_merchant_permanent_def svc_restore_all_merchant_def
  svc_delete_all_merchant_permanent_def svc_restore_document_def svc_delete_document_permanent_def
  svc_restore_all_document_def svc_delete_all_document_permanent_def

lemmas merchant_query_defs =
  svc_find_merchant_by_id_def svc_find_by_api_key_def svc_find_by_merchant_user_id_def svc_find_all_merchants_def
  svc_find_active_merchants_def svc_find_trashed_merchants_def svc_find_document_by_id_def svc_find_all_documents_def
  svc_find_active_documents_def svc_find_trashed_documents_def svc_find_all_transactions_def
  svc_find_transactions_by_merchant_def svc_find_transactions_by_api_key_def

lemmas merchant_repo_defs =
  repo_update_merchant_def repo_update_merchant_status_def repo_trashed_merchant_def repo_restore_merchant_def
  repo_delete_merchant_permanent_def repo_restore_all_merchant_def repo_delete_all_merchant_permanent_def
  repo_create_document_def repo_update_document_def repo_update_document_status_def repo_trashed_document_def
  repo_restore_document_def repo_delete_document_permanent_def repo_restore_all_document_def
  repo_delete_all_document_permanent_def delete_merchant_permanently_sql_def delete_all_permanent_merchants_sql_def

text \<open>The commands that also drop a key or send something, by what they do to tables and cache.\<close>

lemma told_frame:
  "mo_db (snd (svc_create_merchant env name user w))
     = (if isl (merchant_user env user) then mo_db w
        else snd (repo_create_merchant (me_fault env ''CreateMerchant'') (me_now env) (me_api_key env) name user (mo_db w)))"
  "mo_cache (snd (svc_create_merchant env name user w)) = mo_cache w"
  "mo_db (snd (svc_create_document env cd w))
     = (if isl (merchant_and_user env (cd_merchant cd) w) then mo_db w
        else snd (repo_create_document (me_fault env ''CreateMerchantDocument'') (me_now env) cd (mo_db w)))"
  "mo_cache (snd (svc_create_document env cd w)) = mo_cache w"
  by (auto simp: svc_create_merchant_def svc_create_document_def followed_def split: prod.splits sum.splits dest!: arg_cong [of _ _ snd]
      intro: arg_cong [of _ _ mo_db])

lemma dropped_db:
  "mo_db (snd (svc_update_merchant env req w)) = snd (repo_update_merchant (me_fault env ''UpdateMerchant'') (me_now env) req (mo_db w))"
  "mo_db (snd (svc_update_document env ud w))
     = snd (repo_update_document (me_fault env ''UpdateMerchantDocument'') (me_now env) ud (mo_db w))"
  "mo_db (snd (svc_trashed_document env i w))
     = snd (repo_trashed_document (me_fault env ''TrashMerchantDocument'') (me_now env) i (mo_db w))"
  by (simp_all add: svc_update_merchant_def svc_update_document_def svc_trashed_document_def followed_db)

lemma status_db:
  "mo_db (snd (svc_update_merchant_status env i status w)) = mo_db w
   \<or> mo_db (snd (svc_update_merchant_status env i status w))
     = snd (repo_update_merchant_status (me_fault env ''UpdateMerchantStatus'') (me_now env) i status (mo_db w))"
  "mo_db (snd (svc_update_document_status env ds w)) = mo_db w
   \<or> mo_db (snd (svc_update_document_status env ds w))
     = snd (repo_update_document_status (me_fault env ''UpdateMerchantDocumentStatus'') (me_now env) ds (mo_db w))"
  by (auto simp: svc_update_merchant_status_def svc_update_document_status_def followed_db split: option.splits prod.splits sum.splits)

definition drops :: "merchant_env \<Rightarrow> merchant_world \<Rightarrow> merchant_world \<Rightarrow> bool" where
  "drops env w w' \<longleftrightarrow>
     mo_cache w' = mo_cache w \<or> (\<exists>key. mo_cache w' = delete_from_cache (me_cache env) key (mo_cache w))"

lemma drops_followed:
  assumes "mo_cache (snd (m w)) = mo_cache w" "\<And>x w. drops env w (after x w)"
  shows "drops env w (snd (followed after m w))"
proof -
  have "drops env w (after x (snd (m w)))" for x using assms(2) [of "snd (m w)" x] assms(1) by (simp add: drops_def)
  moreover have "drops env w (snd (m w))" using assms(1) by (simp add: drops_def)
  ultimately show ?thesis using followed_frame [of after m w] by metis
qed

lemma dropped_cache:
  "drops env w (snd (svc_update_merchant env req w))" "drops env w (snd (svc_update_merchant_status env i status w))"
  "drops env w (snd (svc_update_document env ud w))" "drops env w (snd (svc_update_document_status env ds w))"
  "drops env w (snd (svc_trashed_document env i w))"
proof -
  have drop: "drops env w (drop_key env key w)" "drops env w (drop_key env key (tell env ms w))" "drops env w w" for key ms w
    by (auto simp: drops_def)
  show "drops env w (snd (svc_update_merchant env req w))" "drops env w (snd (svc_update_merchant_status env i status w))"
    "drops env w (snd (svc_update_document env ud w))" "drops env w (snd (svc_update_document_status env ds w))"
    "drops env w (snd (svc_trashed_document env i w))"
    by (auto simp: svc_update_merchant_def svc_update_merchant_status_def svc_update_document_def
        svc_update_document_status_def svc_trashed_document_def drop intro!: drops_followed
        split: option.splits prod.splits sum.splits)
qed

lemma consume_frame_merchant:
  "mo_db (snd (consume_api_key_request env msg w)) = mo_db w"
  "mo_cache (snd (consume_api_key_request env msg w))
     = (case msg of None \<Rightarrow> mo_cache w | Some (key, c, t) \<Rightarrow> mo_cache (snd (svc_find_by_api_key env key w)))"
proof -
  have "mo_db (snd (svc_find_by_api_key env key w)) = mo_db w" for key by (simp add: svc_find_by_api_key_def)
  then have db: "svc_find_by_api_key env key w = (r, w') \<Longrightarrow> mo_db w' = mo_db w" for key r w' by (metis snd_conv)
  show "mo_db (snd (consume_api_key_request env msg w)) = mo_db w"
    "mo_cache (snd (consume_api_key_request env msg w))
     = (case msg of None \<Rightarrow> mo_cache w | Some (key, c, t) \<Rightarrow> mo_cache (snd (svc_find_by_api_key env key w)))"
    by (auto simp: consume_api_key_request_def reply_about_key_def dest: db split: option.splits prod.splits sum.splits)
qed

section \<open>The tables\<close>

definition merchant_tables_ok :: "merchant_db \<Rightarrow> bool" where
  "merchant_tables_ok db \<longleftrightarrow>
     distinct (map mw_id (merchant_rows db)) \<and> distinct (map mw_key (merchant_rows db))
     \<and> (\<forall>m \<in> set (merchant_rows db). mw_id m < merchant_seq db)
     \<and> distinct (map dw_id (document_rows db)) \<and> (\<forall>d \<in> set (document_rows db). dw_id d < document_seq db)
     \<and> dw_merchant ` set (document_rows db) \<subseteq> mw_id ` set (merchant_rows db)"

lemma merchant_fresh: "merchant_tables_ok db \<Longrightarrow> merchant_seq db \<notin> mw_id ` set (merchant_rows db)"
  by (force simp: merchant_tables_ok_def)

lemma document_fresh: "merchant_tables_ok db \<Longrightarrow> document_seq db \<notin> dw_id ` set (document_rows db)"
  by (force simp: merchant_tables_ok_def)

lemma create_merchant_keeps: "keeps merchant_tables_ok (create_merchant_sql now name api_key user status)"
proof (rule keepsI)
  fix db assume ok: "merchant_tables_ok db"
  have "mw_id m < merchant_seq db + 1" if "m \<in> set (merchant_rows db)" for m
    using ok that by (fastforce simp: merchant_tables_ok_def)
  then show "merchant_tables_ok (snd (create_merchant_sql now name api_key user status db))" using ok merchant_fresh [OF ok]
    by (simp add: create_merchant_sql_def Let_def merchant_tables_ok_def subset_insertI2)
qed

lemma create_document_keeps: "keeps merchant_tables_ok (create_document_sql now merchant kind url status note)"
proof (rule keepsI)
  fix db assume ok: "merchant_tables_ok db"
  have "dw_id d < document_seq db + 1" if "d \<in> set (document_rows db)" for d
    using ok that by (fastforce simp: merchant_tables_ok_def)
  then show "merchant_tables_ok (snd (create_document_sql now merchant kind url status note db))" using ok document_fresh [OF ok]
    by (simp add: create_document_sql_def Let_def merchant_tables_ok_def)
qed

lemma delete_merchants_keeps: "keeps merchant_tables_ok (delete_merchants_where p)"
proof (rule keepsI)
  fix db assume ok: "merchant_tables_ok db"
  then have "dw_merchant ` {d \<in> set (document_rows db). dw_merchant d \<notin> mw_id ` {m \<in> set (merchant_rows db). p m}}
      \<subseteq> mw_id ` {m \<in> set (merchant_rows db). \<not> p m}"
    unfolding merchant_tables_ok_def by blast
  then show "merchant_tables_ok (snd (delete_merchants_where p db))" using ok
    by (simp add: delete_merchants_where_def merchant_tables_ok_def Let_def distinct_map_filter)
qed

lemma merchants_updated_ok:
  assumes "merchant_tables_ok db" "\<And>m. mw_id (f m) = mw_id m" "\<And>m. mw_key (f m) = mw_key m"
  shows "merchant_tables_ok (db\<lparr>merchant_rows := update_where p f (merchant_rows db)\<rparr>)"
proof -
  have maps: "map mw_id (update_where p f (merchant_rows db)) = map mw_id (merchant_rows db)"
    "map mw_key (update_where p f (merchant_rows db)) = map mw_key (merchant_rows db)"
    by (simp_all add: map_update_where assms(2,3))
  have "mw_id m < merchant_seq db" if m: "m \<in> set (update_where p f (merchant_rows db))" for m
    using in_update_where [OF m] assms(1,2) by (auto simp: merchant_tables_ok_def)
  moreover have "mw_id ` set (update_where p f (merchant_rows db)) = mw_id ` set (merchant_rows db)"
    using arg_cong [OF maps(1), of set] by (simp only: set_map)
  ultimately show ?thesis using assms(1) maps by (simp add: merchant_tables_ok_def)
qed

lemma documents_updated_ok:
  assumes "merchant_tables_ok db" "\<And>d. dw_id (f d) = dw_id d" "\<And>d. dw_merchant (f d) = dw_merchant d"
  shows "merchant_tables_ok (db\<lparr>document_rows := update_where p f (document_rows db)\<rparr>)"
proof -
  have ids: "map dw_id (update_where p f (document_rows db)) = map dw_id (document_rows db)"
    using assms(2) by (rule map_update_where)
  have "dw_id d < document_seq db \<and> dw_merchant d \<in> mw_id ` set (merchant_rows db)"
    if d: "d \<in> set (update_where p f (document_rows db))" for d
    using in_update_where [OF d] assms by (auto simp: merchant_tables_ok_def)
  then show ?thesis using assms(1) ids by (auto simp: merchant_tables_ok_def)
qed

lemma documents_filtered_ok:
  "merchant_tables_ok db \<Longrightarrow> merchant_tables_ok (db\<lparr>document_rows := filter p (document_rows db)\<rparr>)"
  by (auto simp: merchant_tables_ok_def distinct_map_filter)

lemmas merchant_update_sql_defs = update_merchant_sql_def update_merchant_status_sql_def trash_merchant_sql_def restore_merchant_sql_def

lemmas document_update_sql_defs =
  update_document_sql_def update_document_status_sql_def trash_document_sql_def restore_document_sql_def

lemma merchant_updates_keep:
  "keeps merchant_tables_ok (update_merchant_sql now i name user status)"
  "keeps merchant_tables_ok (update_merchant_status_sql now i status)"
  "keeps merchant_tables_ok (trash_merchant_sql now i)" "keeps merchant_tables_ok (restore_merchant_sql i)"
  "keeps merchant_tables_ok restore_all_merchants_sql"
  unfolding merchant_update_sql_defs on_merchants_def
  by (rule keeps_zoom_returning, rule merchants_updated_ok, assumption, simp, simp, simp)+
    (auto simp: keeps_def restore_all_merchants_sql_def on_merchants_def zoom_def intro!: merchants_updated_ok)

lemma document_updates_keep:
  "keeps merchant_tables_ok (update_document_sql now i kind url status note)"
  "keeps merchant_tables_ok (update_document_status_sql now i status note)"
  "keeps merchant_tables_ok (trash_document_sql now i)" "keeps merchant_tables_ok (restore_document_sql i)"
  "keeps merchant_tables_ok restore_all_documents_sql" "keeps merchant_tables_ok delete_all_permanent_documents_sql"
  "keeps merchant_tables_ok (delete_document_permanently_sql i)"
  unfolding document_update_sql_defs on_documents_def
  by (rule keeps_zoom_returning, rule documents_updated_ok, assumption, simp, simp, simp)+
    (auto simp: keeps_def restore_all_documents_sql_def delete_all_permanent_documents_sql_def
      delete_document_permanently_sql_def on_documents_def zoom_def simp del: de_Morgan_conj
      intro!: documents_updated_ok documents_filtered_ok)

lemma repo_create_merchant_keeps: "keeps merchant_tables_ok (repo_create_merchant fl now generated name user)"
  by (auto simp: repo_create_merchant_def intro!: keeps_map_error keeps_with_fault create_merchant_keeps split: sum.splits)

text \<open>Whatever the service does, its tables stay well formed.\<close>

lemma merchant_tables_stay_ok:
  "timed_run merchant_step t empty_merchant_world t' w \<Longrightarrow> merchant_tables_ok (mo_db w)"
proof (induction t w0 \<equiv> empty_merchant_world t' w rule: timed_run.induct)
  case (run_nil t)
  then show ?case by (simp add: empty_merchant_world_def empty_merchant_db_def merchant_tables_ok_def)
next
  case (run_step t t' w' w'')
  then have ok: "merchant_tables_ok (mo_db w')" by simp
  note sql = create_merchant_keeps create_document_keeps delete_merchants_keeps merchant_updates_keep document_updates_keep
  note keep = keepsD [where P = merchant_tables_ok, OF _ ok] repo_create_merchant_keeps sql keeps_map_error keeps_with_fault
  have repos: "merchant_tables_ok (snd (repo_update_merchant_status fl now i status (mo_db w')))"
    "merchant_tables_ok (snd (repo_update_document_status fl now ds (mo_db w')))" for fl now i status ds
    by (auto simp: merchant_repo_defs intro!: keep)
  have status: "merchant_tables_ok (mo_db (snd (svc_update_merchant_status env i status w')))"
    "merchant_tables_ok (mo_db (snd (svc_update_document_status env ds w')))" for env i status ds
    using status_db(1) [of env i status w'] status_db(2) [of env ds w'] repos ok by (elim disjE; simp)+
  show ?case using run_step.hyps(3)
    by cases (auto simp: merchant_command_defs merchant_query_defs consume_frame_merchant told_frame dropped_db ok
        merchant_repo_defs status intro!: keep)
qed simp

section \<open>API keys\<close>

definition holds_key :: "string \<Rightarrow> merchant_world \<Rightarrow> bool" where
  "holds_key key w \<longleftrightarrow> (\<exists>m \<in> set (merchant_rows (mo_db w)). mw_key m = key \<and> merchant_live m)"

definition answers_key :: "string \<Rightarrow> merchant_value \<Rightarrow> bool" where
  "answers_key key v \<longleftrightarrow> value_merchant v \<noteq> None"

lemma lookup_by_key:
  "repo_find_by_api_key fl key db = Inr m \<Longrightarrow> m \<in> set (merchant_rows db) \<and> mw_key m = key \<and> merchant_live m"
  by (auto simp: repo_find_by_api_key_def repo_lookup_def map_read_error_def read_fault_def row_or_none_def
      get_merchant_by_api_key_sql_def split: sum.splits fault.splits option.splits dest!: find_Some_mem)

lemma handled_Inr [simp]: "handled r = Inr x \<longleftrightarrow> r = Inr x"
  by (auto simp: handled_def map_read_error_def split: sum.splits)

lemma find_by_key_gone:
  assumes "\<not> holds_key key w" "gone_by T (answers_key key) (merchant_by_api_key_key key) (mo_cache w)"
  shows "gone_by T (answers_key key) (merchant_by_api_key_key key) (mo_cache (snd (svc_find_by_api_key env k w)))"
proof -
  have "repo_find_by_api_key fl key (mo_db w) \<noteq> Inr m" for fl m
    using assms(1) lookup_by_key by (fastforce simp: holds_key_def)
  then show ?thesis using assms(2)
    by (auto simp: svc_find_by_api_key_def merchant_by_api_key_key_def intro!: gone_by_find)
qed

lemma find_by_key_short:
  "merchant_env_at now env \<Longrightarrow> short_lived now (mo_cache w) \<Longrightarrow> short_lived now (mo_cache (snd (svc_find_by_api_key env key w)))"
  by (auto simp: svc_find_by_api_key_def merchant_env_at_def me_now_def)

lemma drops_short: "drops env w w' \<Longrightarrow> short_lived now (mo_cache w) \<Longrightarrow> short_lived now (mo_cache w')"
  by (auto simp: drops_def)

lemma drops_gone: "drops env w w' \<Longrightarrow> gone_by T bad key (mo_cache w) \<Longrightarrow> gone_by T bad key (mo_cache w')"
  by (auto simp: drops_def intro: gone_by_delete)

lemmas merchant_page_defs = merchant_page_def document_page_def txn_page_def

lemmas merchant_key_defs = merchant_by_id_key_def merchant_by_api_key_key_def merchant_by_user_id_key_def
  document_by_id_key_def txn_page_key_def listing_key_def

interpretation merchant_keys: forgetting_cache merchant_step mo_cache holds_key answers_key merchant_by_api_key_key
proof
  fix now w w' assume st: "merchant_step now w w'" and short: "short_lived now (mo_cache w)"
  show "short_lived now (mo_cache w')" using st
    by cases (use short in \<open>auto simp: merchant_command_defs merchant_query_defs told_frame consume_frame_merchant
        merchant_page_defs merchant_env_at_def me_now_def find_by_key_short intro: dropped_cache [THEN drops_short]
        split: option.splits sum.splits\<close>)
next
  fix now w w' key T assume st: "merchant_step now w w'" and gone: "\<not> holds_key key w"
    "gone_by T (answers_key key) (merchant_by_api_key_key key) (mo_cache w)"
  note find = find_by_key_gone [OF gone]
  show "gone_by T (answers_key key) (merchant_by_api_key_key key) (mo_cache w')" using st
  proof cases
    case (18 env k)
    then show ?thesis using find by simp
  next
    case (30 env msg)
    then show ?thesis using find gone by (auto simp: consume_frame_merchant split: option.splits)
  qed (use gone in \<open>auto simp: merchant_command_defs merchant_query_defs told_frame merchant_page_defs merchant_key_defs
      intro!: gone_by_find gone_by_page gone_by_set intro: dropped_cache [THEN drops_gone] split: option.splits sum.splits\<close>)
qed

text \<open>Trashing the only merchant with a key takes the key away.\<close>

lemma trashed_key_gone:
  assumes "merchant_tables_ok (mo_db w)" "svc_trashed_merchant env i w = (Inr m, w1)"
  shows "\<not> holds_key (mw_key m) w1"
proof -
  let ?p = "live_merchant (go_int32 i)" and ?f = "\<lambda>m. m\<lparr>mw_deleted := Some (me_now env)\<rparr>"
  have dist: "distinct (map mw_key (merchant_rows (mo_db w)))" and ids: "distinct (map mw_id (merchant_rows (mo_db w)))"
    using assms(1) by (simp_all add: merchant_tables_ok_def)
  obtain x where x: "find ?p (merchant_rows (mo_db w)) = Some x" "m = ?f x"
    "merchant_rows (mo_db w1) = update_where ?p ?f (merchant_rows (mo_db w))"
    using assms(2)
    by (auto simp: svc_trashed_merchant_def merchant_command_def map_error_def on_merchant_db_def zoom_def
        repo_trashed_merchant_def with_fault_def trash_merchant_sql_def on_merchants_def update_returning_def
        split: prod.splits sum.splits fault.splits option.splits)
  have mem: "x \<in> set (merchant_rows (mo_db w))" "?p x" using find_Some_mem [OF x(1)] by auto
  have "mw_key y \<noteq> mw_key m \<or> \<not> merchant_live y" if y: "y \<in> set (merchant_rows (mo_db w1))" for y
  proof -
    obtain z where z: "z \<in> set (merchant_rows (mo_db w))" "y = (if ?p z then ?f z else z)"
      using in_update_where [of y ?p ?f] y x(3) by auto
    show ?thesis
    proof (cases "mw_key z = mw_key x")
      case True
      then have "z = x" using dist z(1) mem(1) by (auto simp: distinct_map dest: inj_onD)
      then show ?thesis using z(2) mem(2) by (simp add: merchant_live_def)
    qed (use z(2) x(2) in auto)
  qed
  then show ?thesis by (auto simp: holds_key_def)
qed

text \<open>Whatever the cache holds under a key is the merchant with that key.\<close>

definition keyed :: "merchant_value redis \<Rightarrow> bool" where
  "keyed st \<longleftrightarrow> (\<forall>k v x m. st (merchant_by_api_key_key k) = Some (v, x) \<longrightarrow> value_merchant v = Some m \<longrightarrow> mw_key m = k)"

lemma keyed_set_other:
  "keyed st \<Longrightarrow> (\<And>k. q \<noteq> merchant_by_api_key_key k) \<Longrightarrow> keyed (set_to_cache env q v ttl st)"
  unfolding keyed_def by (metis set_to_cache_other)

lemma keyed_delete: "keyed st \<Longrightarrow> keyed (delete_from_cache env q st)"
  unfolding keyed_def by (meson delete_from_cache_stored)

lemma keyed_find_other:
  "keyed st \<Longrightarrow> (\<And>k. q \<noteq> merchant_by_api_key_key k) \<Longrightarrow> keyed (snd (cached_find env q sel wrap ttl fetched st))"
  by (auto simp: cached_find_def keyed_set_other split: option.splits sum.splits)

lemma keyed_page_other:
  "keyed st \<Longrightarrow> (\<And>k. q \<noteq> merchant_by_api_key_key k) \<Longrightarrow> keyed (snd (cached_page env q sel wrap f fetched st))"
  by (auto simp: cached_page_def keyed_find_other)

lemma keyed_find_by_key: "keyed (mo_cache w) \<Longrightarrow> keyed (mo_cache (snd (svc_find_by_api_key env key w)))"
proof -
  assume ok: "keyed (mo_cache w)"
  have "keyed (set_to_cache (me_cache env) (merchant_by_api_key_key key) (VMerchant m) ttl_default (mo_cache w))"
    if "mw_key m = key" for m
    unfolding keyed_def
  proof (intro allI impI)
    fix k v x n assume at: "set_to_cache (me_cache env) (merchant_by_api_key_key key) (VMerchant m) ttl_default (mo_cache w)
        (merchant_by_api_key_key k) = Some (v, x)" "value_merchant v = Some n"
    show "mw_key n = k"
    proof (cases "k = key")
      case True
      then show ?thesis using at ok that by (auto simp: keyed_def dest!: set_to_cache_stored)
    next
      case False
      then have "merchant_by_api_key_key k \<noteq> merchant_by_api_key_key key" by (simp add: merchant_by_api_key_key_def)
      then show ?thesis using at ok by (simp add: keyed_def)
    qed
  qed
  then show ?thesis using ok lookup_by_key
    by (auto simp: svc_find_by_api_key_def cached_find_def split: option.splits sum.splits)
qed

lemma drops_keyed: "drops env w w' \<Longrightarrow> keyed (mo_cache w) \<Longrightarrow> keyed (mo_cache w')"
  by (auto simp: drops_def intro: keyed_delete)

lemma keyed_step: "merchant_step now w w' \<Longrightarrow> keyed (mo_cache w) \<Longrightarrow> keyed (mo_cache w')"
proof (cases rule: merchant_step.cases, assumption)
  fix now env k assume "keyed (mo_cache w)" "w' = snd (svc_find_by_api_key env k w)"
  then show "keyed (mo_cache w')" using keyed_find_by_key by simp
next
  fix now env msg assume "keyed (mo_cache w)" "w' = snd (consume_api_key_request env msg w)"
  then show "keyed (mo_cache w')" using keyed_find_by_key by (auto simp: consume_frame_merchant split: option.splits)
qed (auto simp: merchant_command_defs merchant_query_defs told_frame merchant_page_defs merchant_key_defs
      intro!: keyed_find_other keyed_page_other keyed_set_other intro: dropped_cache [THEN drops_keyed] split: option.splits sum.splits)

lemma keyed_run: "timed_run merchant_step t w t' w' \<Longrightarrow> keyed (mo_cache w) \<Longrightarrow> keyed (mo_cache w')"
  by (induction rule: timed_run.induct) (auto intro: keyed_step)

lemma answered_merchant_has_the_key:
  assumes "keyed (mo_cache w)" "fst (svc_find_by_api_key env key w) = Inr m"
  shows "mw_key m = key"
proof (cases "Option.bind (get_from_cache (me_cache env) (merchant_by_api_key_key key) (mo_cache w)) value_merchant")
  case None
  then show ?thesis using assms(2) lookup_by_key
    by (auto simp: svc_find_by_api_key_def on_merchant_cache_def zoom_def cached_find_def split: sum.splits prod.splits)
next
  case (Some n)
  then have "mw_key n = key" using assms(1)
    by (fastforce simp: Option.bind_eq_Some_conv keyed_def dest!: get_from_cache_stored)
  then show ?thesis using Some assms(2)
    by (auto simp: svc_find_by_api_key_def on_merchant_cache_def zoom_def cached_find_def)
qed

lemma refused_without_key:
  assumes "\<not> holds_key key w" "\<And>v. get_from_cache (me_cache env) (merchant_by_api_key_key key) (mo_cache w) = Some v \<Longrightarrow> \<not> answers_key key v"
  shows "isl (fst (svc_find_by_api_key env key w))"
proof -
  have "repo_find_by_api_key fl key (mo_db w) \<noteq> Inr m" for fl m
    using assms(1) lookup_by_key by (fastforce simp: holds_key_def)
  moreover have "Option.bind (get_from_cache (me_cache env) (merchant_by_api_key_key key) (mo_cache w)) value_merchant = None"
    using assms(2) by (cases "get_from_cache (me_cache env) (merchant_by_api_key_key key) (mo_cache w)") (auto simp: answers_key_def)
  ultimately show ?thesis
    by (auto simp: svc_find_by_api_key_def on_merchant_cache_def zoom_def cached_find_def split: sum.splits prod.splits)
qed

text \<open>The key of a trashed merchant is refused five and a half minutes later at the latest.\<close>

lemma trashed_key_refused:
  assumes "timed_run merchant_step t0 empty_merchant_world t w" "merchant_env_at t env0"
    and "svc_trashed_merchant env0 i w = (Inr m, w1)"
    and "timed_run (\<lambda>now w w'. merchant_step now w w' \<and> \<not> holds_key (mw_key m) w') t w1 (me_now env) w'"
    and "t + stale_bound \<le> me_now env"
  shows "isl (fst (svc_find_by_api_key env (mw_key m) w'))"
proof (rule refused_without_key)
  have run: "timed_run merchant_step t0 empty_merchant_world t w1"
    using timed_run.run_step [OF assms(1) merchant_step.intros(4) [OF assms(2)], of i] assms(3) by simp
  have gone: "\<not> holds_key (mw_key m) w1" by (rule trashed_key_gone [OF merchant_tables_stay_ok [OF assms(1)] assms(3)])
  show "\<not> holds_key (mw_key m) w'" using assms(4) gone by (induction rule: timed_run.induct) auto
  show "\<not> answers_key (mw_key m) v"
    if "get_from_cache (me_cache env) (merchant_by_api_key_key (mw_key m)) (mo_cache w') = Some v" for v
    using merchant_keys.forgotten [OF run _ gone assms(4) [unfolded me_now_def] assms(5) [unfolded me_now_def] that]
    by (simp add: empty_merchant_world_def)
qed

section \<open>The answers to the gateway\<close>

text \<open>
  A request of the gateway about an API key is acknowledged only when an answer was
  sent: valid with the merchant that has exactly this key, or invalid because the lookup
  found no merchant; other failures leave the request to be delivered again
\<close>

theorem key_request_answered:
  assumes "timed_run merchant_step t empty_merchant_world t' w"
    and "consume_api_key_request env (Some (key, correlation, topic)) w = (True, w')"
  shows "(\<exists>m. fst (svc_find_by_api_key env key w) = Inr m \<and> mw_key m = key
            \<and> mo_sent w' = mo_sent w @ [(topic, correlation, MerchantReply correlation True (mw_id m))])
       \<or> (\<exists>err. fst (svc_find_by_api_key env key w) = Inl err \<and> is_not_found err
            \<and> mo_sent w' = mo_sent w @ [(topic, correlation, MerchantReply correlation False 0)])"
proof -
  have keyed: "keyed (mo_cache w)" by (rule keyed_run [OF assms(1)]) (simp add: empty_merchant_world_def keyed_def)
  have sent: "mo_sent (snd (svc_find_by_api_key env key w)) = mo_sent w"
    by (simp add: svc_find_by_api_key_def on_merchant_cache_def zoom_def split: prod.splits)
  obtain r v where run: "svc_find_by_api_key env key w = (r, v)" by fastforce
  show ?thesis
  proof (cases r)
    case (Inl err)
    then show ?thesis using assms(2) run sent
      by (auto simp: consume_api_key_request_def reply_about_key_def tell_def split: if_splits)
  next
    case (Inr m)
    then show ?thesis using assms(2) run sent answered_merchant_has_the_key [OF keyed, of env key m]
      by (auto simp: consume_api_key_request_def reply_about_key_def tell_def)
  qed
qed

section \<open>Names of merchants on transactions\<close>

text \<open>Looking every name up once per page gives what a lookup per transaction would give.\<close>

lemma enrich_known:
  "(\<And>i n. names i = Some n \<Longrightarrow> n = look i) \<Longrightarrow>
   enrich_merchant_names look names txs = map (\<lambda>tx. if mt_name tx = [] then tx\<lparr>mt_name := look (mt_merchant tx)\<rparr> else tx) txs"
proof (induction look names txs rule: enrich_merchant_names.induct)
  case (2 look names tx txs)
  show ?case
  proof (cases "mt_name tx = []")
    case True
    show ?thesis
    proof (cases "names (mt_merchant tx)")
      case None
      have "enrich_merchant_names look (names(mt_merchant tx \<mapsto> look (mt_merchant tx))) txs
          = map (\<lambda>tx. if mt_name tx = [] then tx\<lparr>mt_name := look (mt_merchant tx)\<rparr> else tx) txs"
      proof (rule 2(2) [OF _ None refl])
        fix i n assume "(names(mt_merchant tx \<mapsto> look (mt_merchant tx))) i = Some n"
        then show "n = look i" using 2(4) [of i n] by (cases "i = mt_merchant tx") simp_all
      qed (simp add: True)
      then show ?thesis using True None by simp
    next
      case (Some n)
      have "enrich_merchant_names look names txs
          = map (\<lambda>tx. if mt_name tx = [] then tx\<lparr>mt_name := look (mt_merchant tx)\<rparr> else tx) txs"
        by (rule 2(3) [OF _ Some], simp add: True, rule 2(4))
      moreover have "n = look (mt_merchant tx)" by (rule 2(4) [OF Some])
      ultimately show ?thesis using True Some by simp
    qed
  next
    case False
    then show ?thesis using 2(1) [OF False 2(4)] by simp
  qed
qed simp

lemma names_looked_up:
  "enrich_merchant_names look Map.empty txs
   = map (\<lambda>tx. if mt_name tx = [] then tx\<lparr>mt_name := look (mt_merchant tx)\<rparr> else tx) txs"
  by (rule enrich_known) simp

end
