(* ===== verification/Payments.thy ===== *)
theory Payments
  imports TransactionService MerchantFacts
begin

text \<open>
  The merchant service behind the transaction service: what \<open>pkg/adapter/merchant_grpc.go\<close>
  gets from the handlers, and what becomes of payments for a merchant that was trashed.
\<close>

definition merchant_for_payments :: "merchant_env \<Rightarrow> merchant_world \<Rightarrow> string \<Rightarrow> go_error + merchant_info" where
  "merchant_for_payments env w api_key =
     (case fst (handle_find_by_api_key env api_key w) of
        Inl err \<Rightarrow> Inl err
      | Inr m \<Rightarrow> Inr \<lparr>mi_id = mw_id m, mi_name = mw_name m, mi_user_id = mw_user m\<rparr>)"

lemma merchant_for_payments_refused:
  "isl (fst (svc_find_by_api_key env api_key w)) \<Longrightarrow> isl (merchant_for_payments env w api_key)"
  by (cases "svc_find_by_api_key env api_key w")
    (auto simp: merchant_for_payments_def handle_find_by_api_key_def answer_def map_error_def ret_def isl_def)

lemma unknown_key_touches_nothing:
  assumes "isl (v_find_merchant_by_api_key env api_key)"
  shows "\<exists>tb. snd (create_transaction env api_key req w) = w\<lparr>w_idem := tb\<rparr>"
proof -
  have body: "snd (create_transaction_body env api_key req v) = v" for v
    using assms by (auto simp: create_transaction_body_def fail_with_def ret_def split: option.splits sum.splits)
  obtain r w' where run: "create_transaction env api_key req w = (r, w')" by fastforce
  show ?thesis
  proof (cases rule: idem_run_cases [OF run [unfolded create_transaction_def]])
    case (1 tb)
    then show ?thesis using run by auto
  next
    case (2 tb se w2 tb')
    then have "w2 = w\<lparr>w_idem := tb\<rparr>" using body [of "w\<lparr>w_idem := tb\<rparr>"] by simp
    then show ?thesis using run 2(2) by auto
  qed
qed

text \<open>
  C34: from five and a half minutes after a merchant was trashed, as long as nothing gives
  its API key to a live merchant again, a payment under the key changes nothing but the
  idempotency table, whatever the merchant service did and cached before and since
\<close>

theorem trashed_merchant_is_paid_nothing:
  assumes "timed_run merchant_step t0 empty_merchant_world t w" "merchant_env_at t env0"
    and "svc_trashed_merchant env0 i w = (Inr m, w1)"
    and "timed_run (\<lambda>now w w'. merchant_step now w w' \<and> \<not> holds_key (mw_key m) w') t w1 (me_now env) w'"
    and "t + stale_bound \<le> me_now env"
    and "v_find_merchant_by_api_key penv = merchant_for_payments env w'"
  shows "\<exists>tb. snd (create_transaction penv (mw_key m) req pw) = pw\<lparr>w_idem := tb\<rparr>"
  using trashed_key_refused [OF assms(1-5)] assms(6)
  by (intro unknown_key_touches_nothing) (simp add: merchant_for_payments_refused)

section \<open>Runs\<close>

definition sample_merchant_env :: "int \<Rightarrow> merchant_env" where
  "sample_merchant_env now =
     \<lparr>me_cache = \<lparr>ce_now = now, ce_rand = (\<lambda>n. 0), ce_get_ok = True, ce_set_ok = True, ce_del_ok = True\<rparr>,
      me_fault = (\<lambda>_. Deliver), me_api_key = Inr ''key'', me_user = (\<lambda>i. Inr (Some (i, ''m@x''))), me_sent = (\<lambda>_. True),
      me_transactions = (\<lambda>_ _ _ _. Inr ([], 0))\<rparr>"

definition shop_world :: merchant_world where
  "shop_world = snd (svc_find_by_api_key (sample_merchant_env 0) ''key''
     (snd (svc_create_merchant (sample_merchant_env 0) ''shop'' 2 empty_merchant_world)))"

definition closed_world :: merchant_world where
  "closed_world = snd (svc_trashed_merchant (sample_merchant_env 0) 1 shop_world)"

definition closed_merchant :: merchant_row where
  "closed_merchant = hd (merchant_rows (mo_db closed_world))"

definition payment_env :: "int \<Rightarrow> merchant_world \<Rightarrow> create_txn_request svc_env" where
  "payment_env now w = (sample_env (\<lambda>_. Deliver) now)
     \<lparr>v_find_merchant_by_api_key := merchant_for_payments (sample_merchant_env now) w\<rparr>"

lemma sample_merchant_env_at: "merchant_env_at now (sample_merchant_env now)"
  by (simp add: merchant_env_at_def sample_merchant_env_def me_now_def rand_ok_def)

lemma shop_run: "timed_run merchant_step 0 empty_merchant_world 0 shop_world"
  unfolding shop_world_def
  by (intro timed_run.run_step [OF timed_run.run_step [OF timed_run.run_nil]]) (rule merchant_step.intros, rule sample_merchant_env_at)+

theorem trashed_merchant_is_paid_nothing_witness:
  "w_bal (snd (create_transaction (payment_env stale_bound closed_world) ''key'' sample_payment (sample_world 1000 50)))
   = w_bal (sample_world 1000 50 :: txn_world)"
proof -
  have key: "mw_key closed_merchant = ''key''" by code_simp
  have "\<exists>tb. snd (create_transaction (payment_env stale_bound closed_world) (mw_key closed_merchant) sample_payment (sample_world 1000 50))
      = (sample_world 1000 50)\<lparr>w_idem := tb\<rparr>"
  proof (rule trashed_merchant_is_paid_nothing [OF shop_run sample_merchant_env_at])
    have "fst (svc_trashed_merchant (sample_merchant_env 0) 1 shop_world) = Inr closed_merchant" by code_simp
    then show "svc_trashed_merchant (sample_merchant_env 0) 1 shop_world = (Inr closed_merchant, closed_world)"
      by (simp add: closed_world_def prod_eq_iff)
    show "timed_run (\<lambda>now w w'. merchant_step now w w' \<and> \<not> holds_key (mw_key closed_merchant) w') 0 closed_world
        (me_now (sample_merchant_env stale_bound)) closed_world"
      by (rule timed_run.run_wait [OF timed_run.run_nil]) (simp add: sample_merchant_env_def me_now_def stale_bound_def time_defs)
  qed (simp_all add: payment_env_def sample_merchant_env_def me_now_def)
  then show ?thesis by (auto simp: key w_bal_def)
qed

theorem key_request_answered_witness:
  "mo_sent (snd (consume_api_key_request (sample_merchant_env 0) (Some (''key'', ''c'', ''t'')) shop_world))
   = mo_sent shop_world @ [(''t'', ''c'', MerchantReply ''c'' True 1)]"
proof -
  have "fst (consume_api_key_request (sample_merchant_env 0) (Some (''key'', ''c'', ''t'')) shop_world) = True" by code_simp
  then have run: "consume_api_key_request (sample_merchant_env 0) (Some (''key'', ''c'', ''t'')) shop_world
      = (True, snd (consume_api_key_request (sample_merchant_env 0) (Some (''key'', ''c'', ''t'')) shop_world))"
    by (simp add: prod_eq_iff)
  have "map_sum id mw_id (fst (svc_find_by_api_key (sample_merchant_env 0) ''key'' shop_world)) = Inr 1" by code_simp
  then show ?thesis using key_request_answered [OF shop_run run]
    by (auto simp: map_sum_def split: sum.splits)
qed

section \<open>What the code leaves open\<close>

text \<open>Until then the trashed merchant is paid, and the gateway is told that its key is valid.\<close>

lemma trashed_merchant_still_paid:
  "let run = create_transaction (payment_env minute closed_world) ''key'' sample_payment (sample_world 1000 50)
   in \<not> isl (fst run) \<and> w_bal (snd run) ''4111'' = Some 700 \<and> w_bal (snd run) ''4222'' = Some 350"
  by code_simp

text \<open>A new merchant is inactive until it is reviewed; nobody looks at the status.\<close>

lemma inactive_merchant_paid:
  "map mw_status (merchant_rows (mo_db shop_world)) = [''inactive'']"
  "\<not> isl (fst (create_transaction (payment_env minute shop_world) ''key'' sample_payment (sample_world 1000 50)))"
  by code_simp+

text \<open>
  The reviewer's note is mailed but not stored; an approval tells the owner that the account
  is active while the merchant stays inactive.
\<close>

definition documented :: merchant_world where
  "documented = snd (svc_create_document (sample_merchant_env 0) \<lparr>cd_merchant = 1, cd_type = ''id'', cd_url = ''u''\<rparr> shop_world)"

lemma approval_changes_nothing_else:
  "let w = snd (svc_update_document_status (sample_merchant_env 0)
         \<lparr>ds_id = 1, ds_merchant = 1, ds_status = ''approved'', ds_note = ''fine''\<rparr> documented)
   in map dw_note (document_rows (mo_db w)) = [[]] \<and> map mw_status (merchant_rows (mo_db w)) = [''inactive'']
      \<and> (\<exists>mail \<in> set (map (snd \<circ> snd) (mo_sent w)). case mail of
            MerchantMail _ subject _ _ _ _ \<Rightarrow> subject = ''Merchant Document Status: Approved'' | _ \<Rightarrow> False)"
  by code_simp

text \<open>The merchant of the request gets the mail, not the one whose document it is.\<close>

lemma mail_to_the_wrong_merchant:
  "let env = (sample_merchant_env 0)\<lparr>me_api_key := Inr ''other'', me_user := (\<lambda>i. Inr (Some (i, if i = 2 then ''m@x'' else ''o@y'')))\<rparr>;
       w = snd (svc_create_merchant env ''other'' 3 documented);
       w' = snd (svc_update_document_status env \<lparr>ds_id = 1, ds_merchant = 2, ds_status = ''rejected'', ds_note = ''n''\<rparr> w)
   in map dw_merchant (document_rows (mo_db w')) = [1] \<and> map dw_status (document_rows (mo_db w')) = [''rejected'']
      \<and> (case snd (snd (last (mo_sent w'))) of MerchantMail address _ _ _ _ _ \<Rightarrow> address = ''o@y'' | _ \<Rightarrow> False)"
  by code_simp

text \<open>Deleting a merchant takes its live documents along, which the cache still answers.\<close>

lemma deleted_documents_answered:
  "let w = snd (svc_find_document_by_id (sample_merchant_env 0) 1 documented);
       w' = snd (svc_delete_merchant_permanent (sample_merchant_env 0) 1 (snd (svc_trashed_merchant (sample_merchant_env 0) 1 w)))
   in document_rows (mo_db w') = [] \<and> map_sum id dw_id (fst (svc_find_document_by_id (sample_merchant_env minute) 1 w')) = Inr 1"
  by code_simp

end
