(* ===== verification/MoneyQueries.thy ===== *)
theory MoneyQueries
  imports CommandWorld Staleness AuthStore
begin

text \<open>
  What the query sides of the four money services share (\<open>service/{transaction,transfer,topup,
  withdraw}\<close>, files \<open>*QueryRepository.go\<close>, \<open>*QueryCache.go\<close>, \<open>*QueryService.go\<close> and
  \<open>handler/query.go\<close>): a service is its command world and a cache, a listing orders the
  rows by their time, newest first, and a lookup by id or by owner goes through the cache.
  No command of these services touches the cache; the last section bounds how long an old
  version of a row is answered.
\<close>

section \<open>State and environment\<close>

datatype 'r money_value =
    VRow 'r
  | VRows "'r list"
  | VPage "('r \<times> int) list" int

record 'r served =
  sv_world :: "'r cmd_world"
  sv_cache :: "'r money_value redis"

text \<open>
  \<open>qe_scan\<close> is the order in which PostgreSQL happens to find the rows: \<open>ORDER BY\<close> of a time
  column says nothing about rows of the same time. \<open>qe_time_text\<close> prints a timestamp as
  \<open>::TEXT\<close> does, \<open>qe_time_char\<close> with the format \<open>YYYY-MM-DD HH24:MI:SS\<close>.
\<close>

record 'r query_env =
  qe_cache :: cache_env
  qe_fault :: "string \<Rightarrow> go_error fault"
  qe_scan :: "'r list \<Rightarrow> 'r list"
  qe_time_text :: "int \<Rightarrow> string"
  qe_time_char :: "int \<Rightarrow> string"

definition qe_now :: "'r query_env \<Rightarrow> int" where
  "qe_now env = ce_now (qe_cache env)"

definition on_served :: "('r cmd_world \<Rightarrow> 'a \<times> 'r cmd_world) \<Rightarrow> 'r served \<Rightarrow> 'a \<times> 'r served" where
  "on_served = zoom sv_world (\<lambda>w sv. sv\<lparr>sv_world := w\<rparr>)"

definition on_served_cache ::
  "('r money_value redis \<Rightarrow> 'a \<times> 'r money_value redis) \<Rightarrow> 'r served \<Rightarrow> 'a \<times> 'r served" where
  "on_served_cache = zoom sv_cache (\<lambda>c sv. sv\<lparr>sv_cache := c\<rparr>)"

definition sv_rows :: "'r served \<Rightarrow> 'r list" where
  "sv_rows sv = t_rows (w_table (sv_world sv))"

section \<open>Statements and lookups\<close>

definition newest_page_sql ::
  "'r query_env \<Rightarrow> ('r \<Rightarrow> bool) \<Rightarrow> ('r \<Rightarrow> string list) \<Rightarrow> ('r \<Rightarrow> int) \<Rightarrow> string \<Rightarrow> int \<Rightarrow> int \<Rightarrow> 'r list \<Rightarrow>
   go_error + ('r \<times> int) list" where
  "newest_page_sql env chosen columns time term limit offset rows =
     list_sql chosen columns (\<lambda>r. - time r) term limit offset (qe_scan env rows)"

definition newest_sql :: "'r query_env \<Rightarrow> ('r \<Rightarrow> bool) \<Rightarrow> ('r \<Rightarrow> int) \<Rightarrow> 'r list \<Rightarrow> 'r list" where
  "newest_sql env chosen time rows = sort_key (\<lambda>r. - time r) (filter chosen (qe_scan env rows))"

text \<open>A listing: the error of the repository is replaced by the one of the service.\<close>

definition served_page ::
  "'r query_env \<Rightarrow> string \<Rightarrow> string \<Rightarrow> ('r list \<Rightarrow> go_error + ('r \<times> int) list) \<Rightarrow>
   (go_error, ('r \<times> int) list \<times> int, 'r served) op" where
  "served_page env key operation fetch sv =
     on_served_cache (cached_page (qe_cache env) key
       (\<lambda>v. case v of VPage rows n \<Rightarrow> Some (rows, n) | _ \<Rightarrow> None) (\<lambda>(rows, n). VPage rows n)
       (\<lambda>_. err_failed operation) (fetch (sv_rows sv))) sv"

text \<open>
  A lookup by id: the entry is asked for under the id of the request and stored under that
  of the row, and every error of the repository becomes a not-found.
\<close>

definition served_row ::
  "'a cmd_row_scheme query_env \<Rightarrow> (int \<Rightarrow> string) \<Rightarrow> string \<Rightarrow> int \<Rightarrow>
   ('a cmd_row_scheme list \<Rightarrow> go_error + 'a cmd_row_scheme) \<Rightarrow>
   (go_error, 'a cmd_row_scheme, 'a cmd_row_scheme served) op" where
  "served_row env key entity i fetch sv =
     (case get_from_cache (qe_cache env) (key i) (sv_cache sv) of
        Some (VRow r) \<Rightarrow> (Inr r, sv)
      | _ \<Rightarrow>
          (case fetch (sv_rows sv) of
             Inl err \<Rightarrow> (Inl (handle_error (Some (err_not_found_response entity))), sv)
           | Inr r \<Rightarrow> (Inr r, sv\<lparr>sv_cache := set_to_cache (qe_cache env) (key (row_id r)) (VRow r)
                                             ttl_default (sv_cache sv)\<rparr>)))"

text \<open>The rows of an owner: no rows are a nil slice, which is not cached.\<close>

definition served_rows ::
  "'r query_env \<Rightarrow> string \<Rightarrow> go_error \<Rightarrow> ('r list \<Rightarrow> go_error + 'r list) \<Rightarrow>
   (go_error, 'r list, 'r served) op" where
  "served_rows env key failure fetch sv =
     (case get_from_cache (qe_cache env) key (sv_cache sv) of
        Some (VRows rs) \<Rightarrow> (Inr rs, sv)
      | _ \<Rightarrow>
          (case fetch (sv_rows sv) of
             Inl err \<Rightarrow> (Inl (handle_error (Some failure)), sv)
           | Inr rs \<Rightarrow> (Inr rs, if rs = [] then sv
                                else sv\<lparr>sv_cache := set_to_cache (qe_cache env) key (VRows rs)
                                           ttl_default (sv_cache sv)\<rparr>)))"

text \<open>\<open>FindById\<close> of the repositories, and their calls that answer a list.\<close>

definition repo_row ::
  "go_error fault \<Rightarrow> string \<Rightarrow> int \<Rightarrow> 'a cmd_row_scheme list \<Rightarrow> go_error + 'a cmd_row_scheme" where
  "repo_row fl entity i rows =
     repo_lookup fl (err_not_found_response entity) (find (live_id (go_int32 i)) rows)"

definition repo_rows :: "go_error fault \<Rightarrow> string \<Rightarrow> 'r list \<Rightarrow> go_error + 'r list" where
  "repo_rows fl entity rs =
     map_read_error (lookup_error (err_not_found_response entity)) (read_fault fl (Inr rs))"

section \<open>Handlers\<close>

text \<open>
  The user asserted in the metadata, \<open>x-user-id\<close>: the errors of \<open>strconv.Atoi\<close> are dropped,
  and its value with an error is 0, or the bound that a number out of range exceeds.
\<close>

definition metadata_user :: "string list \<Rightarrow> int" where
  "metadata_user headers =
     (case headers of
        [] \<Rightarrow> 0
      | s # _ \<Rightarrow>
          (case atoi s of
             Some n \<Rightarrow> n
           | None \<Rightarrow>
               let neg = (s \<noteq> [] \<and> hd s = CHR ''-'');
                   ds = (if s \<noteq> [] \<and> (hd s = CHR ''-'' \<or> hd s = CHR ''+'') then tl s else s)
               in if ds = [] \<or> \<not> list_all is_digit ds then 0
                  else if neg then - 9223372036854775808 else 9223372036854775807))"

definition with_id :: "go_error \<Rightarrow> int \<Rightarrow> (go_error, 'a, 's) op \<Rightarrow> (go_error, 'a, 's) op" where
  "with_id invalid i m = (if i = 0 then ret (Inl invalid) else answer m)"

text \<open>\<open>validate:"required,min=50000"\<close> on an amount and \<open>validate:"required"\<close> on a time.\<close>

definition min_request_amount :: int where "min_request_amount = 50000"

text \<open>\<open>Timestamp.AsTime()\<close>: a missing timestamp is the epoch, which is not Go's zero time.\<close>

definition as_time :: "int option \<Rightarrow> int" where
  "as_time t = (case t of None \<Rightarrow> 0 | Some ns \<Rightarrow> ns)"

section \<open>Steps\<close>

text \<open>
  What a request can do: a command changes the command world in some way and not the cache;
  a query adds at most one entry for five minutes, and a row only under its own id and only
  while it is live.
\<close>

definition sv_live :: "'a cmd_row_scheme \<Rightarrow> 'a cmd_row_scheme served \<Rightarrow> bool" where
  "sv_live r sv \<longleftrightarrow> r \<in> set (sv_rows sv) \<and> row_live r"

inductive served_step ::
  "(int \<Rightarrow> string) \<Rightarrow> int \<Rightarrow> 'a cmd_row_scheme served \<Rightarrow> 'a cmd_row_scheme served \<Rightarrow> bool" for key where
  command_step: "served_step key now sv (sv\<lparr>sv_world := w\<rparr>)"
| entry_step: "ce_now env = now \<Longrightarrow> rand_ok env \<Longrightarrow> (\<And>r. v = VRow r \<Longrightarrow> k = key (row_id r) \<and> sv_live r sv) \<Longrightarrow>
    served_step key now sv (sv\<lparr>sv_cache := set_to_cache env k v ttl_default (sv_cache sv)\<rparr>)"

inductive_cases served_stepE: "served_step key now sv sv'"

lemma served_step_refl [intro, simp]: "served_step key now sv sv"
  using served_step.command_step [of key now sv "sv_world sv"] by simp

lemma on_served_step [intro, simp]: "served_step key now sv (snd (on_served m sv))"
  by (simp add: on_served_def zoom_def case_prod_unfold served_step.command_step)

lemma map_error_snd [simp]: "snd (map_error f m s) = snd (m s)"
  by (simp add: map_error_def split: prod.splits sum.splits)

lemma answer_snd [simp]: "snd (answer m s) = snd (m s)"
  by (simp add: answer_def)

lemma answer_fst_Inr [simp]: "fst (answer m s) = Inr x \<longleftrightarrow> fst (m s) = Inr x"
  by (simp add: answer_def map_error_def split: prod.splits sum.splits)

lemma with_id_step [intro]: "served_step key now sv (snd (m sv)) \<Longrightarrow> served_step key now sv (snd (with_id e i m sv))"
  by (simp add: with_id_def ret_def)

lemma page_answer_snd: "\<exists>req. snd (page_answer svc term page page_size s) = snd (svc req s)"
proof -
  obtain p n where "normalize_page page page_size = (p, n)" by (cases "normalize_page page page_size")
  then have "snd (page_answer svc term page page_size s) = snd (svc \<lparr>fa_search = term, fa_page = p, fa_page_size = n\<rparr> s)"
    by (auto simp: page_answer_def Let_def try_or_def ret_def split: prod.splits sum.splits)
  then show ?thesis ..
qed

lemma page_answer_step [intro]:
  "(\<And>req. served_step key now sv (snd (svc req sv))) \<Longrightarrow> served_step key now sv (snd (page_answer svc term page page_size sv))"
  using page_answer_snd [of svc "term" page page_size sv] by metis

definition query_at :: "int \<Rightarrow> 'r query_env \<Rightarrow> bool" where
  "query_at now env \<longleftrightarrow> qe_now env = now \<and> rand_ok (qe_cache env)"

lemma served_page_step [intro]:
  assumes "query_at now env" shows "served_step key now sv (snd (served_page env k operation fetch sv))"
proof -
  let ?wrap = "\<lambda>(rows, n). VPage rows n"
  have "sv_cache (snd (served_page env k operation fetch sv)) = sv_cache sv
      \<or> (\<exists>x. sv_cache (snd (served_page env k operation fetch sv))
           = set_to_cache (qe_cache env) k (?wrap x) ttl_default (sv_cache sv))"
    and same: "snd (served_page env k operation fetch sv)
      = sv\<lparr>sv_cache := sv_cache (snd (served_page env k operation fetch sv))\<rparr>"
    by (auto simp: served_page_def on_served_cache_def zoom_def cached_page_def cached_find_def
        split: prod.splits sum.splits option.splits)
  then consider "snd (served_page env k operation fetch sv) = sv"
    | x where "snd (served_page env k operation fetch sv)
        = sv\<lparr>sv_cache := set_to_cache (qe_cache env) k (?wrap x) ttl_default (sv_cache sv)\<rparr>"
    by (metis served.surjective served.update_convs(2))
  then show ?thesis
  proof cases
    case (2 x)
    show ?thesis unfolding 2 using assms
      by (intro served_step.entry_step) (auto simp: query_at_def qe_now_def split: prod.splits)
  qed simp
qed

lemma served_row_step [intro]:
  assumes "query_at now env" "\<And>r. fetch (sv_rows sv) = Inr r \<Longrightarrow> sv_live r sv"
  shows "served_step key now sv (snd (served_row env key entity i fetch sv))"
  using assms by (auto simp: served_row_def query_at_def qe_now_def
      intro: served_step.entry_step split: option.splits money_value.splits sum.splits)

lemma served_rows_step [intro]:
  assumes "query_at now env" shows "served_step key now sv (snd (served_rows env k failure fetch sv))"
  using assms by (auto simp: served_rows_def query_at_def qe_now_def
      intro: served_step.entry_step split: option.splits money_value.splits sum.splits)

lemma repo_row_found: "repo_row fl entity i rows = Inr r \<Longrightarrow> r \<in> set rows \<and> live_id (go_int32 i) r"
  by (auto simp: repo_row_def repo_lookup_def map_read_error_def read_fault_def row_or_none_def
      split: sum.splits fault.splits option.splits dest: find_Some_mem)

lemma repo_row_live: "repo_row fl entity i (sv_rows sv) = Inr r \<Longrightarrow> sv_live r sv \<and> row_id r = go_int32 i"
  by (auto simp: sv_live_def live_id_def dest: repo_row_found)

section \<open>Old versions\<close>

interpretation money_cache: forgetting_cache "served_step key" sv_cache sv_live "\<lambda>r v. v = VRow r" "\<lambda>r. key (row_id r)"
  for key :: "int \<Rightarrow> string"
proof
  fix now and sv sv' :: "'a cmd_row_scheme served" assume st: "served_step key now sv sv'" and short: "short_lived now (sv_cache sv)"
  show "short_lived now (sv_cache sv')" using st by cases (use short in auto)
next
  fix now and sv sv' :: "'a cmd_row_scheme served" and f T assume st: "served_step key now sv sv'" and "\<not> sv_live f sv"
    "gone_by T (\<lambda>v. v = VRow f) (key (row_id f)) (sv_cache sv)"
  then show "gone_by T (\<lambda>v. v = VRow f) (key (row_id f)) (sv_cache sv')" by cases (auto intro!: gone_by_set)
qed

text \<open>Rows are filed under their own ids.\<close>

definition filed :: "(int \<Rightarrow> string) \<Rightarrow> 'a cmd_row_scheme served \<Rightarrow> bool" where
  "filed key sv \<longleftrightarrow> (\<forall>i r x. sv_cache sv (key i) = Some (VRow r, x) \<longrightarrow> row_id r = i)"

lemma run_filed:
  "timed_run (served_step key) t0 sv0 t sv \<Longrightarrow> sv_cache sv0 = Map.empty \<Longrightarrow> inj key \<Longrightarrow> filed key sv"
proof (induction rule: timed_run.induct)
  case (run_step t sv t' sv' sv'')
  then have old: "filed key sv'" by simp
  from run_step.hyps(2) show ?case
  proof cases
    case (entry_step env v k)
    show ?thesis unfolding filed_def
    proof (intro allI impI)
      fix i r x assume new: "sv_cache sv'' (key i) = Some (VRow r, x)"
      show "row_id r = i"
      proof (cases "k = key i \<and> v = VRow r")
        case True
        then show ?thesis using entry_step(4) run_step.prems(2) by (auto simp: inj_eq)
      next
        case False
        then show ?thesis using new old entry_step(1)
          by (cases "k = key i") (auto simp: filed_def dest!: set_to_cache_stored)
      qed
    qed
  qed (use old in \<open>simp add: filed_def\<close>)
qed (auto simp: filed_def)

text \<open>
  A version that is no longer live, and does not become live again, is not answered from
  five and a half minutes later on.
\<close>

lemma old_version_forgotten:
  assumes run: "timed_run (served_step key) t0 sv0 t sv" "sv_cache sv0 = Map.empty" "inj key" "\<not> sv_live r sv"
    and gone: "timed_run (\<lambda>now sv sv'. served_step key now sv sv' \<and> \<not> sv_live r sv') t sv (qe_now env) sv'"
    and late: "t + stale_bound \<le> qe_now env"
    and answer: "fst (served_row env key entity i (repo_row fl entity' i) sv') = Inr r'"
  shows "r' \<noteq> r"
proof
  assume eq: "r' = r"
  have run': "timed_run (served_step key) t sv (qe_now env) sv'" using gone by (rule timed_run_weaken) simp
  have "timed_run (served_step key) t0 sv0 (qe_now env) sv'" using run' run(1)
    by (induction rule: timed_run.induct) (auto intro: timed_run.intros)
  then have filed: "filed key sv'" using run(2,3) by (rule run_filed)
  have still: "\<not> sv_live r sv'" using gone run(4) by (induction rule: timed_run.induct) auto
  then have "repo_row fl entity' i (sv_rows sv') \<noteq> Inr r" using repo_row_live by blast
  then have hit: "get_from_cache (qe_cache env) (key i) (sv_cache sv') = Some (VRow r)"
    using answer eq by (auto simp: served_row_def split: option.splits money_value.splits sum.splits)
  then have "row_id r = i" using filed by (auto simp: filed_def dest!: get_from_cache_stored)
  then show False
    using money_cache.forgotten [OF run(1) _ run(4) gone [unfolded qe_now_def] late [unfolded qe_now_def]] hit run(2)
    by simp
qed

end
