(* ===== verification/TransactionQueries.thy ===== *)
theory TransactionQueries
  imports TransactionService MoneyQueries
begin

text \<open>
  The query side of the transaction service and its gRPC handlers (\<open>service/transaction/
  repository/transactionQueryRepository.go\<close>, \<open>redis/transactionQueryCache.go\<close>,
  \<open>service/transactionQueryService.go\<close>, \<open>handler/{query,command}.go\<close>), with the statements
  it reads.
\<close>

section \<open>Statements and repository\<close>

definition get_transactions_sql ::
  "txn_row query_env \<Rightarrow> txn_row list \<Rightarrow> string \<Rightarrow> int \<Rightarrow> int \<Rightarrow> go_error + (txn_row \<times> int) list" where
  "get_transactions_sql env rows term limit offset =
     newest_page_sql env row_live
       (\<lambda>r. [t_card r, t_method r, row_status r]) t_time term limit offset rows"

definition get_transactions_by_card_number_sql ::
  "txn_row query_env \<Rightarrow> string \<Rightarrow> txn_row list \<Rightarrow> string \<Rightarrow> int \<Rightarrow> int \<Rightarrow> go_error + (txn_row \<times> int) list" where
  "get_transactions_by_card_number_sql env cnum rows term limit offset =
     newest_page_sql env (\<lambda>r. row_live r \<and> t_card r = cnum)
       (\<lambda>r. [t_method r, row_status r]) t_time term limit offset rows"

definition get_active_transactions_sql ::
  "txn_row query_env \<Rightarrow> txn_row list \<Rightarrow> string \<Rightarrow> int \<Rightarrow> int \<Rightarrow> go_error + (txn_row \<times> int) list" where
  "get_active_transactions_sql env rows term limit offset =
     newest_page_sql env row_live
       (\<lambda>r. [t_card r, t_method r]) t_time term limit offset rows"

definition get_trashed_transactions_sql ::
  "txn_row query_env \<Rightarrow> txn_row list \<Rightarrow> string \<Rightarrow> int \<Rightarrow> int \<Rightarrow> go_error + (txn_row \<times> int) list" where
  "get_trashed_transactions_sql env rows term limit offset =
     newest_page_sql env (\<lambda>r. \<not> row_live r)
       (\<lambda>r. [t_card r, t_method r]) t_time term limit offset rows"

definition get_transactions_by_merchant_id_sql :: "txn_row query_env \<Rightarrow> int \<Rightarrow> txn_row list \<Rightarrow> txn_row list" where
  "get_transactions_by_merchant_id_sql env merchant_id = newest_sql env (\<lambda>r. row_live r \<and> t_merchant_id r = merchant_id) t_time"

definition repo_find_all_transactions ::
  "txn_row query_env \<Rightarrow> find_all_request \<Rightarrow> txn_row list \<Rightarrow> go_error + (txn_row \<times> int) list" where
  "repo_find_all_transactions env req rows =
     repo_page (qe_fault env ''GetTransactions'') ''find all transactions''
       (get_transactions_sql env rows) req"

definition repo_find_transactions_by_card_number ::
  "txn_row query_env \<Rightarrow> string \<Rightarrow> find_all_request \<Rightarrow> txn_row list \<Rightarrow> go_error + (txn_row \<times> int) list" where
  "repo_find_transactions_by_card_number env cnum req rows =
     repo_page (qe_fault env ''GetTransactionsByCardNumber'') ''find transactions by card number''
       (get_transactions_by_card_number_sql env cnum rows) req"

definition repo_find_active_transactions ::
  "txn_row query_env \<Rightarrow> find_all_request \<Rightarrow> txn_row list \<Rightarrow> go_error + (txn_row \<times> int) list" where
  "repo_find_active_transactions env req rows =
     repo_page (qe_fault env ''GetActiveTransactions'') ''find active transactions''
       (get_active_transactions_sql env rows) req"

definition repo_find_trashed_transactions ::
  "txn_row query_env \<Rightarrow> find_all_request \<Rightarrow> txn_row list \<Rightarrow> go_error + (txn_row \<times> int) list" where
  "repo_find_trashed_transactions env req rows =
     repo_page (qe_fault env ''GetTrashedTransactions'') ''find trashed transactions''
       (get_trashed_transactions_sql env rows) req"

definition repo_find_transaction_by_id ::
  "txn_row query_env \<Rightarrow> int \<Rightarrow> txn_row list \<Rightarrow> go_error + txn_row" where
  "repo_find_transaction_by_id env i = repo_row (qe_fault env ''GetTransactionByID'') txn_entity i"

definition repo_find_transactions_by_merchant_id ::
  "txn_row query_env \<Rightarrow> int \<Rightarrow> txn_row list \<Rightarrow> go_error + txn_row list" where
  "repo_find_transactions_by_merchant_id env merchant_id rows = repo_rows (qe_fault env ''GetTransactionsByMerchantID'') txn_entity (get_transactions_by_merchant_id_sql env (go_int32 merchant_id) rows)"

section \<open>Cached queries\<close>

definition transaction_by_id_key :: "int \<Rightarrow> string" where
  "transaction_by_id_key i = ''transaction:id:'' @ itoa i"

definition svc_find_all_txns ::
  "txn_row query_env \<Rightarrow> find_all_request \<Rightarrow> (go_error, (txn_row \<times> int) list \<times> int, txn_row served) op" where
  "svc_find_all_txns env req =
     served_page env (listing_key ''transaction:all'' req) ''find all transactions''
       (repo_find_all_transactions env req)"

definition svc_find_transactions_by_card_number ::
  "txn_row query_env \<Rightarrow> string \<Rightarrow> find_all_request \<Rightarrow> (go_error, (txn_row \<times> int) list \<times> int, txn_row served) op" where
  "svc_find_transactions_by_card_number env cnum req =
     served_page env (listing_key (''transaction:card_number:'' @ cnum) req) ''find all by card number''
       (repo_find_transactions_by_card_number env cnum req)"

definition svc_find_transaction_by_id ::
  "txn_row query_env \<Rightarrow> int \<Rightarrow> (go_error, txn_row, txn_row served) op" where
  "svc_find_transaction_by_id env i = served_row env transaction_by_id_key ''Transaction'' i (repo_find_transaction_by_id env i)"

definition svc_find_active_transactions ::
  "txn_row query_env \<Rightarrow> find_all_request \<Rightarrow> (go_error, (txn_row \<times> int) list \<times> int, txn_row served) op" where
  "svc_find_active_transactions env req =
     served_page env (listing_key ''transaction:active'' req) ''find active transactions''
       (repo_find_active_transactions env req)"

definition svc_find_trashed_transactions ::
  "txn_row query_env \<Rightarrow> find_all_request \<Rightarrow> (go_error, (txn_row \<times> int) list \<times> int, txn_row served) op" where
  "svc_find_trashed_transactions env req =
     served_page env (listing_key ''transaction:trashed'' req) ''find trashed transactions''
       (repo_find_trashed_transactions env req)"

definition svc_find_transactions_by_merchant_id ::
  "txn_row query_env \<Rightarrow> int \<Rightarrow> (go_error, txn_row list, txn_row served) op" where
  "svc_find_transactions_by_merchant_id env merchant_id =
     served_rows env (''transaction:merchant_id:'' @ itoa merchant_id) (err_failed ''find by merchant ID'') (repo_find_transactions_by_merchant_id env merchant_id)"

section \<open>Handlers\<close>

definition ErrGrpcTransactionInvalidID :: go_error where
  "ErrGrpcTransactionInvalidID = new_grpc_error ''Invalid Transaction ID'' codes_InvalidArgument"

definition ErrGrpcValidateCreateTransactionRequest :: go_error where
  "ErrGrpcValidateCreateTransactionRequest = new_grpc_error ''Invalid input for create card'' codes_InvalidArgument"

definition ErrGrpcValidateUpdateTransactionRequest :: go_error where
  "ErrGrpcValidateUpdateTransactionRequest = new_grpc_error ''Invalid input for update card'' codes_InvalidArgument"

definition transaction_fields_ok :: "string \<Rightarrow> int \<Rightarrow> string \<Rightarrow> int \<Rightarrow> int \<Rightarrow> bool" where
  "transaction_fields_ok cnum amount payment merchant_id time \<longleftrightarrow>
     cnum \<noteq> [] \<and> min_request_amount \<le> amount \<and> payment \<noteq> [] \<and> 1 \<le> merchant_id \<and> time \<noteq> zero_time
     \<and> payment_method_validator payment"

text \<open>The merchant of the request is checked and then ignored: the service takes that of the key.\<close>

definition handle_create_transaction ::
  "create_txn_request svc_env \<Rightarrow> string \<Rightarrow> int \<Rightarrow> int option \<Rightarrow> create_txn_request \<Rightarrow>
   (go_error, txn_row, txn_row served) op" where
  "handle_create_transaction env api_key merchant_id time req =
     (let request = req\<lparr>ct_time := as_time time\<rparr>
      in if \<not> transaction_fields_ok (ct_card request) (ct_amount request) (ct_method request) merchant_id (ct_time request)
         then ret (Inl ErrGrpcValidateCreateTransactionRequest)
         else answer (on_served (create_transaction env api_key request)))"

definition handle_update_transaction ::
  "create_txn_request svc_env \<Rightarrow> string \<Rightarrow> string \<Rightarrow> int \<Rightarrow> int option \<Rightarrow> update_txn_request \<Rightarrow>
   (go_error, txn_row, txn_row served) op" where
  "handle_update_transaction env api_key cnum merchant_id time req =
     (if ut_id req = 0 then ret (Inl ErrGrpcTransactionInvalidID)
      else if \<not> transaction_fields_ok cnum (ut_amount req) (ut_method req) merchant_id (as_time time)
      then ret (Inl ErrGrpcValidateUpdateTransactionRequest)
      else answer (on_served (update_transaction env api_key req)))"

definition handle_trashed_transaction :: "create_txn_request svc_env \<Rightarrow> int \<Rightarrow> (go_error, txn_row, txn_row served) op" where
  "handle_trashed_transaction env i = with_id ErrGrpcTransactionInvalidID i (on_served (trashed_transaction env i))"

definition handle_restore_transaction :: "create_txn_request svc_env \<Rightarrow> int \<Rightarrow> (go_error, txn_row, txn_row served) op" where
  "handle_restore_transaction env i = with_id ErrGrpcTransactionInvalidID i (on_served (restore_transaction env i))"

definition handle_delete_transaction_permanent :: "create_txn_request svc_env \<Rightarrow> int \<Rightarrow> (go_error, unit, txn_row served) op" where
  "handle_delete_transaction_permanent env i = with_id ErrGrpcTransactionInvalidID i (on_served (delete_transaction_permanent env i))"

definition handle_restore_all_transaction :: "create_txn_request svc_env \<Rightarrow> (go_error, unit, txn_row served) op" where
  "handle_restore_all_transaction env = answer (on_served (restore_all_transaction env))"

definition handle_delete_all_transaction_permanent :: "create_txn_request svc_env \<Rightarrow> (go_error, unit, txn_row served) op" where
  "handle_delete_all_transaction_permanent env = answer (on_served (delete_all_transaction_permanent env))"

definition handle_find_all_transaction ::
  "txn_row query_env \<Rightarrow> string \<Rightarrow> int \<Rightarrow> int \<Rightarrow> (go_error, txn_row list \<times> page_meta, txn_row served) op" where
  "handle_find_all_transaction env = page_answer (svc_find_all_txns env)"

definition handle_find_all_transaction_by_card_number ::
  "txn_row query_env \<Rightarrow> string \<Rightarrow> string \<Rightarrow> int \<Rightarrow> int \<Rightarrow> (go_error, txn_row list \<times> page_meta, txn_row served) op" where
  "handle_find_all_transaction_by_card_number env cnum = page_answer (svc_find_transactions_by_card_number env cnum)"

definition handle_find_by_id_transaction ::
  "txn_row query_env \<Rightarrow> int \<Rightarrow> (go_error, txn_row, txn_row served) op" where
  "handle_find_by_id_transaction env i = with_id ErrGrpcTransactionInvalidID i (svc_find_transaction_by_id env i)"

definition handle_find_active_transaction ::
  "txn_row query_env \<Rightarrow> string \<Rightarrow> int \<Rightarrow> int \<Rightarrow> (go_error, txn_row list \<times> page_meta, txn_row served) op" where
  "handle_find_active_transaction env = page_answer (svc_find_active_transactions env)"

definition handle_find_trashed_transaction ::
  "txn_row query_env \<Rightarrow> string \<Rightarrow> int \<Rightarrow> int \<Rightarrow> (go_error, txn_row list \<times> page_meta, txn_row served) op" where
  "handle_find_trashed_transaction env = page_answer (svc_find_trashed_transactions env)"

definition handle_find_transaction_by_merchant_id ::
  "txn_row query_env \<Rightarrow> int \<Rightarrow> (go_error, txn_row list, txn_row served) op" where
  "handle_find_transaction_by_merchant_id env merchant_id =
     with_id ErrGrpcTransactionInvalidID merchant_id (svc_find_transactions_by_merchant_id env merchant_id)"

section \<open>Steps\<close>

inductive transaction_step :: "int \<Rightarrow> txn_row served \<Rightarrow> txn_row served \<Rightarrow> bool" where
  "query_at now env \<Longrightarrow> transaction_step now sv (snd (handle_find_by_id_transaction env i sv))"
| "transaction_step now sv (snd (handle_create_transaction uenv api_key merchant_id time creq sv))"
| "transaction_step now sv (snd (handle_update_transaction uenv api_key cnum merchant_id time ureq sv))"
| "transaction_step now sv (snd (handle_trashed_transaction uenv i sv))"
| "transaction_step now sv (snd (handle_restore_transaction uenv i sv))"
| "transaction_step now sv (snd (handle_delete_transaction_permanent uenv i sv))"
| "transaction_step now sv (snd (handle_restore_all_transaction uenv sv))"
| "transaction_step now sv (snd (handle_delete_all_transaction_permanent uenv sv))"
| "transaction_step now sv (sv\<lparr>sv_world := run_mark (uenv :: create_txn_request svc_env) txn_entity (sv_world sv)\<rparr>)"
| "query_at now env \<Longrightarrow> transaction_step now sv (snd (handle_find_all_transaction env term page page_size sv))"
| "query_at now env \<Longrightarrow> transaction_step now sv (snd (handle_find_all_transaction_by_card_number env cnum term page page_size sv))"
| "query_at now env \<Longrightarrow> transaction_step now sv (snd (handle_find_active_transaction env term page page_size sv))"
| "query_at now env \<Longrightarrow> transaction_step now sv (snd (handle_find_trashed_transaction env term page page_size sv))"
| "query_at now env \<Longrightarrow> transaction_step now sv (snd (handle_find_transaction_by_merchant_id env merchant_id sv))"
| "transaction_step now sv (snd (on_served (recover_transactions (uenv :: create_txn_request svc_env) fl older_than max_rows) sv))"

lemma transaction_step_served: "transaction_step now sv sv' \<Longrightarrow> served_step transaction_by_id_key now sv sv'"
proof (induction rule: transaction_step.induct)
  case (1 now env sv i)
  then show ?case unfolding handle_find_by_id_transaction_def svc_find_transaction_by_id_def repo_find_transaction_by_id_def
    by (intro with_id_step served_row_step) (auto dest: repo_row_live)
qed (auto simp: ret_def
    handle_create_transaction_def handle_update_transaction_def Let_def
    handle_trashed_transaction_def handle_restore_transaction_def
    handle_delete_transaction_permanent_def handle_restore_all_transaction_def
    handle_delete_all_transaction_permanent_def handle_find_all_transaction_def
    handle_find_all_transaction_by_card_number_def handle_find_active_transaction_def
    handle_find_trashed_transaction_def svc_find_all_txns_def
    svc_find_transactions_by_card_number_def svc_find_active_transactions_def
    svc_find_trashed_transactions_def handle_find_transaction_by_merchant_id_def
    svc_find_transactions_by_merchant_id_def
    intro: served_step.command_step intro!: page_answer_step)

lemma transaction_by_id_key_inj: "inj transaction_by_id_key"
  by (rule injI) (simp add: transaction_by_id_key_def)

lemma transaction_run_served:
  "timed_run transaction_step t sv t' sv' \<Longrightarrow> timed_run (served_step transaction_by_id_key) t sv t' sv'"
  by (erule timed_run_weaken) (rule transaction_step_served)

lemma find_by_id_transaction_served:
  "fst (handle_find_by_id_transaction env i sv) = Inr r \<Longrightarrow>
   fst (served_row env transaction_by_id_key ''Transaction'' i (repo_row (qe_fault env ''GetTransactionByID'') txn_entity i) sv) = Inr r"
  by (auto simp: handle_find_by_id_transaction_def with_id_def ret_def svc_find_transaction_by_id_def repo_find_transaction_by_id_def split: if_splits)

text \<open>
  A version of a row that is no longer live is not answered from five and a half minutes
  later on, although no command touches the cache.
\<close>

lemma transaction_version_forgotten:
  assumes "timed_run transaction_step t0 \<lparr>sv_world = w, sv_cache = Map.empty\<rparr> t sv" "\<not> sv_live r sv"
    and "timed_run (\<lambda>now sv sv'. transaction_step now sv sv' \<and> \<not> sv_live r sv') t sv (qe_now env) sv'"
    and "t + stale_bound \<le> qe_now env" "fst (handle_find_by_id_transaction env i sv') = Inr r'"
  shows "r' \<noteq> r"
proof (rule old_version_forgotten [OF transaction_run_served [OF assms(1)]])
  show "timed_run (\<lambda>now sv sv'. served_step transaction_by_id_key now sv sv' \<and> \<not> sv_live r sv') t sv (qe_now env) sv'"
    using assms(3) by (rule timed_run_weaken) (simp add: transaction_step_served)
qed (use assms transaction_by_id_key_inj find_by_id_transaction_served in simp_all)

end
