(* ===== verification/TransferQueries.thy ===== *)
theory TransferQueries
  imports TransferService MoneyQueries
begin

text \<open>
  The query side of the transfer service and its gRPC handlers (\<open>service/transfer/repository/
  transferQueryRepository.go\<close>, \<open>redis/transferQueryCache.go\<close>, \<open>service/transferQueryService.go\<close>,
  \<open>handler/{query,command}.go\<close>), with the statements it reads.
\<close>

section \<open>Statements and repository\<close>

definition get_transfers_sql ::
  "transfer_row query_env \<Rightarrow> transfer_row list \<Rightarrow> string \<Rightarrow> int \<Rightarrow> int \<Rightarrow> go_error + (transfer_row \<times> int) list" where
  "get_transfers_sql env rows term limit offset =
     newest_page_sql env row_live
       (\<lambda>r. [tf_from r, tf_to r]) tf_time term limit offset rows"

definition get_active_transfers_sql ::
  "transfer_row query_env \<Rightarrow> transfer_row list \<Rightarrow> string \<Rightarrow> int \<Rightarrow> int \<Rightarrow> go_error + (transfer_row \<times> int) list" where
  "get_active_transfers_sql env rows term limit offset =
     newest_page_sql env row_live
       (\<lambda>r. [tf_from r, tf_to r]) tf_time term limit offset rows"

definition get_trashed_transfers_sql ::
  "transfer_row query_env \<Rightarrow> transfer_row list \<Rightarrow> string \<Rightarrow> int \<Rightarrow> int \<Rightarrow> go_error + (transfer_row \<times> int) list" where
  "get_trashed_transfers_sql env rows term limit offset =
     newest_page_sql env (\<lambda>r. \<not> row_live r)
       (\<lambda>r. [tf_from r, tf_to r]) tf_time term limit offset rows"

definition get_transfers_by_source_card_sql :: "transfer_row query_env \<Rightarrow> string \<Rightarrow> transfer_row list \<Rightarrow> transfer_row list" where
  "get_transfers_by_source_card_sql env cnum = newest_sql env (\<lambda>r. row_live r \<and> tf_from r = cnum) tf_time"

definition get_transfers_by_destination_card_sql :: "transfer_row query_env \<Rightarrow> string \<Rightarrow> transfer_row list \<Rightarrow> transfer_row list" where
  "get_transfers_by_destination_card_sql env cnum = newest_sql env (\<lambda>r. row_live r \<and> tf_to r = cnum) tf_time"

definition repo_find_all_transfers ::
  "transfer_row query_env \<Rightarrow> find_all_request \<Rightarrow> transfer_row list \<Rightarrow> go_error + (transfer_row \<times> int) list" where
  "repo_find_all_transfers env req rows =
     repo_page (qe_fault env ''GetTransfers'') ''find all transfers''
       (get_transfers_sql env rows) req"

definition repo_find_active_transfers ::
  "transfer_row query_env \<Rightarrow> find_all_request \<Rightarrow> transfer_row list \<Rightarrow> go_error + (transfer_row \<times> int) list" where
  "repo_find_active_transfers env req rows =
     repo_page (qe_fault env ''GetActiveTransfers'') ''find active transfers''
       (get_active_transfers_sql env rows) req"

definition repo_find_trashed_transfers ::
  "transfer_row query_env \<Rightarrow> find_all_request \<Rightarrow> transfer_row list \<Rightarrow> go_error + (transfer_row \<times> int) list" where
  "repo_find_trashed_transfers env req rows =
     repo_page (qe_fault env ''GetTrashedTransfers'') ''find trashed transfers''
       (get_trashed_transfers_sql env rows) req"

definition repo_find_transfer_by_id ::
  "transfer_row query_env \<Rightarrow> int \<Rightarrow> transfer_row list \<Rightarrow> go_error + transfer_row" where
  "repo_find_transfer_by_id env i = repo_row (qe_fault env ''GetTransferByID'') transfer_entity i"

definition repo_find_transfers_by_source_card ::
  "transfer_row query_env \<Rightarrow> string \<Rightarrow> transfer_row list \<Rightarrow> go_error + transfer_row list" where
  "repo_find_transfers_by_source_card env cnum rows = repo_rows (qe_fault env ''GetTransfersBySourceCard'') transfer_entity (get_transfers_by_source_card_sql env cnum rows)"

definition repo_find_transfers_by_destination_card ::
  "transfer_row query_env \<Rightarrow> string \<Rightarrow> transfer_row list \<Rightarrow> go_error + transfer_row list" where
  "repo_find_transfers_by_destination_card env cnum rows = repo_rows (qe_fault env ''GetTransfersByDestinationCard'') transfer_entity (get_transfers_by_destination_card_sql env cnum rows)"

section \<open>Cached queries\<close>

definition transfer_by_id_key :: "int \<Rightarrow> string" where
  "transfer_by_id_key i = ''transfer:id:'' @ itoa i"

definition svc_find_all_transfers ::
  "transfer_row query_env \<Rightarrow> find_all_request \<Rightarrow> (go_error, (transfer_row \<times> int) list \<times> int, transfer_row served) op" where
  "svc_find_all_transfers env req =
     served_page env (listing_key ''transfer:all'' req) ''find all transfers''
       (repo_find_all_transfers env req)"

definition svc_find_transfer_by_id ::
  "transfer_row query_env \<Rightarrow> int \<Rightarrow> (go_error, transfer_row, transfer_row served) op" where
  "svc_find_transfer_by_id env i = served_row env transfer_by_id_key ''Transfer'' i (repo_find_transfer_by_id env i)"

definition svc_find_active_transfers ::
  "transfer_row query_env \<Rightarrow> find_all_request \<Rightarrow> (go_error, (transfer_row \<times> int) list \<times> int, transfer_row served) op" where
  "svc_find_active_transfers env req =
     served_page env (listing_key ''transfer:active'' req) ''find active transfers''
       (repo_find_active_transfers env req)"

definition svc_find_trashed_transfers ::
  "transfer_row query_env \<Rightarrow> find_all_request \<Rightarrow> (go_error, (transfer_row \<times> int) list \<times> int, transfer_row served) op" where
  "svc_find_trashed_transfers env req =
     served_page env (listing_key ''transfer:trashed'' req) ''find trashed transfers''
       (repo_find_trashed_transfers env req)"

definition svc_find_transfers_by_source_card ::
  "transfer_row query_env \<Rightarrow> string \<Rightarrow> (go_error, transfer_row list, transfer_row served) op" where
  "svc_find_transfers_by_source_card env cnum =
     served_rows env (''transfer:from_card_number:'' @ cnum @ '':'') (err_not_found_response ''Transfer'') (repo_find_transfers_by_source_card env cnum)"

definition svc_find_transfers_by_destination_card ::
  "transfer_row query_env \<Rightarrow> string \<Rightarrow> (go_error, transfer_row list, transfer_row served) op" where
  "svc_find_transfers_by_destination_card env cnum =
     served_rows env (''transfer:to_card_number:'' @ cnum) (err_not_found_response ''Transfer'') (repo_find_transfers_by_destination_card env cnum)"

section \<open>Handlers\<close>

definition ErrGrpcTransferInvalidID :: go_error where
  "ErrGrpcTransferInvalidID = new_grpc_error ''Invalid Transfer ID'' codes_InvalidArgument"

definition ErrGrpcInvalidCardNumber :: go_error where
  "ErrGrpcInvalidCardNumber = new_grpc_error ''Invalid card number'' codes_InvalidArgument"

definition ErrGrpcValidateCreateTransferRequest :: go_error where
  "ErrGrpcValidateCreateTransferRequest = new_grpc_error ''Invalid input for create transfer'' codes_InvalidArgument"

definition ErrGrpcValidateUpdateTransferRequest :: go_error where
  "ErrGrpcValidateUpdateTransferRequest = new_grpc_error ''Invalid input for update transfer'' codes_InvalidArgument"

definition create_transfer_ok :: "create_transfer_request \<Rightarrow> bool" where
  "create_transfer_ok req \<longleftrightarrow> cr_from req \<noteq> [] \<and> cr_to req \<noteq> [] \<and> min_request_amount \<le> cr_amount req"

definition update_transfer_ok :: "update_transfer_request \<Rightarrow> bool" where
  "update_transfer_ok req \<longleftrightarrow> up_from req \<noteq> [] \<and> up_to req \<noteq> [] \<and> min_request_amount \<le> up_amount req \<and> 0 < up_id req"

definition handle_create_transfer ::
  "create_transfer_request svc_env \<Rightarrow> create_transfer_request \<Rightarrow> (go_error, transfer_row, transfer_row served) op" where
  "handle_create_transfer env req =
     (if \<not> create_transfer_ok req then ret (Inl ErrGrpcValidateCreateTransferRequest)
      else answer (on_served (create_transfer env req)))"

definition handle_update_transfer ::
  "create_transfer_request svc_env \<Rightarrow> update_transfer_request \<Rightarrow> (go_error, transfer_row, transfer_row served) op" where
  "handle_update_transfer env req =
     (if up_id req = 0 then ret (Inl ErrGrpcTransferInvalidID)
      else if \<not> update_transfer_ok req then ret (Inl ErrGrpcValidateUpdateTransferRequest)
      else answer (on_served (update_transfer env req)))"

definition handle_trashed_transfer :: "create_transfer_request svc_env \<Rightarrow> int \<Rightarrow> (go_error, transfer_row, transfer_row served) op" where
  "handle_trashed_transfer env i = with_id ErrGrpcTransferInvalidID i (on_served (trashed_transfer env i))"

definition handle_restore_transfer :: "create_transfer_request svc_env \<Rightarrow> int \<Rightarrow> (go_error, transfer_row, transfer_row served) op" where
  "handle_restore_transfer env i = with_id ErrGrpcTransferInvalidID i (on_served (restore_transfer env i))"

definition handle_delete_transfer_permanent :: "create_transfer_request svc_env \<Rightarrow> int \<Rightarrow> (go_error, unit, transfer_row served) op" where
  "handle_delete_transfer_permanent env i = with_id ErrGrpcTransferInvalidID i (on_served (delete_transfer_permanent env i))"

definition handle_restore_all_transfer :: "create_transfer_request svc_env \<Rightarrow> (go_error, unit, transfer_row served) op" where
  "handle_restore_all_transfer env = answer (on_served (restore_all_transfer env))"

definition handle_delete_all_transfer_permanent :: "create_transfer_request svc_env \<Rightarrow> (go_error, unit, transfer_row served) op" where
  "handle_delete_all_transfer_permanent env = answer (on_served (delete_all_transfer_permanent env))"

definition handle_find_all_transfer ::
  "transfer_row query_env \<Rightarrow> string \<Rightarrow> int \<Rightarrow> int \<Rightarrow> (go_error, transfer_row list \<times> page_meta, transfer_row served) op" where
  "handle_find_all_transfer env = page_answer (svc_find_all_transfers env)"

definition handle_find_by_id_transfer ::
  "transfer_row query_env \<Rightarrow> int \<Rightarrow> (go_error, transfer_row, transfer_row served) op" where
  "handle_find_by_id_transfer env i = with_id ErrGrpcTransferInvalidID i (svc_find_transfer_by_id env i)"

definition handle_find_active_transfer ::
  "transfer_row query_env \<Rightarrow> string \<Rightarrow> int \<Rightarrow> int \<Rightarrow> (go_error, transfer_row list \<times> page_meta, transfer_row served) op" where
  "handle_find_active_transfer env = page_answer (svc_find_active_transfers env)"

definition handle_find_trashed_transfer ::
  "transfer_row query_env \<Rightarrow> string \<Rightarrow> int \<Rightarrow> int \<Rightarrow> (go_error, transfer_row list \<times> page_meta, transfer_row served) op" where
  "handle_find_trashed_transfer env = page_answer (svc_find_trashed_transfers env)"

definition handle_find_transfer_by_transfer_from ::
  "transfer_row query_env \<Rightarrow> string \<Rightarrow> (go_error, transfer_row list, transfer_row served) op" where
  "handle_find_transfer_by_transfer_from env cnum =
     (if cnum = [] then ret (Inl ErrGrpcInvalidCardNumber) else answer (svc_find_transfers_by_source_card env cnum))"

definition handle_find_transfer_by_transfer_to ::
  "transfer_row query_env \<Rightarrow> string \<Rightarrow> (go_error, transfer_row list, transfer_row served) op" where
  "handle_find_transfer_by_transfer_to env cnum =
     (if cnum = [] then ret (Inl ErrGrpcInvalidCardNumber) else answer (svc_find_transfers_by_destination_card env cnum))"

section \<open>Steps\<close>

inductive transfer_step :: "int \<Rightarrow> transfer_row served \<Rightarrow> transfer_row served \<Rightarrow> bool" where
  "query_at now env \<Longrightarrow> transfer_step now sv (snd (handle_find_by_id_transfer env i sv))"
| "transfer_step now sv (snd (handle_create_transfer uenv creq sv))"
| "transfer_step now sv (snd (handle_update_transfer uenv ureq sv))"
| "transfer_step now sv (snd (handle_trashed_transfer uenv i sv))"
| "transfer_step now sv (snd (handle_restore_transfer uenv i sv))"
| "transfer_step now sv (snd (handle_delete_transfer_permanent uenv i sv))"
| "transfer_step now sv (snd (handle_restore_all_transfer uenv sv))"
| "transfer_step now sv (snd (handle_delete_all_transfer_permanent uenv sv))"
| "transfer_step now sv (sv\<lparr>sv_world := run_mark (uenv :: create_transfer_request svc_env) transfer_entity (sv_world sv)\<rparr>)"
| "query_at now env \<Longrightarrow> transfer_step now sv (snd (handle_find_all_transfer env term page page_size sv))"
| "query_at now env \<Longrightarrow> transfer_step now sv (snd (handle_find_active_transfer env term page page_size sv))"
| "query_at now env \<Longrightarrow> transfer_step now sv (snd (handle_find_trashed_transfer env term page page_size sv))"
| "query_at now env \<Longrightarrow> transfer_step now sv (snd (handle_find_transfer_by_transfer_from env cnum sv))"
| "query_at now env \<Longrightarrow> transfer_step now sv (snd (handle_find_transfer_by_transfer_to env cnum sv))"
| "transfer_step now sv (snd (on_served (recover_transfers (uenv :: create_transfer_request svc_env) fl older_than max_rows) sv))"

lemma transfer_step_served: "transfer_step now sv sv' \<Longrightarrow> served_step transfer_by_id_key now sv sv'"
proof (induction rule: transfer_step.induct)
  case (1 now env sv i)
  then show ?case unfolding handle_find_by_id_transfer_def svc_find_transfer_by_id_def repo_find_transfer_by_id_def
    by (intro with_id_step served_row_step) (auto dest: repo_row_live)
qed (auto simp: ret_def
    handle_create_transfer_def handle_update_transfer_def handle_trashed_transfer_def
    handle_restore_transfer_def handle_delete_transfer_permanent_def handle_restore_all_transfer_def
    handle_delete_all_transfer_permanent_def handle_find_all_transfer_def
    handle_find_active_transfer_def handle_find_trashed_transfer_def svc_find_all_transfers_def
    svc_find_active_transfers_def svc_find_trashed_transfers_def
    handle_find_transfer_by_transfer_from_def handle_find_transfer_by_transfer_to_def
    svc_find_transfers_by_source_card_def svc_find_transfers_by_destination_card_def
    intro: served_step.command_step intro!: page_answer_step)

lemma transfer_by_id_key_inj: "inj transfer_by_id_key"
  by (rule injI) (simp add: transfer_by_id_key_def)

lemma transfer_run_served:
  "timed_run transfer_step t sv t' sv' \<Longrightarrow> timed_run (served_step transfer_by_id_key) t sv t' sv'"
  by (erule timed_run_weaken) (rule transfer_step_served)

lemma find_by_id_transfer_served:
  "fst (handle_find_by_id_transfer env i sv) = Inr r \<Longrightarrow>
   fst (served_row env transfer_by_id_key ''Transfer'' i (repo_row (qe_fault env ''GetTransferByID'') transfer_entity i) sv) = Inr r"
  by (auto simp: handle_find_by_id_transfer_def with_id_def ret_def svc_find_transfer_by_id_def repo_find_transfer_by_id_def split: if_splits)

text \<open>
  A version of a row that is no longer live is not answered from five and a half minutes
  later on, although no command touches the cache.
\<close>

lemma transfer_version_forgotten:
  assumes "timed_run transfer_step t0 \<lparr>sv_world = w, sv_cache = Map.empty\<rparr> t sv" "\<not> sv_live r sv"
    and "timed_run (\<lambda>now sv sv'. transfer_step now sv sv' \<and> \<not> sv_live r sv') t sv (qe_now env) sv'"
    and "t + stale_bound \<le> qe_now env" "fst (handle_find_by_id_transfer env i sv') = Inr r'"
  shows "r' \<noteq> r"
proof (rule old_version_forgotten [OF transfer_run_served [OF assms(1)]])
  show "timed_run (\<lambda>now sv sv'. served_step transfer_by_id_key now sv sv' \<and> \<not> sv_live r sv') t sv (qe_now env) sv'"
    using assms(3) by (rule timed_run_weaken) (simp add: transfer_step_served)
qed (use assms transfer_by_id_key_inj find_by_id_transfer_served in simp_all)

end
