(* ===== verification/TopupQueries.thy ===== *)
theory TopupQueries
  imports TopupService MoneyQueries
begin

text \<open>
  The query side of the top-up service and its gRPC handlers (\<open>service/topup/repository/
  topupQueryRepository.go\<close>, \<open>redis/topupQueryCache.go\<close>, \<open>service/topupQueryService.go\<close>,
  \<open>handler/{query,command}.go\<close>), with the statements it reads.
\<close>

section \<open>Statements and repository\<close>

definition get_topups_sql ::
  "topup_row query_env \<Rightarrow> topup_row list \<Rightarrow> string \<Rightarrow> int \<Rightarrow> int \<Rightarrow> go_error + (topup_row \<times> int) list" where
  "get_topups_sql env rows term limit offset =
     newest_page_sql env row_live
       (\<lambda>r. [u_card r, row_no r, u_method r, row_status r]) u_time term limit offset rows"

definition get_topups_by_card_number_sql ::
  "topup_row query_env \<Rightarrow> string \<Rightarrow> topup_row list \<Rightarrow> string \<Rightarrow> int \<Rightarrow> int \<Rightarrow> go_error + (topup_row \<times> int) list" where
  "get_topups_by_card_number_sql env cnum rows term limit offset =
     newest_page_sql env (\<lambda>r. row_live r \<and> u_card r = cnum)
       (\<lambda>r. [row_no r, u_method r, row_status r]) u_time term limit offset rows"

definition get_active_topups_sql ::
  "topup_row query_env \<Rightarrow> topup_row list \<Rightarrow> string \<Rightarrow> int \<Rightarrow> int \<Rightarrow> go_error + (topup_row \<times> int) list" where
  "get_active_topups_sql env rows term limit offset =
     newest_page_sql env row_live
       (\<lambda>r. [u_card r, row_no r, u_method r]) u_time term limit offset rows"

definition get_trashed_topups_sql ::
  "topup_row query_env \<Rightarrow> topup_row list \<Rightarrow> string \<Rightarrow> int \<Rightarrow> int \<Rightarrow> go_error + (topup_row \<times> int) list" where
  "get_trashed_topups_sql env rows term limit offset =
     newest_page_sql env (\<lambda>r. \<not> row_live r)
       (\<lambda>r. [u_card r, row_no r, u_method r]) u_time term limit offset rows"

definition repo_find_all_topups ::
  "topup_row query_env \<Rightarrow> find_all_request \<Rightarrow> topup_row list \<Rightarrow> go_error + (topup_row \<times> int) list" where
  "repo_find_all_topups env req rows =
     repo_page (qe_fault env ''GetTopups'') ''find all topups''
       (get_topups_sql env rows) req"

definition repo_find_topups_by_card_number ::
  "topup_row query_env \<Rightarrow> string \<Rightarrow> find_all_request \<Rightarrow> topup_row list \<Rightarrow> go_error + (topup_row \<times> int) list" where
  "repo_find_topups_by_card_number env cnum req rows =
     repo_page (qe_fault env ''GetTopupsByCardNumber'') ''find topups by card number''
       (get_topups_by_card_number_sql env cnum rows) req"

definition repo_find_active_topups ::
  "topup_row query_env \<Rightarrow> find_all_request \<Rightarrow> topup_row list \<Rightarrow> go_error + (topup_row \<times> int) list" where
  "repo_find_active_topups env req rows =
     repo_page (qe_fault env ''GetActiveTopups'') ''find active topups''
       (get_active_topups_sql env rows) req"

definition repo_find_trashed_topups ::
  "topup_row query_env \<Rightarrow> find_all_request \<Rightarrow> topup_row list \<Rightarrow> go_error + (topup_row \<times> int) list" where
  "repo_find_trashed_topups env req rows =
     repo_page (qe_fault env ''GetTrashedTopups'') ''find trashed topups''
       (get_trashed_topups_sql env rows) req"

definition repo_find_topup_by_id ::
  "topup_row query_env \<Rightarrow> int \<Rightarrow> topup_row list \<Rightarrow> go_error + topup_row" where
  "repo_find_topup_by_id env i = repo_row (qe_fault env ''GetTopupByID'') topup_entity i"

section \<open>Cached queries\<close>

definition topup_by_id_key :: "int \<Rightarrow> string" where
  "topup_by_id_key i = ''topup:id:'' @ itoa i"

definition svc_find_all_topups ::
  "topup_row query_env \<Rightarrow> find_all_request \<Rightarrow> (go_error, (topup_row \<times> int) list \<times> int, topup_row served) op" where
  "svc_find_all_topups env req =
     served_page env (listing_key ''topup:all'' req) ''find all topups''
       (repo_find_all_topups env req)"

definition svc_find_topups_by_card_number ::
  "topup_row query_env \<Rightarrow> string \<Rightarrow> find_all_request \<Rightarrow> (go_error, (topup_row \<times> int) list \<times> int, topup_row served) op" where
  "svc_find_topups_by_card_number env cnum req =
     served_page env (listing_key (''topup:card_number:'' @ cnum) req) ''find all topups by card number''
       (repo_find_topups_by_card_number env cnum req)"

definition svc_find_topup_by_id ::
  "topup_row query_env \<Rightarrow> int \<Rightarrow> (go_error, topup_row, topup_row served) op" where
  "svc_find_topup_by_id env i = served_row env topup_by_id_key ''Topup'' i (repo_find_topup_by_id env i)"

definition svc_find_active_topups ::
  "topup_row query_env \<Rightarrow> find_all_request \<Rightarrow> (go_error, (topup_row \<times> int) list \<times> int, topup_row served) op" where
  "svc_find_active_topups env req =
     served_page env (listing_key ''topup:active'' req) ''find active topups''
       (repo_find_active_topups env req)"

definition svc_find_trashed_topups ::
  "topup_row query_env \<Rightarrow> find_all_request \<Rightarrow> (go_error, (topup_row \<times> int) list \<times> int, topup_row served) op" where
  "svc_find_trashed_topups env req =
     served_page env (listing_key ''topup:trashed'' req) ''find trashed topups''
       (repo_find_trashed_topups env req)"

section \<open>Handlers\<close>


definition ErrGrpcTopupInvalidID :: go_error where
  "ErrGrpcTopupInvalidID = new_grpc_error ''Invalid Topup ID'' codes_InvalidArgument"

definition ErrGrpcValidateCreateTopup :: go_error where
  "ErrGrpcValidateCreateTopup = new_grpc_error ''Invalid input for create topup'' codes_InvalidArgument"

definition ErrGrpcValidateUpdateTopup :: go_error where
  "ErrGrpcValidateUpdateTopup = new_grpc_error ''Invalid input for update topup'' codes_InvalidArgument"

definition create_topup_ok :: "create_topup_request \<Rightarrow> bool" where
  "create_topup_ok req \<longleftrightarrow> cu_card req \<noteq> [] \<and> min_request_amount \<le> cu_amount req \<and> cu_method req \<noteq> []
     \<and> payment_method_validator (cu_method req)"

definition update_topup_ok :: "update_topup_request \<Rightarrow> bool" where
  "update_topup_ok req \<longleftrightarrow> uu_card req \<noteq> [] \<and> min_request_amount \<le> uu_amount req \<and> uu_method req \<noteq> []
     \<and> 0 < uu_id req \<and> payment_method_validator (uu_method req)"

text \<open>The user is not taken from the message but from the metadata of the call.\<close>

definition handle_create_topup ::
  "create_topup_request svc_env \<Rightarrow> string list \<Rightarrow> create_topup_request \<Rightarrow> (go_error, topup_row, topup_row served) op" where
  "handle_create_topup env headers req =
     (if \<not> create_topup_ok req then ret (Inl ErrGrpcValidateCreateTopup)
      else answer (on_served (create_topup env (req\<lparr>cu_user := metadata_user headers\<rparr>))))"

definition handle_update_topup ::
  "create_topup_request svc_env \<Rightarrow> update_topup_request \<Rightarrow> (go_error, topup_row, topup_row served) op" where
  "handle_update_topup env req =
     (if uu_id req = 0 then ret (Inl ErrGrpcTopupInvalidID)
      else if \<not> update_topup_ok req then ret (Inl ErrGrpcValidateUpdateTopup)
      else answer (on_served (update_topup env req)))"

definition handle_trashed_topup :: "create_topup_request svc_env \<Rightarrow> int \<Rightarrow> (go_error, topup_row, topup_row served) op" where
  "handle_trashed_topup env i = with_id ErrGrpcTopupInvalidID i (on_served (trashed_topup env i))"

definition handle_restore_topup :: "create_topup_request svc_env \<Rightarrow> int \<Rightarrow> (go_error, topup_row, topup_row served) op" where
  "handle_restore_topup env i = with_id ErrGrpcTopupInvalidID i (on_served (restore_topup env i))"

definition handle_delete_topup_permanent :: "create_topup_request svc_env \<Rightarrow> int \<Rightarrow> (go_error, unit, topup_row served) op" where
  "handle_delete_topup_permanent env i = with_id ErrGrpcTopupInvalidID i (on_served (delete_topup_permanent env i))"

definition handle_restore_all_topup :: "create_topup_request svc_env \<Rightarrow> (go_error, unit, topup_row served) op" where
  "handle_restore_all_topup env = answer (on_served (restore_all_topup env))"

definition handle_delete_all_topup_permanent :: "create_topup_request svc_env \<Rightarrow> (go_error, unit, topup_row served) op" where
  "handle_delete_all_topup_permanent env = answer (on_served (delete_all_topup_permanent env))"

definition handle_find_all_topup ::
  "topup_row query_env \<Rightarrow> string \<Rightarrow> int \<Rightarrow> int \<Rightarrow> (go_error, topup_row list \<times> page_meta, topup_row served) op" where
  "handle_find_all_topup env = page_answer (svc_find_all_topups env)"

definition handle_find_all_topup_by_card_number ::
  "topup_row query_env \<Rightarrow> string \<Rightarrow> string \<Rightarrow> int \<Rightarrow> int \<Rightarrow> (go_error, topup_row list \<times> page_meta, topup_row served) op" where
  "handle_find_all_topup_by_card_number env cnum = page_answer (svc_find_topups_by_card_number env cnum)"

definition handle_find_by_id_topup ::
  "topup_row query_env \<Rightarrow> int \<Rightarrow> (go_error, topup_row, topup_row served) op" where
  "handle_find_by_id_topup env i = with_id ErrGrpcTopupInvalidID i (svc_find_topup_by_id env i)"

definition handle_find_active_topup ::
  "topup_row query_env \<Rightarrow> string \<Rightarrow> int \<Rightarrow> int \<Rightarrow> (go_error, topup_row list \<times> page_meta, topup_row served) op" where
  "handle_find_active_topup env = page_answer (svc_find_active_topups env)"

definition handle_find_trashed_topup ::
  "topup_row query_env \<Rightarrow> string \<Rightarrow> int \<Rightarrow> int \<Rightarrow> (go_error, topup_row list \<times> page_meta, topup_row served) op" where
  "handle_find_trashed_topup env = page_answer (svc_find_trashed_topups env)"

section \<open>Steps\<close>

inductive topup_step :: "int \<Rightarrow> topup_row served \<Rightarrow> topup_row served \<Rightarrow> bool" where
  "query_at now env \<Longrightarrow> topup_step now sv (snd (handle_find_by_id_topup env i sv))"
| "topup_step now sv (snd (handle_create_topup cenv headers creq sv))"
| "topup_step now sv (snd (handle_update_topup uenv ureq sv))"
| "topup_step now sv (snd (handle_trashed_topup uenv i sv))"
| "topup_step now sv (snd (handle_restore_topup uenv i sv))"
| "topup_step now sv (snd (handle_delete_topup_permanent uenv i sv))"
| "topup_step now sv (snd (handle_restore_all_topup uenv sv))"
| "topup_step now sv (snd (handle_delete_all_topup_permanent uenv sv))"
| "topup_step now sv (sv\<lparr>sv_world := run_mark (uenv :: create_topup_request svc_env) topup_entity (sv_world sv)\<rparr>)"
| "query_at now env \<Longrightarrow> topup_step now sv (snd (handle_find_all_topup env term page page_size sv))"
| "query_at now env \<Longrightarrow> topup_step now sv (snd (handle_find_all_topup_by_card_number env cnum term page page_size sv))"
| "query_at now env \<Longrightarrow> topup_step now sv (snd (handle_find_active_topup env term page page_size sv))"
| "query_at now env \<Longrightarrow> topup_step now sv (snd (handle_find_trashed_topup env term page page_size sv))"

lemma topup_step_served: "topup_step now sv sv' \<Longrightarrow> served_step topup_by_id_key now sv sv'"
proof (induction rule: topup_step.induct)
  case (1 now env sv i)
  then show ?case unfolding handle_find_by_id_topup_def svc_find_topup_by_id_def repo_find_topup_by_id_def
    by (intro with_id_step served_row_step) (auto dest: repo_row_live)
qed (auto simp: ret_def
    handle_create_topup_def handle_update_topup_def handle_trashed_topup_def
    handle_restore_topup_def handle_delete_topup_permanent_def handle_restore_all_topup_def
    handle_delete_all_topup_permanent_def handle_find_all_topup_def
    handle_find_all_topup_by_card_number_def handle_find_active_topup_def
    handle_find_trashed_topup_def svc_find_all_topups_def svc_find_topups_by_card_number_def
    svc_find_active_topups_def svc_find_trashed_topups_def
    intro: served_step.command_step intro!: page_answer_step)

lemma topup_by_id_key_inj: "inj topup_by_id_key"
  by (rule injI) (simp add: topup_by_id_key_def)

lemma topup_run_served:
  "timed_run topup_step t sv t' sv' \<Longrightarrow> timed_run (served_step topup_by_id_key) t sv t' sv'"
  by (erule timed_run_weaken) (rule topup_step_served)

lemma find_by_id_topup_served:
  "fst (handle_find_by_id_topup env i sv) = Inr r \<Longrightarrow>
   fst (served_row env topup_by_id_key ''Topup'' i (repo_row (qe_fault env ''GetTopupByID'') topup_entity i) sv) = Inr r"
  by (auto simp: handle_find_by_id_topup_def with_id_def ret_def svc_find_topup_by_id_def repo_find_topup_by_id_def split: if_splits)

text \<open>
  A version of a row that is no longer live is not answered from five and a half minutes
  later on, although no command touches the cache.
\<close>

lemma topup_version_forgotten:
  assumes "timed_run topup_step t0 \<lparr>sv_world = w, sv_cache = Map.empty\<rparr> t sv" "\<not> sv_live r sv"
    and "timed_run (\<lambda>now sv sv'. topup_step now sv sv' \<and> \<not> sv_live r sv') t sv (qe_now env) sv'"
    and "t + stale_bound \<le> qe_now env" "fst (handle_find_by_id_topup env i sv') = Inr r'"
  shows "r' \<noteq> r"
proof (rule old_version_forgotten [OF topup_run_served [OF assms(1)]])
  show "timed_run (\<lambda>now sv sv'. served_step topup_by_id_key now sv sv' \<and> \<not> sv_live r sv') t sv (qe_now env) sv'"
    using assms(3) by (rule timed_run_weaken) (simp add: topup_step_served)
qed (use assms topup_by_id_key_inj find_by_id_topup_served in simp_all)

end
