(* ===== verification/WithdrawQueries.thy ===== *)
theory WithdrawQueries
  imports WithdrawService MoneyQueries
begin

text \<open>
  The query side of the withdraw service and its gRPC handlers (\<open>service/withdraw/repository/
  withdrawQueryRepository.go\<close>, \<open>redis/withdrawQueryCache.go\<close>, \<open>service/withdrawQueryService.go\<close>,
  \<open>handler/{query,command}.go\<close>), with the statements it reads. \<open>FindById\<close> reads the row before
  it asks the cache and drops it when there is an entry, which answers the same.
\<close>

section \<open>Statements and repository\<close>

definition get_withdraws_sql ::
  "withdraw_row query_env \<Rightarrow> withdraw_row list \<Rightarrow> string \<Rightarrow> int \<Rightarrow> int \<Rightarrow> go_error + (withdraw_row \<times> int) list" where
  "get_withdraws_sql env rows term limit offset =
     newest_page_sql env row_live
       (\<lambda>r. [wd_card r, itoa (wd_amount r), qe_time_text env (wd_time r), row_status r]) wd_time term limit offset rows"

definition get_withdraws_by_card_number_sql ::
  "withdraw_row query_env \<Rightarrow> string \<Rightarrow> withdraw_row list \<Rightarrow> string \<Rightarrow> int \<Rightarrow> int \<Rightarrow> go_error + (withdraw_row \<times> int) list" where
  "get_withdraws_by_card_number_sql env cnum rows term limit offset =
     newest_page_sql env (\<lambda>r. row_live r \<and> wd_card r = cnum)
       (\<lambda>r. [itoa (wd_amount r), qe_time_char env (wd_time r), row_status r]) wd_time term limit offset rows"

definition get_active_withdraws_sql ::
  "withdraw_row query_env \<Rightarrow> withdraw_row list \<Rightarrow> string \<Rightarrow> int \<Rightarrow> int \<Rightarrow> go_error + (withdraw_row \<times> int) list" where
  "get_active_withdraws_sql env rows term limit offset =
     newest_page_sql env row_live
       (\<lambda>r. [wd_card r, itoa (wd_amount r), qe_time_text env (wd_time r), row_status r]) wd_time term limit offset rows"

definition get_trashed_withdraws_sql ::
  "withdraw_row query_env \<Rightarrow> withdraw_row list \<Rightarrow> string \<Rightarrow> int \<Rightarrow> int \<Rightarrow> go_error + (withdraw_row \<times> int) list" where
  "get_trashed_withdraws_sql env rows term limit offset =
     newest_page_sql env (\<lambda>r. \<not> row_live r)
       (\<lambda>r. [wd_card r, itoa (wd_amount r), qe_time_text env (wd_time r), row_status r]) wd_time term limit offset rows"

definition repo_find_all_withdraws ::
  "withdraw_row query_env \<Rightarrow> find_all_request \<Rightarrow> withdraw_row list \<Rightarrow> go_error + (withdraw_row \<times> int) list" where
  "repo_find_all_withdraws env req rows =
     repo_page (qe_fault env ''GetWithdraws'') ''find all withdraws''
       (get_withdraws_sql env rows) req"

definition repo_find_withdraws_by_card_number ::
  "withdraw_row query_env \<Rightarrow> string \<Rightarrow> find_all_request \<Rightarrow> withdraw_row list \<Rightarrow> go_error + (withdraw_row \<times> int) list" where
  "repo_find_withdraws_by_card_number env cnum req rows =
     repo_page (qe_fault env ''GetWithdrawsByCardNumber'') ''find withdraws by card number''
       (get_withdraws_by_card_number_sql env cnum rows) req"

definition repo_find_active_withdraws ::
  "withdraw_row query_env \<Rightarrow> find_all_request \<Rightarrow> withdraw_row list \<Rightarrow> go_error + (withdraw_row \<times> int) list" where
  "repo_find_active_withdraws env req rows =
     repo_page (qe_fault env ''GetActiveWithdraws'') ''find active withdraws''
       (get_active_withdraws_sql env rows) req"

definition repo_find_trashed_withdraws ::
  "withdraw_row query_env \<Rightarrow> find_all_request \<Rightarrow> withdraw_row list \<Rightarrow> go_error + (withdraw_row \<times> int) list" where
  "repo_find_trashed_withdraws env req rows =
     repo_page (qe_fault env ''GetTrashedWithdraws'') ''find trashed withdraws''
       (get_trashed_withdraws_sql env rows) req"

definition repo_find_withdraw_by_id ::
  "withdraw_row query_env \<Rightarrow> int \<Rightarrow> withdraw_row list \<Rightarrow> go_error + withdraw_row" where
  "repo_find_withdraw_by_id env i = repo_row (qe_fault env ''GetWithdrawByID'') withdraw_entity i"

section \<open>Cached queries\<close>

definition withdraw_by_id_key :: "int \<Rightarrow> string" where
  "withdraw_by_id_key i = ''withdraws:id:'' @ itoa i"

definition svc_find_all_withdraws ::
  "withdraw_row query_env \<Rightarrow> find_all_request \<Rightarrow> (go_error, (withdraw_row \<times> int) list \<times> int, withdraw_row served) op" where
  "svc_find_all_withdraws env req =
     served_page env (listing_key ''withdraws:all'' req) ''find all withdraws''
       (repo_find_all_withdraws env req)"

definition svc_find_withdraws_by_card_number ::
  "withdraw_row query_env \<Rightarrow> string \<Rightarrow> find_all_request \<Rightarrow> (go_error, (withdraw_row \<times> int) list \<times> int, withdraw_row served) op" where
  "svc_find_withdraws_by_card_number env cnum req =
     served_page env (listing_key (''withdraws:card_number:'' @ cnum) req) ''find all by card number''
       (repo_find_withdraws_by_card_number env cnum req)"

definition svc_find_withdraw_by_id ::
  "withdraw_row query_env \<Rightarrow> int \<Rightarrow> (go_error, withdraw_row, withdraw_row served) op" where
  "svc_find_withdraw_by_id env i = served_row env withdraw_by_id_key ''Withdraw'' i (repo_find_withdraw_by_id env i)"

definition svc_find_active_withdraws ::
  "withdraw_row query_env \<Rightarrow> find_all_request \<Rightarrow> (go_error, (withdraw_row \<times> int) list \<times> int, withdraw_row served) op" where
  "svc_find_active_withdraws env req =
     served_page env (listing_key ''withdraws:active'' req) ''find active withdraws''
       (repo_find_active_withdraws env req)"

definition svc_find_trashed_withdraws ::
  "withdraw_row query_env \<Rightarrow> find_all_request \<Rightarrow> (go_error, (withdraw_row \<times> int) list \<times> int, withdraw_row served) op" where
  "svc_find_trashed_withdraws env req =
     served_page env (listing_key ''withdraws:trashed'' req) ''find trashed withdraws''
       (repo_find_trashed_withdraws env req)"

section \<open>Handlers\<close>

definition ErrGrpcWithdrawInvalidID :: go_error where
  "ErrGrpcWithdrawInvalidID = new_grpc_error ''Invalid Withdraw ID'' codes_InvalidArgument"

definition ErrGrpcValidateCreateWithdrawRequest :: go_error where
  "ErrGrpcValidateCreateWithdrawRequest = new_grpc_error ''Invalid input for create withdraw'' codes_InvalidArgument"

definition ErrGrpcValidateUpdateWithdrawRequest :: go_error where
  "ErrGrpcValidateUpdateWithdrawRequest = new_grpc_error ''Invalid input for update withdraw'' codes_InvalidArgument"

definition create_withdraw_ok :: "int \<Rightarrow> create_withdraw_request \<Rightarrow> bool" where
  "create_withdraw_ok now req \<longleftrightarrow> cw_card req \<noteq> [] \<and> min_request_amount \<le> cw_amount req \<and> cw_time req \<noteq> zero_time
     \<and> cw_time req \<le> now"

definition update_withdraw_ok :: "int \<Rightarrow> update_withdraw_request \<Rightarrow> bool" where
  "update_withdraw_ok now req \<longleftrightarrow> uw_card req \<noteq> [] \<and> min_request_amount \<le> uw_amount req \<and> uw_time req \<noteq> zero_time
     \<and> uw_time req \<le> now"

definition handle_create_withdraw ::
  "create_withdraw_request svc_env \<Rightarrow> int \<Rightarrow> string list \<Rightarrow> int option \<Rightarrow> create_withdraw_request \<Rightarrow>
   (go_error, withdraw_row, withdraw_row served) op" where
  "handle_create_withdraw env limit headers time req =
     (let request = req\<lparr>cw_time := as_time time, cw_user := metadata_user headers\<rparr>
      in if \<not> create_withdraw_ok (v_now env) request then ret (Inl ErrGrpcValidateCreateWithdrawRequest)
         else answer (on_served (create_withdraw env limit request)))"

definition handle_update_withdraw ::
  "create_withdraw_request svc_env \<Rightarrow> int \<Rightarrow> int option \<Rightarrow> update_withdraw_request \<Rightarrow>
   (go_error, withdraw_row, withdraw_row served) op" where
  "handle_update_withdraw env limit time req =
     (let request = req\<lparr>uw_time := as_time time\<rparr>
      in if uw_id req = 0 then ret (Inl ErrGrpcWithdrawInvalidID)
         else if \<not> update_withdraw_ok (v_now env) request then ret (Inl ErrGrpcValidateUpdateWithdrawRequest)
         else answer (on_served (update_withdraw env limit request)))"

definition handle_trashed_withdraw :: "create_withdraw_request svc_env \<Rightarrow> int \<Rightarrow> (go_error, withdraw_row, withdraw_row served) op" where
  "handle_trashed_withdraw env i = with_id ErrGrpcWithdrawInvalidID i (on_served (trashed_withdraw env i))"

definition handle_restore_withdraw :: "create_withdraw_request svc_env \<Rightarrow> int \<Rightarrow> (go_error, withdraw_row, withdraw_row served) op" where
  "handle_restore_withdraw env i = with_id ErrGrpcWithdrawInvalidID i (on_served (restore_withdraw env i))"

definition handle_delete_withdraw_permanent :: "create_withdraw_request svc_env \<Rightarrow> int \<Rightarrow> (go_error, unit, withdraw_row served) op" where
  "handle_delete_withdraw_permanent env i = with_id ErrGrpcWithdrawInvalidID i (on_served (delete_withdraw_permanent env i))"

definition handle_restore_all_withdraw :: "create_withdraw_request svc_env \<Rightarrow> (go_error, unit, withdraw_row served) op" where
  "handle_restore_all_withdraw env = answer (on_served (restore_all_withdraw env))"

definition handle_delete_all_withdraw_permanent :: "create_withdraw_request svc_env \<Rightarrow> (go_error, unit, withdraw_row served) op" where
  "handle_delete_all_withdraw_permanent env = answer (on_served (delete_all_withdraw_permanent env))"

definition handle_find_all_withdraw ::
  "withdraw_row query_env \<Rightarrow> string \<Rightarrow> int \<Rightarrow> int \<Rightarrow> (go_error, withdraw_row list \<times> page_meta, withdraw_row served) op" where
  "handle_find_all_withdraw env = page_answer (svc_find_all_withdraws env)"

definition handle_find_all_withdraw_by_card_number ::
  "withdraw_row query_env \<Rightarrow> string \<Rightarrow> string \<Rightarrow> int \<Rightarrow> int \<Rightarrow> (go_error, withdraw_row list \<times> page_meta, withdraw_row served) op" where
  "handle_find_all_withdraw_by_card_number env cnum = page_answer (svc_find_withdraws_by_card_number env cnum)"

definition handle_find_by_id_withdraw ::
  "withdraw_row query_env \<Rightarrow> int \<Rightarrow> (go_error, withdraw_row, withdraw_row served) op" where
  "handle_find_by_id_withdraw env i = with_id ErrGrpcWithdrawInvalidID i (svc_find_withdraw_by_id env i)"

definition handle_find_active_withdraw ::
  "withdraw_row query_env \<Rightarrow> string \<Rightarrow> int \<Rightarrow> int \<Rightarrow> (go_error, withdraw_row list \<times> page_meta, withdraw_row served) op" where
  "handle_find_active_withdraw env = page_answer (svc_find_active_withdraws env)"

definition handle_find_trashed_withdraw ::
  "withdraw_row query_env \<Rightarrow> string \<Rightarrow> int \<Rightarrow> int \<Rightarrow> (go_error, withdraw_row list \<times> page_meta, withdraw_row served) op" where
  "handle_find_trashed_withdraw env = page_answer (svc_find_trashed_withdraws env)"

section \<open>Steps\<close>

inductive withdraw_step :: "int \<Rightarrow> withdraw_row served \<Rightarrow> withdraw_row served \<Rightarrow> bool" where
  "query_at now env \<Longrightarrow> withdraw_step now sv (snd (handle_find_by_id_withdraw env i sv))"
| "withdraw_step now sv (snd (handle_create_withdraw uenv limit headers time creq sv))"
| "withdraw_step now sv (snd (handle_update_withdraw uenv limit time ureq sv))"
| "withdraw_step now sv (snd (handle_trashed_withdraw uenv i sv))"
| "withdraw_step now sv (snd (handle_restore_withdraw uenv i sv))"
| "withdraw_step now sv (snd (handle_delete_withdraw_permanent uenv i sv))"
| "withdraw_step now sv (snd (handle_restore_all_withdraw uenv sv))"
| "withdraw_step now sv (snd (handle_delete_all_withdraw_permanent uenv sv))"
| "withdraw_step now sv (sv\<lparr>sv_world := run_mark (uenv :: create_withdraw_request svc_env) withdraw_entity (sv_world sv)\<rparr>)"
| "query_at now env \<Longrightarrow> withdraw_step now sv (snd (handle_find_all_withdraw env term page page_size sv))"
| "query_at now env \<Longrightarrow> withdraw_step now sv (snd (handle_find_all_withdraw_by_card_number env cnum term page page_size sv))"
| "query_at now env \<Longrightarrow> withdraw_step now sv (snd (handle_find_active_withdraw env term page page_size sv))"
| "query_at now env \<Longrightarrow> withdraw_step now sv (snd (handle_find_trashed_withdraw env term page page_size sv))"

lemma withdraw_step_served: "withdraw_step now sv sv' \<Longrightarrow> served_step withdraw_by_id_key now sv sv'"
proof (induction rule: withdraw_step.induct)
  case (1 now env sv i)
  then show ?case unfolding handle_find_by_id_withdraw_def svc_find_withdraw_by_id_def repo_find_withdraw_by_id_def
    by (intro with_id_step served_row_step) (auto dest: repo_row_live)
qed (auto simp: ret_def
    handle_create_withdraw_def handle_update_withdraw_def Let_def handle_trashed_withdraw_def
    handle_restore_withdraw_def handle_delete_withdraw_permanent_def handle_restore_all_withdraw_def
    handle_delete_all_withdraw_permanent_def handle_find_all_withdraw_def
    handle_find_all_withdraw_by_card_number_def handle_find_active_withdraw_def
    handle_find_trashed_withdraw_def svc_find_all_withdraws_def
    svc_find_withdraws_by_card_number_def svc_find_active_withdraws_def
    svc_find_trashed_withdraws_def
    intro: served_step.command_step intro!: page_answer_step)

lemma withdraw_by_id_key_inj: "inj withdraw_by_id_key"
  by (rule injI) (simp add: withdraw_by_id_key_def)

lemma withdraw_run_served:
  "timed_run withdraw_step t sv t' sv' \<Longrightarrow> timed_run (served_step withdraw_by_id_key) t sv t' sv'"
  by (erule timed_run_weaken) (rule withdraw_step_served)

lemma find_by_id_withdraw_served:
  "fst (handle_find_by_id_withdraw env i sv) = Inr r \<Longrightarrow>
   fst (served_row env withdraw_by_id_key ''Withdraw'' i (repo_row (qe_fault env ''GetWithdrawByID'') withdraw_entity i) sv) = Inr r"
  by (auto simp: handle_find_by_id_withdraw_def with_id_def ret_def svc_find_withdraw_by_id_def repo_find_withdraw_by_id_def split: if_splits)

text \<open>
  A version of a row that is no longer live is not answered from five and a half minutes
  later on, although no command touches the cache.
\<close>

lemma withdraw_version_forgotten:
  assumes "timed_run withdraw_step t0 \<lparr>sv_world = w, sv_cache = Map.empty\<rparr> t sv" "\<not> sv_live r sv"
    and "timed_run (\<lambda>now sv sv'. withdraw_step now sv sv' \<and> \<not> sv_live r sv') t sv (qe_now env) sv'"
    and "t + stale_bound \<le> qe_now env" "fst (handle_find_by_id_withdraw env i sv') = Inr r'"
  shows "r' \<noteq> r"
proof (rule old_version_forgotten [OF withdraw_run_served [OF assms(1)]])
  show "timed_run (\<lambda>now sv sv'. served_step withdraw_by_id_key now sv sv' \<and> \<not> sv_live r sv') t sv (qe_now env) sv'"
    using assms(3) by (rule timed_run_weaken) (simp add: withdraw_step_served)
qed (use assms withdraw_by_id_key_inj find_by_id_withdraw_served in simp_all)

end
