(* ===== verification/QueryFacts.thy ===== *)
theory QueryFacts
  imports TransactionQueries TransferQueries TopupQueries WithdrawQueries Samples "HOL-Library.Multiset"
begin

text \<open>
  What the queries of the money services guarantee: the pages of a listing are the matching
  rows, each once and newest first, and an old version of a row is answered for at most
  five and a half minutes. The last section shows what the code leaves open.
\<close>

section \<open>Pages\<close>

definition hits :: "'r query_env \<Rightarrow> ('r \<Rightarrow> bool) \<Rightarrow> ('r \<Rightarrow> string list) \<Rightarrow> ('r \<Rightarrow> int) \<Rightarrow> string \<Rightarrow> 'r list \<Rightarrow> 'r list" where
  "hits env chosen columns time term rows =
     newest_sql env (\<lambda>r. chosen r \<and> (\<exists>col \<in> set (columns r). like (contains_pattern term) col)) time rows"

lemma newest_page_hits:
  "0 \<le> limit \<Longrightarrow> 0 \<le> offset \<Longrightarrow> newest_page_sql env chosen columns time term limit offset rows =
     Inr (map (\<lambda>r. (r, int (length (hits env chosen columns time term rows))))
       (take (nat limit) (drop (nat offset) (hits env chosen columns time term rows))))"
  by (simp add: newest_page_sql_def list_sql_def hits_def newest_sql_def Let_def)

lemma hits_rows:
  assumes "mset (qe_scan env rows) = mset rows"
  shows "mset (hits env chosen columns time term rows) =
      mset (filter (\<lambda>r. chosen r \<and> (\<exists>col \<in> set (columns r). like (contains_pattern term) col)) rows)"
    and "sorted (map (\<lambda>r. - time r) (hits env chosen columns time term rows))"
  using assms by (simp_all add: hits_def newest_sql_def mset_filter)

text \<open>Every scan gives the same hits when no two of them have the same time.\<close>

lemma hits_unique:
  assumes "mset (qe_scan env rows) = mset rows"
    and "distinct (map time (filter (\<lambda>r. chosen r \<and> (\<exists>col \<in> set (columns r). like (contains_pattern term) col)) rows))"
  shows "hits env chosen columns time term rows =
    sort_key (\<lambda>r. - time r) (filter (\<lambda>r. chosen r \<and> (\<exists>col \<in> set (columns r). like (contains_pattern term) col)) rows)"
    (is "?hits = sort_key _ ?rows")
proof -
  have same: "mset ?hits = mset ?rows" and sorted: "sorted (map (\<lambda>r. - time r) ?hits)" by (rule hits_rows [OF assms(1)])+
  have "mset (map time ?hits) = mset (map time ?rows)" using same by simp
  then have "distinct (map time ?hits)" using assms(2) mset_eq_imp_distinct_iff by blast
  then have dist: "distinct ?hits" "inj_on time (set ?hits)" by (simp_all only: distinct_map)
  have set: "set ?hits = set ?rows" using mset_eq_setD [OF same] .
  have inj: "inj_on (\<lambda>r. - time r) (set ?rows)" using dist(2) unfolding set by (simp add: inj_on_def)
  have rows: "distinct ?rows" using assms(2) by (simp only: distinct_map)
  show ?thesis
  proof (rule map_sorted_distinct_set_unique)
    show "inj_on (\<lambda>r. - time r) (set ?hits \<union> set (sort_key (\<lambda>r. - time r) ?rows))"
      using inj by (simp only: set set_sort Un_absorb)
    show "distinct (map (\<lambda>r. - time r) ?hits)"
      using dist(1) inj by (simp only: distinct_map set simp_thms)
    show "distinct (map (\<lambda>r. - time r) (sort_key (\<lambda>r. - time r) ?rows))"
      using rows inj by (simp only: distinct_map distinct_sort set_sort simp_thms)
    show "set ?hits = set (sort_key (\<lambda>r. - time r) ?rows)" by (simp only: set set_sort)
  qed (rule sorted, rule sorted_sort_key)
qed

text \<open>
  The pages 1 to \<open>m\<close> of a search that are answered while the rows stay. Each is a query of its
  own, with an environment of its own: the database may scan the rows in another order.
\<close>

definition page_request :: "string \<Rightarrow> nat \<Rightarrow> nat \<Rightarrow> find_all_request" where
  "page_request term per k = \<lparr>fa_search = term, fa_page = int k, fa_page_size = int per\<rparr>"

definition pages :: "(nat \<Rightarrow> find_all_request \<Rightarrow> go_error + ('r \<times> int) list) \<Rightarrow> string \<Rightarrow> nat \<Rightarrow> nat \<Rightarrow> 'r list" where
  "pages find_page term per m =
     concat (map (\<lambda>k. case find_page k (page_request term per k) of Inl _ \<Rightarrow> [] | Inr rows \<Rightarrow> map fst rows) [1..<Suc m])"

lemma page_request_window:
  assumes "1 \<le> per" "m * per < 2147483648" "k \<in> {1..m}"
  shows "page_limit (page_request term per k) = int per"
    and "page_offset (page_request term per k) = int ((k - 1) * per)"
proof -
  have "per \<le> m * per" "k \<le> m * per" using assms mult_le_mono [of 1 m per per] mult_le_mono [of k m 1 per] by auto
  then have per: "per < 2147483648" and k: "k < 2147483648" using assms(2) by (metis order.strict_trans1)+
  then show "page_limit (page_request term per k) = int per"
    by (simp add: page_limit_def page_request_def fits_int32_def)
  have "(k - 1) * per \<le> m * per" using assms(3) by (intro mult_le_mono1) auto
  then have "int ((k - 1) * per) < 2147483648" using assms(2) by linarith
  moreover have "int ((k - 1) * per) = (int k - 1) * int per" using assms(3) by (simp add: of_nat_diff)
  ultimately show "page_offset (page_request term per k) = int ((k - 1) * per)"
    using assms(1,3) k by (subst page_offset_exact) (auto simp: page_request_def)
qed

lemma pages_are_hits:
  assumes "1 \<le> per" "m * per < 2147483648"
    and "\<And>k req. 0 \<le> page_limit req \<Longrightarrow> 0 \<le> page_offset req \<Longrightarrow> fa_search req = term \<Longrightarrow>
      map_sum id (map fst) (find_page k req) = Inr (take (nat (page_limit req)) (drop (nat (page_offset req)) xs))"
  shows "pages find_page term per m = take (m * per) xs"
proof -
  have "(case find_page k (page_request term per k) of Inl _ \<Rightarrow> [] | Inr rows \<Rightarrow> map fst rows)
      = take per (drop ((k - 1) * per) xs)" if "k \<in> {1..m}" for k
    using page_request_window [OF assms(1,2) that, of "term"] assms(3) [of "page_request term per k" k]
    by (cases "find_page k (page_request term per k)") (auto simp: page_request_def nat_mult_distrib)
  then have "pages find_page term per m = concat (map (\<lambda>k. take per (drop ((k - 1) * per) xs)) [1..<Suc m])"
    unfolding pages_def by (intro arg_cong [where f = concat] map_cong) auto
  also have "map (\<lambda>k. take per (drop ((k - 1) * per) xs)) [1..<Suc m] = map (\<lambda>k. take per (drop (k * per) xs)) [0..<m]"
    unfolding One_nat_def map_Suc_upt [symmetric] by simp
  finally show ?thesis by (simp only: take_pages)
qed

lemma repo_page_fst:
  "0 \<le> page_limit req \<Longrightarrow> 0 \<le> page_offset req \<Longrightarrow> fa_search req = term \<Longrightarrow>
   map_sum id (map fst) (repo_page Deliver operation
      (\<lambda>term limit offset. newest_page_sql env chosen columns time term limit offset rows) req)
   = Inr (take (nat (page_limit req)) (drop (nat (page_offset req)) (hits env chosen columns time term rows)))"
  by (simp add: repo_page_def read_fault_def map_read_error_def newest_page_hits comp_def)

definition txn_matches :: "string \<Rightarrow> txn_row \<Rightarrow> bool" where
  "txn_matches term r \<longleftrightarrow> row_live r \<and> (\<exists>col \<in> {t_card r, t_method r, row_status r}. like (contains_pattern term) col)"

text \<open>
  C40: the pages of a search of the transactions, read one after the other until they
  cover the table, which stays meanwhile, each in whatever order the database scans the
  rows, are the live rows that match the term, each once, newest first, when no two of
  them have the same time
\<close>

theorem transaction_pages_complete:
  assumes "\<forall>k. mset (qe_scan (env k) rows) = mset rows" "\<forall>k. qe_fault (env k) ''GetTransactions'' = Deliver"
    and "distinct (map t_time (filter (txn_matches term) rows))"
    and "1 \<le> per" "m * per < 2147483648" "length rows \<le> m * per"
  shows "mset (pages (\<lambda>k req. repo_find_all_transactions (env k) req rows) term per m) = mset (filter (txn_matches term) rows)
    \<and> sorted_wrt (\<lambda>r r'. t_time r' < t_time r) (pages (\<lambda>k req. repo_find_all_transactions (env k) req rows) term per m)"
proof -
  let ?ys = "filter (txn_matches term) rows"
  let ?xs = "sort_key (\<lambda>r. - t_time r) ?ys"
  have matches: "txn_matches term = (\<lambda>r. row_live r \<and> (\<exists>col \<in> set [t_card r, t_method r, row_status r]. like (contains_pattern term) col))"
    by (simp add: txn_matches_def fun_eq_iff)
  have hits: "hits (env k) row_live (\<lambda>r. [t_card r, t_method r, row_status r]) t_time term rows = ?xs" for k
    unfolding matches by (rule hits_unique [OF spec [OF assms(1)]]) (use assms(3) in \<open>simp only: matches\<close>)
  have "pages (\<lambda>k req. repo_find_all_transactions (env k) req rows) term per m = take (m * per) ?xs"
    by (rule pages_are_hits [OF assms(4,5)])
      (simp only: repo_find_all_transactions_def get_transactions_sql_def [abs_def] spec [OF assms(2)] repo_page_fst hits)
  moreover have "length ?xs \<le> m * per" using assms(6) by (simp add: order.trans [OF length_filter_le])
  ultimately have all: "pages (\<lambda>k req. repo_find_all_transactions (env k) req rows) term per m = ?xs" by simp
  have "distinct (map (\<lambda>r. - t_time r) ?xs)" using assms(3) by (simp add: distinct_map inj_on_def)
  then have "sorted_wrt (<) (map (\<lambda>r. - t_time r) ?xs)" by (simp add: strict_sorted_iff)
  then have "sorted_wrt (\<lambda>r r'. t_time r' < t_time r) ?xs" by (simp add: sorted_wrt_map)
  then show ?thesis unfolding all by simp
qed

definition shop_row :: "int \<Rightarrow> int \<Rightarrow> txn_row" where
  "shop_row i time = \<lparr>row_id = i, row_no = ''n'', row_status = st_success, row_failure = None,
     row_created_at = Some 0, row_updated_at = 0, row_deleted_at = None,
     t_card = ''4111'', t_amount = 50000, t_method = ''visa'', t_merchant_id = 7, t_time = time\<rparr>"

definition plain_query :: "int \<Rightarrow> 'r query_env" where
  "plain_query now = \<lparr>qe_cache = \<lparr>ce_now = now, ce_rand = (\<lambda>_. 0), ce_get_ok = True, ce_set_ok = True, ce_del_ok = True\<rparr>,
     qe_fault = (\<lambda>_. Deliver), qe_scan = (\<lambda>rows. rows), qe_time_text = itoa, qe_time_char = itoa\<rparr>"

text \<open>The second page is scanned in the other direction.\<close>

definition turning_query :: "nat \<Rightarrow> 'r query_env" where
  "turning_query k = (plain_query 0)\<lparr>qe_scan := if even k then rev else (\<lambda>rows. rows)\<rparr>"

theorem transaction_pages_complete_witness:
  "mset (pages (\<lambda>k req. repo_find_all_transactions (turning_query k) req [shop_row 1 5, shop_row 2 9, shop_row 3 7]) ''VISA'' 2 2)
      = mset (filter (txn_matches ''VISA'') [shop_row 1 5, shop_row 2 9, shop_row 3 7])
   \<and> sorted_wrt (\<lambda>r r'. t_time r' < t_time r)
      (pages (\<lambda>k req. repo_find_all_transactions (turning_query k) req [shop_row 1 5, shop_row 2 9, shop_row 3 7]) ''VISA'' 2 2)"
proof (rule transaction_pages_complete)
  show "distinct (map t_time (filter (txn_matches ''VISA'') [shop_row 1 5, shop_row 2 9, shop_row 3 7]))"
    by (simp add: shop_row_def)
qed (simp_all add: turning_query_def plain_query_def)

section \<open>Old versions\<close>

text \<open>
  A version of a payment that is no longer live, and does not become live again, is not
  answered from five and a half minutes later on, although no command touches the cache.
\<close>

theorem old_payment_forgotten:
  assumes "timed_run transaction_step t0 \<lparr>sv_world = w, sv_cache = Map.empty\<rparr> t sv" "\<not> sv_live r sv"
    and "timed_run (\<lambda>now sv sv'. transaction_step now sv sv' \<and> \<not> sv_live r sv') t sv (qe_now env) sv'"
    and "t + stale_bound \<le> qe_now env" "fst (handle_find_by_id_transaction env i sv') = Inr r'"
  shows "r' \<noteq> r"
  using assms by (rule transaction_version_forgotten)

definition shop_served :: "txn_row served" where
  "shop_served = \<lparr>sv_world = (sample_world 0 0)\<lparr>w_table := \<lparr>t_rows = [shop_row 1 5], t_seq = 2\<rparr>, w_marks := [1]\<rparr>, sv_cache = Map.empty\<rparr>"

definition shop_env :: "create_txn_request svc_env" where
  "shop_env = sample_env (\<lambda>_. Deliver) 10"

text \<open>A payment is read, and so cached, and then marked as failed.\<close>

definition shop_read :: "txn_row served" where
  "shop_read = snd (handle_find_by_id_transaction (plain_query 0) 1 shop_served)"

definition shop_marked :: "txn_row served" where
  "shop_marked = shop_read\<lparr>sv_world := run_mark shop_env txn_entity (sv_world shop_read)\<rparr>"

definition failed_row :: txn_row where
  "failed_row = (shop_row 1 5)\<lparr>row_status := st_failed, row_updated_at := 10\<rparr>"

lemma plain_query_at: "query_at now (plain_query now)" "qe_now (plain_query now) = now"
  by (simp_all add: query_at_def plain_query_def qe_now_def rand_ok_def)

lemma shop_marked_run: "timed_run transaction_step 0 \<lparr>sv_world = sv_world shop_served, sv_cache = Map.empty\<rparr> 0 shop_marked"
proof -
  have "transaction_step 0 shop_served shop_read" unfolding shop_read_def
    by (rule transaction_step.intros) (rule plain_query_at)
  moreover have "transaction_step 0 shop_read shop_marked" unfolding shop_marked_def
    by (intro transaction_step.intros)
  ultimately have "timed_run transaction_step 0 shop_served 0 shop_marked"
    by (blast intro: timed_run.run_step timed_run.run_nil)
  then show ?thesis by (simp add: shop_served_def)
qed

lemma shop_marked_rows: "sv_rows shop_marked = [failed_row]"
  by code_simp

theorem old_payment_forgotten_witness:
  "fst (handle_find_by_id_transaction (plain_query stale_bound) 1 shop_marked) = Inr failed_row \<and> failed_row \<noteq> shop_row 1 5"
proof
  show a: "fst (handle_find_by_id_transaction (plain_query stale_bound) 1 shop_marked) = Inr failed_row" by code_simp
  have dead: "\<not> sv_live (shop_row 1 5) shop_marked"
    by (simp add: sv_live_def shop_marked_rows failed_row_def shop_row_def)
  show "failed_row \<noteq> shop_row 1 5"
  proof (rule old_payment_forgotten [OF shop_marked_run dead _ _ a])
    show "timed_run (\<lambda>now sv sv'. transaction_step now sv sv' \<and> \<not> sv_live (shop_row 1 5) sv') 0 shop_marked
        (qe_now (plain_query stale_bound)) shop_marked"
      by (rule timed_run.run_wait [OF timed_run.run_nil]) (simp add: plain_query_at stale_bound_def time_defs)
  qed (simp add: plain_query_at)
qed

section \<open>What the code leaves open\<close>

text \<open>Until then the old version is answered, and a trashed payment too.\<close>

lemma old_payment_answered:
  "fst (handle_find_by_id_transaction (plain_query (4 * minute)) 1 shop_marked) = Inr (shop_row 1 5)
   \<and> fst (handle_find_by_id_transaction (plain_query (4 * minute)) 1 (snd (handle_trashed_transaction shop_env 1 shop_read)))
     = Inr (shop_row 1 5)"
  by code_simp

text \<open>Every failure of a lookup by id, an unreachable database too, is answered as an absent row.\<close>

lemma outage_is_not_found:
  "fst (handle_find_by_id_transaction ((plain_query 0)\<lparr>qe_fault := (\<lambda>_. Refuse (DbError ''57P03''))\<rparr>) 1 shop_served)
   = fst (handle_find_by_id_transaction (plain_query 0) 99 shop_served)"
  by code_simp

text \<open>A request without a time passes the validation of a required one as 1 January 1970.\<close>

lemma missing_time_accepted:
  "create_withdraw_ok 0 \<lparr>cw_card = ''4111'', cw_amount = 50000, cw_time = as_time None, cw_key = [], cw_user = 0\<rparr>"
  by code_simp

text \<open>A user header that is no number, or is missing, is the user 0, whose cards nobody checks.\<close>

lemma malformed_user_is_nobody: "metadata_user [''x''] = 0 \<and> metadata_user [] = 0"
  by code_simp

text \<open>
  Top-ups all have the same time, so nothing orders their listing: a row can be on both
  pages, and another on none, when the scans of the two queries differ.
\<close>

lemma pages_overlap:
  "let rows = [shop_row 1 0, shop_row 2 0];
       page = (\<lambda>env k. map_sum id (map (row_id \<circ> fst)) (repo_find_all_transactions env (page_request [] 1 k) rows))
   in page (plain_query 0) 1 = Inr [1] \<and> page ((plain_query 0)\<lparr>qe_scan := rev\<rparr>) 2 = Inr [1]"
  by code_simp

end
