(* ===== verification/SaldoQueries.thy ===== *)
theory SaldoQueries
  imports SaldoService Reconciliation Repository
begin

text \<open>
  The query side of the saldo service (\<open>service/saldo/repository/saldoQueryRepository.go\<close>,
  \<open>service/saldoQueryService.go\<close>, \<open>handler/query.go\<close>) with the statements it reads, and its two
  Kafka consumers (\<open>kafka/saldo_kafka.go\<close>, \<open>kafka/cache_invalidator.go\<close>). The functions of
  \<open>redis/saldoQueryCache.go\<close> have no caller: the queries always read the table. \<open>fl\<close> is the
  fault of the read.
\<close>

section \<open>Statements\<close>

definition get_saldos_sql :: "saldo_db \<Rightarrow> string \<Rightarrow> int \<Rightarrow> int \<Rightarrow> go_error + (saldo_row \<times> int) list" where
  "get_saldos_sql db term limit offset = list_sql row_active (\<lambda>r. [s_card r]) saldo_id term limit offset (saldos db)"

definition get_active_saldos_sql :: "saldo_db \<Rightarrow> string \<Rightarrow> int \<Rightarrow> int \<Rightarrow> go_error + (saldo_row \<times> int) list" where
  "get_active_saldos_sql db term limit offset =
     list_sql row_active (\<lambda>r. [s_card r]) saldo_id term limit offset (saldos db)"

definition get_trashed_saldos_sql :: "saldo_db \<Rightarrow> string \<Rightarrow> int \<Rightarrow> int \<Rightarrow> go_error + (saldo_row \<times> int) list" where
  "get_trashed_saldos_sql db term limit offset =
     list_sql (\<lambda>r. \<not> row_active r) (\<lambda>r. [s_card r]) saldo_id term limit offset (saldos db)"

section \<open>Repository\<close>

definition clamp_limit :: "int \<Rightarrow> nat" where
  "clamp_limit limit = (if limit \<le> 0 \<or> limit > 1000 then 100 else nat limit)"

definition repo_list_reconciliation_queue ::
  "go_error fault \<Rightarrow> string \<Rightarrow> int \<Rightarrow> saldo_db \<Rightarrow> go_error + queue_row list" where
  "repo_list_reconciliation_queue fl status limit db =
     map_read_error (failed ''list reconciliation queue'')
       (read_fault fl (Inr (list_reconciliation_queue status (clamp_limit limit) db)))"

definition repo_list_ledger_entries ::
  "go_error fault \<Rightarrow> string \<Rightarrow> int \<Rightarrow> saldo_db \<Rightarrow> go_error + ledger_entry list" where
  "repo_list_ledger_entries fl cnum limit db =
     map_read_error (failed ''list ledger entries'')
       (read_fault fl (Inr (list_ledger_entries cnum (clamp_limit limit) db)))"

definition repo_find_all_saldos ::
  "go_error fault \<Rightarrow> find_all_request \<Rightarrow> saldo_db \<Rightarrow> go_error + (saldo_row \<times> int) list" where
  "repo_find_all_saldos fl req db = repo_page fl ''find all saldo records'' (get_saldos_sql db) req"

definition repo_find_active_saldos ::
  "go_error fault \<Rightarrow> find_all_request \<Rightarrow> saldo_db \<Rightarrow> go_error + (saldo_row \<times> int) list" where
  "repo_find_active_saldos fl req db = repo_page fl ''find active saldo records'' (get_active_saldos_sql db) req"

definition repo_find_trashed_saldos ::
  "go_error fault \<Rightarrow> find_all_request \<Rightarrow> saldo_db \<Rightarrow> go_error + (saldo_row \<times> int) list" where
  "repo_find_trashed_saldos fl req db = repo_page fl ''find trashed saldo records'' (get_trashed_saldos_sql db) req"

definition repo_find_saldo_by_card_number :: "go_error fault \<Rightarrow> string \<Rightarrow> saldo_db \<Rightarrow> go_error + saldo_row" where
  "repo_find_saldo_by_card_number fl cnum db =
     repo_lookup fl (err_not_found_response ''saldo record'') (get_saldo_by_card_number cnum db)"

definition repo_find_saldo_by_id :: "go_error fault \<Rightarrow> int \<Rightarrow> saldo_db \<Rightarrow> go_error + saldo_row" where
  "repo_find_saldo_by_id fl i db =
     repo_lookup fl (err_not_found_response ''saldo record'') (get_saldo_by_id (go_int32 i) db)"

section \<open>Service\<close>

definition plain_page :: "string \<Rightarrow> go_error + ('r \<times> int) list \<Rightarrow> go_error + ('r \<times> int) list \<times> int" where
  "plain_page operation fetched =
     (case fetched of
        Inl err \<Rightarrow> Inl (handle_error (Some (err_failed operation)))
      | Inr rows \<Rightarrow> Inr (rows, total_count rows))"

definition svc_find_all_saldos ::
  "go_error fault \<Rightarrow> find_all_request \<Rightarrow> (go_error, (saldo_row \<times> int) list \<times> int, saldo_service) op" where
  "svc_find_all_saldos fl req s = ret (plain_page ''find all saldo'' (repo_find_all_saldos fl req (sdb s))) s"

definition svc_find_active_saldos ::
  "go_error fault \<Rightarrow> find_all_request \<Rightarrow> (go_error, (saldo_row \<times> int) list \<times> int, saldo_service) op" where
  "svc_find_active_saldos fl req s = ret (plain_page ''find active saldo'' (repo_find_active_saldos fl req (sdb s))) s"

definition svc_find_trashed_saldos ::
  "go_error fault \<Rightarrow> find_all_request \<Rightarrow> (go_error, (saldo_row \<times> int) list \<times> int, saldo_service) op" where
  "svc_find_trashed_saldos fl req s = ret (plain_page ''find trashed saldo'' (repo_find_trashed_saldos fl req (sdb s))) s"

definition svc_find_saldo_by_id :: "go_error fault \<Rightarrow> int \<Rightarrow> (go_error, saldo_row, saldo_service) op" where
  "svc_find_saldo_by_id fl i s =
     ret (map_read_error (\<lambda>_. handle_error (Some (err_not_found_response ''Saldo''))) (repo_find_saldo_by_id fl i (sdb s))) s"

definition svc_find_saldo_by_card_number :: "go_error fault \<Rightarrow> string \<Rightarrow> (go_error, saldo_row, saldo_service) op" where
  "svc_find_saldo_by_card_number fl cnum s =
     ret (map_read_error (\<lambda>_. handle_error (Some (err_not_found_response ''Saldo'')))
       (repo_find_saldo_by_card_number fl cnum (sdb s))) s"

definition svc_list_reconciliation_queue ::
  "go_error fault \<Rightarrow> string \<Rightarrow> int \<Rightarrow> (go_error, queue_row list, saldo_service) op" where
  "svc_list_reconciliation_queue fl status limit s = ret (repo_list_reconciliation_queue fl status limit (sdb s)) s"

definition svc_list_ledger_entries ::
  "go_error fault \<Rightarrow> string \<Rightarrow> int \<Rightarrow> (go_error, ledger_entry list, saldo_service) op" where
  "svc_list_ledger_entries fl cnum limit s = ret (repo_list_ledger_entries fl cnum limit (sdb s)) s"

section \<open>Handlers\<close>

definition handle_find_all_saldo ::
  "go_error fault \<Rightarrow> string \<Rightarrow> int \<Rightarrow> int \<Rightarrow> (go_error, saldo_row list \<times> page_meta, saldo_service) op" where
  "handle_find_all_saldo fl = page_answer (svc_find_all_saldos fl)"

definition handle_find_active_saldo ::
  "go_error fault \<Rightarrow> string \<Rightarrow> int \<Rightarrow> int \<Rightarrow> (go_error, saldo_row list \<times> page_meta, saldo_service) op" where
  "handle_find_active_saldo fl = page_answer (svc_find_active_saldos fl)"

definition handle_find_trashed_saldo ::
  "go_error fault \<Rightarrow> string \<Rightarrow> int \<Rightarrow> int \<Rightarrow> (go_error, saldo_row list \<times> page_meta, saldo_service) op" where
  "handle_find_trashed_saldo fl = page_answer (svc_find_trashed_saldos fl)"

definition handle_find_by_id_saldo :: "go_error fault \<Rightarrow> int \<Rightarrow> (go_error, saldo_row, saldo_service) op" where
  "handle_find_by_id_saldo fl = handle_by_id (svc_find_saldo_by_id fl)"

definition svc_resolve_reconciliation ::
  "int \<Rightarrow> int \<Rightarrow> string \<Rightarrow> string \<Rightarrow> (go_error, unit, saldo_service) op" where
  "svc_resolve_reconciliation now queue_id op_id note =
     zoom sdb (\<lambda>db s. s\<lparr>sdb := db\<rparr>) (repo_resolve_reconciliation now queue_id op_id note)"

definition handle_resolve_reconciliation ::
  "int \<Rightarrow> int \<Rightarrow> string \<Rightarrow> string \<Rightarrow> (go_error, unit, saldo_service) op" where
  "handle_resolve_reconciliation now queue_id op_id note =
     (if queue_id \<le> 0 \<or> op_id = [] then ret (Inl ErrGrpcSaldoInvalidID)
      else to_wire (svc_resolve_reconciliation now queue_id op_id note))"

definition handle_list_reconciliation_queue ::
  "go_error fault \<Rightarrow> string \<Rightarrow> int \<Rightarrow> (go_error, queue_row list, saldo_service) op" where
  "handle_list_reconciliation_queue fl status limit = to_wire (svc_list_reconciliation_queue fl status limit)"

definition handle_list_ledger_entries ::
  "go_error fault \<Rightarrow> string \<Rightarrow> int \<Rightarrow> (go_error, ledger_entry list, saldo_service) op" where
  "handle_list_ledger_entries fl cnum limit = to_wire (svc_list_ledger_entries fl cnum limit)"

section \<open>Consumers\<close>

text \<open>
  The event of a new card, as far as the consumer looks at it: no JSON, or an object whose
  \<open>card_number\<close> may be a string and whose \<open>total_balance\<close> may be a number (an integer of at
  most 53 bits here, which \<open>float64\<close> holds exactly). An error ends the claim: the messages
  behind it wait, and none is ever marked.
\<close>

datatype card_created = Garbled | CardFields "string option" "int option"

fun consume_card_created ::
  "saldo_env \<Rightarrow> card_created list \<Rightarrow> saldo_service \<Rightarrow> go_error option \<times> saldo_service" where
  "consume_card_created env [] s = (None, s)"
| "consume_card_created env (Garbled # msgs) s = (Some (ErrorString ''invalid character''), s)"
| "consume_card_created env (CardFields (Some cnum) (Some amt) # msgs) s =
     (case svc_create_saldo_if_not_exists env cnum amt s of
        (Inl err, s') \<Rightarrow> (Some (Wrapped ''card service error: '' err), s')
      | (Inr _, s') \<Rightarrow> consume_card_created env msgs s')"
| "consume_card_created env (CardFields _ _ # msgs) s = consume_card_created env msgs s"

text \<open>The event of a changed balance: saldo id and card, 0 and empty where missing.\<close>

datatype saldo_changed = GarbledChange | SaldoChanged int string

fun consume_saldo_changed :: "saldo_changed \<Rightarrow> saldo_service \<Rightarrow> saldo_service" where
  "consume_saldo_changed GarbledChange s = s"
| "consume_saldo_changed (SaldoChanged i cnum) s =
     (if cnum = [] then s
      else s\<lparr>saldo_cache := saldo_cache s - {cache_key_by_card_number cnum}
                             - (if i > 0 then {cache_key_by_id (go_int64 i)} else {})\<rparr>)"

section \<open>Facts\<close>

text \<open>What a redelivered event can change: an id of the sequence.\<close>

definition has_saldo :: "saldo_service \<Rightarrow> string \<Rightarrow> bool" where
  "has_saldo s cnum \<longleftrightarrow> get_saldo_by_card_number cnum (sdb s) \<noteq> None"

definition same_accounts :: "saldo_service \<Rightarrow> saldo_service \<Rightarrow> bool" where
  "same_accounts s s' \<longleftrightarrow> saldos (sdb s') = saldos (sdb s) \<and> ledger (sdb s') = ledger (sdb s)
     \<and> recon_queue (sdb s') = recon_queue (sdb s)"

fun opens :: "card_created \<Rightarrow> string set" where
  "opens (CardFields (Some cnum) (Some _)) = {cnum}"
| "opens _ = {}"

lemma has_saldo_same: "same_accounts s s' \<Longrightarrow> has_saldo s' = has_saldo s"
  by (simp add: same_accounts_def has_saldo_def fun_eq_iff get_saldo_by_card_number_def)

lemma known_card_opens_nothing:
  assumes "svc_create_saldo_if_not_exists env cnum amt s = (r, s')" "has_saldo s cnum"
  shows "r = Inr () \<and> same_accounts s s'"
  using assms by (auto simp: svc_create_saldo_if_not_exists_def repo_create_saldo_if_not_exists_def zoom_def
      create_saldo_if_not_exists_sql_def has_saldo_def same_accounts_def)

lemma consumed_again:
  "(\<And>m c. m \<in> set msgs \<Longrightarrow> c \<in> opens m \<Longrightarrow> has_saldo s c) \<Longrightarrow> same_accounts s (snd (consume_card_created env msgs s))"
proof (induction env msgs s rule: consume_card_created.induct)
  case (3 env cnum amt msgs s)
  obtain r s1 where run: "svc_create_saldo_if_not_exists env cnum amt s = (r, s1)" by fastforce
  have "has_saldo s cnum" by (rule "3.prems" [of "CardFields (Some cnum) (Some amt)"]) simp_all
  then have known: "r = Inr ()" "same_accounts s s1" using known_card_opens_nothing [OF run] by auto
  then have "same_accounts s1 (snd (consume_card_created env msgs s1))"
    using "3.IH" [OF run [symmetric]] "3.prems" has_saldo_same by auto
  then show ?case using known by (simp add: run same_accounts_def)
qed (auto simp: same_accounts_def)

lemma insert_saldo_row_rows:
  "insert_saldo_row now cnum amt db = (Inr r, db') \<Longrightarrow> saldos db' = saldos db @ [r] \<and> active_card cnum r"
  by (auto simp: insert_saldo_row_def active_card_def row_active_def Let_def split: if_splits option.splits)

lemma has_saldo_rows: "has_saldo s cnum \<longleftrightarrow> (\<exists>r \<in> set (saldos (sdb s)). active_card cnum r)"
  by (auto simp: has_saldo_def get_saldo_by_card_number_def find_None_iff)

lemma card_opened:
  assumes "svc_create_saldo_if_not_exists env cnum amt s = (Inr u, s')"
  shows "has_saldo s' cnum \<and> (\<forall>c. has_saldo s c \<longrightarrow> has_saldo s' c)"
proof (cases "has_saldo s cnum")
  case True
  then show ?thesis using known_card_opens_nothing [OF assms] has_saldo_same [of s s'] by simp
next
  case False
  then obtain r where "insert_saldo_row (e_now env) cnum (amount_to_int64 amt) (sdb s) = (Inr r, sdb s')"
    using assms by (auto simp: svc_create_saldo_if_not_exists_def repo_create_saldo_if_not_exists_def zoom_def
        create_saldo_if_not_exists_sql_def has_saldo_def split: prod.splits sum.splits)
  then show ?thesis using insert_saldo_row_rows [of "e_now env" cnum "amount_to_int64 amt" "sdb s" r "sdb s'"]
    by (auto simp: has_saldo_rows)
qed

lemma consumed_opens:
  "consume_card_created env msgs s = (None, s') \<Longrightarrow>
   (\<forall>c. has_saldo s c \<longrightarrow> has_saldo s' c) \<and> (\<forall>m \<in> set msgs. \<forall>c \<in> opens m. has_saldo s' c)"
proof (induction env msgs s arbitrary: s' rule: consume_card_created.induct)
  case (3 env cnum amt msgs s)
  from "3.prems" obtain s1 u where run: "svc_create_saldo_if_not_exists env cnum amt s = (Inr u, s1)"
    and rest: "consume_card_created env msgs s1 = (None, s')" by (auto split: prod.splits sum.splits)
  from "3.IH" [OF run [symmetric] refl rest] card_opened [OF run] show ?case by auto
qed auto

text \<open>
  A delivery that was consumed to its end can be repeated, in part and in any order: no
  account is opened or changed a second time.
\<close>

lemma redelivery_opens_nothing:
  assumes "consume_card_created env msgs s = (None, s')" "set msgs' \<subseteq> set msgs"
  shows "same_accounts s' (snd (consume_card_created env' msgs' s'))"
  by (rule consumed_again) (use consumed_opens [OF assms(1)] assms(2) in blast)

text \<open>The ledger of a card is listed from its beginning and never beyond 1000 entries.\<close>

lemma ledger_listing_bounded:
  assumes "repo_list_ledger_entries fl cnum limit db = Inr es"
  shows "length es \<le> 1000 \<and> prefix es (sort_key le_created_at (filter (\<lambda>e. le_card e = cnum) (ledger db)))"
  using assms by (auto simp: repo_list_ledger_entries_def map_read_error_def read_fault_def clamp_limit_def
      list_ledger_entries_def take_is_prefix split: sum.splits fault.splits if_splits)

text \<open>A message that is no JSON stops the claim: the ones behind it are not consumed.\<close>

lemma garbled_event_blocks: "consume_card_created env (Garbled # msgs) s = (Some (ErrorString ''invalid character''), s)"
  by simp

end
