(* ===== verification/GatewayAccess.thy ===== *)
theory GatewayAccess
  imports RoleFacts AuthStore "HOL-Library.Sublist"
begin

text \<open>
  Who may pass the API gateway (\<open>service/apigateway/middlewares\<close>, \<open>redis/role.go\<close>): the token
  test of every request, and the role check of the role routes, which asks the role service
  over Kafka and waits for the reply with its correlation id. Requests, replies, timeouts
  and the consumer of the replies run concurrently: each critical section is a step. The
  handler behind a check, which the code runs before it unregisters, is no part of the check.
\<close>

lemma timed_run_append: "timed_run step b w' c w'' \<Longrightarrow> timed_run step a w b w' \<Longrightarrow> timed_run step a w c w''"
  by (induction rule: timed_run.induct) (auto intro: timed_run.intros)

section \<open>Tokens\<close>

type_synonym http_error = "int \<times> string"

text \<open>A request: the token that the extractor of the JWT middleware finds, if there is one.\<close>

record http_request =
  rq_path :: string
  rq_token :: "string option"
  rq_api_key :: string
  rq_ip :: string

definition white_list_paths :: "string list" where
  "white_list_paths =
     [''/api/auth/login'', ''/api/auth/register'', ''/api/auth/hello'', ''/api/auth/verify-code'',
      ''/docs/'', ''/docs'', ''/swagger'', ''/metrics'']"

definition skip_auth :: "string \<Rightarrow> bool" where
  "skip_auth path =
     list_ex (\<lambda>p. path = p \<or> prefix ''/swagger'' path \<or> prefix ''/metrics'' path) white_list_paths"

definition err_unauthorized :: http_error where
  "err_unauthorized = (401, ''Unauthorized'')"

text \<open>Answers the value of \<open>user_id\<close> in the context: none on the skipped paths.\<close>

definition web_security :: "jwt_lib \<Rightarrow> int \<Rightarrow> http_request \<Rightarrow> http_error + string option" where
  "web_security lib now rq =
     (if skip_auth (rq_path rq) then Inr None
      else case rq_token rq of
        None \<Rightarrow> Inl err_unauthorized
      | Some t \<Rightarrow>
          (case jwt_parse lib now t of
             JwtSubject sub \<Rightarrow> Inr (Some sub)
           | _ \<Rightarrow> Inl err_unauthorized))"

section \<open>Roles\<close>

text \<open>
  A channel has one place and is registered under its correlation id; it is removed and
  closed in one critical section. The consumer of the replies holds the channel it looked up
  until it has sent to it.
\<close>

record role_gate =
  rg_cache :: "string list redis"
  rg_chans :: "string \<Rightarrow> role_message option option"
  rg_waiting :: "(string \<times> int) list"
  rg_held :: "role_message option"
  rg_crashed :: bool

record gate_world =
  gw_role :: role_world
  gw_requests :: "(int \<times> string \<times> string) list"
  gw_used :: "string list"
  gw_gate :: role_gate

record gate_env =
  gv_cache :: cache_env
  gv_sent :: bool

definition gv_now :: "gate_env \<Rightarrow> int" where
  "gv_now env = ce_now (gv_cache env)"

definition role_key :: "string \<Rightarrow> string" where
  "role_key user = ''apigw:user_roles:'' @ user"

definition get_role_cache :: "gate_env \<Rightarrow> string \<Rightarrow> string list redis \<Rightarrow> string list option" where
  "get_role_cache env user st = get_from_cache (gv_cache env) (role_key user) st"

definition set_role_cache :: "gate_env \<Rightarrow> string \<Rightarrow> string list \<Rightarrow> string list redis \<Rightarrow> string list redis" where
  "set_role_cache env user roles st =
     (if user = [] \<or> roles = [] then st
      else set_to_cache (gv_cache env) (role_key user) roles ttl_default st)"

datatype role_answer = Refused http_error | Roles "string list" | Waits

text \<open>The context holds a string: the other cases of the type switch do not occur.\<close>

definition extract_user_id :: "string \<Rightarrow> int option" where
  "extract_user_id v = atoi v"

definition send_validation_request :: "gate_env \<Rightarrow> int \<Rightarrow> string \<Rightarrow> gate_world \<Rightarrow> bool \<times> gate_world" where
  "send_validation_request env user correlation w =
     (if gv_sent env then (True, w\<lparr>gw_requests := gw_requests w @ [(user, correlation, ''response-role'')]\<rparr>)
      else (False, w))"

text \<open>The middleware until it waits; \<open>correlation\<close> is the new UUID.\<close>

definition unregister :: "string \<Rightarrow> role_gate \<Rightarrow> role_gate" where
  "unregister correlation g =
     g\<lparr>rg_chans := (rg_chans g)(correlation := None),
       rg_waiting := filter (\<lambda>(c, _). c \<noteq> correlation) (rg_waiting g)\<rparr>"

definition role_check :: "gate_env \<Rightarrow> string option \<Rightarrow> string \<Rightarrow> gate_world \<Rightarrow> role_answer \<times> gate_world" where
  "role_check env user_id correlation w =
     (case user_id of
        None \<Rightarrow> (Refused (401, ''User ID not found in context''), w)
      | Some v \<Rightarrow>
          (case extract_user_id v of
             None \<Rightarrow> (Refused (401, ''Invalid User ID format''), w)
           | Some user \<Rightarrow>
               (case get_role_cache env (itoa user) (rg_cache (gw_gate w)) of
                  Some roles \<Rightarrow> (Roles roles, w)
                | None \<Rightarrow>
                    let g = gw_gate w;
                        g1 = g\<lparr>rg_chans := (rg_chans g)(correlation \<mapsto> None)\<rparr>;
                        w1 = w\<lparr>gw_used := gw_used w @ [correlation], gw_gate := g1\<rparr>
                    in (case send_validation_request env user correlation w1 of
                          (True, w2) \<Rightarrow>
                            (Waits, w2\<lparr>gw_gate := g1\<lparr>rg_waiting :=
                                rg_waiting g1 @ [(correlation, user)]\<rparr>\<rparr>)
                        | (False, w2) \<Rightarrow>
                            (Refused (500, ''Failed to send Kafka message''), w2\<lparr>gw_gate := unregister correlation g1\<rparr>)))))"

text \<open>The reply arrives before the timeout, or at the same time and is chosen.\<close>

definition receive_role_reply :: "gate_env \<Rightarrow> string \<Rightarrow> int \<Rightarrow> gate_world \<Rightarrow> role_answer \<times> gate_world" where
  "receive_role_reply env correlation user w =
     (case rg_chans (gw_gate w) correlation of
        Some (Some (RoleResponse _ valid names)) \<Rightarrow>
          let g = unregister correlation (gw_gate w)
          in if \<not> valid \<or> names = [] then (Refused (401, ''Role validation failed''), w\<lparr>gw_gate := g\<rparr>)
             else (Roles names, w\<lparr>gw_gate := g\<lparr>rg_cache := set_role_cache env (itoa user) names (rg_cache g)\<rparr>\<rparr>)
      | _ \<Rightarrow> (Waits, w))"

definition give_up_role_check :: "string \<Rightarrow> gate_world \<Rightarrow> role_answer \<times> gate_world" where
  "give_up_role_check correlation w =
     (Refused (408, ''Timeout waiting for role validation''), w\<lparr>gw_gate := unregister correlation (gw_gate w)\<rparr>)"

text \<open>
  The consumer looks the channel up under the lock (\<open>None\<close>: a message it cannot parse) and
  sends after it has released it. A full channel drops the reply; sending on a closed one
  panics, also in a \<open>select\<close> with a default.
\<close>

definition take_role_response :: "role_message option \<Rightarrow> role_gate \<Rightarrow> role_gate" where
  "take_role_response msg g =
     (case msg of
        None \<Rightarrow> g
      | Some (RoleResponse correlation valid names) \<Rightarrow>
          if correlation = [] \<or> rg_chans g correlation = None then g
          else g\<lparr>rg_held := Some (RoleResponse correlation valid names)\<rparr>)"

definition send_role_response :: "role_gate \<Rightarrow> role_gate" where
  "send_role_response g =
     (case rg_held g of
        None \<Rightarrow> g
      | Some (RoleResponse correlation valid names) \<Rightarrow>
          let g' = g\<lparr>rg_held := None\<rparr>
          in (case rg_chans g correlation of
                None \<Rightarrow> g'\<lparr>rg_crashed := True\<rparr>
              | Some None \<Rightarrow> g'\<lparr>rg_chans := (rg_chans g)(correlation \<mapsto> Some (RoleResponse correlation valid names))\<rparr>
              | Some (Some _) \<Rightarrow> g'))"

definition require_roles :: "string list \<Rightarrow> string list option \<Rightarrow> http_error option" where
  "require_roles allowed role_names =
     (case role_names of
        None \<Rightarrow> Some (403, ''Roles not found'')
      | Some raw \<Rightarrow>
          if list_ex (\<lambda>r. list_ex (\<lambda>a. r = a) allowed) raw then None else Some (403, ''Role not permitted''))"

section \<open>Steps\<close>

text \<open>
  The steps of the gateway and of the role service behind it. Kafka delivers what was sent,
  to the service and back, any number of times and in any order. Correlation ids are new
  and not empty, as \<open>uuid.NewString\<close> documents. A check is given up after five seconds, or
  at any time when the client leaves.
\<close>

inductive gate_step :: "int \<Rightarrow> gate_world \<Rightarrow> gate_world \<Rightarrow> bool" where
  service_step: "role_step now (gw_role w) r \<Longrightarrow> ow_sent r = ow_sent (gw_role w) \<Longrightarrow>
    gate_step now w (w\<lparr>gw_role := r\<rparr>)"
| request_step: "role_env_at now renv \<Longrightarrow> m \<in> set (gw_requests w) \<Longrightarrow>
    gate_step now w (w\<lparr>gw_role := consume_role_request renv (Some m) (gw_role w)\<rparr>)"
| check_step: "gv_now env = now \<Longrightarrow> correlation \<notin> set (gw_used w) \<Longrightarrow> correlation \<noteq> [] \<Longrightarrow>
    gate_step now w (snd (role_check env user_id correlation w))"
| take_step: "(topic, c, m) \<in> set (ow_sent (gw_role w)) \<Longrightarrow>
    gate_step now w (w\<lparr>gw_gate := take_role_response (Some m) (gw_gate w)\<rparr>)"
| send_step: "gate_step now w (w\<lparr>gw_gate := send_role_response (gw_gate w)\<rparr>)"
| receive_step: "gv_now env = now \<Longrightarrow> rand_ok (gv_cache env) \<Longrightarrow> (correlation, user) \<in> set (rg_waiting (gw_gate w)) \<Longrightarrow>
    gate_step now w (snd (receive_role_reply env correlation user w))"
| give_up_step: "(correlation, user) \<in> set (rg_waiting (gw_gate w)) \<Longrightarrow>
    gate_step now w (snd (give_up_role_check correlation w))"

inductive_cases gate_stepE: "gate_step now w w'"

definition empty_gate :: role_gate where
  "empty_gate = \<lparr>rg_cache = Map.empty, rg_chans = (\<lambda>_. None), rg_waiting = [], rg_held = None, rg_crashed = False\<rparr>"

definition empty_gate_world :: gate_world where
  "empty_gate_world = \<lparr>gw_role = empty_role_world, gw_requests = [], gw_used = [], gw_gate = empty_gate\<rparr>"

end
