(* ===== verification/GatewayFacts.thy ===== *)
theory GatewayFacts
  imports GatewayAccess
begin

text \<open>
  How long the gateway goes on admitting a user to a role after the role service no longer
  holds it: the service caches what it answers and the gateway caches what it was told, so
  both bounds add up, with the checks that were in flight in between.
\<close>

section \<open>Role names\<close>

text \<open>A user holds a name through any assignment to a role of that name, trashed or not.\<close>

definition holds_name :: "int \<times> string \<Rightarrow> role_world \<Rightarrow> bool" where
  "holds_name f w \<longleftrightarrow>
     (\<exists>u \<in> set (user_roles (ow_db w)). \<exists>r \<in> set (role_rows (ow_db w)).
        ur_user u = go_int32 (fst f) \<and> ur_role u = ro_id r \<and> ro_name r = snd f)"

fun answers_name :: "int \<times> string \<Rightarrow> role_value \<Rightarrow> bool" where
  "answers_name f (VUserRoles rs) \<longleftrightarrow> snd f \<in> set (map ro_name rs)"
| "answers_name f _ \<longleftrightarrow> False"

lemma user_role_names:
  "\<not> holds_name f w \<Longrightarrow> snd f \<notin> set (map ro_name (get_user_roles_sql (go_int32 (fst f)) (ow_db w)))"
  by (fastforce simp: holds_name_def get_user_roles_sql_def)

interpretation role_names: forgetting_cache role_step ow_cache holds_name answers_name "\<lambda>f. role_by_user_id_key (fst f)"
proof
  fix now w w' f T assume st: "role_step now w w'" and "\<not> holds_name f w"
    "gone_by T (answers_name f) (role_by_user_id_key (fst f)) (ow_cache w)"
  then show "gone_by T (answers_name f) (role_by_user_id_key (fst f)) (ow_cache w')"
    by (intro role_step_gone [OF st]) (simp_all only: answers_name.simps user_role_names not_False_eq_True)
qed

lemma gone_name_not_answered:
  assumes "timed_run role_step t0 empty_role_world t w" "\<not> holds_name (user, name) w"
    and "timed_run (\<lambda>now w w'. role_step now w w' \<and> \<not> holds_name (user, name) w') t w (oe_now env) w'"
    and "t + stale_bound \<le> oe_now env" "fst (svc_find_roles_by_user_id env user w') = Inr rs"
  shows "name \<notin> set (map ro_name rs)"
proof -
  have still: "\<not> holds_name (user, name) w'" using assms(3,2) by (induction rule: timed_run.induct) auto
  have hit: "name \<notin> set (map ro_name rs')"
    if "get_from_cache (oe_cache env) (role_by_user_id_key user) (ow_cache w') = Some (VUserRoles rs')" for rs'
    using role_names.forgotten [OF assms(1) _ assms(2) assms(3) [unfolded oe_now_def] assms(4) [unfolded oe_now_def], of "VUserRoles rs'"] that
    by (simp add: empty_role_world_def)
  have miss: "name \<notin> set (map ro_name (get_user_roles_sql (go_int32 user) (ow_db w')))"
    using user_role_names [OF still] by simp
  show ?thesis using assms(5) hit miss
    by (auto simp: svc_find_roles_by_user_id_def role_not_found_def repo_find_roles_by_user_id_def Option.bind_eq_Some_conv
        map_read_error_def read_fault_def split: sum.splits fault.splits option.splits elim!: value_user_roles.elims)
qed

section \<open>Requests and replies\<close>

definition sent_roles :: "gate_world \<Rightarrow> role_message set" where
  "sent_roles w = (\<lambda>(t, k, m). m) ` set (ow_sent (gw_role w))"

definition asked :: "gate_world \<Rightarrow> (string \<times> int) set" where
  "asked w = (\<lambda>(u, c, t). (c, u)) ` set (gw_requests w)"

fun reply_to :: "role_message \<Rightarrow> string" where
  "reply_to (RoleResponse c v names) = c"

fun reply_names :: "role_message \<Rightarrow> string list" where
  "reply_names (RoleResponse c v names) = names"

text \<open>
  A correlation id belongs to one request, replies answer requests, and what waits, is held
  or lies in a channel is a request or a reply that was sent.
\<close>

definition gate_inv :: "gate_world \<Rightarrow> bool" where
  "gate_inv w \<longleftrightarrow>
     fst ` asked w \<subseteq> set (gw_used w)
     \<and> (\<forall>c u u'. (c, u) \<in> asked w \<longrightarrow> (c, u') \<in> asked w \<longrightarrow> u = u')
     \<and> reply_to ` sent_roles w \<subseteq> fst ` asked w
     \<and> set (rg_waiting (gw_gate w)) \<subseteq> asked w
     \<and> (\<forall>m. rg_held (gw_gate w) = Some m \<longrightarrow> m \<in> sent_roles w)
     \<and> (\<forall>c m. rg_chans (gw_gate w) c = Some (Some m) \<longrightarrow> m \<in> sent_roles w \<and> reply_to m = c)"

lemma gate_invI:
  assumes "fst ` asked w \<subseteq> set (gw_used w)" "\<And>c u u'. (c, u) \<in> asked w \<Longrightarrow> (c, u') \<in> asked w \<Longrightarrow> u = u'"
    "reply_to ` sent_roles w \<subseteq> fst ` asked w" "set (rg_waiting (gw_gate w)) \<subseteq> asked w"
    "\<And>m. rg_held (gw_gate w) = Some m \<Longrightarrow> m \<in> sent_roles w"
    "\<And>c m. rg_chans (gw_gate w) c = Some (Some m) \<Longrightarrow> m \<in> sent_roles w \<and> reply_to m = c"
  shows "gate_inv w"
  using assms unfolding gate_inv_def by blast

lemma gate_invD:
  assumes "gate_inv w"
  shows "fst ` asked w \<subseteq> set (gw_used w)" "(c, u) \<in> asked w \<Longrightarrow> (c, u') \<in> asked w \<Longrightarrow> u = u'"
    "reply_to ` sent_roles w \<subseteq> fst ` asked w" "set (rg_waiting (gw_gate w)) \<subseteq> asked w"
    "rg_held (gw_gate w) = Some m \<Longrightarrow> m \<in> sent_roles w"
    "rg_chans (gw_gate w) c = Some (Some m) \<Longrightarrow> m \<in> sent_roles w \<and> reply_to m = c"
  using assms unfolding gate_inv_def by blast+

text \<open>What one consumed request adds to the replies.\<close>

lemma consume_role_sent:
  "ow_sent (consume_role_request env (Some (user, c, t)) w) = ow_sent w
   \<or> (\<exists>names. ow_sent (consume_role_request env (Some (user, c, t)) w) = ow_sent w @ [(t, c, RoleResponse c (names \<noteq> []) names)]
        \<and> (names \<noteq> [] \<longrightarrow> (\<exists>rs. fst (svc_find_roles_by_user_id env user w) = Inr rs \<and> names = map ro_name rs)))"
proof -
  have "ow_sent (snd (svc_find_roles_by_user_id env user w)) = ow_sent w"
    by (simp add: svc_find_roles_by_user_id_def split: option.splits sum.splits)
  then show ?thesis
    by (cases "svc_find_roles_by_user_id env user w") (auto simp: consume_role_request_def Let_def split: sum.splits)
qed

lemma unregister_simps [simp]:
  "rg_cache (unregister c g) = rg_cache g" "rg_held (unregister c g) = rg_held g"
  "rg_chans (unregister c g) = (rg_chans g)(c := None)" "rg_waiting (unregister c g) = filter (\<lambda>(c', _). c' \<noteq> c) (rg_waiting g)"
  by (simp_all add: unregister_def)

text \<open>The outcomes of a check.\<close>

lemma role_check_cases:
  obtains (stays) a where "role_check env uid c w = (a, w)"
  | (refused) a g where "role_check env uid c w = (a, w\<lparr>gw_used := gw_used w @ [c], gw_gate := g\<rparr>)"
      "g = unregister c ((gw_gate w)\<lparr>rg_chans := (rg_chans (gw_gate w))(c \<mapsto> None)\<rparr>)"
  | (waits) v user where "uid = Some v" "extract_user_id v = Some user"
      "role_check env uid c w = (Waits, w\<lparr>gw_used := gw_used w @ [c], gw_requests := gw_requests w @ [(user, c, ''response-role'')],
         gw_gate := (gw_gate w)\<lparr>rg_chans := (rg_chans (gw_gate w))(c \<mapsto> None), rg_waiting := rg_waiting (gw_gate w) @ [(c, user)]\<rparr>\<rparr>)"
proof (cases "\<exists>v user. uid = Some v \<and> extract_user_id v = Some user \<and> get_role_cache env (itoa user) (rg_cache (gw_gate w)) = None")
  case False
  then have "snd (role_check env uid c w) = w" by (auto simp: role_check_def split: option.splits)
  then show ?thesis using stays [of "fst (role_check env uid c w)"] by (metis prod.collapse)
next
  case True
  then obtain v user where v: "uid = Some v" "extract_user_id v = Some user"
    "get_role_cache env (itoa user) (rg_cache (gw_gate w)) = None" by blast
  show ?thesis
  proof (cases "gv_sent env")
    case True
    then show ?thesis by (intro waits [OF v(1,2)]) (simp add: role_check_def v send_validation_request_def Let_def)
  next
    case False
    then show ?thesis by (intro refused [OF _ refl]) (simp add: role_check_def v send_validation_request_def Let_def)
  qed
qed

text \<open>Every step keeps the invariant; one field at a time.\<close>

lemma receive_role_cases:
  obtains (none) a where "receive_role_reply env c u w = (a, w)"
  | (reply) m a where "rg_chans (gw_gate w) c = Some (Some m)" "receive_role_reply env c u w = (a, w\<lparr>gw_gate := unregister c (gw_gate w)\<rparr>)"
      "\<And>names. a \<noteq> Roles names"
  | (roles) m where "rg_chans (gw_gate w) c = Some (Some m)"
      "receive_role_reply env c u w = (Roles (reply_names m), w\<lparr>gw_gate := (unregister c (gw_gate w))
         \<lparr>rg_cache := set_role_cache env (itoa u) (reply_names m) (rg_cache (gw_gate w))\<rparr>\<rparr>)"
proof (cases "\<exists>m. rg_chans (gw_gate w) c = Some (Some m)")
  case False
  then have "snd (receive_role_reply env c u w) = w" by (auto simp: receive_role_reply_def split: option.splits)
  then show ?thesis using none [of "fst (receive_role_reply env c u w)"] by (metis prod.collapse)
next
  case True
  then obtain k v names where m: "rg_chans (gw_gate w) c = Some (Some (RoleResponse k v names))"
    by (metis reply_names.cases)
  show ?thesis
  proof (cases "v \<and> names \<noteq> []")
    case True
    then show ?thesis by (intro roles [OF m]) (simp add: receive_role_reply_def m Let_def)
  next
    case False
    then show ?thesis by (intro reply [OF m]) (auto simp: receive_role_reply_def m Let_def)
  qed
qed

lemma asked_simps [simp]:
  "asked (w\<lparr>gw_role := r\<rparr>) = asked w" "asked (w\<lparr>gw_gate := g\<rparr>) = asked w" "asked (w\<lparr>gw_used := us\<rparr>) = asked w"
  "asked (w\<lparr>gw_used := us, gw_gate := g\<rparr>) = asked w"
  "asked (w\<lparr>gw_used := us, gw_requests := gw_requests w @ [(u, c, t)]\<rparr>) = insert (c, u) (asked w)"
  "asked (w\<lparr>gw_used := us, gw_requests := gw_requests w @ [(u, c, t)], gw_gate := g\<rparr>) = insert (c, u) (asked w)"
  by (simp_all add: asked_def)

lemma sent_roles_simps [simp]:
  "sent_roles (w\<lparr>gw_gate := g\<rparr>) = sent_roles w" "sent_roles (w\<lparr>gw_used := us\<rparr>) = sent_roles w"
  "sent_roles (w\<lparr>gw_used := us, gw_gate := g\<rparr>) = sent_roles w"
  "sent_roles (w\<lparr>gw_used := us, gw_requests := rs, gw_gate := g\<rparr>) = sent_roles w"
  "sent_roles (w\<lparr>gw_used := us, gw_requests := rs\<rparr>) = sent_roles w"
  by (simp_all add: sent_roles_def)

lemma unregister_inv: "gate_inv w \<Longrightarrow> gate_inv (w\<lparr>gw_gate := unregister c (gw_gate w)\<rparr>)"
  using gate_invD [of w] by (intro gate_invI) (auto split: if_splits)

lemma cache_inv: "gate_inv (w\<lparr>gw_gate := g\<rparr>) \<Longrightarrow> gate_inv (w\<lparr>gw_gate := g\<lparr>rg_cache := st\<rparr>\<rparr>)"
  by (simp add: gate_inv_def)

lemma request_inv:
  assumes "gate_inv w" "(user, c, t) \<in> set (gw_requests w)"
  shows "gate_inv (w\<lparr>gw_role := consume_role_request env (Some (user, c, t)) (gw_role w)\<rparr>)"
proof -
  let ?w = "w\<lparr>gw_role := consume_role_request env (Some (user, c, t)) (gw_role w)\<rparr>"
  have asked: "(c, user) \<in> asked w" using assms(2) by (force simp: asked_def)
  have sent: "sent_roles ?w = sent_roles w \<or> (\<exists>v names. sent_roles ?w = insert (RoleResponse c v names) (sent_roles w))"
    using consume_role_sent [of env user c t "gw_role w"]
  proof (elim disjE exE conjE)
    fix names assume "ow_sent (consume_role_request env (Some (user, c, t)) (gw_role w))
        = ow_sent (gw_role w) @ [(t, c, RoleResponse c (names \<noteq> []) names)]"
    then have "sent_roles ?w = insert (RoleResponse c (names \<noteq> []) names) (sent_roles w)" by (simp add: sent_roles_def)
    then show ?thesis by blast
  qed (simp add: sent_roles_def)
  have "c \<in> fst ` asked w" using asked by force
  then have "reply_to ` sent_roles ?w \<subseteq> fst ` asked w" using sent gate_invD(3) [OF assms(1)]
    by (elim disjE exE) simp_all
  moreover have "m \<in> sent_roles w \<Longrightarrow> m \<in> sent_roles ?w" for m using sent by blast
  ultimately show ?thesis using gate_invD [OF assms(1)]
    by (simp add: gate_inv_def)
qed

lemma check_inv:
  assumes "gate_inv w" "c \<notin> set (gw_used w)"
  shows "gate_inv (snd (role_check env uid c w))"
proof (cases rule: role_check_cases [of env uid c w])
  case (refused a g)
  have "gate_inv (w\<lparr>gw_gate := g\<rparr>)" unfolding refused(2) using gate_invD [OF assms(1)]
    by (intro gate_invI) (auto split: if_splits)
  then show ?thesis by (auto simp: refused(1) gate_inv_def)
next
  case (waits v user)
  have new: "(c, u) \<notin> asked w" for u using gate_invD(1) [OF assms(1)] assms(2) by force
  show ?thesis unfolding waits(3) snd_conv
  proof (rule gate_invI, goal_cases)
    case (2 k u u')
    then show ?case using gate_invD(2) [OF assms(1)] new by auto
  qed (use gate_invD(1,3-6) [OF assms(1)] in \<open>auto split: if_splits\<close>)
qed (use assms in simp)

lemma take_inv:
  assumes "gate_inv w" "(topic, k, m) \<in> set (ow_sent (gw_role w))"
  shows "gate_inv (w\<lparr>gw_gate := take_role_response (Some m) (gw_gate w)\<rparr>)"
proof -
  have "m \<in> sent_roles w" using assms(2) by (force simp: sent_roles_def)
  then show ?thesis using gate_invD [OF assms(1)]
    by (intro gate_invI) (auto simp: take_role_response_def split: role_message.splits if_splits)
qed

lemma send_inv: "gate_inv w \<Longrightarrow> gate_inv (w\<lparr>gw_gate := send_role_response (gw_gate w)\<rparr>)"
  using gate_invD [of w]
  by (intro gate_invI) (auto simp: send_role_response_def Let_def split: role_message.splits option.splits if_splits)

lemma receive_inv: "gate_inv w \<Longrightarrow> gate_inv (snd (receive_role_reply env c u w))"
  by (cases rule: receive_role_cases [of env c u w]) (simp_all add: unregister_inv cache_inv)

lemma gate_step_inv: "gate_step now w w' \<Longrightarrow> gate_inv w \<Longrightarrow> gate_inv w'"
proof (induction rule: gate_step.induct)
  case (service_step now w r)
  then show ?case by (simp add: gate_inv_def sent_roles_def)
next
  case (request_step now renv m w)
  then show ?case by (cases m) (auto intro: request_inv)
qed (auto simp: give_up_role_check_def intro: check_inv take_inv send_inv receive_inv unregister_inv)

lemma empty_gate_inv: "gate_inv empty_gate_world"
  by (simp add: gate_inv_def empty_gate_world_def empty_gate_def asked_def sent_roles_def empty_role_world_def)

lemma gate_run_inv: "timed_run gate_step t w t' w' \<Longrightarrow> gate_inv w \<Longrightarrow> gate_inv w'"
  by (induction rule: timed_run.induct) (auto intro: gate_step_inv)

section \<open>What the gateway learns\<close>

text \<open>A channel somebody waits at holds a reply with the name.\<close>

definition learnable :: "int \<times> string \<Rightarrow> gate_world \<Rightarrow> bool" where
  "learnable f w \<longleftrightarrow>
     (\<exists>c m. (c, fst f) \<in> set (rg_waiting (gw_gate w)) \<and> rg_chans (gw_gate w) c = Some (Some m) \<and> snd f \<in> set (reply_names m))"

lemma gate_cache_steps:
  assumes "gate_step now w w'"
  shows "rg_cache (gw_gate w') = rg_cache (gw_gate w)
    \<or> (\<exists>env c u m. gv_now env = now \<and> rand_ok (gv_cache env) \<and> (c, u) \<in> set (rg_waiting (gw_gate w))
         \<and> rg_chans (gw_gate w) c = Some (Some m)
         \<and> rg_cache (gw_gate w') = set_role_cache env (itoa u) (reply_names m) (rg_cache (gw_gate w)))"
  using assms
proof cases
  case (check_step env c uid)
  then show ?thesis by (cases rule: role_check_cases [of env uid c w]) simp_all
next
  case (receive_step env c u)
  then show ?thesis by (cases rule: receive_role_cases [of env c u w]) (simp, simp, simp, blast)
qed (simp_all add: take_role_response_def send_role_response_def give_up_role_check_def Let_def
      split: role_message.splits option.splits)

interpretation gate_names: forgetting_cache gate_step "\<lambda>w. rg_cache (gw_gate w)" learnable
    "\<lambda>f names. snd f \<in> set names" "\<lambda>f. role_key (itoa (fst f))"
proof
  fix now w w' assume st: "gate_step now w w'" and short: "short_lived now (rg_cache (gw_gate w))"
  show "short_lived now (rg_cache (gw_gate w'))" using gate_cache_steps [OF st] short
    by (auto simp: set_role_cache_def gv_now_def)
next
  fix now w w' f T assume st: "gate_step now w w'" and no: "\<not> learnable f w"
    "gone_by T (\<lambda>names. snd f \<in> set names) (role_key (itoa (fst f))) (rg_cache (gw_gate w))"
  show "gone_by T (\<lambda>names. snd f \<in> set names) (role_key (itoa (fst f))) (rg_cache (gw_gate w'))"
    using gate_cache_steps [OF st]
  proof (elim disjE exE conjE)
    fix env c u m assume "(c, u) \<in> set (rg_waiting (gw_gate w))" "rg_chans (gw_gate w) c = Some (Some m)"
      "rg_cache (gw_gate w') = set_role_cache env (itoa u) (reply_names m) (rg_cache (gw_gate w))"
    then show ?thesis using no by (auto simp: set_role_cache_def role_key_def learnable_def intro!: gone_by_set)
  qed (use no in simp)
qed

text \<open>The role service behind the gateway makes its own steps.\<close>

lemma gate_step_role: "gate_step now w w' \<Longrightarrow> gw_role w' = gw_role w \<or> role_step now (gw_role w) (gw_role w')"
proof (induction rule: gate_step.induct)
  case (check_step env now c w uid)
  then show ?case by (cases rule: role_check_cases [of env uid c w]) simp_all
next
  case (receive_step env now c u w)
  then show ?case by (cases rule: receive_role_cases [of env c u w]) simp_all
qed (auto simp: give_up_role_check_def intro: role_step.intros)

lemma gate_run_role:
  "timed_run (\<lambda>now w w'. gate_step now w w' \<and> P (gw_role w')) t w t' w' \<Longrightarrow> P (gw_role w) \<Longrightarrow>
   timed_run (\<lambda>now r r'. role_step now r r' \<and> P r') t (gw_role w) t' (gw_role w') \<and> P (gw_role w')"
proof (induction rule: timed_run.induct)
  case (run_step t w t' w' w'')
  then show ?case using gate_step_role [of t' w' w''] by (auto intro: timed_run.run_step)
qed (auto intro: timed_run.intros)

text \<open>
  Once the service does not answer the name any more, the replies to the checks that begin
  after that do not contain it. \<open>old\<close> are the correlation ids used before.
\<close>

definition new_replies_clean :: "int \<times> string \<Rightarrow> string set \<Rightarrow> gate_world \<Rightarrow> bool" where
  "new_replies_clean f old w \<longleftrightarrow>
     (\<forall>m \<in> sent_roles w. reply_to m \<notin> old \<longrightarrow> (reply_to m, fst f) \<in> asked w \<longrightarrow> snd f \<notin> set (reply_names m))"

lemma gate_step_asked:
  assumes "gate_step now w w'"
  shows "asked w \<subseteq> asked w' \<and> asked w' - asked w \<subseteq> (- set (gw_used w)) \<times> UNIV"
  using assms
proof (induction rule: gate_step.induct)
  case (check_step env now c w uid)
  then show ?case by (cases rule: role_check_cases [of env uid c w]) auto
next
  case (receive_step env now c u w)
  then show ?case by (cases rule: receive_role_cases [of env c u w]) simp_all
qed (auto simp: give_up_role_check_def)

lemma gate_step_sent:
  assumes "gate_step now w w'"
  shows "sent_roles w' = sent_roles w
    \<or> (\<exists>renv user c m. role_env_at now renv \<and> (c, user) \<in> asked w \<and> sent_roles w' = insert m (sent_roles w) \<and> reply_to m = c
         \<and> (reply_names m \<noteq> [] \<longrightarrow> (\<exists>rs. fst (svc_find_roles_by_user_id renv user (gw_role w)) = Inr rs \<and> reply_names m = map ro_name rs)))"
  using assms
proof cases
  case (service_step r)
  then show ?thesis by (simp add: sent_roles_def)
next
  case (request_step renv m)
  obtain user c t where m: "m = (user, c, t)" by (cases m)
  have "(c, user) \<in> asked w" using request_step(3) by (force simp: asked_def m)
  then show ?thesis using consume_role_sent [of renv user c t "gw_role w"]
  proof (elim disjE exE conjE)
    fix names assume "(c, user) \<in> asked w" and app: "ow_sent (consume_role_request renv (Some (user, c, t)) (gw_role w))
        = ow_sent (gw_role w) @ [(t, c, RoleResponse c (names \<noteq> []) names)]"
      and ans: "names \<noteq> [] \<longrightarrow> (\<exists>rs. fst (svc_find_roles_by_user_id renv user (gw_role w)) = Inr rs \<and> names = map ro_name rs)"
    moreover have "sent_roles w' = insert (RoleResponse c (names \<noteq> []) names) (sent_roles w)"
      unfolding request_step(1) m using app by (simp add: sent_roles_def)
    ultimately show ?thesis using request_step(2)
      by (intro disjI2 exI [of _ renv] exI [of _ user] exI [of _ c] exI [of _ "RoleResponse c (names \<noteq> []) names"]) simp
  qed (simp add: request_step(1) m sent_roles_def)
next
  case (check_step env c uid)
  then show ?thesis by (cases rule: role_check_cases [of env uid c w]) simp_all
next
  case (receive_step env c u)
  then show ?thesis by (cases rule: receive_role_cases [of env c u w]) simp_all
qed (simp_all add: give_up_role_check_def)

lemma clean_start: "gate_inv w \<Longrightarrow> new_replies_clean f (set (gw_used w)) w"
  using gate_invD(1,3) [of w] by (fastforce simp: new_replies_clean_def)

lemma gate_step_used: "gate_step now w w' \<Longrightarrow> set (gw_used w) \<subseteq> set (gw_used w')"
proof (induction rule: gate_step.induct)
  case (check_step env now c w uid)
  then show ?case by (cases rule: role_check_cases [of env uid c w]) auto
next
  case (receive_step env now c u w)
  then show ?case by (cases rule: receive_role_cases [of env c u w]) simp_all
qed (simp_all add: give_up_role_check_def)

lemma clean_step:
  assumes st: "gate_step now w w'" and inv: "gate_inv w" and clean: "new_replies_clean f old w"
    and service: "\<And>renv rs. role_env_at now renv \<Longrightarrow> fst (svc_find_roles_by_user_id renv (fst f) (gw_role w)) = Inr rs \<Longrightarrow>
      snd f \<notin> set (map ro_name rs)"
  shows "new_replies_clean f old w'"
  unfolding new_replies_clean_def
proof (intro ballI impI)
  fix m assume m: "m \<in> sent_roles w'" "reply_to m \<notin> old" "(reply_to m, fst f) \<in> asked w'"
  have asked: "(reply_to m, fst f) \<in> asked w" if "(reply_to m, u) \<in> asked w" for u
    using gate_step_asked [OF st] m(3) gate_invD(1) [OF inv] that by force
  show "snd f \<notin> set (reply_names m)"
  proof (cases "m \<in> sent_roles w")
    case True
    then obtain u where "(reply_to m, u) \<in> asked w" using gate_invD(3) [OF inv] by force
    from asked [OF this] show ?thesis using clean True m(2) by (auto simp: new_replies_clean_def)
  next
    case False
    then obtain renv user where new: "role_env_at now renv" "(reply_to m, user) \<in> asked w"
      "reply_names m \<noteq> [] \<longrightarrow> (\<exists>rs. fst (svc_find_roles_by_user_id renv user (gw_role w)) = Inr rs \<and> reply_names m = map ro_name rs)"
      using gate_step_sent [OF st] m(1) by fastforce
    have "user = fst f" using gate_invD(2) [OF inv new(2) asked [OF new(2)]] .
    then show ?thesis using new(3) service [OF new(1)] by (cases "reply_names m = []") auto
  qed
qed

lemma clean_run:
  assumes "timed_run (\<lambda>now w w'. gate_step now w w' \<and> \<not> holds_name f (gw_role w')) T1 w1 T w'"
    and "timed_run role_step t0 empty_role_world t r" "\<not> holds_name f r"
    and "timed_run (\<lambda>now r r'. role_step now r r' \<and> \<not> holds_name f r') t r T1 (gw_role w1)"
    and "t + stale_bound \<le> T1" "gate_inv w1"
  shows "gate_inv w' \<and> new_replies_clean f (set (gw_used w1)) w' \<and> set (gw_used w1) \<subseteq> set (gw_used w')
    \<and> timed_run (\<lambda>now r r'. role_step now r r' \<and> \<not> holds_name f r') t r T (gw_role w')"
  using assms(1) assms(2-)
proof (induction rule: timed_run.induct)
  case (run_nil T1 w1)
  then show ?case using clean_start [of w1 f] by simp
next
  case (run_wait T1 w1 T w' T')
  from run_wait.IH [OF run_wait.prems] show ?case
    by (elim conjE) (intro conjI timed_run.run_wait [OF _ run_wait.hyps(2)], assumption+)
next
  case (run_step T1 w1 T w' w'')
  note IH = run_step.IH [OF run_step.prems]
  from run_step.hyps(2) have st: "gate_step T w' w''" and no: "\<not> holds_name f (gw_role w'')" by blast+
  have "snd f \<notin> set (map ro_name rs)"
    if "role_env_at T renv" "fst (svc_find_roles_by_user_id renv (fst f) (gw_role w')) = Inr rs" for renv rs
  proof (rule gone_name_not_answered [OF run_step.prems(1) _ _ _ that(2)])
    show "timed_run (\<lambda>now w w'. role_step now w w' \<and> \<not> holds_name (fst f, snd f) w') t r (oe_now renv) (gw_role w')"
      using IH that(1) by (simp add: role_env_at_def)
    show "t + stale_bound \<le> oe_now renv" using run_step.prems(4) timed_run_mono [OF run_step.hyps(1)] that(1)
      by (simp add: role_env_at_def)
  qed (use run_step.prems(2) in simp)
  then have "new_replies_clean f (set (gw_used w1)) w''" using clean_step [OF st] IH by blast
  moreover have "timed_run (\<lambda>now r r'. role_step now r r' \<and> \<not> holds_name f r') t r T (gw_role w'')"
    using gate_step_role [OF st] no IH by (metis (mono_tags, lifting) timed_run.run_step)
  ultimately show ?case using IH gate_step_inv [OF st] gate_step_used [OF st] by blast
qed

section \<open>The bound\<close>

lemma no_learning:
  assumes "gate_inv w" "new_replies_clean f old w" "\<forall>(c, u) \<in> set (rg_waiting (gw_gate w)). c \<notin> old"
  shows "\<not> learnable f w"
proof
  assume "learnable f w"
  then obtain c m where m: "(c, fst f) \<in> set (rg_waiting (gw_gate w))" "rg_chans (gw_gate w) c = Some (Some m)"
    "snd f \<in> set (reply_names m)" by (auto simp: learnable_def)
  then have "m \<in> sent_roles w" "reply_to m = c" "(c, fst f) \<in> asked w" "c \<notin> old"
    using gate_invD(4,6) [OF assms(1)] assms(3) by blast+
  then show False using assms(2) m(3) by (auto simp: new_replies_clean_def)
qed

lemma gate_step_waiting:
  assumes "gate_step now w w'" "(c, u) \<in> set (rg_waiting (gw_gate w'))"
  shows "(c, u) \<in> set (rg_waiting (gw_gate w)) \<or> c \<notin> set (gw_used w)"
  using assms
proof (induction rule: gate_step.induct)
  case (check_step env now c' w uid)
  then show ?case by (cases rule: role_check_cases [of env uid c' w]) auto
next
  case (receive_step env now c' u' w)
  then show ?case by (cases rule: receive_role_cases [of env c' u' w]) auto
qed (auto simp: give_up_role_check_def take_role_response_def send_role_response_def Let_def
      split: role_message.splits option.splits if_splits)

lemma no_learning_run:
  assumes "timed_run (\<lambda>now w w'. gate_step now w w' \<and> \<not> holds_name f (gw_role w')) T2 w2 T w'"
    and "\<And>T w'. timed_run (\<lambda>now w w'. gate_step now w w' \<and> \<not> holds_name f (gw_role w')) T2 w2 T w' \<Longrightarrow>
      gate_inv w' \<and> new_replies_clean f old w' \<and> old \<subseteq> set (gw_used w')"
    and "\<forall>(c, u) \<in> set (rg_waiting (gw_gate w2)). c \<notin> old"
  shows "timed_run (\<lambda>now w w'. gate_step now w w' \<and> \<not> learnable f w') T2 w2 T w'
    \<and> (\<forall>(c, u) \<in> set (rg_waiting (gw_gate w')). c \<notin> old)"
  using assms
proof (induction rule: timed_run.induct)
  case (run_nil T2 w2)
  then show ?case by (simp add: timed_run.run_nil)
next
  case (run_wait T2 w2 T w' T')
  then show ?case by (blast intro: timed_run.run_wait)
next
  case (run_step T2 w2 T w' w'')
  have IH: "timed_run (\<lambda>now w w'. gate_step now w w' \<and> \<not> learnable f w') T2 w2 T w'"
      "\<forall>(c, u) \<in> set (rg_waiting (gw_gate w')). c \<notin> old"
    using run_step.IH run_step.prems by blast+
  from run_step.hyps(2) have st: "gate_step T w' w''" by blast
  note now = run_step.prems(1) [OF timed_run.run_step [OF run_step.hyps]]
  have "c \<notin> old" if "(c, u) \<in> set (rg_waiting (gw_gate w''))" for c u
    using gate_step_waiting [OF st that] IH run_step.prems(1) [OF run_step.hyps(1)] by blast
  then have fresh: "\<forall>(c, u) \<in> set (rg_waiting (gw_gate w'')). c \<notin> old" by blast
  then show ?case using IH st no_learning [OF _ _ fresh, of f] now by (blast intro: timed_run.run_step)
qed

text \<open>
  C36: from eleven minutes after a user has lost every assignment to roles of a name, and
  with the checks begun before the first half of that time over, the gateway no longer
  admits the user to that role, although the service caches what it answers and the
  gateway what it was told
\<close>

theorem revoked_role_refused:
  assumes run0: "timed_run gate_step t0 empty_gate_world t w" and gone: "\<not> holds_name (user, name) (gw_role w)"
    and run1: "timed_run (\<lambda>now w w'. gate_step now w w' \<and> \<not> holds_name (user, name) (gw_role w')) t w T1 w1"
    and run2: "timed_run (\<lambda>now w w'. gate_step now w w' \<and> \<not> holds_name (user, name) (gw_role w')) T1 w1 T2 w2"
    and run3: "timed_run (\<lambda>now w w'. gate_step now w w' \<and> \<not> holds_name (user, name) (gw_role w')) T2 w2 (gv_now env) w3"
    and late: "t + stale_bound \<le> T1" "T2 + stale_bound \<le> gv_now env"
    and settled: "\<forall>(c, u) \<in> set (rg_waiting (gw_gate w2)). c \<notin> set (gw_used w1)"
    and answer: "(extract_user_id v = Some user \<and> fst (role_check env (Some v) c w3) = Roles roles)
      \<or> ((c, user) \<in> set (rg_waiting (gw_gate w3)) \<and> fst (receive_role_reply env c user w3) = Roles roles)"
  shows "require_roles [name] (Some roles) = Some (403, ''Role not permitted'')"
proof -
  let ?f = "(user, name)" and ?old = "set (gw_used w1)"
  have runw: "timed_run gate_step t0 empty_gate_world T w'" if "timed_run (\<lambda>now w w'. gate_step now w w' \<and> \<not> holds_name ?f (gw_role w')) t w T w'" for T w'
    using timed_run_append [OF _ run0] that by (blast intro: timed_run_weaken)
  have role0: "timed_run role_step t0 empty_role_world t (gw_role w)"
    using gate_run_role [of "\<lambda>_. True", simplified, OF run0] by (simp add: empty_gate_world_def)
  have role1: "timed_run (\<lambda>now r r'. role_step now r r' \<and> \<not> holds_name ?f r') t (gw_role w) T1 (gw_role w1)"
    using gate_run_role [where P = "\<lambda>r. \<not> holds_name ?f r", OF run1 gone] by blast
  have inv1: "gate_inv w1" using gate_run_inv [OF runw [OF run1] empty_gate_inv] .
  have clean: "gate_inv w' \<and> new_replies_clean ?f ?old w' \<and> ?old \<subseteq> set (gw_used w')"
    if "timed_run (\<lambda>now w w'. gate_step now w w' \<and> \<not> holds_name ?f (gw_role w')) T2 w2 T w'" for T w'
    using clean_run [OF timed_run_append [OF that run2] role0 gone role1 late(1) inv1] by blast
  have quiet: "timed_run (\<lambda>now w w'. gate_step now w w' \<and> \<not> learnable ?f w') T2 w2 (gv_now env) w3"
    and fresh: "\<forall>(c, u) \<in> set (rg_waiting (gw_gate w3)). c \<notin> ?old"
    using no_learning_run [OF run3 _ settled] clean by blast+
  have no2: "\<not> learnable ?f w2" using clean [OF timed_run.run_nil] by (intro no_learning [OF _ _ settled]) blast+
  have no3: "\<not> learnable ?f w3" using clean [OF run3] by (intro no_learning [OF _ _ fresh]) blast+
  have "name \<notin> set roles" using answer
  proof (elim disjE conjE)
    assume v: "extract_user_id v = Some user" "fst (role_check env (Some v) c w3) = Roles roles"
    then have "get_from_cache (gv_cache env) (role_key (itoa user)) (rg_cache (gw_gate w3)) = Some roles"
      by (auto simp: role_check_def get_role_cache_def send_validation_request_def Let_def split: option.splits if_splits)
    then show ?thesis
      using gate_names.forgotten [OF runw [OF timed_run_append [OF run2 run1]] _ no2 quiet [unfolded gv_now_def] late(2) [unfolded gv_now_def], of roles]
      by (simp add: empty_gate_world_def empty_gate_def)
  next
    assume "(c, user) \<in> set (rg_waiting (gw_gate w3))" "fst (receive_role_reply env c user w3) = Roles roles"
    then show ?thesis using no3
      by (cases rule: receive_role_cases [of env c user w3]) (auto simp: receive_role_reply_def learnable_def Let_def split: option.splits role_message.splits if_splits)
  qed
  then show ?thesis by (auto simp: require_roles_def list_ex_iff)
qed

text \<open>
  An administrator is admitted, and so cached, and then loses the role. Eleven minutes later
  a check asks again and is told the role that is left.
\<close>

definition sample_gate_env :: "int \<Rightarrow> gate_env" where
  "sample_gate_env now = \<lparr>gv_cache = \<lparr>ce_now = now, ce_rand = (\<lambda>_. 0), ce_get_ok = True, ce_set_ok = True, ce_del_ok = True\<rparr>,
     gv_sent = True\<rparr>"

definition staffed_gate :: gate_world where
  "staffed_gate = empty_gate_world\<lparr>gw_role :=
     snd (svc_create_user_role (sample_role_env 0) 7 2 (snd (svc_create_user_role (sample_role_env 0) 7 1
       (snd (svc_create_role (sample_role_env 0) ''ROLE_USER'' (snd (svc_create_role (sample_role_env 0) ''ROLE_ADMIN'' empty_role_world)))))))\<rparr>"

definition started :: "int \<Rightarrow> string \<Rightarrow> gate_world \<Rightarrow> gate_world" where
  "started now c w = snd (role_check (sample_gate_env now) (Some ''7'') c w)"

definition consumed :: "int \<Rightarrow> string \<Rightarrow> gate_world \<Rightarrow> gate_world" where
  "consumed now c w = w\<lparr>gw_role := consume_role_request (sample_role_env now) (Some (7, c, ''response-role'')) (gw_role w)\<rparr>"

definition taken :: "gate_world \<Rightarrow> gate_world" where
  "taken w = w\<lparr>gw_gate := take_role_response (Some (snd (snd (last (ow_sent (gw_role w)))))) (gw_gate w)\<rparr>"

definition delivered :: "gate_world \<Rightarrow> gate_world" where
  "delivered w = w\<lparr>gw_gate := send_role_response (gw_gate w)\<rparr>"

definition replied :: "int \<Rightarrow> string \<Rightarrow> gate_world \<Rightarrow> gate_world" where
  "replied now c w = delivered (taken (consumed now c (started now c w)))"

definition admitted :: "int \<Rightarrow> string \<Rightarrow> gate_world \<Rightarrow> gate_world" where
  "admitted now c w = snd (receive_role_reply (sample_gate_env now) c 7 (replied now c w))"

definition dismissed :: "gate_world \<Rightarrow> gate_world" where
  "dismissed w = w\<lparr>gw_role := snd (svc_delete_user_role (sample_role_env 0) 7 1 (gw_role w))\<rparr>"

lemma sample_gate_env_at: "gv_now (sample_gate_env now) = now" "rand_ok (gv_cache (sample_gate_env now))"
  by (simp_all add: sample_gate_env_def gv_now_def rand_ok_def)

lemma gate_steps:
  "c \<notin> set (gw_used w) \<Longrightarrow> c \<noteq> [] \<Longrightarrow> gate_step now w (started now c w)"
  "(7, c, ''response-role'') \<in> set (gw_requests w) \<Longrightarrow> gate_step now w (consumed now c w)"
  "ow_sent (gw_role w) \<noteq> [] \<Longrightarrow> gate_step now w (taken w)"
  "gate_step now w (delivered w)"
proof -
  show "c \<notin> set (gw_used w) \<Longrightarrow> c \<noteq> [] \<Longrightarrow> gate_step now w (started now c w)"
    unfolding started_def by (rule check_step [OF sample_gate_env_at(1)])
  show "(7, c, ''response-role'') \<in> set (gw_requests w) \<Longrightarrow> gate_step now w (consumed now c w)"
    unfolding consumed_def by (rule request_step [OF sample_role_env_at(1)])
  assume "ow_sent (gw_role w) \<noteq> []"
  then have "last (ow_sent (gw_role w)) \<in> set (ow_sent (gw_role w))" by (rule last_in_set)
  then show "gate_step now w (taken w)"
    unfolding taken_def by (intro take_step [of "fst (last (ow_sent (gw_role w)))" "fst (snd (last (ow_sent (gw_role w))))"]) simp
qed (simp add: delivered_def send_step)

definition after_dismissal :: gate_world where
  "after_dismissal = dismissed (admitted 0 ''c1'' staffed_gate)"

lemma gate_service_step:
  "role_step now (gw_role w) r \<Longrightarrow> ow_sent r = ow_sent (gw_role w) \<Longrightarrow> timed_run gate_step t0 w0 now w \<Longrightarrow>
   timed_run gate_step t0 w0 now (w\<lparr>gw_role := r\<rparr>)"
  by (rule timed_run.run_step) (auto intro: service_step)

lemma commands_send_nothing:
  "ow_sent (snd (svc_create_role env name w)) = ow_sent w" "ow_sent (snd (svc_create_user_role env user role w)) = ow_sent w"
  "ow_sent (snd (svc_delete_user_role env user role w)) = ow_sent w"
  by (simp_all add: svc_create_role_def svc_create_user_role_def svc_delete_user_role_def role_command_def map_error_def
      on_role_db_def zoom_def split: prod.splits sum.splits)

lemma staffed_run: "timed_run gate_step 0 empty_gate_world 0 staffed_gate"
proof -
  let ?env = "sample_role_env 0"
  let ?r1 = "snd (svc_create_role ?env ''ROLE_ADMIN'' empty_role_world)"
  let ?r2 = "snd (svc_create_role ?env ''ROLE_USER'' ?r1)"
  let ?r3 = "snd (svc_create_user_role ?env 7 1 ?r2)"
  let ?r4 = "snd (svc_create_user_role ?env 7 2 ?r3)"
  have step: "timed_run gate_step 0 empty_gate_world 0 (empty_gate_world\<lparr>gw_role := r'\<rparr>)"
    if "timed_run gate_step 0 empty_gate_world 0 (empty_gate_world\<lparr>gw_role := r\<rparr>)" "role_step 0 r r'" "ow_sent r' = ow_sent r" for r r'
    using gate_service_step [OF _ _ that(1), of r'] that(2,3) by simp
  note create = step [OF _ role_step.intros(1) [OF sample_role_env_at(1)] commands_send_nothing(1)]
    and assign = step [OF _ role_step.intros(8) [OF sample_role_env_at(1)] commands_send_nothing(2)]
  have "timed_run gate_step 0 empty_gate_world 0 (empty_gate_world\<lparr>gw_role := empty_role_world\<rparr>)"
    by (simp add: empty_gate_world_def timed_run.run_nil)
  from assign [OF assign [OF create [OF create [OF this]]]] show ?thesis unfolding staffed_gate_def .
qed

text \<open>The five steps of a check that is answered, and the admission.\<close>

lemma replied_steps:
  assumes "timed_run (\<lambda>now w w'. gate_step now w w' \<and> P w') t0 w0 now w" "c \<notin> set (gw_used w)" "c \<noteq> []"
    "(7, c, ''response-role'') \<in> set (gw_requests (started now c w))" "ow_sent (gw_role (consumed now c (started now c w))) \<noteq> []"
    "P (started now c w)" "P (consumed now c (started now c w))" "P (taken (consumed now c (started now c w)))" "P (replied now c w)"
  shows "timed_run (\<lambda>now w w'. gate_step now w w' \<and> P w') t0 w0 now (replied now c w)"
proof -
  have "gate_step now w (started now c w)" by (rule gate_steps(1)) fact+
  moreover have "gate_step now (started now c w) (consumed now c (started now c w))" by (rule gate_steps(2)) fact
  moreover have "gate_step now (consumed now c (started now c w)) (taken (consumed now c (started now c w)))" by (rule gate_steps(3)) fact
  moreover have "gate_step now (taken (consumed now c (started now c w))) (replied now c w)"
    unfolding replied_def by (rule gate_steps(4))
  ultimately show ?thesis using assms(1,6-9) by (blast intro: timed_run.run_step)
qed

lemma after_dismissal_run: "timed_run gate_step 0 empty_gate_world 0 after_dismissal"
proof -
  have "timed_run gate_step 0 empty_gate_world 0 (replied 0 ''c1'' staffed_gate)"
    by (rule replied_steps [where P = "\<lambda>_. True", simplified]) (rule staffed_run, code_simp+)
  moreover have "gate_step 0 (replied 0 ''c1'' staffed_gate) (admitted 0 ''c1'' staffed_gate)"
    unfolding admitted_def by (rule receive_step [OF sample_gate_env_at]) code_simp
  ultimately have "timed_run gate_step 0 empty_gate_world 0 (admitted 0 ''c1'' staffed_gate)" by (rule timed_run.run_step)
  then show ?thesis unfolding after_dismissal_def dismissed_def
    by (rule gate_service_step [rotated 2]) (intro role_step.intros sample_role_env_at, rule commands_send_nothing)
qed

theorem revoked_role_refused_witness:
  "require_roles [''ROLE_ADMIN''] (Some [''ROLE_USER'']) = Some (403, ''Role not permitted'')"
proof -
  let ?late = "2 * stale_bound" and ?P = "\<lambda>w. \<not> holds_name (7, ''ROLE_ADMIN'') (gw_role w)"
  let ?run = "timed_run (\<lambda>now w w'. gate_step now w w' \<and> \<not> holds_name (7, ''ROLE_ADMIN'') (gw_role w'))"
  have wait: "?run 0 after_dismissal stale_bound after_dismissal" "?run stale_bound after_dismissal stale_bound after_dismissal"
    "?run stale_bound after_dismissal ?late after_dismissal"
    by (rule timed_run.run_nil timed_run.run_wait [OF timed_run.run_nil]; simp add: stale_bound_def time_defs)+
  have last: "?run stale_bound after_dismissal (gv_now (sample_gate_env ?late)) (replied ?late ''c2'' after_dismissal)"
    unfolding sample_gate_env_at by (rule replied_steps [OF wait(3)]) code_simp+
  show ?thesis
  proof (rule revoked_role_refused [OF after_dismissal_run _ wait(1,2) last])
    show "(extract_user_id [] = Some 7 \<and> fst (role_check (sample_gate_env ?late) (Some []) ''c2'' (replied ?late ''c2'' after_dismissal)) = Roles [''ROLE_USER''])
      \<or> ((''c2'', 7) \<in> set (rg_waiting (gw_gate (replied ?late ''c2'' after_dismissal)))
          \<and> fst (receive_role_reply (sample_gate_env ?late) ''c2'' 7 (replied ?late ''c2'' after_dismissal)) = Roles [''ROLE_USER''])"
      by code_simp
  qed (simp add: sample_gate_env_at | code_simp)+
qed

section \<open>What the code leaves open\<close>

text \<open>The two bounds do add up: the service answers from its cache and the gateway keeps it.\<close>

lemma revoked_role_admitted:
  "let w = dismissed (staffed_gate\<lparr>gw_role := snd (svc_find_roles_by_user_id (sample_role_env 0) 7 (gw_role staffed_gate))\<rparr>)
   in fst (role_check (sample_gate_env (8 * minute)) (Some ''7'') ''c2'' (admitted (4 * minute + 20 * second) ''c1'' w))
      = Roles [''ROLE_ADMIN'', ''ROLE_USER'']"
  by code_simp

text \<open>A reply that is looked up before and sent after the check gave up panics in the consumer.\<close>

lemma late_reply_crashes:
  "rg_crashed (gw_gate (delivered (snd (give_up_role_check ''c1'' (taken (consumed 0 ''c1'' (started 0 ''c1'' staffed_gate)))))))"
  by code_simp

text \<open>Any token of the signer opens the gateway, a refresh token too, for twelve hours.\<close>

lemma refresh_token_admitted:
  assumes "jwt_sound lib" "\<not> skip_auth (rq_path rq)" "rq_token rq = Some (generate_token lib now user ''refresh'')"
    and "now \<le> now'" "now' < now + 12 * hour - second"
  shows "web_security lib now' rq = Inr (Some (itoa user))"
proof -
  have "now' < (now + 12 * hour) div second * second" using assms(5) by (simp add: time_defs)
  then show ?thesis using assms(1-3) by (simp add: web_security_def generate_token_def jwt_sound_def)
qed

text \<open>The paths that need a token, among them the refresh of an expired one and the health check.\<close>

lemma token_needed:
  "\<not> skip_auth ''/api/auth/refresh-token''" "\<not> skip_auth ''/health''" "\<not> skip_auth ''/api/auth/login/''"
  "skip_auth ''/metrics-and-anything''" "skip_auth ''/api/auth/verify-code''"
  by code_simp+

end
