(* ===== verification/GatewayKeys.thy ===== *)
theory GatewayKeys
  imports GatewayAccess Payments
begin

text \<open>
  The API-key check of the payment routes (\<open>middlewares/merchant.go\<close>,
  \<open>merchantRequestHandler.go\<close>, \<open>redis/merchant.go\<close>): a key is looked up in the cache, else
  asked for over Kafka, and the reply with the correlation id of the request is waited for.
  The theorem says that a key is let through only as a merchant whose row has carried it.
\<close>

section \<open>State\<close>

text \<open>
  A channel lives on after it has been unregistered: the consumer of the replies holds the
  one it has looked up until it has sent to it. A request is registered after it has been
  sent. \<open>kw_requests\<close> are the messages on the request topic, which Kafka keeps.
\<close>

record key_gate =
  kg_cache :: "string redis"
  kg_sending :: "(string \<times> string) list"
  kg_waiting :: "(string \<times> string) list"
  kg_buffers :: "string \<Rightarrow> merchant_message option"
  kg_held :: "(string \<times> merchant_message) option"

record key_world =
  kw_merchant :: merchant_world
  kw_requests :: "(string \<times> string \<times> string) list"
  kw_used :: "string list"
  kw_gate :: key_gate

record key_env =
  ke_cache :: cache_env
  ke_kafka :: bool
  ke_sent :: bool

datatype key_answer = KeyRefused http_error | KeyOf string | KeyWaits

definition merchant_key :: "string \<Rightarrow> string" where
  "merchant_key api_key = ''apigw:merchant_api_key:'' @ api_key"

definition get_merchant_cache :: "key_env \<Rightarrow> string \<Rightarrow> string redis \<Rightarrow> string option" where
  "get_merchant_cache env api_key st = get_from_cache (ke_cache env) (merchant_key api_key) st"

definition set_merchant_cache :: "key_env \<Rightarrow> string \<Rightarrow> string \<Rightarrow> string redis \<Rightarrow> string redis" where
  "set_merchant_cache env merchant api_key st =
     (if merchant = [] \<or> api_key = [] then st
      else set_to_cache (ke_cache env) (merchant_key api_key) merchant ttl_default st)"

section \<open>Requests\<close>

text \<open>The middleware until the message has been sent, and then until it waits.\<close>

definition key_check :: "key_env \<Rightarrow> string \<Rightarrow> string \<Rightarrow> key_world \<Rightarrow> key_answer \<times> key_world" where
  "key_check env api_key correlation w =
     (if api_key = [] then (KeyRefused (401, ''API Key is required''), w)
      else case get_merchant_cache env api_key (kg_cache (kw_gate w)) of
        Some merchant \<Rightarrow> (KeyOf merchant, w)
      | None \<Rightarrow>
          let g = kw_gate w; w1 = w\<lparr>kw_used := kw_used w @ [correlation]\<rparr>
          in if \<not> ke_kafka env then (KeyRefused (503, ''Kafka is required for API key validation but is nil''), w1)
             else if \<not> ke_sent env then (KeyRefused (500, ''Failed to send Kafka message''), w1)
             else (KeyWaits, w1\<lparr>kw_requests := kw_requests w @ [(api_key, correlation, ''response-transaction'')],
                               kw_gate := g\<lparr>kg_sending := kg_sending g @ [(correlation, api_key)]\<rparr>\<rparr>))"

definition register_key_check :: "string \<Rightarrow> string \<Rightarrow> key_gate \<Rightarrow> key_gate" where
  "register_key_check correlation api_key g =
     g\<lparr>kg_sending := filter (\<lambda>(c, _). c \<noteq> correlation) (kg_sending g),
       kg_waiting := kg_waiting g @ [(correlation, api_key)]\<rparr>"

definition unregister_key_check :: "string \<Rightarrow> key_gate \<Rightarrow> key_gate" where
  "unregister_key_check correlation g = g\<lparr>kg_waiting := filter (\<lambda>(c, _). c \<noteq> correlation) (kg_waiting g)\<rparr>"

text \<open>A reply that cannot be decoded does not occur: the consumer has already decoded it.\<close>

definition receive_key_reply :: "key_env \<Rightarrow> string \<Rightarrow> string \<Rightarrow> key_gate \<Rightarrow> key_answer \<times> key_gate" where
  "receive_key_reply env correlation api_key g =
     (case kg_buffers g correlation of
        Some (MerchantReply _ valid i) \<Rightarrow>
          let g1 = unregister_key_check correlation (g\<lparr>kg_buffers := (kg_buffers g)(correlation := None)\<rparr>)
          in if \<not> valid \<or> i = 0 then (KeyRefused (401, ''Invalid API Key''), g1)
             else (KeyOf (itoa i), g1\<lparr>kg_cache := set_merchant_cache env (itoa i) api_key (kg_cache g1)\<rparr>)
      | _ \<Rightarrow> (KeyWaits, g))"

definition give_up_key_check :: "string \<Rightarrow> key_gate \<Rightarrow> key_answer \<times> key_gate" where
  "give_up_key_check correlation g =
     (KeyRefused (408, ''Timeout waiting for API key validation''), unregister_key_check correlation g)"

section \<open>Replies\<close>

text \<open>
  The consumer drops a reply nobody is registered for; sending it to a channel whose one
  place is taken blocks the consumer, and with it all replies.
\<close>

definition take_key_reply :: "merchant_message \<Rightarrow> key_gate \<Rightarrow> key_gate" where
  "take_key_reply msg g =
     (case (kg_held g, msg) of
        (None, MerchantReply correlation _ _) \<Rightarrow>
          if correlation \<in> fst ` set (kg_waiting g) then g\<lparr>kg_held := Some (correlation, msg)\<rparr> else g
      | _ \<Rightarrow> g)"

definition send_key_reply :: "key_gate \<Rightarrow> key_gate" where
  "send_key_reply g =
     (case kg_held g of
        None \<Rightarrow> g
      | Some (correlation, msg) \<Rightarrow>
          (case kg_buffers g correlation of
             None \<Rightarrow> g\<lparr>kg_held := None, kg_buffers := (kg_buffers g)(correlation \<mapsto> msg)\<rparr>
           | Some _ \<Rightarrow> g))"

section \<open>Steps\<close>

text \<open>
  Kafka delivers what was sent any number of times and in any order; correlation ids are new.
  Replies come only from the consumer of the requests.
\<close>

fun is_key_reply :: "merchant_message \<Rightarrow> bool" where
  "is_key_reply (MerchantReply c v i) \<longleftrightarrow> True"
| "is_key_reply _ \<longleftrightarrow> False"

definition merchant_replies :: "merchant_world \<Rightarrow> merchant_message set" where
  "merchant_replies m = set (filter is_key_reply (map (\<lambda>(t, c, msg). msg) (mo_sent m)))"

inductive key_step :: "int \<Rightarrow> key_world \<Rightarrow> key_world \<Rightarrow> bool" where
  merchants: "merchant_step now (kw_merchant w) m \<Longrightarrow> merchant_replies m = merchant_replies (kw_merchant w) \<Longrightarrow>
    key_step now w (w\<lparr>kw_merchant := m\<rparr>)"
| asked: "merchant_env_at now menv \<Longrightarrow> r \<in> set (kw_requests w) \<Longrightarrow>
    key_step now w (w\<lparr>kw_merchant := snd (consume_api_key_request menv (Some r) (kw_merchant w))\<rparr>)"
| checked: "ce_now (ke_cache env) = now \<Longrightarrow> correlation \<notin> set (kw_used w) \<Longrightarrow>
    key_step now w (snd (key_check env api_key correlation w))"
| registered: "(correlation, api_key) \<in> set (kg_sending (kw_gate w)) \<Longrightarrow>
    key_step now w (w\<lparr>kw_gate := register_key_check correlation api_key (kw_gate w)\<rparr>)"
| taken: "(topic, c, msg) \<in> set (mo_sent (kw_merchant w)) \<Longrightarrow> key_step now w (w\<lparr>kw_gate := take_key_reply msg (kw_gate w)\<rparr>)"
| sent: "key_step now w (w\<lparr>kw_gate := send_key_reply (kw_gate w)\<rparr>)"
| received: "ce_now (ke_cache env) = now \<Longrightarrow> (correlation, api_key) \<in> set (kg_waiting (kw_gate w)) \<Longrightarrow>
    key_step now w (w\<lparr>kw_gate := snd (receive_key_reply env correlation api_key (kw_gate w))\<rparr>)"
| given_up: "(correlation, api_key) \<in> set (kg_waiting (kw_gate w)) \<Longrightarrow>
    key_step now w (w\<lparr>kw_gate := snd (give_up_key_check correlation (kw_gate w))\<rparr>)"

definition empty_key_world :: key_world where
  "empty_key_world = \<lparr>kw_merchant = empty_merchant_world, kw_requests = [], kw_used = [],
     kw_gate = \<lparr>kg_cache = Map.empty, kg_sending = [], kg_waiting = [], kg_buffers = (\<lambda>_. None), kg_held = None\<rparr>\<rparr>"

section \<open>No reply for another key\<close>

definition keys_asked :: "key_world \<Rightarrow> (string \<times> string) set" where
  "keys_asked w = (\<lambda>(k, c, t). (c, k)) ` set (kw_requests w)"

fun reply_correlation :: "merchant_message \<Rightarrow> string" where
  "reply_correlation (MerchantReply c v i) = c"
| "reply_correlation _ = []"

text \<open>
  A correlation id belongs to one request, a positive reply is the answer to the key of its
  request, and what waits, is held or lies in a channel is a request or a reply of this kind.
\<close>

definition key_inv :: "(string \<Rightarrow> int \<Rightarrow> bool) \<Rightarrow> key_world \<Rightarrow> bool" where
  "key_inv vouched w \<longleftrightarrow>
     fst ` keys_asked w \<subseteq> set (kw_used w)
     \<and> single_valued (keys_asked w)
     \<and> (\<forall>c i. MerchantReply c True i \<in> merchant_replies (kw_merchant w) \<longrightarrow> (\<exists>k. (c, k) \<in> keys_asked w \<and> vouched k i))
     \<and> set (kg_sending (kw_gate w)) \<union> set (kg_waiting (kw_gate w)) \<subseteq> keys_asked w
     \<and> (\<forall>c m. kg_held (kw_gate w) = Some (c, m) \<longrightarrow> m \<in> merchant_replies (kw_merchant w) \<and> reply_correlation m = c)
     \<and> (\<forall>c m. kg_buffers (kw_gate w) c = Some m \<longrightarrow> m \<in> merchant_replies (kw_merchant w) \<and> reply_correlation m = c)
     \<and> (\<forall>k m x. kg_cache (kw_gate w) (merchant_key k) = Some (m, x) \<longrightarrow> (\<exists>i. m = itoa i \<and> vouched k i))"

lemma key_invI:
  assumes "fst ` keys_asked w \<subseteq> set (kw_used w)"
    "single_valued (keys_asked w)"
    "\<And>c i. MerchantReply c True i \<in> merchant_replies (kw_merchant w) \<Longrightarrow> \<exists>k. (c, k) \<in> keys_asked w \<and> vouched k i"
    "set (kg_sending (kw_gate w)) \<union> set (kg_waiting (kw_gate w)) \<subseteq> keys_asked w"
    "\<And>c m. kg_held (kw_gate w) = Some (c, m) \<Longrightarrow> m \<in> merchant_replies (kw_merchant w) \<and> reply_correlation m = c"
    "\<And>c m. kg_buffers (kw_gate w) c = Some m \<Longrightarrow> m \<in> merchant_replies (kw_merchant w) \<and> reply_correlation m = c"
    "\<And>k m x. kg_cache (kw_gate w) (merchant_key k) = Some (m, x) \<Longrightarrow> \<exists>i. m = itoa i \<and> vouched k i"
  shows "key_inv vouched w"
  using assms unfolding key_inv_def by blast

lemma key_invD:
  assumes "key_inv vouched w"
  shows "fst ` keys_asked w \<subseteq> set (kw_used w)"
    "single_valued (keys_asked w)"
    "MerchantReply c True i \<in> merchant_replies (kw_merchant w) \<Longrightarrow> \<exists>k. (c, k) \<in> keys_asked w \<and> vouched k i"
    "set (kg_sending (kw_gate w)) \<union> set (kg_waiting (kw_gate w)) \<subseteq> keys_asked w"
    "kg_held (kw_gate w) = Some (c, m) \<Longrightarrow> m \<in> merchant_replies (kw_merchant w) \<and> reply_correlation m = c"
    "kg_buffers (kw_gate w) c = Some m \<Longrightarrow> m \<in> merchant_replies (kw_merchant w) \<and> reply_correlation m = c"
    "kg_cache (kw_gate w) (merchant_key k) = Some (a, x) \<Longrightarrow> \<exists>i. a = itoa i \<and> vouched k i"
  using assms unfolding key_inv_def by blast+

lemma key_inv_mono: "key_inv P w \<Longrightarrow> (\<And>k i. P k i \<Longrightarrow> Q k i) \<Longrightarrow> key_inv Q w"
  unfolding key_inv_def by blast

lemma merchant_key_inject [simp]: "merchant_key k = merchant_key k' \<longleftrightarrow> k = k'"
  by (simp add: merchant_key_def)

lemma keys_asked_simps [simp]:
  "keys_asked (w\<lparr>kw_merchant := m\<rparr>) = keys_asked w" "keys_asked (w\<lparr>kw_gate := g\<rparr>) = keys_asked w"
  "keys_asked (w\<lparr>kw_used := us\<rparr>) = keys_asked w"
  "keys_asked (w\<lparr>kw_used := us, kw_requests := kw_requests w @ [(k, c, t)], kw_gate := g\<rparr>) = insert (c, k) (keys_asked w)"
  "keys_asked (w\<lparr>kw_used := us, kw_requests := kw_requests w @ [(k, c, t)]\<rparr>) = insert (c, k) (keys_asked w)"
  by (simp_all add: keys_asked_def)

lemma consume_key_replies:
  "merchant_replies (snd (consume_api_key_request env (Some (k, c, t)) w)) = merchant_replies w
   \<or> (\<exists>v i. merchant_replies (snd (consume_api_key_request env (Some (k, c, t)) w)) = insert (MerchantReply c v i) (merchant_replies w)
        \<and> (v \<longrightarrow> (\<exists>m. fst (svc_find_by_api_key env k w) = Inr m \<and> i = mw_id m)))"
proof -
  have "mo_sent (snd (svc_find_by_api_key env k w)) = mo_sent w"
    by (simp add: svc_find_by_api_key_def on_merchant_cache_def zoom_def split: prod.splits)
  then have "merchant_replies (snd (svc_find_by_api_key env k w)) = merchant_replies w" by (simp add: merchant_replies_def)
  moreover have "merchant_replies (tell env [(t, c, MerchantReply c v i)] w')
      = (if me_sent env t then insert (MerchantReply c v i) (merchant_replies w') else merchant_replies w')" for v i w'
    by (cases "me_sent env t") (auto simp: merchant_replies_def tell_def)
  ultimately show ?thesis
    by (cases "svc_find_by_api_key env k w") (auto simp: consume_api_key_request_def reply_about_key_def split: sum.splits)
qed

text \<open>The steps, by what they touch.\<close>

lemma unregister_key_simps [simp]:
  "kg_cache (unregister_key_check c g) = kg_cache g" "kg_held (unregister_key_check c g) = kg_held g"
  "kg_buffers (unregister_key_check c g) = kg_buffers g" "kg_sending (unregister_key_check c g) = kg_sending g"
  "kg_waiting (unregister_key_check c g) = filter (\<lambda>(c', _). c' \<noteq> c) (kg_waiting g)"
  by (simp_all add: unregister_key_check_def)

lemma register_key_simps [simp]:
  "kg_cache (register_key_check c k g) = kg_cache g" "kg_held (register_key_check c k g) = kg_held g"
  "kg_buffers (register_key_check c k g) = kg_buffers g"
  "kg_sending (register_key_check c k g) = filter (\<lambda>(c', _). c' \<noteq> c) (kg_sending g)"
  "kg_waiting (register_key_check c k g) = kg_waiting g @ [(c, k)]"
  by (simp_all add: register_key_check_def)

lemma key_asked_inv:
  assumes "key_inv P w" "(k, c, t) \<in> set (kw_requests w)"
    and "\<And>m. fst (svc_find_by_api_key env k (kw_merchant w)) = Inr m \<Longrightarrow> P k (mw_id m)"
  shows "key_inv P (w\<lparr>kw_merchant := snd (consume_api_key_request env (Some (k, c, t)) (kw_merchant w))\<rparr>)"
proof -
  have "(c, k) \<in> keys_asked w" using assms(2) by (force simp: keys_asked_def)
  then have "\<exists>k'. (d, k') \<in> keys_asked w \<and> P k' i"
    if "MerchantReply d True i \<in> merchant_replies (snd (consume_api_key_request env (Some (k, c, t)) (kw_merchant w)))" for d i
    using that consume_key_replies [of env k c t "kw_merchant w"] key_invD(3) [OF assms(1)] assms(3) by auto
  moreover have "merchant_replies (kw_merchant w) \<subseteq> merchant_replies (snd (consume_api_key_request env (Some (k, c, t)) (kw_merchant w)))"
    using consume_key_replies [of env k c t "kw_merchant w"] by blast
  ultimately show ?thesis using key_invD(1,2,4-7) [OF assms(1)] by (intro key_invI) auto
qed

lemma key_check_inv:
  assumes "key_inv P w" "c \<notin> set (kw_used w)"
  shows "key_inv P (snd (key_check env k c w))"
proof -
  have new: "(c, k') \<notin> keys_asked w" for k' using key_invD(1) [OF assms(1)] assms(2) by force
  have "key_inv P (w\<lparr>kw_used := kw_used w @ [c]\<rparr>)" using key_invD [OF assms(1)] by (intro key_invI) auto
  moreover have "key_inv P (w\<lparr>kw_used := kw_used w @ [c], kw_requests := kw_requests w @ [(k, c, t)],
      kw_gate := (kw_gate w)\<lparr>kg_sending := kg_sending (kw_gate w) @ [(c, k)]\<rparr>\<rparr>)" for t
  proof (rule key_invI, goal_cases)
    case 2
    then show ?case using key_invD(2) [OF assms(1)] new by (auto simp: single_valued_def)
  next
    case (3 d i)
    then show ?case using key_invD(3) [OF assms(1)] by fastforce
  qed (use key_invD(1,4-7) [OF assms(1)] in auto)
  ultimately show ?thesis using assms(1) by (simp add: key_check_def Let_def split: option.splits)
qed

lemma take_key_inv:
  assumes "key_inv P w" "(t, d, m) \<in> set (mo_sent (kw_merchant w))"
  shows "key_inv P (w\<lparr>kw_gate := take_key_reply m (kw_gate w)\<rparr>)"
proof (cases "kg_held (kw_gate w) = None \<and> (\<exists>c v i. m = MerchantReply c v i \<and> c \<in> fst ` set (kg_waiting (kw_gate w)))")
  case True
  then obtain c v i where m: "kg_held (kw_gate w) = None" "m = MerchantReply c v i" "c \<in> fst ` set (kg_waiting (kw_gate w))" by blast
  have "m \<in> merchant_replies (kw_merchant w)" using assms(2) m(2) by (force simp: merchant_replies_def)
  then show ?thesis using key_invD [OF assms(1)] m
    by (intro key_invI) (auto simp: take_key_reply_def)
next
  case False
  then have "take_key_reply m (kw_gate w) = kw_gate w"
    by (auto simp: take_key_reply_def split: option.splits merchant_message.splits)
  then show ?thesis using assms(1) by (simp add: key_inv_def)
qed

lemma send_key_inv: "key_inv P w \<Longrightarrow> key_inv P (w\<lparr>kw_gate := send_key_reply (kw_gate w)\<rparr>)"
  using key_invD [of P w]
  by (intro key_invI) (auto simp: send_key_reply_def split: option.splits prod.splits if_splits)

text \<open>What is received answers the key that waits for it.\<close>

lemma received_vouched:
  assumes "key_inv P w" "(c, k) \<in> set (kg_waiting (kw_gate w))" "kg_buffers (kw_gate w) c = Some (MerchantReply d True i)"
  shows "P k i"
proof -
  from key_invD(6) [OF assms(1) assms(3)] have "MerchantReply c True i \<in> merchant_replies (kw_merchant w)" by fastforce
  from key_invD(3) [OF assms(1) this] obtain k' where "(c, k') \<in> keys_asked w" "P k' i" by blast
  moreover have "(c, k) \<in> keys_asked w" using key_invD(4) [OF assms(1)] assms(2) by blast
  ultimately show ?thesis using key_invD(2) [OF assms(1)] single_valuedD by metis
qed

lemma set_merchant_cache_entry:
  "set_merchant_cache env m k st (merchant_key k') = Some (m', x) \<Longrightarrow>
   m' = m \<and> k' = k \<or> st (merchant_key k') = Some (m', x)"
  by (cases "k' = k") (auto simp: set_merchant_cache_def split: if_splits dest!: set_to_cache_stored)

lemma receive_key_inv:
  assumes "key_inv P w" "(c, k) \<in> set (kg_waiting (kw_gate w))"
  shows "key_inv P (w\<lparr>kw_gate := snd (receive_key_reply env c k (kw_gate w))\<rparr>)"
proof -
  let ?g = "unregister_key_check c ((kw_gate w)\<lparr>kg_buffers := (kg_buffers (kw_gate w))(c := None)\<rparr>)"
  have gone: "key_inv P (w\<lparr>kw_gate := ?g\<rparr>)"
    using key_invD [OF assms(1)] by (intro key_invI) (auto split: if_splits)
  have kept: "key_inv P (w\<lparr>kw_gate := ?g\<lparr>kg_cache := set_merchant_cache env (itoa i) k (kg_cache ?g)\<rparr>\<rparr>)"
    if "kg_buffers (kw_gate w) c = Some (MerchantReply d True i)" for d i
  proof (rule key_invI, goal_cases)
    case (7 k' m x)
    then show ?case using received_vouched [OF assms that] key_invD(7) [OF assms(1)]
      by (auto dest!: set_merchant_cache_entry)
  qed (use key_invD(1-6) [OF gone] in simp_all)
  have "key_inv P (w\<lparr>kw_gate := kw_gate w\<rparr>)" using assms(1) by simp
  then show ?thesis using gone kept
    by (auto simp: receive_key_reply_def Let_def split: option.splits merchant_message.splits)
qed

lemma key_step_inv:
  assumes "key_step now w w'" "key_inv P w"
    and "\<And>menv k m. merchant_env_at now menv \<Longrightarrow> fst (svc_find_by_api_key menv k (kw_merchant w)) = Inr m \<Longrightarrow> P k (mw_id m)"
  shows "key_inv P w'"
  using assms
proof (induction rule: key_step.induct)
  case (merchants now w m)
  then show ?case by (simp add: key_inv_def)
next
  case (asked now menv r w)
  then show ?case by (cases r) (auto intro: key_asked_inv)
next
  case (registered c k w now)
  then show ?case using key_invD [OF registered(2)] by (intro key_invI) auto
next
  case (given_up c k w now)
  then show ?case using key_invD [OF given_up(2)] by (intro key_invI) (auto simp: give_up_key_check_def)
qed (auto intro: key_check_inv take_key_inv send_key_inv receive_key_inv)

section \<open>A merchant that is answered has had the key\<close>

text \<open>A live row of the table has the key and the id; the cache answers a key with the id.\<close>

definition holds_merchant :: "string \<times> int \<Rightarrow> merchant_world \<Rightarrow> bool" where
  "holds_merchant f w \<longleftrightarrow> (\<exists>m \<in> set (merchant_rows (mo_db w)). mw_key m = fst f \<and> mw_id m = snd f \<and> merchant_live m)"

definition answers_merchant :: "string \<times> int \<Rightarrow> merchant_value \<Rightarrow> bool" where
  "answers_merchant f v \<longleftrightarrow> (\<exists>m. value_merchant v = Some m \<and> mw_id m = snd f)"

lemma find_by_key_gone_merchant:
  assumes "\<not> holds_merchant f w" "gone_by T (answers_merchant f) (merchant_by_api_key_key (fst f)) (mo_cache w)"
  shows "gone_by T (answers_merchant f) (merchant_by_api_key_key (fst f)) (mo_cache (snd (svc_find_by_api_key env k w)))"
proof -
  have "mw_id m \<noteq> snd f" if "repo_find_by_api_key fl (fst f) (mo_db w) = Inr m" for fl m
    using assms(1) lookup_by_key [OF that] by (auto simp: holds_merchant_def)
  then show ?thesis using assms(2)
    by (auto simp: svc_find_by_api_key_def merchant_by_api_key_key_def answers_merchant_def intro!: gone_by_find)
qed

interpretation merchant_ids: forgetting_cache merchant_step mo_cache holds_merchant answers_merchant "merchant_by_api_key_key \<circ> fst"
proof
  fix now w w' f T assume st: "merchant_step now w w'" and gone: "\<not> holds_merchant f w"
    "gone_by T (answers_merchant f) ((merchant_by_api_key_key \<circ> fst) f) (mo_cache w)"
  note old = gone(2) [unfolded o_apply]
  note find = find_by_key_gone_merchant [OF gone(1) old]
  have "gone_by T (answers_merchant f) (merchant_by_api_key_key (fst f)) (mo_cache w')" using st
  proof cases
    case (18 env k)
    then show ?thesis using find by simp
  next
    case (30 env msg)
    then show ?thesis using find old by (auto simp: consume_frame_merchant split: option.splits)
  qed (use old in \<open>auto simp: merchant_command_defs merchant_query_defs told_frame merchant_page_defs merchant_key_defs
      intro!: gone_by_find gone_by_page gone_by_set intro: dropped_cache [THEN drops_gone] split: option.splits sum.splits\<close>)
  then show "gone_by T (answers_merchant f) ((merchant_by_api_key_key \<circ> fst) f) (mo_cache w')" by simp
qed

text \<open>The merchant service makes steps, or stands, in a history of the keys.\<close>

lemma key_step_merchant: "key_step now w w' \<Longrightarrow> kw_merchant w' = kw_merchant w \<or> merchant_step now (kw_merchant w) (kw_merchant w')"
proof (induction rule: key_step.induct)
  case (asked now menv r w)
  then show ?case by (auto intro: merchant_step.intros(30))
qed (auto simp: key_check_def Let_def split: option.splits)

lemma merchant_history:
  "history key_step t0 w0 hist \<Longrightarrow> history merchant_step t0 (kw_merchant w0) (map (\<lambda>(t, w). (t, kw_merchant w)) hist)"
proof (induction rule: history.induct)
  case (hist_step t w past w')
  from key_step_merchant [OF hist_step.hyps(2)] show ?case
    using hist_step.IH history.hist_wait [of merchant_step t0 "kw_merchant w0" t "kw_merchant w"] history.hist_step
    by fastforce
qed (auto intro: history.intros)

text \<open>In a state of the history a live row of the merchant \<open>i\<close> has had the key \<open>k\<close>.\<close>

definition vouched :: "(int \<times> key_world) list \<Rightarrow> string \<Rightarrow> int \<Rightarrow> bool" where
  "vouched hist k i \<longleftrightarrow> (\<exists>(t, v) \<in> set hist. holds_merchant (k, i) (kw_merchant v))"

lemma answered_vouched:
  assumes hist: "history key_step t0 empty_key_world ((now, w) # past)" and menv: "merchant_env_at now menv"
    and answer: "fst (svc_find_by_api_key menv k (kw_merchant w)) = Inr m"
  shows "vouched ((now, w) # past) k (mw_id m)"
proof (cases "Option.bind (get_from_cache (me_cache menv) (merchant_by_api_key_key k) (mo_cache (kw_merchant w))) value_merchant")
  case None
  then have "repo_find_by_api_key (me_fault menv ''GetMerchantByApiKey'') k (mo_db (kw_merchant w)) = Inr m"
    using answer by (auto simp: svc_find_by_api_key_def on_merchant_cache_def zoom_def cached_find_def split: sum.splits prod.splits)
  from lookup_by_key [OF this] show ?thesis by (auto simp: vouched_def holds_merchant_def)
next
  case (Some n)
  then have "n = m"
    using answer by (simp add: svc_find_by_api_key_def on_merchant_cache_def zoom_def cached_find_def)
  with Some obtain v where v: "get_from_cache (me_cache menv) (merchant_by_api_key_key k) (mo_cache (kw_merchant w)) = Some v"
    "answers_merchant (k, mw_id m) v"
    by (auto simp: Option.bind_eq_Some_conv answers_merchant_def)
  have at: "ce_now (me_cache menv) = now" using menv by (simp add: merchant_env_at_def me_now_def)
  have "history merchant_step t0 empty_merchant_world
      ((ce_now (me_cache menv), kw_merchant w) # map (\<lambda>(t, w). (t, kw_merchant w)) past)"
    using merchant_history [OF hist] at by (simp add: empty_key_world_def)
  from merchant_ids.held_once [OF this _ _ v(2)] v(1) at show ?thesis
    by (fastforce simp: vouched_def empty_merchant_world_def)
qed

lemma key_history_inv:
  "history key_step t0 w0 hist \<Longrightarrow> w0 = empty_key_world \<Longrightarrow> key_inv (vouched hist) (snd (hd hist))"
proof (induction rule: history.induct)
  case hist_start
  then show ?case
    by (simp add: key_inv_def empty_key_world_def keys_asked_def merchant_replies_def empty_merchant_world_def)
next
  case (hist_wait t w past t')
  then have "key_inv (vouched ((t, w) # past)) w" by simp
  then show ?case using key_inv_mono [of _ w] by (fastforce simp: vouched_def)
next
  case (hist_step t w past w')
  then have "key_inv (vouched ((t, w) # past)) w" by simp
  with hist_step.hyps(2) have "key_inv (vouched ((t, w) # past)) w'"
    by (rule key_step_inv) (use answered_vouched hist_step in blast)
  then show ?case using key_inv_mono [of _ w'] by (fastforce simp: vouched_def)
qed

text \<open>
  C35: whoever the API-key check lets through as a merchant has presented exactly the API
  key of that merchant, in a live row the merchant table has held in a state of this very
  history, however requests, replies, timeouts and repeated deliveries were interleaved
\<close>

theorem admitted_key_vouched:
  assumes "history key_step t0 empty_key_world ((now, w) # past)"
    and "fst (key_check env api_key c w) = KeyOf merchant
      \<or> (c, api_key) \<in> set (kg_waiting (kw_gate w)) \<and> fst (receive_key_reply env c api_key (kw_gate w)) = KeyOf merchant"
  shows "\<exists>(t, v) \<in> set ((now, w) # past). \<exists>m \<in> set (merchant_rows (mo_db (kw_merchant v))).
    mw_key m = api_key \<and> merchant_live m \<and> merchant = itoa (mw_id m)"
proof -
  have inv: "key_inv (vouched ((now, w) # past)) w" using key_history_inv [OF assms(1)] by simp
  have "\<exists>i. merchant = itoa i \<and> vouched ((now, w) # past) api_key i" using assms(2)
  proof (elim disjE conjE)
    assume "fst (key_check env api_key c w) = KeyOf merchant"
    then obtain x where "kg_cache (kw_gate w) (merchant_key api_key) = Some (merchant, x)"
      by (auto simp: key_check_def get_merchant_cache_def get_from_cache_def Let_def split: if_splits option.splits)
    then show ?thesis by (rule key_invD(7) [OF inv])
  next
    assume waits: "(c, api_key) \<in> set (kg_waiting (kw_gate w))" "fst (receive_key_reply env c api_key (kw_gate w)) = KeyOf merchant"
    then obtain d i where "kg_buffers (kw_gate w) c = Some (MerchantReply d True i)" "merchant = itoa i"
      by (auto simp: receive_key_reply_def Let_def split: option.splits merchant_message.splits if_splits)
    then show ?thesis using received_vouched [OF inv waits(1)] by blast
  qed
  then show ?thesis unfolding vouched_def holds_merchant_def by fastforce
qed

section \<open>Samples\<close>

definition sample_key_env :: "int \<Rightarrow> key_env" where
  "sample_key_env now =
     \<lparr>ke_cache = \<lparr>ce_now = now, ce_rand = (\<lambda>_. 0), ce_get_ok = True, ce_set_ok = True, ce_del_ok = True\<rparr>, ke_kafka = True, ke_sent = True\<rparr>"

definition key_shop :: key_world where
  "key_shop = empty_key_world\<lparr>kw_merchant := shop_world\<rparr>"

definition key_sent :: key_world where
  "key_sent = snd (key_check (sample_key_env 0) ''key'' ''c1'' key_shop)"

definition key_consumed :: "key_world \<Rightarrow> key_world" where
  "key_consumed w = w\<lparr>kw_merchant :=
     snd (consume_api_key_request (sample_merchant_env 0) (Some (''key'', ''c1'', ''response-transaction'')) (kw_merchant w))\<rparr>"

definition key_registered :: "key_world \<Rightarrow> key_world" where
  "key_registered w = w\<lparr>kw_gate := register_key_check ''c1'' ''key'' (kw_gate w)\<rparr>"

definition key_taken :: "key_world \<Rightarrow> key_world" where
  "key_taken w = w\<lparr>kw_gate := take_key_reply (MerchantReply ''c1'' True 1) (kw_gate w)\<rparr>"

definition key_delivered :: "key_world \<Rightarrow> key_world" where
  "key_delivered w = w\<lparr>kw_gate := send_key_reply (kw_gate w)\<rparr>"

definition key_ready :: key_world where
  "key_ready = key_delivered (key_taken (key_registered (key_consumed key_sent)))"

lemma sample_key_env_at: "ce_now (ke_cache (sample_key_env now)) = now"
  by (simp add: sample_key_env_def)

definition key_opened :: key_world where
  "key_opened = empty_key_world\<lparr>kw_merchant := snd (svc_create_merchant (sample_merchant_env 0) ''shop'' 2 empty_merchant_world)\<rparr>"

definition key_past :: "(int \<times> key_world) list" where
  "key_past = [(0, key_taken (key_registered (key_consumed key_sent))), (0, key_registered (key_consumed key_sent)),
     (0, key_consumed key_sent), (0, key_sent), (0, key_shop), (0, key_opened), (0, empty_key_world)]"

lemma key_opens: "key_step 0 empty_key_world key_opened" "key_step 0 key_opened key_shop"
proof -
  let ?env = "sample_merchant_env 0"
  let ?m = "snd (svc_create_merchant ?env ''shop'' 2 empty_merchant_world)"
  have "merchant_step 0 (kw_merchant empty_key_world) ?m"
    by (simp add: empty_key_world_def) (rule merchant_step.intros(1) [OF sample_merchant_env_at])
  then show "key_step 0 empty_key_world key_opened" unfolding key_opened_def by (rule merchants) code_simp
  have "merchant_step 0 ?m shop_world"
    unfolding shop_world_def by (rule merchant_step.intros(18) [OF sample_merchant_env_at])
  then have "key_step 0 key_opened (key_opened\<lparr>kw_merchant := shop_world\<rparr>)"
    by (intro merchants) (simp add: key_opened_def, code_simp)
  then show "key_step 0 key_opened key_shop" by (simp add: key_shop_def key_opened_def)
qed

lemma key_delivers:
  "key_step 0 key_shop key_sent" "key_step 0 key_sent (key_consumed key_sent)"
  "key_step 0 (key_consumed key_sent) (key_registered (key_consumed key_sent))"
  "key_step 0 (key_registered (key_consumed key_sent)) (key_taken (key_registered (key_consumed key_sent)))"
  "key_step 0 (key_taken (key_registered (key_consumed key_sent))) key_ready"
proof -
  let ?w = "key_registered (key_consumed key_sent)"
  show "key_step 0 key_shop key_sent" unfolding key_sent_def by (rule checked [OF sample_key_env_at]) code_simp
  show "key_step 0 key_sent (key_consumed key_sent)"
    unfolding key_consumed_def by (rule asked [OF sample_merchant_env_at]) code_simp
  show "key_step 0 (key_consumed key_sent) ?w" unfolding key_registered_def by (rule registered) code_simp
  show "key_step 0 ?w (key_taken ?w)"
    unfolding key_taken_def by (rule key_step.taken [of "''response-transaction''" "''c1''"]) code_simp
  show "key_step 0 (key_taken ?w) key_ready" unfolding key_ready_def key_delivered_def by (rule sent)
qed

lemma key_ready_history: "history key_step 0 empty_key_world ((0, key_ready) # key_past)"
  unfolding key_past_def by (intro history.intros key_opens key_delivers)

theorem admitted_key_vouched_witness:
  "\<exists>(t, v) \<in> set ((0, key_ready) # key_past). \<exists>m \<in> set (merchant_rows (mo_db (kw_merchant v))).
    mw_key m = ''key'' \<and> merchant_live m \<and> ''1'' = itoa (mw_id m)"
proof (rule admitted_key_vouched [OF key_ready_history])
  show "fst (key_check (sample_key_env 0) ''key'' ''c1'' key_ready) = KeyOf ''1''
    \<or> (''c1'', ''key'') \<in> set (kg_waiting (kw_gate key_ready))
      \<and> fst (receive_key_reply (sample_key_env 0) ''c1'' ''key'' (kw_gate key_ready)) = KeyOf ''1''"
    by code_simp
qed

section \<open>What the code leaves open\<close>

text \<open>A reply that is consumed between sending the request and registering it is lost.\<close>

lemma early_reply_lost:
  "(let w = key_delivered (key_registered (key_taken (key_consumed key_sent)))
    in (''c1'', ''key'') \<in> set (kg_waiting (kw_gate w)) \<and> kg_held (kw_gate w) = None
       \<and> fst (receive_key_reply (sample_key_env 0) ''c1'' ''key'' (kw_gate w)) = KeyWaits)"
  by code_simp

text \<open>A repeated reply to a request that then gives up stops the consumer for all requests.\<close>

definition key_stuck :: key_gate where
  "key_stuck = snd (give_up_key_check ''c1'' (kw_gate (key_taken key_ready)))"

lemma duplicate_reply_stops_consumer:
  "send_key_reply key_stuck = key_stuck" "take_key_reply msg key_stuck = key_stuck" "kg_waiting key_stuck = []"
proof -
  have held: "kg_held key_stuck = Some (''c1'', MerchantReply ''c1'' True 1)" by code_simp
  moreover have "kg_buffers key_stuck ''c1'' = Some (MerchantReply ''c1'' True 1)" by code_simp
  ultimately show "send_key_reply key_stuck = key_stuck" by (simp add: send_key_reply_def)
  show "take_key_reply msg key_stuck = key_stuck" by (simp add: take_key_reply_def held)
  show "kg_waiting key_stuck = []" by code_simp
qed

end
