(* ===== verification/Gateway.thy ===== *)
theory Gateway
  imports GatewayAccess Validation Staleness
begin

text \<open>
  What the HTTP handlers of the API gateway share (\<open>service/apigateway/handler\<close>,
  \<open>redis/api\<close>): reading parameters and bodies, the call of a service, the answers kept in the
  gateway's own cache. An answer is the message of the service; the mappers of
  \<open>shared/mapper\<close> copy its fields. The last section is the argument that two caches in a row
  forget in twice the time of one.
\<close>

section \<open>Requests\<close>

text \<open>The failures the validator reports, by field, tag and parameter, or another error.\<close>

datatype validation_failure = FieldFailures "(string \<times> string \<times> string) list" | OtherFailure string

record gateway_env =
  ga_cache :: cache_env
  ga_fault :: "string \<Rightarrow> go_error fault"
  ga_bind_error :: go_error
  ga_failure :: validation_failure

definition get_validation_message :: "string \<Rightarrow> string \<Rightarrow> string" where
  "get_validation_message tag param =
     (if tag = ''required'' then ''This field is required''
      else if tag = ''email'' then ''Invalid email format''
      else if tag = ''min'' then ''Must be at least '' @ param
      else if tag = ''max'' then ''Must be at most '' @ param
      else if tag = ''gte'' then ''Must be greater than or equal to '' @ param
      else if tag = ''lte'' then ''Must be less than or equal to '' @ param
      else if tag = ''oneof'' then ''Must be one of: '' @ param
      else ''Validation failed on '' @ [CHR 0x27] @ tag @ [CHR 0x27] @ '' tag'')"

definition parse_validation_errors :: "validation_failure \<Rightarrow> (string \<times> string) list" where
  "parse_validation_errors failure =
     (case failure of
        FieldFailures fs \<Rightarrow> map (\<lambda>(field, tag, param). (field, get_validation_message tag param)) fs
      | OtherFailure message \<Rightarrow> [(''general'', message)])"

fun with_validations :: "go_error \<Rightarrow> (string \<times> string) list \<Rightarrow> go_error" where
  "with_validations (AppError t c m r _ i) vs = AppError t c m r vs i"
| "with_validations e _ = e"

definition new_validation_error :: "(string \<times> string) list \<Rightarrow> go_error" where
  "new_validation_error vs = with_validations ErrValidationFailed vs"

text \<open>A body that cannot be bound is \<open>None\<close>; some handlers drop the error of the binder.\<close>

definition invalid_request :: "gateway_env \<Rightarrow> string \<Rightarrow> go_error" where
  "invalid_request env message = with_internal (new_bad_request_error message) (ga_bind_error env)"

definition with_body ::
  "gateway_env \<Rightarrow> go_error \<Rightarrow> ('b \<Rightarrow> bool) \<Rightarrow> 'b option \<Rightarrow> ('b \<Rightarrow> (go_error, 'a, 'g) op) \<Rightarrow> (go_error, 'a, 'g) op" where
  "with_body env unbound valid body k =
     (case body of
        None \<Rightarrow> ret (Inl unbound)
      | Some b \<Rightarrow>
          if \<not> valid b then ret (Inl (new_validation_error (parse_validation_errors (ga_failure env))))
          else k b)"

definition with_path_id :: "string \<Rightarrow> string \<Rightarrow> (int \<Rightarrow> (go_error, 'a, 'g) op) \<Rightarrow> (go_error, 'a, 'g) op" where
  "with_path_id message text k =
     (case atoi text of None \<Rightarrow> ret (Inl (new_bad_request_error message)) | Some i \<Rightarrow> k i)"

definition with_positive_id :: "string \<Rightarrow> string \<Rightarrow> (int \<Rightarrow> (go_error, 'a, 'g) op) \<Rightarrow> (go_error, 'a, 'g) op" where
  "with_positive_id message text k =
     (case atoi text of
        None \<Rightarrow> ret (Inl (new_bad_request_error message))
      | Some i \<Rightarrow> if i \<le> 0 then ret (Inl (new_bad_request_error message)) else k i)"

definition with_text :: "string \<Rightarrow> string \<Rightarrow> (go_error, 'a, 'g) op \<Rightarrow> (go_error, 'a, 'g) op" where
  "with_text message text m = (if text = [] then ret (Inl (new_bad_request_error message)) else m)"

definition with_idempotency_key :: "string \<Rightarrow> (go_error, 'a, 'g) op \<Rightarrow> (go_error, 'a, 'g) op" where
  "with_idempotency_key key m = (case validate_key key of Some err \<Rightarrow> ret (Inl err) | None \<Rightarrow> m)"

text \<open>The user id the token test has put into the context.\<close>

definition with_user :: "string option \<Rightarrow> (string \<Rightarrow> (go_error, 'a, 'g) op) \<Rightarrow> (go_error, 'a, 'g) op" where
  "with_user user_id k =
     (case user_id of
        None \<Rightarrow> ret (Inl ErrUnauthorized)
      | Some u \<Rightarrow> if u = [] then ret (Inl ErrUnauthorized) else k u)"

text \<open>The parameters \<open>page\<close>, \<open>page_size\<close> and \<open>search\<close> of a listing.\<close>

definition query_number :: "int \<Rightarrow> string \<Rightarrow> int" where
  "query_number fallback text =
     (case atoi text of None \<Rightarrow> fallback | Some n \<Rightarrow> if n \<le> 0 then fallback else n)"

definition query_page :: "string \<times> string \<times> string \<Rightarrow> find_all_request" where
  "query_page p = (case p of (page, page_size, search) \<Rightarrow>
     \<lparr>fa_search = search, fa_page = query_number 1 page, fa_page_size = query_number 10 page_size\<rparr>)"

section \<open>Calls and answers\<close>

record ('s, 'v) gateway =
  gt_service :: 's
  gt_cache :: "'v redis"

datatype 'r kept = KeptRow 'r | KeptRows "'r list" | KeptPage "'r list \<times> page_meta"

fun kept_row :: "'r kept \<Rightarrow> 'r option" where
  "kept_row (KeptRow r) = Some r"
| "kept_row _ = None"

fun kept_rows :: "'r kept \<Rightarrow> 'r list option" where
  "kept_rows (KeptRows rs) = Some rs"
| "kept_rows _ = None"

fun kept_page :: "'r kept \<Rightarrow> ('r list \<times> page_meta) option" where
  "kept_page (KeptPage p) = Some p"
| "kept_page _ = None"

definition client_call ::
  "gateway_env \<Rightarrow> string \<Rightarrow> (go_error, 'a, 's) op \<Rightarrow> (go_error, 'a, ('s, 'v) gateway) op" where
  "client_call env rpc m =
     map_error parse_grpc_error (with_fault (ga_fault env rpc) (zoom gt_service (\<lambda>s g. g\<lparr>gt_service := s\<rparr>) m))"

definition keep_answer :: "gateway_env \<Rightarrow> string \<Rightarrow> 'v \<Rightarrow> ('s, 'v) gateway \<Rightarrow> ('s, 'v) gateway" where
  "keep_answer env key v g = g\<lparr>gt_cache := set_to_cache (ga_cache env) key v ttl_default (gt_cache g)\<rparr>"

definition drop_answer :: "gateway_env \<Rightarrow> string \<Rightarrow> ('s, 'v) gateway \<Rightarrow> ('s, 'v) gateway" where
  "drop_answer env key g = g\<lparr>gt_cache := delete_from_cache (ga_cache env) key (gt_cache g)\<rparr>"

text \<open>A query: the answer kept under \<open>key\<close>, else that of the service, which is kept under \<open>store\<close>.\<close>

definition cached_call ::
  "gateway_env \<Rightarrow> string \<Rightarrow> ('v \<Rightarrow> 'a option) \<Rightarrow> ('a \<Rightarrow> 'v) \<Rightarrow> ('a \<Rightarrow> string) \<Rightarrow> string \<Rightarrow>
   (go_error, 'a, 's) op \<Rightarrow> (go_error, 'a, ('s, 'v) gateway) op" where
  "cached_call env key sel wrap store rpc m g =
     (case Option.bind (get_from_cache (ga_cache env) key (gt_cache g)) sel of
        Some a \<Rightarrow> (Inr a, g)
      | None \<Rightarrow>
          (case client_call env rpc m g of
             (Inl err, g') \<Rightarrow> (Inl err, g')
           | (Inr a, g') \<Rightarrow> (Inr a, keep_answer env (store a) (wrap a) g')))"

definition gateway_row ::
  "gateway_env \<Rightarrow> string \<Rightarrow> ('r \<Rightarrow> string) \<Rightarrow> string \<Rightarrow> (go_error, 'r, 's) op \<Rightarrow> (go_error, 'r, ('s, 'r kept) gateway) op" where
  "gateway_row env key store = cached_call env key kept_row KeptRow store"

definition gateway_rows ::
  "gateway_env \<Rightarrow> string \<Rightarrow> string \<Rightarrow> (go_error, 'r list, 's) op \<Rightarrow> (go_error, 'r list, ('s, 'r kept) gateway) op" where
  "gateway_rows env key = cached_call env key kept_rows KeptRows (\<lambda>_. key)"

definition gateway_page ::
  "gateway_env \<Rightarrow> string \<Rightarrow> string \<Rightarrow> (string \<Rightarrow> int \<Rightarrow> int \<Rightarrow> (go_error, 'r list \<times> page_meta, 's) op) \<Rightarrow>
   string \<times> string \<times> string \<Rightarrow> (go_error, 'r list \<times> page_meta, ('s, 'r kept) gateway) op" where
  "gateway_page env kind rpc list p =
     (let req = query_page p; key = listing_key kind req
      in cached_call env key kept_page KeptPage (\<lambda>_. key) rpc
           (list (fa_search req) (go_int32 (fa_page req)) (go_int32 (fa_page_size req))))"

text \<open>A command: what a success does to the answers kept.\<close>

definition gateway_command ::
  "gateway_env \<Rightarrow> string \<Rightarrow> (go_error, 'a, 's) op \<Rightarrow> ('a \<Rightarrow> ('s, 'v) gateway \<Rightarrow> ('s, 'v) gateway) \<Rightarrow>
   (go_error, 'a, ('s, 'v) gateway) op" where
  "gateway_command env rpc m after =
     try_or (client_call env rpc m) (\<lambda>err. ret (Inl err)) (\<lambda>a g. (Inr a, after a g))"

definition unkept :: "'a \<Rightarrow> ('s, 'v) gateway \<Rightarrow> ('s, 'v) gateway" where
  "unkept a g = g"

section \<open>Facts\<close>

lemma with_body_cases:
  obtains (refused) err where "with_body env unbound valid body k g = (Inl err, g)"
    | (bound) b where "body = Some b" "valid b" "with_body env unbound valid body k g = k b g"
  by (cases body; cases "valid (the body)") (auto simp: with_body_def ret_def)

lemma client_call_deliver:
  "ga_fault env rpc = Deliver \<Longrightarrow> client_call env rpc m g =
     (map_sum parse_grpc_error id (fst (m (gt_service g))), g\<lparr>gt_service := snd (m (gt_service g))\<rparr>)"
  by (cases "m (gt_service g)"; cases "fst (m (gt_service g))")
    (auto simp: client_call_def map_error_def with_fault_def zoom_def)

lemma client_call_service:
  "gt_cache (snd (client_call env rpc m g)) = gt_cache g
   \<and> gt_service (snd (client_call env rpc m g)) \<in> {gt_service g, snd (m (gt_service g))}"
  by (auto simp: client_call_def map_error_def with_fault_def zoom_def split: prod.splits sum.splits fault.splits)

lemma client_call_success:
  "fst (client_call env rpc m g) = Inr a \<Longrightarrow>
   m (gt_service g) = (Inr a, gt_service (snd (client_call env rpc m g)))"
  by (auto simp: client_call_def map_error_def with_fault_def zoom_def split: prod.splits sum.splits fault.splits)

lemma gateway_command_success:
  "fst (gateway_command env rpc m after g) = Inr a \<Longrightarrow> fst (client_call env rpc m g) = Inr a
     \<and> snd (gateway_command env rpc m after g) = after a (snd (client_call env rpc m g))"
  by (auto simp: gateway_command_def try_or_def ret_def split: prod.splits sum.splits)

lemma keep_answer_frame [simp]: "gt_service (keep_answer env key v g) = gt_service g"
  by (simp add: keep_answer_def)

lemma drop_answer_frame [simp]: "gt_service (drop_answer env key g) = gt_service g"
  by (simp add: drop_answer_def)

lemma cached_call_hit:
  "get_from_cache (ga_cache env) key (gt_cache g) = Some v \<Longrightarrow> sel v = Some a \<Longrightarrow>
   cached_call env key sel wrap store rpc m g = (Inr a, g)"
  by (simp add: cached_call_def)

section \<open>Two caches in a row\<close>

text \<open>
  What handlers do to a gateway: the service makes a step; what it tells is kept for five
  minutes, a row under its own key; kept answers are dropped. \<open>tells now s r\<close>: a lookup of
  the service can answer \<open>r\<close>.
\<close>

inductive gateway_step ::
  "(int \<Rightarrow> 's \<Rightarrow> 's \<Rightarrow> bool) \<Rightarrow> (int \<Rightarrow> 's \<Rightarrow> 'r \<Rightarrow> bool) \<Rightarrow> int \<Rightarrow> ('s, 'r kept) gateway \<Rightarrow> ('s, 'r kept) gateway \<Rightarrow> bool"
  for svc tells where
  service_moves: "svc now (gt_service g) s \<Longrightarrow> gateway_step svc tells now g (g\<lparr>gt_service := s\<rparr>)"
| row_kept: "svc now (gt_service g) s \<Longrightarrow> tells now (gt_service g) r \<Longrightarrow> ce_now (ga_cache env) = now \<Longrightarrow> rand_ok (ga_cache env) \<Longrightarrow>
    gateway_step svc tells now g (keep_answer env key (KeptRow r) (g\<lparr>gt_service := s\<rparr>))"
| other_kept: "svc now (gt_service g) s \<Longrightarrow> kept_row v = None \<Longrightarrow> ce_now (ga_cache env) = now \<Longrightarrow> rand_ok (ga_cache env) \<Longrightarrow>
    gateway_step svc tells now g (keep_answer env key v (g\<lparr>gt_service := s\<rparr>))"
| dropped: "gateway_step svc tells now g (drop_answer env key g)"

lemma timed_run_split:
  "timed_run step t w t' w' \<Longrightarrow> t \<le> T \<Longrightarrow> T \<le> t' \<Longrightarrow> \<exists>v. timed_run step t w T v \<and> timed_run step T v t' w'"
proof (induction arbitrary: T rule: timed_run.induct)
  case (run_nil t w)
  then have "T = t" by simp
  then show ?case using timed_run.run_nil by metis
next
  case (run_wait t w t' w' t'')
  show ?case
  proof (cases "T \<le> t'")
    case True
    then show ?thesis using run_wait timed_run.run_wait by metis
  next
    case False
    then show ?thesis using run_wait.hyps run_wait.prems by (metis linorder_linear timed_run.run_nil timed_run.run_wait)
  qed
next
  case (run_step t w t' w' w'')
  then show ?case using timed_run.run_step by metis
qed

lemma gateway_step_service:
  "gateway_step svc tells now g g' \<Longrightarrow> gt_service g' = gt_service g \<or> svc now (gt_service g) (gt_service g')"
  by (induction rule: gateway_step.induct) auto

lemma gateway_run_service:
  "timed_run (\<lambda>now g g'. gateway_step svc tells now g g' \<and> P (gt_service g')) t g t' g' \<Longrightarrow> P (gt_service g) \<Longrightarrow>
   timed_run (\<lambda>now s s'. svc now s s' \<and> P s') t (gt_service g) t' (gt_service g') \<and> P (gt_service g')"
proof (induction rule: timed_run.induct)
  case (run_step t g t' g' g'')
  then show ?case using gateway_step_service [of svc tells t' g' g''] by (auto intro: timed_run.run_step)
qed (auto intro: timed_run.intros)

lemma gateway_step_short:
  "gateway_step svc tells now g g' \<Longrightarrow> short_lived now (gt_cache g) \<Longrightarrow> short_lived now (gt_cache g')"
  by (induction rule: gateway_step.induct) (auto simp: keep_answer_def drop_answer_def)

interpretation gateway_ages: ageing_cache "gateway_step svc tells" gt_cache
  for svc :: "int \<Rightarrow> 's \<Rightarrow> 's \<Rightarrow> bool" and tells :: "int \<Rightarrow> 's \<Rightarrow> 'r \<Rightarrow> bool"
  by unfold_locales (rule gateway_step_short)

lemma gateway_step_gone:
  "gateway_step svc tells now g g' \<Longrightarrow> \<not> tells now (gt_service g) r \<Longrightarrow>
   gone_by T (\<lambda>v. v = KeptRow r) key (gt_cache g) \<Longrightarrow> gone_by T (\<lambda>v. v = KeptRow r) key (gt_cache g')"
  by (induction rule: gateway_step.induct) (auto simp: keep_answer_def drop_answer_def intro!: gone_by_set gone_by_delete)

text \<open>
  A service that forgets a row some time after it has stopped being live, and a gateway in
  front of it: the gateway has forgotten it once that time and its own have passed.
\<close>

locale layered_cache =
  fixes svc :: "int \<Rightarrow> 's \<Rightarrow> 's \<Rightarrow> bool" and start :: 's and live :: "'r \<Rightarrow> 's \<Rightarrow> bool"
    and tells :: "int \<Rightarrow> 's \<Rightarrow> 'r \<Rightarrow> bool"
  assumes service_forgets: "timed_run svc t0 start t s \<Longrightarrow> \<not> live r s \<Longrightarrow>
    timed_run (\<lambda>now s s'. svc now s s' \<and> \<not> live r s') t s now s' \<Longrightarrow> t + stale_bound \<le> now \<Longrightarrow> \<not> tells now s' r"
begin

lemma gone_after:
  assumes "timed_run (\<lambda>now g g'. gateway_step svc tells now g g' \<and> \<not> live r (gt_service g')) T1 g1 now g'"
    and "timed_run svc t0 start t s" "\<not> live r s"
    and "timed_run (\<lambda>now s s'. svc now s s' \<and> \<not> live r s') t s T1 (gt_service g1)" "t + stale_bound \<le> T1"
    and "gone_by T (\<lambda>v. v = KeptRow r) key (gt_cache g1)"
  shows "gone_by T (\<lambda>v. v = KeptRow r) key (gt_cache g')
    \<and> timed_run (\<lambda>now s s'. svc now s s' \<and> \<not> live r s') t s now (gt_service g') \<and> T1 \<le> now"
  using assms
proof (induction rule: timed_run.induct)
  case (run_wait T1 g1 now g' now')
  from run_wait.IH [OF run_wait.prems] show ?case
    by (elim conjE) (intro conjI timed_run.run_wait [OF _ run_wait.hyps(2)] order.trans [OF _ run_wait.hyps(2)], assumption+)
next
  case (run_step T1 g1 now g' g'')
  note IH = run_step.IH [OF run_step.prems]
  from run_step.hyps(2) have st: "gateway_step svc tells now g' g''" and no: "\<not> live r (gt_service g'')" by blast+
  have "t + stale_bound \<le> now" using run_step.prems(4) IH by linarith
  then have "\<not> tells now (gt_service g') r"
    using service_forgets [OF run_step.prems(1,2)] IH by blast
  moreover have "timed_run (\<lambda>now s s'. svc now s s' \<and> \<not> live r s') t s now (gt_service g'')"
    using gateway_step_service [OF st] no IH by (metis (mono_tags, lifting) timed_run.run_step)
  ultimately show ?case using gateway_step_gone [OF st] IH by blast
qed simp

lemma gateway_forgets:
  assumes run: "timed_run (gateway_step svc tells) t0 g0 t g" "gt_service g0 = start" "gt_cache g0 = Map.empty" "\<not> live r (gt_service g)"
    and gone: "timed_run (\<lambda>now g g'. gateway_step svc tells now g g' \<and> \<not> live r (gt_service g')) t g now g'"
    and late: "t + 2 * stale_bound \<le> now"
  shows "\<not> tells now (gt_service g') r"
    and "ce_now (ga_cache env) = now \<Longrightarrow> get_from_cache (ga_cache env) key (gt_cache g') \<noteq> Some (KeptRow r)"
proof -
  let ?T1 = "t + stale_bound"
  have T1: "t \<le> ?T1" "?T1 \<le> now" "?T1 + stale_bound \<le> now" using late by (simp_all add: stale_bound_def time_defs)
  obtain g1 where halves: "timed_run (\<lambda>now g g'. gateway_step svc tells now g g' \<and> \<not> live r (gt_service g')) t g ?T1 g1"
      "timed_run (\<lambda>now g g'. gateway_step svc tells now g g' \<and> \<not> live r (gt_service g')) ?T1 g1 now g'"
    using timed_run_split [OF gone T1(1,2)] by blast
  have service: "timed_run svc t0 start t (gt_service g)"
    using gateway_run_service [where P = "\<lambda>_. True", simplified, OF run(1)] run(2) by simp
  have quiet: "timed_run (\<lambda>now s s'. svc now s s' \<and> \<not> live r s') t (gt_service g) ?T1 (gt_service g1)"
    using gateway_run_service [where P = "\<lambda>s. \<not> live r s", OF halves(1) run(4)] by blast
  have whole: "timed_run (gateway_step svc tells) t0 g0 ?T1 g1"
    using timed_run_append [OF timed_run_weaken [OF halves(1)] run(1)] by blast
  have "short_lived ?T1 (gt_cache g1)" by (rule gateway_ages.run_short [OF whole]) (simp add: run(3))
  then have "gone_by (?T1 + stale_bound) (\<lambda>v. v = KeptRow r) key (gt_cache g1)" by (rule gone_by_short)
  from gone_after [OF halves(2) service run(4) quiet order_refl this] have
    kept: "gone_by (?T1 + stale_bound) (\<lambda>v. v = KeptRow r) key (gt_cache g')"
    and all: "timed_run (\<lambda>now s s'. svc now s s' \<and> \<not> live r s') t (gt_service g) now (gt_service g')" by blast+
  show "\<not> tells now (gt_service g') r"
    using service_forgets [OF service run(4) all] T1(2) by simp
  show "ce_now (ga_cache env) = now \<Longrightarrow> get_from_cache (ga_cache env) key (gt_cache g') \<noteq> Some (KeptRow r)"
    using gone_by_no_hit [OF kept, of "ga_cache env"] T1(3) by auto
qed

end

section \<open>Where an answer comes from\<close>

text \<open>
  Every entry has been written by a step, for five minutes: so what a cache answers goes
  back to a step the run has made at most five and a half minutes ago.
\<close>

locale traced_cache =
  fixes step :: "int \<Rightarrow> 'w \<Rightarrow> 'w \<Rightarrow> bool" and cache :: "'w \<Rightarrow> 'v redis"
    and origin :: "int \<Rightarrow> 'w \<Rightarrow> 'w \<Rightarrow> string \<Rightarrow> 'v \<Rightarrow> bool"
  assumes step_origin: "step now w w' \<Longrightarrow> cache w' key = Some (v, x) \<Longrightarrow>
    cache w key = Some (v, x) \<or> origin now w w' key v \<and> (\<exists>e. x = Some e \<and> e < now + stale_bound)"
begin

lemma entry_origin:
  "history step t0 w0 hist \<Longrightarrow> cache w0 = Map.empty \<Longrightarrow> cache (snd (hd hist)) key = Some (v, x) \<Longrightarrow>
   \<exists>t1 w1 w2 e. passes hist t1 w1 w2 \<and> origin t1 w1 w2 key v \<and> x = Some e \<and> e < t1 + stale_bound"
proof (induction rule: history.induct)
  case (hist_wait t w past t')
  then show ?case by (fastforce intro: passes_later)
next
  case (hist_step t w past w')
  then have "cache w key = Some (v, x) \<or> origin t w w' key v \<and> (\<exists>e. x = Some e \<and> e < t + stale_bound)"
    using step_origin [OF hist_step.hyps(2)] by simp
  then show ?case
  proof
    assume "cache w key = Some (v, x)"
    with hist_step show ?thesis by (fastforce intro: passes_later)
  next
    assume "origin t w w' key v \<and> (\<exists>e. x = Some e \<and> e < t + stale_bound)"
    then show ?thesis by (blast intro: passes_now)
  qed
qed simp

lemma answer_origin:
  assumes "history step t0 w0 ((ce_now env, w) # past)" "cache w0 = Map.empty" "get_from_cache env key (cache w) = Some v"
  obtains t1 w1 w2 where "passes ((ce_now env, w) # past) t1 w1 w2" "t1 \<le> ce_now env" "ce_now env < t1 + stale_bound"
    "origin t1 w1 w2 key v"
proof -
  obtain x where x: "cache w key = Some (v, x)" using get_from_cache_stored [OF assms(3)] by blast
  obtain t1 w1 w2 e where t: "passes ((ce_now env, w) # past) t1 w1 w2" "origin t1 w1 w2 key v" "x = Some e" "e < t1 + stale_bound"
    using entry_origin [OF assms(1,2), unfolded list.sel snd_conv, OF x] by blast
  moreover have "ce_now env < e"
    using assms(3) x t(3) by (auto simp: get_from_cache_def split: if_splits)
  moreover have "t1 \<le> ce_now env" using history_times [OF assms(1), of t1 w1] passes_states [OF t(1)] by simp
  ultimately show thesis using that by simp
qed

end

lemma set_default_origin:
  "rand_ok env \<Longrightarrow> set_to_cache env k u ttl_default st key = Some (v, x) \<Longrightarrow>
   st key = Some (v, x) \<or> (key = k \<and> v = u \<and> (\<exists>e. x = Some e \<and> e < ce_now env + stale_bound))"
  using jitter_default(2) [of env] by (auto simp: set_default split: if_splits)

lemma delete_origin: "delete_from_cache env k st key = Some (v, x) \<Longrightarrow> st key = Some (v, x)"
  by (auto simp: delete_from_cache_def split: if_splits)

interpretation gateway_origin: traced_cache "gateway_step svc tells" gt_cache
  "\<lambda>now g g' key v. \<forall>r. v = KeptRow r \<longrightarrow> tells now (gt_service g) r"
  for svc :: "int \<Rightarrow> 's \<Rightarrow> 's \<Rightarrow> bool" and tells :: "int \<Rightarrow> 's \<Rightarrow> 'r \<Rightarrow> bool"
proof unfold_locales
  fix now and g g' :: "('s, 'r kept) gateway" and key v x
  assume "gateway_step svc tells now g g'" "gt_cache g' key = Some (v, x)"
  then show "gt_cache g key = Some (v, x)
    \<or> (\<forall>r. v = KeptRow r \<longrightarrow> tells now (gt_service g) r) \<and> (\<exists>e. x = Some e \<and> e < now + stale_bound)"
    by (induction rule: gateway_step.induct)
      (auto simp: keep_answer_def drop_answer_def dest!: set_default_origin delete_origin)
qed

text \<open>The entries a request adds, for five minutes each.\<close>

definition adds_only :: "int \<Rightarrow> (string \<Rightarrow> 'v \<Rightarrow> bool) \<Rightarrow> 'v redis \<Rightarrow> 'v redis \<Rightarrow> bool" where
  "adds_only now P st st' \<longleftrightarrow> (\<forall>key v x. st' key = Some (v, x) \<longrightarrow>
     st key = Some (v, x) \<or> P key v \<and> (\<exists>e. x = Some e \<and> e < now + stale_bound))"

lemma adds_only_refl [intro, simp]: "adds_only now P st st"
  by (simp add: adds_only_def)

lemma adds_only_set: "adds_only (ce_now env) P st st' \<Longrightarrow> rand_ok env \<Longrightarrow> P key v \<Longrightarrow>
    adds_only (ce_now env) P st (set_to_cache env key v ttl_default st')"
  unfolding adds_only_def by (blast dest: set_default_origin)

lemma adds_only_delete: "adds_only now P st st' \<Longrightarrow> adds_only now P st (delete_from_cache env key st')"
  unfolding adds_only_def by (blast dest: delete_origin)

lemma adds_only_traced: "(\<And>now w w'. step now w w' \<Longrightarrow> adds_only now (origin now w w') (cache w) (cache w')) \<Longrightarrow> traced_cache step cache origin"
  by unfold_locales (auto simp: adds_only_def)

section \<open>The steps of the handlers\<close>

definition gateway_at :: "int \<Rightarrow> gateway_env \<Rightarrow> bool" where
  "gateway_at now env \<longleftrightarrow> ce_now (ga_cache env) = now \<and> rand_ok (ga_cache env)"

lemma adds_only_keep:
  "adds_only now P st (gt_cache g) \<Longrightarrow> gateway_at now env \<Longrightarrow> P key v \<Longrightarrow> adds_only now P st (gt_cache (keep_answer env key v g))"
  using adds_only_set [of "ga_cache env"] by (auto simp: keep_answer_def gateway_at_def)

lemma adds_only_drop: "adds_only now P st (gt_cache g) \<Longrightarrow> adds_only now P st (gt_cache (drop_answer env key g))"
  by (simp add: drop_answer_def adds_only_delete)

lemma adds_only_command:
  assumes "\<And>a g'. fst (m (gt_service g)) = Inr a \<Longrightarrow> gt_service g' = snd (m (gt_service g)) \<Longrightarrow> gt_cache g' = gt_cache g \<Longrightarrow>
      adds_only now P (gt_cache g) (gt_cache (after a g'))"
  shows "adds_only now P (gt_cache g) (gt_cache (snd (gateway_command env rpc m after g)))"
proof (cases "fst (client_call env rpc m g)")
  case (Inl err)
  then show ?thesis using client_call_service [of env rpc m g]
    by (cases "client_call env rpc m g") (simp add: gateway_command_def try_or_def ret_def)
next
  case (Inr a)
  then show ?thesis using client_call_success [OF Inr] client_call_service [of env rpc m g]
    by (cases "client_call env rpc m g") (simp add: gateway_command_def try_or_def assms)
qed

lemma adds_only_call:
  assumes "gateway_at now env" "\<And>a. fst (m (gt_service g)) = Inr a \<Longrightarrow> P (store a) (wrap a)"
  shows "adds_only now P (gt_cache g) (gt_cache (snd (cached_call env key sel wrap store rpc m g)))"
proof (cases "Option.bind (get_from_cache (ga_cache env) key (gt_cache g)) sel")
  case None
  have "snd (cached_call env key sel wrap store rpc m g)
      = snd (gateway_command env rpc m (\<lambda>a. keep_answer env (store a) (wrap a)) g)"
    using None by (simp add: cached_call_def gateway_command_def try_or_def ret_def split: prod.splits sum.splits)
  then show ?thesis using assms by (auto intro!: adds_only_command adds_only_keep)
qed (simp add: cached_call_def)

lemma adds_only_asked:
  assumes "gateway_at now env"
    and "\<And>a. m (gt_service g) = (Inr a, gt_service (snd (cached_call env key sel wrap store rpc m g))) \<Longrightarrow> P (store a) (wrap a)"
  shows "adds_only now P (gt_cache g) (gt_cache (snd (cached_call env key sel wrap store rpc m g)))"
proof (cases "Option.bind (get_from_cache (ga_cache env) key (gt_cache g)) sel")
  case None
  note miss = this
  show ?thesis
  proof (cases "fst (client_call env rpc m g)")
    case (Inl err)
    then show ?thesis using miss client_call_service [of env rpc m g]
      by (cases "client_call env rpc m g") (simp add: cached_call_def)
  next
    case (Inr a)
    then have "snd (cached_call env key sel wrap store rpc m g) = keep_answer env (store a) (wrap a) (snd (client_call env rpc m g))"
      using miss by (cases "client_call env rpc m g") (simp add: cached_call_def)
    then show ?thesis using assms client_call_success [OF Inr] client_call_service [of env rpc m g]
      by (auto intro!: adds_only_keep)
  qed
qed (simp add: cached_call_def)

lemma adds_only_row:
  "gateway_at now env \<Longrightarrow> (\<And>r. fst (m (gt_service g)) = Inr r \<Longrightarrow> P (store r) (KeptRow r)) \<Longrightarrow>
   adds_only now P (gt_cache g) (gt_cache (snd (gateway_row env key store rpc m g)))"
  unfolding gateway_row_def by (rule adds_only_call)

lemma adds_only_page:
  "gateway_at now env \<Longrightarrow> (\<And>req p. P (listing_key kind req) (KeptPage p)) \<Longrightarrow>
   adds_only now P (gt_cache g) (gt_cache (snd (gateway_page env kind rpc list q g)))"
  unfolding gateway_page_def Let_def by (rule adds_only_call)

lemma adds_only_rows:
  "gateway_at now env \<Longrightarrow> (\<And>rs. P key (KeptRows rs)) \<Longrightarrow>
   adds_only now P (gt_cache g) (gt_cache (snd (gateway_rows env key rpc m g)))"
  unfolding gateway_rows_def by (rule adds_only_call)

lemma gateway_step_refl [intro, simp]: "gateway_step svc tells now g g"
proof -
  let ?env = "undefined\<lparr>ga_cache := undefined\<lparr>ce_del_ok := False\<rparr>\<rparr> :: gateway_env"
  have "drop_answer ?env [] g = g" by (simp add: drop_answer_def delete_from_cache_def)
  then show ?thesis using dropped [of svc tells now g ?env "[]"] by simp
qed

lemma client_call_cases:
  obtains (undelivered) err where "client_call env rpc m g = (Inl err, g)"
    | (executed) "snd (client_call env rpc m g) = g\<lparr>gt_service := snd (m (gt_service g))\<rparr>"
  by (cases "ga_fault env rpc"; cases "m (gt_service g)"; cases "fst (m (gt_service g))")
    (auto simp: client_call_def map_error_def with_fault_def zoom_def)

lemma client_call_step:
  "svc now (gt_service g) (snd (m (gt_service g))) \<Longrightarrow> gateway_step svc tells now g (snd (client_call env rpc m g))"
  by (cases rule: client_call_cases [of env rpc m g]) (auto intro: service_moves)

lemma gateway_command_snd:
  "snd (gateway_command env rpc m unkept g) = snd (client_call env rpc m g)"
  by (simp add: gateway_command_def try_or_def ret_def unkept_def split: prod.splits sum.splits)

lemma cached_call_step:
  assumes "svc now (gt_service g) (snd (m (gt_service g)))" "gateway_at now env"
    and "\<And>a r. fst (m (gt_service g)) = Inr a \<Longrightarrow> wrap a = KeptRow r \<Longrightarrow> tells now (gt_service g) r"
  shows "gateway_step svc tells now g (snd (cached_call env key sel wrap store rpc m g))"
proof (cases "Option.bind (get_from_cache (ga_cache env) key (gt_cache g)) sel")
  case None
  show ?thesis
  proof (cases "fst (client_call env rpc m g)")
    case (Inl err)
    then have "snd (cached_call env key sel wrap store rpc m g) = snd (client_call env rpc m g)"
      using None by (cases "client_call env rpc m g") (simp add: cached_call_def)
    then show ?thesis using assms(1) by (simp add: client_call_step)
  next
    case (Inr a)
    have ok: "fst (m (gt_service g)) = Inr a" using client_call_success [OF Inr] by simp
    have "snd (client_call env rpc m g) = g\<lparr>gt_service := snd (m (gt_service g))\<rparr>"
      by (cases rule: client_call_cases [of env rpc m g]) (use Inr in simp_all)
    then have eq: "snd (cached_call env key sel wrap store rpc m g)
        = keep_answer env (store a) (wrap a) (g\<lparr>gt_service := snd (m (gt_service g))\<rparr>)"
      using None Inr by (cases "client_call env rpc m g") (simp add: cached_call_def)
    show ?thesis
    proof (cases "wrap a")
      case (KeptRow r)
      then show ?thesis unfolding eq using assms ok by (auto simp: gateway_at_def intro: row_kept)
    qed (use assms in \<open>simp_all add: eq gateway_at_def other_kept\<close>)
  qed
qed (simp add: cached_call_def)

lemma gateway_row_step:
  "svc now (gt_service g) (snd (m (gt_service g))) \<Longrightarrow> gateway_at now env \<Longrightarrow>
   (\<And>r. fst (m (gt_service g)) = Inr r \<Longrightarrow> tells now (gt_service g) r) \<Longrightarrow>
   gateway_step svc tells now g (snd (gateway_row env key store rpc m g))"
  unfolding gateway_row_def by (rule cached_call_step) auto

lemma gateway_page_step:
  "(\<And>req page page_size. svc now (gt_service g) (snd (list req page page_size (gt_service g)))) \<Longrightarrow> gateway_at now env \<Longrightarrow>
   gateway_step svc tells now g (snd (gateway_page env kind rpc list p g))"
  unfolding gateway_page_def Let_def by (rule cached_call_step) auto

lemma gateway_rows_step:
  "svc now (gt_service g) (snd (m (gt_service g))) \<Longrightarrow> gateway_at now env \<Longrightarrow>
   gateway_step svc tells now g (snd (gateway_rows env key rpc m g))"
  unfolding gateway_rows_def by (rule cached_call_step) auto

text \<open>A request that is refused before the call changes nothing.\<close>

lemma refusing_snd:
  "P g \<Longrightarrow> (\<And>b. P (snd (k b g))) \<Longrightarrow> P (snd (with_body env unbound valid body k g))"
  "P g \<Longrightarrow> (\<And>i. P (snd (j i g))) \<Longrightarrow> P (snd (with_path_id message text j g))"
  "P g \<Longrightarrow> (\<And>i. P (snd (j i g))) \<Longrightarrow> P (snd (with_positive_id message text j g))"
  "P g \<Longrightarrow> P (snd (m g)) \<Longrightarrow> P (snd (with_text message text m g))"
  "P g \<Longrightarrow> P (snd (m g)) \<Longrightarrow> P (snd (with_idempotency_key key m g))"
  "P g \<Longrightarrow> (\<And>u. P (snd (l u g))) \<Longrightarrow> P (snd (with_user user l g))"
  by (simp_all add: with_body_def with_path_id_def with_positive_id_def with_text_def with_idempotency_key_def
      with_user_def ret_def split: option.splits)

section \<open>A gateway that answers\<close>

definition sample_gateway_env :: "int \<Rightarrow> gateway_env" where
  "sample_gateway_env now =
     \<lparr>ga_cache = \<lparr>ce_now = now, ce_rand = (\<lambda>_. 0), ce_get_ok = True, ce_set_ok = True, ce_del_ok = True\<rparr>,
      ga_fault = (\<lambda>_. Deliver), ga_bind_error = ErrorString ''EOF'', ga_failure = FieldFailures []\<rparr>"

lemma sample_gateway_at [simp]: "gateway_at now (sample_gateway_env now)" "ce_now (ga_cache (sample_gateway_env now)) = now"
  by (simp_all add: gateway_at_def sample_gateway_env_def rand_ok_def)

end
