(* ===== verification/GatewayAuth.thy ===== *)
theory GatewayAuth
  imports Gateway AuthSamples UserService
begin

text \<open>
  The authentication routes of the gateway (\<open>handler/auth/auth.go\<close>, \<open>redis/api/auth\<close>): login,
  registration, refresh and the profile, with the answers kept for five minutes. A login is
  kept under the address alone; the theorem says where a kept login comes from, and the
  last section what follows from the key.
\<close>

section \<open>Kept answers\<close>

datatype auth_answer = LoginAnswer string string | RefreshAnswer string string | MeAnswer auth_user

type_synonym auth_gateway = "(auth_world, auth_answer) gateway"

fun login_answer :: "auth_answer \<Rightarrow> (string \<times> string) option" where
  "login_answer (LoginAnswer access refresh) = Some (access, refresh)"
| "login_answer _ = None"

fun refresh_answer :: "auth_answer \<Rightarrow> (string \<times> string) option" where
  "refresh_answer (RefreshAnswer access refresh) = Some (access, refresh)"
| "refresh_answer _ = None"

fun me_answer :: "auth_answer \<Rightarrow> auth_user option" where
  "me_answer (MeAnswer u) = Some u"
| "me_answer _ = None"

definition gw_login_key :: "string \<Rightarrow> string" where
  "gw_login_key email = ''apigw:auth:login:'' @ email"

definition gw_refresh_key :: "string \<Rightarrow> string" where
  "gw_refresh_key token = ''apigw:auth:refresh_token:'' @ token"

definition gw_user_info_key :: "string \<Rightarrow> string" where
  "gw_user_info_key user = ''apigw:auth:user_info:'' @ user"

section \<open>Handlers\<close>

text \<open>\<open>email_ok\<close> is the address test of the validator.\<close>

definition auth_request_ok :: "(string \<Rightarrow> bool) \<Rightarrow> string \<times> string \<Rightarrow> bool" where
  "auth_request_ok email_ok b = (case b of (email, password) \<Rightarrow>
     email \<noteq> [] \<and> email_ok email \<and> 6 \<le> length password)"

definition gw_register ::
  "gateway_env \<Rightarrow> auth_env \<Rightarrow> user_env \<Rightarrow> create_user_request option \<Rightarrow> (go_error, auth_user, auth_gateway) op" where
  "gw_register env aenv uenv body =
     with_body env (invalid_request env ''Invalid request format'') (user_request_ok uenv) body
       (\<lambda>b. client_call env ''RegisterUser''
          (handle_register_user aenv \<lparr>rr_firstname = cu_firstname b, rr_lastname = cu_lastname b, rr_email = cu_email b,
             rr_password = cu_password b, rr_confirm = cu_confirm b\<rparr>))"

definition gw_login ::
  "gateway_env \<Rightarrow> auth_env \<Rightarrow> (string \<Rightarrow> bool) \<Rightarrow> (string \<times> string) option \<Rightarrow> (go_error, string \<times> string, auth_gateway) op" where
  "gw_login env aenv email_ok body =
     with_body env (invalid_request env ''Invalid request format'') (auth_request_ok email_ok) body
       (\<lambda>(email, password).
          cached_call env (gw_login_key email) login_answer (\<lambda>(a, r). LoginAnswer a r) (\<lambda>_. gw_login_key email)
            ''LoginUser'' (handle_login_user aenv email password))"

definition gw_refresh_token ::
  "gateway_env \<Rightarrow> auth_env \<Rightarrow> string option \<Rightarrow> (go_error, string \<times> string, auth_gateway) op" where
  "gw_refresh_token env aenv body =
     with_body env (invalid_request env ''Invalid request format'') (\<lambda>t. t \<noteq> []) body
       (\<lambda>t. cached_call env (gw_refresh_key t) refresh_answer (\<lambda>(a, r). RefreshAnswer a r) (\<lambda>_. gw_refresh_key t)
          ''RefreshToken'' (handle_refresh_token aenv t))"

definition gw_get_me ::
  "gateway_env \<Rightarrow> auth_env \<Rightarrow> string option \<Rightarrow> (go_error, auth_user, auth_gateway) op" where
  "gw_get_me env aenv user_id =
     (case user_id of
        None \<Rightarrow> ret (Inl (new_bad_request_error ''user not authenticated''))
      | Some text \<Rightarrow>
          (case atoi text of
             None \<Rightarrow> ret (Inl (new_bad_request_error ''invalid user ID format''))
           | Some uid \<Rightarrow>
               if \<not> fits_int32 uid then ret (Inl (new_bad_request_error ''invalid user ID format''))
               else cached_call env (gw_user_info_key text) me_answer MeAnswer (\<lambda>_. gw_user_info_key text)
                      ''GetMe'' (handle_get_me aenv (go_int32 uid))))"

section \<open>What the gateway keeps of the logins\<close>

lemma gw_keys_differ [simp]:
  "gw_refresh_key token \<noteq> gw_login_key email" "gw_user_info_key user \<noteq> gw_login_key email"
  "gw_login_key a = gw_login_key b \<longleftrightarrow> a = b"
  by (simp_all add: gw_login_key_def gw_refresh_key_def gw_user_info_key_def)

text \<open>The routes, at the clock of the gateway, which is that of the service.\<close>

definition auth_clocks :: "int \<Rightarrow> gateway_env \<Rightarrow> auth_env \<Rightarrow> bool" where
  "auth_clocks now env aenv \<longleftrightarrow> gateway_at now env \<and> au_now aenv = now"

inductive auth_gateway_step :: "(auth_env \<Rightarrow> bool) \<Rightarrow> int \<Rightarrow> auth_gateway \<Rightarrow> auth_gateway \<Rightarrow> bool" for deployed where
  auth_registers: "auth_clocks now env aenv \<Longrightarrow> deployed aenv \<Longrightarrow> auth_gateway_step deployed now g (snd (gw_register env aenv uenv reg g))"
| auth_logs_in: "auth_clocks now env aenv \<Longrightarrow> deployed aenv \<Longrightarrow> auth_gateway_step deployed now g (snd (gw_login env aenv email_ok login g))"
| auth_refreshes: "auth_clocks now env aenv \<Longrightarrow> deployed aenv \<Longrightarrow> auth_gateway_step deployed now g (snd (gw_refresh_token env aenv token g))"
| auth_tells: "auth_clocks now env aenv \<Longrightarrow> deployed aenv \<Longrightarrow> auth_gateway_step deployed now g (snd (gw_get_me env aenv user g))"
| auth_elsewhere: "auth_step (gt_service g) s \<Longrightarrow> auth_gateway_step deployed now g (g\<lparr>gt_service := s\<rparr>)"

text \<open>
  The service goes from the state \<open>w\<close> to \<open>w'\<close> by the login of a user who is found under the
  address: it is not locked, the password is that of the user, and the tokens are signed for
  the user.
\<close>

definition logs_in :: "auth_env \<Rightarrow> auth_world \<Rightarrow> string \<Rightarrow> string \<Rightarrow> auth_user \<Rightarrow> string \<times> string \<Rightarrow> auth_world \<Rightarrow> bool" where
  "logs_in aenv w email password u tokens w' \<longleftrightarrow>
     handle_login_user aenv email password w = (Inr tokens, w')
     \<and> \<not> is_account_locked aenv email w
     \<and> user_find_by_email_and_verify aenv email = Inr u \<and> ae_compare aenv (us_password u) password
     \<and> tokens = (generate_token (ae_jwt aenv) (au_now aenv) (us_id u) ''access'',
                 generate_token (ae_jwt aenv) (au_now aenv) (us_id u) ''refresh'')"

lemma login_issues:
  assumes "svc_login env email password w = (Inr (access, refresh), w')"
  shows "\<not> is_account_locked env email w
    \<and> (\<exists>u. user_find_by_email_and_verify env email = Inr u \<and> ae_compare env (us_password u) password
         \<and> access = generate_token (ae_jwt env) (au_now env) (us_id u) ''access''
         \<and> refresh = generate_token (ae_jwt env) (au_now env) (us_id u) ''refresh'')"
proof -
  obtain u w1 where "\<not> is_account_locked env email w" "user_find_by_email_and_verify env email = Inr u"
    "ae_compare env (us_password u) password" "access = generate_token (ae_jwt env) (au_now env) (us_id u) ''access''"
    "create_refresh_token env (us_id u) w = (Inr refresh, w1)"
    using assms
    by (auto simp: svc_login_def auth_fail_def ret_def create_access_token_def try_or_def
        split: if_splits sum.splits prod.splits)
  then show ?thesis using create_refresh_token_ok(1) by metis
qed

lemma handled_login:
  assumes "handle_login_user env email password w = (Inr tokens, w')"
  shows "\<exists>u. logs_in env w email password u tokens w'"
proof -
  obtain access refresh where t: "tokens = (access, refresh)" by (cases tokens)
  have "svc_login env email password w = (Inr tokens, w')"
    using assms by (cases "svc_login env email password w"; cases "fst (svc_login env email password w)")
      (auto simp: handle_login_user_def to_grpc_def on_error_def try_or_def ret_def)
  from login_issues [OF this [unfolded t]] show ?thesis using assms t by (auto simp: logs_in_def)
qed

text \<open>What an entry under the key of an address goes back to: a step that was a login.\<close>

definition login_known :: "(auth_env \<Rightarrow> bool) \<Rightarrow> int \<Rightarrow> auth_gateway \<Rightarrow> auth_gateway \<Rightarrow> string \<Rightarrow> auth_answer \<Rightarrow> bool" where
  "login_known deployed now g g' key v \<longleftrightarrow> (\<forall>email. key = gw_login_key email \<longrightarrow>
     (\<exists>aenv password u tokens. deployed aenv \<and> au_now aenv = now \<and> v = LoginAnswer (fst tokens) (snd tokens)
        \<and> logs_in aenv (gt_service g) email password u tokens (gt_service g')))"

lemma login_knownI:
  "(\<And>email. key = gw_login_key email \<Longrightarrow>
     \<exists>aenv password tokens. deployed aenv \<and> au_now aenv = now \<and> v = LoginAnswer (fst tokens) (snd tokens)
       \<and> handle_login_user aenv email password (gt_service g) = (Inr tokens, gt_service g')) \<Longrightarrow>
   login_known deployed now g g' key v"
  unfolding login_known_def using handled_login by blast

lemmas refusing = refusing_snd [where P = "\<lambda>g'. adds_only now (login_known deployed now g g') (gt_cache g) (gt_cache g')"
    for deployed now g]

lemma auth_step_adds:
  "auth_gateway_step deployed now g g' \<Longrightarrow> adds_only now (login_known deployed now g g') (gt_cache g) (gt_cache g')"
proof (induction rule: auth_gateway_step.induct)
  case (auth_registers now env aenv g uenv reg)
  show ?case unfolding gw_register_def
    by (intro refusing) (simp_all add: client_call_service)
next
  case (auth_logs_in now env aenv g email_ok login)
  have "adds_only now (login_known deployed now g (snd (cached_call env (gw_login_key email) login_answer (\<lambda>(a, r). LoginAnswer a r)
          (\<lambda>_. gw_login_key email) ''LoginUser'' (handle_login_user aenv email password) g)))
      (gt_cache g) (gt_cache (snd (cached_call env (gw_login_key email) login_answer (\<lambda>(a, r). LoginAnswer a r)
          (\<lambda>_. gw_login_key email) ''LoginUser'' (handle_login_user aenv email password) g)))" for email password
  proof (rule adds_only_asked)
    show "gateway_at now env" using auth_logs_in by (simp add: auth_clocks_def)
  qed (use auth_logs_in in \<open>fastforce intro: login_knownI simp: auth_clocks_def split: prod.splits\<close>)
  then show ?case unfolding gw_login_def by (intro refusing) auto
next
  case (auth_refreshes now env aenv g token)
  then show ?case unfolding gw_refresh_token_def
    by (intro refusing) (auto intro!: adds_only_call login_knownI simp: auth_clocks_def)
next
  case (auth_tells now env aenv g user)
  then show ?case
    by (auto simp: gw_get_me_def ret_def auth_clocks_def intro!: adds_only_call login_knownI split: option.splits)
qed simp

interpretation login_origin: traced_cache "auth_gateway_step deployed" gt_cache "login_known deployed"
  for deployed :: "auth_env \<Rightarrow> bool"
  by (rule adds_only_traced) (rule auth_step_adds)

text \<open>
  C37: tokens the gateway answers to a login for an address are those of a login for this
  address that the service has executed in this very history at most five and a half
  minutes before: it was not locked, the password matched that of the user found under the
  address, and the tokens are signed for this user
\<close>

theorem gateway_login_genuine:
  assumes run: "history (auth_gateway_step deployed) t0 g0 ((now, g) # past)" "gt_cache g0 = Map.empty"
    and clocks: "auth_clocks now env aenv"  "deployed aenv"
    and answer: "gw_login env aenv email_ok (Some (email, password)) g = (Inr tokens, g')"
  shows "\<exists>t g1 g2 aenv1 password1 u. passes ((now, g') # (now, g) # past) t g1 g2 \<and> t \<le> now \<and> now < t + stale_bound
    \<and> deployed aenv1 \<and> au_now aenv1 = t \<and> logs_in aenv1 (gt_service g1) email password1 u tokens (gt_service g2)"
proof -
  have at: "ce_now (ga_cache env) = now" "au_now aenv = now" using clocks by (simp_all add: auth_clocks_def gateway_at_def)
  let ?call = "cached_call env (gw_login_key email) login_answer (\<lambda>(a, r). LoginAnswer a r)
      (\<lambda>_. gw_login_key email) ''LoginUser'' (handle_login_user aenv email password) g"
  from answer have call: "?call = (Inr tokens, g')"
    by (cases "auth_request_ok email_ok (email, password)") (simp_all add: gw_login_def with_body_def ret_def)
  show ?thesis
  proof (cases "Option.bind (get_from_cache (ga_cache env) (gw_login_key email) (gt_cache g)) login_answer")
    case (Some kept)
    then obtain v where v: "get_from_cache (ga_cache env) (gw_login_key email) (gt_cache g) = Some v"
      "login_answer v = Some tokens"
      using call by (auto simp: cached_call_def Option.bind_eq_Some_conv)
    obtain t g1 g2 where o: "passes ((now, g) # past) t g1 g2" "t \<le> now" "now < t + stale_bound"
      "login_known deployed t g1 g2 (gw_login_key email) v"
      using login_origin.answer_origin [OF run(1) [folded at(1)] run(2) v(1)] at(1) by metis
    then obtain aenv1 password1 u tokens1 where "deployed aenv1" "au_now aenv1 = t" "v = LoginAnswer (fst tokens1) (snd tokens1)"
      "logs_in aenv1 (gt_service g1) email password1 u tokens1 (gt_service g2)"
      unfolding login_known_def by blast
    with v(2) o(1-3) show ?thesis by (fastforce intro: passes_later)
  next
    case None
    then have "fst (client_call env ''LoginUser'' (handle_login_user aenv email password) g) = Inr tokens"
      "gt_service g' = gt_service (snd (client_call env ''LoginUser'' (handle_login_user aenv email password) g))"
      using call by (auto simp: cached_call_def split: prod.splits sum.splits)
    then have "handle_login_user aenv email password (gt_service g) = (Inr tokens, gt_service g')"
      using client_call_success by metis
    from handled_login [OF this] obtain u where "logs_in aenv (gt_service g) email password u tokens (gt_service g')" by blast
    moreover have "now < now + stale_bound" by (simp add: stale_bound_def time_defs)
    ultimately show ?thesis using clocks(2) at(2) passes_now by blast
  qed
qed

section \<open>Samples\<close>

definition login_at :: "int \<Rightarrow> string \<Rightarrow> auth_gateway \<Rightarrow> (go_error + string \<times> string) \<times> auth_gateway" where
  "login_at now password =
     gw_login (sample_gateway_env now) (sample_auth_env now) (\<lambda>e. CHR ''@'' \<in> set e) (Some (''a@b'', password))"

definition before_login :: auth_gateway where
  "before_login = \<lparr>gt_service = empty_auth_world, gt_cache = Map.empty\<rparr>"

definition after_login :: auth_gateway where
  "after_login = snd (login_at 0 ''secret'' before_login)"

text \<open>
  The answer is kept under the address alone: after a login, any password is answered the
  tokens of that login.
\<close>

lemma cached_login_ignores_password: "fst (login_at (4 * minute) ''no idea'' after_login) = Inr first_tokens"
  by code_simp

lemma cached_login_changes_nothing: "snd (login_at (4 * minute) ''no idea'' after_login) = after_login"
proof -
  have "get_from_cache (ga_cache (sample_gateway_env (4 * minute))) (gw_login_key ''a@b'') (gt_cache after_login)
      = Some (LoginAnswer (fst first_tokens) (snd first_tokens))"
    by code_simp
  from cached_call_hit [where sel = login_answer and a = first_tokens, OF this] show ?thesis
    by (simp add: login_at_def gw_login_def with_body_def ret_def)
qed

lemma sample_clocks: "auth_clocks now (sample_gateway_env now) (sample_auth_env now)"
  by (simp add: auth_clocks_def)

theorem gateway_login_genuine_witness:
  "\<exists>t g1 g2 aenv password u. passes [(4 * minute, after_login), (4 * minute, after_login), (0, after_login), (0, before_login)] t g1 g2
    \<and> t \<le> 4 * minute \<and> 4 * minute < t + stale_bound \<and> (\<exists>now. aenv = sample_auth_env now) \<and> au_now aenv = t
    \<and> logs_in aenv (gt_service g1) ''a@b'' password u first_tokens (gt_service g2)"
proof -
  let ?deployed = "\<lambda>aenv. \<exists>now. aenv = sample_auth_env now"
  have "auth_gateway_step ?deployed 0 before_login after_login"
    unfolding after_login_def login_at_def by (rule auth_logs_in [OF sample_clocks]) blast
  then have "history (auth_gateway_step ?deployed) 0 before_login ((4 * minute, after_login) # [(0, after_login), (0, before_login)])"
    by (intro history.intros) (simp_all add: time_defs)
  moreover have "gt_cache before_login = Map.empty" by (simp add: before_login_def)
  moreover have "gw_login (sample_gateway_env (4 * minute)) (sample_auth_env (4 * minute)) (\<lambda>e. CHR ''@'' \<in> set e)
      (Some (''a@b'', ''no idea'')) after_login = (Inr first_tokens, after_login)"
    using cached_login_ignores_password cached_login_changes_nothing by (simp add: login_at_def prod_eq_iff)
  ultimately show ?thesis by - (rule gateway_login_genuine [OF _ _ sample_clocks, where deployed = ?deployed], assumption, assumption, blast, assumption)
qed

end
