(* ===== verification/GatewayMoney.thy ===== *)
theory GatewayMoney
  imports Gateway TopupQueries WithdrawQueries TransferQueries TransactionQueries
begin

text \<open>
  The routes of the gateway to the four money services (\<open>handler/{topup,withdraw,transfer,
  transaction}\<close>, \<open>redis/api\<close> of the same names): what a request must hold, the call it
  becomes and the answers kept. Text parameters are what the path and the query hold.
\<close>

section \<open>What a command does to the answers kept\<close>

definition row_kept ::
  "gateway_env \<Rightarrow> (int \<Rightarrow> string) \<Rightarrow> ('r \<Rightarrow> int) \<Rightarrow> 'r \<Rightarrow> ('s, 'r kept) gateway \<Rightarrow> ('s, 'r kept) gateway" where
  "row_kept env key ident r = keep_answer env (key (ident r)) (KeptRow r)"

definition row_replaced ::
  "gateway_env \<Rightarrow> (int \<Rightarrow> string) \<Rightarrow> ('r \<Rightarrow> int) \<Rightarrow> int \<Rightarrow> 'r \<Rightarrow> ('s, 'r kept) gateway \<Rightarrow> ('s, 'r kept) gateway" where
  "row_replaced env key ident i r g = keep_answer env (key (ident r)) (KeptRow r) (drop_answer env (key i) g)"

definition row_dropped ::
  "gateway_env \<Rightarrow> (int \<Rightarrow> string) \<Rightarrow> int \<Rightarrow> 'a \<Rightarrow> ('s, 'v) gateway \<Rightarrow> ('s, 'v) gateway" where
  "row_dropped env key i a = drop_answer env (key i)"

section \<open>Top-ups\<close>

text \<open>
  The user the token names goes to the service as the metadata \<open>x-user-id\<close>. No command
  touches the answers kept.
\<close>

type_synonym topup_gateway = "(topup_row served, topup_row kept) gateway"

definition gw_topup_key :: "int \<Rightarrow> string" where
  "gw_topup_key i =
     ''apigw:topup:id:'' @ itoa i"

definition gw_create_topup :: "gateway_env \<Rightarrow> create_topup_request svc_env \<Rightarrow> string option \<Rightarrow> string \<Rightarrow> create_topup_request option \<Rightarrow>
   (go_error, topup_row, topup_gateway) op" where
  "gw_create_topup env senv user_id key body =
     with_body env (new_bad_request_error ''Invalid request'') create_topup_ok body (\<lambda>b.
       with_idempotency_key key (with_user user_id (\<lambda>u.
         gateway_command env ''CreateTopup'' (handle_create_topup senv [u] (b\<lparr>cu_key := key\<rparr>)) unkept)))"

definition gw_update_topup :: "gateway_env \<Rightarrow> create_topup_request svc_env \<Rightarrow> string \<Rightarrow> update_topup_request option \<Rightarrow> (go_error, topup_row, topup_gateway) op" where
  "gw_update_topup env senv text body =
     with_path_id ''id is required'' text (\<lambda>i.
       with_body env (new_bad_request_error ''Invalid request'') (\<lambda>b. update_topup_ok (b\<lparr>uu_id := i\<rparr>)) body (\<lambda>b.
         gateway_command env ''UpdateTopup'' (handle_update_topup senv (b\<lparr>uu_id := go_int32 i\<rparr>)) unkept))"

definition gw_trash_topup :: "gateway_env \<Rightarrow> create_topup_request svc_env \<Rightarrow> string \<Rightarrow> (go_error, topup_row, topup_gateway) op" where
  "gw_trash_topup env senv text =
     with_path_id ''id is required'' text (\<lambda>i.
       gateway_command env ''TrashedTopup'' (handle_trashed_topup senv (go_int32 i)) unkept)"

definition gw_restore_topup :: "gateway_env \<Rightarrow> create_topup_request svc_env \<Rightarrow> string \<Rightarrow> (go_error, topup_row, topup_gateway) op" where
  "gw_restore_topup env senv text =
     with_path_id ''id is required'' text (\<lambda>i.
       gateway_command env ''RestoreTopup'' (handle_restore_topup senv (go_int32 i)) unkept)"

definition gw_delete_topup_permanent :: "gateway_env \<Rightarrow> create_topup_request svc_env \<Rightarrow> string \<Rightarrow> (go_error, unit, topup_gateway) op" where
  "gw_delete_topup_permanent env senv text =
     with_path_id ''id is required'' text (\<lambda>i.
       gateway_command env ''DeleteTopupPermanent'' (handle_delete_topup_permanent senv (go_int32 i)) unkept)"

definition gw_restore_all_topup :: "gateway_env \<Rightarrow> create_topup_request svc_env \<Rightarrow> (go_error, unit, topup_gateway) op" where
  "gw_restore_all_topup env senv =
     gateway_command env ''RestoreAllTopup'' (handle_restore_all_topup senv) unkept"

definition gw_delete_all_topup_permanent :: "gateway_env \<Rightarrow> create_topup_request svc_env \<Rightarrow> (go_error, unit, topup_gateway) op" where
  "gw_delete_all_topup_permanent env senv =
     gateway_command env ''DeleteAllTopupPermanent'' (handle_delete_all_topup_permanent senv) unkept"

definition gw_find_all_topup :: "gateway_env \<Rightarrow> topup_row query_env \<Rightarrow> string \<times> string \<times> string \<Rightarrow>
   (go_error, topup_row list \<times> page_meta, topup_gateway) op" where
  "gw_find_all_topup env qenv =
     gateway_page env ''apigw:topup:all'' ''FindAllTopup'' (handle_find_all_topup qenv)"

definition gw_find_all_topup_by_card_number :: "gateway_env \<Rightarrow> topup_row query_env \<Rightarrow> string \<Rightarrow> string \<times> string \<times> string \<Rightarrow>
   (go_error, topup_row list \<times> page_meta, topup_gateway) op" where
  "gw_find_all_topup_by_card_number env qenv cnum p =
     with_text ''card_number is required'' cnum
       (gateway_page env (''apigw:topup:card_number:'' @ cnum) ''FindAllTopupByCardNumber''
          (handle_find_all_topup_by_card_number qenv cnum) p)"

definition gw_find_by_id_topup :: "gateway_env \<Rightarrow> topup_row query_env \<Rightarrow> string \<Rightarrow> (go_error, topup_row, topup_gateway) op" where
  "gw_find_by_id_topup env qenv text =
     with_path_id ''invalid id parameter'' text (\<lambda>i.
       gateway_row env (gw_topup_key i) (gw_topup_key \<circ> row_id) ''FindByIdTopup'' (handle_find_by_id_topup qenv (go_int32 i)))"

definition gw_find_active_topup :: "gateway_env \<Rightarrow> topup_row query_env \<Rightarrow> string \<times> string \<times> string \<Rightarrow>
   (go_error, topup_row list \<times> page_meta, topup_gateway) op" where
  "gw_find_active_topup env qenv =
     gateway_page env ''apigw:topup:active'' ''FindByActive'' (handle_find_active_topup qenv)"

definition gw_find_trashed_topup :: "gateway_env \<Rightarrow> topup_row query_env \<Rightarrow> string \<times> string \<times> string \<Rightarrow>
   (go_error, topup_row list \<times> page_meta, topup_gateway) op" where
  "gw_find_trashed_topup env qenv =
     gateway_page env ''apigw:topup:trashed'' ''FindByTrashed'' (handle_find_trashed_topup qenv)"

section \<open>Withdrawals\<close>

text \<open>
  As for a top-up, but a success keeps the row it answers. The handler of a listing by card
  without pages has no route.
\<close>

type_synonym withdraw_gateway = "(withdraw_row served, withdraw_row kept) gateway"

definition gw_withdraw_key :: "int \<Rightarrow> string" where
  "gw_withdraw_key i =
     ''apigw:withdraws:id:'' @ itoa i"

definition gw_create_withdraw :: "gateway_env \<Rightarrow> create_withdraw_request svc_env \<Rightarrow> int \<Rightarrow> string option \<Rightarrow> string \<Rightarrow> create_withdraw_request option \<Rightarrow>
   (go_error, withdraw_row, withdraw_gateway) op" where
  "gw_create_withdraw env senv limit user_id key body =
     with_body env (new_bad_request_error ''Invalid request'') (create_withdraw_ok (ce_now (ga_cache env))) body (\<lambda>b.
       with_idempotency_key key (with_user user_id (\<lambda>u.
         gateway_command env ''CreateWithdraw'' (handle_create_withdraw senv limit [u] (Some (cw_time b)) (b\<lparr>cw_key := key\<rparr>))
           (row_kept env gw_withdraw_key row_id))))"

definition gw_update_withdraw :: "gateway_env \<Rightarrow> create_withdraw_request svc_env \<Rightarrow> int \<Rightarrow> string \<Rightarrow> update_withdraw_request option \<Rightarrow> (go_error, withdraw_row, withdraw_gateway) op" where
  "gw_update_withdraw env senv limit text body =
     with_path_id ''id is required'' text (\<lambda>i.
       with_body env (new_bad_request_error ''Invalid request'') (update_withdraw_ok (ce_now (ga_cache env))) body (\<lambda>b.
         gateway_command env ''UpdateWithdraw''
           (handle_update_withdraw senv limit (Some (uw_time b)) (b\<lparr>uw_id := go_int32 i\<rparr>))
           (row_replaced env gw_withdraw_key row_id i)))"

definition gw_trash_withdraw :: "gateway_env \<Rightarrow> create_withdraw_request svc_env \<Rightarrow> string \<Rightarrow> (go_error, withdraw_row, withdraw_gateway) op" where
  "gw_trash_withdraw env senv text =
     with_path_id ''id is required'' text (\<lambda>i.
       gateway_command env ''TrashedWithdraw'' (handle_trashed_withdraw senv (go_int32 i)) (row_dropped env gw_withdraw_key i))"

definition gw_restore_withdraw :: "gateway_env \<Rightarrow> create_withdraw_request svc_env \<Rightarrow> string \<Rightarrow> (go_error, withdraw_row, withdraw_gateway) op" where
  "gw_restore_withdraw env senv text =
     with_path_id ''id is required'' text (\<lambda>i.
       gateway_command env ''RestoreWithdraw'' (handle_restore_withdraw senv (go_int32 i)) (row_dropped env gw_withdraw_key i))"

definition gw_delete_withdraw_permanent :: "gateway_env \<Rightarrow> create_withdraw_request svc_env \<Rightarrow> string \<Rightarrow> (go_error, unit, withdraw_gateway) op" where
  "gw_delete_withdraw_permanent env senv text =
     with_path_id ''id is required'' text (\<lambda>i.
       gateway_command env ''DeleteWithdrawPermanent'' (handle_delete_withdraw_permanent senv (go_int32 i)) (row_dropped env gw_withdraw_key i))"

definition gw_restore_all_withdraw :: "gateway_env \<Rightarrow> create_withdraw_request svc_env \<Rightarrow> (go_error, unit, withdraw_gateway) op" where
  "gw_restore_all_withdraw env senv =
     gateway_command env ''RestoreAllWithdraw'' (handle_restore_all_withdraw senv) unkept"

definition gw_delete_all_withdraw_permanent :: "gateway_env \<Rightarrow> create_withdraw_request svc_env \<Rightarrow> (go_error, unit, withdraw_gateway) op" where
  "gw_delete_all_withdraw_permanent env senv =
     gateway_command env ''DeleteAllWithdrawPermanent'' (handle_delete_all_withdraw_permanent senv) unkept"

definition gw_find_all_withdraw :: "gateway_env \<Rightarrow> withdraw_row query_env \<Rightarrow> string \<times> string \<times> string \<Rightarrow>
   (go_error, withdraw_row list \<times> page_meta, withdraw_gateway) op" where
  "gw_find_all_withdraw env qenv =
     gateway_page env ''apigw:withdraws:all'' ''FindAllWithdraw'' (handle_find_all_withdraw qenv)"

definition gw_find_all_withdraw_by_card_number :: "gateway_env \<Rightarrow> withdraw_row query_env \<Rightarrow> string \<Rightarrow> string \<times> string \<times> string \<Rightarrow>
   (go_error, withdraw_row list \<times> page_meta, withdraw_gateway) op" where
  "gw_find_all_withdraw_by_card_number env qenv cnum p =
     with_text ''card_number is required'' cnum
       (gateway_page env (''apigw:withdraws:card_number:'' @ cnum) ''FindAllWithdrawByCardNumber''
          (handle_find_all_withdraw_by_card_number qenv cnum) p)"

definition gw_find_by_id_withdraw :: "gateway_env \<Rightarrow> withdraw_row query_env \<Rightarrow> string \<Rightarrow> (go_error, withdraw_row, withdraw_gateway) op" where
  "gw_find_by_id_withdraw env qenv text =
     with_path_id ''id is required'' text (\<lambda>i.
       gateway_row env (gw_withdraw_key i) (gw_withdraw_key \<circ> row_id) ''FindByIdWithdraw'' (handle_find_by_id_withdraw qenv (go_int32 i)))"

definition gw_find_active_withdraw :: "gateway_env \<Rightarrow> withdraw_row query_env \<Rightarrow> string \<times> string \<times> string \<Rightarrow>
   (go_error, withdraw_row list \<times> page_meta, withdraw_gateway) op" where
  "gw_find_active_withdraw env qenv =
     gateway_page env ''apigw:withdraws:active'' ''FindByActive'' (handle_find_active_withdraw qenv)"

definition gw_find_trashed_withdraw :: "gateway_env \<Rightarrow> withdraw_row query_env \<Rightarrow> string \<times> string \<times> string \<Rightarrow>
   (go_error, withdraw_row list \<times> page_meta, withdraw_gateway) op" where
  "gw_find_trashed_withdraw env qenv =
     gateway_page env ''apigw:withdraws:trashed'' ''FindByTrashed'' (handle_find_trashed_withdraw qenv)"

section \<open>Transfers\<close>

text \<open>
  No user goes to the service: the sender's card is that of the body.
\<close>

type_synonym transfer_gateway = "(transfer_row served, transfer_row kept) gateway"

definition gw_transfer_key :: "int \<Rightarrow> string" where
  "gw_transfer_key i =
     ''apigw:transfer:id:'' @ itoa i"

definition gw_create_transfer :: "gateway_env \<Rightarrow> create_transfer_request svc_env \<Rightarrow> string \<Rightarrow> create_transfer_request option \<Rightarrow>
   (go_error, transfer_row, transfer_gateway) op" where
  "gw_create_transfer env senv key body =
     with_body env (invalid_request env ''Invalid request format'') create_transfer_ok body (\<lambda>b.
       with_idempotency_key key
         (gateway_command env ''CreateTransfer'' (handle_create_transfer senv (b\<lparr>cr_key := key\<rparr>))
           (row_kept env gw_transfer_key row_id)))"

definition gw_update_transfer :: "gateway_env \<Rightarrow> create_transfer_request svc_env \<Rightarrow> string \<Rightarrow> update_transfer_request option \<Rightarrow> (go_error, transfer_row, transfer_gateway) op" where
  "gw_update_transfer env senv text body =
     with_path_id ''id is required'' text (\<lambda>i.
       with_body env (invalid_request env ''Invalid request format'') (\<lambda>b. update_transfer_ok (b\<lparr>up_id := i\<rparr>)) body (\<lambda>b.
         gateway_command env ''UpdateTransfer'' (handle_update_transfer senv (b\<lparr>up_id := go_int32 i\<rparr>))
           (row_replaced env gw_transfer_key row_id i)))"

definition gw_trash_transfer :: "gateway_env \<Rightarrow> create_transfer_request svc_env \<Rightarrow> string \<Rightarrow> (go_error, transfer_row, transfer_gateway) op" where
  "gw_trash_transfer env senv text =
     with_path_id ''id is required'' text (\<lambda>i.
       gateway_command env ''TrashedTransfer'' (handle_trashed_transfer senv (go_int32 i)) (row_dropped env gw_transfer_key i))"

definition gw_restore_transfer :: "gateway_env \<Rightarrow> create_transfer_request svc_env \<Rightarrow> string \<Rightarrow> (go_error, transfer_row, transfer_gateway) op" where
  "gw_restore_transfer env senv text =
     with_path_id ''id is required'' text (\<lambda>i.
       gateway_command env ''RestoreTransfer'' (handle_restore_transfer senv (go_int32 i)) (row_dropped env gw_transfer_key i))"

definition gw_delete_transfer_permanent :: "gateway_env \<Rightarrow> create_transfer_request svc_env \<Rightarrow> string \<Rightarrow> (go_error, unit, transfer_gateway) op" where
  "gw_delete_transfer_permanent env senv text =
     with_path_id ''id is required'' text (\<lambda>i.
       gateway_command env ''DeleteTransferPermanent'' (handle_delete_transfer_permanent senv (go_int32 i)) (row_dropped env gw_transfer_key i))"

definition gw_restore_all_transfer :: "gateway_env \<Rightarrow> create_transfer_request svc_env \<Rightarrow> (go_error, unit, transfer_gateway) op" where
  "gw_restore_all_transfer env senv =
     gateway_command env ''RestoreAllTransfer'' (handle_restore_all_transfer senv) unkept"

definition gw_delete_all_transfer_permanent :: "gateway_env \<Rightarrow> create_transfer_request svc_env \<Rightarrow> (go_error, unit, transfer_gateway) op" where
  "gw_delete_all_transfer_permanent env senv =
     gateway_command env ''DeleteAllTransferPermanent'' (handle_delete_all_transfer_permanent senv) unkept"

definition gw_find_all_transfer :: "gateway_env \<Rightarrow> transfer_row query_env \<Rightarrow> string \<times> string \<times> string \<Rightarrow>
   (go_error, transfer_row list \<times> page_meta, transfer_gateway) op" where
  "gw_find_all_transfer env qenv =
     gateway_page env ''apigw:transfer:all'' ''FindAllTransfer'' (handle_find_all_transfer qenv)"

definition gw_find_by_id_transfer :: "gateway_env \<Rightarrow> transfer_row query_env \<Rightarrow> string \<Rightarrow> (go_error, transfer_row, transfer_gateway) op" where
  "gw_find_by_id_transfer env qenv text =
     with_path_id ''invalid id parameter'' text (\<lambda>i.
       gateway_row env (gw_transfer_key i) (gw_transfer_key \<circ> row_id) ''FindByIdTransfer'' (handle_find_by_id_transfer qenv (go_int32 i)))"

definition gw_find_active_transfer :: "gateway_env \<Rightarrow> transfer_row query_env \<Rightarrow> string \<times> string \<times> string \<Rightarrow>
   (go_error, transfer_row list \<times> page_meta, transfer_gateway) op" where
  "gw_find_active_transfer env qenv =
     gateway_page env ''apigw:transfer:active'' ''FindByActiveTransfer'' (handle_find_active_transfer qenv)"

definition gw_find_trashed_transfer :: "gateway_env \<Rightarrow> transfer_row query_env \<Rightarrow> string \<times> string \<times> string \<Rightarrow>
   (go_error, transfer_row list \<times> page_meta, transfer_gateway) op" where
  "gw_find_trashed_transfer env qenv =
     gateway_page env ''apigw:transfer:trashed'' ''FindByTrashedTransfer'' (handle_find_trashed_transfer qenv)"

definition gw_find_transfer_by_transfer_from :: "gateway_env \<Rightarrow> transfer_row query_env \<Rightarrow> string \<Rightarrow> (go_error, transfer_row list, transfer_gateway) op" where
  "gw_find_transfer_by_transfer_from env qenv cnum =
     with_text ''invalid card_number parameter'' cnum
       (gateway_rows env (''apigw:transfer:from_card_number:'' @ cnum @ '':'') ''FindTransferByTransferFrom''
          (handle_find_transfer_by_transfer_from qenv cnum))"

definition gw_find_transfer_by_transfer_to :: "gateway_env \<Rightarrow> transfer_row query_env \<Rightarrow> string \<Rightarrow> (go_error, transfer_row list, transfer_gateway) op" where
  "gw_find_transfer_by_transfer_to env qenv cnum =
     with_text ''invalid card_number parameter'' cnum
       (gateway_rows env (''apigw:transfer:to_card_number:'' @ cnum) ''FindTransferByTransferTo''
          (handle_find_transfer_by_transfer_to qenv cnum))"

section \<open>Transactions\<close>

text \<open>
  \<open>detect_fraud\<close> is the answer of the AI service, for the request and the merchant: whether it
  is fraudulent, and the reason; an error lets the payment pass. The merchant is a pointer,
  which the validator requires.
\<close>

type_synonym transaction_gateway = "(txn_row served, txn_row kept) gateway"

definition gw_transaction_key :: "int \<Rightarrow> string" where
  "gw_transaction_key i =
     ''apigw:transaction:id:'' @ itoa i"

record update_txn_body =
  bt_card :: string
  bt_amount :: int
  bt_method :: string
  bt_merchant :: "int option"
  bt_time :: int

definition create_transaction_ok :: "create_txn_request \<times> int option \<Rightarrow> bool" where
  "create_transaction_ok b =
     (case b of (r, m) \<Rightarrow>
        (case m of None \<Rightarrow> False
         | Some n \<Rightarrow> transaction_fields_ok (ct_card r) (ct_amount r) (ct_method r) n (ct_time r)))"

definition update_transaction_ok :: "update_txn_body \<Rightarrow> bool" where
  "update_transaction_ok b =
     (case bt_merchant b of None \<Rightarrow> False
      | Some n \<Rightarrow> transaction_fields_ok (bt_card b) (bt_amount b) (bt_method b) n (bt_time b))"

definition gw_create_transaction :: "gateway_env \<Rightarrow> create_txn_request svc_env \<Rightarrow> (create_txn_request \<Rightarrow> int \<Rightarrow> go_error + bool \<times> string) \<Rightarrow> string \<Rightarrow> string \<Rightarrow> (create_txn_request \<times> int option) option \<Rightarrow>
   (go_error, txn_row, transaction_gateway) op" where
  "gw_create_transaction env senv detect_fraud api_key key body =
     (if api_key = [] then ret (Inl (new_bad_request_error ''apiKey is required''))
      else with_body env (invalid_request env ''Invalid request format'') create_transaction_ok body (\<lambda>(b, m).
        with_idempotency_key key
          (case detect_fraud b (go_int32 (the m)) of
             Inr (True, reason) \<Rightarrow>
               ret (Inl (new_forbidden_error (''Transaction rejected for security reasons: '' @ reason)))
           | _ \<Rightarrow>
               gateway_command env ''CreateTransaction''
                 (handle_create_transaction senv api_key (go_int32 (the m)) (Some (ct_time b)) (b\<lparr>ct_key := key\<rparr>))
                 (row_kept env gw_transaction_key row_id))))"

definition gw_update_transaction :: "gateway_env \<Rightarrow> create_txn_request svc_env \<Rightarrow> string option \<Rightarrow> string \<Rightarrow> update_txn_body option \<Rightarrow> (go_error, txn_row, transaction_gateway) op" where
  "gw_update_transaction env senv api_key text body =
     with_path_id ''id is required'' text (\<lambda>i.
       case api_key of
         None \<Rightarrow> ret (Inl (new_bad_request_error ''api-key is required''))
       | Some k \<Rightarrow>
           with_body env (invalid_request env ''Invalid request format'') update_transaction_ok body (\<lambda>b.
             gateway_command env ''UpdateTransaction''
               (handle_update_transaction senv k (bt_card b) (go_int32 (the (bt_merchant b))) (Some (bt_time b))
                  \<lparr>ut_id = go_int32 i, ut_amount = bt_amount b, ut_method = bt_method b\<rparr>)
               (row_replaced env gw_transaction_key row_id i)))"

definition gw_trash_transaction :: "gateway_env \<Rightarrow> create_txn_request svc_env \<Rightarrow> string \<Rightarrow> (go_error, txn_row, transaction_gateway) op" where
  "gw_trash_transaction env senv text =
     with_path_id ''id is required'' text (\<lambda>i.
       gateway_command env ''TrashedTransaction'' (handle_trashed_transaction senv (go_int32 i)) (row_dropped env gw_transaction_key i))"

definition gw_restore_transaction :: "gateway_env \<Rightarrow> create_txn_request svc_env \<Rightarrow> string \<Rightarrow> (go_error, txn_row, transaction_gateway) op" where
  "gw_restore_transaction env senv text =
     with_path_id ''id is required'' text (\<lambda>i.
       gateway_command env ''RestoreTransaction'' (handle_restore_transaction senv (go_int32 i)) (row_dropped env gw_transaction_key i))"

definition gw_delete_transaction_permanent :: "gateway_env \<Rightarrow> create_txn_request svc_env \<Rightarrow> string \<Rightarrow> (go_error, unit, transaction_gateway) op" where
  "gw_delete_transaction_permanent env senv text =
     with_path_id ''id is required'' text (\<lambda>i.
       gateway_command env ''DeleteTransactionPermanent'' (handle_delete_transaction_permanent senv (go_int32 i)) (row_dropped env gw_transaction_key i))"

definition gw_restore_all_transaction :: "gateway_env \<Rightarrow> create_txn_request svc_env \<Rightarrow> (go_error, unit, transaction_gateway) op" where
  "gw_restore_all_transaction env senv =
     gateway_command env ''RestoreAllTransaction'' (handle_restore_all_transaction senv) unkept"

definition gw_delete_all_transaction_permanent :: "gateway_env \<Rightarrow> create_txn_request svc_env \<Rightarrow> (go_error, unit, transaction_gateway) op" where
  "gw_delete_all_transaction_permanent env senv =
     gateway_command env ''DeleteAllTransactionPermanent'' (handle_delete_all_transaction_permanent senv) unkept"

definition gw_find_all_transaction :: "gateway_env \<Rightarrow> txn_row query_env \<Rightarrow> string \<times> string \<times> string \<Rightarrow>
   (go_error, txn_row list \<times> page_meta, transaction_gateway) op" where
  "gw_find_all_transaction env qenv =
     gateway_page env ''apigw:transaction:all'' ''FindAllTransaction'' (handle_find_all_transaction qenv)"

definition gw_find_all_transaction_by_card_number :: "gateway_env \<Rightarrow> txn_row query_env \<Rightarrow> string \<Rightarrow> string \<times> string \<times> string \<Rightarrow>
   (go_error, txn_row list \<times> page_meta, transaction_gateway) op" where
  "gw_find_all_transaction_by_card_number env qenv cnum p =
     with_text ''card_number is required'' cnum
       (gateway_page env (''apigw:transaction:card_number:'' @ cnum) ''FindAllTransactionByCardNumber''
          (handle_find_all_transaction_by_card_number qenv cnum) p)"

definition gw_find_by_id_transaction :: "gateway_env \<Rightarrow> txn_row query_env \<Rightarrow> string \<Rightarrow> (go_error, txn_row, transaction_gateway) op" where
  "gw_find_by_id_transaction env qenv text =
     with_path_id ''invalid id parameter'' text (\<lambda>i.
       gateway_row env (gw_transaction_key i) (gw_transaction_key \<circ> row_id) ''FindByIdTransaction'' (handle_find_by_id_transaction qenv (go_int32 i)))"

definition gw_find_active_transaction :: "gateway_env \<Rightarrow> txn_row query_env \<Rightarrow> string \<times> string \<times> string \<Rightarrow>
   (go_error, txn_row list \<times> page_meta, transaction_gateway) op" where
  "gw_find_active_transaction env qenv =
     gateway_page env ''apigw:transaction:active'' ''FindByActiveTransaction'' (handle_find_active_transaction qenv)"

definition gw_find_trashed_transaction :: "gateway_env \<Rightarrow> txn_row query_env \<Rightarrow> string \<times> string \<times> string \<Rightarrow>
   (go_error, txn_row list \<times> page_meta, transaction_gateway) op" where
  "gw_find_trashed_transaction env qenv =
     gateway_page env ''apigw:transaction:trashed'' ''FindByTrashedTransaction'' (handle_find_trashed_transaction qenv)"

definition gw_find_transaction_by_merchant_id :: "gateway_env \<Rightarrow> txn_row query_env \<Rightarrow> string \<Rightarrow> (go_error, txn_row list, transaction_gateway) op" where
  "gw_find_transaction_by_merchant_id env qenv text =
     with_path_id ''invalid merchant_id parameter'' text (\<lambda>m.
       gateway_rows env (''apigw:transaction:merchant_id:'' @ itoa m) ''FindTransactionByMerchantId''
         (handle_find_transaction_by_merchant_id qenv (go_int32 m)))"

end
