(* ===== verification/GatewayTopups.thy ===== *)
theory GatewayTopups
  imports GatewayMoney QueryFacts AuthSamples
begin

text \<open>
  Top-ups through the gateway: which card a token may load, and how long the two caches on
  the way go on answering a version of a top-up that is gone.
\<close>

section \<open>From the token to the card\<close>

lemma metadata_user_header: "atoi u = Some n \<Longrightarrow> metadata_user [u] = n"
  by (simp add: metadata_user_def)

lemma gw_create_topup_success:
  assumes "gw_create_topup env senv user key body g = (Inr row, g')"
  obtains u b where "user = Some u" "body = Some b" "create_topup_ok b" "validate_key key = None"
    "create_topup senv (b\<lparr>cu_key := key, cu_user := metadata_user [u]\<rparr>) (sv_world (gt_service g))
       = (Inr row, sv_world (gt_service g'))"
proof -
  let ?call = "\<lambda>u b. gateway_command env ''CreateTopup'' (handle_create_topup senv [u] (b\<lparr>cu_key := key\<rparr>)) unkept g"
  obtain u b where u: "user = Some u" "body = Some b" "create_topup_ok b" "validate_key key = None" and c: "?call u b = (Inr row, g')"
    using assms
    by (auto simp: gw_create_topup_def with_body_def with_idempotency_key_def with_user_def ret_def
        split: option.splits if_splits)
  have ok: "fst (client_call env ''CreateTopup'' (handle_create_topup senv [u] (b\<lparr>cu_key := key\<rparr>)) g) = Inr row"
    and g': "g' = snd (client_call env ''CreateTopup'' (handle_create_topup senv [u] (b\<lparr>cu_key := key\<rparr>)) g)"
    using gateway_command_success [of env "''CreateTopup''" "handle_create_topup senv [u] (b\<lparr>cu_key := key\<rparr>)" unkept g row] c
    by (simp_all add: unkept_def)
  have run: "handle_create_topup senv [u] (b\<lparr>cu_key := key\<rparr>) (gt_service g) = (Inr row, gt_service g')"
    using client_call_success [OF ok] g' by simp
  then have "create_topup senv (b\<lparr>cu_key := key, cu_user := metadata_user [u]\<rparr>) (sv_world (gt_service g))
      = (Inr row, sv_world (gt_service g'))"
    by (auto simp: handle_create_topup_def answer_def map_error_def on_served_def zoom_def ret_def
        split: if_splits prod.splits sum.splits dest!: sym [of _ "gt_service g'"])
  then show thesis using that u by blast
qed

text \<open>
  C10: a request with a token that has come through the gateway and is answered a top-up
  either repeats one, and then only the idempotency store has changed, or it has credited
  exactly its amount, at least the minimum, to a card that belongs to the user the token
  was issued for
\<close>

theorem topup_credits_token_user:
  assumes "web_security lib now rq = Inr (Some user)" "atoi user = Some u" "0 < u"
    and "gw_create_topup env senv (Some user) key (Some b) g = (Inr row, g')"
    and "w = sv_world (gt_service g)" "w' = sv_world (gt_service g')"
    and "table_wf (w_table w)" "topup_fresh (t_seq (w_table w)) w"
    and "delivered senv (RCredit (topup_op (t_seq (w_table w)) ''credit''))"
  shows "\<exists>t. rq_token rq = Some t \<and> jwt_parse lib now t = JwtSubject user \<and> validate_key key = None
    \<and> ((\<exists>tb. w' = w\<lparr>w_idem := tb\<rparr>)
       \<or> (\<exists>ci. v_find_card senv (cu_card b) = Inr ci \<and> ci_user_id ci = u
            \<and> min_request_amount \<le> cu_amount b \<and> row_status row = st_success \<and> u_card row = cu_card b
            \<and> cur (t_seq (w_table w)) w' = [row] \<and> w_bal w' = moved (w_bal w) (cu_card b) (cu_amount b)))"
proof -
  obtain t where t: "rq_token rq = Some t" "jwt_parse lib now t = JwtSubject user"
    using assms(1) by (auto simp: web_security_def split: if_splits option.splits jwt_answer.splits)
  have ok: "create_topup_ok b" "validate_key key = None"
    and run: "create_topup senv (b\<lparr>cu_key := key, cu_user := u\<rparr>) w = (Inr row, w')"
    using gw_create_topup_success [OF assms(4)] metadata_user_header [OF assms(2)] assms(5,6) by auto
  from run assms(7) refl assms(8,9) show ?thesis
    by (cases rule: topup_success) (use t ok assms(3) in \<open>auto simp: create_topup_ok_def\<close>)
qed

section \<open>Old versions behind two caches\<close>

definition tells_topup :: "int \<Rightarrow> topup_row served \<Rightarrow> topup_row \<Rightarrow> bool" where
  "tells_topup now s r \<longleftrightarrow> (\<exists>env i. query_at now env \<and> fst (handle_find_by_id_topup env i s) = Inr r)"

lemma tells_topupI: "query_at now env \<Longrightarrow> fst (handle_find_by_id_topup env i s) = Inr r \<Longrightarrow> tells_topup now s r"
  by (auto simp: tells_topup_def)

interpretation topup_layers: layered_cache topup_step "\<lparr>sv_world = w, sv_cache = Map.empty\<rparr>" sv_live tells_topup
  for w :: topup_world
  by unfold_locales (auto simp: tells_topup_def query_at_def dest: topup_version_forgotten)

inductive topup_gateway_step :: "int \<Rightarrow> topup_gateway \<Rightarrow> topup_gateway \<Rightarrow> bool" where
  topup_elsewhere: "topup_step now (gt_service g) s \<Longrightarrow> topup_gateway_step now g (g\<lparr>gt_service := s\<rparr>)"
| "topup_gateway_step now g (snd (gw_create_topup env senv user key creq g))"
| "topup_gateway_step now g (snd (gw_update_topup env senv text ureq g))"
| "topup_gateway_step now g (snd (gw_trash_topup env senv text g))"
| "topup_gateway_step now g (snd (gw_restore_topup env senv text g))"
| "topup_gateway_step now g (snd (gw_delete_topup_permanent env senv text g))"
| "topup_gateway_step now g (snd (gw_restore_all_topup env senv g))"
| "topup_gateway_step now g (snd (gw_delete_all_topup_permanent env senv g))"
| topup_asked: "gateway_at now env \<Longrightarrow> query_at now qenv \<Longrightarrow> topup_gateway_step now g (snd (gw_find_by_id_topup env qenv text g))"
| "gateway_at now env \<Longrightarrow> query_at now qenv \<Longrightarrow> topup_gateway_step now g (snd (gw_find_all_topup env qenv p g))"
| "gateway_at now env \<Longrightarrow> query_at now qenv \<Longrightarrow>
    topup_gateway_step now g (snd (gw_find_all_topup_by_card_number env qenv cnum p g))"
| "gateway_at now env \<Longrightarrow> query_at now qenv \<Longrightarrow> topup_gateway_step now g (snd (gw_find_active_topup env qenv p g))"
| "gateway_at now env \<Longrightarrow> query_at now qenv \<Longrightarrow> topup_gateway_step now g (snd (gw_find_trashed_topup env qenv p g))"

lemmas topup_routes = gw_create_topup_def gw_update_topup_def gw_trash_topup_def gw_restore_topup_def
  gw_delete_topup_permanent_def gw_restore_all_topup_def gw_delete_all_topup_permanent_def gw_find_by_id_topup_def
  gw_find_all_topup_def gw_find_all_topup_by_card_number_def gw_find_active_topup_def gw_find_trashed_topup_def

lemma topup_gateway_step_known:
  "topup_gateway_step now g g' \<Longrightarrow> gateway_step topup_step tells_topup now g g'"
  by (induction rule: topup_gateway_step.induct)
    (auto simp: topup_routes gateway_command_snd
      intro!: refusing_snd [where P = "gateway_step topup_step tells_topup now g" for now g] client_call_step
        gateway_row_step gateway_page_step
      intro: topup_step.intros service_moves tells_topupI)

text \<open>
  C38: a version of a top-up that has stopped being live, and does not become live again,
  is not answered by the gateway from eleven minutes later on, although no command touches
  either of the two caches in a row
\<close>

theorem gateway_forgets_topup:
  assumes "timed_run topup_gateway_step t0 \<lparr>gt_service = \<lparr>sv_world = w, sv_cache = Map.empty\<rparr>, gt_cache = Map.empty\<rparr> t g"
    and "\<not> sv_live r (gt_service g)"
    and "timed_run (\<lambda>now g g'. topup_gateway_step now g g' \<and> \<not> sv_live r (gt_service g')) t g now g'"
    and "t + 2 * stale_bound \<le> now" "gateway_at now env" "query_at now qenv"
    and "fst (gw_find_by_id_topup env qenv text g') = Inr r'"
  shows "r' \<noteq> r"
proof
  assume eq: "r' = r"
  have run: "timed_run (gateway_step topup_step tells_topup) t0
      \<lparr>gt_service = \<lparr>sv_world = w, sv_cache = Map.empty\<rparr>, gt_cache = Map.empty\<rparr> t g"
    using assms(1) by (rule timed_run_weaken) (rule topup_gateway_step_known)
  have gone: "timed_run (\<lambda>now g g'. gateway_step topup_step tells_topup now g g' \<and> \<not> sv_live r (gt_service g')) t g now g'"
    using assms(3) by (rule timed_run_weaken) (simp add: topup_gateway_step_known)
  note forgets = topup_layers.gateway_forgets [OF run _ _ assms(2) gone assms(4), simplified]
  obtain i where "fst (gateway_row env (gw_topup_key i) (gw_topup_key \<circ> row_id) ''FindByIdTopup''
      (handle_find_by_id_topup qenv (go_int32 i)) g') = Inr r"
    using assms(7) eq by (auto simp: gw_find_by_id_topup_def with_path_id_def ret_def split: option.splits)
  then consider "get_from_cache (ga_cache env) (gw_topup_key i) (gt_cache g') = Some (KeptRow r)"
    | "fst (client_call env ''FindByIdTopup'' (handle_find_by_id_topup qenv (go_int32 i)) g') = Inr r"
    by (auto simp: gateway_row_def cached_call_def Option.bind_eq_Some_conv elim!: kept_row.elims
        split: option.splits prod.splits sum.splits)
  then show False
  proof cases
    case 1
    then show False using forgets(2) [where env = env] assms(5) by (simp add: gateway_at_def)
  next
    case 2
    then have "fst (handle_find_by_id_topup qenv (go_int32 i) (gt_service g')) = Inr r"
      using client_call_success by (metis fst_conv)
    then show False using forgets(1) assms(6) by (auto simp: tells_topup_def)
  qed
qed

section \<open>Samples\<close>

definition sample_load :: create_topup_request where
  "sample_load = \<lparr>cu_card = ''4111'', cu_amount = 60000, cu_method = ''visa'', cu_key = [], cu_user = 0\<rparr>"

definition load_request :: http_request where
  "load_request = \<lparr>rq_path = ''/api/topup-command/create'', rq_token = Some (sample_sign 43200 ''1'' ''access''),
     rq_api_key = [], rq_ip = ''10.0.0.1''\<rparr>"

definition topup_start :: "topup_world \<Rightarrow> topup_gateway" where
  "topup_start w = \<lparr>gt_service = \<lparr>sv_world = w, sv_cache = Map.empty\<rparr>, gt_cache = Map.empty\<rparr>"

definition gw_load :: "string option \<Rightarrow> (go_error + topup_row) \<times> topup_gateway" where
  "gw_load user = gw_create_topup (sample_gateway_env 0) (sample_env (\<lambda>_. Deliver) 10) user ''first'' (Some sample_load)
     (topup_start (sample_world 1000 50))"

theorem topup_credits_token_user_witness:
  "isl (fst (gw_load (Some ''2'')))
   \<and> w_bal (sv_world (gt_service (snd (gw_load (Some ''1''))))) ''4111'' = Some 61000"
proof
  show "isl (fst (gw_load (Some ''2'')))" by code_simp
  have ok: "\<not> isl (fst (gw_load (Some ''1'')))" by code_simp
  then obtain row g' where run: "gw_load (Some ''1'') = (Inr row, g')"
    by (cases "gw_load (Some ''1'')"; cases "fst (gw_load (Some ''1''))") auto
  have token: "web_security sample_jwt 0 load_request = Inr (Some ''1'')" "atoi ''1'' = Some 1" by code_simp+
  have w: "sample_world 1000 50 = sv_world (gt_service (topup_start (sample_world 1000 50)))" by (simp add: topup_start_def)
  have new: "w_bal (sample_world 1000 50 :: topup_world) ''4111'' = Some 1000"
    "t_rows (w_table (sample_world 1000 50 :: topup_world)) = []"
    "t_rows (w_table (sv_world (gt_service (snd (gw_load (Some ''1'')))))) \<noteq> []" by code_simp+
  have "w_bal (sv_world (gt_service g')) = moved (w_bal (sample_world 1000 50 :: topup_world)) ''4111'' 60000"
    using topup_credits_token_user [OF token _ run [unfolded gw_load_def] w refl sample_table_wf(1) sample_topup_fresh] new(2,3) run
    by (auto simp: delivered_def sample_load_def)
  then show "w_bal (sv_world (gt_service (snd (gw_load (Some ''1''))))) ''4111'' = Some 61000"
    using run new(1) by (simp add: moved_def)
qed

text \<open>A top-up is asked for, and then marked as failed; the gateway asks four minutes later.\<close>

definition pending_load :: topup_row where
  "pending_load = \<lparr>row_id = 1, row_no = ''n'', row_status = st_pending, row_failure = None, row_created_at = Some 5,
     row_updated_at = 5, row_deleted_at = None, u_card = ''4111'', u_amount = 60000, u_method = ''visa'', u_time = zero_time\<rparr>"

definition failed_load :: topup_row where
  "failed_load = pending_load\<lparr>row_status := st_failed, row_updated_at := 10\<rparr>"

definition load_world :: topup_world where
  "load_world = (sample_world 0 0)\<lparr>w_table := \<lparr>t_rows = [pending_load], t_seq = 2\<rparr>, w_marks := [1]\<rparr>"

definition load_env :: "create_topup_request svc_env" where
  "load_env = sample_env (\<lambda>_. Deliver) 10"

definition load_read :: topup_gateway where
  "load_read = (topup_start load_world)\<lparr>gt_service := snd (handle_find_by_id_topup (plain_query 0) 1 (gt_service (topup_start load_world)))\<rparr>"

definition load_marked :: topup_gateway where
  "load_marked = load_read\<lparr>gt_service := (gt_service load_read)\<lparr>sv_world := run_mark load_env topup_entity (sv_world (gt_service load_read))\<rparr>\<rparr>"

definition ask_load :: "int \<Rightarrow> topup_gateway \<Rightarrow> (go_error + topup_row) \<times> topup_gateway" where
  "ask_load now = gw_find_by_id_topup (sample_gateway_env now) (plain_query now) ''1''"

text \<open>Eight minutes after the failure the top-up still reads as pending.\<close>

lemma failed_topup_reads_pending:
  "fst (ask_load (8 * minute) (snd (ask_load (4 * minute) load_marked))) = Inr pending_load"
  by code_simp

lemma load_rows: "sv_rows (gt_service load_marked) = [failed_load]"
    "sv_rows (gt_service (snd (ask_load (4 * minute) load_marked))) = [failed_load]"
  by code_simp+

theorem gateway_forgets_topup_witness:
  "fst (ask_load (2 * stale_bound) (snd (ask_load (4 * minute) load_marked))) = Inr failed_load \<and> failed_load \<noteq> pending_load"
proof
  let ?asked = "snd (ask_load (4 * minute) load_marked)"
  let ?gone = "\<lambda>now g g'. topup_gateway_step now g g' \<and> \<not> sv_live pending_load (gt_service g')"
  show ans: "fst (ask_load (2 * stale_bound) ?asked) = Inr failed_load" by code_simp
  have dead: "\<not> sv_live pending_load (gt_service load_marked)" "\<not> sv_live pending_load (gt_service ?asked)"
    by (simp_all add: sv_live_def load_rows failed_load_def pending_load_def)
  have "topup_gateway_step 0 (topup_start load_world) load_read" unfolding load_read_def
    by (intro topup_elsewhere topup_step.intros plain_query_at)
  moreover have "topup_gateway_step 0 load_read load_marked" unfolding load_marked_def
    by (intro topup_elsewhere topup_step.intros)
  ultimately have run: "timed_run topup_gateway_step 0 (topup_start load_world) 0 load_marked"
    by (blast intro: timed_run.run_step timed_run.run_nil)
  have "timed_run ?gone 0 load_marked (4 * minute) load_marked"
    by (rule timed_run.run_wait [OF timed_run.run_nil]) (simp add: time_defs)
  moreover have "topup_gateway_step (4 * minute) load_marked ?asked" unfolding ask_load_def
    by (intro topup_asked sample_gateway_at plain_query_at)
  ultimately have "timed_run ?gone 0 load_marked (4 * minute) ?asked"
    using dead(2) by (blast intro: timed_run.run_step)
  then have gone: "timed_run ?gone 0 load_marked (2 * stale_bound) ?asked"
    by (rule timed_run.run_wait) (simp add: stale_bound_def time_defs)
  show "failed_load \<noteq> pending_load"
    by (rule gateway_forgets_topup [OF run [unfolded topup_start_def] dead(1) gone _ sample_gateway_at(1) plain_query_at(1)
          ans [unfolded ask_load_def [of "2 * stale_bound"]]]) simp
qed

end
