(* ===== verification/GatewaySaldo.thy ===== *)
theory GatewaySaldo
  imports GatewayMoney SaldoQueries
begin

text \<open>
  The routes of the gateway to the saldo service (\<open>handler/saldo\<close>, \<open>redis/api/saldo\<close>). The
  service does not cache its answers, the gateway does, and nothing that moves money drops
  them: the theorem bounds the age of a balance it answers.
\<close>

section \<open>Commands\<close>

text \<open>
  No user and no role is asked for. An adjustment and a resolution touch no answer kept, and
  are not validated here.
\<close>

type_synonym saldo_gateway = "(saldo_service, saldo_row kept) gateway"

definition gw_saldo_key :: "int \<Rightarrow> string" where
  "gw_saldo_key i =
     ''apigw:saldo:id:'' @ itoa i"

definition gw_saldo_card_key :: "string \<Rightarrow> string" where
  "gw_saldo_card_key cnum =
     ''apigw:saldo:card_number:'' @ cnum"

definition saldo_body_ok :: "string \<times> int \<Rightarrow> bool" where
  "saldo_body_ok b =
     (case b of (cnum, amt) \<Rightarrow> cnum \<noteq> [] \<and> amt \<noteq> 0)"

definition gw_create_saldo :: "gateway_env \<Rightarrow> saldo_env \<Rightarrow> (string \<times> int) option \<Rightarrow> (go_error, saldo_row, saldo_gateway) op" where
  "gw_create_saldo env senv body =
     with_body env (new_bad_request_error ''Invalid request'') saldo_body_ok body (\<lambda>(cnum, amt).
       gateway_command env ''CreateSaldo'' (handle_create_saldo senv cnum amt) (row_kept env gw_saldo_key saldo_id))"

definition gw_update_saldo :: "gateway_env \<Rightarrow> saldo_env \<Rightarrow> string \<Rightarrow> (string \<times> int) option \<Rightarrow> (go_error, saldo_row, saldo_gateway) op" where
  "gw_update_saldo env senv text body =
     with_path_id ''id is required'' text (\<lambda>i.
       with_body env (new_bad_request_error ''Invalid request'') saldo_body_ok body (\<lambda>(cnum, amt).
         gateway_command env ''UpdateSaldo'' (handle_update_saldo senv (go_int32 i) cnum amt)
           (row_replaced env gw_saldo_key saldo_id i)))"

definition gw_trash_saldo :: "gateway_env \<Rightarrow> saldo_env \<Rightarrow> string \<Rightarrow> (go_error, saldo_row, saldo_gateway) op" where
  "gw_trash_saldo env senv text =
     with_path_id ''id is required'' text (\<lambda>i.
       gateway_command env ''TrashedSaldo'' (handle_trashed_saldo senv (go_int32 i)) (row_dropped env gw_saldo_key i))"

definition gw_restore_saldo :: "gateway_env \<Rightarrow> string \<Rightarrow> (go_error, saldo_row, saldo_gateway) op" where
  "gw_restore_saldo env text =
     with_path_id ''id is required'' text (\<lambda>i.
       gateway_command env ''RestoreSaldo'' (handle_restore_saldo (go_int32 i)) (row_dropped env gw_saldo_key i))"

definition gw_delete_saldo :: "gateway_env \<Rightarrow> string \<Rightarrow> (go_error, unit, saldo_gateway) op" where
  "gw_delete_saldo env text =
     with_path_id ''id is required'' text (\<lambda>i.
       gateway_command env ''DeleteSaldoPermanent'' (handle_delete_saldo_permanent (go_int32 i)) (row_dropped env gw_saldo_key i))"

definition gw_restore_all_saldo :: "gateway_env \<Rightarrow> (go_error, unit, saldo_gateway) op" where
  "gw_restore_all_saldo env =
     gateway_command env ''RestoreAllSaldo'' handle_restore_all_saldo unkept"

definition gw_delete_all_saldo_permanent :: "gateway_env \<Rightarrow> (go_error, unit, saldo_gateway) op" where
  "gw_delete_all_saldo_permanent env =
     gateway_command env ''DeleteAllSaldoPermanent'' handle_delete_all_saldo_permanent unkept"

definition gw_apply_adjustment :: "gateway_env \<Rightarrow> saldo_env \<Rightarrow> ledger_adjustment_params option \<Rightarrow> (go_error, saldo_row, saldo_gateway) op" where
  "gw_apply_adjustment env senv body =
     with_body env (new_bad_request_error ''invalid adjustment request'') (\<lambda>_. True) body (\<lambda>b.
       gateway_command env ''ApplySaldoAdjustment'' (handle_apply_saldo_adjustment senv b) unkept)"

definition gw_resolve_reconciliation :: "gateway_env \<Rightarrow> int \<Rightarrow> string \<Rightarrow> (string \<times> string) option \<Rightarrow> (go_error, unit, saldo_gateway) op" where
  "gw_resolve_reconciliation env now text body =
     with_positive_id ''queue_id is required'' text (\<lambda>i.
       with_body env (new_bad_request_error ''invalid resolve request'') (\<lambda>_. True) body (\<lambda>(op_id, note).
         gateway_command env ''ResolveReconciliation'' (handle_resolve_reconciliation now i op_id note) unkept))"

section \<open>Queries\<close>

definition gw_find_all_saldo :: "gateway_env \<Rightarrow> go_error fault \<Rightarrow> string \<times> string \<times> string \<Rightarrow>
   (go_error, saldo_row list \<times> page_meta, saldo_gateway) op" where
  "gw_find_all_saldo env fl =
     gateway_page env ''apigw:saldo:all'' ''FindAllSaldo'' (handle_find_all_saldo fl)"

definition gw_find_by_id_saldo :: "gateway_env \<Rightarrow> go_error fault \<Rightarrow> string \<Rightarrow> (go_error, saldo_row, saldo_gateway) op" where
  "gw_find_by_id_saldo env fl text =
     with_path_id ''invalid id parameter'' text (\<lambda>i.
       gateway_row env (gw_saldo_key i) (gw_saldo_key \<circ> saldo_id) ''FindByIdSaldo'' (handle_find_by_id_saldo fl (go_int32 i)))"

definition gw_find_saldo_by_card_number :: "gateway_env \<Rightarrow> string \<Rightarrow> (go_error, saldo_row, saldo_gateway) op" where
  "gw_find_saldo_by_card_number env cnum =
     with_text ''card_number is required'' cnum
       (gateway_row env (gw_saldo_card_key cnum) (\<lambda>_. gw_saldo_card_key cnum) ''FindByCardNumber''
          (\<lambda>s. (handle_find_by_card_number cnum s, s)))"

text \<open>The error of \<open>strconv.Atoi\<close> is dropped, as it is for the user header of the services.\<close>

definition query_limit :: "string \<Rightarrow> int" where
  "query_limit text =
     go_int32 (metadata_user [text])"

definition gw_list_reconciliation_queue :: "gateway_env \<Rightarrow> go_error fault \<Rightarrow> string \<Rightarrow> string \<Rightarrow> (go_error, queue_row list, saldo_gateway) op" where
  "gw_list_reconciliation_queue env fl limit status =
     client_call env ''ListReconciliationQueue'' (handle_list_reconciliation_queue fl status (query_limit limit))"

definition gw_list_ledger_entries :: "gateway_env \<Rightarrow> go_error fault \<Rightarrow> string \<Rightarrow> string \<Rightarrow> (go_error, ledger_entry list, saldo_gateway) op" where
  "gw_list_ledger_entries env fl limit cnum =
     with_text ''card_number is required'' cnum
       (client_call env ''ListLedgerEntries'' (handle_list_ledger_entries fl cnum (query_limit limit)))"

definition gw_find_active_saldo :: "gateway_env \<Rightarrow> go_error fault \<Rightarrow> string \<times> string \<times> string \<Rightarrow>
   (go_error, saldo_row list \<times> page_meta, saldo_gateway) op" where
  "gw_find_active_saldo env fl =
     gateway_page env ''apigw:saldo:active'' ''FindByActive'' (handle_find_active_saldo fl)"

definition gw_find_trashed_saldo :: "gateway_env \<Rightarrow> go_error fault \<Rightarrow> string \<times> string \<times> string \<Rightarrow>
   (go_error, saldo_row list \<times> page_meta, saldo_gateway) op" where
  "gw_find_trashed_saldo env fl =
     gateway_page env ''apigw:saldo:trashed'' ''FindByTrashed'' (handle_find_trashed_saldo fl)"

section \<open>The age of a balance\<close>

lemma gw_saldo_keys [simp]:
  "gw_saldo_card_key c = gw_saldo_card_key d \<longleftrightarrow> c = d" "gw_saldo_key i \<noteq> gw_saldo_card_key c"
  "gw_saldo_card_key c \<noteq> gw_saldo_key i"
  "listing_key ''apigw:saldo:all'' req \<noteq> gw_saldo_card_key c" "listing_key ''apigw:saldo:active'' req \<noteq> gw_saldo_card_key c"
  "listing_key ''apigw:saldo:trashed'' req \<noteq> gw_saldo_card_key c"
  by (simp_all add: gw_saldo_key_def gw_saldo_card_key_def listing_key_def)

text \<open>What the service says now of the card an entry is about.\<close>

definition balance_known :: "int \<Rightarrow> saldo_gateway \<Rightarrow> string \<Rightarrow> saldo_row kept \<Rightarrow> bool" where
  "balance_known now g key v \<longleftrightarrow>
     (\<forall>cnum r. key = gw_saldo_card_key cnum \<longrightarrow> v = KeptRow r \<longrightarrow> get_saldo_by_card_number cnum (sdb (gt_service g)) = Some r)"

lemma balance_knownI:
  "(\<And>cnum r. key = gw_saldo_card_key cnum \<Longrightarrow> v = KeptRow r \<Longrightarrow> get_saldo_by_card_number cnum (sdb (gt_service g)) = Some r) \<Longrightarrow>
   balance_known now g key v"
  by (simp add: balance_known_def)

text \<open>The routes; elsewhere the saldo service does whatever it does.\<close>

inductive saldo_gateway_step :: "int \<Rightarrow> saldo_gateway \<Rightarrow> saldo_gateway \<Rightarrow> bool" where
  saldo_elsewhere: "saldo_gateway_step now g (g\<lparr>gt_service := s\<rparr>)"
| "gateway_at now env \<Longrightarrow> saldo_gateway_step now g (snd (gw_create_saldo env senv body g))"
| "gateway_at now env \<Longrightarrow> saldo_gateway_step now g (snd (gw_update_saldo env senv text body g))"
| "gateway_at now env \<Longrightarrow> saldo_gateway_step now g (snd (gw_trash_saldo env senv text g))"
| "gateway_at now env \<Longrightarrow> saldo_gateway_step now g (snd (gw_restore_saldo env text g))"
| "gateway_at now env \<Longrightarrow> saldo_gateway_step now g (snd (gw_delete_saldo env text g))"
| "saldo_gateway_step now g (snd (gw_restore_all_saldo env g))"
| "saldo_gateway_step now g (snd (gw_delete_all_saldo_permanent env g))"
| "saldo_gateway_step now g (snd (gw_apply_adjustment env senv adj g))"
| "saldo_gateway_step now g (snd (gw_resolve_reconciliation env clock text res g))"
| "gateway_at now env \<Longrightarrow> saldo_gateway_step now g (snd (gw_find_all_saldo env fl p g))"
| "gateway_at now env \<Longrightarrow> saldo_gateway_step now g (snd (gw_find_by_id_saldo env fl text g))"
| saldo_asked: "gateway_at now env \<Longrightarrow> saldo_gateway_step now g (snd (gw_find_saldo_by_card_number env cnum g))"
| "gateway_at now env \<Longrightarrow> saldo_gateway_step now g (snd (gw_find_active_saldo env fl p g))"
| "gateway_at now env \<Longrightarrow> saldo_gateway_step now g (snd (gw_find_trashed_saldo env fl p g))"

lemmas saldo_routes = gw_create_saldo_def gw_update_saldo_def gw_trash_saldo_def gw_restore_saldo_def gw_delete_saldo_def
  gw_restore_all_saldo_def gw_delete_all_saldo_permanent_def gw_apply_adjustment_def gw_resolve_reconciliation_def
  gw_find_all_saldo_def gw_find_by_id_saldo_def gw_find_saldo_by_card_number_def gw_find_active_saldo_def
  gw_find_trashed_saldo_def

lemma find_by_card_number_reads:
  "handle_find_by_card_number cnum s = Inr r \<Longrightarrow> get_saldo_by_card_number cnum (sdb s) = Some r"
  by (auto simp: handle_find_by_card_number_def svc_find_by_card_number_def split: if_splits sum.splits option.splits)

lemma saldo_step_adds:
  "saldo_gateway_step now g g' \<Longrightarrow> adds_only now (balance_known now g) (gt_cache g) (gt_cache g')"
  by (induction rule: saldo_gateway_step.induct)
    (auto simp: saldo_routes row_kept_def row_replaced_def row_dropped_def unkept_def find_by_card_number_reads
      intro!: refusing_snd [where P = "\<lambda>g'. adds_only now (balance_known now g) (gt_cache g) (gt_cache g')" for now g]
        adds_only_command adds_only_keep adds_only_drop adds_only_row adds_only_page balance_knownI)

interpretation balance_origin: traced_cache saldo_gateway_step gt_cache "\<lambda>now g g'. balance_known now g"
  by (rule adds_only_traced) (rule saldo_step_adds)

text \<open>
  C15: the balance the gateway answers for a card was the balance of that card in the
  ledger service in a state this very history has been in at most five and a half minutes
  before, whatever has moved it since
\<close>

theorem gateway_balance_recent:
  assumes "history saldo_gateway_step t0 g0 ((now, g) # past)" "gt_cache g0 = Map.empty" "gateway_at now env"
    and "fst (gw_find_saldo_by_card_number env cnum g) = Inr r"
  shows "\<exists>(t, g1) \<in> set ((now, g) # past). t \<le> now \<and> now < t + stale_bound
    \<and> get_saldo_by_card_number cnum (sdb (gt_service g1)) = Some r"
proof -
  let ?ask = "\<lambda>s. (handle_find_by_card_number cnum s, s)" and ?key = "gw_saldo_card_key cnum"
  have at: "ce_now (ga_cache env) = now" using assms(3) by (simp add: gateway_at_def)
  have "fst (gateway_row env ?key (\<lambda>_. ?key) ''FindByCardNumber'' ?ask g) = Inr r"
    using assms(4) by (simp add: gw_find_saldo_by_card_number_def with_text_def ret_def split: if_splits)
  then consider "get_from_cache (ga_cache env) ?key (gt_cache g) = Some (KeptRow r)"
    | "fst (client_call env ''FindByCardNumber'' ?ask g) = Inr r"
    by (auto simp: gateway_row_def cached_call_def Option.bind_eq_Some_conv elim!: kept_row.elims
        split: option.splits prod.splits sum.splits)
  then show ?thesis
  proof cases
    case 1
    obtain t g1 g2 where "passes ((now, g) # past) t g1 g2" "t \<le> now" "now < t + stale_bound"
      "balance_known t g1 ?key (KeptRow r)"
      using balance_origin.answer_origin [OF assms(1) [folded at] assms(2) 1] at by metis
    then show ?thesis using passes_states by (fastforce simp: balance_known_def)
  next
    case 2
    then have "handle_find_by_card_number cnum (gt_service g) = Inr r" using client_call_success by fastforce
    then show ?thesis using find_by_card_number_reads
      by (intro bexI [of _ "(now, g)"]) (simp_all add: stale_bound_def time_defs)
  qed
qed

section \<open>Samples\<close>

definition saldo_start :: saldo_gateway where
  "saldo_start = \<lparr>gt_service = sample_saldo 1000 50, gt_cache = Map.empty\<rparr>"

definition ask_balance :: "int \<Rightarrow> saldo_gateway \<Rightarrow> (go_error + saldo_row) \<times> saldo_gateway" where
  "ask_balance now = gw_find_saldo_by_card_number (sample_gateway_env now) ''4111''"

definition spent :: saldo_gateway where
  "spent = (let g = snd (ask_balance 0 saldo_start)
            in g\<lparr>gt_service := snd (handle_debit_saldo sample_saldo_env
                   \<lparr>sr_card = ''4111'', sr_amount = 400, sr_operation_id = ''p'', sr_source_type = ''t'', sr_source_id = ''1''\<rparr>
                   (gt_service g))\<rparr>)"

definition first_balance :: saldo_row where
  "first_balance = the (get_saldo_by_card_number ''4111'' (sdb (sample_saldo 1000 50)))"

definition spent_past :: "(int \<times> saldo_gateway) list" where
  "spent_past = [(0, spent), (0, snd (ask_balance 0 saldo_start)), (0, saldo_start)]"

lemma spent_history: "history saldo_gateway_step 0 saldo_start ((4 * minute, spent) # spent_past)"
proof -
  let ?g = "snd (ask_balance 0 saldo_start)"
  have "saldo_gateway_step 0 saldo_start ?g" unfolding ask_balance_def by (rule saldo_asked) (rule sample_gateway_at)
  moreover have "saldo_gateway_step 0 ?g spent" unfolding spent_def Let_def by (rule saldo_elsewhere)
  ultimately show ?thesis unfolding spent_past_def by (intro history.intros) (simp_all add: time_defs)
qed

theorem gateway_balance_recent_witness:
  "\<exists>(t, g1) \<in> set ((4 * minute, spent) # spent_past). t \<le> 4 * minute \<and> 4 * minute < t + stale_bound
     \<and> get_saldo_by_card_number ''4111'' (sdb (gt_service g1)) = Some first_balance"
proof (rule gateway_balance_recent [OF spent_history])
  show "gt_cache saldo_start = Map.empty" by (simp add: saldo_start_def)
  show "gateway_at (4 * minute) (sample_gateway_env (4 * minute))" by (rule sample_gateway_at)
  show "fst (gw_find_saldo_by_card_number (sample_gateway_env (4 * minute)) ''4111'' spent) = Inr first_balance" by code_simp
qed

text \<open>The balance before a payment is still answered four minutes after it.\<close>

lemma old_balance_answered:
  "fst (ask_balance (4 * minute) spent) = Inr first_balance" "s_balance first_balance = 1000"
  "map_option s_balance (get_saldo_by_card_number ''4111'' (sdb (gt_service spent))) = Some 600"
  by code_simp+

end
