(* ===== verification/CardHandlers.thy ===== *)
theory CardHandlers
  imports CardService MoneyQueries
begin

text \<open>
  The gRPC handlers of the card service (\<open>service/card/handler/{command,query}.go\<close>): which
  messages they refuse, and the operation of the service each of them calls. The answers of
  the queries are without the status, the limit, the balance and the points of a card.
\<close>

section \<open>Errors and validation\<close>

definition ErrGrpcInvalidCardID :: go_error where
  "ErrGrpcInvalidCardID = new_grpc_error ''Invalid card ID'' codes_InvalidArgument"

definition ErrGrpcInvalidUserID :: go_error where
  "ErrGrpcInvalidUserID = new_grpc_error ''Invalid user ID'' codes_InvalidArgument"

definition ErrGrpcCardNumberInvalid :: go_error where
  "ErrGrpcCardNumberInvalid = new_grpc_error ''Invalid card number'' codes_InvalidArgument"

definition ErrGrpcValidateCreateCardRequest :: go_error where
  "ErrGrpcValidateCreateCardRequest = new_grpc_error ''Invalid input for create card'' codes_InvalidArgument"

definition ErrGrpcValidateUpdateCardRequest :: go_error where
  "ErrGrpcValidateUpdateCardRequest = new_grpc_error ''Invalid input for update card'' codes_InvalidArgument"

definition ErrGrpcValidateUpdateCreditLimit :: go_error where
  "ErrGrpcValidateUpdateCreditLimit = new_grpc_error ''Invalid input for update credit limit'' codes_InvalidArgument"

definition ErrGrpcValidateRedeemPoints :: go_error where
  "ErrGrpcValidateRedeemPoints = new_grpc_error ''Invalid input for redeem points'' codes_InvalidArgument"

definition card_fields_ok :: "'x create_card_request_scheme \<Rightarrow> bool" where
  "card_fields_ok req \<longleftrightarrow> cc_type req \<noteq> [] \<and> cc_expire req \<noteq> zero_time \<and> cc_cvv req \<noteq> [] \<and> cc_provider req \<noteq> []
     \<and> cc_type req \<in> {''credit'', ''debit''} \<and> payment_method_validator (cc_provider req)"

definition update_card_ok :: "update_card_request \<Rightarrow> bool" where
  "update_card_ok req \<longleftrightarrow> 1 \<le> uc_card req \<and> 1 \<le> cc_user req \<and> card_fields_ok req"

section \<open>Commands\<close>

text \<open>
  A credit limit of 0 is refused: the validator reads \<open>required\<close> as not zero.
\<close>

definition handle_create_card :: "card_env \<Rightarrow> int option \<Rightarrow> create_card_request \<Rightarrow> (go_error, card_row, card_world) op" where
  "handle_create_card env expires req =
     (let request = req\<lparr>cc_expire := as_time expires\<rparr>
      in if \<not> card_fields_ok request then ret (Inl ErrGrpcValidateCreateCardRequest)
         else answer (svc_create_card env request))"

definition handle_update_card :: "card_env \<Rightarrow> int option \<Rightarrow> update_card_request \<Rightarrow> (go_error, card_row, card_world) op" where
  "handle_update_card env expires req =
     (let request = req\<lparr>cc_expire := as_time expires\<rparr>
      in if \<not> update_card_ok request then ret (Inl ErrGrpcValidateUpdateCardRequest)
         else answer (svc_update_card env request))"

definition handle_trashed_card :: "card_env \<Rightarrow> int \<Rightarrow> (go_error, card_row, card_world) op" where
  "handle_trashed_card env i =
     with_id ErrGrpcInvalidCardID i (svc_trashed_card env i)"

definition handle_restore_card :: "card_env \<Rightarrow> int \<Rightarrow> (go_error, card_row, card_world) op" where
  "handle_restore_card env i =
     with_id ErrGrpcInvalidCardID i (svc_restore_card env i)"

definition handle_delete_card_permanent :: "card_env \<Rightarrow> int \<Rightarrow> (go_error, unit, card_world) op" where
  "handle_delete_card_permanent env i =
     with_id ErrGrpcInvalidCardID i (svc_delete_card_permanent env i)"

definition handle_restore_all_card :: "card_env \<Rightarrow> (go_error, unit, card_world) op" where
  "handle_restore_all_card env =
     answer (svc_restore_all_card env)"

definition handle_delete_all_card_permanent :: "card_env \<Rightarrow> (go_error, unit, card_world) op" where
  "handle_delete_all_card_permanent env =
     answer (svc_delete_all_card_permanent env)"

definition handle_toggle_card_status :: "card_env \<Rightarrow> int \<Rightarrow> (go_error, card_row, card_world) op" where
  "handle_toggle_card_status env i =
     (if i \<le> 0 then ret (Inl ErrGrpcInvalidCardID) else answer (svc_toggle_card_status env i))"

definition handle_update_credit_limit :: "card_env \<Rightarrow> int \<Rightarrow> int \<Rightarrow> (go_error, card_row, card_world) op" where
  "handle_update_credit_limit env i lim =
     (if i \<le> 0 then ret (Inl ErrGrpcInvalidCardID)
      else if lim \<le> 0 then ret (Inl ErrGrpcValidateUpdateCreditLimit)
      else answer (svc_update_credit_limit env i lim))"

definition handle_redeem_points :: "card_env \<Rightarrow> int \<Rightarrow> int \<Rightarrow> (go_error, card_row, card_world) op" where
  "handle_redeem_points env i points =
     (if i \<le> 0 then ret (Inl ErrGrpcInvalidCardID)
      else if points < 1 then ret (Inl ErrGrpcValidateRedeemPoints)
      else answer (svc_redeem_points env i points))"

definition handle_process_billing_cycles :: "card_env \<Rightarrow> int \<Rightarrow> (go_error, unit, card_world) op" where
  "handle_process_billing_cycles env configured_day =
     answer (svc_process_billing_cycles env configured_day)"

section \<open>Queries\<close>

definition handle_find_all_card :: "card_env \<Rightarrow> string \<Rightarrow> int \<Rightarrow> int \<Rightarrow> (go_error, card_view list \<times> page_meta, card_world) op" where
  "handle_find_all_card env =
     page_answer (svc_find_all env)"

definition handle_find_active_card :: "card_env \<Rightarrow> string \<Rightarrow> int \<Rightarrow> int \<Rightarrow> (go_error, card_view list \<times> page_meta, card_world) op" where
  "handle_find_active_card env =
     page_answer (svc_find_by_active env)"

definition handle_find_trashed_card :: "card_env \<Rightarrow> string \<Rightarrow> int \<Rightarrow> int \<Rightarrow> (go_error, card_view list \<times> page_meta, card_world) op" where
  "handle_find_trashed_card env =
     page_answer (svc_find_by_trashed env)"

definition handle_find_card_by_id :: "card_env \<Rightarrow> int \<Rightarrow> (go_error, card_view, card_world) op" where
  "handle_find_card_by_id env i =
     with_id ErrGrpcInvalidCardID i (svc_find_by_id env i)"

definition handle_find_card_by_number :: "card_env \<Rightarrow> string \<Rightarrow> (go_error, card_view, card_world) op" where
  "handle_find_card_by_number env num =
     (if num = [] then ret (Inl ErrGrpcCardNumberInvalid) else answer (svc_find_card_by_number env num))"

definition handle_find_card_by_user_id :: "card_env \<Rightarrow> int \<Rightarrow> (go_error, card_view, card_world) op" where
  "handle_find_card_by_user_id env user =
     with_id ErrGrpcInvalidUserID user (svc_find_by_user_id env user)"

definition handle_find_user_card_by_card_number :: "card_env \<Rightarrow> string \<Rightarrow> (go_error, card_view \<times> string, card_world) op" where
  "handle_find_user_card_by_card_number env num =
     (if num = [] then ret (Inl ErrGrpcCardNumberInvalid) else answer (svc_find_user_card_by_card_number env num))"

end
