(* ===== verification/GatewayAccounts.thy ===== *)
theory GatewayAccounts
  imports GatewayMoney GatewayAuth CardHandlers MerchantService RoleService
begin

text \<open>
  The routes of the gateway to the user, role, merchant and card services
  (\<open>handler/{user,role,merchant,merchantdocument,card}\<close>, \<open>redis/api\<close> of the same names). Only
  the users' commands touch the answers kept.
\<close>

section \<open>Users\<close>

text \<open>
  The token is all a command asks for: whoever holds one sets any user's password. The id of
  the body is ignored.
\<close>

type_synonym user_gateway = "(user_world, user_row kept) gateway"

definition gw_user_key :: "int \<Rightarrow> string" where
  "gw_user_key i =
     ''apigw:user:id:'' @ itoa i"

definition gw_create_user :: "gateway_env \<Rightarrow> user_env \<Rightarrow> create_user_request option \<Rightarrow> (go_error, user_row, user_gateway) op" where
  "gw_create_user env senv body =
     with_body env (invalid_request env ''Invalid request format'') (user_request_ok senv) body (\<lambda>b.
       gateway_command env ''Create'' (handle_create_user senv b) (row_kept env gw_user_key uw_id))"

definition gw_update_user :: "gateway_env \<Rightarrow> user_env \<Rightarrow> string \<Rightarrow> update_user_request option \<Rightarrow> (go_error, user_row, user_gateway) op" where
  "gw_update_user env senv text body =
     with_path_id ''id is required'' text (\<lambda>i.
       with_body env (invalid_request env ''Invalid request format'') (user_request_ok senv) body (\<lambda>b.
         gateway_command env ''Update'' (handle_update_user senv (b\<lparr>cu_user := go_int32 i\<rparr>))
           (row_replaced env gw_user_key uw_id i)))"

definition gw_trash_user :: "gateway_env \<Rightarrow> user_env \<Rightarrow> string \<Rightarrow> (go_error, user_row, user_gateway) op" where
  "gw_trash_user env senv text =
     with_path_id ''id is required'' text (\<lambda>i.
       gateway_command env ''TrashedUser'' (handle_trashed_user senv (go_int32 i)) (row_dropped env gw_user_key i))"

definition gw_restore_user :: "gateway_env \<Rightarrow> user_env \<Rightarrow> string \<Rightarrow> (go_error, user_row, user_gateway) op" where
  "gw_restore_user env senv text =
     with_path_id ''id is required'' text (\<lambda>i.
       gateway_command env ''RestoreUser'' (handle_restore_user senv (go_int32 i)) (row_dropped env gw_user_key i))"

definition gw_delete_user_permanent :: "gateway_env \<Rightarrow> user_env \<Rightarrow> string \<Rightarrow> (go_error, unit, user_gateway) op" where
  "gw_delete_user_permanent env senv text =
     with_path_id ''id is required'' text (\<lambda>i.
       gateway_command env ''DeleteUserPermanent'' (handle_delete_user_permanent senv (go_int32 i)) (row_dropped env gw_user_key i))"

definition gw_restore_all_user :: "gateway_env \<Rightarrow> user_env \<Rightarrow> (go_error, unit, user_gateway) op" where
  "gw_restore_all_user env senv =
     gateway_command env ''RestoreAllUser'' (handle_restore_all_user senv) unkept"

definition gw_delete_all_user_permanent :: "gateway_env \<Rightarrow> user_env \<Rightarrow> (go_error, unit, user_gateway) op" where
  "gw_delete_all_user_permanent env senv =
     gateway_command env ''DeleteAllUserPermanent'' (handle_delete_all_user_permanent senv) unkept"

definition gw_find_all_user :: "gateway_env \<Rightarrow> user_env \<Rightarrow> string \<times> string \<times> string \<Rightarrow>
   (go_error, user_row list \<times> page_meta, user_gateway) op" where
  "gw_find_all_user env senv =
     gateway_page env ''apigw:user:all'' ''FindAll'' (handle_find_all_user senv)"

definition gw_find_user_by_id :: "gateway_env \<Rightarrow> user_env \<Rightarrow> string \<Rightarrow> (go_error, user_row, user_gateway) op" where
  "gw_find_user_by_id env senv text =
     with_path_id ''id is required'' text (\<lambda>i.
       gateway_row env (gw_user_key i) (gw_user_key \<circ> uw_id) ''FindById'' (handle_find_user_by_id senv (go_int32 i)))"

definition gw_find_active_user :: "gateway_env \<Rightarrow> user_env \<Rightarrow> string \<times> string \<times> string \<Rightarrow>
   (go_error, user_row list \<times> page_meta, user_gateway) op" where
  "gw_find_active_user env senv =
     gateway_page env ''apigw:user:active'' ''FindByActive'' (handle_find_active_user senv)"

definition gw_find_trashed_user :: "gateway_env \<Rightarrow> user_env \<Rightarrow> string \<times> string \<times> string \<Rightarrow>
   (go_error, user_row list \<times> page_meta, user_gateway) op" where
  "gw_find_trashed_user env senv =
     gateway_page env ''apigw:user:trashed'' ''FindByTrashed'' (handle_find_trashed_user senv)"

section \<open>Roles\<close>

text \<open>
  These routes stand behind the role check and \<open>RequireRoles("ROLE_ADMIN")\<close>. The path of the
  active roles leads to the listing of all; the listing of the active ones has no route.
\<close>

type_synonym role_gateway = "(role_world, role_row kept) gateway"

definition gw_role_key :: "int \<Rightarrow> string" where
  "gw_role_key i =
     ''apigw:role:id:'' @ itoa i"

definition gw_create_role :: "gateway_env \<Rightarrow> role_env \<Rightarrow> string option \<Rightarrow> (go_error, role_row, role_gateway) op" where
  "gw_create_role env senv body =
     with_body env (invalid_request env ''Invalid request format'') (\<lambda>name. name \<noteq> []) body (\<lambda>name.
       gateway_command env ''CreateRole'' (handle_create_role senv name) unkept)"

definition gw_update_role :: "gateway_env \<Rightarrow> role_env \<Rightarrow> string \<Rightarrow> string option \<Rightarrow> (go_error, role_row, role_gateway) op" where
  "gw_update_role env senv text body =
     with_positive_id ''id is required'' text (\<lambda>i.
       with_body env (invalid_request env ''Invalid request format'') (\<lambda>name. name \<noteq> []) body (\<lambda>name.
         gateway_command env ''UpdateRole'' (handle_update_role senv (go_int32 i) name) unkept))"

definition gw_trash_role :: "gateway_env \<Rightarrow> role_env \<Rightarrow> string \<Rightarrow> (go_error, role_row, role_gateway) op" where
  "gw_trash_role env senv text =
     with_positive_id ''id is required'' text (\<lambda>i.
       gateway_command env ''TrashedRole'' (handle_trashed_role senv (go_int32 i)) unkept)"

definition gw_restore_role :: "gateway_env \<Rightarrow> role_env \<Rightarrow> string \<Rightarrow> (go_error, role_row, role_gateway) op" where
  "gw_restore_role env senv text =
     with_positive_id ''id is required'' text (\<lambda>i.
       gateway_command env ''RestoreRole'' (handle_restore_role senv (go_int32 i)) unkept)"

definition gw_delete_role_permanent :: "gateway_env \<Rightarrow> role_env \<Rightarrow> string \<Rightarrow> (go_error, unit, role_gateway) op" where
  "gw_delete_role_permanent env senv text =
     with_positive_id ''id is required'' text (\<lambda>i.
       gateway_command env ''DeleteRolePermanent'' (handle_delete_role_permanent senv (go_int32 i)) unkept)"

definition gw_restore_all_role :: "gateway_env \<Rightarrow> role_env \<Rightarrow> (go_error, unit, role_gateway) op" where
  "gw_restore_all_role env senv =
     gateway_command env ''RestoreAllRole'' (handle_restore_all_role senv) unkept"

definition gw_delete_all_role_permanent :: "gateway_env \<Rightarrow> role_env \<Rightarrow> (go_error, unit, role_gateway) op" where
  "gw_delete_all_role_permanent env senv =
     gateway_command env ''DeleteAllRolePermanent'' (handle_delete_all_role_permanent senv) unkept"

definition gw_find_all_role :: "gateway_env \<Rightarrow> role_env \<Rightarrow> string \<times> string \<times> string \<Rightarrow>
   (go_error, role_row list \<times> page_meta, role_gateway) op" where
  "gw_find_all_role env senv =
     gateway_page env ''apigw:role:all'' ''FindAllRole'' (handle_find_all_role senv)"

definition gw_find_role_by_id :: "gateway_env \<Rightarrow> role_env \<Rightarrow> string \<Rightarrow> (go_error, role_row, role_gateway) op" where
  "gw_find_role_by_id env senv text =
     with_positive_id ''id is required'' text (\<lambda>i.
       gateway_row env (gw_role_key i) (\<lambda>_. gw_role_key i) ''FindByIdRole'' (handle_find_role_by_id senv (go_int32 i)))"

definition gw_find_active_role :: "gateway_env \<Rightarrow> role_env \<Rightarrow> string \<times> string \<times> string \<Rightarrow>
   (go_error, role_row list \<times> page_meta, role_gateway) op" where
  "gw_find_active_role env senv =
     gateway_page env ''apigw:role:active'' ''FindByActive'' (handle_find_active_role senv)"

definition gw_find_trashed_role :: "gateway_env \<Rightarrow> role_env \<Rightarrow> string \<times> string \<times> string \<Rightarrow>
   (go_error, role_row list \<times> page_meta, role_gateway) op" where
  "gw_find_trashed_role env senv =
     gateway_page env ''apigw:role:trashed'' ''FindByTrashed'' (handle_find_trashed_role senv)"

definition gw_find_roles_by_user_id :: "gateway_env \<Rightarrow> role_env \<Rightarrow> string \<Rightarrow> (go_error, role_row list, role_gateway) op" where
  "gw_find_roles_by_user_id env senv text =
     with_positive_id ''user_id is required'' text (\<lambda>u.
       gateway_rows env (''apigw:role:user_id:'' @ itoa u) ''FindByUserId'' (handle_find_roles_by_user_id senv (go_int32 u)))"

section \<open>Merchants\<close>

text \<open>The owner of a new merchant is the user of the body, not that of the token.\<close>

type_synonym merchant_gateway = "(merchant_world, merchant_row kept) gateway"

definition gw_merchant_key :: "int \<Rightarrow> string" where
  "gw_merchant_key i =
     ''apigw:merchant:id:'' @ itoa i"

definition gw_create_merchant :: "gateway_env \<Rightarrow> merchant_env \<Rightarrow> (string \<times> int) option \<Rightarrow> (go_error, merchant_row, merchant_gateway) op" where
  "gw_create_merchant env senv body =
     with_body env (new_bad_request_error ''Invalid request'') (\<lambda>(name, user). name \<noteq> [] \<and> 1 \<le> user) body (\<lambda>(name, user).
       gateway_command env ''CreateMerchant'' (handle_create_merchant senv name (go_int32 user)) unkept)"

definition gw_update_merchant :: "gateway_env \<Rightarrow> merchant_env \<Rightarrow> string \<Rightarrow> update_merchant_request option \<Rightarrow> (go_error, merchant_row, merchant_gateway) op" where
  "gw_update_merchant env senv text body =
     with_path_id ''id is required'' text (\<lambda>i.
       with_body env (new_bad_request_error ''Invalid request'') (\<lambda>b. um_name b \<noteq> [] \<and> 1 \<le> um_user b \<and> um_status b \<noteq> []) body (\<lambda>b.
         gateway_command env ''UpdateMerchant''
           (handle_update_merchant senv (b\<lparr>um_id := go_int32 i, um_user := go_int32 (um_user b)\<rparr>)) unkept))"

definition gw_trash_merchant :: "gateway_env \<Rightarrow> merchant_env \<Rightarrow> string \<Rightarrow> (go_error, merchant_row, merchant_gateway) op" where
  "gw_trash_merchant env senv text =
     with_path_id ''id is required'' text (\<lambda>i.
       gateway_command env ''TrashedMerchant'' (handle_trashed_merchant senv (go_int32 i)) unkept)"

definition gw_restore_merchant :: "gateway_env \<Rightarrow> merchant_env \<Rightarrow> string \<Rightarrow> (go_error, merchant_row, merchant_gateway) op" where
  "gw_restore_merchant env senv text =
     with_path_id ''id is required'' text (\<lambda>i.
       gateway_command env ''RestoreMerchant'' (handle_restore_merchant senv (go_int32 i)) unkept)"

definition gw_delete_merchant :: "gateway_env \<Rightarrow> merchant_env \<Rightarrow> string \<Rightarrow> (go_error, unit, merchant_gateway) op" where
  "gw_delete_merchant env senv text =
     with_path_id ''id is required'' text (\<lambda>i.
       gateway_command env ''DeleteMerchantPermanent'' (handle_delete_merchant_permanent senv (go_int32 i)) unkept)"

definition gw_restore_all_merchant :: "gateway_env \<Rightarrow> merchant_env \<Rightarrow> (go_error, unit, merchant_gateway) op" where
  "gw_restore_all_merchant env senv =
     gateway_command env ''RestoreAllMerchant'' (handle_restore_all_merchant senv) unkept"

definition gw_delete_all_merchant_permanent :: "gateway_env \<Rightarrow> merchant_env \<Rightarrow> (go_error, unit, merchant_gateway) op" where
  "gw_delete_all_merchant_permanent env senv =
     gateway_command env ''DeleteAllMerchantPermanent'' (handle_delete_all_merchant_permanent senv) unkept"

definition gw_find_all_merchant :: "gateway_env \<Rightarrow> merchant_env \<Rightarrow> string \<times> string \<times> string \<Rightarrow>
   (go_error, merchant_row list \<times> page_meta, merchant_gateway) op" where
  "gw_find_all_merchant env senv =
     gateway_page env ''apigw:merchant:all'' ''FindAllMerchant'' (handle_find_all_merchant senv)"

definition gw_find_merchant_by_id :: "gateway_env \<Rightarrow> merchant_env \<Rightarrow> string \<Rightarrow> (go_error, merchant_row, merchant_gateway) op" where
  "gw_find_merchant_by_id env senv text =
     with_path_id ''id is required and must be an integer'' text (\<lambda>i.
       gateway_row env (gw_merchant_key i) (gw_merchant_key \<circ> mw_id) ''FindByIdMerchant'' (handle_find_merchant_by_id senv (go_int32 i)))"

definition gw_find_merchant_by_api_key :: "gateway_env \<Rightarrow> merchant_env \<Rightarrow> string \<Rightarrow> (go_error, merchant_row, merchant_gateway) op" where
  "gw_find_merchant_by_api_key env senv api_key =
     with_text ''api_key is required'' api_key
       (gateway_row env (''apigw:merchant:api_key:'' @ api_key) (\<lambda>_. ''apigw:merchant:api_key:'' @ api_key) ''FindByApiKey''
          (handle_find_by_api_key senv api_key))"

definition gw_find_merchants_of_user :: "gateway_env \<Rightarrow> merchant_env \<Rightarrow> string option \<Rightarrow> (go_error, merchant_row list, merchant_gateway) op" where
  "gw_find_merchants_of_user env senv user_id =
     (case user_id of
        None \<Rightarrow> ret (Inl (new_bad_request_error ''user_id is required and must be valid''))
      | Some text \<Rightarrow>
          with_path_id ''user_id is required and must be valid'' text (\<lambda>u.
            gateway_rows env (''apigw:merchant:user_id:'' @ itoa u) ''FindByMerchantUserId''
              (handle_find_by_merchant_user_id senv (go_int32 u))))"

definition gw_find_active_merchant :: "gateway_env \<Rightarrow> merchant_env \<Rightarrow> string \<times> string \<times> string \<Rightarrow>
   (go_error, merchant_row list \<times> page_meta, merchant_gateway) op" where
  "gw_find_active_merchant env senv =
     gateway_page env ''apigw:merchant:active'' ''FindByActive'' (handle_find_active_merchant senv)"

definition gw_find_trashed_merchant :: "gateway_env \<Rightarrow> merchant_env \<Rightarrow> string \<times> string \<times> string \<Rightarrow>
   (go_error, merchant_row list \<times> page_meta, merchant_gateway) op" where
  "gw_find_trashed_merchant env senv =
     gateway_page env ''apigw:merchant:trashed'' ''FindByTrashed'' (handle_find_trashed_merchant senv)"

section \<open>Merchant documents\<close>

text \<open>The error of an id that is no number carries that of \<open>strconv.Atoi\<close>.\<close>

type_synonym document_gateway = "(merchant_world, document_row kept) gateway"

definition gw_document_key :: "int \<Rightarrow> string" where
  "gw_document_key i =
     ''apigw:merchant_document:id:'' @ itoa i"

definition with_document_id_text :: "string \<Rightarrow> (int \<Rightarrow> (go_error, 'a, document_gateway) op) \<Rightarrow> (go_error, 'a, document_gateway) op" where
  "with_document_id_text text k =
     (case atoi text of
        None \<Rightarrow> ret (Inl (with_internal (new_bad_request_error ''Invalid ID format'') (atoi_error text)))
      | Some i \<Rightarrow> k i)"

definition gw_create_document :: "gateway_env \<Rightarrow> merchant_env \<Rightarrow> create_document_request option \<Rightarrow> (go_error, document_row, document_gateway) op" where
  "gw_create_document env senv body =
     with_body env (invalid_request env ''Invalid request format'') (\<lambda>b. 1 \<le> cd_merchant b \<and> cd_type b \<noteq> [] \<and> cd_url b \<noteq> []) body (\<lambda>b.
       gateway_command env ''Create'' (handle_create_document senv (b\<lparr>cd_merchant := go_int32 (cd_merchant b)\<rparr>)) unkept)"

definition gw_update_document :: "gateway_env \<Rightarrow> merchant_env \<Rightarrow> string \<Rightarrow> update_document_request option \<Rightarrow> (go_error, document_row, document_gateway) op" where
  "gw_update_document env senv text body =
     with_document_id_text text (\<lambda>i.
       with_body env (invalid_request env ''Invalid request format'')
         (\<lambda>b. 1 \<le> ds_merchant b \<and> ds_type b \<noteq> [] \<and> ds_url b \<noteq> [] \<and> ds_status b \<noteq> [] \<and> ds_note b \<noteq> []) body (\<lambda>b.
         gateway_command env ''Update''
           (handle_update_document senv (b\<lparr>ds_id := go_int32 i, ds_merchant := go_int32 (ds_merchant b)\<rparr>)) unkept))"

definition gw_update_document_status :: "gateway_env \<Rightarrow> merchant_env \<Rightarrow> string \<Rightarrow> document_status_request option \<Rightarrow> (go_error, document_row, document_gateway) op" where
  "gw_update_document_status env senv text body =
     with_document_id_text text (\<lambda>i.
       with_body env (invalid_request env ''Invalid request format'')
         (\<lambda>b. 1 \<le> ds_merchant b \<and> ds_status b \<noteq> [] \<and> ds_note b \<noteq> []) body (\<lambda>b.
         gateway_command env ''UpdateStatus''
           (handle_update_document_status senv (b\<lparr>ds_id := go_int32 i, ds_merchant := go_int32 (ds_merchant b)\<rparr>)) unkept))"

definition gw_trash_document :: "gateway_env \<Rightarrow> merchant_env \<Rightarrow> string \<Rightarrow> (go_error, document_row, document_gateway) op" where
  "gw_trash_document env senv text =
     with_document_id_text text (\<lambda>i.
       gateway_command env ''Trashed'' (handle_trashed_document senv (go_int32 i)) unkept)"

definition gw_restore_document :: "gateway_env \<Rightarrow> merchant_env \<Rightarrow> string \<Rightarrow> (go_error, document_row, document_gateway) op" where
  "gw_restore_document env senv text =
     with_document_id_text text (\<lambda>i.
       gateway_command env ''Restore'' (handle_restore_document senv (go_int32 i)) unkept)"

definition gw_delete_document :: "gateway_env \<Rightarrow> merchant_env \<Rightarrow> string \<Rightarrow> (go_error, unit, document_gateway) op" where
  "gw_delete_document env senv text =
     with_document_id_text text (\<lambda>i.
       gateway_command env ''DeletePermanent'' (handle_delete_document_permanent senv (go_int32 i)) unkept)"

definition gw_restore_all_document :: "gateway_env \<Rightarrow> merchant_env \<Rightarrow> (go_error, unit, document_gateway) op" where
  "gw_restore_all_document env senv =
     gateway_command env ''RestoreAll'' (handle_restore_all_document senv) unkept"

definition gw_delete_all_document_permanent :: "gateway_env \<Rightarrow> merchant_env \<Rightarrow> (go_error, unit, document_gateway) op" where
  "gw_delete_all_document_permanent env senv =
     gateway_command env ''DeleteAllPermanent'' (handle_delete_all_document_permanent senv) unkept"

definition gw_find_all_document :: "gateway_env \<Rightarrow> merchant_env \<Rightarrow> string \<times> string \<times> string \<Rightarrow>
   (go_error, document_row list \<times> page_meta, document_gateway) op" where
  "gw_find_all_document env senv =
     gateway_page env ''apigw:merchant_document:all'' ''FindAll'' (handle_find_all_document senv)"

definition gw_find_document_by_id :: "gateway_env \<Rightarrow> merchant_env \<Rightarrow> string \<Rightarrow> (go_error, document_row, document_gateway) op" where
  "gw_find_document_by_id env senv text =
     with_document_id_text text (\<lambda>i.
       gateway_row env (gw_document_key i) (gw_document_key \<circ> dw_id) ''FindById'' (handle_find_document_by_id senv (go_int32 i)))"

definition gw_find_active_document :: "gateway_env \<Rightarrow> merchant_env \<Rightarrow> string \<times> string \<times> string \<Rightarrow>
   (go_error, document_row list \<times> page_meta, document_gateway) op" where
  "gw_find_active_document env senv =
     gateway_page env ''apigw:merchant_document:active'' ''FindAllActive'' (handle_find_active_document senv)"

definition gw_find_trashed_document :: "gateway_env \<Rightarrow> merchant_env \<Rightarrow> string \<times> string \<times> string \<Rightarrow>
   (go_error, document_row list \<times> page_meta, document_gateway) op" where
  "gw_find_trashed_document env senv =
     gateway_page env ''apigw:merchant_document:trashed'' ''FindAllTrashed'' (handle_find_trashed_document senv)"

section \<open>Cards\<close>

text \<open>
  The body of an update must hold a card id, of which nothing is used: the path names the
  card. Credit limits and points have a range check of their own. The lookup by number is
  not kept.
\<close>

type_synonym card_gateway = "(card_world, card_view kept) gateway"

definition gw_card_key :: "int \<Rightarrow> string" where
  "gw_card_key i =
     ''apigw:card:id:'' @ itoa i"

definition with_int32 :: "int \<Rightarrow> string \<Rightarrow> (int \<Rightarrow> (go_error, 'a, 'g) op) \<Rightarrow> (go_error, 'a, 'g) op" where
  "with_int32 n field k =
     (if \<not> fits_int32 n then ret (Inl (new_bad_request_error (field @ '' is out of range''))) else k n)"

definition gw_create_card :: "gateway_env \<Rightarrow> card_env \<Rightarrow> create_card_request option \<Rightarrow> (go_error, card_row, card_gateway) op" where
  "gw_create_card env senv body =
     with_body env (new_bad_request_error ''Invalid request'') card_fields_ok body (\<lambda>b.
       gateway_command env ''CreateCard''
         (handle_create_card senv (Some (cc_expire b)) (b\<lparr>cc_user := go_int32 (cc_user b)\<rparr>)) unkept)"

definition gw_update_card :: "gateway_env \<Rightarrow> card_env \<Rightarrow> string \<Rightarrow> update_card_request option \<Rightarrow> (go_error, card_row, card_gateway) op" where
  "gw_update_card env senv text body =
     with_path_id ''id is required'' text (\<lambda>i.
       with_body env (new_bad_request_error ''Invalid request'') update_card_ok body (\<lambda>b.
         gateway_command env ''UpdateCard''
           (handle_update_card senv (Some (cc_expire b)) (b\<lparr>uc_card := go_int32 i, cc_user := go_int32 (cc_user b)\<rparr>)) unkept))"

definition gw_trash_card :: "gateway_env \<Rightarrow> card_env \<Rightarrow> string \<Rightarrow> (go_error, card_row, card_gateway) op" where
  "gw_trash_card env senv text =
     with_path_id ''id is required'' text (\<lambda>i.
       gateway_command env ''TrashedCard'' (handle_trashed_card senv (go_int32 i)) unkept)"

definition gw_restore_card :: "gateway_env \<Rightarrow> card_env \<Rightarrow> string \<Rightarrow> (go_error, card_row, card_gateway) op" where
  "gw_restore_card env senv text =
     with_path_id ''id is required'' text (\<lambda>i.
       gateway_command env ''RestoreCard'' (handle_restore_card senv (go_int32 i)) unkept)"

definition gw_delete_card_permanent :: "gateway_env \<Rightarrow> card_env \<Rightarrow> string \<Rightarrow> (go_error, unit, card_gateway) op" where
  "gw_delete_card_permanent env senv text =
     with_path_id ''id is required'' text (\<lambda>i.
       gateway_command env ''DeleteCardPermanent'' (handle_delete_card_permanent senv (go_int32 i)) unkept)"

definition gw_restore_all_card :: "gateway_env \<Rightarrow> card_env \<Rightarrow> (go_error, unit, card_gateway) op" where
  "gw_restore_all_card env senv =
     gateway_command env ''RestoreAllCard'' (handle_restore_all_card senv) unkept"

definition gw_delete_all_card_permanent :: "gateway_env \<Rightarrow> card_env \<Rightarrow> (go_error, unit, card_gateway) op" where
  "gw_delete_all_card_permanent env senv =
     gateway_command env ''DeleteAllCardPermanent'' (handle_delete_all_card_permanent senv) unkept"

definition gw_toggle_card_status :: "gateway_env \<Rightarrow> card_env \<Rightarrow> int option \<Rightarrow> (go_error, card_row, card_gateway) op" where
  "gw_toggle_card_status env senv body =
     with_body env (new_bad_request_error ''Invalid request'') (\<lambda>i. 1 \<le> i) body (\<lambda>i.
       with_int32 i ''card id'' (\<lambda>c. gateway_command env ''ToggleCardStatus'' (handle_toggle_card_status senv c) unkept))"

definition gw_update_credit_limit :: "gateway_env \<Rightarrow> card_env \<Rightarrow> string \<Rightarrow> int option \<Rightarrow> (go_error, card_row, card_gateway) op" where
  "gw_update_credit_limit env senv text body =
     with_positive_id ''id must be a positive integer'' text (\<lambda>i.
       with_body env (new_bad_request_error ''Invalid request'') (\<lambda>l. 0 < l) body (\<lambda>l.
         with_int32 i ''card id'' (\<lambda>c. with_int32 l ''credit limit'' (\<lambda>n.
           gateway_command env ''UpdateCreditLimit'' (handle_update_credit_limit senv c n) unkept))))"

definition gw_redeem_points :: "gateway_env \<Rightarrow> card_env \<Rightarrow> string \<Rightarrow> int option \<Rightarrow> (go_error, card_row, card_gateway) op" where
  "gw_redeem_points env senv text body =
     with_positive_id ''id must be a positive integer'' text (\<lambda>i.
       with_body env (new_bad_request_error ''Invalid request'') (\<lambda>p. 1 \<le> p) body (\<lambda>p.
         with_int32 i ''card id'' (\<lambda>c. with_int32 p ''points'' (\<lambda>n.
           gateway_command env ''RedeemPoints'' (handle_redeem_points senv c n) unkept))))"

definition gw_process_billing_cycles :: "gateway_env \<Rightarrow> card_env \<Rightarrow> int \<Rightarrow> (go_error, unit, card_gateway) op" where
  "gw_process_billing_cycles env senv configured_day =
     gateway_command env ''ProcessBillingCycles'' (handle_process_billing_cycles senv configured_day) unkept"

definition gw_find_all_card :: "gateway_env \<Rightarrow> card_env \<Rightarrow> string \<times> string \<times> string \<Rightarrow>
   (go_error, card_view list \<times> page_meta, card_gateway) op" where
  "gw_find_all_card env senv =
     gateway_page env ''apigw:card:all'' ''FindAllCard'' (handle_find_all_card senv)"

definition gw_find_card_by_id :: "gateway_env \<Rightarrow> card_env \<Rightarrow> string \<Rightarrow> (go_error, card_view, card_gateway) op" where
  "gw_find_card_by_id env senv text =
     with_path_id ''id is required and must be an integer'' text (\<lambda>i.
       gateway_row env (gw_card_key i) (\<lambda>_. gw_card_key i) ''FindByIdCard'' (handle_find_card_by_id senv (go_int32 i)))"

definition gw_find_card_of_user :: "gateway_env \<Rightarrow> card_env \<Rightarrow> string option \<Rightarrow> (go_error, card_view, card_gateway) op" where
  "gw_find_card_of_user env senv user_id =
     (case user_id of
        None \<Rightarrow> ret (Inl (new_bad_request_error ''user_id is required''))
      | Some text \<Rightarrow>
          (case atoi text of
             None \<Rightarrow> ret (Inl (new_bad_request_error ''invalid user ID format''))
           | Some u \<Rightarrow>
               if \<not> fits_int32 u then ret (Inl (new_bad_request_error ''invalid user ID format''))
               else gateway_row env (''apigw:card:user_id:'' @ itoa u) (\<lambda>_. ''apigw:card:user_id:'' @ itoa u)
                      ''FindByUserIdCard'' (handle_find_card_by_user_id senv u)))"

definition gw_find_active_card :: "gateway_env \<Rightarrow> card_env \<Rightarrow> string \<times> string \<times> string \<Rightarrow>
   (go_error, card_view list \<times> page_meta, card_gateway) op" where
  "gw_find_active_card env senv =
     gateway_page env ''apigw:card:active'' ''FindByActiveCard'' (handle_find_active_card senv)"

definition gw_find_trashed_card :: "gateway_env \<Rightarrow> card_env \<Rightarrow> string \<times> string \<times> string \<Rightarrow>
   (go_error, card_view list \<times> page_meta, card_gateway) op" where
  "gw_find_trashed_card env senv =
     gateway_page env ''apigw:card:trashed'' ''FindByTrashedCard'' (handle_find_trashed_card senv)"

definition gw_find_card_by_number :: "gateway_env \<Rightarrow> card_env \<Rightarrow> string \<Rightarrow> (go_error, card_view, card_gateway) op" where
  "gw_find_card_by_number env senv num =
     client_call env ''FindByCardNumber'' (handle_find_card_by_number senv num)"

end
