(* ===== verification/Spec2Isabelle.thy ===== *)
theory Spec2Isabelle
  imports Validation Resilience TransactionService TransferService TopupService WithdrawService CardBilling CacheScan RoleFacts Accounts Payments
    QueryFacts SaldoQueries GatewayFacts GatewayKeys GatewayAuth GatewayTopups GatewaySaldo GatewayAccounts
begin

text \<open>
  A payment gateway of gRPC services in Go, each with its own PostgreSQL schema and a
  shared Redis and Kafka: the services that move money (\<open>src/service/saldo\<close>,
  \<open>transaction\<close>, \<open>transfer\<close>, \<open>topup\<close>, \<open>withdraw\<close>), the services that keep the
  entities they name (\<open>card\<close>, \<open>merchant\<close>, \<open>user\<close>, \<open>role\<close>), authentication (\<open>auth\<close>), and
  the libraries below them (\<open>src/shared\<close>, \<open>src/pkg\<close>). In front of them stands the API gateway
  (\<open>apigateway\<close>), which answers HTTP requests by their gRPC calls. File and function names below are
  those of the repository; every definition is named after the function it translates
  where Isabelle allows it (SQL statements end in \<open>_sql\<close>, repository calls begin with
  \<open>repo_\<close>, service methods with \<open>svc_\<close>, gRPC handlers with \<open>handle_\<close>, HTTP handlers of the gateway with
  \<open>gw_\<close>).

  \<^bold>\<open>Conventions.\<close>
  A Go function that returns a value and an error is a function from a store to a sum and
  a new store (\<open>op\<close> in \<open>Prelude\<close>), composed by \<open>try_or\<close> as the code tests \<open>err != nil\<close>.
  A remote call or a database statement meets a fault of its environment: it is delivered,
  refused without effect, or lost after it took effect. Machine integers are \<open>int\<close> with
  the conversions \<open>go_int32\<close> and \<open>go_int64\<close> written where the code converts, and SQL ranges
  checked where the column is written; counters that can wrap are words. Strings are lists
  of ASCII characters. Instants are nanoseconds, sessions and clocks are in UTC, and one
  request sees one clock reading. A table is the list of its rows in insertion order with
  its sequence; UNIQUE, FOREIGN KEY and CHECK constraints and column widths are tests of
  the statements. JSON, HTML mails, tracing and logging are constructors or left out.
  Goroutines that a request starts run at once, the failure markers of the financial
  commands excepted: those wait in the field \<open>w_marks\<close> and may run at any later time.
  What the code calls outside the repository is a parameter: hashes, signatures, random
  sources, the verdict of the AI service, the weighted semaphore.

  \<^bold>\<open>Foundations.\<close>
  \<^item> \<open>Prelude\<close>: integers, decimal text, the combinators and their weakest preconditions,
    tables as lists.
  \<^item> \<open>Errors\<close> (\<open>shared/errors\<close>, \<open>shared/errorhandler\<close>, \<open>pkg/middleware/recover.go\<close>): the
    error values, the two code tables, what an error becomes over a gRPC hop.
  \<^item> \<open>Validation\<close> (\<open>shared/domain/validation\<close>, \<open>shared/security\<close>): amounts, parties, keys, masks.
  \<^item> \<open>Calendar\<close>, \<open>Timestamps\<close>, \<open>BillingPeriod\<close>: the Gregorian calendar behind Go's \<open>time\<close>,
    text of instants, and the billing periods with their specification.
  \<^item> \<open>Cache\<close> (\<open>shared/cache\<close>): Redis entries with jittered lifetimes, the read-through
    lookup, and the contract \<open>cached_table\<close> under which a cache stays coherent; \<open>CacheScan\<close>:
    the scan-and-delete loops, over scans whose cursors and batches may depend on the store;
    they end when the scan keeps what Redis documents, and need not otherwise.
  \<^item> \<open>Listing\<close>, \<open>Repository\<close>: the paginated, searched listings, the translation of driver
    errors, \<open>UPDATE ... RETURNING\<close> and the cached pages all services share. \<open>Staleness\<close>: what
    the services cache for five minutes is gone after five and a half (\<open>stale_bound\<close>), under
    the contracts \<open>ageing_cache\<close> and \<open>forgetting_cache\<close> over runs in time; a \<open>history\<close> is such a
    run with all its states and clock readings.
  \<^item> \<open>Resilience\<close> (\<open>pkg/resilience\<close>, \<open>pkg/middleware/resilience.go\<close>): circuit breaker,
    bulkhead and their interceptors; the breaker refines a two-phase machine, the bulkhead
    is an interpretation of a permit pool.

  \<^bold>\<open>Money.\<close>
  \<^item> \<open>SaldoLedger\<close>, \<open>SaldoRepository\<close>, \<open>SaldoService\<close> (\<open>service/saldo\<close>, \<open>pkg/adapter/saldo_grpc.go\<close>):
    balances and the append-only ledger, every posting under an operation identity; the
    invariant that each live balance is the sum of its ledger deltas.
  \<^item> \<open>MoneyMover\<close>: the contract the other services rely on, as a locale; \<open>SaldoContract\<close>
    discharges it for the saldo service and states the exact effect of postings;
    \<open>SaldoSteps\<close> has the steps between a posting and its retry, and that the ledger only grows.
    \<open>Reconciliation\<close> (\<open>shared/ledger\<close>): the worker that looks for deviations.
  \<^item> \<open>CommandState\<close> (\<open>shared/state\<close>), \<open>CommandRows\<close>, \<open>CommandWorld\<close>: the status machine of a
    command, its rows and recovery, and the world of one command service.
    \<open>Idempotency\<close> (\<open>shared/idempotency\<close>): claims and replays of idempotency keys.
    \<open>Outbox\<close> (\<open>shared/outbox\<close>, \<open>shared/idempotent_consumer\<close>): events on their way to Kafka,
    with a fault for the claim of a poll and for each of its settling statements.
  \<^item> \<open>Settlement\<close> with \<open>TransactionService\<close>, \<open>TransferService\<close>, \<open>TopupService\<close>, \<open>WithdrawService\<close>:
    the commands with their legs, compensations and events, keyed or not. Their theorems relate the row
    a command leaves to the money it moved, for every fault of its calls. \<open>Samples\<close> holds the
    deployment of the witnesses.
  \<^item> \<open>MoneyQueries\<close> with \<open>TransactionQueries\<close>, \<open>TransferQueries\<close>, \<open>TopupQueries\<close>, \<open>WithdrawQueries\<close>:
    the listings and lookups of the four services behind their caches, and the gRPC handlers
    in front of queries and commands. \<open>QueryFacts\<close>: the pages of a listing are its hits, each
    once; an old version of a row is answered for at most five and a half minutes.
  \<^item> \<open>SaldoQueries\<close>: the listings of saldos, ledger and queue, and the consumers that open a
    saldo for a new card and invalidate cached ones.

  \<^bold>\<open>Entities and access.\<close>
  \<^item> \<open>CardStore\<close>, \<open>CardRepository\<close>, \<open>CardService\<close> (\<open>service/card\<close>): cards, billing cycles,
    authorizations, payments and rewards. \<open>CardFacts\<close> has the lives of authorizations and
    rewards, \<open>CardCoherence\<close> the agreement of cache and table over the interleavings of the
    halves of lookups and commands, and the race that breaks it, \<open>CardBilling\<close> the completeness of a billing run; \<open>CardHandlers\<close> are
    the gRPC handlers.
  \<^item> \<open>AuthStore\<close>, \<open>AuthService\<close> (\<open>service/auth\<close>, \<open>pkg/auth\<close>): login, lockout, tokens, password
    reset and registration; \<open>AuthFacts\<close> has the guarantees, \<open>AuthSamples\<close> the runs that show
    what they leave open.
  \<^item> \<open>UserService\<close>, \<open>RoleService\<close>, \<open>MerchantStore\<close>, \<open>MerchantService\<close> (\<open>service/user\<close>, \<open>service/role\<close>,
    \<open>service/merchant\<close>): the tables with their statements, repositories, commands, cached
    queries, handlers and Kafka consumers. \<open>UserFacts\<close>, \<open>RoleFacts\<close>, \<open>MerchantFacts\<close> have their steps,
    the invariants of their tables, and how long what was taken back is still answered.
  \<^item> \<open>Accounts\<close> puts the user service behind authentication, \<open>Payments\<close> the merchant service
    behind the settlement of payments; both end with the runs that show what is left open.

  \<^bold>\<open>The gateway\<close> (\<open>service/apigateway\<close>).
  \<^item> \<open>GatewayAccess\<close> (\<open>middlewares/auth.go\<close>, \<open>role.go\<close>, \<open>roleRequestHandler.go\<close>,
    \<open>required_role.go\<close>, \<open>redis/role.go\<close>): the token test, and the role check that asks the role
    service over Kafka and waits for the reply. One step relation interleaves checks, the
    service, replies and timeouts. \<open>GatewayFacts\<close>: a user who has lost a role is refused eleven
    minutes later, the caches of service and gateway being in a row.
  \<^item> \<open>GatewayKeys\<close> (\<open>middlewares/merchant.go\<close>, \<open>merchantRequestHandler.go\<close>, \<open>redis/merchant.go\<close>): the
    API-key check of the payment routes; a key is let through only as a merchant whose live
    row has carried it.
  \<^item> \<open>Gateway\<close>: what the HTTP handlers share, parameters, bodies and their validation, the call
    of a service, answers kept in the gateway's cache (\<open>redis/api\<close>). Its locales are the two
    arguments about such answers: \<open>layered_cache\<close>, two caches in a row forget in twice the time
    of one, and \<open>traced_cache\<close>, what is answered goes back to a step of the very history, made
    within the lifetime.
  \<^item> \<open>GatewayAuth\<close>, \<open>GatewayMoney\<close>, \<open>GatewaySaldo\<close>, \<open>GatewayAccounts\<close>: the routes of
    \<open>handler/*/command.go\<close> and \<open>query.go\<close>, over the handlers of the services. \<open>GatewayTopups\<close> follows
    a top-up from the token of a request to the ledger. The guarantees: whose card a top-up
    credits, how old a balance and a login answer can be, when an old row is gone.

  \<^bold>\<open>Interfaces.\<close>
  The locales \<open>store_lens\<close>, \<open>idempotent_command\<close>, \<open>money_mover\<close>, \<open>run_relation\<close>, \<open>permit_pool\<close>,
  \<open>weighted_semaphore\<close>, \<open>cached_table\<close>, \<open>ageing_cache\<close>, \<open>forgetting_cache\<close>, \<open>layered_cache\<close> and
  \<open>traced_cache\<close> state what one part promises another; each is interpreted on the definitions of the code.

  \<^bold>\<open>Bounds and fuel.\<close>
  All recursions are structural or have a measure, except the scan loops of \<open>CacheScan\<close>,
  which need not end and are partial functions. There is no fuel. The reachable states of
  the saldo database start an account only for a card without ledger entries and exclude
  restored saldos and \<open>UpdateSaldoBalance\<close>, which write a balance without an entry; lemmas in
  \<open>SaldoContract\<close> show the deviations they leave. The command theorems assume fresh operation
  identities where they say so, which the sequence of the rows provides.

  \<^bold>\<open>Not modelled.\<close>
  Of the gateway: routing, the HTTP binding and the mappers that copy the fields of answers,
  the dashboards and statistics, the transactions of merchants (their routes call a service that
  the merchant server does not register),
  the rate limiter (which has no caller) and the generated documentation. The statistics services and the statistics queries of every schema (read-only
  aggregation); the e-mail and AI services (consumers and a remote verdict); ticker loops
  around a modelled pass; generated protobuf code; deployment, observability and load
  tests. Concurrency is the interleaving of whole statements or calls, not of
  instructions.
\<close>

end
